(* ===== verification/Prelude.thy ===== *)
theory Prelude
  imports Main "HOL-Library.AList" "HOL-Library.Product_Lexorder"
begin

text \<open>
  Shared vocabulary of the AYO backend model: identifiers, instants, Python exceptions as values,
  Python dictionaries as association lists with insertion order, the string patterns of the
  validated models, and the generic lemmas that the component theories reuse.
\<close>

section \<open>Identifiers, instants and money\<close>

text \<open>
  A \<open>UUID\<close> is its integer value: the code compares identifiers for equality and sorts by
  \<open>str(uuid)\<close>, a fixed-width lower-case hexadecimal string, whose order is the order of the
  integer. An instant is the number of microseconds since the epoch in UTC (a \<open>datetime\<close> has
  microsecond resolution and every model normalises to UTC); a \<open>datetime\<close> that may still lack a
  timezone is a \<open>py_datetime\<close>. Amounts in minor units are Python integers.
\<close>

type_synonym uuid = nat
type_synonym instant = int
type_synonym minor = int

datatype py_datetime = Naive int | Aware int

fun is_aware :: "py_datetime \<Rightarrow> bool" where
  "is_aware (Naive _) = False"
| "is_aware (Aware _) = True"

fun instant_of :: "py_datetime \<Rightarrow> instant" where
  "instant_of (Naive t) = t"
| "instant_of (Aware t) = t"

definition timedelta_seconds :: "int \<Rightarrow> int" where
  "timedelta_seconds n = n * 1000000"

definition whole_seconds :: "int \<Rightarrow> int" where
  \<comment> \<open>\<open>int(delta.total_seconds())\<close>: truncation towards zero\<close>
  "whole_seconds d = (if 0 \<le> d then d div 1000000 else - ((- d) div 1000000))"

abbreviation minor_ok :: "int \<Rightarrow> bool" where
  "minor_ok n \<equiv> 0 \<le> n \<and> n \<le> 10000000000"

abbreviation bps_ok :: "int \<Rightarrow> bool" where
  "bps_ok n \<equiv> 0 \<le> n \<and> n \<le> 10000"

text \<open>
  JSON values of the payloads that the code hashes or stores: plain strings, integers, the strings printed
  from identifiers, instants and integers, and lists and objects of such values.
\<close>

datatype json_value = JStr string | JInt int | JUuid uuid | JTime instant | JIntStr int | JNull | JBool bool
  | JList "json_value list" | JObj "(string \<times> json_value) list"

type_synonym payload = "(string \<times> json_value) list"

datatype identity_type = ID_ANONYMOUS | ID_RIDER | ID_DRIVER | ID_STAFF | ID_ADMINISTRATOR
  | ID_SERVICE | ID_MERCHANT | ID_SERVICE_PROVIDER

text \<open>\<open>AuthorizationSubject\<close>: the identifier and the type of the acting identity.\<close>

type_synonym subject = "uuid \<times> identity_type"

section \<open>Exceptions as values\<close>

datatype exn =
    ValueError string
  | ValidationError string
  | KeyError
  | PricingConflict string
  | LedgerConflict string
  | PaymentConflict string
  | RefundConflict string
  | SettlementConflict string
  | WalletConflict string
  | FinancialPostingConflict string
  | FinancialHoldConflict string
  | DispatchConflict string
  | IdempotencyConflict string
  | QuoteExpired string
  | ReservationConflict string
  | ActiveRideConflict string
  | ArrivalWaitingConflict string
  | PostTripConflict string
  | HandoffConflict string
  | WorkerSessionConflict string
  | TimeoutError
  | IntegrityError string
  | MultipleResultsFound
  | TypeError
  | StopIteration
  | NoResultFound

type_synonym 'a result = "exn + 'a"

definition bind_result :: "'a result \<Rightarrow> ('a \<Rightarrow> 'b result) \<Rightarrow> 'b result" where
  "bind_result r f = (case r of Inl e \<Rightarrow> Inl e | Inr x \<Rightarrow> f x)"

definition ensure :: "bool \<Rightarrow> exn \<Rightarrow> unit result" where
  "ensure ok e = (if ok then Inr () else Inl e)"

abbreviation is_ok :: "'a result \<Rightarrow> bool" where
  "is_ok r \<equiv> (\<exists>x. r = Inr x)"

named_theorems result_simps "rewriting of the result monad"
named_theorems dict_simps "rewriting of dictionary reads and writes"
named_theorems inv_intros "introduction rules of the components' invariants"

lemma bind_result_simps [simp, result_simps]:
  "bind_result (Inl e) f = Inl e"
  "bind_result (Inr x) f = f x"
  by (simp_all add: bind_result_def)

lemma bind_result_eq_Inr [result_simps]:
  "bind_result r f = Inr y \<longleftrightarrow> (\<exists>x. r = Inr x \<and> f x = Inr y)"
  by (cases r) (simp_all add: bind_result_def)

lemma bind_result_eq_Inl [result_simps]:
  "bind_result r f = Inl e \<longleftrightarrow> r = Inl e \<or> (\<exists>x. r = Inr x \<and> f x = Inl e)"
  by (cases r) (auto simp: bind_result_def)

lemma bind_result_assoc:
  "bind_result (bind_result r f) g = bind_result r (\<lambda>x. bind_result (f x) g)"
  by (cases r) simp_all

lemma ensure_eq_Inr [simp, result_simps]: "ensure b e = Inr u \<longleftrightarrow> b"
  by (simp add: ensure_def)

lemma ensure_eq_Inl [simp, result_simps]: "ensure b e = Inl e' \<longleftrightarrow> \<not> b \<and> e' = e"
  by (auto simp: ensure_def)

lemma ensure_simps [simp]:
  "ensure True e = Inr ()" "ensure False e = Inl e"
  by (simp_all add: ensure_def)

text \<open>
  Elimination rules for a successful run of monadic code: they replay the code from the top and leave one
  goal per successful path, with the tests passed on that path as hypotheses.
\<close>

lemma bind_ok: "bind_result r f = Inr y \<Longrightarrow> (\<And>x. r = Inr x \<Longrightarrow> f x = Inr y \<Longrightarrow> P) \<Longrightarrow> P"
  by (cases r) auto

lemma raise_ok: "Inl e = Inr y \<Longrightarrow> P"
  by simp

lemma return_ok: "Inr x = Inr y \<Longrightarrow> (x = y \<Longrightarrow> P) \<Longrightarrow> P"
  by simp

lemma pair_ok: "(a, b) = (c, d) \<Longrightarrow> (a = c \<Longrightarrow> b = d \<Longrightarrow> P) \<Longrightarrow> P"
  by simp

lemma let_ok: "Let v f = Inr y \<Longrightarrow> (f v = Inr y \<Longrightarrow> P) \<Longrightarrow> P"
  by simp

lemma case_prod_ok: "case_prod f p = Inr y \<Longrightarrow> (\<And>a b. p = (a, b) \<Longrightarrow> f a b = Inr y \<Longrightarrow> P) \<Longrightarrow> P"
  by (cases p) simp

lemma case_option_ok:
  "case_option r f v = Inr y \<Longrightarrow> (v = None \<Longrightarrow> r = Inr y \<Longrightarrow> P) \<Longrightarrow>
    (\<And>x. v = Some x \<Longrightarrow> f x = Inr y \<Longrightarrow> P) \<Longrightarrow> P"
  by (cases v) simp_all

lemma if_ok:
  "(if b then r else r') = Inr y \<Longrightarrow> (b \<Longrightarrow> r = Inr y \<Longrightarrow> P) \<Longrightarrow> (\<not> b \<Longrightarrow> r' = Inr y \<Longrightarrow> P) \<Longrightarrow> P"
  by (cases b) simp_all

lemma if_not_ok:
  "(if \<not> b then r else r') = Inr y \<Longrightarrow> (\<not> b \<Longrightarrow> r = Inr y \<Longrightarrow> P) \<Longrightarrow> (b \<Longrightarrow> r' = Inr y \<Longrightarrow> P) \<Longrightarrow> P"
  by (cases b) simp_all

lemmas ok_elims = raise_ok return_ok pair_ok bind_ok let_ok case_prod_ok case_option_ok if_not_ok if_ok

section \<open>Dictionaries\<close>

text \<open>
  A Python dictionary keeps the order in which keys were first inserted, and assigning to a key
  that is present keeps its position: this is \<open>AList.update\<close>. Reads are \<open>map_of\<close>.
\<close>

type_synonym ('k, 'v) dict = "('k \<times> 'v) list"

abbreviation dget :: "('k, 'v) dict \<Rightarrow> 'k \<Rightarrow> 'v option" where
  "dget d k \<equiv> map_of d k"

abbreviation dset :: "'k \<Rightarrow> 'v \<Rightarrow> ('k, 'v) dict \<Rightarrow> ('k, 'v) dict" where
  "dset k v d \<equiv> AList.update k v d"

definition dvalues :: "('k, 'v) dict \<Rightarrow> 'v list" where
  "dvalues d = map snd d"

definition dict_ok :: "('k, 'v) dict \<Rightarrow> bool" where
  "dict_ok d \<longleftrightarrow> distinct (map fst d)"

lemma dget_dset [simp, dict_simps]: "dget (dset k v d) k' = (if k' = k then Some v else dget d k')"
  by (simp add: update_conv')

lemma dict_ok_Nil [simp, inv_intros]: "dict_ok []"
  by (simp add: dict_ok_def)

lemma dict_ok_dset [simp, inv_intros]: "dict_ok d \<Longrightarrow> dict_ok (dset k v d)"
  unfolding dict_ok_def by (rule distinct_update)

lemma dict_ok_Cons: "dict_ok (p # d) \<longleftrightarrow> dget d (fst p) = None \<and> dict_ok d"
  by (cases p) (auto simp: dict_ok_def map_of_eq_None_iff)

lemma set_dvalues: "dict_ok d \<Longrightarrow> set (dvalues d) = ran (dget d)"
  unfolding dvalues_def dict_ok_def by (simp add: ran_distinct)

lemma in_dvalues_iff: "dict_ok d \<Longrightarrow> v \<in> set (dvalues d) \<longleftrightarrow> (\<exists>k. dget d k = Some v)"
  by (simp add: set_dvalues ran_def)

lemma dset_new: "dget d k = None \<Longrightarrow> dset k v d = d @ [(k, v)]"
  by (induction d) (auto split: if_splits)

lemma dvalues_dset_new: "dget d k = None \<Longrightarrow> dvalues (dset k v d) = dvalues d @ [v]"
  by (simp add: dset_new dvalues_def)

lemma map_dvalues_dset_same:
  assumes "dget d k = Some v" and "f w = f v"
  shows "map f (dvalues (dset k w d)) = map f (dvalues d)"
  using assms by (induction d) (auto simp: dvalues_def split: if_splits)

lemma dget_in_dvalues: "dget d k = Some v \<Longrightarrow> v \<in> set (dvalues d)"
  by (force simp: dvalues_def dest: map_of_SomeD)

lemma dget_dset_cases: "dget (dset k v d) x = Some m \<Longrightarrow> x = k \<and> m = v \<or> dget d x = Some m"
  by (simp split: if_splits)

lemma map_of_map_prod: "dget (map (map_prod (\<lambda>k. k) f) d) k = map_option f (dget d k)"
  by (induction d) (auto simp: map_prod_def)

lemma find_Some_in: "find P xs = Some x \<Longrightarrow> x \<in> set xs \<and> P x"
  by (auto simp: find_Some_iff)

lemma find_append: "find P (xs @ ys) = (case find P xs of None \<Rightarrow> find P ys | Some x \<Rightarrow> Some x)"
  by (induction xs) simp_all

lemma distinct_map_find:
  assumes "distinct (map f xs)" and "x \<in> set xs"
  shows "find (\<lambda>y. f y = f x) xs = Some x"
  using assms by (induction xs) (auto dest: sym)

text \<open>\<open>one_or_none\<close> of a query: the only row that matches, if there is one.\<close>

definition one_or_none :: "('a \<Rightarrow> bool) \<Rightarrow> 'a list \<Rightarrow> 'a option result" where
  "one_or_none P xs = (case filter P xs of [] \<Rightarrow> Inr None | [x] \<Rightarrow> Inr (Some x) | _ \<Rightarrow> Inl MultipleResultsFound)"

lemma one_or_none_ok:
  "one_or_none P xs = Inr None \<longleftrightarrow> filter P xs = []"
  "one_or_none P xs = Inr (Some x) \<longleftrightarrow> filter P xs = [x]"
  by (auto simp: one_or_none_def split: list.splits)

section \<open>String patterns\<close>

definition lower_alpha :: "char \<Rightarrow> bool" where
  "lower_alpha c \<longleftrightarrow> (97::nat) \<le> of_char c \<and> of_char c \<le> (122::nat)"

definition upper_alpha :: "char \<Rightarrow> bool" where
  "upper_alpha c \<longleftrightarrow> (65::nat) \<le> of_char c \<and> of_char c \<le> (90::nat)"

definition digit_char :: "char \<Rightarrow> bool" where
  "digit_char c \<longleftrightarrow> (48::nat) \<le> of_char c \<and> of_char c \<le> (57::nat)"

definition code_tail_char :: "char \<Rightarrow> bool" where
  \<comment> \<open>the class \<open>[a-z0-9_.-]\<close>\<close>
  "code_tail_char c \<longleftrightarrow> lower_alpha c \<or> digit_char c \<or> c \<in> {CHR ''_'', CHR ''.'', CHR ''-''}"

definition code_pattern :: "nat \<Rightarrow> string \<Rightarrow> bool" where
  \<comment> \<open>\<open>code_pattern n s\<close>: the pattern \<open>^[a-z][a-z0-9_.-]{n,62}$\<close>\<close>
  "code_pattern n s \<longleftrightarrow>
     (case s of [] \<Rightarrow> False
      | c # cs \<Rightarrow> lower_alpha c \<and> n \<le> length cs \<and> length cs \<le> 62 \<and> list_all code_tail_char cs)"

definition version_pattern :: "string \<Rightarrow> bool" where
  \<comment> \<open>the pattern \<open>^[a-z0-9][a-z0-9_.-]{0,62}$\<close>\<close>
  "version_pattern s \<longleftrightarrow>
     (case s of [] \<Rightarrow> False
      | c # cs \<Rightarrow> (lower_alpha c \<or> digit_char c) \<and> length cs \<le> 62 \<and> list_all code_tail_char cs)"

definition currency_pattern :: "string \<Rightarrow> bool" where
  \<comment> \<open>the pattern \<open>^[A-Z]{3}$\<close>\<close>
  "currency_pattern s \<longleftrightarrow> length s = 3 \<and> list_all upper_alpha s"

definition length_between :: "nat \<Rightarrow> nat \<Rightarrow> string \<Rightarrow> bool" where
  "length_between lo hi s \<longleftrightarrow> lo \<le> length s \<and> length s \<le> hi"

section \<open>Rounding and sums\<close>

lemma div_mult_le_int: "0 < d \<Longrightarrow> (n::int) div d * d \<le> n"
  by (metis add_le_cancel_left div_mult_mod_eq le_add_same_cancel1 pos_mod_sign)

lemma less_div_mult_int: "0 < d \<Longrightarrow> (n::int) < n div d * d + d"
  by (metis add_strict_left_mono div_mult_mod_eq pos_mod_bound)

lemma half_up_bounds:
  fixes n d :: int
  assumes "0 < d"
  shows "2 * n - d \<le> 2 * ((n + d div 2) div d * d)"
    and "2 * ((n + d div 2) div d * d) \<le> 2 * n + d"
proof -
  let ?q = "(n + d div 2) div d * d"
  have lo: "?q \<le> n + d div 2" and hi: "n + d div 2 < ?q + d"
    using assms by (simp_all add: div_mult_le_int less_div_mult_int)
  have "2 * (d div 2) \<le> d" and "d \<le> 2 * (d div 2) + 1" by presburger+
  with lo hi show "2 * n - d \<le> 2 * ?q" and "2 * ?q \<le> 2 * n + d" by linarith+
qed

lemma sum_list_map_update:
  assumes "dict_ok d" and "dget d k = Some v"
  shows "sum_list (map f (dvalues (dset k w d))) = sum_list (map f (dvalues d)) - f v + (f w :: int)"
  using assms
proof (induction d)
  case Nil
  then show ?case by simp
next
  case (Cons p d)
  then show ?case
    by (cases p) (auto simp: dvalues_def dict_ok_Cons split: if_splits)
qed

lemma sum_list_map_insert:
  assumes "dget d k = None"
  shows "sum_list (map f (dvalues (dset k w d))) = sum_list (map f (dvalues d)) + (f w :: int)"
  using assms by (induction d) (auto simp: dvalues_def split: if_splits)


lemma set_tl_remdups_adj: "set (tl (remdups_adj (s # xs))) \<subseteq> insert s (set xs)"
  by (metis remdups_adj_set list.set_sel(2) list.simps(15) remdups_adj_Nil_iff list.distinct(1) subsetI)

end
