(* ===== verification/Pricing.thy ===== *)
theory Pricing
  imports Prelude
begin

text \<open>
  The fare engine (\<open>pricing/models.py\<close>, \<open>pricing/engine.py\<close>): policies, route metrics, the fare
  breakdown, the calculation, and the lineage snapshot from which a fare is reconstructed. The
  SHA-256 digest of the canonical inputs is the parameter \<open>digest\<close>; one theorem assumes that it does
  not collide on two given inputs, the others that it is a function.
\<close>

section \<open>Models\<close>

datatype pricing_policy_status = PP_DRAFT | PP_APPROVED | PP_PUBLISHED | PP_RETIRED

datatype data_quality = DQ_VERIFIED | DQ_APPROVED_SYNTHETIC | DQ_DEGRADED

record pricing_policy =
  pp_policy_id :: uuid
  pp_policy_version :: string
  pp_predecessor_policy_id :: "uuid option"
  pp_service_zone_id :: uuid
  pp_service_type :: string
  pp_currency :: string
  pp_base_fare_minor :: minor
  pp_distance_rate_per_km_minor :: minor
  pp_time_rate_per_minute_minor :: minor
  pp_minimum_fare_minor :: minor
  pp_commission_basis_points :: int
  pp_tax_placeholder_basis_points :: int
  pp_rounding_increment_minor :: int
  pp_effective_from :: instant
  pp_effective_until :: "instant option"
  pp_status :: pricing_policy_status
  pp_made_by_identity_id :: uuid
  pp_approved_by_identity_id :: "uuid option"
  pp_approved_at :: "instant option"
  pp_published_at :: "instant option"
  pp_published_by_identity_id :: "uuid option"
  pp_created_at :: instant

record route_metrics =
  rm_distance_meters :: int
  rm_duration_seconds :: int
  rm_observed_at :: instant
  rm_provider_id :: string
  rm_provider_version :: string
  rm_distance_source :: string
  rm_duration_source :: string
  rm_provenance_reference :: string
  rm_data_quality :: data_quality

record fare_breakdown =
  fb_currency :: string
  fb_base_minor :: minor
  fb_distance_minor :: minor
  fb_time_minor :: minor
  fb_minimum_adjustment_minor :: minor
  fb_tax_placeholder_minor :: minor
  fb_rider_total_minor :: minor
  fb_driver_gross_minor :: minor
  fb_ayo_commission_minor :: minor
  fb_driver_net_projection_minor :: minor

record calculation_lineage =
  cl_formula_version :: string
  cl_policy_id :: uuid
  cl_policy_version :: string
  cl_predecessor_policy_id :: "uuid option"
  cl_made_by_identity_id :: uuid
  cl_approved_by_identity_id :: uuid
  cl_approved_at :: instant
  cl_published_by_identity_id :: uuid
  cl_published_at :: instant
  cl_distance_meters :: int
  cl_duration_seconds :: int
  cl_distance_source :: string
  cl_duration_source :: string
  cl_route_metric_provider_id :: string
  cl_route_metric_provider_version :: string
  cl_route_metric_provenance_reference :: string
  cl_route_metric_observed_at :: instant
  cl_base_fare_minor :: minor
  cl_distance_rate_per_km_minor :: minor
  cl_time_rate_per_minute_minor :: minor
  cl_minimum_fare_minor :: minor
  cl_commission_basis_points :: int
  cl_tax_placeholder_basis_points :: int
  cl_raw_distance_numerator :: int
  cl_raw_distance_denominator :: int
  cl_raw_time_numerator :: int
  cl_raw_time_denominator :: int
  cl_pre_minimum_minor :: minor
  cl_minimum_adjustment_minor :: minor
  cl_pre_rounding_minor :: minor
  cl_rounding_increment_minor :: int
  cl_rounded_fare_before_tax_minor :: minor
  cl_commission_numerator :: int
  cl_commission_denominator :: int
  cl_tax_numerator :: int
  cl_tax_denominator :: int
  cl_canonical_input_hash :: string
  cl_audit_event_id :: uuid
  cl_correlation_id :: uuid
  cl_causation_id :: uuid

definition hash_pattern :: "string \<Rightarrow> bool" where
  \<comment> \<open>the pattern \<open>^[a-f0-9]{64}$\<close>\<close>
  "hash_pattern s \<longleftrightarrow>
     length s = 64 \<and> list_all (\<lambda>c. digit_char c \<or> (97::nat) \<le> of_char c \<and> of_char c \<le> (102::nat)) s"

text \<open>Field constraints of \<open>PricingPolicy\<close>, then its validator \<open>valid_policy\<close>.\<close>

definition pricing_policy_fields :: "pricing_policy \<Rightarrow> bool" where
  "pricing_policy_fields p \<longleftrightarrow>
     version_pattern (pp_policy_version p) \<and>
     pp_service_type p = ''immediate_standard'' \<and> pp_currency p = ''ETB'' \<and>
     minor_ok (pp_base_fare_minor p) \<and> minor_ok (pp_distance_rate_per_km_minor p) \<and>
     minor_ok (pp_time_rate_per_minute_minor p) \<and> minor_ok (pp_minimum_fare_minor p) \<and>
     bps_ok (pp_commission_basis_points p) \<and> bps_ok (pp_tax_placeholder_basis_points p) \<and>
     1 \<le> pp_rounding_increment_minor p \<and> pp_rounding_increment_minor p \<le> 10000"

definition valid_policy :: "pricing_policy \<Rightarrow> pricing_policy result" where
  "valid_policy p =
     (if \<not> pricing_policy_fields p then Inl (ValidationError ''PricingPolicy'')
      else if (case pp_effective_until p of None \<Rightarrow> False | Some u \<Rightarrow> u \<le> pp_effective_from p)
      then Inl (ValidationError ''Policy effective window is invalid'')
      else if pp_minimum_fare_minor p < pp_base_fare_minor p
      then Inl (ValidationError ''Minimum fare cannot be below base fare'')
      else if pp_approved_by_identity_id p = Some (pp_made_by_identity_id p)
      then Inl (ValidationError ''Maker cannot approve their own policy'')
      else if pp_status p \<in> {PP_APPROVED, PP_PUBLISHED} \<and>
        (pp_approved_by_identity_id p = None \<or> pp_approved_at p = None)
      then Inl (ValidationError ''Approved policy requires checker evidence'')
      else if pp_status p = PP_PUBLISHED \<and>
        (pp_published_at p = None \<or> pp_published_by_identity_id p = None)
      then Inl (ValidationError ''Published policy requires publication time'')
      else Inr p)"

definition valid_metrics :: "route_metrics \<Rightarrow> route_metrics result" where
  "valid_metrics m =
     (if 1 \<le> rm_distance_meters m \<and> rm_distance_meters m \<le> 2000000 \<and>
        1 \<le> rm_duration_seconds m \<and> rm_duration_seconds m \<le> 172800 \<and>
        length_between 2 63 (rm_provider_id m) \<and> version_pattern (rm_provider_version m) \<and>
        length_between 2 63 (rm_distance_source m) \<and> length_between 2 63 (rm_duration_source m) \<and>
        length_between 8 128 (rm_provenance_reference m)
      then Inr m else Inl (ValidationError ''RouteMetrics''))"

definition valid_breakdown :: "fare_breakdown \<Rightarrow> fare_breakdown result" where
  "valid_breakdown b =
     (if fb_currency b = ''ETB'' \<and> minor_ok (fb_base_minor b) \<and> minor_ok (fb_distance_minor b) \<and>
        minor_ok (fb_time_minor b) \<and> minor_ok (fb_minimum_adjustment_minor b) \<and>
        minor_ok (fb_tax_placeholder_minor b) \<and> minor_ok (fb_rider_total_minor b) \<and>
        minor_ok (fb_driver_gross_minor b) \<and> minor_ok (fb_ayo_commission_minor b) \<and>
        minor_ok (fb_driver_net_projection_minor b)
      then Inr b else Inl (ValidationError ''FareBreakdown''))"

definition valid_lineage :: "calculation_lineage \<Rightarrow> calculation_lineage result" where
  "valid_lineage l =
     (if version_pattern (cl_formula_version l) \<and> version_pattern (cl_policy_version l) \<and>
        version_pattern (cl_route_metric_provider_version l) \<and>
        minor_ok (cl_base_fare_minor l) \<and> minor_ok (cl_distance_rate_per_km_minor l) \<and>
        minor_ok (cl_time_rate_per_minute_minor l) \<and> minor_ok (cl_minimum_fare_minor l) \<and>
        minor_ok (cl_pre_minimum_minor l) \<and> minor_ok (cl_minimum_adjustment_minor l) \<and>
        minor_ok (cl_pre_rounding_minor l) \<and> minor_ok (cl_rounded_fare_before_tax_minor l) \<and>
        hash_pattern (cl_canonical_input_hash l)
      then Inr l else Inl (ValidationError ''CalculationLineage''))"

section \<open>The engine\<close>

definition FORMULA_VERSION :: string where
  "FORMULA_VERSION = ''static_etb_v1''"

definition round_ratio :: "int \<Rightarrow> int \<Rightarrow> int result" where
  "round_ratio numerator denominator =
     (if numerator < 0 \<or> denominator \<le> 0 then Inl (PricingConflict ''invalid_rounding_input'')
      else Inr ((numerator + denominator div 2) div denominator))"

definition round_increment :: "int \<Rightarrow> int \<Rightarrow> int result" where
  "round_increment value increment =
     bind_result (round_ratio value increment) (\<lambda>q. Inr (q * increment))"

definition input_payload :: "pricing_policy \<Rightarrow> route_metrics \<Rightarrow> payload" where
  "input_payload p m =
     [(''formula_version'', JStr FORMULA_VERSION),
      (''policy_id'', JUuid (pp_policy_id p)),
      (''policy_version'', JStr (pp_policy_version p)),
      (''distance_meters'', JInt (rm_distance_meters m)),
      (''duration_seconds'', JInt (rm_duration_seconds m)),
      (''provider_id'', JStr (rm_provider_id m)),
      (''provider_version'', JStr (rm_provider_version m)),
      (''distance_source'', JStr (rm_distance_source m)),
      (''duration_source'', JStr (rm_duration_source m)),
      (''provenance_reference'', JStr (rm_provenance_reference m)),
      (''observed_at'', JTime (rm_observed_at m)),
      (''base_fare_minor'', JInt (pp_base_fare_minor p)),
      (''distance_rate_per_km_minor'', JInt (pp_distance_rate_per_km_minor p)),
      (''time_rate_per_minute_minor'', JInt (pp_time_rate_per_minute_minor p)),
      (''minimum_fare_minor'', JInt (pp_minimum_fare_minor p)),
      (''commission_basis_points'', JInt (pp_commission_basis_points p)),
      (''tax_placeholder_basis_points'', JInt (pp_tax_placeholder_basis_points p)),
      (''rounding_increment_minor'', JInt (pp_rounding_increment_minor p))]"

definition input_hash ::
  "(payload \<Rightarrow> string) \<Rightarrow> pricing_policy \<Rightarrow> route_metrics \<Rightarrow> string" where
  "input_hash digest p m = digest (input_payload p m)"

definition calculate :: "pricing_policy \<Rightarrow> route_metrics \<Rightarrow> fare_breakdown result" where
  "calculate p m =
     (if pp_currency p \<noteq> ''ETB'' \<or> pp_service_type p \<noteq> ''immediate_standard''
      then Inl (PricingConflict ''unsupported_pricing_boundary'')
      else
        bind_result (round_ratio (rm_distance_meters m * pp_distance_rate_per_km_minor p) 1000) (\<lambda>distance.
        bind_result (round_ratio (rm_duration_seconds m * pp_time_rate_per_minute_minor p) 60) (\<lambda>duration.
        let raw = pp_base_fare_minor p + distance + duration;
            minimum_adjustment = max 0 (pp_minimum_fare_minor p - raw)
        in bind_result (round_increment (raw + minimum_adjustment) (pp_rounding_increment_minor p)) (\<lambda>fare_before_tax.
           bind_result (round_ratio (fare_before_tax * pp_tax_placeholder_basis_points p) 10000) (\<lambda>tax.
           bind_result (round_ratio (fare_before_tax * pp_commission_basis_points p) 10000) (\<lambda>commission.
           if commission > fare_before_tax
           then Inl (PricingConflict ''commission_exceeds_gross'')
           else valid_breakdown
             \<lparr>fb_currency = ''ETB'',
              fb_base_minor = pp_base_fare_minor p,
              fb_distance_minor = distance,
              fb_time_minor = duration,
              fb_minimum_adjustment_minor = minimum_adjustment,
              fb_tax_placeholder_minor = tax,
              fb_rider_total_minor = fare_before_tax + tax,
              fb_driver_gross_minor = fare_before_tax,
              fb_ayo_commission_minor = commission,
              fb_driver_net_projection_minor = fare_before_tax - commission\<rparr>))))))"

definition build_lineage ::
  "(payload \<Rightarrow> string) \<Rightarrow> pricing_policy \<Rightarrow> route_metrics \<Rightarrow> fare_breakdown \<Rightarrow>
   uuid \<Rightarrow> uuid \<Rightarrow> uuid \<Rightarrow> calculation_lineage result" where
  "build_lineage digest p m b audit_event_id correlation_id causation_id =
     (case (pp_approved_by_identity_id p, pp_approved_at p,
            pp_published_by_identity_id p, pp_published_at p) of
        (Some approver, Some approved_at, Some publisher, Some published_at) \<Rightarrow>
          (let pre_minimum = fb_base_minor b + fb_distance_minor b + fb_time_minor b in
           valid_lineage
           \<lparr>cl_formula_version = FORMULA_VERSION,
            cl_policy_id = pp_policy_id p,
            cl_policy_version = pp_policy_version p,
            cl_predecessor_policy_id = pp_predecessor_policy_id p,
            cl_made_by_identity_id = pp_made_by_identity_id p,
            cl_approved_by_identity_id = approver,
            cl_approved_at = approved_at,
            cl_published_by_identity_id = publisher,
            cl_published_at = published_at,
            cl_distance_meters = rm_distance_meters m,
            cl_duration_seconds = rm_duration_seconds m,
            cl_distance_source = rm_distance_source m,
            cl_duration_source = rm_duration_source m,
            cl_route_metric_provider_id = rm_provider_id m,
            cl_route_metric_provider_version = rm_provider_version m,
            cl_route_metric_provenance_reference = rm_provenance_reference m,
            cl_route_metric_observed_at = rm_observed_at m,
            cl_base_fare_minor = pp_base_fare_minor p,
            cl_distance_rate_per_km_minor = pp_distance_rate_per_km_minor p,
            cl_time_rate_per_minute_minor = pp_time_rate_per_minute_minor p,
            cl_minimum_fare_minor = pp_minimum_fare_minor p,
            cl_commission_basis_points = pp_commission_basis_points p,
            cl_tax_placeholder_basis_points = pp_tax_placeholder_basis_points p,
            cl_raw_distance_numerator = rm_distance_meters m * pp_distance_rate_per_km_minor p,
            cl_raw_distance_denominator = 1000,
            cl_raw_time_numerator = rm_duration_seconds m * pp_time_rate_per_minute_minor p,
            cl_raw_time_denominator = 60,
            cl_pre_minimum_minor = pre_minimum,
            cl_minimum_adjustment_minor = fb_minimum_adjustment_minor b,
            cl_pre_rounding_minor = pre_minimum + fb_minimum_adjustment_minor b,
            cl_rounding_increment_minor = pp_rounding_increment_minor p,
            cl_rounded_fare_before_tax_minor = fb_driver_gross_minor b,
            cl_commission_numerator = fb_driver_gross_minor b * pp_commission_basis_points p,
            cl_commission_denominator = 10000,
            cl_tax_numerator = fb_driver_gross_minor b * pp_tax_placeholder_basis_points p,
            cl_tax_denominator = 10000,
            cl_canonical_input_hash = input_hash digest p m,
            cl_audit_event_id = audit_event_id,
            cl_correlation_id = correlation_id,
            cl_causation_id = causation_id\<rparr>)
      | _ \<Rightarrow> Inl (PricingConflict ''complete_policy_approval_lineage_required''))"

text \<open>The policy and the metrics that \<open>reconstruct\<close> rebuilds from the snapshot alone.\<close>

definition policy_of_lineage :: "calculation_lineage \<Rightarrow> pricing_policy" where
  "policy_of_lineage l =
     \<lparr>pp_policy_id = cl_policy_id l,
      pp_policy_version = cl_policy_version l,
      pp_predecessor_policy_id = cl_predecessor_policy_id l,
      pp_service_zone_id = 0,
      pp_service_type = ''immediate_standard'',
      pp_currency = ''ETB'',
      pp_base_fare_minor = cl_base_fare_minor l,
      pp_distance_rate_per_km_minor = cl_distance_rate_per_km_minor l,
      pp_time_rate_per_minute_minor = cl_time_rate_per_minute_minor l,
      pp_minimum_fare_minor = cl_minimum_fare_minor l,
      pp_commission_basis_points = cl_commission_basis_points l,
      pp_tax_placeholder_basis_points = cl_tax_placeholder_basis_points l,
      pp_rounding_increment_minor = cl_rounding_increment_minor l,
      pp_effective_from = cl_published_at l,
      pp_effective_until = None,
      pp_status = PP_PUBLISHED,
      pp_made_by_identity_id = cl_made_by_identity_id l,
      pp_approved_by_identity_id = Some (cl_approved_by_identity_id l),
      pp_approved_at = Some (cl_approved_at l),
      pp_published_at = Some (cl_published_at l),
      pp_published_by_identity_id = Some (cl_published_by_identity_id l),
      pp_created_at = cl_approved_at l\<rparr>"

definition metrics_of_lineage :: "calculation_lineage \<Rightarrow> route_metrics" where
  "metrics_of_lineage l =
     \<lparr>rm_distance_meters = cl_distance_meters l,
      rm_duration_seconds = cl_duration_seconds l,
      rm_observed_at = cl_route_metric_observed_at l,
      rm_provider_id = cl_route_metric_provider_id l,
      rm_provider_version = cl_route_metric_provider_version l,
      rm_distance_source = cl_distance_source l,
      rm_duration_source = cl_duration_source l,
      rm_provenance_reference = cl_route_metric_provenance_reference l,
      rm_data_quality = DQ_VERIFIED\<rparr>"

definition reconstruct ::
  "(payload \<Rightarrow> string) \<Rightarrow> calculation_lineage \<Rightarrow> fare_breakdown result" where
  "reconstruct digest l =
     (if cl_formula_version l \<noteq> FORMULA_VERSION
      then Inl (PricingConflict ''unsupported_formula_version'')
      else
        bind_result (valid_policy (policy_of_lineage l)) (\<lambda>policy.
        bind_result (valid_metrics (metrics_of_lineage l)) (\<lambda>metrics.
        if input_hash digest policy metrics \<noteq> cl_canonical_input_hash l
        then Inl (PricingConflict ''calculation_lineage_hash_mismatch'')
        else if cl_raw_distance_numerator l \<noteq> cl_distance_meters l * cl_distance_rate_per_km_minor l \<or>
          cl_raw_distance_denominator l \<noteq> 1000 \<or>
          cl_raw_time_numerator l \<noteq> cl_duration_seconds l * cl_time_rate_per_minute_minor l \<or>
          cl_raw_time_denominator l \<noteq> 60
        then Inl (PricingConflict ''calculation_lineage_operand_mismatch'')
        else
          bind_result (round_ratio (cl_raw_distance_numerator l) (cl_raw_distance_denominator l)) (\<lambda>distance.
          bind_result (round_ratio (cl_raw_time_numerator l) (cl_raw_time_denominator l)) (\<lambda>duration.
          let pre_minimum = cl_base_fare_minor l + distance + duration;
              minimum_adjustment = max 0 (cl_minimum_fare_minor l - pre_minimum)
          in bind_result (round_increment (pre_minimum + minimum_adjustment) (cl_rounding_increment_minor l)) (\<lambda>fare_before_tax.
             bind_result (round_ratio (cl_tax_numerator l) (cl_tax_denominator l)) (\<lambda>tax.
             bind_result (round_ratio (cl_commission_numerator l) (cl_commission_denominator l)) (\<lambda>commission.
             if cl_pre_minimum_minor l \<noteq> pre_minimum \<or>
               cl_minimum_adjustment_minor l \<noteq> minimum_adjustment \<or>
               cl_pre_rounding_minor l \<noteq> pre_minimum + minimum_adjustment \<or>
               cl_rounded_fare_before_tax_minor l \<noteq> fare_before_tax \<or>
               cl_commission_numerator l \<noteq> fare_before_tax * cl_commission_basis_points l \<or>
               cl_commission_denominator l \<noteq> 10000 \<or>
               cl_tax_numerator l \<noteq> fare_before_tax * cl_tax_placeholder_basis_points l \<or>
               cl_tax_denominator l \<noteq> 10000
             then Inl (PricingConflict ''calculation_lineage_derivation_mismatch'')
             else valid_breakdown
               \<lparr>fb_currency = ''ETB'',
                fb_base_minor = cl_base_fare_minor l,
                fb_distance_minor = distance,
                fb_time_minor = duration,
                fb_minimum_adjustment_minor = minimum_adjustment,
                fb_tax_placeholder_minor = tax,
                fb_rider_total_minor = fare_before_tax + tax,
                fb_driver_gross_minor = fare_before_tax,
                fb_ayo_commission_minor = commission,
                fb_driver_net_projection_minor = fare_before_tax - commission\<rparr>))))))))"

section \<open>Half-up rounding\<close>

definition half_up :: "int \<Rightarrow> int \<Rightarrow> int" where
  "half_up n d = (n + d div 2) div d"

lemma round_ratio_half_up [simp]: "0 \<le> n \<Longrightarrow> 0 < d \<Longrightarrow> round_ratio n d = Inr (half_up n d)"
  by (simp add: round_ratio_def half_up_def)

lemma round_ratio_Inr_iff: "round_ratio n d = Inr q \<longleftrightarrow> 0 \<le> n \<and> 0 < d \<and> q = half_up n d"
  by (auto simp: round_ratio_def half_up_def)

lemma round_increment_Inr_iff:
  "round_increment n d = Inr q \<longleftrightarrow> 0 \<le> n \<and> 0 < d \<and> q = half_up n d * d"
  by (auto simp: round_increment_def bind_result_eq_Inr round_ratio_Inr_iff)

lemma half_up_nonneg [simp]: "0 \<le> n \<Longrightarrow> 0 < d \<Longrightarrow> 0 \<le> half_up n d"
  by (simp add: half_up_def pos_imp_zdiv_nonneg_iff)

lemma half_up_mono: "n \<le> n' \<Longrightarrow> 0 < d \<Longrightarrow> half_up n d \<le> half_up n' d"
  by (simp add: half_up_def zdiv_mono1)

lemma half_up_mult: "0 < d \<Longrightarrow> half_up (k * d) d = k"
proof -
  assume d: "0 < d"
  have "(k * d + d div 2) div d = k + (d div 2) div d" using d by simp
  moreover have "(d div 2) div d = 0" using d by (simp add: div_pos_pos_trivial)
  ultimately show ?thesis by (simp add: half_up_def)
qed

lemma half_up_add_mult: "0 < d \<Longrightarrow> half_up (n + k * d) d = half_up n d + k"
proof -
  assume d: "0 < d"
  have "n + k * d + d div 2 = (n + d div 2) + k * d" by simp
  then have "half_up (n + k * d) d = ((n + d div 2) + k * d) div d" by (simp only: half_up_def)
  also have "\<dots> = half_up n d + k" using d by (simp add: half_up_def)
  finally show ?thesis .
qed

lemma half_up_le: "n \<le> k * d \<Longrightarrow> 0 < d \<Longrightarrow> half_up n d \<le> k"
  using half_up_mono [of n "k * d" d] by (simp add: half_up_mult)

lemma half_up_nearest:
  assumes "0 < d"
  shows "2 * n - d \<le> 2 * (half_up n d * d)" and "2 * (half_up n d * d) \<le> 2 * n + d"
  using half_up_bounds [OF assms, of n] by (simp_all add: half_up_def)

lemma share_le: "0 \<le> g \<Longrightarrow> c \<le> 10000 \<Longrightarrow> half_up (g * c) 10000 \<le> g"
  by (rule half_up_le) (simp_all add: mult_left_mono)

lemma share_rest_mono:
  assumes "g \<le> g'" and "c \<le> 10000"
  shows "g - half_up (g * c) 10000 \<le> g' - half_up (g' * c) 10000"
proof -
  have "(g' - g) * c \<le> (g' - g) * 10000" by (rule mult_left_mono) (use assms in simp_all)
  then have "g' * c \<le> g * c + (g' - g) * 10000" by (simp add: algebra_simps)
  then have "half_up (g' * c) 10000 \<le> half_up (g * c + (g' - g) * 10000) 10000"
    by (rule half_up_mono) simp
  also have "\<dots> = half_up (g * c) 10000 + (g' - g)" by (rule half_up_add_mult) simp
  finally show ?thesis by simp
qed

section \<open>The fare as a closed form\<close>

definition fare_raw :: "pricing_policy \<Rightarrow> route_metrics \<Rightarrow> int" where
  "fare_raw p m =
     pp_base_fare_minor p + half_up (rm_distance_meters m * pp_distance_rate_per_km_minor p) 1000 +
     half_up (rm_duration_seconds m * pp_time_rate_per_minute_minor p) 60"

definition fare_gross :: "pricing_policy \<Rightarrow> route_metrics \<Rightarrow> int" where
  "fare_gross p m =
     half_up (max (fare_raw p m) (pp_minimum_fare_minor p)) (pp_rounding_increment_minor p) *
     pp_rounding_increment_minor p"

definition fare_tax :: "pricing_policy \<Rightarrow> route_metrics \<Rightarrow> int" where
  "fare_tax p m = half_up (fare_gross p m * pp_tax_placeholder_basis_points p) 10000"

definition fare_commission :: "pricing_policy \<Rightarrow> route_metrics \<Rightarrow> int" where
  "fare_commission p m = half_up (fare_gross p m * pp_commission_basis_points p) 10000"

definition fare_spec :: "pricing_policy \<Rightarrow> route_metrics \<Rightarrow> fare_breakdown" where
  "fare_spec p m =
     \<lparr>fb_currency = ''ETB'',
      fb_base_minor = pp_base_fare_minor p,
      fb_distance_minor = half_up (rm_distance_meters m * pp_distance_rate_per_km_minor p) 1000,
      fb_time_minor = half_up (rm_duration_seconds m * pp_time_rate_per_minute_minor p) 60,
      fb_minimum_adjustment_minor = max 0 (pp_minimum_fare_minor p - fare_raw p m),
      fb_tax_placeholder_minor = fare_tax p m,
      fb_rider_total_minor = fare_gross p m + fare_tax p m,
      fb_driver_gross_minor = fare_gross p m,
      fb_ayo_commission_minor = fare_commission p m,
      fb_driver_net_projection_minor = fare_gross p m - fare_commission p m\<rparr>"

lemma valid_policy_Inr_iff:
  "valid_policy p = Inr q \<longleftrightarrow> q = p \<and> pricing_policy_fields p \<and>
     (\<forall>u. pp_effective_until p = Some u \<longrightarrow> pp_effective_from p < u) \<and>
     pp_base_fare_minor p \<le> pp_minimum_fare_minor p \<and>
     pp_approved_by_identity_id p \<noteq> Some (pp_made_by_identity_id p) \<and>
     (pp_status p \<in> {PP_APPROVED, PP_PUBLISHED} \<longrightarrow>
        pp_approved_by_identity_id p \<noteq> None \<and> pp_approved_at p \<noteq> None) \<and>
     (pp_status p = PP_PUBLISHED \<longrightarrow>
        pp_published_at p \<noteq> None \<and> pp_published_by_identity_id p \<noteq> None)"
  by (auto simp: valid_policy_def split: option.splits)

lemma valid_metrics_Inr_iff:
  "valid_metrics m = Inr n \<longleftrightarrow> n = m \<and>
     1 \<le> rm_distance_meters m \<and> rm_distance_meters m \<le> 2000000 \<and>
     1 \<le> rm_duration_seconds m \<and> rm_duration_seconds m \<le> 172800 \<and>
     length_between 2 63 (rm_provider_id m) \<and> version_pattern (rm_provider_version m) \<and>
     length_between 2 63 (rm_distance_source m) \<and> length_between 2 63 (rm_duration_source m) \<and>
     length_between 8 128 (rm_provenance_reference m)"
  by (auto simp: valid_metrics_def)

lemma valid_breakdown_Inr_iff:
  "valid_breakdown b = Inr c \<longleftrightarrow> c = b \<and> fb_currency b = ''ETB'' \<and>
     minor_ok (fb_base_minor b) \<and> minor_ok (fb_distance_minor b) \<and>
     minor_ok (fb_time_minor b) \<and> minor_ok (fb_minimum_adjustment_minor b) \<and>
     minor_ok (fb_tax_placeholder_minor b) \<and> minor_ok (fb_rider_total_minor b) \<and>
     minor_ok (fb_driver_gross_minor b) \<and> minor_ok (fb_ayo_commission_minor b) \<and>
     minor_ok (fb_driver_net_projection_minor b)"
  by (auto simp: valid_breakdown_def)

lemma valid_breakdown_InrD: "valid_breakdown b = Inr c \<Longrightarrow> c = b"
  by (simp add: valid_breakdown_Inr_iff)

lemma max_adjustment: "raw + max 0 (mn - raw) = max raw (mn::int)"
  by auto

lemma fare_nonneg:
  assumes "pricing_policy_fields p" and "valid_metrics m = Inr m"
  shows "0 \<le> rm_distance_meters m * pp_distance_rate_per_km_minor p"
    and "0 \<le> rm_duration_seconds m * pp_time_rate_per_minute_minor p"
    and "0 \<le> fare_raw p m" and "0 \<le> fare_gross p m"
    and "0 < pp_rounding_increment_minor p"
proof -
  show d: "0 \<le> rm_distance_meters m * pp_distance_rate_per_km_minor p"
    and t: "0 \<le> rm_duration_seconds m * pp_time_rate_per_minute_minor p"
    using assms by (auto simp: pricing_policy_fields_def valid_metrics_Inr_iff intro!: mult_nonneg_nonneg)
  show inc: "0 < pp_rounding_increment_minor p"
    using assms by (simp add: pricing_policy_fields_def)
  show raw: "0 \<le> fare_raw p m"
    using assms d t by (simp add: fare_raw_def pricing_policy_fields_def)
  show "0 \<le> fare_gross p m"
    using raw inc by (simp add: fare_gross_def)
qed

text \<open>On validated inputs the engine computes the closed form, and only the range check of the
  result can still reject it.\<close>

lemma calculate_spec:
  assumes "pricing_policy_fields p" and "valid_metrics m = Inr m"
  shows "calculate p m = valid_breakdown (fare_spec p m)"
proof -
  note nn = fare_nonneg [OF assms]
  have bps: "bps_ok (pp_commission_basis_points p)" "bps_ok (pp_tax_placeholder_basis_points p)"
    and b: "pp_currency p = ''ETB''" "pp_service_type p = ''immediate_standard''"
    using assms(1) by (simp_all add: pricing_policy_fields_def)
  let ?x = "fare_raw p m + max 0 (pp_minimum_fare_minor p - fare_raw p m)"
  have x: "0 \<le> ?x" using nn by linarith
  have inc: "round_increment ?x (pp_rounding_increment_minor p) = Inr (fare_gross p m)"
    using x nn(5) by (simp add: round_increment_Inr_iff fare_gross_def max_adjustment)
  have tax: "round_ratio (fare_gross p m * pp_tax_placeholder_basis_points p) 10000 = Inr (fare_tax p m)"
    and com: "round_ratio (fare_gross p m * pp_commission_basis_points p) 10000 = Inr (fare_commission p m)"
    using nn(4) bps by (simp_all add: fare_tax_def fare_commission_def)
  have le: "\<not> fare_gross p m < fare_commission p m"
    using share_le [OF nn(4)] bps by (simp add: fare_commission_def not_less)
  have dist: "round_ratio (rm_distance_meters m * pp_distance_rate_per_km_minor p) 1000 =
      Inr (fb_distance_minor (fare_spec p m))"
    and time: "round_ratio (rm_duration_seconds m * pp_time_rate_per_minute_minor p) 60 =
      Inr (fb_time_minor (fare_spec p m))"
    using nn(1,2) by (simp_all add: fare_spec_def)
  have raw: "pp_base_fare_minor p + fb_distance_minor (fare_spec p m) + fb_time_minor (fare_spec p m) =
      fare_raw p m"
    by (simp add: fare_raw_def fare_spec_def)
  show ?thesis
    unfolding calculate_def b Let_def dist time bind_result_simps raw inc tax com if_not_P [OF le]
    by (simp add: fare_spec_def)
qed

lemma calculate_Inr_spec:
  assumes "pricing_policy_fields p" and "valid_metrics m = Inr m" and "calculate p m = Inr b"
  shows "b = fare_spec p m"
  using assms by (simp add: calculate_spec valid_breakdown_InrD)


section \<open>The money of a fare\<close>

lemma fare_gross_window:
  assumes "0 < pp_rounding_increment_minor p"
  shows "2 * max (fare_raw p m) (pp_minimum_fare_minor p) - pp_rounding_increment_minor p \<le> 2 * fare_gross p m"
    and "2 * fare_gross p m \<le> 2 * max (fare_raw p m) (pp_minimum_fare_minor p) + pp_rounding_increment_minor p"
  unfolding fare_gross_def using half_up_nearest [OF assms] by simp_all

lemma fare_parts_bounds:
  assumes "pricing_policy_fields p" and "valid_metrics m = Inr m"
  shows "0 \<le> fare_tax p m" and "fare_tax p m \<le> fare_gross p m"
    and "0 \<le> fare_commission p m" and "fare_commission p m \<le> fare_gross p m"
  using fare_nonneg(4) [OF assms] assms(1)
  by (simp_all add: fare_tax_def fare_commission_def pricing_policy_fields_def share_le)

lemma fare_components_nonneg:
  assumes "pricing_policy_fields p" and "valid_metrics m = Inr m"
  shows "0 \<le> fb_base_minor (fare_spec p m)" and "0 \<le> fb_distance_minor (fare_spec p m)"
    and "0 \<le> fb_time_minor (fare_spec p m)"
  using fare_nonneg(1,2) [OF assms] assms(1)
  by (simp_all add: fare_spec_def pricing_policy_fields_def)

lemma fare_raw_mono:
  assumes "pricing_policy_fields p"
    and "rm_distance_meters m \<le> rm_distance_meters m'" and "rm_duration_seconds m \<le> rm_duration_seconds m'"
  shows "fare_raw p m \<le> fare_raw p m'"
  using assms by (auto simp: fare_raw_def pricing_policy_fields_def
      intro!: add_mono half_up_mono mult_right_mono)

lemma fare_gross_mono:
  assumes "pricing_policy_fields p"
    and "rm_distance_meters m \<le> rm_distance_meters m'" and "rm_duration_seconds m \<le> rm_duration_seconds m'"
  shows "fare_gross p m \<le> fare_gross p m'"
proof -
  have inc: "0 < pp_rounding_increment_minor p"
    using assms(1) by (simp add: pricing_policy_fields_def)
  have "max (fare_raw p m) (pp_minimum_fare_minor p) \<le> max (fare_raw p m') (pp_minimum_fare_minor p)"
    using fare_raw_mono [OF assms] by simp
  with inc show ?thesis
    unfolding fare_gross_def by (intro mult_right_mono half_up_mono) simp_all
qed

lemma fare_shares_mono:
  assumes "pricing_policy_fields p" and "fare_gross p m \<le> fare_gross p m'"
  shows "fare_tax p m \<le> fare_tax p m'" and "fare_commission p m \<le> fare_commission p m'"
    and "fare_gross p m - fare_commission p m \<le> fare_gross p m' - fare_commission p m'"
  using assms share_rest_mono
  by (auto simp: fare_tax_def fare_commission_def pricing_policy_fields_def
      intro!: half_up_mono mult_right_mono)

lemma valid_policy_fields: "valid_policy p = Inr q \<Longrightarrow> pricing_policy_fields p"
  by (simp add: valid_policy_Inr_iff)

lemma calculate_of_valid:
  assumes "valid_policy p = Inr p" and "valid_metrics m = Inr m" and "calculate p m = Inr b"
  shows "b = fare_spec p m"
  using assms by (blast intro: calculate_Inr_spec valid_policy_fields)

text \<open>
  C1: for a validated policy and validated route metrics, every fare the engine returns splits the
  money exactly: the rider pays gross plus tax, gross is commission plus driver net, no part is
  negative, tax and commission never exceed the gross, the gross is a multiple of the rounding
  increment and lies within half an increment of the larger of the metered fare and the minimum fare.
\<close>

theorem calculate_splits_money:
  assumes "valid_policy p = Inr p" and "valid_metrics m = Inr m" and "calculate p m = Inr b"
  shows "fb_rider_total_minor b = fb_driver_gross_minor b + fb_tax_placeholder_minor b \<and>
    fb_driver_gross_minor b = fb_ayo_commission_minor b + fb_driver_net_projection_minor b \<and>
    0 \<le> fb_ayo_commission_minor b \<and> 0 \<le> fb_driver_net_projection_minor b \<and>
    0 \<le> fb_tax_placeholder_minor b \<and> fb_tax_placeholder_minor b \<le> fb_driver_gross_minor b \<and>
    pp_rounding_increment_minor p dvd fb_driver_gross_minor b \<and>
    \<bar>2 * fb_driver_gross_minor b - 2 * max (fb_base_minor b + fb_distance_minor b + fb_time_minor b)
        (pp_minimum_fare_minor p)\<bar> \<le> pp_rounding_increment_minor p"
proof -
  have f: "pricing_policy_fields p" using assms(1) by (rule valid_policy_fields)
  have b: "b = fare_spec p m" using assms by (rule calculate_of_valid)
  have raw: "fb_base_minor b + fb_distance_minor b + fb_time_minor b = fare_raw p m"
    by (simp add: b fare_spec_def fare_raw_def)
  have "pp_rounding_increment_minor p dvd fb_driver_gross_minor b"
    by (simp add: b fare_spec_def fare_gross_def)
  moreover have "\<bar>2 * fare_gross p m - 2 * max (fare_raw p m) (pp_minimum_fare_minor p)\<bar>
      \<le> pp_rounding_increment_minor p"
    using fare_gross_window [OF fare_nonneg(5) [OF f assms(2)], of m] by linarith
  ultimately show ?thesis
    unfolding raw using fare_parts_bounds [OF f assms(2)] by (simp add: b fare_spec_def)
qed

text \<open>
  C10: the engine never fails on a validated policy and validated metrics whose metered fare and
  minimum fare stay below forty million birr: it returns the closed-form fare, so no rounding input is
  negative and the commission never exceeds the gross.
\<close>

theorem calculate_succeeds:
  assumes "valid_policy p = Inr p" and "valid_metrics m = Inr m"
    and "fare_raw p m \<le> 4000000000" and "pp_minimum_fare_minor p \<le> 4000000000"
  shows "calculate p m = Inr (fare_spec p m)"
proof -
  have f: "pricing_policy_fields p" using assms(1) by (rule valid_policy_fields)
  note parts = fare_parts_bounds [OF f assms(2)] and comps = fare_components_nonneg [OF f assms(2)]
  have inc: "pp_rounding_increment_minor p \<le> 10000" "0 < pp_rounding_increment_minor p"
    using f by (simp_all add: pricing_policy_fields_def)
  have gross: "fare_gross p m \<le> 4000005000"
    using fare_gross_window(2) [OF inc(2), of m] assms(3,4) inc(1) by linarith
  have sum: "fb_base_minor (fare_spec p m) + fb_distance_minor (fare_spec p m) +
      fb_time_minor (fare_spec p m) = fare_raw p m"
    by (simp add: fare_spec_def fare_raw_def)
  have adj: "fb_minimum_adjustment_minor (fare_spec p m) \<le> 4000000000"
    "0 \<le> fb_minimum_adjustment_minor (fare_spec p m)"
    using assms(4) fare_nonneg(3) [OF f assms(2)] by (simp_all add: fare_spec_def)
  have "minor_ok (fb_base_minor (fare_spec p m))" "minor_ok (fb_distance_minor (fare_spec p m))"
    "minor_ok (fb_time_minor (fare_spec p m))"
    using comps sum assms(3) by linarith+
  moreover have "minor_ok (fare_tax p m)" "minor_ok (fare_gross p m + fare_tax p m)"
    "minor_ok (fare_gross p m)" "minor_ok (fare_commission p m)"
    "minor_ok (fare_gross p m - fare_commission p m)"
    using parts gross by linarith+
  ultimately have "valid_breakdown (fare_spec p m) = Inr (fare_spec p m)"
    unfolding valid_breakdown_Inr_iff using adj by (simp add: fare_spec_def)
  then show ?thesis using calculate_spec [OF f assms(2)] by simp
qed

text \<open>
  C9: a longer or slower trip is never cheaper. Under one policy, if neither the distance nor the
  duration shrinks, then neither the rider's total, nor the commission, nor the driver's net does,
  in spite of the five roundings on the way.
\<close>

theorem calculate_monotone:
  assumes "valid_policy p = Inr p" and "valid_metrics m = Inr m" and "valid_metrics m' = Inr m'"
    and "rm_distance_meters m \<le> rm_distance_meters m'" and "rm_duration_seconds m \<le> rm_duration_seconds m'"
    and "calculate p m = Inr b" and "calculate p m' = Inr b'"
  shows "fb_rider_total_minor b \<le> fb_rider_total_minor b' \<and>
    fb_ayo_commission_minor b \<le> fb_ayo_commission_minor b' \<and>
    fb_driver_net_projection_minor b \<le> fb_driver_net_projection_minor b'"
proof -
  have f: "pricing_policy_fields p" using assms(1) by (rule valid_policy_fields)
  have b: "b = fare_spec p m" "b' = fare_spec p m'"
    using assms calculate_of_valid by blast+
  have g: "fare_gross p m \<le> fare_gross p m'" using f assms(4,5) by (rule fare_gross_mono)
  show ?thesis using g fare_shares_mono [OF f g] by (simp add: b fare_spec_def)
qed


section \<open>The lineage of a fare\<close>

lemma reconstruct_InrD:
  assumes "reconstruct digest l = Inr b"
  shows "valid_policy (policy_of_lineage l) = Inr (policy_of_lineage l)"
    and "valid_metrics (metrics_of_lineage l) = Inr (metrics_of_lineage l)"
    and "digest (input_payload (policy_of_lineage l) (metrics_of_lineage l)) = cl_canonical_input_hash l"
    and "valid_breakdown (fare_spec (policy_of_lineage l) (metrics_of_lineage l)) = Inr b"
proof -
  let ?p = "policy_of_lineage l" and ?m = "metrics_of_lineage l"
  show p: "valid_policy ?p = Inr ?p" and m: "valid_metrics ?m = Inr ?m"
    and "digest (input_payload ?p ?m) = cl_canonical_input_hash l"
    using assms
    by (auto simp: reconstruct_def bind_result_eq_Inr valid_policy_Inr_iff valid_metrics_Inr_iff
        input_hash_def split: if_splits)
  show "valid_breakdown (fare_spec ?p ?m) = Inr b"
    using assms p m
    by (simp add: reconstruct_def bind_result_eq_Inr round_ratio_Inr_iff round_increment_Inr_iff
        Let_def max_adjustment fare_spec_def fare_raw_def fare_gross_def fare_tax_def
        fare_commission_def policy_of_lineage_def metrics_of_lineage_def split: if_splits)
qed

lemma reconstruct_calculates:
  assumes "reconstruct digest l = Inr b"
  shows "calculate (policy_of_lineage l) (metrics_of_lineage l) = Inr b"
  using reconstruct_InrD [OF assms] calculate_spec valid_policy_fields by metis

lemma build_lineage_views:
  assumes "build_lineage digest p m b audit corr caus = Inr l"
  shows "metrics_of_lineage l = m\<lparr>rm_data_quality := DQ_VERIFIED\<rparr>"
    and "input_payload (policy_of_lineage l) (metrics_of_lineage l) = input_payload p m"
    and "fare_spec (policy_of_lineage l) (metrics_of_lineage l) = fare_spec p m"
    and "cl_canonical_input_hash l = digest (input_payload p m)"
  using assms
  by (auto simp: build_lineage_def valid_lineage_def Let_def metrics_of_lineage_def policy_of_lineage_def
      input_payload_def fare_spec_def fare_raw_def fare_gross_def fare_tax_def fare_commission_def
      input_hash_def split: option.splits if_splits)

lemma build_lineage_valid:
  assumes "build_lineage digest p m b audit corr caus = Inr l"
    and "valid_policy p = Inr p" and "valid_metrics m = Inr m"
  shows "valid_policy (policy_of_lineage l) = Inr (policy_of_lineage l)"
    and "valid_metrics (metrics_of_lineage l) = Inr (metrics_of_lineage l)"
proof -
  show "valid_policy (policy_of_lineage l) = Inr (policy_of_lineage l)"
    using assms unfolding build_lineage_def
    by (auto simp: valid_policy_Inr_iff valid_lineage_def policy_of_lineage_def
        pricing_policy_fields_def Let_def split: option.splits if_splits)
  show "valid_metrics (metrics_of_lineage l) = Inr (metrics_of_lineage l)"
    using assms by (simp add: build_lineage_views valid_metrics_Inr_iff)
qed

text \<open>A lineage is consistent when its recorded derivation is the one of the closed form.\<close>

definition lineage_consistent :: "calculation_lineage \<Rightarrow> bool" where
  "lineage_consistent l \<longleftrightarrow>
     (let p = policy_of_lineage l; m = metrics_of_lineage l; b = fare_spec p m in
      cl_formula_version l = FORMULA_VERSION \<and>
      cl_raw_distance_numerator l = cl_distance_meters l * cl_distance_rate_per_km_minor l \<and>
      cl_raw_distance_denominator l = 1000 \<and>
      cl_raw_time_numerator l = cl_duration_seconds l * cl_time_rate_per_minute_minor l \<and>
      cl_raw_time_denominator l = 60 \<and>
      cl_pre_minimum_minor l = fare_raw p m \<and>
      cl_minimum_adjustment_minor l = fb_minimum_adjustment_minor b \<and>
      cl_pre_rounding_minor l = fare_raw p m + fb_minimum_adjustment_minor b \<and>
      cl_rounded_fare_before_tax_minor l = fare_gross p m \<and>
      cl_commission_numerator l = fare_gross p m * cl_commission_basis_points l \<and>
      cl_commission_denominator l = 10000 \<and>
      cl_tax_numerator l = fare_gross p m * cl_tax_placeholder_basis_points l \<and>
      cl_tax_denominator l = 10000)"

lemma reconstruct_Inr_iff:
  assumes "valid_policy (policy_of_lineage l) = Inr (policy_of_lineage l)"
    and "valid_metrics (metrics_of_lineage l) = Inr (metrics_of_lineage l)"
    and "digest (input_payload (policy_of_lineage l) (metrics_of_lineage l)) = cl_canonical_input_hash l"
    and "lineage_consistent l"
  shows "reconstruct digest l =
    valid_breakdown (fare_spec (policy_of_lineage l) (metrics_of_lineage l))"
proof -
  let ?p = "policy_of_lineage l" and ?m = "metrics_of_lineage l"
  have f: "pricing_policy_fields ?p" using assms(1) by (rule valid_policy_fields)
  note nn = fare_nonneg [OF f assms(2)]
  have views: "cl_base_fare_minor l = pp_base_fare_minor ?p"
    "cl_distance_meters l = rm_distance_meters ?m" "cl_duration_seconds l = rm_duration_seconds ?m"
    "cl_distance_rate_per_km_minor l = pp_distance_rate_per_km_minor ?p"
    "cl_time_rate_per_minute_minor l = pp_time_rate_per_minute_minor ?p"
    "cl_minimum_fare_minor l = pp_minimum_fare_minor ?p"
    "cl_commission_basis_points l = pp_commission_basis_points ?p"
    "cl_tax_placeholder_basis_points l = pp_tax_placeholder_basis_points ?p"
    "cl_rounding_increment_minor l = pp_rounding_increment_minor ?p"
    by (simp_all add: policy_of_lineage_def metrics_of_lineage_def)
  have bps: "bps_ok (pp_commission_basis_points ?p)" "bps_ok (pp_tax_placeholder_basis_points ?p)"
    using f by (simp_all add: pricing_policy_fields_def)
  show ?thesis
    using assms nn bps
    by (simp add: reconstruct_def lineage_consistent_def Let_def views input_hash_def
        round_increment_def fare_spec_def fare_raw_def fare_gross_def fare_tax_def
        fare_commission_def max_adjustment)
qed


text \<open>
  C2: every lineage recorded for a calculated fare reconstructs to that very fare, from the snapshot
  alone (the policy and the metrics need not be stored any more).
\<close>

theorem reconstruct_build_lineage:
  assumes "valid_policy p = Inr p" and "valid_metrics m = Inr m" and "calculate p m = Inr b"
    and "build_lineage digest p m b audit corr caus = Inr l"
  shows "reconstruct digest l = Inr b"
proof -
  note views = build_lineage_views [OF assms(4)] and valid = build_lineage_valid [OF assms(4,1,2)]
  have b: "b = fare_spec p m" using assms(1-3) by (rule calculate_of_valid)
  have vb: "valid_breakdown (fare_spec p m) = Inr b"
    using assms(1-3) calculate_spec valid_policy_fields by metis
  have "lineage_consistent l"
  proof -
    have raw: "fare_raw (policy_of_lineage l) (metrics_of_lineage l) = fare_raw p m"
      and gross: "fare_gross (policy_of_lineage l) (metrics_of_lineage l) = fare_gross p m"
      using assms(4)
      by (auto simp: build_lineage_def valid_lineage_def Let_def metrics_of_lineage_def
          policy_of_lineage_def fare_raw_def fare_gross_def split: option.splits if_splits)
    show ?thesis
      unfolding lineage_consistent_def Let_def raw gross views(3)
      using assms(4)
      by (auto simp: build_lineage_def valid_lineage_def Let_def b fare_spec_def fare_raw_def
          split: option.splits if_splits)
  qed
  then show ?thesis
    using reconstruct_Inr_iff [OF valid] views vb by simp
qed

lemma fare_spec_payload_cong:
  assumes "input_payload p m = input_payload p' m'"
  shows "fare_spec p m = fare_spec p' m'"
proof -
  have "pp_base_fare_minor p = pp_base_fare_minor p'"
    "pp_distance_rate_per_km_minor p = pp_distance_rate_per_km_minor p'"
    "pp_time_rate_per_minute_minor p = pp_time_rate_per_minute_minor p'"
    "pp_minimum_fare_minor p = pp_minimum_fare_minor p'"
    "pp_commission_basis_points p = pp_commission_basis_points p'"
    "pp_tax_placeholder_basis_points p = pp_tax_placeholder_basis_points p'"
    "pp_rounding_increment_minor p = pp_rounding_increment_minor p'"
    "rm_distance_meters m = rm_distance_meters m'" "rm_duration_seconds m = rm_duration_seconds m'"
    using assms by (simp_all add: input_payload_def)
  then show ?thesis
    by (simp add: fare_spec_def fare_raw_def fare_gross_def fare_tax_def fare_commission_def)
qed

text \<open>
  a lineage that reconstructs agrees with the engine: the engine run on the snapshot gives the
  reconstructed fare, and two reconstructible lineages with the same canonical input hash carry the
  same fare, provided the digest does not collide on their two canonical inputs.
\<close>

theorem reconstruct_pins_fare:
  assumes "reconstruct digest l = Inr b" and "reconstruct digest l' = Inr b'"
    and "cl_canonical_input_hash l = cl_canonical_input_hash l'"
    and "inj_on digest {input_payload (policy_of_lineage l) (metrics_of_lineage l),
                        input_payload (policy_of_lineage l') (metrics_of_lineage l')}"
  shows "calculate (policy_of_lineage l) (metrics_of_lineage l) = Inr b \<and> b = b'"
proof -
  note r = reconstruct_InrD [OF assms(1)] and r' = reconstruct_InrD [OF assms(2)]
  have "input_payload (policy_of_lineage l) (metrics_of_lineage l) =
      input_payload (policy_of_lineage l') (metrics_of_lineage l')"
    using r(3) r'(3) assms(3) by (intro inj_onD [OF assms(4)]) auto
  then have "fare_spec (policy_of_lineage l) (metrics_of_lineage l) =
      fare_spec (policy_of_lineage l') (metrics_of_lineage l')"
    by (rule fare_spec_payload_cong)
  then have "b = b'" using r(4) r'(4) by simp
  then show ?thesis using reconstruct_calculates [OF assms(1)] by simp
qed

section \<open>Witnesses\<close>

text \<open>A published policy and a twelve-kilometre trip.\<close>

definition sample_policy :: pricing_policy where
  "sample_policy =
     \<lparr>pp_policy_id = 1, pp_policy_version = ''v1'', pp_predecessor_policy_id = None,
      pp_service_zone_id = 2, pp_service_type = ''immediate_standard'', pp_currency = ''ETB'',
      pp_base_fare_minor = 5000, pp_distance_rate_per_km_minor = 1500,
      pp_time_rate_per_minute_minor = 250, pp_minimum_fare_minor = 12000,
      pp_commission_basis_points = 1250, pp_tax_placeholder_basis_points = 0,
      pp_rounding_increment_minor = 50, pp_effective_from = 0, pp_effective_until = None,
      pp_status = PP_PUBLISHED, pp_made_by_identity_id = 10,
      pp_approved_by_identity_id = Some 11, pp_approved_at = Some 0, pp_published_at = Some 1,
      pp_published_by_identity_id = Some 12, pp_created_at = 0\<rparr>"

definition sample_metrics :: "int \<Rightarrow> int \<Rightarrow> route_metrics" where
  "sample_metrics dist dur =
     \<lparr>rm_distance_meters = dist, rm_duration_seconds = dur, rm_observed_at = 5,
      rm_provider_id = ''static_router'', rm_provider_version = ''v3'',
      rm_distance_source = ''route'', rm_duration_source = ''route'',
      rm_provenance_reference = ''trace-000001'', rm_data_quality = DQ_VERIFIED\<rparr>"

definition sample_digest :: "payload \<Rightarrow> string" where
  "sample_digest payload = replicate 64 (CHR ''a'')"

definition sample_lineage :: "uuid \<Rightarrow> calculation_lineage" where
  "sample_lineage audit =
     projr (build_lineage sample_digest sample_policy (sample_metrics 12345 1500)
       (fare_spec sample_policy (sample_metrics 12345 1500)) audit 21 22)"

lemma sample_valid:
  "valid_policy sample_policy = Inr sample_policy"
  "valid_metrics (sample_metrics 12345 1500) = Inr (sample_metrics 12345 1500)"
  "valid_metrics (sample_metrics 20000 1500) = Inr (sample_metrics 20000 1500)"
  by code_simp+

lemma sample_calculate:
  "calculate sample_policy (sample_metrics 12345 1500) =
     Inr (fare_spec sample_policy (sample_metrics 12345 1500))"
  "calculate sample_policy (sample_metrics 20000 1500) =
     Inr (fare_spec sample_policy (sample_metrics 20000 1500))"
  by code_simp+

lemma sample_build_lineage:
  "build_lineage sample_digest sample_policy (sample_metrics 12345 1500)
     (fare_spec sample_policy (sample_metrics 12345 1500)) 31 21 22 = Inr (sample_lineage 31)"
  "build_lineage sample_digest sample_policy (sample_metrics 12345 1500)
     (fare_spec sample_policy (sample_metrics 12345 1500)) 32 21 22 = Inr (sample_lineage 32)"
  by code_simp+


theorem calculate_splits_money_witness:
  "let b = fare_spec sample_policy (sample_metrics 12345 1500) in
   calculate sample_policy (sample_metrics 12345 1500) = Inr b \<and>
   fb_driver_gross_minor b = 29750 \<and> fb_ayo_commission_minor b = 3719 \<and>
   fb_driver_gross_minor b = fb_ayo_commission_minor b + fb_driver_net_projection_minor b"
  using calculate_splits_money [OF sample_valid(1,2) sample_calculate(1)] sample_calculate(1)
  unfolding Let_def by (intro conjI) (blast | code_simp)+

theorem calculate_succeeds_witness:
  "calculate sample_policy (sample_metrics 12345 1500) =
     Inr (fare_spec sample_policy (sample_metrics 12345 1500))"
proof -
  have "fare_raw sample_policy (sample_metrics 12345 1500) \<le> 4000000000"
    and "pp_minimum_fare_minor sample_policy \<le> 4000000000" by code_simp+
  then show ?thesis by (rule calculate_succeeds [OF sample_valid(1,2)])
qed

theorem calculate_monotone_witness:
  "fb_rider_total_minor (fare_spec sample_policy (sample_metrics 12345 1500)) \<le>
   fb_rider_total_minor (fare_spec sample_policy (sample_metrics 20000 1500))"
proof -
  have "rm_distance_meters (sample_metrics 12345 1500) \<le> rm_distance_meters (sample_metrics 20000 1500)"
    and "rm_duration_seconds (sample_metrics 12345 1500) \<le> rm_duration_seconds (sample_metrics 20000 1500)"
    by code_simp+
  then show ?thesis using calculate_monotone [OF sample_valid _ _ sample_calculate] by blast
qed

theorem reconstruct_build_lineage_witness:
  "reconstruct sample_digest (sample_lineage 31) = Inr (fare_spec sample_policy (sample_metrics 12345 1500))"
  by (rule reconstruct_build_lineage [OF sample_valid(1,2) sample_calculate(1) sample_build_lineage(1)])

lemma sample_reconstruct:
  "reconstruct sample_digest (sample_lineage 31) = Inr (fare_spec sample_policy (sample_metrics 12345 1500))"
  "reconstruct sample_digest (sample_lineage 32) = Inr (fare_spec sample_policy (sample_metrics 12345 1500))"
  by code_simp+

theorem reconstruct_pins_fare_witness:
  "sample_lineage 31 \<noteq> sample_lineage 32 \<and>
   calculate (policy_of_lineage (sample_lineage 31)) (metrics_of_lineage (sample_lineage 31)) =
     Inr (fare_spec sample_policy (sample_metrics 12345 1500))"
proof -
  have ne: "cl_audit_event_id (sample_lineage 31) \<noteq> cl_audit_event_id (sample_lineage 32)"
    and h: "cl_canonical_input_hash (sample_lineage 31) = cl_canonical_input_hash (sample_lineage 32)"
    and eq: "input_payload (policy_of_lineage (sample_lineage 31)) (metrics_of_lineage (sample_lineage 31)) =
       input_payload (policy_of_lineage (sample_lineage 32)) (metrics_of_lineage (sample_lineage 32))"
    by code_simp+
  have "calculate (policy_of_lineage (sample_lineage 31)) (metrics_of_lineage (sample_lineage 31)) =
     Inr (fare_spec sample_policy (sample_metrics 12345 1500))"
    using reconstruct_pins_fare [OF sample_reconstruct h] eq by simp
  then show ?thesis using ne by auto
qed

end
