(* ===== verification/Lifecycle.thy ===== *)
theory Lifecycle
  imports Prelude
begin

text \<open>
  The contract shared by every lifecycle of the backend. Each engine keeps a table of allowed
  transitions and a set of terminal states; the locale below states what the tables promise and
  proves once what follows for whole histories. The payment, refund, settlement, hold and active-ride
  theories interpret it on their own tables.
\<close>

section \<open>Tables, histories and guarded steps\<close>

definition allows :: "('s \<Rightarrow> 's list) \<Rightarrow> 's \<Rightarrow> 's \<Rightarrow> bool" where
  "allows table s t \<longleftrightarrow> t \<in> set (table s)"

fun legal_history :: "('s \<Rightarrow> 's list) \<Rightarrow> 's \<Rightarrow> 's list \<Rightarrow> bool" where
  "legal_history table s [] = True"
| "legal_history table s (t # ts) = (allows table s t \<and> legal_history table t ts)"

definition final_state :: "'s \<Rightarrow> 's list \<Rightarrow> 's" where
  "final_state s ts = last (s # ts)"

inductive leads_to :: "('s \<Rightarrow> 's list) \<Rightarrow> 's \<Rightarrow> 's \<Rightarrow> bool" for table where
  here: "leads_to table s s"
| move: "allows table s t \<Longrightarrow> leads_to table t u \<Longrightarrow> leads_to table s u"

inductive_cases leads_toE: "leads_to table s u"

lemma final_state_simps [simp]:
  "final_state s [] = s" "final_state s (t # ts) = final_state t ts"
  by (simp_all add: final_state_def)

lemma legal_history_append:
  "legal_history table s (ts @ us) \<longleftrightarrow>
     legal_history table s ts \<and> legal_history table (final_state s ts) us"
  by (induction ts arbitrary: s) auto

lemma leads_to_iff_history:
  "leads_to table s u \<longleftrightarrow> (\<exists>ts. legal_history table s ts \<and> final_state s ts = u)"
proof
  assume "leads_to table s u"
  then show "\<exists>ts. legal_history table s ts \<and> final_state s ts = u"
  proof induction
    case (here s)
    show ?case by (rule exI [of _ "[]"]) simp
  next
    case (move s t u)
    then obtain ts where "legal_history table t ts \<and> final_state t ts = u" by blast
    with move.hyps(1) show ?case by (intro exI [of _ "t # ts"]) simp
  qed
next
  assume "\<exists>ts. legal_history table s ts \<and> final_state s ts = u"
  then obtain ts where "legal_history table s ts" "final_state s ts = u" by blast
  then show "leads_to table s u"
    by (induction ts arbitrary: s) (auto intro: leads_to.intros)
qed

lemma leads_to_trans: "leads_to table s t \<Longrightarrow> leads_to table t u \<Longrightarrow> leads_to table s u"
  by (induction rule: leads_to.induct) (auto intro: leads_to.intros)

section \<open>The contract of a lifecycle\<close>

locale lifecycle =
  fixes table :: "'s \<Rightarrow> 's list"
    and terminal :: "'s \<Rightarrow> bool"
  assumes terminal_stuck: "terminal s \<Longrightarrow> table s = []"
begin

lemma terminal_no_step: "terminal s \<Longrightarrow> \<not> allows table s t"
  by (simp add: allows_def terminal_stuck)

lemma terminal_absorbing: "leads_to table s u \<Longrightarrow> terminal s \<Longrightarrow> u = s"
  by (induction rule: leads_to.induct) (auto simp: terminal_no_step)

lemma terminal_history: "terminal s \<Longrightarrow> legal_history table s ts \<longleftrightarrow> ts = []"
  by (cases ts) (auto simp: terminal_no_step)

lemma terminal_only_last:
  assumes "legal_history table s ts" and "i < length ts" and "terminal (ts ! i)"
  shows "Suc i = length ts"
proof -
  have split: "ts = take (Suc i) ts @ drop (Suc i) ts" by simp
  have last: "final_state s (take (Suc i) ts) = ts ! i"
    using assms(2) by (simp add: final_state_def take_Suc_conv_app_nth)
  have "legal_history table (ts ! i) (drop (Suc i) ts)"
    using assms(1) split last legal_history_append by metis
  then have "drop (Suc i) ts = []" using assms(3) by (simp add: terminal_history)
  with assms(2) show ?thesis by simp
qed

end

text \<open>Where the table is empty for terminal states only, every other state can still move.\<close>

locale exact_lifecycle = lifecycle +
  assumes stuck_terminal: "table s = [] \<Longrightarrow> terminal s"
begin

lemma live_iff: "(\<exists>t. allows table s t) \<longleftrightarrow> \<not> terminal s"
  using terminal_stuck stuck_terminal unfolding allows_def
  by (metis last_in_set list.set(1) empty_iff)

end

text \<open>
  A ranked lifecycle never returns to a state it has left: every transition strictly raises a
  rank, so histories are bounded by the largest rank and visit each state at most once.
\<close>

locale ranked_lifecycle = exact_lifecycle +
  fixes rank :: "'s \<Rightarrow> nat" and bound :: nat
  assumes rank_step: "t \<in> set (table s) \<Longrightarrow> rank s < rank t"
    and rank_bound: "rank s \<le> bound"
begin

lemma history_length: "legal_history table s ts \<Longrightarrow> length ts + rank s \<le> bound"
proof (induction ts arbitrary: s)
  case Nil
  show ?case using rank_bound by simp
next
  case (Cons t ts)
  then have "rank s < rank t" and "length ts + rank t \<le> bound"
    by (auto simp: allows_def rank_step)
  then show ?case by simp
qed

lemma leads_to_rank: "leads_to table s u \<Longrightarrow> u = s \<or> rank s < rank u"
  by (induction rule: leads_to.induct) (auto simp: allows_def dest: rank_step)

lemma no_return: "leads_to table s u \<Longrightarrow> leads_to table u s \<Longrightarrow> u = s"
  by (metis leads_to_rank order_less_asym)

lemma reaches_terminal: "\<exists>u. leads_to table s u \<and> terminal u"
proof (induction "bound - rank s" arbitrary: s rule: less_induct)
  case less
  show ?case
  proof (cases "terminal s")
    case True
    then show ?thesis by (blast intro: leads_to.here)
  next
    case False
    then obtain t where t: "allows table s t" using live_iff by blast
    then have "rank s < rank t" by (simp add: allows_def rank_step)
    then have "bound - rank t < bound - rank s" using rank_bound [of t] by linarith
    then obtain u where "leads_to table t u" "terminal u" using less by blast
    with t show ?thesis by (blast intro: leads_to.move)
  qed
qed

end


section \<open>Guarded steps\<close>

text \<open>
  The engines guard each step with a function that raises or returns: a step to the current state is
  accepted as a no-op, any other step needs a table entry and a timezone-aware timestamp. A run is a
  sequence of guarded steps; it stops at the first one that is refused.
\<close>

fun guarded_run ::
  "('s \<Rightarrow> 's \<Rightarrow> py_datetime \<Rightarrow> unit result) \<Rightarrow> 's \<Rightarrow> ('s \<times> py_datetime) list \<Rightarrow> 's result" where
  "guarded_run guard s [] = Inr s"
| "guarded_run guard s ((t, at) # ts) = bind_result (guard s t at) (\<lambda>_. guarded_run guard t ts)"

locale guarded_lifecycle = lifecycle +
  fixes guard :: "'a \<Rightarrow> 'a \<Rightarrow> py_datetime \<Rightarrow> unit result"
  assumes guard_ok: "guard s t at = Inr () \<longleftrightarrow> t = s \<or> allows table s t \<and> is_aware at"
begin

lemma guarded_run_leads_to:
  "guarded_run guard s ts = Inr u \<Longrightarrow> leads_to table s u"
proof (induction ts arbitrary: s)
  case Nil
  then show ?case by (simp add: leads_to.here)
next
  case (Cons step ts)
  obtain t at where step: "step = (t, at)" by (cases step)
  from Cons.prems have "t = s \<or> allows table s t" and "guarded_run guard t ts = Inr u"
    by (auto simp: step bind_result_eq_Inr guard_ok)
  with Cons.IH show ?case by (blast intro: leads_to.move)
qed

text \<open>The states a run visits, without the repetitions of its no-op steps.\<close>

lemma guarded_run_history:
  assumes "guarded_run guard s ts = Inr u"
  shows "legal_history table s (tl (remdups_adj (s # map fst ts))) \<and>
    final_state s (tl (remdups_adj (s # map fst ts))) = u"
  using assms
proof (induction ts arbitrary: s)
  case Nil
  then show ?case by simp
next
  case (Cons step ts)
  obtain t at where step: "step = (t, at)" by (cases step)
  from Cons.prems have t: "t = s \<or> allows table s t" and run: "guarded_run guard t ts = Inr u"
    by (auto simp: step bind_result_eq_Inr guard_ok)
  let ?rest = "remdups_adj (t # map fst ts)"
  have ne: "?rest = t # tl ?rest" by simp
  show ?case
  proof (cases "t = s")
    case True
    then show ?thesis using Cons.IH [OF run] by (simp add: step)
  next
    case False
    then have "remdups_adj (s # map fst (step # ts)) = s # ?rest" by (simp add: step)
    then have "tl (remdups_adj (s # map fst (step # ts))) = t # tl ?rest" using ne by simp
    then show ?thesis using Cons.IH [OF run] t False by (simp del: remdups_adj_Cons_alt)
  qed
qed

lemma guarded_run_terminal:
  "terminal s \<Longrightarrow> guarded_run guard s ts = Inr u \<Longrightarrow> u = s"
  using guarded_run_leads_to terminal_absorbing by blast

lemma guarded_run_complete:
  assumes "leads_to table s u"
  shows "\<exists>ts. guarded_run guard s ts = Inr u"
  using assms
proof induction
  case (here s)
  show ?case by (rule exI [of _ "[]"]) simp
next
  case (move s t u)
  then obtain ts where "guarded_run guard t ts = Inr u" by blast
  moreover have "guard s t (Aware 0) = Inr ()" using move.hyps(1) by (simp add: guard_ok)
  ultimately show ?case by (intro exI [of _ "(t, Aware 0) # ts"]) simp
qed

lemma guarded_run_iff: "(\<exists>ts. guarded_run guard s ts = Inr u) \<longleftrightarrow> leads_to table s u"
  using guarded_run_leads_to guarded_run_complete by blast

end

end
