(* ===== verification/Financial_Lifecycles.thy ===== *)
theory Financial_Lifecycles
  imports Lifecycle
begin

text \<open>
  The four lifecycle engines of the financial components: payment attempts and intents
  (\<open>payment/engine.py\<close>), refund requests (\<open>refund/engine.py\<close>), settlement batches
  (\<open>settlement/engine.py\<close>) and financial holds (\<open>financial_control/engine.py\<close>). Each table, guard and
  terminal predicate is the code's; the lifecycle contracts are interpreted on them.
\<close>

section \<open>Payment\<close>

datatype payment_intent_state = PI_CREATED | PI_CANCELLED | PI_EXPIRED

datatype payment_attempt_state = PA_CREATED | PA_AUTHORIZATION_PENDING | PA_AUTHORIZED
  | PA_CAPTURE_PENDING | PA_CAPTURED | PA_FAILED | PA_CANCELLED | PA_EXPIRED | PA_OUTCOME_UNKNOWN

fun ALLOWED_ATTEMPT_TRANSITIONS :: "payment_attempt_state \<Rightarrow> payment_attempt_state list" where
  "ALLOWED_ATTEMPT_TRANSITIONS PA_CREATED =
     [PA_AUTHORIZATION_PENDING, PA_CANCELLED, PA_EXPIRED, PA_FAILED, PA_OUTCOME_UNKNOWN]"
| "ALLOWED_ATTEMPT_TRANSITIONS PA_AUTHORIZATION_PENDING =
     [PA_AUTHORIZED, PA_FAILED, PA_CANCELLED, PA_EXPIRED, PA_OUTCOME_UNKNOWN]"
| "ALLOWED_ATTEMPT_TRANSITIONS PA_AUTHORIZED =
     [PA_CAPTURE_PENDING, PA_CANCELLED, PA_FAILED, PA_OUTCOME_UNKNOWN]"
| "ALLOWED_ATTEMPT_TRANSITIONS PA_CAPTURE_PENDING = [PA_CAPTURED, PA_FAILED, PA_OUTCOME_UNKNOWN]"
| "ALLOWED_ATTEMPT_TRANSITIONS PA_OUTCOME_UNKNOWN =
     [PA_AUTHORIZED, PA_CAPTURE_PENDING, PA_CAPTURED, PA_FAILED, PA_CANCELLED, PA_EXPIRED]"
| "ALLOWED_ATTEMPT_TRANSITIONS PA_CAPTURED = []"
| "ALLOWED_ATTEMPT_TRANSITIONS PA_FAILED = []"
| "ALLOWED_ATTEMPT_TRANSITIONS PA_CANCELLED = []"
| "ALLOWED_ATTEMPT_TRANSITIONS PA_EXPIRED = []"

fun ALLOWED_INTENT_TRANSITIONS :: "payment_intent_state \<Rightarrow> payment_intent_state list" where
  "ALLOWED_INTENT_TRANSITIONS PI_CREATED = [PI_CANCELLED, PI_EXPIRED]"
| "ALLOWED_INTENT_TRANSITIONS PI_CANCELLED = []"
| "ALLOWED_INTENT_TRANSITIONS PI_EXPIRED = []"

definition ensure_attempt_transition_allowed ::
  "payment_attempt_state \<Rightarrow> payment_attempt_state \<Rightarrow> py_datetime \<Rightarrow> unit result" where
  "ensure_attempt_transition_allowed current target at =
     (if target = current then Inr ()
      else if target \<notin> set (ALLOWED_ATTEMPT_TRANSITIONS current)
      then Inl (PaymentConflict ''payment_attempt_transition_invalid'')
      else if \<not> is_aware at then Inl (PaymentConflict ''payment_timestamp_invalid'')
      else Inr ())"

definition ensure_intent_transition_allowed ::
  "payment_intent_state \<Rightarrow> payment_intent_state \<Rightarrow> py_datetime \<Rightarrow> unit result" where
  "ensure_intent_transition_allowed current target at =
     (if target = current then Inr ()
      else if target \<notin> set (ALLOWED_INTENT_TRANSITIONS current)
      then Inl (PaymentConflict ''payment_intent_transition_invalid'')
      else if \<not> is_aware at then Inl (PaymentConflict ''payment_timestamp_invalid'')
      else Inr ())"

definition attempt_is_terminal :: "payment_attempt_state \<Rightarrow> bool" where
  "attempt_is_terminal v \<longleftrightarrow> v \<in> {PA_CAPTURED, PA_FAILED, PA_CANCELLED, PA_EXPIRED}"

section \<open>Refund\<close>

datatype refund_request_state = RR_REQUESTED | RR_UNDER_REVIEW | RR_APPROVED | RR_REJECTED
  | RR_SCHEDULED | RR_COMPLETED

fun ALLOWED_REQUEST_TRANSITIONS :: "refund_request_state \<Rightarrow> refund_request_state list" where
  "ALLOWED_REQUEST_TRANSITIONS RR_REQUESTED = [RR_UNDER_REVIEW, RR_REJECTED]"
| "ALLOWED_REQUEST_TRANSITIONS RR_UNDER_REVIEW = [RR_APPROVED]"
| "ALLOWED_REQUEST_TRANSITIONS RR_APPROVED = [RR_SCHEDULED]"
| "ALLOWED_REQUEST_TRANSITIONS RR_SCHEDULED = [RR_COMPLETED]"
| "ALLOWED_REQUEST_TRANSITIONS RR_COMPLETED = []"
| "ALLOWED_REQUEST_TRANSITIONS RR_REJECTED = []"

definition ensure_request_transition_allowed ::
  "refund_request_state \<Rightarrow> refund_request_state \<Rightarrow> py_datetime \<Rightarrow> unit result" where
  "ensure_request_transition_allowed current target at =
     (if current = target then Inr ()
      else if \<not> is_aware at then Inl (RefundConflict ''refund_timestamp_invalid'')
      else if target \<notin> set (ALLOWED_REQUEST_TRANSITIONS current)
      then Inl (RefundConflict ''refund_transition_invalid'')
      else Inr ())"

definition request_is_terminal :: "refund_request_state \<Rightarrow> bool" where
  "request_is_terminal s \<longleftrightarrow> s \<in> {RR_COMPLETED, RR_REJECTED}"

section \<open>Settlement\<close>

datatype settlement_batch_state = SB_CREATED | SB_COLLECTING | SB_RECONCILING | SB_BALANCED
  | SB_EXCEPTION | SB_MANUAL_REVIEW | SB_RESOLVED | SB_READY_FOR_SETTLEMENT

fun ALLOWED_BATCH_TRANSITIONS :: "settlement_batch_state \<Rightarrow> settlement_batch_state list" where
  "ALLOWED_BATCH_TRANSITIONS SB_CREATED = [SB_COLLECTING, SB_RECONCILING]"
| "ALLOWED_BATCH_TRANSITIONS SB_COLLECTING = [SB_RECONCILING]"
| "ALLOWED_BATCH_TRANSITIONS SB_RECONCILING = [SB_BALANCED, SB_EXCEPTION]"
| "ALLOWED_BATCH_TRANSITIONS SB_BALANCED = [SB_READY_FOR_SETTLEMENT]"
| "ALLOWED_BATCH_TRANSITIONS SB_EXCEPTION = [SB_MANUAL_REVIEW]"
| "ALLOWED_BATCH_TRANSITIONS SB_MANUAL_REVIEW = [SB_RESOLVED]"
| "ALLOWED_BATCH_TRANSITIONS SB_RESOLVED = []"
| "ALLOWED_BATCH_TRANSITIONS SB_READY_FOR_SETTLEMENT = []"

definition ensure_batch_transition_allowed ::
  "settlement_batch_state \<Rightarrow> settlement_batch_state \<Rightarrow> py_datetime \<Rightarrow> unit result" where
  "ensure_batch_transition_allowed current target at =
     (if current = target then Inr ()
      else if \<not> is_aware at then Inl (SettlementConflict ''settlement_timestamp_invalid'')
      else if target \<notin> set (ALLOWED_BATCH_TRANSITIONS current)
      then Inl (SettlementConflict ''settlement_transition_invalid'')
      else Inr ())"

definition batch_is_terminal :: "settlement_batch_state \<Rightarrow> bool" where
  "batch_is_terminal s \<longleftrightarrow> s \<in> {SB_READY_FOR_SETTLEMENT, SB_RESOLVED}"

section \<open>Financial holds\<close>

datatype financial_hold_state = FH_CREATED | FH_ACTIVE | FH_UNDER_REVIEW | FH_RELEASED
  | FH_ESCALATED | FH_EXPIRED | FH_CANCELLED

fun ALLOWED_HOLD_TRANSITIONS :: "financial_hold_state \<Rightarrow> financial_hold_state list" where
  "ALLOWED_HOLD_TRANSITIONS FH_CREATED = [FH_ACTIVE, FH_CANCELLED, FH_EXPIRED]"
| "ALLOWED_HOLD_TRANSITIONS FH_ACTIVE =
     [FH_UNDER_REVIEW, FH_RELEASED, FH_ESCALATED, FH_EXPIRED, FH_CANCELLED]"
| "ALLOWED_HOLD_TRANSITIONS FH_UNDER_REVIEW =
     [FH_ACTIVE, FH_RELEASED, FH_ESCALATED, FH_EXPIRED, FH_CANCELLED]"
| "ALLOWED_HOLD_TRANSITIONS FH_ESCALATED = [FH_UNDER_REVIEW, FH_RELEASED, FH_EXPIRED, FH_CANCELLED]"
| "ALLOWED_HOLD_TRANSITIONS FH_RELEASED = []"
| "ALLOWED_HOLD_TRANSITIONS FH_EXPIRED = []"
| "ALLOWED_HOLD_TRANSITIONS FH_CANCELLED = []"

definition ensure_hold_transition_allowed ::
  "financial_hold_state \<Rightarrow> financial_hold_state \<Rightarrow> py_datetime \<Rightarrow> unit result" where
  "ensure_hold_transition_allowed current target at =
     (if current = target then Inr ()
      else if \<not> is_aware at then Inl (FinancialHoldConflict ''financial_hold_timestamp_invalid'')
      else if target \<notin> set (ALLOWED_HOLD_TRANSITIONS current)
      then Inl (FinancialHoldConflict ''financial_hold_transition_invalid'')
      else Inr ())"

definition hold_is_terminal :: "financial_hold_state \<Rightarrow> bool" where
  "hold_is_terminal s \<longleftrightarrow> s \<in> {FH_RELEASED, FH_EXPIRED, FH_CANCELLED}"


section \<open>The engines keep the lifecycle contract\<close>

lemmas lifecycle_engine_defs =
  ensure_attempt_transition_allowed_def ensure_intent_transition_allowed_def attempt_is_terminal_def
  ensure_request_transition_allowed_def request_is_terminal_def
  ensure_batch_transition_allowed_def batch_is_terminal_def
  ensure_hold_transition_allowed_def hold_is_terminal_def

definition intent_is_closed :: "payment_intent_state \<Rightarrow> bool" where
  "intent_is_closed s \<longleftrightarrow> s \<noteq> PI_CREATED"

fun refund_rank :: "refund_request_state \<Rightarrow> nat" where
  "refund_rank RR_REQUESTED = 0"
| "refund_rank RR_UNDER_REVIEW = 1"
| "refund_rank RR_APPROVED = 2"
| "refund_rank RR_SCHEDULED = 3"
| "refund_rank RR_COMPLETED = 4"
| "refund_rank RR_REJECTED = 4"

fun settlement_rank :: "settlement_batch_state \<Rightarrow> nat" where
  "settlement_rank SB_CREATED = 0"
| "settlement_rank SB_COLLECTING = 1"
| "settlement_rank SB_RECONCILING = 2"
| "settlement_rank SB_BALANCED = 3"
| "settlement_rank SB_EXCEPTION = 3"
| "settlement_rank SB_MANUAL_REVIEW = 4"
| "settlement_rank SB_RESOLVED = 5"
| "settlement_rank SB_READY_FOR_SETTLEMENT = 5"

lemma attempt_table_empty_iff: "ALLOWED_ATTEMPT_TRANSITIONS s = [] \<longleftrightarrow> attempt_is_terminal s"
  by (cases s) (simp_all add: attempt_is_terminal_def)

lemma hold_table_empty_iff: "ALLOWED_HOLD_TRANSITIONS s = [] \<longleftrightarrow> hold_is_terminal s"
  by (cases s) (simp_all add: hold_is_terminal_def)

interpretation payment_attempt: exact_lifecycle ALLOWED_ATTEMPT_TRANSITIONS attempt_is_terminal
  by unfold_locales (simp_all add: attempt_table_empty_iff)

interpretation payment_attempt: guarded_lifecycle ALLOWED_ATTEMPT_TRANSITIONS attempt_is_terminal
  ensure_attempt_transition_allowed
  by unfold_locales (auto simp: ensure_attempt_transition_allowed_def allows_def)

interpretation payment_intent: ranked_lifecycle ALLOWED_INTENT_TRANSITIONS intent_is_closed
  "\<lambda>s. if s = PI_CREATED then 0 else 1" 1
proof unfold_locales
  fix s t
  show "intent_is_closed s \<Longrightarrow> ALLOWED_INTENT_TRANSITIONS s = []"
    and "ALLOWED_INTENT_TRANSITIONS s = [] \<Longrightarrow> intent_is_closed s"
    and "t \<in> set (ALLOWED_INTENT_TRANSITIONS s) \<Longrightarrow>
      (if s = PI_CREATED then 0 else 1) < (if t = PI_CREATED then 0 else (1::nat))"
    by (cases s; auto simp: intent_is_closed_def)+
qed simp

interpretation payment_intent: guarded_lifecycle ALLOWED_INTENT_TRANSITIONS intent_is_closed
  ensure_intent_transition_allowed
  by unfold_locales (auto simp: ensure_intent_transition_allowed_def allows_def)

interpretation refund_request: ranked_lifecycle ALLOWED_REQUEST_TRANSITIONS request_is_terminal
  refund_rank 4
proof unfold_locales
  fix s t
  show "request_is_terminal s \<Longrightarrow> ALLOWED_REQUEST_TRANSITIONS s = []"
    and "ALLOWED_REQUEST_TRANSITIONS s = [] \<Longrightarrow> request_is_terminal s"
    and "t \<in> set (ALLOWED_REQUEST_TRANSITIONS s) \<Longrightarrow> refund_rank s < refund_rank t"
    and "refund_rank s \<le> 4"
    by (cases s; auto simp: request_is_terminal_def)+
qed

interpretation refund_request: guarded_lifecycle ALLOWED_REQUEST_TRANSITIONS request_is_terminal
  ensure_request_transition_allowed
  by unfold_locales (auto simp: ensure_request_transition_allowed_def allows_def)

interpretation settlement_batch: ranked_lifecycle ALLOWED_BATCH_TRANSITIONS batch_is_terminal
  settlement_rank 5
proof unfold_locales
  fix s t
  show "batch_is_terminal s \<Longrightarrow> ALLOWED_BATCH_TRANSITIONS s = []"
    and "ALLOWED_BATCH_TRANSITIONS s = [] \<Longrightarrow> batch_is_terminal s"
    and "t \<in> set (ALLOWED_BATCH_TRANSITIONS s) \<Longrightarrow> settlement_rank s < settlement_rank t"
    and "settlement_rank s \<le> 5"
    by (cases s; auto simp: batch_is_terminal_def)+
qed

interpretation settlement_batch: guarded_lifecycle ALLOWED_BATCH_TRANSITIONS batch_is_terminal
  ensure_batch_transition_allowed
  by unfold_locales (auto simp: ensure_batch_transition_allowed_def allows_def)

interpretation financial_hold: exact_lifecycle ALLOWED_HOLD_TRANSITIONS hold_is_terminal
  by unfold_locales (simp_all add: hold_table_empty_iff)

interpretation financial_hold: guarded_lifecycle ALLOWED_HOLD_TRANSITIONS hold_is_terminal
  ensure_hold_transition_allowed
  by unfold_locales (auto simp: ensure_hold_transition_allowed_def allows_def)


section \<open>What the lifecycles guarantee\<close>

lemma refund_history_to_completed:
  assumes "legal_history ALLOWED_REQUEST_TRANSITIONS s h" and "final_state s h = RR_COMPLETED"
  shows "(s = RR_COMPLETED \<and> h = []) \<or> (s = RR_SCHEDULED \<and> h = [RR_COMPLETED]) \<or>
    (s = RR_APPROVED \<and> h = [RR_SCHEDULED, RR_COMPLETED]) \<or>
    (s = RR_UNDER_REVIEW \<and> h = [RR_APPROVED, RR_SCHEDULED, RR_COMPLETED]) \<or>
    (s = RR_REQUESTED \<and> h = [RR_UNDER_REVIEW, RR_APPROVED, RR_SCHEDULED, RR_COMPLETED])"
  using assms
proof (induction h arbitrary: s)
  case Nil
  then show ?case by simp
next
  case (Cons t h)
  then show ?case by (cases s) (auto simp: allows_def)
qed

lemma settlement_history_to_ready:
  assumes "legal_history ALLOWED_BATCH_TRANSITIONS s h" and "final_state s h = SB_READY_FOR_SETTLEMENT"
  shows "(SB_BALANCED \<in> set h \<or> s = SB_BALANCED \<or> s = SB_READY_FOR_SETTLEMENT) \<and>
    SB_EXCEPTION \<notin> set (s # h) \<and> SB_MANUAL_REVIEW \<notin> set (s # h) \<and> SB_RESOLVED \<notin> set (s # h)"
  using assms
proof (induction h arbitrary: s)
  case Nil
  then show ?case by simp
next
  case (Cons t h)
  then show ?case by (cases s) (auto simp: allows_def)
qed

lemma attempt_history_to_captured:
  assumes "legal_history ALLOWED_ATTEMPT_TRANSITIONS s h" and "final_state s h = PA_CAPTURED"
  shows "s = PA_CAPTURED \<or> PA_CAPTURE_PENDING \<in> set (s # h) \<or> PA_OUTCOME_UNKNOWN \<in> set (s # h)"
  using assms
proof (induction h arbitrary: s)
  case Nil
  then show ?case by simp
next
  case (Cons t h)
  then show ?case by (cases s) (auto simp: allows_def)
qed

text \<open>
  terminal financial states are final. Whatever sequence of transitions the guards of the payment
  attempt, payment intent, refund, settlement and hold engines accept, a record that is terminal at
  the start is in the same state at the end.
\<close>

theorem terminal_states_final:
  "(attempt_is_terminal a \<and> guarded_run ensure_attempt_transition_allowed a as = Inr a' \<longrightarrow> a' = a) \<and>
   (i \<noteq> PI_CREATED \<and> guarded_run ensure_intent_transition_allowed i is = Inr i' \<longrightarrow> i' = i) \<and>
   (request_is_terminal r \<and> guarded_run ensure_request_transition_allowed r rs = Inr r' \<longrightarrow> r' = r) \<and>
   (batch_is_terminal b \<and> guarded_run ensure_batch_transition_allowed b bs = Inr b' \<longrightarrow> b' = b) \<and>
   (hold_is_terminal h \<and> guarded_run ensure_hold_transition_allowed h hs = Inr h' \<longrightarrow> h' = h)"
  using payment_attempt.guarded_run_terminal payment_intent.guarded_run_terminal
    refund_request.guarded_run_terminal settlement_batch.guarded_run_terminal
    financial_hold.guarded_run_terminal
  by (auto simp: intent_is_closed_def)

theorem terminal_states_final_witness:
  "guarded_run ensure_attempt_transition_allowed PA_CAPTURED [(PA_CAPTURED, Naive 0)] = Inr PA_CAPTURED \<and>
   guarded_run ensure_attempt_transition_allowed PA_CAPTURED [(PA_FAILED, Aware 0)] \<noteq> Inr PA_FAILED"
proof -
  have t: "attempt_is_terminal PA_CAPTURED" by code_simp
  have "guarded_run ensure_attempt_transition_allowed PA_CAPTURED [(PA_CAPTURED, Naive 0)] =
    Inr PA_CAPTURED" by code_simp
  moreover have "guarded_run ensure_attempt_transition_allowed PA_CAPTURED [(PA_FAILED, Aware 0)] \<noteq>
      Inr PA_FAILED"
    using terminal_states_final [of PA_CAPTURED "[(PA_FAILED, Aware 0)]" PA_FAILED] t by auto
  ultimately show ?thesis ..
qed

text \<open>
  the order of the money-moving stages cannot be skipped. Up to repeated no-op steps, a request
  that is completed went through review, approval and scheduling in this order; a batch that became
  ready for settlement was balanced and never raised an exception; a captured attempt was pending
  capture or had an unknown outcome before.
\<close>

theorem stages_not_skipped:
  "(guarded_run ensure_request_transition_allowed RR_REQUESTED rs = Inr RR_COMPLETED \<longrightarrow>
      remdups_adj (RR_REQUESTED # map fst rs) =
        [RR_REQUESTED, RR_UNDER_REVIEW, RR_APPROVED, RR_SCHEDULED, RR_COMPLETED]) \<and>
   (guarded_run ensure_batch_transition_allowed SB_CREATED bs = Inr SB_READY_FOR_SETTLEMENT \<longrightarrow>
      SB_BALANCED \<in> fst ` set bs \<and> SB_EXCEPTION \<notin> fst ` set bs) \<and>
   (guarded_run ensure_attempt_transition_allowed PA_CREATED as = Inr PA_CAPTURED \<longrightarrow>
      PA_CAPTURE_PENDING \<in> fst ` set as \<or> PA_OUTCOME_UNKNOWN \<in> fst ` set as)"
proof (intro conjI impI)
  assume "guarded_run ensure_request_transition_allowed RR_REQUESTED rs = Inr RR_COMPLETED"
  from refund_request.guarded_run_history [OF this]
  have "tl (remdups_adj (RR_REQUESTED # map fst rs)) =
      [RR_UNDER_REVIEW, RR_APPROVED, RR_SCHEDULED, RR_COMPLETED]"
    using refund_history_to_completed [of RR_REQUESTED] by blast
  then show "remdups_adj (RR_REQUESTED # map fst rs) =
      [RR_REQUESTED, RR_UNDER_REVIEW, RR_APPROVED, RR_SCHEDULED, RR_COMPLETED]"
    by (metis remdups_adj_Cons_alt)
next
  assume "guarded_run ensure_batch_transition_allowed SB_CREATED bs = Inr SB_READY_FOR_SETTLEMENT"
  from settlement_batch.guarded_run_history [OF this]
  have h: "SB_BALANCED \<in> set (tl (remdups_adj (SB_CREATED # map fst bs))) \<and>
      SB_EXCEPTION \<notin> set (SB_CREATED # tl (remdups_adj (SB_CREATED # map fst bs)))"
    using settlement_history_to_ready [of SB_CREATED] by blast
  then show "SB_BALANCED \<in> fst ` set bs"
    using set_tl_remdups_adj [of SB_CREATED "map fst bs"] by auto
  show "SB_EXCEPTION \<notin> fst ` set bs" using h by simp
next
  assume "guarded_run ensure_attempt_transition_allowed PA_CREATED as = Inr PA_CAPTURED"
  from payment_attempt.guarded_run_history [OF this]
  have "PA_CAPTURE_PENDING \<in> set (PA_CREATED # tl (remdups_adj (PA_CREATED # map fst as))) \<or>
      PA_OUTCOME_UNKNOWN \<in> set (PA_CREATED # tl (remdups_adj (PA_CREATED # map fst as)))"
    using attempt_history_to_captured [of PA_CREATED] by blast
  then show "PA_CAPTURE_PENDING \<in> fst ` set as \<or> PA_OUTCOME_UNKNOWN \<in> fst ` set as"
    by simp
qed

theorem stages_not_skipped_witness:
  "let rs = [(RR_UNDER_REVIEW, Aware 1), (RR_UNDER_REVIEW, Naive 2), (RR_APPROVED, Aware 3),
      (RR_SCHEDULED, Aware 4), (RR_COMPLETED, Aware 5)] in
   guarded_run ensure_request_transition_allowed RR_REQUESTED rs = Inr RR_COMPLETED \<and>
   remdups_adj (RR_REQUESTED # map fst rs) =
     [RR_REQUESTED, RR_UNDER_REVIEW, RR_APPROVED, RR_SCHEDULED, RR_COMPLETED]"
proof -
  let ?rs = "[(RR_UNDER_REVIEW, Aware 1), (RR_UNDER_REVIEW, Naive 2), (RR_APPROVED, Aware 3),
      (RR_SCHEDULED, Aware 4), (RR_COMPLETED, Aware 5)]"
  have "guarded_run ensure_request_transition_allowed RR_REQUESTED ?rs = Inr RR_COMPLETED" by code_simp
  with stages_not_skipped [of ?rs "[]" "[]"] show ?thesis unfolding Let_def by blast
qed

end
