(* ===== verification/Idempotency.thy ===== *)
theory Idempotency
  imports Prelude
begin

text \<open>
  The idempotency tables of the financial repositories. Each repository keeps its own table with the
  primary key (actor, operation, key) and the same insert-or-compare code; the repositories' theories
  give the exception they raise. The locale states what a caller relies on; the interpretation at the end
  gives it for the shared code and every exception.
\<close>

record idempotency_row =
  ir_request_hash :: string
  ir_response_reference :: uuid
  ir_created_at :: instant

type_synonym idempotency_key = "uuid \<times> string \<times> string"
type_synonym idempotency_table = "(idempotency_key, idempotency_row) dict"

definition reserve_row ::
  "exn \<Rightarrow> idempotency_table \<Rightarrow> idempotency_key \<Rightarrow> string \<Rightarrow> uuid \<Rightarrow> instant \<Rightarrow>
   (idempotency_table \<times> uuid) result" where
  "reserve_row conflict table k request_hash response_reference at =
     (case dget table k of
        None \<Rightarrow> Inr (dset k \<lparr>ir_request_hash = request_hash,
            ir_response_reference = response_reference, ir_created_at = at\<rparr> table, response_reference)
      | Some row \<Rightarrow>
          if ir_request_hash row \<noteq> request_hash then Inl conflict
          else Inr (table, ir_response_reference row))"

definition idempotency_key_ok :: "string \<Rightarrow> bool" where
  "idempotency_key_ok key \<longleftrightarrow> length_between 16 128 key"

locale idempotency =
  fixes reserve :: "('k, idempotency_row) dict \<Rightarrow> 'k \<Rightarrow> string \<Rightarrow> uuid \<Rightarrow> instant \<Rightarrow>
      (('k, idempotency_row) dict \<times> uuid) result"
    and conflict :: exn
  assumes reserve_new: "dget t k = None \<Longrightarrow>
      \<exists>t'. reserve t k h ref at = Inr (t', ref) \<and>
        dget t' k = Some \<lparr>ir_request_hash = h, ir_response_reference = ref, ir_created_at = at\<rparr> \<and>
        (\<forall>k'. k' \<noteq> k \<longrightarrow> dget t' k' = dget t k')"
    and reserve_seen: "dget t k = Some row \<Longrightarrow>
      reserve t k h ref at =
        (if ir_request_hash row \<noteq> h then Inl conflict else Inr (t, ir_response_reference row))"
begin

lemma reserved_row:
  assumes "reserve t k h ref at = Inr (t', r)"
  shows "\<exists>row. dget t' k = Some row \<and> ir_request_hash row = h \<and> ir_response_reference row = r"
  using assms reserve_new [of t k h ref at] reserve_seen [of t k _ h ref at]
  by (cases "dget t k") (auto split: if_splits)

lemma rows_survive:
  assumes "reserve t k h ref at = Inr (t', r)" and "dget t k' = Some row"
  shows "dget t' k' = Some row"
  using assms reserve_new [of t k h ref at] reserve_seen [of t k _ h ref at]
  by (cases "dget t k"; cases "k' = k") (auto split: if_splits)

lemma replay_same_reference:
  assumes "reserve t k h ref at = Inr (t', r)"
  shows "reserve t' k h ref' at' = Inr (t', r)"
  using reserved_row [OF assms] by (auto simp: reserve_seen)

lemma replay_conflict:
  assumes "reserve t k h ref at = Inr (t', r)" and "h' \<noteq> h"
  shows "reserve t' k h' ref' at' = Inl conflict"
  using reserved_row [OF assms(1)] assms(2) by (auto simp: reserve_seen)

lemma other_rows:
  assumes "reserve t k h ref at = Inr (t', r)" and "k' \<noteq> k"
  shows "dget t' k' = dget t k'"
  using assms reserve_new [of t k h ref at] reserve_seen [of t k _ h ref at]
  by (cases "dget t k") (auto split: if_splits)

lemma all_references:
  assumes "reserve t k h ref at = Inr (t', r)" and "P r"
    and "\<And>k' row. dget t k' = Some row \<Longrightarrow> P (ir_response_reference row)"
    and "dget t' k' = Some row"
  shows "P (ir_response_reference row)"
  using assms reserved_row [OF assms(1)] other_rows [OF assms(1), of k'] by (cases "k' = k") auto

lemma reference_known_or_fresh:
  assumes "reserve t k h ref at = Inr (t', r)"
  shows "r = ref \<or> (\<exists>row. dget t k = Some row \<and> ir_response_reference row = r \<and> t' = t)"
  using assms reserve_new [of t k h ref at] reserve_seen [of t k _ h ref at]
  by (cases "dget t k") (auto split: if_splits)

end

text \<open>The shared table code keeps the contract, whatever exception a repository raises.\<close>

interpretation shared_table: idempotency "reserve_row e" e for e
  by unfold_locales (simp_all add: reserve_row_def)

end
