(* ===== verification/Wallet.thy ===== *)
theory Wallet
  imports Idempotency
begin

text \<open>
  The wallet: the balance rule of \<open>wallet/engine.py\<close>, the models of \<open>wallet/models.py\<close>, the tables and
  operations of \<open>persistence/wallet_repository.py\<close> and the event consumer of \<open>wallet/application.py\<close>.
  The database is the record \<open>wallet_db\<close>; every operation returns the new database or the exception
  that rolls the transaction back.
\<close>

section \<open>Models\<close>

datatype wallet_entry_type = PENDING_CREDIT | PENDING_RELEASE | PENDING_REVERSAL
  | AVAILABLE_CREDIT | AVAILABLE_DEBIT

datatype wallet_source_type = LEDGER_JOURNAL | PAYMENT_ATTEMPT | REFUND_REQUEST | SETTLEMENT_BATCH

record wallet_account =
  wa_wallet_account_id :: uuid
  wa_owner_identity_id :: uuid
  wa_currency :: string
  wa_available_minor :: minor
  wa_pending_minor :: minor
  wa_created_at :: instant
  wa_updated_at :: instant

record wallet_lineage_entry =
  wl_wallet_entry_id :: uuid
  wl_wallet_account_id :: uuid
  wl_authoritative_source_type :: wallet_source_type
  wl_authoritative_source_id :: uuid
  wl_entry_type :: wallet_entry_type
  wl_amount_minor :: minor
  wl_currency :: string
  wl_resulting_available_minor :: minor
  wl_resulting_pending_minor :: minor
  wl_reason_code :: string
  wl_recorded_by_identity_id :: uuid
  wl_recorded_at :: instant
  wl_correlation_id :: uuid
  wl_causation_id :: uuid

text \<open>A new account: the validators need an aware timestamp; the two stamps are equal.\<close>

definition new_wallet_account :: "uuid \<Rightarrow> uuid \<Rightarrow> py_datetime \<Rightarrow> wallet_account result" where
  "new_wallet_account account_id owner at =
     (if \<not> is_aware at then Inl (ValidationError ''Wallet timestamps must be timezone-aware'')
      else Inr \<lparr>wa_wallet_account_id = account_id, wa_owner_identity_id = owner, wa_currency = ''ETB'',
        wa_available_minor = 0, wa_pending_minor = 0,
        wa_created_at = instant_of at, wa_updated_at = instant_of at\<rparr>)"

definition valid_lineage_entry :: "wallet_lineage_entry \<Rightarrow> wallet_lineage_entry result" where
  "valid_lineage_entry e =
     (if minor_ok (wl_amount_minor e) \<and> currency_pattern (wl_currency e) \<and>
         minor_ok (wl_resulting_available_minor e) \<and> minor_ok (wl_resulting_pending_minor e) \<and>
         code_pattern 2 (wl_reason_code e)
      then Inr e else Inl (ValidationError ''WalletLineageEntry''))"

section \<open>The balance rule\<close>

definition apply_wallet_entry ::
  "int \<Rightarrow> int \<Rightarrow> wallet_entry_type \<Rightarrow> int \<Rightarrow> py_datetime \<Rightarrow> (int \<times> int) result" where
  "apply_wallet_entry available_minor pending_minor entry_type amount_minor at =
     (if \<not> is_aware at then Inl (WalletConflict ''wallet_timestamp_invalid'')
      else if amount_minor < 0 then Inl (WalletConflict ''wallet_amount_invalid'')
      else
        bind_result
          (case entry_type of
             PENDING_CREDIT \<Rightarrow> Inr (available_minor, pending_minor + amount_minor)
           | PENDING_RELEASE \<Rightarrow>
               if pending_minor < amount_minor then Inl (WalletConflict ''wallet_pending_insufficient'')
               else Inr (available_minor + amount_minor, pending_minor - amount_minor)
           | PENDING_REVERSAL \<Rightarrow>
               if pending_minor < amount_minor then Inl (WalletConflict ''wallet_pending_insufficient'')
               else Inr (available_minor, pending_minor - amount_minor)
           | AVAILABLE_CREDIT \<Rightarrow> Inr (available_minor + amount_minor, pending_minor)
           | AVAILABLE_DEBIT \<Rightarrow>
               if available_minor < amount_minor then Inl (WalletConflict ''wallet_available_insufficient'')
               else Inr (available_minor - amount_minor, pending_minor))
          (\<lambda>(a, p). if a < 0 \<or> p < 0 then Inl (WalletConflict ''wallet_balance_negative'') else Inr (a, p)))"

section \<open>The tables\<close>

record wallet_event =
  we_aggregate_id :: uuid
  we_event_type :: string
  we_safe_payload :: payload
  we_lineage_entry :: wallet_lineage_entry
  we_occurred_at :: instant
  we_correlation_id :: uuid
  we_causation_id :: uuid

record wallet_message =
  wm_event_type :: string
  wm_safe_payload :: payload
  wm_occurred_at :: instant
  wm_available_at :: instant
  wm_attempt_count :: nat

record wallet_db =
  wd_accounts :: "(uuid, wallet_account) dict"
  wd_lineage :: "(uuid, wallet_lineage_entry) dict"
  wd_idempotency :: idempotency_table
  wd_events :: "wallet_event list"
  wd_outbox :: "wallet_message list"

fun entry_type_value :: "wallet_entry_type \<Rightarrow> string" where
  "entry_type_value PENDING_CREDIT = ''pending_credit''"
| "entry_type_value PENDING_RELEASE = ''pending_release''"
| "entry_type_value PENDING_REVERSAL = ''pending_reversal''"
| "entry_type_value AVAILABLE_CREDIT = ''available_credit''"
| "entry_type_value AVAILABLE_DEBIT = ''available_debit''"

fun source_type_value :: "wallet_source_type \<Rightarrow> string" where
  "source_type_value LEDGER_JOURNAL = ''ledger_journal''"
| "source_type_value PAYMENT_ATTEMPT = ''payment_attempt''"
| "source_type_value REFUND_REQUEST = ''refund_request''"
| "source_type_value SETTLEMENT_BATCH = ''settlement_batch''"

definition wallet_reserve_idempotency ::
  "(payload \<Rightarrow> string) \<Rightarrow> wallet_db \<Rightarrow> uuid \<Rightarrow> string \<Rightarrow> string \<Rightarrow> payload \<Rightarrow> uuid \<Rightarrow> instant \<Rightarrow>
   (wallet_db \<times> uuid) result" where
  "wallet_reserve_idempotency digest db actor_id operation key payload response_reference at =
     bind_result
       (reserve_row (WalletConflict ''idempotency_conflict'') (wd_idempotency db)
          (actor_id, operation, key) (digest payload) response_reference at)
       (\<lambda>(table, reference). Inr (db\<lparr>wd_idempotency := table\<rparr>, reference))"

definition get_account_by_owner :: "wallet_db \<Rightarrow> uuid \<Rightarrow> wallet_account option" where
  "get_account_by_owner db owner = find (\<lambda>a. wa_owner_identity_id a = owner) (dvalues (wd_accounts db))"

definition get_or_create_account ::
  "(uuid \<Rightarrow> bool) \<Rightarrow> wallet_db \<Rightarrow> uuid \<Rightarrow> uuid \<Rightarrow> py_datetime \<Rightarrow> (wallet_db \<times> wallet_account) result" where
  \<comment> \<open>\<open>fresh_id\<close> is the identifier drawn by \<open>uuid4\<close>; the owner is a foreign key\<close>
  "get_or_create_account identity_exists db owner fresh_id at =
     (case get_account_by_owner db owner of
        Some existing \<Rightarrow> Inr (db, existing)
      | None \<Rightarrow>
          bind_result (new_wallet_account fresh_id owner at) (\<lambda>created.
          if dget (wd_accounts db) fresh_id \<noteq> None
          then Inl (WalletConflict ''wallet_account_not_found'')
          else if \<not> identity_exists owner then Inl (IntegrityError ''wallet_accounts.owner_identity_id'')
          else Inr (db\<lparr>wd_accounts := dset fresh_id created (wd_accounts db)\<rparr>, created)))"

definition get_lineage_entry :: "wallet_db \<Rightarrow> uuid \<Rightarrow> wallet_lineage_entry option" where
  "get_lineage_entry db entry_id = dget (wd_lineage db) entry_id"

definition wallet_event_of :: "wallet_lineage_entry \<Rightarrow> wallet_event" where
  "wallet_event_of e =
     \<lparr>we_aggregate_id = wl_wallet_account_id e,
      we_event_type = ''wallet.'' @ entry_type_value (wl_entry_type e),
      we_safe_payload =
        [(''wallet_account_id'', JUuid (wl_wallet_account_id e)),
         (''wallet_entry_id'', JUuid (wl_wallet_entry_id e)),
         (''authoritative_source_type'', JStr (source_type_value (wl_authoritative_source_type e))),
         (''authoritative_source_id'', JUuid (wl_authoritative_source_id e)),
         (''entry_type'', JStr (entry_type_value (wl_entry_type e))),
         (''amount_minor'', JInt (wl_amount_minor e)),
         (''currency'', JStr (wl_currency e))],
      we_lineage_entry = e,
      we_occurred_at = wl_recorded_at e,
      we_correlation_id = wl_correlation_id e,
      we_causation_id = wl_causation_id e\<rparr>"

definition wallet_message_of :: "wallet_lineage_entry \<Rightarrow> wallet_message" where
  "wallet_message_of e =
     \<lparr>wm_event_type = ''wallet.'' @ entry_type_value (wl_entry_type e),
      wm_safe_payload =
        [(''wallet_account_id'', JUuid (wl_wallet_account_id e)),
         (''wallet_entry_id'', JUuid (wl_wallet_entry_id e)),
         (''entry_type'', JStr (entry_type_value (wl_entry_type e)))],
      wm_occurred_at = wl_recorded_at e,
      wm_available_at = wl_recorded_at e,
      wm_attempt_count = 0\<rparr>"

definition append_lineage_entry :: "wallet_db \<Rightarrow> wallet_lineage_entry \<Rightarrow> (wallet_db \<times> wallet_account) result" where
  "append_lineage_entry db e =
     (case dget (wd_accounts db) (wl_wallet_account_id e) of
        None \<Rightarrow> Inl (WalletConflict ''wallet_account_not_found'')
      | Some account \<Rightarrow>
          if dget (wd_lineage db) (wl_wallet_entry_id e) \<noteq> None
          then Inl (IntegrityError ''wallet_lineage_entries.wallet_entry_id'')
          else if wl_recorded_at e < wa_created_at account
          then Inl (IntegrityError ''wallet_account_updated_after_create'')
          else
            (let updated = account\<lparr>wa_available_minor := wl_resulting_available_minor e,
                   wa_pending_minor := wl_resulting_pending_minor e,
                   wa_updated_at := wl_recorded_at e\<rparr>
             in Inr (db\<lparr>wd_lineage := dset (wl_wallet_entry_id e) e (wd_lineage db),
                        wd_accounts := dset (wl_wallet_account_id e) updated (wd_accounts db),
                        wd_events := wd_events db @ [wallet_event_of e],
                        wd_outbox := wd_outbox db @ [wallet_message_of e]\<rparr>, updated)))"

text \<open>\<open>list_lineage\<close> orders by recording time and then by entry identifier.\<close>

definition list_lineage :: "wallet_db \<Rightarrow> uuid \<Rightarrow> wallet_lineage_entry list" where
  "list_lineage db account_id =
     sort_key (\<lambda>e. (wl_recorded_at e, wl_wallet_entry_id e))
       (filter (\<lambda>e. wl_wallet_account_id e = account_id) (dvalues (wd_lineage db)))"

section \<open>Consuming an authoritative event\<close>

text \<open>What the consumer reads of the other components: permissions, identities and sources.\<close>

record wallet_environment =
  wv_has_permission :: "uuid \<Rightarrow> string \<Rightarrow> bool"
  wv_identity_exists :: "uuid \<Rightarrow> bool"
  wv_get_journal :: "uuid \<Rightarrow> bool"
  wv_get_attempt :: "uuid \<Rightarrow> bool"
  wv_get_request :: "uuid \<Rightarrow> bool"
  wv_get_batch :: "uuid \<Rightarrow> bool"
  wv_digest :: "payload \<Rightarrow> string"

record wallet_request =
  wq_subject_id :: uuid
  wq_subject_type :: identity_type
  wq_owner_identity_id :: uuid
  wq_authoritative_source_type :: wallet_source_type
  wq_authoritative_source_id :: uuid
  wq_entry_type :: wallet_entry_type
  wq_amount_minor :: int
  wq_reason_code :: string
  wq_idempotency_key :: string
  wq_correlation_id :: uuid
  wq_causation_id :: uuid
  wq_at :: py_datetime

definition assert_authoritative_source_exists ::
  "wallet_environment \<Rightarrow> wallet_source_type \<Rightarrow> uuid \<Rightarrow> unit result" where
  "assert_authoritative_source_exists env source_type source_id =
     ensure (case source_type of
               LEDGER_JOURNAL \<Rightarrow> wv_get_journal env source_id
             | PAYMENT_ATTEMPT \<Rightarrow> wv_get_attempt env source_id
             | REFUND_REQUEST \<Rightarrow> wv_get_request env source_id
             | SETTLEMENT_BATCH \<Rightarrow> wv_get_batch env source_id)
       (WalletConflict ''wallet_authoritative_source_not_found'')"

definition consume_payload :: "wallet_request \<Rightarrow> payload" where
  "consume_payload q =
     [(''owner_identity_id'', JUuid (wq_owner_identity_id q)),
      (''authoritative_source_type'', JStr (source_type_value (wq_authoritative_source_type q))),
      (''authoritative_source_id'', JUuid (wq_authoritative_source_id q)),
      (''entry_type'', JStr (entry_type_value (wq_entry_type q))),
      (''amount_minor'', JIntStr (wq_amount_minor q)),
      (''reason_code'', JStr (wq_reason_code q))]"

definition lineage_entry_of ::
  "wallet_request \<Rightarrow> uuid \<Rightarrow> uuid \<Rightarrow> int \<Rightarrow> int \<Rightarrow> wallet_lineage_entry" where
  "lineage_entry_of q entry_id account_id next_available next_pending =
     \<lparr>wl_wallet_entry_id = entry_id,
      wl_wallet_account_id = account_id,
      wl_authoritative_source_type = wq_authoritative_source_type q,
      wl_authoritative_source_id = wq_authoritative_source_id q,
      wl_entry_type = wq_entry_type q,
      wl_amount_minor = wq_amount_minor q,
      wl_currency = ''ETB'',
      wl_resulting_available_minor = next_available,
      wl_resulting_pending_minor = next_pending,
      wl_reason_code = wq_reason_code q,
      wl_recorded_by_identity_id = wq_subject_id q,
      wl_recorded_at = instant_of (wq_at q),
      wl_correlation_id = wq_correlation_id q,
      wl_causation_id = wq_causation_id q\<rparr>"

definition consume_authoritative_event ::
  "wallet_environment \<Rightarrow> wallet_db \<Rightarrow> wallet_request \<Rightarrow> uuid \<Rightarrow> uuid \<Rightarrow> (wallet_db \<times> wallet_account) result" where
  \<comment> \<open>\<open>fresh_account_id\<close> and \<open>candidate_id\<close> are the identifiers drawn by \<open>uuid4\<close>\<close>
  "consume_authoritative_event env db0 q fresh_account_id candidate_id =
     (if \<not> wv_has_permission env (wq_subject_id q) ''wallet.event.consume''
      then Inl (WalletConflict ''access_denied'')
      else if wq_subject_type q \<noteq> ID_SERVICE
      then Inl (WalletConflict ''wallet_service_identity_required'')
      else if \<not> idempotency_key_ok (wq_idempotency_key q)
      then Inl (WalletConflict ''idempotency_key_invalid'')
      else
        bind_result (get_or_create_account (wv_identity_exists env) db0 (wq_owner_identity_id q)
            fresh_account_id (wq_at q)) (\<lambda>(db1, _).
        bind_result (wallet_reserve_idempotency (wv_digest env) db1 (wq_subject_id q)
            ''wallet.event.consume'' (wq_idempotency_key q) (consume_payload q) candidate_id
            (instant_of (wq_at q))) (\<lambda>(db2, canonical).
        case get_lineage_entry db2 canonical of
          Some _ \<Rightarrow>
            (case get_account_by_owner db2 (wq_owner_identity_id q) of
               None \<Rightarrow> Inl (WalletConflict ''wallet_account_not_found'')
             | Some replay \<Rightarrow> Inr (db2, replay))
        | None \<Rightarrow>
            bind_result (assert_authoritative_source_exists env
                (wq_authoritative_source_type q) (wq_authoritative_source_id q)) (\<lambda>_.
            case get_account_by_owner db2 (wq_owner_identity_id q) of
              None \<Rightarrow> Inl (WalletConflict ''wallet_account_not_found'')
            | Some locked \<Rightarrow>
                if wa_currency locked \<noteq> ''ETB''
                then Inl (WalletConflict ''wallet_currency_not_supported'')
                else
                  bind_result (apply_wallet_entry (wa_available_minor locked) (wa_pending_minor locked)
                      (wq_entry_type q) (wq_amount_minor q) (wq_at q)) (\<lambda>(next_available, next_pending).
                  bind_result (valid_lineage_entry (lineage_entry_of q canonical
                      (wa_wallet_account_id locked) next_available next_pending)) (\<lambda>entry.
                  append_lineage_entry db2 entry))))))"


section \<open>The balance rule as signed deltas\<close>

fun entry_delta :: "wallet_entry_type \<Rightarrow> int \<Rightarrow> int \<times> int" where
  "entry_delta PENDING_CREDIT n = (0, n)"
| "entry_delta PENDING_RELEASE n = (n, - n)"
| "entry_delta PENDING_REVERSAL n = (0, - n)"
| "entry_delta AVAILABLE_CREDIT n = (n, 0)"
| "entry_delta AVAILABLE_DEBIT n = (- n, 0)"

lemma apply_wallet_entry_Inr_iff:
  "apply_wallet_entry a p t n at = Inr r \<longleftrightarrow>
     is_aware at \<and> 0 \<le> n \<and> r = (a + fst (entry_delta t n), p + snd (entry_delta t n)) \<and>
     0 \<le> fst r \<and> 0 \<le> snd r \<and>
     (t \<in> {PENDING_RELEASE, PENDING_REVERSAL} \<longrightarrow> n \<le> p) \<and> (t = AVAILABLE_DEBIT \<longrightarrow> n \<le> a)"
  by (cases t) (auto simp: apply_wallet_entry_def bind_result_eq_Inr)

text \<open>Replaying entries from a balance; it fails where an entry does not record the running balance.\<close>

fun replay :: "int \<times> int \<Rightarrow> wallet_lineage_entry list \<Rightarrow> (int \<times> int) option" where
  "replay bal [] = Some bal"
| "replay bal (e # es) =
     (let bal' = (fst bal + fst (entry_delta (wl_entry_type e) (wl_amount_minor e)),
                  snd bal + snd (entry_delta (wl_entry_type e) (wl_amount_minor e)))
      in if bal' = (wl_resulting_available_minor e, wl_resulting_pending_minor e) \<and>
            minor_ok (fst bal') \<and> minor_ok (snd bal') \<and> minor_ok (wl_amount_minor e)
         then replay bal' es else None)"

lemma replay_append: "replay bal (xs @ ys) = (case replay bal xs of None \<Rightarrow> None | Some b \<Rightarrow> replay b ys)"
  by (induction bal xs rule: replay.induct) (auto simp: Let_def split: option.splits)

definition account_lineage :: "wallet_db \<Rightarrow> uuid \<Rightarrow> wallet_lineage_entry list" where
  \<comment> \<open>the entries of an account in the order of their commits\<close>
  "account_lineage db account_id =
     filter (\<lambda>e. wl_wallet_account_id e = account_id) (dvalues (wd_lineage db))"

definition account_ok :: "wallet_db \<Rightarrow> wallet_account \<Rightarrow> bool" where
  "account_ok db a \<longleftrightarrow>
     wa_currency a = ''ETB'' \<and> minor_ok (wa_available_minor a) \<and> minor_ok (wa_pending_minor a) \<and>
     wa_created_at a \<le> wa_updated_at a \<and>
     replay (0, 0) (account_lineage db (wa_wallet_account_id a)) =
       Some (wa_available_minor a, wa_pending_minor a)"

definition wallet_inv :: "wallet_db \<Rightarrow> bool" where
  "wallet_inv db \<longleftrightarrow>
     dict_ok (wd_accounts db) \<and> dict_ok (wd_lineage db) \<and>
     (\<forall>k a. dget (wd_accounts db) k = Some a \<longrightarrow> wa_wallet_account_id a = k \<and> account_ok db a) \<and>
     distinct (map wa_owner_identity_id (dvalues (wd_accounts db))) \<and>
     (\<forall>k e. dget (wd_lineage db) k = Some e \<longrightarrow>
        wl_wallet_entry_id e = k \<and> dget (wd_accounts db) (wl_wallet_account_id e) \<noteq> None) \<and>
     (\<forall>k row. dget (wd_idempotency db) k = Some row \<longrightarrow>
        dget (wd_lineage db) (ir_response_reference row) \<noteq> None) \<and>
     map we_lineage_entry (wd_events db) = dvalues (wd_lineage db) \<and>
     wd_outbox db = map wallet_message_of (dvalues (wd_lineage db))"

definition empty_wallet_db :: wallet_db where
  "empty_wallet_db = \<lparr>wd_accounts = [], wd_lineage = [], wd_idempotency = [], wd_events = [], wd_outbox = []\<rparr>"

lemma wallet_inv_empty: "wallet_inv empty_wallet_db"
  by (simp add: wallet_inv_def empty_wallet_db_def dvalues_def)

lemma get_account_by_owner_SomeD:
  assumes "get_account_by_owner db owner = Some a" and "wallet_inv db"
  shows "dget (wd_accounts db) (wa_wallet_account_id a) = Some a" and "wa_owner_identity_id a = owner"
    and "account_ok db a"
proof -
  have a: "a \<in> set (dvalues (wd_accounts db))" and o: "wa_owner_identity_id a = owner"
    using assms(1) by (auto simp: get_account_by_owner_def dest: find_Some_in)
  then obtain k where "dget (wd_accounts db) k = Some a"
    using assms(2) by (auto simp: wallet_inv_def in_dvalues_iff)
  with assms(2) o show "dget (wd_accounts db) (wa_wallet_account_id a) = Some a"
    and "wa_owner_identity_id a = owner" and "account_ok db a"
    by (auto simp: wallet_inv_def)
qed

lemma account_lineage_unused:
  assumes "wallet_inv db" and "dget (wd_accounts db) k = None"
  shows "account_lineage db k = []"
proof -
  have "wl_wallet_account_id e \<noteq> k" if "e \<in> set (dvalues (wd_lineage db))" for e
    using assms that unfolding wallet_inv_def by (metis in_dvalues_iff)
  then show ?thesis by (simp add: account_lineage_def filter_empty_conv)
qed

lemma get_or_create_account_inv:
  assumes "get_or_create_account ident db owner fresh at = Inr (db', a)" and "wallet_inv db"
  shows "wallet_inv db'" and "get_account_by_owner db' owner = Some a"
    and "wd_lineage db' = wd_lineage db" and "wd_idempotency db' = wd_idempotency db"
proof -
  have "wallet_inv db' \<and> get_account_by_owner db' owner = Some a \<and>
    wd_lineage db' = wd_lineage db \<and> wd_idempotency db' = wd_idempotency db"
  proof (cases "get_account_by_owner db owner")
    case (Some x)
    then show ?thesis using assms by (simp add: get_or_create_account_def)
  next
    case None
    then have new: "dget (wd_accounts db) fresh = None"
      and a: "a = \<lparr>wa_wallet_account_id = fresh, wa_owner_identity_id = owner, wa_currency = ''ETB'',
        wa_available_minor = 0, wa_pending_minor = 0, wa_created_at = instant_of at,
        wa_updated_at = instant_of at\<rparr>"
      and db': "db' = db\<lparr>wd_accounts := dset fresh a (wd_accounts db)\<rparr>"
      using assms(1)
      by (auto simp: get_or_create_account_def new_wallet_account_def bind_result_eq_Inr split: if_splits)
    have others: "wa_owner_identity_id x \<noteq> owner" if "x \<in> set (dvalues (wd_accounts db))" for x
      using None that by (auto simp: get_account_by_owner_def find_None_iff)
    have vals: "dvalues (dset fresh a (wd_accounts db)) = dvalues (wd_accounts db) @ [a]"
      using new by (rule dvalues_dset_new)
    have fields: "wa_wallet_account_id a = fresh" "wa_owner_identity_id a = owner"
      "wa_currency a = ''ETB''" "wa_available_minor a = 0" "wa_pending_minor a = 0"
      "wa_created_at a = wa_updated_at a"
      by (simp_all add: a)
    have "get_account_by_owner db' owner = Some a"
      using None by (simp add: get_account_by_owner_def db' vals find_append fields)
    moreover have lin: "account_lineage db' = account_lineage db"
      by (simp add: fun_eq_iff account_lineage_def db')
    moreover have "wallet_inv db'"
      using assms(2) new others account_lineage_unused [OF assms(2) new] lin
      unfolding wallet_inv_def account_ok_def
      by (auto simp: db' vals fields)
    ultimately show ?thesis by (simp add: db')
  qed
  then show "wallet_inv db'" and "get_account_by_owner db' owner = Some a"
    and "wd_lineage db' = wd_lineage db" and "wd_idempotency db' = wd_idempotency db" by blast+
qed


lemma wallet_reserve_idempotency_Inr:
  assumes "wallet_reserve_idempotency digest db actor op key pl ref at = Inr (db', r)"
  obtains t where "db' = db\<lparr>wd_idempotency := t\<rparr>"
    and "reserve_row (WalletConflict ''idempotency_conflict'') (wd_idempotency db) (actor, op, key)
      (digest pl) ref at = Inr (t, r)"
  using assms by (auto simp: wallet_reserve_idempotency_def bind_result_eq_Inr)

text \<open>Appending an entry that continues the balance of its account keeps every account's replay.\<close>

lemma append_lineage_entry_accounts:
  assumes "append_lineage_entry db e = Inr (db', a')"
  shows "\<exists>a. dget (wd_accounts db) (wl_wallet_account_id e) = Some a \<and>
    dget (wd_lineage db) (wl_wallet_entry_id e) = None \<and> wa_created_at a \<le> wl_recorded_at e \<and>
    a' = a\<lparr>wa_available_minor := wl_resulting_available_minor e,
      wa_pending_minor := wl_resulting_pending_minor e, wa_updated_at := wl_recorded_at e\<rparr> \<and>
    db' = db\<lparr>wd_lineage := dset (wl_wallet_entry_id e) e (wd_lineage db),
      wd_accounts := dset (wl_wallet_account_id e) a' (wd_accounts db),
      wd_events := wd_events db @ [wallet_event_of e],
      wd_outbox := wd_outbox db @ [wallet_message_of e]\<rparr>"
  using assms by (auto simp: append_lineage_entry_def Let_def split: option.splits if_splits)

lemma account_lineage_append:
  assumes "dget (wd_lineage db) k = None"
  shows "account_lineage (db\<lparr>wd_lineage := dset k e (wd_lineage db), wd_accounts := acc,
      wd_events := ev, wd_outbox := ob\<rparr>) acc_id =
    account_lineage db acc_id @ (if wl_wallet_account_id e = acc_id then [e] else [])"
  using assms by (simp add: account_lineage_def dvalues_dset_new)

definition continues :: "wallet_account \<Rightarrow> wallet_lineage_entry \<Rightarrow> bool" where
  "continues a e \<longleftrightarrow>
     wl_resulting_available_minor e =
       wa_available_minor a + fst (entry_delta (wl_entry_type e) (wl_amount_minor e)) \<and>
     wl_resulting_pending_minor e =
       wa_pending_minor a + snd (entry_delta (wl_entry_type e) (wl_amount_minor e)) \<and>
     minor_ok (wl_resulting_available_minor e) \<and> minor_ok (wl_resulting_pending_minor e) \<and>
     minor_ok (wl_amount_minor e)"

lemma account_ok_idempotency [simp]: "account_ok (db\<lparr>wd_idempotency := t\<rparr>) = account_ok db"
  by (simp add: fun_eq_iff account_ok_def account_lineage_def)

text \<open>The invariant without the clause on idempotency rows, which holds only after the append.\<close>

definition wallet_core_inv :: "wallet_db \<Rightarrow> bool" where
  "wallet_core_inv db \<longleftrightarrow> wallet_inv (db\<lparr>wd_idempotency := []\<rparr>)"

lemma wallet_inv_core:
  "wallet_inv db \<longleftrightarrow> wallet_core_inv db \<and>
     (\<forall>k row. dget (wd_idempotency db) k = Some row \<longrightarrow>
        dget (wd_lineage db) (ir_response_reference row) \<noteq> None)"
  by (auto simp: wallet_inv_def wallet_core_inv_def)

lemma wallet_core_inv_idempotency [simp]:
  "wallet_core_inv (db\<lparr>wd_idempotency := t\<rparr>) \<longleftrightarrow> wallet_core_inv db"
  by (simp add: wallet_core_inv_def)

lemma append_lineage_entry_inv:
  assumes "append_lineage_entry db e = Inr (db', a')" and "wallet_core_inv db"
    and "\<And>a. dget (wd_accounts db) (wl_wallet_account_id e) = Some a \<Longrightarrow> continues a e"
  shows "wallet_core_inv db'"
proof -
  obtain a where a: "dget (wd_accounts db) (wl_wallet_account_id e) = Some a"
    and new: "dget (wd_lineage db) (wl_wallet_entry_id e) = None"
    and time: "wa_created_at a \<le> wl_recorded_at e"
    and a': "a' = a\<lparr>wa_available_minor := wl_resulting_available_minor e,
      wa_pending_minor := wl_resulting_pending_minor e, wa_updated_at := wl_recorded_at e\<rparr>"
    and db': "db' = db\<lparr>wd_lineage := dset (wl_wallet_entry_id e) e (wd_lineage db),
      wd_accounts := dset (wl_wallet_account_id e) a' (wd_accounts db),
      wd_events := wd_events db @ [wallet_event_of e],
      wd_outbox := wd_outbox db @ [wallet_message_of e]\<rparr>"
    using append_lineage_entry_accounts [OF assms(1)] by blast
  have cont: "continues a e" using assms(3) a by blast
  have keys: "wa_wallet_account_id a = wl_wallet_account_id e"
    and ok: "account_ok db a"
    using assms(2) a by (auto simp: wallet_core_inv_def wallet_inv_def)
  have lin: "account_lineage db' acc_id =
      account_lineage db acc_id @ (if wl_wallet_account_id e = acc_id then [e] else [])" for acc_id
    unfolding db' using new by (rule account_lineage_append)
  have fields: "wa_wallet_account_id a' = wl_wallet_account_id e" "wa_currency a' = wa_currency a"
    "wa_owner_identity_id a' = wa_owner_identity_id a" "wa_created_at a' = wa_created_at a"
    "wa_updated_at a' = wl_recorded_at e" "wa_available_minor a' = wl_resulting_available_minor e"
    "wa_pending_minor a' = wl_resulting_pending_minor e"
    by (simp_all add: a' keys)
  have a'_ok: "account_ok db' a'"
    using ok cont time unfolding account_ok_def lin fields keys
    by (simp add: replay_append continues_def)
  have others: "account_ok db' x" if "dget (wd_accounts db) k = Some x" "k \<noteq> wl_wallet_account_id e" for k x
  proof -
    have "account_ok db x" "wa_wallet_account_id x = k"
      using that(1) assms(2) by (auto simp: wallet_core_inv_def wallet_inv_def)
    with that(2) show ?thesis by (simp add: account_ok_def lin)
  qed
  have owners: "map wa_owner_identity_id (dvalues (dset (wl_wallet_account_id e) a' (wd_accounts db))) =
      map wa_owner_identity_id (dvalues (wd_accounts db))"
    using a by (rule map_dvalues_dset_same) (rule fields(3))
  have lines: "dvalues (dset (wl_wallet_entry_id e) e (wd_lineage db)) = dvalues (wd_lineage db) @ [e]"
    using new by (rule dvalues_dset_new)
  show ?thesis
    using assms(2) a'_ok others
    unfolding wallet_core_inv_def wallet_inv_def account_ok_idempotency
    by (auto simp: db' owners lines fields wallet_event_of_def)
qed


section \<open>Every committed event keeps the invariant\<close>

lemma get_account_by_owner_idempotency [simp]:
  "get_account_by_owner (db\<lparr>wd_idempotency := t\<rparr>) = get_account_by_owner db"
  by (simp add: fun_eq_iff get_account_by_owner_def)

text \<open>The two ways a call can commit: the replay of a known event, or one appended entry.\<close>

lemma consume_cases:
  assumes "consume_authoritative_event env db q fresh cand = Inr (db', acc)" and "wallet_inv db"
  obtains (replayed) db1 a1 t canonical e where
      "get_or_create_account (wv_identity_exists env) db (wq_owner_identity_id q) fresh (wq_at q) = Inr (db1, a1)"
      "reserve_row (WalletConflict ''idempotency_conflict'') (wd_idempotency db1)
         (wq_subject_id q, ''wallet.event.consume'', wq_idempotency_key q)
         (wv_digest env (consume_payload q)) cand (instant_of (wq_at q)) = Inr (t, canonical)"
      "dget (wd_lineage db1) canonical = Some e" "db' = db1\<lparr>wd_idempotency := t\<rparr>" "acc = a1"
    | (appended) db1 a1 t canonical na np where
      "get_or_create_account (wv_identity_exists env) db (wq_owner_identity_id q) fresh (wq_at q) = Inr (db1, a1)"
      "reserve_row (WalletConflict ''idempotency_conflict'') (wd_idempotency db1)
         (wq_subject_id q, ''wallet.event.consume'', wq_idempotency_key q)
         (wv_digest env (consume_payload q)) cand (instant_of (wq_at q)) = Inr (t, canonical)"
      "dget (wd_lineage db1) canonical = None"
      "apply_wallet_entry (wa_available_minor a1) (wa_pending_minor a1) (wq_entry_type q)
         (wq_amount_minor q) (wq_at q) = Inr (na, np)"
      "valid_lineage_entry (lineage_entry_of q canonical (wa_wallet_account_id a1) na np) =
         Inr (lineage_entry_of q canonical (wa_wallet_account_id a1) na np)"
      "append_lineage_entry (db1\<lparr>wd_idempotency := t\<rparr>)
         (lineage_entry_of q canonical (wa_wallet_account_id a1) na np) = Inr (db', acc)"
proof -
  obtain db1 a1 db2 canonical where
    g: "get_or_create_account (wv_identity_exists env) db (wq_owner_identity_id q) fresh (wq_at q) = Inr (db1, a1)"
    and r: "wallet_reserve_idempotency (wv_digest env) db1 (wq_subject_id q) ''wallet.event.consume''
        (wq_idempotency_key q) (consume_payload q) cand (instant_of (wq_at q)) = Inr (db2, canonical)"
    using assms(1) by (auto simp: consume_authoritative_event_def bind_result_eq_Inr split: if_splits)
  obtain t where db2: "db2 = db1\<lparr>wd_idempotency := t\<rparr>"
    and row: "reserve_row (WalletConflict ''idempotency_conflict'') (wd_idempotency db1)
         (wq_subject_id q, ''wallet.event.consume'', wq_idempotency_key q)
         (wv_digest env (consume_payload q)) cand (instant_of (wq_at q)) = Inr (t, canonical)"
    using r by (rule wallet_reserve_idempotency_Inr)
  have owner: "get_account_by_owner db2 (wq_owner_identity_id q) = Some a1"
    using get_or_create_account_inv(2) [OF g assms(2)] by (simp add: db2)
  show thesis
  proof (cases "dget (wd_lineage db1) canonical")
    case (Some e)
    have "db' = db2 \<and> acc = a1"
      using assms(1) g r owner Some
      by (auto simp: consume_authoritative_event_def get_lineage_entry_def db2 split: if_splits)
    then show thesis using replayed g row Some db2 by blast
  next
    case None
    have "\<exists>na np. apply_wallet_entry (wa_available_minor a1) (wa_pending_minor a1) (wq_entry_type q)
         (wq_amount_minor q) (wq_at q) = Inr (na, np) \<and>
      valid_lineage_entry (lineage_entry_of q canonical (wa_wallet_account_id a1) na np) =
         Inr (lineage_entry_of q canonical (wa_wallet_account_id a1) na np) \<and>
      append_lineage_entry db2
         (lineage_entry_of q canonical (wa_wallet_account_id a1) na np) = Inr (db', acc)"
      using assms(1) g r owner None
      by (auto simp: consume_authoritative_event_def get_lineage_entry_def db2 bind_result_eq_Inr
          valid_lineage_entry_def split: if_splits)
    then show thesis using appended g row None db2 by blast
  qed
qed

lemma consume_inv:
  assumes "consume_authoritative_event env db q fresh cand = Inr (db', acc)" and "wallet_inv db"
  shows "wallet_inv db'"
  using assms
proof (cases rule: consume_cases)
  case (replayed db1 a1 t canonical e)
  have inv1: "wallet_inv db1" using replayed(1) assms(2) by (rule get_or_create_account_inv)
  have old: "dget (wd_lineage db1) (ir_response_reference row) \<noteq> None"
    if "dget (wd_idempotency db1) k = Some row" for k row
    using that inv1 unfolding wallet_inv_core by blast
  have "dget (wd_lineage db1) (ir_response_reference row) \<noteq> None" if "dget t k = Some row" for k row
    by (rule shared_table.all_references
        [where P = "\<lambda>r. dget (wd_lineage db1) r \<noteq> None", OF replayed(2) _ old that]) (simp add: replayed(3))
  then show ?thesis using inv1 by (auto simp: wallet_inv_core replayed(4))
next
  case (appended db1 a1 t canonical na np)
  let ?e = "lineage_entry_of q canonical (wa_wallet_account_id a1) na np"
  have inv1: "wallet_inv db1" using appended(1) assms(2) by (rule get_or_create_account_inv)
  have owner: "get_account_by_owner db1 (wq_owner_identity_id q) = Some a1"
    using appended(1) assms(2) by (rule get_or_create_account_inv)
  have a1: "dget (wd_accounts db1) (wa_wallet_account_id a1) = Some a1"
    using get_account_by_owner_SomeD(1) [OF owner inv1] .
  have cont: "continues a1 ?e"
    using appended(4,5)
    by (auto simp: continues_def lineage_entry_of_def apply_wallet_entry_Inr_iff valid_lineage_entry_def
        split: if_splits)
  have core: "wallet_core_inv db'"
  proof (rule append_lineage_entry_inv [OF appended(6)])
    show "wallet_core_inv (db1\<lparr>wd_idempotency := t\<rparr>)" using inv1 by (simp add: wallet_inv_core)
    show "continues a ?e" if "dget (wd_accounts (db1\<lparr>wd_idempotency := t\<rparr>)) (wl_wallet_account_id ?e) = Some a" for a
      using that a1 cont by (simp add: lineage_entry_of_def)
  qed
  have db': "wd_idempotency db' = t" "wd_lineage db' = dset canonical ?e (wd_lineage db1)"
    using append_lineage_entry_accounts [OF appended(6)] by (auto simp: lineage_entry_of_def)
  have old: "dget (wd_lineage db') (ir_response_reference row) \<noteq> None"
    if "dget (wd_idempotency db1) k = Some row" for k row
    using that inv1 unfolding wallet_inv_core db' by fastforce
  have "dget (wd_lineage db') (ir_response_reference row) \<noteq> None" if "dget t k = Some row" for k row
    by (rule shared_table.all_references
        [where P = "\<lambda>r. dget (wd_lineage db') r \<noteq> None", OF appended(2) _ old that]) (simp add: db')
  then show ?thesis using core by (simp add: wallet_inv_core db')
qed

text \<open>Committed transitions with one digest, and the databases they reach.\<close>

inductive wallet_reachable :: "(payload \<Rightarrow> string) \<Rightarrow> wallet_db \<Rightarrow> bool" for digest where
  wallet_start: "wallet_reachable digest empty_wallet_db"
| wallet_consume: "wallet_reachable digest db \<Longrightarrow> wv_digest env = digest \<Longrightarrow>
    consume_authoritative_event env db q fresh cand = Inr (db', acc) \<Longrightarrow> wallet_reachable digest db'"

lemma wallet_reachable_inv: "wallet_reachable digest db \<Longrightarrow> wallet_inv db"
  by (induction rule: wallet_reachable.induct) (auto intro: wallet_inv_empty consume_inv)

inductive wallet_continues :: "(payload \<Rightarrow> string) \<Rightarrow> wallet_db \<Rightarrow> wallet_db \<Rightarrow> bool" for digest where
  stay: "wallet_continues digest db db"
| commit: "wallet_continues digest db db1 \<Longrightarrow> wv_digest env = digest \<Longrightarrow>
    consume_authoritative_event env db1 q fresh cand = Inr (db2, acc) \<Longrightarrow> wallet_continues digest db db2"


text \<open>The row that a committed request leaves behind survives every later commit.\<close>

definition request_recorded :: "(payload \<Rightarrow> string) \<Rightarrow> wallet_db \<Rightarrow> wallet_request \<Rightarrow> bool" where
  "request_recorded digest db q \<longleftrightarrow>
     (\<exists>row. dget (wd_idempotency db) (wq_subject_id q, ''wallet.event.consume'', wq_idempotency_key q) = Some row \<and>
        ir_request_hash row = digest (consume_payload q)) \<and>
     get_account_by_owner db (wq_owner_identity_id q) \<noteq> None"

definition owners :: "wallet_db \<Rightarrow> uuid list" where
  "owners db = map wa_owner_identity_id (dvalues (wd_accounts db))"

lemma get_account_by_owner_None_iff: "get_account_by_owner db owner = None \<longleftrightarrow> owner \<notin> set (owners db)"
  by (auto simp: get_account_by_owner_def find_None_iff owners_def)

lemma get_account_by_ownerI:
  assumes "wallet_inv db" and "dget (wd_accounts db) k = Some a"
  shows "get_account_by_owner db (wa_owner_identity_id a) = Some a"
  unfolding get_account_by_owner_def
  by (rule distinct_map_find) (use assms in \<open>simp_all add: wallet_inv_def dget_in_dvalues\<close>)

lemma get_or_create_owners:
  "get_or_create_account ident db owner fresh at = Inr (db', a) \<Longrightarrow> set (owners db) \<subseteq> set (owners db')"
  by (auto simp: get_or_create_account_def owners_def bind_result_eq_Inr dvalues_dset_new
      split: option.splits if_splits)

lemma append_lineage_entry_owners:
  assumes "append_lineage_entry db e = Inr (db', a')"
  shows "owners db' = owners db"
  using append_lineage_entry_accounts [OF assms]
  by (auto simp: owners_def map_dvalues_dset_same)

lemma consume_account:
  assumes "consume_authoritative_event env db q fresh cand = Inr (db', acc)" and "wallet_inv db"
  shows "get_account_by_owner db' (wq_owner_identity_id q) = Some acc"
    and "set (owners db) \<subseteq> set (owners db')"
proof -
  have inv': "wallet_inv db'" using assms by (rule consume_inv)
  have "get_account_by_owner db' (wq_owner_identity_id q) = Some acc \<and> set (owners db) \<subseteq> set (owners db')"
    using assms
  proof (cases rule: consume_cases)
    case (replayed db1 a1 t canonical e)
    then show ?thesis
      using get_or_create_account_inv(2) [OF replayed(1) assms(2)] get_or_create_owners [OF replayed(1)]
      by (simp add: owners_def)
  next
    case (appended db1 a1 t canonical na np)
    note owner = get_or_create_account_inv(1,2) [OF appended(1) assms(2)]
    note a1 = get_account_by_owner_SomeD(1,2) [OF owner(2,1)]
    have "dget (wd_accounts db') (wa_wallet_account_id a1) = Some acc"
      and "wa_owner_identity_id acc = wa_owner_identity_id a1"
      using append_lineage_entry_accounts [OF appended(6)] a1(1) by (auto simp: lineage_entry_of_def)
    then have "get_account_by_owner db' (wq_owner_identity_id q) = Some acc"
      using get_account_by_ownerI [OF inv'] a1(2) by metis
    moreover have "set (owners db) \<subseteq> set (owners db')"
      using get_or_create_owners [OF appended(1)] append_lineage_entry_owners [OF appended(6)]
      by (simp add: owners_def)
    ultimately show ?thesis by blast
  qed
  then show "get_account_by_owner db' (wq_owner_identity_id q) = Some acc"
    and "set (owners db) \<subseteq> set (owners db')" by blast+
qed

lemma consume_rows:
  assumes "consume_authoritative_event env db q fresh cand = Inr (db', acc)" and "wallet_inv db"
  shows "\<exists>row. dget (wd_idempotency db') (wq_subject_id q, ''wallet.event.consume'', wq_idempotency_key q) =
      Some row \<and> ir_request_hash row = wv_digest env (consume_payload q)"
    and "dget (wd_idempotency db) k = Some row \<Longrightarrow> dget (wd_idempotency db') k = Some row"
proof -
  obtain db1 a1 t canonical where
    g: "get_or_create_account (wv_identity_exists env) db (wq_owner_identity_id q) fresh (wq_at q) = Inr (db1, a1)"
    and r: "reserve_row (WalletConflict ''idempotency_conflict'') (wd_idempotency db1)
         (wq_subject_id q, ''wallet.event.consume'', wq_idempotency_key q)
         (wv_digest env (consume_payload q)) cand (instant_of (wq_at q)) = Inr (t, canonical)"
    and t: "wd_idempotency db' = t"
    using assms
  proof (cases rule: consume_cases)
    case (replayed db1 a1 t canonical e)
    then show ?thesis using that by simp
  next
    case (appended db1 a1 t canonical na np)
    moreover have "wd_idempotency db' = t"
      using append_lineage_entry_accounts [OF appended(6)] by auto
    ultimately show ?thesis using that by blast
  qed
  show "\<exists>row. dget (wd_idempotency db') (wq_subject_id q, ''wallet.event.consume'', wq_idempotency_key q) =
      Some row \<and> ir_request_hash row = wv_digest env (consume_payload q)"
    using shared_table.reserved_row [OF r] t by blast
  show "dget (wd_idempotency db') k = Some row" if "dget (wd_idempotency db) k = Some row"
    using shared_table.rows_survive [OF r] that get_or_create_account_inv(4) [OF g assms(2)] t by simp
qed

lemma request_recorded_after:
  assumes "consume_authoritative_event env db q fresh cand = Inr (db', acc)" and "wallet_inv db"
  shows "request_recorded (wv_digest env) db' q"
  using consume_rows(1) [OF assms] consume_account(1) [OF assms] by (simp add: request_recorded_def)

lemma request_recorded_survives:
  assumes "wallet_continues digest db db'" and "wallet_inv db" and "request_recorded digest db q"
  shows "request_recorded digest db' q \<and> wallet_inv db'"
  using assms
proof (induction rule: wallet_continues.induct)
  case (stay db)
  then show ?case by simp
next
  case (commit db db1 env q' fresh cand db2 acc)
  then have inv: "wallet_inv db1" and rec: "request_recorded digest db1 q" by blast+
  show ?case
    using rec consume_rows(2) [OF commit.hyps(3) inv] consume_account(2) [OF commit.hyps(3) inv]
      consume_inv [OF commit.hyps(3) inv]
    unfolding request_recorded_def get_account_by_owner_None_iff by blast
qed

lemma recorded_request_replays:
  assumes "request_recorded (wv_digest env) db q" and "wallet_inv db"
    and "wv_has_permission env (wq_subject_id q) ''wallet.event.consume''"
    and "wq_subject_type q = ID_SERVICE" and "idempotency_key_ok (wq_idempotency_key q)"
  shows "consume_authoritative_event env db q fresh cand =
    Inr (db, the (get_account_by_owner db (wq_owner_identity_id q)))"
proof -
  obtain row where row: "dget (wd_idempotency db)
      (wq_subject_id q, ''wallet.event.consume'', wq_idempotency_key q) = Some row"
    and h: "ir_request_hash row = wv_digest env (consume_payload q)"
    using assms(1) by (auto simp: request_recorded_def)
  obtain a where a: "get_account_by_owner db (wq_owner_identity_id q) = Some a"
    using assms(1) by (auto simp: request_recorded_def)
  obtain e where e: "dget (wd_lineage db) (ir_response_reference row) = Some e"
    using assms(2) row unfolding wallet_inv_core by blast
  show ?thesis
    using assms(3-5) a e h row
    by (simp add: consume_authoritative_event_def get_or_create_account_def
        wallet_reserve_idempotency_def reserve_row_def get_lineage_entry_def)
qed


section \<open>Properties\<close>

text \<open>
  the balance rule. An entry is accepted exactly when its timestamp is aware, its amount is not
  negative and neither balance would become negative; the new balances are the old ones plus the
  entry's signed amounts, so a release moves money from pending to available without creating any.
\<close>

theorem apply_wallet_entry_correct:
  "0 \<le> a \<Longrightarrow> 0 \<le> p \<Longrightarrow>
   apply_wallet_entry a p t n at =
     (let a' = a + fst (entry_delta t n); p' = p + snd (entry_delta t n) in
      if \<not> is_aware at then Inl (WalletConflict ''wallet_timestamp_invalid'')
      else if n < 0 then Inl (WalletConflict ''wallet_amount_invalid'')
      else if p' < 0 then Inl (WalletConflict ''wallet_pending_insufficient'')
      else if a' < 0 then Inl (WalletConflict ''wallet_available_insufficient'')
      else Inr (a', p'))"
  by (cases t) (auto simp: apply_wallet_entry_def Let_def)

theorem apply_wallet_entry_correct_witness:
  "apply_wallet_entry 500 300 PENDING_RELEASE 300 (Aware 7) = Inr (800, 0) \<and>
   apply_wallet_entry 500 300 AVAILABLE_DEBIT 501 (Aware 7) =
     Inl (WalletConflict ''wallet_available_insufficient'')"
  using apply_wallet_entry_correct [of 500 300 PENDING_RELEASE 300 "Aware 7"]
    apply_wallet_entry_correct [of 500 300 AVAILABLE_DEBIT 501 "Aware 7"] by simp

text \<open>
  C5: in every reachable database each wallet's balances are exactly what its lineage replays to from
  zero in commit order, every recorded entry carries the running balances, no balance is ever
  negative or above the limit, an owner has one account, and the event log and the outbox hold one
  record per entry in the same order.
\<close>

theorem wallet_balances_replay:
  assumes "wallet_reachable digest db" and "get_account_by_owner db owner = Some a"
  shows "replay (0, 0) (account_lineage db (wa_wallet_account_id a)) =
      Some (wa_available_minor a, wa_pending_minor a) \<and>
    minor_ok (wa_available_minor a) \<and> minor_ok (wa_pending_minor a) \<and>
    distinct (owners db) \<and>
    map we_lineage_entry (wd_events db) = dvalues (wd_lineage db) \<and>
    wd_outbox db = map wallet_message_of (dvalues (wd_lineage db))"
proof -
  have inv: "wallet_inv db" using assms(1) by (rule wallet_reachable_inv)
  have "account_ok db a" using assms(2) inv by (rule get_account_by_owner_SomeD)
  then show ?thesis using inv by (auto simp: account_ok_def wallet_inv_def owners_def)
qed

text \<open>
  an event is applied at most once. After a request has committed, and after any further commits
  of other requests, sending it again (with whatever identifiers are drawn) changes nothing in the
  database and returns the owner's current account.
\<close>

theorem consume_idempotent:
  assumes "wallet_reachable (wv_digest env) db"
    and "consume_authoritative_event env db q fresh cand = Inr (db', acc)"
    and "wallet_continues (wv_digest env) db' db''"
  shows "\<exists>acc''. consume_authoritative_event env db'' q fresh' cand' = Inr (db'', acc'') \<and>
    get_account_by_owner db'' (wq_owner_identity_id q) = Some acc''"
proof -
  have inv: "wallet_inv db" using assms(1) by (rule wallet_reachable_inv)
  have inv': "wallet_inv db'" using assms(2) inv by (rule consume_inv)
  have rec: "request_recorded (wv_digest env) db'' q" and inv'': "wallet_inv db''"
    using request_recorded_survives [OF assms(3) inv' request_recorded_after [OF assms(2) inv]] by blast+
  have "wv_has_permission env (wq_subject_id q) ''wallet.event.consume''" "wq_subject_type q = ID_SERVICE"
    "idempotency_key_ok (wq_idempotency_key q)"
    using assms(2) by (auto simp: consume_authoritative_event_def split: if_splits)
  from recorded_request_replays [OF rec inv'' this] rec show ?thesis
    by (auto simp: request_recorded_def)
qed

definition sample_wallet_env :: wallet_environment where
  "sample_wallet_env = \<lparr>wv_has_permission = (\<lambda>_ _. True), wv_identity_exists = (\<lambda>_. True),
     wv_get_journal = (\<lambda>_. True), wv_get_attempt = (\<lambda>_. True), wv_get_request = (\<lambda>_. True),
     wv_get_batch = (\<lambda>_. True), wv_digest = (\<lambda>p. if p = [] then ''e'' else ''n'')\<rparr>"

definition sample_wallet_request :: "wallet_entry_type \<Rightarrow> int \<Rightarrow> string \<Rightarrow> wallet_request" where
  "sample_wallet_request t n key =
     \<lparr>wq_subject_id = 1, wq_subject_type = ID_SERVICE, wq_owner_identity_id = 2,
      wq_authoritative_source_type = LEDGER_JOURNAL, wq_authoritative_source_id = 3,
      wq_entry_type = t, wq_amount_minor = n, wq_reason_code = ''ride.earned'',
      wq_idempotency_key = key, wq_correlation_id = 4, wq_causation_id = 5, wq_at = Aware 10\<rparr>"

definition sample_wallet_step :: "wallet_db \<Rightarrow> wallet_entry_type \<Rightarrow> int \<Rightarrow> string \<Rightarrow> uuid \<Rightarrow> wallet_db" where
  "sample_wallet_step db t n key cand =
     fst (projr (consume_authoritative_event sample_wallet_env db (sample_wallet_request t n key) 50 cand))"

definition sample_wallet_db1 :: wallet_db where
  "sample_wallet_db1 = sample_wallet_step empty_wallet_db PENDING_CREDIT 700 ''aaaaaaaaaaaaaaaa'' 60"

definition sample_wallet_db2 :: wallet_db where
  "sample_wallet_db2 = sample_wallet_step sample_wallet_db1 PENDING_RELEASE 300 ''bbbbbbbbbbbbbbbb'' 61"

definition sample_wallet_account :: "int \<Rightarrow> int \<Rightarrow> wallet_account" where
  "sample_wallet_account av pe = \<lparr>wa_wallet_account_id = 50, wa_owner_identity_id = 2,
     wa_currency = ''ETB'', wa_available_minor = av, wa_pending_minor = pe, wa_created_at = 10,
     wa_updated_at = 10\<rparr>"

lemma sample_wallet_commits:
  "consume_authoritative_event sample_wallet_env empty_wallet_db
     (sample_wallet_request PENDING_CREDIT 700 ''aaaaaaaaaaaaaaaa'') 50 60 =
     Inr (sample_wallet_db1, sample_wallet_account 0 700)"
  "consume_authoritative_event sample_wallet_env sample_wallet_db1
     (sample_wallet_request PENDING_RELEASE 300 ''bbbbbbbbbbbbbbbb'') 50 61 =
     Inr (sample_wallet_db2, sample_wallet_account 300 400)"
  by code_simp+

lemma sample_wallet_reachable:
  "wallet_reachable (wv_digest sample_wallet_env) sample_wallet_db1"
  "wallet_reachable (wv_digest sample_wallet_env) sample_wallet_db2"
  using sample_wallet_commits wallet_reachable.intros by blast+

theorem wallet_balances_replay_witness:
  "get_account_by_owner sample_wallet_db2 2 = Some (sample_wallet_account 300 400) \<and>
   replay (0, 0) (account_lineage sample_wallet_db2 50) = Some (300, 400)"
proof -
  have a: "get_account_by_owner sample_wallet_db2 2 = Some (sample_wallet_account 300 400)" by code_simp
  from wallet_balances_replay [OF sample_wallet_reachable(2) a] a show ?thesis
    by (simp add: sample_wallet_account_def)
qed

theorem consume_idempotent_witness:
  "\<exists>acc. consume_authoritative_event sample_wallet_env sample_wallet_db2
     (sample_wallet_request PENDING_CREDIT 700 ''aaaaaaaaaaaaaaaa'') 51 62 = Inr (sample_wallet_db2, acc)"
proof -
  have "wallet_continues (wv_digest sample_wallet_env) sample_wallet_db1 sample_wallet_db2"
    using sample_wallet_commits(2) wallet_continues.intros by blast
  then show ?thesis
    using consume_idempotent [OF wallet_reachable.wallet_start sample_wallet_commits(1)] by blast
qed

end
