(* ===== verification/Ledger.thy ===== *)
theory Ledger
  imports Idempotency "HOL-Library.Multiset"
begin

text \<open>
  The double-entry ledger: the models of \<open>ledger/models.py\<close>, the replay view of \<open>ledger/engine.py\<close> and
  the repository \<open>persistence/ledger_repository.py\<close> over its tables.
\<close>

section \<open>Models\<close>

datatype ledger_account_class = LC_ASSET | LC_LIABILITY | LC_REVENUE | LC_EXPENSE | LC_EQUITY | LC_CLEARING

datatype ledger_entry_side = DEBIT | CREDIT

record ledger_book =
  lb_book_id :: uuid
  lb_code :: string
  lb_description :: string
  lb_base_currency :: string
  lb_created_at :: instant
  lb_archived_at :: "instant option"

record ledger_account =
  la_account_id :: uuid
  la_book_id :: uuid
  la_code :: string
  la_name :: string
  la_account_class :: ledger_account_class
  la_normal_side :: ledger_entry_side
  la_currency :: string
  la_created_at :: instant
  la_archived_at :: "instant option"

record ledger_traceability =
  lt_ride_request_id :: uuid
  lt_dispatch_handoff_id :: uuid
  lt_assignment_id :: uuid
  lt_active_ride_id :: uuid
  lt_fare_estimate_id :: uuid
  lt_fare_calculation_id :: uuid
  lt_predecessor_ledger_journal_id :: "uuid option"
  lt_wallet_id :: "uuid option"
  lt_settlement_id :: "uuid option"
  lt_driver_payout_id :: "uuid option"
  lt_rider_payment_id :: "uuid option"
  lt_refund_id :: "uuid option"
  lt_promotion_id :: "uuid option"
  lt_referral_id :: "uuid option"
  lt_loyalty_id :: "uuid option"
  lt_tax_record_id :: "uuid option"
  lt_audit_package_id :: "uuid option"

record ledger_entry =
  le_entry_id :: uuid
  le_account_id :: uuid
  le_side :: ledger_entry_side
  le_amount_minor :: minor
  le_currency :: string
  le_line_index :: int
  le_predecessor_entry_id :: "uuid option"

record ledger_header =
  lj_journal_id :: uuid
  lj_book_id :: uuid
  lj_business_event_type :: string
  lj_business_event_id :: uuid
  lj_operation :: string
  lj_idempotency_key :: string
  lj_actor_identity_id :: uuid
  lj_source_system :: string
  lj_reason_code :: string
  lj_traceability :: ledger_traceability
  lj_predecessor_ledger_journal_id :: "uuid option"
  lj_effective_at :: instant
  lj_recorded_at :: instant
  lj_correlation_id :: uuid
  lj_causation_id :: uuid
  lj_audit_reference :: uuid

text \<open>A journal is its header (the row of \<open>ledger_journals\<close>) and its entries.\<close>

record ledger_journal =
  jr_header :: ledger_header
  jr_entries :: "ledger_entry list"

record ledger_balance =
  bal_account_id :: uuid
  bal_currency :: string
  bal_debit_total_minor :: int
  bal_credit_total_minor :: int
  bal_net_minor :: int

definition ledger_entry_fields :: "ledger_entry \<Rightarrow> bool" where
  "ledger_entry_fields e \<longleftrightarrow>
     1 \<le> le_amount_minor e \<and> le_amount_minor e \<le> 10000000000 \<and> currency_pattern (le_currency e) \<and>
     1 \<le> le_line_index e \<and> le_line_index e \<le> 1024"

definition ledger_header_fields :: "ledger_header \<Rightarrow> bool" where
  "ledger_header_fields h \<longleftrightarrow>
     code_pattern 2 (lj_business_event_type h) \<and> code_pattern 2 (lj_operation h) \<and>
     length_between 16 128 (lj_idempotency_key h) \<and> code_pattern 2 (lj_source_system h) \<and>
     code_pattern 2 (lj_reason_code h)"

fun side_total :: "ledger_entry_side \<Rightarrow> ledger_entry list \<Rightarrow> int" where
  \<comment> \<open>the loop over \<open>totals[entry.side] += entry.amount_minor\<close>\<close>
  "side_total side [] = 0"
| "side_total side (e # es) = (if le_side e = side then le_amount_minor e else 0) + side_total side es"

definition validate_entries :: "ledger_journal \<Rightarrow> ledger_journal result" where
  "validate_entries j =
     (let es = jr_entries j; h = jr_header j; trace = lj_traceability h in
      if \<not> ledger_header_fields h \<or> \<not> list_all ledger_entry_fields es
      then Inl (ValidationError ''LedgerJournal'')
      else if length es < 2 then Inl (ValidationError ''A journal requires at least two entries'')
      else if card (set (map le_entry_id es)) \<noteq> length es
      then Inl (ValidationError ''Journal entry_id values must be unique'')
      else if card (set (map le_line_index es)) \<noteq> length es
      then Inl (ValidationError ''Journal line_index values must be unique'')
      else if card (set (map le_currency es)) \<noteq> 1
      then Inl (ValidationError ''A journal must use a single currency'')
      else if side_total DEBIT es \<noteq> side_total CREDIT es
      then Inl (ValidationError ''A journal must be balanced'')
      else if lt_predecessor_ledger_journal_id trace \<noteq> None \<and>
        \<not> list_ex (\<lambda>e. le_predecessor_entry_id e \<noteq> None) es
      then Inl (ValidationError ''Compensating journals must link at least one predecessor entry'')
      else if lj_predecessor_ledger_journal_id h \<noteq> None \<and>
        lt_predecessor_ledger_journal_id trace \<noteq> lj_predecessor_ledger_journal_id h
      then Inl (ValidationError ''Journal predecessor lineage must match traceability'')
      else Inr j)"

text \<open>The replay view lists the header's fields and the entries ordered by line index.\<close>

definition deterministic_replay_view :: "ledger_journal \<Rightarrow> ledger_journal" where
  "deterministic_replay_view j = j\<lparr>jr_entries := sort_key le_line_index (jr_entries j)\<rparr>"

section \<open>The repository\<close>

text \<open>
  The traceability columns of \<open>fare_calculations\<close> that the ledger compares with; a key that the
  stored JSON lacks is \<open>None\<close>.
\<close>

record trace_source =
  ts_ride_request_id :: "uuid option"
  ts_dispatch_handoff_id :: "uuid option"
  ts_assignment_id :: "uuid option"
  ts_active_ride_id :: "uuid option"
  ts_fare_estimate_id :: "uuid option"
  ts_fare_calculation_id :: "uuid option"

record ledger_event =
  lv_aggregate_id :: uuid
  lv_event_type :: string
  lv_safe_payload :: payload
  lv_replay_payload :: ledger_journal
  lv_occurred_at :: instant
  lv_correlation_id :: uuid
  lv_causation_id :: uuid

record ledger_message =
  lm_event_type :: string
  lm_journal_id :: uuid
  lm_traceability :: ledger_traceability
  lm_occurred_at :: instant
  lm_available_at :: instant

record ledger_db =
  ld_books :: "(uuid, ledger_book) dict"
  ld_accounts :: "(uuid, ledger_account) dict"
  ld_fare_calculations :: "(uuid, trace_source) dict"
  ld_journals :: "(uuid, ledger_header) dict"
  ld_entries :: "(uuid, uuid \<times> ledger_entry) dict"
  ld_idempotency :: idempotency_table
  ld_events :: "ledger_event list"
  ld_outbox :: "ledger_message list"

definition add_book :: "ledger_db \<Rightarrow> ledger_book \<Rightarrow> (ledger_db \<times> ledger_book) result" where
  "add_book db b =
     (if dget (ld_books db) (lb_book_id b) \<noteq> None \<or>
        list_ex (\<lambda>c. lb_code c = lb_code b) (dvalues (ld_books db))
      then Inl (IntegrityError ''ledger_books'')
      else Inr (db\<lparr>ld_books := dset (lb_book_id b) b (ld_books db)\<rparr>, b))"

definition get_book :: "ledger_db \<Rightarrow> uuid \<Rightarrow> ledger_book option" where
  "get_book db book_id = dget (ld_books db) book_id"

definition ensure_traceability_source :: "ledger_db \<Rightarrow> ledger_journal \<Rightarrow> unit result" where
  "ensure_traceability_source db j =
     (let t = lj_traceability (jr_header j) in
      case dget (ld_fare_calculations db) (lt_fare_calculation_id t) of
        None \<Rightarrow> Inl (LedgerConflict ''ledger_traceability_conflict'')
      | Some source \<Rightarrow>
          ensure (ts_ride_request_id source = Some (lt_ride_request_id t) \<and>
              ts_dispatch_handoff_id source = Some (lt_dispatch_handoff_id t) \<and>
              ts_assignment_id source = Some (lt_assignment_id t) \<and>
              ts_active_ride_id source = Some (lt_active_ride_id t) \<and>
              ts_fare_estimate_id source = Some (lt_fare_estimate_id t) \<and>
              ts_fare_calculation_id source = Some (lt_fare_calculation_id t))
            (LedgerConflict ''ledger_traceability_conflict''))"

definition ensure_accounts :: "ledger_db \<Rightarrow> ledger_journal \<Rightarrow> unit result" where
  "ensure_accounts db j =
     (if \<not> list_all (\<lambda>e. dget (ld_accounts db) (le_account_id e) \<noteq> None) (jr_entries j)
      then Inl (LedgerConflict ''ledger_account_not_found'')
      else ensure (list_all (\<lambda>e. map_option la_currency (dget (ld_accounts db) (le_account_id e)) =
              Some (le_currency e)) (jr_entries j))
            (LedgerConflict ''ledger_currency_mismatch''))"

definition ledger_reserve_idempotency ::
  "(payload \<Rightarrow> string) \<Rightarrow> ledger_db \<Rightarrow> uuid \<Rightarrow> string \<Rightarrow> string \<Rightarrow> payload \<Rightarrow> uuid \<Rightarrow> instant \<Rightarrow>
   (ledger_db \<times> uuid) result" where
  "ledger_reserve_idempotency digest db actor_id operation key pl response_reference at =
     bind_result
       (reserve_row (LedgerConflict ''idempotency_conflict'') (ld_idempotency db)
          (actor_id, operation, key) (digest pl) response_reference at)
       (\<lambda>(table, reference). Inr (db\<lparr>ld_idempotency := table\<rparr>, reference))"

text \<open>Reading a journal back: the header row with the entry rows in line order, validated again.\<close>

definition journal_rows :: "ledger_db \<Rightarrow> uuid \<Rightarrow> ledger_entry list" where
  "journal_rows db journal_id =
     sort_key le_line_index (map snd (filter (\<lambda>(jid, _). jid = journal_id) (dvalues (ld_entries db))))"

definition get_journal :: "ledger_db \<Rightarrow> uuid \<Rightarrow> ledger_journal option result" where
  "get_journal db journal_id =
     (case dget (ld_journals db) journal_id of
        None \<Rightarrow> Inr None
      | Some header \<Rightarrow>
          bind_result (validate_entries \<lparr>jr_header = header, jr_entries = journal_rows db journal_id\<rparr>)
            (\<lambda>j. Inr (Some j)))"

fun insert_entries ::
  "uuid \<Rightarrow> ledger_entry list \<Rightarrow> (uuid, uuid \<times> ledger_entry) dict \<Rightarrow> (uuid, uuid \<times> ledger_entry) dict result" where
  "insert_entries journal_id [] rows = Inr rows"
| "insert_entries journal_id (e # es) rows =
     (if dget rows (le_entry_id e) \<noteq> None then Inl (IntegrityError ''ledger_entries.entry_id'')
      else insert_entries journal_id es (dset (le_entry_id e) (journal_id, e) rows))"

definition ensure_predecessor :: "ledger_db \<Rightarrow> ledger_journal \<Rightarrow> unit result" where
  "ensure_predecessor db j =
     (case lt_predecessor_ledger_journal_id (lj_traceability (jr_header j)) of
        None \<Rightarrow> Inr ()
      | Some pid \<Rightarrow>
          bind_result (get_journal db pid) (\<lambda>found.
          case found of
            None \<Rightarrow> Inl (LedgerConflict ''ledger_predecessor_not_found'')
          | Some predecessor \<Rightarrow>
              ensure (lt_fare_calculation_id (lj_traceability (jr_header predecessor)) =
                  lt_fare_calculation_id (lj_traceability (jr_header j)))
                (LedgerConflict ''ledger_traceability_conflict'')))"

definition same_business_event :: "ledger_header \<Rightarrow> ledger_header \<Rightarrow> bool" where
  "same_business_event h k \<longleftrightarrow>
     lj_business_event_type h = lj_business_event_type k \<and>
     lj_business_event_id h = lj_business_event_id k \<and>
     lj_operation h = lj_operation k \<and> lj_idempotency_key h = lj_idempotency_key k"

definition insert_journal :: "ledger_db \<Rightarrow> ledger_header \<Rightarrow> (uuid, ledger_header) dict result" where
  \<comment> \<open>the insert with the table's constraints: primary key, book and predecessor keys, business event\<close>
  "insert_journal db h =
     (if dget (ld_journals db) (lj_journal_id h) \<noteq> None then Inl (IntegrityError ''ledger_journals.journal_id'')
      else if dget (ld_books db) (lj_book_id h) = None then Inl (IntegrityError ''ledger_journals.book_id'')
      else if (case lj_predecessor_ledger_journal_id h of None \<Rightarrow> False
               | Some p \<Rightarrow> dget (ld_journals db) p = None)
      then Inl (IntegrityError ''ledger_journals.predecessor_ledger_journal_id'')
      else if list_ex (same_business_event h) (dvalues (ld_journals db))
      then Inl (IntegrityError ''uq_ledger_business_event_operation'')
      else Inr (dset (lj_journal_id h) h (ld_journals db)))"

definition journal_event :: "ledger_journal \<Rightarrow> ledger_event" where
  "journal_event j =
     (let h = jr_header j in
      \<lparr>lv_aggregate_id = lj_journal_id h,
       lv_event_type = ''ledger.journal_posted'',
       lv_safe_payload =
         [(''journal_id'', JUuid (lj_journal_id h)), (''book_id'', JUuid (lj_book_id h)),
          (''business_event_type'', JStr (lj_business_event_type h)),
          (''business_event_id'', JUuid (lj_business_event_id h)),
          (''currency'', JStr (case jr_entries j of [] \<Rightarrow> [] | e # _ \<Rightarrow> le_currency e))],
       lv_replay_payload = deterministic_replay_view j,
       lv_occurred_at = lj_recorded_at h,
       lv_correlation_id = lj_correlation_id h,
       lv_causation_id = lj_causation_id h\<rparr>)"

definition journal_message :: "ledger_journal \<Rightarrow> ledger_message" where
  "journal_message j =
     (let h = jr_header j in
      \<lparr>lm_event_type = ''ledger.journal_posted'', lm_journal_id = lj_journal_id h,
       lm_traceability = lj_traceability h,
       lm_occurred_at = lj_recorded_at h, lm_available_at = lj_recorded_at h\<rparr>)"

definition post_journal :: "ledger_db \<Rightarrow> ledger_journal \<Rightarrow> (ledger_db \<times> ledger_journal) result" where
  "post_journal db j =
     bind_result (ensure_traceability_source db j) (\<lambda>_.
     bind_result (ensure_accounts db j) (\<lambda>_.
     bind_result (ensure_predecessor db j) (\<lambda>_.
     bind_result (insert_journal db (jr_header j)) (\<lambda>journals.
     bind_result (insert_entries (lj_journal_id (jr_header j)) (jr_entries j) (ld_entries db)) (\<lambda>entries.
     Inr (db\<lparr>ld_journals := journals, ld_entries := entries,
             ld_events := ld_events db @ [journal_event j],
             ld_outbox := ld_outbox db @ [journal_message j]\<rparr>, j))))))"

definition account_balance :: "ledger_db \<Rightarrow> uuid \<Rightarrow> string \<Rightarrow> ledger_balance" where
  "account_balance db account_id currency =
     (let rows = filter (\<lambda>e. le_account_id e = account_id \<and> le_currency e = currency)
                   (map snd (dvalues (ld_entries db)));
          debit = side_total DEBIT rows; credit = side_total CREDIT rows
      in \<lparr>bal_account_id = account_id, bal_currency = currency, bal_debit_total_minor = debit,
          bal_credit_total_minor = credit, bal_net_minor = debit - credit\<rparr>)"


section \<open>Totals and validity do not depend on the order of entries\<close>

fun signed_amount :: "ledger_entry_side \<Rightarrow> int \<Rightarrow> int" where
  "signed_amount DEBIT n = n"
| "signed_amount CREDIT n = - n"

definition net_total :: "ledger_entry list \<Rightarrow> int" where
  "net_total es = sum_list (map (\<lambda>e. signed_amount (le_side e) (le_amount_minor e)) es)"

lemma net_total_simps [simp]:
  "net_total [] = 0"
  "net_total (e # es) = signed_amount (le_side e) (le_amount_minor e) + net_total es"
  "net_total (xs @ ys) = net_total xs + net_total ys"
  by (simp_all add: net_total_def)

lemma side_totals_net: "side_total DEBIT es - side_total CREDIT es = net_total es"
proof (induction es)
  case (Cons e es)
  then show ?case by (cases "le_side e") simp_all
qed simp

lemma side_total_mset:
  "side_total side es = sum_mset (image_mset (\<lambda>e. if le_side e = side then le_amount_minor e else 0) (mset es))"
  by (induction es) simp_all

lemma validate_entries_Inr_iff:
  "validate_entries j = Inr k \<longleftrightarrow> k = j \<and> ledger_header_fields (jr_header j) \<and>
     (\<forall>e \<in> set (jr_entries j). ledger_entry_fields e) \<and> 2 \<le> length (jr_entries j) \<and>
     card (le_entry_id ` set (jr_entries j)) = length (jr_entries j) \<and>
     card (le_line_index ` set (jr_entries j)) = length (jr_entries j) \<and>
     card (le_currency ` set (jr_entries j)) = 1 \<and>
     side_total DEBIT (jr_entries j) = side_total CREDIT (jr_entries j) \<and>
     (lt_predecessor_ledger_journal_id (lj_traceability (jr_header j)) \<noteq> None \<longrightarrow>
        (\<exists>e \<in> set (jr_entries j). le_predecessor_entry_id e \<noteq> None)) \<and>
     (lj_predecessor_ledger_journal_id (jr_header j) \<noteq> None \<longrightarrow>
        lt_predecessor_ledger_journal_id (lj_traceability (jr_header j)) =
        lj_predecessor_ledger_journal_id (jr_header j))"
  by (auto simp: validate_entries_def Let_def list_all_iff list_ex_iff)

lemma validate_entries_perm:
  assumes "mset es = mset (jr_entries j)" and "validate_entries j = Inr j"
  shows "validate_entries (j\<lparr>jr_entries := es\<rparr>) = Inr (j\<lparr>jr_entries := es\<rparr>)"
proof -
  have "set es = set (jr_entries j)" "length es = length (jr_entries j)"
    using assms(1) mset_eq_setD mset_eq_length by blast+
  moreover have "side_total side es = side_total side (jr_entries j)" for side
    using assms(1) by (simp add: side_total_mset)
  ultimately show ?thesis using assms(2) unfolding validate_entries_Inr_iff by simp
qed

lemma validated_net:
  assumes "validate_entries j = Inr j"
  shows "net_total (jr_entries j) = 0"
    and "net_total (filter (\<lambda>e. le_currency e = c) (jr_entries j)) = 0"
proof -
  show net: "net_total (jr_entries j) = 0"
    using assms side_totals_net [of "jr_entries j"] by (simp add: validate_entries_Inr_iff)
  have "card (le_currency ` set (jr_entries j)) = 1"
    using assms by (simp add: validate_entries_Inr_iff)
  then obtain d where d: "le_currency ` set (jr_entries j) = {d}" by (auto simp: card_1_singleton_iff)
  then have "filter (\<lambda>e. le_currency e = c) (jr_entries j) = (if d = c then jr_entries j else [])"
    by (auto simp: filter_id_conv filter_empty_conv)
  with net show "net_total (filter (\<lambda>e. le_currency e = c) (jr_entries j)) = 0" by simp
qed

section \<open>What posting does to the tables\<close>

lemma insert_entries_Inr:
  "insert_entries jid es rows = Inr rows' \<Longrightarrow>
     rows' = rows @ map (\<lambda>e. (le_entry_id e, jid, e)) es \<and>
     (\<forall>e \<in> set es. dget rows (le_entry_id e) = None) \<and> (dict_ok rows \<longrightarrow> dict_ok rows')"
proof (induction jid es rows rule: insert_entries.induct)
  case (2 jid e es rows)
  show ?case
  proof (cases "dget rows (le_entry_id e)")
    case None
    have rest: "insert_entries jid es (dset (le_entry_id e) (jid, e) rows) = Inr rows'"
      using "2.prems" None by simp
    have "\<not> dget rows (le_entry_id e) \<noteq> None" using None by simp
    note ih = "2.IH" [OF this rest]
    have fresh: "dget rows (le_entry_id x) = None" if "x \<in> set es" for x
      using bspec [OF conjunct1 [OF conjunct2 [OF ih]] that] by (simp split: if_splits)
    have "rows' = rows @ map (\<lambda>e. (le_entry_id e, jid, e)) (e # es)"
      using ih by (simp add: dset_new [OF None])
    moreover have "dict_ok rows \<longrightarrow> dict_ok rows'" using conjunct2 [OF conjunct2 [OF ih]] by (blast intro: dict_ok_dset)
    ultimately show ?thesis using None fresh by simp
  next
    case (Some r)
    then show ?thesis using "2.prems" by simp
  qed
qed auto

definition ledger_lines :: "ledger_db \<Rightarrow> ledger_entry list" where
  "ledger_lines db = map snd (dvalues (ld_entries db))"

lemma post_journal_Inr:
  assumes "post_journal db j = Inr (db', j')"
  shows "j' = j"
    and "dget (ld_journals db) (lj_journal_id (jr_header j)) = None"
    and "ld_journals db' = dset (lj_journal_id (jr_header j)) (jr_header j) (ld_journals db)"
    and "dvalues (ld_entries db') =
      dvalues (ld_entries db) @ map (\<lambda>e. (lj_journal_id (jr_header j), e)) (jr_entries j)"
    and "dict_ok (ld_entries db) \<Longrightarrow> dict_ok (ld_entries db')"
    and "ld_accounts db' = ld_accounts db" and "ld_books db' = ld_books db"
    and "ld_events db' = ld_events db @ [journal_event j]"
    and "ld_outbox db' = ld_outbox db @ [journal_message j]"
    and "\<forall>e \<in> set (jr_entries j). dget (ld_accounts db) (le_account_id e) \<noteq> None"
proof -
  obtain entries where
    a: "ensure_accounts db j = Inr ()"
    and i: "insert_journal db (jr_header j) = Inr (ld_journals db')"
    and e: "insert_entries (lj_journal_id (jr_header j)) (jr_entries j) (ld_entries db) = Inr entries"
    and db': "j' = j" "db' = db\<lparr>ld_journals := ld_journals db', ld_entries := entries,
       ld_events := ld_events db @ [journal_event j], ld_outbox := ld_outbox db @ [journal_message j]\<rparr>"
    using assms by (auto simp: post_journal_def bind_result_eq_Inr)
  show "j' = j" by (rule db'(1))
  show "dget (ld_journals db) (lj_journal_id (jr_header j)) = None"
    and "ld_journals db' = dset (lj_journal_id (jr_header j)) (jr_header j) (ld_journals db)"
    using i by (auto simp: insert_journal_def split: if_splits)
  have ld: "ld_entries db' = entries" by (subst db'(2)) simp
  show "dvalues (ld_entries db') =
      dvalues (ld_entries db) @ map (\<lambda>e. (lj_journal_id (jr_header j), e)) (jr_entries j)"
    and "dict_ok (ld_entries db) \<Longrightarrow> dict_ok (ld_entries db')"
    using insert_entries_Inr [OF e] by (auto simp: ld dvalues_def)
  show "ld_accounts db' = ld_accounts db" by (subst db'(2)) simp
  show "ld_books db' = ld_books db" by (subst db'(2)) simp
  show "ld_events db' = ld_events db @ [journal_event j]" by (subst db'(2)) simp
  show "ld_outbox db' = ld_outbox db @ [journal_message j]" by (subst db'(2)) simp
  show "\<forall>e \<in> set (jr_entries j). dget (ld_accounts db) (le_account_id e) \<noteq> None"
    using a by (auto simp: ensure_accounts_def list_all_iff split: if_splits)
qed

lemma ledger_lines_post:
  "post_journal db j = Inr (db', j') \<Longrightarrow> ledger_lines db' = ledger_lines db @ jr_entries j"
  by (simp add: ledger_lines_def post_journal_Inr(4) comp_def)

section \<open>The ledger invariant\<close>

definition ledger_inv :: "ledger_db \<Rightarrow> bool" where
  "ledger_inv db \<longleftrightarrow>
     dict_ok (ld_journals db) \<and> dict_ok (ld_entries db) \<and>
     (\<forall>k h. dget (ld_journals db) k = Some h \<longrightarrow> lj_journal_id h = k \<and>
        (let j = \<lparr>jr_header = h, jr_entries = journal_rows db k\<rparr> in validate_entries j = Inr j)) \<and>
     (\<forall>(jid, e) \<in> set (dvalues (ld_entries db)).
        dget (ld_journals db) jid \<noteq> None \<and> dget (ld_accounts db) (le_account_id e) \<noteq> None) \<and>
     (\<forall>c. net_total (filter (\<lambda>e. le_currency e = c) (ledger_lines db)) = 0)"

lemma journal_rows_post:
  assumes "post_journal db j = Inr (db', j')" and "ledger_inv db"
  shows "journal_rows db' k =
    (if k = lj_journal_id (jr_header j) then sort_key le_line_index (jr_entries j) else journal_rows db k)"
proof -
  let ?id = "lj_journal_id (jr_header j)"
  have unused: "fst p \<noteq> ?id" if "p \<in> set (dvalues (ld_entries db))" for p
    using that assms(2) post_journal_Inr(2) [OF assms(1)] by (auto simp: ledger_inv_def)
  have old: "filter (\<lambda>(jid, _). jid = ?id) (dvalues (ld_entries db)) = []"
    using unused by (fastforce simp: filter_empty_conv)
  have new: "map snd (filter (\<lambda>(jid, _). jid = k) (map (\<lambda>e. (?id, e)) es)) = (if k = ?id then es else [])"
    for es :: "ledger_entry list"
    by (induction es) auto
  show ?thesis
    by (simp add: journal_rows_def post_journal_Inr(4) [OF assms(1)] old new)
qed

lemma sort_journal_valid:
  assumes "validate_entries j = Inr j"
  shows "validate_entries \<lparr>jr_header = jr_header j, jr_entries = sort_key le_line_index (jr_entries j)\<rparr> =
    Inr \<lparr>jr_header = jr_header j, jr_entries = sort_key le_line_index (jr_entries j)\<rparr>"
proof -
  have "validate_entries (j\<lparr>jr_entries := sort_key le_line_index (jr_entries j)\<rparr>) =
      Inr (j\<lparr>jr_entries := sort_key le_line_index (jr_entries j)\<rparr>)"
    by (rule validate_entries_perm [OF _ assms]) simp
  then show ?thesis by (cases j) simp
qed

lemma post_journal_inv:
  assumes "post_journal db j = Inr (db', j')" and "ledger_inv db" and "validate_entries j = Inr j"
  shows "ledger_inv db'"
proof -
  note p = post_journal_Inr [OF assms(1)] and rows = journal_rows_post [OF assms(1,2)]
  have "dict_ok (ld_journals db')" "dict_ok (ld_entries db')"
    using assms(2) p(3,5) by (auto simp: ledger_inv_def)
  moreover have "lj_journal_id h = k \<and>
      validate_entries \<lparr>jr_header = h, jr_entries = journal_rows db' k\<rparr> =
      Inr \<lparr>jr_header = h, jr_entries = journal_rows db' k\<rparr>"
    if "dget (ld_journals db') k = Some h" for k h
    using that assms(2) sort_journal_valid [OF assms(3)] unfolding p(3) rows
    by (auto simp: ledger_inv_def Let_def split: if_splits)
  moreover have "dget (ld_journals db') jid \<noteq> None \<and> dget (ld_accounts db') (le_account_id e) \<noteq> None"
    if "(jid, e) \<in> set (dvalues (ld_entries db'))" for jid e
    using that assms(2) p(10) unfolding p(3,4,6) by (auto simp: ledger_inv_def)
  moreover have "net_total (filter (\<lambda>e. le_currency e = c) (ledger_lines db')) = 0" for c
    using assms(2) validated_net(2) [OF assms(3)]
    by (simp add: ledger_lines_post [OF assms(1)] ledger_inv_def)
  ultimately show ?thesis unfolding ledger_inv_def Let_def by blast
qed

text \<open>
  Ledgers that the program can reach: the journals and entries start empty; journals are posted,
  books and idempotency rows are added, and other components add accounts and fare calculations.
\<close>

inductive ledger_reachable :: "ledger_db \<Rightarrow> bool" where
  ledger_start: "ld_journals db = [] \<Longrightarrow> ld_entries db = [] \<Longrightarrow> ledger_reachable db"
| ledger_post: "ledger_reachable db \<Longrightarrow> validate_entries j = Inr j \<Longrightarrow>
    post_journal db j = Inr (db', j') \<Longrightarrow> ledger_reachable db'"
| ledger_book: "ledger_reachable db \<Longrightarrow> add_book db b = Inr (db', b') \<Longrightarrow> ledger_reachable db'"
| ledger_reserve: "ledger_reachable db \<Longrightarrow>
    ledger_reserve_idempotency digest db actor op key pl ref at = Inr (db', r) \<Longrightarrow> ledger_reachable db'"
| ledger_external: "ledger_reachable db \<Longrightarrow>
    (\<And>k a. dget (ld_accounts db) k = Some a \<Longrightarrow> dget accounts k = Some a) \<Longrightarrow>
    ledger_reachable (db\<lparr>ld_accounts := accounts, ld_fare_calculations := calculations\<rparr>)"

lemma ledger_inv_cong:
  assumes "ledger_inv db" and "ld_journals db' = ld_journals db" and "ld_entries db' = ld_entries db"
    and "\<And>k a. dget (ld_accounts db) k = Some a \<Longrightarrow> dget (ld_accounts db') k = Some a"
  shows "ledger_inv db'"
proof -
  have "journal_rows db' = journal_rows db" "ledger_lines db' = ledger_lines db"
    using assms(3) by (simp_all add: fun_eq_iff journal_rows_def ledger_lines_def)
  with assms show ?thesis unfolding ledger_inv_def by fastforce
qed

lemma ledger_reachable_inv: "ledger_reachable db \<Longrightarrow> ledger_inv db"
proof (induction rule: ledger_reachable.induct)
  case (ledger_start db)
  then show ?case by (simp add: ledger_inv_def ledger_lines_def dvalues_def)
next
  case (ledger_post db j db' j')
  then show ?case by (blast intro: post_journal_inv)
next
  case (ledger_book db b db' b')
  then show ?case by (auto simp: add_book_def split: if_splits intro: ledger_inv_cong)
next
  case (ledger_reserve db digest actor op key pl ref at db' r)
  then show ?case
    by (auto simp: ledger_reserve_idempotency_def bind_result_eq_Inr intro: ledger_inv_cong)
next
  case (ledger_external db accounts calculations)
  then show ?case by (auto intro: ledger_inv_cong)
qed


section \<open>Properties\<close>

lemma account_balance_net:
  "bal_net_minor (account_balance db a c) =
     net_total (filter (\<lambda>e. le_account_id e = a) (filter (\<lambda>e. le_currency e = c) (ledger_lines db)))"
  by (simp add: account_balance_def Let_def side_totals_net ledger_lines_def conj_commute)

lemma net_total_by_account:
  assumes "finite A" and "\<forall>e \<in> set es. le_account_id e \<in> A"
  shows "(\<Sum>a \<in> A. net_total (filter (\<lambda>e. le_account_id e = a) es)) = net_total es"
  using assms(2)
proof (induction es)
  case (Cons e es)
  let ?v = "signed_amount (le_side e) (le_amount_minor e)"
  have "net_total (filter (\<lambda>x. le_account_id x = a) (e # es)) =
      (if a = le_account_id e then ?v else 0) + net_total (filter (\<lambda>x. le_account_id x = a) es)" for a
    by simp
  then have "(\<Sum>a \<in> A. net_total (filter (\<lambda>x. le_account_id x = a) (e # es))) =
      (\<Sum>a \<in> A. if a = le_account_id e then ?v else 0) + net_total es"
    using Cons by (simp add: sum.distrib del: filter.simps)
  also have "\<dots> = ?v + net_total es" using Cons.prems assms(1) by simp
  finally show ?case by simp
qed simp

text \<open>
  C4: the books always balance. In every reachable ledger and for every currency the net balances of
  all accounts sum to zero, and every stored journal reads back as a valid, balanced journal.
\<close>

theorem trial_balance:
  assumes "ledger_reachable db"
  shows "(\<Sum>a \<in> dom (dget (ld_accounts db)). bal_net_minor (account_balance db a c)) = 0 \<and>
    (\<forall>k h. dget (ld_journals db) k = Some h \<longrightarrow>
       (\<exists>j. get_journal db k = Inr (Some j) \<and> jr_header j = h \<and>
          side_total DEBIT (jr_entries j) = side_total CREDIT (jr_entries j)))"
proof -
  have inv: "ledger_inv db" using assms by (rule ledger_reachable_inv)
  have "\<forall>e \<in> set (ledger_lines db). le_account_id e \<in> dom (dget (ld_accounts db))"
    using inv by (auto simp: ledger_inv_def ledger_lines_def)
  then have "(\<Sum>a \<in> dom (dget (ld_accounts db)). bal_net_minor (account_balance db a c)) =
      net_total (filter (\<lambda>e. le_currency e = c) (ledger_lines db))"
    unfolding account_balance_net by (intro net_total_by_account) (auto simp: finite_dom_map_of)
  also have "\<dots> = 0" using inv by (simp add: ledger_inv_def)
  finally have balance: "(\<Sum>a \<in> dom (dget (ld_accounts db)). bal_net_minor (account_balance db a c)) = 0" .
  have "\<exists>j. get_journal db k = Inr (Some j) \<and> jr_header j = h \<and>
      side_total DEBIT (jr_entries j) = side_total CREDIT (jr_entries j)"
    if "dget (ld_journals db) k = Some h" for k h
  proof -
    let ?j = "\<lparr>jr_header = h, jr_entries = journal_rows db k\<rparr>"
    have v: "validate_entries ?j = Inr ?j" using that inv by (auto simp: ledger_inv_def Let_def)
    then have "get_journal db k = Inr (Some ?j)" using that by (simp add: get_journal_def)
    moreover have "side_total DEBIT (jr_entries ?j) = side_total CREDIT (jr_entries ?j)"
      using v unfolding validate_entries_Inr_iff by blast
    ultimately show ?thesis by (intro exI [of _ ?j]) simp
  qed
  with balance show ?thesis by blast
qed

text \<open>
  a posted journal reads back as its replay view, every other journal reads back as before, and
  each account's net balance moves by exactly the journal's entries on that account.
\<close>

theorem post_journal_effect:
  assumes "ledger_reachable db" and "validate_entries j = Inr j" and "post_journal db j = Inr (db', j')"
  shows "get_journal db' (lj_journal_id (jr_header j)) = Inr (Some (deterministic_replay_view j)) \<and>
    (k \<noteq> lj_journal_id (jr_header j) \<longrightarrow> get_journal db' k = get_journal db k) \<and>
    bal_net_minor (account_balance db' a c) = bal_net_minor (account_balance db a c) +
      net_total (filter (\<lambda>e. le_account_id e = a \<and> le_currency e = c) (jr_entries j))"
proof -
  have inv: "ledger_inv db" using assms(1) by (rule ledger_reachable_inv)
  note p = post_journal_Inr [OF assms(3)] and rows = journal_rows_post [OF assms(3) inv]
  have "get_journal db' (lj_journal_id (jr_header j)) = Inr (Some (deterministic_replay_view j))"
    using sort_journal_valid [OF assms(2)]
    by (simp add: get_journal_def p(3) rows deterministic_replay_view_def)
  moreover have "get_journal db' k = get_journal db k" if "k \<noteq> lj_journal_id (jr_header j)"
    using that rows [of k] by (simp add: get_journal_def p(3) split: option.split)
  moreover have "bal_net_minor (account_balance db' a c) = bal_net_minor (account_balance db a c) +
      net_total (filter (\<lambda>e. le_account_id e = a \<and> le_currency e = c) (jr_entries j))"
    by (simp add: account_balance_net ledger_lines_post [OF assms(3)] conj_commute)
  ultimately show ?thesis by blast
qed

text \<open>
  the replay view is deterministic: two valid journals with the same header and the same entries in
  any order have the same replay view.
\<close>

theorem replay_view_order_independent:
  assumes "validate_entries j = Inr j" and "jr_header j' = jr_header j"
    and "mset (jr_entries j') = mset (jr_entries j)"
  shows "deterministic_replay_view j' = deterministic_replay_view j"
proof -
  have "card (le_line_index ` set (jr_entries j)) = length (jr_entries j)"
    using assms(1) by (simp add: validate_entries_Inr_iff)
  then have "distinct (map le_line_index (jr_entries j))" by (simp add: card_distinct)
  then have "inj_on le_line_index (set (jr_entries j'))"
    using mset_eq_setD [OF assms(3)] by (simp add: distinct_map)
  then have "sort_key le_line_index (jr_entries j') = sort_key le_line_index (jr_entries j)"
    using assms(3) by (intro sort_key_inj_key_eq) simp_all
  then show ?thesis
    using assms(2) by (cases j; cases j') (simp add: deterministic_replay_view_def)
qed

definition sample_ledger_entry :: "uuid \<Rightarrow> uuid \<Rightarrow> ledger_entry_side \<Rightarrow> int \<Rightarrow> int \<Rightarrow> ledger_entry" where
  "sample_ledger_entry eid acc side n line =
     \<lparr>le_entry_id = eid, le_account_id = acc, le_side = side, le_amount_minor = n, le_currency = ''ETB'',
      le_line_index = line, le_predecessor_entry_id = None\<rparr>"

definition sample_journal :: ledger_journal where
  "sample_journal =
     \<lparr>jr_header = \<lparr>lj_journal_id = 100, lj_book_id = 1, lj_business_event_type = ''fare.final'',
        lj_business_event_id = 7, lj_operation = ''ledger.post'', lj_idempotency_key = ''aaaaaaaaaaaaaaaa'',
        lj_actor_identity_id = 9, lj_source_system = ''pricing'', lj_reason_code = ''ride.fare'',
        lj_traceability = \<lparr>lt_ride_request_id = 2, lt_dispatch_handoff_id = 3, lt_assignment_id = 4,
          lt_active_ride_id = 5, lt_fare_estimate_id = 6, lt_fare_calculation_id = 7,
          lt_predecessor_ledger_journal_id = None, lt_wallet_id = None, lt_settlement_id = None,
          lt_driver_payout_id = None, lt_rider_payment_id = None, lt_refund_id = None,
          lt_promotion_id = None, lt_referral_id = None, lt_loyalty_id = None,
          lt_tax_record_id = None, lt_audit_package_id = None\<rparr>,
        lj_predecessor_ledger_journal_id = None, lj_effective_at = 1, lj_recorded_at = 2,
        lj_correlation_id = 11, lj_causation_id = 12, lj_audit_reference = 13\<rparr>,
      jr_entries = [sample_ledger_entry 201 21 DEBIT 29750 2, sample_ledger_entry 202 22 CREDIT 3719 3,
        sample_ledger_entry 203 23 CREDIT 26031 1]\<rparr>"

definition sample_ledger_account :: "uuid \<Rightarrow> ledger_account" where
  "sample_ledger_account k = \<lparr>la_account_id = k, la_book_id = 1, la_code = ''acc'', la_name = ''account'',
     la_account_class = LC_CLEARING, la_normal_side = DEBIT, la_currency = ''ETB'', la_created_at = 0,
     la_archived_at = None\<rparr>"

definition sample_ledger_db :: ledger_db where
  "sample_ledger_db =
     \<lparr>ld_books = [(1, \<lparr>lb_book_id = 1, lb_code = ''main'', lb_description = ''main book'',
        lb_base_currency = ''ETB'', lb_created_at = 0, lb_archived_at = None\<rparr>)],
      ld_accounts = map (\<lambda>k. (k, sample_ledger_account k)) [21, 22, 23],
      ld_fare_calculations = [(7, \<lparr>ts_ride_request_id = Some 2, ts_dispatch_handoff_id = Some 3,
        ts_assignment_id = Some 4, ts_active_ride_id = Some 5, ts_fare_estimate_id = Some 6,
        ts_fare_calculation_id = Some 7\<rparr>)],
      ld_journals = [], ld_entries = [], ld_idempotency = [], ld_events = [], ld_outbox = []\<rparr>"

definition sample_ledger_posted :: ledger_db where
  "sample_ledger_posted = fst (projr (post_journal sample_ledger_db sample_journal))"

lemma sample_journal_valid: "validate_entries sample_journal = Inr sample_journal"
  by code_simp

lemma sample_journal_posts:
  "post_journal sample_ledger_db sample_journal = Inr (sample_ledger_posted, sample_journal)"
  by code_simp

lemma sample_ledger_reachable: "ledger_reachable sample_ledger_db" "ledger_reachable sample_ledger_posted"
proof -
  show db: "ledger_reachable sample_ledger_db"
    by (rule ledger_start) (simp_all add: sample_ledger_db_def)
  show "ledger_reachable sample_ledger_posted"
    by (rule ledger_post [OF db sample_journal_valid sample_journal_posts])
qed

theorem trial_balance_witness:
  "\<exists>j. get_journal sample_ledger_posted 100 = Inr (Some j) \<and>
     side_total DEBIT (jr_entries j) = side_total CREDIT (jr_entries j)"
proof -
  have "dget (ld_journals sample_ledger_posted) 100 = Some (jr_header sample_journal)" by code_simp
  with trial_balance [OF sample_ledger_reachable(2)] show ?thesis by blast
qed

theorem post_journal_effect_witness:
  "get_journal sample_ledger_posted 100 = Inr (Some (deterministic_replay_view sample_journal)) \<and>
   bal_net_minor (account_balance sample_ledger_posted 21 ''ETB'') = 29750"
proof -
  have facts: "lj_journal_id (jr_header sample_journal) = 100"
    "bal_net_minor (account_balance sample_ledger_db 21 ''ETB'') = 0"
    "net_total (filter (\<lambda>e. le_account_id e = 21 \<and> le_currency e = ''ETB'') (jr_entries sample_journal)) = 29750"
    by code_simp+
  from post_journal_effect [OF sample_ledger_reachable(1) sample_journal_valid sample_journal_posts,
      of 0 21 "''ETB''"] facts
  show ?thesis by simp
qed

theorem replay_view_order_independent_witness:
  "deterministic_replay_view (sample_journal\<lparr>jr_entries := rev (jr_entries sample_journal)\<rparr>) =
   deterministic_replay_view sample_journal"
  by (rule replay_view_order_independent [OF sample_journal_valid]) simp_all

end
