(* ===== verification/Decimal_Arith.thy ===== *)
theory Decimal_Arith
  imports Complex_Main Prelude
begin

text \<open>
  Python's \<open>Decimal\<close> in its default context: values are exact rationals, and the result of an
  arithmetic operation is rounded to 28 significant digits, ties to even. The exponent range of the
  context (plus and minus 999999) is far outside the values of the program and is not modelled.
\<close>

section \<open>Rounding to an integer\<close>

definition round_half_even :: "rat \<Rightarrow> int" where
  "round_half_even x =
     (let f = \<lfloor>x\<rfloor>; d = x - of_int f in
      if d < 1 / 2 then f else if d > 1 / 2 then f + 1 else if even f then f else f + 1)"

definition round_half_up :: "rat \<Rightarrow> int" where
  \<comment> \<open>\<open>ROUND_HALF_UP\<close>: ties away from zero\<close>
  "round_half_up x = (if 0 \<le> x then \<lfloor>x + 1 / 2\<rfloor> else - \<lfloor>- x + 1 / 2\<rfloor>)"

definition int_of_decimal :: "rat \<Rightarrow> int" where
  \<comment> \<open>\<open>int(x)\<close>: truncation towards zero\<close>
  "int_of_decimal x = (if 0 \<le> x then \<lfloor>x\<rfloor> else - \<lfloor>- x\<rfloor>)"

section \<open>Rounding to 28 significant digits\<close>

fun digit_count :: "nat \<Rightarrow> nat" where
  "digit_count n = (if n < 10 then 1 else Suc (digit_count (n div 10)))"

declare digit_count.simps [simp del]

definition ten_pow :: "int \<Rightarrow> rat" where
  "ten_pow k = (if 0 \<le> k then 10 ^ nat k else 1 / 10 ^ nat (- k))"

definition decimal_exponent :: "rat \<Rightarrow> int" where
  \<comment> \<open>the exponent of the leading digit of a positive rational\<close>
  "decimal_exponent x =
     (let (n, d) = quotient_of x;
          k = int (digit_count (nat n)) - int (digit_count (nat d))
      in if ten_pow k \<le> x then k else k - 1)"

definition round28 :: "rat \<Rightarrow> rat" where
  "round28 x =
     (if x = 0 then 0
      else let e = decimal_exponent \<bar>x\<bar> - 27 in of_int (round_half_even (x / ten_pow e)) * ten_pow e)"

definition dec_div :: "rat \<Rightarrow> rat \<Rightarrow> rat" where "dec_div a b = round28 (a / b)"
definition dec_mult :: "rat \<Rightarrow> rat \<Rightarrow> rat" where "dec_mult a b = round28 (a * b)"
definition dec_sub :: "rat \<Rightarrow> rat \<Rightarrow> rat" where "dec_sub a b = round28 (a - b)"
definition dec_add :: "rat \<Rightarrow> rat \<Rightarrow> rat" where "dec_add a b = round28 (a + b)"

section \<open>Rounding respects integer bounds\<close>

lemma round_half_even_le: "x \<le> of_int b \<Longrightarrow> round_half_even x \<le> b"
proof -
  assume x: "x \<le> of_int b"
  then have f: "\<lfloor>x\<rfloor> \<le> b" by (metis floor_mono floor_of_int)
  show ?thesis
  proof (cases "\<lfloor>x\<rfloor> = b")
    case True
    then have "x = of_int b" using x by linarith
    then show ?thesis by (simp add: round_half_even_def)
  next
    case False
    then show ?thesis using f by (simp add: round_half_even_def Let_def)
  qed
qed

lemma round_half_even_ge: "of_int b \<le> x \<Longrightarrow> b \<le> round_half_even x"
  using le_floor_iff [of b x] by (auto simp: round_half_even_def Let_def)

lemma ten_pow_pos [simp]: "0 < ten_pow k"
  by (simp add: ten_pow_def)

lemma ten_pow_add: "ten_pow (a + b) = ten_pow a * ten_pow b"
proof -
  have p: "ten_pow k = 10 powi k" for k
    by (simp add: ten_pow_def power_int_def inverse_eq_divide power_one_over)
  show ?thesis by (simp add: p power_int_add)
qed

lemma ten_pow_nonpos_divides:
  assumes "e \<le> 0"
  obtains m where "0 < m" and "(1::rat) = of_int m * ten_pow e"
proof
  show "(0::int) < 10 ^ nat (- e)" by simp
  show "(1::rat) = of_int (10 ^ nat (- e)) * ten_pow e"
    using assms by (cases "e = 0") (simp_all add: ten_pow_def)
qed

lemma digit_count_pos: "0 < digit_count n"
  by (subst digit_count.simps) simp

lemma digit_count_upper: "n < 10 ^ digit_count n"
proof (induction n rule: digit_count.induct)
  case (1 n)
  show ?case
  proof (cases "n < 10")
    case True
    then show ?thesis by (subst digit_count.simps) simp
  next
    case False
    then have "n div 10 < 10 ^ digit_count (n div 10)" using 1 by simp
    then have "n < 10 * 10 ^ digit_count (n div 10)" by linarith
    then show ?thesis using False by (subst digit_count.simps) simp
  qed
qed

lemma digit_count_lower: "0 < n \<Longrightarrow> 10 ^ (digit_count n - 1) \<le> n"
proof (induction n rule: digit_count.induct)
  case (1 n)
  show ?case
  proof (cases "n < 10")
    case True
    then show ?thesis using 1 by (subst digit_count.simps) simp
  next
    case False
    then have ih: "10 ^ (digit_count (n div 10) - 1) \<le> n div 10" using 1 by simp
    obtain k where k: "digit_count (n div 10) = Suc k"
      using digit_count_pos [of "n div 10"] gr0_implies_Suc by blast
    have "10 * 10 ^ k \<le> n" using ih k by simp
    then show ?thesis using False k by (subst digit_count.simps) simp
  qed
qed

lemma ten_pow_nat_diff: "ten_pow (int a - int b) * 10 ^ b = 10 ^ a"
proof -
  have "ten_pow (int a) = ten_pow (int a - int b) * ten_pow (int b)"
    using ten_pow_add [of "int a - int b" "int b"] by simp
  then show ?thesis by (simp add: ten_pow_def)
qed

lemma ten_pow_less_iff: "ten_pow a < ten_pow b \<Longrightarrow> a < b"
proof (rule ccontr)
  assume lt: "ten_pow a < ten_pow b" and "\<not> a < b"
  then obtain k where k: "a = b + int k" by (metis add.commute zle_iff_zadd not_less)
  have "ten_pow a = ten_pow b * 10 ^ k" unfolding k ten_pow_add by (simp add: ten_pow_def)
  moreover have "(1::rat) \<le> 10 ^ k" by simp
  ultimately have "ten_pow b \<le> ten_pow a"
    using mult_left_mono [of 1 "10 ^ k" "ten_pow b"] ten_pow_pos [of b] by simp
  with lt show False by simp
qed

lemma decimal_exponent_lower:
  assumes "0 < x"
  shows "ten_pow (decimal_exponent x) \<le> x"
proof -
  obtain n d where q: "quotient_of x = (n, d)" by (cases "quotient_of x")
  have x: "x = of_int n / of_int d" using q by (rule quotient_of_div)
  have d: "0 < d" using q by (rule quotient_of_denom_pos)
  have n: "0 < n" using assms d x by (simp add: zero_less_divide_iff)
  let ?a = "digit_count (nat n)" and ?b = "digit_count (nat d)"
  have up: "of_int d \<le> (10::rat) ^ ?b"
  proof -
    have "int (nat d) \<le> 10 ^ ?b" using digit_count_upper [of "nat d"]
      by (metis of_nat_le_iff of_nat_numeral of_nat_power less_imp_le)
    then have "d \<le> 10 ^ ?b" using d by simp
    then show ?thesis by (metis of_int_le_iff of_int_numeral of_int_power)
  qed
  have low: "(10::rat) ^ (?a - 1) \<le> of_int n"
  proof -
    have "10 ^ (?a - 1) \<le> int (nat n)" using digit_count_lower [of "nat n"] n
      by (metis of_nat_le_iff of_nat_numeral of_nat_power zero_less_nat_eq)
    then have "10 ^ (?a - 1) \<le> n" using n by simp
    then show ?thesis by (metis of_int_le_iff of_int_numeral of_int_power)
  qed
  have a1: "int ?a - int ?b - 1 = int (?a - 1) - int ?b" using digit_count_pos [of "nat n"] by simp
  have "ten_pow (int ?a - int ?b - 1) * of_int d \<le> ten_pow (int ?a - int ?b - 1) * 10 ^ ?b"
    using up by (intro mult_left_mono) (simp_all add: less_imp_le)
  also have "\<dots> = 10 ^ (?a - 1)" unfolding a1 by (rule ten_pow_nat_diff)
  also have "\<dots> \<le> of_int n" by (rule low)
  finally have "ten_pow (int ?a - int ?b - 1) \<le> x" using d by (simp add: x field_simps)
  then show ?thesis by (simp add: decimal_exponent_def q Let_def)
qed

lemma decimal_exponent_le: "0 < x \<Longrightarrow> x < 10 ^ 28 \<Longrightarrow> decimal_exponent x \<le> 27"
proof -
  assume "0 < x" and "x < 10 ^ 28"
  moreover have "ten_pow 28 = 10 ^ 28" by (simp add: ten_pow_def)
  ultimately have "ten_pow (decimal_exponent x) < ten_pow 28"
    using decimal_exponent_lower [of x] by linarith
  then show ?thesis using ten_pow_less_iff by force
qed

text \<open>Rounding a value below \<open>10^28\<close> never crosses an integer.\<close>

lemma round28_between:
  assumes "of_int a \<le> x" and "x \<le> of_int b" and "\<bar>x\<bar> < 10 ^ 28"
  shows "of_int a \<le> round28 x" and "round28 x \<le> of_int b"
proof -
  have "of_int a \<le> round28 x \<and> round28 x \<le> of_int b"
  proof (cases "x = 0")
    case True
    then show ?thesis using assms by (simp add: round28_def)
  next
    case False
    define e where "e = decimal_exponent \<bar>x\<bar> - 27"
    have "e \<le> 0" using decimal_exponent_le [of "\<bar>x\<bar>"] False assms(3) by (simp add: e_def)
    then obtain m where m: "0 < m" and one: "(1::rat) = of_int m * ten_pow e"
      by (rule ten_pow_nonpos_divides)
    have inv: "1 / ten_pow e = of_int m"
      using one ten_pow_pos [of e] by (metis nonzero_eq_divide_eq less_irrefl)
    have r: "round28 x = of_int (round_half_even (x / ten_pow e)) * ten_pow e"
      using False by (simp add: round28_def e_def Let_def)
    have up: "x / ten_pow e \<le> of_int (b * m)" and low: "of_int (a * m) \<le> x / ten_pow e"
    proof -
      have "x / ten_pow e = x * of_int m" using inv by (metis times_divide_eq_right mult.right_neutral)
      then show "x / ten_pow e \<le> of_int (b * m)" and "of_int (a * m) \<le> x / ten_pow e"
        using assms(1,2) m by (simp_all add: mult_right_mono)
    qed
    have "of_int (round_half_even (x / ten_pow e)) * ten_pow e \<le> of_int (b * m) * ten_pow e"
      by (intro mult_right_mono) (use round_half_even_le [OF up] in \<open>simp_all add: less_imp_le del: of_int_mult\<close>)
    also have "\<dots> = of_int b" using one by (simp add: mult.assoc)
    finally have "round28 x \<le> of_int b" by (simp add: r)
    moreover have "of_int (a * m) * ten_pow e \<le> of_int (round_half_even (x / ten_pow e)) * ten_pow e"
      by (intro mult_right_mono) (use round_half_even_ge [OF low] in \<open>simp_all add: less_imp_le del: of_int_mult\<close>)
    then have "of_int a \<le> round28 x" using one by (simp add: r mult.assoc)
    ultimately show ?thesis by blast
  qed
  then show "of_int a \<le> round28 x" and "round28 x \<le> of_int b" by blast+
qed

lemma round28_unit: "0 \<le> x \<Longrightarrow> x \<le> 1 \<Longrightarrow> 0 \<le> round28 x \<and> round28 x \<le> 1"
  using round28_between [of 0 x 1] by simp

lemma int_of_decimal_between:
  "of_int a \<le> x \<Longrightarrow> x \<le> of_int b \<Longrightarrow> 0 \<le> a \<Longrightarrow> a \<le> int_of_decimal x \<and> int_of_decimal x \<le> b"
  by (auto simp: int_of_decimal_def le_floor_iff floor_le_iff)

lemma round_half_up_between:
  assumes "of_int a \<le> x" and "x \<le> of_int b" and "0 \<le> a"
  shows "a \<le> round_half_up x" and "round_half_up x \<le> b"
proof -
  have "0 \<le> x" using assms by (metis of_int_0_le_iff order_trans)
  then show "a \<le> round_half_up x" "round_half_up x \<le> b"
    using assms by (auto simp: round_half_up_def le_floor_iff floor_le_iff)
qed

end
