(* ===== verification/Dispatch_Scoring.thy ===== *)
theory Dispatch_Scoring
  imports Decimal_Arith
begin

text \<open>
  Immediate dispatch, first part: the models of \<open>dispatch/models.py\<close> and the scoring of candidates in
  \<open>dispatch/scoring.py\<close>. Decimal values are rationals; every operation on them rounds as in
  \<open>Decimal_Arith\<close>.
\<close>

section \<open>Models\<close>

datatype ride_state = RS_SEARCHING | RS_OFFERING | RS_ASSIGNED | RS_NO_DRIVER_AVAILABLE | RS_RIDER_CANCELLED

datatype offer_state = OS_CREATED | OS_ACCEPTED | OS_DECLINED | OS_EXPIRED | OS_REVOKED

datatype driver_availability = DA_AVAILABLE | DA_RESERVED | DA_ASSIGNED | DA_OFFLINE | DA_SUSPENDED

record place_snapshot =
  pl_place_id :: string
  pl_display_name :: string

record quote_snapshot =
  qs_quote_id :: uuid
  qs_amount_minor :: int
  qs_currency :: string
  qs_pricing_version :: string
  qs_expires_at :: instant

record create_ride_command =
  cr_pickup :: place_snapshot
  cr_destination :: place_snapshot
  cr_service_type :: string
  cr_quote :: quote_snapshot

definition place_ok :: "place_snapshot \<Rightarrow> bool" where
  "place_ok p \<longleftrightarrow> length_between 8 128 (pl_place_id p) \<and> length_between 1 200 (pl_display_name p)"

definition quote_ok :: "quote_snapshot \<Rightarrow> bool" where
  "quote_ok q \<longleftrightarrow> 0 \<le> qs_amount_minor q \<and> currency_pattern (qs_currency q) \<and>
     version_pattern (qs_pricing_version q)"

definition service_type_ok :: "string \<Rightarrow> bool" where
  \<comment> \<open>the pattern \<open>^[a-z][a-z0-9_.-]{1,39}$\<close>\<close>
  "service_type_ok s \<longleftrightarrow> code_pattern 1 s \<and> length s \<le> 40"

definition valid_command :: "create_ride_command \<Rightarrow> create_ride_command result" where
  "valid_command c =
     (if \<not> place_ok (cr_pickup c) \<or> \<not> place_ok (cr_destination c) \<or>
         \<not> service_type_ok (cr_service_type c) \<or> \<not> quote_ok (cr_quote c)
      then Inl (ValidationError ''CreateRideCommand'')
      else if pl_place_id (cr_pickup c) = pl_place_id (cr_destination c)
      then Inl (ValidationError ''Pickup and destination must differ'')
      else Inr c)"

record dispatch_ride =
  dr_ride_id :: uuid
  dr_rider_id :: uuid
  dr_pickup :: place_snapshot
  dr_destination :: place_snapshot
  dr_service_type :: string
  dr_quote :: quote_snapshot
  dr_state :: ride_state
  dr_accepted_at :: instant
  dr_updated_at :: instant
  dr_version :: int
  dr_assigned_driver_id :: "uuid option"
  dr_active_offer_id :: "uuid option"
  dr_attempted_driver_ids :: "uuid set"

record driver_reputation =
  rp_completed_trips :: int
  rp_reliable_completions :: int
  rp_avoidable_cancellations :: int

definition valid_reputation :: "driver_reputation \<Rightarrow> bool" where
  "valid_reputation r \<longleftrightarrow>
     0 \<le> rp_completed_trips r \<and> 0 \<le> rp_reliable_completions r \<and> 0 \<le> rp_avoidable_cancellations r \<and>
     rp_reliable_completions r \<le> rp_completed_trips r"

definition trust :: "driver_reputation \<Rightarrow> int \<Rightarrow> rat \<times> bool" where
  "trust r minimum_history =
     (if rp_completed_trips r < minimum_history then (1 / 2, True)
      else
        (let reliability = dec_div (of_int (rp_reliable_completions r)) (of_int (rp_completed_trips r));
             cancellation_penalty =
               min (dec_div (of_int (rp_avoidable_cancellations r)) (of_int (rp_completed_trips r))) (1 / 4)
         in (max 0 (dec_sub reliability cancellation_penalty), False)))"

record driver_candidate =
  dc_driver_id :: uuid
  dc_availability :: driver_availability
  dc_verified :: bool
  dc_safety_eligible :: bool
  dc_service_types :: "string list"
  dc_pickup_eta_seconds :: int
  dc_location_observed_at :: instant
  dc_opportunity_deficit :: rat
  dc_reputation :: driver_reputation

definition valid_candidate :: "driver_candidate \<Rightarrow> bool" where
  "valid_candidate c \<longleftrightarrow>
     0 \<le> dc_pickup_eta_seconds c \<and> dc_pickup_eta_seconds c \<le> 14400 \<and>
     0 \<le> dc_opportunity_deficit c \<and> dc_opportunity_deficit c \<le> 1 \<and> valid_reputation (dc_reputation c)"

record dispatch_policy =
  dp_version :: string
  dp_offer_timeout_seconds :: int
  dp_maximum_location_age_seconds :: int
  dp_minimum_reputation_history :: int
  dp_maximum_fairness_eta_tradeoff_seconds :: int
  dp_reliability_penalty_seconds :: int
  dp_maximum_candidates :: int

definition valid_dispatch_policy :: "dispatch_policy \<Rightarrow> bool" where
  "valid_dispatch_policy p \<longleftrightarrow>
     version_pattern (dp_version p) \<and>
     5 \<le> dp_offer_timeout_seconds p \<and> dp_offer_timeout_seconds p \<le> 120 \<and>
     5 \<le> dp_maximum_location_age_seconds p \<and> dp_maximum_location_age_seconds p \<le> 300 \<and>
     1 \<le> dp_minimum_reputation_history p \<and> dp_minimum_reputation_history p \<le> 1000 \<and>
     0 \<le> dp_maximum_fairness_eta_tradeoff_seconds p \<and> dp_maximum_fairness_eta_tradeoff_seconds p \<le> 120 \<and>
     0 \<le> dp_reliability_penalty_seconds p \<and> dp_reliability_penalty_seconds p \<le> 120 \<and>
     1 \<le> dp_maximum_candidates p \<and> dp_maximum_candidates p \<le> 100"

record dispatch_score =
  sc_driver_id :: uuid
  sc_pickup_eta_seconds :: int
  sc_effective_eta_seconds :: int
  sc_trust_score :: rat
  sc_neutral_reputation :: bool
  sc_fairness_credit_seconds :: int
  sc_reliability_penalty_seconds :: int
  sc_policy_version :: string
  sc_reason_codes :: "string list"

record driver_offer =
  of_offer_id :: uuid
  of_ride_id :: uuid
  of_driver_id :: uuid
  of_state :: offer_state
  of_created_at :: instant
  of_expires_at :: instant
  of_policy_version :: string
  of_score :: dispatch_score
  of_version :: int

record ride_projection =
  rj_ride_id :: uuid
  rj_state :: ride_state
  rj_version :: int
  rj_accepted_at :: instant
  rj_pickup :: place_snapshot
  rj_destination :: place_snapshot
  rj_service_type :: string
  rj_estimated_fare_minor :: int
  rj_currency :: string
  rj_assigned_driver_id :: "uuid option"

definition project_ride :: "dispatch_ride \<Rightarrow> ride_projection" where
  "project_ride r =
     \<lparr>rj_ride_id = dr_ride_id r, rj_state = dr_state r, rj_version = dr_version r,
      rj_accepted_at = dr_accepted_at r, rj_pickup = dr_pickup r, rj_destination = dr_destination r,
      rj_service_type = dr_service_type r, rj_estimated_fare_minor = qs_amount_minor (dr_quote r),
      rj_currency = qs_currency (dr_quote r), rj_assigned_driver_id = dr_assigned_driver_id r\<rparr>"

section \<open>Scoring\<close>

definition candidate_eligible :: "dispatch_ride \<Rightarrow> dispatch_policy \<Rightarrow> instant \<Rightarrow> driver_candidate \<Rightarrow> bool" where
  "candidate_eligible ride policy now c \<longleftrightarrow>
     \<not> (dc_driver_id c \<in> dr_attempted_driver_ids ride \<or>
        dc_availability c \<noteq> DA_AVAILABLE \<or>
        \<not> dc_verified c \<or>
        \<not> dc_safety_eligible c \<or>
        dr_service_type ride \<notin> set (dc_service_types c) \<or>
        now - dc_location_observed_at c < 0 \<or>
        now - dc_location_observed_at c > timedelta_seconds (dp_maximum_location_age_seconds policy))"

definition eligible_candidates ::
  "dispatch_ride \<Rightarrow> driver_candidate list \<Rightarrow> dispatch_policy \<Rightarrow> instant \<Rightarrow> driver_candidate list" where
  "eligible_candidates ride candidates policy now =
     filter (candidate_eligible ride policy now) (take (nat (dp_maximum_candidates policy)) candidates)"

definition score_candidate :: "dispatch_policy \<Rightarrow> driver_candidate \<Rightarrow> dispatch_score" where
  \<comment> \<open>the body of the loop for a candidate that is not too far\<close>
  "score_candidate policy c =
     (let (t, neutral) = trust (dc_reputation c) (dp_minimum_reputation_history policy);
          reliability_penalty =
            (if \<not> neutral
             then int_of_decimal (dec_mult (dec_sub 1 t) (of_int (dp_reliability_penalty_seconds policy)))
             else 0);
          fairness_credit =
            round_half_up (dec_mult (dc_opportunity_deficit c)
              (of_int (dp_maximum_fairness_eta_tradeoff_seconds policy)));
          effective_eta = max 0 (dc_pickup_eta_seconds c + reliability_penalty - fairness_credit)
      in \<lparr>sc_driver_id = dc_driver_id c,
          sc_pickup_eta_seconds = dc_pickup_eta_seconds c,
          sc_effective_eta_seconds = effective_eta,
          sc_trust_score = t,
          sc_neutral_reputation = neutral,
          sc_fairness_credit_seconds = fairness_credit,
          sc_reliability_penalty_seconds = reliability_penalty,
          sc_policy_version = dp_version policy,
          sc_reason_codes = [''fast_pickup'', ''eligible'', ''policy_versioned'']
            @ (if neutral then [''neutral_reputation''] else [])
            @ (if fairness_credit \<noteq> 0 then [''bounded_opportunity_balance''] else [])
            @ (if reliability_penalty \<noteq> 0 then [''established_reliability''] else [])\<rparr>)"

definition score_key :: "dispatch_score \<Rightarrow> int \<times> int \<times> uuid" where
  "score_key s = (sc_effective_eta_seconds s, sc_pickup_eta_seconds s, sc_driver_id s)"

definition score_candidates ::
  "dispatch_ride \<Rightarrow> driver_candidate list \<Rightarrow> dispatch_policy \<Rightarrow> instant \<Rightarrow> dispatch_score list" where
  "score_candidates ride candidates policy now =
     (let eligible = eligible_candidates ride candidates policy now in
      if eligible = [] then []
      else
        let fastest_eta = Min (set (map dc_pickup_eta_seconds eligible))
        in sort_key score_key
             (map (score_candidate policy)
                (filter (\<lambda>c. \<not> dc_pickup_eta_seconds c >
                    fastest_eta + dp_maximum_fairness_eta_tradeoff_seconds policy) eligible)))"

section \<open>Bounds of the score\<close>

lemma dec_div_ratio_unit:
  fixes a b :: int
  assumes "0 \<le> a" and "a \<le> b" and "0 < b"
  shows "0 \<le> dec_div (of_int a) (of_int b)" and "dec_div (of_int a) (of_int b) \<le> 1"
  using round28_unit [of "of_int a / of_int b"] assms by (auto simp: dec_div_def)

lemma round28_nonneg: "0 \<le> x \<Longrightarrow> 0 \<le> round28 x"
proof -
  assume x: "0 \<le> x"
  show ?thesis
  proof (cases "x = 0")
    case False
    let ?e = "decimal_exponent \<bar>x\<bar> - 27"
    have "of_int 0 \<le> x / ten_pow ?e" using x by (simp add: less_imp_le)
    then have "0 \<le> round_half_even (x / ten_pow ?e)" by (rule round_half_even_ge)
    then show ?thesis using False by (simp add: round28_def Let_def less_imp_le)
  qed (simp add: round28_def)
qed

lemma trust_unit:
  assumes "valid_reputation r" and "1 \<le> h" and "trust r h = (t, neutral)"
  shows "0 \<le> t" and "t \<le> 1"
proof -
  have "0 \<le> t \<and> t \<le> 1"
  proof (cases "rp_completed_trips r < h")
    case True
    then show ?thesis using assms(3) by (simp add: trust_def)
  next
    case False
    let ?rel = "dec_div (of_int (rp_reliable_completions r)) (of_int (rp_completed_trips r))"
    let ?pen = "min (dec_div (of_int (rp_avoidable_cancellations r)) (of_int (rp_completed_trips r))) (1 / 4)"
    have "0 \<le> ?rel" "?rel \<le> 1"
      using assms(1,2) False by (intro dec_div_ratio_unit; simp add: valid_reputation_def)+
    moreover have "0 \<le> ?pen" "?pen \<le> 1 / 4"
      using assms(1,2) False round28_nonneg by (auto simp: valid_reputation_def dec_div_def)
    ultimately have "of_int (-1) \<le> ?rel - ?pen" "?rel - ?pen \<le> of_int 1" "\<bar>?rel - ?pen\<bar> < 10 ^ 28"
      by auto
    then have "dec_sub ?rel ?pen \<le> 1" using round28_between(2) [of "-1" _ 1] by (simp add: dec_sub_def)
    moreover have "t = max 0 (dec_sub ?rel ?pen)"
      using assms(3) False by (simp add: trust_def Let_def)
    ultimately show ?thesis by simp
  qed
  then show "0 \<le> t" and "t \<le> 1" by blast+
qed

lemma scaled_unit_bounds:
  assumes "0 \<le> x" and "x \<le> 1" and "0 \<le> n" and "n \<le> (120::int)"
  shows "of_int 0 \<le> dec_mult x (of_int n)" and "dec_mult x (of_int n) \<le> of_int n"
proof -
  have "x * of_int n \<le> 1 * of_int n" using assms by (intro mult_right_mono) simp_all
  then have up: "x * of_int n \<le> of_int n" by simp
  have low: "of_int 0 \<le> x * of_int n" using assms by simp
  have "(of_int n :: rat) \<le> 120" using assms(4) by (metis of_int_le_iff of_int_numeral)
  then have "\<bar>x * of_int n\<bar> < 10 ^ 28" using up low by simp
  with round28_between [OF low up] show "of_int 0 \<le> dec_mult x (of_int n)"
    and "dec_mult x (of_int n) \<le> of_int n" by (simp_all add: dec_mult_def)
qed

lemma score_candidate_bounds:
  assumes "valid_candidate c" and "valid_dispatch_policy p"
  shows "0 \<le> sc_fairness_credit_seconds (score_candidate p c)"
    and "sc_fairness_credit_seconds (score_candidate p c) \<le> dp_maximum_fairness_eta_tradeoff_seconds p"
    and "0 \<le> sc_reliability_penalty_seconds (score_candidate p c)"
    and "sc_reliability_penalty_seconds (score_candidate p c) \<le> dp_reliability_penalty_seconds p"
    and "0 \<le> sc_trust_score (score_candidate p c) \<and> sc_trust_score (score_candidate p c) \<le> 1"
proof -
  obtain t neutral where t: "trust (dc_reputation c) (dp_minimum_reputation_history p) = (t, neutral)"
    by fastforce
  have tu: "0 \<le> t" "t \<le> 1"
    using assms t by (auto simp: valid_candidate_def valid_dispatch_policy_def intro: trust_unit)
  then show "0 \<le> sc_trust_score (score_candidate p c) \<and> sc_trust_score (score_candidate p c) \<le> 1"
    by (simp add: score_candidate_def t Let_def)
  let ?f = "dp_maximum_fairness_eta_tradeoff_seconds p" and ?r = "dp_reliability_penalty_seconds p"
  have f: "0 \<le> ?f" "?f \<le> 120" and r: "0 \<le> ?r" "?r \<le> 120"
    using assms(2) by (simp_all add: valid_dispatch_policy_def)
  have d: "0 \<le> dc_opportunity_deficit c" "dc_opportunity_deficit c \<le> 1"
    using assms(1) by (simp_all add: valid_candidate_def)
  show "0 \<le> sc_fairness_credit_seconds (score_candidate p c)"
    and "sc_fairness_credit_seconds (score_candidate p c) \<le> ?f"
    using round_half_up_between [OF scaled_unit_bounds [OF d f]]
    by (simp_all add: score_candidate_def t Let_def)
  have one: "0 \<le> dec_sub 1 t" "dec_sub 1 t \<le> 1"
    using round28_unit [of "1 - t"] tu by (simp_all add: dec_sub_def)
  show "0 \<le> sc_reliability_penalty_seconds (score_candidate p c)"
    and "sc_reliability_penalty_seconds (score_candidate p c) \<le> ?r"
    using int_of_decimal_between [OF scaled_unit_bounds [OF one r]] r
    by (simp_all add: score_candidate_def t Let_def)
qed


section \<open>Which driver is chosen\<close>

lemma fastest_in:
  assumes "cs \<noteq> []"
  obtains c where "c \<in> set cs" and "dc_pickup_eta_seconds c = Min (set (map dc_pickup_eta_seconds cs))"
proof -
  have "Min (set (map dc_pickup_eta_seconds cs)) \<in> set (map dc_pickup_eta_seconds cs)"
    using assms by (intro Min_in) simp_all
  then show thesis using that by auto
qed

lemma in_score_candidates_iff:
  "s \<in> set (score_candidates ride cs p now) \<longleftrightarrow>
     (\<exists>c \<in> set (eligible_candidates ride cs p now). s = score_candidate p c \<and>
        (\<forall>c' \<in> set (eligible_candidates ride cs p now).
           dc_pickup_eta_seconds c \<le> dc_pickup_eta_seconds c' + dp_maximum_fairness_eta_tradeoff_seconds p))"
proof (cases "eligible_candidates ride cs p now = []")
  case True
  then show ?thesis by (simp add: score_candidates_def)
next
  case False
  let ?E = "eligible_candidates ride cs p now"
  let ?m = "Min (set (map dc_pickup_eta_seconds ?E))"
  obtain f where f: "f \<in> set ?E" "dc_pickup_eta_seconds f = ?m" using False by (rule fastest_in)
  have m: "?m \<le> dc_pickup_eta_seconds c" if "c \<in> set ?E" for c using that by (intro Min_le) auto
  have "\<not> dc_pickup_eta_seconds c > ?m + dp_maximum_fairness_eta_tradeoff_seconds p \<longleftrightarrow>
      (\<forall>c' \<in> set ?E. dc_pickup_eta_seconds c \<le> dc_pickup_eta_seconds c' +
         dp_maximum_fairness_eta_tradeoff_seconds p)" for c
  proof
    assume near: "\<not> dc_pickup_eta_seconds c > ?m + dp_maximum_fairness_eta_tradeoff_seconds p"
    show "\<forall>c' \<in> set ?E. dc_pickup_eta_seconds c \<le> dc_pickup_eta_seconds c' +
         dp_maximum_fairness_eta_tradeoff_seconds p"
    proof
      fix c' assume "c' \<in> set ?E"
      from near m [OF this] show "dc_pickup_eta_seconds c \<le> dc_pickup_eta_seconds c' +
         dp_maximum_fairness_eta_tradeoff_seconds p" by linarith
    qed
  next
    assume "\<forall>c' \<in> set ?E. dc_pickup_eta_seconds c \<le> dc_pickup_eta_seconds c' +
         dp_maximum_fairness_eta_tradeoff_seconds p"
    from bspec [OF this f(1)] f(2)
    show "\<not> dc_pickup_eta_seconds c > ?m + dp_maximum_fairness_eta_tradeoff_seconds p" by linarith
  qed
  then show ?thesis using False by (auto simp: score_candidates_def Let_def)
qed

lemma score_candidates_sorted: "sorted (map score_key (score_candidates ride cs p now))"
  by (simp add: score_candidates_def Let_def)

lemma score_candidates_Nil_iff:
  assumes "0 \<le> dp_maximum_fairness_eta_tradeoff_seconds p"
  shows "score_candidates ride cs p now = [] \<longleftrightarrow> eligible_candidates ride cs p now = []"
proof
  assume empty: "score_candidates ride cs p now = []"
  show "eligible_candidates ride cs p now = []"
  proof (rule ccontr)
    assume ne: "eligible_candidates ride cs p now \<noteq> []"
    then obtain f where f: "f \<in> set (eligible_candidates ride cs p now)"
      "dc_pickup_eta_seconds f = Min (set (map dc_pickup_eta_seconds (eligible_candidates ride cs p now)))"
      by (rule fastest_in)
    have "dc_pickup_eta_seconds f \<le> dc_pickup_eta_seconds c + dp_maximum_fairness_eta_tradeoff_seconds p"
      if "c \<in> set (eligible_candidates ride cs p now)" for c
    proof -
      have "dc_pickup_eta_seconds f \<le> dc_pickup_eta_seconds c"
        unfolding f(2) using that by (intro Min_le) auto
      then show ?thesis using assms by simp
    qed
    then have "score_candidate p f \<in> set (score_candidates ride cs p now)"
      using f(1) by (subst in_score_candidates_iff) blast
    with empty show False by simp
  qed
qed (simp add: score_candidates_def)

lemma score_candidate_driver [simp]: "sc_driver_id (score_candidate p c) = dc_driver_id c"
  by (simp add: score_candidate_def Let_def split: prod.split)

lemma score_candidate_fields:
  "sc_pickup_eta_seconds (score_candidate p c) = dc_pickup_eta_seconds c"
  "sc_effective_eta_seconds (score_candidate p c) =
     max 0 (dc_pickup_eta_seconds c + sc_reliability_penalty_seconds (score_candidate p c) -
       sc_fairness_credit_seconds (score_candidate p c))"
  by (simp_all add: score_candidate_def Let_def split: prod.split)

lemma eligible_candidates_valid:
  "list_all valid_candidate cs \<Longrightarrow> c \<in> set (eligible_candidates ride cs p now) \<Longrightarrow> valid_candidate c"
  by (auto simp: eligible_candidates_def list_all_iff dest: in_set_takeD)

text \<open>
  C8: every score belongs to an eligible candidate, and fairness is bounded: no scored driver is slower
  than any eligible driver by more than the policy's trade-off, the fairness credit lies between zero
  and that trade-off, the reliability penalty between zero and its limit, and the effective arrival
  time differs from the real one by no more than these, in spite of the decimal rounding.
\<close>

theorem score_candidates_bounded:
  assumes "valid_dispatch_policy p" and "list_all valid_candidate cs"
    and "s \<in> set (score_candidates ride cs p now)"
  shows "\<exists>c \<in> set (take (nat (dp_maximum_candidates p)) cs).
    candidate_eligible ride p now c \<and> sc_driver_id s = dc_driver_id c \<and>
    sc_pickup_eta_seconds s = dc_pickup_eta_seconds c \<and>
    (\<forall>c' \<in> set (eligible_candidates ride cs p now).
       dc_pickup_eta_seconds c \<le> dc_pickup_eta_seconds c' + dp_maximum_fairness_eta_tradeoff_seconds p) \<and>
    0 \<le> sc_fairness_credit_seconds s \<and>
    sc_fairness_credit_seconds s \<le> dp_maximum_fairness_eta_tradeoff_seconds p \<and>
    0 \<le> sc_reliability_penalty_seconds s \<and>
    sc_reliability_penalty_seconds s \<le> dp_reliability_penalty_seconds p \<and>
    dc_pickup_eta_seconds c - dp_maximum_fairness_eta_tradeoff_seconds p \<le> sc_effective_eta_seconds s \<and>
    sc_effective_eta_seconds s \<le> dc_pickup_eta_seconds c + dp_reliability_penalty_seconds p"
proof -
  obtain c where c: "c \<in> set (eligible_candidates ride cs p now)" "s = score_candidate p c"
    and fast: "\<forall>c' \<in> set (eligible_candidates ride cs p now).
       dc_pickup_eta_seconds c \<le> dc_pickup_eta_seconds c' + dp_maximum_fairness_eta_tradeoff_seconds p"
    using assms(3) unfolding in_score_candidates_iff by blast
  have v: "valid_candidate c" using assms(2) c(1) by (rule eligible_candidates_valid)
  note b = score_candidate_bounds [OF v assms(1)]
  have eta: "0 \<le> dc_pickup_eta_seconds c" using v by (simp add: valid_candidate_def)
  have "c \<in> set (take (nat (dp_maximum_candidates p)) cs)" "candidate_eligible ride p now c"
    using c(1) by (auto simp: eligible_candidates_def)
  moreover have "dc_pickup_eta_seconds c - dp_maximum_fairness_eta_tradeoff_seconds p
      \<le> sc_effective_eta_seconds (score_candidate p c)"
    and "sc_effective_eta_seconds (score_candidate p c)
      \<le> dc_pickup_eta_seconds c + dp_reliability_penalty_seconds p"
    unfolding score_candidate_fields using b eta by linarith+
  ultimately show ?thesis
    using fast b c(2) by (intro bexI [of _ c]) (simp_all add: score_candidate_fields(1))
qed

text \<open>
  a driver is found exactly when some candidate is eligible, and the first score is the best one:
  no scored candidate has a smaller effective time, or the same and a smaller real time, or the same
  and a smaller identifier, so the choice does not depend on the order of the scores.
\<close>

theorem score_candidates_best_first:
  assumes "valid_dispatch_policy p"
  shows "(score_candidates ride cs p now = [] \<longleftrightarrow>
      (\<forall>c \<in> set (take (nat (dp_maximum_candidates p)) cs). \<not> candidate_eligible ride p now c)) \<and>
    (\<forall>s \<in> set (score_candidates ride cs p now).
       score_key (hd (score_candidates ride cs p now)) \<le> score_key s)"
proof
  have "0 \<le> dp_maximum_fairness_eta_tradeoff_seconds p"
    using assms by (simp add: valid_dispatch_policy_def)
  from score_candidates_Nil_iff [OF this]
  show "score_candidates ride cs p now = [] \<longleftrightarrow>
      (\<forall>c \<in> set (take (nat (dp_maximum_candidates p)) cs). \<not> candidate_eligible ride p now c)"
    by (simp add: eligible_candidates_def filter_empty_conv)
  show "\<forall>s \<in> set (score_candidates ride cs p now).
      score_key (hd (score_candidates ride cs p now)) \<le> score_key s"
    using score_candidates_sorted [of ride cs p now]
    by (cases "score_candidates ride cs p now") auto
qed

section \<open>Witnesses\<close>

definition sample_dispatch_policy :: dispatch_policy where
  "sample_dispatch_policy = \<lparr>dp_version = ''v1'', dp_offer_timeout_seconds = 15,
     dp_maximum_location_age_seconds = 45, dp_minimum_reputation_history = 20,
     dp_maximum_fairness_eta_tradeoff_seconds = 20, dp_reliability_penalty_seconds = 10,
     dp_maximum_candidates = 20\<rparr>"

definition sample_candidate :: "uuid \<Rightarrow> int \<Rightarrow> rat \<Rightarrow> driver_candidate" where
  "sample_candidate d eta deficit = \<lparr>dc_driver_id = d, dc_availability = DA_AVAILABLE, dc_verified = True,
     dc_safety_eligible = True, dc_service_types = [''standard''], dc_pickup_eta_seconds = eta,
     dc_location_observed_at = 0, dc_opportunity_deficit = deficit,
     dc_reputation = \<lparr>rp_completed_trips = 10, rp_reliable_completions = 9,
       rp_avoidable_cancellations = 1\<rparr>\<rparr>"

definition sample_place :: "string \<Rightarrow> place_snapshot" where
  "sample_place s = \<lparr>pl_place_id = s, pl_display_name = s\<rparr>"

definition sample_command :: create_ride_command where
  "sample_command = \<lparr>cr_pickup = sample_place ''place-0001'', cr_destination = sample_place ''place-0002'',
     cr_service_type = ''standard'',
     cr_quote = \<lparr>qs_quote_id = 77, qs_amount_minor = 29750, qs_currency = ''ETB'',
       qs_pricing_version = ''v1'', qs_expires_at = 60000000\<rparr>\<rparr>"

definition sample_ride :: dispatch_ride where
  "sample_ride = \<lparr>dr_ride_id = 500, dr_rider_id = 400, dr_pickup = cr_pickup sample_command,
     dr_destination = cr_destination sample_command, dr_service_type = ''standard'',
     dr_quote = cr_quote sample_command, dr_state = RS_SEARCHING, dr_accepted_at = 1000000,
     dr_updated_at = 1000000, dr_version = 1, dr_assigned_driver_id = None, dr_active_offer_id = None,
     dr_attempted_driver_ids = {}\<rparr>"

lemma sample_dispatch_valid:
  "valid_dispatch_policy sample_dispatch_policy"
  "list_all valid_candidate [sample_candidate 1 100 (1 / 2), sample_candidate 2 95 0]"
  by code_simp+

lemma sample_scores:
  "map sc_driver_id (score_candidates sample_ride [sample_candidate 1 100 (1 / 2), sample_candidate 2 95 0]
     sample_dispatch_policy 5000000) = [1, 2]"
  by code_simp


definition sample_candidates :: "driver_candidate list" where
  "sample_candidates = [sample_candidate 1 100 (1 / 2), sample_candidate 2 95 0]"

theorem score_candidates_bounded_witness:
  "\<exists>s \<in> set (score_candidates sample_ride sample_candidates sample_dispatch_policy 5000000).
     sc_driver_id s = 1 \<and> sc_fairness_credit_seconds s \<le> 20"
proof -
  let ?l = "score_candidates sample_ride sample_candidates sample_dispatch_policy 5000000"
  have "map sc_driver_id ?l = [1, 2]" using sample_scores by (simp add: sample_candidates_def)
  then have "1 \<in> sc_driver_id ` set ?l" by (metis list.set_intros(1) list.set_map)
  then obtain s where s: "s \<in> set ?l" "sc_driver_id s = 1" by auto
  have v: "list_all valid_candidate sample_candidates"
    using sample_dispatch_valid(2) by (simp add: sample_candidates_def)
  have "dp_maximum_fairness_eta_tradeoff_seconds sample_dispatch_policy = 20"
    by (simp add: sample_dispatch_policy_def)
  with s score_candidates_bounded [OF sample_dispatch_valid(1) v s(1)] show ?thesis by auto
qed

theorem score_candidates_best_first_witness:
  "score_candidates sample_ride sample_candidates sample_dispatch_policy 5000000 \<noteq> [] \<and>
   score_candidates sample_ride sample_candidates sample_dispatch_policy 50000000 = []"
proof -
  have "\<not> (\<forall>c \<in> set (take (nat (dp_maximum_candidates sample_dispatch_policy)) sample_candidates).
      \<not> candidate_eligible sample_ride sample_dispatch_policy 5000000 c)"
    and "\<forall>c \<in> set (take (nat (dp_maximum_candidates sample_dispatch_policy)) sample_candidates).
      \<not> candidate_eligible sample_ride sample_dispatch_policy 50000000 c"
    by code_simp+
  then show ?thesis using score_candidates_best_first [OF sample_dispatch_valid(1)] by blast
qed

end
