(* ===== verification/Dispatch.thy ===== *)
theory Dispatch
  imports Dispatch_Scoring
begin

text \<open>
  Immediate dispatch, second part: the repository \<open>dispatch/memory.py\<close> and the service
  \<open>dispatch/service.py\<close> on top of it. The repository has no transactions, so an operation returns the
  store it leaves behind together with its result, and the store of a failed call is the store at the
  point of the exception. Each method of the repository runs under one lock and is one atomic step.
\<close>

section \<open>The repository\<close>

datatype actor_type = ACTOR_RIDER | ACTOR_DRIVER | ACTOR_SYSTEM

record audit_event =
  ae_occurred_at :: "instant option"  \<comment> \<open>\<open>None\<close>: the clock default of the model\<close>
  ae_actor_type :: actor_type
  ae_actor_id :: "uuid option"
  ae_action :: string
  ae_resource_id :: uuid
  ae_reason :: string
  ae_correlation_id :: uuid
  ae_safe_metadata :: payload
  ae_idempotency_key :: "string option"

record dispatch_store =
  ds_rides :: "(uuid, dispatch_ride) dict"
  ds_offers :: "(uuid, driver_offer) dict"
  ds_candidates :: "(uuid, driver_candidate) dict"
  ds_idempotency :: "(uuid \<times> string, string \<times> uuid) dict"
  ds_audit_events :: "audit_event list"

type_synonym 'a action = "dispatch_store \<Rightarrow> dispatch_store \<times> 'a result"

definition raise_error :: "exn \<Rightarrow> 'a action" where
  "raise_error e s = (s, Inl e)"

definition return_value :: "'a \<Rightarrow> 'a action" where
  "return_value x s = (s, Inr x)"

definition then_do :: "'a action \<Rightarrow> ('a \<Rightarrow> 'b action) \<Rightarrow> 'b action" where
  "then_do m f s = (case m s of (s', Inl e) \<Rightarrow> (s', Inl e) | (s', Inr x) \<Rightarrow> f x s')"

definition ride_active :: "ride_state \<Rightarrow> bool" where
  "ride_active st \<longleftrightarrow> st \<in> {RS_SEARCHING, RS_OFFERING, RS_ASSIGNED}"

definition create_ride_idempotently ::
  "uuid \<Rightarrow> string \<Rightarrow> string \<Rightarrow> dispatch_ride \<Rightarrow> audit_event \<Rightarrow> (dispatch_ride \<times> bool) action" where
  "create_ride_idempotently rider_id fingerprint request_hash ride event s =
     (case dget (ds_idempotency s) (rider_id, fingerprint) of
        Some (existing_hash, ride_id) \<Rightarrow>
          if existing_hash \<noteq> request_hash then (s, Inl (IdempotencyConflict ''Idempotency key was reused''))
          else (case dget (ds_rides s) ride_id of
                  None \<Rightarrow> (s, Inl KeyError)
                | Some r \<Rightarrow> (s, Inr (r, False)))
      | None \<Rightarrow>
          if list_ex (\<lambda>r. dr_rider_id r = rider_id \<and> ride_active (dr_state r)) (dvalues (ds_rides s))
          then (s, Inl (DispatchConflict ''Rider already has an active ride''))
          else (s\<lparr>ds_rides := dset (dr_ride_id ride) ride (ds_rides s),
                  ds_idempotency := dset (rider_id, fingerprint) (request_hash, dr_ride_id ride) (ds_idempotency s),
                  ds_audit_events := ds_audit_events s @ [event]\<rparr>, Inr (ride, True)))"

definition get_ride :: "uuid \<Rightarrow> dispatch_store \<Rightarrow> dispatch_ride option" where
  "get_ride ride_id s = dget (ds_rides s) ride_id"

definition get_offer :: "uuid \<Rightarrow> dispatch_store \<Rightarrow> driver_offer option" where
  "get_offer offer_id s = dget (ds_offers s) offer_id"

definition get_active_ride_for_rider :: "uuid \<Rightarrow> dispatch_store \<Rightarrow> dispatch_ride option" where
  "get_active_ride_for_rider rider_id s =
     find (\<lambda>r. dr_rider_id r = rider_id \<and> ride_active (dr_state r)) (dvalues (ds_rides s))"

definition list_candidates :: "int \<Rightarrow> dispatch_store \<Rightarrow> driver_candidate list" where
  "list_candidates limit s = take (nat limit) (dvalues (ds_candidates s))"

definition reserve_and_offer :: "int \<Rightarrow> driver_offer \<Rightarrow> audit_event \<Rightarrow> dispatch_ride action" where
  "reserve_and_offer expected_ride_version offer event s =
     (case (dget (ds_rides s) (of_ride_id offer), dget (ds_candidates s) (of_driver_id offer)) of
        (Some ride, Some driver) \<Rightarrow>
          if dr_version ride \<noteq> expected_ride_version \<or> dr_state ride \<noteq> RS_SEARCHING \<or>
             dc_availability driver \<noteq> DA_AVAILABLE
          then (s, Inl (DispatchConflict ''Ride or driver is no longer offerable''))
          else
            (let updated = ride\<lparr>dr_state := RS_OFFERING, dr_active_offer_id := Some (of_offer_id offer),
                   dr_updated_at := of_created_at offer, dr_version := dr_version ride + 1\<rparr>
             in (s\<lparr>ds_candidates := dset (dc_driver_id driver) (driver\<lparr>dc_availability := DA_RESERVED\<rparr>) (ds_candidates s),
                   ds_rides := dset (dr_ride_id ride) updated (ds_rides s),
                   ds_offers := dset (of_offer_id offer) offer (ds_offers s),
                   ds_audit_events := ds_audit_events s @ [event]\<rparr>, Inr updated))
      | _ \<Rightarrow> (s, Inl (DispatchConflict ''Ride or driver is no longer offerable'')))"

definition resolve_offer_and_requeue ::
  "uuid \<Rightarrow> uuid \<Rightarrow> string \<Rightarrow> instant \<Rightarrow> audit_event \<Rightarrow> dispatch_ride action" where
  "resolve_offer_and_requeue offer_id driver_id outcome now event s =
     (case dget (ds_offers s) offer_id of
        None \<Rightarrow> (s, Inl (DispatchConflict ''Offer is unavailable''))
      | Some offer \<Rightarrow>
          if of_driver_id offer \<noteq> driver_id then (s, Inl (DispatchConflict ''Offer is unavailable''))
          else
            (let target = (if outcome = ''declined'' then OS_DECLINED else OS_EXPIRED) in
             if of_state offer = target
             then (case dget (ds_rides s) (of_ride_id offer) of
                     None \<Rightarrow> (s, Inl KeyError)
                   | Some ride \<Rightarrow> (s, Inr ride))
             else if of_state offer \<noteq> OS_CREATED
             then (s, Inl (DispatchConflict ''Offer is already resolved''))
             else if target = OS_EXPIRED \<and> now < of_expires_at offer
             then (s, Inl (DispatchConflict ''Offer has not expired''))
             else
               (let s1 = s\<lparr>ds_offers := dset offer_id
                      (offer\<lparr>of_state := target, of_version := of_version offer + 1\<rparr>) (ds_offers s)\<rparr>
                in case dget (ds_candidates s1) driver_id of
                     None \<Rightarrow> (s1, Inl KeyError)
                   | Some driver \<Rightarrow>
                       (let s2 = s1\<lparr>ds_candidates := dset driver_id
                              (driver\<lparr>dc_availability := DA_AVAILABLE\<rparr>) (ds_candidates s1)\<rparr>
                        in case dget (ds_rides s2) (of_ride_id offer) of
                             None \<Rightarrow> (s2, Inl KeyError)
                           | Some ride \<Rightarrow>
                               (let updated = ride\<lparr>dr_state := RS_SEARCHING, dr_active_offer_id := None,
                                      dr_attempted_driver_ids := insert driver_id (dr_attempted_driver_ids ride),
                                      dr_updated_at := now, dr_version := dr_version ride + 1\<rparr>
                                in (s2\<lparr>ds_rides := dset (dr_ride_id ride) updated (ds_rides s2),
                                       ds_audit_events := ds_audit_events s2 @ [event]\<rparr>, Inr updated))))))"

definition repo_accept_offer ::
  "uuid \<Rightarrow> uuid \<Rightarrow> instant \<Rightarrow> audit_event \<Rightarrow> dispatch_ride action" where
  "repo_accept_offer offer_id driver_id now event s =
     (case dget (ds_offers s) offer_id of
        None \<Rightarrow> (s, Inl (DispatchConflict ''Offer is unavailable''))
      | Some offer \<Rightarrow>
          if of_driver_id offer \<noteq> driver_id then (s, Inl (DispatchConflict ''Offer is unavailable''))
          else case dget (ds_rides s) (of_ride_id offer) of
            None \<Rightarrow> (s, Inl KeyError)
          | Some ride \<Rightarrow>
              if of_state offer = OS_ACCEPTED \<and> dr_assigned_driver_id ride = Some driver_id
              then (s, Inr ride)
              else if of_state offer \<noteq> OS_CREATED \<or> now \<ge> of_expires_at offer
              then (s, Inl (DispatchConflict ''Offer cannot be accepted''))
              else
                (let s1 = s\<lparr>ds_offers := dset offer_id
                       (offer\<lparr>of_state := OS_ACCEPTED, of_version := of_version offer + 1\<rparr>) (ds_offers s)\<rparr>
                 in case dget (ds_candidates s1) driver_id of
                      None \<Rightarrow> (s1, Inl KeyError)
                    | Some driver \<Rightarrow>
                        (let updated = ride\<lparr>dr_state := RS_ASSIGNED, dr_assigned_driver_id := Some driver_id,
                               dr_updated_at := now, dr_version := dr_version ride + 1\<rparr>
                         in (s1\<lparr>ds_candidates := dset driver_id
                                  (driver\<lparr>dc_availability := DA_ASSIGNED\<rparr>) (ds_candidates s1),
                                ds_rides := dset (dr_ride_id ride) updated (ds_rides s1),
                                ds_audit_events := ds_audit_events s1 @ [event]\<rparr>, Inr updated))))"

definition list_expired_active_offers :: "instant \<Rightarrow> nat \<Rightarrow> dispatch_store \<Rightarrow> driver_offer list" where
  "list_expired_active_offers now limit s =
     take limit (filter (\<lambda>f. of_state f = OS_CREATED \<and> of_expires_at f \<le> now) (dvalues (ds_offers s)))"

definition mark_no_driver :: "uuid \<Rightarrow> int \<Rightarrow> instant \<Rightarrow> audit_event \<Rightarrow> dispatch_ride action" where
  "mark_no_driver ride_id expected_version now event s =
     (case dget (ds_rides s) ride_id of
        None \<Rightarrow> (s, Inl (DispatchConflict ''Ride is no longer searching''))
      | Some ride \<Rightarrow>
          if dr_version ride \<noteq> expected_version \<or> dr_state ride \<noteq> RS_SEARCHING
          then (s, Inl (DispatchConflict ''Ride is no longer searching''))
          else
            (let updated = ride\<lparr>dr_state := RS_NO_DRIVER_AVAILABLE, dr_updated_at := now,
                   dr_version := dr_version ride + 1\<rparr>
             in (s\<lparr>ds_rides := dset ride_id updated (ds_rides s),
                   ds_audit_events := ds_audit_events s @ [event]\<rparr>, Inr updated)))"

section \<open>The service\<close>

definition fingerprint :: "(string \<Rightarrow> string) \<Rightarrow> string \<Rightarrow> string result" where
  "fingerprint digest key =
     (if length key < 16 \<or> length key > 128 then Inl (ValueError ''Idempotency key length is invalid'')
      else Inr (digest key))"

definition system_event :: "dispatch_policy \<Rightarrow> dispatch_ride \<Rightarrow> string \<Rightarrow> string \<Rightarrow> instant \<Rightarrow> audit_event" where
  "system_event policy ride action reason now =
     \<lparr>ae_occurred_at = Some now, ae_actor_type = ACTOR_SYSTEM, ae_actor_id = None, ae_action = action,
      ae_resource_id = dr_ride_id ride, ae_reason = reason, ae_correlation_id = dr_ride_id ride,
      ae_safe_metadata = [(''policy_version'', JStr (dp_version policy))], ae_idempotency_key = None\<rparr>"

definition driver_event ::
  "dispatch_policy \<Rightarrow> dispatch_ride \<Rightarrow> uuid \<Rightarrow> string \<Rightarrow> string \<Rightarrow> instant \<Rightarrow> audit_event" where
  "driver_event policy ride driver_id action reason now =
     \<lparr>ae_occurred_at = Some now, ae_actor_type = ACTOR_DRIVER, ae_actor_id = Some driver_id, ae_action = action,
      ae_resource_id = dr_ride_id ride, ae_reason = reason, ae_correlation_id = dr_ride_id ride,
      ae_safe_metadata = [(''policy_version'', JStr (dp_version policy))], ae_idempotency_key = None\<rparr>"

definition new_ride :: "uuid \<Rightarrow> uuid \<Rightarrow> create_ride_command \<Rightarrow> instant \<Rightarrow> dispatch_ride" where
  "new_ride fresh_ride_id rider_id command now =
     \<lparr>dr_ride_id = fresh_ride_id, dr_rider_id = rider_id, dr_pickup = cr_pickup command,
      dr_destination = cr_destination command, dr_service_type = cr_service_type command,
      dr_quote = cr_quote command, dr_state = RS_SEARCHING, dr_accepted_at = now, dr_updated_at = now,
      dr_version = 1, dr_assigned_driver_id = None, dr_active_offer_id = None,
      dr_attempted_driver_ids = {}\<rparr>"

definition create_ride ::
  "(string \<Rightarrow> string) \<Rightarrow> (create_ride_command \<Rightarrow> string) \<Rightarrow> dispatch_policy \<Rightarrow> uuid \<Rightarrow> uuid \<Rightarrow> string \<Rightarrow>
   create_ride_command \<Rightarrow> instant \<Rightarrow> (ride_projection \<times> bool) action" where
  "create_ride key_digest command_digest policy fresh_ride_id rider_id idempotency_key command now s =
     (if qs_expires_at (cr_quote command) \<le> now then (s, Inl (QuoteExpired ''Quote has expired''))
      else
        (let ride = new_ride fresh_ride_id rider_id command now in
         case fingerprint key_digest idempotency_key of
           Inl e \<Rightarrow> (s, Inl e)
         | Inr fp \<Rightarrow>
             then_do
               (create_ride_idempotently rider_id fp (command_digest command) ride
                  \<lparr>ae_occurred_at = None, ae_actor_type = ACTOR_RIDER, ae_actor_id = Some rider_id,
                   ae_action = ''dispatch.ride.create'', ae_resource_id = fresh_ride_id,
                   ae_reason = ''request_accepted'', ae_correlation_id = fresh_ride_id,
                   ae_safe_metadata = [(''operation'', JStr ''create''), (''state_to'', JStr ''searching''),
                     (''policy_version'', JStr (dp_version policy))],
                   ae_idempotency_key = Some fp\<rparr>)
               (\<lambda>(stored, created). return_value (project_ride stored, created)) s))"

definition dispatch_next ::
  "dispatch_policy \<Rightarrow> uuid \<Rightarrow> uuid \<Rightarrow> instant \<Rightarrow> driver_offer option action" where
  \<comment> \<open>\<open>fresh_offer_id\<close> is the identifier that \<open>uuid4\<close> gives a new offer\<close>
  "dispatch_next policy fresh_offer_id ride_id now s =
     (case get_ride ride_id s of
        None \<Rightarrow> (s, Inl (DispatchConflict ''Ride is not searching''))
      | Some ride \<Rightarrow>
          if dr_state ride \<noteq> RS_SEARCHING then (s, Inl (DispatchConflict ''Ride is not searching''))
          else
            (case score_candidates ride (list_candidates (dp_maximum_candidates policy) s) policy now of
               [] \<Rightarrow>
                 then_do (mark_no_driver (dr_ride_id ride) (dr_version ride) now
                     (system_event policy ride ''dispatch.ride.no_driver'' ''no_eligible_driver'' now))
                   (\<lambda>_. return_value None) s
             | score # _ \<Rightarrow>
                 (let offer = \<lparr>of_offer_id = fresh_offer_id, of_ride_id = dr_ride_id ride,
                        of_driver_id = sc_driver_id score, of_state = OS_CREATED, of_created_at = now,
                        of_expires_at = now + timedelta_seconds (dp_offer_timeout_seconds policy),
                        of_policy_version = dp_version policy, of_score = score, of_version = 1\<rparr>
                  in then_do (reserve_and_offer (dr_version ride) offer
                       (system_event policy ride ''dispatch.offer.create'' ''candidate_selected'' now))
                     (\<lambda>_. return_value (Some offer)) s)))"

definition require_offer :: "uuid \<Rightarrow> uuid \<Rightarrow> driver_offer action" where
  "require_offer offer_id driver_id s =
     (case get_offer offer_id s of
        None \<Rightarrow> (s, Inl (DispatchConflict ''Offer is unavailable''))
      | Some f \<Rightarrow> if of_driver_id f \<noteq> driver_id then (s, Inl (DispatchConflict ''Offer is unavailable''))
                  else (s, Inr f))"

definition require_ride :: "uuid \<Rightarrow> dispatch_ride action" where
  "require_ride ride_id s =
     (case get_ride ride_id s of
        None \<Rightarrow> (s, Inl (DispatchConflict ''Ride is unavailable''))
      | Some r \<Rightarrow> (s, Inr r))"

definition decline_and_reassign ::
  "dispatch_policy \<Rightarrow> uuid \<Rightarrow> uuid \<Rightarrow> uuid \<Rightarrow> instant \<Rightarrow> driver_offer option action" where
  "decline_and_reassign policy fresh_offer_id offer_id driver_id now =
     then_do (require_offer offer_id driver_id) (\<lambda>offer.
     then_do (require_ride (of_ride_id offer)) (\<lambda>ride.
     then_do (resolve_offer_and_requeue offer_id driver_id ''declined'' now
         (driver_event policy ride driver_id ''dispatch.offer.decline'' ''driver_declined'' now)) (\<lambda>requeued.
     dispatch_next policy fresh_offer_id (dr_ride_id requeued) now)))"

definition expire_and_reassign ::
  "dispatch_policy \<Rightarrow> uuid \<Rightarrow> uuid \<Rightarrow> instant \<Rightarrow> driver_offer option action" where
  "expire_and_reassign policy fresh_offer_id offer_id now s =
     (case get_offer offer_id s of
        None \<Rightarrow> (s, Inl (DispatchConflict ''Offer is unavailable''))
      | Some offer \<Rightarrow>
          then_do (require_ride (of_ride_id offer)) (\<lambda>ride.
          then_do (resolve_offer_and_requeue offer_id (of_driver_id offer) ''expired'' now
              (system_event policy ride ''dispatch.offer.expire'' ''offer_timeout'' now)) (\<lambda>requeued.
          dispatch_next policy fresh_offer_id (dr_ride_id requeued) now)) s)"

definition accept_offer ::
  "dispatch_policy \<Rightarrow> uuid \<Rightarrow> uuid \<Rightarrow> instant \<Rightarrow> ride_projection action" where
  "accept_offer policy offer_id driver_id now =
     then_do (require_offer offer_id driver_id) (\<lambda>offer.
     then_do (require_ride (of_ride_id offer)) (\<lambda>ride.
     then_do (repo_accept_offer offer_id driver_id now
         (driver_event policy ride driver_id ''dispatch.offer.accept'' ''driver_accepted'' now)) (\<lambda>assigned.
     return_value (project_ride assigned))))"

definition recover_active_ride :: "uuid \<Rightarrow> dispatch_store \<Rightarrow> ride_projection option" where
  "recover_active_ride rider_id s = map_option project_ride (get_active_ride_for_rider rider_id s)"

fun is_dispatch_conflict :: "exn \<Rightarrow> bool" where
  "is_dispatch_conflict (DispatchConflict _) = True"
| "is_dispatch_conflict _ = False"

fun recover_loop ::
  "dispatch_policy \<Rightarrow> (uuid \<Rightarrow> uuid) \<Rightarrow> instant \<Rightarrow> driver_offer list \<Rightarrow> int \<Rightarrow> int action" where
  \<comment> \<open>\<open>fresh\<close> gives the identifier drawn while the offer of that identifier is being expired\<close>
  "recover_loop policy fresh now [] recovered s = (s, Inr recovered)"
| "recover_loop policy fresh now (f # fs) recovered s =
     (case expire_and_reassign policy (fresh (of_offer_id f)) (of_offer_id f) now s of
        (s', Inr _) \<Rightarrow> recover_loop policy fresh now fs (recovered + 1) s'
      | (s', Inl e) \<Rightarrow>
          if is_dispatch_conflict e then recover_loop policy fresh now fs recovered s' else (s', Inl e))"

definition recover_expired_offers ::
  "dispatch_policy \<Rightarrow> (uuid \<Rightarrow> uuid) \<Rightarrow> int \<Rightarrow> instant \<Rightarrow> int action" where
  "recover_expired_offers policy fresh limit now s =
     (if \<not> (1 \<le> limit \<and> limit \<le> 1000)
      then (s, Inl (ValueError ''Recovery limit must be between 1 and 1000''))
      else recover_loop policy fresh now (list_expired_active_offers now (nat limit) s) 0 s)"

end
