(* ===== verification/Dispatch_Inv.thy ===== *)
theory Dispatch_Inv
  imports Dispatch
begin

text \<open>
  The invariant that ties rides, offers and drivers of the dispatch store together, stated on the
  three tables as maps, and its preservation by each repository method.
\<close>

section \<open>The invariant\<close>

definition live :: "driver_offer \<Rightarrow> bool" where
  "live f \<longleftrightarrow> of_state f = OS_CREATED \<or> of_state f = OS_ACCEPTED"

definition offer_ride_ok :: "uuid \<Rightarrow> driver_offer \<Rightarrow> dispatch_ride \<Rightarrow> bool" where
  "offer_ride_ok i f r \<longleftrightarrow>
     (case of_state f of
        OS_CREATED \<Rightarrow> dr_state r = RS_OFFERING \<and> dr_active_offer_id r = Some i \<and>
          of_driver_id f \<notin> dr_attempted_driver_ids r
      | OS_ACCEPTED \<Rightarrow> dr_state r = RS_ASSIGNED \<and> dr_assigned_driver_id r = Some (of_driver_id f) \<and>
          of_driver_id f \<notin> dr_attempted_driver_ids r
      | OS_DECLINED \<Rightarrow> of_driver_id f \<in> dr_attempted_driver_ids r
      | OS_EXPIRED \<Rightarrow> of_driver_id f \<in> dr_attempted_driver_ids r
      | OS_REVOKED \<Rightarrow> False)"

definition offer_driver_ok :: "driver_offer \<Rightarrow> driver_candidate \<Rightarrow> bool" where
  "offer_driver_ok f k \<longleftrightarrow>
     (of_state f = OS_CREATED \<longrightarrow> dc_availability k = DA_RESERVED) \<and>
     (of_state f = OS_ACCEPTED \<longrightarrow> dc_availability k = DA_ASSIGNED)"

type_synonym rides_map = "uuid \<Rightarrow> dispatch_ride option"
type_synonym offers_map = "uuid \<Rightarrow> driver_offer option"
type_synonym drivers_map = "uuid \<Rightarrow> driver_candidate option"

definition keys_ok :: "rides_map \<Rightarrow> offers_map \<Rightarrow> drivers_map \<Rightarrow> bool" where
  "keys_ok R F K \<longleftrightarrow>
     (\<forall>i r. R i = Some r \<longrightarrow> dr_ride_id r = i) \<and> (\<forall>i f. F i = Some f \<longrightarrow> of_offer_id f = i) \<and>
     (\<forall>i k. K i = Some k \<longrightarrow> dc_driver_id k = i)"

definition offers_ok :: "rides_map \<Rightarrow> offers_map \<Rightarrow> drivers_map \<Rightarrow> bool" where
  "offers_ok R F K \<longleftrightarrow>
     (\<forall>i f. F i = Some f \<longrightarrow> (\<exists>r. R (of_ride_id f) = Some r \<and> offer_ride_ok i f r) \<and>
        (\<exists>k. K (of_driver_id f) = Some k \<and> offer_driver_ok f k))"

definition rides_ok :: "rides_map \<Rightarrow> offers_map \<Rightarrow> bool" where
  "rides_ok R F \<longleftrightarrow>
     (\<forall>i r. R i = Some r \<longrightarrow>
        (dr_state r = RS_OFFERING \<longrightarrow> (\<exists>j f. dr_active_offer_id r = Some j \<and> F j = Some f \<and>
           of_state f = OS_CREATED \<and> of_ride_id f = i)) \<and>
        (dr_state r = RS_ASSIGNED \<longrightarrow> (\<exists>j f. F j = Some f \<and> of_state f = OS_ACCEPTED \<and> of_ride_id f = i \<and>
           dr_assigned_driver_id r = Some (of_driver_id f))))"

definition drivers_ok :: "offers_map \<Rightarrow> drivers_map \<Rightarrow> bool" where
  "drivers_ok F K \<longleftrightarrow>
     (\<forall>d k. K d = Some k \<longrightarrow>
        (dc_availability k = DA_RESERVED \<longrightarrow> (\<exists>j f. F j = Some f \<and> of_state f = OS_CREATED \<and> of_driver_id f = d)) \<and>
        (dc_availability k = DA_ASSIGNED \<longrightarrow> (\<exists>j f. F j = Some f \<and> of_state f = OS_ACCEPTED \<and> of_driver_id f = d)))"

definition live_unique :: "offers_map \<Rightarrow> bool" where
  "live_unique F \<longleftrightarrow>
     (\<forall>i j f g. F i = Some f \<longrightarrow> F j = Some g \<longrightarrow> live f \<longrightarrow> live g \<longrightarrow> of_driver_id f = of_driver_id g \<longrightarrow> i = j)"

definition pair_unique :: "offers_map \<Rightarrow> bool" where
  "pair_unique F \<longleftrightarrow>
     (\<forall>i j f g. F i = Some f \<longrightarrow> F j = Some g \<longrightarrow> of_ride_id f = of_ride_id g \<longrightarrow>
        of_driver_id f = of_driver_id g \<longrightarrow> i = j)"

definition rider_unique :: "rides_map \<Rightarrow> bool" where
  "rider_unique R \<longleftrightarrow>
     (\<forall>i j r q. R i = Some r \<longrightarrow> R j = Some q \<longrightarrow> ride_active (dr_state r) \<longrightarrow> ride_active (dr_state q) \<longrightarrow>
        dr_rider_id r = dr_rider_id q \<longrightarrow> i = j)"

definition links :: "rides_map \<Rightarrow> offers_map \<Rightarrow> drivers_map \<Rightarrow> bool" where
  "links R F K \<longleftrightarrow> keys_ok R F K \<and> offers_ok R F K \<and> rides_ok R F \<and> drivers_ok F K \<and>
     live_unique F \<and> pair_unique F \<and> rider_unique R"

lemmas links_defs = keys_ok_def offers_ok_def rides_ok_def drivers_ok_def live_unique_def
  pair_unique_def rider_unique_def

section \<open>Map updates that keep the links\<close>

text \<open>A new searching ride.\<close>

lemma links_new_ride:
  assumes "links R F K" and "R i = None" and "dr_ride_id r = i" and "dr_state r = RS_SEARCHING"
    and "\<And>j q. R j = Some q \<Longrightarrow> dr_rider_id q = dr_rider_id r \<Longrightarrow> \<not> ride_active (dr_state q)"
  shows "links (R(i \<mapsto> r)) F K"
proof -
  have unused: "of_ride_id f \<noteq> i" if "F j = Some f" for j f
    using assms(1,2) that by (fastforce simp: links_def offers_ok_def)
  show ?thesis
    unfolding links_def
  proof (intro conjI)
    show "keys_ok (R(i \<mapsto> r)) F K" using assms(1,3) by (simp add: links_def keys_ok_def)
    show "offers_ok (R(i \<mapsto> r)) F K"
      using assms(1) unused by (simp add: links_def offers_ok_def)
    show "rides_ok (R(i \<mapsto> r)) F" using assms(1,4) by (simp add: links_def rides_ok_def)
    show "drivers_ok F K" "live_unique F" "pair_unique F" using assms(1) by (simp_all add: links_def)
    show "rider_unique (R(i \<mapsto> r))"
      using assms(1,5) unfolding links_def rider_unique_def by (auto split: if_splits)
  qed
qed

text \<open>A searching ride stops searching without an offer.\<close>

lemma links_no_driver:
  assumes "links R F K" and "R i = Some r" and "dr_state r = RS_SEARCHING"
    and "dr_state r' = RS_NO_DRIVER_AVAILABLE" and "dr_ride_id r' = dr_ride_id r"
    and "dr_rider_id r' = dr_rider_id r" and "dr_attempted_driver_ids r' = dr_attempted_driver_ids r"
  shows "links (R(i \<mapsto> r')) F K"
proof -
  have ok: "offer_ride_ok j f r'" if "F j = Some f" "of_ride_id f = i" for j f
    using assms that by (fastforce simp: links_def offers_ok_def offer_ride_ok_def split: offer_state.splits)
  show ?thesis
    unfolding links_def
  proof (intro conjI)
    show "keys_ok (R(i \<mapsto> r')) F K" using assms by (simp add: links_def keys_ok_def)
    show "offers_ok (R(i \<mapsto> r')) F K"
      using assms(1) ok by (simp add: links_def offers_ok_def)
    show "rides_ok (R(i \<mapsto> r')) F" using assms(1,4) by (simp add: links_def rides_ok_def)
    show "drivers_ok F K" "live_unique F" "pair_unique F" using assms(1) by (simp_all add: links_def)
    show "rider_unique (R(i \<mapsto> r'))"
      using assms(1,4) unfolding links_def rider_unique_def by (simp add: ride_active_def)
  qed
qed

text \<open>A searching ride is offered to an available driver it has not tried.\<close>

lemma links_offer:
  assumes "links R F K" and "R i = Some r" and "dr_state r = RS_SEARCHING" and "K d = Some k"
    and "dc_availability k = DA_AVAILABLE" and "d \<notin> dr_attempted_driver_ids r" and "F j = None"
    and "of_offer_id f = j" "of_ride_id f = i" "of_driver_id f = d" "of_state f = OS_CREATED"
    and "dr_state r' = RS_OFFERING" "dr_active_offer_id r' = Some j" "dr_ride_id r' = dr_ride_id r"
      "dr_rider_id r' = dr_rider_id r" "dr_attempted_driver_ids r' = dr_attempted_driver_ids r"
    and "dc_availability k' = DA_RESERVED" "dc_driver_id k' = dc_driver_id k"
  shows "links (R(i \<mapsto> r')) (F(j \<mapsto> f)) (K(d \<mapsto> k'))"
proof -
  note inv = assms(1) [unfolded links_def]
  have resolved: "\<not> live g" if "F l = Some g" "of_driver_id g = d \<or> of_ride_id g = i" for l g
    using inv assms(2-5) that
    by (fastforce simp: live_def offers_ok_def offer_ride_ok_def offer_driver_ok_def)
  have ride: "offer_ride_ok l g r'" if "F l = Some g" "of_ride_id g = i" for l g
    using inv assms(2,16) that resolved [OF that(1)]
    by (fastforce simp: offers_ok_def offer_ride_ok_def live_def split: offer_state.splits)
  have driver: "offer_driver_ok g k'" if "F l = Some g" "of_driver_id g = d" for l g
    using resolved [OF that(1)] that(2) by (auto simp: offer_driver_ok_def live_def)
  have untried: "of_driver_id g \<noteq> d" if "F l = Some g" "of_ride_id g = i" for l g
  proof
    assume "of_driver_id g = d"
    moreover have "offer_ride_ok l g r" using inv assms(2) that by (fastforce simp: offers_ok_def)
    ultimately show False
      using resolved [OF that(1)] assms(6) by (auto simp: offer_ride_ok_def live_def split: offer_state.splits)
  qed
  show ?thesis
    unfolding links_def
  proof (intro conjI)
    show "keys_ok (R(i \<mapsto> r')) (F(j \<mapsto> f)) (K(d \<mapsto> k'))"
      using inv assms by (simp add: keys_ok_def)
    have new: "offer_ride_ok j f r'" "offer_driver_ok f k'"
      using assms by (simp_all add: offer_ride_ok_def offer_driver_ok_def)
    show "offers_ok (R(i \<mapsto> r')) (F(j \<mapsto> f)) (K(d \<mapsto> k'))"
      using inv ride driver new assms(9,10) unfolding offers_ok_def by (simp add: fun_upd_def)
    show "rides_ok (R(i \<mapsto> r')) (F(j \<mapsto> f))"
      using inv assms(7,9,11-13) unfolding rides_ok_def by (auto split: if_splits) (metis option.distinct(1))+
    show "drivers_ok (F(j \<mapsto> f)) (K(d \<mapsto> k'))"
      using inv assms(7,10,11,17) unfolding drivers_ok_def by (auto split: if_splits) (metis option.distinct(1))+
    show "live_unique (F(j \<mapsto> f))"
      using inv resolved assms(10) unfolding live_unique_def by (auto split: if_splits)
    have "of_driver_id g \<noteq> of_driver_id f" if "F l = Some g" "of_ride_id g = of_ride_id f" for l g
      using untried [OF that(1)] that(2) assms(9,10) by simp
    then show "pair_unique (F(j \<mapsto> f))"
      using inv unfolding pair_unique_def by (auto split: if_splits) (metis+)
    show "rider_unique (R(i \<mapsto> r'))"
      using inv assms(2,3,12,15) unfolding rider_unique_def by (auto simp: ride_active_def)
  qed
qed


text \<open>While an offer is live, every other offer of its ride or of its driver is resolved.\<close>

lemma live_offer_ride:
  assumes "links R F K" and "F j = Some f" and "of_state f = OS_CREATED" and "R (of_ride_id f) = Some r"
  shows "dr_state r = RS_OFFERING" and "dr_active_offer_id r = Some j"
    and "of_driver_id f \<notin> dr_attempted_driver_ids r"
  using assms by (fastforce simp: links_def offers_ok_def offer_ride_ok_def)+

lemma live_offer_others:
  assumes "links R F K" and "F j = Some f" and "of_state f = OS_CREATED" and "F l = Some g" and "l \<noteq> j"
  shows "of_ride_id g = of_ride_id f \<Longrightarrow> \<not> live g" and "of_driver_id g = of_driver_id f \<Longrightarrow> \<not> live g"
proof -
  obtain r where r: "R (of_ride_id f) = Some r" using assms(1,2) by (fastforce simp: links_def offers_ok_def)
  show "of_ride_id g = of_ride_id f \<Longrightarrow> \<not> live g"
    using assms(1,4,5) r live_offer_ride [OF assms(1-3) r]
    by (fastforce simp: links_def live_def offers_ok_def offer_ride_ok_def)
  show "of_driver_id g = of_driver_id f \<Longrightarrow> \<not> live g"
    using assms by (auto simp: links_def live_unique_def live_def)
qed

lemma resolved_offer_kept:
  assumes "links R F K" and "F l = Some g" and "\<not> live g" and "R (of_ride_id g) = Some r"
    and "dr_attempted_driver_ids r \<subseteq> dr_attempted_driver_ids r'"
  shows "offer_ride_ok l g r'"
proof -
  have "offer_ride_ok l g r" using assms(1,2,4) by (fastforce simp: links_def offers_ok_def)
  then show ?thesis
    using assms(3,5) by (auto simp: offer_ride_ok_def live_def split: offer_state.splits)
qed

lemma resolved_driver_ok: "\<not> live g \<Longrightarrow> offer_driver_ok g k"
  by (auto simp: offer_driver_ok_def live_def)

text \<open>A live offer is declined or expires: its driver is free again and its ride searches again.\<close>

lemma links_resolve:
  assumes "links R F K" and "F j = Some f" and "of_state f = OS_CREATED" and "R (of_ride_id f) = Some r"
    and "K (of_driver_id f) = Some k"
    and "of_state f' \<in> {OS_DECLINED, OS_EXPIRED}" "of_offer_id f' = of_offer_id f"
      "of_ride_id f' = of_ride_id f" "of_driver_id f' = of_driver_id f"
    and "dr_state r' = RS_SEARCHING" "dr_ride_id r' = dr_ride_id r" "dr_rider_id r' = dr_rider_id r"
      "dr_attempted_driver_ids r' = insert (of_driver_id f) (dr_attempted_driver_ids r)"
    and "dc_availability k' = DA_AVAILABLE" "dc_driver_id k' = dc_driver_id k"
  shows "links (R(of_ride_id f \<mapsto> r')) (F(j \<mapsto> f')) (K(of_driver_id f \<mapsto> k'))"
proof -
  note inv = assms(1) [unfolded links_def]
  note r = live_offer_ride [OF assms(1-4)] and others = live_offer_others [OF assms(1-3)]
  have ride: "offer_ride_ok l g r'" if "F l = Some g" "of_ride_id g = of_ride_id f" "l \<noteq> j" for l g
    using resolved_offer_kept [OF assms(1) that(1) others(1) [OF that(1,3,2)]] assms(4,13) that(2) by auto
  have driver: "offer_driver_ok g k'" if "F l = Some g" "of_driver_id g = of_driver_id f" "l \<noteq> j" for l g
    using others(2) [OF that(1,3,2)] by (rule resolved_driver_ok)
  show ?thesis
    unfolding links_def
  proof (intro conjI)
    show "keys_ok (R(of_ride_id f \<mapsto> r')) (F(j \<mapsto> f')) (K(of_driver_id f \<mapsto> k'))"
      using inv assms by (simp add: keys_ok_def)
    have new: "offer_ride_ok j f' r'" "offer_driver_ok f' k'"
      using assms(6,9,13) by (auto simp: offer_ride_ok_def offer_driver_ok_def)
    show "offers_ok (R(of_ride_id f \<mapsto> r')) (F(j \<mapsto> f')) (K(of_driver_id f \<mapsto> k'))"
      using inv ride driver new assms(8,9) unfolding offers_ok_def by (simp add: fun_upd_def)
    show "rides_ok (R(of_ride_id f \<mapsto> r')) (F(j \<mapsto> f'))"
      using inv assms(2,3,10) unfolding rides_ok_def
      by (auto split: if_splits) (metis offer_state.distinct(1) option.inject)+
    show "drivers_ok (F(j \<mapsto> f')) (K(of_driver_id f \<mapsto> k'))"
      using inv assms(2,3,14) unfolding drivers_ok_def
      by (auto split: if_splits) (metis offer_state.distinct(1) option.inject)+
    show "live_unique (F(j \<mapsto> f'))"
      using inv assms(6) unfolding live_unique_def by (auto simp: live_def split: if_splits)
    show "pair_unique (F(j \<mapsto> f'))"
      using inv assms(2,8,9) unfolding pair_unique_def by (auto split: if_splits)
    show "rider_unique (R(of_ride_id f \<mapsto> r'))"
      using inv assms(4,12) r unfolding rider_unique_def by (auto simp: ride_active_def)
  qed
qed

text \<open>A live offer is accepted: its driver and its ride are assigned to each other.\<close>

lemma links_accept:
  assumes "links R F K" and "F j = Some f" and "of_state f = OS_CREATED" and "R (of_ride_id f) = Some r"
    and "K (of_driver_id f) = Some k"
    and "of_state f' = OS_ACCEPTED" "of_offer_id f' = of_offer_id f"
      "of_ride_id f' = of_ride_id f" "of_driver_id f' = of_driver_id f"
    and "dr_state r' = RS_ASSIGNED" "dr_ride_id r' = dr_ride_id r" "dr_rider_id r' = dr_rider_id r"
      "dr_attempted_driver_ids r' = dr_attempted_driver_ids r"
      "dr_assigned_driver_id r' = Some (of_driver_id f)"
    and "dc_availability k' = DA_ASSIGNED" "dc_driver_id k' = dc_driver_id k"
  shows "links (R(of_ride_id f \<mapsto> r')) (F(j \<mapsto> f')) (K(of_driver_id f \<mapsto> k'))"
proof -
  note inv = assms(1) [unfolded links_def]
  note r = live_offer_ride [OF assms(1-4)] and others = live_offer_others [OF assms(1-3)]
  have ride: "offer_ride_ok l g r'" if "F l = Some g" "of_ride_id g = of_ride_id f" "l \<noteq> j" for l g
    using resolved_offer_kept [OF assms(1) that(1) others(1) [OF that(1,3,2)]] assms(4,13) that(2) by auto
  have driver: "offer_driver_ok g k'" if "F l = Some g" "of_driver_id g = of_driver_id f" "l \<noteq> j" for l g
    using others(2) [OF that(1,3,2)] by (rule resolved_driver_ok)
  show ?thesis
    unfolding links_def
  proof (intro conjI)
    show "keys_ok (R(of_ride_id f \<mapsto> r')) (F(j \<mapsto> f')) (K(of_driver_id f \<mapsto> k'))"
      using inv assms by (simp add: keys_ok_def)
    have new: "offer_ride_ok j f' r'" "offer_driver_ok f' k'"
      using assms(6,9,10,13-15) r(3) by (auto simp: offer_ride_ok_def offer_driver_ok_def)
    show "offers_ok (R(of_ride_id f \<mapsto> r')) (F(j \<mapsto> f')) (K(of_driver_id f \<mapsto> k'))"
      using inv ride driver new assms(8,9) unfolding offers_ok_def by (simp add: fun_upd_def)
    show "rides_ok (R(of_ride_id f \<mapsto> r')) (F(j \<mapsto> f'))"
      using inv assms(2,3,6,8-10,14) unfolding rides_ok_def
      by (auto split: if_splits) (metis offer_state.distinct(1) option.inject)+
    show "drivers_ok (F(j \<mapsto> f')) (K(of_driver_id f \<mapsto> k'))"
      using inv assms(2,3,6,9,15) unfolding drivers_ok_def
      by (auto split: if_splits) (metis offer_state.distinct(1) option.inject)+
    show "live_unique (F(j \<mapsto> f'))"
      using inv assms(9) others(2) unfolding live_unique_def by (auto split: if_splits)
    show "pair_unique (F(j \<mapsto> f'))"
      using inv assms(2,8,9) unfolding pair_unique_def by (auto split: if_splits)
    show "rider_unique (R(of_ride_id f \<mapsto> r'))"
      using inv assms(4,12) r unfolding rider_unique_def by (auto simp: ride_active_def)
  qed
qed

end
