(* ===== verification/Dispatch_Props.thy ===== *)
theory Dispatch_Props
  imports Dispatch_Inv
begin

text \<open>
  The dispatch service keeps the invariant of the store, whatever its calls return, and what follows
  for riders and drivers.
\<close>

section \<open>The store invariant\<close>

definition idempotency_ok :: "dispatch_store \<Rightarrow> bool" where
  "idempotency_ok s \<longleftrightarrow>
     (\<forall>rider fp h i. dget (ds_idempotency s) (rider, fp) = Some (h, i) \<longrightarrow>
        (\<exists>r. dget (ds_rides s) i = Some r \<and> dr_rider_id r = rider))"

definition dispatch_inv :: "dispatch_store \<Rightarrow> bool" where
  "dispatch_inv s \<longleftrightarrow>
     dict_ok (ds_rides s) \<and> dict_ok (ds_offers s) \<and> dict_ok (ds_candidates s) \<and>
     links (dget (ds_rides s)) (dget (ds_offers s)) (dget (ds_candidates s)) \<and> idempotency_ok s"

lemma dget_dset_upd: "dget (dset k v d) = (dget d)(k \<mapsto> v)"
  by (auto simp: fun_eq_iff)

lemma dispatch_inv_audit [simp]: "dispatch_inv (s\<lparr>ds_audit_events := a\<rparr>) = dispatch_inv s"
  by (simp add: dispatch_inv_def idempotency_ok_def)

lemma dispatch_invD:
  assumes "dispatch_inv s"
  shows "links (dget (ds_rides s)) (dget (ds_offers s)) (dget (ds_candidates s))"
    and "dget (ds_rides s) i = Some r \<Longrightarrow> dr_ride_id r = i"
    and "dget (ds_offers s) j = Some f \<Longrightarrow> of_offer_id f = j"
    and "dget (ds_candidates s) d = Some k \<Longrightarrow> dc_driver_id k = d"
    and "dget (ds_offers s) j = Some f \<Longrightarrow> \<exists>r. dget (ds_rides s) (of_ride_id f) = Some r \<and> offer_ride_ok j f r"
    and "dget (ds_offers s) j = Some f \<Longrightarrow>
      \<exists>k. dget (ds_candidates s) (of_driver_id f) = Some k \<and> offer_driver_ok f k"
  using assms by (auto simp: dispatch_inv_def links_def keys_ok_def offers_ok_def)

text \<open>Updating the tables along a link lemma keeps the invariant, and no update changes a rider.\<close>

lemma dispatch_inv_update:
  assumes "dispatch_inv s"
    and "links ((dget (ds_rides s))(i \<mapsto> r')) ((dget (ds_offers s))(j \<mapsto> f')) ((dget (ds_candidates s))(d \<mapsto> k'))"
    and "dget (ds_rides s) i = Some r" and "dr_rider_id r' = dr_rider_id r"
    and "ds_rides s' = dset i r' (ds_rides s)" and "ds_offers s' = dset j f' (ds_offers s)"
    and "ds_candidates s' = dset d k' (ds_candidates s)" and "ds_idempotency s' = ds_idempotency s"
  shows "dispatch_inv s'"
proof -
  have "idempotency_ok s'"
    using assms(1,3,4,5,8) unfolding dispatch_inv_def idempotency_ok_def by fastforce
  moreover have "links (dget (ds_rides s')) (dget (ds_offers s')) (dget (ds_candidates s'))"
    unfolding assms(5-7) dget_dset_upd by (rule assms(2))
  ultimately show ?thesis using assms(1,5-7) by (simp only: dispatch_inv_def dict_ok_dset simp_thms)
qed

lemma dispatch_inv_ride_update:
  assumes "dispatch_inv s"
    and "links ((dget (ds_rides s))(i \<mapsto> r')) (dget (ds_offers s)) (dget (ds_candidates s))"
    and "dget (ds_rides s) i = Some r" and "dr_rider_id r' = dr_rider_id r"
    and "ds_rides s' = dset i r' (ds_rides s)" and "ds_offers s' = ds_offers s"
    and "ds_candidates s' = ds_candidates s" and "ds_idempotency s' = ds_idempotency s"
  shows "dispatch_inv s'"
proof -
  have "idempotency_ok s'"
    using assms(1,3,4,5,8) unfolding dispatch_inv_def idempotency_ok_def by fastforce
  moreover have "links (dget (ds_rides s')) (dget (ds_offers s')) (dget (ds_candidates s'))"
    unfolding assms(5-7) dget_dset_upd by (rule assms(2))
  ultimately show ?thesis using assms(1,5-7) by (simp only: dispatch_inv_def dict_ok_dset simp_thms)
qed

section \<open>The repository methods\<close>

lemma create_ride_idempotently_inv:
  assumes "dispatch_inv s" and "dget (ds_rides s) (dr_ride_id ride) = None"
    and "dr_state ride = RS_SEARCHING" and "dr_rider_id ride = rider"
  shows "dispatch_inv (fst (create_ride_idempotently rider fp h ride event s))"
proof (cases "dget (ds_idempotency s) (rider, fp)")
  case (Some v)
  then show ?thesis
    using assms(1) by (cases v) (simp add: create_ride_idempotently_def split: option.split)
next
  case None
  show ?thesis
  proof (cases "list_ex (\<lambda>r. dr_rider_id r = rider \<and> ride_active (dr_state r)) (dvalues (ds_rides s))")
    case True
    then show ?thesis using assms(1) None by (simp add: create_ride_idempotently_def)
  next
    case False
    have free: "\<not> ride_active (dr_state q)"
      if "dget (ds_rides s) j = Some q" "dr_rider_id q = dr_rider_id ride" for j q
      using False dget_in_dvalues [OF that(1)] that(2) assms(4) by (auto simp: list_ex_iff)
    have "links ((dget (ds_rides s))(dr_ride_id ride \<mapsto> ride)) (dget (ds_offers s)) (dget (ds_candidates s))"
      using dispatch_invD(1) [OF assms(1)] assms(2,3) free by (intro links_new_ride) simp_all
    moreover have "idempotency_ok (s\<lparr>ds_rides := dset (dr_ride_id ride) ride (ds_rides s),
        ds_idempotency := dset (rider, fp) (h, dr_ride_id ride) (ds_idempotency s),
        ds_audit_events := ds_audit_events s @ [event]\<rparr>)"
      using assms unfolding dispatch_inv_def idempotency_ok_def by (auto split: if_splits) (metis option.distinct(1))+
    ultimately have "dispatch_inv (s\<lparr>ds_rides := dset (dr_ride_id ride) ride (ds_rides s),
        ds_idempotency := dset (rider, fp) (h, dr_ride_id ride) (ds_idempotency s),
        ds_audit_events := ds_audit_events s @ [event]\<rparr>)"
      using assms(1) unfolding dispatch_inv_def dget_dset_upd [symmetric] by simp
    then show ?thesis using None False by (simp add: create_ride_idempotently_def)
  qed
qed

lemma mark_no_driver_searching:
  assumes "dispatch_inv s" and "dget (ds_rides s) i = Some r" and "dr_state r = RS_SEARCHING"
  shows "\<exists>s' r'. mark_no_driver i (dr_version r) now event s = (s', Inr r') \<and> dispatch_inv s' \<and>
    ds_offers s' = ds_offers s"
proof -
  let ?r' = "r\<lparr>dr_state := RS_NO_DRIVER_AVAILABLE, dr_updated_at := now, dr_version := dr_version r + 1\<rparr>"
  have "links ((dget (ds_rides s))(i \<mapsto> ?r')) (dget (ds_offers s)) (dget (ds_candidates s))"
    by (rule links_no_driver [OF dispatch_invD(1) [OF assms(1)] assms(2,3)]) simp_all
  note inv' = dispatch_inv_ride_update [OF assms(1) this assms(2)]
  show ?thesis using assms(2,3) by (auto simp: mark_no_driver_def Let_def intro: inv')
qed

lemma reserve_and_offer_searching:
  assumes "dispatch_inv s" and "dget (ds_rides s) i = Some r" and "dr_state r = RS_SEARCHING"
    and "dget (ds_candidates s) d = Some k" and "dc_availability k = DA_AVAILABLE"
    and "d \<notin> dr_attempted_driver_ids r" and "dget (ds_offers s) (of_offer_id f) = None"
    and "of_ride_id f = i" and "of_driver_id f = d" and "of_state f = OS_CREATED"
  shows "\<exists>s' r'. reserve_and_offer (dr_version r) f event s = (s', Inr r') \<and> dispatch_inv s' \<and>
    ds_offers s' = dset (of_offer_id f) f (ds_offers s)"
proof -
  let ?r' = "r\<lparr>dr_state := RS_OFFERING, dr_active_offer_id := Some (of_offer_id f),
     dr_updated_at := of_created_at f, dr_version := dr_version r + 1\<rparr>"
  let ?k' = "k\<lparr>dc_availability := DA_RESERVED\<rparr>"
  have ids: "dr_ride_id r = i" "dc_driver_id k = d"
    using dispatch_invD(2,4) [OF assms(1)] assms(2,4) by blast+
  have "links ((dget (ds_rides s))(i \<mapsto> ?r')) ((dget (ds_offers s))(of_offer_id f \<mapsto> f))
      ((dget (ds_candidates s))(d \<mapsto> ?k'))"
    using assms by (intro links_offer [OF dispatch_invD(1) [OF assms(1)] assms(2-7)]) simp_all
  note inv' = dispatch_inv_update [OF assms(1) this assms(2)]
  show ?thesis
    using assms(2-5,8,9) ids by (auto simp: reserve_and_offer_def Let_def intro: inv')
qed

lemma resolve_created:
  assumes "dispatch_inv s" and "dget (ds_offers s) j = Some f" and "of_state f = OS_CREATED"
    and "outcome = ''declined'' \<or> of_expires_at f \<le> now"
  shows "\<exists>s' r'. resolve_offer_and_requeue j (of_driver_id f) outcome now event s = (s', Inr r') \<and>
    dispatch_inv s' \<and> dr_ride_id r' = of_ride_id f \<and> dget (ds_rides s') (of_ride_id f) = Some r' \<and>
    dr_state r' = RS_SEARCHING \<and>
    ds_offers s' = dset j (f\<lparr>of_state := (if outcome = ''declined'' then OS_DECLINED else OS_EXPIRED),
      of_version := of_version f + 1\<rparr>) (ds_offers s)"
proof -
  obtain r where r: "dget (ds_rides s) (of_ride_id f) = Some r"
    using dispatch_invD(5) [OF assms(1,2)] by blast
  obtain k where k: "dget (ds_candidates s) (of_driver_id f) = Some k"
    using dispatch_invD(6) [OF assms(1,2)] by blast
  have ids: "dr_ride_id r = of_ride_id f" using dispatch_invD(2) [OF assms(1) r] .
  let ?f' = "f\<lparr>of_state := (if outcome = ''declined'' then OS_DECLINED else OS_EXPIRED),
      of_version := of_version f + 1\<rparr>"
  let ?r' = "r\<lparr>dr_state := RS_SEARCHING, dr_active_offer_id := None,
      dr_attempted_driver_ids := insert (of_driver_id f) (dr_attempted_driver_ids r),
      dr_updated_at := now, dr_version := dr_version r + 1\<rparr>"
  let ?k' = "k\<lparr>dc_availability := DA_AVAILABLE\<rparr>"
  have "links ((dget (ds_rides s))(of_ride_id f \<mapsto> ?r')) ((dget (ds_offers s))(j \<mapsto> ?f'))
      ((dget (ds_candidates s))(of_driver_id f \<mapsto> ?k'))"
    by (rule links_resolve [OF dispatch_invD(1) [OF assms(1)] assms(2,3) r k]) simp_all
  note inv' = dispatch_inv_update [OF assms(1) this r]
  show ?thesis
    using assms(2-4) r k ids by (auto simp: resolve_offer_and_requeue_def Let_def intro: inv')
qed

lemma accept_created:
  assumes "dispatch_inv s" and "dget (ds_offers s) j = Some f" and "of_state f = OS_CREATED"
    and "now < of_expires_at f"
  shows "\<exists>s' r'. repo_accept_offer j (of_driver_id f) now event s = (s', Inr r') \<and>
    dispatch_inv s' \<and> dr_ride_id r' = of_ride_id f \<and> dget (ds_rides s') (of_ride_id f) = Some r' \<and>
    dr_state r' = RS_ASSIGNED \<and> dr_assigned_driver_id r' = Some (of_driver_id f) \<and>
    ds_offers s' = dset j (f\<lparr>of_state := OS_ACCEPTED, of_version := of_version f + 1\<rparr>) (ds_offers s)"
proof -
  obtain r where r: "dget (ds_rides s) (of_ride_id f) = Some r"
    using dispatch_invD(5) [OF assms(1,2)] by blast
  obtain k where k: "dget (ds_candidates s) (of_driver_id f) = Some k"
    using dispatch_invD(6) [OF assms(1,2)] by blast
  have ids: "dr_ride_id r = of_ride_id f" using dispatch_invD(2) [OF assms(1) r] .
  let ?f' = "f\<lparr>of_state := OS_ACCEPTED, of_version := of_version f + 1\<rparr>"
  let ?r' = "r\<lparr>dr_state := RS_ASSIGNED, dr_assigned_driver_id := Some (of_driver_id f),
      dr_updated_at := now, dr_version := dr_version r + 1\<rparr>"
  let ?k' = "k\<lparr>dc_availability := DA_ASSIGNED\<rparr>"
  have "links ((dget (ds_rides s))(of_ride_id f \<mapsto> ?r')) ((dget (ds_offers s))(j \<mapsto> ?f'))
      ((dget (ds_candidates s))(of_driver_id f \<mapsto> ?k'))"
    by (rule links_accept [OF dispatch_invD(1) [OF assms(1)] assms(2,3) r k]) simp_all
  note inv' = dispatch_inv_update [OF assms(1) this r]
  show ?thesis
    using assms(2-4) r k ids by (auto simp: repo_accept_offer_def Let_def intro: inv')
qed


section \<open>The service\<close>

lemma then_do_inv:
  assumes "dispatch_inv (fst (m s))"
    and "\<And>x s'. m s = (s', Inr x) \<Longrightarrow> dispatch_inv s' \<Longrightarrow> dispatch_inv (fst (f x s'))"
  shows "dispatch_inv (fst (then_do m f s))"
  using assms by (cases "m s") (auto simp: then_do_def split: sum.splits)

lemma chosen_driver:
  assumes "dispatch_inv s" and "score_candidates r (list_candidates n s) p now = sc # rest"
  shows "\<exists>k. dget (ds_candidates s) (sc_driver_id sc) = Some k \<and> dc_availability k = DA_AVAILABLE \<and>
    sc_driver_id sc \<notin> dr_attempted_driver_ids r"
proof -
  have "sc \<in> set (score_candidates r (list_candidates n s) p now)" using assms(2) by simp
  then obtain c where c: "c \<in> set (eligible_candidates r (list_candidates n s) p now)"
    and sc: "sc = score_candidate p c"
    unfolding in_score_candidates_iff by blast
  have e: "candidate_eligible r p now c" and "c \<in> set (list_candidates n s)"
    using c by (auto simp: eligible_candidates_def dest: in_set_takeD)
  then have "c \<in> set (dvalues (ds_candidates s))" by (auto simp: list_candidates_def dest: in_set_takeD)
  then obtain d where d: "dget (ds_candidates s) d = Some c"
    using assms(1) by (auto simp: dispatch_inv_def in_dvalues_iff)
  then have "dc_driver_id c = d" using dispatch_invD(4) [OF assms(1)] by blast
  with d e show ?thesis by (simp add: sc candidate_eligible_def)
qed

definition offer_of_score ::
  "dispatch_policy \<Rightarrow> uuid \<Rightarrow> uuid \<Rightarrow> instant \<Rightarrow> dispatch_score \<Rightarrow> driver_offer" where
  "offer_of_score policy fresh ride_id now score =
     \<lparr>of_offer_id = fresh, of_ride_id = ride_id, of_driver_id = sc_driver_id score,
      of_state = OS_CREATED, of_created_at = now,
      of_expires_at = now + timedelta_seconds (dp_offer_timeout_seconds policy),
      of_policy_version = dp_version policy, of_score = score, of_version = 1\<rparr>"

text \<open>Dispatching a searching ride always succeeds: it makes one fresh offer, or finds no driver.\<close>

lemma dispatch_next_searching:
  assumes "dispatch_inv s" and "dget (ds_rides s) i = Some r" and "dr_state r = RS_SEARCHING"
    and "dget (ds_offers s) fresh = None"
  shows "\<exists>s' x. dispatch_next p fresh i now s = (s', Inr x) \<and> dispatch_inv s' \<and>
    (case x of None \<Rightarrow> ds_offers s' = ds_offers s
     | Some f \<Rightarrow> ds_offers s' = dset fresh f (ds_offers s) \<and> of_offer_id f = fresh \<and> of_ride_id f = i \<and>
         of_state f = OS_CREATED \<and> of_expires_at f = now + timedelta_seconds (dp_offer_timeout_seconds p))"
proof -
  have i: "dr_ride_id r = i" using dispatch_invD(2) [OF assms(1,2)] .
  let ?scores = "score_candidates r (list_candidates (dp_maximum_candidates p) s) p now"
  show ?thesis
  proof (cases ?scores)
    case Nil
    obtain s' r' where m: "mark_no_driver i (dr_version r) now
        (system_event p r ''dispatch.ride.no_driver'' ''no_eligible_driver'' now) s = (s', Inr r')"
      and "dispatch_inv s'" "ds_offers s' = ds_offers s"
      using mark_no_driver_searching [OF assms(1-3)] by blast
    then show ?thesis
      using assms(2,3) Nil i
      by (auto simp: dispatch_next_def get_ride_def return_value_def then_do_def m)
  next
    case (Cons sc rest)
    obtain k where k: "dget (ds_candidates s) (sc_driver_id sc) = Some k"
        "dc_availability k = DA_AVAILABLE" "sc_driver_id sc \<notin> dr_attempted_driver_ids r"
      using chosen_driver [OF assms(1) Cons] by blast
    let ?f = "offer_of_score p fresh i now sc"
    have f: "of_offer_id ?f = fresh" "of_ride_id ?f = i" "of_driver_id ?f = sc_driver_id sc"
      "of_state ?f = OS_CREATED" "of_expires_at ?f = now + timedelta_seconds (dp_offer_timeout_seconds p)"
      by (simp_all add: offer_of_score_def)
    obtain s' r' where m: "reserve_and_offer (dr_version r) ?f
        (system_event p r ''dispatch.offer.create'' ''candidate_selected'' now) s = (s', Inr r')"
      and s': "dispatch_inv s'" "ds_offers s' = dset fresh ?f (ds_offers s)"
      using reserve_and_offer_searching [OF assms(1-3) k, of ?f] assms(4) f by metis
    have "dispatch_next p fresh i now s =
        then_do (reserve_and_offer (dr_version r) ?f
          (system_event p r ''dispatch.offer.create'' ''candidate_selected'' now))
          (\<lambda>_. return_value (Some ?f)) s"
      using assms(2,3) Cons i
      by (simp add: dispatch_next_def get_ride_def offer_of_score_def Let_def)
    also have "\<dots> = (s', Inr (Some ?f))" by (simp add: then_do_def m return_value_def)
    finally show ?thesis using s' f by auto
  qed
qed

lemma dispatch_next_not_searching:
  assumes "\<And>r. dget (ds_rides s) i = Some r \<Longrightarrow> dr_state r \<noteq> RS_SEARCHING"
  shows "dispatch_next p fresh i now s = (s, Inl (DispatchConflict ''Ride is not searching''))"
  using assms by (cases "dget (ds_rides s) i") (simp_all add: dispatch_next_def get_ride_def)

lemma dispatch_next_inv:
  assumes "dispatch_inv s" and "dget (ds_offers s) fresh = None"
  shows "dispatch_inv (fst (dispatch_next p fresh i now s))"
proof (cases "\<exists>r. dget (ds_rides s) i = Some r \<and> dr_state r = RS_SEARCHING")
  case True
  then obtain r where "dget (ds_rides s) i = Some r" "dr_state r = RS_SEARCHING" by blast
  from dispatch_next_searching [OF assms(1) this assms(2), of p now]
  obtain s' x where "dispatch_next p fresh i now s = (s', Inr x)" "dispatch_inv s'" by blast
  then show ?thesis by simp
next
  case False
  then have "dispatch_next p fresh i now s = (s, Inl (DispatchConflict ''Ride is not searching''))"
    by (intro dispatch_next_not_searching) blast
  then show ?thesis using assms(1) by simp
qed

text \<open>Resolving an offer either changes nothing or resolves a live offer.\<close>

lemma resolve_unchanged:
  assumes "dispatch_inv s"
    and "\<not> (\<exists>f. dget (ds_offers s) j = Some f \<and> of_state f = OS_CREATED \<and> of_driver_id f = d \<and>
      (outcome = ''declined'' \<or> of_expires_at f \<le> now))"
  shows "fst (resolve_offer_and_requeue j d outcome now event s) = s"
proof (cases "dget (ds_offers s) j")
  case None
  then show ?thesis by (simp add: resolve_offer_and_requeue_def)
next
  case (Some f)
  obtain r where "dget (ds_rides s) (of_ride_id f) = Some r"
    using dispatch_invD(5) [OF assms(1) Some] by blast
  then show ?thesis
    using assms(2) Some by (auto simp: resolve_offer_and_requeue_def Let_def)
qed

lemma resolve_inv:
  assumes "dispatch_inv s"
  shows "dispatch_inv (fst (resolve_offer_and_requeue j d outcome now event s))"
    and "dget (ds_offers s) k = None \<Longrightarrow>
      dget (ds_offers (fst (resolve_offer_and_requeue j d outcome now event s))) k = None"
proof -
  let ?res = "resolve_offer_and_requeue j d outcome now event s"
  have "dispatch_inv (fst ?res) \<and> (dget (ds_offers s) k = None \<longrightarrow> dget (ds_offers (fst ?res)) k = None)"
  proof (cases "\<exists>f. dget (ds_offers s) j = Some f \<and> of_state f = OS_CREATED \<and> of_driver_id f = d \<and>
      (outcome = ''declined'' \<or> of_expires_at f \<le> now)")
    case True
    then show ?thesis using resolve_created [OF assms, of j _ outcome now event] by fastforce
  next
    case False
    then show ?thesis using resolve_unchanged [OF assms False] assms by simp
  qed
  then show "dispatch_inv (fst ?res)" "dget (ds_offers s) k = None \<Longrightarrow> dget (ds_offers (fst ?res)) k = None"
    by blast+
qed

lemma accept_unchanged:
  assumes "dispatch_inv s"
    and "\<not> (\<exists>f. dget (ds_offers s) j = Some f \<and> of_state f = OS_CREATED \<and> of_driver_id f = d \<and>
      now < of_expires_at f)"
  shows "fst (repo_accept_offer j d now event s) = s"
proof (cases "dget (ds_offers s) j")
  case None
  then show ?thesis by (simp add: repo_accept_offer_def)
next
  case (Some f)
  obtain r where "dget (ds_rides s) (of_ride_id f) = Some r"
    using dispatch_invD(5) [OF assms(1) Some] by blast
  then show ?thesis using assms(2) Some by (auto simp: repo_accept_offer_def)
qed

lemma repo_accept_inv:
  assumes "dispatch_inv s"
  shows "dispatch_inv (fst (repo_accept_offer j d now event s))"
proof (cases "\<exists>f. dget (ds_offers s) j = Some f \<and> of_state f = OS_CREATED \<and> of_driver_id f = d \<and>
      now < of_expires_at f")
  case True
  then show ?thesis using accept_created [OF assms, of j _ now event] by fastforce
next
  case False
  then show ?thesis using accept_unchanged [OF assms False] assms by simp
qed

lemma require_offer_inv: "dispatch_inv s \<Longrightarrow> dispatch_inv (fst (require_offer j d s))"
  and require_ride_inv: "dispatch_inv s \<Longrightarrow> dispatch_inv (fst (require_ride i s))"
  and require_offer_same: "require_offer j d s = (s', x) \<Longrightarrow> s' = s"
  and require_ride_same: "require_ride i s = (s', y) \<Longrightarrow> s' = s"
  by (auto simp: require_offer_def require_ride_def split: option.splits if_splits)

lemma decline_and_reassign_inv:
  assumes "dispatch_inv s" and "dget (ds_offers s) fresh = None"
  shows "dispatch_inv (fst (decline_and_reassign p fresh j d now s))"
  unfolding decline_and_reassign_def
proof (intro then_do_inv)
  fix f s1 r s2 r' s3
  assume "require_offer j d s = (s1, Inr f)" and "require_ride (of_ride_id f) s1 = (s2, Inr r)"
    and res: "resolve_offer_and_requeue j d ''declined'' now
      (driver_event p r d ''dispatch.offer.decline'' ''driver_declined'' now) s2 = (s3, Inr r')"
    and inv3: "dispatch_inv s3"
  then have "s2 = s" by (blast dest: require_offer_same require_ride_same)
  with resolve_inv(2) [OF assms, of j d "''declined''" now] res
  have "dget (ds_offers s3) fresh = None" by (metis fst_conv)
  with inv3 show "dispatch_inv (fst (dispatch_next p fresh (dr_ride_id r') now s3))"
    by (rule dispatch_next_inv)
qed (auto intro: require_offer_inv require_ride_inv resolve_inv assms)

lemma expire_and_reassign_inv:
  assumes "dispatch_inv s" and "dget (ds_offers s) fresh = None"
  shows "dispatch_inv (fst (expire_and_reassign p fresh j now s))"
proof (cases "dget (ds_offers s) j")
  case None
  then show ?thesis using assms(1) by (simp add: expire_and_reassign_def get_offer_def)
next
  case (Some f)
  have "dispatch_inv (fst (then_do (require_ride (of_ride_id f)) (\<lambda>ride.
      then_do (resolve_offer_and_requeue j (of_driver_id f) ''expired'' now
        (system_event p ride ''dispatch.offer.expire'' ''offer_timeout'' now)) (\<lambda>requeued.
      dispatch_next p fresh (dr_ride_id requeued) now)) s))"
  proof (intro then_do_inv)
    fix r s2 r' s3
    assume "require_ride (of_ride_id f) s = (s2, Inr r)"
      and res: "resolve_offer_and_requeue j (of_driver_id f) ''expired'' now
        (system_event p r ''dispatch.offer.expire'' ''offer_timeout'' now) s2 = (s3, Inr r')"
      and inv3: "dispatch_inv s3"
    then have "s2 = s" by (blast dest: require_ride_same)
    with resolve_inv(2) [OF assms, of j "of_driver_id f" "''expired''" now] res
    have "dget (ds_offers s3) fresh = None" by (metis fst_conv)
    with inv3 show "dispatch_inv (fst (dispatch_next p fresh (dr_ride_id r') now s3))"
      by (rule dispatch_next_inv)
  qed (auto intro: require_ride_inv resolve_inv assms)
  then show ?thesis using Some by (simp add: expire_and_reassign_def get_offer_def)
qed

lemma accept_offer_inv:
  "dispatch_inv s \<Longrightarrow> dispatch_inv (fst (accept_offer p j d now s))"
  unfolding accept_offer_def
  by (intro then_do_inv) (auto intro: require_offer_inv require_ride_inv repo_accept_inv simp: return_value_def)

lemma create_ride_inv:
  assumes "dispatch_inv s" and "dget (ds_rides s) fresh = None"
  shows "dispatch_inv (fst (create_ride kd cd p fresh rider key command now s))"
proof -
  have "dispatch_inv (fst (then_do (create_ride_idempotently rider fp h (new_ride fresh rider command now) event)
      (\<lambda>(stored, created). return_value (project_ride stored, created)) s))" for fp h event
    by (rule then_do_inv)
      (use assms in \<open>auto simp: new_ride_def return_value_def intro: create_ride_idempotently_inv\<close>)
  then show ?thesis
    using assms(1) by (simp add: create_ride_def Let_def split: sum.split)
qed

end
