(* ===== verification/Dispatch_Reach.thy ===== *)
theory Dispatch_Reach
  imports Dispatch_Props
begin

text \<open>
  Reachable states of immediate dispatch and the properties of the service: no double booking, no
  repeated offer, idempotent creation, acceptance, and recovery of expired offers.
\<close>

section \<open>Recovery of expired offers\<close>

lemma expire_created:
  assumes "dispatch_inv s" and "dget (ds_offers s) j = Some f" and "of_state f = OS_CREATED"
    and "of_expires_at f \<le> now" and "dget (ds_offers s) fresh = None"
  shows "\<exists>s' x. expire_and_reassign p fresh j now s = (s', Inr x) \<and> dispatch_inv s' \<and>
    (\<exists>f'. dget (ds_offers s') j = Some f' \<and> of_state f' = OS_EXPIRED) \<and>
    (\<forall>i. i \<noteq> j \<longrightarrow> i \<noteq> fresh \<longrightarrow> dget (ds_offers s') i = dget (ds_offers s) i) \<and>
    (\<forall>g. dget (ds_offers s') fresh = Some g \<longrightarrow>
       of_expires_at g = now + timedelta_seconds (dp_offer_timeout_seconds p))"
proof -
  obtain r where r: "dget (ds_rides s) (of_ride_id f) = Some r"
    using dispatch_invD(5) [OF assms(1,2)] by blast
  let ?event = "system_event p r ''dispatch.offer.expire'' ''offer_timeout'' now"
  obtain s1 r1 where m: "resolve_offer_and_requeue j (of_driver_id f) ''expired'' now ?event s = (s1, Inr r1)"
    and s1: "dispatch_inv s1" "dr_ride_id r1 = of_ride_id f" "dget (ds_rides s1) (of_ride_id f) = Some r1"
      "dr_state r1 = RS_SEARCHING"
      "ds_offers s1 = dset j (f\<lparr>of_state := OS_EXPIRED, of_version := of_version f + 1\<rparr>) (ds_offers s)"
    using resolve_created [OF assms(1-3), of "''expired''" now ?event] assms(4) by auto
  have jf: "j \<noteq> fresh" using assms(2,5) by auto
  have free: "dget (ds_offers s1) fresh = None" using s1(5) assms(5) jf by simp
  obtain s' x where d: "dispatch_next p fresh (of_ride_id f) now s1 = (s', Inr x)" and inv': "dispatch_inv s'"
    and x: "case x of None \<Rightarrow> ds_offers s' = ds_offers s1
     | Some g \<Rightarrow> ds_offers s' = dset fresh g (ds_offers s1) \<and> of_offer_id g = fresh \<and>
         of_ride_id g = of_ride_id f \<and> of_state g = OS_CREATED \<and>
         of_expires_at g = now + timedelta_seconds (dp_offer_timeout_seconds p)"
    using dispatch_next_searching [OF s1(1,3,4) free, of p now] by blast
  have "expire_and_reassign p fresh j now s = (s', Inr x)"
    using assms(2) r d s1(2)
    by (simp add: expire_and_reassign_def get_offer_def then_do_def require_ride_def get_ride_def m)
  moreover have "\<exists>f'. dget (ds_offers s') j = Some f' \<and> of_state f' = OS_EXPIRED"
    using x s1(5) jf by (cases x) auto
  moreover have "dget (ds_offers s') i = dget (ds_offers s) i" if "i \<noteq> j" "i \<noteq> fresh" for i
    using x s1(5) that by (cases x) auto
  moreover have "of_expires_at g = now + timedelta_seconds (dp_offer_timeout_seconds p)"
    if "dget (ds_offers s') fresh = Some g" for g
    using x s1(5) that free by (cases x) auto
  ultimately show ?thesis using inv' by blast
qed

lemma recover_loop_all:
  assumes "dispatch_inv s" and "distinct (map of_offer_id fs)" and "inj_on fresh (of_offer_id ` set fs)"
    and "\<forall>f \<in> set fs. dget (ds_offers s) (of_offer_id f) = Some f \<and> of_state f = OS_CREATED \<and>
      of_expires_at f \<le> now \<and> dget (ds_offers s) (fresh (of_offer_id f)) = None"
    and "0 < dp_offer_timeout_seconds p"
  shows "\<exists>s'. recover_loop p fresh now fs n s = (s', Inr (n + int (length fs))) \<and> dispatch_inv s' \<and>
    (\<forall>i g. dget (ds_offers s') i = Some g \<longrightarrow> of_state g = OS_CREATED \<longrightarrow> of_expires_at g \<le> now \<longrightarrow>
       dget (ds_offers s) i = Some g \<and> i \<notin> of_offer_id ` set fs)"
  using assms(1-4)
proof (induction fs arbitrary: s n)
  case Nil
  then show ?case by simp
next
  case (Cons f fs)
  let ?j = "of_offer_id f"
  have f: "dget (ds_offers s) ?j = Some f" "of_state f = OS_CREATED" "of_expires_at f \<le> now"
    "dget (ds_offers s) (fresh ?j) = None" using Cons.prems(4) by simp_all
  obtain s1 x where e: "expire_and_reassign p (fresh ?j) ?j now s = (s1, Inr x)" and inv1: "dispatch_inv s1"
    and old: "\<exists>f'. dget (ds_offers s1) ?j = Some f' \<and> of_state f' = OS_EXPIRED"
    and same: "\<forall>i. i \<noteq> ?j \<longrightarrow> i \<noteq> fresh ?j \<longrightarrow> dget (ds_offers s1) i = dget (ds_offers s) i"
    and new: "\<forall>g. dget (ds_offers s1) (fresh ?j) = Some g \<longrightarrow>
      of_expires_at g = now + timedelta_seconds (dp_offer_timeout_seconds p)"
    using expire_created [OF Cons.prems(1) f] by blast
  have late: "of_expires_at g > now" if "dget (ds_offers s1) (fresh ?j) = Some g" for g
    using new that assms(5) by (simp add: timedelta_seconds_def)
  have rest: "\<forall>g \<in> set fs. dget (ds_offers s1) (of_offer_id g) = Some g \<and> of_state g = OS_CREATED \<and>
      of_expires_at g \<le> now \<and> dget (ds_offers s1) (fresh (of_offer_id g)) = None"
  proof
    fix g assume g: "g \<in> set fs"
    have gp: "dget (ds_offers s) (of_offer_id g) = Some g" "of_state g = OS_CREATED" "of_expires_at g \<le> now"
      "dget (ds_offers s) (fresh (of_offer_id g)) = None" using Cons.prems(4) g by simp_all
    have ne: "of_offer_id g \<noteq> ?j" using Cons.prems(2) g by (auto simp: image_iff)
    have "of_offer_id g \<noteq> fresh ?j" "fresh (of_offer_id g) \<noteq> ?j" using gp f by auto
    moreover have "fresh (of_offer_id g) \<noteq> fresh ?j"
      using Cons.prems(3) g ne by (auto simp: inj_on_def)
    ultimately show "dget (ds_offers s1) (of_offer_id g) = Some g \<and> of_state g = OS_CREATED \<and>
      of_expires_at g \<le> now \<and> dget (ds_offers s1) (fresh (of_offer_id g)) = None"
      using gp ne same by simp
  qed
  have "distinct (map of_offer_id fs)" "inj_on fresh (of_offer_id ` set fs)"
    using Cons.prems(2,3) by (auto simp: inj_on_def)
  from Cons.IH [OF inv1 this rest, of "n + 1"]
  obtain s' where s': "recover_loop p fresh now fs (n + 1) s1 = (s', Inr (n + 1 + int (length fs)))"
    "dispatch_inv s'"
    and left: "\<forall>i g. dget (ds_offers s') i = Some g \<longrightarrow> of_state g = OS_CREATED \<longrightarrow> of_expires_at g \<le> now \<longrightarrow>
       dget (ds_offers s1) i = Some g \<and> i \<notin> of_offer_id ` set fs" by blast
  have "dget (ds_offers s) i = Some g \<and> i \<notin> of_offer_id ` set (f # fs)"
    if g: "dget (ds_offers s') i = Some g" "of_state g = OS_CREATED" "of_expires_at g \<le> now" for i g
  proof -
    have i1: "dget (ds_offers s1) i = Some g" "i \<notin> of_offer_id ` set fs" using left g by blast+
    have "i \<noteq> ?j" using old i1(1) g(2) by auto
    moreover have "i \<noteq> fresh ?j" using late i1(1) g(3) by force
    ultimately show ?thesis using same i1 by simp
  qed
  then show ?case using e s' by (intro exI [of _ s']) (simp add: add.assoc)
qed

lemma expired_offers_listed:
  assumes "dispatch_inv s"
  shows "\<forall>f \<in> set (list_expired_active_offers now n s). dget (ds_offers s) (of_offer_id f) = Some f \<and>
      of_state f = OS_CREATED \<and> of_expires_at f \<le> now"
    and "distinct (map of_offer_id (list_expired_active_offers now n s))"
proof -
  have keys: "map of_offer_id (dvalues (ds_offers s)) = map fst (ds_offers s)"
  proof -
    have "of_offer_id (snd q) = fst q" if "q \<in> set (ds_offers s)" for q
    proof -
      have "dget (ds_offers s) (fst q) = Some (snd q)"
        using assms that by (auto simp: dispatch_inv_def dict_ok_def)
      then show ?thesis using dispatch_invD(3) [OF assms] by blast
    qed
    then show ?thesis by (simp add: dvalues_def)
  qed
  have "dget (ds_offers s) (of_offer_id f) = Some f" if "f \<in> set (dvalues (ds_offers s))" for f
  proof -
    obtain j where "dget (ds_offers s) j = Some f"
      using assms \<open>f \<in> set (dvalues (ds_offers s))\<close> by (auto simp: dispatch_inv_def in_dvalues_iff)
    then show ?thesis using dispatch_invD(3) [OF assms] by blast
  qed
  then show "\<forall>f \<in> set (list_expired_active_offers now n s). dget (ds_offers s) (of_offer_id f) = Some f \<and>
      of_state f = OS_CREATED \<and> of_expires_at f \<le> now"
    by (auto simp: list_expired_active_offers_def dest: in_set_takeD)
  have "distinct (map of_offer_id (dvalues (ds_offers s)))"
    using assms by (simp add: keys dispatch_inv_def dict_ok_def)
  then show "distinct (map of_offer_id (list_expired_active_offers now n s))"
    unfolding list_expired_active_offers_def by (simp add: distinct_map_filter distinct_take take_map [symmetric])
qed

definition fresh_ids :: "(uuid \<Rightarrow> uuid) \<Rightarrow> dispatch_store \<Rightarrow> bool" where
  \<comment> \<open>identifiers drawn by \<open>uuid4\<close> during one recovery: new and pairwise different\<close>
  "fresh_ids fresh s \<longleftrightarrow> (\<forall>i. dget (ds_offers s) (fresh i) = None) \<and> inj fresh"

lemma recover_expired_all:
  assumes "dispatch_inv s" and "fresh_ids fresh s" and "0 < dp_offer_timeout_seconds p"
    and "1 \<le> limit" and "limit \<le> 1000"
  shows "\<exists>s'. recover_expired_offers p fresh limit now s =
      (s', Inr (int (length (list_expired_active_offers now (nat limit) s)))) \<and> dispatch_inv s' \<and>
    (\<forall>i g. dget (ds_offers s') i = Some g \<longrightarrow> of_state g = OS_CREATED \<longrightarrow> of_expires_at g \<le> now \<longrightarrow>
       dget (ds_offers s) i = Some g \<and> i \<notin> of_offer_id ` set (list_expired_active_offers now (nat limit) s))"
proof -
  let ?fs = "list_expired_active_offers now (nat limit) s"
  have inj: "inj_on fresh (of_offer_id ` set ?fs)" using assms(2) by (auto simp: fresh_ids_def intro: inj_on_subset)
  have listed: "\<forall>f \<in> set ?fs. dget (ds_offers s) (of_offer_id f) = Some f \<and> of_state f = OS_CREATED \<and>
      of_expires_at f \<le> now \<and> dget (ds_offers s) (fresh (of_offer_id f)) = None"
    using expired_offers_listed(1) [OF assms(1)] assms(2) by (auto simp: fresh_ids_def)
  show ?thesis
    using recover_loop_all [OF assms(1) expired_offers_listed(2) [OF assms(1)] inj listed assms(3), of 0]
      assms(4,5)
    by (simp add: recover_expired_offers_def)
qed


section \<open>Reachable stores\<close>

definition initial_store :: "driver_candidate list \<Rightarrow> dispatch_store" where
  "initial_store candidates = \<lparr>ds_rides = [], ds_offers = [],
     ds_candidates = fold (\<lambda>c d. dset (dc_driver_id c) c d) candidates [],
     ds_idempotency = [], ds_audit_events = []\<rparr>"

inductive dispatch_reachable :: "dispatch_store \<Rightarrow> bool" where
  start: "list_all (\<lambda>c. dc_availability c \<notin> {DA_RESERVED, DA_ASSIGNED}) cs \<Longrightarrow>
    dispatch_reachable (initial_store cs)"
| create: "dispatch_reachable s \<Longrightarrow> dget (ds_rides s) fresh = None \<Longrightarrow>
    dispatch_reachable (fst (create_ride kd cd p fresh rider key command now s))"
| assign_next: "dispatch_reachable s \<Longrightarrow> dget (ds_offers s) fresh = None \<Longrightarrow>
    dispatch_reachable (fst (dispatch_next p fresh i now s))"
| decline: "dispatch_reachable s \<Longrightarrow> dget (ds_offers s) fresh = None \<Longrightarrow>
    dispatch_reachable (fst (decline_and_reassign p fresh j d now s))"
| expire: "dispatch_reachable s \<Longrightarrow> dget (ds_offers s) fresh = None \<Longrightarrow>
    dispatch_reachable (fst (expire_and_reassign p fresh j now s))"
| accept: "dispatch_reachable s \<Longrightarrow> dispatch_reachable (fst (accept_offer p j d now s))"
| recover: "dispatch_reachable s \<Longrightarrow> fresh_ids fr s \<Longrightarrow> valid_dispatch_policy p \<Longrightarrow>
    dispatch_reachable (fst (recover_expired_offers p fr limit now s))"

lemma fold_candidates:
  assumes "dict_ok d" and "\<And>k c. dget d k = Some c \<Longrightarrow> dc_driver_id c = k \<and> P c" and "list_all P cs"
  shows "dict_ok (fold (\<lambda>c d. dset (dc_driver_id c) c d) cs d) \<and>
    (\<forall>k c. dget (fold (\<lambda>c d. dset (dc_driver_id c) c d) cs d) k = Some c \<longrightarrow> dc_driver_id c = k \<and> P c)"
  using assms
proof (induction cs arbitrary: d)
  case Nil
  then show ?case unfolding fold_simps by blast
next
  case (Cons c cs)
  have ok: "dict_ok (dset (dc_driver_id c) c d)" using Cons.prems(1) by (rule dict_ok_dset)
  have keys: "dc_driver_id x = k \<and> P x" if "dget (dset (dc_driver_id c) c d) k = Some x" for k x
  proof (cases "k = dc_driver_id c")
    case True
    then have "x = c" using that by simp
    then show ?thesis using True Cons.prems(3) by simp
  next
    case False
    then have "dget d k = Some x" using that by simp
    then show ?thesis by (rule Cons.prems(2))
  qed
  have "list_all P cs" using Cons.prems(3) by simp
  from Cons.IH [OF ok keys this] show ?case unfolding fold_simps .
qed

lemma dispatch_inv_initial:
  assumes "list_all (\<lambda>c. dc_availability c \<notin> {DA_RESERVED, DA_ASSIGNED}) cs"
  shows "dispatch_inv (initial_store cs)"
proof -
  define D where "D = fold (\<lambda>c d. dset (dc_driver_id c) c d) cs []"
  have "dict_ok D \<and> (\<forall>k c. dget D k = Some c \<longrightarrow> dc_driver_id c = k \<and>
      dc_availability c \<notin> {DA_RESERVED, DA_ASSIGNED})"
    unfolding D_def by (rule fold_candidates [OF dict_ok_Nil _ assms]) simp
  then have "dict_ok D" and keys: "\<And>k c. dget D k = Some c \<Longrightarrow> dc_driver_id c = k"
    and free: "\<And>k c. dget D k = Some c \<Longrightarrow> dc_availability c \<noteq> DA_RESERVED \<and> dc_availability c \<noteq> DA_ASSIGNED"
    by auto
  moreover have "links (dget []) (dget []) (dget D)"
    using keys free by (simp add: links_def links_defs)
  ultimately show ?thesis
    unfolding dispatch_inv_def initial_store_def idempotency_ok_def D_def [symmetric] by simp
qed

lemma recover_inv:
  assumes "dispatch_inv s" and "fresh_ids fr s" and "valid_dispatch_policy p"
  shows "dispatch_inv (fst (recover_expired_offers p fr limit now s))"
proof (cases "1 \<le> limit \<and> limit \<le> 1000")
  case True
  have "0 < dp_offer_timeout_seconds p" using assms(3) by (simp add: valid_dispatch_policy_def)
  from recover_expired_all [OF assms(1,2) this, of limit now] True show ?thesis by fastforce
next
  case False
  then show ?thesis using assms(1) by (auto simp: recover_expired_offers_def)
qed

lemma dispatch_reachable_inv: "dispatch_reachable s \<Longrightarrow> dispatch_inv s"
  by (induction rule: dispatch_reachable.induct)
    (auto intro: dispatch_inv_initial create_ride_inv dispatch_next_inv decline_and_reassign_inv
      expire_and_reassign_inv accept_offer_inv recover_inv)

section \<open>Properties\<close>

text \<open>
  C3: no double booking. In every reachable store a rider has at most one active ride, a driver is
  assigned to at most one ride, and a driver who is assigned to a ride is marked as assigned.
\<close>

theorem dispatch_no_double_booking:
  assumes "dispatch_reachable s" and "dget (ds_rides s) i = Some r" and "dget (ds_rides s) j = Some q"
  shows "(ride_active (dr_state r) \<and> ride_active (dr_state q) \<and> dr_rider_id r = dr_rider_id q \<longrightarrow> i = j) \<and>
    (dr_state r = RS_ASSIGNED \<and> dr_state q = RS_ASSIGNED \<and>
       dr_assigned_driver_id r = dr_assigned_driver_id q \<longrightarrow> i = j) \<and>
    (dr_state r = RS_ASSIGNED \<longrightarrow> (\<exists>d k. dr_assigned_driver_id r = Some d \<and>
       dget (ds_candidates s) d = Some k \<and> dc_availability k = DA_ASSIGNED))"
proof -
  have l: "links (dget (ds_rides s)) (dget (ds_offers s)) (dget (ds_candidates s))"
    using dispatch_reachable_inv [OF assms(1)] by (rule dispatch_invD)
  have acc: "\<exists>n f. dget (ds_offers s) n = Some f \<and> of_state f = OS_ACCEPTED \<and> of_ride_id f = m \<and>
      dr_assigned_driver_id x = Some (of_driver_id f)"
    if "dget (ds_rides s) m = Some x" "dr_state x = RS_ASSIGNED" for m x
    using l that by (simp add: links_def rides_ok_def)
  have one: "ride_active (dr_state r) \<and> ride_active (dr_state q) \<and> dr_rider_id r = dr_rider_id q \<longrightarrow> i = j"
    using l assms(2,3) by (auto simp: links_def rider_unique_def)
  moreover have "i = j" if st: "dr_state r = RS_ASSIGNED" "dr_state q = RS_ASSIGNED"
      "dr_assigned_driver_id r = dr_assigned_driver_id q"
  proof -
    obtain m f where f: "dget (ds_offers s) m = Some f" "of_state f = OS_ACCEPTED" "of_ride_id f = i"
      "dr_assigned_driver_id r = Some (of_driver_id f)" using acc [OF assms(2) st(1)] by blast
    obtain n g where g: "dget (ds_offers s) n = Some g" "of_state g = OS_ACCEPTED" "of_ride_id g = j"
      "dr_assigned_driver_id q = Some (of_driver_id g)" using acc [OF assms(3) st(2)] by blast
    have "m = n" using l f g st(3) by (auto simp: links_def live_unique_def live_def)
    then show ?thesis using f g by simp
  qed
  moreover have "\<exists>d k. dr_assigned_driver_id r = Some d \<and> dget (ds_candidates s) d = Some k \<and>
      dc_availability k = DA_ASSIGNED" if st: "dr_state r = RS_ASSIGNED"
  proof -
    obtain m f where f: "dget (ds_offers s) m = Some f" "of_state f = OS_ACCEPTED"
      "dr_assigned_driver_id r = Some (of_driver_id f)" using acc [OF assms(2) st] by blast
    then show ?thesis
      using dispatch_invD(6) [OF dispatch_reachable_inv [OF assms(1)] f(1)] by (auto simp: offer_driver_ok_def)
  qed
  ultimately show ?thesis by blast
qed

text \<open>
  C6: offers, rides and drivers agree. In every reachable store a ride is being offered exactly when
  it has a live offer and then has exactly one, and a driver is reserved exactly when he or she holds a
  live offer and then holds exactly one.
\<close>

theorem dispatch_live_offers:
  assumes "dispatch_reachable s"
  shows "(dget (ds_rides s) i = Some r \<longrightarrow> (dr_state r = RS_OFFERING \<longleftrightarrow>
      (\<exists>!j. \<exists>f. dget (ds_offers s) j = Some f \<and> of_state f = OS_CREATED \<and> of_ride_id f = i))) \<and>
    (dget (ds_candidates s) d = Some k \<longrightarrow> (dc_availability k = DA_RESERVED \<longleftrightarrow>
      (\<exists>!j. \<exists>f. dget (ds_offers s) j = Some f \<and> of_state f = OS_CREATED \<and> of_driver_id f = d)))"
proof -
  have inv: "dispatch_inv s" using assms by (rule dispatch_reachable_inv)
  note l = dispatch_invD(1) [OF inv]
  have ride: "dr_state x = RS_OFFERING \<and> dr_active_offer_id x = Some j"
    if "dget (ds_offers s) j = Some f" "of_state f = OS_CREATED" "dget (ds_rides s) (of_ride_id f) = Some x" for j f x
    using live_offer_ride [OF l that] by blast
  have driver: "dc_availability x = DA_RESERVED"
    if "dget (ds_offers s) j = Some f" "of_state f = OS_CREATED" "dget (ds_candidates s) (of_driver_id f) = Some x" for j f x
    using dispatch_invD(6) [OF inv that(1)] that(2,3) by (auto simp: offer_driver_ok_def)
  have "dr_state r = RS_OFFERING \<longleftrightarrow>
      (\<exists>!j. \<exists>f. dget (ds_offers s) j = Some f \<and> of_state f = OS_CREATED \<and> of_ride_id f = i)"
    if r: "dget (ds_rides s) i = Some r"
  proof
    assume "dr_state r = RS_OFFERING"
    then obtain j f where "dget (ds_offers s) j = Some f" "of_state f = OS_CREATED" "of_ride_id f = i"
      using l r by (fastforce simp: links_def rides_ok_def)
    moreover have "n = m" if "dget (ds_offers s) n = Some g" "of_state g = OS_CREATED" "of_ride_id g = i"
      "dget (ds_offers s) m = Some h" "of_state h = OS_CREATED" "of_ride_id h = i" for n m g h
      using ride [OF that(1,2)] ride [OF that(4,5)] that(3,6) r by simp
    ultimately show "\<exists>!j. \<exists>f. dget (ds_offers s) j = Some f \<and> of_state f = OS_CREATED \<and> of_ride_id f = i"
      by blast
  qed (use ride r in blast)
  moreover have "dc_availability k = DA_RESERVED \<longleftrightarrow>
      (\<exists>!j. \<exists>f. dget (ds_offers s) j = Some f \<and> of_state f = OS_CREATED \<and> of_driver_id f = d)"
    if k: "dget (ds_candidates s) d = Some k"
  proof
    assume "dc_availability k = DA_RESERVED"
    then obtain j f where "dget (ds_offers s) j = Some f" "of_state f = OS_CREATED" "of_driver_id f = d"
      using l k by (fastforce simp: links_def drivers_ok_def)
    moreover have "n = m" if "dget (ds_offers s) n = Some g" "of_state g = OS_CREATED" "of_driver_id g = d"
      "dget (ds_offers s) m = Some h" "of_state h = OS_CREATED" "of_driver_id h = d" for n m g h
      using l that by (auto simp: links_def live_unique_def live_def)
    ultimately show "\<exists>!j. \<exists>f. dget (ds_offers s) j = Some f \<and> of_state f = OS_CREATED \<and> of_driver_id f = d"
      by blast
  qed (use driver k in blast)
  ultimately show ?thesis by blast
qed

text \<open>
  a ride is never offered twice to the same driver, whatever declines, expiries, recoveries and
  reassignments happen.
\<close>

theorem dispatch_no_repeated_offer:
  assumes "dispatch_reachable s" and "dget (ds_offers s) j = Some f" and "dget (ds_offers s) m = Some g"
    and "of_ride_id f = of_ride_id g" and "of_driver_id f = of_driver_id g"
  shows "j = m"
  using dispatch_invD(1) [OF dispatch_reachable_inv [OF assms(1)]] assms(2-5)
  by (auto simp: links_def pair_unique_def)

text \<open>
  C7: recovery leaves no expired live offer behind. A recovery with a limit that covers the expired
  live offers resolves all of them and returns their number; it never fails, because each ride that is
  requeued can be dispatched again at once.
\<close>

theorem recover_expired_offers_complete:
  assumes "dispatch_reachable s" and "fresh_ids fresh s" and "valid_dispatch_policy p"
    and "1 \<le> limit" and "limit \<le> 1000"
    and "length (filter (\<lambda>f. of_state f = OS_CREATED \<and> of_expires_at f \<le> now) (dvalues (ds_offers s))) \<le> nat limit"
  shows "\<exists>s'. recover_expired_offers p fresh limit now s = (s', Inr (int (length
      (filter (\<lambda>f. of_state f = OS_CREATED \<and> of_expires_at f \<le> now) (dvalues (ds_offers s)))))) \<and>
    (\<forall>j f. dget (ds_offers s') j = Some f \<longrightarrow> of_state f = OS_CREATED \<longrightarrow> now < of_expires_at f)"
proof -
  have inv: "dispatch_inv s" using assms(1) by (rule dispatch_reachable_inv)
  let ?all = "filter (\<lambda>f. of_state f = OS_CREATED \<and> of_expires_at f \<le> now) (dvalues (ds_offers s))"
  have all: "list_expired_active_offers now (nat limit) s = ?all"
    using assms(6) by (simp add: list_expired_active_offers_def)
  have "0 < dp_offer_timeout_seconds p" using assms(3) by (simp add: valid_dispatch_policy_def)
  from recover_expired_all [OF inv assms(2) this assms(4,5), of now]
  obtain s' where s': "recover_expired_offers p fresh limit now s = (s', Inr (int (length ?all)))"
    and left: "\<forall>i g. dget (ds_offers s') i = Some g \<longrightarrow> of_state g = OS_CREATED \<longrightarrow> of_expires_at g \<le> now \<longrightarrow>
       dget (ds_offers s) i = Some g \<and> i \<notin> of_offer_id ` set ?all"
    unfolding all by blast
  have "now < of_expires_at f" if f: "dget (ds_offers s') j = Some f" "of_state f = OS_CREATED" for j f
  proof (rule ccontr)
    assume late: "\<not> now < of_expires_at f"
    then have old: "dget (ds_offers s) j = Some f" "j \<notin> of_offer_id ` set ?all" using left f by auto
    have "f \<in> set ?all" using dget_in_dvalues [OF old(1)] f(2) late by simp
    moreover have "of_offer_id f = j" using dispatch_invD(3) [OF inv old(1)] .
    ultimately show False using old(2) by blast
  qed
  then show ?thesis using s' by blast
qed


text \<open>
  creating a ride is idempotent. After a successful request, the same rider repeating the same
  command under the same key (before the quote expires) gets the same ride back without any change to
  the store, and a different command under that key is refused.
\<close>

theorem create_ride_idempotent:
  assumes "dispatch_reachable s" and "create_ride kd cd p fresh rider key c now s = (s1, Inr (pr, created))"
    and "now' < qs_expires_at (cr_quote c)"
  shows "create_ride kd cd p' fresh' rider key c now' s1 = (s1, Inr (pr, False)) \<and>
    (cd c' \<noteq> cd c \<and> now' < qs_expires_at (cr_quote c') \<longrightarrow>
       create_ride kd cd p' fresh' rider key c' now' s1 =
         (s1, Inl (IdempotencyConflict ''Idempotency key was reused'')))"
proof -
  obtain fp where fp: "fingerprint kd key = Inr fp"
    using assms(2) by (auto simp: create_ride_def Let_def split: if_splits sum.splits)
  obtain event where "then_do (create_ride_idempotently rider fp (cd c) (new_ride fresh rider c now) event)
      (\<lambda>(stored, b). return_value (project_ride stored, b)) s = (s1, Inr (pr, created))"
    using assms(2) fp by (auto simp: create_ride_def Let_def split: if_splits)
  then obtain r where r: "create_ride_idempotently rider fp (cd c) (new_ride fresh rider c now) event s =
      (s1, Inr (r, created))" and pr: "pr = project_ride r"
    by (cases "create_ride_idempotently rider fp (cd c) (new_ride fresh rider c now) event s")
      (auto simp: then_do_def return_value_def split: sum.splits)
  then obtain i where "dget (ds_idempotency s1) (rider, fp) = Some (cd c, i)" "dget (ds_rides s1) i = Some r"
    by (auto simp: create_ride_idempotently_def split: option.splits if_splits prod.splits)
  then show ?thesis
    using assms(3) fp pr
    by (auto simp: create_ride_def Let_def then_do_def return_value_def create_ride_idempotently_def)
qed

text \<open>
  only the driver who holds a live offer can accept it, and only before it expires. Accepting
  assigns exactly that driver to exactly that ride, and accepting again changes nothing and returns the
  same ride.
\<close>

theorem accept_offer_correct:
  assumes "dispatch_reachable s" and "dget (ds_offers s) j = Some f" and "of_state f = OS_CREATED"
  shows "(now < of_expires_at f \<longrightarrow>
      (\<exists>s' pr. accept_offer p j (of_driver_id f) now s = (s', Inr pr) \<and> rj_state pr = RS_ASSIGNED \<and>
         rj_assigned_driver_id pr = Some (of_driver_id f) \<and> rj_ride_id pr = of_ride_id f \<and>
         accept_offer p' j (of_driver_id f) now' s' = (s', Inr pr))) \<and>
    (of_expires_at f \<le> now \<longrightarrow>
      accept_offer p j (of_driver_id f) now s = (s, Inl (DispatchConflict ''Offer cannot be accepted''))) \<and>
    (d \<noteq> of_driver_id f \<longrightarrow>
      accept_offer p j d now s = (s, Inl (DispatchConflict ''Offer is unavailable'')))"
proof -
  have inv: "dispatch_inv s" using assms(1) by (rule dispatch_reachable_inv)
  obtain r where r: "dget (ds_rides s) (of_ride_id f) = Some r" using dispatch_invD(5) [OF inv assms(2)] by blast
  have "\<exists>s' pr. accept_offer p j (of_driver_id f) now s = (s', Inr pr) \<and> rj_state pr = RS_ASSIGNED \<and>
       rj_assigned_driver_id pr = Some (of_driver_id f) \<and> rj_ride_id pr = of_ride_id f \<and>
       accept_offer p' j (of_driver_id f) now' s' = (s', Inr pr)" if time: "now < of_expires_at f"
  proof -
    let ?e = "driver_event p r (of_driver_id f) ''dispatch.offer.accept'' ''driver_accepted'' now"
    obtain s' r' where a: "repo_accept_offer j (of_driver_id f) now ?e s = (s', Inr r')"
      and s': "dr_ride_id r' = of_ride_id f" "dget (ds_rides s') (of_ride_id f) = Some r'"
        "dr_state r' = RS_ASSIGNED" "dr_assigned_driver_id r' = Some (of_driver_id f)"
        "ds_offers s' = dset j (f\<lparr>of_state := OS_ACCEPTED, of_version := of_version f + 1\<rparr>) (ds_offers s)"
      using accept_created [OF inv assms(2,3) time, of ?e] by blast
    have "accept_offer p j (of_driver_id f) now s = (s', Inr (project_ride r'))"
      using assms(2) r
      by (simp add: accept_offer_def then_do_def require_offer_def require_ride_def get_offer_def
          get_ride_def return_value_def a)
    moreover have "accept_offer p' j (of_driver_id f) now' s' = (s', Inr (project_ride r'))"
      using s' by (simp add: accept_offer_def then_do_def require_offer_def require_ride_def get_offer_def
          get_ride_def return_value_def repo_accept_offer_def)
    ultimately show ?thesis using s' by (auto simp: project_ride_def)
  qed
  then show ?thesis
    using assms(2,3) r
    by (auto simp: accept_offer_def then_do_def require_offer_def require_ride_def get_offer_def
        get_ride_def repo_accept_offer_def)
qed

section \<open>Witnesses\<close>

definition sample_key_digest :: "string \<Rightarrow> string" where
  "sample_key_digest s = s"

definition sample_command_digest :: "create_ride_command \<Rightarrow> string" where
  "sample_command_digest c = pl_place_id (cr_destination c)"

definition sample_create ::
  "uuid \<Rightarrow> create_ride_command \<Rightarrow> instant \<Rightarrow> (ride_projection \<times> bool) action" where
  "sample_create fresh c now =
     create_ride sample_key_digest sample_command_digest sample_dispatch_policy fresh 400 ''0123456789abcdef'' c now"

definition sample_st0 :: dispatch_store where "sample_st0 = initial_store sample_candidates"
definition sample_st1 :: dispatch_store where "sample_st1 = fst (sample_create 500 sample_command 1000000 sample_st0)"
definition sample_st2 :: dispatch_store where
  "sample_st2 = fst (dispatch_next sample_dispatch_policy 600 500 2000000 sample_st1)"
definition sample_st3 :: dispatch_store where
  "sample_st3 = fst (decline_and_reassign sample_dispatch_policy 601 600 1 3000000 sample_st2)"
definition sample_st4 :: dispatch_store where
  "sample_st4 = fst (accept_offer sample_dispatch_policy 601 2 4000000 sample_st3)"

lemma sample_fresh:
  "dget (ds_rides sample_st0) 500 = None" "dget (ds_offers sample_st1) 600 = None"
  "map fst (ds_offers sample_st2) = [600]" "dget (ds_offers sample_st2) 601 = None"
  by code_simp+


lemma sample_reachable:
  "dispatch_reachable sample_st0" "dispatch_reachable sample_st1" "dispatch_reachable sample_st2"
  "dispatch_reachable sample_st3" "dispatch_reachable sample_st4"
proof -
  show r0: "dispatch_reachable sample_st0"
    unfolding sample_st0_def by (rule dispatch_reachable.start) code_simp
  show r1: "dispatch_reachable sample_st1"
    unfolding sample_st1_def sample_create_def using r0 sample_fresh(1) by (rule dispatch_reachable.create)
  show r2: "dispatch_reachable sample_st2"
    unfolding sample_st2_def using r1 sample_fresh(2) by (rule dispatch_reachable.assign_next)
  show r3: "dispatch_reachable sample_st3"
    unfolding sample_st3_def using r2 sample_fresh(4) by (rule dispatch_reachable.decline)
  show "dispatch_reachable sample_st4"
    unfolding sample_st4_def using r3 by (rule dispatch_reachable.accept)
qed

theorem dispatch_no_double_booking_witness:
  "\<exists>r k. dget (ds_rides sample_st4) 500 = Some r \<and> dr_state r = RS_ASSIGNED \<and>
     dget (ds_candidates sample_st4) 2 = Some k \<and> dc_availability k = DA_ASSIGNED"
proof -
  have "map_option (\<lambda>r. (dr_state r, dr_assigned_driver_id r)) (dget (ds_rides sample_st4) 500) =
      Some (RS_ASSIGNED, Some 2)" by code_simp
  then obtain r where r: "dget (ds_rides sample_st4) 500 = Some r" "dr_state r = RS_ASSIGNED"
    "dr_assigned_driver_id r = Some 2" by auto
  from dispatch_no_double_booking [OF sample_reachable(5) r(1) r(1)] r show ?thesis by auto
qed

theorem dispatch_live_offers_witness:
  "\<exists>!j. \<exists>f. dget (ds_offers sample_st3) j = Some f \<and> of_state f = OS_CREATED \<and> of_ride_id f = 500"
proof -
  have "map_option dr_state (dget (ds_rides sample_st3) 500) = Some RS_OFFERING" by code_simp
  then obtain r where "dget (ds_rides sample_st3) 500 = Some r" "dr_state r = RS_OFFERING" by auto
  with dispatch_live_offers [OF sample_reachable(4), of 500 r] show ?thesis by blast
qed

theorem dispatch_no_repeated_offer_witness:
  "\<exists>f g. dget (ds_offers sample_st4) 600 = Some f \<and> dget (ds_offers sample_st4) 601 = Some g \<and>
     of_ride_id f = of_ride_id g \<and> of_driver_id f \<noteq> of_driver_id g"
proof -
  have "map_option of_ride_id (dget (ds_offers sample_st4) 600) = Some 500"
    "map_option of_ride_id (dget (ds_offers sample_st4) 601) = Some 500" by code_simp+
  then obtain f g where fg: "dget (ds_offers sample_st4) 600 = Some f" "dget (ds_offers sample_st4) 601 = Some g"
    "of_ride_id f = of_ride_id g" by auto
  have "of_driver_id f \<noteq> of_driver_id g"
    using dispatch_no_repeated_offer [OF sample_reachable(5) fg] by auto
  with fg show ?thesis by blast
qed

theorem recover_expired_offers_complete_witness:
  "\<exists>s'. recover_expired_offers sample_dispatch_policy (\<lambda>i. i + 10000) 100 60000000 sample_st2 = (s', Inr 1)"
proof -
  have "fresh_ids (\<lambda>i. i + 10000) sample_st2"
    using sample_fresh(3) by (auto simp: fresh_ids_def map_of_eq_None_iff inj_def set_map [symmetric] simp del: set_map)
  moreover have "length (filter (\<lambda>f. of_state f = OS_CREATED \<and> of_expires_at f \<le> 60000000)
      (dvalues (ds_offers sample_st2))) = 1" by code_simp
  ultimately show ?thesis
    using recover_expired_offers_complete [OF sample_reachable(3) _ sample_dispatch_valid(1),
        of "\<lambda>i. i + 10000" 100 60000000] by auto
qed

theorem create_ride_idempotent_witness:
  "\<exists>pr. sample_create 501 sample_command 2000000 sample_st1 = (sample_st1, Inr (pr, False))"
proof -
  have "map_sum id snd (snd (sample_create 500 sample_command 1000000 sample_st0)) = Inr True" by code_simp
  then obtain x where "sample_create 500 sample_command 1000000 sample_st0 = (sample_st1, Inr (x, True))"
    by (cases "sample_create 500 sample_command 1000000 sample_st0"; cases "snd (sample_create 500 sample_command 1000000 sample_st0)")
      (auto simp: sample_st1_def)
  moreover have "2000000 < qs_expires_at (cr_quote sample_command)" by code_simp
  ultimately show ?thesis
    using create_ride_idempotent [OF sample_reachable(1)] unfolding sample_create_def by blast
qed

theorem accept_offer_correct_witness:
  "\<exists>s' pr. accept_offer sample_dispatch_policy 601 2 4000000 sample_st3 = (s', Inr pr) \<and>
     rj_assigned_driver_id pr = Some 2"
proof -
  have "map_option (\<lambda>f. (of_state f, of_driver_id f, of_expires_at f)) (dget (ds_offers sample_st3) 601) =
      Some (OS_CREATED, 2, 18000000)" by code_simp
  then obtain f where f: "dget (ds_offers sample_st3) 601 = Some f" "of_state f = OS_CREATED"
    "of_driver_id f = 2" "of_expires_at f = 18000000" by auto
  have "4000000 < of_expires_at f" using f(4) by simp
  with accept_offer_correct [OF sample_reachable(4) f(1,2), where now = 4000000 and p = sample_dispatch_policy]
  have "\<exists>s' pr. accept_offer sample_dispatch_policy 601 (of_driver_id f) 4000000 sample_st3 = (s', Inr pr) \<and>
     rj_assigned_driver_id pr = Some (of_driver_id f)" by blast
  then show ?thesis by (simp add: f(3))
qed

end
