(* ===== verification/Payment.thy ===== *)
theory Payment
  imports Financial_Lifecycles Idempotency Ledger Pricing
begin

text \<open>
  Payments: the models of \<open>payment/models.py\<close>, the repository \<open>persistence/payment_repository.py\<close> and the
  orchestration of \<open>payment/application.py\<close>. The database is the record \<open>payment_db\<close>; an operation
  returns the new database or the exception that rolls its transaction back. What the service reads of
  other components (permissions, fare calculations, journals) is the record \<open>payment_env\<close>.
\<close>

section \<open>Models\<close>

datatype payment_method_family = PM_CASH | PM_MOBILE_MONEY | PM_CARD | PM_BANK_TRANSFER | PM_UNKNOWN

datatype calculation_state = CS_ESTIMATE_CREATED | CS_ESTIMATE_ACCEPTED | CS_ESTIMATE_EXPIRED
  | CS_FINAL_INPUTS_PENDING | CS_FINAL_CALCULATED | CS_REVIEW_REQUIRED | CS_FINALIZED | CS_DISPUTED
  | CS_CORRECTED | CS_SETTLEMENT_INSTRUCTION_READY

record financial_traceability =
  ft_ride_request_id :: uuid
  ft_dispatch_handoff_id :: "uuid option"
  ft_assignment_id :: "uuid option"
  ft_active_ride_id :: "uuid option"
  ft_fare_estimate_id :: uuid
  ft_fare_calculation_id :: "uuid option"
  ft_predecessor_fare_calculation_id :: "uuid option"
  ft_ledger_transaction_id :: "uuid option"
  ft_ledger_journal_id :: "uuid option"
  ft_wallet_projection_id :: "uuid option"
  ft_settlement_instruction_id :: "uuid option"

definition ordered_authority_chain :: "financial_traceability \<Rightarrow> financial_traceability result" where
  "ordered_authority_chain t =
     (if ft_active_ride_id t = None \<and> ft_dispatch_handoff_id t \<noteq> None
      then Inl (ValidationError ''Dispatch lineage requires Active Ride'')
      else if ft_active_ride_id t = None \<and> ft_assignment_id t \<noteq> None
      then Inl (ValidationError ''Assignment lineage requires Active Ride'')
      else if ft_active_ride_id t \<noteq> None \<and> (ft_dispatch_handoff_id t = None \<or> ft_assignment_id t = None)
      then Inl (ValidationError ''Active Ride trace requires Dispatch lineage'')
      else if ft_fare_calculation_id t \<noteq> None \<and> ft_active_ride_id t = None
      then Inl (ValidationError ''Fare calculation trace requires Active Ride lineage'')
      else if ft_fare_calculation_id t \<noteq> None \<and> (ft_dispatch_handoff_id t = None \<or> ft_assignment_id t = None)
      then Inl (ValidationError ''Fare calculation trace requires Dispatch lineage'')
      else if ft_predecessor_fare_calculation_id t \<noteq> None \<and>
        (ft_fare_calculation_id t = None \<or> ft_predecessor_fare_calculation_id t = ft_fare_calculation_id t)
      then Inl (ValidationError ''Correction trace requires a distinct calculation'')
      else if ft_ledger_transaction_id t \<noteq> None \<and> ft_fare_calculation_id t = None
      then Inl (ValidationError ''Ledger lineage requires fare calculation lineage'')
      else if ft_ledger_journal_id t \<noteq> None \<and> ft_fare_calculation_id t = None
      then Inl (ValidationError ''Ledger lineage requires fare calculation lineage'')
      else if ft_wallet_projection_id t \<noteq> None \<and> ft_fare_calculation_id t = None
      then Inl (ValidationError ''Wallet lineage requires fare calculation lineage'')
      else if ft_settlement_instruction_id t \<noteq> None \<and> ft_fare_calculation_id t = None
      then Inl (ValidationError ''Settlement lineage requires fare calculation lineage'')
      else Inr t)"

record fare_calculation =
  fc_calculation_id :: uuid
  fc_estimate_id :: uuid
  fc_acceptance_id :: uuid
  fc_ride_id :: uuid
  fc_rider_identity_id :: uuid
  fc_driver_identity_id :: uuid
  fc_policy_id :: uuid
  fc_policy_version :: string
  fc_state :: calculation_state
  fc_metrics :: route_metrics
  fc_breakdown :: fare_breakdown
  fc_financial_traceability :: financial_traceability
  fc_calculation_lineage :: calculation_lineage
  fc_estimate_difference_minor :: int
  fc_predecessor_calculation_id :: "uuid option"
  fc_reason_codes :: "string list"
  fc_translation_keys :: "string list"
  fc_audit_reference :: uuid
  fc_calculated_at :: instant
  fc_settlement_instruction_ready :: bool

record payment_traceability =
  py_ride_request_id :: uuid
  py_dispatch_handoff_id :: uuid
  py_assignment_id :: uuid
  py_active_ride_id :: uuid
  py_fare_estimate_id :: uuid
  py_fare_calculation_id :: uuid
  py_ledger_journal_id :: "uuid option"

record payment_intent =
  pi_payment_intent_id :: uuid
  pi_ride_id :: uuid
  pi_rider_identity_id :: uuid
  pi_passenger_identity_id :: uuid
  pi_booker_identity_id :: uuid
  pi_payer_identity_id :: uuid
  pi_amount_minor :: minor
  pi_currency :: string
  pi_payment_method_family :: payment_method_family
  pi_state :: payment_intent_state
  pi_traceability :: payment_traceability
  pi_metadata_safe :: "(string, string) dict"
  pi_created_at :: instant
  pi_expires_at :: "instant option"
  pi_cancelled_at :: "instant option"

definition validate_identities :: "payment_intent \<Rightarrow> payment_intent result" where
  "validate_identities i =
     (if \<not> minor_ok (pi_amount_minor i) \<or> \<not> currency_pattern (pi_currency i)
      then Inl (ValidationError ''PaymentIntent'')
      else if pi_payer_identity_id i \<noteq> pi_rider_identity_id i
      then Inl (ValidationError ''payer_identity_id must match rider_identity_id'')
      else if (case pi_expires_at i of None \<Rightarrow> False | Some e \<Rightarrow> e \<le> pi_created_at i)
      then Inl (ValidationError ''expires_at must be later than created_at'')
      else if (case pi_cancelled_at i of None \<Rightarrow> False | Some c \<Rightarrow> c < pi_created_at i)
      then Inl (ValidationError ''cancelled_at must not precede created_at'')
      else Inr i)"

record payment_attempt =
  pa_payment_attempt_id :: uuid
  pa_payment_intent_id :: uuid
  pa_provider_code :: string
  pa_provider_reference :: string
  pa_provider_event_id :: "string option"
  pa_state :: payment_attempt_state
  pa_amount_minor :: minor
  pa_currency :: string
  pa_reason_code :: "string option"
  pa_correlation_id :: uuid
  pa_causation_id :: uuid
  pa_created_at :: instant
  pa_updated_at :: instant

definition valid_attempt :: "payment_attempt \<Rightarrow> payment_attempt result" where
  "valid_attempt a =
     (if \<not> code_pattern 2 (pa_provider_code a) \<or> \<not> length_between 3 128 (pa_provider_reference a) \<or>
         (case pa_provider_event_id a of None \<Rightarrow> False | Some e \<Rightarrow> \<not> length_between 3 128 e) \<or>
         \<not> minor_ok (pa_amount_minor a) \<or> \<not> currency_pattern (pa_currency a) \<or>
         (case pa_reason_code a of None \<Rightarrow> False | Some c \<Rightarrow> \<not> code_pattern 2 c)
      then Inl (ValidationError ''PaymentAttempt'')
      else if pa_updated_at a < pa_created_at a
      then Inl (ValidationError ''updated_at must not precede created_at'')
      else Inr a)"

record payment_callback_envelope =
  pc_callback_id :: uuid
  pc_provider_code :: string
  pc_provider_event_id :: string
  pc_provider_signature_fingerprint :: string
  pc_payload_hash :: string
  pc_received_at :: instant
  pc_replay_window_ends_at :: instant
  pc_correlated_attempt_id :: "uuid option"
  pc_processed_at :: "instant option"

definition fingerprint_pattern :: "string \<Rightarrow> bool" where
  \<comment> \<open>the pattern \<open>^[a-z0-9]{16,128}$\<close>\<close>
  "fingerprint_pattern s \<longleftrightarrow> length_between 16 128 s \<and> list_all (\<lambda>c. lower_alpha c \<or> digit_char c) s"

definition valid_envelope :: "payment_callback_envelope \<Rightarrow> payment_callback_envelope result" where
  "valid_envelope e =
     (if \<not> code_pattern 2 (pc_provider_code e) \<or> \<not> length_between 3 128 (pc_provider_event_id e) \<or>
         \<not> fingerprint_pattern (pc_provider_signature_fingerprint e) \<or> \<not> hash_pattern (pc_payload_hash e)
      then Inl (ValidationError ''PaymentCallbackEnvelope'')
      else if pc_replay_window_ends_at e \<le> pc_received_at e
      then Inl (ValidationError ''replay_window_ends_at must be later than received_at'')
      else if (case pc_processed_at e of None \<Rightarrow> False | Some p \<Rightarrow> p < pc_received_at e)
      then Inl (ValidationError ''processed_at must not precede received_at'')
      else Inr e)"

section \<open>The repository\<close>

text \<open>The replay payload of an event, which repeats the stored record, is not kept in the model.\<close>

record payment_event =
  pe_aggregate_type :: string
  pe_aggregate_id :: uuid
  pe_event_type :: string
  pe_occurred_at :: instant
  pe_correlation_id :: uuid
  pe_causation_id :: uuid
  pe_safe_payload :: payload

record payment_message =
  pm_event_type :: string
  pm_safe_payload :: payload
  pm_occurred_at :: instant
  pm_available_at :: instant
  pm_attempt_count :: nat

record payment_db =
  pd_intents :: "(uuid, payment_intent) dict"
  pd_attempts :: "(uuid, payment_attempt) dict"
  pd_callbacks :: "(uuid, payment_callback_envelope) dict"
  pd_idempotency :: idempotency_table
  pd_events :: "payment_event list"
  pd_outbox :: "payment_message list"

fun intent_state_value :: "payment_intent_state \<Rightarrow> string" where
  "intent_state_value PI_CREATED = ''created''"
| "intent_state_value PI_CANCELLED = ''cancelled''"
| "intent_state_value PI_EXPIRED = ''expired''"

fun attempt_state_value :: "payment_attempt_state \<Rightarrow> string" where
  "attempt_state_value PA_CREATED = ''created''"
| "attempt_state_value PA_AUTHORIZATION_PENDING = ''authorization_pending''"
| "attempt_state_value PA_AUTHORIZED = ''authorized''"
| "attempt_state_value PA_CAPTURE_PENDING = ''capture_pending''"
| "attempt_state_value PA_CAPTURED = ''captured''"
| "attempt_state_value PA_FAILED = ''failed''"
| "attempt_state_value PA_CANCELLED = ''cancelled''"
| "attempt_state_value PA_EXPIRED = ''expired''"
| "attempt_state_value PA_OUTCOME_UNKNOWN = ''outcome_unknown''"

definition payment_reserve_idempotency ::
  "(payload \<Rightarrow> string) \<Rightarrow> payment_db \<Rightarrow> uuid \<Rightarrow> string \<Rightarrow> string \<Rightarrow> payload \<Rightarrow> uuid \<Rightarrow> instant \<Rightarrow>
   (payment_db \<times> uuid) result" where
  "payment_reserve_idempotency digest db actor_id operation key pl response_reference at =
     bind_result
       (reserve_row (PaymentConflict ''idempotency_conflict'') (pd_idempotency db)
          (actor_id, operation, key) (digest pl) response_reference at)
       (\<lambda>(table, reference). Inr (db\<lparr>pd_idempotency := table\<rparr>, reference))"

definition payment_event_append ::
  "string \<Rightarrow> uuid \<Rightarrow> string \<Rightarrow> instant \<Rightarrow> uuid \<Rightarrow> uuid \<Rightarrow> payload \<Rightarrow> payment_db \<Rightarrow> payment_db" where
  "payment_event_append aggregate_type aggregate_id event_type at correlation_id causation_id safe_payload db =
     db\<lparr>pd_events := pd_events db @
          [\<lparr>pe_aggregate_type = aggregate_type, pe_aggregate_id = aggregate_id, pe_event_type = event_type,
            pe_occurred_at = at, pe_correlation_id = correlation_id, pe_causation_id = causation_id,
            pe_safe_payload = safe_payload\<rparr>],
        pd_outbox := pd_outbox db @
          [\<lparr>pm_event_type = event_type, pm_safe_payload = safe_payload, pm_occurred_at = at,
            pm_available_at = at, pm_attempt_count = 0\<rparr>]\<rparr>"

definition get_intent :: "payment_db \<Rightarrow> uuid \<Rightarrow> payment_intent option" where
  "get_intent db k = dget (pd_intents db) k"

definition get_attempt :: "payment_db \<Rightarrow> uuid \<Rightarrow> payment_attempt option" where
  "get_attempt db k = dget (pd_attempts db) k"

definition create_intent :: "payment_db \<Rightarrow> payment_intent \<Rightarrow> (payment_db \<times> payment_intent) result" where
  "create_intent db i =
     (if pi_state i \<noteq> PI_CREATED then Inl (PaymentConflict ''payment_intent_invalid_initial_state'')
      else if pi_currency i \<noteq> ''ETB'' then Inl (PaymentConflict ''payment_currency_unsupported'')
      else if dget (pd_intents db) (pi_payment_intent_id i) \<noteq> None
      then Inl (IntegrityError ''payment_intents.payment_intent_id'')
      else Inr (payment_event_append ''payment_intent'' (pi_payment_intent_id i) ''payment.intent_created''
             (pi_created_at i) (pi_payment_intent_id i) (py_fare_calculation_id (pi_traceability i))
             [(''payment_intent_id'', JUuid (pi_payment_intent_id i)), (''ride_id'', JUuid (pi_ride_id i)),
              (''amount_minor'', JInt (pi_amount_minor i)), (''currency'', JStr (pi_currency i))]
             (db\<lparr>pd_intents := dset (pi_payment_intent_id i) i (pd_intents db)\<rparr>), i))"

definition transition_intent ::
  "payment_db \<Rightarrow> uuid \<Rightarrow> payment_intent_state \<Rightarrow> py_datetime \<Rightarrow> uuid \<Rightarrow> uuid \<Rightarrow> string \<Rightarrow>
   (payment_db \<times> payment_intent) result" where
  "transition_intent db k target_state at correlation_id causation_id reason_code =
     (case get_intent db k of
        None \<Rightarrow> Inl (PaymentConflict ''payment_intent_not_found'')
      | Some current \<Rightarrow>
          bind_result (ensure_intent_transition_allowed (pi_state current) target_state at) (\<lambda>_.
          let changed = current\<lparr>pi_state := target_state,
                pi_cancelled_at := (if target_state = PI_CANCELLED then Some (instant_of at)
                                    else pi_cancelled_at current)\<rparr>
          in if (case pi_cancelled_at changed of None \<Rightarrow> False | Some c \<Rightarrow> c < pi_created_at changed)
             then Inl (IntegrityError ''payment_intent_cancelled_after_creation'')
             else Inr (payment_event_append ''payment_intent'' (pi_payment_intent_id changed)
                    (''payment.intent_'' @ intent_state_value target_state) (instant_of at)
                    correlation_id causation_id
                    [(''payment_intent_id'', JUuid (pi_payment_intent_id changed)),
                     (''ride_id'', JUuid (pi_ride_id changed)),
                     (''state'', JStr (intent_state_value target_state)), (''reason_code'', JStr reason_code)]
                    (db\<lparr>pd_intents := dset k changed (pd_intents db)\<rparr>), changed)))"

definition list_attempts_for_intent :: "payment_db \<Rightarrow> uuid \<Rightarrow> payment_attempt list" where
  "list_attempts_for_intent db k =
     sort_key (\<lambda>a. (pa_created_at a, pa_payment_attempt_id a))
       (filter (\<lambda>a. pa_payment_intent_id a = k) (dvalues (pd_attempts db)))"

definition create_attempt :: "payment_db \<Rightarrow> payment_attempt \<Rightarrow> (payment_db \<times> payment_attempt) result" where
  "create_attempt db a =
     (case get_intent db (pa_payment_intent_id a) of
        None \<Rightarrow> Inl (PaymentConflict ''payment_intent_not_found'')
      | Some intent \<Rightarrow>
          if pi_state intent \<noteq> PI_CREATED then Inl (PaymentConflict ''payment_intent_not_active'')
          else if pa_amount_minor a \<noteq> pi_amount_minor intent \<or> pa_currency a \<noteq> pi_currency intent
          then Inl (PaymentConflict ''payment_attempt_amount_conflict'')
          else if list_ex (\<lambda>x. \<not> attempt_is_terminal (pa_state x))
            (list_attempts_for_intent db (pa_payment_intent_id a))
          then Inl (PaymentConflict ''payment_attempt_already_active'')
          else
            (case find (\<lambda>x. pa_payment_intent_id x = pa_payment_intent_id a \<and>
                  pa_provider_code x = pa_provider_code a \<and>
                  pa_provider_reference x = pa_provider_reference a) (dvalues (pd_attempts db)) of
               Some existing \<Rightarrow> Inr (db, existing)
             | None \<Rightarrow>
                 if dget (pd_attempts db) (pa_payment_attempt_id a) \<noteq> None
                 then Inl (IntegrityError ''payment_attempts.payment_attempt_id'')
                 else Inr (payment_event_append ''payment_attempt'' (pa_payment_attempt_id a)
                        ''payment.attempt_created'' (pa_created_at a) (pa_correlation_id a) (pa_causation_id a)
                        [(''payment_attempt_id'', JUuid (pa_payment_attempt_id a)),
                         (''payment_intent_id'', JUuid (pa_payment_intent_id a)),
                         (''provider_code'', JStr (pa_provider_code a)),
                         (''state'', JStr (attempt_state_value (pa_state a)))]
                        (db\<lparr>pd_attempts := dset (pa_payment_attempt_id a) a (pd_attempts db)\<rparr>), a)))"

definition transition_attempt ::
  "payment_db \<Rightarrow> uuid \<Rightarrow> payment_attempt_state \<Rightarrow> py_datetime \<Rightarrow> string \<Rightarrow> uuid \<Rightarrow> uuid \<Rightarrow> string option \<Rightarrow>
   (payment_db \<times> payment_attempt) result" where
  "transition_attempt db k target_state at reason_code correlation_id causation_id provider_event_id =
     (case get_attempt db k of
        None \<Rightarrow> Inl (PaymentConflict ''payment_attempt_not_found'')
      | Some current \<Rightarrow>
          bind_result (ensure_attempt_transition_allowed (pa_state current) target_state at) (\<lambda>_.
          let changed = current\<lparr>pa_state := target_state, pa_reason_code := Some reason_code,
                pa_provider_event_id :=
                  (case provider_event_id of None \<Rightarrow> pa_provider_event_id current
                   | Some e \<Rightarrow> if e = [] then pa_provider_event_id current else Some e),
                pa_updated_at := instant_of at\<rparr>
          in if \<not> code_pattern 2 reason_code then Inl (IntegrityError ''payment_attempt_reason_code'')
             else if pa_updated_at changed < pa_created_at changed
             then Inl (IntegrityError ''payment_attempt_update_after_creation'')
             else Inr (payment_event_append ''payment_attempt'' (pa_payment_attempt_id changed)
                    (''payment.attempt_'' @ attempt_state_value target_state) (instant_of at)
                    correlation_id causation_id
                    [(''payment_attempt_id'', JUuid (pa_payment_attempt_id changed)),
                     (''payment_intent_id'', JUuid (pa_payment_intent_id changed)),
                     (''provider_code'', JStr (pa_provider_code changed)),
                     (''state'', JStr (attempt_state_value target_state)), (''reason_code'', JStr reason_code)]
                    (db\<lparr>pd_attempts := dset k changed (pd_attempts db)\<rparr>), changed)))"

definition ingest_callback_envelope ::
  "payment_db \<Rightarrow> payment_callback_envelope \<Rightarrow> (payment_db \<times> payment_callback_envelope) result" where
  "ingest_callback_envelope db e =
     (case find (\<lambda>x. pc_provider_code x = pc_provider_code e \<and> pc_provider_event_id x = pc_provider_event_id e)
         (dvalues (pd_callbacks db)) of
        None \<Rightarrow>
          if dget (pd_callbacks db) (pc_callback_id e) \<noteq> None
          then Inl (IntegrityError ''payment_callback_envelopes.callback_id'')
          else Inr (db\<lparr>pd_callbacks := dset (pc_callback_id e) e (pd_callbacks db)\<rparr>, e)
      | Some existing \<Rightarrow>
          if pc_payload_hash existing \<noteq> pc_payload_hash e
          then Inl (PaymentConflict ''payment_callback_replay_conflict'')
          else Inr (db, existing))"

definition mark_callback_processed :: "payment_db \<Rightarrow> uuid \<Rightarrow> uuid \<Rightarrow> instant \<Rightarrow> payment_db result" where
  "mark_callback_processed db callback_id attempt_id processed_at =
     (case dget (pd_callbacks db) callback_id of
        None \<Rightarrow> Inr db
      | Some e \<Rightarrow>
          if processed_at < pc_received_at e
          then Inl (IntegrityError ''payment_callback_processed_after_received'')
          else Inr (db\<lparr>pd_callbacks := dset callback_id
            (e\<lparr>pc_correlated_attempt_id := Some attempt_id, pc_processed_at := Some processed_at\<rparr>)
            (pd_callbacks db)\<rparr>))"


section \<open>The orchestration service\<close>

record payment_env =
  pv_has_permission :: "uuid \<Rightarrow> string \<Rightarrow> bool"
  pv_get_calculation :: "uuid \<Rightarrow> fare_calculation option"
  pv_get_journal :: "uuid \<Rightarrow> ledger_journal option"
  pv_digest :: "payload \<Rightarrow> string"


definition require_permission :: "payment_env \<Rightarrow> subject \<Rightarrow> string \<Rightarrow> unit result" where
  "require_permission env subject permission =
     ensure (pv_has_permission env (fst subject) permission) (PaymentConflict ''access_denied'')"

definition validate_idempotency_key :: "string \<Rightarrow> unit result" where
  "validate_idempotency_key key =
     ensure (length_between 16 128 key) (PaymentConflict ''idempotency_key_invalid'')"

definition validate_or_select_payment_method ::
  "payment_env \<Rightarrow> subject \<Rightarrow> payment_method_family \<Rightarrow> bool \<Rightarrow> payment_method_family result" where
  "validate_or_select_payment_method env subject requested_method allow_cash =
     bind_result (require_permission env subject ''payment.intent.create'') (\<lambda>_.
     if requested_method = PM_UNKNOWN then Inl (PaymentConflict ''payment_method_unknown'')
     else if requested_method = PM_CASH \<and> \<not> allow_cash
     then Inl (PaymentConflict ''payment_method_not_allowed'')
     else Inr requested_method)"

definition authorize_participants ::
  "payment_env \<Rightarrow> subject \<Rightarrow> uuid \<Rightarrow> uuid \<Rightarrow> uuid \<Rightarrow> bool \<Rightarrow> unit result" where
  "authorize_participants env subject payer passenger booker third_party_booking_authorized =
     (if fst subject \<noteq> payer then Inl (PaymentConflict ''payer_authority_required'')
      else if booker \<noteq> payer \<or> passenger \<noteq> payer
      then if \<not> third_party_booking_authorized
           then Inl (PaymentConflict ''third_party_booking_authority_required'')
           else ensure (pv_has_permission env (fst subject) ''scheduled.support.handoff'')
             (PaymentConflict ''third_party_booking_authority_required'')
      else Inr ())"

definition validate_authoritative_lineage ::
  "fare_calculation option \<Rightarrow> ledger_journal option \<Rightarrow> uuid \<Rightarrow> uuid \<Rightarrow> uuid \<Rightarrow>
   (fare_calculation \<times> ledger_journal) result" where
  "validate_authoritative_lineage calculation journal ride_id rider_identity_id fare_calculation_id =
     (case calculation of
        None \<Rightarrow> Inl (PaymentConflict ''fare_calculation_not_found'')
      | Some c \<Rightarrow>
          if fc_state c \<notin> {CS_FINAL_CALCULATED, CS_CORRECTED}
          then Inl (PaymentConflict ''fare_calculation_not_payable'')
          else if fc_ride_id c \<noteq> ride_id then Inl (PaymentConflict ''financial_lineage_conflict'')
          else if fc_rider_identity_id c \<noteq> rider_identity_id
          then Inl (PaymentConflict ''financial_lineage_conflict'')
          else if fc_calculation_id c \<noteq> fare_calculation_id
          then Inl (PaymentConflict ''financial_lineage_conflict'')
          else
            (let trace = fc_financial_traceability c in
             if ft_active_ride_id trace \<noteq> Some ride_id \<or>
               ft_fare_calculation_id trace \<noteq> Some (fc_calculation_id c) \<or>
               ft_dispatch_handoff_id trace = None \<or> ft_assignment_id trace = None
             then Inl (PaymentConflict ''financial_lineage_conflict'')
             else
               (case journal of
                  None \<Rightarrow> Inl (PaymentConflict ''ledger_journal_not_found'')
                | Some j \<Rightarrow>
                    if lj_business_event_id (jr_header j) \<noteq> fc_calculation_id c
                    then Inl (PaymentConflict ''ledger_lineage_conflict'')
                    else
                      (let jt = lj_traceability (jr_header j) in
                       if lt_active_ride_id jt \<noteq> ride_id \<or>
                         lt_fare_calculation_id jt \<noteq> fc_calculation_id c \<or>
                         lt_ride_request_id jt \<noteq> ft_ride_request_id trace \<or>
                         Some (lt_dispatch_handoff_id jt) \<noteq> ft_dispatch_handoff_id trace \<or>
                         Some (lt_assignment_id jt) \<noteq> ft_assignment_id trace \<or>
                         lt_fare_estimate_id jt \<noteq> ft_fare_estimate_id trace
                       then Inl (PaymentConflict ''ledger_lineage_conflict'')
                       else Inr (c, j)))))"

definition require_intent_status_read :: "payment_env \<Rightarrow> subject \<Rightarrow> payment_intent \<Rightarrow> unit result" where
  "require_intent_status_read env subject intent =
     ensure ((snd subject = ID_RIDER \<and> fst subject = pi_rider_identity_id intent \<and>
              pv_has_permission env (fst subject) ''payment.intent.read_own'') \<or>
             pv_has_permission env (fst subject) ''support.payment.read_status'' \<or>
             pv_has_permission env (fst subject) ''payment.trace.read'')
       (PaymentConflict ''payment_status_not_found'')"

record intent_request =
  iq_ride_id :: uuid
  iq_fare_calculation_id :: uuid
  iq_ledger_journal_id :: uuid
  iq_rider_identity_id :: uuid
  iq_passenger_identity_id :: uuid
  iq_booker_identity_id :: uuid
  iq_payer_identity_id :: uuid
  iq_method :: payment_method_family
  iq_idempotency_key :: string
  iq_at :: py_datetime
  iq_expires_at :: "instant option"
  iq_metadata_safe :: "(string, string) dict"
  iq_third_party_booking_authorized :: bool

fun method_value :: "payment_method_family \<Rightarrow> string" where
  "method_value PM_CASH = ''cash''"
| "method_value PM_MOBILE_MONEY = ''mobile_money''"
| "method_value PM_CARD = ''card''"
| "method_value PM_BANK_TRANSFER = ''bank_transfer''"
| "method_value PM_UNKNOWN = ''unknown''"

definition intent_payload :: "intent_request \<Rightarrow> payload" where
  "intent_payload q =
     [(''ride_id'', JUuid (iq_ride_id q)), (''fare_calculation_id'', JUuid (iq_fare_calculation_id q)),
      (''ledger_journal_id'', JUuid (iq_ledger_journal_id q)),
      (''rider_identity_id'', JUuid (iq_rider_identity_id q)),
      (''passenger_identity_id'', JUuid (iq_passenger_identity_id q)),
      (''booker_identity_id'', JUuid (iq_booker_identity_id q)),
      (''payer_identity_id'', JUuid (iq_payer_identity_id q)),
      (''method'', JStr (method_value (iq_method q))),
      (''expires_at'', (case iq_expires_at q of None \<Rightarrow> JNull | Some e \<Rightarrow> JTime e))]"

definition create_payment_intent ::
  "payment_env \<Rightarrow> payment_db \<Rightarrow> subject \<Rightarrow> intent_request \<Rightarrow> uuid \<Rightarrow> (payment_db \<times> payment_intent) result" where
  "create_payment_intent env db subject q candidate_id =
     bind_result (require_permission env subject ''payment.intent.create'') (\<lambda>_.
     bind_result (validate_idempotency_key (iq_idempotency_key q)) (\<lambda>_.
     bind_result (authorize_participants env subject (iq_payer_identity_id q) (iq_passenger_identity_id q)
         (iq_booker_identity_id q) (iq_third_party_booking_authorized q)) (\<lambda>_.
     bind_result (validate_or_select_payment_method env subject (iq_method q) True) (\<lambda>selected.
     bind_result (payment_reserve_idempotency (pv_digest env) db (fst subject) ''payment.intent.create''
         (iq_idempotency_key q) (intent_payload q) candidate_id (instant_of (iq_at q))) (\<lambda>(db1, canonical).
     case get_intent db1 canonical of
       Some existing \<Rightarrow> Inr (db1, existing)
     | None \<Rightarrow>
         bind_result (validate_authoritative_lineage (pv_get_calculation env (iq_fare_calculation_id q))
             (pv_get_journal env (iq_ledger_journal_id q)) (iq_ride_id q) (iq_rider_identity_id q)
             (iq_fare_calculation_id q)) (\<lambda>(calculation, _).
         let amount = fb_rider_total_minor (fc_breakdown calculation);
             trace = fc_financial_traceability calculation
         in if amount < 0 then Inl (PaymentConflict ''payment_amount_invalid'')
            else
              (case (ft_dispatch_handoff_id trace, ft_assignment_id trace, ft_active_ride_id trace,
                     ft_fare_calculation_id trace) of
                 (Some handoff, Some assignment, Some active_ride, Some chain) \<Rightarrow>
                   if \<not> is_aware (iq_at q)
                   then Inl (ValidationError ''Payment timestamps must be timezone-aware'')
                   else
                     bind_result (validate_identities
                       \<lparr>pi_payment_intent_id = canonical, pi_ride_id = iq_ride_id q,
                        pi_rider_identity_id = iq_rider_identity_id q,
                        pi_passenger_identity_id = iq_passenger_identity_id q,
                        pi_booker_identity_id = iq_booker_identity_id q,
                        pi_payer_identity_id = iq_payer_identity_id q,
                        pi_amount_minor = amount, pi_currency = fb_currency (fc_breakdown calculation),
                        pi_payment_method_family = selected, pi_state = PI_CREATED,
                        pi_traceability = \<lparr>py_ride_request_id = ft_ride_request_id trace,
                          py_dispatch_handoff_id = handoff, py_assignment_id = assignment,
                          py_active_ride_id = active_ride, py_fare_estimate_id = ft_fare_estimate_id trace,
                          py_fare_calculation_id = chain, py_ledger_journal_id = Some (iq_ledger_journal_id q)\<rparr>,
                        pi_metadata_safe = iq_metadata_safe q, pi_created_at = instant_of (iq_at q),
                        pi_expires_at = iq_expires_at q, pi_cancelled_at = None\<rparr>)
                       (\<lambda>intent. create_intent db1 intent)
               | _ \<Rightarrow> Inl (PaymentConflict ''financial_lineage_conflict''))))))))"

definition create_payment_attempt ::
  "payment_env \<Rightarrow> payment_db \<Rightarrow> subject \<Rightarrow> uuid \<Rightarrow> string \<Rightarrow> string \<Rightarrow> string \<Rightarrow> uuid \<Rightarrow> uuid \<Rightarrow> py_datetime \<Rightarrow> uuid \<Rightarrow>
   (payment_db \<times> payment_attempt) result" where
  "create_payment_attempt env db subject intent_id provider_code provider_reference key corr caus at candidate_id =
     bind_result (require_permission env subject ''payment.attempt.execute'') (\<lambda>_.
     bind_result (validate_idempotency_key key) (\<lambda>_.
     bind_result (payment_reserve_idempotency (pv_digest env) db (fst subject) ''payment.attempt.create'' key
         [(''payment_intent_id'', JUuid intent_id), (''provider_code'', JStr provider_code),
          (''provider_reference'', JStr provider_reference)] candidate_id (instant_of at)) (\<lambda>(db1, canonical).
     case get_attempt db1 canonical of
       Some existing \<Rightarrow> Inr (db1, existing)
     | None \<Rightarrow>
         (case get_intent db1 intent_id of
            None \<Rightarrow> Inl (PaymentConflict ''payment_intent_not_found'')
          | Some intent \<Rightarrow>
              bind_result (require_intent_status_read env subject intent) (\<lambda>_.
              if pi_expires_at intent \<noteq> None \<and> \<not> is_aware at then Inl TypeError
              else if (case pi_expires_at intent of None \<Rightarrow> False | Some e \<Rightarrow> instant_of at \<ge> e)
              then Inl (PaymentConflict ''payment_intent_expired'')
              else if pi_state intent \<noteq> PI_CREATED then Inl (PaymentConflict ''payment_intent_not_active'')
              else if \<not> is_aware at then Inl (ValidationError ''Payment timestamps must be timezone-aware'')
              else
                bind_result (valid_attempt
                  \<lparr>pa_payment_attempt_id = canonical, pa_payment_intent_id = pi_payment_intent_id intent,
                   pa_provider_code = provider_code, pa_provider_reference = provider_reference,
                   pa_provider_event_id = None, pa_state = PA_CREATED,
                   pa_amount_minor = pi_amount_minor intent, pa_currency = pi_currency intent,
                   pa_reason_code = None, pa_correlation_id = corr, pa_causation_id = caus,
                   pa_created_at = instant_of at, pa_updated_at = instant_of at\<rparr>)
                  (\<lambda>attempt. create_attempt db1 attempt))))))"

definition submit_provider_neutral_attempt ::
  "payment_env \<Rightarrow> payment_db \<Rightarrow> subject \<Rightarrow> uuid \<Rightarrow> string \<Rightarrow> uuid \<Rightarrow> py_datetime \<Rightarrow>
   (payment_db \<times> payment_attempt) result" where
  "submit_provider_neutral_attempt env db subject attempt_id key corr at =
     bind_result (require_permission env subject ''payment.attempt.execute'') (\<lambda>_.
     bind_result (validate_idempotency_key key) (\<lambda>_.
     bind_result (payment_reserve_idempotency (pv_digest env) db (fst subject) ''payment.attempt.submit'' key
         [(''payment_attempt_id'', JUuid attempt_id)] attempt_id (instant_of at)) (\<lambda>(db1, _).
     case get_attempt db1 attempt_id of
       None \<Rightarrow> Inl (PaymentConflict ''payment_attempt_not_found'')
     | Some attempt \<Rightarrow>
         (case get_intent db1 (pa_payment_intent_id attempt) of
            None \<Rightarrow> Inl (PaymentConflict ''payment_intent_not_found'')
          | Some intent \<Rightarrow>
              bind_result (require_intent_status_read env subject intent) (\<lambda>_.
              let (target, reason) =
                (if pi_payment_method_family intent = PM_CASH
                 then (PA_OUTCOME_UNKNOWN, ''payment.cash.requires_reconciliation'')
                 else (PA_AUTHORIZATION_PENDING, ''payment.authorization.submitted''))
              in transition_attempt db1 (pa_payment_attempt_id attempt) target at reason corr
                   (pa_payment_attempt_id attempt) None)))))"

definition callback_target_state :: "payment_method_family \<Rightarrow> string \<Rightarrow> payment_attempt_state result" where
  "callback_target_state method outcome =
     (case map_of [(''authorized'', PA_AUTHORIZED), (''capture_pending'', PA_CAPTURE_PENDING),
          (''captured'', PA_CAPTURED), (''failed'', PA_FAILED), (''cancelled'', PA_CANCELLED),
          (''expired'', PA_EXPIRED), (''unknown'', PA_OUTCOME_UNKNOWN)] outcome of
        None \<Rightarrow> Inl (PaymentConflict ''payment_callback_outcome_invalid'')
      | Some target \<Rightarrow>
          if method = PM_CASH \<and> target \<in> {PA_AUTHORIZED, PA_CAPTURED} then Inr PA_OUTCOME_UNKNOWN
          else Inr target)"

fun callback_reason :: "payment_attempt_state \<Rightarrow> string" where
  "callback_reason PA_AUTHORIZED = ''payment.callback.authorized''"
| "callback_reason PA_CAPTURED = ''payment.callback.captured''"
| "callback_reason PA_FAILED = ''payment.callback.failed''"
| "callback_reason PA_CANCELLED = ''payment.callback.cancelled''"
| "callback_reason PA_EXPIRED = ''payment.callback.expired''"
| "callback_reason PA_OUTCOME_UNKNOWN = ''payment.callback.reconciliation_required''"
| "callback_reason PA_AUTHORIZATION_PENDING = ''payment.callback.authorization_pending''"
| "callback_reason PA_CAPTURE_PENDING = ''payment.callback.capture_pending''"
| "callback_reason PA_CREATED = ''payment.callback.created''"

record callback_request =
  cq_payment_attempt_id :: uuid
  cq_provider_code :: string
  cq_signature_fingerprint :: string
  cq_outcome :: string
  cq_provider_event_id :: string
  cq_payload :: payload
  cq_idempotency_key :: string
  cq_correlation_id :: uuid
  cq_at :: py_datetime

definition ingest_authenticated_callback_envelope ::
  "payment_env \<Rightarrow> int \<Rightarrow> payment_db \<Rightarrow> subject \<Rightarrow> callback_request \<Rightarrow> uuid \<Rightarrow> (payment_db \<times> payment_attempt) result" where
  "ingest_authenticated_callback_envelope env replay_window_seconds db subject q fresh_callback_id =
     bind_result (require_permission env subject ''payment.callback.ingest'') (\<lambda>_.
     bind_result (ensure (snd subject = ID_SERVICE) (PaymentConflict ''access_denied'')) (\<lambda>_.
     bind_result (validate_idempotency_key (cq_idempotency_key q)) (\<lambda>_.
     bind_result (payment_reserve_idempotency (pv_digest env) db (fst subject) ''payment.callback.ingest''
         (cq_idempotency_key q)
         [(''payment_attempt_id'', JUuid (cq_payment_attempt_id q)), (''provider_code'', JStr (cq_provider_code q)),
          (''provider_event_id'', JStr (cq_provider_event_id q)), (''outcome'', JStr (cq_outcome q))]
         (cq_payment_attempt_id q) (instant_of (cq_at q))) (\<lambda>(db1, _).
     case get_attempt db1 (cq_payment_attempt_id q) of
       None \<Rightarrow> Inl (PaymentConflict ''payment_attempt_not_found'')
     | Some attempt \<Rightarrow>
         if pa_provider_code attempt \<noteq> cq_provider_code q
         then Inl (PaymentConflict ''payment_callback_provider_mismatch'')
         else if \<not> is_aware (cq_at q) then Inl (ValidationError ''Payment timestamps must be timezone-aware'')
         else
           bind_result (valid_envelope
             \<lparr>pc_callback_id = fresh_callback_id, pc_provider_code = cq_provider_code q,
              pc_provider_event_id = cq_provider_event_id q,
              pc_provider_signature_fingerprint = cq_signature_fingerprint q,
              pc_payload_hash = pv_digest env (cq_payload q), pc_received_at = instant_of (cq_at q),
              pc_replay_window_ends_at = instant_of (cq_at q) + timedelta_seconds replay_window_seconds,
              pc_correlated_attempt_id = Some (pa_payment_attempt_id attempt), pc_processed_at = None\<rparr>) (\<lambda>e0.
           bind_result (ingest_callback_envelope db1 e0) (\<lambda>(db2, envelope).
           case get_intent db2 (pa_payment_intent_id attempt) of
             None \<Rightarrow> Inl (PaymentConflict ''payment_intent_not_found'')
           | Some intent \<Rightarrow>
               bind_result (callback_target_state (pi_payment_method_family intent) (cq_outcome q)) (\<lambda>target.
               bind_result (transition_attempt db2 (pa_payment_attempt_id attempt) target (cq_at q)
                   (callback_reason target) (cq_correlation_id q) (pa_payment_attempt_id attempt)
                   (Some (cq_provider_event_id q))) (\<lambda>(db3, changed).
               bind_result (mark_callback_processed db3 (pc_callback_id envelope)
                   (pa_payment_attempt_id attempt) (instant_of (cq_at q))) (\<lambda>db4. Inr (db4, changed))))))))))"

definition expire_intent ::
  "payment_env \<Rightarrow> payment_db \<Rightarrow> subject \<Rightarrow> uuid \<Rightarrow> string \<Rightarrow> uuid \<Rightarrow> py_datetime \<Rightarrow> (payment_db \<times> payment_intent) result" where
  "expire_intent env db subject intent_id reason_code corr at =
     bind_result (require_permission env subject ''payment.attempt.execute'') (\<lambda>_.
     case get_intent db intent_id of
       None \<Rightarrow> Inl (PaymentConflict ''payment_intent_not_found'')
     | Some intent \<Rightarrow>
         bind_result (require_intent_status_read env subject intent) (\<lambda>_.
         transition_intent db intent_id PI_EXPIRED at corr intent_id reason_code))"

definition cancel_intent ::
  "payment_env \<Rightarrow> payment_db \<Rightarrow> subject \<Rightarrow> uuid \<Rightarrow> string \<Rightarrow> uuid \<Rightarrow> py_datetime \<Rightarrow> (payment_db \<times> payment_intent) result" where
  "cancel_intent env db subject intent_id reason_code corr at =
     bind_result (require_permission env subject ''payment.attempt.execute'') (\<lambda>_.
     case get_intent db intent_id of
       None \<Rightarrow> Inl (PaymentConflict ''payment_intent_not_found'')
     | Some intent \<Rightarrow>
         bind_result (require_intent_status_read env subject intent) (\<lambda>_.
         if list_ex (\<lambda>a. pa_state a = PA_CAPTURED) (list_attempts_for_intent db (pi_payment_intent_id intent))
         then Inl (PaymentConflict ''payment_intent_cancel_forbidden'')
         else transition_intent db intent_id PI_CANCELLED at corr intent_id reason_code))"

definition mark_reconciliation_required ::
  "payment_env \<Rightarrow> payment_db \<Rightarrow> subject \<Rightarrow> uuid \<Rightarrow> string \<Rightarrow> uuid \<Rightarrow> py_datetime \<Rightarrow> (payment_db \<times> payment_attempt) result" where
  "mark_reconciliation_required env db subject attempt_id reason_code corr at =
     bind_result (require_permission env subject ''payment.reconciliation.run'') (\<lambda>_.
     transition_attempt db attempt_id PA_OUTCOME_UNKNOWN at reason_code corr attempt_id None)"

definition payment_status ::
  "payment_env \<Rightarrow> payment_db \<Rightarrow> subject \<Rightarrow> uuid \<Rightarrow> (payment_intent \<times> payment_attempt list) result" where
  "payment_status env db subject intent_id =
     (case get_intent db intent_id of
        None \<Rightarrow> Inl (PaymentConflict ''payment_status_not_found'')
      | Some intent \<Rightarrow>
          bind_result (require_intent_status_read env subject intent) (\<lambda>_.
          Inr (intent, list_attempts_for_intent db (pi_payment_intent_id intent))))"

definition list_intents_for_ride :: "payment_db \<Rightarrow> uuid \<Rightarrow> payment_intent list" where
  "list_intents_for_ride db ride_id =
     sort_key (\<lambda>i. (pi_created_at i, pi_payment_intent_id i))
       (filter (\<lambda>i. pi_ride_id i = ride_id) (dvalues (pd_intents db)))"

fun require_all_status_read :: "payment_env \<Rightarrow> subject \<Rightarrow> payment_intent list \<Rightarrow> unit result" where
  "require_all_status_read env subject [] = Inr ()"
| "require_all_status_read env subject (i # is) =
     bind_result (require_intent_status_read env subject i) (\<lambda>_. require_all_status_read env subject is)"

definition payment_history_by_ride ::
  "payment_env \<Rightarrow> payment_db \<Rightarrow> subject \<Rightarrow> uuid \<Rightarrow> (payment_intent \<times> payment_attempt list) list result" where
  "payment_history_by_ride env db subject ride_id =
     (let intents = list_intents_for_ride db ride_id in
      if intents = [] then Inl (PaymentConflict ''payment_history_not_found'')
      else bind_result (require_all_status_read env subject intents) (\<lambda>_.
        Inr (map (\<lambda>i. (i, list_attempts_for_intent db (pi_payment_intent_id i))) intents)))"

end
