(* ===== verification/Payment_Inv.thy ===== *)
theory Payment_Inv
  imports Payment
begin

text \<open>
  What every payment database keeps: attempts agree with their intent, at most one attempt of an intent is
  open, a provider reference is used once per intent, and cash is never authorized or captured.
\<close>

section \<open>The invariant\<close>

definition cash_safe :: "payment_method_family \<Rightarrow> payment_attempt_state \<Rightarrow> bool" where
  "cash_safe method st \<longleftrightarrow> (method = PM_CASH \<longrightarrow> st \<notin> {PA_AUTHORIZATION_PENDING, PA_AUTHORIZED, PA_CAPTURED})"

definition attempt_ok :: "payment_db \<Rightarrow> payment_attempt \<Rightarrow> bool" where
  "attempt_ok db a \<longleftrightarrow>
     (\<exists>i. dget (pd_intents db) (pa_payment_intent_id a) = Some i \<and>
        pa_amount_minor a = pi_amount_minor i \<and> pa_currency a = pi_currency i \<and>
        cash_safe (pi_payment_method_family i) (pa_state a)) \<and>
     leads_to ALLOWED_ATTEMPT_TRANSITIONS PA_CREATED (pa_state a)"

definition intent_ok :: "payment_intent \<Rightarrow> bool" where
  "intent_ok i \<longleftrightarrow> pi_currency i = ''ETB'' \<and> minor_ok (pi_amount_minor i) \<and>
     pi_payer_identity_id i = pi_rider_identity_id i"

definition payment_inv :: "payment_db \<Rightarrow> bool" where
  "payment_inv db \<longleftrightarrow>
     dict_ok (pd_attempts db) \<and>
     (\<forall>k i. dget (pd_intents db) k = Some i \<longrightarrow> pi_payment_intent_id i = k \<and> intent_ok i) \<and>
     (\<forall>k a. dget (pd_attempts db) k = Some a \<longrightarrow> pa_payment_attempt_id a = k \<and> attempt_ok db a) \<and>
     (\<forall>k l a b. dget (pd_attempts db) k = Some a \<longrightarrow> dget (pd_attempts db) l = Some b \<longrightarrow>
        pa_payment_intent_id a = pa_payment_intent_id b \<longrightarrow>
        (\<not> attempt_is_terminal (pa_state a) \<and> \<not> attempt_is_terminal (pa_state b) \<or>
         pa_provider_code a = pa_provider_code b \<and> pa_provider_reference a = pa_provider_reference b) \<longrightarrow> k = l)"

lemma payment_inv_cong:
  assumes "payment_inv db" and "pd_intents db' = pd_intents db" and "pd_attempts db' = pd_attempts db"
  shows "payment_inv db'"
  using assms(1) unfolding payment_inv_def attempt_ok_def assms(2,3) .

lemma payment_event_append_simps [simp]:
  "pd_intents (payment_event_append ty k et at c d pl db) = pd_intents db"
  "pd_attempts (payment_event_append ty k et at c d pl db) = pd_attempts db"
  "pd_callbacks (payment_event_append ty k et at c d pl db) = pd_callbacks db"
  "pd_idempotency (payment_event_append ty k et at c d pl db) = pd_idempotency db"
  by (simp_all add: payment_event_append_def)

lemma payment_invD:
  assumes "payment_inv db"
  shows "dget (pd_intents db) k = Some i \<Longrightarrow> pi_payment_intent_id i = k"
    and "dget (pd_intents db) k = Some i \<Longrightarrow> intent_ok i"
    and "dget (pd_attempts db) k = Some a \<Longrightarrow> pa_payment_attempt_id a = k"
    and "dget (pd_attempts db) k = Some a \<Longrightarrow> attempt_ok db a"
    and "dict_ok (pd_attempts db)"
  using assms unfolding payment_inv_def by blast+

lemma payment_inv_unique:
  assumes "payment_inv db" and "dget (pd_attempts db) k = Some a" and "dget (pd_attempts db) l = Some b"
    and "pa_payment_intent_id a = pa_payment_intent_id b"
  shows "\<not> attempt_is_terminal (pa_state a) \<Longrightarrow> \<not> attempt_is_terminal (pa_state b) \<Longrightarrow> k = l"
    and "pa_provider_code a = pa_provider_code b \<Longrightarrow> pa_provider_reference a = pa_provider_reference b \<Longrightarrow> k = l"
  using assms unfolding payment_inv_def by blast+

lemma attempt_ok_intents:
  assumes "attempt_ok db a"
    and "\<And>k i. dget (pd_intents db) k = Some i \<Longrightarrow> \<exists>i'. dget (pd_intents db') k = Some i' \<and>
      pi_amount_minor i' = pi_amount_minor i \<and> pi_currency i' = pi_currency i \<and>
      pi_payment_method_family i' = pi_payment_method_family i"
  shows "attempt_ok db' a"
proof -
  obtain i where i: "dget (pd_intents db) (pa_payment_intent_id a) = Some i" "pa_amount_minor a = pi_amount_minor i"
      "pa_currency a = pi_currency i" "cash_safe (pi_payment_method_family i) (pa_state a)"
    and lead: "leads_to ALLOWED_ATTEMPT_TRANSITIONS PA_CREATED (pa_state a)"
    using assms(1) unfolding attempt_ok_def by blast
  show ?thesis using assms(2) [OF i(1)] i(2-) lead unfolding attempt_ok_def by auto
qed

lemma create_intent_inv:
  assumes "payment_inv db" and "create_intent db i = Inr (db', j)" and "intent_ok i"
  shows "payment_inv db'"
proof -
  have new: "dget (pd_intents db) (pi_payment_intent_id i) = None"
    and db': "pd_intents db' = dset (pi_payment_intent_id i) i (pd_intents db)" "pd_attempts db' = pd_attempts db"
    using assms(2) by (auto simp: create_intent_def split: if_splits)
  have keep: "dget (pd_intents db') k = Some x" if "dget (pd_intents db) k = Some x" for k x
    using that new by (auto simp: db')
  have att: "attempt_ok db' a" if "dget (pd_attempts db) k = Some a" for k a
    using payment_invD(4) [OF assms(1) that] by (rule attempt_ok_intents) (use keep in blast)
  have int: "pi_payment_intent_id x = k \<and> intent_ok x" if "dget (pd_intents db') k = Some x" for k x
    using that payment_invD(1,2) [OF assms(1)] assms(3) by (cases "k = pi_payment_intent_id i") (auto simp: db')
  show ?thesis
    unfolding payment_inv_def db'(2)
    using payment_invD(3,5) [OF assms(1)] payment_inv_unique [OF assms(1)] att int by blast
qed

lemma transition_intent_inv:
  assumes "payment_inv db" and "transition_intent db k t at c d rc = Inr (db', j)"
  shows "payment_inv db'"
proof -
  obtain i where i: "dget (pd_intents db) k = Some i"
    and db': "pd_intents db' = dset k j (pd_intents db)" "pd_attempts db' = pd_attempts db"
    and j: "pi_payment_intent_id j = pi_payment_intent_id i" "pi_amount_minor j = pi_amount_minor i"
      "pi_currency j = pi_currency i" "pi_payment_method_family j = pi_payment_method_family i"
      "pi_payer_identity_id j = pi_payer_identity_id i" "pi_rider_identity_id j = pi_rider_identity_id i"
    using assms(2)
    by (auto simp: transition_intent_def get_intent_def Let_def bind_result_eq_Inr split: option.splits if_splits)
  have keep: "\<exists>x'. dget (pd_intents db') l = Some x' \<and> pi_amount_minor x' = pi_amount_minor x \<and>
      pi_currency x' = pi_currency x \<and> pi_payment_method_family x' = pi_payment_method_family x"
    if "dget (pd_intents db) l = Some x" for l x
    using that i j by (cases "l = k") (auto simp: db')
  have att: "attempt_ok db' a" if "dget (pd_attempts db) l = Some a" for l a
    using payment_invD(4) [OF assms(1) that] by (rule attempt_ok_intents) (rule keep)
  have int: "pi_payment_intent_id x = l \<and> intent_ok x" if "dget (pd_intents db') l = Some x" for l x
    using that payment_invD(1,2) [OF assms(1)] i j by (cases "l = k") (auto simp: db' intent_ok_def)
  show ?thesis
    unfolding payment_inv_def db'(2)
    using payment_invD(3,5) [OF assms(1)] payment_inv_unique [OF assms(1)] att int by blast
qed

lemma create_attempt_inv:
  assumes "payment_inv db" and "create_attempt db a = Inr (db', b)" and "pa_state a = PA_CREATED"
  shows "payment_inv db'"
proof (cases "db' = db")
  case True
  then show ?thesis using assms(1) by simp
next
  case False
  obtain i where i: "dget (pd_intents db) (pa_payment_intent_id a) = Some i"
    and amount: "pa_amount_minor a = pi_amount_minor i" "pa_currency a = pi_currency i"
    and idle: "\<not> list_ex (\<lambda>x. \<not> attempt_is_terminal (pa_state x)) (list_attempts_for_intent db (pa_payment_intent_id a))"
    and unused: "find (\<lambda>x. pa_payment_intent_id x = pa_payment_intent_id a \<and>
        pa_provider_code x = pa_provider_code a \<and> pa_provider_reference x = pa_provider_reference a)
        (dvalues (pd_attempts db)) = None"
    and new: "dget (pd_attempts db) (pa_payment_attempt_id a) = None"
    and db': "pd_intents db' = pd_intents db" "pd_attempts db' = dset (pa_payment_attempt_id a) a (pd_attempts db)"
    using assms(2) False
    by (auto simp: create_attempt_def get_intent_def split: option.splits if_splits)
  have clash: "attempt_is_terminal (pa_state x) \<and>
      \<not> (pa_provider_code x = pa_provider_code a \<and> pa_provider_reference x = pa_provider_reference a)"
    if "dget (pd_attempts db) k = Some x" "pa_payment_intent_id x = pa_payment_intent_id a" for k x
    using dget_in_dvalues [OF that(1)] that(2) idle unused
    by (auto simp: list_ex_iff list_attempts_for_intent_def find_None_iff)
  have same: "attempt_ok db' x \<longleftrightarrow> attempt_ok db x" for x by (simp add: attempt_ok_def db')
  have ok: "attempt_ok db a"
    using i amount assms(3) by (auto simp: attempt_ok_def cash_safe_def intro: leads_to.here)
  show ?thesis
    unfolding payment_inv_def same db'
  proof (intro conjI allI impI)
    show "dict_ok (dset (pa_payment_attempt_id a) a (pd_attempts db))"
      using payment_invD(5) [OF assms(1)] by (rule dict_ok_dset)
  next
    fix k x assume "dget (pd_intents db) k = Some x"
    then show "pi_payment_intent_id x = k" "intent_ok x" using payment_invD(1,2) [OF assms(1)] by blast+
  next
    fix k x assume "dget (dset (pa_payment_attempt_id a) a (pd_attempts db)) k = Some x"
    then show "pa_payment_attempt_id x = k" "attempt_ok db x"
      using payment_invD(3,4) [OF assms(1)] ok by (cases "k = pa_payment_attempt_id a"; fastforce)+
  next
    fix k l x y
    assume k: "dget (dset (pa_payment_attempt_id a) a (pd_attempts db)) k = Some x"
      and l: "dget (dset (pa_payment_attempt_id a) a (pd_attempts db)) l = Some y"
      and xy: "pa_payment_intent_id x = pa_payment_intent_id y"
      and c: "\<not> attempt_is_terminal (pa_state x) \<and> \<not> attempt_is_terminal (pa_state y) \<or>
         pa_provider_code x = pa_provider_code y \<and> pa_provider_reference x = pa_provider_reference y"
    show "k = l"
      using k l xy c clash [of k x] clash [of l y] payment_inv_unique [OF assms(1), of k x l y]
      by (cases "k = pa_payment_attempt_id a"; cases "l = pa_payment_attempt_id a") (simp_all, argo+)
  qed
qed

lemma transition_attempt_Inr:
  assumes "transition_attempt db k t at rc c d ev = Inr (db', b)"
  obtains a where "dget (pd_attempts db) k = Some a" and "t = pa_state a \<or> allows ALLOWED_ATTEMPT_TRANSITIONS (pa_state a) t"
    and "pd_intents db' = pd_intents db" and "pd_attempts db' = dset k b (pd_attempts db)"
    and "pa_payment_attempt_id b = pa_payment_attempt_id a" and "pa_payment_intent_id b = pa_payment_intent_id a"
    and "pa_amount_minor b = pa_amount_minor a" and "pa_currency b = pa_currency a" and "pa_state b = t"
    and "pa_provider_code b = pa_provider_code a" and "pa_provider_reference b = pa_provider_reference a"
    and "pd_idempotency db' = pd_idempotency db"
  using assms
  by (auto simp: transition_attempt_def get_attempt_def Let_def bind_result_eq_Inr payment_attempt.guard_ok
      split: option.splits if_splits)

lemma transition_attempt_inv:
  assumes "payment_inv db" and "transition_attempt db k t at rc c d ev = Inr (db', b)"
    and "\<And>a i. dget (pd_attempts db) k = Some a \<Longrightarrow> dget (pd_intents db) (pa_payment_intent_id a) = Some i \<Longrightarrow>
      cash_safe (pi_payment_method_family i) t"
  shows "payment_inv db'"
  using assms(2)
proof (rule transition_attempt_Inr)
  fix a
  assume a: "dget (pd_attempts db) k = Some a"
    and step: "t = pa_state a \<or> allows ALLOWED_ATTEMPT_TRANSITIONS (pa_state a) t"
    and db': "pd_intents db' = pd_intents db" "pd_attempts db' = dset k b (pd_attempts db)"
    and b: "pa_payment_attempt_id b = pa_payment_attempt_id a" "pa_payment_intent_id b = pa_payment_intent_id a"
      "pa_amount_minor b = pa_amount_minor a" "pa_currency b = pa_currency a" "pa_state b = t"
      "pa_provider_code b = pa_provider_code a" "pa_provider_reference b = pa_provider_reference a"
  have same: "attempt_ok db' x \<longleftrightarrow> attempt_ok db x" for x by (simp add: attempt_ok_def db')
  have aok: "attempt_ok db a" using payment_invD(4) [OF assms(1) a] .
  then have lead: "leads_to ALLOWED_ATTEMPT_TRANSITIONS PA_CREATED t"
    using step leads_to_trans leads_to.move [OF _ leads_to.here] unfolding attempt_ok_def by metis
  obtain i where i: "dget (pd_intents db) (pa_payment_intent_id a) = Some i"
      "pa_amount_minor a = pi_amount_minor i" "pa_currency a = pi_currency i"
    using aok by (auto simp: attempt_ok_def)
  have bok: "attempt_ok db b" using lead i b assms(3) [OF a i(1)] by (simp add: attempt_ok_def)
  have stays: "attempt_is_terminal (pa_state a) \<Longrightarrow> attempt_is_terminal t"
    using step payment_attempt.terminal_no_step by blast
  have view: "\<exists>y. dget (pd_attempts db) l = Some y \<and> pa_payment_intent_id y = pa_payment_intent_id x \<and>
      pa_provider_code y = pa_provider_code x \<and> pa_provider_reference y = pa_provider_reference x \<and>
      (\<not> attempt_is_terminal (pa_state x) \<longrightarrow> \<not> attempt_is_terminal (pa_state y))"
    if "dget (dset k b (pd_attempts db)) l = Some x" for l x
    using that a b stays by (cases "l = k") auto
  show "payment_inv db'"
    unfolding payment_inv_def same db'
  proof (intro conjI allI impI)
    show "dict_ok (dset k b (pd_attempts db))" using payment_invD(5) [OF assms(1)] by (rule dict_ok_dset)
  next
    fix l x assume "dget (pd_intents db) l = Some x"
    then show "pi_payment_intent_id x = l" "intent_ok x" using payment_invD(1,2) [OF assms(1)] by blast+
  next
    fix l x assume "dget (dset k b (pd_attempts db)) l = Some x"
    then show "pa_payment_attempt_id x = l" "attempt_ok db x"
      using payment_invD(3,4) [OF assms(1)] a b bok by (cases "l = k"; fastforce)+
  next
    fix l m x y
    assume l: "dget (dset k b (pd_attempts db)) l = Some x" and m: "dget (dset k b (pd_attempts db)) m = Some y"
      and xy: "pa_payment_intent_id x = pa_payment_intent_id y"
      and c: "\<not> attempt_is_terminal (pa_state x) \<and> \<not> attempt_is_terminal (pa_state y) \<or>
         pa_provider_code x = pa_provider_code y \<and> pa_provider_reference x = pa_provider_reference y"
    obtain x' where x': "dget (pd_attempts db) l = Some x'" "pa_payment_intent_id x' = pa_payment_intent_id x"
      "pa_provider_code x' = pa_provider_code x" "pa_provider_reference x' = pa_provider_reference x"
      "\<not> attempt_is_terminal (pa_state x) \<longrightarrow> \<not> attempt_is_terminal (pa_state x')" using view [OF l] by blast
    obtain y' where y': "dget (pd_attempts db) m = Some y'" "pa_payment_intent_id y' = pa_payment_intent_id y"
      "pa_provider_code y' = pa_provider_code y" "pa_provider_reference y' = pa_provider_reference y"
      "\<not> attempt_is_terminal (pa_state y) \<longrightarrow> \<not> attempt_is_terminal (pa_state y')" using view [OF m] by blast
    show "l = m" using payment_inv_unique [OF assms(1) x'(1) y'(1)] xy c x' y' by auto
  qed
qed

end
