(* ===== verification/Payment_Reach.thy ===== *)
theory Payment_Reach
  imports Payment_Inv
begin

text \<open>
  The payment service as a step relation, the databases it can reach, and what holds in all of them.
\<close>

section \<open>Reachable databases\<close>

definition empty_payments :: payment_db where
  "empty_payments = \<lparr>pd_intents = [], pd_attempts = [], pd_callbacks = [], pd_idempotency = [],
     pd_events = [], pd_outbox = []\<rparr>"

inductive payment_step :: "payment_db \<Rightarrow> payment_db \<Rightarrow> bool" where
  intent_step: "create_payment_intent env db s q cid = Inr (db', i) \<Longrightarrow> payment_step db db'"
| attempt_step: "create_payment_attempt env db s k pc pr key c d at cid = Inr (db', a) \<Longrightarrow> payment_step db db'"
| submit_step: "submit_provider_neutral_attempt env db s k key c at = Inr (db', a) \<Longrightarrow> payment_step db db'"
| callback_step: "ingest_authenticated_callback_envelope env w db s cq cid = Inr (db', a) \<Longrightarrow> payment_step db db'"
| expire_step: "expire_intent env db s k rc c at = Inr (db', i) \<Longrightarrow> payment_step db db'"
| cancel_step: "cancel_intent env db s k rc c at = Inr (db', i) \<Longrightarrow> payment_step db db'"
| reconcile_step: "mark_reconciliation_required env db s k rc c at = Inr (db', a) \<Longrightarrow> payment_step db db'"

abbreviation payment_steps :: "payment_db \<Rightarrow> payment_db \<Rightarrow> bool" where
  "payment_steps \<equiv> payment_step\<^sup>*\<^sup>*"

abbreviation payment_reachable :: "payment_db \<Rightarrow> bool" where
  "payment_reachable db \<equiv> payment_steps empty_payments db"

text \<open>
  Each service operation reserves its key and then makes at most one change to intents or attempts. The
  views below strip the reservation and the permission checks off a successful call.
\<close>

lemma payment_reserve_views:
  assumes "payment_reserve_idempotency h db s oper key pl ref at = Inr (db', r)"
  shows "pd_intents db' = pd_intents db" and "pd_attempts db' = pd_attempts db" and "pd_callbacks db' = pd_callbacks db"
  using assms by (auto simp: payment_reserve_idempotency_def bind_result_eq_Inr)

lemma validate_identities_same: "validate_identities x = Inr y \<Longrightarrow> y = x"
  by (auto simp: validate_identities_def split: if_splits)

lemma valid_attempt_same: "valid_attempt x = Inr y \<Longrightarrow> y = x"
  by (auto simp: valid_attempt_def split: if_splits)

lemma create_intent_same: "create_intent db x = Inr (db', y) \<Longrightarrow> y = x"
  by (auto simp: create_intent_def split: if_splits)

lemma create_payment_intent_view:
  assumes "create_payment_intent env db s q cid = Inr (db', i)"
  obtains (seen) "pd_intents db' = pd_intents db" "pd_attempts db' = pd_attempts db"
  | (made) db1 where "create_intent db1 i = Inr (db', i)" "validate_identities i = Inr i"
      "pd_intents db1 = pd_intents db" "pd_attempts db1 = pd_attempts db"
  using assms unfolding create_payment_intent_def
  apply (elim ok_elims)
  subgoal premises prems for _ _ _ _ _ db1
    using prems(7,21-) prems(3-)
    by (intro made [of db1]) (auto simp: payment_reserve_views dest: validate_identities_same create_intent_same)
  subgoal by (rule seen) (simp_all add: payment_reserve_views)
  done

lemma create_payment_attempt_view:
  assumes "create_payment_attempt env db s k pc pr key c d at cid = Inr (db', a)"
  obtains (seen) "pd_intents db' = pd_intents db" "pd_attempts db' = pd_attempts db"
  | (made) db1 x where "pd_intents db1 = pd_intents db" "pd_attempts db1 = pd_attempts db"
      "create_attempt db1 x = Inr (db', a)" "pa_state x = PA_CREATED"
  using assms unfolding create_payment_attempt_def
  apply (elim ok_elims)
  subgoal by (rule made) (auto simp: payment_reserve_views dest: valid_attempt_same)
  subgoal by (rule seen) (simp_all add: payment_reserve_views)
  done

lemma submit_view:
  assumes "submit_provider_neutral_attempt env db s k key c at = Inr (db', a)"
  obtains db1 x i t rc where "pd_intents db1 = pd_intents db" "pd_attempts db1 = pd_attempts db"
    "dget (pd_attempts db) k = Some x" "dget (pd_intents db) (pa_payment_intent_id x) = Some i"
    "transition_attempt db1 (pa_payment_attempt_id x) t at rc c (pa_payment_attempt_id x) None = Inr (db', a)"
    "cash_safe (pi_payment_method_family i) t"
  using assms unfolding submit_provider_neutral_attempt_def
  apply (elim ok_elims)
  subgoal premises prems for _ _ _ db1 _ x i _ t rc
    using prems(4-)
    by (intro prems(1) [of db1 x i t rc])
      (auto simp: payment_reserve_views get_attempt_def get_intent_def cash_safe_def split: if_splits)
  done

lemma callback_target_cash_safe: "callback_target_state m out = Inr t \<Longrightarrow> cash_safe m t"
  unfolding callback_target_state_def
  by (elim ok_elims) (auto simp: cash_safe_def split: if_splits)

lemma ingest_callback_view:
  assumes "ingest_callback_envelope db e = Inr (db', x)"
  shows "pd_intents db' = pd_intents db" and "pd_attempts db' = pd_attempts db"
  using assms unfolding ingest_callback_envelope_def by (elim ok_elims; auto)+

lemma mark_callback_view:
  assumes "mark_callback_processed db k a at = Inr db'"
  shows "pd_intents db' = pd_intents db" and "pd_attempts db' = pd_attempts db"
  using assms unfolding mark_callback_processed_def by (elim ok_elims; auto)+

lemma callback_view:
  assumes "ingest_authenticated_callback_envelope env w db s q cid = Inr (db', a)"
  obtains db1 db2 x i t rc ev where "pd_intents db1 = pd_intents db" "pd_attempts db1 = pd_attempts db"
    "dget (pd_attempts db) (cq_payment_attempt_id q) = Some x"
    "dget (pd_intents db) (pa_payment_intent_id x) = Some i"
    "transition_attempt db1 (pa_payment_attempt_id x) t (cq_at q) rc (cq_correlation_id q)
       (pa_payment_attempt_id x) ev = Inr (db2, a)"
    "cash_safe (pi_payment_method_family i) t"
    "pd_intents db' = pd_intents db2" "pd_attempts db' = pd_attempts db2"
  using assms unfolding ingest_authenticated_callback_envelope_def
  apply (elim ok_elims)
  subgoal premises prems
    using prems(4-)
    by (intro prems(1))
      (auto simp: payment_reserve_views get_attempt_def get_intent_def ingest_callback_view mark_callback_view
        intro: callback_target_cash_safe)
  done

lemma intent_move_view:
  assumes "expire_intent env db s k rc c at = Inr (db', i) \<or> cancel_intent env db s k rc c at = Inr (db', i)"
  obtains t where "transition_intent db k t at c k rc = Inr (db', i)"
  using assms unfolding expire_intent_def cancel_intent_def by (elim disjE ok_elims) blast+

section \<open>Every step keeps the invariant\<close>

lemma empty_payments_inv: "payment_inv empty_payments"
  by (simp add: payment_inv_def empty_payments_def)

lemma payment_step_inv:
  assumes "payment_step db db'" and "payment_inv db"
  shows "payment_inv db'"
  using assms
proof (induction rule: payment_step.induct)
  case (intent_step env db s q cid db' i)
  from intent_step.hyps show ?case
  proof (cases rule: create_payment_intent_view)
    case seen
    then show ?thesis using payment_inv_cong [OF intent_step.prems] by blast
  next
    case (made db1)
    have "intent_ok i"
      using made(1,2) by (auto simp: intent_ok_def validate_identities_def create_intent_def split: if_splits)
    then show ?thesis
      using create_intent_inv [OF payment_inv_cong [OF intent_step.prems made(3,4)] made(1)] by blast
  qed
next
  case (attempt_step env db s k pc pr key c d at cid db' a)
  from attempt_step.hyps show ?case
  proof (cases rule: create_payment_attempt_view)
    case seen
    then show ?thesis using payment_inv_cong [OF attempt_step.prems] by blast
  next
    case (made db1 x)
    then show ?thesis using create_attempt_inv [OF payment_inv_cong [OF attempt_step.prems made(1,2)]] by blast
  qed
next
  case (submit_step env db s k key c at db' a)
  from submit_step.hyps show ?case
  proof (cases rule: submit_view)
    case (1 db1 x i t rc)
    have "pa_payment_attempt_id x = k" using payment_invD(3) [OF submit_step.prems 1(3)] .
    then show ?thesis
      by (intro transition_attempt_inv [OF payment_inv_cong [OF submit_step.prems 1(1,2)] 1(5)]) (use 1 in auto)
  qed
next
  case (callback_step env w db s cq cid db' a)
  from callback_step.hyps show ?case
  proof (cases rule: callback_view)
    case (1 db1 db2 x i t rc ev)
    have "pa_payment_attempt_id x = cq_payment_attempt_id cq" using payment_invD(3) [OF callback_step.prems 1(3)] .
    then have "payment_inv db2"
      by (intro transition_attempt_inv [OF payment_inv_cong [OF callback_step.prems 1(1,2)] 1(5)]) (use 1 in auto)
    then show ?thesis using payment_inv_cong 1(7,8) by blast
  qed
next
  case (expire_step env db s k rc c at db' i)
  then show ?case using intent_move_view transition_intent_inv by metis
next
  case (cancel_step env db s k rc c at db' i)
  then show ?case using intent_move_view transition_intent_inv by metis
next
  case (reconcile_step env db s k rc c at db' a)
  then show ?case
    unfolding mark_reconciliation_required_def
    by (elim ok_elims) (auto elim!: transition_attempt_inv [rotated] simp: cash_safe_def)
qed

lemma payment_reachable_inv: "payment_reachable db \<Longrightarrow> payment_inv db"
  by (induction rule: rtranclp_induct) (auto intro: empty_payments_inv payment_step_inv)


section \<open>Attempts over time\<close>

definition attempt_follows :: "payment_attempt \<Rightarrow> payment_attempt \<Rightarrow> bool" where
  "attempt_follows a b \<longleftrightarrow>
     pa_payment_intent_id b = pa_payment_intent_id a \<and> pa_amount_minor b = pa_amount_minor a \<and>
     pa_currency b = pa_currency a \<and> pa_provider_code b = pa_provider_code a \<and>
     pa_provider_reference b = pa_provider_reference a \<and>
     leads_to ALLOWED_ATTEMPT_TRANSITIONS (pa_state a) (pa_state b)"

lemma attempt_follows_refl: "attempt_follows a a"
  by (simp add: attempt_follows_def leads_to.here)

lemma attempt_follows_trans: "attempt_follows a b \<Longrightarrow> attempt_follows b c \<Longrightarrow> attempt_follows a c"
  by (auto simp: attempt_follows_def intro: leads_to_trans)

lemma transition_attempt_follows:
  assumes "transition_attempt db k t at rc c d ev = Inr (db', b)" and "dget (pd_attempts db) l = Some x"
  shows "\<exists>y. dget (pd_attempts db') l = Some y \<and> attempt_follows x y"
  using assms(1)
  by (rule transition_attempt_Inr)
    (use assms(2) in \<open>auto simp: attempt_follows_def intro: leads_to.here leads_to.move\<close>)

lemma create_attempt_keeps:
  assumes "create_attempt db a = Inr (db', b)" and "dget (pd_attempts db) l = Some x"
  shows "dget (pd_attempts db') l = Some x"
  using assms unfolding create_attempt_def by (elim ok_elims) auto

lemma intents_only:
  "create_intent db i = Inr (db', j) \<Longrightarrow> pd_attempts db' = pd_attempts db"
  "transition_intent db k t at c d rc = Inr (db', j) \<Longrightarrow> pd_attempts db' = pd_attempts db"
  unfolding create_intent_def transition_intent_def by (elim ok_elims; auto)+

lemma payment_step_follows:
  assumes "payment_step db db'" and "dget (pd_attempts db) k = Some a"
  shows "\<exists>b. dget (pd_attempts db') k = Some b \<and> attempt_follows a b"
  using assms
proof (induction rule: payment_step.induct)
  case (intent_step env db s q cid db' i)
  from intent_step.hyps intent_step.prems show ?case
    by (elim create_payment_intent_view) (auto simp: intents_only attempt_follows_refl)
next
  case (attempt_step env db s k' pc pr key c d at cid db' a')
  from attempt_step.hyps show ?case
    using attempt_step.prems attempt_follows_refl create_attempt_keeps
    by (elim create_payment_attempt_view) (metis+)
next
  case (submit_step env db s k' key c at db' a')
  from submit_step.hyps show ?case
    by (elim submit_view) (metis transition_attempt_follows submit_step.prems)
next
  case (callback_step env w db s cq cid db' a')
  from callback_step.hyps show ?case
    by (elim callback_view) (metis transition_attempt_follows callback_step.prems)
next
  case (expire_step env db s k' rc c at db' i)
  then show ?case using intent_move_view intents_only(2) attempt_follows_refl by metis
next
  case (cancel_step env db s k' rc c at db' i)
  then show ?case using intent_move_view intents_only(2) attempt_follows_refl by metis
next
  case (reconcile_step env db s k' rc c at db' a')
  then show ?case
    unfolding mark_reconciliation_required_def by (elim ok_elims) (rule transition_attempt_follows)
qed

lemma payment_steps_follow:
  assumes "payment_steps db db'" and "dget (pd_attempts db) k = Some a"
  shows "\<exists>b. dget (pd_attempts db') k = Some b \<and> attempt_follows a b"
  using assms
proof (induction rule: rtranclp_induct)
  case base
  then show ?case using attempt_follows_refl by blast
next
  case (step y z)
  then show ?case using payment_step_follows attempt_follows_trans by metis
qed

end
