(* ===== verification/Refund.thy ===== *)
theory Refund
  imports Payment_Reach
begin

text \<open>
  Refunds: the models of \<open>refund/models.py\<close>, the repository \<open>persistence/refund_repository.py\<close> and the workflow of
  \<open>refund/application.py\<close>. The workflow reads payments, fare calculations and journals and writes only its own
  tables, the record \<open>refund_db\<close>.
\<close>

section \<open>Models\<close>

datatype refund_type = RT_PARTIAL_REFUND | RT_FULL_REFUND | RT_ADMINISTRATIVE_ADJUSTMENT
  | RT_CUSTOMER_GOODWILL_ADJUSTMENT | RT_SYSTEM_CORRECTION_REQUEST

datatype refund_decision_type = RD_REVIEW | RD_INVESTIGATION | RD_APPROVAL | RD_REJECTION | RD_SCHEDULING
  | RD_COMPLETION

record refund_traceability =
  rt_ride_request_id :: uuid
  rt_dispatch_handoff_id :: uuid
  rt_assignment_id :: uuid
  rt_active_ride_id :: uuid
  rt_fare_estimate_id :: uuid
  rt_fare_calculation_id :: uuid
  rt_ledger_journal_id :: uuid

record refund_request =
  rr_refund_request_id :: uuid
  rr_ride_id :: uuid
  rr_fare_calculation_id :: uuid
  rr_payment_intent_id :: uuid
  rr_payment_attempt_id :: uuid
  rr_ledger_journal_id :: uuid
  rr_refund_type :: refund_type
  rr_state :: refund_request_state
  rr_amount_minor :: minor
  rr_currency :: string
  rr_reason_code :: string
  rr_requested_by_identity_id :: uuid
  rr_requested_at :: instant
  rr_last_transition_at :: instant
  rr_completed_at :: "instant option"
  rr_rejected_at :: "instant option"
  rr_correlation_id :: uuid
  rr_causation_id :: uuid
  rr_metadata_safe :: "(string, string) dict"
  rr_traceability :: refund_traceability

definition valid_refund_request :: "refund_request \<Rightarrow> refund_request result" where
  "valid_refund_request r =
     (if \<not> minor_ok (rr_amount_minor r) \<or> \<not> currency_pattern (rr_currency r) \<or> \<not> code_pattern 2 (rr_reason_code r)
      then Inl (ValidationError ''RefundRequest'')
      else if rr_last_transition_at r < rr_requested_at r
      then Inl (ValidationError ''last_transition_at must not precede requested_at'')
      else if (case rr_completed_at r of None \<Rightarrow> False | Some t \<Rightarrow> t < rr_requested_at r)
      then Inl (ValidationError ''completed_at must not precede requested_at'')
      else if (case rr_rejected_at r of None \<Rightarrow> False | Some t \<Rightarrow> t < rr_requested_at r)
      then Inl (ValidationError ''rejected_at must not precede requested_at'')
      else Inr r)"

record refund_decision =
  rd_decision_id :: uuid
  rd_refund_request_id :: uuid
  rd_decision_type :: refund_decision_type
  rd_decision_outcome :: string
  rd_decided_by_identity_id :: uuid
  rd_reason_code :: string
  rd_decided_at :: instant
  rd_correlation_id :: uuid
  rd_causation_id :: uuid

record refund_authorization =
  ra_authorization_id :: uuid
  ra_refund_request_id :: uuid
  ra_authorized_by_identity_id :: uuid
  ra_authority_permission :: string
  ra_reason_code :: string
  ra_authorized_at :: instant
  ra_correlation_id :: uuid
  ra_causation_id :: uuid

record refund_evidence =
  re_evidence_id :: uuid
  re_refund_request_id :: uuid
  re_evidence_type :: string
  re_evidence_reference :: string
  re_recorded_by_identity_id :: uuid
  re_safe_metadata :: "(string, string) dict"
  re_recorded_at :: instant
  re_correlation_id :: uuid
  re_causation_id :: uuid

section \<open>The repository\<close>

record refund_db =
  rf_requests :: "(uuid, refund_request) dict"
  rf_decisions :: "(uuid, refund_decision) dict"
  rf_authorizations :: "(uuid, refund_authorization) dict"
  rf_evidence :: "(uuid, refund_evidence) dict"
  rf_idempotency :: idempotency_table
  rf_events :: "payment_event list"
  rf_outbox :: "payment_message list"

fun request_state_value :: "refund_request_state \<Rightarrow> string" where
  "request_state_value RR_REQUESTED = ''requested''"
| "request_state_value RR_UNDER_REVIEW = ''under_review''"
| "request_state_value RR_APPROVED = ''approved''"
| "request_state_value RR_SCHEDULED = ''scheduled''"
| "request_state_value RR_COMPLETED = ''completed''"
| "request_state_value RR_REJECTED = ''rejected''"

fun refund_type_value :: "refund_type \<Rightarrow> string" where
  "refund_type_value RT_PARTIAL_REFUND = ''partial_refund''"
| "refund_type_value RT_FULL_REFUND = ''full_refund''"
| "refund_type_value RT_ADMINISTRATIVE_ADJUSTMENT = ''administrative_adjustment''"
| "refund_type_value RT_CUSTOMER_GOODWILL_ADJUSTMENT = ''customer_goodwill_adjustment''"
| "refund_type_value RT_SYSTEM_CORRECTION_REQUEST = ''system_correction_request''"

definition refund_reserve_idempotency ::
  "(payload \<Rightarrow> string) \<Rightarrow> refund_db \<Rightarrow> uuid \<Rightarrow> string \<Rightarrow> string \<Rightarrow> payload \<Rightarrow> uuid \<Rightarrow> instant \<Rightarrow>
   (refund_db \<times> uuid) result" where
  "refund_reserve_idempotency digest db actor_id operation key pl response_reference at =
     bind_result
       (reserve_row (RefundConflict ''idempotency_conflict'') (rf_idempotency db)
          (actor_id, operation, key) (digest pl) response_reference at)
       (\<lambda>(table, reference). Inr (db\<lparr>rf_idempotency := table\<rparr>, reference))"

definition refund_event_append ::
  "uuid \<Rightarrow> string \<Rightarrow> instant \<Rightarrow> uuid \<Rightarrow> uuid \<Rightarrow> payload \<Rightarrow> refund_db \<Rightarrow> refund_db" where
  "refund_event_append aggregate_id event_type at correlation_id causation_id safe_payload db =
     db\<lparr>rf_events := rf_events db @
          [\<lparr>pe_aggregate_type = ''refund_request'', pe_aggregate_id = aggregate_id, pe_event_type = event_type,
            pe_occurred_at = at, pe_correlation_id = correlation_id, pe_causation_id = causation_id,
            pe_safe_payload = safe_payload\<rparr>],
        rf_outbox := rf_outbox db @
          [\<lparr>pm_event_type = event_type, pm_safe_payload = safe_payload, pm_occurred_at = at,
            pm_available_at = at, pm_attempt_count = 0\<rparr>]\<rparr>"

definition get_request :: "refund_db \<Rightarrow> uuid \<Rightarrow> refund_request option" where
  "get_request db k = dget (rf_requests db) k"

definition create_request :: "refund_db \<Rightarrow> refund_request \<Rightarrow> (refund_db \<times> refund_request) result" where
  "create_request db r =
     (if rr_state r \<noteq> RR_REQUESTED then Inl (RefundConflict ''refund_request_invalid_initial_state'')
      else if rr_currency r \<noteq> ''ETB'' then Inl (IntegrityError ''refund_request_etb_nonnegative'')
      else if dget (rf_requests db) (rr_refund_request_id r) \<noteq> None
      then Inl (IntegrityError ''refund_requests.refund_request_id'')
      else Inr (refund_event_append (rr_refund_request_id r) ''refund.request_created'' (rr_requested_at r)
             (rr_correlation_id r) (rr_causation_id r)
             [(''refund_request_id'', JUuid (rr_refund_request_id r)), (''ride_id'', JUuid (rr_ride_id r)),
              (''amount_minor'', JInt (rr_amount_minor r)), (''currency'', JStr (rr_currency r)),
              (''refund_type'', JStr (refund_type_value (rr_refund_type r)))]
             (db\<lparr>rf_requests := dset (rr_refund_request_id r) r (rf_requests db)\<rparr>), r))"

definition transition_request ::
  "refund_db \<Rightarrow> uuid \<Rightarrow> refund_request_state \<Rightarrow> py_datetime \<Rightarrow> uuid \<Rightarrow> uuid \<Rightarrow> string \<Rightarrow>
   (refund_db \<times> refund_request) result" where
  "transition_request db k target_state at correlation_id causation_id reason_code =
     (case get_request db k of
        None \<Rightarrow> Inl (RefundConflict ''refund_request_not_found'')
      | Some current \<Rightarrow>
          bind_result (ensure_request_transition_allowed (rr_state current) target_state at) (\<lambda>_.
          let changed = current\<lparr>rr_state := target_state, rr_last_transition_at := instant_of at,
                rr_completed_at := (if target_state = RR_COMPLETED then Some (instant_of at)
                                    else rr_completed_at current),
                rr_rejected_at := (if target_state = RR_REJECTED then Some (instant_of at)
                                   else rr_rejected_at current)\<rparr>
          in if instant_of at < rr_requested_at current
             then Inl (IntegrityError ''refund_request_transition_after_requested'')
             else Inr (refund_event_append (rr_refund_request_id changed)
                    (''refund.request_'' @ request_state_value target_state) (instant_of at)
                    correlation_id causation_id
                    [(''refund_request_id'', JUuid (rr_refund_request_id changed)),
                     (''ride_id'', JUuid (rr_ride_id changed)),
                     (''state'', JStr (request_state_value target_state)), (''reason_code'', JStr reason_code)]
                    (db\<lparr>rf_requests := dset k changed (rf_requests db)\<rparr>), changed)))"

definition append_decision :: "refund_db \<Rightarrow> refund_decision \<Rightarrow> refund_db result" where
  "append_decision db d =
     (if dget (rf_decisions db) (rd_decision_id d) \<noteq> None then Inl (IntegrityError ''refund_decisions.decision_id'')
      else if dget (rf_requests db) (rd_refund_request_id d) = None
      then Inl (IntegrityError ''refund_decisions.refund_request_id'')
      else Inr (db\<lparr>rf_decisions := dset (rd_decision_id d) d (rf_decisions db)\<rparr>))"

definition append_authorization :: "refund_db \<Rightarrow> refund_authorization \<Rightarrow> refund_db result" where
  "append_authorization db a =
     (if dget (rf_authorizations db) (ra_authorization_id a) \<noteq> None
      then Inl (IntegrityError ''refund_authorizations.authorization_id'')
      else if dget (rf_requests db) (ra_refund_request_id a) = None
      then Inl (IntegrityError ''refund_authorizations.refund_request_id'')
      else Inr (db\<lparr>rf_authorizations := dset (ra_authorization_id a) a (rf_authorizations db)\<rparr>))"

definition append_evidence :: "refund_db \<Rightarrow> refund_evidence \<Rightarrow> refund_db result" where
  "append_evidence db e =
     (if dget (rf_evidence db) (re_evidence_id e) \<noteq> None then Inl (IntegrityError ''refund_evidence.evidence_id'')
      else if dget (rf_requests db) (re_refund_request_id e) = None
      then Inl (IntegrityError ''refund_evidence.refund_request_id'')
      else if list_ex (\<lambda>x. re_refund_request_id x = re_refund_request_id e \<and> re_evidence_type x = re_evidence_type e \<and>
            re_evidence_reference x = re_evidence_reference e) (dvalues (rf_evidence db))
      then Inl (IntegrityError ''uq_refund_evidence_reference'')
      else Inr (db\<lparr>rf_evidence := dset (re_evidence_id e) e (rf_evidence db)\<rparr>))"

definition list_decisions :: "refund_db \<Rightarrow> uuid \<Rightarrow> refund_decision list" where
  "list_decisions db k =
     sort_key (\<lambda>d. (rd_decided_at d, rd_decision_id d))
       (filter (\<lambda>d. rd_refund_request_id d = k) (dvalues (rf_decisions db)))"

definition list_authorizations :: "refund_db \<Rightarrow> uuid \<Rightarrow> refund_authorization list" where
  "list_authorizations db k =
     sort_key (\<lambda>a. (ra_authorized_at a, ra_authorization_id a))
       (filter (\<lambda>a. ra_refund_request_id a = k) (dvalues (rf_authorizations db)))"

definition list_evidence :: "refund_db \<Rightarrow> uuid \<Rightarrow> refund_evidence list" where
  "list_evidence db k =
     sort_key (\<lambda>e. (re_recorded_at e, re_evidence_id e))
       (filter (\<lambda>e. re_refund_request_id e = k) (dvalues (rf_evidence db)))"

section \<open>The workflow\<close>

definition require_refund_permission :: "payment_env \<Rightarrow> subject \<Rightarrow> string \<Rightarrow> unit result" where
  "require_refund_permission env subject permission =
     ensure (pv_has_permission env (fst subject) permission) (RefundConflict ''access_denied'')"

definition validate_refund_key :: "string \<Rightarrow> unit result" where
  "validate_refund_key key =
     ensure (length_between 16 128 key) (RefundConflict ''idempotency_key_invalid'')"

definition validate_request_amount :: "refund_type \<Rightarrow> minor \<Rightarrow> minor \<Rightarrow> unit result" where
  "validate_request_amount refund_type amount_minor payment_amount_minor =
     (if amount_minor < 0 then Inl (RefundConflict ''refund_amount_invalid'')
      else if amount_minor > payment_amount_minor then Inl (RefundConflict ''refund_amount_exceeds_payment'')
      else if refund_type = RT_FULL_REFUND \<and> amount_minor \<noteq> payment_amount_minor
      then Inl (RefundConflict ''refund_amount_must_equal_payment'')
      else if refund_type = RT_PARTIAL_REFUND \<and> (amount_minor \<le> 0 \<or> amount_minor \<ge> payment_amount_minor)
      then Inl (RefundConflict ''refund_partial_amount_invalid'')
      else Inr ())"

text \<open>The constructor of a decision, which validates its reason code and its timestamp, and its insertion.\<close>

definition record_decision ::
  "refund_db \<Rightarrow> uuid \<Rightarrow> uuid \<Rightarrow> refund_decision_type \<Rightarrow> string \<Rightarrow> uuid \<Rightarrow> string \<Rightarrow> py_datetime \<Rightarrow> uuid \<Rightarrow> uuid \<Rightarrow>
   refund_db result" where
  "record_decision db decision_id k decision_type decision_outcome actor reason_code at correlation_id causation_id =
     (if \<not> code_pattern 2 decision_outcome \<or> \<not> code_pattern 2 reason_code
      then Inl (ValidationError ''RefundDecision'')
      else if \<not> is_aware at then Inl (ValidationError ''Refund timestamps must be timezone-aware'')
      else append_decision db
        \<lparr>rd_decision_id = decision_id, rd_refund_request_id = k, rd_decision_type = decision_type,
         rd_decision_outcome = decision_outcome, rd_decided_by_identity_id = actor, rd_reason_code = reason_code,
         rd_decided_at = instant_of at, rd_correlation_id = correlation_id, rd_causation_id = causation_id\<rparr>)"

record refund_order =
  rq_ride_id :: uuid
  rq_fare_calculation_id :: uuid
  rq_payment_intent_id :: uuid
  rq_payment_attempt_id :: uuid
  rq_ledger_journal_id :: uuid
  rq_refund_type :: refund_type
  rq_amount_minor :: int
  rq_reason_code :: string
  rq_idempotency_key :: string
  rq_correlation_id :: uuid
  rq_causation_id :: uuid
  rq_at :: py_datetime
  rq_metadata_safe :: "(string, string) dict"

definition refund_payload :: "refund_order \<Rightarrow> payload" where
  "refund_payload q =
     [(''ride_id'', JUuid (rq_ride_id q)), (''fare_calculation_id'', JUuid (rq_fare_calculation_id q)),
      (''payment_intent_id'', JUuid (rq_payment_intent_id q)),
      (''payment_attempt_id'', JUuid (rq_payment_attempt_id q)),
      (''ledger_journal_id'', JUuid (rq_ledger_journal_id q)),
      (''refund_type'', JStr (refund_type_value (rq_refund_type q))),
      (''amount_minor'', JIntStr (rq_amount_minor q)), (''reason_code'', JStr (rq_reason_code q))]"

text \<open>The guards of a new request, from the lookups of the intent, the attempt, the calculation and the journal.\<close>

definition refund_linkage ::
  "payment_env \<Rightarrow> payment_db \<Rightarrow> subject \<Rightarrow> refund_order \<Rightarrow> (payment_intent \<times> payment_attempt) result" where
  "refund_linkage env pay subject q =
     (case get_intent pay (rq_payment_intent_id q) of
        None \<Rightarrow> Inl (RefundConflict ''payment_intent_not_found'')
      | Some intent \<Rightarrow>
     (case get_attempt pay (rq_payment_attempt_id q) of
        None \<Rightarrow> Inl (RefundConflict ''payment_attempt_not_found'')
      | Some attempt \<Rightarrow>
          if pa_payment_intent_id attempt \<noteq> pi_payment_intent_id intent
          then Inl (RefundConflict ''refund_linkage_conflict'')
          else if pa_state attempt \<noteq> PA_CAPTURED then Inl (RefundConflict ''refund_requires_captured_payment'')
          else if pi_ride_id intent \<noteq> rq_ride_id q then Inl (RefundConflict ''refund_linkage_conflict'')
          else if pi_rider_identity_id intent \<noteq> fst subject then Inl (RefundConflict ''refund_requester_not_owner'')
          else if py_fare_calculation_id (pi_traceability intent) \<noteq> rq_fare_calculation_id q
          then Inl (RefundConflict ''refund_linkage_conflict'')
          else if py_ledger_journal_id (pi_traceability intent) \<noteq> Some (rq_ledger_journal_id q)
          then Inl (RefundConflict ''refund_linkage_conflict'')
          else
            (case pv_get_calculation env (rq_fare_calculation_id q) of
               None \<Rightarrow> Inl (RefundConflict ''fare_calculation_not_found'')
             | Some calculation \<Rightarrow>
            (case pv_get_journal env (rq_ledger_journal_id q) of
               None \<Rightarrow> Inl (RefundConflict ''ledger_journal_not_found'')
             | Some journal \<Rightarrow>
                 if lj_business_event_id (jr_header journal) \<noteq> fc_calculation_id calculation
                 then Inl (RefundConflict ''ledger_lineage_conflict'')
                 else Inr (intent, attempt)))))"

definition new_refund_request ::
  "uuid \<Rightarrow> subject \<Rightarrow> refund_order \<Rightarrow> payment_intent \<Rightarrow> payment_attempt \<Rightarrow> refund_request" where
  "new_refund_request canonical subject q intent attempt =
     \<lparr>rr_refund_request_id = canonical, rr_ride_id = rq_ride_id q,
      rr_fare_calculation_id = rq_fare_calculation_id q, rr_payment_intent_id = rq_payment_intent_id q,
      rr_payment_attempt_id = rq_payment_attempt_id q, rr_ledger_journal_id = rq_ledger_journal_id q,
      rr_refund_type = rq_refund_type q, rr_state = RR_REQUESTED, rr_amount_minor = rq_amount_minor q,
      rr_currency = pa_currency attempt, rr_reason_code = rq_reason_code q,
      rr_requested_by_identity_id = fst subject, rr_requested_at = instant_of (rq_at q),
      rr_last_transition_at = instant_of (rq_at q), rr_completed_at = None, rr_rejected_at = None,
      rr_correlation_id = rq_correlation_id q, rr_causation_id = rq_causation_id q,
      rr_metadata_safe = rq_metadata_safe q,
      rr_traceability =
        \<lparr>rt_ride_request_id = py_ride_request_id (pi_traceability intent),
         rt_dispatch_handoff_id = py_dispatch_handoff_id (pi_traceability intent),
         rt_assignment_id = py_assignment_id (pi_traceability intent),
         rt_active_ride_id = py_active_ride_id (pi_traceability intent),
         rt_fare_estimate_id = py_fare_estimate_id (pi_traceability intent),
         rt_fare_calculation_id = py_fare_calculation_id (pi_traceability intent),
         rt_ledger_journal_id = rq_ledger_journal_id q\<rparr>\<rparr>"

definition request_refund ::
  "payment_env \<Rightarrow> payment_db \<Rightarrow> refund_db \<Rightarrow> subject \<Rightarrow> refund_order \<Rightarrow> uuid \<Rightarrow> uuid \<Rightarrow>
   (refund_db \<times> refund_request) result" where
  "request_refund env pay db subject q candidate_id decision_id =
     bind_result (require_refund_permission env subject ''refund.request.create'') (\<lambda>_.
     bind_result (ensure (snd subject = ID_RIDER) (RefundConflict ''refund_customer_identity_required'')) (\<lambda>_.
     bind_result (validate_refund_key (rq_idempotency_key q)) (\<lambda>_.
     bind_result (refund_reserve_idempotency (pv_digest env) db (fst subject) ''refund.request.create''
         (rq_idempotency_key q) (refund_payload q) candidate_id (instant_of (rq_at q))) (\<lambda>(db1, canonical).
     case get_request db1 canonical of
       Some existing \<Rightarrow> Inr (db1, existing)
     | None \<Rightarrow>
         bind_result (refund_linkage env pay subject q) (\<lambda>(intent, attempt).
         bind_result (validate_request_amount (rq_refund_type q) (rq_amount_minor q) (pa_amount_minor attempt)) (\<lambda>_.
         if \<not> is_aware (rq_at q) then Inl (ValidationError ''Refund timestamps must be timezone-aware'')
         else
           bind_result (valid_refund_request (new_refund_request canonical subject q intent attempt)) (\<lambda>request.
           bind_result (create_request db1 request) (\<lambda>(db2, created).
           bind_result (record_decision db2 decision_id (rr_refund_request_id created) RD_REVIEW ''requested''
               (fst subject) (rq_reason_code q) (rq_at q) (rq_correlation_id q) (rq_causation_id q)) (\<lambda>db3.
           Inr (db3, created)))))))))) "

text \<open>
  The staff steps share their first half: permission, key, reservation under the step's operation name and
  the transition of the request.
\<close>

definition reserve_and_transition ::
  "payment_env \<Rightarrow> refund_db \<Rightarrow> subject \<Rightarrow> string \<Rightarrow> refund_request_state \<Rightarrow> uuid \<Rightarrow> string \<Rightarrow> string \<Rightarrow> uuid \<Rightarrow> py_datetime \<Rightarrow>
   (refund_db \<times> refund_request) result" where
  "reserve_and_transition env db subject operation target k reason_code key corr at =
     bind_result (validate_refund_key key) (\<lambda>_.
     bind_result (refund_reserve_idempotency (pv_digest env) db (fst subject) operation key
         [(''refund_request_id'', JUuid k), (''reason_code'', JStr reason_code)] k (instant_of at)) (\<lambda>(db1, _).
     transition_request db1 k target at corr k reason_code))"

definition review_request ::
  "payment_env \<Rightarrow> refund_db \<Rightarrow> subject \<Rightarrow> uuid \<Rightarrow> string \<Rightarrow> string \<Rightarrow> uuid \<Rightarrow> py_datetime \<Rightarrow> uuid \<Rightarrow>
   (refund_db \<times> refund_request) result" where
  "review_request env db subject k reason_code key corr at decision_id =
     bind_result (require_refund_permission env subject ''refund.review.perform'') (\<lambda>_.
     bind_result (reserve_and_transition env db subject ''refund.request.review'' RR_UNDER_REVIEW k reason_code key corr at)
       (\<lambda>(db2, changed).
     bind_result (record_decision db2 decision_id (rr_refund_request_id changed) RD_REVIEW ''under_review''
         (fst subject) reason_code at corr k) (\<lambda>db3. Inr (db3, changed))))"

definition investigate_request ::
  "payment_env \<Rightarrow> refund_db \<Rightarrow> subject \<Rightarrow> uuid \<Rightarrow> string \<Rightarrow> string \<Rightarrow> string \<Rightarrow> string \<Rightarrow> uuid \<Rightarrow> py_datetime \<Rightarrow> uuid \<Rightarrow> uuid \<Rightarrow>
   refund_db result" where
  "investigate_request env db subject k reason_code evidence_type evidence_reference key corr at evidence_id decision_id =
     bind_result (require_refund_permission env subject ''refund.investigation.perform'') (\<lambda>_.
     bind_result (validate_refund_key key) (\<lambda>_.
     bind_result (refund_reserve_idempotency (pv_digest env) db (fst subject) ''refund.request.investigate'' key
         [(''refund_request_id'', JUuid k), (''reason_code'', JStr reason_code),
          (''evidence_type'', JStr evidence_type), (''evidence_reference'', JStr evidence_reference)]
         k (instant_of at)) (\<lambda>(db1, _).
     case get_request db1 k of
       None \<Rightarrow> Inl (RefundConflict ''refund_request_not_found'')
     | Some request \<Rightarrow>
         if rr_state request \<noteq> RR_UNDER_REVIEW then Inl (RefundConflict ''refund_investigation_state_invalid'')
         else if \<not> code_pattern 2 evidence_type \<or> \<not> length_between 3 160 evidence_reference
         then Inl (ValidationError ''RefundEvidence'')
         else if \<not> is_aware at then Inl (ValidationError ''Refund timestamps must be timezone-aware'')
         else
           bind_result (append_evidence db1
             \<lparr>re_evidence_id = evidence_id, re_refund_request_id = k, re_evidence_type = evidence_type,
              re_evidence_reference = evidence_reference, re_recorded_by_identity_id = fst subject,
              re_safe_metadata = [(''reason_code'', reason_code)], re_recorded_at = instant_of at,
              re_correlation_id = corr, re_causation_id = k\<rparr>) (\<lambda>db2.
           record_decision db2 decision_id k RD_INVESTIGATION ''investigated'' (fst subject) reason_code at corr k))))"

definition approve_request ::
  "payment_env \<Rightarrow> refund_db \<Rightarrow> subject \<Rightarrow> uuid \<Rightarrow> string \<Rightarrow> string \<Rightarrow> uuid \<Rightarrow> py_datetime \<Rightarrow> uuid \<Rightarrow> uuid \<Rightarrow>
   (refund_db \<times> refund_request) result" where
  "approve_request env db subject k reason_code key corr at authorization_id decision_id =
     bind_result (require_refund_permission env subject ''refund.approve'') (\<lambda>_.
     bind_result (reserve_and_transition env db subject ''refund.request.approve'' RR_APPROVED k reason_code key corr at)
       (\<lambda>(db2, changed).
     if \<not> code_pattern 2 reason_code then Inl (ValidationError ''RefundAuthorization'')
     else if \<not> is_aware at then Inl (ValidationError ''Refund timestamps must be timezone-aware'')
     else
       bind_result (append_authorization db2
         \<lparr>ra_authorization_id = authorization_id, ra_refund_request_id = k,
          ra_authorized_by_identity_id = fst subject, ra_authority_permission = ''refund.approve'',
          ra_reason_code = reason_code, ra_authorized_at = instant_of at, ra_correlation_id = corr,
          ra_causation_id = k\<rparr>) (\<lambda>db3.
       bind_result (record_decision db3 decision_id k RD_APPROVAL ''approved'' (fst subject) reason_code at corr k)
         (\<lambda>db4. Inr (db4, changed)))))"

definition schedule_request ::
  "payment_env \<Rightarrow> refund_db \<Rightarrow> subject \<Rightarrow> uuid \<Rightarrow> string \<Rightarrow> string \<Rightarrow> uuid \<Rightarrow> py_datetime \<Rightarrow> uuid \<Rightarrow>
   (refund_db \<times> refund_request) result" where
  "schedule_request env db subject k reason_code key corr at decision_id =
     bind_result (require_refund_permission env subject ''refund.schedule'') (\<lambda>_.
     bind_result (reserve_and_transition env db subject ''refund.request.schedule'' RR_SCHEDULED k reason_code key corr at)
       (\<lambda>(db2, changed).
     bind_result (record_decision db2 decision_id k RD_SCHEDULING ''scheduled'' (fst subject) reason_code at corr k)
       (\<lambda>db3. Inr (db3, changed))))"

definition complete_request ::
  "payment_env \<Rightarrow> refund_db \<Rightarrow> subject \<Rightarrow> uuid \<Rightarrow> string \<Rightarrow> string \<Rightarrow> uuid \<Rightarrow> py_datetime \<Rightarrow> uuid \<Rightarrow>
   (refund_db \<times> refund_request) result" where
  "complete_request env db subject k reason_code key corr at decision_id =
     bind_result (require_refund_permission env subject ''refund.workflow.run'') (\<lambda>_.
     bind_result (ensure (snd subject = ID_SERVICE) (RefundConflict ''refund_completion_requires_service'')) (\<lambda>_.
     bind_result (reserve_and_transition env db subject ''refund.request.complete'' RR_COMPLETED k reason_code key corr at)
       (\<lambda>(db2, changed).
     bind_result (record_decision db2 decision_id k RD_COMPLETION ''completed'' (fst subject) reason_code at corr k)
       (\<lambda>db3. Inr (db3, changed)))))"

definition reject_request ::
  "payment_env \<Rightarrow> refund_db \<Rightarrow> subject \<Rightarrow> uuid \<Rightarrow> string \<Rightarrow> string \<Rightarrow> uuid \<Rightarrow> py_datetime \<Rightarrow> uuid \<Rightarrow>
   (refund_db \<times> refund_request) result" where
  "reject_request env db subject k reason_code key corr at decision_id =
     bind_result (require_refund_permission env subject ''refund.review.perform'') (\<lambda>_.
     bind_result (reserve_and_transition env db subject ''refund.request.reject'' RR_REJECTED k reason_code key corr at)
       (\<lambda>(db2, changed).
     bind_result (record_decision db2 decision_id k RD_REJECTION ''rejected'' (fst subject) reason_code at corr k)
       (\<lambda>db3. Inr (db3, changed))))"

definition require_read :: "payment_env \<Rightarrow> subject \<Rightarrow> refund_request \<Rightarrow> unit result" where
  "require_read env subject request =
     ensure ((snd subject = ID_RIDER \<and> fst subject = rr_requested_by_identity_id request \<and>
              (pv_has_permission env (fst subject) ''refund.trace.read'' \<or>
               pv_has_permission env (fst subject) ''refund.request.create'')) \<or>
             pv_has_permission env (fst subject) ''support.refund.read_status'' \<or>
             pv_has_permission env (fst subject) ''refund.trace.read'')
       (RefundConflict ''refund_status_not_found'')"

type_synonym refund_status =
  "refund_request \<times> refund_decision list \<times> refund_authorization list \<times> refund_evidence list"

definition refund_view :: "refund_db \<Rightarrow> refund_request \<Rightarrow> refund_status" where
  "refund_view db request =
     (request, list_decisions db (rr_refund_request_id request),
      list_authorizations db (rr_refund_request_id request), list_evidence db (rr_refund_request_id request))"

definition refund_status :: "payment_env \<Rightarrow> refund_db \<Rightarrow> subject \<Rightarrow> uuid \<Rightarrow> refund_status result" where
  "refund_status env db subject k =
     (case get_request db k of
        None \<Rightarrow> Inl (RefundConflict ''refund_request_not_found'')
      | Some request \<Rightarrow> bind_result (require_read env subject request) (\<lambda>_. Inr (refund_view db request)))"

fun read_views :: "payment_env \<Rightarrow> refund_db \<Rightarrow> subject \<Rightarrow> refund_request list \<Rightarrow> refund_status list result" where
  "read_views env db subject [] = Inr []"
| "read_views env db subject (r # rs) =
     bind_result (require_read env subject r) (\<lambda>_.
     bind_result (read_views env db subject rs) (\<lambda>views. Inr (refund_view db r # views)))"

definition refund_history_by_ride ::
  "payment_env \<Rightarrow> refund_db \<Rightarrow> subject \<Rightarrow> uuid \<Rightarrow> refund_status list result" where
  "refund_history_by_ride env db subject ride_id =
     (let requests = sort_key (\<lambda>r. (rr_requested_at r, rr_refund_request_id r))
            (filter (\<lambda>r. rr_ride_id r = ride_id) (dvalues (rf_requests db)))
      in if requests = [] then Inl (RefundConflict ''refund_history_not_found'')
         else read_views env db subject requests)"

end
