(* ===== verification/Payment_Props.thy ===== *)
theory Payment_Props
  imports Payment_Reach
begin

text \<open>
  The properties of the payment service, with a concrete ride on which each applies: its intent, card and
  cash attempts and the provider's callbacks, run as scripts of service calls.
\<close>

section \<open>Scripts of service calls\<close>

datatype payment_call =
    CreateIntent subject intent_request uuid
  | CreateAttempt subject uuid string string string py_datetime uuid
  | SubmitAttempt subject uuid string py_datetime
  | Callback subject callback_request uuid
  | ExpireIntent subject uuid string py_datetime
  | CancelIntent subject uuid string py_datetime
  | Reconcile subject uuid string py_datetime

definition db_of :: "(payment_db \<times> 'a) result \<Rightarrow> payment_db result" where
  "db_of r = bind_result r (\<lambda>(db, _). Inr db)"

fun call :: "payment_env \<Rightarrow> payment_call \<Rightarrow> payment_db \<Rightarrow> payment_db result" where
  "call env (CreateIntent s q cid) db = db_of (create_payment_intent env db s q cid)"
| "call env (CreateAttempt s i pc pr key at cid) db = db_of (create_payment_attempt env db s i pc pr key cid i at cid)"
| "call env (SubmitAttempt s a key at) db = db_of (submit_provider_neutral_attempt env db s a key a at)"
| "call env (Callback s q cid) db = db_of (ingest_authenticated_callback_envelope env 300 db s q cid)"
| "call env (ExpireIntent s i rc at) db = db_of (expire_intent env db s i rc i at)"
| "call env (CancelIntent s i rc at) db = db_of (cancel_intent env db s i rc i at)"
| "call env (Reconcile s a rc at) db = db_of (mark_reconciliation_required env db s a rc a at)"

fun calls :: "payment_env \<Rightarrow> payment_call list \<Rightarrow> payment_db \<Rightarrow> payment_db result" where
  "calls env [] db = Inr db"
| "calls env (c # cs) db = bind_result (call env c db) (calls env cs)"

lemma call_step: "call env c db = Inr db' \<Longrightarrow> payment_step db db'"
  by (cases c) (auto simp: db_of_def bind_result_eq_Inr intro: payment_step.intros)

lemma calls_steps: "calls env cs db = Inr db' \<Longrightarrow> payment_steps db db'"
proof (induction cs arbitrary: db)
  case Nil
  then show ?case by simp
next
  case (Cons c cs)
  then show ?case by (auto simp: bind_result_eq_Inr intro: converse_rtranclp_into_rtranclp call_step)
qed

lemma calls_append: "calls env (xs @ ys) db = bind_result (calls env xs db) (calls env ys)"
proof (induction xs arbitrary: db)
  case Nil
  then show ?case by simp
next
  case (Cons c cs)
  then show ?case by (cases "call env c db") simp_all
qed

section \<open>A concrete ride\<close>

definition sample_fare :: fare_calculation where
  "sample_fare =
     \<lparr>fc_calculation_id = 70, fc_estimate_id = 71, fc_acceptance_id = 72, fc_ride_id = 60,
      fc_rider_identity_id = 5, fc_driver_identity_id = 6, fc_policy_id = 73, fc_policy_version = ''v1'',
      fc_state = CS_FINAL_CALCULATED, fc_metrics = sample_metrics 12345 1500,
      fc_breakdown = fare_spec sample_policy (sample_metrics 12345 1500),
      fc_financial_traceability = \<lparr>ft_ride_request_id = 61, ft_dispatch_handoff_id = Some 62,
        ft_assignment_id = Some 63, ft_active_ride_id = Some 60, ft_fare_estimate_id = 71,
        ft_fare_calculation_id = Some 70, ft_predecessor_fare_calculation_id = None,
        ft_ledger_transaction_id = None, ft_ledger_journal_id = None, ft_wallet_projection_id = None,
        ft_settlement_instruction_id = None\<rparr>,
      fc_calculation_lineage = sample_lineage 31, fc_estimate_difference_minor = 0,
      fc_predecessor_calculation_id = None, fc_reason_codes = [], fc_translation_keys = [],
      fc_audit_reference = 31, fc_calculated_at = 1000, fc_settlement_instruction_ready = False\<rparr>"

text \<open>No operation reads the lineage of the fare, so evaluation keeps it folded.\<close>

declare sample_lineage_def [code del]

definition sample_journal :: ledger_journal where
  "sample_journal =
     \<lparr>jr_header = \<lparr>lj_journal_id = 80, lj_book_id = 81, lj_business_event_type = ''fare.finalized'',
        lj_business_event_id = 70, lj_operation = ''ledger.post'', lj_idempotency_key = ''0123456789abcdef'',
        lj_actor_identity_id = 9, lj_source_system = ''pricing'', lj_reason_code = ''fare.final'',
        lj_traceability = \<lparr>lt_ride_request_id = 61, lt_dispatch_handoff_id = 62, lt_assignment_id = 63,
          lt_active_ride_id = 60, lt_fare_estimate_id = 71, lt_fare_calculation_id = 70,
          lt_predecessor_ledger_journal_id = None, lt_wallet_id = None, lt_settlement_id = None,
          lt_driver_payout_id = None, lt_rider_payment_id = None, lt_refund_id = None, lt_promotion_id = None,
          lt_referral_id = None, lt_loyalty_id = None, lt_tax_record_id = None, lt_audit_package_id = None\<rparr>,
        lj_predecessor_ledger_journal_id = None, lj_effective_at = 1000, lj_recorded_at = 1000,
        lj_correlation_id = 82, lj_causation_id = 83, lj_audit_reference = 84\<rparr>,
      jr_entries = []\<rparr>"

definition sample_env :: payment_env where
  "sample_env = \<lparr>pv_has_permission = (\<lambda>_ _. True),
     pv_get_calculation = (\<lambda>k. if k = 70 then Some sample_fare else None),
     pv_get_journal = (\<lambda>k. if k = 80 then Some sample_journal else None), pv_digest = sample_digest\<rparr>"

definition sample_request :: "payment_method_family \<Rightarrow> intent_request" where
  "sample_request m = \<lparr>iq_ride_id = 60, iq_fare_calculation_id = 70, iq_ledger_journal_id = 80,
     iq_rider_identity_id = 5, iq_passenger_identity_id = 5, iq_booker_identity_id = 5,
     iq_payer_identity_id = 5, iq_method = m, iq_idempotency_key = ''intent-key-000001'',
     iq_at = Aware 2000, iq_expires_at = None, iq_metadata_safe = [],
     iq_third_party_booking_authorized = False\<rparr>"

definition sample_callback :: "uuid \<Rightarrow> string \<Rightarrow> string \<Rightarrow> string \<Rightarrow> callback_request" where
  "sample_callback a outcome event key = \<lparr>cq_payment_attempt_id = a, cq_provider_code = ''provider'',
     cq_signature_fingerprint = ''abcdefghijklmnop'', cq_outcome = outcome, cq_provider_event_id = event,
     cq_payload = [(''outcome'', JStr outcome)], cq_idempotency_key = key, cq_correlation_id = 90,
     cq_at = Aware 3000\<rparr>"

abbreviation rider :: subject where "rider \<equiv> (5, ID_RIDER)"
abbreviation gateway :: subject where "gateway \<equiv> (9, ID_SERVICE)"

definition pay_by_card :: "uuid \<Rightarrow> string \<Rightarrow> string \<Rightarrow> payment_call list" where
  "pay_by_card a ref k =
     [CreateAttempt rider 100 ''provider'' ref (''attempt-key-0000'' @ k) (Aware 2500) a,
      SubmitAttempt rider a (''submit-key-00000'' @ k) (Aware 2600),
      Callback gateway (sample_callback a ''authorized'' (''ev1-'' @ k) (''authorized-key-0'' @ k)) (a + 1),
      Callback gateway (sample_callback a ''capture_pending'' (''ev2-'' @ k) (''capturing-key-00'' @ k)) (a + 2),
      Callback gateway (sample_callback a ''captured'' (''ev3-'' @ k) (''captured-key-000'' @ k)) (a + 3)]"

definition sample_payments :: "payment_call list \<Rightarrow> payment_db" where
  "sample_payments cs = projr (calls sample_env cs empty_payments)"


definition attempt_rows :: "payment_db \<Rightarrow> (uuid \<times> uuid \<times> payment_attempt_state) list" where
  "attempt_rows db = map (\<lambda>(k, a). (k, pa_payment_intent_id a, pa_state a)) (pd_attempts db)"

definition intent_rows :: "payment_db \<Rightarrow> (uuid \<times> payment_intent_state \<times> payment_method_family) list" where
  "intent_rows db = map (\<lambda>(k, i). (k, pi_state i, pi_payment_method_family i)) (pd_intents db)"

lemma attempt_rows_get: "dget (attempt_rows db) k = Some (i, st) \<Longrightarrow>
    \<exists>a. dget (pd_attempts db) k = Some a \<and> pa_payment_intent_id a = i \<and> pa_state a = st"
  by (auto simp: attempt_rows_def map_of_map)

lemma intent_rows_get: "dget (intent_rows db) k = Some (st, m) \<Longrightarrow>
    \<exists>i. dget (pd_intents db) k = Some i \<and> pi_state i = st \<and> pi_payment_method_family i = m"
  by (auto simp: intent_rows_def map_of_map)

definition outcome :: "payment_call list \<Rightarrow>
    ((uuid \<times> uuid \<times> payment_attempt_state) list \<times> (uuid \<times> payment_intent_state \<times> payment_method_family) list) result" where
  "outcome cs = bind_result (calls sample_env cs empty_payments) (\<lambda>db. Inr (attempt_rows db, intent_rows db))"

lemma outcome_reachable:
  assumes "outcome cs = Inr (as, is)"
  shows "payment_reachable (sample_payments cs)" and "attempt_rows (sample_payments cs) = as"
    and "intent_rows (sample_payments cs) = is"
  using assms calls_steps [of sample_env cs empty_payments]
  by (auto simp: outcome_def bind_result_eq_Inr sample_payments_def)

lemma outcome_attempt:
  assumes "outcome cs = Inr (as, is)" and "dget as k = Some (i, st)"
  obtains a where "dget (pd_attempts (sample_payments cs)) k = Some a" "pa_payment_intent_id a = i" "pa_state a = st"
  using attempt_rows_get [of "sample_payments cs" k] outcome_reachable(2) [OF assms(1)] assms(2) by auto

lemma outcome_intent:
  assumes "outcome cs = Inr (as, is)" and "dget is k = Some (st, m)"
  obtains i where "dget (pd_intents (sample_payments cs)) k = Some i" "pi_state i = st" "pi_payment_method_family i = m"
  using intent_rows_get [of "sample_payments cs" k] outcome_reachable(3) [OF assms(1)] assms(2) by auto

definition card_run :: "payment_call list" where
  "card_run = CreateIntent rider (sample_request PM_CARD) 100 # pay_by_card 200 ''ref-1'' ''1''"

definition cash_run :: "payment_call list" where
  "cash_run = [CreateIntent rider (sample_request PM_CASH) 100,
     CreateAttempt rider 100 ''provider'' ''ref-1'' ''attempt-key-00001'' (Aware 2500) 200,
     SubmitAttempt rider 200 ''submit-key-000001'' (Aware 2600),
     Callback gateway (sample_callback 200 ''captured'' ''ev1'' ''captured-key-0001'') 201]"

definition double_run :: "payment_call list" where
  "double_run = card_run @ pay_by_card 300 ''ref-2'' ''2''"

definition cancel_run :: "payment_call list" where
  "cancel_run = take 5 card_run @ [CancelIntent rider 100 ''rider.cancelled'' (Aware 2900)] @ drop 5 card_run"

lemma card_run_outcome: "outcome card_run = Inr ([(200, 100, PA_CAPTURED)], [(100, PI_CREATED, PM_CARD)])"
  by code_simp

lemma cash_run_outcome: "outcome cash_run = Inr ([(200, 100, PA_OUTCOME_UNKNOWN)], [(100, PI_CREATED, PM_CASH)])"
  by code_simp

lemma double_run_outcome:
  "outcome double_run = Inr ([(200, 100, PA_CAPTURED), (300, 100, PA_CAPTURED)], [(100, PI_CREATED, PM_CARD)])"
  by code_simp

lemma cancel_run_outcome: "outcome cancel_run = Inr ([(200, 100, PA_CAPTURED)], [(100, PI_CANCELLED, PM_CARD)])"
  by code_simp

section \<open>Properties\<close>

text \<open>C11: In every database the payment service can reach, an attempt belongs to an intent with the same amount
  and currency, which is a non-negative amount of ETB owed by the rider who pays; of two different attempts of
  an intent at most one is still open, and they never share a provider reference.\<close>

theorem payment_attempts_consistent:
  assumes "payment_reachable db" and "dget (pd_attempts db) k = Some a"
  shows "(\<exists>i. dget (pd_intents db) (pa_payment_intent_id a) = Some i \<and>
      pa_amount_minor a = pi_amount_minor i \<and> pa_currency a = pi_currency i \<and>
      0 \<le> pa_amount_minor a \<and> pa_currency a = ''ETB'' \<and> pi_payer_identity_id i = pi_rider_identity_id i) \<and>
    (\<forall>l b. dget (pd_attempts db) l = Some b \<longrightarrow> l \<noteq> k \<longrightarrow>
      pa_payment_intent_id b = pa_payment_intent_id a \<longrightarrow>
      (attempt_is_terminal (pa_state a) \<or> attempt_is_terminal (pa_state b)) \<and>
      (pa_provider_code a, pa_provider_reference a) \<noteq> (pa_provider_code b, pa_provider_reference b))"
proof (intro conjI allI impI)
  have inv: "payment_inv db" using payment_reachable_inv [OF assms(1)] .
  obtain i where i: "dget (pd_intents db) (pa_payment_intent_id a) = Some i"
      "pa_amount_minor a = pi_amount_minor i" "pa_currency a = pi_currency i"
    using payment_invD(4) [OF inv assms(2)] unfolding attempt_ok_def by blast
  show "\<exists>i. dget (pd_intents db) (pa_payment_intent_id a) = Some i \<and>
      pa_amount_minor a = pi_amount_minor i \<and> pa_currency a = pi_currency i \<and>
      0 \<le> pa_amount_minor a \<and> pa_currency a = ''ETB'' \<and> pi_payer_identity_id i = pi_rider_identity_id i"
    using i payment_invD(2) [OF inv i(1)] by (auto simp: intent_ok_def)
  fix l b
  assume b: "dget (pd_attempts db) l = Some b" "l \<noteq> k" "pa_payment_intent_id b = pa_payment_intent_id a"
  show "attempt_is_terminal (pa_state a) \<or> attempt_is_terminal (pa_state b)"
    and "(pa_provider_code a, pa_provider_reference a) \<noteq> (pa_provider_code b, pa_provider_reference b)"
    using payment_inv_unique [OF inv b(1) assms(2) b(3)] b(2) by auto
qed

theorem payment_attempts_consistent_witness:
  "\<exists>a. dget (pd_attempts (sample_payments card_run)) 200 = Some a \<and> pa_state a = PA_CAPTURED \<and>
     (\<exists>i. dget (pd_intents (sample_payments card_run)) (pa_payment_intent_id a) = Some i \<and>
        pa_amount_minor a = pi_amount_minor i)"
proof -
  obtain a where a: "dget (pd_attempts (sample_payments card_run)) 200 = Some a" "pa_state a = PA_CAPTURED"
    using outcome_attempt [OF card_run_outcome, of 200] by auto
  then show ?thesis
    using payment_attempts_consistent [OF outcome_reachable(1) [OF card_run_outcome] a(1)] by auto
qed

text \<open>C12: Cash is never taken by the provider: in every reachable database an attempt of a cash intent is neither
  awaiting authorization nor authorized nor captured, whatever callbacks arrived.\<close>

theorem cash_never_captured:
  assumes "payment_reachable db" and "dget (pd_attempts db) k = Some a"
    and "dget (pd_intents db) (pa_payment_intent_id a) = Some i" and "pi_payment_method_family i = PM_CASH"
  shows "pa_state a \<notin> {PA_AUTHORIZATION_PENDING, PA_AUTHORIZED, PA_CAPTURED}"
  using payment_invD(4) [OF payment_reachable_inv [OF assms(1)] assms(2)] assms(3,4)
  by (auto simp: attempt_ok_def cash_safe_def)

theorem cash_never_captured_witness:
  "\<exists>a. dget (pd_attempts (sample_payments cash_run)) 200 = Some a \<and> pa_state a \<noteq> PA_CAPTURED"
proof -
  obtain a where a: "dget (pd_attempts (sample_payments cash_run)) 200 = Some a" "pa_payment_intent_id a = 100"
    using outcome_attempt [OF cash_run_outcome, of 200] by auto
  obtain i where i: "dget (pd_intents (sample_payments cash_run)) 100 = Some i" "pi_payment_method_family i = PM_CASH"
    using outcome_intent [OF cash_run_outcome, of 100] by auto
  show ?thesis using cash_never_captured [OF outcome_reachable(1) [OF cash_run_outcome] a(1)] i a by auto
qed

text \<open>C13: Whatever the service does next, an attempt stays in the database with its intent, amount, currency and
  provider reference, its state only moves along the attempt lifecycle, and once it is captured, failed,
  cancelled or expired it never changes state again.\<close>

theorem attempts_only_advance:
  assumes "payment_steps db db'" and "dget (pd_attempts db) k = Some a"
  shows "\<exists>b. dget (pd_attempts db') k = Some b \<and>
    pa_payment_intent_id b = pa_payment_intent_id a \<and> pa_amount_minor b = pa_amount_minor a \<and>
    pa_currency b = pa_currency a \<and> pa_provider_code b = pa_provider_code a \<and>
    pa_provider_reference b = pa_provider_reference a \<and>
    leads_to ALLOWED_ATTEMPT_TRANSITIONS (pa_state a) (pa_state b) \<and>
    (attempt_is_terminal (pa_state a) \<longrightarrow> pa_state b = pa_state a)"
  using payment_steps_follow [OF assms] payment_attempt.terminal_absorbing
  unfolding attempt_follows_def by metis


theorem attempts_only_advance_witness:
  "\<exists>a b. dget (pd_attempts (sample_payments card_run)) 200 = Some a \<and>
     dget (pd_attempts (sample_payments double_run)) 200 = Some b \<and> pa_amount_minor b = pa_amount_minor a \<and>
     pa_state b = PA_CAPTURED"
proof -
  obtain a where a: "dget (pd_attempts (sample_payments card_run)) 200 = Some a" "pa_state a = PA_CAPTURED"
    using outcome_attempt [OF card_run_outcome, of 200] by auto
  have "payment_steps (sample_payments card_run) (sample_payments double_run)"
    using double_run_outcome card_run_outcome calls_steps
    by (auto simp: double_run_def outcome_def calls_append bind_result_eq_Inr sample_payments_def)
  from attempts_only_advance [OF this a(1)] a show ?thesis by (auto simp: attempt_is_terminal_def)
qed

text \<open>
  Two behaviours of the service that the invariant does not exclude, each reached by ordinary calls: an
  intent stays open after a capture, so a second attempt can be captured for the same fare, and a callback
  still captures an attempt whose intent was cancelled after the attempt was submitted.
\<close>

text \<open>The service reaches a database in which two different attempts of one intent are both captured: no
  operation closes an intent when its fare has been collected.\<close>

theorem intent_captured_twice:
  "\<exists>db k l a b. payment_reachable db \<and> k \<noteq> l \<and> dget (pd_attempts db) k = Some a \<and> dget (pd_attempts db) l = Some b \<and>
     pa_payment_intent_id a = pa_payment_intent_id b \<and> pa_state a = PA_CAPTURED \<and> pa_state b = PA_CAPTURED"
proof -
  note run = outcome_reachable [OF double_run_outcome]
  obtain a where "dget (pd_attempts (sample_payments double_run)) 200 = Some a" "pa_payment_intent_id a = 100"
    "pa_state a = PA_CAPTURED" using outcome_attempt [OF double_run_outcome, of 200] by auto
  moreover obtain b where "dget (pd_attempts (sample_payments double_run)) 300 = Some b"
    "pa_payment_intent_id b = 100" "pa_state b = PA_CAPTURED"
    using outcome_attempt [OF double_run_outcome, of 300] by auto
  ultimately show ?thesis using run(1) by (intro exI [of _ "sample_payments double_run"] exI [of _ 200] exI [of _ 300]) auto
qed

theorem cancelled_intent_captured:
  "\<exists>db k a i. payment_reachable db \<and> dget (pd_attempts db) k = Some a \<and> pa_state a = PA_CAPTURED \<and>
     dget (pd_intents db) (pa_payment_intent_id a) = Some i \<and> pi_state i = PI_CANCELLED"
proof -
  note run = outcome_reachable [OF cancel_run_outcome]
  obtain a where "dget (pd_attempts (sample_payments cancel_run)) 200 = Some a" "pa_payment_intent_id a = 100"
    "pa_state a = PA_CAPTURED"
    using outcome_attempt [OF cancel_run_outcome, of 200] by auto
  moreover obtain i where "dget (pd_intents (sample_payments cancel_run)) 100 = Some i" "pi_state i = PI_CANCELLED"
    using outcome_intent [OF cancel_run_outcome, of 100] by auto
  ultimately show ?thesis using run(1) by (intro exI [of _ "sample_payments cancel_run"] exI [of _ 200]) auto
qed


lemma lineage_ok:
  "validate_authoritative_lineage calc jr ride payer fare = Inr (c, j) \<Longrightarrow>
   calc = Some c \<and> jr = Some j \<and> fc_state c \<in> {CS_FINAL_CALCULATED, CS_CORRECTED} \<and>
   fc_ride_id c = ride \<and> fc_rider_identity_id c = payer \<and> fc_calculation_id c = fare \<and>
   ft_fare_calculation_id (fc_financial_traceability c) = Some fare \<and>
   lj_business_event_id (jr_header j) = fare \<and> lt_active_ride_id (lj_traceability (jr_header j)) = ride \<and>
   ft_dispatch_handoff_id (fc_financial_traceability c) = Some (lt_dispatch_handoff_id (lj_traceability (jr_header j))) \<and>
   ft_assignment_id (fc_financial_traceability c) = Some (lt_assignment_id (lj_traceability (jr_header j)))"
  unfolding validate_authoritative_lineage_def by (elim ok_elims) auto

lemma participants_ok: "authorize_participants env s payer pas book third = Inr u \<Longrightarrow> fst s = payer"
  unfolding authorize_participants_def by (elim ok_elims) simp_all

lemma method_ok: "validate_or_select_payment_method env s m cash = Inr m' \<Longrightarrow> m' = m \<and> m \<noteq> PM_UNKNOWN"
  unfolding validate_or_select_payment_method_def by (elim ok_elims) simp_all

lemma identities_ok: "validate_identities i = Inr j \<Longrightarrow> j = i \<and> pi_payer_identity_id i = pi_rider_identity_id i"
  unfolding validate_identities_def by (elim ok_elims) simp_all

lemma create_intent_ok:
  "create_intent db i = Inr (db', j) \<Longrightarrow>
   j = i \<and> pi_currency i = ''ETB'' \<and> dget (pd_intents db) (pi_payment_intent_id i) = None \<and>
   dget (pd_intents db') (pi_payment_intent_id i) = Some i"
  unfolding create_intent_def by (elim ok_elims) auto

text \<open>An intent that creation adds is for the amount of the ride's finalized fare calculation: the caller pays
  as the rider of that calculation, the ride and the whole authority chain agree with the calculation and with
  the ledger journal posted for it, and the stored row is the returned intent.\<close>

theorem created_intent_matches_fare:
  assumes "create_payment_intent env db s q cid = Inr (db', i)" and "pd_intents db' \<noteq> pd_intents db"
  shows "\<exists>c j. pv_get_calculation env (iq_fare_calculation_id q) = Some c \<and>
    pv_get_journal env (iq_ledger_journal_id q) = Some j \<and>
    fc_state c \<in> {CS_FINAL_CALCULATED, CS_CORRECTED} \<and>
    pi_amount_minor i = fb_rider_total_minor (fc_breakdown c) \<and>
    pi_currency i = fb_currency (fc_breakdown c) \<and> pi_currency i = ''ETB'' \<and>
    pi_ride_id i = fc_ride_id c \<and> lt_active_ride_id (lj_traceability (jr_header j)) = fc_ride_id c \<and>
    fst s = pi_payer_identity_id i \<and> pi_payer_identity_id i = fc_rider_identity_id c \<and>
    lj_business_event_id (jr_header j) = py_fare_calculation_id (pi_traceability i) \<and>
    lt_assignment_id (lj_traceability (jr_header j)) = py_assignment_id (pi_traceability i) \<and>
    lt_dispatch_handoff_id (lj_traceability (jr_header j)) = py_dispatch_handoff_id (pi_traceability i) \<and>
    pi_payment_method_family i \<noteq> PM_UNKNOWN \<and>
    dget (pd_intents db) (pi_payment_intent_id i) = None \<and>
    dget (pd_intents db') (pi_payment_intent_id i) = Some i"
  using assms unfolding create_payment_intent_def
  apply (elim ok_elims)
  subgoal premises prems
    using prems(4-)
    by (auto dest!: lineage_ok participants_ok method_ok identities_ok create_intent_ok simp: payment_reserve_views)
  subgoal by (simp add: payment_reserve_views)
  done


lemma sample_intent_ok: "\<not> isl (create_payment_intent sample_env empty_payments rider (sample_request PM_CARD) 100)"
  by code_simp

theorem created_intent_matches_fare_witness:
  "\<exists>db i. create_payment_intent sample_env empty_payments rider (sample_request PM_CARD) 100 = Inr (db, i) \<and>
     pi_amount_minor i = fb_rider_total_minor (fc_breakdown sample_fare)"
proof -
  have ne: "pd_intents (fst (projr (create_payment_intent sample_env empty_payments rider (sample_request PM_CARD) 100))) \<noteq>
      pd_intents empty_payments" by code_simp
  obtain db i where run: "create_payment_intent sample_env empty_payments rider (sample_request PM_CARD) 100 = Inr (db, i)"
    using sample_intent_ok by (cases "create_payment_intent sample_env empty_payments rider (sample_request PM_CARD) 100") auto
  have "pv_get_calculation sample_env (iq_fare_calculation_id (sample_request PM_CARD)) = Some sample_fare" by code_simp
  then show ?thesis using created_intent_matches_fare [OF run] ne run by auto
qed

lemma payment_reserve_replay:
  assumes "payment_reserve_idempotency h db a oper k pl ref at = Inr (db1, r)"
    and "pd_idempotency db' = pd_idempotency db1"
  shows "payment_reserve_idempotency h db' a oper k pl ref' at' = Inr (db', r)"
    and "h pl' \<noteq> h pl \<Longrightarrow>
      payment_reserve_idempotency h db' a oper k pl' ref' at' = Inl (PaymentConflict ''idempotency_conflict'')"
proof -
  obtain table where t: "reserve_row (PaymentConflict ''idempotency_conflict'') (pd_idempotency db) (a, oper, k) (h pl) ref at =
      Inr (table, r)" and db': "pd_idempotency db' = table"
    using assms by (auto simp: payment_reserve_idempotency_def bind_result_eq_Inr)
  show "payment_reserve_idempotency h db' a oper k pl ref' at' = Inr (db', r)"
    using shared_table.replay_same_reference [OF t, of ref' at']
    by (simp add: payment_reserve_idempotency_def db' [symmetric])
  show "payment_reserve_idempotency h db' a oper k pl' ref' at' = Inl (PaymentConflict ''idempotency_conflict'')"
    if "h pl' \<noteq> h pl"
    using shared_table.replay_conflict [OF t that, of ref' at'] by (simp add: payment_reserve_idempotency_def db')
qed

lemma create_intent_idempotency: "create_intent db i = Inr (db', j) \<Longrightarrow> pd_idempotency db' = pd_idempotency db"
  unfolding create_intent_def by (elim ok_elims) auto

lemma create_payment_intent_reserved:
  assumes "create_payment_intent env db s q cid = Inr (db', i)"
  obtains db1 canonical u where "require_permission env s ''payment.intent.create'' = Inr u"
      "validate_idempotency_key (iq_idempotency_key q) = Inr u"
      "authorize_participants env s (iq_payer_identity_id q) (iq_passenger_identity_id q)
         (iq_booker_identity_id q) (iq_third_party_booking_authorized q) = Inr u"
      "validate_or_select_payment_method env s (iq_method q) True = Inr (iq_method q)"
      "payment_reserve_idempotency (pv_digest env) db (fst s) ''payment.intent.create''
         (iq_idempotency_key q) (intent_payload q) cid (instant_of (iq_at q)) = Inr (db1, canonical)"
      "pd_idempotency db' = pd_idempotency db1" "get_intent db' canonical = Some i"
  using assms unfolding create_payment_intent_def
  apply (elim ok_elims)
  subgoal premises prems for _ _ _ _ _ db1 canonical
    using prems(2-)
    by (intro prems(1) [of "()" db1 canonical])
      (auto simp: get_intent_def create_intent_idempotency dest: method_ok dest!: identities_ok dest: create_intent_ok)
  subgoal premises prems for _ _ _ _ _ db1 canonical
    using prems(2-)
    by (intro prems(1) [of "()" db1 canonical]) (auto dest: method_ok)
  done

text \<open>Creating an intent is idempotent: once it has succeeded, the same caller repeating the request under the
  same key, at any time and with any new candidate identifier, gets the same intent back and the database does
  not change; a request with another payload under that key is refused.\<close>

theorem create_payment_intent_idempotent:
  assumes "create_payment_intent env db s q cid = Inr (db', i)"
  shows "create_payment_intent env db' s (q\<lparr>iq_at := t, iq_metadata_safe := m\<rparr>) cid' = Inr (db', i) \<and>
    (iq_idempotency_key q' = iq_idempotency_key q \<longrightarrow>
     pv_digest env (intent_payload q') \<noteq> pv_digest env (intent_payload q) \<longrightarrow>
     (\<exists>e. create_payment_intent env db' s q' cid' = Inl e))"
proof (intro conjI impI)
  from assms obtain db1 canonical u where checks: "require_permission env s ''payment.intent.create'' = Inr u"
      "validate_idempotency_key (iq_idempotency_key q) = Inr u"
      "authorize_participants env s (iq_payer_identity_id q) (iq_passenger_identity_id q)
         (iq_booker_identity_id q) (iq_third_party_booking_authorized q) = Inr u"
      "validate_or_select_payment_method env s (iq_method q) True = Inr (iq_method q)"
    and reserved: "payment_reserve_idempotency (pv_digest env) db (fst s) ''payment.intent.create''
         (iq_idempotency_key q) (intent_payload q) cid (instant_of (iq_at q)) = Inr (db1, canonical)"
    and kept: "pd_idempotency db' = pd_idempotency db1" "get_intent db' canonical = Some i"
    by (rule create_payment_intent_reserved)
  show "create_payment_intent env db' s (q\<lparr>iq_at := t, iq_metadata_safe := m\<rparr>) cid' = Inr (db', i)"
    using checks kept(2) payment_reserve_replay(1) [OF reserved kept(1)]
    by (simp add: create_payment_intent_def intent_payload_def)
  assume "iq_idempotency_key q' = iq_idempotency_key q"
    and "pv_digest env (intent_payload q') \<noteq> pv_digest env (intent_payload q)"
  with payment_reserve_replay(2) [OF reserved kept(1)] show "\<exists>e. create_payment_intent env db' s q' cid' = Inl e"
    unfolding create_payment_intent_def by (auto simp: bind_result_def split: sum.splits)
qed

theorem create_payment_intent_idempotent_witness:
  "\<exists>db i. create_payment_intent sample_env empty_payments rider (sample_request PM_CARD) 100 = Inr (db, i) \<and>
     create_payment_intent sample_env db rider ((sample_request PM_CARD)\<lparr>iq_at := Aware 9000, iq_metadata_safe := []\<rparr>) 101 =
       Inr (db, i)"
proof -
  obtain db i where "create_payment_intent sample_env empty_payments rider (sample_request PM_CARD) 100 = Inr (db, i)"
    using sample_intent_ok by (cases "create_payment_intent sample_env empty_payments rider (sample_request PM_CARD) 100") auto
  with create_payment_intent_idempotent [OF this] show ?thesis by blast
qed

end
