(* ===== verification/Refund_Props.thy ===== *)
theory Refund_Props
  imports Refund Payment_Props
begin

text \<open>
  Payments and refunds running side by side: what a refund request is backed by in every state the two
  services can reach together, and who has authorized it.
\<close>

section \<open>The two services together\<close>

definition empty_refunds :: refund_db where
  "empty_refunds = \<lparr>rf_requests = [], rf_decisions = [], rf_authorizations = [], rf_evidence = [],
     rf_idempotency = [], rf_events = [], rf_outbox = []\<rparr>"

inductive refund_step :: "payment_db \<Rightarrow> refund_db \<Rightarrow> refund_db \<Rightarrow> bool" for pay where
  request: "request_refund env pay db s q cid did = Inr (db', r) \<Longrightarrow> refund_step pay db db'"
| review: "review_request env db s k rc key c at did = Inr (db', r) \<Longrightarrow> refund_step pay db db'"
| investigate: "investigate_request env db s k rc et er key c at eid did = Inr db' \<Longrightarrow> refund_step pay db db'"
| approve: "approve_request env db s k rc key c at aid did = Inr (db', r) \<Longrightarrow> refund_step pay db db'"
| schedule: "schedule_request env db s k rc key c at did = Inr (db', r) \<Longrightarrow> refund_step pay db db'"
| complete: "complete_request env db s k rc key c at did = Inr (db', r) \<Longrightarrow> refund_step pay db db'"
| reject: "reject_request env db s k rc key c at did = Inr (db', r) \<Longrightarrow> refund_step pay db db'"

inductive finance_step :: "payment_db \<times> refund_db \<Rightarrow> payment_db \<times> refund_db \<Rightarrow> bool" where
  pay_moves: "payment_step pay pay' \<Longrightarrow> finance_step (pay, db) (pay', db)"
| refund_moves: "refund_step pay db db' \<Longrightarrow> finance_step (pay, db) (pay, db')"

inductive_cases finance_stepE: "finance_step (pay, db) (pay', db')"

abbreviation finance_reachable :: "payment_db \<Rightarrow> refund_db \<Rightarrow> bool" where
  "finance_reachable pay db \<equiv> finance_step\<^sup>*\<^sup>* (empty_payments, empty_refunds) (pay, db)"

section \<open>Intents keep their identity\<close>

definition intent_follows :: "payment_intent \<Rightarrow> payment_intent \<Rightarrow> bool" where
  "intent_follows i j \<longleftrightarrow>
     pi_payment_intent_id j = pi_payment_intent_id i \<and> pi_ride_id j = pi_ride_id i \<and>
     pi_rider_identity_id j = pi_rider_identity_id i \<and> pi_amount_minor j = pi_amount_minor i \<and>
     pi_currency j = pi_currency i \<and> pi_traceability j = pi_traceability i"

lemma intent_follows_refl: "intent_follows i i"
  by (simp add: intent_follows_def)

lemma transition_intent_follows:
  assumes "transition_intent db k t at c d rc = Inr (db', j)" and "dget (pd_intents db) l = Some x"
  shows "\<exists>y. dget (pd_intents db') l = Some y \<and> intent_follows x y"
  using assms unfolding transition_intent_def
  by (elim ok_elims) (auto simp: get_intent_def intent_follows_def)

lemma transition_attempt_intents:
  "transition_attempt db k t at rc c d ev = Inr (db', b) \<Longrightarrow> pd_intents db' = pd_intents db"
  by (elim transition_attempt_Inr) simp

lemma create_attempt_intents: "create_attempt db a = Inr (db', b) \<Longrightarrow> pd_intents db' = pd_intents db"
  unfolding create_attempt_def by (elim ok_elims) auto

lemma create_intent_keeps:
  assumes "create_intent db i = Inr (db', j)" and "dget (pd_intents db) l = Some x"
  shows "dget (pd_intents db') l = Some x"
  using assms unfolding create_intent_def by (elim ok_elims) auto

lemma payment_step_intents:
  assumes "payment_step db db'" and "dget (pd_intents db) k = Some i"
  shows "\<exists>j. dget (pd_intents db') k = Some j \<and> intent_follows i j"
  using assms
proof (induction rule: payment_step.induct)
  case (intent_step env db s q cid db' i')
  from intent_step.hyps show ?case
    by (elim create_payment_intent_view) (metis intent_follows_refl intent_step.prems create_intent_keeps)+
next
  case (attempt_step env db s k' pc pr key c d at cid db' a')
  from attempt_step.hyps show ?case
    by (elim create_payment_attempt_view)
      (metis intent_follows_refl attempt_step.prems create_attempt_intents)+
next
  case (submit_step env db s k' key c at db' a')
  from submit_step.hyps show ?case
    by (elim submit_view) (metis transition_attempt_intents intent_follows_refl submit_step.prems)
next
  case (callback_step env w db s cq cid db' a')
  from callback_step.hyps show ?case
    by (elim callback_view) (metis transition_attempt_intents intent_follows_refl callback_step.prems)
next
  case (expire_step env db s k' rc c at db' i')
  then show ?case using intent_move_view transition_intent_follows by metis
next
  case (cancel_step env db s k' rc c at db' i')
  then show ?case using intent_move_view transition_intent_follows by metis
next
  case (reconcile_step env db s k' rc c at db' a')
  then show ?case
    unfolding mark_reconciliation_required_def
    by (elim ok_elims) (metis transition_attempt_intents intent_follows_refl)
qed

section \<open>The invariant\<close>

definition refund_backed :: "payment_db \<Rightarrow> refund_request \<Rightarrow> bool" where
  "refund_backed pay r \<longleftrightarrow>
     (\<exists>a. dget (pd_attempts pay) (rr_payment_attempt_id r) = Some a \<and> pa_state a = PA_CAPTURED \<and>
        pa_payment_intent_id a = rr_payment_intent_id r \<and>
        0 \<le> rr_amount_minor r \<and> rr_amount_minor r \<le> pa_amount_minor a \<and> rr_currency r = pa_currency a \<and>
        (rr_refund_type r = RT_FULL_REFUND \<longrightarrow> rr_amount_minor r = pa_amount_minor a) \<and>
        (rr_refund_type r = RT_PARTIAL_REFUND \<longrightarrow> 0 < rr_amount_minor r \<and> rr_amount_minor r < pa_amount_minor a)) \<and>
     (\<exists>i. dget (pd_intents pay) (rr_payment_intent_id r) = Some i \<and>
        pi_rider_identity_id i = rr_requested_by_identity_id r \<and> pi_ride_id i = rr_ride_id r)"

definition refund_signed :: "refund_db \<Rightarrow> refund_request \<Rightarrow> bool" where
  "refund_signed db r \<longleftrightarrow>
     (rr_state r \<in> {RR_APPROVED, RR_SCHEDULED, RR_COMPLETED} \<longrightarrow>
        (\<exists>k a. dget (rf_authorizations db) k = Some a \<and> ra_refund_request_id a = rr_refund_request_id r \<and>
           ra_authority_permission a = ''refund.approve'')) \<and>
     (rr_state r = RR_COMPLETED \<longleftrightarrow> rr_completed_at r \<noteq> None) \<and>
     (rr_state r = RR_REJECTED \<longleftrightarrow> rr_rejected_at r \<noteq> None)"

definition refund_inv :: "payment_db \<Rightarrow> refund_db \<Rightarrow> bool" where
  "refund_inv pay db \<longleftrightarrow>
     (\<forall>k r. dget (rf_requests db) k = Some r \<longrightarrow>
        rr_refund_request_id r = k \<and> refund_backed pay r \<and> refund_signed db r)"

lemma refund_invD:
  assumes "refund_inv pay db" and "dget (rf_requests db) k = Some r"
  shows "rr_refund_request_id r = k" and "refund_backed pay r" and "refund_signed db r"
  using assms unfolding refund_inv_def by blast+

lemma refund_backed_mono:
  assumes "refund_backed pay r" and "payment_step pay pay'"
  shows "refund_backed pay' r"
proof -
  obtain a where a: "dget (pd_attempts pay) (rr_payment_attempt_id r) = Some a" "pa_state a = PA_CAPTURED"
    and amount: "pa_payment_intent_id a = rr_payment_intent_id r" "0 \<le> rr_amount_minor r" "rr_amount_minor r \<le> pa_amount_minor a"
      "rr_currency r = pa_currency a" "rr_refund_type r = RT_FULL_REFUND \<longrightarrow> rr_amount_minor r = pa_amount_minor a"
      "rr_refund_type r = RT_PARTIAL_REFUND \<longrightarrow> 0 < rr_amount_minor r \<and> rr_amount_minor r < pa_amount_minor a"
    using assms(1) unfolding refund_backed_def by blast
  obtain i where i: "dget (pd_intents pay) (rr_payment_intent_id r) = Some i"
      "pi_rider_identity_id i = rr_requested_by_identity_id r" "pi_ride_id i = rr_ride_id r"
    using assms(1) unfolding refund_backed_def by blast
  obtain b where b: "dget (pd_attempts pay') (rr_payment_attempt_id r) = Some b" "attempt_follows a b"
    using payment_step_follows [OF assms(2) a(1)] by blast
  obtain j where j: "dget (pd_intents pay') (rr_payment_intent_id r) = Some j" "intent_follows i j"
    using payment_step_intents [OF assms(2) i(1)] by blast
  have "pa_state b = PA_CAPTURED"
    using b(2) a(2) payment_attempt.terminal_absorbing [of "pa_state a" "pa_state b"]
    by (auto simp: attempt_follows_def attempt_is_terminal_def)
  then show ?thesis
    using amount i b j unfolding refund_backed_def attempt_follows_def intent_follows_def by simp
qed

lemma refund_signed_mono:
  assumes "refund_signed db r" and "\<And>k a. dget (rf_authorizations db) k = Some a \<Longrightarrow> dget (rf_authorizations db') k = Some a"
  shows "refund_signed db' r"
  using assms unfolding refund_signed_def by blast

lemma refund_inv_requests_same:
  assumes "refund_inv pay db" and "rf_requests db' = rf_requests db"
    and "\<And>k a. dget (rf_authorizations db) k = Some a \<Longrightarrow> dget (rf_authorizations db') k = Some a"
  shows "refund_inv pay db'"
  using assms refund_signed_mono unfolding refund_inv_def by metis


section \<open>Every step keeps the invariant\<close>

lemma refund_reserve_views:
  assumes "refund_reserve_idempotency h db s oper key pl ref at = Inr (db', r)"
  shows "rf_requests db' = rf_requests db" and "rf_authorizations db' = rf_authorizations db"
  using assms by (auto simp: refund_reserve_idempotency_def bind_result_eq_Inr)

lemma refund_event_append_simps [simp]:
  "rf_requests (refund_event_append k et at c d pl db) = rf_requests db"
  "rf_authorizations (refund_event_append k et at c d pl db) = rf_authorizations db"
  "rf_decisions (refund_event_append k et at c d pl db) = rf_decisions db"
  "rf_idempotency (refund_event_append k et at c d pl db) = rf_idempotency db"
  by (simp_all add: refund_event_append_def)

lemma record_decision_ok:
  assumes "record_decision db did k ty oc actor rc at c d = Inr db'"
  shows "rf_requests db' = rf_requests db" and "rf_authorizations db' = rf_authorizations db"
  using assms unfolding record_decision_def append_decision_def by (elim ok_elims; auto)+

lemma append_authorization_ok:
  assumes "append_authorization db a = Inr db'"
  shows "rf_requests db' = rf_requests db"
    and "dget (rf_authorizations db) k = Some x \<Longrightarrow> dget (rf_authorizations db') k = Some x"
    and "dget (rf_authorizations db') (ra_authorization_id a) = Some a"
  using assms unfolding append_authorization_def by (elim ok_elims; auto)+

lemma append_evidence_ok:
  assumes "append_evidence db e = Inr db'"
  shows "rf_requests db' = rf_requests db" and "rf_authorizations db' = rf_authorizations db"
  using assms unfolding append_evidence_def by (elim ok_elims; auto)+

lemma reserve_and_transition_ok:
  assumes "reserve_and_transition env db s oper t k rc key c at = Inr (db', r')"
  obtains r where "dget (rf_requests db) k = Some r"
    and "t = rr_state r \<or> allows ALLOWED_REQUEST_TRANSITIONS (rr_state r) t"
    and "r' = r\<lparr>rr_state := t, rr_last_transition_at := instant_of at,
      rr_completed_at := (if t = RR_COMPLETED then Some (instant_of at) else rr_completed_at r),
      rr_rejected_at := (if t = RR_REJECTED then Some (instant_of at) else rr_rejected_at r)\<rparr>"
    and "rf_requests db' = dset k r' (rf_requests db)" and "rf_authorizations db' = rf_authorizations db"
  using assms unfolding reserve_and_transition_def transition_request_def
  apply (elim ok_elims)
  subgoal premises prems for _ _ _ _ r
    using prems(3-)
    by (intro prems(1) [of r]) (auto simp: get_request_def refund_reserve_views refund_request.guard_ok)
  done

lemma refund_moved_inv:
  assumes inv: "refund_inv pay db"
    and moved: "reserve_and_transition env db s oper t k rc key c at = Inr (db1, r')"
    and same: "rf_requests db' = rf_requests db1"
    and mono: "\<And>k a. dget (rf_authorizations db1) k = Some a \<Longrightarrow> dget (rf_authorizations db') k = Some a"
    and approved: "t = RR_APPROVED \<Longrightarrow> \<exists>l a. dget (rf_authorizations db') l = Some a \<and> ra_refund_request_id a = k \<and>
           ra_authority_permission a = ''refund.approve''"
  shows "refund_inv pay db'"
  using moved
proof (rule reserve_and_transition_ok)
  fix r
  assume r: "dget (rf_requests db) k = Some r"
    and step: "t = rr_state r \<or> allows ALLOWED_REQUEST_TRANSITIONS (rr_state r) t"
    and r': "r' = r\<lparr>rr_state := t, rr_last_transition_at := instant_of at,
      rr_completed_at := (if t = RR_COMPLETED then Some (instant_of at) else rr_completed_at r),
      rr_rejected_at := (if t = RR_REJECTED then Some (instant_of at) else rr_rejected_at r)\<rparr>"
    and db1: "rf_requests db1 = dset k r' (rf_requests db)" "rf_authorizations db1 = rf_authorizations db"
  have mono': "\<And>k a. dget (rf_authorizations db) k = Some a \<Longrightarrow> dget (rf_authorizations db') k = Some a"
    using mono db1(2) by simp
  have backed: "refund_backed pay r'" using refund_invD(2) [OF inv r] by (simp add: r' refund_backed_def)
  have "refund_signed db' r" using refund_signed_mono refund_invD(3) [OF inv r] mono' by blast
  then have sign: "refund_signed db' r'"
    using step approved refund_invD(1) [OF inv r]
    by (cases "rr_state r"; cases t) (auto simp: r' refund_signed_def allows_def)
  show ?thesis
    unfolding refund_inv_def
  proof (intro allI impI)
    fix l x
    assume "dget (rf_requests db') l = Some x"
    then have x: "dget (dset k r' (rf_requests db)) l = Some x" by (simp add: same db1)
    show "rr_refund_request_id x = l \<and> refund_backed pay x \<and> refund_signed db' x"
    proof (cases "l = k")
      case True
      then have "x = r'" using x by simp
      moreover have "rr_refund_request_id r' = k" using refund_invD(1) [OF inv r] by (simp add: r')
      ultimately show ?thesis using True backed sign by simp
    next
      case False
      then have "dget (rf_requests db) l = Some x" using x by simp
      then show ?thesis using refund_invD [OF inv] refund_signed_mono [OF _ mono'] by blast
    qed
  qed
qed

lemma valid_refund_request_same: "valid_refund_request r = Inr r' \<Longrightarrow> r' = r"
  unfolding valid_refund_request_def by (elim ok_elims) simp_all

lemma create_request_ok:
  "create_request db r = Inr (db', r') \<Longrightarrow> r' = r \<and> dget (rf_requests db) (rr_refund_request_id r) = None \<and>
     rf_requests db' = dset (rr_refund_request_id r) r (rf_requests db) \<and>
     rf_authorizations db' = rf_authorizations db \<and> rr_state r = RR_REQUESTED"
  unfolding create_request_def by (elim ok_elims) auto

lemma refund_linkage_ok:
  "refund_linkage env pay s q = Inr (i, a) \<Longrightarrow>
     dget (pd_intents pay) (rq_payment_intent_id q) = Some i \<and> dget (pd_attempts pay) (rq_payment_attempt_id q) = Some a \<and>
     pa_payment_intent_id a = pi_payment_intent_id i \<and> pa_state a = PA_CAPTURED \<and> pi_ride_id i = rq_ride_id q \<and>
     pi_rider_identity_id i = fst s"
  unfolding refund_linkage_def by (elim ok_elims) (simp_all add: get_intent_def get_attempt_def)

lemma validate_request_amount_ok:
  "validate_request_amount ty n m = Inr u \<Longrightarrow> 0 \<le> n \<and> n \<le> m \<and> (ty = RT_FULL_REFUND \<longrightarrow> n = m) \<and>
     (ty = RT_PARTIAL_REFUND \<longrightarrow> 0 < n \<and> n < m)"
  unfolding validate_request_amount_def by (elim ok_elims) auto

lemma new_refund_request_fields [simp]:
  "rr_refund_request_id (new_refund_request k s q i a) = k"
  "rr_payment_intent_id (new_refund_request k s q i a) = rq_payment_intent_id q"
  "rr_payment_attempt_id (new_refund_request k s q i a) = rq_payment_attempt_id q"
  "rr_ride_id (new_refund_request k s q i a) = rq_ride_id q"
  "rr_requested_by_identity_id (new_refund_request k s q i a) = fst s"
  "rr_currency (new_refund_request k s q i a) = pa_currency a"
  "rr_amount_minor (new_refund_request k s q i a) = rq_amount_minor q"
  "rr_refund_type (new_refund_request k s q i a) = rq_refund_type q"
  "rr_state (new_refund_request k s q i a) = RR_REQUESTED"
  "rr_completed_at (new_refund_request k s q i a) = None"
  "rr_rejected_at (new_refund_request k s q i a) = None"
  by (simp_all add: new_refund_request_def)

lemma request_refund_view:
  assumes "request_refund env pay db s q cid did = Inr (db', r)"
  obtains (seen) "rf_requests db' = rf_requests db" "rf_authorizations db' = rf_authorizations db"
  | (made) i a where "dget (pd_intents pay) (rr_payment_intent_id r) = Some i"
      "dget (pd_attempts pay) (rr_payment_attempt_id r) = Some a" "pa_payment_intent_id a = pi_payment_intent_id i"
      "pa_state a = PA_CAPTURED" "pi_ride_id i = rr_ride_id r" "pi_rider_identity_id i = rr_requested_by_identity_id r"
      "rr_currency r = pa_currency a" "0 \<le> rr_amount_minor r" "rr_amount_minor r \<le> pa_amount_minor a"
      "rr_refund_type r = RT_FULL_REFUND \<longrightarrow> rr_amount_minor r = pa_amount_minor a"
      "rr_refund_type r = RT_PARTIAL_REFUND \<longrightarrow> 0 < rr_amount_minor r \<and> rr_amount_minor r < pa_amount_minor a"
      "rr_state r = RR_REQUESTED" "rr_completed_at r = None" "rr_rejected_at r = None"
      "dget (rf_requests db) (rr_refund_request_id r) = None"
      "rf_requests db' = dset (rr_refund_request_id r) r (rf_requests db)"
      "rf_authorizations db' = rf_authorizations db"
  using assms unfolding request_refund_def
  apply (elim ok_elims)
  subgoal premises prems for _ _ _ _ db1 canonical _ i a
  proof -
    note link = refund_linkage_ok [OF prems(9) [unfolded prems(10)]]
    note sum = validate_request_amount_ok [OF prems(11)]
    have r: "r = new_refund_request canonical s q i a"
      and db': "dget (rf_requests db) canonical = None"
        "rf_requests db' = dset canonical r (rf_requests db)" "rf_authorizations db' = rf_authorizations db"
      using valid_refund_request_same [OF prems(13)] create_request_ok [OF prems(14) [unfolded prems(15)]]
        refund_reserve_views [OF prems(6) [unfolded prems(7)]] record_decision_ok [OF prems(16)] prems(17,18)
      by simp_all
    show thesis using link sum by (intro made [of i a]) (simp_all add: db' r)
  qed
  subgoal by (rule seen) (simp_all add: refund_reserve_views)
  done


lemma request_refund_inv:
  assumes "payment_inv pay" and inv: "refund_inv pay db" and req: "request_refund env pay db s q cid did = Inr (db', r)"
  shows "refund_inv pay db'"
  using req
proof (cases rule: request_refund_view)
  case seen
  then show ?thesis using refund_inv_requests_same [OF inv] by simp
next
  case (made i a)
  have "pi_payment_intent_id i = rr_payment_intent_id r" using payment_invD(1) [OF assms(1) made(1)] .
  then have "refund_backed pay r" using made unfolding refund_backed_def by simp
  moreover have "refund_signed db' r" using made by (simp add: refund_signed_def)
  ultimately show ?thesis
    using refund_invD [OF inv] refund_signed_mono [of db _ db'] made(17)
    unfolding refund_inv_def made(16) by (metis dget_dset option.inject)
qed

lemma refund_step_inv:
  assumes "refund_step pay db db'" and "payment_inv pay" and "refund_inv pay db"
  shows "refund_inv pay db'"
  using assms
proof (induction rule: refund_step.induct)
  case (request env db s q cid did db' r)
  then show ?case using request_refund_inv by blast
next
  case (review env db s k rc key c at did db' r)
  from review.hyps review.prems(2) show ?case
    unfolding review_request_def
    by (elim ok_elims) (clarify, rule refund_moved_inv, assumption, assumption, simp_all add: record_decision_ok)
next
  case (investigate env db s k rc et er key c at eid did db')
  from investigate.hyps investigate.prems(2) show ?case
    unfolding investigate_request_def
    by (elim ok_elims)
      (erule refund_inv_requests_same; simp add: record_decision_ok append_evidence_ok refund_reserve_views)
next
  case (approve env db s k rc key c at aid did db' r)
  from approve.hyps approve.prems(2) show ?case
    unfolding approve_request_def
    apply (elim ok_elims)
    apply clarify
    apply (rule refund_moved_inv, assumption, assumption)
    subgoal by (simp add: record_decision_ok append_authorization_ok(1))
    subgoal by (simp add: record_decision_ok append_authorization_ok(2))
    subgoal by (drule append_authorization_ok(3)) (fastforce simp: record_decision_ok)
    done
next
  case (schedule env db s k rc key c at did db' r)
  from schedule.hyps schedule.prems(2) show ?case
    unfolding schedule_request_def
    by (elim ok_elims) (clarify, rule refund_moved_inv, assumption, assumption, simp_all add: record_decision_ok)
next
  case (complete env db s k rc key c at did db' r)
  from complete.hyps complete.prems(2) show ?case
    unfolding complete_request_def
    by (elim ok_elims) (clarify, rule refund_moved_inv, assumption, assumption, simp_all add: record_decision_ok)
next
  case (reject env db s k rc key c at did db' r)
  from reject.hyps reject.prems(2) show ?case
    unfolding reject_request_def
    by (elim ok_elims) (clarify, rule refund_moved_inv, assumption, assumption, simp_all add: record_decision_ok)
qed

lemma finance_reachable_inv:
  assumes "finance_reachable pay db"
  shows "payment_reachable pay" and "payment_inv pay" and "refund_inv pay db"
proof -
  have "payment_reachable (fst x) \<and> refund_inv (fst x) (snd x)" if "finance_step\<^sup>*\<^sup>* (empty_payments, empty_refunds) x" for x
    using that
  proof (induction rule: rtranclp_induct)
    case base
    show ?case by (simp add: refund_inv_def empty_refunds_def)
  next
    case (step y z)
    from step.hyps(2) step.IH show ?case
    proof (cases rule: finance_step.cases)
      case (pay_moves pay pay' db)
      with step.IH show ?thesis
        unfolding refund_inv_def by (auto intro: rtranclp.rtrancl_into_rtrancl refund_backed_mono)
    next
      case (refund_moves pay db db')
      with step.IH show ?thesis using refund_step_inv payment_reachable_inv by auto
    qed
  qed
  from this [OF assms] show "payment_reachable pay" and "refund_inv pay db" by simp_all
  then show "payment_inv pay" using payment_reachable_inv by blast
qed


section \<open>Scripts of both services\<close>

datatype finance_call =
    Pay payment_call
  | RequestRefund subject refund_order uuid uuid
  | Review subject uuid string py_datetime uuid
  | Approve subject uuid string py_datetime uuid uuid
  | Schedule subject uuid string py_datetime uuid
  | Complete subject uuid string py_datetime uuid
  | Reject subject uuid string py_datetime uuid

fun run_call :: "payment_env \<Rightarrow> finance_call \<Rightarrow> payment_db \<times> refund_db \<Rightarrow> (payment_db \<times> refund_db) result" where
  "run_call env (Pay c) (pay, db) = bind_result (call env c pay) (\<lambda>pay'. Inr (pay', db))"
| "run_call env (RequestRefund s q cid did) (pay, db) =
     bind_result (request_refund env pay db s q cid did) (\<lambda>(db', _). Inr (pay, db'))"
| "run_call env (Review s k key at did) (pay, db) =
     bind_result (review_request env db s k ''refund.step'' key k at did) (\<lambda>(db', _). Inr (pay, db'))"
| "run_call env (Approve s k key at aid did) (pay, db) =
     bind_result (approve_request env db s k ''refund.step'' key k at aid did) (\<lambda>(db', _). Inr (pay, db'))"
| "run_call env (Schedule s k key at did) (pay, db) =
     bind_result (schedule_request env db s k ''refund.step'' key k at did) (\<lambda>(db', _). Inr (pay, db'))"
| "run_call env (Complete s k key at did) (pay, db) =
     bind_result (complete_request env db s k ''refund.step'' key k at did) (\<lambda>(db', _). Inr (pay, db'))"
| "run_call env (Reject s k key at did) (pay, db) =
     bind_result (reject_request env db s k ''refund.step'' key k at did) (\<lambda>(db', _). Inr (pay, db'))"

fun run_calls :: "payment_env \<Rightarrow> finance_call list \<Rightarrow> payment_db \<times> refund_db \<Rightarrow> (payment_db \<times> refund_db) result" where
  "run_calls env [] x = Inr x"
| "run_calls env (c # cs) x = bind_result (run_call env c x) (run_calls env cs)"

lemma run_call_step: "run_call env c x = Inr y \<Longrightarrow> finance_step x y"
  by (cases x; cases c)
    (auto simp: bind_result_eq_Inr intro: finance_step.intros refund_step.intros call_step)

lemma run_calls_steps: "run_calls env cs x = Inr y \<Longrightarrow> finance_step\<^sup>*\<^sup>* x y"
proof (induction cs arbitrary: x)
  case Nil
  then show ?case by simp
next
  case (Cons c cs)
  then show ?case
    unfolding run_calls.simps(2) bind_result_eq_Inr
    by (blast intro: converse_rtranclp_into_rtranclp run_call_step)
qed

abbreviation clerk :: subject where "clerk \<equiv> (7, ID_STAFF)"

definition sample_refund :: "string \<Rightarrow> refund_order" where
  "sample_refund key = \<lparr>rq_ride_id = 60, rq_fare_calculation_id = 70, rq_payment_intent_id = 100,
     rq_payment_attempt_id = 200, rq_ledger_journal_id = 80, rq_refund_type = RT_FULL_REFUND,
     rq_amount_minor = fb_rider_total_minor (fc_breakdown sample_fare), rq_reason_code = ''ride.disputed'',
     rq_idempotency_key = key, rq_correlation_id = 91, rq_causation_id = 92, rq_at = Aware 5000,
     rq_metadata_safe = []\<rparr>"

definition quick_run :: "payment_call list" where
  "quick_run = [CreateIntent rider (sample_request PM_CARD) 100,
     CreateAttempt rider 100 ''provider'' ''ref'' ''attempt-key-0001'' (Aware 2500) 200,
     Reconcile clerk 200 ''provider.timeout'' (Aware 2600),
     Callback gateway (sample_callback 200 ''captured'' ''ev1'' ''captured-key-001'') 201]"

definition refund_fully :: "uuid \<Rightarrow> string \<Rightarrow> finance_call list" where
  "refund_fully k n =
     [RequestRefund rider (sample_refund (''ref-key-of-request-'' @ n)) k (k + 1),
      Review clerk k (''rev-key-of-request-'' @ n) (Aware 5100) (k + 2),
      Approve clerk k (''app-key-of-request-'' @ n) (Aware 5200) (k + 3) (k + 4),
      Schedule clerk k (''sch-key-of-request-'' @ n) (Aware 5300) (k + 5),
      Complete gateway k (''com-key-of-request-'' @ n) (Aware 5400) (k + 6)]"

definition sample_finance :: "finance_call list \<Rightarrow> payment_db \<times> refund_db" where
  "sample_finance cs = projr (run_calls sample_env (map Pay quick_run @ cs) (empty_payments, empty_refunds))"

definition refund_rows :: "refund_db \<Rightarrow> (uuid \<times> uuid \<times> refund_request_state \<times> minor) list" where
  "refund_rows db = map (\<lambda>(k, r). (k, rr_payment_attempt_id r, rr_state r, rr_amount_minor r)) (rf_requests db)"

definition capture_rows :: "payment_db \<Rightarrow> (uuid \<times> minor) list" where
  "capture_rows pay = map (\<lambda>(k, a). (k, pa_amount_minor a)) (filter (\<lambda>(k, a). pa_state a = PA_CAPTURED) (pd_attempts pay))"

definition refund_outcome :: "finance_call list \<Rightarrow>
    ((uuid \<times> minor) list \<times> (uuid \<times> uuid \<times> refund_request_state \<times> minor) list \<times> nat) result" where
  "refund_outcome cs =
     bind_result (run_calls sample_env (map Pay quick_run @ cs) (empty_payments, empty_refunds))
       (\<lambda>(pay, db). Inr (capture_rows pay, refund_rows db, length (rf_authorizations db)))"

lemma refund_outcome_reachable:
  assumes "refund_outcome cs = Inr (as, rs, n)"
  shows "finance_reachable (fst (sample_finance cs)) (snd (sample_finance cs))"
    and "capture_rows (fst (sample_finance cs)) = as" and "refund_rows (snd (sample_finance cs)) = rs"
  using assms run_calls_steps [of sample_env "map Pay quick_run @ cs"]
  by (auto simp: refund_outcome_def bind_result_eq_Inr sample_finance_def)

lemma refund_outcome_request:
  assumes "refund_outcome cs = Inr (as, rs, n)" and "dget rs k = Some (a, st, m)"
  obtains r where "dget (rf_requests (snd (sample_finance cs))) k = Some r" "rr_payment_attempt_id r = a"
    "rr_state r = st" "rr_amount_minor r = m"
  using assms(2) refund_outcome_reachable(3) [OF assms(1)] by (auto simp: refund_rows_def map_of_map)

lemma refund_once_outcome:
  "refund_outcome (refund_fully 400 ''1'') =
     Inr ([(200, fb_rider_total_minor (fc_breakdown sample_fare))], [(400, 200, RR_COMPLETED, fb_rider_total_minor (fc_breakdown sample_fare))], 1)"
  by code_simp

lemma refund_twice_outcome:
  "refund_outcome (take 3 (refund_fully 400 ''1'') @ take 3 (refund_fully 500 ''2'')) =
     Inr ([(200, fb_rider_total_minor (fc_breakdown sample_fare))],
       [(400, 200, RR_APPROVED, fb_rider_total_minor (fc_breakdown sample_fare)),
        (500, 200, RR_APPROVED, fb_rider_total_minor (fc_breakdown sample_fare))], 2)"
  by code_simp

section \<open>Properties\<close>

text \<open>C14: However payments and refunds interleave, every refund request is backed by a captured attempt of the
  requesting rider's own intent for that ride: the amount is between zero and the captured amount, equal to it
  for a full refund and strictly inside for a partial one, in the same currency.\<close>

theorem refunds_backed_by_capture:
  assumes "finance_reachable pay db" and "dget (rf_requests db) k = Some r"
  shows "\<exists>a i. dget (pd_attempts pay) (rr_payment_attempt_id r) = Some a \<and> pa_state a = PA_CAPTURED \<and>
    dget (pd_intents pay) (pa_payment_intent_id a) = Some i \<and>
    pi_rider_identity_id i = rr_requested_by_identity_id r \<and> pi_ride_id i = rr_ride_id r \<and>
    0 \<le> rr_amount_minor r \<and> rr_amount_minor r \<le> pa_amount_minor a \<and> rr_currency r = pa_currency a \<and>
    (rr_refund_type r = RT_FULL_REFUND \<longrightarrow> rr_amount_minor r = pa_amount_minor a) \<and>
    (rr_refund_type r = RT_PARTIAL_REFUND \<longrightarrow> 0 < rr_amount_minor r \<and> rr_amount_minor r < pa_amount_minor a)"
proof -
  have "refund_backed pay r" using refund_invD(2) [OF finance_reachable_inv(3) [OF assms(1)] assms(2)] .
  then show ?thesis unfolding refund_backed_def by fastforce
qed

theorem refunds_backed_by_capture_witness:
  "\<exists>r a. dget (rf_requests (snd (sample_finance (refund_fully 400 ''1'')))) 400 = Some r \<and>
     dget (pd_attempts (fst (sample_finance (refund_fully 400 ''1'')))) (rr_payment_attempt_id r) = Some a \<and>
     rr_state r = RR_COMPLETED \<and> pa_state a = PA_CAPTURED \<and> rr_amount_minor r \<le> pa_amount_minor a"
proof -
  obtain r where "dget (rf_requests (snd (sample_finance (refund_fully 400 ''1'')))) 400 = Some r"
    "rr_state r = RR_COMPLETED" using refund_outcome_request [OF refund_once_outcome, of 400] by auto
  with refunds_backed_by_capture [OF refund_outcome_reachable(1) [OF refund_once_outcome] this(1)] show ?thesis
    by auto
qed

text \<open>C15: A refund is approved, scheduled or completed only with a finance authorization for that request on file;
  it carries a completion time exactly when it is completed and a rejection time exactly when it is rejected.\<close>

theorem refunds_authorized:
  assumes "finance_reachable pay db" and "dget (rf_requests db) k = Some r"
  shows "(rr_state r \<in> {RR_APPROVED, RR_SCHEDULED, RR_COMPLETED} \<longrightarrow>
      (\<exists>l a. dget (rf_authorizations db) l = Some a \<and> ra_refund_request_id a = k \<and>
         ra_authority_permission a = ''refund.approve'')) \<and>
    (rr_state r = RR_COMPLETED \<longleftrightarrow> rr_completed_at r \<noteq> None) \<and>
    (rr_state r = RR_REJECTED \<longleftrightarrow> rr_rejected_at r \<noteq> None)"
  using refund_invD [OF finance_reachable_inv(3) [OF assms(1)] assms(2)]
  unfolding refund_signed_def by simp

theorem refunds_authorized_witness:
  "\<exists>l a. dget (rf_authorizations (snd (sample_finance (refund_fully 400 ''1'')))) l = Some a \<and>
     ra_refund_request_id a = 400"
proof -
  obtain r where "dget (rf_requests (snd (sample_finance (refund_fully 400 ''1'')))) 400 = Some r"
    "rr_state r = RR_COMPLETED" using refund_outcome_request [OF refund_once_outcome, of 400] by auto
  with refunds_authorized [OF refund_outcome_reachable(1) [OF refund_once_outcome] this(1)] show ?thesis by auto
qed

text \<open>
  Behaviours of the refund workflow that its invariant leaves open. Requests are limited by the captured
  amount one by one, not together: two full refunds of one payment are both approved. The staff steps reserve
  their idempotency key but do not act on the answer: repeating an approval with its key records a second
  authorization. A request under review cannot be rejected.
\<close>

text \<open>Payments and refunds reach a state in which two approved refund requests of one captured attempt add up to
  more than that attempt: the bound holds for each request alone.\<close>

theorem payment_refunded_twice:
  "\<exists>pay db k k' r r' a. finance_reachable pay db \<and> k \<noteq> k' \<and> dget (rf_requests db) k = Some r \<and>
     dget (rf_requests db) k' = Some r' \<and> rr_payment_attempt_id r = rr_payment_attempt_id r' \<and>
     rr_state r = RR_APPROVED \<and> rr_state r' = RR_APPROVED \<and>
     dget (pd_attempts pay) (rr_payment_attempt_id r) = Some a \<and>
     pa_amount_minor a < rr_amount_minor r + rr_amount_minor r'"
proof -
  note run = refund_twice_outcome
  let ?cs = "take 3 (refund_fully 400 ''1'') @ take 3 (refund_fully 500 ''2'')"
  let ?n = "fb_rider_total_minor (fc_breakdown sample_fare)"
  obtain r where r: "dget (rf_requests (snd (sample_finance ?cs))) 400 = Some r" "rr_payment_attempt_id r = 200"
    "rr_state r = RR_APPROVED" "rr_amount_minor r = ?n"
    using refund_outcome_request [OF run, of 400 200 RR_APPROVED ?n] by auto
  obtain r' where r': "dget (rf_requests (snd (sample_finance ?cs))) 500 = Some r'" "rr_payment_attempt_id r' = 200"
    "rr_state r' = RR_APPROVED" "rr_amount_minor r' = ?n"
    using refund_outcome_request [OF run, of 500 200 RR_APPROVED ?n] by auto
  note inv = finance_reachable_inv [OF refund_outcome_reachable(1) [OF run]]
  obtain a where a: "dget (pd_attempts (fst (sample_finance ?cs))) 200 = Some a" "pa_state a = PA_CAPTURED"
    using refund_invD(2) [OF inv(3) r(1)] r(2) unfolding refund_backed_def by auto
  have "(200, pa_amount_minor a) \<in> set (capture_rows (fst (sample_finance ?cs)))"
    using map_of_SomeD [OF a(1)] a(2) unfolding capture_rows_def by force
  then have "pa_amount_minor a = ?n" unfolding refund_outcome_reachable(2) [OF run] by simp
  moreover have "0 < ?n" by code_simp
  ultimately show ?thesis
    using refund_outcome_reachable(1) [OF run] r r' a
    by (intro exI [of _ "fst (sample_finance ?cs)"] exI [of _ "snd (sample_finance ?cs)"] exI [of _ 400] exI [of _ 500]
        exI [of _ r] exI [of _ r'] exI [of _ a]) simp
qed

lemma refund_reserve_replay:
  assumes "refund_reserve_idempotency h db a oper k pl ref at = Inr (db1, r)"
    and "rf_idempotency db' = rf_idempotency db1"
  shows "refund_reserve_idempotency h db' a oper k pl ref' at' = Inr (db', r)"
proof -
  obtain table where t: "reserve_row (RefundConflict ''idempotency_conflict'') (rf_idempotency db) (a, oper, k) (h pl) ref at =
      Inr (table, r)" and db': "rf_idempotency db' = table"
    using assms by (auto simp: refund_reserve_idempotency_def bind_result_eq_Inr)
  show ?thesis
    using shared_table.replay_same_reference [OF t, of ref' at']
    by (simp add: refund_reserve_idempotency_def db' [symmetric])
qed

lemma approve_request_after:
  assumes "approve_request env db s k rc key c at aid did = Inr (db1, r)"
  shows "require_refund_permission env s ''refund.approve'' = Inr ()" and "validate_refund_key key = Inr ()"
    and "\<exists>ref. refund_reserve_idempotency (pv_digest env) db1 (fst s) ''refund.request.approve'' key
      [(''refund_request_id'', JUuid k), (''reason_code'', JStr rc)] k (instant_of at) = Inr (db1, ref)"
    and "dget (rf_requests db1) k = Some r" and "rr_state r = RR_APPROVED"
    and "rr_requested_at r \<le> instant_of at" and "code_pattern 2 rc" and "is_aware at"
  using assms
  unfolding approve_request_def reserve_and_transition_def transition_request_def append_authorization_def
    record_decision_def append_decision_def get_request_def
  by (elim ok_elims; auto intro!: refund_reserve_replay)+

theorem approval_recorded_twice:
  assumes "approve_request env db s k rc key c at aid did = Inr (db1, r)"
    and "dget (rf_authorizations db1) aid' = None" and "dget (rf_decisions db1) did' = None"
  shows "\<exists>db2 r'. approve_request env db1 s k rc key c at aid' did' = Inr (db2, r') \<and>
     length (rf_authorizations db2) = length (rf_authorizations db1) + 1"
proof -
  have "code_pattern 2 ''approved''" by code_simp
  then show ?thesis
    using approve_request_after [OF assms(1)] assms(2,3)
    by (auto simp: approve_request_def reserve_and_transition_def transition_request_def append_authorization_def
      record_decision_def append_decision_def get_request_def Let_def ensure_request_transition_allowed_def dset_new)
qed

theorem under_review_not_rejected:
  assumes "dget (rf_requests db) k = Some r" and "rr_state r = RR_UNDER_REVIEW"
  shows "\<exists>e. reject_request env db s k rc key c at did = Inl e"
proof (cases "reject_request env db s k rc key c at did")
  case (Inr x)
  then obtain db1 r1 where "reserve_and_transition env db s ''refund.request.reject'' RR_REJECTED k rc key c at = Inr (db1, r1)"
    unfolding reject_request_def by (elim ok_elims) auto
  then show ?thesis by (rule reserve_and_transition_ok) (use assms in \<open>simp add: allows_def\<close>)
qed simp

end
