(* ===== verification/Cash_Accounting.thy ===== *)
theory Cash_Accounting
  imports Payment
begin

text \<open>
  Cash accounting after a trip: \<open>post_trip/cash_accounting.py\<close> with its tables of
  \<open>persistence/post_trip_repository.py\<close>. A corroborated cash collection becomes a balanced instruction, the
  instruction a ledger journal, and the platform's claim on the driver is cleared by a second journal.
  Timestamps are timezone-aware. \<open>uuid5\<close> and the SHA-256 digests are arguments: the record \<open>cash_env\<close>.
\<close>

section \<open>Models\<close>

datatype cash_evidence_state = CE_AWAITING_CONFIRMATIONS | CE_PARTIALLY_CONFIRMED | CE_COLLECTION_CORROBORATED
  | CE_CASH_SETTLEMENT_REVIEW

datatype cash_accounting_state = CA_NOT_AUTHORIZED | CA_POLICY_VALIDATED | CA_ACCOUNTING_POSTED
  | CA_ACCOUNTING_REVIEW_REQUIRED | CA_REVERSED

datatype cash_reconciliation_state = CR_NOT_APPLICABLE | CR_PENDING | CR_CLEARED | CR_DISPUTED | CR_WRITTEN_OFF

datatype cash_accounting_model = PRINCIPAL_GROSS | AGENT_NET_REMITTANCE

datatype policy_environment = NON_PRODUCTION | PRODUCTION

record cash_collection_evidence =
  ce_evidence_id :: uuid
  ce_ride_id :: uuid
  ce_rider_identity_id :: uuid
  ce_driver_identity_id :: uuid
  ce_fare_calculation_id :: uuid
  ce_gross_cash_reported_minor :: minor
  ce_state :: cash_evidence_state
  ce_evidence_policy_version :: string
  ce_rider_confirmation_id :: "uuid option"
  ce_driver_confirmation_id :: "uuid option"
  ce_evidence_hash :: string
  ce_recorded_at :: instant

record cash_journal_line =
  cl_account_code :: string
  cl_side :: ledger_entry_side
  cl_amount_minor :: minor

record cash_accounting_policy =
  cp_accounting_policy_id :: uuid
  cp_accounting_policy_version :: string
  cp_accounting_model :: cash_accounting_model
  cp_currency :: string
  cp_effective_from :: instant
  cp_effective_until :: "instant option"
  cp_environment :: policy_environment
  cp_service_type :: string
  cp_payment_method :: string
  cp_platform_claim_basis_points :: int
  cp_driver_entitlement_basis_points :: int
  cp_tax_basis_points :: int
  cp_principal_receivable_account :: "string option"
  cp_platform_claim_account :: "string option"
  cp_driver_entitlement_account :: "string option"
  cp_platform_revenue_account :: string
  cp_tax_payable_account :: "string option"
  cp_reconciliation_clearing_account :: string
  cp_reconciliation_basis :: string
  cp_policy_evidence_hash :: string
  cp_approval_reference :: string

definition cash_version_pattern :: "string \<Rightarrow> bool" where
  \<comment> \<open>the pattern \<open>^[a-z0-9][a-z0-9_.-]{1,62}$\<close>\<close>
  "cash_version_pattern s \<longleftrightarrow> version_pattern s \<and> 2 \<le> length s"

definition valid_cash_policy :: "cash_accounting_policy \<Rightarrow> cash_accounting_policy result" where
  "valid_cash_policy p =
     (if \<not> (cash_version_pattern (cp_accounting_policy_version p) \<and> cp_currency p = ''ETB'' \<and>
            cp_service_type p = ''immediate_standard'' \<and> cp_payment_method p = ''cash'' \<and>
            bps_ok (cp_platform_claim_basis_points p) \<and> bps_ok (cp_driver_entitlement_basis_points p) \<and>
            bps_ok (cp_tax_basis_points p) \<and> code_pattern 2 (cp_reconciliation_basis p) \<and>
            hash_pattern (cp_policy_evidence_hash p) \<and> length_between 8 128 (cp_approval_reference p))
      then Inl (ValidationError ''CashAccountingPolicy'')
      else if (case cp_effective_until p of None \<Rightarrow> False | Some u \<Rightarrow> u \<le> cp_effective_from p)
      then Inl (ValidationError ''Cash-accounting policy window is invalid'')
      else if cp_accounting_model p = PRINCIPAL_GROSS \<and>
        (cp_principal_receivable_account p = None \<or> cp_driver_entitlement_account p = None)
      then Inl (ValidationError ''Principal policy requires gross receivable and entitlement accounts'')
      else if cp_accounting_model p = PRINCIPAL_GROSS \<and> cp_platform_claim_basis_points p \<noteq> 10000
      then Inl (ValidationError ''Principal policy must explicitly claim the gross amount'')
      else if cp_accounting_model p = AGENT_NET_REMITTANCE \<and> cp_platform_claim_account p = None
      then Inl (ValidationError ''Agent policy requires a platform-claim account'')
      else if cp_tax_basis_points p > cp_platform_claim_basis_points p
      then Inl (ValidationError ''Tax components cannot exceed the platform claim'')
      else if cp_accounting_model p = PRINCIPAL_GROSS \<and>
        cp_driver_entitlement_basis_points p + cp_tax_basis_points p > 10000
      then Inl (ValidationError ''Principal policy components exceed the gross amount'')
      else Inr p)"

record cash_accounting_instruction =
  ci_instruction_id :: uuid
  ci_ride_id :: uuid
  ci_fare_calculation_id :: uuid
  ci_evidence_id :: uuid
  ci_accounting_policy_id :: uuid
  ci_accounting_policy_version :: string
  ci_accounting_model :: cash_accounting_model
  ci_gross_cash_reported_minor :: minor
  ci_platform_claim_minor :: minor
  ci_driver_entitlement_minor :: minor
  ci_tax_minor :: minor
  ci_journal_lines :: "cash_journal_line list"
  ci_reconciliation_required :: bool
  ci_input_hash :: string
  ci_policy_hash :: string

definition line_total :: "ledger_entry_side \<Rightarrow> cash_journal_line list \<Rightarrow> int" where
  "line_total side ls = sum_list (map cl_amount_minor (filter (\<lambda>x. cl_side x = side) ls))"

definition valid_cash_instruction :: "cash_accounting_instruction \<Rightarrow> cash_accounting_instruction result" where
  "valid_cash_instruction i =
     (if \<not> (0 \<le> ci_gross_cash_reported_minor i \<and> 0 \<le> ci_platform_claim_minor i \<and> 0 \<le> ci_driver_entitlement_minor i \<and>
            0 \<le> ci_tax_minor i \<and> hash_pattern (ci_input_hash i) \<and> hash_pattern (ci_policy_hash i))
      then Inl (ValidationError ''CashAccountingInstruction'')
      else if ci_journal_lines i = [] \<or> line_total DEBIT (ci_journal_lines i) \<noteq> line_total CREDIT (ci_journal_lines i)
      then Inl (ValidationError ''Cash-accounting instruction must be balanced'')
      else Inr i)"

definition cash_line :: "string \<Rightarrow> ledger_entry_side \<Rightarrow> minor \<Rightarrow> cash_journal_line result" where
  "cash_line code side amount =
     (if code_pattern 2 code \<and> 1 \<le> amount \<and> amount \<le> 10000000000
      then Inr \<lparr>cl_account_code = code, cl_side = side, cl_amount_minor = amount\<rparr>
      else Inl (ValidationError ''CashJournalLine''))"

section \<open>The instruction\<close>

text \<open>
  The first lines depend on the accounting model, then the platform's revenue and the tax, each only when it is
  not zero. The result carries the revenue that is left.
\<close>

definition claim_lines ::
  "cash_accounting_policy \<Rightarrow> minor \<Rightarrow> minor \<Rightarrow> minor \<Rightarrow> minor \<Rightarrow> (cash_journal_line list \<times> minor) result" where
  "claim_lines p gross claim entitlement tax =
     (case cp_accounting_model p of
        PRINCIPAL_GROSS \<Rightarrow>
          if claim \<noteq> gross then Inl (ValueError ''principal_gross_claim_required'')
          else
            (case cp_principal_receivable_account p of
               None \<Rightarrow> Inl (ValueError ''principal_account_mapping_missing'')
             | Some receivable \<Rightarrow>
            (case cp_driver_entitlement_account p of
               None \<Rightarrow> Inl (ValueError ''principal_account_mapping_missing'')
             | Some entitlement_account \<Rightarrow>
                 bind_result (cash_line receivable DEBIT claim) (\<lambda>l1.
                 bind_result (cash_line entitlement_account CREDIT entitlement) (\<lambda>l2.
                 Inr ([l1, l2], claim - entitlement - tax)))))
      | AGENT_NET_REMITTANCE \<Rightarrow>
          (case cp_platform_claim_account p of
             None \<Rightarrow> Inl (ValueError ''agent_account_mapping_missing'')
           | Some claim_account \<Rightarrow>
               bind_result (cash_line claim_account DEBIT claim) (\<lambda>l. Inr ([l], claim - tax))))"

definition revenue_line :: "cash_accounting_policy \<Rightarrow> minor \<Rightarrow> cash_journal_line list result" where
  "revenue_line p revenue =
     (if revenue = 0 then Inr []
      else bind_result (cash_line (cp_platform_revenue_account p) CREDIT revenue) (\<lambda>l. Inr [l]))"

definition tax_line :: "cash_accounting_policy \<Rightarrow> minor \<Rightarrow> cash_journal_line list result" where
  "tax_line p tax =
     (if tax = 0 then Inr []
      else
        (case cp_tax_payable_account p of
           None \<Rightarrow> Inl (ValueError ''cash_tax_account_required'')
         | Some account \<Rightarrow> bind_result (cash_line account CREDIT tax) (\<lambda>l. Inr [l])))"

definition cash_instruction ::
  "(payload \<Rightarrow> string) \<Rightarrow> cash_accounting_policy \<Rightarrow> fare_calculation \<Rightarrow> cash_collection_evidence \<Rightarrow> minor \<Rightarrow> minor \<Rightarrow> minor \<Rightarrow>
   cash_journal_line list \<Rightarrow> uuid \<Rightarrow> cash_accounting_instruction" where
  "cash_instruction digest p c e claim entitlement tax ls fresh_id =
     \<lparr>ci_instruction_id = fresh_id, ci_ride_id = fc_ride_id c, ci_fare_calculation_id = fc_calculation_id c,
      ci_evidence_id = ce_evidence_id e, ci_accounting_policy_id = cp_accounting_policy_id p,
      ci_accounting_policy_version = cp_accounting_policy_version p,
      ci_accounting_model = cp_accounting_model p, ci_gross_cash_reported_minor = ce_gross_cash_reported_minor e,
      ci_platform_claim_minor = claim, ci_driver_entitlement_minor = entitlement, ci_tax_minor = tax,
      ci_journal_lines = ls, ci_reconciliation_required = (claim > 0),
      ci_input_hash = digest
        [(''ride_id'', JUuid (fc_ride_id c)), (''calculation_id'', JUuid (fc_calculation_id c)),
         (''evidence_hash'', JStr (ce_evidence_hash e)), (''policy_id'', JUuid (cp_accounting_policy_id p)),
         (''policy_version'', JStr (cp_accounting_policy_version p)),
         (''platform_claim_minor'', JInt claim), (''driver_entitlement_minor'', JInt entitlement),
         (''tax_minor'', JInt tax)],
      ci_policy_hash = cp_policy_evidence_hash p\<rparr>"

definition build_cash_accounting_instruction ::
  "(payload \<Rightarrow> string) \<Rightarrow> cash_accounting_policy \<Rightarrow> fare_calculation \<Rightarrow> cash_collection_evidence \<Rightarrow> instant \<Rightarrow> bool \<Rightarrow> uuid \<Rightarrow>
   cash_accounting_instruction result" where
  "build_cash_accounting_instruction digest p c e at production fresh_id =
     (if production \<and> cp_environment p \<noteq> PRODUCTION
      then Inl (ValueError ''non_production_cash_policy_rejected'')
      else if at < cp_effective_from p \<or> (case cp_effective_until p of None \<Rightarrow> False | Some u \<Rightarrow> at \<ge> u)
      then Inl (ValueError ''cash_accounting_policy_inactive'')
      else if ce_state e \<noteq> CE_COLLECTION_CORROBORATED
      then Inl (ValueError ''cash_collection_evidence_insufficient'')
      else if ce_ride_id e \<noteq> fc_ride_id c \<or> ce_fare_calculation_id e \<noteq> fc_calculation_id c
      then Inl (ValueError ''cash_pricing_lineage_conflict'')
      else if ce_gross_cash_reported_minor e \<noteq> fb_rider_total_minor (fc_breakdown c)
      then Inl (ValueError ''cash_reported_amount_conflict'')
      else
        (let gross = ce_gross_cash_reported_minor e;
             claim = gross * cp_platform_claim_basis_points p div 10000;
             entitlement = gross * cp_driver_entitlement_basis_points p div 10000;
             tax = gross * cp_tax_basis_points p div 10000
         in if claim - tax < 0 then Inl (ValueError ''cash_tax_exceeds_platform_claim'')
            else
              bind_result (claim_lines p gross claim entitlement tax) (\<lambda>(ls, revenue).
              bind_result (revenue_line p revenue) (\<lambda>rs.
              bind_result (tax_line p tax) (\<lambda>ts.
              valid_cash_instruction (cash_instruction digest p c e claim entitlement tax (ls @ rs @ ts) fresh_id))))))"

section \<open>The tables\<close>

record cash_accounting_record =
  cr_ride_id :: uuid
  cr_evidence_id :: uuid
  cr_instruction_id :: uuid
  cr_accounting_policy_id :: uuid
  cr_accounting_policy_version :: string
  cr_platform_claim_minor :: minor
  cr_driver_entitlement_minor :: minor
  cr_state :: cash_accounting_state
  cr_ledger_journal_id :: "uuid option"
  cr_reconciliation_state :: cash_reconciliation_state
  cr_clearing_journal_id :: "uuid option"
  cr_reconciliation_evidence_hash :: "string option"
  cr_version :: int

record cash_reconciliation_evidence =
  cv_reconciliation_evidence_id :: uuid
  cv_ride_id :: uuid
  cv_accounting_instruction_id :: uuid
  cv_accounting_policy_id :: uuid
  cv_accounting_policy_version :: string
  cv_original_accounting_journal_id :: uuid
  cv_platform_claim_minor :: minor
  cv_currency :: string
  cv_evidence_type :: string
  cv_source_classification :: string
  cv_evidence_hash :: string
  cv_authorized_actor_id :: uuid
  cv_occurred_at :: instant
  cv_correlation_id :: uuid
  cv_causation_id :: uuid

text \<open>The names the code hashes with \<open>uuid5\<close>.\<close>

datatype cash_name =
    InstructionName uuid uuid uuid uuid
  | EntryName uuid nat
  | JournalName uuid
  | AuditName uuid
  | ReconciliationJournalName uuid
  | ReconciliationEntryName uuid nat

record cash_env =
  cx_has_permission :: "uuid \<Rightarrow> string \<Rightarrow> bool"
  cx_get_calculation :: "uuid \<Rightarrow> fare_calculation option"
  cx_digest :: "payload \<Rightarrow> string"
  cx_evidence_digest :: "cash_reconciliation_evidence \<Rightarrow> string"
  cx_journal_digest :: "ledger_journal \<Rightarrow> string"
  cx_uuid5 :: "cash_name \<Rightarrow> uuid"
  cx_book_id :: uuid
  cx_account_ids :: "(string, uuid) dict"
  cx_production :: bool

record cash_db =
  cs_ledger :: ledger_db
  cs_policies :: "(uuid, cash_accounting_policy) dict"
  cs_collections :: "(uuid, cash_collection_evidence) dict"
  cs_records :: "(uuid, cash_accounting_record) dict"
  cs_reconciliations :: "(uuid, cash_reconciliation_evidence) dict"

definition hash_binds_authority ::
  "cash_env \<Rightarrow> cash_reconciliation_evidence \<Rightarrow> cash_reconciliation_evidence result" where
  "hash_binds_authority env v =
     (if \<not> (0 < cv_platform_claim_minor v \<and> cv_currency v = ''ETB'' \<and> code_pattern 2 (cv_evidence_type v) \<and>
            cv_source_classification v \<in> {''synthetic'', ''approved_operational''} \<and> hash_pattern (cv_evidence_hash v))
      then Inl (ValidationError ''CashReconciliationEvidence'')
      else if cx_evidence_digest env (v\<lparr>cv_evidence_hash := []\<rparr>) \<noteq> cv_evidence_hash v
      then Inl (ValidationError ''Reconciliation evidence hash does not bind its authority'')
      else Inr v)"

definition build_cash_reconciliation_evidence ::
  "cash_env \<Rightarrow> cash_reconciliation_evidence \<Rightarrow> cash_reconciliation_evidence result" where
  \<comment> \<open>the keyword arguments are the fields of the given record, whose hash is replaced\<close>
  "build_cash_reconciliation_evidence env v =
     hash_binds_authority env (v\<lparr>cv_evidence_hash := cx_evidence_digest env (v\<lparr>cv_evidence_hash := []\<rparr>)\<rparr>)"

definition add_cash_accounting_policy :: "cash_db \<Rightarrow> cash_accounting_policy \<Rightarrow> (cash_db \<times> cash_accounting_policy) result" where
  "add_cash_accounting_policy db p =
     (if dget (cs_policies db) (cp_accounting_policy_id p) \<noteq> None \<or>
        list_ex (\<lambda>x. cp_accounting_policy_version x = cp_accounting_policy_version p) (dvalues (cs_policies db))
      then Inl (IntegrityError ''cash_accounting_policies'')
      else Inr (db\<lparr>cs_policies := dset (cp_accounting_policy_id p) p (cs_policies db)\<rparr>, p))"

definition add_cash_collection_evidence ::
  "cash_db \<Rightarrow> cash_collection_evidence \<Rightarrow> (cash_db \<times> cash_collection_evidence) result" where
  "add_cash_collection_evidence db e =
     (case dget (cs_collections db) (ce_ride_id e) of
        Some existing \<Rightarrow>
          if ce_evidence_hash existing \<noteq> ce_evidence_hash e
          then Inl (PostTripConflict ''cash_collection_evidence_conflict'')
          else Inr (db, existing)
      | None \<Rightarrow>
          if list_ex (\<lambda>x. ce_evidence_id x = ce_evidence_id e) (dvalues (cs_collections db))
          then Inl (IntegrityError ''trip_cash_collection_evidence.evidence_id'')
          else Inr (db\<lparr>cs_collections := dset (ce_ride_id e) e (cs_collections db)\<rparr>, e))"

definition add_cash_accounting_record ::
  "cash_db \<Rightarrow> cash_accounting_record \<Rightarrow> (cash_db \<times> cash_accounting_record) result" where
  "add_cash_accounting_record db r =
     (case dget (cs_records db) (cr_ride_id r) of
        Some existing \<Rightarrow>
          if cr_instruction_id existing \<noteq> cr_instruction_id r
          then Inl (PostTripConflict ''cash_accounting_record_conflict'')
          else Inr (db, existing)
      | None \<Rightarrow>
          if list_ex (\<lambda>x. cr_instruction_id x = cr_instruction_id r) (dvalues (cs_records db))
          then Inl (IntegrityError ''trip_cash_accounting_records.instruction_id'')
          else Inr (db\<lparr>cs_records := dset (cr_ride_id r) r (cs_records db)\<rparr>, r))"

definition update_cash_accounting_record ::
  "cash_db \<Rightarrow> cash_accounting_record \<Rightarrow> int \<Rightarrow> (cash_db \<times> cash_accounting_record) result" where
  "update_cash_accounting_record db r expected_version =
     (let changed = r\<lparr>cr_version := expected_version + 1\<rparr> in
      case dget (cs_records db) (cr_ride_id r) of
        None \<Rightarrow> Inl (PostTripConflict ''stale_cash_accounting_record'')
      | Some stored \<Rightarrow>
          if cr_version stored \<noteq> expected_version then Inl (PostTripConflict ''stale_cash_accounting_record'')
          else Inr (db\<lparr>cs_records := dset (cr_ride_id r) changed (cs_records db)\<rparr>, changed))"

definition add_cash_reconciliation_evidence ::
  "cash_db \<Rightarrow> cash_reconciliation_evidence \<Rightarrow> (cash_db \<times> cash_reconciliation_evidence) result" where
  "add_cash_reconciliation_evidence db v =
     (case dget (cs_reconciliations db) (cv_ride_id v) of
        Some existing \<Rightarrow>
          if existing \<noteq> v then Inl (PostTripConflict ''cash_reconciliation_evidence_conflict'')
          else Inr (db, existing)
      | None \<Rightarrow>
          if list_ex (\<lambda>x. cv_reconciliation_evidence_id x = cv_reconciliation_evidence_id v \<or>
               cv_evidence_hash x = cv_evidence_hash v) (dvalues (cs_reconciliations db))
          then Inl (IntegrityError ''cash_reconciliation_evidence'')
          else Inr (db\<lparr>cs_reconciliations := dset (cv_ride_id v) v (cs_reconciliations db)\<rparr>, v))"

section \<open>Posting an instruction\<close>

fun cash_entries ::
  "cash_env \<Rightarrow> uuid \<Rightarrow> nat \<Rightarrow> cash_journal_line list \<Rightarrow> ledger_entry list result" where
  "cash_entries env instruction_id index [] = Inr []"
| "cash_entries env instruction_id index (l # ls) =
     (case dget (cx_account_ids env) (cl_account_code l) of
        None \<Rightarrow> Inl (PostTripConflict ''cash_account_mapping_missing'')
      | Some account_id \<Rightarrow>
          bind_result (cash_entries env instruction_id (Suc index) ls) (\<lambda>es.
          Inr (\<lparr>le_entry_id = cx_uuid5 env (EntryName instruction_id index), le_account_id = account_id,
                 le_side = cl_side l, le_amount_minor = cl_amount_minor l, le_currency = ''ETB'',
                 le_line_index = int index, le_predecessor_entry_id = None\<rparr> # es)))"

definition cash_trace ::
  "fare_calculation \<Rightarrow> uuid \<Rightarrow> ledger_traceability result" where
  "cash_trace c evidence_id =
     (let t = fc_financial_traceability c in
      case (ft_dispatch_handoff_id t, ft_assignment_id t, ft_active_ride_id t, ft_fare_calculation_id t) of
        (Some handoff, Some assignment, Some active_ride, Some fare) \<Rightarrow>
          Inr \<lparr>lt_ride_request_id = ft_ride_request_id t, lt_dispatch_handoff_id = handoff,
            lt_assignment_id = assignment, lt_active_ride_id = active_ride,
            lt_fare_estimate_id = ft_fare_estimate_id t, lt_fare_calculation_id = fare,
            lt_predecessor_ledger_journal_id = None, lt_wallet_id = None, lt_settlement_id = None,
            lt_driver_payout_id = None, lt_rider_payment_id = None, lt_refund_id = None, lt_promotion_id = None,
            lt_referral_id = None, lt_loyalty_id = None, lt_tax_record_id = None,
            lt_audit_package_id = Some evidence_id\<rparr>
      | _ \<Rightarrow> Inl (PostTripConflict ''cash_accounting_lineage_missing''))"

definition cash_journal ::
  "cash_env \<Rightarrow> uuid \<Rightarrow> uuid \<Rightarrow> string \<Rightarrow> ledger_traceability \<Rightarrow> ledger_entry list \<Rightarrow> uuid \<Rightarrow> instant \<Rightarrow> ledger_journal" where
  "cash_journal env actor instruction_id key trace entries correlation_id at =
     \<lparr>jr_header = \<lparr>lj_journal_id = cx_uuid5 env (JournalName instruction_id), lj_book_id = cx_book_id env,
        lj_business_event_type = ''ride.cash_accounting'', lj_business_event_id = instruction_id,
        lj_operation = ''ride.cash_accounting.post'', lj_idempotency_key = key, lj_actor_identity_id = actor,
        lj_source_system = ''post_trip'', lj_reason_code = ''cash.policy_instruction.validated'',
        lj_traceability = trace, lj_predecessor_ledger_journal_id = None, lj_effective_at = at, lj_recorded_at = at,
        lj_correlation_id = correlation_id, lj_causation_id = instruction_id,
        lj_audit_reference = cx_uuid5 env (AuditName instruction_id)\<rparr>,
      jr_entries = entries\<rparr>"

text \<open>
  Both journals are written the same way: the key is reserved with the journal's identifier, a journal that is
  already stored must equal the candidate, and otherwise the candidate is posted.
\<close>

definition post_once ::
  "cash_env \<Rightarrow> string \<Rightarrow> string \<Rightarrow> ledger_db \<Rightarrow> uuid \<Rightarrow> ledger_journal \<Rightarrow> instant \<Rightarrow> ledger_db result" where
  "post_once env corrupt conflict db actor candidate at =
     (let h = jr_header candidate in
      bind_result (ledger_reserve_idempotency (\<lambda>_. cx_journal_digest env candidate) db actor (lj_operation h)
          (lj_idempotency_key h) [] (lj_journal_id h) at) (\<lambda>(db1, canonical).
      bind_result (get_journal db1 canonical) (\<lambda>found.
      case found of
        None \<Rightarrow>
          if canonical \<noteq> lj_journal_id h then Inl (PostTripConflict corrupt)
          else bind_result (post_journal db1 candidate) (\<lambda>(db2, _). Inr db2)
      | Some journal \<Rightarrow>
          if journal \<noteq> candidate then Inl (PostTripConflict conflict) else Inr db1)))"

definition cash_record :: "cash_accounting_instruction \<Rightarrow> uuid \<Rightarrow> cash_accounting_record" where
  "cash_record instruction journal_id =
     \<lparr>cr_ride_id = ci_ride_id instruction, cr_evidence_id = ci_evidence_id instruction,
      cr_instruction_id = ci_instruction_id instruction, cr_accounting_policy_id = ci_accounting_policy_id instruction,
      cr_accounting_policy_version = ci_accounting_policy_version instruction,
      cr_platform_claim_minor = ci_platform_claim_minor instruction,
      cr_driver_entitlement_minor = ci_driver_entitlement_minor instruction,
      cr_state = CA_ACCOUNTING_POSTED,
      cr_ledger_journal_id = Some journal_id,
      cr_reconciliation_state =
        (if ci_reconciliation_required instruction then CR_PENDING else CR_NOT_APPLICABLE),
      cr_clearing_journal_id = None, cr_reconciliation_evidence_hash = None,
      cr_version = 1\<rparr>"

definition post ::
  "cash_env \<Rightarrow> cash_db \<Rightarrow> subject \<Rightarrow> uuid \<Rightarrow> uuid \<Rightarrow> uuid \<Rightarrow> uuid \<Rightarrow> string \<Rightarrow> uuid \<Rightarrow> instant \<Rightarrow> uuid \<Rightarrow>
   (cash_db \<times> cash_accounting_record) result" where
  "post env db subject ride_id fare_calculation_id evidence_id policy_id key correlation_id at fresh_id =
     bind_result (ensure (snd subject = ID_SERVICE) (PostTripConflict ''cash_accounting_access_denied'')) (\<lambda>_.
     case cx_get_calculation env fare_calculation_id of
       None \<Rightarrow> Inl (PostTripConflict ''cash_accounting_authority_missing'')
     | Some calculation \<Rightarrow>
     (case dget (cs_collections db) ride_id of
       None \<Rightarrow> Inl (PostTripConflict ''cash_accounting_authority_missing'')
     | Some evidence \<Rightarrow>
     (case dget (cs_policies db) policy_id of
       None \<Rightarrow> Inl (PostTripConflict ''cash_accounting_authority_missing'')
     | Some policy \<Rightarrow>
         if fc_ride_id calculation \<noteq> ride_id \<or> ce_evidence_id evidence \<noteq> evidence_id
         then Inl (PostTripConflict ''cash_accounting_authority_missing'')
         else
           (case build_cash_accounting_instruction (cx_digest env) policy calculation evidence at
               (cx_production env) fresh_id of
              Inl _ \<Rightarrow> Inl (PostTripConflict ''cash_accounting_policy_rejected'')
            | Inr derived \<Rightarrow>
                (let iid = cx_uuid5 env (InstructionName ride_id fare_calculation_id evidence_id policy_id);
                     instruction = derived\<lparr>ci_instruction_id := iid\<rparr>
                 in case dget (cs_records db) ride_id of
                      Some existing \<Rightarrow>
                        if cr_instruction_id existing \<noteq> iid
                        then Inl (PostTripConflict ''cash_accounting_record_conflict'')
                        else Inr (db, existing)
                    | None \<Rightarrow>
                        bind_result (cash_entries env iid 1 (ci_journal_lines instruction)) (\<lambda>entries.
                        bind_result (cash_trace calculation (ce_evidence_id evidence)) (\<lambda>trace.
                        bind_result (validate_entries (cash_journal env (fst subject) iid key trace entries
                            correlation_id at)) (\<lambda>candidate.
                        bind_result (post_once env ''cash_accounting_idempotency_corrupt''
                            ''cash_accounting_idempotency_conflict'' (cs_ledger db) (fst subject) candidate at) (\<lambda>ledger.
                        add_cash_accounting_record (db\<lparr>cs_ledger := ledger\<rparr>)
                          (cash_record instruction (lj_journal_id (jr_header candidate))))))))))))"

section \<open>Clearing the claim\<close>

definition receivable_code :: "cash_accounting_policy \<Rightarrow> string option" where
  "receivable_code p =
     (case cp_accounting_model p of PRINCIPAL_GROSS \<Rightarrow> cp_principal_receivable_account p
      | AGENT_NET_REMITTANCE \<Rightarrow> cp_platform_claim_account p)"

definition reconciliation_authorized ::
  "subject \<Rightarrow> cash_reconciliation_evidence \<Rightarrow> cash_accounting_record \<Rightarrow> ledger_journal \<Rightarrow> bool" where
  "reconciliation_authorized subject v item original \<longleftrightarrow>
     cv_authorized_actor_id v = fst subject \<and> cv_accounting_instruction_id v = cr_instruction_id item \<and>
     cv_accounting_policy_id v = cr_accounting_policy_id item \<and>
     cv_accounting_policy_version v = cr_accounting_policy_version item \<and>
     Some (cv_original_accounting_journal_id v) = cr_ledger_journal_id item \<and>
     cv_platform_claim_minor v = cr_platform_claim_minor item \<and> cv_currency v = ''ETB'' \<and>
     lj_business_event_type (jr_header original) = ''ride.cash_accounting'' \<and>
     lj_business_event_id (jr_header original) = cr_instruction_id item \<and>
     lj_operation (jr_header original) = ''ride.cash_accounting.post'' \<and>
     lt_active_ride_id (lj_traceability (jr_header original)) = cr_ride_id item"

definition clearing_journal ::
  "cash_env \<Rightarrow> subject \<Rightarrow> cash_reconciliation_evidence \<Rightarrow> cash_accounting_record \<Rightarrow> ledger_journal \<Rightarrow> string \<Rightarrow> uuid \<Rightarrow>
   uuid \<Rightarrow> uuid \<Rightarrow> ledger_journal" where
  "clearing_journal env subject v item original key clearing_id receivable_id predecessor_entry_id =
     (let eid = cv_reconciliation_evidence_id v; oid = lj_journal_id (jr_header original) in
      \<lparr>jr_header = \<lparr>lj_journal_id = cx_uuid5 env (ReconciliationJournalName eid), lj_book_id = cx_book_id env,
        lj_business_event_type = ''ride.cash_reconciliation'', lj_business_event_id = eid,
        lj_operation = ''ride.cash_reconciliation.clear'', lj_idempotency_key = key,
        lj_actor_identity_id = fst subject, lj_source_system = ''post_trip'',
        lj_reason_code = ''cash.remittance_evidence.authorized'',
        lj_traceability = (lj_traceability (jr_header original))\<lparr>lt_predecessor_ledger_journal_id := Some oid\<rparr>,
        lj_predecessor_ledger_journal_id = Some oid, lj_effective_at = cv_occurred_at v,
        lj_recorded_at = cv_occurred_at v, lj_correlation_id = cv_correlation_id v,
        lj_causation_id = cv_causation_id v, lj_audit_reference = eid\<rparr>,
       jr_entries =
         [\<lparr>le_entry_id = cx_uuid5 env (ReconciliationEntryName eid 1), le_account_id = clearing_id, le_side = DEBIT,
           le_amount_minor = cr_platform_claim_minor item, le_currency = cv_currency v, le_line_index = 1,
           le_predecessor_entry_id = None\<rparr>,
          \<lparr>le_entry_id = cx_uuid5 env (ReconciliationEntryName eid 2), le_account_id = receivable_id, le_side = CREDIT,
           le_amount_minor = cr_platform_claim_minor item, le_currency = cv_currency v, le_line_index = 2,
           le_predecessor_entry_id = Some predecessor_entry_id\<rparr>]\<rparr>)"

definition clear ::
  "cash_env \<Rightarrow> cash_db \<Rightarrow> subject \<Rightarrow> cash_reconciliation_evidence \<Rightarrow> string \<Rightarrow> int \<Rightarrow>
   (cash_db \<times> cash_accounting_record) result" where
  "clear env db subject v key expected_version =
     bind_result (ensure (snd subject \<in> {ID_SERVICE, ID_STAFF})
       (PostTripConflict ''cash_reconciliation_access_denied'')) (\<lambda>_.
     if isl (hash_binds_authority env v) then Inl (PostTripConflict ''cash_reconciliation_evidence_invalid'')
     else if cx_production env \<and> cv_source_classification v \<noteq> ''approved_operational''
     then Inl (PostTripConflict ''cash_reconciliation_evidence_invalid'')
     else if \<not> cx_has_permission env (fst subject) ''cash.reconciliation.execute''
     then Inl (PostTripConflict ''cash_reconciliation_access_denied'')
     else
       (case dget (cs_records db) (cv_ride_id v) of
          None \<Rightarrow> Inl (PostTripConflict ''cash_reconciliation_authority_missing'')
        | Some item \<Rightarrow>
       (case cr_ledger_journal_id item of
          None \<Rightarrow> Inl (PostTripConflict ''cash_reconciliation_authority_missing'')
        | Some journal_id \<Rightarrow>
            bind_result (get_journal (cs_ledger db) journal_id) (\<lambda>found.
       (case dget (cs_policies db) (cr_accounting_policy_id item) of
          None \<Rightarrow> Inl (PostTripConflict ''cash_reconciliation_authority_missing'')
        | Some policy \<Rightarrow>
       (case found of
          None \<Rightarrow> Inl (PostTripConflict ''cash_reconciliation_authority_missing'')
        | Some original \<Rightarrow>
            if cr_version item \<noteq> expected_version then Inl (PostTripConflict ''stale_cash_accounting_record'')
            else if \<not> reconciliation_authorized subject v item original
            then Inl (PostTripConflict ''cash_reconciliation_authority_missing'')
            else if cr_reconciliation_state item = CR_CLEARED
            then if cr_reconciliation_evidence_hash item \<noteq> Some (cv_evidence_hash v)
                 then Inl (PostTripConflict ''cash_reconciliation_conflict'')
                 else Inr (db, item)
            else
              bind_result (add_cash_reconciliation_evidence db v) (\<lambda>(db1, stored).
              case receivable_code policy of
                None \<Rightarrow> Inl (PostTripConflict ''cash_reconciliation_account_mapping_missing'')
              | Some code \<Rightarrow>
              (case dget (cx_account_ids env) code of
                None \<Rightarrow> Inl (PostTripConflict ''cash_reconciliation_account_mapping_missing'')
              | Some receivable_id \<Rightarrow>
              (case dget (cx_account_ids env) (cp_reconciliation_clearing_account policy) of
                None \<Rightarrow> Inl (PostTripConflict ''cash_reconciliation_account_mapping_missing'')
              | Some clearing_id \<Rightarrow>
              (case find (\<lambda>e. le_account_id e = receivable_id \<and> le_side e = DEBIT \<and>
                     le_amount_minor e = cr_platform_claim_minor item) (jr_entries original) of
                None \<Rightarrow> Inl (PostTripConflict ''cash_reconciliation_authority_missing'')
              | Some predecessor \<Rightarrow>
                  bind_result (validate_entries (clearing_journal env subject stored item original key clearing_id
                      receivable_id (le_entry_id predecessor))) (\<lambda>candidate.
                  bind_result (post_once env ''cash_reconciliation_idempotency_corrupt''
                      ''cash_reconciliation_idempotency_conflict'' (cs_ledger db1) (fst subject) candidate
                      (cv_occurred_at v)) (\<lambda>ledger.
                  update_cash_accounting_record (db1\<lparr>cs_ledger := ledger\<rparr>)
                    (item\<lparr>cr_reconciliation_state := CR_CLEARED,
                      cr_clearing_journal_id := Some (lj_journal_id (jr_header candidate)),
                      cr_reconciliation_evidence_hash := Some (cv_evidence_hash v)\<rparr>) expected_version))))))))))))"

end
