(* ===== verification/Cash_Inv.thy ===== *)
theory Cash_Inv
  imports Cash_Accounting
begin

text \<open>
  The cash-accounting invariant: instructions are balanced, and the receivable account of the ledger always
  holds exactly the claims that are not cleared yet.
\<close>

section \<open>Instructions\<close>

definition cash_revenue :: "cash_accounting_policy \<Rightarrow> minor \<Rightarrow> minor \<Rightarrow> minor \<Rightarrow> minor" where
  "cash_revenue p claim entitlement tax =
     (case cp_accounting_model p of PRINCIPAL_GROSS \<Rightarrow> claim - entitlement - tax | AGENT_NET_REMITTANCE \<Rightarrow> claim - tax)"

definition cash_lines ::
  "cash_accounting_policy \<Rightarrow> minor \<Rightarrow> minor \<Rightarrow> minor \<Rightarrow> cash_journal_line list" where
  "cash_lines p claim entitlement tax =
     (let line = (\<lambda>code side n. \<lparr>cl_account_code = code, cl_side = side, cl_amount_minor = n\<rparr>);
          revenue = cash_revenue p claim entitlement tax
      in line (the (receivable_code p)) DEBIT claim #
         (if cp_accounting_model p = PRINCIPAL_GROSS
          then [line (the (cp_driver_entitlement_account p)) CREDIT entitlement] else []) @
         (if revenue = 0 then [] else [line (cp_platform_revenue_account p) CREDIT revenue]) @
         (if tax = 0 then [] else [line (the (cp_tax_payable_account p)) CREDIT tax]))"

lemma cash_line_ok:
  "cash_line code side n = Inr l \<longleftrightarrow> code_pattern 2 code \<and> 1 \<le> n \<and> n \<le> 10000000000 \<and>
     l = \<lparr>cl_account_code = code, cl_side = side, cl_amount_minor = n\<rparr>"
  by (auto simp: cash_line_def)

lemma built_lines:
  assumes "claim_lines p gross claim entitlement tax = Inr (ls, revenue)"
    and "revenue_line p revenue = Inr rs" and "tax_line p tax = Inr ts"
  shows "ls @ rs @ ts = cash_lines p claim entitlement tax"
    and "receivable_code p \<noteq> None" and "1 \<le> claim" and "revenue = cash_revenue p claim entitlement tax"
    and "revenue = 0 \<or> 1 \<le> revenue" and "tax = 0 \<or> 1 \<le> tax"
    and "tax \<noteq> 0 \<Longrightarrow> cp_tax_payable_account p \<noteq> None"
    and "cp_accounting_model p = PRINCIPAL_GROSS \<Longrightarrow> claim = gross \<and> 1 \<le> entitlement \<and> cp_driver_entitlement_account p \<noteq> None"
  using assms
  by (auto simp: claim_lines_def revenue_line_def tax_line_def cash_lines_def cash_revenue_def receivable_code_def
      bind_result_eq_Inr cash_line_ok Let_def split: cash_accounting_model.splits option.splits if_splits)

lemma line_total_simps [simp]:
  "line_total side [] = 0"
  "line_total side (l # ls) = (if cl_side l = side then cl_amount_minor l else 0) + line_total side ls"
  "line_total side (ls @ ms) = line_total side ls + line_total side ms"
  by (simp_all add: line_total_def)

lemma cash_lines_total:
  "line_total DEBIT (cash_lines p claim entitlement tax) = claim"
  "line_total CREDIT (cash_lines p claim entitlement tax) = claim"
  by (auto simp: cash_lines_def cash_revenue_def Let_def split: cash_accounting_model.splits)

lemma cash_instruction_fields [simp]:
  "ci_ride_id (cash_instruction h p c e claim ent tax ls k) = fc_ride_id c"
  "ci_accounting_policy_id (cash_instruction h p c e claim ent tax ls k) = cp_accounting_policy_id p"
  "ci_gross_cash_reported_minor (cash_instruction h p c e claim ent tax ls k) = ce_gross_cash_reported_minor e"
  "ci_platform_claim_minor (cash_instruction h p c e claim ent tax ls k) = claim"
  "ci_driver_entitlement_minor (cash_instruction h p c e claim ent tax ls k) = ent"
  "ci_tax_minor (cash_instruction h p c e claim ent tax ls k) = tax"
  "ci_journal_lines (cash_instruction h p c e claim ent tax ls k) = ls"
  "ci_reconciliation_required (cash_instruction h p c e claim ent tax ls k) = (claim > 0)"
  "ci_policy_hash (cash_instruction h p c e claim ent tax ls k) = cp_policy_evidence_hash p"
  by (simp_all add: cash_instruction_def)

lemma valid_cash_instruction_ok:
  "valid_cash_instruction x = Inr i \<Longrightarrow> i = x \<and> 0 \<le> ci_gross_cash_reported_minor x \<and> 0 \<le> ci_tax_minor x"
  unfolding valid_cash_instruction_def by (elim ok_elims) auto

lemma build_parts:
  assumes "build_cash_accounting_instruction h p c e at production fid = Inr i"
  defines "gross \<equiv> ce_gross_cash_reported_minor e"
  obtains ls revenue rs ts where
    "claim_lines p gross (ci_platform_claim_minor i) (ci_driver_entitlement_minor i) (ci_tax_minor i) = Inr (ls, revenue)"
    and "revenue_line p revenue = Inr rs" and "tax_line p (ci_tax_minor i) = Inr ts"
    and "i = cash_instruction h p c e (gross * cp_platform_claim_basis_points p div 10000)
      (gross * cp_driver_entitlement_basis_points p div 10000) (gross * cp_tax_basis_points p div 10000) (ls @ rs @ ts) fid"
    and "gross = fb_rider_total_minor (fc_breakdown c)" and "0 \<le> gross" and "0 \<le> ci_tax_minor i"
    and "ce_state e = CE_COLLECTION_CORROBORATED" and "ce_ride_id e = fc_ride_id c"
  using assms(1) unfolding build_cash_accounting_instruction_def gross_def
  apply (elim ok_elims)
  subgoal premises prems for _ ls revenue rs ts
    using prems(4-) valid_cash_instruction_ok [OF prems(12)]
    by (intro prems(1) [of ls revenue rs ts]) simp_all
  done

lemma build_ok:
  assumes "build_cash_accounting_instruction h p c e at production fid = Inr i"
  defines "gross \<equiv> ce_gross_cash_reported_minor e"
  shows "ci_journal_lines i = cash_lines p (ci_platform_claim_minor i) (ci_driver_entitlement_minor i) (ci_tax_minor i)"
    and "receivable_code p \<noteq> None" and "1 \<le> ci_platform_claim_minor i" and "ci_reconciliation_required i"
    and "0 \<le> cash_revenue p (ci_platform_claim_minor i) (ci_driver_entitlement_minor i) (ci_tax_minor i)"
    and "ci_tax_minor i \<noteq> 0 \<Longrightarrow> cp_tax_payable_account p \<noteq> None"
    and "cp_accounting_model p = PRINCIPAL_GROSS \<Longrightarrow> ci_platform_claim_minor i = gross \<and>
      cp_driver_entitlement_account p \<noteq> None"
    and "ci_ride_id i = fc_ride_id c" and "ci_accounting_policy_id i = cp_accounting_policy_id p"
proof -
  from assms(1) obtain ls revenue rs ts where
    b: "claim_lines p gross (ci_platform_claim_minor i) (ci_driver_entitlement_minor i) (ci_tax_minor i) = Inr (ls, revenue)"
      "revenue_line p revenue = Inr rs" "tax_line p (ci_tax_minor i) = Inr ts"
    and i: "i = cash_instruction h p c e (gross * cp_platform_claim_basis_points p div 10000)
      (gross * cp_driver_entitlement_basis_points p div 10000) (gross * cp_tax_basis_points p div 10000) (ls @ rs @ ts) fid"
    unfolding gross_def by (rule build_parts)
  note l = built_lines [OF b]
  show "ci_journal_lines i = cash_lines p (ci_platform_claim_minor i) (ci_driver_entitlement_minor i) (ci_tax_minor i)"
    using l(1) by (simp add: i)
  show "receivable_code p \<noteq> None" "1 \<le> ci_platform_claim_minor i" "ci_reconciliation_required i"
    "0 \<le> cash_revenue p (ci_platform_claim_minor i) (ci_driver_entitlement_minor i) (ci_tax_minor i)"
    "ci_tax_minor i \<noteq> 0 \<Longrightarrow> cp_tax_payable_account p \<noteq> None"
    "ci_ride_id i = fc_ride_id c" "ci_accounting_policy_id i = cp_accounting_policy_id p"
    "cp_accounting_model p = PRINCIPAL_GROSS \<Longrightarrow> ci_platform_claim_minor i = gross \<and>
      cp_driver_entitlement_account p \<noteq> None"
    using l(2-) by (auto simp: i)
qed

section \<open>The ledger lines of a journal\<close>

definition account_net :: "uuid \<Rightarrow> ledger_entry list \<Rightarrow> int" where
  "account_net A es = net_total (filter (\<lambda>e. le_account_id e = A) (filter (\<lambda>e. le_currency e = ''ETB'') es))"

lemma account_net_append: "account_net A (es @ fs) = account_net A es + account_net A fs"
  by (simp add: account_net_def)

lemma cash_entries_net:
  assumes "cash_entries env iid n ls = Inr es"
  shows "account_net A es = sum_list (map (\<lambda>l. if dget (cx_account_ids env) (cl_account_code l) = Some A
      then signed_amount (cl_side l) (cl_amount_minor l) else 0) ls)"
  using assms
proof (induction ls arbitrary: n es)
  case Nil
  then show ?case by (simp add: account_net_def)
next
  case (Cons l ls)
  from Cons.prems obtain a es' where a: "dget (cx_account_ids env) (cl_account_code l) = Some a"
    and es': "cash_entries env iid (Suc n) ls = Inr es'"
    and es: "es = \<lparr>le_entry_id = cx_uuid5 env (EntryName iid n), le_account_id = a, le_side = cl_side l,
      le_amount_minor = cl_amount_minor l, le_currency = ''ETB'', le_line_index = int n,
      le_predecessor_entry_id = None\<rparr> # es'"
    by (auto simp: bind_result_eq_Inr split: option.splits)
  show ?case using Cons.IH [OF es'] a by (simp add: es account_net_def)
qed

text \<open>An account that the policies use as a receivable only.\<close>

definition policy_spares :: "cash_env \<Rightarrow> uuid \<Rightarrow> cash_accounting_policy \<Rightarrow> bool" where
  "policy_spares env A p \<longleftrightarrow>
     list_all (\<lambda>code. dget (cx_account_ids env) code \<noteq> Some A)
       (cp_platform_revenue_account p # cp_reconciliation_clearing_account p #
        (case cp_driver_entitlement_account p of None \<Rightarrow> [] | Some c \<Rightarrow> [c]) @
        (case cp_tax_payable_account p of None \<Rightarrow> [] | Some c \<Rightarrow> [c]))"

definition dedicated :: "cash_env \<Rightarrow> cash_db \<Rightarrow> uuid \<Rightarrow> bool" where
  "dedicated env db A \<longleftrightarrow> (\<forall>k p. dget (cs_policies db) k = Some p \<longrightarrow> policy_spares env A p)"

lemma cash_lines_net:
  assumes "policy_spares env A p" and "tax \<noteq> 0 \<Longrightarrow> cp_tax_payable_account p \<noteq> None"
    and "cp_accounting_model p = PRINCIPAL_GROSS \<Longrightarrow> cp_driver_entitlement_account p \<noteq> None"
    and "receivable_code p = Some code"
  shows "sum_list (map (\<lambda>l. if dget (cx_account_ids env) (cl_account_code l) = Some A
      then signed_amount (cl_side l) (cl_amount_minor l) else 0) (cash_lines p claim ent tax)) =
    (if dget (cx_account_ids env) code = Some A then claim else 0)"
  using assms by (auto simp: cash_lines_def policy_spares_def Let_def)

section \<open>Posting once\<close>

lemma post_once_ok:
  assumes "post_once env e1 e2 db actor cand at = Inr db'"
  obtains (posted) db1 j where "post_journal db1 cand = Inr (db', j)" "ld_journals db1 = ld_journals db"
      "ld_entries db1 = ld_entries db" "ld_accounts db1 = ld_accounts db"
  | (found) k where "get_journal db k = Inr (Some cand)"
proof -
  have same: "get_journal db1 k = get_journal db k" if "ledger_reserve_idempotency h db a oper key pl ref t = Inr (db1, r)"
    for db1 h a oper key pl ref t r k
    using that by (auto simp: ledger_reserve_idempotency_def bind_result_eq_Inr get_journal_def journal_rows_def cong: option.case_cong)
  show ?thesis
    using assms unfolding post_once_def
    apply (elim ok_elims)
    subgoal for _ db1
      by (rule posted [of db1]) (auto simp: ledger_reserve_idempotency_def bind_result_eq_Inr)
    subgoal using same by (intro found) auto
    done
qed

lemma get_journal_stored:
  assumes "ledger_inv db" and "get_journal db k = Inr (Some j)"
  shows "dget (ld_journals db) (lj_journal_id (jr_header j)) = Some (jr_header j)"
  using assms unfolding get_journal_def
  by (elim ok_elims) (auto simp: validate_entries_Inr_iff ledger_inv_def Let_def)

section \<open>The invariant\<close>

definition receivable_of :: "cash_env \<Rightarrow> cash_db \<Rightarrow> cash_accounting_record \<Rightarrow> uuid option" where
  "receivable_of env db r =
     (case dget (cs_policies db) (cr_accounting_policy_id r) of
        None \<Rightarrow> None
      | Some p \<Rightarrow> (case receivable_code p of None \<Rightarrow> None | Some code \<Rightarrow> dget (cx_account_ids env) code))"

definition open_claim :: "cash_env \<Rightarrow> cash_db \<Rightarrow> uuid \<Rightarrow> cash_accounting_record \<Rightarrow> int" where
  "open_claim env db A r =
     (if receivable_of env db r = Some A \<and> cr_reconciliation_state r \<noteq> CR_CLEARED
      then cr_platform_claim_minor r else 0)"

definition open_claims :: "cash_env \<Rightarrow> cash_db \<Rightarrow> uuid \<Rightarrow> int" where
  "open_claims env db A = sum_list (map (open_claim env db A) (dvalues (cs_records db)))"

definition record_ok :: "cash_env \<Rightarrow> cash_db \<Rightarrow> uuid \<Rightarrow> cash_accounting_record \<Rightarrow> bool" where
  "record_ok env db k r \<longleftrightarrow> cr_ride_id r = k \<and>
     (\<exists>f e p. cr_instruction_id r = cx_uuid5 env (InstructionName k f e p)) \<and>
     dget (cs_policies db) (cr_accounting_policy_id r) \<noteq> None"

definition journal_known :: "cash_env \<Rightarrow> cash_db \<Rightarrow> uuid \<Rightarrow> bool" where
  "journal_known env db j \<longleftrightarrow>
     (\<exists>k r. dget (cs_records db) k = Some r \<and> j = cx_uuid5 env (JournalName (cr_instruction_id r))) \<or>
     (\<exists>k v. dget (cs_reconciliations db) k = Some v \<and>
        j = cx_uuid5 env (ReconciliationJournalName (cv_reconciliation_evidence_id v)))"

definition cash_inv :: "cash_env \<Rightarrow> cash_db \<Rightarrow> bool" where
  "cash_inv env db \<longleftrightarrow>
     ledger_inv (cs_ledger db) \<and> dict_ok (cs_records db) \<and>
     (\<forall>k p. dget (cs_policies db) k = Some p \<longrightarrow> cp_accounting_policy_id p = k) \<and>
     (\<forall>k r. dget (cs_records db) k = Some r \<longrightarrow> record_ok env db k r) \<and>
     (\<forall>j h. dget (ld_journals (cs_ledger db)) j = Some h \<longrightarrow> journal_known env db j) \<and>
     (\<forall>k v. dget (cs_reconciliations db) k = Some v \<longrightarrow>
        (\<exists>r. dget (cs_records db) k = Some r \<and> cr_reconciliation_state r = CR_CLEARED)) \<and>
     (\<forall>A. dedicated env db A \<longrightarrow> account_net A (ledger_lines (cs_ledger db)) = open_claims env db A)"

lemma cash_invD:
  assumes "cash_inv env db"
  shows "ledger_inv (cs_ledger db)" and "dict_ok (cs_records db)"
    and "dget (cs_policies db) k = Some p \<Longrightarrow> cp_accounting_policy_id p = k"
    and "dget (cs_records db) k = Some r \<Longrightarrow> record_ok env db k r"
    and "dget (ld_journals (cs_ledger db)) j = Some h \<Longrightarrow> journal_known env db j"
    and "dget (cs_reconciliations db) k = Some v \<Longrightarrow>
        \<exists>r. dget (cs_records db) k = Some r \<and> cr_reconciliation_state r = CR_CLEARED"
    and "dedicated env db A \<Longrightarrow> account_net A (ledger_lines (cs_ledger db)) = open_claims env db A"
  using assms unfolding cash_inv_def by blast+


lemma dedicated_cong: "cs_policies db' = cs_policies db \<Longrightarrow> dedicated env db' A = dedicated env db A"
  by (simp add: dedicated_def)

lemma open_claim_cong: "cs_policies db' = cs_policies db \<Longrightarrow> open_claim env db' A = open_claim env db A"
  by (simp add: fun_eq_iff open_claim_def receivable_of_def)

lemma cash_record_fields [simp]:
  "cr_ride_id (cash_record i j) = ci_ride_id i" "cr_instruction_id (cash_record i j) = ci_instruction_id i"
  "cr_accounting_policy_id (cash_record i j) = ci_accounting_policy_id i"
  "cr_platform_claim_minor (cash_record i j) = ci_platform_claim_minor i"
  "cr_reconciliation_state (cash_record i j) = (if ci_reconciliation_required i then CR_PENDING else CR_NOT_APPLICABLE)"
  "cr_ledger_journal_id (cash_record i j) = Some j"
  by (simp_all add: cash_record_def)

text \<open>The two ways a successful post ends.\<close>

lemma post_view:
  assumes "post env db s ride fare ev pol key c at fid = Inr (db', r)"
  obtains (again) "db' = db"
  | (new) p i es trace ledger calc coll where
      "dget (cs_policies db) pol = Some p" "dget (cs_records db) ride = None"
      "build_cash_accounting_instruction (cx_digest env) p calc coll at (cx_production env) fid = Inr i"
      "fc_ride_id calc = ride"
      "cash_entries env (cx_uuid5 env (InstructionName ride fare ev pol)) 1 (ci_journal_lines i) = Inr es"
      "let cand = cash_journal env (fst s) (cx_uuid5 env (InstructionName ride fare ev pol)) key trace es c at in
         validate_entries cand = Inr cand \<and>
         post_once env ''cash_accounting_idempotency_corrupt'' ''cash_accounting_idempotency_conflict''
           (cs_ledger db) (fst s) cand at = Inr ledger"
      "r = cash_record (i\<lparr>ci_instruction_id := cx_uuid5 env (InstructionName ride fare ev pol)\<rparr>)
         (cx_uuid5 env (JournalName (cx_uuid5 env (InstructionName ride fare ev pol))))"
      "db' = db\<lparr>cs_ledger := ledger, cs_records := dset ride r (cs_records db)\<rparr>"
proof (cases "dget (cs_records db) ride")
  case (Some x)
  then show ?thesis using assms again unfolding post_def Let_def by (elim ok_elims) (auto split: sum.splits if_splits)
next
  case None
  obtain calc coll p i where c: "cx_get_calculation env fare = Some calc" "dget (cs_collections db) ride = Some coll"
      "dget (cs_policies db) pol = Some p" "fc_ride_id calc = ride"
      "build_cash_accounting_instruction (cx_digest env) p calc coll at (cx_production env) fid = Inr i"
    using assms unfolding post_def by (elim ok_elims) (auto split: sum.splits)
  let ?iid = "cx_uuid5 env (InstructionName ride fare ev pol)"
  have "bind_result (cash_entries env ?iid 1 (ci_journal_lines i)) (\<lambda>entries.
      bind_result (cash_trace calc (ce_evidence_id coll)) (\<lambda>trace.
      bind_result (validate_entries (cash_journal env (fst s) ?iid key trace entries c at)) (\<lambda>candidate.
      bind_result (post_once env ''cash_accounting_idempotency_corrupt'' ''cash_accounting_idempotency_conflict''
        (cs_ledger db) (fst s) candidate at) (\<lambda>ledger.
      add_cash_accounting_record (db\<lparr>cs_ledger := ledger\<rparr>)
        (cash_record (i\<lparr>ci_instruction_id := ?iid\<rparr>) (lj_journal_id (jr_header candidate))))))) = Inr (db', r)"
    using assms c None unfolding post_def Let_def by (elim ok_elims) (simp_all add: Let_def)
  then show ?thesis
  proof (elim ok_elims)
    fix es trace cand ledger
    assume es: "cash_entries env ?iid 1 (ci_journal_lines i) = Inr es"
      and cand: "validate_entries (cash_journal env (fst s) ?iid key trace es c at) = Inr cand"
      and led: "post_once env ''cash_accounting_idempotency_corrupt'' ''cash_accounting_idempotency_conflict''
        (cs_ledger db) (fst s) cand at = Inr ledger"
      and rec: "add_cash_accounting_record (db\<lparr>cs_ledger := ledger\<rparr>)
        (cash_record (i\<lparr>ci_instruction_id := ?iid\<rparr>) (lj_journal_id (jr_header cand))) = Inr (db', r)"
    have cand': "cand = cash_journal env (fst s) ?iid key trace es c at" using cand by (simp add: validate_entries_Inr_iff)
    have ride: "ci_ride_id i = ride" using build_ok(8) [OF c(5)] c(4) by simp
    have "r = cash_record (i\<lparr>ci_instruction_id := ?iid\<rparr>) (cx_uuid5 env (JournalName ?iid))"
      "db' = db\<lparr>cs_ledger := ledger, cs_records := dset ride r (cs_records db)\<rparr>"
      using rec None by (auto simp: add_cash_accounting_record_def ride cand' cash_journal_def split: if_splits)
    then show ?thesis using new [OF c(3) None c(5,4) es, of trace ledger] cand led cand' by simp
  qed
qed


section \<open>Every operation keeps the invariant\<close>

lemma journal_known_mono:
  assumes "journal_known env db j"
    and "\<And>k r. dget (cs_records db) k = Some r \<Longrightarrow>
      \<exists>r'. dget (cs_records db') k = Some r' \<and> cr_instruction_id r' = cr_instruction_id r"
    and "\<And>k v. dget (cs_reconciliations db) k = Some v \<Longrightarrow> dget (cs_reconciliations db') k = Some v"
  shows "journal_known env db' j"
  using assms unfolding journal_known_def by metis

text \<open>What both operations share: a fresh journal is posted and the records change by what it books.\<close>

lemma cash_posted_inv:
  assumes inv: "cash_inv env db" and valid: "validate_entries cand = Inr cand"
    and once: "post_once env e1 e2 (cs_ledger db) actor cand at = Inr (cs_ledger db')"
    and fresh: "\<not> journal_known env db (lj_journal_id (jr_header cand))"
    and known: "journal_known env db' (lj_journal_id (jr_header cand))"
    and mono: "\<And>l. journal_known env db l \<Longrightarrow> journal_known env db' l"
    and pol: "cs_policies db' = cs_policies db" and dict: "dict_ok (cs_records db')"
    and recs: "\<And>k x. dget (cs_records db') k = Some x \<Longrightarrow> record_ok env db' k x"
    and recon: "\<And>k v. dget (cs_reconciliations db') k = Some v \<Longrightarrow>
        \<exists>x. dget (cs_records db') k = Some x \<and> cr_reconciliation_state x = CR_CLEARED"
    and net: "\<And>A. dedicated env db A \<Longrightarrow> account_net A (jr_entries cand) = open_claims env db' A - open_claims env db A"
  shows "cash_inv env db'"
proof -
  from once obtain db1 j where led: "post_journal db1 cand = Inr (cs_ledger db', j)"
      "ld_journals db1 = ld_journals (cs_ledger db)" "ld_entries db1 = ld_entries (cs_ledger db)"
      "ld_accounts db1 = ld_accounts (cs_ledger db)"
  proof (cases rule: post_once_ok)
    case (found k)
    then show ?thesis
      using get_journal_stored [OF cash_invD(1) [OF inv] found] cash_invD(5) [OF inv] fresh by metis
  qed
  have linv: "ledger_inv db1" using ledger_inv_cong [OF cash_invD(1) [OF inv] led(2,3)] led(4) by simp
  have "ledger_inv (cs_ledger db')" using post_journal_inv [OF led(1) linv valid] .
  moreover have "journal_known env db' l" if "dget (ld_journals (cs_ledger db')) l = Some h" for l h
    using that cash_invD(5) [OF inv, of l h] known mono post_journal_Inr(3) [OF led(1)] led(2)
    by (cases "l = lj_journal_id (jr_header cand)") auto
  moreover have "account_net A (ledger_lines (cs_ledger db')) = open_claims env db' A" if "dedicated env db' A" for A
  proof -
    have d: "dedicated env db A" using that by (simp add: dedicated_cong [OF pol])
    have "ledger_lines (cs_ledger db') = ledger_lines (cs_ledger db) @ jr_entries cand"
      using ledger_lines_post [OF led(1)] led(3) by (simp add: ledger_lines_def)
    then show ?thesis using cash_invD(7) [OF inv d] net [OF d] by (simp add: account_net_append)
  qed
  ultimately show ?thesis
    using dict recs recon cash_invD(3) [OF inv] unfolding cash_inv_def pol by blast
qed

lemma post_inv:
  assumes inv: "cash_inv env db" and u5: "inj (cx_uuid5 env)"
    and ok: "post env db s ride fare ev pol key c at fid = Inr (db', r)"
  shows "cash_inv env db'"
  using ok
proof (cases rule: post_view)
  case again
  then show ?thesis using inv by simp
next
  case (new p i es trace ledger calc coll)
  have u5_eq: "cx_uuid5 env x = cx_uuid5 env y \<longleftrightarrow> x = y" for x y using u5 by (simp add: inj_eq)
  define iid where "iid = cx_uuid5 env (InstructionName ride fare ev pol)"
  define cand where "cand = cash_journal env (fst s) iid key trace es c at"
  have cand: "lj_journal_id (jr_header cand) = cx_uuid5 env (JournalName iid)" "jr_entries cand = es"
    by (simp_all add: cand_def cash_journal_def)
  have db': "cs_policies db' = cs_policies db" "cs_records db' = dset ride r (cs_records db)"
      "cs_reconciliations db' = cs_reconciliations db"
    by (simp_all add: new(8))
  have r: "cr_ride_id r = ride" "cr_instruction_id r = iid" "cr_accounting_policy_id r = pol"
      "cr_platform_claim_minor r = ci_platform_claim_minor i" "cr_reconciliation_state r = CR_PENDING"
    using build_ok(4,8,9) [OF new(3)] new(4) cash_invD(3) [OF inv new(1)] by (simp_all add: new(7) iid_def)
  show ?thesis
  proof (rule cash_posted_inv [OF inv, of cand])
    show "validate_entries cand = Inr cand"
      and "post_once env ''cash_accounting_idempotency_corrupt'' ''cash_accounting_idempotency_conflict''
        (cs_ledger db) (fst s) cand at = Inr (cs_ledger db')"
      using new(6) by (simp_all add: Let_def cand_def iid_def new(8))
    show "\<not> journal_known env db (lj_journal_id (jr_header cand))"
      using cash_invD(4) [OF inv] new(2) unfolding journal_known_def cand(1)
      by (fastforce simp: u5_eq record_ok_def iid_def)
    show "journal_known env db' (lj_journal_id (jr_header cand))"
      unfolding journal_known_def cand(1) db' using r(2) by auto
    show "journal_known env db' l" if "journal_known env db l" for l
      using that by (rule journal_known_mono) (use new(2) in \<open>auto simp: db'\<close>)
    show "dict_ok (cs_records db')" using cash_invD(2) [OF inv] by (simp add: db')
    show "record_ok env db' k x" if "dget (cs_records db') k = Some x" for k x
      using that cash_invD(4) [OF inv, of k x] new(1) r by (auto simp: record_ok_def db' iid_def split: if_splits)
    show "\<exists>x. dget (cs_records db') k = Some x \<and> cr_reconciliation_state x = CR_CLEARED"
      if "dget (cs_reconciliations db') k = Some v" for k v
      using cash_invD(6) [OF inv, of k v] that new(2) by (auto simp: db')
    show "account_net A (jr_entries cand) = open_claims env db' A - open_claims env db A"
      if "dedicated env db A" for A
    proof -
      have spare: "policy_spares env A p" using that new(1) by (auto simp: dedicated_def)
      obtain code where code: "receivable_code p = Some code" using build_ok(2) [OF new(3)] by blast
      have "account_net A es = (if dget (cx_account_ids env) code = Some A then ci_platform_claim_minor i else 0)"
        using cash_entries_net [OF new(5), of A] cash_lines_net [OF spare _ _ code] build_ok(1,6,7) [OF new(3)] by auto
      also have "\<dots> = open_claim env db A r"
        using new(1) code r by (simp add: open_claim_def receivable_of_def)
      finally show ?thesis
        using new(2) by (simp add: cand(2) open_claims_def open_claim_cong [OF db'(1)] db'(2) sum_list_map_insert)
    qed
  qed (rule db'(1))
qed

lemma clear_view:
  assumes "clear env db s v key n = Inr (db', r)"
  obtains (again) "db' = db"
  | (new) item original policy db1 stored code rid cid pe ledger where
      "dget (cs_records db) (cv_ride_id v) = Some item"
      "dget (cs_policies db) (cr_accounting_policy_id item) = Some policy"
      "cr_reconciliation_state item \<noteq> CR_CLEARED" "cv_currency v = ''ETB''"
      "add_cash_reconciliation_evidence db v = Inr (db1, stored)"
      "receivable_code policy = Some code" "dget (cx_account_ids env) code = Some rid"
      "dget (cx_account_ids env) (cp_reconciliation_clearing_account policy) = Some cid"
      "let cand = clearing_journal env s stored item original key cid rid pe in
         validate_entries cand = Inr cand \<and>
         post_once env ''cash_reconciliation_idempotency_corrupt'' ''cash_reconciliation_idempotency_conflict''
           (cs_ledger db1) (fst s) cand (cv_occurred_at v) = Inr ledger"
      "update_cash_accounting_record (db1\<lparr>cs_ledger := ledger\<rparr>)
         (item\<lparr>cr_reconciliation_state := CR_CLEARED, cr_clearing_journal_id := Some (cx_uuid5 env
            (ReconciliationJournalName (cv_reconciliation_evidence_id stored))),
            cr_reconciliation_evidence_hash := Some (cv_evidence_hash v)\<rparr>) n = Inr (db', r)"
  using assms unfolding clear_def
  apply (elim ok_elims)
  subgoal using again by simp
  subgoal premises prems for _ item jid found policy original _ db1 stored code rid cid pe cand ledger
  proof -
    have cand: "cand = clearing_journal env s stored item original key cid rid (le_entry_id pe)"
      using prems(21) by (simp add: validate_entries_Inr_iff)
    then have "lj_journal_id (jr_header cand) =
        cx_uuid5 env (ReconciliationJournalName (cv_reconciliation_evidence_id stored))"
      by (simp add: clearing_journal_def Let_def)
    then show ?thesis
      using prems(7-) cand
      by (intro new [of item policy db1 stored code rid cid original "le_entry_id pe" ledger])
        (simp_all add: reconciliation_authorized_def Let_def)
  qed
  done


lemma clear_inv:
  assumes inv: "cash_inv env db" and u5: "inj (cx_uuid5 env)" and ok: "clear env db s v key n = Inr (db', r)"
  shows "cash_inv env db'"
  using ok
proof (cases rule: clear_view)
  case again
  then show ?thesis using inv by simp
next
  case (new item original policy db1 stored code rid cid pe ledger)
  have u5_eq: "cx_uuid5 env x = cx_uuid5 env y \<longleftrightarrow> x = y" for x y using u5 by (simp add: inj_eq)
  let ?ride = "cv_ride_id v" and ?eid = "cv_reconciliation_evidence_id v"
  have none: "dget (cs_reconciliations db) ?ride = None"
    using cash_invD(6) [OF inv, of ?ride] new(1,3) by (cases "dget (cs_reconciliations db) ?ride") auto
  have db1: "stored = v" "db1 = db\<lparr>cs_reconciliations := dset ?ride v (cs_reconciliations db)\<rparr>"
    and unused: "\<not> list_ex (\<lambda>x. cv_reconciliation_evidence_id x = ?eid \<or> cv_evidence_hash x = cv_evidence_hash v)
      (dvalues (cs_reconciliations db))"
    using new(5) none by (auto simp: add_cash_reconciliation_evidence_def split: if_splits)
  have item: "cr_ride_id item = ?ride" using cash_invD(4) [OF inv new(1)] by (simp add: record_ok_def)
  have r: "cr_instruction_id r = cr_instruction_id item" "cr_ride_id r = ?ride"
      "cr_accounting_policy_id r = cr_accounting_policy_id item" "cr_reconciliation_state r = CR_CLEARED"
    and upd: "db' = db1\<lparr>cs_ledger := ledger, cs_records := dset ?ride r (cs_records db)\<rparr>"
    using new(10) item new(1) by (auto simp: update_cash_accounting_record_def db1 Let_def split: if_splits)
  have db': "cs_policies db' = cs_policies db" "cs_records db' = dset ?ride r (cs_records db)"
      "cs_reconciliations db' = dset ?ride v (cs_reconciliations db)" "cs_ledger db' = ledger"
    by (simp_all add: upd db1)
  define cand where "cand = clearing_journal env s v item original key cid rid pe"
  have cand: "lj_journal_id (jr_header cand) = cx_uuid5 env (ReconciliationJournalName ?eid)"
      "account_net A (jr_entries cand) = (if cid = A then cr_platform_claim_minor item else 0) -
         (if rid = A then cr_platform_claim_minor item else 0)" for A
    using new(4) by (simp_all add: cand_def clearing_journal_def Let_def account_net_def)
  show ?thesis
  proof (rule cash_posted_inv [OF inv, of cand])
    show "validate_entries cand = Inr cand"
      and "post_once env ''cash_reconciliation_idempotency_corrupt'' ''cash_reconciliation_idempotency_conflict''
        (cs_ledger db) (fst s) cand (cv_occurred_at v) = Inr (cs_ledger db')"
      using new(9) by (simp_all add: Let_def cand_def db1 db')
    show "\<not> journal_known env db (lj_journal_id (jr_header cand))"
      using unused unfolding journal_known_def cand(1) by (auto simp: u5_eq list_ex_iff dest: dget_in_dvalues)
    show "journal_known env db' (lj_journal_id (jr_header cand))"
      unfolding journal_known_def cand(1) db' by auto
    show "journal_known env db' l" if "journal_known env db l" for l
      using that by (rule journal_known_mono) (use new(1) none r in \<open>auto simp: db'\<close>)
    show "dict_ok (cs_records db')" using cash_invD(2) [OF inv] by (simp add: db')
    show "record_ok env db' k x" if "dget (cs_records db') k = Some x" for k x
      using that cash_invD(4) [OF inv, of k] new(1) r by (auto simp: record_ok_def db' split: if_splits)
    show "\<exists>x. dget (cs_records db') k = Some x \<and> cr_reconciliation_state x = CR_CLEARED"
      if "dget (cs_reconciliations db') k = Some w" for k w
      using cash_invD(6) [OF inv, of k w] that r by (auto simp: db' split: if_splits)
    show "account_net A (jr_entries cand) = open_claims env db' A - open_claims env db A"
      if "dedicated env db A" for A
    proof -
      have "cid \<noteq> A" using that new(2,8) by (auto simp: dedicated_def policy_spares_def)
      moreover have "open_claim env db A item = (if rid = A then cr_platform_claim_minor item else 0)"
        "open_claim env db A r = 0"
        using new(2,3,6,7) r by (auto simp: open_claim_def receivable_of_def)
      ultimately show ?thesis
        using cash_invD(2) [OF inv] new(1)
        by (simp add: cand(2) open_claims_def open_claim_cong [OF db'(1)] db'(2) sum_list_map_update)
    qed
  qed (rule db'(1))
qed

section \<open>Reachable cash accounts\<close>

inductive cash_reachable :: "cash_env \<Rightarrow> cash_db \<Rightarrow> bool" for env where
  cash_start: "ld_journals (cs_ledger db) = [] \<Longrightarrow> ld_entries (cs_ledger db) = [] \<Longrightarrow> cs_policies db = [] \<Longrightarrow>
    cs_records db = [] \<Longrightarrow> cs_reconciliations db = [] \<Longrightarrow> cash_reachable env db"
| cash_policy: "cash_reachable env db \<Longrightarrow> valid_cash_policy p = Inr p \<Longrightarrow>
    add_cash_accounting_policy db p = Inr (db', p') \<Longrightarrow> cash_reachable env db'"
| cash_collected: "cash_reachable env db \<Longrightarrow> add_cash_collection_evidence db e = Inr (db', e') \<Longrightarrow> cash_reachable env db'"
| cash_posted: "cash_reachable env db \<Longrightarrow> post env db s ride fare ev pol key c at fid = Inr (db', r) \<Longrightarrow>
    cash_reachable env db'"
| cash_cleared: "cash_reachable env db \<Longrightarrow> clear env db s v key n = Inr (db', r) \<Longrightarrow> cash_reachable env db'"

lemma cash_policy_inv:
  assumes inv: "cash_inv env db" and add: "add_cash_accounting_policy db p = Inr (db', p')"
  shows "cash_inv env db'"
proof -
  have new: "dget (cs_policies db) (cp_accounting_policy_id p) = None"
    and db': "db' = db\<lparr>cs_policies := dset (cp_accounting_policy_id p) p (cs_policies db)\<rparr>"
    using add by (auto simp: add_cash_accounting_policy_def split: if_splits)
  have keep: "dget (cs_policies db') k = dget (cs_policies db) k" if "dget (cs_policies db) k \<noteq> None" for k
    using that new by (auto simp: db')
  have rec: "record_ok env db' k x" if "dget (cs_records db) k = Some x" for k x
    using cash_invD(4) [OF inv that] keep unfolding record_ok_def by auto
  have ded: "dedicated env db A" if "dedicated env db' A" for A
    using that keep unfolding dedicated_def by (metis option.distinct(1))
  have "open_claim env db' A x = open_claim env db A x" if "x \<in> set (dvalues (cs_records db))" for A x
  proof -
    from iffD1 [OF in_dvalues_iff [OF cash_invD(2) [OF inv]] that]
    obtain k where k: "dget (cs_records db) k = Some x" ..
    have "dget (cs_policies db) (cr_accounting_policy_id x) \<noteq> None"
      using cash_invD(4) [OF inv k] by (simp add: record_ok_def)
    then show ?thesis using keep by (simp add: open_claim_def receivable_of_def)
  qed
  then have claims: "open_claims env db' A = open_claims env db A" for A
    by (simp add: open_claims_def db' cong: map_cong)
  have same: "cs_ledger db' = cs_ledger db" "cs_records db' = cs_records db"
      "cs_reconciliations db' = cs_reconciliations db"
    by (simp_all add: db')
  have known: "journal_known env db' j \<longleftrightarrow> journal_known env db j" for j
    by (simp add: journal_known_def same)
  have pol: "cp_accounting_policy_id q = k" if "dget (cs_policies db') k = Some q" for k q
    using that cash_invD(3) [OF inv, of k q] unfolding db' by (simp split: if_splits)
  show ?thesis
    unfolding cash_inv_def same known claims
    using cash_invD(1,2,5,6,7) [OF inv] rec pol ded by (intro conjI allI impI) blast+
qed

text \<open>The collection evidence is read by the instruction builder only; the invariant does not depend on it.\<close>

lemma cash_inv_collections:
  "cash_inv env (db\<lparr>cs_collections := x\<rparr>) \<longleftrightarrow> cash_inv env db"
  unfolding cash_inv_def record_ok_def journal_known_def dedicated_def open_claims_def open_claim_def
    receivable_of_def by (cases db) (simp only: cash_db.simps)

lemma cash_reachable_inv:
  assumes "cash_reachable env db" and u5: "inj (cx_uuid5 env)"
  shows "cash_inv env db"
  using assms(1)
proof induction
  case (cash_start db)
  then show ?case
    by (simp add: cash_inv_def ledger_inv_def ledger_lines_def dvalues_def open_claims_def account_net_def)
next
  case (cash_policy db p db' p')
  then show ?case using cash_policy_inv by blast
next
  case (cash_collected db e db' e')
  then have "\<exists>x. db' = db\<lparr>cs_collections := x\<rparr>"
    unfolding add_cash_collection_evidence_def by (elim ok_elims) (auto intro: exI [of _ "cs_collections db"])
  then show ?case using cash_inv_collections cash_collected.IH by metis
next
  case (cash_posted db s ride fare ev pol key c at fid db' r)
  then show ?case using post_inv u5 by blast
next
  case (cash_cleared db s v key n db' r)
  then show ?case using clear_inv u5 by blast
qed

end
