(* ===== verification/Cash_Props.thy ===== *)
theory Cash_Props
  imports Cash_Inv Payment_Props "HOL-Library.Countable"
begin

text \<open>
  The properties of cash accounting: what an instruction contains, when one is built, and that the receivable
  account of the ledger holds the open claims. A concrete ride shows each of them.
\<close>

section \<open>When an instruction is built\<close>

text \<open>The account codes an instruction may use. The policy's validator does not check their pattern.\<close>

definition policy_codes_ok :: "cash_accounting_policy \<Rightarrow> bool" where
  "policy_codes_ok p \<longleftrightarrow> code_pattern 2 (cp_platform_revenue_account p) \<and>
     list_all (\<lambda>c. case c of None \<Rightarrow> True | Some code \<Rightarrow> code_pattern 2 code)
       [cp_principal_receivable_account p, cp_platform_claim_account p, cp_driver_entitlement_account p,
        cp_tax_payable_account p]"

lemma share_bounds:
  fixes gross bps :: int
  assumes "0 \<le> gross" and "0 \<le> bps" and "bps \<le> 10000"
  shows "0 \<le> gross * bps div 10000" and "gross * bps div 10000 \<le> gross"
proof -
  show "0 \<le> gross * bps div 10000" using assms by (simp add: pos_imp_zdiv_nonneg_iff)
  have "gross * bps \<le> gross * 10000" using assms by (simp add: mult_left_mono)
  then show "gross * bps div 10000 \<le> gross" by (metis nonzero_mult_div_cancel_right zdiv_mono1 zero_less_numeral zero_neq_numeral)
qed

lemma share_mono:
  fixes gross a b :: int
  assumes "0 \<le> gross" and "a \<le> b"
  shows "gross * a div 10000 \<le> gross * b div 10000"
  using assms by (simp add: mult_left_mono zdiv_mono1)

lemma share_sum:
  fixes gross a b :: int
  assumes "0 \<le> gross" and "a + b \<le> 10000"
  shows "gross * a div 10000 + gross * b div 10000 \<le> gross"
proof -
  have "gross * (a + b) \<le> gross * 10000" using assms by (simp add: mult_left_mono)
  then have "gross * a + gross * b \<le> gross * 10000" by (simp add: distrib_left)
  then show ?thesis by linarith
qed

lemma valid_cash_policy_ok:
  assumes "valid_cash_policy p = Inr p'"
  shows "bps_ok (cp_platform_claim_basis_points p)" and "bps_ok (cp_driver_entitlement_basis_points p)"
    and "bps_ok (cp_tax_basis_points p)" and "hash_pattern (cp_policy_evidence_hash p)"
    and "cp_tax_basis_points p \<le> cp_platform_claim_basis_points p"
    and "cp_accounting_model p = PRINCIPAL_GROSS \<Longrightarrow> cp_platform_claim_basis_points p = 10000 \<and>
      cp_principal_receivable_account p \<noteq> None \<and> cp_driver_entitlement_account p \<noteq> None \<and>
      cp_driver_entitlement_basis_points p + cp_tax_basis_points p \<le> 10000"
    and "cp_accounting_model p = AGENT_NET_REMITTANCE \<Longrightarrow> cp_platform_claim_account p \<noteq> None"
  using assms unfolding valid_cash_policy_def by (auto split: if_splits)

definition policy_active :: "cash_accounting_policy \<Rightarrow> bool \<Rightarrow> instant \<Rightarrow> bool" where
  "policy_active p production at \<longleftrightarrow> (production \<longrightarrow> cp_environment p = PRODUCTION) \<and> cp_effective_from p \<le> at \<and>
     (case cp_effective_until p of None \<Rightarrow> True | Some u \<Rightarrow> at < u)"

definition evidence_matches :: "fare_calculation \<Rightarrow> cash_collection_evidence \<Rightarrow> bool" where
  "evidence_matches c e \<longleftrightarrow> ce_state e = CE_COLLECTION_CORROBORATED \<and> ce_ride_id e = fc_ride_id c \<and>
     ce_fare_calculation_id e = fc_calculation_id c \<and>
     ce_gross_cash_reported_minor e = fb_rider_total_minor (fc_breakdown c)"

definition share :: "cash_collection_evidence \<Rightarrow> int \<Rightarrow> minor" where
  "share e bps = ce_gross_cash_reported_minor e * bps div 10000"

lemma build_guards:
  assumes "policy_active p production at" and "evidence_matches c e"
  shows "build_cash_accounting_instruction h p c e at production fid =
    (let claim = share e (cp_platform_claim_basis_points p); ent = share e (cp_driver_entitlement_basis_points p);
         tax = share e (cp_tax_basis_points p)
     in if claim - tax < 0 then Inl (ValueError ''cash_tax_exceeds_platform_claim'')
        else bind_result (claim_lines p (ce_gross_cash_reported_minor e) claim ent tax) (\<lambda>(ls, revenue).
          bind_result (revenue_line p revenue) (\<lambda>rs. bind_result (tax_line p tax) (\<lambda>ts.
          valid_cash_instruction (cash_instruction h p c e claim ent tax (ls @ rs @ ts) fid)))))"
  using assms
  by (auto simp: policy_active_def evidence_matches_def build_cash_accounting_instruction_def share_def Let_def
      split: option.splits)

lemma valid_cash_lines:
  assumes "0 \<le> ce_gross_cash_reported_minor e" and "0 \<le> claim" and "0 \<le> ent" and "0 \<le> tax"
    and "hash_pattern (cp_policy_evidence_hash p)" and "\<And>x. hash_pattern (h x)"
  shows "valid_cash_instruction (cash_instruction h p c e claim ent tax (cash_lines p claim ent tax) fid) =
    Inr (cash_instruction h p c e claim ent tax (cash_lines p claim ent tax) fid)"
proof -
  have "cash_lines p claim ent tax \<noteq> []" by (simp add: cash_lines_def Let_def)
  moreover have "hash_pattern (ci_input_hash (cash_instruction h p c e claim ent tax ls fid))" for ls
    using assms(6) by (simp add: cash_instruction_def)
  ultimately show ?thesis using assms by (simp add: valid_cash_instruction_def cash_lines_total)
qed

lemma lines_exist:
  assumes pol: "valid_cash_policy p = Inr p" and codes: "policy_codes_ok p"
    and gross: "1 \<le> gross" "gross \<le> 10000000000"
    and claim: "claim = gross * cp_platform_claim_basis_points p div 10000"
    and ent: "ent = gross * cp_driver_entitlement_basis_points p div 10000"
    and tax: "tax = gross * cp_tax_basis_points p div 10000"
    and one: "1 \<le> claim" and tax_account: "tax \<noteq> 0 \<Longrightarrow> cp_tax_payable_account p \<noteq> None"
    and entitled: "cp_accounting_model p = PRINCIPAL_GROSS \<Longrightarrow> 1 \<le> ent"
  shows "\<exists>ls rs ts revenue. claim_lines p gross claim ent tax = Inr (ls, revenue) \<and> revenue_line p revenue = Inr rs \<and>
    tax_line p tax = Inr ts"
proof -
  note v = valid_cash_policy_ok [OF pol]
  have le: "tax \<le> claim" unfolding tax claim using gross by (intro share_mono v(5)) simp
  have pos: "0 \<le> tax" "0 \<le> ent" "claim \<le> gross"
    unfolding tax ent claim using gross v(1-3) by (auto intro: share_bounds)
  have ts: "\<exists>ts. tax_line p tax = Inr ts"
    using codes pos le gross tax_account
    by (cases "cp_tax_payable_account p"; cases "tax = 0") (simp_all add: tax_line_def cash_line_def policy_codes_ok_def)
  have rs: "\<exists>rs. revenue_line p r = Inr rs" if "0 \<le> r" "r \<le> gross" for r
    using that codes gross by (auto simp: revenue_line_def cash_line_def policy_codes_ok_def)
  show ?thesis
  proof (cases "cp_accounting_model p")
    case PRINCIPAL_GROSS
    then have g: "claim = gross" "ent + tax \<le> gross"
      using v(6) gross share_sum [of gross "cp_driver_entitlement_basis_points p" "cp_tax_basis_points p"]
      by (auto simp: claim ent tax)
    obtain a b where ab: "cp_principal_receivable_account p = Some a" "cp_driver_entitlement_account p = Some b"
      using v(6) PRINCIPAL_GROSS by blast
    have "claim_lines p gross claim ent tax = Inr ([\<lparr>cl_account_code = a, cl_side = DEBIT, cl_amount_minor = claim\<rparr>,
        \<lparr>cl_account_code = b, cl_side = CREDIT, cl_amount_minor = ent\<rparr>], claim - ent - tax)"
      using PRINCIPAL_GROSS ab codes g gross entitled pos
      by (simp add: claim_lines_def cash_line_def policy_codes_ok_def)
    then show ?thesis using ts rs [of "claim - ent - tax"] g pos by auto
  next
    case AGENT_NET_REMITTANCE
    then obtain a where a: "cp_platform_claim_account p = Some a" using v(7) by blast
    have "claim_lines p gross claim ent tax =
        Inr ([\<lparr>cl_account_code = a, cl_side = DEBIT, cl_amount_minor = claim\<rparr>], claim - tax)"
      using AGENT_NET_REMITTANCE a codes gross one pos by (simp add: claim_lines_def cash_line_def policy_codes_ok_def)
    then show ?thesis using ts rs [of "claim - tax"] le pos by auto
  qed
qed

text \<open>
  when a cash instruction is built. Under a valid and active policy whose account codes are well formed,
  for corroborated evidence that matches the final fare and a gross amount of at least one minor unit within the
  line limit, an instruction is returned exactly if the platform's rounded claim is positive, a non-zero tax has
  an account, and, for a principal policy, the driver's rounded entitlement is positive. So a claim that rounds
  to zero is an error, and a principal policy with no driver entitlement, which the policy validator accepts,
  never yields an instruction.
\<close>

theorem cash_instruction_exists:
  assumes pol: "valid_cash_policy p = Inr p" and codes: "policy_codes_ok p"
    and active: "policy_active p production at" and match: "evidence_matches c e"
    and gross: "1 \<le> ce_gross_cash_reported_minor e" "ce_gross_cash_reported_minor e \<le> 10000000000"
    and digest: "\<And>x. hash_pattern (h x)"
  shows "(\<exists>i. build_cash_accounting_instruction h p c e at production fid = Inr i) \<longleftrightarrow>
    1 \<le> share e (cp_platform_claim_basis_points p) \<and>
    (share e (cp_tax_basis_points p) = 0 \<or> cp_tax_payable_account p \<noteq> None) \<and>
    (cp_accounting_model p = AGENT_NET_REMITTANCE \<or> 1 \<le> share e (cp_driver_entitlement_basis_points p))"
    (is "?built \<longleftrightarrow> ?can")
proof
  assume ?built
  then obtain i where "build_cash_accounting_instruction h p c e at production fid = Inr i" ..
  then obtain ls revenue rs ts where
    b: "claim_lines p (ce_gross_cash_reported_minor e) (ci_platform_claim_minor i) (ci_driver_entitlement_minor i)
          (ci_tax_minor i) = Inr (ls, revenue)" "revenue_line p revenue = Inr rs" "tax_line p (ci_tax_minor i) = Inr ts"
    and i: "i = cash_instruction h p c e (share e (cp_platform_claim_basis_points p))
      (share e (cp_driver_entitlement_basis_points p)) (share e (cp_tax_basis_points p)) (ls @ rs @ ts) fid"
    unfolding share_def by (rule build_parts)
  show ?can using built_lines(3,7,8) [OF b] by (cases "cp_accounting_model p") (auto simp: i)
next
  assume can: ?can
  note v = valid_cash_policy_ok [OF pol]
  let ?claim = "share e (cp_platform_claim_basis_points p)" and ?ent = "share e (cp_driver_entitlement_basis_points p)"
    and ?tax = "share e (cp_tax_basis_points p)"
  obtain ls rs ts revenue where
    l: "claim_lines p (ce_gross_cash_reported_minor e) ?claim ?ent ?tax = Inr (ls, revenue)"
      "revenue_line p revenue = Inr rs" "tax_line p ?tax = Inr ts"
    using lines_exist [OF pol codes gross refl refl refl] can unfolding share_def by auto
  have le: "?tax \<le> ?claim" unfolding share_def using gross by (intro share_mono v(5)) simp
  have pos: "0 \<le> ?tax" "0 \<le> ?ent" "0 \<le> ?claim"
    unfolding share_def using gross v(1-3) by (auto intro: share_bounds)
  have "valid_cash_instruction (cash_instruction h p c e ?claim ?ent ?tax (cash_lines p ?claim ?ent ?tax) fid) =
      Inr (cash_instruction h p c e ?claim ?ent ?tax (cash_lines p ?claim ?ent ?tax) fid)"
    using gross pos by (intro valid_cash_lines v(4) digest) simp_all
  then show ?built
    using l le built_lines(1) [OF l] by (simp add: build_guards [OF active match] Let_def)
qed

text \<open>
  an instruction of cash accounting is balanced and bound to its sources. It is built from corroborated
  evidence of the final fare's ride and amount only; the platform's claim, the driver's entitlement and the tax are
  the policy's basis points of the gross amount, rounded down; debits and credits both equal the claim; the first
  line debits the receivable with the whole claim; and what is left for the platform's revenue is not negative.
\<close>

theorem cash_instruction_balanced:
  assumes "build_cash_accounting_instruction h p c e at production fid = Inr i"
  shows "evidence_matches c e \<and> ci_ride_id i = fc_ride_id c \<and>
    ci_platform_claim_minor i = share e (cp_platform_claim_basis_points p) \<and>
    ci_driver_entitlement_minor i = share e (cp_driver_entitlement_basis_points p) \<and>
    ci_tax_minor i = share e (cp_tax_basis_points p) \<and>
    line_total DEBIT (ci_journal_lines i) = ci_platform_claim_minor i \<and>
    line_total CREDIT (ci_journal_lines i) = ci_platform_claim_minor i \<and>
    (\<exists>code. receivable_code p = Some code \<and> hd (ci_journal_lines i) =
       \<lparr>cl_account_code = code, cl_side = DEBIT, cl_amount_minor = ci_platform_claim_minor i\<rparr>) \<and>
    0 \<le> cash_revenue p (ci_platform_claim_minor i) (ci_driver_entitlement_minor i) (ci_tax_minor i)"
proof -
  note b = build_ok [OF assms]
  obtain code where code: "receivable_code p = Some code" using b(2) by blast
  have "hd (ci_journal_lines i) = \<lparr>cl_account_code = code, cl_side = DEBIT, cl_amount_minor = ci_platform_claim_minor i\<rparr>"
    unfolding b(1) by (simp add: cash_lines_def Let_def code)
  moreover have "evidence_matches c e"
    using assms unfolding build_cash_accounting_instruction_def evidence_matches_def by (elim ok_elims) simp
  moreover have "ci_platform_claim_minor i = share e (cp_platform_claim_basis_points p) \<and>
    ci_driver_entitlement_minor i = share e (cp_driver_entitlement_basis_points p) \<and>
    ci_tax_minor i = share e (cp_tax_basis_points p)"
    using assms by (rule build_parts) (simp add: share_def)
  ultimately show ?thesis using b(5,8) code cash_lines_total unfolding b(1) by simp
qed

text \<open>
  C16: the receivable account is the open claims. In every state that policies, collections, postings and
  clearings lead to, an account that the stored policies use for the platform's receivable only has the ledger
  balance in birr that is the sum of the claims of the accounting records on that account that are not cleared:
  every posting books its claim once, every clearing removes exactly that claim, and repeated or rejected requests
  change nothing. The identifiers derived with \<open>uuid5\<close> are taken to be distinct for distinct names.
\<close>

theorem cash_receivable_is_open_claims:
  assumes "cash_reachable env db" and "inj (cx_uuid5 env)" and "dedicated env db A"
  shows "bal_net_minor (account_balance (cs_ledger db) A ''ETB'') = open_claims env db A"
  using cash_invD(7) [OF cash_reachable_inv [OF assms(1,2)] assms(3)]
  by (simp add: account_balance_net account_net_def)

section \<open>A concrete cash ride\<close>

fun cash_name_code :: "cash_name \<Rightarrow> nat" where
  "cash_name_code (InstructionName a b c d) = prod_encode (0, prod_encode (a, prod_encode (b, prod_encode (c, d))))"
| "cash_name_code (EntryName a n) = prod_encode (1, prod_encode (a, n))"
| "cash_name_code (JournalName a) = prod_encode (2, a)"
| "cash_name_code (AuditName a) = prod_encode (3, a)"
| "cash_name_code (ReconciliationJournalName a) = prod_encode (4, a)"
| "cash_name_code (ReconciliationEntryName a n) = prod_encode (5, prod_encode (a, n))"

lemma cash_name_code_inj: "cash_name_code x = cash_name_code y \<Longrightarrow> x = y"
  by (cases x; cases y) simp_all

text \<open>Small identifiers for the names of this ride, and a code for every other name.\<close>

definition sample_names :: "(cash_name \<times> uuid) list" where
  "sample_names = [(InstructionName 60 70 50 40, 1), (EntryName 1 1, 2), (EntryName 1 2, 3), (EntryName 1 3, 4),
     (JournalName 1, 5), (AuditName 1, 6), (ReconciliationJournalName 90, 7), (ReconciliationEntryName 90 1, 8),
     (ReconciliationEntryName 90 2, 9)]"

definition sample_uuid5 :: "cash_name \<Rightarrow> uuid" where
  "sample_uuid5 n = (case map_of sample_names n of Some k \<Rightarrow> k | None \<Rightarrow> cash_name_code n + 10)"

lemma sample_uuid5_inj: "inj sample_uuid5"
proof (rule injI)
  fix x y
  have small: "map_of sample_names n = Some k \<Longrightarrow> k < 10" for n k
    by (auto simp: sample_names_def split: if_splits)
  have names: "map_of sample_names n = Some k \<Longrightarrow> map_of (map (\<lambda>(a, b). (b, a)) sample_names) k = Some n" for n k
    by (auto simp: sample_names_def split: if_splits)
  show "sample_uuid5 x = sample_uuid5 y \<Longrightarrow> x = y"
    using small [of x] small [of y] names [of x] names [of y]
    by (auto simp: sample_uuid5_def split: option.splits dest: cash_name_code_inj)
qed

definition sample_cash_policy :: cash_accounting_policy where
  "sample_cash_policy = \<lparr>cp_accounting_policy_id = 40, cp_accounting_policy_version = ''cash-v1'',
     cp_accounting_model = AGENT_NET_REMITTANCE, cp_currency = ''ETB'', cp_effective_from = 0,
     cp_effective_until = None, cp_environment = PRODUCTION, cp_service_type = ''immediate_standard'',
     cp_payment_method = ''cash'', cp_platform_claim_basis_points = 2000, cp_driver_entitlement_basis_points = 8000,
     cp_tax_basis_points = 300, cp_principal_receivable_account = None, cp_platform_claim_account = Some ''claim'',
     cp_driver_entitlement_account = None, cp_platform_revenue_account = ''revenue'',
     cp_tax_payable_account = Some ''tax'', cp_reconciliation_clearing_account = ''clearing'',
     cp_reconciliation_basis = ''remittance'', cp_policy_evidence_hash = sample_digest [],
     cp_approval_reference = ''approval-1''\<rparr>"

definition sample_collection :: cash_collection_evidence where
  "sample_collection = \<lparr>ce_evidence_id = 50, ce_ride_id = 60, ce_rider_identity_id = 5, ce_driver_identity_id = 6,
     ce_fare_calculation_id = 70, ce_gross_cash_reported_minor = fb_rider_total_minor (fc_breakdown sample_fare),
     ce_state = CE_COLLECTION_CORROBORATED, ce_evidence_policy_version = ''v1'', ce_rider_confirmation_id = Some 51,
     ce_driver_confirmation_id = Some 52, ce_evidence_hash = sample_digest [], ce_recorded_at = 2000\<rparr>"

definition sample_cash_env :: cash_env where
  "sample_cash_env = \<lparr>cx_has_permission = (\<lambda>_ _. True),
     cx_get_calculation = (\<lambda>k. if k = 70 then Some sample_fare else None), cx_digest = sample_digest,
     cx_evidence_digest = (\<lambda>_. sample_digest []), cx_journal_digest = (\<lambda>_. ''digest''), cx_uuid5 = sample_uuid5,
     cx_book_id = 1, cx_account_ids = [(''claim'', 21), (''revenue'', 22), (''tax'', 23), (''clearing'', 24)],
     cx_production = True\<rparr>"

definition sample_cash_start :: cash_db where
  "sample_cash_start = \<lparr>cs_ledger = sample_ledger_db\<lparr>
       ld_accounts := map (\<lambda>k. (k, sample_ledger_account k)) [21, 22, 23, 24],
       ld_fare_calculations := [(70, \<lparr>ts_ride_request_id = Some 61, ts_dispatch_handoff_id = Some 62,
         ts_assignment_id = Some 63, ts_active_ride_id = Some 60, ts_fare_estimate_id = Some 71,
         ts_fare_calculation_id = Some 70\<rparr>)]\<rparr>,
     cs_policies = [], cs_collections = [], cs_records = [], cs_reconciliations = []\<rparr>"

definition sample_cash_ready :: cash_db where
  "sample_cash_ready = sample_cash_start\<lparr>cs_policies := [(40, sample_cash_policy)],
     cs_collections := [(60, sample_collection)]\<rparr>"

definition sample_cash_post :: "(cash_db \<times> cash_accounting_record) result" where
  "sample_cash_post = post sample_cash_env sample_cash_ready (9, ID_SERVICE) 60 70 50 40 ''cash-posting-key-1'' 95 2500 96"

definition sample_cash_posted :: cash_db where
  "sample_cash_posted = fst (projr sample_cash_post)"

definition sample_remittance :: cash_reconciliation_evidence where
  "sample_remittance = \<lparr>cv_reconciliation_evidence_id = 90, cv_ride_id = 60, cv_accounting_instruction_id = 1,
     cv_accounting_policy_id = 40, cv_accounting_policy_version = ''cash-v1'', cv_original_accounting_journal_id = 5,
     cv_platform_claim_minor = share sample_collection 2000, cv_currency = ''ETB'', cv_evidence_type = ''remittance'',
     cv_source_classification = ''approved_operational'', cv_evidence_hash = sample_digest [],
     cv_authorized_actor_id = 9, cv_occurred_at = 3000, cv_correlation_id = 97, cv_causation_id = 98\<rparr>"

definition sample_cash_clear :: "(cash_db \<times> cash_accounting_record) result" where
  "sample_cash_clear = clear sample_cash_env sample_cash_posted (9, ID_SERVICE) sample_remittance ''cash-clearing-key-1'' 1"


lemma sample_cash_ok:
  "valid_cash_policy sample_cash_policy = Inr sample_cash_policy"
  "\<not> isl sample_cash_post" "\<not> isl sample_cash_clear"
  by code_simp+

lemma sample_cash_posted_reachable: "cash_reachable sample_cash_env sample_cash_posted"
proof -
  have "cash_reachable sample_cash_env sample_cash_start"
    by (rule cash_start) (simp_all add: sample_cash_start_def sample_ledger_db_def)
  then have "cash_reachable sample_cash_env (sample_cash_start\<lparr>cs_policies := [(40, sample_cash_policy)]\<rparr>)"
    by (rule cash_policy [OF _ sample_cash_ok(1)])
      (simp add: add_cash_accounting_policy_def sample_cash_start_def sample_cash_policy_def dvalues_def)
  then have ready: "cash_reachable sample_cash_env sample_cash_ready"
    by (rule cash_collected [of _ _ sample_collection])
      (simp add: add_cash_collection_evidence_def sample_cash_start_def sample_cash_ready_def
        sample_collection_def dvalues_def)
  have "sample_cash_post = Inr (sample_cash_posted, snd (projr sample_cash_post))"
    using sample_cash_ok(2) by (cases sample_cash_post) (simp_all add: sample_cash_posted_def)
  then show ?thesis unfolding sample_cash_post_def by (rule cash_posted [OF ready])
qed

lemma sample_cash_cleared_reachable: "cash_reachable sample_cash_env (fst (projr sample_cash_clear))"
proof -
  have "sample_cash_clear = Inr (fst (projr sample_cash_clear), snd (projr sample_cash_clear))"
    using sample_cash_ok(3) by (cases sample_cash_clear) simp_all
  then show ?thesis unfolding sample_cash_clear_def by (rule cash_cleared [OF sample_cash_posted_reachable])
qed

lemma sample_dedicated:
  "cs_policies db = [(40, sample_cash_policy)] \<Longrightarrow> dedicated sample_cash_env db 21"
  by (simp add: dedicated_def policy_spares_def sample_cash_policy_def sample_cash_env_def)

theorem cash_receivable_is_open_claims_witness:
  "bal_net_minor (account_balance (cs_ledger sample_cash_posted) 21 ''ETB'') = 5950 \<and>
   bal_net_minor (account_balance (cs_ledger (fst (projr sample_cash_clear))) 21 ''ETB'') = 0"
proof -
  have pol: "cs_policies sample_cash_posted = [(40, sample_cash_policy)]"
    "cs_policies (fst (projr sample_cash_clear)) = [(40, sample_cash_policy)]" by code_simp+
  have "open_claims sample_cash_env sample_cash_posted 21 = 5950"
    "open_claims sample_cash_env (fst (projr sample_cash_clear)) 21 = 0" by code_simp+
  then show ?thesis
    using cash_receivable_is_open_claims [OF sample_cash_posted_reachable _ sample_dedicated [OF pol(1)]]
      cash_receivable_is_open_claims [OF sample_cash_cleared_reachable _ sample_dedicated [OF pol(2)]]
      sample_uuid5_inj by (simp add: sample_cash_env_def)
qed

theorem cash_instruction_exists_witness:
  "\<exists>i. build_cash_accounting_instruction sample_digest sample_cash_policy sample_fare sample_collection 2500 True 96 = Inr i"
proof -
  have "policy_codes_ok sample_cash_policy" "policy_active sample_cash_policy True 2500"
    "evidence_matches sample_fare sample_collection" "1 \<le> ce_gross_cash_reported_minor sample_collection"
    "ce_gross_cash_reported_minor sample_collection \<le> 10000000000"
    "1 \<le> share sample_collection (cp_platform_claim_basis_points sample_cash_policy)"
    "cp_tax_payable_account sample_cash_policy \<noteq> None"
    "cp_accounting_model sample_cash_policy = AGENT_NET_REMITTANCE" by code_simp+
  moreover have "hash_pattern (sample_digest x)" for x
    by (simp add: sample_digest_def hash_pattern_def list_all_iff)
  ultimately show ?thesis
    using cash_instruction_exists [OF sample_cash_ok(1), of True 2500 sample_fare sample_collection sample_digest 96]
    by blast
qed

theorem cash_instruction_balanced_witness:
  "\<exists>i. build_cash_accounting_instruction sample_digest sample_cash_policy sample_fare sample_collection 2500 True 96 = Inr i \<and>
     line_total DEBIT (ci_journal_lines i) = ci_platform_claim_minor i \<and> ci_tax_minor i = 892"
proof -
  let ?b = "build_cash_accounting_instruction sample_digest sample_cash_policy sample_fare sample_collection 2500 True 96"
  have "\<not> isl ?b" by code_simp
  then obtain i where i: "?b = Inr i" by (cases ?b) auto
  have "share sample_collection (cp_tax_basis_points sample_cash_policy) = 892" by code_simp
  then show ?thesis using cash_instruction_balanced [OF i] i by simp
qed

end
