(* ===== verification/Active_Ride.thy ===== *)
theory Active_Ride
  imports Lifecycle
begin

text \<open>
  The active ride: \<open>active_ride/models.py\<close>, \<open>engine.py\<close> and \<open>pickup.py\<close>, the repository
  \<open>persistence/active_ride_repository.py\<close> with its event log, and the two services of \<open>lifecycle.py\<close> and
  \<open>application.py\<close>. Timestamps are timezone-aware. What other parts provide is in the record \<open>ride_env\<close>: the
  dispatch assignments, the request digest and the keyed digest of a pickup code. Identifiers drawn by
  \<open>uuid4\<close> and pickup codes drawn by \<open>secrets\<close> are arguments; outbox message identifiers, which nothing
  reads, are left out.
\<close>

section \<open>Models\<close>

datatype active_ride_state = AR_DRIVER_ASSIGNED | AR_REQUEST_ACCEPTED | AR_SEARCHING | AR_OFFERING | AR_ASSIGNED
  | AR_DRIVER_EN_ROUTE | AR_DRIVER_ARRIVED | AR_PICKUP_VERIFICATION_PENDING | AR_PICKUP_VERIFIED | AR_IN_PROGRESS
  | AR_DESTINATION_APPROACHING | AR_COMPLETION_PENDING | AR_COMPLETED | AR_REASSIGNING | AR_CANCELLATION_PENDING
  | AR_CANCELLED | AR_NO_SHOW_REVIEW | AR_NO_DRIVER_AVAILABLE | AR_OPERATIONAL_RECOVERY | AR_OPERATIONAL_REVIEW
  | AR_PICKUP_CONFIRMED | AR_RIDE_IN_PROGRESS | AR_DESTINATION_ARRIVED | AR_DRIVER_CANCELLED | AR_RIDER_CANCELLED
  | AR_SUPPORT_INTERRUPTED | AR_SYSTEM_INTERRUPTED

text \<open>The value of each member, and the lookup of a member by its value.\<close>

definition active_ride_states :: "(active_ride_state \<times> string) list" where
  "active_ride_states =
     [(AR_DRIVER_ASSIGNED, ''driver_assigned''), (AR_REQUEST_ACCEPTED, ''request_accepted''),
      (AR_SEARCHING, ''searching''), (AR_OFFERING, ''offering''), (AR_ASSIGNED, ''assigned''),
      (AR_DRIVER_EN_ROUTE, ''driver_en_route''), (AR_DRIVER_ARRIVED, ''driver_arrived''),
      (AR_PICKUP_VERIFICATION_PENDING, ''pickup_verification_pending''), (AR_PICKUP_VERIFIED, ''pickup_verified''),
      (AR_IN_PROGRESS, ''in_progress''), (AR_DESTINATION_APPROACHING, ''destination_approaching''),
      (AR_COMPLETION_PENDING, ''completion_pending''), (AR_COMPLETED, ''completed''),
      (AR_REASSIGNING, ''reassigning''), (AR_CANCELLATION_PENDING, ''cancellation_pending''),
      (AR_CANCELLED, ''cancelled''), (AR_NO_SHOW_REVIEW, ''no_show_review''),
      (AR_NO_DRIVER_AVAILABLE, ''no_driver_available''), (AR_OPERATIONAL_RECOVERY, ''operational_recovery''),
      (AR_OPERATIONAL_REVIEW, ''operational_review''), (AR_PICKUP_CONFIRMED, ''pickup_confirmed''),
      (AR_RIDE_IN_PROGRESS, ''ride_in_progress''), (AR_DESTINATION_ARRIVED, ''destination_arrived''),
      (AR_DRIVER_CANCELLED, ''driver_cancelled''), (AR_RIDER_CANCELLED, ''rider_cancelled''),
      (AR_SUPPORT_INTERRUPTED, ''support_interrupted''), (AR_SYSTEM_INTERRUPTED, ''system_interrupted'')]"

definition state_value :: "active_ride_state \<Rightarrow> string" where
  "state_value s = (case dget active_ride_states s of Some v \<Rightarrow> v | None \<Rightarrow> [])"

definition state_of_value :: "string \<Rightarrow> active_ride_state result" where
  "state_of_value v =
     (case find (\<lambda>p. snd p = v) active_ride_states of
        Some (s, _) \<Rightarrow> Inr s
      | None \<Rightarrow> Inl (ValueError ''not a valid ActiveRideState''))"

definition TERMINAL_STATES :: "active_ride_state list" where
  "TERMINAL_STATES = [AR_COMPLETED, AR_CANCELLED, AR_NO_DRIVER_AVAILABLE, AR_DRIVER_CANCELLED, AR_RIDER_CANCELLED,
     AR_SUPPORT_INTERRUPTED, AR_SYSTEM_INTERRUPTED]"

datatype actor_role = ROLE_RIDER | ROLE_DRIVER | ROLE_WORKER | ROLE_SUPPORT

datatype responsibility_class = RC_RIDER | RC_DRIVER | RC_AYO | RC_EXTERNAL | RC_SHARED | RC_INSUFFICIENT

datatype confidence_level = CL_HEALTHY | CL_WATCH | CL_AT_RISK | CL_CRITICAL | CL_INSUFFICIENT_DATA

datatype data_quality_status = QS_GOOD | QS_DEGRADED | QS_STALE | QS_CONFLICTING | QS_UNAVAILABLE

datatype pickup_confidence = PC_VERIFIED | PC_HIGH | PC_MEDIUM | PC_LOW | PC_INSUFFICIENT_DATA

record active_ride =
  ar_ride_id :: uuid
  ar_rider_id :: uuid
  ar_driver_id :: "uuid option"
  ar_vehicle_id :: "uuid option"
  ar_reservation_id :: "uuid option"
  ar_assignment_id :: "uuid option"
  ar_ride_request_id :: "uuid option"
  ar_dispatch_handoff_id :: "uuid option"
  ar_lifecycle_policy_version :: string
  ar_source_assignment_version :: "int option"
  ar_state :: active_ride_state
  ar_pickup_place_id :: string
  ar_destination_place_id :: string
  ar_service_type :: string
  ar_created_at :: instant
  ar_updated_at :: instant
  ar_version :: int
  ar_last_sequence :: int
  ar_driver_changed :: bool

definition valid_active_ride :: "active_ride \<Rightarrow> active_ride result" where
  "valid_active_ride r =
     (if code_pattern 1 (ar_lifecycle_policy_version r) \<and>
         (case ar_source_assignment_version r of None \<Rightarrow> True | Some v \<Rightarrow> 1 \<le> v) \<and>
         length_between 8 128 (ar_pickup_place_id r) \<and> length_between 8 128 (ar_destination_place_id r) \<and>
         code_pattern 1 (ar_service_type r) \<and> 1 \<le> ar_version r \<and> 0 \<le> ar_last_sequence r
      then Inr r else Inl (ValidationError ''ActiveRide''))"

record ride_event =
  re_event_id :: uuid
  re_ride_id :: uuid
  re_sequence :: int
  re_aggregate_version :: int
  re_event_type :: string
  re_schema_version :: int
  re_occurred_at :: instant
  re_payload :: payload

definition valid_ride_event :: "ride_event \<Rightarrow> ride_event result" where
  "valid_ride_event e =
     (if 1 \<le> re_sequence e \<and> 1 \<le> re_aggregate_version e \<and> code_pattern 1 (re_event_type e) \<and> 1 \<le> re_schema_version e
      then Inr e else Inl (ValidationError ''RideEvent''))"

record evidence_record =
  er_evidence_id :: uuid
  er_ride_id :: uuid
  er_evidence_type :: string
  er_submitted_by_role :: actor_role
  er_observed_at :: instant
  er_responsibility :: responsibility_class
  er_reason_code :: string
  er_evidence_references :: "string list"

definition valid_evidence :: "evidence_record \<Rightarrow> evidence_record result" where
  "valid_evidence e =
     (if code_pattern 1 (er_evidence_type e) \<and> code_pattern 1 (er_reason_code e)
      then Inr e else Inl (ValidationError ''EvidenceRecord''))"

record confidence_policy =
  cy_rule_set_id :: string
  cy_version :: string
  cy_maximum_location_age_seconds :: int
  cy_watch_eta_increase_seconds :: int
  cy_at_risk_eta_increase_seconds :: int
  cy_stagnation_seconds :: int
  cy_hysteresis_seconds :: int
  cy_alert_cooldown_seconds :: int
  cy_decision_ttl_seconds :: int

abbreviation in_range :: "int \<Rightarrow> int \<Rightarrow> int \<Rightarrow> bool" where
  "in_range lo hi n \<equiv> lo \<le> n \<and> n \<le> hi"

definition valid_confidence_policy :: "confidence_policy \<Rightarrow> bool" where
  "valid_confidence_policy p \<longleftrightarrow> code_pattern 1 (cy_rule_set_id p) \<and> code_pattern 1 (cy_version p) \<and>
     in_range 5 900 (cy_maximum_location_age_seconds p) \<and> in_range 30 3600 (cy_watch_eta_increase_seconds p) \<and>
     in_range 60 7200 (cy_at_risk_eta_increase_seconds p) \<and> in_range 30 7200 (cy_stagnation_seconds p) \<and>
     in_range 0 1800 (cy_hysteresis_seconds p) \<and> in_range 30 86400 (cy_alert_cooldown_seconds p) \<and>
     in_range 10 3600 (cy_decision_ttl_seconds p)"

record confidence_signals =
  sg_driver_location_age_seconds :: "int option"
  sg_rider_location_age_seconds :: "int option"
  sg_pickup_eta_increase_seconds :: "int option"
  sg_lifecycle_stagnation_seconds :: int
  sg_driver_moving_away :: bool
  sg_unexpected_stop :: bool
  sg_locations_conflict :: bool
  sg_repeated_verification_failure :: bool
  sg_provider_unavailable :: bool
  sg_verified_external_delay :: bool
  sg_anomaly_duration_seconds :: int

definition valid_confidence_signals :: "confidence_signals \<Rightarrow> bool" where
  "valid_confidence_signals g \<longleftrightarrow>
     list_all (\<lambda>x. case x of None \<Rightarrow> True | Some n \<Rightarrow> 0 \<le> n)
       [sg_driver_location_age_seconds g, sg_rider_location_age_seconds g, sg_pickup_eta_increase_seconds g] \<and>
     0 \<le> sg_lifecycle_stagnation_seconds g \<and> in_range 0 86400 (sg_anomaly_duration_seconds g)"

record confidence_decision =
  cd_confidence_decision_id :: uuid
  cd_ride_id :: uuid
  cd_rule_set_id :: string
  cd_rule_set_version :: string
  cd_health_level :: confidence_level
  cd_reason_codes :: "string list"
  cd_signal_freshness :: string
  cd_data_quality_status :: data_quality_status
  cd_generated_at :: instant
  cd_expires_at :: instant
  cd_recommended_actions :: "string list"

record pickup_recommendation =
  pr_recommendation_id :: uuid
  pr_ride_id :: uuid
  pr_policy_id :: string
  pr_policy_version :: string
  pr_primary_place_id :: string
  pr_fallback_place_id :: "string option"
  pr_entrance_or_gate :: "string option"
  pr_terminal_or_zone :: "string option"
  pr_walking_time_min_seconds :: "int option"
  pr_walking_time_max_seconds :: "int option"
  pr_driver_approach_guidance :: string
  pr_accessibility_supported :: bool
  pr_confidence :: pickup_confidence
  pr_source_freshness :: string
  pr_reason_codes :: "string list"
  pr_generated_at :: instant
  pr_expires_at :: instant
  pr_material_change :: bool
  pr_change_status :: string

definition optional_ok :: "('a \<Rightarrow> bool) \<Rightarrow> 'a option \<Rightarrow> bool" where
  "optional_ok P x = (case x of None \<Rightarrow> True | Some v \<Rightarrow> P v)"

definition walking_range :: "pickup_recommendation \<Rightarrow> pickup_recommendation result" where
  "walking_range p =
     (if \<not> (length_between 8 128 (pr_primary_place_id p) \<and> optional_ok (length_between 8 128) (pr_fallback_place_id p) \<and>
            optional_ok (\<lambda>s. length s \<le> 120) (pr_entrance_or_gate p) \<and>
            optional_ok (\<lambda>s. length s \<le> 80) (pr_terminal_or_zone p) \<and>
            optional_ok (in_range 0 7200) (pr_walking_time_min_seconds p) \<and>
            optional_ok (in_range 0 7200) (pr_walking_time_max_seconds p) \<and>
            length (pr_driver_approach_guidance p) \<le> 300 \<and> list_all (code_pattern 1) (pr_reason_codes p) \<and>
            pr_change_status p \<in> {''not_required'', ''proposed'', ''confirmed'', ''declined''})
      then Inl (ValidationError ''PickupRecommendation'')
      else if (case (pr_walking_time_min_seconds p, pr_walking_time_max_seconds p) of
                 (Some lo, Some hi) \<Rightarrow> lo > hi | _ \<Rightarrow> False)
      then Inl (ValidationError ''Walking-time minimum exceeds maximum'')
      else if pr_material_change p \<and> pr_change_status p = ''not_required''
      then Inl (ValidationError ''Material pickup change requires proposal status'')
      else Inr p)"

section \<open>The engine\<close>

fun ALLOWED_TRANSITIONS :: "active_ride_state \<Rightarrow> active_ride_state list" where
  "ALLOWED_TRANSITIONS AR_DRIVER_ASSIGNED =
     [AR_DRIVER_EN_ROUTE, AR_DRIVER_CANCELLED, AR_RIDER_CANCELLED, AR_SUPPORT_INTERRUPTED, AR_SYSTEM_INTERRUPTED]"
| "ALLOWED_TRANSITIONS AR_REQUEST_ACCEPTED = [AR_SEARCHING]"
| "ALLOWED_TRANSITIONS AR_SEARCHING = [AR_OFFERING, AR_NO_DRIVER_AVAILABLE, AR_CANCELLATION_PENDING]"
| "ALLOWED_TRANSITIONS AR_OFFERING = [AR_SEARCHING, AR_ASSIGNED, AR_NO_DRIVER_AVAILABLE, AR_CANCELLATION_PENDING]"
| "ALLOWED_TRANSITIONS AR_ASSIGNED =
     [AR_DRIVER_EN_ROUTE, AR_REASSIGNING, AR_CANCELLATION_PENDING, AR_OPERATIONAL_RECOVERY]"
| "ALLOWED_TRANSITIONS AR_DRIVER_EN_ROUTE =
     [AR_DRIVER_ARRIVED, AR_REASSIGNING, AR_CANCELLATION_PENDING, AR_DRIVER_CANCELLED, AR_RIDER_CANCELLED,
      AR_SUPPORT_INTERRUPTED, AR_SYSTEM_INTERRUPTED, AR_OPERATIONAL_RECOVERY]"
| "ALLOWED_TRANSITIONS AR_PICKUP_VERIFICATION_PENDING =
     [AR_PICKUP_VERIFIED, AR_NO_SHOW_REVIEW, AR_REASSIGNING, AR_CANCELLATION_PENDING, AR_OPERATIONAL_RECOVERY]"
| "ALLOWED_TRANSITIONS AR_PICKUP_VERIFIED = [AR_IN_PROGRESS, AR_CANCELLATION_PENDING]"
| "ALLOWED_TRANSITIONS AR_IN_PROGRESS =
     [AR_IN_PROGRESS, AR_DESTINATION_APPROACHING, AR_COMPLETION_PENDING, AR_OPERATIONAL_RECOVERY]"
| "ALLOWED_TRANSITIONS AR_DESTINATION_APPROACHING = [AR_COMPLETION_PENDING, AR_OPERATIONAL_RECOVERY]"
| "ALLOWED_TRANSITIONS AR_COMPLETION_PENDING = [AR_COMPLETED, AR_OPERATIONAL_RECOVERY]"
| "ALLOWED_TRANSITIONS AR_REASSIGNING = [AR_SEARCHING, AR_ASSIGNED, AR_NO_DRIVER_AVAILABLE]"
| "ALLOWED_TRANSITIONS AR_CANCELLATION_PENDING = [AR_CANCELLED, AR_OPERATIONAL_REVIEW]"
| "ALLOWED_TRANSITIONS AR_NO_SHOW_REVIEW = [AR_PICKUP_VERIFICATION_PENDING, AR_CANCELLED, AR_OPERATIONAL_REVIEW]"
| "ALLOWED_TRANSITIONS AR_OPERATIONAL_RECOVERY =
     [AR_REASSIGNING, AR_CANCELLED, AR_OPERATIONAL_REVIEW, AR_DRIVER_EN_ROUTE, AR_IN_PROGRESS]"
| "ALLOWED_TRANSITIONS AR_DRIVER_ARRIVED =
     [AR_PICKUP_VERIFICATION_PENDING, AR_PICKUP_CONFIRMED, AR_NO_SHOW_REVIEW, AR_REASSIGNING,
      AR_CANCELLATION_PENDING, AR_DRIVER_CANCELLED, AR_RIDER_CANCELLED, AR_SUPPORT_INTERRUPTED,
      AR_SYSTEM_INTERRUPTED, AR_OPERATIONAL_RECOVERY]"
| "ALLOWED_TRANSITIONS AR_PICKUP_CONFIRMED =
     [AR_RIDE_IN_PROGRESS, AR_DRIVER_CANCELLED, AR_RIDER_CANCELLED, AR_SUPPORT_INTERRUPTED, AR_SYSTEM_INTERRUPTED]"
| "ALLOWED_TRANSITIONS AR_RIDE_IN_PROGRESS =
     [AR_DESTINATION_ARRIVED, AR_DRIVER_CANCELLED, AR_RIDER_CANCELLED, AR_SUPPORT_INTERRUPTED, AR_SYSTEM_INTERRUPTED]"
| "ALLOWED_TRANSITIONS AR_DESTINATION_ARRIVED = [AR_COMPLETED, AR_SUPPORT_INTERRUPTED, AR_SYSTEM_INTERRUPTED]"
| "ALLOWED_TRANSITIONS _ = []"

definition transition :: "active_ride \<Rightarrow> active_ride_state \<Rightarrow> instant \<Rightarrow> active_ride result" where
  "transition ride target now =
     (if target \<notin> set (ALLOWED_TRANSITIONS (ar_state ride))
      then Inl (ActiveRideConflict (''unsupported_transition:'' @ state_value (ar_state ride) @ '':'' @ state_value target))
      else Inr (ride\<lparr>ar_state := target, ar_updated_at := now, ar_version := ar_version ride + 1,
        ar_last_sequence := ar_last_sequence ride + 1\<rparr>))"

datatype ride_status = ST_REQUESTED | ST_SEARCHING_FOR_DRIVER | ST_WAITING_FOR_DRIVER | ST_DRIVER_ACCEPTED
  | ST_DRIVER_ON_THE_WAY | ST_DRIVER_ARRIVED | ST_TRIP_STARTED | ST_TRIP_COMPLETED | ST_DRIVER_DECLINED
  | ST_RIDER_CANCELLED | ST_DRIVER_CANCELLED

fun LEGACY_TRANSLATION :: "ride_status \<Rightarrow> active_ride_state option" where
  "LEGACY_TRANSLATION ST_REQUESTED = Some AR_REQUEST_ACCEPTED"
| "LEGACY_TRANSLATION ST_SEARCHING_FOR_DRIVER = Some AR_SEARCHING"
| "LEGACY_TRANSLATION ST_WAITING_FOR_DRIVER = Some AR_OFFERING"
| "LEGACY_TRANSLATION ST_DRIVER_ACCEPTED = Some AR_ASSIGNED"
| "LEGACY_TRANSLATION ST_DRIVER_ON_THE_WAY = Some AR_DRIVER_EN_ROUTE"
| "LEGACY_TRANSLATION ST_DRIVER_ARRIVED = Some AR_DRIVER_ARRIVED"
| "LEGACY_TRANSLATION ST_TRIP_STARTED = Some AR_IN_PROGRESS"
| "LEGACY_TRANSLATION ST_TRIP_COMPLETED = Some AR_COMPLETED"
| "LEGACY_TRANSLATION ST_RIDER_CANCELLED = Some AR_CANCELLED"
| "LEGACY_TRANSLATION ST_DRIVER_CANCELLED = Some AR_REASSIGNING"
| "LEGACY_TRANSLATION ST_DRIVER_DECLINED = None"

definition translate_legacy_status :: "ride_status \<Rightarrow> active_ride_state result" where
  \<comment> \<open>the only status that has no translation is \<open>DRIVER_DECLINED\<close>\<close>
  "translate_legacy_status status =
     (case LEGACY_TRANSLATION status of
        Some s \<Rightarrow> Inr s
      | None \<Rightarrow> Inl (ActiveRideConflict ''ambiguous_legacy_status:DRIVER_DECLINED''))"

text \<open>\<open>tuple(dict.fromkeys(xs))\<close>: the first occurrence of each element.\<close>

definition dict_fromkeys :: "'a list \<Rightarrow> 'a list" where
  "dict_fromkeys xs = rev (remdups (rev xs))"

definition location_ages :: "confidence_signals \<Rightarrow> int list" where
  "location_ages g = List.map_filter (\<lambda>x. x) [sg_driver_location_age_seconds g, sg_rider_location_age_seconds g]"

definition severe :: "confidence_policy \<Rightarrow> confidence_signals \<Rightarrow> bool" where
  "severe p g \<longleftrightarrow> sg_locations_conflict g \<or> sg_repeated_verification_failure g \<or>
     sg_lifecycle_stagnation_seconds g \<ge> cy_stagnation_seconds p"

definition eta_increase :: "confidence_signals \<Rightarrow> int" where
  "eta_increase g = (case sg_pickup_eta_increase_seconds g of None \<Rightarrow> 0 | Some n \<Rightarrow> n)"

definition risk :: "confidence_policy \<Rightarrow> confidence_signals \<Rightarrow> bool" where
  "risk p g \<longleftrightarrow> sg_driver_moving_away g \<or> sg_unexpected_stop g \<or> eta_increase g \<ge> cy_at_risk_eta_increase_seconds p"

definition watch :: "confidence_policy \<Rightarrow> confidence_signals \<Rightarrow> bool" where
  "watch p g \<longleftrightarrow> eta_increase g \<ge> cy_watch_eta_increase_seconds p \<or> sg_provider_unavailable g"

text \<open>The level with the action and the reason it adds.\<close>

definition confidence_rule ::
  "confidence_policy \<Rightarrow> confidence_signals \<Rightarrow> confidence_level \<times> string list \<times> string" where
  "confidence_rule p g =
     (let stability_met = sg_anomaly_duration_seconds g \<ge> cy_hysteresis_seconds p in
      if severe p g \<and> stability_met
      then (CL_CRITICAL, [''alert_operations''], ''lifecycle_or_pickup_material_risk'')
      else if risk p g \<and> stability_met
      then (CL_AT_RISK, [if sg_verified_external_delay g then ''refresh_eta'' else ''prepare_reassignment''],
            ''pickup_progress_at_risk'')
      else if severe p g \<or> risk p g \<or> watch p g
      then (CL_WATCH, [''refresh_eta''],
            if severe p g \<or> risk p g then ''stability_margin_not_met'' else ''pickup_progress_watch'')
      else (CL_HEALTHY, [], ''signals_consistent''))"

definition evaluate_confidence ::
  "uuid \<Rightarrow> uuid \<Rightarrow> confidence_signals \<Rightarrow> confidence_policy \<Rightarrow> instant \<Rightarrow> confidence_decision option \<Rightarrow> confidence_decision" where
  "evaluate_confidence decision_id ride_id g p now previous =
     (let ages = location_ages g;
          decision = (\<lambda>level reasons freshness quality actions.
            \<lparr>cd_confidence_decision_id = decision_id, cd_ride_id = ride_id, cd_rule_set_id = cy_rule_set_id p,
             cd_rule_set_version = cy_version p, cd_health_level = level, cd_reason_codes = reasons,
             cd_signal_freshness = freshness, cd_data_quality_status = quality, cd_generated_at = now,
             cd_expires_at = now + timedelta_seconds (cy_decision_ttl_seconds p), cd_recommended_actions = actions\<rparr>)
      in if ages = [] \<or> list_all (\<lambda>age. age > cy_maximum_location_age_seconds p) ages
         then decision CL_INSUFFICIENT_DATA [''insufficient_fresh_evidence''] ''stale_or_missing'' QS_STALE
           [''request_location_observation'']
         else
           (let (level, actions, reason) = confidence_rule p g;
                reasons = (if sg_provider_unavailable g then [''map_provider_unavailable''] else []) @
                  (if sg_verified_external_delay g then [''verified_external_delay''] else []) @ [reason];
                cooling = (case previous of None \<Rightarrow> False
                  | Some d \<Rightarrow> cd_health_level d = level \<and>
                      now - cd_generated_at d < timedelta_seconds (cy_alert_cooldown_seconds p))
            in decision level (dict_fromkeys (if cooling then reasons @ [''alert_cooldown_active''] else reasons))
                 ''fresh'' (if sg_provider_unavailable g then QS_DEGRADED else QS_GOOD)
                 (if cooling then [] else actions)))"

section \<open>Pickup recommendations\<close>

record pickup_candidate =
  pk_place_id :: string
  pk_fallback_place_id :: "string option"
  pk_entrance_or_gate :: "string option"
  pk_terminal_or_zone :: "string option"
  pk_walking_min_seconds :: "int option"
  pk_walking_max_seconds :: "int option"
  pk_approach_guidance :: string
  pk_legal_access_verified :: bool
  pk_accessibility_supported :: bool
  pk_divided_road_conflict :: bool
  pk_temporary_closure :: bool
  pk_source_stale :: bool
  pk_provider_available :: bool
  pk_cached :: bool
  pk_material_change :: bool

definition pickup_reasons :: "pickup_candidate \<Rightarrow> string list" where
  "pickup_reasons c =
     (let reasons =
        (if pk_temporary_closure c then [''temporary_closure_avoided''] else []) @
        (if pk_divided_road_conflict c then [''locations_on_divided_road''] else []) @
        (if pk_accessibility_supported c then [''accessible_route_available''] else []) @
        (if pk_legal_access_verified c then [''legal_road_access''] else []) @
        (if pk_cached c then [''cached_guidance_only''] else []) @
        (if \<not> pk_provider_available c then [''provider_unavailable''] else []) @
        (if pk_source_stale c then [''source_stale''] else [])
      in if reasons = [] then [''pickup_candidate_available''] else reasons)"

definition confidence_of_candidate :: "pickup_candidate \<Rightarrow> pickup_confidence" where
  "confidence_of_candidate c =
     (if \<not> pk_provider_available c \<or> pk_source_stale c then PC_INSUFFICIENT_DATA
      else if pk_temporary_closure c \<or> pk_divided_road_conflict c then PC_LOW
      else if pk_legal_access_verified c \<and> pk_accessibility_supported c then PC_VERIFIED
      else if pk_legal_access_verified c then PC_HIGH
      else PC_MEDIUM)"

definition recommend_pickup ::
  "uuid \<Rightarrow> uuid \<Rightarrow> pickup_candidate \<Rightarrow> instant \<Rightarrow> int \<Rightarrow> pickup_recommendation result" where
  "recommend_pickup recommendation_id ride_id c now ttl_seconds =
     walking_range \<lparr>pr_recommendation_id = recommendation_id, pr_ride_id = ride_id, pr_policy_id = ''dynamic_pickup'',
       pr_policy_version = ''v1'', pr_primary_place_id = pk_place_id c, pr_fallback_place_id = pk_fallback_place_id c,
       pr_entrance_or_gate = pk_entrance_or_gate c, pr_terminal_or_zone = pk_terminal_or_zone c,
       pr_walking_time_min_seconds = pk_walking_min_seconds c,
       pr_walking_time_max_seconds = pk_walking_max_seconds c,
       pr_driver_approach_guidance = pk_approach_guidance c,
       pr_accessibility_supported = pk_accessibility_supported c, pr_confidence = confidence_of_candidate c,
       pr_source_freshness = (if pk_source_stale c then ''stale'' else ''fresh''),
       pr_reason_codes = pickup_reasons c, pr_generated_at = now, pr_expires_at = now + timedelta_seconds ttl_seconds,
       pr_material_change = pk_material_change c,
       pr_change_status = (if pk_material_change c then ''proposed'' else ''not_required'')\<rparr>"

end
