(* ===== verification/Active_Ride_Service.thy ===== *)
theory Active_Ride_Service
  imports Active_Ride
begin

text \<open>
  The repository of active rides and the two services on it. The tables are one record; a failing operation
  rolls its transaction back, so it is an error value with no state, except the rejected pickup code, which the code
  commits before it raises.
\<close>

section \<open>The tables\<close>

record assignment_source =
  as_driver_id :: uuid
  as_vehicle_id :: "uuid option"
  as_released_at :: "instant option"
  as_handoff_id :: uuid
  as_ride_request_id :: uuid
  as_rider_identity_id :: uuid
  as_service_type :: string
  as_pickup_reference :: string
  as_destination_reference :: string
  as_handoff_state :: string
  as_handoff_version :: int
  as_assigned_driver_id :: "uuid option"

record ride_env =
  rx_assignment :: "uuid \<Rightarrow> assignment_source option"
  rx_digest :: "payload \<Rightarrow> string"
  rx_pin_digest :: "uuid \<Rightarrow> uuid \<Rightarrow> string \<Rightarrow> string"
  rx_confidence_policy :: confidence_policy

record ride_idempotency =
  ri_ride_id :: uuid
  ri_command_type :: string
  ri_request_hash :: string
  ri_result_version :: int
  ri_result_status :: string
  ri_created_at :: instant
  ri_expires_at :: instant

record ride_checkpoint =
  rc_projection :: payload
  rc_aggregate_version :: int
  rc_last_sequence :: int
  rc_updated_at :: instant

record pickup_verification =
  vf_verification_id :: uuid
  vf_ride_id :: uuid
  vf_assignment_id :: uuid
  vf_secret_digest :: string
  vf_expires_at :: instant
  vf_attempt_count :: int
  vf_maximum_attempts :: int
  vf_cooldown_until :: "instant option"
  vf_verified_at :: "instant option"
  vf_invalidated_at :: "instant option"
  vf_created_at :: instant

record ride_message =
  rg_aggregate_id :: uuid
  rg_event_type :: string
  rg_payload :: payload
  rg_occurred_at :: instant

record active_db =
  ad_rides :: "(uuid, active_ride) dict"
  ad_events :: "ride_event list"
  ad_idempotency :: "(uuid \<times> uuid, ride_idempotency) dict"
  ad_checkpoints :: "(uuid \<times> actor_role, ride_checkpoint) dict"
  ad_verifications :: "(uuid, pickup_verification) dict"
  ad_evidence :: "evidence_record list"
  ad_confidence :: "confidence_decision list"
  ad_recommendations :: "(uuid, pickup_recommendation) dict"
  ad_outbox :: "ride_message list"

section \<open>The repository\<close>

definition rider_action :: "active_ride_state \<Rightarrow> json_value" where
  "rider_action s = (if s = AR_PICKUP_VERIFICATION_PENDING then JStr ''provide_pickup_pin'' else JNull)"

definition driver_action :: "active_ride_state \<Rightarrow> json_value" where
  "driver_action s =
     (case s of AR_ASSIGNED \<Rightarrow> JStr ''start_to_pickup''
      | AR_DRIVER_EN_ROUTE \<Rightarrow> JStr ''arrive''
      | AR_PICKUP_VERIFICATION_PENDING \<Rightarrow> JStr ''enter_pickup_pin''
      | AR_PICKUP_VERIFIED \<Rightarrow> JStr ''start_trip''
      | AR_COMPLETION_PENDING \<Rightarrow> JStr ''complete_trip''
      | _ \<Rightarrow> JNull)"

definition projection :: "active_ride \<Rightarrow> actor_role \<Rightarrow> payload" where
  "projection ride role =
     [(''ride_id'', JUuid (ar_ride_id ride)), (''state'', JStr (state_value (ar_state ride))),
      (''aggregate_version'', JInt (ar_version ride)), (''last_sequence'', JInt (ar_last_sequence ride)),
      (''updated_at'', JTime (ar_updated_at ride)), (''pickup_place_id'', JStr (ar_pickup_place_id ride)),
      (''service_type'', JStr (ar_service_type ride)), (''driver_changed'', JBool (ar_driver_changed ride)),
      (''support_available'', JBool True), (''safety_available'', JBool True)] @
     (case role of
        ROLE_RIDER \<Rightarrow>
          [(''driver'', case ar_driver_id ride of None \<Rightarrow> JNull | Some d \<Rightarrow> JObj [(''driver_reference'', JUuid d)]),
           (''eta_freshness'', JStr ''unknown''), (''action_required'', rider_action (ar_state ride)),
           (''price_change_notice'', JNull)]
      | ROLE_DRIVER \<Rightarrow>
          [(''rider'', JObj [(''rider_reference'', JUuid (ar_rider_id ride))]),
           (''destination_place_id'', JStr (ar_destination_place_id ride)),
           (''action_required'', driver_action (ar_state ride)), (''estimated_earnings'', JNull)]
      | _ \<Rightarrow> [])"

definition outbox :: "active_db \<Rightarrow> uuid \<Rightarrow> string \<Rightarrow> instant \<Rightarrow> payload \<Rightarrow> active_db" where
  "outbox db ride_id event_type now pl =
     db\<lparr>ad_outbox := ad_outbox db @ [\<lparr>rg_aggregate_id = ride_id, rg_event_type = event_type,
       rg_payload = (''ride_id'', JUuid ride_id) # pl, rg_occurred_at = now\<rparr>]\<rparr>"

definition append_event ::
  "active_db \<Rightarrow> active_ride \<Rightarrow> string \<Rightarrow> payload \<Rightarrow> uuid \<Rightarrow> active_db result" where
  "append_event db ride event_type pl event_id =
     bind_result (valid_ride_event \<lparr>re_event_id = event_id, re_ride_id = ar_ride_id ride,
         re_sequence = ar_last_sequence ride, re_aggregate_version = ar_version ride, re_event_type = event_type,
         re_schema_version = 1, re_occurred_at = ar_updated_at ride, re_payload = pl\<rparr>) (\<lambda>event.
     if list_ex (\<lambda>x. re_event_id x = event_id \<or>
          re_ride_id x = re_ride_id event \<and> re_sequence x = re_sequence event) (ad_events db)
     then Inl (IntegrityError ''active_ride_events'')
     else Inr (outbox (db\<lparr>ad_events := ad_events db @ [event]\<rparr>) (ar_ride_id ride) event_type (ar_updated_at ride)
       [(''event_id'', JUuid event_id), (''sequence'', JInt (re_sequence event))]))"

definition checkpoint_of :: "active_ride \<Rightarrow> actor_role \<Rightarrow> ride_checkpoint" where
  "checkpoint_of ride role = \<lparr>rc_projection = projection ride role, rc_aggregate_version = ar_version ride,
     rc_last_sequence = ar_last_sequence ride, rc_updated_at = ar_updated_at ride\<rparr>"

definition checkpoint :: "active_db \<Rightarrow> active_ride \<Rightarrow> active_db" where
  "checkpoint db ride =
     db\<lparr>ad_checkpoints := dset (ar_ride_id ride, ROLE_DRIVER) (checkpoint_of ride ROLE_DRIVER)
       (dset (ar_ride_id ride, ROLE_RIDER) (checkpoint_of ride ROLE_RIDER) (ad_checkpoints db))\<rparr>"

text \<open>The unique indexes: one immediate ride per assignment, one ride per ride request.\<close>

definition unique_conflict :: "active_db \<Rightarrow> active_ride \<Rightarrow> bool" where
  "unique_conflict db ride \<longleftrightarrow>
     list_ex (\<lambda>x. ar_ride_id x \<noteq> ar_ride_id ride \<and>
         (ar_assignment_id ride \<noteq> None \<and> ar_assignment_id x = ar_assignment_id ride \<and>
            ar_dispatch_handoff_id ride \<noteq> None \<and> ar_dispatch_handoff_id x \<noteq> None \<or>
          ar_ride_request_id ride \<noteq> None \<and> ar_ride_request_id x = ar_ride_request_id ride))
       (dvalues (ad_rides db))"

definition insert_ride :: "active_db \<Rightarrow> active_ride \<Rightarrow> active_db result" where
  "insert_ride db ride =
     (if dget (ad_rides db) (ar_ride_id ride) \<noteq> None \<or> unique_conflict db ride
      then Inl (IntegrityError ''active_rides'')
      else Inr (db\<lparr>ad_rides := dset (ar_ride_id ride) ride (ad_rides db)\<rparr>))"

definition create_from_assignment :: "active_db \<Rightarrow> active_ride \<Rightarrow> uuid \<Rightarrow> (active_db \<times> active_ride) result" where
  "create_from_assignment db ride event_id =
     (if ar_state ride \<noteq> AR_ASSIGNED \<or> ar_driver_id ride = None \<or> ar_assignment_id ride = None
      then Inl (ActiveRideConflict ''assignment_required'')
      else
        bind_result (insert_ride db ride) (\<lambda>db1.
        bind_result (append_event db1 ride ''driver_assigned'' [(''driver_changed'', JBool False)] event_id) (\<lambda>db2.
        Inr (checkpoint db2 ride, ride))))"

definition ride_of_source ::
  "assignment_source \<Rightarrow> uuid \<Rightarrow> string \<Rightarrow> instant \<Rightarrow> uuid \<Rightarrow> active_ride" where
  "ride_of_source source assignment_id policy_version now ride_id =
     \<lparr>ar_ride_id = ride_id, ar_rider_id = as_rider_identity_id source, ar_driver_id = Some (as_driver_id source),
      ar_vehicle_id = as_vehicle_id source, ar_reservation_id = None, ar_assignment_id = Some assignment_id,
      ar_ride_request_id = Some (as_ride_request_id source), ar_dispatch_handoff_id = Some (as_handoff_id source),
      ar_lifecycle_policy_version = policy_version, ar_source_assignment_version = Some (as_handoff_version source),
      ar_state = AR_DRIVER_ASSIGNED, ar_pickup_place_id = as_pickup_reference source,
      ar_destination_place_id = as_destination_reference source, ar_service_type = ''immediate_standard'',
      ar_created_at = now, ar_updated_at = now, ar_version = 1, ar_last_sequence = 1, ar_driver_changed = False\<rparr>"

definition create_from_immediate_assignment ::
  "ride_env \<Rightarrow> active_db \<Rightarrow> uuid \<Rightarrow> string \<Rightarrow> instant \<Rightarrow> uuid \<Rightarrow> uuid \<Rightarrow> (active_db \<times> active_ride) result" where
  "create_from_immediate_assignment env db assignment_id policy_version now ride_id event_id =
     (case rx_assignment env assignment_id of
        None \<Rightarrow> Inl (ActiveRideConflict ''authoritative_assignment_required'')
      | Some source \<Rightarrow>
          if as_handoff_state source \<noteq> ''assigned'' \<or> as_released_at source \<noteq> None \<or>
             as_service_type source \<noteq> ''immediate_standard'' \<or>
             as_assigned_driver_id source \<noteq> Some (as_driver_id source)
          then Inl (ActiveRideConflict ''authoritative_assignment_required'')
          else
            bind_result (one_or_none (\<lambda>x. ar_assignment_id x = Some assignment_id) (dvalues (ad_rides db))) (\<lambda>found.
            case found of
               Some existing \<Rightarrow> Inr (db, existing)
             | None \<Rightarrow>
                 bind_result (valid_active_ride (ride_of_source source assignment_id policy_version now ride_id)) (\<lambda>ride.
                 bind_result (insert_ride db ride) (\<lambda>db1.
                 bind_result (append_event db1 ride ''active_ride.driver_assigned''
                     [(''state_from'', JNull), (''state_to'', JStr (state_value (ar_state ride))),
                      (''assignment_id'', JUuid assignment_id),
                      (''translation_key'', JStr ''active_ride.driver_assigned'')] event_id) (\<lambda>db2.
                 Inr (checkpoint db2 ride, ride))))))"

definition get :: "active_db \<Rightarrow> uuid \<Rightarrow> active_ride option" where
  "get db ride_id = dget (ad_rides db) ride_id"

definition get_for_ride_request :: "active_db \<Rightarrow> uuid \<Rightarrow> active_ride option result" where
  "get_for_ride_request db ride_request_id =
     one_or_none (\<lambda>x. ar_ride_request_id x = Some ride_request_id) (dvalues (ad_rides db))"

definition get_for_assignment :: "active_db \<Rightarrow> uuid \<Rightarrow> active_ride option result" where
  "get_for_assignment db assignment_id =
     one_or_none (\<lambda>x. ar_assignment_id x = Some assignment_id) (dvalues (ad_rides db))"

text \<open>Writing the changed row, its event and the checkpoints, the way both transitions do.\<close>

definition store_changed ::
  "active_db \<Rightarrow> active_ride \<Rightarrow> string \<Rightarrow> payload \<Rightarrow> uuid \<Rightarrow> active_db result" where
  "store_changed db changed event_type pl event_id =
     bind_result (append_event (db\<lparr>ad_rides := dset (ar_ride_id changed) changed (ad_rides db)\<rparr>) changed event_type pl
       event_id) (\<lambda>db1. Inr (checkpoint db1 changed))"

definition command_transition ::
  "ride_env \<Rightarrow> active_db \<Rightarrow> uuid \<Rightarrow> uuid \<Rightarrow> uuid \<Rightarrow> string \<Rightarrow> payload \<Rightarrow> int \<Rightarrow> active_ride_state \<Rightarrow> instant \<Rightarrow> uuid \<Rightarrow>
   (active_db \<times> active_ride \<times> bool) result" where
  \<comment> \<open>the row is locked when it is read, so the guarded update of its version always matches\<close>
  "command_transition env db ride_id actor_id command_id command_type request_payload expected_version target now
     event_id =
     (let request_hash = rx_digest env ((''ride_id'', JUuid ride_id) # request_payload) in
      case dget (ad_idempotency db) (actor_id, command_id) of
        Some existing \<Rightarrow>
          if ri_request_hash existing \<noteq> request_hash \<or> ri_command_type existing \<noteq> command_type
          then Inl (ActiveRideConflict ''idempotency_conflict'')
          else (case get db ride_id of
                  None \<Rightarrow> Inl (ActiveRideConflict ''ride_not_found'')
                | Some stored \<Rightarrow> Inr (db, stored, False))
      | None \<Rightarrow>
          (case get db ride_id of
             None \<Rightarrow> Inl (ActiveRideConflict ''ride_not_found'')
           | Some current \<Rightarrow>
               if ar_version current \<noteq> expected_version then Inl (ActiveRideConflict ''stale_command'')
               else
                 bind_result (transition current target now) (\<lambda>changed.
                 bind_result (store_changed db changed command_type
                     (dset ''state_to'' (JStr (state_value (ar_state changed)))
                       (dset ''state_from'' (JStr (state_value (ar_state current))) request_payload)) event_id) (\<lambda>db1.
                 Inr (db1\<lparr>ad_idempotency := dset (actor_id, command_id)
                       \<lparr>ri_ride_id = ride_id, ri_command_type = command_type, ri_request_hash = request_hash,
                        ri_result_version = ar_version changed, ri_result_status = ''confirmed'',
                        ri_created_at = now, ri_expires_at = now + timedelta_seconds 86400\<rparr>
                       (ad_idempotency db1)\<rparr>, changed, True)))))"

definition invalidate_pins :: "active_db \<Rightarrow> uuid \<Rightarrow> instant \<Rightarrow> active_db" where
  "invalidate_pins db ride_id now =
     db\<lparr>ad_verifications := map (\<lambda>(k, v). (k, if vf_ride_id v = ride_id \<and> vf_invalidated_at v = None
        then v\<lparr>vf_invalidated_at := Some now\<rparr> else v)) (ad_verifications db)\<rparr>"

definition reassign ::
  "active_db \<Rightarrow> uuid \<Rightarrow> uuid \<Rightarrow> uuid \<Rightarrow> instant \<Rightarrow> uuid \<Rightarrow> (active_db \<times> active_ride) result" where
  "reassign db ride_id driver_id assignment_id now event_id =
     (case get db ride_id of
        None \<Rightarrow> Inl (ActiveRideConflict ''reassignment_state_required'')
      | Some current \<Rightarrow>
          if ar_state current \<noteq> AR_REASSIGNING then Inl (ActiveRideConflict ''reassignment_state_required'')
          else
            bind_result (transition current AR_ASSIGNED now) (\<lambda>moved.
            let changed = moved\<lparr>ar_driver_id := Some driver_id, ar_assignment_id := Some assignment_id,
                  ar_driver_changed := True\<rparr>
            in if unique_conflict db changed then Inl (IntegrityError ''active_rides'')
               else
                 bind_result (store_changed (invalidate_pins db ride_id now) changed ''driver_reassigned''
                     [(''driver_changed'', JBool True)] event_id) (\<lambda>db1.
                 Inr (db1, changed))))"

definition ride_events :: "active_db \<Rightarrow> uuid \<Rightarrow> ride_event list" where
  "ride_events db ride_id = sort_key re_sequence (filter (\<lambda>e. re_ride_id e = ride_id) (ad_events db))"

definition events_after :: "active_db \<Rightarrow> uuid \<Rightarrow> int \<Rightarrow> int \<Rightarrow> ride_event list result" where
  "events_after db ride_id after limit =
     (case get db ride_id of
        None \<Rightarrow> Inl (ActiveRideConflict ''ride_not_found'')
      | Some ride \<Rightarrow>
          if after > ar_last_sequence ride then Inl (ActiveRideConflict ''resync_required'')
          else Inr (take (nat (min (max limit 1) 100)) (filter (\<lambda>e. re_sequence e > after) (ride_events db ride_id))))"

fun replay_rows :: "int \<Rightarrow> active_ride_state option \<Rightarrow> ride_event list \<Rightarrow> active_ride_state option result" where
  "replay_rows expected_sequence state [] = Inr state"
| "replay_rows expected_sequence state (row # rows) =
     (if re_sequence row \<noteq> expected_sequence then Inl (ActiveRideConflict ''event_stream_gap'')
      else
        (case dget (re_payload row) ''state_to'' of
           None \<Rightarrow> Inl (ActiveRideConflict ''event_state_missing'')
         | Some JNull \<Rightarrow> Inl (ActiveRideConflict ''event_state_missing'')
         | Some (JStr v) \<Rightarrow>
             bind_result (state_of_value v) (\<lambda>s. replay_rows (expected_sequence + 1) (Some s) rows)
         | Some _ \<Rightarrow> Inl (ValueError ''not a valid ActiveRideState'')))"

definition replay_canonical_state :: "active_db \<Rightarrow> uuid \<Rightarrow> active_ride_state result" where
  "replay_canonical_state db ride_id =
     (let rows = ride_events db ride_id in
      if rows = [] then Inl (ActiveRideConflict ''ride_not_found'')
      else
        bind_result (replay_rows 1 None rows) (\<lambda>state.
        case (get db ride_id, state) of
          (Some stored, Some s) \<Rightarrow>
            if ar_state stored \<noteq> s then Inl (ActiveRideConflict ''event_snapshot_mismatch'') else Inr s
        | _ \<Rightarrow> Inl (ActiveRideConflict ''event_snapshot_mismatch'')))"

definition repo_acknowledge :: "active_db \<Rightarrow> uuid \<Rightarrow> actor_role \<Rightarrow> int \<Rightarrow> instant \<Rightarrow> active_db result" where
  "repo_acknowledge db ride_id role sequence now =
     (case get db ride_id of
        None \<Rightarrow> Inl (ActiveRideConflict ''invalid_acknowledgement'')
      | Some ride \<Rightarrow>
          if sequence > ar_last_sequence ride then Inl (ActiveRideConflict ''invalid_acknowledgement'')
          else
            (let row = \<lparr>rc_projection = projection ride role, rc_aggregate_version = ar_version ride,
                   rc_last_sequence = sequence, rc_updated_at = now\<rparr>
             in case dget (ad_checkpoints db) (ride_id, role) of
                  None \<Rightarrow> Inr (db\<lparr>ad_checkpoints := dset (ride_id, role) row (ad_checkpoints db)\<rparr>)
                | Some existing \<Rightarrow>
                    if rc_last_sequence existing \<le> sequence
                    then Inr (db\<lparr>ad_checkpoints := dset (ride_id, role) row (ad_checkpoints db)\<rparr>)
                    else Inr db))"

section \<open>Pickup codes\<close>

definition issue_pin ::
  "ride_env \<Rightarrow> active_db \<Rightarrow> uuid \<Rightarrow> uuid option \<Rightarrow> string \<Rightarrow> instant \<Rightarrow> int \<Rightarrow> int \<Rightarrow> uuid \<Rightarrow> (active_db \<times> uuid) result" where
  "issue_pin env db ride_id assignment_id code now ttl_seconds maximum_attempts verification_id =
     (case (get db ride_id, assignment_id) of
        (Some ride, Some assignment) \<Rightarrow>
          if ar_assignment_id ride \<noteq> Some assignment \<or> ar_state ride \<noteq> AR_PICKUP_VERIFICATION_PENDING
          then Inl (ActiveRideConflict ''verification_not_available'')
          else
            (let db1 = invalidate_pins db ride_id now in
             if dget (ad_verifications db1) verification_id \<noteq> None \<or> \<not> in_range 1 10 maximum_attempts
             then Inl (IntegrityError ''active_ride_pickup_verifications'')
             else Inr (db1\<lparr>ad_verifications := dset verification_id
               \<lparr>vf_verification_id = verification_id, vf_ride_id = ride_id, vf_assignment_id = assignment,
                vf_secret_digest = rx_pin_digest env ride_id assignment code,
                vf_expires_at = now + timedelta_seconds ttl_seconds, vf_attempt_count = 0,
                vf_maximum_attempts = maximum_attempts, vf_cooldown_until = None, vf_verified_at = None,
                vf_invalidated_at = None, vf_created_at = now\<rparr> (ad_verifications db1)\<rparr>, verification_id))
      | _ \<Rightarrow> Inl (ActiveRideConflict ''verification_not_available''))"

text \<open>The latest row of a query ordered by a timestamp; of rows with one timestamp the one inserted last.\<close>

definition latest_by :: "('a \<Rightarrow> instant) \<Rightarrow> 'a list \<Rightarrow> 'a option" where
  "latest_by f xs = (if xs = [] then None else Some (last (sort_key f xs)))"

definition live_pin :: "active_db \<Rightarrow> uuid \<Rightarrow> pickup_verification option" where
  "live_pin db ride_id =
     latest_by vf_created_at
       (filter (\<lambda>v. vf_ride_id v = ride_id \<and> vf_invalidated_at v = None) (dvalues (ad_verifications db)))"

definition verify_pin ::
  "ride_env \<Rightarrow> active_db \<Rightarrow> uuid \<Rightarrow> string \<Rightarrow> instant \<Rightarrow> (active_db \<times> bool) result" where
  "verify_pin env db ride_id code now =
     (case live_pin db ride_id of
        None \<Rightarrow> Inl (ActiveRideConflict ''verification_not_available'')
      | Some row \<Rightarrow>
          if vf_verified_at row \<noteq> None then Inl (ActiveRideConflict ''verification_not_available'')
          else if now \<ge> vf_expires_at row then Inl (ActiveRideConflict ''verification_expired'')
          else if (case vf_cooldown_until row of None \<Rightarrow> False | Some c \<Rightarrow> now < c)
          then Inl (ActiveRideConflict ''verification_cooldown'')
          else if vf_attempt_count row \<ge> vf_maximum_attempts row
          then Inl (ActiveRideConflict ''verification_locked'')
          else if rx_pin_digest env ride_id (vf_assignment_id row) code \<noteq> vf_secret_digest row
          then
            (let attempts = vf_attempt_count row + 1 in
             Inr (db\<lparr>ad_verifications := dset (vf_verification_id row) (row\<lparr>vf_attempt_count := attempts,
               vf_cooldown_until := if attempts \<ge> 3 then Some (now + timedelta_seconds 30) else None\<rparr>)
               (ad_verifications db)\<rparr>, False))
          else Inr (db\<lparr>ad_verifications := dset (vf_verification_id row) (row\<lparr>vf_verified_at := Some now\<rparr>)
               (ad_verifications db)\<rparr>, True))"

section \<open>Evidence, confidence and recommendations\<close>

definition add_evidence :: "active_db \<Rightarrow> evidence_record \<Rightarrow> active_db result" where
  "add_evidence db e =
     (if get db (er_ride_id e) = None \<or> list_ex (\<lambda>x. er_evidence_id x = er_evidence_id e) (ad_evidence db)
      then Inl (IntegrityError ''active_ride_evidence'')
      else Inr (db\<lparr>ad_evidence := ad_evidence db @ [e]\<rparr>))"

definition level_value :: "confidence_level \<Rightarrow> string" where
  "level_value l = (case l of CL_HEALTHY \<Rightarrow> ''healthy'' | CL_WATCH \<Rightarrow> ''watch'' | CL_AT_RISK \<Rightarrow> ''at_risk''
     | CL_CRITICAL \<Rightarrow> ''critical'' | CL_INSUFFICIENT_DATA \<Rightarrow> ''insufficient_data'')"

definition save_confidence :: "active_db \<Rightarrow> confidence_decision \<Rightarrow> active_db result" where
  "save_confidence db d =
     (if get db (cd_ride_id d) = None \<or>
        list_ex (\<lambda>x. cd_confidence_decision_id x = cd_confidence_decision_id d) (ad_confidence db)
      then Inl (IntegrityError ''active_ride_confidence_decisions'')
      else Inr (outbox (db\<lparr>ad_confidence := ad_confidence db @ [d]\<rparr>) (cd_ride_id d) ''ride_confidence_evaluated''
        (cd_generated_at d) [(''decision_id'', JUuid (cd_confidence_decision_id d)),
          (''level'', JStr (level_value (cd_health_level d)))]))"

definition latest_confidence :: "active_db \<Rightarrow> uuid \<Rightarrow> confidence_decision option" where
  "latest_confidence db ride_id =
     latest_by cd_generated_at (filter (\<lambda>d. cd_ride_id d = ride_id) (ad_confidence db))"

definition save_pickup_recommendation :: "active_db \<Rightarrow> pickup_recommendation \<Rightarrow> active_db result" where
  "save_pickup_recommendation db p =
     (if get db (pr_ride_id p) = None \<or> dget (ad_recommendations db) (pr_recommendation_id p) \<noteq> None
      then Inl (IntegrityError ''active_ride_pickup_recommendations'')
      else Inr (db\<lparr>ad_recommendations := dset (pr_recommendation_id p) p (ad_recommendations db)\<rparr>))"

definition latest_pickup_recommendation :: "active_db \<Rightarrow> uuid \<Rightarrow> pickup_recommendation option" where
  "latest_pickup_recommendation db ride_id =
     latest_by pr_generated_at (filter (\<lambda>p. pr_ride_id p = ride_id) (dvalues (ad_recommendations db)))"

definition decide_pickup_change ::
  "active_db \<Rightarrow> uuid \<Rightarrow> uuid \<Rightarrow> bool \<Rightarrow> (active_db \<times> pickup_recommendation) result" where
  "decide_pickup_change db ride_id recommendation_id confirmed =
     (case dget (ad_recommendations db) recommendation_id of
        None \<Rightarrow> Inl (ActiveRideConflict ''pickup_change_not_pending'')
      | Some row \<Rightarrow>
          if pr_ride_id row \<noteq> ride_id \<or> \<not> pr_material_change row \<or> pr_change_status row \<noteq> ''proposed''
          then Inl (ActiveRideConflict ''pickup_change_not_pending'')
          else
            (let changed = row\<lparr>pr_change_status := if confirmed then ''confirmed'' else ''declined''\<rparr> in
             bind_result (walking_range changed) (\<lambda>p.
             Inr (db\<lparr>ad_recommendations := dset recommendation_id changed (ad_recommendations db)\<rparr>, p))))"

section \<open>The lifecycle service\<close>

datatype lifecycle_command_type = LC_DRIVER_EN_ROUTE | LC_DRIVER_ARRIVED | LC_PICKUP_CONFIRMED | LC_RIDE_STARTED
  | LC_DESTINATION_ARRIVED | LC_RIDE_COMPLETED | LC_DRIVER_CANCELLED | LC_RIDER_CANCELLED
  | LC_SUPPORT_INTERRUPTED | LC_SYSTEM_INTERRUPTED

fun command_value :: "lifecycle_command_type \<Rightarrow> string" where
  "command_value LC_DRIVER_EN_ROUTE = ''driver_en_route''"
| "command_value LC_DRIVER_ARRIVED = ''driver_arrived''"
| "command_value LC_PICKUP_CONFIRMED = ''pickup_confirmed''"
| "command_value LC_RIDE_STARTED = ''ride_started''"
| "command_value LC_DESTINATION_ARRIVED = ''destination_arrived''"
| "command_value LC_RIDE_COMPLETED = ''ride_completed''"
| "command_value LC_DRIVER_CANCELLED = ''driver_cancelled''"
| "command_value LC_RIDER_CANCELLED = ''rider_cancelled''"
| "command_value LC_SUPPORT_INTERRUPTED = ''support_interrupted''"
| "command_value LC_SYSTEM_INTERRUPTED = ''system_interrupted''"

fun TARGET_BY_COMMAND :: "lifecycle_command_type \<Rightarrow> active_ride_state" where
  "TARGET_BY_COMMAND LC_DRIVER_EN_ROUTE = AR_DRIVER_EN_ROUTE"
| "TARGET_BY_COMMAND LC_DRIVER_ARRIVED = AR_DRIVER_ARRIVED"
| "TARGET_BY_COMMAND LC_PICKUP_CONFIRMED = AR_PICKUP_CONFIRMED"
| "TARGET_BY_COMMAND LC_RIDE_STARTED = AR_RIDE_IN_PROGRESS"
| "TARGET_BY_COMMAND LC_DESTINATION_ARRIVED = AR_DESTINATION_ARRIVED"
| "TARGET_BY_COMMAND LC_RIDE_COMPLETED = AR_COMPLETED"
| "TARGET_BY_COMMAND LC_DRIVER_CANCELLED = AR_DRIVER_CANCELLED"
| "TARGET_BY_COMMAND LC_RIDER_CANCELLED = AR_RIDER_CANCELLED"
| "TARGET_BY_COMMAND LC_SUPPORT_INTERRUPTED = AR_SUPPORT_INTERRUPTED"
| "TARGET_BY_COMMAND LC_SYSTEM_INTERRUPTED = AR_SYSTEM_INTERRUPTED"

fun COMMAND_AUTHORITY :: "lifecycle_command_type \<Rightarrow> identity_type list" where
  "COMMAND_AUTHORITY LC_PICKUP_CONFIRMED = [ID_SERVICE]"
| "COMMAND_AUTHORITY LC_RIDER_CANCELLED = [ID_RIDER]"
| "COMMAND_AUTHORITY LC_SUPPORT_INTERRUPTED = [ID_STAFF, ID_ADMINISTRATOR]"
| "COMMAND_AUTHORITY LC_SYSTEM_INTERRUPTED = [ID_SERVICE]"
| "COMMAND_AUTHORITY _ = [ID_DRIVER]"

record lifecycle_command =
  lc_command_id :: uuid
  lc_expected_version :: int
  lc_command_type :: lifecycle_command_type
  lc_reason_code :: string
  lc_evidence_references :: "string list"

record lifecycle_result =
  lr_ride_id :: uuid
  lr_state :: string
  lr_aggregate_version :: int
  lr_last_sequence :: int
  lr_command_created :: bool
  lr_reason_code :: string
  lr_translation_key :: string

definition owns_or_operates :: "subject \<Rightarrow> active_ride \<Rightarrow> bool" where
  "owns_or_operates subject ride =
     (case snd subject of
        ID_RIDER \<Rightarrow> fst subject = ar_rider_id ride
      | ID_DRIVER \<Rightarrow> Some (fst subject) = ar_driver_id ride
      | t \<Rightarrow> t \<in> {ID_SERVICE, ID_STAFF, ID_ADMINISTRATOR})"

definition start_from_assignment ::
  "ride_env \<Rightarrow> string \<Rightarrow> active_db \<Rightarrow> uuid \<Rightarrow> instant \<Rightarrow> uuid \<Rightarrow> uuid \<Rightarrow> (active_db \<times> active_ride) result" where
  "start_from_assignment env policy_version db assignment_id now ride_id event_id =
     create_from_immediate_assignment env db assignment_id policy_version now ride_id event_id"

definition lifecycle_payload :: "lifecycle_command \<Rightarrow> active_ride \<Rightarrow> payload" where
  "lifecycle_payload c ride =
     (let target = state_value (TARGET_BY_COMMAND (lc_command_type c)) in
      [(''state_to'', JStr target), (''reason_code'', JStr (lc_reason_code c)),
       (''evidence_references'', JList (map JStr (lc_evidence_references c))),
       (''policy_version'', JStr (ar_lifecycle_policy_version ride)),
       (''translation_key'', JStr (''active_ride.'' @ target))])"

definition lifecycle_command ::
  "ride_env \<Rightarrow> active_db \<Rightarrow> subject \<Rightarrow> uuid \<Rightarrow> lifecycle_command \<Rightarrow> instant \<Rightarrow> uuid \<Rightarrow> (active_db \<times> lifecycle_result) result" where
  "lifecycle_command env db subject ride_id c now event_id =
     (if snd subject \<notin> set (COMMAND_AUTHORITY (lc_command_type c)) then Inl (ActiveRideConflict ''access_denied'')
      else
        (case get db ride_id of
           None \<Rightarrow> Inl (ActiveRideConflict ''ride_not_found'')
         | Some ride \<Rightarrow>
             if \<not> owns_or_operates subject ride then Inl (ActiveRideConflict ''ride_not_found'')
             else
               (let target = TARGET_BY_COMMAND (lc_command_type c) in
                bind_result (command_transition env db ride_id (fst subject) (lc_command_id c)
                    (''active_ride.'' @ command_value (lc_command_type c)) (lifecycle_payload c ride)
                    (lc_expected_version c) target now event_id) (\<lambda>(db1, changed, created).
                Inr (db1, \<lparr>lr_ride_id = ar_ride_id changed, lr_state = state_value (ar_state changed),
                  lr_aggregate_version = ar_version changed, lr_last_sequence = ar_last_sequence changed,
                  lr_command_created = created, lr_reason_code = ''active_ride.'' @ state_value target,
                  lr_translation_key = ''active_ride.'' @ state_value target\<rparr>)))))"

record recovery_view =
  rv_ride_id :: uuid
  rv_state :: string
  rv_aggregate_version :: int
  rv_last_sequence :: int
  rv_events :: "ride_event list"
  rv_resync_required :: bool

definition recover :: "active_db \<Rightarrow> subject \<Rightarrow> uuid \<Rightarrow> int \<Rightarrow> int \<Rightarrow> recovery_view result" where
  "recover db subject ride_id after_sequence limit =
     (case get db ride_id of
        None \<Rightarrow> Inl (ActiveRideConflict ''ride_not_found'')
      | Some ride \<Rightarrow>
          if \<not> owns_or_operates subject ride then Inl (ActiveRideConflict ''ride_not_found'')
          else
            bind_result (replay_canonical_state db ride_id) (\<lambda>_.
            bind_result (events_after db ride_id after_sequence (min (max limit 1) 100)) (\<lambda>events.
            Inr \<lparr>rv_ride_id = ar_ride_id ride, rv_state = state_value (ar_state ride),
              rv_aggregate_version = ar_version ride, rv_last_sequence = ar_last_sequence ride,
              rv_events = events, rv_resync_required = False\<rparr>)))"

definition role_for_subject :: "subject \<Rightarrow> actor_role" where
  "role_for_subject subject =
     (case snd subject of ID_RIDER \<Rightarrow> ROLE_RIDER | ID_DRIVER \<Rightarrow> ROLE_DRIVER
      | ID_STAFF \<Rightarrow> ROLE_SUPPORT | ID_ADMINISTRATOR \<Rightarrow> ROLE_SUPPORT | _ \<Rightarrow> ROLE_WORKER)"

section \<open>The ride service\<close>

record command_envelope =
  cm_command_id :: uuid
  cm_expected_version :: int
  cm_reason_code :: "string option"

record progress_command = command_envelope +
  pg_progress_basis_points :: int

record evidence_command = command_envelope +
  ec_evidence_type :: string
  ec_evidence_references :: "string list"

record pickup_verify_command = command_envelope +
  pv_code :: string

text \<open>\<open>model_dump\<close> of a command: the fields of the envelope, then those that the subclass adds.\<close>

definition envelope_dump :: "'a command_envelope_scheme \<Rightarrow> payload" where
  "envelope_dump c =
     [(''command_id'', JUuid (cm_command_id c)), (''expected_version'', JInt (cm_expected_version c)),
      (''reason_code'', case cm_reason_code c of None \<Rightarrow> JNull | Some r \<Rightarrow> JStr r)]"

definition role :: "subject \<Rightarrow> actor_role" where
  "role subject = (case snd subject of ID_RIDER \<Rightarrow> ROLE_RIDER | ID_DRIVER \<Rightarrow> ROLE_DRIVER | _ \<Rightarrow> ROLE_SUPPORT)"

definition owned :: "active_db \<Rightarrow> subject \<Rightarrow> uuid \<Rightarrow> bool \<Rightarrow> active_ride result" where
  "owned db subject ride_id driver_only =
     (case get db ride_id of
        None \<Rightarrow> Inl (ActiveRideConflict ''ride_not_found'')
      | Some ride \<Rightarrow>
          if driver_only
          then if snd subject \<noteq> ID_DRIVER \<or> ar_driver_id ride \<noteq> Some (fst subject)
               then Inl (ActiveRideConflict ''access_denied'') else Inr ride
          else if fst subject \<noteq> ar_rider_id ride \<and> Some (fst subject) \<noteq> ar_driver_id ride \<and>
            snd subject \<notin> {ID_STAFF, ID_ADMINISTRATOR, ID_SERVICE}
          then Inl (ActiveRideConflict ''access_denied'')
          else Inr ride)"

definition snapshot :: "active_db \<Rightarrow> subject \<Rightarrow> uuid \<Rightarrow> payload result" where
  "snapshot db subject ride_id =
     bind_result (owned db subject ride_id False) (\<lambda>ride. Inr (projection ride (role subject)))"

definition events :: "active_db \<Rightarrow> subject \<Rightarrow> uuid \<Rightarrow> int \<Rightarrow> int \<Rightarrow> ride_event list result" where
  "events db subject ride_id after limit =
     bind_result (owned db subject ride_id False) (\<lambda>_. events_after db ride_id after limit)"

definition acknowledge :: "active_db \<Rightarrow> subject \<Rightarrow> uuid \<Rightarrow> int \<Rightarrow> instant \<Rightarrow> active_db result" where
  "acknowledge db subject ride_id sequence now =
     bind_result (owned db subject ride_id False) (\<lambda>_. repo_acknowledge db ride_id (role subject) sequence now)"

definition confirmed_projection :: "active_ride \<Rightarrow> actor_role \<Rightarrow> bool \<Rightarrow> payload" where
  "confirmed_projection ride r created =
     projection ride r @ [(''command_status'', JStr ''confirmed''), (''command_created'', JBool created)]"

definition ride_command ::
  "ride_env \<Rightarrow> active_db \<Rightarrow> subject \<Rightarrow> uuid \<Rightarrow> 'a command_envelope_scheme \<Rightarrow> payload \<Rightarrow> string \<Rightarrow> active_ride_state \<Rightarrow>
   bool \<Rightarrow> instant \<Rightarrow> uuid \<Rightarrow> (active_db \<times> payload) result" where
  \<comment> \<open>\<open>extra\<close>: the fields a subclass of the envelope adds to its dump\<close>
  "ride_command env db subject ride_id c extra command_type target driver_only now event_id =
     bind_result (owned db subject ride_id driver_only) (\<lambda>_.
     bind_result (command_transition env db ride_id (fst subject) (cm_command_id c) command_type
         (envelope_dump c @ extra) (cm_expected_version c) target now event_id) (\<lambda>(db1, changed, created).
     Inr (db1, confirmed_projection changed (role subject) created)))"

definition issue_verification ::
  "ride_env \<Rightarrow> active_db \<Rightarrow> subject \<Rightarrow> uuid \<Rightarrow> 'a command_envelope_scheme \<Rightarrow> string option \<Rightarrow> instant \<Rightarrow> string \<Rightarrow> uuid \<Rightarrow>
   uuid \<Rightarrow> (active_db \<times> uuid \<times> string) result" where
  \<comment> \<open>the passenger mode is that of a \<open>RequestPickupVerificationCommand\<close>; a plain envelope has none\<close>
  "issue_verification env db subject ride_id c passenger_mode now code event_id verification_id =
     bind_result (owned db subject ride_id False) (\<lambda>ride.
     if fst subject \<noteq> ar_rider_id ride \<or> ar_assignment_id ride = None
     then Inl (ActiveRideConflict ''access_denied'')
     else
       bind_result (command_transition env db ride_id (fst subject) (cm_command_id c)
           ''pickup_verification_requested''
           [(''challenge'', JStr ''pin''),
            (''passenger_mode'', JStr (case passenger_mode of None \<Rightarrow> ''authenticated'' | Some m \<Rightarrow> m))]
           (cm_expected_version c) AR_PICKUP_VERIFICATION_PENDING now event_id) (\<lambda>(db1, changed, _).
       bind_result (issue_pin env db1 ride_id (ar_assignment_id changed) code now 300 5 verification_id) (\<lambda>(db2, vid).
       Inr (db2, vid, code))))"

definition pin_failure :: "uuid \<Rightarrow> instant \<Rightarrow> uuid \<Rightarrow> evidence_record" where
  "pin_failure ride_id now evidence_id =
     \<lparr>er_evidence_id = evidence_id, er_ride_id = ride_id, er_evidence_type = ''pickup_verification_failure'',
      er_submitted_by_role = ROLE_DRIVER, er_observed_at = now, er_responsibility = RC_INSUFFICIENT,
      er_reason_code = ''pickup_pin_mismatch'', er_evidence_references = []\<rparr>"

text \<open>
  A wrong code commits the failed attempt with its evidence and raises afterwards; every other error rolls back,
  also the use of a correct code whose transition is refused.
\<close>

definition verify_pickup ::
  "ride_env \<Rightarrow> active_db \<Rightarrow> subject \<Rightarrow> uuid \<Rightarrow> pickup_verify_command \<Rightarrow> instant \<Rightarrow> uuid \<Rightarrow> uuid \<Rightarrow>
   active_db \<times> payload result" where
  "verify_pickup env db subject ride_id c now event_id evidence_id =
     (case bind_result (owned db subject ride_id True) (\<lambda>_. verify_pin env db ride_id (pv_code c) now) of
        Inl e \<Rightarrow> (db, Inl e)
      | Inr (db1, False) \<Rightarrow>
          (case bind_result (valid_evidence (pin_failure ride_id now evidence_id)) (add_evidence db1) of
             Inl e \<Rightarrow> (db, Inl e)
           | Inr db2 \<Rightarrow> (db2, Inl (ActiveRideConflict ''verification_failed'')))
      | Inr (db1, True) \<Rightarrow>
          (case command_transition env db1 ride_id (fst subject) (cm_command_id c) ''pickup_verified''
               [(''verification'', JStr ''server_confirmed'')] (cm_expected_version c) AR_PICKUP_VERIFIED now event_id of
             Inl e \<Rightarrow> (db, Inl e)
           | Inr (db2, changed, _) \<Rightarrow> (db2, Inr (projection changed ROLE_DRIVER))))"

definition evidence_of ::
  "subject \<Rightarrow> uuid \<Rightarrow> evidence_command \<Rightarrow> instant \<Rightarrow> uuid \<Rightarrow> evidence_record result" where
  "evidence_of subject ride_id c now evidence_id =
     valid_evidence \<lparr>er_evidence_id = evidence_id, er_ride_id = ride_id, er_evidence_type = ec_evidence_type c,
       er_submitted_by_role = role subject, er_observed_at = now, er_responsibility = RC_INSUFFICIENT,
       er_reason_code = (case cm_reason_code c of None \<Rightarrow> ''insufficient_evidence'' | Some r \<Rightarrow> r),
       er_evidence_references = ec_evidence_references c\<rparr>"

definition evidence ::
  "active_db \<Rightarrow> subject \<Rightarrow> uuid \<Rightarrow> evidence_command \<Rightarrow> instant \<Rightarrow> uuid \<Rightarrow> active_db result" where
  "evidence db subject ride_id c now evidence_id =
     bind_result (owned db subject ride_id False) (\<lambda>_.
     bind_result (evidence_of subject ride_id c now evidence_id) (add_evidence db))"

definition evidence_transition ::
  "ride_env \<Rightarrow> active_db \<Rightarrow> subject \<Rightarrow> uuid \<Rightarrow> evidence_command \<Rightarrow> string \<Rightarrow> active_ride_state \<Rightarrow> bool \<Rightarrow> instant \<Rightarrow> uuid \<Rightarrow>
   uuid \<Rightarrow> (active_db \<times> payload) result" where
  "evidence_transition env db subject ride_id c command_type target driver_only now event_id evidence_id =
     bind_result (owned db subject ride_id driver_only) (\<lambda>_.
     bind_result (evidence_of subject ride_id c now evidence_id) (\<lambda>e.
     bind_result (add_evidence db e) (\<lambda>db1.
     bind_result (command_transition env db1 ride_id (fst subject) (cm_command_id c) command_type
         (envelope_dump c @ [(''evidence_type'', JStr (ec_evidence_type c)),
            (''evidence_references'', JList (map JStr (ec_evidence_references c)))])
         (cm_expected_version c) target now event_id) (\<lambda>(db2, changed, created).
     Inr (db2, confirmed_projection changed (role subject) created)))))"

definition evaluate_ride_confidence ::
  "ride_env \<Rightarrow> active_db \<Rightarrow> subject \<Rightarrow> uuid \<Rightarrow> confidence_signals \<Rightarrow> instant \<Rightarrow> uuid \<Rightarrow>
   (active_db \<times> confidence_decision) result" where
  "evaluate_ride_confidence env db subject ride_id signals now decision_id =
     bind_result (owned db subject ride_id False) (\<lambda>_.
     let decision = evaluate_confidence decision_id ride_id signals (rx_confidence_policy env) now
           (latest_confidence db ride_id)
     in bind_result (save_confidence db decision) (\<lambda>db1. Inr (db1, decision)))"

definition confidence :: "active_db \<Rightarrow> subject \<Rightarrow> uuid \<Rightarrow> confidence_decision option result" where
  "confidence db subject ride_id =
     bind_result (owned db subject ride_id False) (\<lambda>_. Inr (latest_confidence db ride_id))"

definition pickup :: "active_db \<Rightarrow> subject \<Rightarrow> uuid \<Rightarrow> pickup_recommendation option result" where
  "pickup db subject ride_id =
     bind_result (owned db subject ride_id False) (\<lambda>_. Inr (latest_pickup_recommendation db ride_id))"

definition pickup_change ::
  "active_db \<Rightarrow> subject \<Rightarrow> uuid \<Rightarrow> uuid \<Rightarrow> bool \<Rightarrow> (active_db \<times> pickup_recommendation) result" where
  "pickup_change db subject ride_id recommendation_id confirmed =
     bind_result (owned db subject ride_id False) (\<lambda>_.
     decide_pickup_change db ride_id recommendation_id confirmed)"

end
