(* ===== verification/Active_Ride_Log.thy ===== *)
theory Active_Ride_Log
  imports Active_Ride_Service
begin

text \<open>
  The event log of active rides. Every operation of the two services creates a ride, moves one, or leaves rides
  and events alone; so the log of each ride is gap-free, its states form a legal history, and replaying it gives the
  stored snapshot. The abstract machine keeps only the history of each ride.
\<close>

section \<open>State values\<close>

lemma state_value_inverse [simp]: "state_of_value (state_value s) = Inr s"
  by (cases s) (simp_all add: state_of_value_def state_value_def active_ride_states_def)

section \<open>What an event logs\<close>

definition logged_state :: "ride_event \<Rightarrow> active_ride_state option" where
  "logged_state e =
     (case dget (re_payload e) ''state_to'' of
        Some (JStr v) \<Rightarrow> (case state_of_value v of Inr s \<Rightarrow> Some s | Inl _ \<Rightarrow> None)
      | _ \<Rightarrow> None)"

lemma logged_stateI: "dget (re_payload e) ''state_to'' = Some (JStr (state_value s)) \<Longrightarrow> logged_state e = Some s"
  by (simp add: logged_state_def)

definition stream :: "ride_event list \<Rightarrow> active_ride_state list \<Rightarrow> bool" where
  "stream es h \<longleftrightarrow> map re_sequence es = map int [1..<Suc (length h)] \<and> map logged_state es = map Some h"

lemma stream_length: "stream es h \<Longrightarrow> length es = length h"
  unfolding stream_def by (metis length_map)

lemma stream_Nil: "stream [] []"
  by (simp add: stream_def)

lemma stream_snoc:
  assumes "stream es h" and "re_sequence e = int (length h) + 1" and "logged_state e = Some s"
  shows "stream (es @ [e]) (h @ [s])"
  using assms by (auto simp: stream_def)

lemma stream_sorted: "stream es h \<Longrightarrow> sort_key re_sequence es = es"
  unfolding stream_def
  by (intro sort_key_id_if_sorted) (simp add: sorted_map sorted_wrt_map del: upt_Suc)

lemma replay_rows_stream:
  assumes "map re_sequence es = map int [n..<n + length h]" and "map logged_state es = map Some h" and "es \<noteq> []"
  shows "replay_rows (int n) st es = Inr (Some (last h))"
  using assms
proof (induction es arbitrary: n st h)
  case Nil
  then show ?case by simp
next
  case (Cons e es)
  from Cons.prems(2) obtain s h' where h: "h = s # h'" "logged_state e = Some s" "map logged_state es = map Some h'"
    by (cases h) auto
  have seq: "re_sequence e = int n" "map re_sequence es = map int [Suc n..<Suc n + length h']"
    using Cons.prems(1) by (simp_all add: h upt_conv_Cons del: upt_Suc)
  obtain v where v: "dget (re_payload e) ''state_to'' = Some (JStr v)" "state_of_value v = Inr s"
    using h(2) by (auto simp: logged_state_def split: option.splits json_value.splits sum.splits)
  show ?case
  proof (cases "es = []")
    case True
    then show ?thesis using h v seq by simp
  next
    case False
    then have "h' \<noteq> []" using h(3) by auto
    have "replay_rows (int (Suc n)) (Some s) es = Inr (Some (last h'))"
      using Cons.IH [OF seq(2) h(3) False] .
    then show ?thesis using h v seq \<open>h' \<noteq> []\<close> by (simp add: algebra_simps)
  qed
qed

lemma replay_stream: "stream es h \<Longrightarrow> es \<noteq> [] \<Longrightarrow> replay_rows 1 None es = Inr (Some (last h))"
  using replay_rows_stream [of es 1 h None] by (simp add: stream_def)

section \<open>The three effects of an operation\<close>

inductive ride_effect :: "active_db \<Rightarrow> active_db \<Rightarrow> bool" where
  same: "ad_rides db' = ad_rides db \<Longrightarrow> ad_events db' = ad_events db \<Longrightarrow> ride_effect db db'"
| created: "get db k = None \<Longrightarrow> ad_rides db' = dset k r (ad_rides db) \<Longrightarrow> ad_events db' = ad_events db @ [e] \<Longrightarrow>
    ar_ride_id r = k \<Longrightarrow> ar_state r = AR_DRIVER_ASSIGNED \<Longrightarrow> ar_version r = 1 \<Longrightarrow> ar_last_sequence r = 1 \<Longrightarrow>
    re_ride_id e = k \<Longrightarrow> re_sequence e = 1 \<Longrightarrow> logged_state e = Some AR_DRIVER_ASSIGNED \<Longrightarrow> ride_effect db db'"
| moved: "get db k = Some c \<Longrightarrow> t \<in> set (ALLOWED_TRANSITIONS (ar_state c)) \<Longrightarrow>
    ad_rides db' = dset (ar_ride_id c) r (ad_rides db) \<Longrightarrow> ad_events db' = ad_events db @ [e] \<Longrightarrow>
    ar_ride_id r = ar_ride_id c \<Longrightarrow> ar_state r = t \<Longrightarrow> ar_version r = ar_version c + 1 \<Longrightarrow>
    ar_last_sequence r = ar_last_sequence c + 1 \<Longrightarrow> re_ride_id e = ar_ride_id c \<Longrightarrow>
    re_sequence e = ar_last_sequence c + 1 \<Longrightarrow> logged_state e = Some t \<Longrightarrow> ride_effect db db'"

lemma checkpoint_simps [simp]:
  "ad_rides (checkpoint db r) = ad_rides db" "ad_events (checkpoint db r) = ad_events db"
  "ad_verifications (checkpoint db r) = ad_verifications db" "ad_evidence (checkpoint db r) = ad_evidence db"
  by (simp_all add: checkpoint_def)

lemma outbox_simps [simp]:
  "ad_rides (outbox db k ty now pl) = ad_rides db" "ad_events (outbox db k ty now pl) = ad_events db"
  "ad_verifications (outbox db k ty now pl) = ad_verifications db" "ad_evidence (outbox db k ty now pl) = ad_evidence db"
  by (simp_all add: outbox_def)

lemma append_event_ok:
  assumes "append_event db ride ty pl eid = Inr db'"
  obtains e where "ad_events db' = ad_events db @ [e]" "re_ride_id e = ar_ride_id ride"
    "re_sequence e = ar_last_sequence ride" "re_payload e = pl" "ad_rides db' = ad_rides db"
    "ad_verifications db' = ad_verifications db" "ad_evidence db' = ad_evidence db"
  using assms unfolding append_event_def valid_ride_event_def by (elim ok_elims) auto

lemma store_changed_ok:
  assumes "store_changed db changed ty pl eid = Inr db'"
  obtains e where "ad_events db' = ad_events db @ [e]" "re_ride_id e = ar_ride_id changed"
    "re_sequence e = ar_last_sequence changed" "re_payload e = pl"
    "ad_rides db' = dset (ar_ride_id changed) changed (ad_rides db)" "ad_verifications db' = ad_verifications db"
    "ad_evidence db' = ad_evidence db"
  using assms unfolding store_changed_def by (elim ok_elims append_event_ok) auto

lemma transition_ok:
  assumes "transition ride target now = Inr r"
  shows "target \<in> set (ALLOWED_TRANSITIONS (ar_state ride))"
    and "r = ride\<lparr>ar_state := target, ar_updated_at := now, ar_version := ar_version ride + 1,
      ar_last_sequence := ar_last_sequence ride + 1\<rparr>"
  using assms by (auto simp: transition_def split: if_splits)

lemma command_transition_ok:
  assumes "command_transition env db k actor cid ty pl v target now eid = Inr (db', r, created)"
  obtains (again) "db' = db" "\<not> created" "get db k = Some r"
  | (new) c e where "created" "get db k = Some c" "ar_version c = v" "target \<in> set (ALLOWED_TRANSITIONS (ar_state c))"
      "r = c\<lparr>ar_state := target, ar_updated_at := now, ar_version := ar_version c + 1,
        ar_last_sequence := ar_last_sequence c + 1\<rparr>"
      "ad_events db' = ad_events db @ [e]" "re_ride_id e = ar_ride_id c" "re_sequence e = ar_last_sequence c + 1"
      "logged_state e = Some target" "ad_rides db' = dset (ar_ride_id c) r (ad_rides db)"
      "ad_verifications db' = ad_verifications db" "ad_evidence db' = ad_evidence db"
  using assms unfolding command_transition_def
  apply (elim ok_elims)
  subgoal premises prems for c changed db1
  proof -
    note t = transition_ok [OF prems(6)]
    from prems(7) obtain e where e: "ad_events db1 = ad_events db @ [e]" "re_ride_id e = ar_ride_id changed"
        "re_sequence e = ar_last_sequence changed" "re_payload e = dset ''state_to'' (JStr (state_value (ar_state changed)))
          (dset ''state_from'' (JStr (state_value (ar_state c))) pl)"
        "ad_rides db1 = dset (ar_ride_id changed) changed (ad_rides db)" "ad_verifications db1 = ad_verifications db"
        "ad_evidence db1 = ad_evidence db"
      by (rule store_changed_ok)
    have d: "ad_events db' = ad_events db1" "ad_rides db' = ad_rides db1"
        "ad_verifications db' = ad_verifications db1" "ad_evidence db' = ad_evidence db1"
      by (simp_all add: prems(8) [symmetric])
    have r: "r = changed" "created" using prems(9-) by simp_all
    have id: "ar_ride_id changed = ar_ride_id c" by (simp add: t(2))
    show ?thesis
    proof (rule new [OF r(2) prems(4) _ t(1)])
      show "ar_version c = v" using prems(5) by simp
      show "r = c\<lparr>ar_state := target, ar_updated_at := now, ar_version := ar_version c + 1,
          ar_last_sequence := ar_last_sequence c + 1\<rparr>"
        unfolding r(1) by (rule t(2))
      show "logged_state e = Some target" by (rule logged_stateI) (simp add: e(4) t(2))
      show "re_sequence e = ar_last_sequence c + 1" by (simp add: e(3) t(2))
    qed (simp_all only: d e r id)
  qed
  subgoal premises prems by (rule again) (use prems(3-) in simp_all)
  done

lemma command_transition_effect:
  assumes "command_transition env db k actor cid ty pl v target now eid = Inr (db', r, created)"
  shows "ride_effect db db'"
  using assms
proof (cases rule: command_transition_ok)
  case again
  then show ?thesis by (simp add: same)
next
  case (new c e)
  show ?thesis by (rule moved [OF new(2,4,10,6)]) (simp_all add: new)
qed

lemma ride_of_source_fields [simp]:
  "ar_ride_id (ride_of_source src a pv now k) = k" "ar_state (ride_of_source src a pv now k) = AR_DRIVER_ASSIGNED"
  "ar_version (ride_of_source src a pv now k) = 1" "ar_last_sequence (ride_of_source src a pv now k) = 1"
  "ar_rider_id (ride_of_source src a pv now k) = as_rider_identity_id src"
  "ar_driver_id (ride_of_source src a pv now k) = Some (as_driver_id src)"
  by (simp_all add: ride_of_source_def)

lemma create_from_immediate_assignment_ok:
  assumes "create_from_immediate_assignment env db a pv now k eid = Inr (db', r)"
  obtains (again) "db' = db"
  | (new) src e where "rx_assignment env a = Some src" "r = ride_of_source src a pv now k" "get db k = None"
      "ad_rides db' = dset k r (ad_rides db)" "ad_events db' = ad_events db @ [e]" "re_ride_id e = k"
      "re_sequence e = 1" "logged_state e = Some AR_DRIVER_ASSIGNED" "ad_verifications db' = ad_verifications db"
  using assms unfolding create_from_immediate_assignment_def
  apply (elim ok_elims)
  subgoal premises prems for src found ride db1 db2
  proof -
    have ride: "ride = ride_of_source src a pv now k" using prems(7) by (auto simp: valid_active_ride_def split: if_splits)
    have ins: "get db k = None" "db1 = db\<lparr>ad_rides := dset k ride (ad_rides db)\<rparr>"
      using prems(8) by (auto simp: insert_ride_def ride get_def split: if_splits)
    from prems(9) obtain e where e: "ad_events db2 = ad_events db1 @ [e]" "re_ride_id e = ar_ride_id ride"
        "re_sequence e = ar_last_sequence ride" "dget (re_payload e) ''state_to'' = Some (JStr (state_value (ar_state ride)))"
        "ad_rides db2 = ad_rides db1" "ad_verifications db2 = ad_verifications db1"
      by (rule append_event_ok) simp
    have r: "r = ride_of_source src a pv now k" using prems(11) ride by simp
    show ?thesis
    proof (rule new [OF prems(3) _ ins(1)])
      show "logged_state e = Some AR_DRIVER_ASSIGNED" by (rule logged_stateI) (simp add: e(4) ride)
    qed (use e ins in \<open>simp_all add: ride r prems(10) [symmetric]\<close>)
  qed
  subgoal premises prems by (rule again) (use prems(3-) in simp_all)
  done

section \<open>The step relation\<close>

text \<open>
  Every operation of the two services that writes, with any arguments; the codes and identifiers it draws are
  arguments too. The repository's \<open>create_from_assignment\<close> and \<open>reassign\<close> have no caller in the backend.
\<close>

inductive ride_step :: "ride_env \<Rightarrow> active_db \<Rightarrow> active_db \<Rightarrow> bool" for env where
  step_start: "start_from_assignment env pv db a now k eid = Inr (db', r) \<Longrightarrow> ride_step env db db'"
| step_lifecycle: "lifecycle_command env db s k c now eid = Inr (db', x) \<Longrightarrow> ride_step env db db'"
| step_command: "ride_command env db s k (c :: command_envelope) extra ty t only now eid = Inr (db', pl) \<Longrightarrow> ride_step env db db'"
| step_issue: "issue_verification env db s k (c :: command_envelope) mode now code eid vid = Inr (db', w) \<Longrightarrow> ride_step env db db'"
| step_verify: "verify_pickup env db s k v now eid evid = (db', out) \<Longrightarrow> ride_step env db db'"
| step_evidence: "evidence db s k ev now evid = Inr db' \<Longrightarrow> ride_step env db db'"
| step_evidence_transition:
    "evidence_transition env db s k ev ty t only now eid evid = Inr (db', pl) \<Longrightarrow> ride_step env db db'"
| step_acknowledge: "acknowledge db s k seq now = Inr db' \<Longrightarrow> ride_step env db db'"
| step_confidence: "evaluate_ride_confidence env db s k g now did = Inr (db', d) \<Longrightarrow> ride_step env db db'"
| step_recommend: "recommend_pickup rid k cand now ttl = Inr p \<Longrightarrow> save_pickup_recommendation db p = Inr db' \<Longrightarrow>
    ride_step env db db'"
| step_change: "pickup_change db s k rid confirmed = Inr (db', p) \<Longrightarrow> ride_step env db db'"

definition empty_rides :: active_db where
  "empty_rides = \<lparr>ad_rides = [], ad_events = [], ad_idempotency = [], ad_checkpoints = [], ad_verifications = [],
     ad_evidence = [], ad_confidence = [], ad_recommendations = [], ad_outbox = []\<rparr>"

definition ride_reachable :: "ride_env \<Rightarrow> active_db \<Rightarrow> bool" where
  "ride_reachable env = (ride_step env)\<^sup>*\<^sup>* empty_rides"

lemma start_effect:
  assumes "create_from_immediate_assignment env db a pv now k eid = Inr (db', r)"
  shows "ride_effect db db'"
  using assms
proof (cases rule: create_from_immediate_assignment_ok)
  case (new src e)
  show ?thesis by (rule created [OF new(3,4,5)]) (simp_all add: new)
qed (simp_all add: same)

lemma lifecycle_transition:
  assumes "lifecycle_command env db s k c now eid = Inr (db', x)"
  obtains r pl created where
    "command_transition env db k (fst s) (lc_command_id c) (''active_ride.'' @ command_value (lc_command_type c)) pl
       (lc_expected_version c) (TARGET_BY_COMMAND (lc_command_type c)) now eid = Inr (db', r, created)"
    and "snd s \<in> set (COMMAND_AUTHORITY (lc_command_type c))"
  using assms unfolding lifecycle_command_def by (elim ok_elims) blast

lemma invalidate_pins_simps [simp]:
  "ad_rides (invalidate_pins db k now) = ad_rides db" "ad_events (invalidate_pins db k now) = ad_events db"
  by (simp_all add: invalidate_pins_def)

lemma issue_pin_ok:
  assumes "issue_pin env db k a code now ttl m vid = Inr (db', w)"
  shows "ad_rides db' = ad_rides db" and "ad_events db' = ad_events db"
  using assms unfolding issue_pin_def by (auto simp: Let_def split: option.splits if_splits)

lemma verify_pin_ok:
  assumes "verify_pin env db k code now = Inr (db', b)"
  shows "ad_rides db' = ad_rides db" and "ad_events db' = ad_events db"
  using assms unfolding verify_pin_def by (auto simp: Let_def split: option.splits if_splits)

lemma add_evidence_ok:
  "add_evidence db e = Inr db' \<Longrightarrow> db' = db\<lparr>ad_evidence := ad_evidence db @ [e]\<rparr>"
  by (auto simp: add_evidence_def split: if_splits)

lemma ride_effect_cong:
  assumes "ride_effect db1 db2" and "ad_rides db1 = ad_rides db" "ad_events db1 = ad_events db"
    and "ad_rides db' = ad_rides db2" "ad_events db' = ad_events db2"
  shows "ride_effect db db'"
  using assms(1)
proof cases
  case same
  then show ?thesis using assms by (simp add: ride_effect.same)
next
  case (created k r e)
  then show ?thesis using assms by (intro ride_effect.created [of db k db' r e]) (simp_all add: get_def)
next
  case (moved k c t r e)
  then show ?thesis using assms by (intro ride_effect.moved [of db k c t db' r e]) (simp_all add: get_def)
qed

lemma acknowledge_ok:
  assumes "acknowledge db s k seq now = Inr db'"
  shows "ad_rides db' = ad_rides db" and "ad_events db' = ad_events db" and "ad_verifications db' = ad_verifications db"
  using assms unfolding acknowledge_def repo_acknowledge_def
  by (auto simp: Let_def bind_result_eq_Inr split: option.splits if_splits)

lemma verify_pickup_effect:
  assumes "verify_pickup env db s k v now eid evid = (db', out)"
  shows "ride_effect db db'"
proof -
  have wrong: "ride_effect db db2" if "verify_pin env db k code now = Inr (db1, b)" "add_evidence db1 e = Inr db2"
    for db1 db2 b code e
    using verify_pin_ok [OF that(1)] add_evidence_ok [OF that(2)] by (simp add: same)
  have right: "ride_effect db db2" if "verify_pin env db k code now = Inr (db1, b)"
      "command_transition env db1 k a c ty pl w t now eid = Inr (db2, r, z)" for db1 db2 b code a c ty pl w t r z
    using ride_effect_cong [OF command_transition_effect [OF that(2)] _ _ refl refl] verify_pin_ok [OF that(1)] by simp
  show ?thesis
    using assms unfolding verify_pickup_def
    by (auto simp: bind_result_eq_Inr same split: sum.splits prod.splits bool.splits intro: wrong right)
qed

definition issue_payload :: "string option \<Rightarrow> payload" where
  "issue_payload mode = [(''challenge'', JStr ''pin''),
     (''passenger_mode'', JStr (case mode of None \<Rightarrow> ''authenticated'' | Some m \<Rightarrow> m))]"

lemma issue_verification_ok:
  assumes "issue_verification env db s k c mode now code eid vid = Inr (db', w)"
  obtains db1 r z where
    "command_transition env db k (fst s) (cm_command_id c) ''pickup_verification_requested'' (issue_payload mode)
       (cm_expected_version c) AR_PICKUP_VERIFICATION_PENDING now eid = Inr (db1, r, z)"
    and "issue_pin env db1 k (ar_assignment_id r) code now 300 5 vid = Inr (db', fst w)"
  using assms unfolding issue_verification_def issue_payload_def by (elim ok_elims) auto

lemma evidence_transition_ok:
  assumes "evidence_transition env db s k ev ty t only now eid evid = Inr (db', out)"
  obtains e db1 pl r z where "add_evidence db e = Inr db1"
    and "command_transition env db1 k (fst s) (cm_command_id ev) ty pl (cm_expected_version ev) t now eid = Inr (db', r, z)"
  using assms unfolding evidence_transition_def by (elim ok_elims) auto

lemma step_effect:
  assumes "ride_step env db db'"
  shows "ride_effect db db'"
  using assms
proof cases
  case (step_start pv a now k eid r)
  then show ?thesis unfolding start_from_assignment_def by (rule start_effect)
next
  case (step_lifecycle s k c now eid x)
  then show ?thesis by (rule lifecycle_transition) (rule command_transition_effect)
next
  case (step_command s k c extra ty t only now eid pl)
  then show ?thesis unfolding ride_command_def
    by (elim ok_elims) (use command_transition_effect in blast)
next
  case (step_issue s k c mode now code eid vid w)
  then obtain db1 r z where t: "command_transition env db k (fst s) (cm_command_id c) ''pickup_verification_requested''
      (issue_payload mode) (cm_expected_version c) AR_PICKUP_VERIFICATION_PENDING now eid = Inr (db1, r, z)"
    and p: "issue_pin env db1 k (ar_assignment_id r) code now 300 5 vid = Inr (db', fst w)"
    by (rule issue_verification_ok)
  show ?thesis using ride_effect_cong [OF command_transition_effect [OF t] refl refl] issue_pin_ok [OF p] by simp
next
  case (step_verify s k v now eid evid out)
  then show ?thesis by (rule verify_pickup_effect)
next
  case (step_evidence s k ev now evid)
  then show ?thesis unfolding evidence_def
    by (elim ok_elims) (auto dest!: add_evidence_ok intro: same)
next
  case (step_evidence_transition s k ev ty t only now eid evid pl)
  then obtain e db1 pl' r z where e: "add_evidence db e = Inr db1"
    and t: "command_transition env db1 k (fst s) (cm_command_id ev) ty pl' (cm_expected_version ev) t now eid = Inr (db', r, z)"
    by (rule evidence_transition_ok)
  show ?thesis
    using ride_effect_cong [OF command_transition_effect [OF t] _ _ refl refl, of db] add_evidence_ok [OF e] by simp
next
  case (step_acknowledge s k seq now)
  then show ?thesis using acknowledge_ok same by blast
next
  case (step_confidence s k g now did d)
  then show ?thesis unfolding evaluate_ride_confidence_def
    by (elim ok_elims) (auto simp: save_confidence_def same split: if_splits)
next
  case (step_recommend rid k cand now ttl p)
  then show ?thesis by (auto simp: save_pickup_recommendation_def same split: if_splits)
next
  case (step_change s k rid confirmed p)
  then show ?thesis unfolding pickup_change_def decide_pickup_change_def
    by (elim ok_elims) (auto simp: same)
qed

section \<open>The log invariant\<close>

definition ride_log :: "active_db \<Rightarrow> uuid \<Rightarrow> ride_event list" where
  "ride_log db k = filter (\<lambda>e. re_ride_id e = k) (ad_events db)"

definition log_ok :: "ride_event list \<Rightarrow> active_ride \<Rightarrow> active_ride_state list \<Rightarrow> bool" where
  "log_ok es r h \<longleftrightarrow> stream es h \<and> h \<noteq> [] \<and> hd h = AR_DRIVER_ASSIGNED \<and>
     legal_history ALLOWED_TRANSITIONS AR_DRIVER_ASSIGNED (tl h) \<and> last h = ar_state r \<and>
     ar_last_sequence r = int (length h) \<and> ar_version r = int (length h)"

definition log_inv :: "active_db \<Rightarrow> bool" where
  "log_inv db \<longleftrightarrow>
     (\<forall>k. case get db k of None \<Rightarrow> ride_log db k = []
        | Some r \<Rightarrow> ar_ride_id r = k \<and> (\<exists>h. log_ok (ride_log db k) r h))"

lemma log_invD:
  assumes "log_inv db"
  shows "get db k = None \<Longrightarrow> ride_log db k = []"
    and "get db k = Some r \<Longrightarrow> ar_ride_id r = k"
    and "get db k = Some r \<Longrightarrow> \<exists>h. log_ok (ride_log db k) r h"
  using assms unfolding log_inv_def by (auto dest: spec [of _ k])

lemma log_ok_created:
  assumes "re_sequence e = 1" "logged_state e = Some AR_DRIVER_ASSIGNED"
    and "ar_state r = AR_DRIVER_ASSIGNED" "ar_version r = 1" "ar_last_sequence r = 1"
  shows "log_ok [e] r [AR_DRIVER_ASSIGNED]"
  using assms by (simp add: log_ok_def stream_def)

lemma log_ok_moved:
  assumes h: "log_ok es c h" and t: "t \<in> set (ALLOWED_TRANSITIONS (ar_state c))"
    and e: "re_sequence e = ar_last_sequence c + 1" "logged_state e = Some t"
    and r: "ar_state r = t" "ar_version r = ar_version c + 1" "ar_last_sequence r = ar_last_sequence c + 1"
  shows "log_ok (es @ [e]) r (h @ [t])"
proof -
  note l = h [unfolded log_ok_def]
  have "stream (es @ [e]) (h @ [t])" using l e by (intro stream_snoc) simp_all
  moreover have "final_state AR_DRIVER_ASSIGNED (tl h) = ar_state c"
    using l by (cases h) (auto simp: final_state_def)
  ultimately show ?thesis
    using l t r by (simp add: log_ok_def legal_history_append allows_def)
qed

lemma ride_log_append:
  "ad_events db' = ad_events db @ [e] \<Longrightarrow>
     ride_log db' k = (if re_ride_id e = k then ride_log db k @ [e] else ride_log db k)"
  by (simp add: ride_log_def)

lemma get_append: "ad_rides db' = dset j r (ad_rides db) \<Longrightarrow> get db' k = (if k = j then Some r else get db k)"
  by (simp add: get_def)

lemma log_inv_effect:
  assumes "ride_effect db db'" and inv: "log_inv db"
  shows "log_inv db'"
  using assms(1)
proof cases
  case same
  then have "ride_log db' = ride_log db" "get db' = get db" by (simp_all add: fun_eq_iff get_def ride_log_def)
  then show ?thesis using inv unfolding log_inv_def by metis
next
  case (created k r e)
  have "log_ok [e] r [AR_DRIVER_ASSIGNED]" by (rule log_ok_created) (rule created)+
  then have "\<exists>h. log_ok [e] r h" ..
  then show ?thesis
    unfolding log_inv_def get_append [OF created(2)] ride_log_append [OF created(3)]
    using log_invD [OF inv] created(1,4,8) by (auto split: option.split)
next
  case (moved k c t r e)
  have id: "ar_ride_id c = k" using log_invD(2) [OF inv moved(1)] .
  obtain h where "log_ok (ride_log db k) c h" using log_invD(3) [OF inv moved(1)] ..
  then have "log_ok (ride_log db k @ [e]) r (h @ [t])" using moved by (intro log_ok_moved) simp_all
  then have "\<exists>h. log_ok (ride_log db k @ [e]) r h" ..
  then show ?thesis
    unfolding log_inv_def get_append [OF moved(3)] ride_log_append [OF moved(4)]
    using log_invD [OF inv] moved(5,9) id by (auto split: option.split)
qed

lemma ride_reachable_inv: "ride_reachable env db \<Longrightarrow> log_inv db"
  unfolding ride_reachable_def
proof (induction rule: rtranclp_induct)
  case base
  show ?case by (simp add: log_inv_def get_def ride_log_def empty_rides_def)
next
  case (step db db')
  then show ?case using log_inv_effect step_effect by blast
qed

section \<open>The abstract machine\<close>

text \<open>
  A ride is its history of states. A step leaves the histories alone, opens the history of a ride that has none, or
  extends one by a state that the transition table allows after its last.
\<close>

type_synonym histories = "uuid \<Rightarrow> active_ride_state list"

inductive history_step :: "histories \<Rightarrow> histories \<Rightarrow> bool" where
  stay: "history_step H H"
| open_history: "H k = [] \<Longrightarrow> history_step H (H(k := [AR_DRIVER_ASSIGNED]))"
| extend: "H k \<noteq> [] \<Longrightarrow> allows ALLOWED_TRANSITIONS (last (H k)) t \<Longrightarrow> history_step H (H(k := H k @ [t]))"

definition histories :: "active_db \<Rightarrow> histories" where
  "histories db k = List.map_filter logged_state (ride_events db k)"

lemma histories_log: "log_ok (ride_log db k) r h \<Longrightarrow> ride_events db k = ride_log db k \<and> histories db k = h"
proof -
  assume "log_ok (ride_log db k) r h"
  then have s: "stream (ride_log db k) h" by (simp add: log_ok_def)
  have e: "ride_events db k = ride_log db k"
    using stream_sorted [OF s] by (simp add: ride_events_def ride_log_def)
  have "List.map_filter logged_state es = g" if "map logged_state es = map Some g" for es g
    using that by (induction es arbitrary: g) (auto simp: List.map_filter_simps)
  then show ?thesis using s e by (simp add: histories_def stream_def)
qed

lemma histories_none: "log_inv db \<Longrightarrow> get db k = None \<Longrightarrow> histories db k = []"
  using log_invD(1) [of db k] by (simp add: histories_def ride_events_def ride_log_def List.map_filter_simps)

lemma effect_refines:
  assumes eff: "ride_effect db db'" and inv: "log_inv db"
  shows "history_step (histories db) (histories db')"
  using eff
proof cases
  case same
  then have "histories db' = histories db" by (simp add: fun_eq_iff histories_def ride_events_def)
  then show ?thesis by (simp add: stay)
next
  case (created k r e)
  have log: "ride_log db k = []" using log_invD(1) [OF inv created(1)] .
  have "histories db' = (histories db)(k := [AR_DRIVER_ASSIGNED])"
  proof
    fix j
    show "histories db' j = ((histories db)(k := [AR_DRIVER_ASSIGNED])) j"
      using histories_log [of db' k r "[AR_DRIVER_ASSIGNED]"] log_ok_created [of e r] log created
      by (simp add: ride_log_append [OF created(3)]) (simp add: histories_def ride_events_def)
  qed
  then show ?thesis using open_history [of "histories db" k] histories_none [OF inv created(1)] by simp
next
  case (moved k c t r e)
  have id: "ar_ride_id c = k" using log_invD(2) [OF inv moved(1)] .
  obtain h where h: "log_ok (ride_log db k) c h" using log_invD(3) [OF inv moved(1)] ..
  have h': "log_ok (ride_log db k @ [e]) r (h @ [t])" using h moved by (intro log_ok_moved) simp_all
  have hk: "histories db k = h" using histories_log [OF h] by blast
  have "histories db' = (histories db)(k := h @ [t])"
  proof
    fix j
    show "histories db' j = ((histories db)(k := h @ [t])) j"
      using histories_log [of db' k r "h @ [t]"] h' id moved(9)
      by (simp add: ride_log_append [OF moved(4)]) (simp add: histories_def ride_events_def moved(4))
  qed
  moreover have "h \<noteq> []" "allows ALLOWED_TRANSITIONS (last h) t"
    using h moved(2) by (simp_all add: log_ok_def allows_def)
  ultimately show ?thesis using extend [of "histories db" k t] hk by simp
qed

lemma replay_ok:
  assumes "log_ok (ride_log db k) r h" and "get db k = Some r"
  shows "replay_canonical_state db k = Inr (ar_state r)"
proof -
  have s: "stream (ride_log db k) h" and h: "h \<noteq> []" "last h = ar_state r" using assms(1) by (simp_all add: log_ok_def)
  have "ride_log db k \<noteq> []" using stream_length [OF s] h(1) by auto
  then show ?thesis
    using replay_stream [OF s] histories_log [OF assms(1)] h(2) assms(2)
    by (simp add: replay_canonical_state_def Let_def)
qed

end
