(* ===== verification/Active_Ride_Props.thy ===== *)
theory Active_Ride_Props
  imports Active_Ride_Log
begin

text \<open>
  The properties of active rides: refinement of the history machine, the one path to completion under the lifecycle
  service, and the guard on pickup codes; with a concrete ride on which each applies.
\<close>

section \<open>The lifecycle of a ride\<close>

interpretation active_ride: lifecycle ALLOWED_TRANSITIONS "\<lambda>s. s \<in> set TERMINAL_STATES"
  by unfold_locales (auto simp: TERMINAL_STATES_def)

section \<open>Pickup codes\<close>

definition pin_ok :: "uuid \<Rightarrow> pickup_verification \<Rightarrow> bool" where
  "pin_ok k v \<longleftrightarrow> vf_verification_id v = k \<and> 0 \<le> vf_attempt_count v \<and> vf_attempt_count v \<le> vf_maximum_attempts v \<and>
     vf_maximum_attempts v = 5"

definition pin_inv :: "active_db \<Rightarrow> bool" where
  "pin_inv db \<longleftrightarrow> dict_ok (ad_verifications db) \<and>
     (\<forall>k v. dget (ad_verifications db) k = Some v \<longrightarrow> pin_ok k v) \<and>
     (\<forall>j v k w. dget (ad_verifications db) j = Some v \<longrightarrow> dget (ad_verifications db) k = Some w \<longrightarrow>
        vf_ride_id v = vf_ride_id w \<longrightarrow> vf_invalidated_at v = None \<longrightarrow> vf_invalidated_at w = None \<longrightarrow> j = k)"

lemma pin_invD:
  assumes "pin_inv db"
  shows "dict_ok (ad_verifications db)" and "dget (ad_verifications db) k = Some v \<Longrightarrow> pin_ok k v"
    and "dget (ad_verifications db) j = Some v \<Longrightarrow> dget (ad_verifications db) k = Some w \<Longrightarrow>
        vf_ride_id v = vf_ride_id w \<Longrightarrow> vf_invalidated_at v = None \<Longrightarrow> vf_invalidated_at w = None \<Longrightarrow> j = k"
  using assms unfolding pin_inv_def by blast+

lemma latest_by_in:
  assumes "latest_by f xs = Some v"
  shows "v \<in> set xs"
proof -
  have "xs \<noteq> []" and v: "last (sort_key f xs) = v" using assms by (simp_all add: latest_by_def split: if_splits)
  then have "sort_key f xs \<noteq> []" by (metis length_0_conv length_sort)
  then have "last (sort_key f xs) \<in> set (sort_key f xs)" by (rule last_in_set)
  then show ?thesis by (simp add: v)
qed

lemma live_pin_Some:
  assumes "live_pin db k = Some v"
  shows "v \<in> set (dvalues (ad_verifications db))" and "vf_ride_id v = k" and "vf_invalidated_at v = None"
  using latest_by_in [OF assms [unfolded live_pin_def]] by simp_all

lemma live_pin_stored:
  assumes "pin_inv db" and "live_pin db k = Some v"
  shows "dget (ad_verifications db) (vf_verification_id v) = Some v"
proof -
  obtain j where j: "dget (ad_verifications db) j = Some v"
    using live_pin_Some(1) [OF assms(2)] in_dvalues_iff [OF pin_invD(1) [OF assms(1)]] by blast
  then show ?thesis using pin_invD(2) [OF assms(1) j] by (simp add: pin_ok_def)
qed

text \<open>The three ways a step treats the codes.\<close>

inductive pin_effect :: "ride_env \<Rightarrow> active_db \<Rightarrow> active_db \<Rightarrow> bool" for env where
  kept: "ad_verifications db' = ad_verifications db \<Longrightarrow> pin_effect env db db'"
| issued: "ad_verifications db1 = ad_verifications db \<Longrightarrow> issue_pin env db1 k a code now 300 5 vid = Inr (db', w) \<Longrightarrow>
    pin_effect env db db'"
| tried: "verify_pin env db k code now = Inr (db1, b) \<Longrightarrow> ad_verifications db' = ad_verifications db1 \<Longrightarrow>
    pin_effect env db db'"

lemma command_transition_pins:
  assumes "command_transition env db k actor cid ty pl v target now eid = Inr (db', r, created)"
  shows "ad_verifications db' = ad_verifications db"
  using assms by (rule command_transition_ok) simp_all

lemma verify_pickup_cases:
  assumes "verify_pickup env db s k v now eid evid = (db', out)"
  obtains (refused) e where "out = Inl e" "db' = db"
  | (wrong) db1 where "out = Inl (ActiveRideConflict ''verification_failed'')"
      "verify_pin env db k (pv_code v) now = Inr (db1, False)"
      "db' = db1\<lparr>ad_evidence := ad_evidence db1 @ [pin_failure k now evid]\<rparr>"
  | (right) db1 ride r created where "out = Inr (projection r ROLE_DRIVER)" "owned db s k True = Inr ride"
      "verify_pin env db k (pv_code v) now = Inr (db1, True)"
      "command_transition env db1 k (fst s) (cm_command_id v) ''pickup_verified''
         [(''verification'', JStr ''server_confirmed'')] (cm_expected_version v) AR_PICKUP_VERIFIED now eid =
       Inr (db', r, created)"
proof (cases "bind_result (owned db s k True) (\<lambda>_. verify_pin env db k (pv_code v) now)")
  case (Inl e)
  then have "db' = db" "out = Inl e" using assms by (simp_all add: verify_pickup_def)
  then show ?thesis by (intro refused)
next
  case (Inr res)
  then obtain ride db1 b where o: "owned db s k True = Inr ride"
    and p: "verify_pin env db k (pv_code v) now = Inr (db1, b)" "res = (db1, b)"
    by (cases res) (auto simp: bind_result_eq_Inr)
  show ?thesis
  proof (cases b)
    case True
    show ?thesis
      using assms Inr p True refused right [OF _ o, of _ db1]
      by (auto simp: verify_pickup_def split: sum.splits)
  next
    case False
    show ?thesis
      using assms Inr p False refused wrong [of db1]
      by (auto simp: verify_pickup_def valid_evidence_def bind_result_eq_Inr dest!: add_evidence_ok split: sum.splits if_splits)
  qed
qed

lemma step_pin_effect:
  assumes "ride_step env db db'"
  shows "pin_effect env db db'"
  using assms
proof cases
  case (step_start pv a now k eid r)
  then have "create_from_immediate_assignment env db a pv now k eid = Inr (db', r)" by (simp add: start_from_assignment_def)
  then show ?thesis by (cases rule: create_from_immediate_assignment_ok) (simp_all add: kept)
next
  case (step_lifecycle s k c now eid x)
  then show ?thesis by (rule lifecycle_transition) (intro kept, rule command_transition_pins)
next
  case (step_command s k c extra ty t only now eid pl)
  then show ?thesis unfolding ride_command_def
    by (elim ok_elims) (use command_transition_pins kept in blast)
next
  case (step_issue s k c mode now code eid vid w)
  then show ?thesis by (rule issue_verification_ok) (rule issued [OF command_transition_pins])
next
  case (step_verify s k v now eid evid out)
  then show ?thesis
  proof (cases rule: verify_pickup_cases)
    case (wrong db1)
    then show ?thesis by (intro tried) simp_all
  next
    case (right db1 ride r created)
    then show ?thesis using command_transition_pins by (intro tried)
  qed (simp add: kept)
next
  case (step_evidence s k ev now evid)
  then show ?thesis unfolding evidence_def
    by (elim ok_elims) (auto dest!: add_evidence_ok intro: kept)
next
  case (step_evidence_transition s k ev ty t only now eid evid pl)
  then show ?thesis
    by (rule evidence_transition_ok) (auto dest!: add_evidence_ok command_transition_pins intro: kept)
next
  case (step_acknowledge s k seq now)
  then show ?thesis using acknowledge_ok(3) kept by blast
next
  case (step_confidence s k g now did d)
  then show ?thesis unfolding evaluate_ride_confidence_def
    by (elim ok_elims) (auto simp: save_confidence_def kept split: if_splits)
next
  case (step_recommend rid k cand now ttl p)
  then show ?thesis by (auto simp: save_pickup_recommendation_def kept split: if_splits)
next
  case (step_change s k rid confirmed p)
  then show ?thesis unfolding pickup_change_def decide_pickup_change_def
    by (elim ok_elims) (auto simp: kept)
qed

definition closed_pin :: "uuid \<Rightarrow> instant \<Rightarrow> pickup_verification \<Rightarrow> pickup_verification" where
  "closed_pin k now v =
     (if vf_ride_id v = k \<and> vf_invalidated_at v = None then v\<lparr>vf_invalidated_at := Some now\<rparr> else v)"

lemma closed_pin_simps [simp]:
  "vf_ride_id (closed_pin k now v) = vf_ride_id v" "pin_ok j (closed_pin k now v) = pin_ok j v"
  "vf_invalidated_at (closed_pin k now v) = None \<longleftrightarrow> vf_invalidated_at v = None \<and> vf_ride_id v \<noteq> k"
  by (auto simp: closed_pin_def pin_ok_def)

lemma invalidate_pins_get:
  "dget (ad_verifications (invalidate_pins db k now)) j = map_option (closed_pin k now) (dget (ad_verifications db) j)"
  by (simp add: invalidate_pins_def closed_pin_def [abs_def] map_of_map)

lemma invalidate_pins_dict: "dict_ok (ad_verifications (invalidate_pins db k now)) = dict_ok (ad_verifications db)"
  by (simp add: invalidate_pins_def dict_ok_def case_prod_unfold comp_def)

lemma issue_pin_stored:
  assumes "issue_pin env db k a code now 300 5 vid = Inr (db', w)"
  obtains x where "ad_verifications db' = dset vid x (ad_verifications (invalidate_pins db k now))" "pin_ok vid x"
    "vf_ride_id x = k" "dget (ad_verifications db) vid = None"
  using assms unfolding issue_pin_def
  by (auto simp: Let_def pin_ok_def invalidate_pins_get split: option.splits if_splits)

lemma pin_inv_issued:
  assumes inv: "pin_inv db" and ok: "issue_pin env db k a code now 300 5 vid = Inr (db', w)"
  shows "pin_inv db'"
proof -
  obtain x where db': "ad_verifications db' = dset vid x (ad_verifications (invalidate_pins db k now))" and x: "pin_ok vid x"
    "vf_ride_id x = k" "dget (ad_verifications db) vid = None"
    using issue_pin_stored [OF ok] .
  have live: "dget (ad_verifications db') j = Some v \<Longrightarrow>
      j = vid \<and> v = x \<or> (\<exists>u. dget (ad_verifications db) j = Some u \<and> v = closed_pin k now u)" for j v
    by (auto simp: db' invalidate_pins_get split: if_splits)
  show ?thesis
    unfolding pin_inv_def
  proof (intro conjI allI impI)
    show "dict_ok (ad_verifications db')" using pin_invD(1) [OF inv] by (simp add: db' invalidate_pins_dict)
    show "pin_ok j v" if "dget (ad_verifications db') j = Some v" for j v
      using live [OF that] x(1) pin_invD(2) [OF inv, of j] by auto
    show "i = j" if "dget (ad_verifications db') i = Some v" "dget (ad_verifications db') j = Some u"
      "vf_ride_id v = vf_ride_id u" "vf_invalidated_at v = None" "vf_invalidated_at u = None" for i j v u
      using live [OF that(1)] live [OF that(2)] that(3-5) x(2) pin_invD(3) [OF inv, of i _ j] by auto
  qed
qed

lemma verify_pin_stored:
  assumes "verify_pin env db k code now = Inr (db', b)"
  obtains v w where "live_pin db k = Some v" "ad_verifications db' = dset (vf_verification_id v) w (ad_verifications db)"
    "vf_verified_at v = None" "now < vf_expires_at v" "vf_attempt_count v < vf_maximum_attempts v"
    "b \<longleftrightarrow> rx_pin_digest env k (vf_assignment_id v) code = vf_secret_digest v"
    "w = (if b then v\<lparr>vf_verified_at := Some now\<rparr> else v\<lparr>vf_attempt_count := vf_attempt_count v + 1,
       vf_cooldown_until := if vf_attempt_count v + 1 \<ge> 3 then Some (now + timedelta_seconds 30) else None\<rparr>)"
  using assms unfolding verify_pin_def
  by (auto simp: Let_def split: option.splits if_splits)

lemma pin_inv_tried:
  assumes inv: "pin_inv db" and ok: "verify_pin env db k code now = Inr (db', b)"
  shows "pin_inv db'"
proof -
  obtain v w where v: "live_pin db k = Some v" and db': "ad_verifications db' = dset (vf_verification_id v) w (ad_verifications db)"
    and att: "vf_attempt_count v < vf_maximum_attempts v"
    and w: "w = (if b then v\<lparr>vf_verified_at := Some now\<rparr> else v\<lparr>vf_attempt_count := vf_attempt_count v + 1,
       vf_cooldown_until := if vf_attempt_count v + 1 \<ge> 3 then Some (now + timedelta_seconds 30) else None\<rparr>)"
    using verify_pin_stored [OF ok] .
  have stored: "dget (ad_verifications db) (vf_verification_id v) = Some v" using live_pin_stored [OF inv v] .
  have same: "vf_ride_id w = vf_ride_id v" "vf_invalidated_at w = vf_invalidated_at v"
    and ok_w: "pin_ok (vf_verification_id v) w"
    using pin_invD(2) [OF inv stored] att by (auto simp: w pin_ok_def)
  have old: "\<exists>u. dget (ad_verifications db) i = Some u \<and> vf_ride_id u = vf_ride_id x \<and>
      vf_invalidated_at u = vf_invalidated_at x" if "dget (ad_verifications db') i = Some x" for i x
    using that same stored by (simp add: db' split: if_splits)
  show ?thesis
    unfolding pin_inv_def
  proof (intro conjI allI impI)
    show "dict_ok (ad_verifications db')" using pin_invD(1) [OF inv] by (simp add: db')
    show "pin_ok j u" if "dget (ad_verifications db') j = Some u" for j u
      using that ok_w pin_invD(2) [OF inv, of j] by (simp add: db' split: if_splits)
    show "i = j" if "dget (ad_verifications db') i = Some x" "dget (ad_verifications db') j = Some y"
      "vf_ride_id x = vf_ride_id y" "vf_invalidated_at x = None" "vf_invalidated_at y = None" for i j x y
      using old [OF that(1)] old [OF that(2)] that(3-5) pin_invD(3) [OF inv] by metis
  qed
qed

lemma pin_inv_cong: "ad_verifications db' = ad_verifications db \<Longrightarrow> pin_inv db' = pin_inv db"
  by (simp add: pin_inv_def)

lemma ride_reachable_pins: "ride_reachable env db \<Longrightarrow> pin_inv db"
  unfolding ride_reachable_def
proof (induction rule: rtranclp_induct)
  case base
  show ?case by (simp add: pin_inv_def empty_rides_def)
next
  case (step db db')
  from step_pin_effect [OF step(2)] show ?case
  proof cases
    case kept
    then show ?thesis using step.IH pin_inv_cong by blast
  next
    case (issued db1 k a code now vid w)
    then show ?thesis using step.IH pin_inv_cong pin_inv_issued by blast
  next
    case (tried k code now db1 b)
    then show ?thesis using step.IH pin_inv_cong pin_inv_tried by blast
  qed
qed

section \<open>Trips under the lifecycle service\<close>

text \<open>Rides that only the lifecycle service creates and moves.\<close>

inductive trip_step :: "ride_env \<Rightarrow> active_db \<Rightarrow> active_db \<Rightarrow> bool" for env where
  trip_start: "start_from_assignment env pv db a now k eid = Inr (db', r) \<Longrightarrow> trip_step env db db'"
| trip_command: "lifecycle_command env db s k c now eid = Inr (db', x) \<Longrightarrow> trip_step env db db'"

definition trip_reachable :: "ride_env \<Rightarrow> active_db \<Rightarrow> bool" where
  "trip_reachable env = (trip_step env)\<^sup>*\<^sup>* empty_rides"

lemma trip_step_ride_step: "trip_step env db db' \<Longrightarrow> ride_step env db db'"
  by (induction rule: trip_step.induct) (auto intro: ride_step.intros)

lemma trip_reachable_ride: "trip_reachable env db \<Longrightarrow> ride_reachable env db"
  unfolding trip_reachable_def ride_reachable_def
  by (induction rule: rtranclp_induct) (auto intro: rtranclp.rtrancl_into_rtrancl trip_step_ride_step)

definition trip_states :: "active_ride_state set" where
  "trip_states = insert AR_DRIVER_ASSIGNED (range TARGET_BY_COMMAND)"

lemma trip_step_events:
  assumes "trip_step env db db'" and "\<forall>e \<in> set (ad_events db). logged_state e \<in> Some ` trip_states"
  shows "\<forall>e \<in> set (ad_events db'). logged_state e \<in> Some ` trip_states"
  using assms(1)
proof cases
  case (trip_start pv a now k eid r)
  then have "create_from_immediate_assignment env db a pv now k eid = Inr (db', r)" by (simp add: start_from_assignment_def)
  then show ?thesis
  proof (cases rule: create_from_immediate_assignment_ok)
    case again
    then show ?thesis using assms(2) by blast
  next
    case (new src e)
    then show ?thesis using assms(2) by (simp add: trip_states_def)
  qed
next
  case (trip_command s k c now eid x)
  then obtain r pl created where
    "command_transition env db k (fst s) (lc_command_id c) (''active_ride.'' @ command_value (lc_command_type c)) pl
       (lc_expected_version c) (TARGET_BY_COMMAND (lc_command_type c)) now eid = Inr (db', r, created)"
    by (rule lifecycle_transition)
  then show ?thesis
  proof (cases rule: command_transition_ok)
    case again
    then show ?thesis using assms(2) by blast
  next
    case (new c e)
    then show ?thesis using assms(2) by (simp add: trip_states_def)
  qed
qed

lemma trip_events: "trip_reachable env db \<Longrightarrow> \<forall>e \<in> set (ad_events db). logged_state e \<in> Some ` trip_states"
  unfolding trip_reachable_def
proof (induction rule: rtranclp_induct)
  case base
  show ?case by (simp add: empty_rides_def)
next
  case (step db db')
  then show ?case using trip_step_events by blast
qed

definition main_line :: "active_ride_state list" where
  "main_line = [AR_DRIVER_ASSIGNED, AR_DRIVER_EN_ROUTE, AR_DRIVER_ARRIVED, AR_PICKUP_CONFIRMED, AR_RIDE_IN_PROGRESS,
     AR_DESTINATION_ARRIVED, AR_COMPLETED]"

lemma trip_states_cases:
  "trip_states \<subseteq> set main_line \<union> {AR_DRIVER_CANCELLED, AR_RIDER_CANCELLED, AR_SUPPORT_INTERRUPTED, AR_SYSTEM_INTERRUPTED}"
proof -
  have "TARGET_BY_COMMAND c \<in>
      set main_line \<union> {AR_DRIVER_CANCELLED, AR_RIDER_CANCELLED, AR_SUPPORT_INTERRUPTED, AR_SYSTEM_INTERRUPTED}" for c
    by (cases c) (simp_all add: main_line_def)
  then show ?thesis by (auto simp: trip_states_def main_line_def)
qed

lemma main_line_next:
  assumes "take n main_line \<noteq> []" and "t \<in> set (ALLOWED_TRANSITIONS (last (take n main_line)))" and "t \<in> set main_line"
  shows "take n main_line @ [t] = take (Suc n) main_line"
proof -
  consider "n = 0" | "n = 1" | "n = 2" | "n = 3" | "n = 4" | "n = 5" | "n = 6" | "7 \<le> n" by linarith
  then show ?thesis using assms by cases (auto simp: main_line_def)
qed

lemma main_line_history:
  assumes "legal_history ALLOWED_TRANSITIONS AR_DRIVER_ASSIGNED ts" and "set ts \<subseteq> trip_states"
    and "final_state AR_DRIVER_ASSIGNED ts \<in> set main_line"
  shows "\<exists>n. AR_DRIVER_ASSIGNED # ts = take n main_line"
  using assms
proof (induction ts rule: rev_induct)
  case Nil
  have "[AR_DRIVER_ASSIGNED] = take 1 main_line" by (simp add: main_line_def)
  then show ?case by blast
next
  case (snoc t ts)
  let ?s = "final_state AR_DRIVER_ASSIGNED ts"
  have ts: "legal_history ALLOWED_TRANSITIONS AR_DRIVER_ASSIGNED ts" and t: "t \<in> set (ALLOWED_TRANSITIONS ?s)"
    and main: "t \<in> set main_line"
    using snoc.prems by (auto simp: legal_history_append allows_def final_state_def)
  have "?s \<in> trip_states"
    using snoc.prems(2) by (cases ts rule: rev_cases) (auto simp: trip_states_def final_state_def)
  then have "?s \<in> set main_line" using trip_states_cases t by auto
  then obtain n where n: "AR_DRIVER_ASSIGNED # ts = take n main_line" using snoc ts by auto
  have "last (take n main_line) = ?s" unfolding n [symmetric] by (simp add: final_state_def)
  moreover have "take n main_line \<noteq> []" unfolding n [symmetric] by simp
  ultimately have "take n main_line @ [t] = take (Suc n) main_line" using t main by (intro main_line_next) simp_all
  then show ?case using n by (metis append_Cons)
qed

section \<open>Reading the log\<close>

lemma stream_after:
  assumes "stream es h" and "n \<le> length h"
  shows "filter (\<lambda>e. re_sequence e > int n) es = drop n es"
proof -
  have seq: "re_sequence (es ! i) = int (Suc i)" if "i < length es" for i
  proof -
    have "map re_sequence es ! i = map int [1..<Suc (length h)] ! i" using assms(1) by (simp add: stream_def del: upt_Suc)
    then show ?thesis using that stream_length [OF assms(1)] by (simp del: upt_Suc)
  qed
  have "filter (\<lambda>e. re_sequence e > int n) (take n es) = []"
    using seq by (auto simp: filter_empty_conv in_set_conv_nth)
  moreover have "filter (\<lambda>e. re_sequence e > int n) (drop n es) = drop n es"
    using seq by (auto simp: filter_id_conv in_set_conv_nth)
  ultimately show ?thesis by (metis append_Nil append_take_drop_id filter_append)
qed

section \<open>Properties\<close>

lemma step_refines:
  assumes "ride_reachable env db" and "ride_step env db db'"
  shows "history_step (histories db) (histories db')"
    and "get db' k = Some r \<Longrightarrow> replay_canonical_state db' k = Inr (ar_state r) \<and>
      last (histories db' k) = ar_state r \<and> ar_version r = int (length (histories db' k)) \<and>
      ar_last_sequence r = ar_version r \<and>
      legal_history ALLOWED_TRANSITIONS AR_DRIVER_ASSIGNED (tl (histories db' k))"
    and "get db' k = Some r \<Longrightarrow> n \<le> length (histories db' k) \<Longrightarrow>
      (\<exists>es. events_after db' k (int n) limit = Inr es \<and>
         map logged_state es = map Some (take (nat (min (max limit 1) 100)) (drop n (histories db' k))))"
proof -
  have eff: "ride_effect db db'" using step_effect [OF assms(2)] .
  have inv: "log_inv db" using ride_reachable_inv [OF assms(1)] .
  show "history_step (histories db) (histories db')" using effect_refines [OF eff inv] .
  have inv': "log_inv db'" using log_inv_effect [OF eff inv] .
  assume r: "get db' k = Some r"
  obtain h where h: "log_ok (ride_log db' k) r h" using log_invD(3) [OF inv' r] ..
  note hist = histories_log [OF h]
  show "replay_canonical_state db' k = Inr (ar_state r) \<and>
      last (histories db' k) = ar_state r \<and> ar_version r = int (length (histories db' k)) \<and>
      ar_last_sequence r = ar_version r \<and>
      legal_history ALLOWED_TRANSITIONS AR_DRIVER_ASSIGNED (tl (histories db' k))"
    using replay_ok [OF h r] hist h by (simp add: log_ok_def)
  assume n: "n \<le> length (histories db' k)"
  have s: "stream (ride_log db' k) h" and len: "ar_last_sequence r = int (length h)" using h by (simp_all add: log_ok_def)
  have "filter (\<lambda>e. re_sequence e > int n) (ride_log db' k) = drop n (ride_log db' k)"
    using s n hist by (intro stream_after) simp_all
  moreover have "map logged_state (ride_log db' k) = map Some h" using s by (simp add: stream_def)
  ultimately show "\<exists>es. events_after db' k (int n) limit = Inr es \<and>
      map logged_state es = map Some (take (nat (min (max limit 1) 100)) (drop n (histories db' k)))"
    using n hist len r by (simp add: events_after_def take_map [symmetric] drop_map [symmetric])
qed

lemma terminal_step:
  assumes eff: "ride_effect db db'" and inv: "log_inv db" and r: "get db k = Some r" and fin: "ar_state r \<in> set TERMINAL_STATES"
  shows "get db' k = Some r \<and> histories db' k = histories db k"
proof
  have stuck: "ALLOWED_TRANSITIONS (ar_state r) = []" using active_ride.terminal_stuck [OF fin] .
  show "get db' k = Some r"
    using eff
  proof cases
    case (moved j c t x e)
    then show ?thesis using r stuck log_invD(2) [OF inv moved(1)] by (auto simp: get_def)
  qed (use r in \<open>auto simp: get_def\<close>)
  obtain h where h: "log_ok (ride_log db k) r h" using log_invD(3) [OF inv r] ..
  then have "histories db k \<noteq> []" "last (histories db k) = ar_state r"
    using histories_log [OF h] by (simp_all add: log_ok_def)
  with effect_refines [OF eff inv] show "histories db' k = histories db k"
    using stuck by cases (auto simp: allows_def)
qed

lemma terminal_steps:
  assumes "(ride_step env)\<^sup>*\<^sup>* db db'" and "log_inv db" and "get db k = Some r" and "ar_state r \<in> set TERMINAL_STATES"
  shows "get db' k = Some r \<and> histories db' k = histories db k"
  using assms(1)
proof (induction rule: rtranclp_induct)
  case base
  show ?case using assms(3) by simp
next
  case (step db1 db2)
  have "log_inv db1"
    using step(1) assms(2)
    by (induction rule: rtranclp_induct) (blast intro: log_inv_effect step_effect)+
  then show ?case using terminal_step [OF step_effect [OF step(2)]] step.IH assms(4) by metis
qed

lemma completed_history:
  assumes "trip_reachable env db" and "get db k = Some r" and "ar_state r = AR_COMPLETED"
  shows "histories db k = main_line"
proof -
  obtain h where h: "log_ok (ride_log db k) r h"
    using log_invD(3) [OF ride_reachable_inv [OF trip_reachable_ride [OF assms(1)]] assms(2)] ..
  then obtain ts where ts: "h = AR_DRIVER_ASSIGNED # ts" by (cases h) (auto simp: log_ok_def)
  have "map logged_state (ride_log db k) = map Some h" using h by (simp add: log_ok_def stream_def)
  moreover have "\<forall>e \<in> set (ride_log db k). logged_state e \<in> Some ` trip_states"
    using trip_events [OF assms(1)] by (simp add: ride_log_def)
  ultimately have "Some ` set h \<subseteq> Some ` trip_states" by (metis image_subsetI list.set_map)
  then have "set ts \<subseteq> trip_states" by (auto simp: ts)
  moreover have last: "final_state AR_DRIVER_ASSIGNED ts = AR_COMPLETED"
    using h assms(3) by (simp add: log_ok_def ts final_state_def)
  ultimately obtain n where n: "h = take n main_line"
    using main_line_history [of ts] h by (auto simp: log_ok_def ts main_line_def)
  consider "n < 7" | "7 \<le> n" by linarith
  then have "h = main_line"
  proof cases
    case 1
    then consider "n = 0" | "n = 1" | "n = 2" | "n = 3" | "n = 4" | "n = 5" | "n = 6" by linarith
    then show ?thesis using n last ts by cases (auto simp: main_line_def final_state_def)
  next
    case 2
    then show ?thesis using n by (simp add: main_line_def)
  qed
  then show ?thesis using histories_log [OF h] by simp
qed

text \<open>
  C17: active rides refine the history machine. Every operation of the two ride services, in every state they lead
  to, leaves the histories of all rides alone, opens the history of a new ride at \<open>driver_assigned\<close>, or extends one
  by a state that the transition table allows. And afterwards every stored ride agrees with its log: the stored state
  is the last of its history, version and last sequence are its length, the history is legal, the events after any
  acknowledged sequence are the rest of the log (up to the limit), and the replay that recovery performs succeeds with
  the stored state. So recovery never reports a gap or a mismatch.
\<close>

theorem active_ride_refines_histories:
  assumes "ride_reachable env db" and "ride_step env db db'"
  shows "history_step (histories db) (histories db') \<and>
    (\<forall>k r. get db' k = Some r \<longrightarrow>
       replay_canonical_state db' k = Inr (ar_state r) \<and> last (histories db' k) = ar_state r \<and>
       ar_version r = int (length (histories db' k)) \<and> ar_last_sequence r = ar_version r \<and>
       legal_history ALLOWED_TRANSITIONS AR_DRIVER_ASSIGNED (tl (histories db' k)) \<and>
       (\<forall>n limit. n \<le> length (histories db' k) \<longrightarrow>
          (\<exists>es. events_after db' k (int n) limit = Inr es \<and>
             map logged_state es = map Some (take (nat (min (max limit 1) 100)) (drop n (histories db' k))))))"
  using step_refines [OF assms] by blast

text \<open>
  C18: the way to completion. A ride that the lifecycle service created and moved is complete only after the whole
  main line: assigned, en route, arrived, pickup confirmed, in progress, destination arrived, completed, in this order
  and with nothing skipped or repeated; and a ride in a terminal state never changes again, whatever operations of
  either service follow.
\<close>

theorem completed_trip_history:
  assumes "trip_reachable env db" and "get db k = Some r" and "ar_state r = AR_COMPLETED"
    and "(ride_step env)\<^sup>*\<^sup>* db db'"
  shows "histories db k = main_line \<and> histories db' k = main_line \<and> get db' k = Some r"
  using completed_history [OF assms(1-3)] assms(3)
    terminal_steps [OF assms(4) ride_reachable_inv [OF trip_reachable_ride [OF assms(1)]] assms(2)]
  by (simp add: TERMINAL_STATES_def)

text \<open>
  C19: pickup codes are guarded. In every state the services lead to, a ride has at most one code that is not
  invalidated, and every code has counted between zero and five failures. When the driver's code is accepted, the
  caller is the ride's driver, the code matches the live one of the ride, which was unused, not expired and not
  locked, and it is used up. When the call fails, either nothing changed or the code was wrong and exactly this is
  recorded: one more failure on the live code, with the ride and its log untouched.
\<close>

theorem pickup_codes_guarded:
  assumes "ride_reachable env db"
    and "verify_pickup env db s k v now eid evid = (db', out)"
  shows "(\<forall>i p. dget (ad_verifications db) i = Some p \<longrightarrow> 0 \<le> vf_attempt_count p \<and> vf_attempt_count p \<le> 5) \<and>
    (\<forall>i p j q. dget (ad_verifications db) i = Some p \<longrightarrow> dget (ad_verifications db) j = Some q \<longrightarrow>
       vf_ride_id p = vf_ride_id q \<longrightarrow> vf_invalidated_at p = None \<longrightarrow> vf_invalidated_at q = None \<longrightarrow> i = j) \<and>
    (case out of
       Inr _ \<Rightarrow> \<exists>ride p. get db k = Some ride \<and> ar_driver_id ride = Some (fst s) \<and> live_pin db k = Some p \<and>
         rx_pin_digest env k (vf_assignment_id p) (pv_code v) = vf_secret_digest p \<and> vf_verified_at p = None \<and>
         now < vf_expires_at p \<and> vf_attempt_count p < 5 \<and>
         dget (ad_verifications db') (vf_verification_id p) = Some (p\<lparr>vf_verified_at := Some now\<rparr>)
     | Inl _ \<Rightarrow> db' = db \<or>
         (ad_rides db' = ad_rides db \<and> ad_events db' = ad_events db \<and>
          (\<exists>p q. live_pin db k = Some p \<and> dget (ad_verifications db') (vf_verification_id p) = Some q \<and>
             rx_pin_digest env k (vf_assignment_id p) (pv_code v) \<noteq> vf_secret_digest p \<and>
             vf_attempt_count q = vf_attempt_count p + 1 \<and> vf_verified_at q = None)))"
    (is "?bounds \<and> ?one \<and> ?out")
proof (intro conjI)
  have inv: "pin_inv db" using ride_reachable_pins [OF assms(1)] .
  show ?bounds using pin_invD(2) [OF inv] by (fastforce simp: pin_ok_def)
  show ?one using pin_invD(3) [OF inv] by blast
  show ?out
    using assms(2)
  proof (cases rule: verify_pickup_cases)
    case (refused e)
    then show ?thesis by simp
  next
    case (wrong db1)
    obtain p q where p: "live_pin db k = Some p" "ad_verifications db1 = dset (vf_verification_id p) q (ad_verifications db)"
      "vf_verified_at p = None" "False \<longleftrightarrow> rx_pin_digest env k (vf_assignment_id p) (pv_code v) = vf_secret_digest p"
      "q = (if False then p\<lparr>vf_verified_at := Some now\<rparr> else p\<lparr>vf_attempt_count := vf_attempt_count p + 1,
         vf_cooldown_until := if vf_attempt_count p + 1 \<ge> 3 then Some (now + timedelta_seconds 30) else None\<rparr>)"
      using verify_pin_stored [OF wrong(2)] .
    then show ?thesis using wrong(1,3) verify_pin_ok [OF wrong(2)] by simp
  next
    case (right db1 ride r created)
    obtain p q where p: "live_pin db k = Some p" "ad_verifications db1 = dset (vf_verification_id p) q (ad_verifications db)"
      "vf_verified_at p = None" "now < vf_expires_at p" "vf_attempt_count p < vf_maximum_attempts p"
      "True \<longleftrightarrow> rx_pin_digest env k (vf_assignment_id p) (pv_code v) = vf_secret_digest p"
      "q = (if True then p\<lparr>vf_verified_at := Some now\<rparr> else p\<lparr>vf_attempt_count := vf_attempt_count p + 1,
         vf_cooldown_until := if vf_attempt_count p + 1 \<ge> 3 then Some (now + timedelta_seconds 30) else None\<rparr>)"
      using verify_pin_stored [OF right(3)] .
    have "vf_maximum_attempts p = 5" using pin_invD(2) [OF inv live_pin_stored [OF inv p(1)]] by (simp add: pin_ok_def)
    moreover have "get db k = Some ride" "ar_driver_id ride = Some (fst s)"
      using right(2) by (auto simp: owned_def split: option.splits if_splits)
    ultimately show ?thesis
      using p right(1) command_transition_pins [OF right(4)] by simp
  qed
qed

text \<open>
  The repository's reassignment logs no state, so a reassigned ride can never be replayed again. No operation of the
  two services calls it.
\<close>

lemma replay_rows_missing:
  assumes "e \<in> set es" and "dget (re_payload e) ''state_to'' = None"
  shows "isl (replay_rows n st es)"
  using assms
proof (induction n st es rule: replay_rows.induct)
  case (1 n st)
  then show ?case by simp
next
  case (2 n st row rows)
  then show ?case by (auto simp: bind_result_def split: option.splits json_value.splits sum.splits)
qed

lemma reassigned_ride_not_replayable:
  assumes "reassign db k driver a now eid = Inr (db', r)" and "log_inv db"
  shows "isl (replay_canonical_state db' k)"
proof -
  from assms(1) obtain e where e: "e \<in> set (ad_events db')" "re_ride_id e = k" "dget (re_payload e) ''state_to'' = None"
    unfolding reassign_def
    apply (elim ok_elims)
    subgoal premises prems for c moved db1
    proof -
      have id: "ar_ride_id moved = k"
        using transition_ok(2) [OF prems(4)] log_invD(2) [OF assms(2) prems(2)] by simp
      from prems(6) obtain x where "ad_events db1 = ad_events (invalidate_pins db k now) @ [x]" "re_ride_id x = ar_ride_id moved"
          "re_payload x = [(''driver_changed'', JBool True)]"
        by (rule store_changed_ok) simp
      then show ?thesis using prems(1) [of x] prems(7) id by simp
    qed
    done
  then have "e \<in> set (ride_events db' k)" by (simp add: ride_events_def)
  then show ?thesis
    using replay_rows_missing [OF _ e(3), of "ride_events db' k" 1 None]
    by (auto simp: replay_canonical_state_def Let_def bind_result_def split: sum.splits)
qed

section \<open>A concrete ride\<close>

definition sample_ride_env :: ride_env where
  "sample_ride_env = \<lparr>rx_assignment = (\<lambda>a. if a = 7 then Some \<lparr>as_driver_id = 6, as_vehicle_id = Some 16,
       as_released_at = None, as_handoff_id = 17, as_ride_request_id = 18, as_rider_identity_id = 5,
       as_service_type = ''immediate_standard'', as_pickup_reference = ''pickup-0'',
       as_destination_reference = ''target-0'', as_handoff_state = ''assigned'', as_handoff_version = 1,
       as_assigned_driver_id = Some 6\<rparr> else None),
     rx_digest = (\<lambda>_. ''digest''), rx_pin_digest = (\<lambda>_ _ code. code),
     rx_confidence_policy = \<lparr>cy_rule_set_id = ''active_ride_confidence'', cy_version = ''v1'',
       cy_maximum_location_age_seconds = 90, cy_watch_eta_increase_seconds = 180, cy_at_risk_eta_increase_seconds = 420,
       cy_stagnation_seconds = 600, cy_hysteresis_seconds = 120, cy_alert_cooldown_seconds = 600,
       cy_decision_ttl_seconds = 300\<rparr>\<rparr>"

definition sample_commands :: "(subject \<times> lifecycle_command_type) list" where
  "sample_commands = [((6, ID_DRIVER), LC_DRIVER_EN_ROUTE), ((6, ID_DRIVER), LC_DRIVER_ARRIVED),
     ((9, ID_SERVICE), LC_PICKUP_CONFIRMED), ((6, ID_DRIVER), LC_RIDE_STARTED),
     ((6, ID_DRIVER), LC_DESTINATION_ARRIVED), ((6, ID_DRIVER), LC_RIDE_COMPLETED)]"

fun drive :: "nat \<Rightarrow> (subject \<times> lifecycle_command_type) list \<Rightarrow> active_db \<Rightarrow> active_db result" where
  "drive n [] db = Inr db"
| "drive n ((s, c) # cs) db =
     bind_result (lifecycle_command sample_ride_env db s 1 \<lparr>lc_command_id = 200 + n, lc_expected_version = int n,
       lc_command_type = c, lc_reason_code = ''trip.progress'', lc_evidence_references = []\<rparr> (1000 + int n) (100 + n))
       (\<lambda>(db1, _). drive (Suc n) cs db1)"

definition sample_started :: active_db where
  "sample_started = fst (projr (start_from_assignment sample_ride_env ''active_ride.v1'' empty_rides 7 1000 1 100))"

lemma sample_started_trip: "trip_reachable sample_ride_env sample_started"
proof -
  let ?r = "start_from_assignment sample_ride_env ''active_ride.v1'' empty_rides 7 1000 1 100"
  have "\<not> isl ?r" by code_simp
  then have "?r = Inr (sample_started, snd (projr ?r))" by (cases ?r) (simp_all add: sample_started_def)
  then have "trip_step sample_ride_env empty_rides sample_started" by (rule trip_start)
  then show ?thesis by (simp add: trip_reachable_def r_into_rtranclp)
qed

lemma drive_trip:
  assumes "drive n cs db = Inr db'" and "trip_reachable sample_ride_env db"
  shows "trip_reachable sample_ride_env db'"
  using assms
proof (induction cs arbitrary: n db)
  case Nil
  then show ?case by simp
next
  case (Cons sc cs)
  obtain s c where sc: "sc = (s, c)" by (cases sc)
  from Cons.prems(1) obtain db1 x where step: "lifecycle_command sample_ride_env db s 1 \<lparr>lc_command_id = 200 + n,
      lc_expected_version = int n, lc_command_type = c, lc_reason_code = ''trip.progress'',
      lc_evidence_references = []\<rparr> (1000 + int n) (100 + n) = Inr (db1, x)" "drive (Suc n) cs db1 = Inr db'"
    by (auto simp: sc bind_result_eq_Inr)
  have "trip_reachable sample_ride_env db1"
    using Cons.prems(2) trip_command [OF step(1)] unfolding trip_reachable_def by (rule rtranclp.rtrancl_into_rtrancl)
  then show ?case using Cons.IH [OF step(2)] by simp
qed

definition sample_driven :: "nat \<Rightarrow> active_db" where
  "sample_driven m = projr (drive 1 (take m sample_commands) sample_started)"

lemma sample_driven_ok: "\<not> isl (drive 1 (take 6 sample_commands) sample_started)"
  "\<not> isl (drive 1 (take 2 sample_commands) sample_started)"
  by code_simp+

lemma sample_driven_trip:
  "\<not> isl (drive 1 (take m sample_commands) sample_started) \<Longrightarrow> trip_reachable sample_ride_env (sample_driven m)"
  using drive_trip [OF _ sample_started_trip]
  by (cases "drive 1 (take m sample_commands) sample_started") (simp_all add: sample_driven_def)

definition sample_envelope :: "int \<Rightarrow> command_envelope" where
  "sample_envelope n = \<lparr>cm_command_id = 300, cm_expected_version = n, cm_reason_code = None\<rparr>"

definition sample_pin_issued :: active_db where
  "sample_pin_issued = fst (projr (issue_verification sample_ride_env (sample_driven 2) (5, ID_RIDER) 1 (sample_envelope 3)
     None 2000 ''1234'' 110 50))"

definition sample_verify :: "string \<Rightarrow> active_db \<times> payload result" where
  "sample_verify code = verify_pickup sample_ride_env sample_pin_issued (6, ID_DRIVER) 1
     \<lparr>cm_command_id = 301, cm_expected_version = 4, cm_reason_code = None, pv_code = code\<rparr> 2100 111 60"

lemma sample_issue_step: "ride_step sample_ride_env (sample_driven 2) sample_pin_issued"
proof -
  let ?r = "issue_verification sample_ride_env (sample_driven 2) (5, ID_RIDER) 1 (sample_envelope 3) None 2000 ''1234'' 110 50"
  have "\<not> isl ?r" by code_simp
  then have "?r = Inr (sample_pin_issued, snd (projr ?r))" by (cases ?r) (simp_all add: sample_pin_issued_def)
  then show ?thesis by (rule step_issue)
qed

theorem active_ride_refines_histories_witness:
  "\<exists>r. get sample_pin_issued 1 = Some r \<and> replay_canonical_state sample_pin_issued 1 = Inr (ar_state r) \<and>
     last (histories sample_pin_issued 1) = AR_PICKUP_VERIFICATION_PENDING"
proof -
  have "ride_reachable sample_ride_env (sample_driven 2)"
    using trip_reachable_ride [OF sample_driven_trip [OF sample_driven_ok(2)]] .
  note t = active_ride_refines_histories [OF this sample_issue_step]
  have "map_option ar_state (get sample_pin_issued 1) = Some AR_PICKUP_VERIFICATION_PENDING" by code_simp
  then obtain r where "get sample_pin_issued 1 = Some r" "ar_state r = AR_PICKUP_VERIFICATION_PENDING" by auto
  then show ?thesis using t by auto
qed

theorem completed_trip_history_witness: "histories (sample_driven 6) 1 = main_line"
proof -
  have "map_option ar_state (get (sample_driven 6) 1) = Some AR_COMPLETED" by code_simp
  then obtain r where "get (sample_driven 6) 1 = Some r" "ar_state r = AR_COMPLETED" by auto
  then show ?thesis
    using completed_trip_history [OF sample_driven_trip [OF sample_driven_ok(1)] _ _ rtranclp.rtrancl_refl] by blast
qed

theorem pickup_codes_guarded_witness:
  "(\<exists>p. live_pin sample_pin_issued 1 = Some p \<and> vf_secret_digest p = ''1234'') \<and>
   (\<exists>p. live_pin sample_pin_issued 1 = Some p \<and> vf_secret_digest p \<noteq> ''0000'')"
proof -
  have reach: "ride_reachable sample_ride_env sample_pin_issued"
    using trip_reachable_ride [OF sample_driven_trip [OF sample_driven_ok(2)]] sample_issue_step
    unfolding ride_reachable_def by (rule rtranclp.rtrancl_into_rtrancl)
  have ok: "\<not> isl (snd (sample_verify ''1234''))" "isl (snd (sample_verify ''0000''))"
    "length (ad_evidence (fst (sample_verify ''0000''))) \<noteq> length (ad_evidence sample_pin_issued)" by code_simp+
  have pin: "rx_pin_digest sample_ride_env = (\<lambda>_ _ code. code)" by (simp add: sample_ride_env_def)
  have eq: "sample_verify c = (fst (sample_verify c), snd (sample_verify c))" for c by simp
  show ?thesis
    using pickup_codes_guarded [OF reach eq [of "''1234''", unfolded sample_verify_def]]
      pickup_codes_guarded [OF reach eq [of "''0000''", unfolded sample_verify_def]] ok
    unfolding sample_verify_def pin by (auto split: sum.splits)
qed

end
