(* ===== verification/Financial_Hold.thy ===== *)
theory Financial_Hold
  imports Payment
begin

text \<open>
  Financial holds: the models of \<open>financial_control/models.py\<close>, the repository
  \<open>persistence/financial_hold_repository.py\<close> and the service \<open>financial_control/application.py\<close>. A hold names
  a source record of another component; whether that record exists is a lookup in the tables of the
  component, collected in \<open>hold_sources\<close>. The transition table of the states is in \<open>Financial_Lifecycles\<close>.
\<close>

section \<open>Models\<close>

datatype financial_hold_type = HT_RIDER_PAYMENT | HT_DRIVER_PAYOUT | HT_WALLET | HT_REFUND | HT_SETTLEMENT
  | HT_FRAUD_REVIEW | HT_COMPLIANCE_REVIEW | HT_FINANCE_MANUAL_REVIEW

datatype hold_source_type = HS_PAYMENT_ATTEMPT | HS_SETTLEMENT_BATCH | HS_WALLET_ACCOUNT | HS_REFUND_REQUEST
  | HS_FINANCIAL_POSTING | HS_IDENTITY

datatype hold_reason_code = HR_PAYMENT_RISK_SIGNAL | HR_PAYMENT_CHARGE_DISPUTE_RISK
  | HR_PAYOUT_RECONCILIATION_GAP | HR_PAYOUT_IDENTITY_VERIFICATION | HR_WALLET_LINEAGE_REVIEW
  | HR_WALLET_MANUAL_REVIEW | HR_REFUND_POLICY_REVIEW | HR_REFUND_FRAUD_SIGNAL
  | HR_SETTLEMENT_EXCEPTION_REVIEW | HR_SETTLEMENT_MANUAL_REVIEW | HR_FRAUD_REVIEW_REQUIRED
  | HR_COMPLIANCE_REVIEW_REQUIRED | HR_FINANCE_MANUAL_REVIEW_REQUIRED

fun hold_type_value :: "financial_hold_type \<Rightarrow> string" where
  "hold_type_value HT_RIDER_PAYMENT = ''rider_payment''"
| "hold_type_value HT_DRIVER_PAYOUT = ''driver_payout''"
| "hold_type_value HT_WALLET = ''wallet''"
| "hold_type_value HT_REFUND = ''refund''"
| "hold_type_value HT_SETTLEMENT = ''settlement''"
| "hold_type_value HT_FRAUD_REVIEW = ''fraud_review''"
| "hold_type_value HT_COMPLIANCE_REVIEW = ''compliance_review''"
| "hold_type_value HT_FINANCE_MANUAL_REVIEW = ''finance_manual_review''"

fun hold_source_value :: "hold_source_type \<Rightarrow> string" where
  "hold_source_value HS_PAYMENT_ATTEMPT = ''payment_attempt''"
| "hold_source_value HS_SETTLEMENT_BATCH = ''settlement_batch''"
| "hold_source_value HS_WALLET_ACCOUNT = ''wallet_account''"
| "hold_source_value HS_REFUND_REQUEST = ''refund_request''"
| "hold_source_value HS_FINANCIAL_POSTING = ''financial_posting''"
| "hold_source_value HS_IDENTITY = ''identity''"

fun hold_reason_value :: "hold_reason_code \<Rightarrow> string" where
  "hold_reason_value HR_PAYMENT_RISK_SIGNAL = ''payment.risk_signal''"
| "hold_reason_value HR_PAYMENT_CHARGE_DISPUTE_RISK = ''payment.charge_dispute_risk''"
| "hold_reason_value HR_PAYOUT_RECONCILIATION_GAP = ''payout.reconciliation_gap''"
| "hold_reason_value HR_PAYOUT_IDENTITY_VERIFICATION = ''payout.identity_verification''"
| "hold_reason_value HR_WALLET_LINEAGE_REVIEW = ''wallet.lineage_review''"
| "hold_reason_value HR_WALLET_MANUAL_REVIEW = ''wallet.manual_review''"
| "hold_reason_value HR_REFUND_POLICY_REVIEW = ''refund.policy_review''"
| "hold_reason_value HR_REFUND_FRAUD_SIGNAL = ''refund.fraud_signal''"
| "hold_reason_value HR_SETTLEMENT_EXCEPTION_REVIEW = ''settlement.exception_review''"
| "hold_reason_value HR_SETTLEMENT_MANUAL_REVIEW = ''settlement.manual_review''"
| "hold_reason_value HR_FRAUD_REVIEW_REQUIRED = ''fraud.review_required''"
| "hold_reason_value HR_COMPLIANCE_REVIEW_REQUIRED = ''compliance.review_required''"
| "hold_reason_value HR_FINANCE_MANUAL_REVIEW_REQUIRED = ''finance.manual_review_required''"

fun hold_state_value :: "financial_hold_state \<Rightarrow> string" where
  "hold_state_value FH_CREATED = ''created''"
| "hold_state_value FH_ACTIVE = ''active''"
| "hold_state_value FH_UNDER_REVIEW = ''under_review''"
| "hold_state_value FH_RELEASED = ''released''"
| "hold_state_value FH_ESCALATED = ''escalated''"
| "hold_state_value FH_EXPIRED = ''expired''"
| "hold_state_value FH_CANCELLED = ''cancelled''"

record hold_reason =
  hn_reason_code :: hold_reason_code
  hn_reason_detail :: "string option"

definition valid_hold_reason :: "hold_reason \<Rightarrow> hold_reason result" where
  "valid_hold_reason r =
     (case hn_reason_detail r of
        None \<Rightarrow> Inr r
      | Some d \<Rightarrow> if 240 < length d then Inl (ValidationError ''reason_detail'') else Inr r)"

text \<open>
  The commands are validated when they are constructed, before the service sees them: their timestamp is aware
  from then on, so the constructed command holds an instant.
\<close>

record hold_create_command =
  hc_hold_type :: financial_hold_type
  hc_source_type :: hold_source_type
  hc_source_id :: uuid
  hc_reason :: hold_reason
  hc_idempotency_key :: string
  hc_correlation_id :: uuid
  hc_causation_id :: uuid
  hc_occurred_at :: instant

definition new_hold_create_command ::
  "financial_hold_type \<Rightarrow> hold_source_type \<Rightarrow> uuid \<Rightarrow> hold_reason \<Rightarrow> string \<Rightarrow> uuid \<Rightarrow> uuid \<Rightarrow> py_datetime \<Rightarrow>
   hold_create_command result" where
  "new_hold_create_command hold_type source_type source_id reason key correlation_id causation_id occurred_at =
     bind_result (valid_hold_reason reason) (\<lambda>reason.
     if \<not> length_between 16 128 key then Inl (ValidationError ''idempotency_key'')
     else if \<not> is_aware occurred_at
     then Inl (ValidationError ''Financial hold timestamps must be timezone-aware'')
     else Inr \<lparr>hc_hold_type = hold_type, hc_source_type = source_type, hc_source_id = source_id, hc_reason = reason,
       hc_idempotency_key = key, hc_correlation_id = correlation_id, hc_causation_id = causation_id,
       hc_occurred_at = instant_of occurred_at\<rparr>)"

record hold_transition_command =
  ht_target_state :: financial_hold_state
  ht_reason :: hold_reason
  ht_idempotency_key :: string
  ht_correlation_id :: uuid
  ht_causation_id :: uuid
  ht_occurred_at :: instant

definition new_hold_transition_command ::
  "financial_hold_state \<Rightarrow> hold_reason \<Rightarrow> string \<Rightarrow> uuid \<Rightarrow> uuid \<Rightarrow> py_datetime \<Rightarrow> hold_transition_command result" where
  "new_hold_transition_command target_state reason key correlation_id causation_id occurred_at =
     bind_result (valid_hold_reason reason) (\<lambda>reason.
     if \<not> length_between 16 128 key then Inl (ValidationError ''idempotency_key'')
     else if \<not> is_aware occurred_at
     then Inl (ValidationError ''Financial hold timestamps must be timezone-aware'')
     else Inr \<lparr>ht_target_state = target_state, ht_reason = reason, ht_idempotency_key = key,
       ht_correlation_id = correlation_id, ht_causation_id = causation_id,
       ht_occurred_at = instant_of occurred_at\<rparr>)"

record financial_hold =
  fh_hold_id :: uuid
  fh_hold_type :: financial_hold_type
  fh_source_type :: hold_source_type
  fh_source_id :: uuid
  fh_reason_code :: hold_reason_code
  fh_reason_detail :: "string option"
  fh_state :: financial_hold_state
  fh_created_by_identity_id :: uuid
  fh_correlation_id :: uuid
  fh_causation_id :: uuid
  fh_created_at :: instant
  fh_updated_at :: instant
  fh_metadata_safe :: "(string, string) dict"

definition valid_financial_hold :: "financial_hold \<Rightarrow> financial_hold result" where
  "valid_financial_hold h =
     (if fh_updated_at h < fh_created_at h
      then Inl (ValidationError ''updated_at must not precede created_at'')
      else Inr h)"

record hold_history =
  hh_history_id :: uuid
  hh_hold_id :: uuid
  hh_from_state :: "financial_hold_state option"
  hh_to_state :: financial_hold_state
  hh_reason_code :: hold_reason_code
  hh_reason_detail :: "string option"
  hh_changed_by_identity_id :: uuid
  hh_changed_at :: instant
  hh_correlation_id :: uuid
  hh_causation_id :: uuid
  hh_metadata_safe :: "(string, string) dict"

type_synonym hold_result = "financial_hold \<times> hold_history list"

section \<open>The repository\<close>

record hold_db =
  hd_holds :: "(uuid, financial_hold) dict"
  hd_history :: "(uuid, hold_history) dict"
  hd_idempotency :: idempotency_table
  hd_events :: "payment_event list"
  hd_outbox :: "payment_message list"

definition hold_reserve_idempotency ::
  "(payload \<Rightarrow> string) \<Rightarrow> hold_db \<Rightarrow> uuid \<Rightarrow> string \<Rightarrow> string \<Rightarrow> payload \<Rightarrow> uuid \<Rightarrow> instant \<Rightarrow>
   (hold_db \<times> uuid) result" where
  "hold_reserve_idempotency digest db actor_id operation key pl response_reference at =
     bind_result
       (reserve_row (FinancialHoldConflict ''idempotency_conflict'') (hd_idempotency db)
          (actor_id, operation, key) (digest pl) response_reference at)
       (\<lambda>(table, reference). Inr (db\<lparr>hd_idempotency := table\<rparr>, reference))"

definition get_hold :: "hold_db \<Rightarrow> uuid \<Rightarrow> financial_hold option" where
  "get_hold db k = dget (hd_holds db) k"

definition list_holds_for_source :: "hold_db \<Rightarrow> hold_source_type \<Rightarrow> uuid \<Rightarrow> financial_hold list" where
  "list_holds_for_source db source_type source_id =
     sort_key (\<lambda>h. (fh_created_at h, fh_hold_id h))
       (filter (\<lambda>h. fh_source_type h = source_type \<and> fh_source_id h = source_id) (dvalues (hd_holds db)))"

definition list_history :: "hold_db \<Rightarrow> uuid \<Rightarrow> hold_history list" where
  "list_history db k =
     sort_key (\<lambda>h. (hh_changed_at h, hh_history_id h)) (filter (\<lambda>h. hh_hold_id h = k) (dvalues (hd_history db)))"

definition hold_event_append ::
  "uuid \<Rightarrow> string \<Rightarrow> instant \<Rightarrow> uuid \<Rightarrow> uuid \<Rightarrow> payload \<Rightarrow> hold_db \<Rightarrow> hold_db" where
  "hold_event_append hold_id event_type at correlation_id causation_id safe_payload db =
     db\<lparr>hd_events := hd_events db @
          [\<lparr>pe_aggregate_type = ''financial_hold'', pe_aggregate_id = hold_id, pe_event_type = event_type,
            pe_occurred_at = at, pe_correlation_id = correlation_id, pe_causation_id = causation_id,
            pe_safe_payload = safe_payload\<rparr>],
        hd_outbox := hd_outbox db @
          [\<lparr>pm_event_type = event_type, pm_safe_payload = safe_payload, pm_occurred_at = at,
            pm_available_at = at, pm_attempt_count = 0\<rparr>]\<rparr>"

definition insert_history :: "hold_db \<Rightarrow> hold_history \<Rightarrow> hold_db result" where
  "insert_history db h =
     (if dget (hd_history db) (hh_history_id h) \<noteq> None
      then Inl (IntegrityError ''financial_hold_state_history.history_id'')
      else if dget (hd_holds db) (hh_hold_id h) = None
      then Inl (IntegrityError ''financial_hold_state_history.hold_id'')
      else Inr (db\<lparr>hd_history := dset (hh_history_id h) h (hd_history db)\<rparr>))"

definition repo_create_hold :: "hold_db \<Rightarrow> financial_hold \<Rightarrow> hold_history \<Rightarrow> (hold_db \<times> financial_hold) result" where
  "repo_create_hold db hold initial_history =
     (if dget (hd_holds db) (fh_hold_id hold) \<noteq> None then Inl (IntegrityError ''financial_holds.hold_id'')
      else
        bind_result (insert_history (db\<lparr>hd_holds := dset (fh_hold_id hold) hold (hd_holds db)\<rparr>) initial_history)
          (\<lambda>db1.
        Inr (hold_event_append (fh_hold_id hold) ''financial_hold.created'' (hh_changed_at initial_history)
               (hh_correlation_id initial_history) (hh_causation_id initial_history)
               [(''hold_id'', JUuid (fh_hold_id hold)), (''hold_type'', JStr (hold_type_value (fh_hold_type hold))),
                (''state'', JStr (hold_state_value (fh_state hold))),
                (''source_type'', JStr (hold_source_value (fh_source_type hold))),
                (''source_id'', JUuid (fh_source_id hold))] db1, hold)))"

definition repo_transition_hold ::
  "hold_db \<Rightarrow> uuid \<Rightarrow> financial_hold_state \<Rightarrow> instant \<Rightarrow> hold_history \<Rightarrow> (hold_db \<times> financial_hold) result" where
  "repo_transition_hold db k target_state updated_at history =
     (case dget (hd_holds db) k of
        None \<Rightarrow> Inl (FinancialHoldConflict ''financial_hold_not_found'')
      | Some current \<Rightarrow>
          let row = current\<lparr>fh_state := target_state, fh_updated_at := updated_at\<rparr> in
          bind_result (insert_history (db\<lparr>hd_holds := dset k row (hd_holds db)\<rparr>) history) (\<lambda>db1.
          bind_result (valid_financial_hold row) (\<lambda>hold.
          Inr (hold_event_append k (''financial_hold.'' @ hold_state_value target_state) (hh_changed_at history)
                 (hh_correlation_id history) (hh_causation_id history)
                 [(''hold_id'', JUuid k), (''to_state'', JStr (hold_state_value target_state)),
                  (''reason_code'', JStr (hold_reason_value (hh_reason_code history)))] db1, hold))))"

section \<open>The service\<close>

record hold_env =
  hv_has_permission :: "uuid \<Rightarrow> string \<Rightarrow> bool"
  hv_digest :: "payload \<Rightarrow> string"

text \<open>The lookups of the records that a hold can name.\<close>

record hold_sources =
  hs_attempt :: "uuid \<Rightarrow> bool"
  hs_batch :: "uuid \<Rightarrow> bool"
  hs_wallet_account :: "uuid \<Rightarrow> bool"
  hs_refund_request :: "uuid \<Rightarrow> bool"
  hs_posting :: "uuid \<Rightarrow> bool"
  hs_identity :: "uuid \<Rightarrow> bool"

definition require_hold_permission :: "hold_env \<Rightarrow> subject \<Rightarrow> string \<Rightarrow> unit result" where
  "require_hold_permission env subject permission =
     ensure (hv_has_permission env (fst subject) permission) (FinancialHoldConflict ''access_denied'')"

definition require_service_identity :: "subject \<Rightarrow> unit result" where
  "require_service_identity subject =
     ensure (snd subject = ID_SERVICE) (FinancialHoldConflict ''financial_hold_service_identity_required'')"

fun permission_for_target :: "financial_hold_state \<Rightarrow> string result" where
  "permission_for_target FH_UNDER_REVIEW = Inr ''financial.hold.review''"
| "permission_for_target FH_RELEASED = Inr ''financial.hold.release''"
| "permission_for_target FH_ESCALATED = Inr ''financial.hold.escalate''"
| "permission_for_target FH_EXPIRED = Inr ''financial.hold.expire''"
| "permission_for_target FH_CANCELLED = Inr ''financial.hold.cancel''"
| "permission_for_target FH_ACTIVE = Inr ''financial.hold.review''"
| "permission_for_target FH_CREATED = Inl (FinancialHoldConflict ''financial_hold_transition_invalid'')"

fun allowed_source_type :: "financial_hold_type \<Rightarrow> hold_source_type" where
  "allowed_source_type HT_RIDER_PAYMENT = HS_PAYMENT_ATTEMPT"
| "allowed_source_type HT_DRIVER_PAYOUT = HS_SETTLEMENT_BATCH"
| "allowed_source_type HT_WALLET = HS_WALLET_ACCOUNT"
| "allowed_source_type HT_REFUND = HS_REFUND_REQUEST"
| "allowed_source_type HT_SETTLEMENT = HS_SETTLEMENT_BATCH"
| "allowed_source_type HT_FRAUD_REVIEW = HS_IDENTITY"
| "allowed_source_type HT_COMPLIANCE_REVIEW = HS_IDENTITY"
| "allowed_source_type HT_FINANCE_MANUAL_REVIEW = HS_FINANCIAL_POSTING"

definition assert_type_source_compatibility :: "financial_hold_type \<Rightarrow> hold_source_type \<Rightarrow> unit result" where
  "assert_type_source_compatibility hold_type source_type =
     ensure (allowed_source_type hold_type = source_type)
       (FinancialHoldConflict ''financial_hold_source_type_invalid'')"

fun source_exists :: "hold_sources \<Rightarrow> hold_source_type \<Rightarrow> uuid \<Rightarrow> bool" where
  "source_exists src HS_PAYMENT_ATTEMPT k = hs_attempt src k"
| "source_exists src HS_SETTLEMENT_BATCH k = hs_batch src k"
| "source_exists src HS_WALLET_ACCOUNT k = hs_wallet_account src k"
| "source_exists src HS_REFUND_REQUEST k = hs_refund_request src k"
| "source_exists src HS_FINANCIAL_POSTING k = hs_posting src k"
| "source_exists src HS_IDENTITY k = hs_identity src k"

definition assert_lineage_exists :: "hold_sources \<Rightarrow> hold_source_type \<Rightarrow> uuid \<Rightarrow> unit result" where
  "assert_lineage_exists src source_type source_id =
     ensure (source_exists src source_type source_id) (FinancialHoldConflict ''financial_hold_lineage_missing'')"

definition detail_text :: "string option \<Rightarrow> string" where
  \<comment> \<open>\<open>reason_detail or ""\<close>\<close>
  "detail_text d = (case d of None \<Rightarrow> [] | Some s \<Rightarrow> s)"

definition new_financial_hold :: "subject \<Rightarrow> hold_create_command \<Rightarrow> uuid \<Rightarrow> financial_hold" where
  "new_financial_hold subject command canonical =
     \<lparr>fh_hold_id = canonical, fh_hold_type = hc_hold_type command, fh_source_type = hc_source_type command,
      fh_source_id = hc_source_id command, fh_reason_code = hn_reason_code (hc_reason command),
      fh_reason_detail = hn_reason_detail (hc_reason command), fh_state = FH_CREATED,
      fh_created_by_identity_id = fst subject, fh_correlation_id = hc_correlation_id command,
      fh_causation_id = hc_causation_id command, fh_created_at = hc_occurred_at command,
      fh_updated_at = hc_occurred_at command, fh_metadata_safe = []\<rparr>"

definition initial_hold_history :: "subject \<Rightarrow> hold_create_command \<Rightarrow> uuid \<Rightarrow> uuid \<Rightarrow> hold_history" where
  "initial_hold_history subject command canonical history_id =
     \<lparr>hh_history_id = history_id, hh_hold_id = canonical, hh_from_state = None, hh_to_state = FH_CREATED,
      hh_reason_code = hn_reason_code (hc_reason command), hh_reason_detail = hn_reason_detail (hc_reason command),
      hh_changed_by_identity_id = fst subject, hh_changed_at = hc_occurred_at command,
      hh_correlation_id = hc_correlation_id command, hh_causation_id = hc_causation_id command,
      hh_metadata_safe = []\<rparr>"

definition create_hold ::
  "hold_env \<Rightarrow> hold_sources \<Rightarrow> hold_db \<Rightarrow> subject \<Rightarrow> hold_create_command \<Rightarrow> uuid \<Rightarrow> uuid \<Rightarrow> (hold_db \<times> hold_result) result" where
  "create_hold env src db subject command candidate history_id =
     bind_result (require_hold_permission env subject ''financial.hold.create'') (\<lambda>_.
     bind_result (require_service_identity subject) (\<lambda>_.
     bind_result (assert_type_source_compatibility (hc_hold_type command) (hc_source_type command)) (\<lambda>_.
     bind_result (assert_lineage_exists src (hc_source_type command) (hc_source_id command)) (\<lambda>_.
     bind_result (hold_reserve_idempotency (hv_digest env) db (fst subject) ''financial.hold.create''
         (hc_idempotency_key command)
         [(''hold_type'', JStr (hold_type_value (hc_hold_type command))),
          (''source_type'', JStr (hold_source_value (hc_source_type command))),
          (''source_id'', JUuid (hc_source_id command)),
          (''reason_code'', JStr (hold_reason_value (hn_reason_code (hc_reason command)))),
          (''reason_detail'', JStr (detail_text (hn_reason_detail (hc_reason command))))]
         candidate (hc_occurred_at command)) (\<lambda>(db1, canonical).
     case get_hold db1 canonical of
       Some existing \<Rightarrow> Inr (db1, existing, list_history db1 (fh_hold_id existing))
     | None \<Rightarrow>
         bind_result (valid_financial_hold (new_financial_hold subject command canonical)) (\<lambda>hold.
         let history = initial_hold_history subject command canonical history_id in
         bind_result (repo_create_hold db1 hold history) (\<lambda>(db2, _). Inr (db2, hold, [history]))))))))"

definition hold_step_history ::
  "subject \<Rightarrow> financial_hold \<Rightarrow> hold_transition_command \<Rightarrow> uuid \<Rightarrow> hold_history" where
  "hold_step_history subject hold command history_id =
     \<lparr>hh_history_id = history_id, hh_hold_id = fh_hold_id hold, hh_from_state = Some (fh_state hold),
      hh_to_state = ht_target_state command, hh_reason_code = hn_reason_code (ht_reason command),
      hh_reason_detail = hn_reason_detail (ht_reason command), hh_changed_by_identity_id = fst subject,
      hh_changed_at = ht_occurred_at command, hh_correlation_id = ht_correlation_id command,
      hh_causation_id = ht_causation_id command, hh_metadata_safe = []\<rparr>"

definition transition_hold ::
  "hold_env \<Rightarrow> hold_db \<Rightarrow> subject \<Rightarrow> uuid \<Rightarrow> hold_transition_command \<Rightarrow> uuid \<Rightarrow> (hold_db \<times> hold_result) result" where
  "transition_hold env db subject hold_id command history_id =
     bind_result (permission_for_target (ht_target_state command)) (\<lambda>permission.
     bind_result (require_hold_permission env subject permission) (\<lambda>_.
     bind_result (require_service_identity subject) (\<lambda>_.
     bind_result (hold_reserve_idempotency (hv_digest env) db (fst subject)
         (''financial.hold.transition.'' @ hold_state_value (ht_target_state command)) (ht_idempotency_key command)
         [(''hold_id'', JUuid hold_id), (''target_state'', JStr (hold_state_value (ht_target_state command))),
          (''reason_code'', JStr (hold_reason_value (hn_reason_code (ht_reason command)))),
          (''reason_detail'', JStr (detail_text (hn_reason_detail (ht_reason command))))]
         hold_id (ht_occurred_at command)) (\<lambda>(db1, canonical).
     if canonical \<noteq> hold_id then Inl (FinancialHoldConflict ''financial_hold_idempotency_reference_mismatch'')
     else
       (case get_hold db1 hold_id of
          None \<Rightarrow> Inl (FinancialHoldConflict ''financial_hold_not_found'')
        | Some hold \<Rightarrow>
            if fh_state hold = ht_target_state command then Inr (db1, hold, list_history db1 (fh_hold_id hold))
            else
              bind_result (ensure_hold_transition_allowed (fh_state hold) (ht_target_state command)
                  (Aware (ht_occurred_at command))) (\<lambda>_.
              bind_result (repo_transition_hold db1 (fh_hold_id hold) (ht_target_state command)
                  (ht_occurred_at command) (hold_step_history subject hold command history_id)) (\<lambda>(db2, updated).
              Inr (db2, updated, list_history db2 (fh_hold_id hold)))))))))"

definition hold_status :: "hold_env \<Rightarrow> hold_db \<Rightarrow> subject \<Rightarrow> uuid \<Rightarrow> hold_result result" where
  "hold_status env db subject hold_id =
     (case get_hold db hold_id of
        None \<Rightarrow> Inl (FinancialHoldConflict ''financial_hold_not_found'')
      | Some hold \<Rightarrow>
          if \<not> hv_has_permission env (fst subject) ''financial.hold.trace.read'' \<and>
             \<not> hv_has_permission env (fst subject) ''support.financial_hold.read_status''
          then Inl (FinancialHoldConflict ''financial_hold_status_not_found'')
          else Inr (hold, list_history db (fh_hold_id hold)))"

end
