(* ===== verification/Settlement.thy ===== *)
theory Settlement
  imports Refund Financial_Hold "HOL-Library.List_Lexorder" "HOL-Library.Char_ord"
begin

text \<open>
  Settlement batches: the models of \<open>settlement/models.py\<close>, the repository
  \<open>persistence/settlement_repository.py\<close> and the orchestration service \<open>settlement/application.py\<close>. The service reads
  payments, refunds, holds, fare calculations and journals and writes only its own tables, the record
  \<open>settlement_db\<close>. Identifiers drawn while an operation runs are arguments.
\<close>

section \<open>Models\<close>

datatype reconciliation_type = RC_RIDE_RECONCILIATION | RC_PAYMENT_RECONCILIATION | RC_REFUND_RECONCILIATION
  | RC_PROVIDER_RECONCILIATION | RC_SETTLEMENT_RECONCILIATION | RC_MANUAL_ADJUSTMENT_REVIEW

datatype reconciliation_result = RS_MATCHED | RS_PARTIALLY_MATCHED | RS_MISMATCH | RS_MISSING | RS_DUPLICATE
  | RS_MANUAL_REVIEW_REQUIRED

datatype reconciliation_exception_type = RE_DUPLICATE_PAYMENT | RE_MISSING_CALLBACK | RE_AMOUNT_MISMATCH
  | RE_CURRENCY_MISMATCH | RE_REFUND_MISMATCH | RE_ORPHAN_PAYMENT | RE_LATE_CALLBACK | RE_UNKNOWN_OUTCOME
  | RE_MANUAL_INVESTIGATION | RE_MISSING_EXPECTED_RECORD | RE_MISSING_OBSERVED_RECORD | RE_REFERENCE_MISMATCH
  | RE_STATUS_MISMATCH | RE_TIMING_MISMATCH | RE_UNAUTHORIZED_RECORD

datatype approval_decision = AD_APPROVED | AD_REJECTED | AD_REVOKED

datatype evidence_type = EV_SUBMISSION | EV_CONFIRMATION | EV_FAILURE

fun reconciliation_type_value :: "reconciliation_type \<Rightarrow> string" where
  "reconciliation_type_value RC_RIDE_RECONCILIATION = ''ride_reconciliation''"
| "reconciliation_type_value RC_PAYMENT_RECONCILIATION = ''payment_reconciliation''"
| "reconciliation_type_value RC_REFUND_RECONCILIATION = ''refund_reconciliation''"
| "reconciliation_type_value RC_PROVIDER_RECONCILIATION = ''provider_reconciliation''"
| "reconciliation_type_value RC_SETTLEMENT_RECONCILIATION = ''settlement_reconciliation''"
| "reconciliation_type_value RC_MANUAL_ADJUSTMENT_REVIEW = ''manual_adjustment_review''"

fun reconciliation_result_value :: "reconciliation_result \<Rightarrow> string" where
  "reconciliation_result_value RS_MATCHED = ''matched''"
| "reconciliation_result_value RS_PARTIALLY_MATCHED = ''partially_matched''"
| "reconciliation_result_value RS_MISMATCH = ''mismatch''"
| "reconciliation_result_value RS_MISSING = ''missing''"
| "reconciliation_result_value RS_DUPLICATE = ''duplicate''"
| "reconciliation_result_value RS_MANUAL_REVIEW_REQUIRED = ''manual_review_required''"

fun exception_type_value :: "reconciliation_exception_type \<Rightarrow> string" where
  "exception_type_value RE_DUPLICATE_PAYMENT = ''duplicate_payment''"
| "exception_type_value RE_MISSING_CALLBACK = ''missing_callback''"
| "exception_type_value RE_AMOUNT_MISMATCH = ''amount_mismatch''"
| "exception_type_value RE_CURRENCY_MISMATCH = ''currency_mismatch''"
| "exception_type_value RE_REFUND_MISMATCH = ''refund_mismatch''"
| "exception_type_value RE_ORPHAN_PAYMENT = ''orphan_payment''"
| "exception_type_value RE_LATE_CALLBACK = ''late_callback''"
| "exception_type_value RE_UNKNOWN_OUTCOME = ''unknown_outcome''"
| "exception_type_value RE_MANUAL_INVESTIGATION = ''manual_investigation''"
| "exception_type_value RE_MISSING_EXPECTED_RECORD = ''missing_expected_record''"
| "exception_type_value RE_MISSING_OBSERVED_RECORD = ''missing_observed_record''"
| "exception_type_value RE_REFERENCE_MISMATCH = ''reference_mismatch''"
| "exception_type_value RE_STATUS_MISMATCH = ''status_mismatch''"
| "exception_type_value RE_TIMING_MISMATCH = ''timing_mismatch''"
| "exception_type_value RE_UNAUTHORIZED_RECORD = ''unauthorized_record''"

fun batch_state_value :: "settlement_batch_state \<Rightarrow> string" where
  "batch_state_value SB_CREATED = ''created''"
| "batch_state_value SB_COLLECTING = ''collecting''"
| "batch_state_value SB_RECONCILING = ''reconciling''"
| "batch_state_value SB_BALANCED = ''balanced''"
| "batch_state_value SB_READY_FOR_SETTLEMENT = ''ready_for_settlement''"
| "batch_state_value SB_EXCEPTION = ''exception''"
| "batch_state_value SB_MANUAL_REVIEW = ''manual_review''"
| "batch_state_value SB_RESOLVED = ''resolved''"

fun evidence_type_value :: "evidence_type \<Rightarrow> string" where
  "evidence_type_value EV_SUBMISSION = ''submission''"
| "evidence_type_value EV_CONFIRMATION = ''confirmation''"
| "evidence_type_value EV_FAILURE = ''failure''"

record reconciliation_traceability =
  rct_ride_request_id :: uuid
  rct_dispatch_handoff_id :: uuid
  rct_assignment_id :: uuid
  rct_active_ride_id :: uuid
  rct_fare_estimate_id :: uuid
  rct_fare_calculation_id :: uuid
  rct_ledger_journal_id :: uuid

record settlement_batch =
  sb_settlement_batch_id :: uuid
  sb_state :: settlement_batch_state
  sb_created_by_identity_id :: uuid
  sb_created_at :: instant
  sb_last_transition_at :: instant
  sb_ready_for_settlement_at :: "instant option"
  sb_metadata_safe :: "(string, string) dict"
  sb_correlation_id :: uuid
  sb_causation_id :: uuid

record settlement_item =
  si_settlement_item_id :: uuid
  si_settlement_batch_id :: uuid
  si_ride_id :: uuid
  si_fare_calculation_id :: uuid
  si_payment_intent_id :: uuid
  si_payment_attempt_id :: uuid
  si_refund_request_id :: "uuid option"
  si_ledger_journal_id :: uuid
  si_reconciliation_type :: reconciliation_type
  si_amount_minor :: minor
  si_currency :: string
  si_traceability :: reconciliation_traceability
  si_created_at :: instant

record reconciliation_record =
  rc_reconciliation_record_id :: uuid
  rc_settlement_batch_id :: uuid
  rc_settlement_item_id :: uuid
  rc_reconciliation_type :: reconciliation_type
  rc_result :: reconciliation_result
  rc_reason_code :: string
  rc_decision_safe :: "(string, string) dict"
  rc_recorded_by_identity_id :: uuid
  rc_recorded_at :: instant
  rc_correlation_id :: uuid
  rc_causation_id :: uuid

record reconciliation_exception =
  rx_reconciliation_exception_id :: uuid
  rx_settlement_batch_id :: uuid
  rx_settlement_item_id :: uuid
  rx_exception_type :: reconciliation_exception_type
  rx_exception_state :: settlement_batch_state
  rx_details_safe :: "(string, string) dict"
  rx_raised_by_identity_id :: uuid
  rx_raised_at :: instant
  rx_resolution_code :: "string option"
  rx_resolved_by_identity_id :: "uuid option"
  rx_resolved_at :: "instant option"
  rx_correlation_id :: uuid
  rx_causation_id :: uuid

record settlement_approval =
  sp_settlement_approval_id :: uuid
  sp_settlement_batch_id :: uuid
  sp_decision :: approval_decision
  sp_reason_code :: string
  sp_prepared_by_identity_id :: uuid
  sp_decided_by_identity_id :: uuid
  sp_decided_by_actor_type :: string
  sp_decided_at :: instant
  sp_correlation_id :: uuid
  sp_causation_id :: uuid

record settlement_hold_evidence =
  se_settlement_hold_evidence_id :: uuid
  se_settlement_batch_id :: uuid
  se_financial_hold_id :: "uuid option"
  se_hold_state :: string
  se_blocks_readiness :: bool
  se_evaluated_by_identity_id :: uuid
  se_evaluated_at :: instant
  se_correlation_id :: uuid
  se_causation_id :: uuid

record settlement_external_evidence =
  sx_settlement_external_evidence_id :: uuid
  sx_settlement_batch_id :: uuid
  sx_evidence_type :: evidence_type
  sx_provider_code :: string
  sx_provider_reference :: string
  sx_evidence_fingerprint :: string
  sx_recorded_by_identity_id :: uuid
  sx_recorded_at :: instant
  sx_correlation_id :: uuid
  sx_causation_id :: uuid

text \<open>
  The validators. Every timestamp of a new record is the \<open>at\<close> of the operation, so the timezone validator
  comes first and the record holds the instant.
\<close>

definition valid_settlement_batch :: "settlement_batch \<Rightarrow> py_datetime \<Rightarrow> settlement_batch result" where
  "valid_settlement_batch b at =
     (if \<not> is_aware at then Inl (ValidationError ''Settlement timestamps must be timezone-aware'')
      else if sb_last_transition_at b < sb_created_at b
      then Inl (ValidationError ''last_transition_at must not precede created_at'')
      else if (case sb_ready_for_settlement_at b of None \<Rightarrow> False | Some t \<Rightarrow> t < sb_created_at b)
      then Inl (ValidationError ''ready_for_settlement_at must not precede created_at'')
      else Inr b)"

definition valid_settlement_item :: "settlement_item \<Rightarrow> py_datetime \<Rightarrow> settlement_item result" where
  "valid_settlement_item i at =
     (if \<not> minor_ok (si_amount_minor i) \<or> \<not> currency_pattern (si_currency i)
      then Inl (ValidationError ''SettlementItem'')
      else if \<not> is_aware at then Inl (ValidationError ''Settlement timestamps must be timezone-aware'')
      else Inr i)"

definition valid_reconciliation_record ::
  "reconciliation_record \<Rightarrow> py_datetime \<Rightarrow> reconciliation_record result" where
  "valid_reconciliation_record r at =
     (if \<not> code_pattern 2 (rc_reason_code r) then Inl (ValidationError ''ReconciliationRecord'')
      else if \<not> is_aware at then Inl (ValidationError ''Settlement timestamps must be timezone-aware'')
      else Inr r)"

definition valid_reconciliation_exception ::
  "reconciliation_exception \<Rightarrow> py_datetime \<Rightarrow> reconciliation_exception result" where
  "valid_reconciliation_exception x at =
     (if (case rx_resolution_code x of None \<Rightarrow> False | Some c \<Rightarrow> \<not> code_pattern 2 c)
      then Inl (ValidationError ''ReconciliationException'')
      else if \<not> is_aware at then Inl (ValidationError ''Settlement timestamps must be timezone-aware'')
      else if (case rx_resolved_at x of None \<Rightarrow> False | Some t \<Rightarrow> t < rx_raised_at x)
      then Inl (ValidationError ''resolved_at must not precede raised_at'')
      else Inr x)"

definition valid_settlement_approval :: "settlement_approval \<Rightarrow> py_datetime \<Rightarrow> settlement_approval result" where
  "valid_settlement_approval a at =
     (if \<not> code_pattern 2 (sp_reason_code a) \<or> sp_decided_by_actor_type a \<notin> {''staff'', ''administrator''}
      then Inl (ValidationError ''SettlementApproval'')
      else if \<not> is_aware at then Inl (ValidationError ''Settlement approval timestamps must be timezone-aware'')
      else if sp_prepared_by_identity_id a = sp_decided_by_identity_id a
      then Inl (ValidationError ''Settlement preparer cannot approve their own batch'')
      else Inr a)"

definition hold_state_pattern :: "string \<Rightarrow> bool" where
  \<comment> \<open>the pattern \<open>^[a-z_]{3,32}$\<close>\<close>
  "hold_state_pattern s \<longleftrightarrow> length_between 3 32 s \<and> list_all (\<lambda>c. lower_alpha c \<or> c = CHR ''_'') s"

definition valid_hold_evidence :: "settlement_hold_evidence \<Rightarrow> py_datetime \<Rightarrow> settlement_hold_evidence result" where
  "valid_hold_evidence e at =
     (if \<not> hold_state_pattern (se_hold_state e) then Inl (ValidationError ''SettlementHoldEvidence'')
      else if \<not> is_aware at then Inl (ValidationError ''Settlement hold timestamps must be timezone-aware'')
      else Inr e)"

definition fingerprint_pattern :: "string \<Rightarrow> bool" where
  \<comment> \<open>the pattern \<open>^[a-f0-9]{32,128}$\<close>\<close>
  "fingerprint_pattern s \<longleftrightarrow> length_between 32 128 s \<and>
     list_all (\<lambda>c. digit_char c \<or> (lower_alpha c \<and> of_char c \<le> (102::nat))) s"

definition valid_external_evidence ::
  "settlement_external_evidence \<Rightarrow> py_datetime \<Rightarrow> settlement_external_evidence result" where
  "valid_external_evidence e at =
     (if \<not> code_pattern 2 (sx_provider_code e) \<or> \<not> length_between 8 128 (sx_provider_reference e) \<or>
         \<not> fingerprint_pattern (sx_evidence_fingerprint e)
      then Inl (ValidationError ''SettlementExternalEvidence'')
      else if \<not> is_aware at then Inl (ValidationError ''Settlement evidence timestamps must be timezone-aware'')
      else Inr e)"

section \<open>The repository\<close>

record settlement_db =
  sd_batches :: "(uuid, settlement_batch) dict"
  sd_items :: "(uuid, settlement_item) dict"
  sd_records :: "(uuid, reconciliation_record) dict"
  sd_exceptions :: "(uuid, reconciliation_exception) dict"
  sd_approvals :: "(uuid, settlement_approval) dict"
  sd_hold_evidence :: "(uuid, settlement_hold_evidence) dict"
  sd_external_evidence :: "(uuid, settlement_external_evidence) dict"
  sd_idempotency :: idempotency_table
  sd_events :: "payment_event list"
  sd_outbox :: "payment_message list"

definition settlement_reserve_idempotency ::
  "(payload \<Rightarrow> string) \<Rightarrow> settlement_db \<Rightarrow> uuid \<Rightarrow> string \<Rightarrow> string \<Rightarrow> payload \<Rightarrow> uuid \<Rightarrow> instant \<Rightarrow>
   (settlement_db \<times> uuid) result" where
  "settlement_reserve_idempotency digest db actor_id operation key pl response_reference at =
     bind_result
       (reserve_row (SettlementConflict ''idempotency_conflict'') (sd_idempotency db)
          (actor_id, operation, key) (digest pl) response_reference at)
       (\<lambda>(table, reference). Inr (db\<lparr>sd_idempotency := table\<rparr>, reference))"

definition settlement_event_append ::
  "string \<Rightarrow> uuid \<Rightarrow> string \<Rightarrow> instant \<Rightarrow> uuid \<Rightarrow> uuid \<Rightarrow> payload \<Rightarrow> settlement_db \<Rightarrow> settlement_db" where
  "settlement_event_append aggregate_type aggregate_id event_type at correlation_id causation_id safe_payload db =
     db\<lparr>sd_events := sd_events db @
          [\<lparr>pe_aggregate_type = aggregate_type, pe_aggregate_id = aggregate_id, pe_event_type = event_type,
            pe_occurred_at = at, pe_correlation_id = correlation_id, pe_causation_id = causation_id,
            pe_safe_payload = safe_payload\<rparr>],
        sd_outbox := sd_outbox db @
          [\<lparr>pm_event_type = event_type, pm_safe_payload = safe_payload, pm_occurred_at = at,
            pm_available_at = at, pm_attempt_count = 0\<rparr>]\<rparr>"

definition get_batch :: "settlement_db \<Rightarrow> uuid \<Rightarrow> settlement_batch option" where
  "get_batch db k = dget (sd_batches db) k"

definition get_item :: "settlement_db \<Rightarrow> uuid \<Rightarrow> settlement_item option" where
  "get_item db k = dget (sd_items db) k"

definition repo_create_batch :: "settlement_db \<Rightarrow> settlement_batch \<Rightarrow> (settlement_db \<times> settlement_batch) result" where
  "repo_create_batch db b =
     (if sb_state b \<noteq> SB_CREATED then Inl (SettlementConflict ''settlement_batch_invalid_initial_state'')
      else if dget (sd_batches db) (sb_settlement_batch_id b) \<noteq> None
      then Inl (IntegrityError ''settlement_batches.settlement_batch_id'')
      else Inr (settlement_event_append ''settlement_batch'' (sb_settlement_batch_id b) ''settlement.batch_created''
             (sb_created_at b) (sb_correlation_id b) (sb_causation_id b)
             [(''settlement_batch_id'', JUuid (sb_settlement_batch_id b)),
              (''state'', JStr (batch_state_value (sb_state b)))]
             (db\<lparr>sd_batches := dset (sb_settlement_batch_id b) b (sd_batches db)\<rparr>), b))"

definition transition_batch ::
  "settlement_db \<Rightarrow> uuid \<Rightarrow> settlement_batch_state \<Rightarrow> py_datetime \<Rightarrow> uuid \<Rightarrow> uuid \<Rightarrow> string \<Rightarrow>
   (settlement_db \<times> settlement_batch) result" where
  "transition_batch db k target_state at correlation_id causation_id reason_code =
     (case get_batch db k of
        None \<Rightarrow> Inl (SettlementConflict ''settlement_batch_not_found'')
      | Some current \<Rightarrow>
          bind_result (ensure_batch_transition_allowed (sb_state current) target_state at) (\<lambda>_.
          let changed = current\<lparr>sb_state := target_state, sb_last_transition_at := instant_of at,
                sb_ready_for_settlement_at :=
                  (if target_state = SB_READY_FOR_SETTLEMENT then Some (instant_of at)
                   else sb_ready_for_settlement_at current)\<rparr>
          in if instant_of at < sb_created_at current
             then Inl (IntegrityError ''settlement_batch_transition_after_create'')
             else Inr (settlement_event_append ''settlement_batch'' (sb_settlement_batch_id changed)
                    (''settlement.batch_'' @ batch_state_value target_state) (instant_of at)
                    correlation_id causation_id
                    [(''settlement_batch_id'', JUuid (sb_settlement_batch_id changed)),
                     (''state'', JStr (batch_state_value target_state)), (''reason_code'', JStr reason_code)]
                    (db\<lparr>sd_batches := dset k changed (sd_batches db)\<rparr>), changed)))"

definition add_item :: "settlement_db \<Rightarrow> settlement_item \<Rightarrow> (settlement_db \<times> settlement_item) result" where
  "add_item db i =
     (if dget (sd_items db) (si_settlement_item_id i) \<noteq> None
      then Inl (IntegrityError ''settlement_items.settlement_item_id'')
      else if si_currency i \<noteq> ''ETB'' then Inl (IntegrityError ''settlement_item_etb_nonnegative'')
      else Inr (settlement_event_append ''settlement_item'' (si_settlement_item_id i) ''settlement.item_collected''
             (si_created_at i) (si_settlement_item_id i) (si_settlement_batch_id i)
             [(''settlement_item_id'', JUuid (si_settlement_item_id i)),
              (''settlement_batch_id'', JUuid (si_settlement_batch_id i)), (''ride_id'', JUuid (si_ride_id i)),
              (''reconciliation_type'', JStr (reconciliation_type_value (si_reconciliation_type i)))]
             (db\<lparr>sd_items := dset (si_settlement_item_id i) i (sd_items db)\<rparr>), i))"

definition list_items :: "settlement_db \<Rightarrow> uuid \<Rightarrow> settlement_item list" where
  "list_items db k =
     sort_key (\<lambda>i. (si_created_at i, si_settlement_item_id i))
       (filter (\<lambda>i. si_settlement_batch_id i = k) (dvalues (sd_items db)))"

definition append_reconciliation_record ::
  "settlement_db \<Rightarrow> reconciliation_record \<Rightarrow> settlement_db result" where
  "append_reconciliation_record db r =
     (if dget (sd_records db) (rc_reconciliation_record_id r) \<noteq> None
      then Inl (IntegrityError ''reconciliation_records.reconciliation_record_id'')
      else if get_batch db (rc_settlement_batch_id r) = None \<or> get_item db (rc_settlement_item_id r) = None
      then Inl (IntegrityError ''reconciliation_records.foreign_key'')
      else Inr (db\<lparr>sd_records := dset (rc_reconciliation_record_id r) r (sd_records db)\<rparr>))"

definition list_reconciliation_records :: "settlement_db \<Rightarrow> uuid \<Rightarrow> reconciliation_record list" where
  "list_reconciliation_records db k =
     sort_key (\<lambda>r. (rc_recorded_at r, rc_reconciliation_record_id r))
       (filter (\<lambda>r. rc_settlement_batch_id r = k) (dvalues (sd_records db)))"

definition append_exception :: "settlement_db \<Rightarrow> reconciliation_exception \<Rightarrow> settlement_db result" where
  "append_exception db x =
     (if dget (sd_exceptions db) (rx_reconciliation_exception_id x) \<noteq> None
      then Inl (IntegrityError ''reconciliation_exceptions.reconciliation_exception_id'')
      else if get_batch db (rx_settlement_batch_id x) = None \<or> get_item db (rx_settlement_item_id x) = None
      then Inl (IntegrityError ''reconciliation_exceptions.foreign_key'')
      else if rx_exception_state x \<notin> {SB_EXCEPTION, SB_MANUAL_REVIEW, SB_RESOLVED}
      then Inl (IntegrityError ''reconciliation_exception_state_allowed'')
      else Inr (db\<lparr>sd_exceptions := dset (rx_reconciliation_exception_id x) x (sd_exceptions db)\<rparr>))"

definition list_exceptions :: "settlement_db \<Rightarrow> uuid \<Rightarrow> reconciliation_exception list" where
  "list_exceptions db k =
     sort_key (\<lambda>x. (rx_raised_at x, rx_reconciliation_exception_id x))
       (filter (\<lambda>x. rx_settlement_batch_id x = k) (dvalues (sd_exceptions db)))"

definition append_approval :: "settlement_db \<Rightarrow> settlement_approval \<Rightarrow> (settlement_db \<times> settlement_approval) result" where
  "append_approval db a =
     (if dget (sd_approvals db) (sp_settlement_approval_id a) \<noteq> None
      then Inl (IntegrityError ''settlement_approvals.settlement_approval_id'')
      else if get_batch db (sp_settlement_batch_id a) = None
      then Inl (IntegrityError ''settlement_approvals.settlement_batch_id'')
      else if sp_prepared_by_identity_id a = sp_decided_by_identity_id a
      then Inl (IntegrityError ''settlement_approval_maker_checker'')
      else if list_ex (\<lambda>b. sp_settlement_batch_id b = sp_settlement_batch_id a \<and> sp_decision b = sp_decision a \<and>
          sp_decided_by_identity_id b = sp_decided_by_identity_id a \<and> sp_decided_at b = sp_decided_at a)
          (dvalues (sd_approvals db))
      then Inl (IntegrityError ''uq_settlement_approval_evidence'')
      else Inr (db\<lparr>sd_approvals := dset (sp_settlement_approval_id a) a (sd_approvals db)\<rparr>, a))"

definition list_approvals :: "settlement_db \<Rightarrow> uuid \<Rightarrow> settlement_approval list" where
  "list_approvals db k =
     sort_key (\<lambda>a. (sp_decided_at a, sp_settlement_approval_id a))
       (filter (\<lambda>a. sp_settlement_batch_id a = k) (dvalues (sd_approvals db)))"

definition append_hold_evidence :: "settlement_db \<Rightarrow> settlement_hold_evidence \<Rightarrow> settlement_db result" where
  "append_hold_evidence db e =
     (if dget (sd_hold_evidence db) (se_settlement_hold_evidence_id e) \<noteq> None
      then Inl (IntegrityError ''settlement_hold_evidence.settlement_hold_evidence_id'')
      else if get_batch db (se_settlement_batch_id e) = None
      then Inl (IntegrityError ''settlement_hold_evidence.settlement_batch_id'')
      else Inr (db\<lparr>sd_hold_evidence := dset (se_settlement_hold_evidence_id e) e (sd_hold_evidence db)\<rparr>))"

definition list_hold_evidence :: "settlement_db \<Rightarrow> uuid \<Rightarrow> settlement_hold_evidence list" where
  "list_hold_evidence db k =
     sort_key (\<lambda>e. (se_evaluated_at e, se_settlement_hold_evidence_id e))
       (filter (\<lambda>e. se_settlement_batch_id e = k) (dvalues (sd_hold_evidence db)))"

definition append_external_evidence ::
  "settlement_db \<Rightarrow> settlement_external_evidence \<Rightarrow> (settlement_db \<times> settlement_external_evidence) result" where
  "append_external_evidence db e =
     (if dget (sd_external_evidence db) (sx_settlement_external_evidence_id e) \<noteq> None
      then Inl (IntegrityError ''settlement_external_evidence.settlement_external_evidence_id'')
      else if get_batch db (sx_settlement_batch_id e) = None
      then Inl (IntegrityError ''settlement_external_evidence.settlement_batch_id'')
      else if list_ex (\<lambda>f. sx_provider_code f = sx_provider_code e \<and>
          sx_provider_reference f = sx_provider_reference e \<and> sx_evidence_type f = sx_evidence_type e)
          (dvalues (sd_external_evidence db))
      then Inl (IntegrityError ''uq_settlement_external_evidence_reference'')
      else Inr (db\<lparr>sd_external_evidence :=
        dset (sx_settlement_external_evidence_id e) e (sd_external_evidence db)\<rparr>, e))"

definition list_external_evidence :: "settlement_db \<Rightarrow> uuid \<Rightarrow> settlement_external_evidence list" where
  "list_external_evidence db k =
     sort_key (\<lambda>e. (sx_recorded_at e, sx_settlement_external_evidence_id e))
       (filter (\<lambda>e. sx_settlement_batch_id e = k) (dvalues (sd_external_evidence db)))"

end
