(* ===== verification/Settlement_Service.thy ===== *)
theory Settlement_Service
  imports Settlement
begin

text \<open>
  The operations of \<open>settlement/application.py\<close>. A run that raises leaves the database unchanged, since its unit
  of work is rolled back: the result is then the exception.
\<close>

section \<open>Guards and texts\<close>

definition require_settlement_permission :: "payment_env \<Rightarrow> subject \<Rightarrow> string \<Rightarrow> unit result" where
  "require_settlement_permission env subject permission =
     ensure (pv_has_permission env (fst subject) permission) (SettlementConflict ''access_denied'')"

definition require_settlement_service :: "subject \<Rightarrow> unit result" where
  "require_settlement_service subject =
     ensure (snd subject = ID_SERVICE) (SettlementConflict ''settlement_service_identity_required'')"

definition validate_settlement_key :: "string \<Rightarrow> unit result" where
  "validate_settlement_key key = ensure (length_between 16 128 key) (SettlementConflict ''idempotency_key_invalid'')"

definition require_settlement_read :: "payment_env \<Rightarrow> subject \<Rightarrow> unit result" where
  "require_settlement_read env subject =
     ensure (pv_has_permission env (fst subject) ''support.settlement.read_status'' \<or>
             pv_has_permission env (fst subject) ''settlement.trace.read'')
       (SettlementConflict ''settlement_status_not_found'')"

fun exception_from_result :: "reconciliation_result \<Rightarrow> reconciliation_exception_type" where
  "exception_from_result RS_MISMATCH = RE_AMOUNT_MISMATCH"
| "exception_from_result RS_MISSING = RE_MISSING_CALLBACK"
| "exception_from_result RS_DUPLICATE = RE_DUPLICATE_PAYMENT"
| "exception_from_result RS_MANUAL_REVIEW_REQUIRED = RE_MANUAL_INVESTIGATION"
| "exception_from_result RS_MATCHED = RE_UNKNOWN_OUTCOME"
| "exception_from_result RS_PARTIALLY_MATCHED = RE_REFUND_MISMATCH"

fun isoformat :: "py_datetime \<Rightarrow> json_value" where
  \<comment> \<open>the text of a naive timestamp has no offset, so it differs from the text of every aware one\<close>
  "isoformat (Aware t) = JTime t"
| "isoformat (Naive t) = JObj [(''naive'', JTime t)]"

fun join_with :: "string \<Rightarrow> string list \<Rightarrow> string" where
  "join_with sep [] = []"
| "join_with sep [s] = s"
| "join_with sep (s # t # ss) = s @ sep @ join_with sep (t # ss)"

definition metadata_text :: "(string, string) dict \<Rightarrow> string" where
  "metadata_text m = join_with ''|'' (map (\<lambda>(key, v). key @ ''='' @ v) (sort_key fst m))"

section \<open>Creating and collecting\<close>

definition new_settlement_batch ::
  "uuid \<Rightarrow> subject \<Rightarrow> (string, string) dict \<Rightarrow> uuid \<Rightarrow> uuid \<Rightarrow> py_datetime \<Rightarrow> settlement_batch" where
  "new_settlement_batch canonical subject metadata_safe correlation_id causation_id at =
     \<lparr>sb_settlement_batch_id = canonical, sb_state = SB_CREATED, sb_created_by_identity_id = fst subject,
      sb_created_at = instant_of at, sb_last_transition_at = instant_of at, sb_ready_for_settlement_at = None,
      sb_metadata_safe = metadata_safe, sb_correlation_id = correlation_id, sb_causation_id = causation_id\<rparr>"

definition create_batch ::
  "payment_env \<Rightarrow> settlement_db \<Rightarrow> subject \<Rightarrow> string \<Rightarrow> uuid \<Rightarrow> uuid \<Rightarrow> py_datetime \<Rightarrow> (string, string) dict \<Rightarrow> uuid \<Rightarrow>
   (settlement_db \<times> settlement_batch) result" where
  "create_batch env db subject key correlation_id causation_id at metadata_safe candidate_id =
     bind_result (require_settlement_permission env subject ''settlement.batch.create'') (\<lambda>_.
     bind_result (require_settlement_service subject) (\<lambda>_.
     bind_result (validate_settlement_key key) (\<lambda>_.
     bind_result (settlement_reserve_idempotency (pv_digest env) db (fst subject) ''settlement.batch.create'' key
         [(''created_at'', isoformat at), (''metadata_safe'', JStr (metadata_text metadata_safe))]
         candidate_id (instant_of at)) (\<lambda>(db1, canonical).
     case get_batch db1 canonical of
       Some existing \<Rightarrow> Inr (db1, existing)
     | None \<Rightarrow>
         bind_result (valid_settlement_batch
             (new_settlement_batch canonical subject metadata_safe correlation_id causation_id at) at)
           (repo_create_batch db1)))))"

record collect_order =
  co_settlement_batch_id :: uuid
  co_ride_id :: uuid
  co_fare_calculation_id :: uuid
  co_payment_intent_id :: uuid
  co_payment_attempt_id :: uuid
  co_ledger_journal_id :: uuid
  co_reconciliation_type :: reconciliation_type
  co_amount_minor :: int
  co_refund_request_id :: "uuid option"
  co_idempotency_key :: string
  co_correlation_id :: uuid
  co_at :: py_datetime

definition collect_payload :: "collect_order \<Rightarrow> payload" where
  "collect_payload q =
     [(''settlement_batch_id'', JUuid (co_settlement_batch_id q)), (''ride_id'', JUuid (co_ride_id q)),
      (''fare_calculation_id'', JUuid (co_fare_calculation_id q)),
      (''payment_intent_id'', JUuid (co_payment_intent_id q)),
      (''payment_attempt_id'', JUuid (co_payment_attempt_id q)),
      (''ledger_journal_id'', JUuid (co_ledger_journal_id q)),
      (''reconciliation_type'', JStr (reconciliation_type_value (co_reconciliation_type q))),
      (''amount_minor'', JIntStr (co_amount_minor q)),
      (''refund_request_id'', case co_refund_request_id q of None \<Rightarrow> JStr [] | Some r \<Rightarrow> JUuid r)]"

text \<open>The batch opens for collecting with its first item.\<close>

definition start_collecting :: "settlement_db \<Rightarrow> collect_order \<Rightarrow> (settlement_db \<times> settlement_batch) result" where
  "start_collecting db q =
     (case get_batch db (co_settlement_batch_id q) of
        None \<Rightarrow> Inl (SettlementConflict ''settlement_batch_not_found'')
      | Some batch \<Rightarrow>
          bind_result
            (if sb_state batch = SB_CREATED
             then transition_batch db (co_settlement_batch_id q) SB_COLLECTING (co_at q) (co_correlation_id q)
                    (co_settlement_batch_id q) ''settlement.collecting.started''
             else Inr (db, batch)) (\<lambda>(db1, batch1).
          if sb_state batch1 \<noteq> SB_COLLECTING then Inl (SettlementConflict ''settlement_batch_not_collecting'')
          else Inr (db1, batch1)))"

text \<open>
  The guards of an item, from the lookups of its intent, attempt, calculation and journal. The check that the
  traceability of the intent is complete cannot fail: those fields of a payment intent are required.
\<close>

definition collect_linkage ::
  "payment_env \<Rightarrow> payment_db \<Rightarrow> collect_order \<Rightarrow> (payment_intent \<times> payment_attempt) result" where
  "collect_linkage env pay q =
     (case (get_intent pay (co_payment_intent_id q), get_attempt pay (co_payment_attempt_id q)) of
        (Some intent, Some attempt) \<Rightarrow>
     (case pv_get_calculation env (co_fare_calculation_id q) of
        None \<Rightarrow> Inl (SettlementConflict ''settlement_fare_not_found'')
      | Some calculation \<Rightarrow>
     (case pv_get_journal env (co_ledger_journal_id q) of
        None \<Rightarrow> Inl (SettlementConflict ''settlement_ledger_not_found'')
      | Some journal \<Rightarrow>
          if pi_ride_id intent \<noteq> co_ride_id q \<or> fc_ride_id calculation \<noteq> co_ride_id q
          then Inl (SettlementConflict ''settlement_linkage_conflict'')
          else if pa_payment_intent_id attempt \<noteq> pi_payment_intent_id intent
          then Inl (SettlementConflict ''settlement_linkage_conflict'')
          else if py_fare_calculation_id (pi_traceability intent) \<noteq> co_fare_calculation_id q
          then Inl (SettlementConflict ''settlement_linkage_conflict'')
          else if py_ledger_journal_id (pi_traceability intent) \<noteq> Some (co_ledger_journal_id q)
          then Inl (SettlementConflict ''settlement_linkage_conflict'')
          else if lj_business_event_id (jr_header journal) \<noteq> fc_calculation_id calculation
          then Inl (SettlementConflict ''settlement_linkage_conflict'')
          else if pa_state attempt \<notin> {PA_CAPTURED, PA_OUTCOME_UNKNOWN}
          then Inl (SettlementConflict ''settlement_payment_not_reconcilable'')
          else Inr (intent, attempt)))
      | _ \<Rightarrow> Inl (SettlementConflict ''settlement_payment_reference_not_found''))"

definition collect_refund_linkage :: "refund_db \<Rightarrow> collect_order \<Rightarrow> unit result" where
  "collect_refund_linkage refunds q =
     (case co_refund_request_id q of
        None \<Rightarrow> Inr ()
      | Some k \<Rightarrow>
     (case get_request refunds k of
        None \<Rightarrow> Inl (SettlementConflict ''settlement_refund_not_found'')
      | Some refund \<Rightarrow>
          ensure (\<not> (rr_ride_id refund \<noteq> co_ride_id q \<or> rr_fare_calculation_id refund \<noteq> co_fare_calculation_id q \<or>
                     rr_payment_intent_id refund \<noteq> co_payment_intent_id q \<or>
                     rr_payment_attempt_id refund \<noteq> co_payment_attempt_id q \<or>
                     rr_ledger_journal_id refund \<noteq> co_ledger_journal_id q))
            (SettlementConflict ''settlement_linkage_conflict'')))"

definition new_settlement_item ::
  "uuid \<Rightarrow> collect_order \<Rightarrow> payment_intent \<Rightarrow> payment_attempt \<Rightarrow> settlement_item" where
  "new_settlement_item canonical q intent attempt =
     \<lparr>si_settlement_item_id = canonical, si_settlement_batch_id = co_settlement_batch_id q,
      si_ride_id = co_ride_id q, si_fare_calculation_id = co_fare_calculation_id q,
      si_payment_intent_id = co_payment_intent_id q, si_payment_attempt_id = co_payment_attempt_id q,
      si_refund_request_id = co_refund_request_id q, si_ledger_journal_id = co_ledger_journal_id q,
      si_reconciliation_type = co_reconciliation_type q, si_amount_minor = co_amount_minor q,
      si_currency = pa_currency attempt,
      si_traceability =
        \<lparr>rct_ride_request_id = py_ride_request_id (pi_traceability intent),
         rct_dispatch_handoff_id = py_dispatch_handoff_id (pi_traceability intent),
         rct_assignment_id = py_assignment_id (pi_traceability intent),
         rct_active_ride_id = py_active_ride_id (pi_traceability intent),
         rct_fare_estimate_id = py_fare_estimate_id (pi_traceability intent),
         rct_fare_calculation_id = py_fare_calculation_id (pi_traceability intent),
         rct_ledger_journal_id = co_ledger_journal_id q\<rparr>,
      si_created_at = instant_of (co_at q)\<rparr>"

definition collect_item ::
  "payment_env \<Rightarrow> payment_db \<Rightarrow> refund_db \<Rightarrow> settlement_db \<Rightarrow> subject \<Rightarrow> collect_order \<Rightarrow> uuid \<Rightarrow>
   (settlement_db \<times> settlement_item) result" where
  "collect_item env pay refunds db subject q candidate_id =
     bind_result (require_settlement_permission env subject ''settlement.collect.run'') (\<lambda>_.
     bind_result (require_settlement_service subject) (\<lambda>_.
     bind_result (validate_settlement_key (co_idempotency_key q)) (\<lambda>_.
     bind_result (settlement_reserve_idempotency (pv_digest env) db (fst subject) ''settlement.item.collect''
         (co_idempotency_key q) (collect_payload q) candidate_id (instant_of (co_at q))) (\<lambda>(db1, canonical).
     case get_item db1 canonical of
       Some existing \<Rightarrow> Inr (db1, existing)
     | None \<Rightarrow>
         bind_result (start_collecting db1 q) (\<lambda>(db2, _).
         bind_result (collect_linkage env pay q) (\<lambda>(intent, attempt).
         bind_result (collect_refund_linkage refunds q) (\<lambda>_.
         bind_result (valid_settlement_item (new_settlement_item canonical q intent attempt) (co_at q))
           (add_item db2))))))))"

section \<open>Reconciling\<close>

record reconcile_order =
  ro_settlement_batch_id :: uuid
  ro_settlement_item_id :: uuid
  ro_result :: reconciliation_result
  ro_reason_code :: string
  ro_idempotency_key :: string
  ro_correlation_id :: uuid
  ro_at :: py_datetime
  ro_decision_safe :: "(string, string) dict"

definition start_reconciling :: "settlement_db \<Rightarrow> reconcile_order \<Rightarrow> (settlement_db \<times> settlement_batch) result" where
  "start_reconciling db q =
     (case get_batch db (ro_settlement_batch_id q) of
        None \<Rightarrow> Inl (SettlementConflict ''settlement_batch_not_found'')
      | Some batch \<Rightarrow>
          bind_result
            (if sb_state batch \<in> {SB_CREATED, SB_COLLECTING}
             then transition_batch db (ro_settlement_batch_id q) SB_RECONCILING (ro_at q) (ro_correlation_id q)
                    (ro_settlement_item_id q) ''settlement.reconciling.started''
             else Inr (db, batch)) (\<lambda>(db1, batch1).
          if sb_state batch1 \<noteq> SB_RECONCILING then Inl (SettlementConflict ''settlement_batch_not_reconciling'')
          else Inr (db1, batch1)))"

definition new_reconciliation_record ::
  "uuid \<Rightarrow> subject \<Rightarrow> reconcile_order \<Rightarrow> settlement_item \<Rightarrow> reconciliation_record" where
  "new_reconciliation_record record_id subject q item =
     \<lparr>rc_reconciliation_record_id = record_id, rc_settlement_batch_id = ro_settlement_batch_id q,
      rc_settlement_item_id = ro_settlement_item_id q, rc_reconciliation_type = si_reconciliation_type item,
      rc_result = ro_result q, rc_reason_code = ro_reason_code q, rc_decision_safe = ro_decision_safe q,
      rc_recorded_by_identity_id = fst subject, rc_recorded_at = instant_of (ro_at q),
      rc_correlation_id = ro_correlation_id q, rc_causation_id = ro_settlement_item_id q\<rparr>"

definition new_reconciliation_exception ::
  "uuid \<Rightarrow> subject \<Rightarrow> uuid \<Rightarrow> uuid \<Rightarrow> reconciliation_exception_type \<Rightarrow> settlement_batch_state \<Rightarrow>
   (string, string) dict \<Rightarrow> string option \<Rightarrow> uuid \<Rightarrow> py_datetime \<Rightarrow> reconciliation_exception" where
  "new_reconciliation_exception exception_id subject batch_id item_id ty st details resolution_code correlation_id at =
     \<lparr>rx_reconciliation_exception_id = exception_id, rx_settlement_batch_id = batch_id,
      rx_settlement_item_id = item_id, rx_exception_type = ty, rx_exception_state = st, rx_details_safe = details,
      rx_raised_by_identity_id = fst subject, rx_raised_at = instant_of at, rx_resolution_code = resolution_code,
      rx_resolved_by_identity_id = (case resolution_code of None \<Rightarrow> None | Some _ \<Rightarrow> Some (fst subject)),
      rx_resolved_at = (case resolution_code of None \<Rightarrow> None | Some _ \<Rightarrow> Some (instant_of at)),
      rx_correlation_id = correlation_id, rx_causation_id = item_id\<rparr>"

text \<open>The constructor of an exception row and its insertion.\<close>

definition raise_exception_row :: "settlement_db \<Rightarrow> reconciliation_exception \<Rightarrow> py_datetime \<Rightarrow> settlement_db result" where
  "raise_exception_row db x at = bind_result (valid_reconciliation_exception x at) (append_exception db)"

definition reconcile_item ::
  "payment_env \<Rightarrow> settlement_db \<Rightarrow> subject \<Rightarrow> reconcile_order \<Rightarrow> uuid \<Rightarrow> uuid \<Rightarrow>
   (settlement_db \<times> reconciliation_record) result" where
  "reconcile_item env db subject q record_id exception_id =
     bind_result (require_settlement_permission env subject ''settlement.reconcile.run'') (\<lambda>_.
     bind_result (require_settlement_service subject) (\<lambda>_.
     bind_result (validate_settlement_key (ro_idempotency_key q)) (\<lambda>_.
     bind_result (settlement_reserve_idempotency (pv_digest env) db (fst subject) ''settlement.item.reconcile''
         (ro_idempotency_key q)
         [(''settlement_batch_id'', JUuid (ro_settlement_batch_id q)),
          (''settlement_item_id'', JUuid (ro_settlement_item_id q)),
          (''result'', JStr (reconciliation_result_value (ro_result q))), (''reason_code'', JStr (ro_reason_code q))]
         (ro_settlement_item_id q) (instant_of (ro_at q))) (\<lambda>(db1, _).
     bind_result (start_reconciling db1 q) (\<lambda>(db2, _).
     case get_item db2 (ro_settlement_item_id q) of
       None \<Rightarrow> Inl (SettlementConflict ''settlement_item_not_found'')
     | Some item \<Rightarrow>
         if si_settlement_batch_id item \<noteq> ro_settlement_batch_id q
         then Inl (SettlementConflict ''settlement_item_not_found'')
         else
           bind_result (valid_reconciliation_record (new_reconciliation_record record_id subject q item) (ro_at q)) (\<lambda>row.
           bind_result (append_reconciliation_record db2 row) (\<lambda>db3.
           if ro_result q \<in> {RS_MISMATCH, RS_MISSING, RS_DUPLICATE, RS_MANUAL_REVIEW_REQUIRED}
           then
             bind_result (raise_exception_row db3
                 (new_reconciliation_exception exception_id subject (ro_settlement_batch_id q)
                   (ro_settlement_item_id q) (exception_from_result (ro_result q)) SB_EXCEPTION
                   [(''reason_code'', ro_reason_code q)] None (ro_correlation_id q) (ro_at q)) (ro_at q)) (\<lambda>db4.
             bind_result (transition_batch db4 (ro_settlement_batch_id q) SB_EXCEPTION (ro_at q)
                 (ro_correlation_id q) (ro_settlement_item_id q) ''settlement.exception.raised'') (\<lambda>(db5, _).
             Inr (db5, row)))
           else Inr (db3, row))))))))"

definition mark_balanced ::
  "payment_env \<Rightarrow> settlement_db \<Rightarrow> subject \<Rightarrow> uuid \<Rightarrow> string \<Rightarrow> string \<Rightarrow> uuid \<Rightarrow> py_datetime \<Rightarrow>
   (settlement_db \<times> settlement_batch) result" where
  "mark_balanced env db subject k reason_code key correlation_id at =
     bind_result (require_settlement_permission env subject ''settlement.reconcile.run'') (\<lambda>_.
     bind_result (require_settlement_service subject) (\<lambda>_.
     bind_result (validate_settlement_key key) (\<lambda>_.
     bind_result (settlement_reserve_idempotency (pv_digest env) db (fst subject) ''settlement.batch.balanced'' key
         [(''settlement_batch_id'', JUuid k), (''reason_code'', JStr reason_code)] k (instant_of at)) (\<lambda>(db1, _).
     case get_batch db1 k of
       None \<Rightarrow> Inl (SettlementConflict ''settlement_batch_not_found'')
     | Some batch \<Rightarrow>
         if sb_state batch \<noteq> SB_RECONCILING then Inl (SettlementConflict ''settlement_batch_not_reconciling'')
         else if list_exceptions db1 k \<noteq> [] then Inl (SettlementConflict ''settlement_batch_has_exceptions'')
         else if list_items db1 k = [] then Inl (SettlementConflict ''settlement_batch_no_items'')
         else transition_batch db1 k SB_BALANCED at correlation_id k reason_code))))"

section \<open>Approving and releasing\<close>

fun actor_type_value :: "identity_type \<Rightarrow> string" where
  \<comment> \<open>the actor type that the validator of \<open>AuthorizationSubject\<close> requires for an identity type\<close>
  "actor_type_value ID_ANONYMOUS = ''anonymous''"
| "actor_type_value ID_RIDER = ''rider''"
| "actor_type_value ID_DRIVER = ''driver''"
| "actor_type_value ID_STAFF = ''staff''"
| "actor_type_value ID_ADMINISTRATOR = ''administrator''"
| "actor_type_value ID_SERVICE = ''service''"
| "actor_type_value ID_MERCHANT = ''service''"
| "actor_type_value ID_SERVICE_PROVIDER = ''service''"

definition new_settlement_approval ::
  "uuid \<Rightarrow> settlement_batch \<Rightarrow> subject \<Rightarrow> uuid \<Rightarrow> approval_decision \<Rightarrow> string \<Rightarrow> uuid \<Rightarrow> py_datetime \<Rightarrow> settlement_approval" where
  "new_settlement_approval approval_id batch subject k decision reason_code correlation_id at =
     \<lparr>sp_settlement_approval_id = approval_id, sp_settlement_batch_id = k, sp_decision = decision,
      sp_reason_code = reason_code, sp_prepared_by_identity_id = sb_created_by_identity_id batch,
      sp_decided_by_identity_id = fst subject, sp_decided_by_actor_type = actor_type_value (snd subject),
      sp_decided_at = instant_of at, sp_correlation_id = correlation_id, sp_causation_id = k\<rparr>"

definition approve_settlement_readiness ::
  "payment_env \<Rightarrow> settlement_db \<Rightarrow> subject \<Rightarrow> uuid \<Rightarrow> string \<Rightarrow> string \<Rightarrow> uuid \<Rightarrow> py_datetime \<Rightarrow> uuid \<Rightarrow>
   (settlement_db \<times> settlement_approval) result" where
  "approve_settlement_readiness env db subject k reason_code key correlation_id at approval_id =
     bind_result (require_settlement_permission env subject ''settlement.ready.approve'') (\<lambda>_.
     bind_result (validate_settlement_key key) (\<lambda>_.
     bind_result (settlement_reserve_idempotency (pv_digest env) db (fst subject) ''settlement.batch.finance_approve'' key
         [(''settlement_batch_id'', JUuid k), (''reason_code'', JStr reason_code)] k (instant_of at)) (\<lambda>(db1, _).
     case get_batch db1 k of
       None \<Rightarrow> Inl (SettlementConflict ''settlement_batch_not_found'')
     | Some batch \<Rightarrow>
         if sb_state batch \<noteq> SB_BALANCED then Inl (SettlementConflict ''settlement_batch_not_balanced'')
         else if snd subject \<notin> {ID_STAFF, ID_ADMINISTRATOR}
         then Inl (SettlementConflict ''settlement_human_approval_required'')
         else if sb_created_by_identity_id batch = fst subject
         then Inl (SettlementConflict ''settlement_maker_checker_required'')
         else
           bind_result (valid_settlement_approval
               (new_settlement_approval approval_id batch subject k AD_APPROVED reason_code correlation_id at) at)
             (append_approval db1))))"

definition reject_settlement_readiness ::
  "payment_env \<Rightarrow> settlement_db \<Rightarrow> subject \<Rightarrow> uuid \<Rightarrow> string \<Rightarrow> string \<Rightarrow> uuid \<Rightarrow> py_datetime \<Rightarrow> uuid \<Rightarrow>
   (settlement_db \<times> settlement_approval) result" where
  "reject_settlement_readiness env db subject k reason_code key correlation_id at approval_id =
     bind_result (require_settlement_permission env subject ''settlement.ready.reject'') (\<lambda>_.
     bind_result (validate_settlement_key key) (\<lambda>_.
     bind_result (settlement_reserve_idempotency (pv_digest env) db (fst subject) ''settlement.batch.finance_reject'' key
         [(''settlement_batch_id'', JUuid k), (''reason_code'', JStr reason_code)] k (instant_of at)) (\<lambda>(db1, _).
     case get_batch db1 k of
       None \<Rightarrow> Inl (SettlementConflict ''settlement_batch_not_found'')
     | Some batch \<Rightarrow>
         if snd subject \<notin> {ID_STAFF, ID_ADMINISTRATOR}
         then Inl (SettlementConflict ''settlement_human_approval_required'')
         else if sb_created_by_identity_id batch = fst subject
         then Inl (SettlementConflict ''settlement_maker_checker_required'')
         else
           bind_result (valid_settlement_approval
               (new_settlement_approval approval_id batch subject k AD_REJECTED reason_code correlation_id at) at)
             (append_approval db1))))"

text \<open>The latest hold of the batch that is still open.\<close>

definition hold_blocks :: "financial_hold_state \<Rightarrow> bool" where
  "hold_blocks s \<longleftrightarrow> s \<in> {FH_CREATED, FH_ACTIVE, FH_UNDER_REVIEW, FH_ESCALATED}"

definition blocking_hold :: "hold_db \<Rightarrow> uuid \<Rightarrow> financial_hold option" where
  "blocking_hold holds k =
     find (\<lambda>h. hold_blocks (fh_state h)) (rev (list_holds_for_source holds HS_SETTLEMENT_BATCH k))"

definition new_hold_evidence ::
  "uuid \<Rightarrow> subject \<Rightarrow> uuid \<Rightarrow> financial_hold option \<Rightarrow> uuid \<Rightarrow> py_datetime \<Rightarrow> settlement_hold_evidence" where
  "new_hold_evidence evidence_id subject k blocking correlation_id at =
     \<lparr>se_settlement_hold_evidence_id = evidence_id, se_settlement_batch_id = k,
      se_financial_hold_id = (case blocking of None \<Rightarrow> None | Some h \<Rightarrow> Some (fh_hold_id h)),
      se_hold_state = (case blocking of None \<Rightarrow> ''none'' | Some h \<Rightarrow> hold_state_value (fh_state h)),
      se_blocks_readiness = (blocking \<noteq> None), se_evaluated_by_identity_id = fst subject,
      se_evaluated_at = instant_of at, se_correlation_id = correlation_id, se_causation_id = k\<rparr>"

definition mark_ready_for_settlement ::
  "payment_env \<Rightarrow> hold_db \<Rightarrow> settlement_db \<Rightarrow> subject \<Rightarrow> uuid \<Rightarrow> string \<Rightarrow> string \<Rightarrow> uuid \<Rightarrow> py_datetime \<Rightarrow> uuid \<Rightarrow>
   (settlement_db \<times> settlement_batch) result" where
  "mark_ready_for_settlement env holds db subject k reason_code key correlation_id at evidence_id =
     bind_result (require_settlement_permission env subject ''settlement.reconcile.run'') (\<lambda>_.
     bind_result (require_settlement_service subject) (\<lambda>_.
     bind_result (validate_settlement_key key) (\<lambda>_.
     bind_result (settlement_reserve_idempotency (pv_digest env) db (fst subject) ''settlement.batch.ready'' key
         [(''settlement_batch_id'', JUuid k), (''reason_code'', JStr reason_code)] k (instant_of at)) (\<lambda>(db1, _).
     case get_batch db1 k of
       None \<Rightarrow> Inl (SettlementConflict ''settlement_batch_not_found'')
     | Some batch \<Rightarrow>
         if sb_state batch \<noteq> SB_BALANCED then Inl (SettlementConflict ''settlement_batch_not_balanced'')
         else if list_approvals db1 k = [] \<or> sp_decision (last (list_approvals db1 k)) \<noteq> AD_APPROVED
         then Inl (SettlementConflict ''settlement_finance_approval_required'')
         else
           let blocking = blocking_hold holds k in
           bind_result (valid_hold_evidence (new_hold_evidence evidence_id subject k blocking correlation_id at) at)
             (\<lambda>evidence.
           bind_result (append_hold_evidence db1 evidence) (\<lambda>db2.
           if blocking \<noteq> None then Inl (SettlementConflict ''settlement_blocked_by_financial_hold'')
           else transition_batch db2 k SB_READY_FOR_SETTLEMENT at correlation_id k reason_code))))))"

section \<open>Exceptions and evidence\<close>

definition investigate_exception ::
  "payment_env \<Rightarrow> settlement_db \<Rightarrow> subject \<Rightarrow> uuid \<Rightarrow> uuid \<Rightarrow> reconciliation_exception_type \<Rightarrow> string \<Rightarrow> string \<Rightarrow> uuid \<Rightarrow>
   py_datetime \<Rightarrow> uuid \<Rightarrow> (settlement_db \<times> settlement_batch) result" where
  "investigate_exception env db subject k item_id exception_type reason_code key correlation_id at exception_id =
     bind_result (require_settlement_permission env subject ''settlement.exception.investigate'') (\<lambda>_.
     bind_result (validate_settlement_key key) (\<lambda>_.
     bind_result (settlement_reserve_idempotency (pv_digest env) db (fst subject) ''settlement.exception.investigate'' key
         [(''settlement_batch_id'', JUuid k), (''settlement_item_id'', JUuid item_id),
          (''exception_type'', JStr (exception_type_value exception_type)), (''reason_code'', JStr reason_code)]
         k (instant_of at)) (\<lambda>(db1, _).
     case get_batch db1 k of
       None \<Rightarrow> Inl (SettlementConflict ''settlement_batch_not_found'')
     | Some batch \<Rightarrow>
         if sb_state batch \<noteq> SB_EXCEPTION then Inl (SettlementConflict ''settlement_batch_not_exception'')
         else
           bind_result (raise_exception_row db1
               (new_reconciliation_exception exception_id subject k item_id exception_type SB_MANUAL_REVIEW
                 [(''reason_code'', reason_code)] None correlation_id at) at) (\<lambda>db2.
           transition_batch db2 k SB_MANUAL_REVIEW at correlation_id item_id reason_code))))"

definition resolve_exception ::
  "payment_env \<Rightarrow> settlement_db \<Rightarrow> subject \<Rightarrow> uuid \<Rightarrow> uuid \<Rightarrow> string \<Rightarrow> string \<Rightarrow> uuid \<Rightarrow> py_datetime \<Rightarrow> uuid \<Rightarrow>
   (settlement_db \<times> settlement_batch) result" where
  "resolve_exception env db subject k item_id resolution_code key correlation_id at exception_id =
     bind_result (require_settlement_permission env subject ''settlement.exception.investigate'') (\<lambda>_.
     bind_result (validate_settlement_key key) (\<lambda>_.
     bind_result (settlement_reserve_idempotency (pv_digest env) db (fst subject) ''settlement.exception.resolve'' key
         [(''settlement_batch_id'', JUuid k), (''settlement_item_id'', JUuid item_id),
          (''resolution_code'', JStr resolution_code)] k (instant_of at)) (\<lambda>(db1, _).
     case get_batch db1 k of
       None \<Rightarrow> Inl (SettlementConflict ''settlement_batch_not_found'')
     | Some batch \<Rightarrow>
         if sb_state batch \<noteq> SB_MANUAL_REVIEW then Inl (SettlementConflict ''settlement_batch_not_manual_review'')
         else
           bind_result (raise_exception_row db1
               (new_reconciliation_exception exception_id subject k item_id RE_MANUAL_INVESTIGATION SB_RESOLVED
                 [(''resolution_code'', resolution_code)] (Some resolution_code) correlation_id at) at) (\<lambda>db2.
           transition_batch db2 k SB_RESOLVED at correlation_id item_id resolution_code))))"

record evidence_order =
  eo_settlement_batch_id :: uuid
  eo_evidence_type :: evidence_type
  eo_provider_code :: string
  eo_provider_reference :: string
  eo_evidence_fingerprint :: string
  eo_idempotency_key :: string
  eo_correlation_id :: uuid
  eo_at :: py_datetime

definition new_external_evidence :: "uuid \<Rightarrow> subject \<Rightarrow> evidence_order \<Rightarrow> settlement_external_evidence" where
  "new_external_evidence evidence_id subject q =
     \<lparr>sx_settlement_external_evidence_id = evidence_id, sx_settlement_batch_id = eo_settlement_batch_id q,
      sx_evidence_type = eo_evidence_type q, sx_provider_code = eo_provider_code q,
      sx_provider_reference = eo_provider_reference q, sx_evidence_fingerprint = eo_evidence_fingerprint q,
      sx_recorded_by_identity_id = fst subject, sx_recorded_at = instant_of (eo_at q),
      sx_correlation_id = eo_correlation_id q, sx_causation_id = eo_settlement_batch_id q\<rparr>"

definition record_external_evidence ::
  "payment_env \<Rightarrow> settlement_db \<Rightarrow> subject \<Rightarrow> evidence_order \<Rightarrow> uuid \<Rightarrow>
   (settlement_db \<times> settlement_external_evidence) result" where
  "record_external_evidence env db subject q evidence_id =
     bind_result (require_settlement_permission env subject ''settlement.evidence.record'') (\<lambda>_.
     bind_result (require_settlement_service subject) (\<lambda>_.
     bind_result (validate_settlement_key (eo_idempotency_key q)) (\<lambda>_.
     bind_result (settlement_reserve_idempotency (pv_digest env) db (fst subject)
         (''settlement.evidence.'' @ evidence_type_value (eo_evidence_type q)) (eo_idempotency_key q)
         [(''settlement_batch_id'', JUuid (eo_settlement_batch_id q)), (''provider_code'', JStr (eo_provider_code q)),
          (''provider_reference'', JStr (eo_provider_reference q)),
          (''evidence_fingerprint'', JStr (eo_evidence_fingerprint q))]
         (eo_settlement_batch_id q) (instant_of (eo_at q))) (\<lambda>(db1, _).
     case get_batch db1 (eo_settlement_batch_id q) of
       None \<Rightarrow> Inl (SettlementConflict ''settlement_batch_not_found'')
     | Some batch \<Rightarrow>
         if eo_evidence_type q = EV_CONFIRMATION \<and>
            \<not> list_ex (\<lambda>e. sx_evidence_type e = EV_SUBMISSION \<and> sx_provider_code e = eo_provider_code q)
                (list_external_evidence db1 (eo_settlement_batch_id q))
         then Inl (SettlementConflict ''settlement_submission_evidence_required'')
         else
           bind_result (valid_external_evidence (new_external_evidence evidence_id subject q) (eo_at q))
             (append_external_evidence db1)))))"

type_synonym settlement_status =
  "settlement_batch \<times> settlement_item list \<times> reconciliation_record list \<times> reconciliation_exception list \<times>
   settlement_approval list \<times> settlement_hold_evidence list \<times> settlement_external_evidence list"

definition settlement_status :: "payment_env \<Rightarrow> settlement_db \<Rightarrow> subject \<Rightarrow> uuid \<Rightarrow> settlement_status result" where
  "settlement_status env db subject k =
     (case get_batch db k of
        None \<Rightarrow> Inl (SettlementConflict ''settlement_batch_not_found'')
      | Some batch \<Rightarrow>
          bind_result (require_settlement_read env subject) (\<lambda>_.
          Inr (batch, list_items db k, list_reconciliation_records db k, list_exceptions db k, list_approvals db k,
               list_hold_evidence db k, list_external_evidence db k)))"

end
