(* ===== verification/Financial_Hold_Inv.thy ===== *)
theory Financial_Hold_Inv
  imports Financial_Hold
begin

text \<open>
  What the state history of a financial hold promises: the rows of a hold, in the order in which they were
  inserted, are a legal history of its state machine that starts with its creation and ends in its stored state.
\<close>

section \<open>Rows and chains\<close>

definition hold_rows :: "hold_db \<Rightarrow> uuid \<Rightarrow> hold_history list" where
  "hold_rows db k = filter (\<lambda>r. hh_hold_id r = k) (dvalues (hd_history db))"

fun chained :: "financial_hold_state option \<Rightarrow> hold_history list \<Rightarrow> bool" where
  "chained p [] = True"
| "chained p (r # rs) =
     (hh_from_state r = p \<and>
      (case p of None \<Rightarrow> hh_to_state r = FH_CREATED | Some s \<Rightarrow> allows ALLOWED_HOLD_TRANSITIONS s (hh_to_state r)) \<and>
      chained (Some (hh_to_state r)) rs)"

lemma chained_snoc:
  "chained p (rs @ [r]) \<longleftrightarrow> chained p rs \<and> chained (if rs = [] then p else Some (hh_to_state (last rs))) [r]"
  by (induction rs arbitrary: p) auto

lemma chained_history:
  "chained (Some s) rs \<Longrightarrow> legal_history ALLOWED_HOLD_TRANSITIONS s (map hh_to_state rs)"
  by (induction rs arbitrary: s) auto

definition hold_ok :: "hold_db \<Rightarrow> uuid \<Rightarrow> financial_hold \<Rightarrow> bool" where
  "hold_ok db k h \<longleftrightarrow>
     fh_hold_id h = k \<and> allowed_source_type (fh_hold_type h) = fh_source_type h \<and> hold_rows db k \<noteq> [] \<and>
     chained None (hold_rows db k) \<and> fh_state h = hh_to_state (last (hold_rows db k)) \<and>
     fh_updated_at h = hh_changed_at (last (hold_rows db k)) \<and> fh_created_at h = hh_changed_at (hd (hold_rows db k)) \<and>
     fh_created_at h \<le> fh_updated_at h"

definition hold_inv :: "hold_db \<Rightarrow> bool" where
  "hold_inv db \<longleftrightarrow>
     (\<forall>k h. dget (hd_holds db) k = Some h \<longrightarrow> hold_ok db k h) \<and>
     (\<forall>r \<in> set (dvalues (hd_history db)). dget (hd_holds db) (hh_hold_id r) \<noteq> None)"

lemma hold_invD: "hold_inv db \<Longrightarrow> dget (hd_holds db) k = Some h \<Longrightarrow> hold_ok db k h"
  unfolding hold_inv_def by blast

lemma hold_inv_unknown: "hold_inv db \<Longrightarrow> dget (hd_holds db) k = None \<Longrightarrow> hold_rows db k = []"
  unfolding hold_inv_def hold_rows_def by (fastforce simp: filter_empty_conv)

lemma hold_inv_cong:
  assumes "hd_holds db' = hd_holds db" and "hd_history db' = hd_history db"
  shows "hold_inv db' \<longleftrightarrow> hold_inv db"
  unfolding hold_inv_def hold_ok_def hold_rows_def assms ..

section \<open>The effect of an operation\<close>

text \<open>A step leaves holds and history alone, creates a hold, or moves one; with the row that records it.\<close>

inductive hold_effect :: "hold_db \<Rightarrow> hold_db \<Rightarrow> bool" where
  nothing: "hd_holds db' = hd_holds db \<Longrightarrow> hd_history db' = hd_history db \<Longrightarrow> hold_effect db db'"
| made: "dget (hd_holds db) k = None \<Longrightarrow> fh_hold_id h = k \<Longrightarrow> fh_state h = FH_CREATED \<Longrightarrow>
    allowed_source_type (fh_hold_type h) = fh_source_type h \<Longrightarrow> fh_updated_at h = fh_created_at h \<Longrightarrow>
    hh_hold_id r = k \<Longrightarrow> hh_from_state r = None \<Longrightarrow> hh_to_state r = FH_CREATED \<Longrightarrow>
    hh_changed_at r = fh_created_at h \<Longrightarrow> hd_holds db' = dset k h (hd_holds db) \<Longrightarrow>
    dvalues (hd_history db') = dvalues (hd_history db) @ [r] \<Longrightarrow> hold_effect db db'"
| moved: "dget (hd_holds db) k = Some h \<Longrightarrow> allows ALLOWED_HOLD_TRANSITIONS (fh_state h) t \<Longrightarrow>
    fh_created_at h \<le> hh_changed_at r \<Longrightarrow>
    hh_hold_id r = k \<Longrightarrow> hh_from_state r = Some (fh_state h) \<Longrightarrow> hh_to_state r = t \<Longrightarrow>
    hd_holds db' = dset k (h\<lparr>fh_state := t, fh_updated_at := hh_changed_at r\<rparr>) (hd_holds db) \<Longrightarrow>
    dvalues (hd_history db') = dvalues (hd_history db) @ [r] \<Longrightarrow> hold_effect db db'"

lemma hold_effect_inv:
  assumes "hold_effect db db'" and inv: "hold_inv db"
  shows "hold_inv db'"
  using assms(1)
proof cases
  case nothing
  then show ?thesis using inv hold_inv_cong by blast
next
  case (made k h r)
  have none: "hold_rows db k = []" using hold_inv_unknown [OF inv made(1)] .
  have rows: "hold_rows db' l = hold_rows db l @ (if l = k then [r] else [])" for l
    using made by (simp add: hold_rows_def)
  have "hold_ok db' k h" using made none by (simp add: hold_ok_def rows)
  moreover have "hold_ok db' l x" if "l \<noteq> k" "dget (hd_holds db) l = Some x" for l x
    using hold_invD [OF inv that(2)] that(1) by (simp add: hold_ok_def rows)
  ultimately show ?thesis using inv made unfolding hold_inv_def by auto
next
  case (moved k h t r)
  have old: "hold_ok db k h" using hold_invD [OF inv moved(1)] .
  have rows: "hold_rows db' l = hold_rows db l @ (if l = k then [r] else [])" for l
    using moved by (simp add: hold_rows_def)
  have "hold_ok db' k (h\<lparr>fh_state := t, fh_updated_at := hh_changed_at r\<rparr>)"
    using moved old by (auto simp: hold_ok_def rows chained_snoc)
  moreover have "hold_ok db' l x" if "l \<noteq> k" "dget (hd_holds db) l = Some x" for l x
    using hold_invD [OF inv that(2)] that(1) by (simp add: hold_ok_def rows)
  ultimately show ?thesis using inv moved unfolding hold_inv_def by auto
qed

section \<open>The operations\<close>

lemma hold_reserve_ok:
  assumes "hold_reserve_idempotency h db s oper key pl ref at = Inr (db', r)"
  shows "hd_holds db' = hd_holds db" and "hd_history db' = hd_history db"
  using assms by (auto simp: hold_reserve_idempotency_def bind_result_eq_Inr)

lemma hold_event_append_simps [simp]:
  "hd_holds (hold_event_append k et at c d pl db) = hd_holds db"
  "hd_history (hold_event_append k et at c d pl db) = hd_history db"
  by (simp_all add: hold_event_append_def)

lemma insert_history_ok:
  assumes "insert_history db r = Inr db'"
  shows "hd_holds db' = hd_holds db" and "dvalues (hd_history db') = dvalues (hd_history db) @ [r]"
  using assms unfolding insert_history_def by (elim ok_elims; auto simp: dvalues_dset_new)+

lemma valid_financial_hold_ok: "valid_financial_hold h = Inr h' \<longleftrightarrow> h' = h \<and> fh_created_at h \<le> fh_updated_at h"
  by (auto simp: valid_financial_hold_def)

lemma new_financial_hold_fields [simp]:
  "fh_hold_id (new_financial_hold s c k) = k" "fh_state (new_financial_hold s c k) = FH_CREATED"
  "fh_hold_type (new_financial_hold s c k) = hc_hold_type c"
  "fh_source_type (new_financial_hold s c k) = hc_source_type c"
  "fh_source_id (new_financial_hold s c k) = hc_source_id c"
  "fh_created_at (new_financial_hold s c k) = hc_occurred_at c"
  "fh_updated_at (new_financial_hold s c k) = hc_occurred_at c"
  "hh_hold_id (initial_hold_history s c k j) = k" "hh_from_state (initial_hold_history s c k j) = None"
  "hh_to_state (initial_hold_history s c k j) = FH_CREATED"
  "hh_changed_at (initial_hold_history s c k j) = hc_occurred_at c"
  by (simp_all add: new_financial_hold_def initial_hold_history_def)

lemma hold_step_history_fields [simp]:
  "hh_hold_id (hold_step_history s h c j) = fh_hold_id h"
  "hh_from_state (hold_step_history s h c j) = Some (fh_state h)"
  "hh_to_state (hold_step_history s h c j) = ht_target_state c"
  "hh_changed_at (hold_step_history s h c j) = ht_occurred_at c"
  by (simp_all add: hold_step_history_def)

lemma create_hold_effect:
  assumes "create_hold env src db s c cid hid = Inr (db', res)"
  shows "hold_effect db db'"
  using assms unfolding create_hold_def repo_create_hold_def assert_type_source_compatibility_def
  apply (elim ok_elims)
  subgoal premises prems for _ _ _ _ _ db1 canonical _ _ _ _ db3
  proof -
    note same = hold_reserve_ok [OF prems(5) [unfolded prems(6)]] and row = insert_history_ok [OF prems(13)]
    show ?thesis
      using prems(3,7-12,14) same row
      by (intro hold_effect.made [of db canonical "new_financial_hold s c canonical" "initial_hold_history s c canonical hid"])
        (auto simp: get_hold_def valid_financial_hold_ok)
  qed
  subgoal by (rule hold_effect.nothing) (auto simp: hold_reserve_ok)
  done

lemma repo_transition_hold_ok:
  assumes "repo_transition_hold db k t at r = Inr (db', h')"
  obtains h where "dget (hd_holds db) k = Some h" and "h' = h\<lparr>fh_state := t, fh_updated_at := at\<rparr>"
    and "fh_created_at h \<le> at" and "hd_holds db' = dset k h' (hd_holds db)"
    and "dvalues (hd_history db') = dvalues (hd_history db) @ [r]"
  using assms unfolding repo_transition_hold_def
  apply (elim ok_elims)
  subgoal premises prems for h db1 _
    using prems(2-) insert_history_ok [of _ r db1]
    by (intro prems(1) [of h]) (auto simp: valid_financial_hold_ok)
  done

lemma transition_hold_effect:
  assumes inv: "hold_inv db" and run: "transition_hold env db s k c hid = Inr (db', res)"
  shows "hold_effect db db'"
  using run unfolding transition_hold_def
  apply (elim ok_elims)
  subgoal by (rule hold_effect.nothing) (auto simp: hold_reserve_ok)
  subgoal premises prems for _ _ _ _ db1 canonical h _ _ db2 h'
  proof -
    have same: "hd_holds db1 = hd_holds db" "hd_history db1 = hd_history db"
      using hold_reserve_ok [OF prems(4) [unfolded prems(5)]] by simp_all
    have h: "dget (hd_holds db) k = Some h" using prems(7) same by (simp add: get_hold_def)
    then have id: "fh_hold_id h = k" using hold_invD [OF inv] unfolding hold_ok_def by blast
    have "allows ALLOWED_HOLD_TRANSITIONS (fh_state h) (ht_target_state c)"
      using prems(8,9) by (simp add: financial_hold.guard_ok)
    moreover obtain h0 where "dget (hd_holds db1) k = Some h0" "h' = h0\<lparr>fh_state := ht_target_state c, fh_updated_at := ht_occurred_at c\<rparr>"
      "fh_created_at h0 \<le> ht_occurred_at c" "hd_holds db2 = dset k h' (hd_holds db1)"
      "dvalues (hd_history db2) = dvalues (hd_history db1) @ [hold_step_history s h c hid]"
      using repo_transition_hold_ok [OF prems(10) [unfolded prems(11) id]] by blast
    ultimately show ?thesis
      using prems(12) h id same
      by (intro hold_effect.moved [of db k h "ht_target_state c" "hold_step_history s h c hid"]) auto
  qed
  done

inductive hold_step :: "hold_sources \<Rightarrow> hold_db \<Rightarrow> hold_db \<Rightarrow> bool" for src where
  create: "create_hold env src db s c cid hid = Inr (db', res) \<Longrightarrow> hold_step src db db'"
| transition: "transition_hold env db s k c hid = Inr (db', res) \<Longrightarrow> hold_step src db db'"

definition empty_holds :: hold_db where
  "empty_holds = \<lparr>hd_holds = [], hd_history = [], hd_idempotency = [], hd_events = [], hd_outbox = []\<rparr>"

lemma empty_holds_inv: "hold_inv empty_holds"
  by (simp add: hold_inv_def empty_holds_def dvalues_def)

lemma hold_step_effect: "hold_step src db db' \<Longrightarrow> hold_inv db \<Longrightarrow> hold_effect db db'"
  by (induction rule: hold_step.induct) (auto intro: create_hold_effect transition_hold_effect)

lemma hold_step_inv: "hold_step src db db' \<Longrightarrow> hold_inv db \<Longrightarrow> hold_inv db'"
  using hold_step_effect hold_effect_inv by blast

text \<open>The source of a hold never changes; a released, expired or cancelled hold keeps its state.\<close>

lemma hold_step_follows:
  assumes "hold_step src db db'" and "hold_inv db" and "dget (hd_holds db) k = Some h"
  shows "\<exists>h'. dget (hd_holds db') k = Some h' \<and> fh_source_type h' = fh_source_type h \<and>
    fh_source_id h' = fh_source_id h \<and> leads_to ALLOWED_HOLD_TRANSITIONS (fh_state h) (fh_state h')"
  using hold_step_effect [OF assms(1,2)] assms(3)
  by cases (auto intro: leads_to.intros)

end
