(* ===== verification/Settlement_Inv.thy ===== *)
theory Settlement_Inv
  imports Settlement_Service Financial_Hold_Inv Refund_Props
begin

text \<open>
  What the settlement service keeps of its tables, and the composition of payments, refunds, holds and
  settlements: one step of any of the four services is a step of the whole.
\<close>

section \<open>The effect of an operation on the tables\<close>

abbreviation item_rows :: "settlement_db \<Rightarrow> settlement_item list" where
  "item_rows s \<equiv> dvalues (sd_items s)"
abbreviation exception_rows :: "settlement_db \<Rightarrow> reconciliation_exception list" where
  "exception_rows s \<equiv> dvalues (sd_exceptions s)"
abbreviation approval_rows :: "settlement_db \<Rightarrow> settlement_approval list" where
  "approval_rows s \<equiv> dvalues (sd_approvals s)"
abbreviation hold_evidence_rows :: "settlement_db \<Rightarrow> settlement_hold_evidence list" where
  "hold_evidence_rows s \<equiv> dvalues (sd_hold_evidence s)"
abbreviation external_rows :: "settlement_db \<Rightarrow> settlement_external_evidence list" where
  "external_rows s \<equiv> dvalues (sd_external_evidence s)"

definition settlement_rows where
  "settlement_rows s = (item_rows s, exception_rows s, approval_rows s, hold_evidence_rows s, external_rows s)"

lemma settlement_rows_eq:
  "settlement_rows s' = (is, xs, aps, hs, es) \<longleftrightarrow>
     item_rows s' = is \<and> exception_rows s' = xs \<and> approval_rows s' = aps \<and> hold_evidence_rows s' = hs \<and>
     external_rows s' = es"
  by (auto simp: settlement_rows_def)

definition batch_move :: "settlement_batch \<Rightarrow> settlement_batch_state \<Rightarrow> instant \<Rightarrow> settlement_batch" where
  "batch_move b t at = b\<lparr>sb_state := t, sb_last_transition_at := at,
     sb_ready_for_settlement_at := (if t = SB_READY_FOR_SETTLEMENT then Some at else sb_ready_for_settlement_at b)\<rparr>"

lemma batch_move_simps [simp]:
  "sb_state (batch_move b t at) = t"
  "sb_settlement_batch_id (batch_move b t at) = sb_settlement_batch_id b"
  "sb_created_by_identity_id (batch_move b t at) = sb_created_by_identity_id b"
  "sb_created_at (batch_move b t at) = sb_created_at b"
  "sb_ready_for_settlement_at (batch_move b t at) =
     (if t = SB_READY_FOR_SETTLEMENT then Some at else sb_ready_for_settlement_at b)"
  by (simp_all add: batch_move_def)

definition same_batch :: "settlement_batch \<Rightarrow> settlement_batch \<Rightarrow> bool" where
  "same_batch b b' \<longleftrightarrow> sb_settlement_batch_id b' = sb_settlement_batch_id b \<and>
     sb_created_by_identity_id b' = sb_created_by_identity_id b \<and>
     sb_ready_for_settlement_at b' = sb_ready_for_settlement_at b"

definition item_linked :: "payment_db \<Rightarrow> refund_db \<Rightarrow> settlement_item \<Rightarrow> bool" where
  "item_linked pay refunds i \<longleftrightarrow>
     (\<exists>a. dget (pd_attempts pay) (si_payment_attempt_id i) = Some a \<and>
        pa_payment_intent_id a = si_payment_intent_id i \<and> pa_currency a = si_currency i \<and>
        (leads_to ALLOWED_ATTEMPT_TRANSITIONS PA_CAPTURED (pa_state a) \<or>
         leads_to ALLOWED_ATTEMPT_TRANSITIONS PA_OUTCOME_UNKNOWN (pa_state a))) \<and>
     (\<exists>n. dget (pd_intents pay) (si_payment_intent_id i) = Some n \<and> pi_ride_id n = si_ride_id i) \<and>
     (\<forall>k. si_refund_request_id i = Some k \<longrightarrow>
        (\<exists>r. dget (rf_requests refunds) k = Some r \<and> rr_payment_attempt_id r = si_payment_attempt_id i \<and>
           rr_payment_intent_id r = si_payment_intent_id i))"

definition approval_ok :: "uuid \<Rightarrow> settlement_approval \<Rightarrow> bool" where
  "approval_ok creator a \<longleftrightarrow> sp_prepared_by_identity_id a = creator \<and> sp_decided_by_identity_id a \<noteq> creator \<and>
     sp_decided_by_actor_type a \<in> {''staff'', ''administrator''}"

text \<open>
  Every operation does one of the following: it leaves the rows alone; creates a batch; adds an item and opens the
  batch; starts the reconciliation, with or without an exception; closes the reconciliation; records an
  approval or external evidence; releases the batch, whose holds are then closed; or takes an exception one step further.
\<close>

inductive settlement_effect :: "payment_db \<Rightarrow> refund_db \<Rightarrow> hold_db \<Rightarrow> settlement_db \<Rightarrow> settlement_db \<Rightarrow> bool"
  for pay refunds holds where
  nothing: "sd_batches s' = sd_batches s \<Longrightarrow> settlement_rows s' = settlement_rows s \<Longrightarrow> settlement_effect pay refunds holds s s'"
| batch: "dget (sd_batches s) k = None \<Longrightarrow> sb_settlement_batch_id b = k \<Longrightarrow> sb_state b = SB_CREATED \<Longrightarrow>
    sb_ready_for_settlement_at b = None \<Longrightarrow> sd_batches s' = dset k b (sd_batches s) \<Longrightarrow>
    settlement_rows s' = settlement_rows s \<Longrightarrow> settlement_effect pay refunds holds s s'"
| item: "dget (sd_batches s) k = Some b \<Longrightarrow> sb_state b \<in> {SB_CREATED, SB_COLLECTING} \<Longrightarrow>
    si_settlement_batch_id i = k \<Longrightarrow> item_linked pay refunds i \<Longrightarrow>
    same_batch b b' \<Longrightarrow> sb_state b' = SB_COLLECTING \<Longrightarrow>
    dget (sd_batches s') = (dget (sd_batches s))(k \<mapsto> b') \<Longrightarrow>
    settlement_rows s' = (item_rows s @ [i], exception_rows s, approval_rows s, hold_evidence_rows s, external_rows s) \<Longrightarrow>
    settlement_effect pay refunds holds s s'"
| recorded: "dget (sd_batches s) k = Some b \<Longrightarrow> sb_state b \<in> {SB_CREATED, SB_COLLECTING, SB_RECONCILING} \<Longrightarrow>
    same_batch b b' \<Longrightarrow> sb_state b' = SB_RECONCILING \<Longrightarrow>
    dget (sd_batches s') = (dget (sd_batches s))(k \<mapsto> b') \<Longrightarrow>
    settlement_rows s' = settlement_rows s \<Longrightarrow> settlement_effect pay refunds holds s s'"
| excepted: "dget (sd_batches s) k = Some b \<Longrightarrow>
    (sb_state b, t) \<in> {(SB_CREATED, SB_EXCEPTION), (SB_COLLECTING, SB_EXCEPTION), (SB_RECONCILING, SB_EXCEPTION),
      (SB_EXCEPTION, SB_MANUAL_REVIEW), (SB_MANUAL_REVIEW, SB_RESOLVED)} \<Longrightarrow>
    same_batch b b' \<Longrightarrow> sb_state b' = t \<Longrightarrow> dget (sd_batches s') = (dget (sd_batches s))(k \<mapsto> b') \<Longrightarrow>
    rx_settlement_batch_id x = k \<Longrightarrow>
    settlement_rows s' = (item_rows s, exception_rows s @ [x], approval_rows s, hold_evidence_rows s, external_rows s) \<Longrightarrow>
    settlement_effect pay refunds holds s s'"
| balanced: "dget (sd_batches s) k = Some b \<Longrightarrow> sb_state b = SB_RECONCILING \<Longrightarrow> list_exceptions s k = [] \<Longrightarrow>
    list_items s k \<noteq> [] \<Longrightarrow> dget (sd_batches s') = (dget (sd_batches s))(k \<mapsto> batch_move b SB_BALANCED at) \<Longrightarrow>
    settlement_rows s' = settlement_rows s \<Longrightarrow> settlement_effect pay refunds holds s s'"
| approval: "dget (sd_batches s) k = Some b \<Longrightarrow> sp_settlement_batch_id a = k \<Longrightarrow> approval_ok (sb_created_by_identity_id b) a \<Longrightarrow>
    sd_batches s' = sd_batches s \<Longrightarrow>
    settlement_rows s' = (item_rows s, exception_rows s, approval_rows s @ [a], hold_evidence_rows s, external_rows s) \<Longrightarrow>
    settlement_effect pay refunds holds s s'"
| ready: "dget (sd_batches s) k = Some b \<Longrightarrow> sb_state b = SB_BALANCED \<Longrightarrow> list_approvals s k \<noteq> [] \<Longrightarrow>
    sp_decision (last (list_approvals s k)) = AD_APPROVED \<Longrightarrow> se_settlement_batch_id e = k \<Longrightarrow>
    \<not> se_blocks_readiness e \<Longrightarrow> se_evaluated_at e = at \<Longrightarrow>
    dget (sd_batches s') = (dget (sd_batches s))(k \<mapsto> batch_move b SB_READY_FOR_SETTLEMENT at) \<Longrightarrow>
    settlement_rows s' = (item_rows s, exception_rows s, approval_rows s, hold_evidence_rows s @ [e], external_rows s) \<Longrightarrow>
    blocking_hold holds k = None \<Longrightarrow> settlement_effect pay refunds holds s s'"
| external: "sd_batches s' = sd_batches s \<Longrightarrow> dget (sd_batches s) (sx_settlement_batch_id e) \<noteq> None \<Longrightarrow>
    (sx_evidence_type e = EV_CONFIRMATION \<longrightarrow> (\<exists>f \<in> set (external_rows s). sx_evidence_type f = EV_SUBMISSION \<and>
       sx_provider_code f = sx_provider_code e \<and> sx_settlement_batch_id f = sx_settlement_batch_id e)) \<Longrightarrow>
    settlement_rows s' = (item_rows s, exception_rows s, approval_rows s, hold_evidence_rows s, external_rows s @ [e]) \<Longrightarrow>
    settlement_effect pay refunds holds s s'"

section \<open>The invariant\<close>

definition has_exception :: "settlement_db \<Rightarrow> uuid \<Rightarrow> bool" where
  "has_exception s k \<longleftrightarrow> (\<exists>x \<in> set (exception_rows s). rx_settlement_batch_id x = k)"

definition has_item :: "settlement_db \<Rightarrow> uuid \<Rightarrow> bool" where
  "has_item s k \<longleftrightarrow> (\<exists>i \<in> set (item_rows s). si_settlement_batch_id i = k)"

definition has_approval :: "settlement_db \<Rightarrow> uuid \<Rightarrow> bool" where
  "has_approval s k \<longleftrightarrow> (\<exists>a \<in> set (approval_rows s). sp_settlement_batch_id a = k \<and> sp_decision a = AD_APPROVED)"

definition has_clearance :: "settlement_db \<Rightarrow> uuid \<Rightarrow> instant option \<Rightarrow> bool" where
  "has_clearance s k t \<longleftrightarrow> (\<exists>e \<in> set (hold_evidence_rows s). se_settlement_batch_id e = k \<and>
     \<not> se_blocks_readiness e \<and> t = Some (se_evaluated_at e))"

definition approvals_ok :: "settlement_db \<Rightarrow> uuid \<Rightarrow> uuid \<Rightarrow> bool" where
  "approvals_ok s k creator \<longleftrightarrow> (\<forall>a \<in> set (approval_rows s). sp_settlement_batch_id a = k \<longrightarrow> approval_ok creator a)"

definition batch_ok :: "settlement_db \<Rightarrow> uuid \<Rightarrow> settlement_batch \<Rightarrow> bool" where
  "batch_ok s k b \<longleftrightarrow>
     sb_settlement_batch_id b = k \<and>
     (has_exception s k \<longleftrightarrow> sb_state b \<in> {SB_EXCEPTION, SB_MANUAL_REVIEW, SB_RESOLVED}) \<and>
     (sb_state b \<in> {SB_BALANCED, SB_READY_FOR_SETTLEMENT} \<longrightarrow> has_item s k) \<and>
     approvals_ok s k (sb_created_by_identity_id b) \<and>
     (sb_ready_for_settlement_at b \<noteq> None \<longleftrightarrow> sb_state b = SB_READY_FOR_SETTLEMENT) \<and>
     (sb_state b = SB_READY_FOR_SETTLEMENT \<longrightarrow>
        has_approval s k \<and> has_clearance s k (sb_ready_for_settlement_at b))"

definition rows_ok :: "settlement_db \<Rightarrow> bool" where
  "rows_ok s \<longleftrightarrow>
     (\<forall>i \<in> set (item_rows s). dget (sd_batches s) (si_settlement_batch_id i) \<noteq> None) \<and>
     (\<forall>x \<in> set (exception_rows s). dget (sd_batches s) (rx_settlement_batch_id x) \<noteq> None) \<and>
     (\<forall>a \<in> set (approval_rows s). dget (sd_batches s) (sp_settlement_batch_id a) \<noteq> None) \<and>
     (\<forall>e \<in> set (hold_evidence_rows s). \<not> se_blocks_readiness e) \<and>
     (\<forall>e \<in> set (external_rows s). sx_evidence_type e = EV_CONFIRMATION \<longrightarrow>
        (\<exists>f \<in> set (external_rows s). sx_evidence_type f = EV_SUBMISSION \<and>
           sx_provider_code f = sx_provider_code e \<and> sx_settlement_batch_id f = sx_settlement_batch_id e))"

definition settlement_inv :: "settlement_db \<Rightarrow> bool" where
  "settlement_inv s \<longleftrightarrow> rows_ok s \<and> (\<forall>k b. dget (sd_batches s) k = Some b \<longrightarrow> batch_ok s k b)"

definition items_linked :: "payment_db \<Rightarrow> refund_db \<Rightarrow> settlement_db \<Rightarrow> bool" where
  "items_linked pay refunds s \<longleftrightarrow> (\<forall>i \<in> set (item_rows s). item_linked pay refunds i)"

lemma settlement_invD:
  assumes "settlement_inv s"
  shows "rows_ok s" and "dget (sd_batches s) k = Some b \<Longrightarrow> batch_ok s k b"
  using assms unfolding settlement_inv_def by blast+

lemma settlement_inv_cong:
  assumes "sd_batches s' = sd_batches s" and "settlement_rows s' = settlement_rows s"
  shows "settlement_inv s' \<longleftrightarrow> settlement_inv s"
proof -
  have rows: "item_rows s' = item_rows s" "exception_rows s' = exception_rows s" "approval_rows s' = approval_rows s"
    "hold_evidence_rows s' = hold_evidence_rows s" "external_rows s' = external_rows s"
    using assms(2) by (simp_all add: settlement_rows_def)
  show ?thesis
    unfolding settlement_inv_def rows_ok_def batch_ok_def has_exception_def has_item_def approvals_ok_def
      has_approval_def has_clearance_def assms(1) rows ..
qed

lemma settlement_inv_empty: "sd_batches s = [] \<Longrightarrow> settlement_rows s = ([], [], [], [], []) \<Longrightarrow> settlement_inv s"
  by (simp add: settlement_inv_def rows_ok_def settlement_rows_eq)

lemma list_exceptions_Nil: "list_exceptions s k = [] \<longleftrightarrow> \<not> has_exception s k"
  by (auto simp: has_exception_def list_exceptions_def filter_empty_conv simp flip: set_empty)

lemma list_items_Nil: "list_items s k = [] \<longleftrightarrow> \<not> has_item s k"
  by (auto simp: has_item_def list_items_def filter_empty_conv simp flip: set_empty)

lemma last_approval:
  "list_approvals s k \<noteq> [] \<Longrightarrow> last (list_approvals s k) \<in> set (approval_rows s) \<and>
     sp_settlement_batch_id (last (list_approvals s k)) = k"
  using last_in_set [of "list_approvals s k"] by (auto simp: list_approvals_def)

text \<open>How each table that grows by one row changes what the invariant reads.\<close>

lemma grown_exceptions:
  "exception_rows s' = exception_rows s @ [x] \<Longrightarrow> has_exception s' k \<longleftrightarrow> has_exception s k \<or> rx_settlement_batch_id x = k"
  "exception_rows s' = exception_rows s \<Longrightarrow> has_exception s' k \<longleftrightarrow> has_exception s k"
  by (auto simp: has_exception_def)

lemma grown_items:
  "item_rows s' = item_rows s @ [i] \<Longrightarrow> has_item s' k \<longleftrightarrow> has_item s k \<or> si_settlement_batch_id i = k"
  "item_rows s' = item_rows s \<Longrightarrow> has_item s' k \<longleftrightarrow> has_item s k"
  by (auto simp: has_item_def)

lemma grown_approvals:
  "approval_rows s' = approval_rows s @ [a] \<Longrightarrow> has_approval s k \<Longrightarrow> has_approval s' k"
  "approval_rows s' = approval_rows s @ [a] \<Longrightarrow>
     approvals_ok s' k c \<longleftrightarrow> approvals_ok s k c \<and> (sp_settlement_batch_id a = k \<longrightarrow> approval_ok c a)"
  "approval_rows s' = approval_rows s \<Longrightarrow> has_approval s' k \<longleftrightarrow> has_approval s k"
  "approval_rows s' = approval_rows s \<Longrightarrow> approvals_ok s' k c \<longleftrightarrow> approvals_ok s k c"
  by (auto simp: has_approval_def approvals_ok_def)

lemma grown_hold_evidence:
  "hold_evidence_rows s' = hold_evidence_rows s @ [e] \<Longrightarrow> has_clearance s k t \<Longrightarrow> has_clearance s' k t"
  "hold_evidence_rows s' = hold_evidence_rows s @ [e] \<Longrightarrow> \<not> se_blocks_readiness e \<Longrightarrow>
     has_clearance s' (se_settlement_batch_id e) (Some (se_evaluated_at e))"
  "hold_evidence_rows s' = hold_evidence_rows s \<Longrightarrow> has_clearance s' k t \<longleftrightarrow> has_clearance s k t"
  by (auto simp: has_clearance_def)

lemma approved_last:
  "list_approvals s k \<noteq> [] \<Longrightarrow> sp_decision (last (list_approvals s k)) = AD_APPROVED \<Longrightarrow> has_approval s k"
  using last_approval [of s k] by (auto simp: has_approval_def)

text \<open>A step that touches one batch keeps the others; it is enough to look at that batch.\<close>

lemma settlement_inv_step:
  assumes inv: "settlement_inv s" and rows: "rows_ok s'"
    and others: "\<And>l c. l \<noteq> k \<Longrightarrow> dget (sd_batches s') l = Some c \<Longrightarrow> dget (sd_batches s) l = Some c"
    and mine: "\<And>c. dget (sd_batches s') k = Some c \<Longrightarrow> batch_ok s' k c"
    and keep: "\<And>l c. l \<noteq> k \<Longrightarrow> dget (sd_batches s) l = Some c \<Longrightarrow> batch_ok s l c \<Longrightarrow> batch_ok s' l c"
  shows "settlement_inv s'"
proof -
  have "batch_ok s' l c" if "dget (sd_batches s') l = Some c" for l c
    using that mine others keep settlement_invD(2) [OF inv] by (cases "l = k") blast+
  then show ?thesis using rows by (simp add: settlement_inv_def)
qed

lemma settlement_effect_rows_ok:
  assumes "settlement_effect pay refunds holds s s'" and "rows_ok s"
  shows "rows_ok s'"
  using assms by cases (force simp: rows_ok_def settlement_rows_def)+

lemma settlement_effect_inv:
  assumes eff: "settlement_effect pay refunds holds s s'" and inv: "settlement_inv s"
  shows "settlement_inv s'"
proof -
  note old = settlement_invD(2) [OF inv] and step = settlement_inv_step [OF inv settlement_effect_rows_ok [OF eff settlement_invD(1) [OF inv]]]
  note grown = grown_exceptions [where s = s and s' = s'] grown_items [where s = s and s' = s']
    grown_approvals [where s = s and s' = s'] grown_hold_evidence [where s = s and s' = s']
  from eff show ?thesis
  proof cases
    case nothing
    then show ?thesis using inv settlement_inv_cong by blast
  next
    case (batch k b)
    have none: "\<not> has_exception s k" "approvals_ok s k c" for c
      using batch settlement_invD(1) [OF inv] by (auto simp: rows_ok_def has_exception_def approvals_ok_def)
    show ?thesis
      by (rule step [of k]) (use batch none in \<open>auto simp: batch_ok_def settlement_rows_def grown\<close>)
  next
    case (item k b i b')
    show ?thesis
      by (rule step [of k]) (use item old [of k b] in \<open>auto simp: batch_ok_def same_batch_def settlement_rows_eq grown\<close>)
  next
    case (recorded k b b')
    show ?thesis
      by (rule step [of k]) (use recorded old [of k b] in \<open>auto simp: batch_ok_def same_batch_def settlement_rows_def grown\<close>)
  next
    case (excepted k b t b' x)
    have t: "sb_state b \<noteq> SB_READY_FOR_SETTLEMENT" "t \<in> {SB_EXCEPTION, SB_MANUAL_REVIEW, SB_RESOLVED}"
      using excepted(2) by auto
    show ?thesis
      by (rule step [of k]) (use excepted(1,3-) t old [of k b] in
        \<open>auto simp: batch_ok_def same_batch_def settlement_rows_eq grown\<close>)
  next
    case (balanced k b at)
    show ?thesis
      by (rule step [of k]) (use balanced old [of k b] in
        \<open>auto simp: batch_ok_def settlement_rows_def grown list_items_Nil list_exceptions_Nil\<close>)
  next
    case (approval k b a)
    show ?thesis
      by (rule step [of k]) (use approval old [of k b] in \<open>auto simp: batch_ok_def settlement_rows_eq grown\<close>)
  next
    case (ready k b e at)
    show ?thesis
      by (rule step [of k]) (use ready old [of k b] approved_last [of s k] in
        \<open>auto simp: batch_ok_def settlement_rows_eq grown\<close>)
  next
    case (external e)
    show ?thesis
      by (rule step [of 0]) (use external old in \<open>auto simp: batch_ok_def settlement_rows_eq grown\<close>)
  qed
qed

lemma settlement_effect_linked:
  assumes "settlement_effect pay refunds holds s s'" and "items_linked pay refunds s"
  shows "items_linked pay refunds s'"
  using assms by cases (auto simp: items_linked_def settlement_rows_def)

end
