(* ===== verification/Settlement_World.thy ===== *)
theory Settlement_World
  imports Settlement_Inv Wallet
begin

text \<open>
  Every operation of the settlement service has one of the effects of \<open>Settlement_Inv\<close>, and the four financial
  services composed: payments, refunds, holds and settlements over one state, in any order.
\<close>

section \<open>The repository operations\<close>

lemma settlement_event_append_simps [simp]:
  "sd_batches (settlement_event_append ty k et at c d pl db) = sd_batches db"
  "sd_items (settlement_event_append ty k et at c d pl db) = sd_items db"
  "settlement_rows (settlement_event_append ty k et at c d pl db) = settlement_rows db"
  by (simp_all add: settlement_event_append_def settlement_rows_def)

lemma settlement_reserve_ok:
  assumes "settlement_reserve_idempotency h db s oper key pl ref at = Inr (db', r)"
  shows "sd_batches db' = sd_batches db" and "settlement_rows db' = settlement_rows db"
    and "list_items db' = list_items db" and "list_exceptions db' = list_exceptions db"
    and "list_approvals db' = list_approvals db" and "list_external_evidence db' = list_external_evidence db"
    and "sd_items db' = sd_items db"
  using assms by (auto simp: settlement_reserve_idempotency_def bind_result_eq_Inr settlement_rows_def fun_eq_iff
    list_items_def list_exceptions_def list_approvals_def list_external_evidence_def)

lemma transition_batch_ok:
  assumes "transition_batch db k t at c d rc = Inr (db', b')"
  obtains b where "dget (sd_batches db) k = Some b"
    and "t = sb_state b \<or> allows ALLOWED_BATCH_TRANSITIONS (sb_state b) t"
    and "b' = batch_move b t (instant_of at)" and "sd_batches db' = dset k b' (sd_batches db)"
    and "settlement_rows db' = settlement_rows db" and "sd_items db' = sd_items db"
    and "sb_created_at b \<le> instant_of at"
  using assms unfolding transition_batch_def
  apply (elim ok_elims)
  subgoal premises prems for b
    using prems(2-)
    by (intro prems(1) [of b])
      (auto simp: get_batch_def settlement_batch.guard_ok batch_move_def settlement_rows_def settlement_event_append_def)
  done

lemma repo_create_batch_ok:
  assumes "repo_create_batch db b = Inr (db', b')"
  shows "b' = b" and "dget (sd_batches db) (sb_settlement_batch_id b) = None" and "sb_state b = SB_CREATED"
    and "sd_batches db' = dset (sb_settlement_batch_id b) b (sd_batches db)" and "settlement_rows db' = settlement_rows db"
  using assms unfolding repo_create_batch_def settlement_event_append_def
  by (elim ok_elims; force simp: settlement_rows_def)+

lemma add_item_ok:
  assumes "add_item db i = Inr (db', i')"
  shows "i' = i" and "sd_batches db' = sd_batches db"
    and "settlement_rows db' = (item_rows db @ [i], exception_rows db, approval_rows db, hold_evidence_rows db, external_rows db)"
  using assms unfolding add_item_def settlement_event_append_def
  by (elim ok_elims; force simp: settlement_rows_def dvalues_dset_new)+

lemma append_reconciliation_record_ok:
  assumes "append_reconciliation_record db r = Inr db'"
  shows "sd_batches db' = sd_batches db" and "settlement_rows db' = settlement_rows db" and "sd_items db' = sd_items db"
  using assms unfolding append_reconciliation_record_def by (elim ok_elims; auto simp: settlement_rows_def)+

lemma raise_exception_row_ok:
  assumes "raise_exception_row db x at = Inr db'"
  shows "sd_batches db' = sd_batches db"
    and "settlement_rows db' = (item_rows db, exception_rows db @ [x], approval_rows db, hold_evidence_rows db, external_rows db)"
  using assms unfolding raise_exception_row_def append_exception_def valid_reconciliation_exception_def
  by (elim ok_elims; auto simp: settlement_rows_def dvalues_dset_new)+

lemma append_approval_ok:
  assumes "append_approval db a = Inr (db', a')"
  shows "a' = a" and "sd_batches db' = sd_batches db" and "sp_prepared_by_identity_id a \<noteq> sp_decided_by_identity_id a"
    and "settlement_rows db' = (item_rows db, exception_rows db, approval_rows db @ [a], hold_evidence_rows db, external_rows db)"
  using assms unfolding append_approval_def by (elim ok_elims; auto simp: settlement_rows_def dvalues_dset_new)+

lemma append_hold_evidence_ok:
  assumes "append_hold_evidence db e = Inr db'"
  shows "sd_batches db' = sd_batches db"
    and "settlement_rows db' = (item_rows db, exception_rows db, approval_rows db, hold_evidence_rows db @ [e], external_rows db)"
  using assms unfolding append_hold_evidence_def by (elim ok_elims; auto simp: settlement_rows_def dvalues_dset_new)+

lemma append_external_evidence_ok:
  assumes "append_external_evidence db e = Inr (db', e')"
  shows "sd_batches db' = sd_batches db" and "dget (sd_batches db) (sx_settlement_batch_id e) \<noteq> None"
    and "settlement_rows db' = (item_rows db, exception_rows db, approval_rows db, hold_evidence_rows db, external_rows db @ [e])"
  using assms unfolding append_external_evidence_def
  by (elim ok_elims; auto simp: settlement_rows_def dvalues_dset_new get_batch_def)+

lemma new_record_fields [simp]:
  "sb_settlement_batch_id (new_settlement_batch k s m c d at) = k"
  "sb_ready_for_settlement_at (new_settlement_batch k s m c d at) = None"
  "si_settlement_batch_id (new_settlement_item i q n a) = co_settlement_batch_id q"
  "rx_settlement_batch_id (new_reconciliation_exception xid s k i ty st ds ro c at) = k"
  "sp_settlement_batch_id (new_settlement_approval aid b s k dc rc c at) = k"
  "sp_prepared_by_identity_id (new_settlement_approval aid b s k dc rc c at) = sb_created_by_identity_id b"
  "sp_decided_by_identity_id (new_settlement_approval aid b s k dc rc c at) = fst s"
  "sp_decided_by_actor_type (new_settlement_approval aid b s k dc rc c at) = actor_type_value (snd s)"
  "sp_decision (new_settlement_approval aid b s k dc rc c at) = dc"
  "se_settlement_batch_id (new_hold_evidence eid s k h c at) = k"
  "se_blocks_readiness (new_hold_evidence eid s k h c at) \<longleftrightarrow> h \<noteq> None"
  "se_evaluated_at (new_hold_evidence eid s k h c at) = instant_of at"
  "sx_settlement_batch_id (new_external_evidence eid s eq) = eo_settlement_batch_id eq"
  "sx_evidence_type (new_external_evidence eid s eq) = eo_evidence_type eq"
  "sx_provider_code (new_external_evidence eid s eq) = eo_provider_code eq"
  by (simp_all add: new_settlement_batch_def new_settlement_item_def new_reconciliation_exception_def
    new_settlement_approval_def new_hold_evidence_def new_external_evidence_def)

lemma settlement_valid_same:
  "valid_settlement_batch b at = Inr b' \<Longrightarrow> b' = b"
  "valid_settlement_item i at = Inr i' \<Longrightarrow> i' = i"
  "valid_reconciliation_record r at = Inr r' \<Longrightarrow> r' = r"
  "valid_settlement_approval a at = Inr a' \<Longrightarrow> a' = a \<and> sp_decided_by_actor_type a \<in> {''staff'', ''administrator''}"
  "valid_hold_evidence e at = Inr e' \<Longrightarrow> e' = e"
  "valid_external_evidence x at = Inr x' \<Longrightarrow> x' = x"
  unfolding valid_settlement_batch_def valid_settlement_item_def valid_reconciliation_record_def
    valid_settlement_approval_def valid_hold_evidence_def valid_external_evidence_def
  by (elim ok_elims; simp)+

section \<open>The operations of the service\<close>

lemma create_batch_effect:
  assumes "create_batch env db s key c d at m cid = Inr (db', b)"
  shows "settlement_effect pay refunds holds db db'"
  using assms unfolding create_batch_def
  apply (elim ok_elims)
  subgoal premises prems for _ _ _ _ db1 k _
  proof -
    note same = settlement_reserve_ok [OF prems(4) [unfolded prems(5)]]
    have made: "repo_create_batch db1 (new_settlement_batch k s m c d at) = Inr (db', b)"
      using prems(7,8) settlement_valid_same(1) by blast
    show ?thesis
      using repo_create_batch_ok [OF made] same
      by (intro settlement_effect.batch [of db k "new_settlement_batch k s m c d at"]) simp_all
  qed
  subgoal by (rule settlement_effect.nothing) (auto simp: settlement_reserve_ok)
  done

lemma start_collecting_ok:
  assumes "start_collecting db q = Inr (db', b')"
  obtains b where "dget (sd_batches db) (co_settlement_batch_id q) = Some b" "sb_state b \<in> {SB_CREATED, SB_COLLECTING}"
    "same_batch b b'" "sb_state b' = SB_COLLECTING"
    "dget (sd_batches db') = (dget (sd_batches db))(co_settlement_batch_id q \<mapsto> b')"
    "settlement_rows db' = settlement_rows db"
  using assms unfolding start_collecting_def
  apply (elim ok_elims)
  subgoal premises prems for b _ db1 b1
    using prems(8) [unfolded prems(3)] prems(2,4-7)
    by (elim transition_batch_ok, intro prems(1) [of b])
      (auto simp: get_batch_def same_batch_def update_conv')
  subgoal premises prems for b
    using prems(2-) by (intro prems(1) [of b]) (auto simp: get_batch_def same_batch_def)
  done

lemma start_reconciling_ok:
  assumes "start_reconciling db q = Inr (db', b')"
  obtains b where "dget (sd_batches db) (ro_settlement_batch_id q) = Some b"
    "sb_state b \<in> {SB_CREATED, SB_COLLECTING, SB_RECONCILING}"
    "same_batch b b'" "sb_state b' = SB_RECONCILING"
    "dget (sd_batches db') = (dget (sd_batches db))(ro_settlement_batch_id q \<mapsto> b')"
    "settlement_rows db' = settlement_rows db"
  using assms unfolding start_reconciling_def
  apply (elim ok_elims)
  subgoal premises prems for b _ db1 b1
    using prems(8) [unfolded prems(3)] prems(2,4-7)
    by (elim transition_batch_ok, intro prems(1) [of b])
      (auto simp: get_batch_def same_batch_def update_conv')
  subgoal premises prems for b
    using prems(2-) by (intro prems(1) [of b]) (auto simp: get_batch_def same_batch_def)
  done

lemma collect_linkage_ok:
  assumes "collect_linkage env pay q = Inr (n, a)"
  shows "dget (pd_intents pay) (co_payment_intent_id q) = Some n" and "dget (pd_attempts pay) (co_payment_attempt_id q) = Some a"
    and "pi_ride_id n = co_ride_id q" and "pa_payment_intent_id a = pi_payment_intent_id n"
    and "pa_state a = PA_CAPTURED \<or> pa_state a = PA_OUTCOME_UNKNOWN"
  using assms unfolding collect_linkage_def get_intent_def get_attempt_def by (elim ok_elims; simp)+

lemma collect_refund_linkage_ok:
  assumes "collect_refund_linkage refunds q = Inr u" and "co_refund_request_id q = Some k"
  shows "\<exists>r. dget (rf_requests refunds) k = Some r \<and> rr_payment_attempt_id r = co_payment_attempt_id q \<and>
    rr_payment_intent_id r = co_payment_intent_id q"
  using assms unfolding collect_refund_linkage_def get_request_def by (elim ok_elims) auto

lemma collected_item_linked:
  assumes "payment_inv pay" and link: "collect_linkage env pay q = Inr (n, a)"
    and refund: "collect_refund_linkage refunds q = Inr u"
  shows "item_linked pay refunds (new_settlement_item k q n a)"
proof -
  note facts = collect_linkage_ok [OF link]
  have "pi_payment_intent_id n = co_payment_intent_id q" using payment_invD(1) [OF assms(1) facts(1)] .
  then show ?thesis
    using facts collect_refund_linkage_ok [OF refund]
    unfolding item_linked_def new_settlement_item_def by (auto intro: leads_to.here)
qed

lemma collect_item_effect:
  assumes pay: "payment_inv pay" and run: "collect_item env pay refunds db s q cid = Inr (db', i)"
  shows "settlement_effect pay refunds holds db db'"
  using run unfolding collect_item_def
  apply (elim ok_elims)
  subgoal premises prems for _ _ _ _ db1 k _ db2 b2 _ n a _ _
  proof -
    note same = settlement_reserve_ok [OF prems(4) [unfolded prems(5)]]
    obtain b where b: "dget (sd_batches db1) (co_settlement_batch_id q) = Some b" "sb_state b \<in> {SB_CREATED, SB_COLLECTING}"
      "same_batch b b2" "sb_state b2 = SB_COLLECTING"
      "dget (sd_batches db2) = (dget (sd_batches db1))(co_settlement_batch_id q \<mapsto> b2)" "settlement_rows db2 = settlement_rows db1"
      using start_collecting_ok [OF prems(7) [unfolded prems(8)]] by blast
    have add: "add_item db2 (new_settlement_item k q n a) = Inr (db', i)"
      using prems(12,13) settlement_valid_same(2) by blast
    show ?thesis
      using b same add_item_ok [OF add] collected_item_linked [OF pay prems(9) [unfolded prems(10)] prems(11)]
      by (intro settlement_effect.item [of db _ b "new_settlement_item k q n a" _ _ b2])
        (auto simp: settlement_rows_def fun_eq_iff)
  qed
  subgoal by (rule settlement_effect.nothing) (auto simp: settlement_reserve_ok)
  done

lemma reconcile_item_effect:
  assumes "reconcile_item env db s q rid xid = Inr (db', r)"
  shows "settlement_effect pay refunds holds db db'"
  using assms unfolding reconcile_item_def
  apply (elim ok_elims)
  subgoal premises prems for _ _ _ _ db1 _ _ db2 b2 item row db3 db4 _ db5 b5
  proof -
    note same = settlement_reserve_ok [OF prems(4) [unfolded prems(5)]]
    note row = append_reconciliation_record_ok [OF prems(11)] and exc = raise_exception_row_ok [OF prems(13)]
    obtain b where b: "dget (sd_batches db1) (ro_settlement_batch_id q) = Some b"
      "sb_state b \<in> {SB_CREATED, SB_COLLECTING, SB_RECONCILING}" "same_batch b b2"
      "dget (sd_batches db2) = (dget (sd_batches db1))(ro_settlement_batch_id q \<mapsto> b2)" "settlement_rows db2 = settlement_rows db1"
      using start_reconciling_ok [OF prems(6) [unfolded prems(7)]] by blast
    obtain b4 where b4: "dget (sd_batches db4) (ro_settlement_batch_id q) = Some b4"
      "b5 = batch_move b4 SB_EXCEPTION (instant_of (ro_at q))" "sd_batches db5 = dset (ro_settlement_batch_id q) b5 (sd_batches db4)"
      "settlement_rows db5 = settlement_rows db4"
      using transition_batch_ok [OF prems(14) [unfolded prems(15)]] by metis
    have "b4 = b2" using b4(1) b(4) row(1) exc(1) by simp
    then have "same_batch b b5" using b(3) b4(2) by (simp add: same_batch_def)
    then show ?thesis
      using b b4 same row exc prems(16)
      by (intro settlement_effect.excepted [of db "ro_settlement_batch_id q" b SB_EXCEPTION b5])
        (auto simp: settlement_rows_def update_conv')
  qed
  subgoal premises prems for _ _ _ _ db1 _ _ db2 b2 _ _ db3
    using start_reconciling_ok [OF prems(6) [unfolded prems(7)]] settlement_reserve_ok [OF prems(4) [unfolded prems(5)]]
      append_reconciliation_record_ok [OF prems(11)] prems(13)
    by (metis settlement_effect.recorded)
  done

lemma mark_balanced_effect:
  assumes "mark_balanced env db s k rc key c at = Inr (db', b')"
  shows "settlement_effect pay refunds holds db db'"
  using assms unfolding mark_balanced_def
  apply (elim ok_elims)
  subgoal premises prems for _ _ _ _ db1 _ b
  proof -
    note same = settlement_reserve_ok [OF prems(4) [unfolded prems(5)]]
    obtain b0 where "dget (sd_batches db1) k = Some b0" "b' = batch_move b0 SB_BALANCED (instant_of at)"
      "sd_batches db' = dset k b' (sd_batches db1)" "settlement_rows db' = settlement_rows db1"
      using transition_batch_ok [OF prems(10)] by metis
    then show ?thesis
      using prems(6-9) same
      by (intro settlement_effect.balanced [of db k b _ "instant_of at"]) (simp_all add: get_batch_def fun_eq_iff)
  qed
  done

lemma approval_effect:
  assumes same: "sd_batches db1 = sd_batches db" "settlement_rows db1 = settlement_rows db" and b: "get_batch db1 k = Some b"
    and valid: "valid_settlement_approval (new_settlement_approval aid b s k d rc c at) at = Inr a"
    and add: "append_approval db1 a = Inr (db', a')"
  shows "settlement_effect pay refunds holds db db'"
proof -
  have a: "a = new_settlement_approval aid b s k d rc c at" "sp_decided_by_actor_type a \<in> {''staff'', ''administrator''}"
    using settlement_valid_same(4) [OF valid] by simp_all
  then show ?thesis
    using append_approval_ok [OF add] same b
    by (intro settlement_effect.approval [of db k b a]) (auto simp: get_batch_def approval_ok_def settlement_rows_def)
qed

lemma approve_effect:
  assumes "approve_settlement_readiness env db s k rc key c at aid = Inr (db', a)"
  shows "settlement_effect pay refunds holds db db'"
  using assms unfolding approve_settlement_readiness_def
  by (elim ok_elims) (rule approval_effect; auto simp: settlement_reserve_ok)

lemma reject_effect:
  assumes "reject_settlement_readiness env db s k rc key c at aid = Inr (db', a)"
  shows "settlement_effect pay refunds holds db db'"
  using assms unfolding reject_settlement_readiness_def
  by (elim ok_elims) (rule approval_effect; auto simp: settlement_reserve_ok)

lemma mark_ready_effect:
  assumes "mark_ready_for_settlement env holds db s k rc key c at eid = Inr (db', b')"
  shows "settlement_effect pay refunds holds db db'"
  using assms unfolding mark_ready_for_settlement_def
  apply (elim ok_elims)
  subgoal premises prems for _ _ _ _ db1 _ b e db2
  proof -
    note same = settlement_reserve_ok [OF prems(4) [unfolded prems(5)]]
    have e: "e = new_hold_evidence eid s k None c at" using settlement_valid_same(5) [OF prems(9)] prems(11) by simp
    obtain b0 where "dget (sd_batches db2) k = Some b0" "b' = batch_move b0 SB_READY_FOR_SETTLEMENT (instant_of at)"
      "sd_batches db' = dset k b' (sd_batches db2)" "settlement_rows db' = settlement_rows db2"
      using transition_batch_ok [OF prems(12)] by metis
    then show ?thesis
      using prems(6-8,11) same append_hold_evidence_ok [OF prems(10)] e
      by (intro settlement_effect.ready [of db k b e "instant_of at"])
        (simp_all add: get_batch_def fun_eq_iff settlement_rows_def)
  qed
  done

lemma exception_step_effect:
  assumes same: "sd_batches db1 = sd_batches db" "settlement_rows db1 = settlement_rows db" and b: "get_batch db1 k = Some b"
    and pair: "(sb_state b, t) \<in> {(SB_EXCEPTION, SB_MANUAL_REVIEW), (SB_MANUAL_REVIEW, SB_RESOLVED)}"
    and exc: "raise_exception_row db1 (new_reconciliation_exception xid s k i ty t ds res c at) at = Inr db2"
    and move: "transition_batch db2 k t at c i rc = Inr (db', b')"
  shows "settlement_effect pay refunds holds db db'"
proof -
  note row = raise_exception_row_ok [OF exc]
  obtain b0 where b0: "dget (sd_batches db2) k = Some b0" "b' = batch_move b0 t (instant_of at)"
    "sd_batches db' = dset k b' (sd_batches db2)" "settlement_rows db' = settlement_rows db2"
    using transition_batch_ok [OF move] by metis
  then have "b0 = b" using b row by (simp add: get_batch_def)
  then show ?thesis
    using b0 same b row pair
    by (intro settlement_effect.excepted [of db k b t b'])
      (auto simp: get_batch_def update_conv' settlement_rows_def same_batch_def)
qed

lemma investigate_effect:
  assumes "investigate_exception env db s k i ty rc key c at xid = Inr (db', b)"
  shows "settlement_effect pay refunds holds db db'"
  using assms unfolding investigate_exception_def
  by (elim ok_elims) (rule exception_step_effect; auto simp: settlement_reserve_ok)

lemma resolve_effect:
  assumes "resolve_exception env db s k i rc key c at xid = Inr (db', b)"
  shows "settlement_effect pay refunds holds db db'"
  using assms unfolding resolve_exception_def
  by (elim ok_elims) (rule exception_step_effect; auto simp: settlement_reserve_ok)

lemma external_effect:
  assumes "record_external_evidence env db s q eid = Inr (db', e)"
  shows "settlement_effect pay refunds holds db db'"
  using assms unfolding record_external_evidence_def
  apply (elim ok_elims)
  subgoal premises prems for _ _ _ _ db1 _ b _
  proof -
    note same = settlement_reserve_ok [OF prems(4) [unfolded prems(5)]]
    have add: "append_external_evidence db1 (new_external_evidence eid s q) = Inr (db', e)"
      using prems(8,9) settlement_valid_same(6) by blast
    show ?thesis
      using append_external_evidence_ok [OF add] same prems(7)
      by (intro settlement_effect.external [of _ _ "new_external_evidence eid s q"])
        (auto simp: settlement_rows_def list_ex_iff list_external_evidence_def)
  qed
  done

section \<open>The four services together\<close>

inductive settlement_step :: "payment_db \<Rightarrow> refund_db \<Rightarrow> hold_db \<Rightarrow> settlement_db \<Rightarrow> settlement_db \<Rightarrow> bool"
  for pay refunds holds where
  create_step: "create_batch env db s key c d at m cid = Inr (db', b) \<Longrightarrow> settlement_step pay refunds holds db db'"
| collect_step: "collect_item env pay refunds db s q cid = Inr (db', i) \<Longrightarrow> settlement_step pay refunds holds db db'"
| reconcile_step: "reconcile_item env db s rq rid xid = Inr (db', r) \<Longrightarrow> settlement_step pay refunds holds db db'"
| balance_step: "mark_balanced env db s k rc key c at = Inr (db', b) \<Longrightarrow> settlement_step pay refunds holds db db'"
| approve_step: "approve_settlement_readiness env db s k rc key c at aid = Inr (db', a) \<Longrightarrow>
    settlement_step pay refunds holds db db'"
| reject_step: "reject_settlement_readiness env db s k rc key c at aid = Inr (db', a) \<Longrightarrow>
    settlement_step pay refunds holds db db'"
| ready_step: "mark_ready_for_settlement env holds db s k rc key c at eid = Inr (db', b) \<Longrightarrow>
    settlement_step pay refunds holds db db'"
| investigate_step: "investigate_exception env db s k j ty rc key c at xid = Inr (db', b) \<Longrightarrow>
    settlement_step pay refunds holds db db'"
| resolve_step: "resolve_exception env db s k j rc key c at xid = Inr (db', b) \<Longrightarrow>
    settlement_step pay refunds holds db db'"
| evidence_step: "record_external_evidence env db s eq eid = Inr (db', e) \<Longrightarrow> settlement_step pay refunds holds db db'"

lemma settlement_step_effect:
  assumes "settlement_step pay refunds holds db db'" and "payment_inv pay"
  shows "settlement_effect pay refunds holds db db'"
  using assms
  by (induction rule: settlement_step.induct)
    (auto intro: create_batch_effect collect_item_effect reconcile_item_effect mark_balanced_effect approve_effect
      reject_effect mark_ready_effect investigate_effect resolve_effect external_effect)

record finance_world =
  fw_payments :: payment_db
  fw_refunds :: refund_db
  fw_holds :: hold_db
  fw_settlements :: settlement_db

text \<open>The lookups of the hold service, on the tables of the other services.\<close>

definition sources_of ::
  "finance_world \<Rightarrow> wallet_db \<Rightarrow> (uuid \<Rightarrow> bool) \<Rightarrow> (uuid \<Rightarrow> bool) \<Rightarrow> hold_sources" where
  "sources_of w wallets postings identities =
     \<lparr>hs_attempt = (\<lambda>k. get_attempt (fw_payments w) k \<noteq> None), hs_batch = (\<lambda>k. get_batch (fw_settlements w) k \<noteq> None),
      hs_wallet_account = (\<lambda>k. dget (wd_accounts wallets) k \<noteq> None),
      hs_refund_request = (\<lambda>k. get_request (fw_refunds w) k \<noteq> None), hs_posting = postings, hs_identity = identities\<rparr>"

inductive world_step :: "finance_world \<Rightarrow> finance_world \<Rightarrow> bool" where
  finance: "finance_step (fw_payments w, fw_refunds w) (pay', refunds') \<Longrightarrow>
    world_step w (w\<lparr>fw_payments := pay', fw_refunds := refunds'\<rparr>)"
| holding: "hold_step (sources_of w wallets postings identities) (fw_holds w) holds' \<Longrightarrow>
    world_step w (w\<lparr>fw_holds := holds'\<rparr>)"
| settling: "settlement_step (fw_payments w) (fw_refunds w) (fw_holds w) (fw_settlements w) settlements' \<Longrightarrow>
    world_step w (w\<lparr>fw_settlements := settlements'\<rparr>)"

definition empty_settlements :: settlement_db where
  "empty_settlements = \<lparr>sd_batches = [], sd_items = [], sd_records = [], sd_exceptions = [], sd_approvals = [],
     sd_hold_evidence = [], sd_external_evidence = [], sd_idempotency = [], sd_events = [], sd_outbox = []\<rparr>"

definition empty_world :: finance_world where
  "empty_world = \<lparr>fw_payments = empty_payments, fw_refunds = empty_refunds, fw_holds = empty_holds,
     fw_settlements = empty_settlements\<rparr>"

abbreviation world_reachable :: "finance_world \<Rightarrow> bool" where
  "world_reachable w \<equiv> world_step\<^sup>*\<^sup>* empty_world w"

section \<open>Links survive the steps of the linked services\<close>

definition refund_follows :: "refund_request \<Rightarrow> refund_request \<Rightarrow> bool" where
  "refund_follows r r' \<longleftrightarrow> rr_payment_attempt_id r' = rr_payment_attempt_id r \<and>
     rr_payment_intent_id r' = rr_payment_intent_id r \<and> rr_amount_minor r' = rr_amount_minor r \<and>
     leads_to ALLOWED_REQUEST_TRANSITIONS (rr_state r) (rr_state r')"

definition refunds_follow :: "refund_db \<Rightarrow> refund_db \<Rightarrow> bool" where
  "refunds_follow db db' \<longleftrightarrow>
     (\<forall>k r. dget (rf_requests db) k = Some r \<longrightarrow> (\<exists>r'. dget (rf_requests db') k = Some r' \<and> refund_follows r r'))"

lemma refunds_follow_same: "rf_requests db' = rf_requests db \<Longrightarrow> refunds_follow db db'"
  by (simp add: refunds_follow_def refund_follows_def leads_to.here)

lemma refunds_follow_insert:
  "dget (rf_requests db) k = None \<Longrightarrow> rf_requests db' = dset k r (rf_requests db) \<Longrightarrow> refunds_follow db db'"
  by (auto simp: refunds_follow_def refund_follows_def leads_to.here)

lemma moved_refunds_follow:
  assumes "reserve_and_transition env db s oper t k rc key c at = Inr (db1, r')" and "rf_requests db' = rf_requests db1"
  shows "refunds_follow db db'"
  using assms
  by (elim reserve_and_transition_ok)
    (auto simp: refunds_follow_def refund_follows_def leads_to.here intro: leads_to.intros)

lemma refund_step_follows: "refund_step pay db db' \<Longrightarrow> refunds_follow db db'"
proof (induction rule: refund_step.induct)
  case (request env db s q cid did db' r)
  then show ?case by (elim request_refund_view) (blast intro: refunds_follow_same refunds_follow_insert)+
next
  case (investigate env db s k rc et er key c at eid did db')
  then show ?case
    unfolding investigate_request_def
    by (elim ok_elims) (rule refunds_follow_same; simp add: record_decision_ok append_evidence_ok refund_reserve_views)
next
  case (approve env db s k rc key c at aid did db' r)
  then show ?case
    unfolding approve_request_def
    by (elim ok_elims) (clarify, erule moved_refunds_follow, simp add: record_decision_ok append_authorization_ok(1))
qed (unfold review_request_def schedule_request_def complete_request_def reject_request_def,
  (elim ok_elims, clarify, erule moved_refunds_follow, simp add: record_decision_ok)+)

lemma item_linked_refunds:
  "item_linked pay refunds i \<Longrightarrow> refunds_follow refunds refunds' \<Longrightarrow> item_linked pay refunds' i"
  unfolding item_linked_def refunds_follow_def refund_follows_def by metis

lemma item_linked_payments:
  assumes link: "item_linked pay refunds i" and step: "payment_step pay pay'"
  shows "item_linked pay' refunds i"
proof -
  obtain a where a: "dget (pd_attempts pay) (si_payment_attempt_id i) = Some a" "pa_payment_intent_id a = si_payment_intent_id i"
      "pa_currency a = si_currency i"
      "leads_to ALLOWED_ATTEMPT_TRANSITIONS PA_CAPTURED (pa_state a) \<or>
       leads_to ALLOWED_ATTEMPT_TRANSITIONS PA_OUTCOME_UNKNOWN (pa_state a)"
    using link unfolding item_linked_def by blast
  obtain n where n: "dget (pd_intents pay) (si_payment_intent_id i) = Some n" "pi_ride_id n = si_ride_id i"
    using link unfolding item_linked_def by blast
  obtain b where b: "dget (pd_attempts pay') (si_payment_attempt_id i) = Some b" "attempt_follows a b"
    using payment_step_follows [OF step a(1)] by blast
  obtain m where m: "dget (pd_intents pay') (si_payment_intent_id i) = Some m" "intent_follows n m"
    using payment_step_intents [OF step n(1)] by blast
  have "leads_to ALLOWED_ATTEMPT_TRANSITIONS PA_CAPTURED (pa_state b) \<or>
       leads_to ALLOWED_ATTEMPT_TRANSITIONS PA_OUTCOME_UNKNOWN (pa_state b)"
    using a(4) b(2) leads_to_trans [of _ _ "pa_state a" "pa_state b"] unfolding attempt_follows_def by metis
  then show ?thesis
    using link a n b m unfolding item_linked_def attempt_follows_def intent_follows_def by simp
qed

lemma items_linked_finance:
  assumes "finance_step (pay, refunds) (pay', refunds')" and "items_linked pay refunds s"
  shows "items_linked pay' refunds' s"
  using assms
  by (auto simp: items_linked_def elim!: finance_stepE intro: item_linked_payments item_linked_refunds refund_step_follows)

lemma world_reachable_inv:
  assumes "world_reachable w"
  shows "finance_reachable (fw_payments w) (fw_refunds w)" and "hold_inv (fw_holds w)"
    and "settlement_inv (fw_settlements w)" and "items_linked (fw_payments w) (fw_refunds w) (fw_settlements w)"
proof -
  have "finance_reachable (fw_payments w) (fw_refunds w) \<and> hold_inv (fw_holds w) \<and> settlement_inv (fw_settlements w) \<and>
    items_linked (fw_payments w) (fw_refunds w) (fw_settlements w)"
    using assms
  proof (induction rule: rtranclp_induct)
    case base
    show ?case
      by (simp add: empty_world_def empty_holds_inv settlement_inv_empty empty_settlements_def settlement_rows_def
        dvalues_def items_linked_def)
  next
    case (step y z)
    from step.hyps(2) step.IH show ?case
    proof (cases rule: world_step.cases)
      case (finance pay' refunds')
      then show ?thesis
        using step.IH items_linked_finance by (auto intro: rtranclp.rtrancl_into_rtrancl)
    next
      case (holding wallets postings identities holds')
      then show ?thesis using step.IH hold_step_inv by auto
    next
      case (settling settlements')
      then have "settlement_effect (fw_payments y) (fw_refunds y) (fw_holds y) (fw_settlements y) settlements'"
        using step.IH finance_reachable_inv(2) settlement_step_effect by blast
      then show ?thesis
        using settling step.IH settlement_effect_inv settlement_effect_linked by auto
    qed
  qed
  then show "finance_reachable (fw_payments w) (fw_refunds w)" and "hold_inv (fw_holds w)"
    and "settlement_inv (fw_settlements w)" and "items_linked (fw_payments w) (fw_refunds w) (fw_settlements w)"
    by simp_all
qed

end
