(* ===== verification/Settlement_Props.thy ===== *)
theory Settlement_Props
  imports Settlement_World
begin

text \<open>
  The properties of holds and settlements, stated over the four services together, with scripts of calls that
  give the witnesses.
\<close>

section \<open>Scripts\<close>

datatype world_call =
    Finance finance_call
  | MakeHold subject "hold_create_command result" uuid uuid
  | MoveHold subject uuid "hold_transition_command result" uuid
  | MakeBatch subject string py_datetime uuid
  | Collect subject collect_order uuid
  | Reconcile subject reconcile_order uuid uuid
  | Balance subject uuid string py_datetime
  | ApproveBatch subject uuid string py_datetime uuid
  | MarkReady subject uuid string py_datetime uuid

definition sample_hold_env :: hold_env where
  "sample_hold_env = \<lparr>hv_has_permission = (\<lambda>_ _. True), hv_digest = sample_digest\<rparr>"

definition empty_wallets :: wallet_db where
  "empty_wallets = \<lparr>wd_accounts = [], wd_lineage = [], wd_idempotency = [], wd_events = [], wd_outbox = []\<rparr>"

fun run_world :: "world_call \<Rightarrow> finance_world \<Rightarrow> finance_world result" where
  "run_world (Finance c) w =
     bind_result (run_call sample_env c (fw_payments w, fw_refunds w)) (\<lambda>(p, r).
     Inr (w\<lparr>fw_payments := p, fw_refunds := r\<rparr>))"
| "run_world (MakeHold s c k j) w =
     bind_result c (\<lambda>c. bind_result (create_hold sample_hold_env (sources_of w empty_wallets (\<lambda>_. False) (\<lambda>_. True))
       (fw_holds w) s c k j) (\<lambda>(h, _). Inr (w\<lparr>fw_holds := h\<rparr>)))"
| "run_world (MoveHold s k c j) w =
     bind_result c (\<lambda>c. bind_result (transition_hold sample_hold_env (fw_holds w) s k c j) (\<lambda>(h, _).
       Inr (w\<lparr>fw_holds := h\<rparr>)))"
| "run_world (MakeBatch s key at k) w =
     bind_result (create_batch sample_env (fw_settlements w) s key 1 2 at [] k) (\<lambda>(d, _). Inr (w\<lparr>fw_settlements := d\<rparr>))"
| "run_world (Collect s q k) w =
     bind_result (collect_item sample_env (fw_payments w) (fw_refunds w) (fw_settlements w) s q k)
       (\<lambda>(d, _). Inr (w\<lparr>fw_settlements := d\<rparr>))"
| "run_world (Reconcile s q k j) w =
     bind_result (reconcile_item sample_env (fw_settlements w) s q k j) (\<lambda>(d, _). Inr (w\<lparr>fw_settlements := d\<rparr>))"
| "run_world (Balance s k key at) w =
     bind_result (mark_balanced sample_env (fw_settlements w) s k ''batch.step'' key 1 at) (\<lambda>(d, _). Inr (w\<lparr>fw_settlements := d\<rparr>))"
| "run_world (ApproveBatch s k key at j) w =
     bind_result (approve_settlement_readiness sample_env (fw_settlements w) s k ''batch.step'' key 1 at j)
       (\<lambda>(d, _). Inr (w\<lparr>fw_settlements := d\<rparr>))"
| "run_world (MarkReady s k key at j) w =
     bind_result (mark_ready_for_settlement sample_env (fw_holds w) (fw_settlements w) s k ''batch.step'' key 1 at j)
       (\<lambda>(d, _). Inr (w\<lparr>fw_settlements := d\<rparr>))"

fun world_calls :: "world_call list \<Rightarrow> finance_world \<Rightarrow> finance_world result" where
  "world_calls [] w = Inr w"
| "world_calls (c # cs) w = bind_result (run_world c w) (world_calls cs)"

lemma world_call_step: "run_world c w = Inr w' \<Longrightarrow> world_step w w'"
  by (cases c)
    (auto simp: bind_result_eq_Inr intro!: world_step.intros
      intro: run_call_step hold_step.intros settlement_step.intros)

lemma world_calls_steps: "world_calls cs w = Inr w' \<Longrightarrow> world_step\<^sup>*\<^sup>* w w'"
proof (induction cs arbitrary: w)
  case Nil
  then show ?case by simp
next
  case (Cons c cs)
  then show ?case
    unfolding world_calls.simps(2) bind_result_eq_Inr
    by (blast intro: converse_rtranclp_into_rtranclp world_call_step)
qed

lemma world_calls_snoc: "world_calls (cs @ [c]) w = bind_result (world_calls cs w) (run_world c)"
  by (induction cs arbitrary: w) (auto simp: bind_result_def split: sum.splits)

definition sample_collect :: collect_order where
  "sample_collect = \<lparr>co_settlement_batch_id = 300, co_ride_id = 60, co_fare_calculation_id = 70,
     co_payment_intent_id = 100, co_payment_attempt_id = 200, co_ledger_journal_id = 80,
     co_reconciliation_type = RC_PAYMENT_RECONCILIATION, co_amount_minor = 500, co_refund_request_id = None,
     co_idempotency_key = ''collect-key-0001'', co_correlation_id = 1, co_at = Aware 6100\<rparr>"

definition sample_reconcile :: reconcile_order where
  "sample_reconcile = \<lparr>ro_settlement_batch_id = 300, ro_settlement_item_id = 310, ro_result = RS_MATCHED,
     ro_reason_code = ''amount.matched'', ro_idempotency_key = ''recon-key-000001'', ro_correlation_id = 1,
     ro_at = Aware 6200, ro_decision_safe = []\<rparr>"

definition sample_hold_order :: "hold_create_command result" where
  "sample_hold_order = new_hold_create_command HT_SETTLEMENT HS_SETTLEMENT_BATCH 300
     \<lparr>hn_reason_code = HR_SETTLEMENT_MANUAL_REVIEW, hn_reason_detail = None\<rparr> ''hold-key-0000001'' 1 2 (Aware 6150)"

definition sample_hold_move :: "financial_hold_state \<Rightarrow> string \<Rightarrow> int \<Rightarrow> hold_transition_command result" where
  "sample_hold_move t key at = new_hold_transition_command t
     \<lparr>hn_reason_code = HR_SETTLEMENT_MANUAL_REVIEW, hn_reason_detail = None\<rparr> key 1 2 (Aware at)"

definition settlement_script :: "world_call list" where
  "settlement_script = map (\<lambda>c. Finance (Pay c)) quick_run @
     [MakeBatch gateway ''batch-key-000001'' (Aware 6000) 300, Collect gateway sample_collect 310,
      MakeHold gateway sample_hold_order 320 321,
      MoveHold gateway 320 (sample_hold_move FH_ACTIVE ''hold-key-0000002'' 6160) 322,
      MoveHold gateway 320 (sample_hold_move FH_RELEASED ''hold-key-0000003'' 6155) 323,
      Reconcile gateway sample_reconcile 330 331, Balance gateway 300 ''balance-key-0001'' (Aware 6300),
      ApproveBatch clerk 300 ''approve-key-0001'' (Aware 6400) 340]"

definition ready_call :: world_call where
  "ready_call = MarkReady gateway 300 ''ready-key-000001'' (Aware 6500) 350"

definition sample_world :: "world_call list \<Rightarrow> finance_world" where
  "sample_world cs = projr (world_calls cs empty_world)"

definition world_view :: "finance_world \<Rightarrow>
    (uuid \<times> settlement_batch_state) list \<times> (uuid \<times> uuid) list \<times> (uuid \<times> financial_hold_state) list \<times> uuid list" where
  "world_view w =
     (map (\<lambda>(k, b). (k, sb_state b)) (sd_batches (fw_settlements w)),
      map (\<lambda>(k, i). (k, si_settlement_batch_id i)) (sd_items (fw_settlements w)),
      map (\<lambda>(k, h). (k, fh_state h)) (hd_holds (fw_holds w)),
      map hh_history_id (list_history (fw_holds w) 320))"

definition world_outcome :: "world_call list \<Rightarrow> ((uuid \<times> settlement_batch_state) list \<times> (uuid \<times> uuid) list \<times>
    (uuid \<times> financial_hold_state) list \<times> uuid list) result" where
  "world_outcome cs = bind_result (world_calls cs empty_world) (\<lambda>w. Inr (world_view w))"

lemma world_outcome_reachable:
  assumes "world_outcome cs = Inr v"
  shows "world_reachable (sample_world cs)" and "world_view (sample_world cs) = v"
  using assms world_calls_steps [of cs empty_world]
  by (auto simp: world_outcome_def bind_result_eq_Inr sample_world_def)

lemma settlement_script_outcome:
  "world_outcome (settlement_script @ [ready_call]) =
     Inr ([(300, SB_READY_FOR_SETTLEMENT)], [(310, 300)], [(320, FH_RELEASED)], [321, 323, 322])"
  by code_simp

lemma settlement_script_batch:
  obtains b where "dget (sd_batches (fw_settlements (sample_world (settlement_script @ [ready_call])))) 300 = Some b"
    and "sb_state b = SB_READY_FOR_SETTLEMENT"
proof -
  have "dget (map (\<lambda>(k, b). (k, sb_state b)) (sd_batches (fw_settlements (sample_world (settlement_script @ [ready_call]))))) 300 =
    Some SB_READY_FOR_SETTLEMENT"
    using world_outcome_reachable(2) [OF settlement_script_outcome] by (simp add: world_view_def)
  then show thesis using that by (auto simp: map_of_map)
qed

section \<open>The step that makes a batch ready\<close>

definition batch_ready :: "finance_world \<Rightarrow> uuid \<Rightarrow> bool" where
  "batch_ready w k \<longleftrightarrow> (case dget (sd_batches (fw_settlements w)) k of
     None \<Rightarrow> False | Some b \<Rightarrow> sb_state b = SB_READY_FOR_SETTLEMENT)"

text \<open>A hold on the batch is open: created, active, under review or escalated.\<close>

definition batch_held :: "finance_world \<Rightarrow> uuid \<Rightarrow> bool" where
  "batch_held w k \<longleftrightarrow> (\<exists>h \<in> set (dvalues (hd_holds (fw_holds w))). fh_source_type h = HS_SETTLEMENT_BATCH \<and>
     fh_source_id h = k \<and> fh_state h \<in> {FH_CREATED, FH_ACTIVE, FH_UNDER_REVIEW, FH_ESCALATED})"

lemma batch_ready_iff:
  "batch_ready w k \<longleftrightarrow> (\<exists>b. dget (sd_batches (fw_settlements w)) k = Some b \<and> sb_state b = SB_READY_FOR_SETTLEMENT)"
  by (simp add: batch_ready_def split: option.split)

lemma no_blocking_hold:
  "blocking_hold holds k = None \<longleftrightarrow> \<not> (\<exists>h \<in> set (dvalues (hd_holds holds)).
     fh_source_type h = HS_SETTLEMENT_BATCH \<and> fh_source_id h = k \<and> hold_blocks (fh_state h))"
  by (auto simp: blocking_hold_def find_None_iff list_holds_for_source_def)

lemma batch_held_iff: "batch_held w k \<longleftrightarrow> blocking_hold (fw_holds w) k \<noteq> None"
  unfolding no_blocking_hold batch_held_def hold_blocks_def by blast

lemma settlement_effect_ready:
  assumes "settlement_effect pay refunds holds s s'" and "dget (sd_batches s') k = Some b"
    and "sb_state b = SB_READY_FOR_SETTLEMENT" and "dget (sd_batches s) k \<noteq> Some b"
  shows "(\<exists>c. dget (sd_batches s) k = Some c \<and> sb_state c = SB_BALANCED) \<and> list_approvals s k \<noteq> [] \<and>
    sp_decision (last (list_approvals s k)) = AD_APPROVED \<and> blocking_hold holds k = None"
  using assms by cases (auto simp: same_batch_def batch_move_def split: if_splits)

text \<open>A row of a ready batch is either unchanged or was written by the release of the batch.\<close>

lemma world_step_ready:
  assumes "world_step u v" and "world_reachable u" and "dget (sd_batches (fw_settlements v)) k = Some b"
    and "sb_state b = SB_READY_FOR_SETTLEMENT" and "dget (sd_batches (fw_settlements u)) k \<noteq> Some b"
  shows "\<not> batch_ready u k \<and> list_approvals (fw_settlements u) k \<noteq> [] \<and>
    sp_decision (last (list_approvals (fw_settlements u) k)) = AD_APPROVED \<and> \<not> batch_held u k"
  using assms(1)
proof (cases rule: world_step.cases)
  case (settling settlements')
  then have "settlement_effect (fw_payments u) (fw_refunds u) (fw_holds u) (fw_settlements u) settlements'"
    using settlement_step_effect finance_reachable_inv(2) [OF world_reachable_inv(1) [OF assms(2)]] by blast
  from settlement_effect_ready [OF this _ assms(4,5)] show ?thesis
    using assms(3) settling unfolding batch_held_iff batch_ready_iff by auto
qed (use assms(3,5) in simp_all)

lemma ready_batch_became_ready:
  assumes "world_reachable w" and "dget (sd_batches (fw_settlements w)) k = Some b"
    and "sb_state b = SB_READY_FOR_SETTLEMENT"
  shows "\<exists>u v. world_reachable u \<and> world_step u v \<and> world_step\<^sup>*\<^sup>* v w \<and> \<not> batch_ready u k \<and>
    dget (sd_batches (fw_settlements v)) k = Some b"
  using assms(1,2)
proof (induction rule: rtranclp_induct)
  case base
  then show ?case by (simp add: empty_world_def empty_settlements_def)
next
  case (step y z)
  show ?case
  proof (cases "dget (sd_batches (fw_settlements y)) k = Some b")
    case True
    with step.IH step.hyps(2) show ?thesis by (blast intro: rtranclp.rtrancl_into_rtrancl)
  next
    case False
    with world_step_ready [OF step.hyps(2,1) step.prems assms(3)] step.hyps step.prems show ?thesis by blast
  qed
qed

text \<open>The script before its last call: the batch is balanced, and the last call makes it ready.\<close>

lemma settlement_script_before: "world_outcome settlement_script =
     Inr ([(300, SB_BALANCED)], [(310, 300)], [(320, FH_RELEASED)], [321, 323, 322])"
  by code_simp

lemma settlement_script_step:
  "world_reachable (sample_world settlement_script)"
  "world_step (sample_world settlement_script) (sample_world (settlement_script @ [ready_call]))"
  "\<not> batch_ready (sample_world settlement_script) 300"
proof -
  obtain u where u: "world_calls settlement_script empty_world = Inr u"
    using settlement_script_before by (auto simp: world_outcome_def bind_result_eq_Inr)
  moreover obtain v where v: "world_calls (settlement_script @ [ready_call]) empty_world = Inr v"
    using settlement_script_outcome by (auto simp: world_outcome_def bind_result_eq_Inr)
  ultimately have "run_world ready_call u = Inr v" by (simp add: world_calls_snoc bind_result_eq_Inr)
  then show "world_step (sample_world settlement_script) (sample_world (settlement_script @ [ready_call]))"
    using u v world_call_step by (simp add: sample_world_def)
  show "world_reachable (sample_world settlement_script)" by (rule world_outcome_reachable [OF settlement_script_before])
  have "map (\<lambda>(k, b). (k, sb_state b)) (sd_batches (fw_settlements (sample_world settlement_script))) = [(300, SB_BALANCED)]"
    using world_outcome_reachable(2) [OF settlement_script_before] by (simp add: world_view_def)
  then show "\<not> batch_ready (sample_world settlement_script) 300" by (auto simp: batch_ready_iff)
qed

text \<open>With a new hold on the batch, not yet active, the same last call is refused.\<close>

definition held_script :: "world_call list" where
  "held_script = settlement_script @ [MakeHold gateway (new_hold_create_command HT_SETTLEMENT HS_SETTLEMENT_BATCH 300
     \<lparr>hn_reason_code = HR_SETTLEMENT_MANUAL_REVIEW, hn_reason_detail = None\<rparr> ''hold-key-0000004'' 1 2 (Aware 6450)) 360 361]"

lemma held_script_refused:
  "world_outcome (held_script @ [ready_call]) = Inl (SettlementConflict ''settlement_blocked_by_financial_hold'')"
  by code_simp

section \<open>Properties of settlements\<close>

text \<open>C20: However payments, refunds, holds and settlements interleave, a batch that is ready for settlement has items and no
  exception; a member of staff or an administrator other than the creator of the batch has approved it; and it carries
  the evidence of the check of its holds, of the very time it became ready. It did become ready: some earlier step
  wrote the row that the batch still has. At every step that makes the batch ready, the latest decision of finance is
  an approval and no hold on the batch is created, active, under review or escalated.\<close>

theorem settlement_ready_guarded:
  assumes "world_reachable w" and "dget (sd_batches (fw_settlements w)) k = Some b"
    and "sb_state b = SB_READY_FOR_SETTLEMENT"
  shows "list_items (fw_settlements w) k \<noteq> [] \<and> list_exceptions (fw_settlements w) k = [] \<and>
    (\<exists>a \<in> set (list_approvals (fw_settlements w) k). sp_decision a = AD_APPROVED \<and>
       sp_decided_by_identity_id a \<noteq> sb_created_by_identity_id b \<and>
       sp_decided_by_actor_type a \<in> {''staff'', ''administrator''}) \<and>
    (\<exists>e \<in> set (list_hold_evidence (fw_settlements w) k). \<not> se_blocks_readiness e \<and>
       sb_ready_for_settlement_at b = Some (se_evaluated_at e)) \<and>
    (\<exists>u v. world_reachable u \<and> world_step u v \<and> world_step\<^sup>*\<^sup>* v w \<and> \<not> batch_ready u k \<and>
       dget (sd_batches (fw_settlements v)) k = Some b) \<and>
    (\<forall>u v. world_reachable u \<longrightarrow> world_step u v \<longrightarrow> \<not> batch_ready u k \<longrightarrow> batch_ready v k \<longrightarrow>
       list_approvals (fw_settlements u) k \<noteq> [] \<and>
       sp_decision (last (list_approvals (fw_settlements u) k)) = AD_APPROVED \<and> \<not> batch_held u k)"
proof (intro conjI allI impI)
  have ok: "batch_ok (fw_settlements w) k b"
    using settlement_invD(2) [OF world_reachable_inv(3) [OF assms(1)] assms(2)] .
  then show "list_items (fw_settlements w) k \<noteq> []" "list_exceptions (fw_settlements w) k = []"
    using assms(3) unfolding list_items_Nil list_exceptions_Nil batch_ok_def by auto
  show "\<exists>a \<in> set (list_approvals (fw_settlements w) k). sp_decision a = AD_APPROVED \<and>
       sp_decided_by_identity_id a \<noteq> sb_created_by_identity_id b \<and>
       sp_decided_by_actor_type a \<in> {''staff'', ''administrator''}"
    using ok assms(3) unfolding batch_ok_def has_approval_def approvals_ok_def approval_ok_def list_approvals_def by force
  show "\<exists>e \<in> set (list_hold_evidence (fw_settlements w) k). \<not> se_blocks_readiness e \<and>
       sb_ready_for_settlement_at b = Some (se_evaluated_at e)"
    using ok assms(3) unfolding batch_ok_def has_clearance_def list_hold_evidence_def by force
  show "\<exists>u v. world_reachable u \<and> world_step u v \<and> world_step\<^sup>*\<^sup>* v w \<and> \<not> batch_ready u k \<and>
       dget (sd_batches (fw_settlements v)) k = Some b"
    by (rule ready_batch_became_ready [OF assms])
  fix u v
  assume uv: "world_reachable u" "world_step u v" "\<not> batch_ready u k" "batch_ready v k"
  then obtain c where c: "dget (sd_batches (fw_settlements v)) k = Some c" "sb_state c = SB_READY_FOR_SETTLEMENT"
    unfolding batch_ready_iff by blast
  then have "dget (sd_batches (fw_settlements u)) k \<noteq> Some c" using uv(3) unfolding batch_ready_iff by blast
  from world_step_ready [OF uv(2,1) c this]
  show "list_approvals (fw_settlements u) k \<noteq> []"
    "sp_decision (last (list_approvals (fw_settlements u) k)) = AD_APPROVED" "\<not> batch_held u k" by blast+
qed

theorem settlement_ready_guarded_witness:
  "batch_ready (sample_world (settlement_script @ [ready_call])) 300 \<and>
   list_items (fw_settlements (sample_world (settlement_script @ [ready_call]))) 300 \<noteq> [] \<and>
   world_step (sample_world settlement_script) (sample_world (settlement_script @ [ready_call])) \<and>
   \<not> batch_ready (sample_world settlement_script) 300 \<and> \<not> batch_held (sample_world settlement_script) 300"
proof -
  obtain b where b: "dget (sd_batches (fw_settlements (sample_world (settlement_script @ [ready_call])))) 300 = Some b"
    "sb_state b = SB_READY_FOR_SETTLEMENT" by (rule settlement_script_batch)
  then have ready: "batch_ready (sample_world (settlement_script @ [ready_call])) 300" by (simp add: batch_ready_def)
  with settlement_ready_guarded [OF world_outcome_reachable(1) [OF settlement_script_outcome] b] settlement_script_step
  show ?thesis by blast
qed

text \<open>C21: Every collected item stays linked, whatever the other services do: its attempt exists, belongs to its intent, has
  its currency and has come from a captured payment or one of unknown outcome; its intent is for its ride; and a
  refund it names is a refund of that very attempt.\<close>

theorem settlement_items_linked:
  assumes "world_reachable w" and "i \<in> set (list_items (fw_settlements w) k)"
  shows "\<exists>a n. dget (pd_attempts (fw_payments w)) (si_payment_attempt_id i) = Some a \<and>
    dget (pd_intents (fw_payments w)) (si_payment_intent_id i) = Some n \<and>
    pa_payment_intent_id a = si_payment_intent_id i \<and> pa_currency a = si_currency i \<and> pi_ride_id n = si_ride_id i \<and>
    (leads_to ALLOWED_ATTEMPT_TRANSITIONS PA_CAPTURED (pa_state a) \<or>
     leads_to ALLOWED_ATTEMPT_TRANSITIONS PA_OUTCOME_UNKNOWN (pa_state a)) \<and>
    (\<forall>j. si_refund_request_id i = Some j \<longrightarrow>
       (\<exists>r. dget (rf_requests (fw_refunds w)) j = Some r \<and> rr_payment_attempt_id r = si_payment_attempt_id i \<and>
          rr_amount_minor r \<le> pa_amount_minor a))"
proof -
  have "i \<in> set (item_rows (fw_settlements w))" using assms(2) by (simp add: list_items_def)
  then have link: "item_linked (fw_payments w) (fw_refunds w) i"
    using world_reachable_inv(4) [OF assms(1)] by (simp add: items_linked_def)
  have refunds: "refund_backed (fw_payments w) r" if "dget (rf_requests (fw_refunds w)) j = Some r" for j r
    using refund_invD(2) [OF finance_reachable_inv(3) [OF world_reachable_inv(1) [OF assms(1)]] that] .
  from link show ?thesis
    unfolding item_linked_def using refunds unfolding refund_backed_def by (metis option.inject)
qed

theorem settlement_items_linked_witness:
  "\<exists>i. i \<in> set (list_items (fw_settlements (sample_world (settlement_script @ [ready_call]))) 300) \<and>
     (\<exists>a. dget (pd_attempts (fw_payments (sample_world (settlement_script @ [ready_call])))) (si_payment_attempt_id i) = Some a)"
proof -
  let ?w = "sample_world (settlement_script @ [ready_call])"
  have "(310, 300) \<in> set (map (\<lambda>(k, i). (k, si_settlement_batch_id i)) (sd_items (fw_settlements ?w)))"
    using world_outcome_reachable(2) [OF settlement_script_outcome] by (simp add: world_view_def)
  then obtain i where "i \<in> set (list_items (fw_settlements ?w) 300)" by (force simp: list_items_def dvalues_def)
  with settlement_items_linked [OF world_outcome_reachable(1) [OF settlement_script_outcome] this] show ?thesis by blast
qed

lemma none_pattern: "hold_state_pattern ''none''"
  by code_simp

lemma transition_batch_iff:
  "(\<exists>r. transition_batch db k t at c d rc = Inr r) \<longleftrightarrow>
     (\<exists>b. dget (sd_batches db) k = Some b \<and> (t = sb_state b \<or> allows ALLOWED_BATCH_TRANSITIONS (sb_state b) t \<and> is_aware at) \<and>
        sb_created_at b \<le> instant_of at)"
  by (auto simp: transition_batch_def get_batch_def Let_def bind_result_eq_Inr settlement_batch.guard_ok
    split: option.split)

lemma hold_evidence_iff:
  "(\<exists>e. valid_hold_evidence (new_hold_evidence eid s k None c at) at = Inr e \<and> (\<exists>d. append_hold_evidence db e = Inr d)) \<longleftrightarrow>
     is_aware at \<and> dget (sd_hold_evidence db) eid = None \<and> get_batch db k \<noteq> None"
  using none_pattern by (auto simp: valid_hold_evidence_def append_hold_evidence_def new_hold_evidence_def)

text \<open>Exactly when a batch becomes ready: the caller is a service with the permission and a valid key that is not
  already used for another request; the batch is balanced; the latest decision of finance is an approval; no hold
  on the batch is open; the time is timezone-aware and not before the creation of the batch; and the evidence
  identifier is fresh. In every other case the call raises and nothing is stored.\<close>

theorem ready_for_settlement_iff:
  "(\<exists>r. mark_ready_for_settlement env holds db s k rc key c at eid = Inr r) \<longleftrightarrow>
     pv_has_permission env (fst s) ''settlement.reconcile.run'' \<and> snd s = ID_SERVICE \<and> length_between 16 128 key \<and>
     (\<exists>r. settlement_reserve_idempotency (pv_digest env) db (fst s) ''settlement.batch.ready'' key
        [(''settlement_batch_id'', JUuid k), (''reason_code'', JStr rc)] k (instant_of at) = Inr r) \<and>
     (\<exists>b. dget (sd_batches db) k = Some b \<and> sb_state b = SB_BALANCED \<and> sb_created_at b \<le> instant_of at) \<and>
     list_approvals db k \<noteq> [] \<and> sp_decision (last (list_approvals db k)) = AD_APPROVED \<and>
     \<not> (\<exists>h \<in> set (dvalues (hd_holds holds)). fh_source_type h = HS_SETTLEMENT_BATCH \<and> fh_source_id h = k \<and>
          hold_blocks (fh_state h)) \<and>
     is_aware at \<and> dget (sd_hold_evidence db) eid = None"
  (is "?L \<longleftrightarrow> ?R")
proof
  assume ?L
  then obtain db' b' where "mark_ready_for_settlement env holds db s k rc key c at eid = Inr (db', b')" by auto
  then show ?R
    unfolding mark_ready_for_settlement_def no_blocking_hold [symmetric]
    apply (elim ok_elims)
    subgoal premises prems for _ _ _ _ db1 _ b e db2
    proof -
      note same = settlement_reserve_ok [OF prems(4) [unfolded prems(5)]]
      have evidence: "is_aware at \<and> dget (sd_hold_evidence db1) eid = None"
        using hold_evidence_iff [of eid s k c at db1] prems(9-11) by auto
      have "sd_hold_evidence db1 = sd_hold_evidence db"
        using prems(4,5) by (auto simp: settlement_reserve_idempotency_def bind_result_eq_Inr)
      moreover have "\<exists>b. dget (sd_batches db2) k = Some b \<and> sb_created_at b \<le> instant_of at"
        using transition_batch_iff [of db2 k SB_READY_FOR_SETTLEMENT at c k rc] prems(12) by blast
      ultimately show ?thesis
        using evidence prems(1-4,6-8,11) same append_hold_evidence_ok(1) [OF prems(10)]
        by (auto simp: require_settlement_permission_def require_settlement_service_def validate_settlement_key_def get_batch_def)
    qed
    done
next
  assume r: ?R
  then obtain db1 x where reserve: "settlement_reserve_idempotency (pv_digest env) db (fst s) ''settlement.batch.ready'' key
        [(''settlement_batch_id'', JUuid k), (''reason_code'', JStr rc)] k (instant_of at) = Inr (db1, x)" by auto
  note same = settlement_reserve_ok [OF reserve]
  have evidence: "sd_hold_evidence db1 = sd_hold_evidence db"
    using reserve by (auto simp: settlement_reserve_idempotency_def bind_result_eq_Inr)
  obtain b where b: "dget (sd_batches db) k = Some b" "sb_state b = SB_BALANCED" "sb_created_at b \<le> instant_of at" using r by blast
  have free: "blocking_hold holds k = None" using r no_blocking_hold by blast
  obtain e db2 where e: "valid_hold_evidence (new_hold_evidence eid s k None c at) at = Inr e" "append_hold_evidence db1 e = Inr db2"
    using hold_evidence_iff [of eid s k c at db1] r b same evidence by (auto simp: get_batch_def)
  obtain z where z: "transition_batch db2 k SB_READY_FOR_SETTLEMENT at c k rc = Inr z"
    using transition_batch_iff [of db2 k SB_READY_FOR_SETTLEMENT at c k rc] append_hold_evidence_ok(1) [OF e(2)] r b same
    by (auto simp: allows_def)
  show ?L
    using r b free e z same reserve
    by (simp add: mark_ready_for_settlement_def require_settlement_permission_def require_settlement_service_def
      validate_settlement_key_def get_batch_def)
qed

theorem ready_for_settlement_iff_witness:
  "sp_decision (last (list_approvals (fw_settlements (sample_world settlement_script)) 300)) = AD_APPROVED"
proof -
  have "case mark_ready_for_settlement sample_env (fw_holds (sample_world settlement_script))
      (fw_settlements (sample_world settlement_script)) gateway 300 ''batch.step'' ''ready-key-000001'' 1 (Aware 6500) 350 of
      Inl _ \<Rightarrow> False | Inr _ \<Rightarrow> True"
    by code_simp
  then have "\<exists>r. mark_ready_for_settlement sample_env (fw_holds (sample_world settlement_script))
      (fw_settlements (sample_world settlement_script)) gateway 300 ''batch.step'' ''ready-key-000001'' 1 (Aware 6500) 350 = Inr r"
    by (simp split: sum.splits)
  then show ?thesis unfolding ready_for_settlement_iff by blast
qed

section \<open>Properties of holds\<close>

text \<open>C22: The state of a financial hold is explained by its history: the rows stored for it, in the order of insertion,
  start with its creation, each goes from the state the one before left to a state its table allows, and the last
  gives the stored state. A hold names a source of the type that its own type requires.\<close>

theorem hold_history_explains_state:
  assumes "world_reachable w" and "dget (hd_holds (fw_holds w)) k = Some h"
  shows "\<exists>r rs. hold_rows (fw_holds w) k = r # rs \<and> hh_from_state r = None \<and> hh_to_state r = FH_CREATED \<and>
    map hh_from_state rs = map (\<lambda>r. Some (hh_to_state r)) (butlast (r # rs)) \<and>
    legal_history ALLOWED_HOLD_TRANSITIONS FH_CREATED (map hh_to_state rs) \<and>
    final_state FH_CREATED (map hh_to_state rs) = fh_state h \<and>
    fh_source_type h = allowed_source_type (fh_hold_type h)"
proof -
  have chain: "chained (Some t) rs \<Longrightarrow> hh_to_state r = t \<Longrightarrow>
      map hh_from_state rs = map (\<lambda>r. Some (hh_to_state r)) (butlast (r # rs))" for t r rs
    by (induction rs arbitrary: t r) auto
  have ok: "hold_ok (fw_holds w) k h" using hold_invD [OF world_reachable_inv(2) [OF assms(1)] assms(2)] .
  then obtain r rs where rows: "hold_rows (fw_holds w) k = r # rs"
    unfolding hold_ok_def by (cases "hold_rows (fw_holds w) k") auto
  then have "hh_from_state r = None" "hh_to_state r = FH_CREATED" "chained (Some FH_CREATED) rs"
    using ok by (auto simp: hold_ok_def)
  then show ?thesis
    using rows ok chain chained_history by (auto simp: hold_ok_def final_state_def last_map)
qed

theorem hold_history_explains_state_witness:
  "\<exists>h. dget (hd_holds (fw_holds (sample_world (settlement_script @ [ready_call])))) 320 = Some h \<and>
     fh_state h = FH_RELEASED \<and> fh_source_type h = allowed_source_type (fh_hold_type h)"
proof -
  let ?w = "sample_world (settlement_script @ [ready_call])"
  have "dget (map (\<lambda>(k, h). (k, fh_state h)) (hd_holds (fw_holds ?w))) 320 = Some FH_RELEASED"
    using world_outcome_reachable(2) [OF settlement_script_outcome] by (simp add: world_view_def)
  then obtain h where h: "dget (hd_holds (fw_holds ?w)) 320 = Some h" "fh_state h = FH_RELEASED" by (auto simp: map_of_map)
  with hold_history_explains_state [OF world_outcome_reachable(1) [OF settlement_script_outcome] this(1)] show ?thesis by blast
qed

text \<open>
  Behaviours the invariants leave open. The hold service does not compare the time of a transition with the last
  one, so the history that the service lists, which is ordered by time, can end in another state than the hold's.
  The evidence that a hold blocks a batch is written and then rolled back by the exception that reports it. The
  amount of a settlement item is not compared with its payment, and one payment can be collected again.
\<close>

theorem listed_history_out_of_order:
  "\<exists>w h. world_reachable w \<and> dget (hd_holds (fw_holds w)) 320 = Some h \<and>
     map hh_history_id (list_history (fw_holds w) 320) = [321, 323, 322] \<and> fh_state h = FH_RELEASED"
proof -
  obtain h where "dget (hd_holds (fw_holds (sample_world (settlement_script @ [ready_call])))) 320 = Some h" "fh_state h = FH_RELEASED"
    using world_outcome_reachable(2) [OF settlement_script_outcome] map_of_map [of fh_state "hd_holds (fw_holds (sample_world (settlement_script @ [ready_call])))"]
    by (force simp: world_view_def)
  then show ?thesis
    using world_outcome_reachable [OF settlement_script_outcome]
    by (intro exI [of _ "sample_world (settlement_script @ [ready_call])"] exI [of _ h]) (simp add: world_view_def)
qed

theorem blocking_evidence_never_stored:
  assumes "world_reachable w" and "e \<in> set (list_hold_evidence (fw_settlements w) k)"
  shows "\<not> se_blocks_readiness e"
  using settlement_invD(1) [OF world_reachable_inv(3) [OF assms(1)]] assms(2)
  by (auto simp: rows_ok_def list_hold_evidence_def)

theorem confirmation_follows_submission:
  assumes "world_reachable w" and "e \<in> set (list_external_evidence (fw_settlements w) k)"
    and "sx_evidence_type e = EV_CONFIRMATION"
  shows "\<exists>f \<in> set (list_external_evidence (fw_settlements w) k). sx_evidence_type f = EV_SUBMISSION \<and>
    sx_provider_code f = sx_provider_code e"
  using settlement_invD(1) [OF world_reachable_inv(3) [OF assms(1)]] assms(2,3)
  by (fastforce simp: rows_ok_def list_external_evidence_def)

end
