(* ===== verification/Arrival_Waiting.thy ===== *)
theory Arrival_Waiting
  imports Active_Ride_Service
begin

text \<open>
  Arrival, readiness and waiting at the pickup: \<open>arrival_waiting/models.py\<close> and \<open>arrival_waiting/engine.py\<close>.
  The engine decides whether a driver has arrived, whether the rider is likely to be late, which waiting policy
  applies, how a waiting session goes on when a new observation comes in, and whether there is evidence of a
  no-show. Identifiers drawn by \<open>uuid4\<close> are arguments. Prices are not part of this component.
\<close>

section \<open>Models\<close>

datatype arrival_state = AS_ARRIVAL_UNVERIFIED | AS_ARRIVAL_VERIFIED | AS_WAIT_PAUSED | AS_WAIT_INVALIDATED

datatype readiness_class = RD_READY | RD_MOVING_TO_PICKUP | RD_LIKELY_ON_TIME | RD_MAY_BE_LATE
  | RD_UNLIKELY_ON_TIME | RD_INSUFFICIENT_DATA

datatype waiting_state = WS_FREE_WAIT_ACTIVE | WS_FREE_WAIT_ENDING | WS_WAIT_PAUSED | WS_WAIT_INVALIDATED
  | WS_EVIDENCE_READY

datatype wait_responsibility = WR_RIDER | WR_DRIVER | WR_AYO | WR_EXTERNAL | WR_SHARED | WR_INSUFFICIENT

datatype ride_origin = RO_IMMEDIATE | RO_SCHEDULED

datatype pickup_context = PX_AIRPORT | PX_HOTEL | PX_HOSPITAL | PX_SHOPPING_CENTRE | PX_RESIDENTIAL
  | PX_UNIVERSITY | PX_STADIUM | PX_MARKET

datatype pickup_point_kind = PP_MAIN_GATE | PP_EMERGENCY_ENTRANCE | PP_TERMINAL | PP_TAXI_BAY
  | PP_SIDE_ENTRANCE | PP_NAMED_PICKUP_POINT

datatype service_context = SX_STANDARD | SX_AIRPORT_STANDARD | SX_AIRPORT_PREMIUM

datatype departure_behavior = DB_PAUSE | DB_INVALIDATE

fun readiness_value :: "readiness_class \<Rightarrow> string" where
  "readiness_value RD_READY = ''ready''"
| "readiness_value RD_MOVING_TO_PICKUP = ''moving_to_pickup''"
| "readiness_value RD_LIKELY_ON_TIME = ''likely_on_time''"
| "readiness_value RD_MAY_BE_LATE = ''may_be_late''"
| "readiness_value RD_UNLIKELY_ON_TIME = ''unlikely_on_time''"
| "readiness_value RD_INSUFFICIENT_DATA = ''insufficient_data''"

fun waiting_value :: "waiting_state \<Rightarrow> string" where
  "waiting_value WS_FREE_WAIT_ACTIVE = ''free_wait_active''"
| "waiting_value WS_FREE_WAIT_ENDING = ''free_wait_ending''"
| "waiting_value WS_WAIT_PAUSED = ''wait_paused''"
| "waiting_value WS_WAIT_INVALIDATED = ''wait_invalidated''"
| "waiting_value WS_EVIDENCE_READY = ''evidence_ready''"

record location_observation =
  lo_observed_at :: instant
  lo_sequence :: int
  lo_latitude_e6 :: int
  lo_longitude_e6 :: int
  lo_accuracy_meters :: int
  lo_speed_cm_per_second :: int
  lo_heading_degrees :: "int option"

definition new_location_observation ::
  "py_datetime \<Rightarrow> int \<Rightarrow> int \<Rightarrow> int \<Rightarrow> int \<Rightarrow> int \<Rightarrow> int option \<Rightarrow> location_observation result" where
  "new_location_observation observed_at sequence latitude longitude accuracy speed heading =
     (if \<not> is_aware observed_at then Inl (ValidationError ''Location time must be timezone-aware'')
      else if 0 \<le> sequence \<and> in_range (-90000000) 90000000 latitude \<and> in_range (-180000000) 180000000 longitude \<and>
        in_range 0 10000 accuracy \<and> in_range 0 20000 speed \<and> optional_ok (in_range 0 359) heading
      then Inr \<lparr>lo_observed_at = instant_of observed_at, lo_sequence = sequence, lo_latitude_e6 = latitude,
        lo_longitude_e6 = longitude, lo_accuracy_meters = accuracy, lo_speed_cm_per_second = speed,
        lo_heading_degrees = heading\<rparr>
      else Inl (ValidationError ''LocationObservation''))"

record arrival_signals =
  ag_observation :: location_observation
  ag_approved_pickup_place_id :: string
  ag_pickup_recommendation_id :: uuid
  ag_pickup_recommendation_version :: string
  ag_pickup_zone_id :: string
  ag_inside_pickup_zone :: bool
  ag_pickup_confidence_bps :: int
  ag_map_confidence_bps :: int
  ag_seconds_stationary :: int
  ag_approach_consistent :: bool
  ag_heading_reliable :: bool
  ag_accessible_pickup :: bool
  ag_operationally_available :: bool
  ag_unsafe_or_restricted :: bool
  ag_service_context :: service_context
  ag_airport_terminal_code :: "string option"
  ag_airport_zone_match :: bool
  ag_airport_context_fresh :: bool
  ag_airport_staging_constraint_satisfied :: bool
  ag_airport_access_permitted :: bool
  ag_airport_congestion :: bool
  ag_airport_zone_closed :: bool
  ag_flight_delay_context :: bool

definition valid_arrival_signals :: "arrival_signals \<Rightarrow> bool" where
  "valid_arrival_signals g \<longleftrightarrow> length_between 8 128 (ag_approved_pickup_place_id g) \<and>
     code_pattern 1 (ag_pickup_recommendation_version g) \<and> length_between 3 128 (ag_pickup_zone_id g) \<and>
     bps_ok (ag_pickup_confidence_bps g) \<and> bps_ok (ag_map_confidence_bps g) \<and>
     in_range 0 86400 (ag_seconds_stationary g) \<and> optional_ok (\<lambda>s. length s \<le> 32) (ag_airport_terminal_code g)"

record arrival_policy =
  ay_policy_id :: string
  ay_version :: string
  ay_maximum_location_age_seconds :: int
  ay_maximum_accuracy_meters :: int
  ay_maximum_stationary_speed_cm_per_second :: int
  ay_minimum_stationary_seconds :: int
  ay_minimum_pickup_confidence_bps :: int
  ay_minimum_map_confidence_bps :: int
  ay_minimum_verification_confidence_bps :: int

definition valid_arrival_policy :: "arrival_policy \<Rightarrow> bool" where
  "valid_arrival_policy p \<longleftrightarrow> code_pattern 1 (ay_policy_id p) \<and> code_pattern 1 (ay_version p) \<and>
     in_range 1 900 (ay_maximum_location_age_seconds p) \<and> in_range 1 500 (ay_maximum_accuracy_meters p) \<and>
     in_range 0 2000 (ay_maximum_stationary_speed_cm_per_second p) \<and>
     in_range 1 3600 (ay_minimum_stationary_seconds p) \<and> bps_ok (ay_minimum_pickup_confidence_bps p) \<and>
     bps_ok (ay_minimum_map_confidence_bps p) \<and> bps_ok (ay_minimum_verification_confidence_bps p)"

record arrival_evaluation =
  ae_evaluation_id :: uuid
  ae_ride_id :: uuid
  ae_assignment_id :: uuid
  ae_state :: arrival_state
  ae_confidence_bps :: int
  ae_reason_codes :: "string list"
  ae_explanation_code :: string
  ae_pickup_place_id :: string
  ae_pickup_zone_id :: string
  ae_pickup_recommendation_id :: uuid
  ae_pickup_recommendation_version :: string
  ae_observation_sequence :: int
  ae_evaluated_at :: instant

record readiness_signals =
  rs_rider_location_age_seconds :: "int option"
  rs_rider_location_accuracy_meters :: "int option"
  rs_moving_toward_pickup :: "bool option"
  rs_within_pickup_zone :: bool
  rs_rider_walking_eta_seconds :: "int option"
  rs_driver_eta_seconds :: "int option"
  rs_venue_context_possible :: bool
  rs_pickup_confidence_bps :: int
  rs_connectivity_degraded :: bool

definition valid_readiness_signals :: "readiness_signals \<Rightarrow> bool" where
  "valid_readiness_signals g \<longleftrightarrow> optional_ok (in_range 0 86400) (rs_rider_location_age_seconds g) \<and>
     optional_ok (in_range 0 10000) (rs_rider_location_accuracy_meters g) \<and>
     optional_ok (in_range 0 14400) (rs_rider_walking_eta_seconds g) \<and>
     optional_ok (in_range 0 14400) (rs_driver_eta_seconds g) \<and> bps_ok (rs_pickup_confidence_bps g)"

record readiness_policy =
  ry_policy_id :: string
  ry_version :: string
  ry_maximum_location_age_seconds :: int
  ry_maximum_accuracy_meters :: int
  ry_minimum_confidence_bps :: int
  ry_notification_confidence_bps :: int
  ry_notification_cooldown_seconds :: int
  ry_maximum_notifications_per_ride :: int
  ry_lateness_margin_seconds :: int

definition valid_readiness_policy :: "readiness_policy \<Rightarrow> bool" where
  "valid_readiness_policy p \<longleftrightarrow> code_pattern 1 (ry_policy_id p) \<and> code_pattern 1 (ry_version p) \<and>
     in_range 1 900 (ry_maximum_location_age_seconds p) \<and> in_range 1 1000 (ry_maximum_accuracy_meters p) \<and>
     bps_ok (ry_minimum_confidence_bps p) \<and> bps_ok (ry_notification_confidence_bps p) \<and>
     in_range 1 86400 (ry_notification_cooldown_seconds p) \<and> in_range 0 20 (ry_maximum_notifications_per_ride p) \<and>
     in_range 0 3600 (ry_lateness_margin_seconds p)"

record readiness_decision =
  rn_decision_id :: uuid
  rn_ride_id :: uuid
  rn_classification :: readiness_class
  rn_confidence_bps :: int
  rn_reason_codes :: "string list"
  rn_explanation_code :: string
  rn_policy_id :: string
  rn_policy_version :: string
  rn_evaluated_at :: instant
  rn_expires_at :: instant
  rn_notification_recommended :: bool
  rn_notification_reason_code :: string

record waiting_policy =
  wp_policy_id :: uuid
  wp_version :: string
  wp_city_code :: string
  wp_ride_origin :: "ride_origin option"
  wp_pickup_context :: "pickup_context option"
  wp_service_context :: "service_context option"
  wp_assisted :: "bool option"
  wp_accessibility_accommodation :: "bool option"
  wp_severe_weather :: "bool option"
  wp_operational_override_code :: "string option"
  wp_effective_from :: instant
  wp_effective_until :: "instant option"
  wp_priority :: int
  wp_free_wait_seconds :: int
  wp_ending_warning_seconds :: int
  wp_departure_behavior :: departure_behavior
  wp_pause_on_insufficient_quality :: bool
  wp_maximum_location_age_seconds :: int
  wp_minimum_location_confidence_bps :: int
  wp_reasonable_notification_required :: bool

definition valid_window :: "waiting_policy \<Rightarrow> waiting_policy result" where
  "valid_window p =
     (if \<not> (code_pattern 1 (wp_version p) \<and> code_pattern 1 (wp_city_code p) \<and>
            optional_ok (code_pattern 1) (wp_operational_override_code p) \<and> in_range 0 10000 (wp_priority p) \<and>
            in_range 1 86400 (wp_free_wait_seconds p) \<and> in_range 0 86400 (wp_ending_warning_seconds p) \<and>
            in_range 1 900 (wp_maximum_location_age_seconds p) \<and> bps_ok (wp_minimum_location_confidence_bps p))
      then Inl (ValidationError ''WaitingPolicyDefinition'')
      else if \<not> optional_ok (\<lambda>u. wp_effective_from p < u) (wp_effective_until p)
      then Inl (ValidationError ''Policy effective window must be positive'')
      else if wp_ending_warning_seconds p \<ge> wp_free_wait_seconds p
      then Inl (ValidationError ''Ending warning must be shorter than free wait'')
      else Inr p)"

definition aware_policy_time ::
  "py_datetime \<Rightarrow> py_datetime option \<Rightarrow> waiting_policy \<Rightarrow> waiting_policy result" where
  "aware_policy_time effective_from effective_until p =
     (if \<not> is_aware effective_from \<or> \<not> optional_ok is_aware effective_until
      then Inl (ValidationError ''Policy time must be timezone-aware'')
      else valid_window (p\<lparr>wp_effective_from := instant_of effective_from,
        wp_effective_until := map_option instant_of effective_until\<rparr>))"

record waiting_context =
  wc_city_code :: string
  wc_ride_origin :: ride_origin
  wc_pickup_context :: pickup_context
  wc_service_context :: service_context
  wc_assisted :: bool
  wc_accessibility_accommodation :: bool
  wc_severe_weather :: bool
  wc_operational_override_code :: "string option"

record waiting_snapshot =
  wn_snapshot_id :: uuid
  wn_ride_id :: uuid
  wn_source_policy_id :: uuid
  wn_source_policy_version :: string
  wn_context :: waiting_context
  wn_matched_dimensions :: "string list"
  wn_selected_at :: instant
  wn_free_wait_seconds :: int
  wn_ending_warning_seconds :: int
  wn_departure_behavior :: departure_behavior
  wn_pause_on_insufficient_quality :: bool
  wn_maximum_location_age_seconds :: int
  wn_minimum_location_confidence_bps :: int
  wn_reasonable_notification_required :: bool

record waiting_session =
  ws_session_id :: uuid
  ws_ride_id :: uuid
  ws_assignment_id :: uuid
  ws_arrival_evaluation_id :: uuid
  ws_policy_snapshot_id :: uuid
  ws_state :: waiting_state
  ws_version :: int
  ws_verified_arrival_at :: instant
  ws_started_at :: instant
  ws_free_wait_deadline :: instant
  ws_updated_at :: instant
  ws_total_paused_seconds :: int
  ws_paused_at :: "instant option"
  ws_last_observation_sequence :: int
  ws_reason_codes :: "string list"

record continuity_signals =
  cs_inside_pickup_zone :: bool
  cs_location_age_seconds :: int
  cs_location_confidence_bps :: int
  cs_driver_available :: bool
  cs_pickup_guidance_valid :: bool
  cs_reasonable_notification :: bool
  cs_platform_failure :: bool
  cs_map_or_eta_failure :: bool
  cs_external_disruption :: bool
  cs_unsafe_or_inaccessible :: bool
  cs_airport_zone_confusion :: bool
  cs_road_closure :: bool
  cs_emergency :: bool
  cs_weak_network_uncertainty :: bool
  cs_driver_materially_late :: bool

definition valid_continuity_signals :: "continuity_signals \<Rightarrow> bool" where
  "valid_continuity_signals g \<longleftrightarrow>
     in_range 0 86400 (cs_location_age_seconds g) \<and> bps_ok (cs_location_confidence_bps g)"

record no_show_evidence =
  ne_evidence_id :: uuid
  ne_ride_id :: uuid
  ne_session_id :: uuid
  ne_ready :: bool
  ne_responsibility :: wait_responsibility
  ne_confidence_bps :: int
  ne_reason_codes :: "string list"
  ne_suppression_reason_codes :: "string list"
  ne_explanation_code :: string
  ne_evaluated_at :: instant

section \<open>Arrival\<close>

text \<open>The codes that a sequence of \<open>if check: codes.append(code)\<close> collects.\<close>

definition flagged :: "(bool \<times> string) list \<Rightarrow> string list" where
  "flagged checks = map snd (filter fst checks)"

definition age_seconds :: "instant \<Rightarrow> instant \<Rightarrow> int" where
  "age_seconds now at = max 0 (whole_seconds (now - at))"

definition airport_service :: "service_context \<Rightarrow> bool" where
  "airport_service c \<longleftrightarrow> c \<in> {SX_AIRPORT_STANDARD, SX_AIRPORT_PREMIUM}"

definition airport_failures :: "arrival_signals \<Rightarrow> string list" where
  "airport_failures g =
     (if airport_service (ag_service_context g)
      then flagged
        [(ag_airport_terminal_code g = None \<or> \<not> ag_airport_zone_match g, ''arrival.airport_zone_mismatch''),
         (\<not> ag_airport_context_fresh g, ''arrival.airport_context_stale''),
         (\<not> ag_airport_staging_constraint_satisfied g, ''arrival.airport_staging_constraint''),
         (\<not> ag_airport_access_permitted g \<or> ag_airport_zone_closed g, ''arrival.airport_access_unavailable'')]
      else [])"

definition arrival_failures :: "arrival_signals \<Rightarrow> arrival_policy \<Rightarrow> instant \<Rightarrow> string list" where
  "arrival_failures g p now =
     flagged
       [(age_seconds now (lo_observed_at (ag_observation g)) > ay_maximum_location_age_seconds p,
           ''arrival.location_stale''),
        (lo_accuracy_meters (ag_observation g) > ay_maximum_accuracy_meters p, ''arrival.location_inaccurate''),
        (\<not> ag_inside_pickup_zone g, ''arrival.outside_pickup_zone''),
        (ag_pickup_confidence_bps g < ay_minimum_pickup_confidence_bps p, ''arrival.pickup_confidence_low''),
        (ag_map_confidence_bps g < ay_minimum_map_confidence_bps p, ''arrival.map_confidence_low''),
        (lo_speed_cm_per_second (ag_observation g) > ay_maximum_stationary_speed_cm_per_second p,
           ''arrival.driver_moving''),
        (ag_seconds_stationary g < ay_minimum_stationary_seconds p, ''arrival.stationarity_insufficient''),
        (ag_heading_reliable g \<and> \<not> ag_approach_consistent g, ''arrival.approach_inconsistent''),
        (\<not> ag_accessible_pickup g, ''arrival.pickup_inaccessible''),
        (\<not> ag_operationally_available g, ''arrival.pickup_unavailable''),
        (ag_unsafe_or_restricted g, ''arrival.pickup_unsafe_or_restricted'')] @
     airport_failures g"

definition arrival_confidence :: "arrival_signals \<Rightarrow> string list \<Rightarrow> int" where
  "arrival_confidence g failures =
     (let passed = 14 - int (length failures)
      in max 0 (min (min (ag_pickup_confidence_bps g) (ag_map_confidence_bps g)) (passed * 1000)))"

definition evaluate_arrival ::
  "uuid \<Rightarrow> uuid \<Rightarrow> uuid \<Rightarrow> arrival_signals \<Rightarrow> arrival_policy \<Rightarrow> instant \<Rightarrow> arrival_evaluation" where
  "evaluate_arrival evaluation_id ride_id assignment_id g p now =
     (let failures = arrival_failures g p now;
          confidence = arrival_confidence g failures;
          verified = (failures = [] \<and> confidence \<ge> ay_minimum_verification_confidence_bps p)
      in \<lparr>ae_evaluation_id = evaluation_id, ae_ride_id = ride_id, ae_assignment_id = assignment_id,
          ae_state = (if verified then AS_ARRIVAL_VERIFIED else AS_ARRIVAL_UNVERIFIED),
          ae_confidence_bps = confidence,
          ae_reason_codes =
            (if verified then [''arrival.multisignal_verified'']
             else if failures = [] then [''arrival.confidence_below_threshold''] else failures),
          ae_explanation_code = (if verified then ''arrival.verified'' else ''arrival.not_verified''),
          ae_pickup_place_id = ag_approved_pickup_place_id g, ae_pickup_zone_id = ag_pickup_zone_id g,
          ae_pickup_recommendation_id = ag_pickup_recommendation_id g,
          ae_pickup_recommendation_version = ag_pickup_recommendation_version g,
          ae_observation_sequence = lo_sequence (ag_observation g), ae_evaluated_at = now\<rparr>)"

section \<open>Readiness\<close>

text \<open>\<open>value is None or value > limit\<close>.\<close>

definition missing_or_above :: "int option \<Rightarrow> int \<Rightarrow> bool" where
  "missing_or_above x limit = (case x of None \<Rightarrow> True | Some n \<Rightarrow> n > limit)"

definition readiness_insufficient :: "readiness_signals \<Rightarrow> readiness_policy \<Rightarrow> bool" where
  "readiness_insufficient g p \<longleftrightarrow> rs_driver_eta_seconds g = None \<or> rs_rider_walking_eta_seconds g = None \<or>
     missing_or_above (rs_rider_location_age_seconds g) (ry_maximum_location_age_seconds p) \<or>
     missing_or_above (rs_rider_location_accuracy_meters g) (ry_maximum_accuracy_meters p) \<or>
     rs_pickup_confidence_bps g < ry_minimum_confidence_bps p"

text \<open>The class, the confidence and the reasons; the two arrival times are present when they are compared.\<close>

definition classify_readiness ::
  "readiness_signals \<Rightarrow> readiness_policy \<Rightarrow> readiness_class \<times> int \<times> string list" where
  "classify_readiness g p =
     (if readiness_insufficient g p then (RD_INSUFFICIENT_DATA, 0, [''readiness.data_insufficient''])
      else if rs_within_pickup_zone g
      then (RD_READY, min 10000 (rs_pickup_confidence_bps g), [''readiness.rider_at_pickup''])
      else if rs_moving_toward_pickup g = Some True
      then (RD_MOVING_TO_PICKUP, min 9500 (rs_pickup_confidence_bps g), [''readiness.moving_toward_pickup''])
      else
        (let difference = the (rs_rider_walking_eta_seconds g) - the (rs_driver_eta_seconds g);
             venue = (if rs_venue_context_possible g then [''readiness.venue_context_possible_not_verified''] else [])
         in if difference \<le> 0
            then (RD_LIKELY_ON_TIME, min 9000 (rs_pickup_confidence_bps g),
                  ''readiness.walk_eta_within_driver_eta'' # venue)
            else if difference \<le> ry_lateness_margin_seconds p
            then (RD_MAY_BE_LATE, min 8500 (rs_pickup_confidence_bps g),
                  ''readiness.walk_eta_near_driver_eta'' # venue)
            else (RD_UNLIKELY_ON_TIME, min 9000 (rs_pickup_confidence_bps g),
                  ''readiness.walk_eta_exceeds_driver_eta'' # venue)))"

text \<open>The time of the previous notification comes from the caller and may lack its timezone; subtracting it then
  raises.\<close>

definition notification_cooldown :: "readiness_policy \<Rightarrow> instant \<Rightarrow> py_datetime option \<Rightarrow> bool result" where
  "notification_cooldown p now prior =
     (case prior of
        None \<Rightarrow> Inr False
      | Some (Naive _) \<Rightarrow> Inl TypeError
      | Some (Aware t) \<Rightarrow> Inr (now - t < timedelta_seconds (ry_notification_cooldown_seconds p)))"

definition evaluate_readiness ::
  "uuid \<Rightarrow> uuid \<Rightarrow> readiness_signals \<Rightarrow> readiness_policy \<Rightarrow> instant \<Rightarrow> py_datetime option \<Rightarrow> int \<Rightarrow>
   readiness_decision result" where
  "evaluate_readiness decision_id ride_id g p now prior notification_count =
     bind_result (notification_cooldown p now prior) (\<lambda>cooldown.
     let (classification, confidence, reasons) = classify_readiness g p;
         capped = (notification_count \<ge> ry_maximum_notifications_per_ride p);
         recommend = (classification \<in> {RD_MAY_BE_LATE, RD_UNLIKELY_ON_TIME} \<and>
           confidence \<ge> ry_notification_confidence_bps p \<and> \<not> cooldown \<and> \<not> capped \<and> \<not> rs_connectivity_degraded g)
     in Inr \<lparr>rn_decision_id = decision_id, rn_ride_id = ride_id, rn_classification = classification,
          rn_confidence_bps = confidence, rn_reason_codes = reasons,
          rn_explanation_code = ''readiness.'' @ readiness_value classification,
          rn_policy_id = ry_policy_id p, rn_policy_version = ry_version p, rn_evaluated_at = now,
          rn_expires_at = now + timedelta_seconds (ry_maximum_location_age_seconds p),
          rn_notification_recommended = recommend,
          rn_notification_reason_code =
            (if recommend then ''notification.readiness_recommended''
             else if cooldown then ''notification.suppressed_cooldown''
             else if capped then ''notification.suppressed_cap''
             else if rs_connectivity_degraded g then ''notification.suppressed_connectivity''
             else ''notification.not_actionable'')\<rparr>)"

section \<open>Waiting policies\<close>

text \<open>
  The seven dimensions of a policy: its name, whether the policy restricts it, and whether the context has the
  expected value.
\<close>

definition policy_dimensions :: "waiting_policy \<Rightarrow> waiting_context \<Rightarrow> (string \<times> bool \<times> bool) list" where
  "policy_dimensions p c =
     [(''ride_origin'', wp_ride_origin p \<noteq> None, wp_ride_origin p = Some (wc_ride_origin c)),
      (''pickup_context'', wp_pickup_context p \<noteq> None, wp_pickup_context p = Some (wc_pickup_context c)),
      (''service_context'', wp_service_context p \<noteq> None, wp_service_context p = Some (wc_service_context c)),
      (''assisted'', wp_assisted p \<noteq> None, wp_assisted p = Some (wc_assisted c)),
      (''accessibility_accommodation'', wp_accessibility_accommodation p \<noteq> None,
         wp_accessibility_accommodation p = Some (wc_accessibility_accommodation c)),
      (''severe_weather'', wp_severe_weather p \<noteq> None, wp_severe_weather p = Some (wc_severe_weather c)),
      (''operational_override_code'', wp_operational_override_code p \<noteq> None,
         wp_operational_override_code p = wc_operational_override_code c)]"

fun matched_dimensions :: "(string \<times> bool \<times> bool) list \<Rightarrow> string list option" where
  "matched_dimensions [] = Some []"
| "matched_dimensions ((name, restricted, same) # rest) =
     (if restricted \<and> \<not> same then None
      else map_option (\<lambda>ds. if restricted then (''waiting_policy.context.'' @ name) # ds else ds)
        (matched_dimensions rest))"

definition policy_matches :: "waiting_policy \<Rightarrow> waiting_context \<Rightarrow> instant \<Rightarrow> string list option" where
  "policy_matches p c now =
     (if wp_city_code p \<noteq> wc_city_code c \<or> now < wp_effective_from p then None
      else if (case wp_effective_until p of None \<Rightarrow> False | Some u \<Rightarrow> now \<ge> u) then None
      else map_option (\<lambda>ds. ''waiting_policy.context.city'' # ds) (matched_dimensions (policy_dimensions p c)))"

definition matching_policies ::
  "waiting_context \<Rightarrow> waiting_policy list \<Rightarrow> instant \<Rightarrow> (waiting_policy \<times> string list) list" where
  "matching_policies c policies now =
     List.map_filter (\<lambda>p. map_option (Pair p) (policy_matches p c now)) policies"

definition policy_rank :: "waiting_policy \<times> string list \<Rightarrow> nat \<times> int" where
  "policy_rank m = (length (snd m), wp_priority (fst m))"

text \<open>\<open>sorted(..., reverse=True)\<close> keeps the order of equal elements.\<close>

definition reverse_key :: "nat \<times> int \<Rightarrow> int \<times> int" where
  "reverse_key k = (- int (fst k), - snd k)"

definition new_snapshot ::
  "uuid \<Rightarrow> uuid \<Rightarrow> waiting_context \<Rightarrow> waiting_policy \<Rightarrow> string list \<Rightarrow> instant \<Rightarrow> waiting_snapshot" where
  "new_snapshot snapshot_id ride_id c winner dimensions now =
     \<lparr>wn_snapshot_id = snapshot_id, wn_ride_id = ride_id, wn_source_policy_id = wp_policy_id winner,
      wn_source_policy_version = wp_version winner, wn_context = c, wn_matched_dimensions = dimensions,
      wn_selected_at = now, wn_free_wait_seconds = wp_free_wait_seconds winner,
      wn_ending_warning_seconds = wp_ending_warning_seconds winner,
      wn_departure_behavior = wp_departure_behavior winner,
      wn_pause_on_insufficient_quality = wp_pause_on_insufficient_quality winner,
      wn_maximum_location_age_seconds = wp_maximum_location_age_seconds winner,
      wn_minimum_location_confidence_bps = wp_minimum_location_confidence_bps winner,
      wn_reasonable_notification_required = wp_reasonable_notification_required winner\<rparr>"

definition resolve_waiting_policy ::
  "uuid \<Rightarrow> uuid \<Rightarrow> waiting_context \<Rightarrow> waiting_policy list \<Rightarrow> instant \<Rightarrow> waiting_snapshot result" where
  "resolve_waiting_policy snapshot_id ride_id c policies now =
     (case sort_key (\<lambda>m. reverse_key (policy_rank m)) (matching_policies c policies now) of
        [] \<Rightarrow> Inl (ArrivalWaitingConflict ''waiting_policy_unavailable'')
      | first # rest \<Rightarrow>
          if rest \<noteq> [] \<and> policy_rank (hd rest) = policy_rank first
          then Inl (ArrivalWaitingConflict ''waiting_policy_ambiguous'')
          else Inr (new_snapshot snapshot_id ride_id c (fst first) (snd first) now))"

section \<open>Waiting sessions\<close>

definition new_session ::
  "uuid \<Rightarrow> uuid \<Rightarrow> uuid \<Rightarrow> arrival_evaluation \<Rightarrow> waiting_snapshot \<Rightarrow> instant \<Rightarrow> waiting_session" where
  "new_session session_id ride_id assignment_id arrival snap now =
     \<lparr>ws_session_id = session_id, ws_ride_id = ride_id, ws_assignment_id = assignment_id,
      ws_arrival_evaluation_id = ae_evaluation_id arrival, ws_policy_snapshot_id = wn_snapshot_id snap,
      ws_state = WS_FREE_WAIT_ACTIVE, ws_version = 1, ws_verified_arrival_at = ae_evaluated_at arrival,
      ws_started_at = now, ws_free_wait_deadline = now + timedelta_seconds (wn_free_wait_seconds snap),
      ws_updated_at = now, ws_total_paused_seconds = 0, ws_paused_at = None,
      ws_last_observation_sequence = ae_observation_sequence arrival,
      ws_reason_codes = [''waiting.free_wait_started'']\<rparr>"

definition start_waiting ::
  "uuid \<Rightarrow> uuid \<Rightarrow> uuid \<Rightarrow> arrival_evaluation \<Rightarrow> waiting_snapshot \<Rightarrow> instant \<Rightarrow> waiting_session result" where
  "start_waiting session_id ride_id assignment_id arrival snap now =
     (if ae_state arrival \<noteq> AS_ARRIVAL_VERIFIED then Inl (ArrivalWaitingConflict ''arrival_not_verified'')
      else if ae_ride_id arrival \<noteq> ride_id \<or> wn_ride_id snap \<noteq> ride_id \<or> ae_assignment_id arrival \<noteq> assignment_id
      then Inl (ArrivalWaitingConflict ''waiting_context_mismatch'')
      else if 0 \<le> ae_observation_sequence arrival
      then Inr (new_session session_id ride_id assignment_id arrival snap now)
      else Inl (ValidationError ''WaitingSession''))"

definition continuity_reasons :: "waiting_snapshot \<Rightarrow> continuity_signals \<Rightarrow> string list" where
  "continuity_reasons snap g =
     flagged
       [(\<not> cs_inside_pickup_zone g, ''suppression.driver_moved_away''),
        (cs_location_age_seconds g > wn_maximum_location_age_seconds snap, ''suppression.stale_gps''),
        (cs_location_confidence_bps g < wn_minimum_location_confidence_bps snap,
           ''suppression.conflicting_or_low_confidence_gps''),
        (cs_unsafe_or_inaccessible g, ''suppression.unsafe_or_inaccessible_pickup''),
        (cs_platform_failure g, ''suppression.platform_failure''),
        (cs_map_or_eta_failure g, ''suppression.map_or_eta_failure''),
        (cs_airport_zone_confusion g, ''suppression.airport_zone_confusion''),
        (cs_road_closure g, ''suppression.road_closure''),
        (cs_emergency g, ''suppression.emergency''),
        (cs_weak_network_uncertainty g, ''suppression.weak_network_uncertainty''),
        (cs_driver_materially_late g, ''suppression.driver_materially_late''),
        (\<not> cs_pickup_guidance_valid g, ''suppression.incorrect_pickup'')]"

definition quality_only :: "string list \<Rightarrow> bool" where
  "quality_only reasons \<longleftrightarrow> reasons \<noteq> [] \<and>
     list_all (\<lambda>r. r \<in> {''suppression.stale_gps'', ''suppression.conflicting_or_low_confidence_gps'',
       ''suppression.weak_network_uncertainty''}) reasons"

text \<open>The seconds of the pause that ends with an observation without objections.\<close>

definition resumed_pause_seconds :: "waiting_session \<Rightarrow> string list \<Rightarrow> instant \<Rightarrow> int result" where
  "resumed_pause_seconds session reasons now =
     (if reasons = [] \<and> ws_state session = WS_WAIT_PAUSED
      then (case ws_paused_at session of
              None \<Rightarrow> Inl (ArrivalWaitingConflict ''waiting_pause_timestamp_missing'')
            | Some t \<Rightarrow> Inr (age_seconds now t))
      else Inr 0)"

definition continued_state ::
  "waiting_snapshot \<Rightarrow> continuity_signals \<Rightarrow> string list \<Rightarrow> instant \<Rightarrow> instant \<Rightarrow> waiting_state \<times> string list" where
  "continued_state snap g reasons resumed_deadline now =
     (if reasons \<noteq> [] then
        (if \<not> cs_inside_pickup_zone g \<and> wn_departure_behavior snap = DB_PAUSE \<or>
            quality_only reasons \<and> wn_pause_on_insufficient_quality snap
         then WS_WAIT_PAUSED else WS_WAIT_INVALIDATED, reasons)
      else if now \<ge> resumed_deadline
      then (WS_FREE_WAIT_ENDING, [''waiting.free_wait_expired_evaluation_required''])
      else if now \<ge> resumed_deadline - timedelta_seconds (wn_ending_warning_seconds snap)
      then (WS_FREE_WAIT_ENDING, [''waiting.free_wait_ending''])
      else (WS_FREE_WAIT_ACTIVE, [''waiting.continuity_verified'']))"

definition evaluate_waiting_continuity ::
  "waiting_session \<Rightarrow> waiting_snapshot \<Rightarrow> continuity_signals \<Rightarrow> int \<Rightarrow> instant \<Rightarrow> waiting_session result" where
  "evaluate_waiting_continuity session snap g observation_sequence now =
     (if observation_sequence \<le> ws_last_observation_sequence session
      then Inl (ArrivalWaitingConflict ''stale_location_observation'')
      else
        (let reasons = continuity_reasons snap g in
         bind_result (resumed_pause_seconds session reasons now) (\<lambda>paused.
         let deadline = ws_free_wait_deadline session + timedelta_seconds paused;
             (state, codes) = continued_state snap g reasons deadline now
         in Inr (session\<lparr>ws_state := state, ws_version := ws_version session + 1, ws_updated_at := now,
              ws_last_observation_sequence := observation_sequence, ws_reason_codes := codes,
              ws_paused_at := (if state = WS_WAIT_PAUSED
                then (case ws_paused_at session of None \<Rightarrow> Some now | Some t \<Rightarrow> Some t) else None),
              ws_free_wait_deadline := deadline,
              ws_total_paused_seconds := ws_total_paused_seconds session + paused\<rparr>))))"

section \<open>Evidence of a no-show\<close>

definition suppressions :: "waiting_session \<Rightarrow> waiting_snapshot \<Rightarrow> continuity_signals \<Rightarrow> instant \<Rightarrow> string list" where
  "suppressions session snap g now =
     (if ws_state session = WS_WAIT_INVALIDATED then ws_reason_codes session else []) @
     flagged
       [(now < ws_free_wait_deadline session, ''suppression.free_wait_not_expired''),
        (\<not> cs_inside_pickup_zone g \<or> \<not> cs_driver_available g, ''suppression.driver_moved_away''),
        (cs_location_age_seconds g > wn_maximum_location_age_seconds snap, ''suppression.stale_gps''),
        (cs_location_confidence_bps g < wn_minimum_location_confidence_bps snap,
           ''suppression.conflicting_or_low_confidence_gps''),
        (wn_reasonable_notification_required snap \<and> \<not> cs_reasonable_notification g,
           ''suppression.notification_failure''),
        (\<not> cs_pickup_guidance_valid g, ''suppression.incorrect_pickup''),
        (cs_platform_failure g, ''suppression.platform_failure''),
        (cs_map_or_eta_failure g, ''suppression.map_or_eta_failure''),
        (cs_external_disruption g, ''suppression.external_disruption''),
        (cs_unsafe_or_inaccessible g, ''suppression.unsafe_or_inaccessible_pickup''),
        (cs_airport_zone_confusion g, ''suppression.airport_zone_confusion''),
        (cs_road_closure g, ''suppression.road_closure''),
        (cs_emergency g, ''suppression.emergency''),
        (cs_weak_network_uncertainty g, ''suppression.weak_network_uncertainty''),
        (cs_driver_materially_late g, ''suppression.driver_materially_late'')]"

definition evaluate_evidence ::
  "uuid \<Rightarrow> waiting_session \<Rightarrow> waiting_snapshot \<Rightarrow> continuity_signals \<Rightarrow> instant \<Rightarrow> no_show_evidence" where
  "evaluate_evidence evidence_id session snap g now =
     (let unique = dict_fromkeys (suppressions session snap g now);
          ready = (unique = [])
      in \<lparr>ne_evidence_id = evidence_id, ne_ride_id = ws_ride_id session, ne_session_id = ws_session_id session,
          ne_ready = ready,
          ne_responsibility =
            (if ready then WR_RIDER
             else if cs_external_disruption g then WR_EXTERNAL
             else if cs_platform_failure g \<or> cs_map_or_eta_failure g then WR_AYO
             else if cs_driver_materially_late g \<or> \<not> cs_inside_pickup_zone g then WR_DRIVER
             else WR_INSUFFICIENT),
          ne_confidence_bps = (if ready then cs_location_confidence_bps g else 0),
          ne_reason_codes = (if ready then [''evidence.no_show_ready''] else [''evidence.consequence_suppressed'']),
          ne_suppression_reason_codes = unique,
          ne_explanation_code = (if ready then ''evidence.ready_for_review'' else ''evidence.suppressed_for_fairness''),
          ne_evaluated_at = now\<rparr>)"

end
