(* ===== verification/Arrival_Waiting_Service.thy ===== *)
theory Arrival_Waiting_Service
  imports Arrival_Waiting
begin

text \<open>
  The tables of \<open>persistence/arrival_waiting_repository.py\<close>, the service \<open>arrival_waiting/application.py\<close> and the
  recovery worker \<open>arrival_waiting/workers.py\<close>. The stored payload of a row is the model that was saved, and the
  columns are its fields. The service reads active rides and never writes them, so they are an argument. A
  failing operation rolls back and is an error value. The digest of a request is a parameter.
\<close>

section \<open>The tables\<close>

record waiting_event =
  we_event_id :: uuid
  we_session_id :: uuid
  we_ride_id :: uuid
  we_event_type :: string
  we_session_version :: int
  we_state :: waiting_state
  we_reason_codes :: "string list"
  we_occurred_at :: instant

record arrival_notification =
  rl_notification_evidence_id :: uuid
  rl_ride_id :: uuid
  rl_session_id :: "uuid option"
  rl_intent_type :: string
  rl_delivery_status :: string
  rl_reason_code :: string
  rl_occurred_at :: instant

text \<open>The public view of an item is its JSON dump: none of these models has a field that the view removes.\<close>

datatype arrival_response = RS_ARRIVAL arrival_evaluation | RS_READINESS readiness_decision
  | RS_SESSION waiting_session | RS_EVIDENCE no_show_evidence | RS_CONFIRMED instant

record arrival_request_row =
  aq_ride_id :: uuid
  aq_command_type :: string
  aq_request_hash :: string
  aq_response :: arrival_response
  aq_created_at :: instant

record arrival_db =
  aw_arrivals :: "arrival_evaluation list"
  aw_readiness :: "readiness_decision list"
  aw_snapshots :: "(uuid, waiting_snapshot) dict"
  aw_sessions :: "(uuid, waiting_session) dict"
  aw_events :: "waiting_event list"
  aw_notifications :: "arrival_notification list"
  aw_evidence :: "no_show_evidence list"
  aw_idempotency :: "(uuid \<times> uuid, arrival_request_row) dict"
  aw_outbox :: "ride_message list"

section \<open>The repository\<close>

definition arrival_outbox :: "arrival_db \<Rightarrow> uuid \<Rightarrow> string \<Rightarrow> instant \<Rightarrow> payload \<Rightarrow> arrival_db" where
  "arrival_outbox db ride_id event_type now pl =
     db\<lparr>aw_outbox := aw_outbox db @ [\<lparr>rg_aggregate_id = ride_id, rg_event_type = event_type,
       rg_payload = (''ride_id'', JUuid ride_id) # pl, rg_occurred_at = now\<rparr>]\<rparr>"

definition save_arrival :: "arrival_db \<Rightarrow> arrival_evaluation \<Rightarrow> arrival_db result" where
  "save_arrival db item =
     (if list_ex (\<lambda>x. ae_evaluation_id x = ae_evaluation_id item \<or>
          ae_ride_id x = ae_ride_id item \<and> ae_observation_sequence x = ae_observation_sequence item) (aw_arrivals db) \<or>
        \<not> bps_ok (ae_confidence_bps item)
      then Inl (IntegrityError ''arrival_evaluations'')
      else
        (let db1 = db\<lparr>aw_arrivals := aw_arrivals db @ [item]\<rparr>
         in Inr (if ae_state item = AS_ARRIVAL_VERIFIED
            then arrival_outbox db1 (ae_ride_id item) ''arrival.driver_arrival_verified'' (ae_evaluated_at item)
              [(''evaluation_id'', JUuid (ae_evaluation_id item))]
            else db1)))"

definition latest_arrival :: "arrival_db \<Rightarrow> uuid \<Rightarrow> arrival_evaluation option" where
  "latest_arrival db ride_id = latest_by ae_evaluated_at (filter (\<lambda>x. ae_ride_id x = ride_id) (aw_arrivals db))"

definition save_readiness :: "arrival_db \<Rightarrow> readiness_decision \<Rightarrow> arrival_db result" where
  "save_readiness db item =
     (if list_ex (\<lambda>x. rn_decision_id x = rn_decision_id item) (aw_readiness db) \<or> \<not> bps_ok (rn_confidence_bps item)
      then Inl (IntegrityError ''rider_readiness_decisions'')
      else
        (let db1 = db\<lparr>aw_readiness := aw_readiness db @ [item]\<rparr>
         in Inr (if rn_notification_recommended item
            then arrival_outbox db1 (rn_ride_id item) ''arrival.rider_start_walking_advised'' (rn_evaluated_at item)
              [(''decision_id'', JUuid (rn_decision_id item))]
            else db1)))"

definition latest_readiness :: "arrival_db \<Rightarrow> uuid \<Rightarrow> readiness_decision option" where
  "latest_readiness db ride_id =
     latest_by rn_evaluated_at (filter (\<lambda>x. rn_ride_id x = ride_id) (aw_readiness db))"

definition save_snapshot :: "arrival_db \<Rightarrow> waiting_snapshot \<Rightarrow> arrival_db result" where
  "save_snapshot db item =
     (if dget (aw_snapshots db) (wn_snapshot_id item) \<noteq> None then Inl (IntegrityError ''waiting_policy_snapshots'')
      else Inr (db\<lparr>aw_snapshots := dset (wn_snapshot_id item) item (aw_snapshots db)\<rparr>))"

definition get_snapshot :: "arrival_db \<Rightarrow> uuid \<Rightarrow> waiting_snapshot option" where
  "get_snapshot db k = dget (aw_snapshots db) k"

definition session_event :: "arrival_db \<Rightarrow> waiting_session \<Rightarrow> string \<Rightarrow> uuid \<Rightarrow> arrival_db result" where
  "session_event db item event_type event_id =
     (if list_ex (\<lambda>e. we_event_id e = event_id \<or>
          we_session_id e = ws_session_id item \<and> we_session_version e = ws_version item) (aw_events db)
      then Inl (IntegrityError ''waiting_session_events'')
      else Inr (db\<lparr>aw_events := aw_events db @ [\<lparr>we_event_id = event_id, we_session_id = ws_session_id item,
        we_ride_id = ws_ride_id item, we_event_type = event_type, we_session_version = ws_version item,
        we_state = ws_state item, we_reason_codes = ws_reason_codes item, we_occurred_at = ws_updated_at item\<rparr>]\<rparr>))"

definition create_session :: "arrival_db \<Rightarrow> waiting_session \<Rightarrow> uuid \<Rightarrow> arrival_db result" where
  "create_session db item event_id =
     (if dget (aw_sessions db) (ws_session_id item) \<noteq> None \<or>
         dget (aw_snapshots db) (ws_policy_snapshot_id item) = None \<or> \<not> 0 < ws_version item
      then Inl (IntegrityError ''waiting_sessions'')
      else
        bind_result (session_event (db\<lparr>aw_sessions := dset (ws_session_id item) item (aw_sessions db)\<rparr>) item
            ''free_wait_started'' event_id) (\<lambda>db1.
        Inr (arrival_outbox db1 (ws_ride_id item) ''arrival.free_wait_started'' (ws_started_at item)
          [(''session_id'', JUuid (ws_session_id item))])))"

definition latest_session :: "arrival_db \<Rightarrow> uuid \<Rightarrow> waiting_session option" where
  "latest_session db ride_id =
     latest_by ws_started_at (filter (\<lambda>x. ws_ride_id x = ride_id) (dvalues (aw_sessions db)))"

definition due :: "instant \<Rightarrow> waiting_session \<Rightarrow> bool" where
  "due now x \<longleftrightarrow> ws_free_wait_deadline x \<le> now \<and> ws_state x \<in> {WS_FREE_WAIT_ACTIVE, WS_FREE_WAIT_ENDING}"

definition claim_due_sessions :: "arrival_db \<Rightarrow> instant \<Rightarrow> int \<Rightarrow> waiting_session list result" where
  "claim_due_sessions db now limit =
     (if \<not> (1 \<le> limit \<and> limit \<le> 500)
      then Inl (ValueError ''Waiting recovery limit must be between 1 and 500'')
      else Inr (take (nat limit) (sort_key ws_free_wait_deadline (filter (due now) (dvalues (aw_sessions db))))))"

definition outbox_type :: "waiting_state \<Rightarrow> string option" where
  "outbox_type s =
     (case s of WS_FREE_WAIT_ENDING \<Rightarrow> Some ''arrival.free_wait_ending''
      | WS_WAIT_PAUSED \<Rightarrow> Some ''arrival.waiting_paused''
      | WS_WAIT_INVALIDATED \<Rightarrow> Some ''arrival.waiting_invalidated''
      | _ \<Rightarrow> None)"

definition update_session :: "arrival_db \<Rightarrow> waiting_session \<Rightarrow> int \<Rightarrow> uuid \<Rightarrow> arrival_db result" where
  "update_session db item expected_version event_id =
     (case dget (aw_sessions db) (ws_session_id item) of
        None \<Rightarrow> Inl (ArrivalWaitingConflict ''stale_waiting_session'')
      | Some row \<Rightarrow>
          if ws_version row \<noteq> expected_version then Inl (ArrivalWaitingConflict ''stale_waiting_session'')
          else
            bind_result (session_event (db\<lparr>aw_sessions := dset (ws_session_id item) item (aw_sessions db)\<rparr>) item
                (waiting_value (ws_state item)) event_id) (\<lambda>db1.
            Inr (case outbox_type (ws_state item) of
               None \<Rightarrow> db1
             | Some t \<Rightarrow> arrival_outbox db1 (ws_ride_id item) t (ws_updated_at item)
                 [(''session_id'', JUuid (ws_session_id item))])))"

definition save_evidence :: "arrival_db \<Rightarrow> no_show_evidence \<Rightarrow> arrival_db result" where
  "save_evidence db item =
     (if list_ex (\<lambda>x. ne_evidence_id x = ne_evidence_id item) (aw_evidence db) \<or> \<not> bps_ok (ne_confidence_bps item) \<or>
         dget (aw_sessions db) (ne_session_id item) = None
      then Inl (IntegrityError ''consequence_suppression_decisions'')
      else Inr (arrival_outbox (db\<lparr>aw_evidence := aw_evidence db @ [item]\<rparr>) (ne_ride_id item)
        (if ne_ready item then ''arrival.evidence_ready'' else ''arrival.consequence_suppressed'')
        (ne_evaluated_at item) [(''evidence_id'', JUuid (ne_evidence_id item))]))"

definition latest_evidence :: "arrival_db \<Rightarrow> uuid \<Rightarrow> no_show_evidence option" where
  "latest_evidence db ride_id = latest_by ne_evaluated_at (filter (\<lambda>x. ne_ride_id x = ride_id) (aw_evidence db))"

definition record_notification :: "arrival_db \<Rightarrow> arrival_notification \<Rightarrow> arrival_db result" where
  "record_notification db item =
     (if list_ex (\<lambda>x. rl_notification_evidence_id x = rl_notification_evidence_id item) (aw_notifications db)
      then Inl (IntegrityError ''arrival_notification_evidence'')
      else Inr (db\<lparr>aw_notifications := aw_notifications db @ [item]\<rparr>))"

definition idempotent_response ::
  "arrival_db \<Rightarrow> uuid \<Rightarrow> uuid \<Rightarrow> uuid \<Rightarrow> string \<Rightarrow> string \<Rightarrow> arrival_response option result" where
  "idempotent_response db actor_id command_id ride_id command_type request_hash =
     (case dget (aw_idempotency db) (actor_id, command_id) of
        None \<Rightarrow> Inr None
      | Some row \<Rightarrow>
          if aq_ride_id row \<noteq> ride_id \<or> aq_command_type row \<noteq> command_type \<or> aq_request_hash row \<noteq> request_hash
          then Inl (ArrivalWaitingConflict ''idempotency_conflict'')
          else Inr (Some (aq_response row)))"

definition save_idempotent_response ::
  "arrival_db \<Rightarrow> uuid \<Rightarrow> uuid \<Rightarrow> uuid \<Rightarrow> string \<Rightarrow> string \<Rightarrow> arrival_response \<Rightarrow> instant \<Rightarrow> arrival_db result" where
  "save_idempotent_response db actor_id command_id ride_id command_type request_hash response now =
     (if dget (aw_idempotency db) (actor_id, command_id) \<noteq> None
      then Inl (IntegrityError ''arrival_waiting_idempotency'')
      else Inr (db\<lparr>aw_idempotency := dset (actor_id, command_id)
        \<lparr>aq_ride_id = ride_id, aq_command_type = command_type, aq_request_hash = request_hash,
         aq_response = response, aq_created_at = now\<rparr> (aw_idempotency db)\<rparr>))"

section \<open>Commands\<close>

record arrival_command =
  ac_command_id :: uuid
  ac_expected_ride_version :: int
  ac_signals :: arrival_signals

record readiness_command =
  rc_command_id :: uuid
  rc_signals :: readiness_signals
  rc_prior_notification_at :: "py_datetime option"
  rc_notification_count :: int

record start_command =
  sc_command_id :: uuid
  sc_expected_ride_version :: int
  sc_context :: waiting_context

record continuity_command =
  cc_command_id :: uuid
  cc_expected_session_version :: int
  cc_observation_sequence :: int
  cc_signals :: continuity_signals

record no_show_command =
  ec_command_id :: uuid
  ec_expected_session_version :: int
  ec_signals :: continuity_signals

record present_command =
  pc_command_id :: uuid
  pc_expected_session_version :: int

datatype arrival_request = RQ_ARRIVAL arrival_command | RQ_READINESS readiness_command | RQ_START start_command
  | RQ_CONTINUITY continuity_command | RQ_EVIDENCE no_show_command | RQ_PRESENT present_command

record arrival_env =
  ax_digest :: "arrival_request \<Rightarrow> string"
  ax_arrival_policy :: arrival_policy
  ax_readiness_policy :: readiness_policy
  ax_waiting_policies :: "waiting_policy list"

definition new_arrival_application :: "arrival_env \<Rightarrow> arrival_env result" where
  "new_arrival_application env =
     (if ax_waiting_policies env = []
      then Inl (ValueError ''At least one externally configured waiting policy is required'') else Inr env)"

section \<open>The service\<close>

definition require_driver :: "subject \<Rightarrow> unit result" where
  "require_driver subject = ensure (snd subject = ID_DRIVER) (ArrivalWaitingConflict ''driver_required'')"

definition ride_access :: "subject \<Rightarrow> active_ride \<Rightarrow> bool \<Rightarrow> bool" where
  "ride_access subject ride driver_only =
     (let driver = (snd subject = ID_DRIVER \<and> ar_driver_id ride = Some (fst subject)) in
      if driver_only then driver
      else snd subject = ID_RIDER \<and> ar_rider_id ride = fst subject \<or> driver \<or>
        snd subject \<in> {ID_STAFF, ID_ADMINISTRATOR})"

definition owned_ride :: "active_db \<Rightarrow> subject \<Rightarrow> uuid \<Rightarrow> bool \<Rightarrow> active_ride result" where
  "owned_ride rides subject ride_id driver_only =
     (case get rides ride_id of
        None \<Rightarrow> Inl (ArrivalWaitingConflict ''ride_not_found'')
      | Some ride \<Rightarrow>
          if \<not> ride_access subject ride driver_only then Inl (ArrivalWaitingConflict ''access_denied'')
          else Inr ride)"

text \<open>
  The frame of every command: the stored answer of an earlier run with the same command identifier, or the work
  and the answer it stores.
\<close>

definition answer_once ::
  "arrival_db \<Rightarrow> subject \<Rightarrow> uuid \<Rightarrow> uuid \<Rightarrow> string \<Rightarrow> string \<Rightarrow> instant \<Rightarrow>
   (arrival_db \<times> arrival_response) result \<Rightarrow> (arrival_db \<times> arrival_response) result" where
  "answer_once db subject command_id ride_id command_type request_hash now work =
     bind_result (idempotent_response db (fst subject) command_id ride_id command_type request_hash) (\<lambda>duplicate.
     case duplicate of
       Some response \<Rightarrow> Inr (db, response)
     | None \<Rightarrow>
         bind_result work (\<lambda>(db1, response).
         bind_result (save_idempotent_response db1 (fst subject) command_id ride_id command_type request_hash
             response now) (\<lambda>db2.
         Inr (db2, response))))"

definition submit_arrival ::
  "arrival_env \<Rightarrow> active_db \<Rightarrow> arrival_db \<Rightarrow> subject \<Rightarrow> uuid \<Rightarrow> arrival_command \<Rightarrow> instant \<Rightarrow> uuid \<Rightarrow>
   (arrival_db \<times> arrival_response) result" where
  "submit_arrival env rides db subject ride_id command now evaluation_id =
     bind_result (require_driver subject) (\<lambda>_.
     bind_result (owned_ride rides subject ride_id True) (\<lambda>ride.
     answer_once db subject (ac_command_id command) ride_id ''submit_arrival''
       (ax_digest env (RQ_ARRIVAL command)) now
       (if ar_version ride \<noteq> ac_expected_ride_version command
        then Inl (ArrivalWaitingConflict ''stale_ride_version'')
        else if ar_state ride \<notin> {AR_DRIVER_EN_ROUTE, AR_DRIVER_ARRIVED}
        then Inl (ArrivalWaitingConflict ''ride_not_arrival_eligible'')
        else
          (case ar_assignment_id ride of
             None \<Rightarrow> Inl (ArrivalWaitingConflict ''pickup_or_assignment_mismatch'')
           | Some assignment_id \<Rightarrow>
               if ag_approved_pickup_place_id (ac_signals command) \<noteq> ar_pickup_place_id ride
               then Inl (ArrivalWaitingConflict ''pickup_or_assignment_mismatch'')
               else
                 (let item = evaluate_arrival evaluation_id ride_id assignment_id (ac_signals command)
                    (ax_arrival_policy env) now
                  in bind_result (save_arrival db item) (\<lambda>db1. Inr (db1, RS_ARRIVAL item)))))))"

definition evaluate_rider_readiness ::
  "arrival_env \<Rightarrow> active_db \<Rightarrow> arrival_db \<Rightarrow> subject \<Rightarrow> uuid \<Rightarrow> readiness_command \<Rightarrow> instant \<Rightarrow> uuid \<Rightarrow>
   (arrival_db \<times> arrival_response) result" where
  "evaluate_rider_readiness env rides db subject ride_id command now decision_id =
     bind_result (owned_ride rides subject ride_id False) (\<lambda>_.
     answer_once db subject (rc_command_id command) ride_id ''evaluate_readiness''
       (ax_digest env (RQ_READINESS command)) now
       (bind_result (evaluate_readiness decision_id ride_id (rc_signals command) (ax_readiness_policy env) now
            (rc_prior_notification_at command) (rc_notification_count command)) (\<lambda>item.
        bind_result (save_readiness db item) (\<lambda>db1. Inr (db1, RS_READINESS item)))))"

definition start_session ::
  "arrival_env \<Rightarrow> active_db \<Rightarrow> arrival_db \<Rightarrow> subject \<Rightarrow> uuid \<Rightarrow> start_command \<Rightarrow> instant \<Rightarrow>
   uuid \<Rightarrow> uuid \<Rightarrow> uuid \<Rightarrow> (arrival_db \<times> arrival_response) result" where
  "start_session env rides db subject ride_id command now snapshot_id session_id event_id =
     bind_result (require_driver subject) (\<lambda>_.
     bind_result (owned_ride rides subject ride_id True) (\<lambda>ride.
     answer_once db subject (sc_command_id command) ride_id ''start_waiting''
       (ax_digest env (RQ_START command)) now
       (if ar_version ride \<noteq> sc_expected_ride_version command
        then Inl (ArrivalWaitingConflict ''stale_ride_version'')
        else if latest_session db ride_id \<noteq> None
        then Inl (ArrivalWaitingConflict ''waiting_already_started'')
        else
          (case (latest_arrival db ride_id, ar_assignment_id ride) of
             (Some arrival, Some assignment_id) \<Rightarrow>
               bind_result (resolve_waiting_policy snapshot_id ride_id (sc_context command)
                   (ax_waiting_policies env) now) (\<lambda>snap.
               bind_result (start_waiting session_id ride_id assignment_id arrival snap now) (\<lambda>item.
               bind_result (save_snapshot db snap) (\<lambda>db1.
               bind_result (create_session db1 item event_id) (\<lambda>db2.
               Inr (db2, RS_SESSION item)))))
           | _ \<Rightarrow> Inl (ArrivalWaitingConflict ''arrival_not_verified'')))))"

definition continuity ::
  "arrival_env \<Rightarrow> active_db \<Rightarrow> arrival_db \<Rightarrow> subject \<Rightarrow> uuid \<Rightarrow> continuity_command \<Rightarrow> instant \<Rightarrow> uuid \<Rightarrow>
   (arrival_db \<times> arrival_response) result" where
  "continuity env rides db subject ride_id command now event_id =
     bind_result (require_driver subject) (\<lambda>_.
     bind_result (owned_ride rides subject ride_id True) (\<lambda>_.
     answer_once db subject (cc_command_id command) ride_id ''waiting_continuity''
       (ax_digest env (RQ_CONTINUITY command)) now
       (case latest_session db ride_id of
          None \<Rightarrow> Inl (ArrivalWaitingConflict ''waiting_not_started'')
        | Some session \<Rightarrow>
            if ws_version session \<noteq> cc_expected_session_version command
            then Inl (ArrivalWaitingConflict ''stale_waiting_session'')
            else
              (case get_snapshot db (ws_policy_snapshot_id session) of
                 None \<Rightarrow> Inl (ArrivalWaitingConflict ''waiting_policy_snapshot_missing'')
               | Some snap \<Rightarrow>
                   bind_result (evaluate_waiting_continuity session snap (cc_signals command)
                       (cc_observation_sequence command) now) (\<lambda>changed.
                   bind_result (update_session db changed (ws_version session) event_id) (\<lambda>db1.
                   Inr (db1, RS_SESSION changed)))))))"

definition rider_present ::
  "arrival_env \<Rightarrow> active_db \<Rightarrow> arrival_db \<Rightarrow> subject \<Rightarrow> uuid \<Rightarrow> present_command \<Rightarrow> instant \<Rightarrow> uuid \<Rightarrow>
   (arrival_db \<times> arrival_response) result" where
  "rider_present env rides db subject ride_id command now notification_id =
     (if snd subject \<noteq> ID_RIDER then Inl (ArrivalWaitingConflict ''rider_required'')
      else
        bind_result (owned_ride rides subject ride_id False) (\<lambda>_.
        answer_once db subject (pc_command_id command) ride_id ''rider_present''
          (ax_digest env (RQ_PRESENT command)) now
          (case latest_session db ride_id of
             None \<Rightarrow> Inl (ArrivalWaitingConflict ''stale_waiting_session'')
           | Some session \<Rightarrow>
               if ws_version session \<noteq> pc_expected_session_version command
               then Inl (ArrivalWaitingConflict ''stale_waiting_session'')
               else
                 bind_result (record_notification db \<lparr>rl_notification_evidence_id = notification_id,
                     rl_ride_id = ride_id, rl_session_id = Some (ws_session_id session),
                     rl_intent_type = ''rider_present_confirmation'', rl_delivery_status = ''confirmed'',
                     rl_reason_code = ''waiting.rider_present_confirmed'', rl_occurred_at = now\<rparr>) (\<lambda>db1.
                 Inr (db1, RS_CONFIRMED now)))))"

definition evaluate_no_show ::
  "arrival_env \<Rightarrow> active_db \<Rightarrow> arrival_db \<Rightarrow> subject \<Rightarrow> uuid \<Rightarrow> no_show_command \<Rightarrow> instant \<Rightarrow> uuid \<Rightarrow>
   (arrival_db \<times> arrival_response) result" where
  "evaluate_no_show env rides db subject ride_id command now evidence_id =
     bind_result (require_driver subject) (\<lambda>_.
     bind_result (owned_ride rides subject ride_id True) (\<lambda>_.
     answer_once db subject (ec_command_id command) ride_id ''evaluate_no_show''
       (ax_digest env (RQ_EVIDENCE command)) now
       (case latest_session db ride_id of
          None \<Rightarrow> Inl (ArrivalWaitingConflict ''stale_waiting_session'')
        | Some session \<Rightarrow>
            if ws_version session \<noteq> ec_expected_session_version command
            then Inl (ArrivalWaitingConflict ''stale_waiting_session'')
            else
              (case get_snapshot db (ws_policy_snapshot_id session) of
                 None \<Rightarrow> Inl (ArrivalWaitingConflict ''waiting_policy_snapshot_missing'')
               | Some snap \<Rightarrow>
                   (let item = evaluate_evidence evidence_id session snap (ec_signals command) now
                    in bind_result (save_evidence db item) (\<lambda>db1. Inr (db1, RS_EVIDENCE item)))))))"

section \<open>Reads\<close>

definition arrival_view :: "active_db \<Rightarrow> arrival_db \<Rightarrow> subject \<Rightarrow> uuid \<Rightarrow> arrival_evaluation option result" where
  \<comment> \<open>\<open>None\<close> is shown as the state \<open>arrival_unverified\<close>\<close>
  "arrival_view rides db subject ride_id =
     bind_result (owned_ride rides subject ride_id False) (\<lambda>_. Inr (latest_arrival db ride_id))"

definition readiness_view :: "active_db \<Rightarrow> arrival_db \<Rightarrow> subject \<Rightarrow> uuid \<Rightarrow> readiness_decision option result" where
  \<comment> \<open>\<open>None\<close> is shown as the class \<open>insufficient_data\<close>\<close>
  "readiness_view rides db subject ride_id =
     bind_result (owned_ride rides subject ride_id False) (\<lambda>_. Inr (latest_readiness db ride_id))"

definition countdown_audience :: "subject \<Rightarrow> string" where
  "countdown_audience subject =
     (if snd subject = ID_RIDER then ''rider'' else if snd subject = ID_DRIVER then ''driver'' else ''support'')"

definition waiting_view ::
  "active_db \<Rightarrow> arrival_db \<Rightarrow> subject \<Rightarrow> uuid \<Rightarrow> instant \<Rightarrow> (string \<times> (waiting_session \<times> instant \<times> int) option) result" where
  \<comment> \<open>the audience, and the session with the time of the server and the countdown if waiting has started\<close>
  "waiting_view rides db subject ride_id now =
     bind_result (owned_ride rides subject ride_id False) (\<lambda>_.
     Inr (countdown_audience subject,
       map_option (\<lambda>item. (item, now, max 0 (whole_seconds (ws_free_wait_deadline item - now))))
         (latest_session db ride_id)))"

definition evidence_view :: "active_db \<Rightarrow> arrival_db \<Rightarrow> subject \<Rightarrow> uuid \<Rightarrow> no_show_evidence option result" where
  \<comment> \<open>\<open>None\<close> is shown as not ready, with insufficient evidence\<close>
  "evidence_view rides db subject ride_id =
     bind_result (owned_ride rides subject ride_id False) (\<lambda>_. Inr (latest_evidence db ride_id))"

section \<open>The recovery worker\<close>

definition ended_session :: "waiting_session \<Rightarrow> instant \<Rightarrow> waiting_session" where
  "ended_session session now =
     session\<lparr>ws_state := WS_FREE_WAIT_ENDING, ws_version := ws_version session + 1, ws_updated_at := now,
       ws_reason_codes := [''waiting.free_wait_expired_evaluation_required'']\<rparr>"

fun run_loop ::
  "arrival_db \<Rightarrow> instant \<Rightarrow> (uuid \<Rightarrow> uuid) \<Rightarrow> waiting_session list \<Rightarrow> int \<Rightarrow> (arrival_db \<times> int) result" where
  "run_loop db now draw [] changed = Inr (db, changed)"
| "run_loop db now draw (session # rest) changed =
     (if ws_state session \<noteq> WS_FREE_WAIT_ACTIVE then run_loop db now draw rest changed
      else
        bind_result (update_session db (ended_session session now) (ws_version session)
            (draw (ws_session_id session))) (\<lambda>db1.
        run_loop db1 now draw rest (changed + 1)))"

definition new_recovery_worker :: "int \<Rightarrow> int result" where
  "new_recovery_worker batch_size =
     (if \<not> (1 \<le> batch_size \<and> batch_size \<le> 500)
      then Inl (ValueError ''Worker batch size must be between 1 and 500'') else Inr batch_size)"

definition run_once :: "arrival_db \<Rightarrow> int \<Rightarrow> instant \<Rightarrow> (uuid \<Rightarrow> uuid) \<Rightarrow> (arrival_db \<times> int) result" where
  "run_once db batch_size now draw =
     bind_result (claim_due_sessions db now batch_size) (\<lambda>sessions. run_loop db now draw sessions 0)"

end
