(* ===== verification/Arrival_Waiting_Inv.thy ===== *)
theory Arrival_Waiting_Inv
  imports Arrival_Waiting_Service
begin

text \<open>
  What the tables of the waiting component promise, whatever the active rides are: the bookkeeping of a session
  against its policy snapshot, its event log, and the evidence that was stored about it. Every command and the
  worker have one of four effects on these tables, and the invariant is proved over the effects.
\<close>

section \<open>Calls\<close>

datatype arrival_call =
    CALL_ARRIVAL arrival_command
  | CALL_READINESS readiness_command
  | CALL_START start_command
  | CALL_CONTINUITY continuity_command
  | CALL_PRESENT present_command
  | CALL_NO_SHOW no_show_command

type_synonym drawn = "uuid \<times> uuid \<times> uuid"

fun perform ::
  "arrival_env \<Rightarrow> active_db \<Rightarrow> arrival_db \<Rightarrow> subject \<Rightarrow> uuid \<Rightarrow> instant \<Rightarrow> drawn \<Rightarrow> arrival_call \<Rightarrow>
   (arrival_db \<times> arrival_response) result" where
  "perform env rides db s r now (i, j, k) (CALL_ARRIVAL c) = submit_arrival env rides db s r c now i"
| "perform env rides db s r now (i, j, k) (CALL_READINESS c) = evaluate_rider_readiness env rides db s r c now i"
| "perform env rides db s r now (i, j, k) (CALL_START c) = start_session env rides db s r c now i j k"
| "perform env rides db s r now (i, j, k) (CALL_CONTINUITY c) = continuity env rides db s r c now i"
| "perform env rides db s r now (i, j, k) (CALL_PRESENT c) = rider_present env rides db s r c now i"
| "perform env rides db s r now (i, j, k) (CALL_NO_SHOW c) = evaluate_no_show env rides db s r c now i"

inductive arrival_step :: "arrival_env \<Rightarrow> arrival_db \<Rightarrow> arrival_db \<Rightarrow> bool" for env where
  call: "perform env rides db s r now ids c = Inr (db', answer) \<Longrightarrow> arrival_step env db db'"
| worker: "run_once db batch now draw = Inr (db', n) \<Longrightarrow> arrival_step env db db'"

definition empty_arrivals :: arrival_db where
  "empty_arrivals = \<lparr>aw_arrivals = [], aw_readiness = [], aw_snapshots = [], aw_sessions = [], aw_events = [],
     aw_notifications = [], aw_evidence = [], aw_idempotency = [], aw_outbox = []\<rparr>"

inductive arrival_reachable :: "arrival_env \<Rightarrow> arrival_db \<Rightarrow> bool" for env where
  start: "arrival_reachable env empty_arrivals"
| step: "arrival_reachable env db \<Longrightarrow> arrival_step env db db' \<Longrightarrow> arrival_reachable env db'"

section \<open>The invariant\<close>

definition events_of :: "arrival_db \<Rightarrow> uuid \<Rightarrow> waiting_event list" where
  "events_of db k = filter (\<lambda>e. we_session_id e = k) (aw_events db)"

definition session_logged :: "arrival_db \<Rightarrow> waiting_session \<Rightarrow> bool" where
  "session_logged db s \<longleftrightarrow>
     events_of db (ws_session_id s) \<noteq> [] \<and>
     map we_session_version (events_of db (ws_session_id s)) = map int [1..<Suc (nat (ws_version s))] \<and>
     we_state (last (events_of db (ws_session_id s))) = ws_state s \<and>
     we_reason_codes (last (events_of db (ws_session_id s))) = ws_reason_codes s"

definition session_booked :: "waiting_session \<Rightarrow> waiting_snapshot \<Rightarrow> bool" where
  "session_booked s snap \<longleftrightarrow>
     wn_ride_id snap = ws_ride_id s \<and> 0 \<le> ws_total_paused_seconds s \<and>
     ws_free_wait_deadline s =
       ws_started_at s + timedelta_seconds (wn_free_wait_seconds snap + ws_total_paused_seconds s) \<and>
     (ws_state s = WS_WAIT_PAUSED \<longleftrightarrow> ws_paused_at s \<noteq> None) \<and> ws_reason_codes s \<noteq> [] \<and> 1 \<le> ws_version s \<and>
     ws_state s \<noteq> WS_EVIDENCE_READY"

definition arrived :: "arrival_db \<Rightarrow> waiting_session \<Rightarrow> bool" where
  "arrived db s \<longleftrightarrow>
     (\<exists>a \<in> set (aw_arrivals db). ae_evaluation_id a = ws_arrival_evaluation_id s \<and> ae_state a = AS_ARRIVAL_VERIFIED \<and>
        ae_ride_id a = ws_ride_id s \<and> ae_assignment_id a = ws_assignment_id s \<and>
        ae_evaluated_at a = ws_verified_arrival_at s)"

definition session_ok :: "arrival_db \<Rightarrow> uuid \<Rightarrow> waiting_session \<Rightarrow> bool" where
  "session_ok db k s \<longleftrightarrow>
     ws_session_id s = k \<and> arrived db s \<and> session_logged db s \<and>
     (\<exists>snap. get_snapshot db (ws_policy_snapshot_id s) = Some snap \<and> session_booked s snap)"

definition one_session_per_ride :: "arrival_db \<Rightarrow> bool" where
  "one_session_per_ride db \<longleftrightarrow>
     (\<forall>k l s t. dget (aw_sessions db) k = Some s \<longrightarrow> dget (aw_sessions db) l = Some t \<longrightarrow>
        ws_ride_id s = ws_ride_id t \<longrightarrow> k = l)"

definition evidence_ok :: "arrival_db \<Rightarrow> no_show_evidence \<Rightarrow> bool" where
  "evidence_ok db e \<longleftrightarrow>
     (\<exists>s snap. dget (aw_sessions db) (ne_session_id e) = Some s \<and> ws_ride_id s = ne_ride_id e \<and>
        get_snapshot db (ws_policy_snapshot_id s) = Some snap \<and>
        (ne_ready e \<longrightarrow> ws_started_at s + timedelta_seconds (wn_free_wait_seconds snap) \<le> ne_evaluated_at e \<and>
           ne_responsibility e = WR_RIDER))"

definition wait_inv :: "arrival_db \<Rightarrow> bool" where
  "wait_inv db \<longleftrightarrow> dict_ok (aw_sessions db) \<and> one_session_per_ride db \<and>
     (\<forall>k s. dget (aw_sessions db) k = Some s \<longrightarrow> session_ok db k s) \<and>
     (\<forall>e \<in> set (aw_events db). dget (aw_sessions db) (we_session_id e) \<noteq> None) \<and>
     (\<forall>e \<in> set (aw_evidence db). evidence_ok db e)"

lemma wait_invD: "wait_inv db \<Longrightarrow> dget (aw_sessions db) k = Some s \<Longrightarrow> session_ok db k s"
  unfolding wait_inv_def by blast

lemma wait_inv_evidence: "wait_inv db \<Longrightarrow> e \<in> set (aw_evidence db) \<Longrightarrow> evidence_ok db e"
  unfolding wait_inv_def by blast

section \<open>Moves of a session\<close>

text \<open>The fields that a session keeps while its state moves, and what a move does to the bookkeeping.\<close>

definition session_moved :: "waiting_session \<Rightarrow> waiting_session \<Rightarrow> bool" where
  "session_moved s t \<longleftrightarrow>
     ws_session_id t = ws_session_id s \<and> ws_ride_id t = ws_ride_id s \<and> ws_assignment_id t = ws_assignment_id s \<and>
     ws_arrival_evaluation_id t = ws_arrival_evaluation_id s \<and> ws_policy_snapshot_id t = ws_policy_snapshot_id s \<and>
     ws_verified_arrival_at t = ws_verified_arrival_at s \<and> ws_started_at t = ws_started_at s \<and>
     ws_version t = ws_version s + 1"

definition event_of :: "waiting_session \<Rightarrow> string \<Rightarrow> uuid \<Rightarrow> waiting_event" where
  "event_of s event_type event_id = \<lparr>we_event_id = event_id, we_session_id = ws_session_id s,
     we_ride_id = ws_ride_id s, we_event_type = event_type, we_session_version = ws_version s,
     we_state = ws_state s, we_reason_codes = ws_reason_codes s, we_occurred_at = ws_updated_at s\<rparr>"

lemma event_of_fields [simp]:
  "we_event_id (event_of s t i) = i" "we_session_id (event_of s t i) = ws_session_id s"
  "we_session_version (event_of s t i) = ws_version s" "we_state (event_of s t i) = ws_state s"
  "we_reason_codes (event_of s t i) = ws_reason_codes s"
  by (simp_all add: event_of_def)

inductive wait_effect :: "arrival_db \<Rightarrow> arrival_db \<Rightarrow> bool" where
  quiet: "aw_sessions db' = aw_sessions db \<Longrightarrow> aw_snapshots db' = aw_snapshots db \<Longrightarrow> aw_events db' = aw_events db \<Longrightarrow>
    aw_evidence db' = aw_evidence db \<Longrightarrow> set (aw_arrivals db) \<subseteq> set (aw_arrivals db') \<Longrightarrow> wait_effect db db'"
| opened: "dget (aw_sessions db) k = None \<Longrightarrow> get_snapshot db (wn_snapshot_id snap) = None \<Longrightarrow>
    latest_session db r = None \<Longrightarrow> wn_ride_id snap = r \<Longrightarrow> s = new_session k r a arrival snap now \<Longrightarrow>
    arrival \<in> set (aw_arrivals db) \<Longrightarrow> ae_state arrival = AS_ARRIVAL_VERIFIED \<Longrightarrow> ae_ride_id arrival = r \<Longrightarrow>
    ae_assignment_id arrival = a \<Longrightarrow> aw_sessions db' = dset k s (aw_sessions db) \<Longrightarrow>
    aw_snapshots db' = dset (wn_snapshot_id snap) snap (aw_snapshots db) \<Longrightarrow>
    aw_events db' = aw_events db @ [event_of s et i] \<Longrightarrow> aw_evidence db' = aw_evidence db \<Longrightarrow>
    aw_arrivals db' = aw_arrivals db \<Longrightarrow> wait_effect db db'"
| moved: "dget (aw_sessions db) k = Some s \<Longrightarrow> get_snapshot db (ws_policy_snapshot_id s) = Some snap \<Longrightarrow>
    session_moved s t \<Longrightarrow> session_booked t snap \<Longrightarrow> aw_sessions db' = dset k t (aw_sessions db) \<Longrightarrow>
    aw_snapshots db' = aw_snapshots db \<Longrightarrow> aw_events db' = aw_events db @ [event_of t et i] \<Longrightarrow>
    aw_evidence db' = aw_evidence db \<Longrightarrow> aw_arrivals db' = aw_arrivals db \<Longrightarrow> wait_effect db db'"
| judged: "dget (aw_sessions db) k = Some s \<Longrightarrow> get_snapshot db (ws_policy_snapshot_id s) = Some snap \<Longrightarrow>
    aw_sessions db' = aw_sessions db \<Longrightarrow> aw_snapshots db' = aw_snapshots db \<Longrightarrow> aw_events db' = aw_events db \<Longrightarrow>
    aw_arrivals db' = aw_arrivals db \<Longrightarrow>
    aw_evidence db' = aw_evidence db @ [evaluate_evidence i s snap g now] \<Longrightarrow> wait_effect db db'"

lemma new_session_fields [simp]:
  "ws_session_id (new_session k r a arr snap now) = k" "ws_ride_id (new_session k r a arr snap now) = r"
  "ws_assignment_id (new_session k r a arr snap now) = a"
  "ws_arrival_evaluation_id (new_session k r a arr snap now) = ae_evaluation_id arr"
  "ws_policy_snapshot_id (new_session k r a arr snap now) = wn_snapshot_id snap"
  "ws_version (new_session k r a arr snap now) = 1"
  "ws_state (new_session k r a arr snap now) = WS_FREE_WAIT_ACTIVE"
  "ws_verified_arrival_at (new_session k r a arr snap now) = ae_evaluated_at arr"
  "ws_started_at (new_session k r a arr snap now) = now"
  "ws_reason_codes (new_session k r a arr snap now) = [''waiting.free_wait_started'']"
  by (simp_all add: new_session_def)

lemma new_session_booked: "wn_ride_id snap = r \<Longrightarrow> session_booked (new_session k r a arr snap now) snap"
  by (simp add: session_booked_def new_session_def)

lemma latest_by_None [simp]: "latest_by f xs = None \<longleftrightarrow> xs = []"
  by (simp add: latest_by_def)

lemma latest_by_member: "latest_by f xs = Some x \<Longrightarrow> x \<in> set xs"
  by (auto simp: latest_by_def split: if_splits) (metis last_in_set set_empty set_sort)

lemma latest_session_None: "latest_session db r = None \<Longrightarrow> dget (aw_sessions db) k = Some s \<Longrightarrow> ws_ride_id s \<noteq> r"
  by (auto simp: latest_session_def filter_empty_conv dest: dget_in_dvalues)

lemma latest_session_stored:
  assumes "wait_inv db" and "latest_session db r = Some s"
  shows "dget (aw_sessions db) (ws_session_id s) = Some s" and "ws_ride_id s = r"
proof -
  have "s \<in> set (dvalues (aw_sessions db))" and r: "ws_ride_id s = r"
    using latest_by_member [OF assms(2) [unfolded latest_session_def]] by simp_all
  moreover have "dict_ok (aw_sessions db)" using assms(1) unfolding wait_inv_def by blast
  ultimately obtain k where k: "dget (aw_sessions db) k = Some s" using in_dvalues_iff by metis
  then have "ws_session_id s = k" using wait_invD [OF assms(1)] unfolding session_ok_def by blast
  with k r show "dget (aw_sessions db) (ws_session_id s) = Some s" and "ws_ride_id s = r" by simp_all
qed

lemma evaluate_evidence_fields [simp]:
  "ne_ride_id (evaluate_evidence i s snap g now) = ws_ride_id s"
  "ne_session_id (evaluate_evidence i s snap g now) = ws_session_id s"
  "ne_evaluated_at (evaluate_evidence i s snap g now) = now"
  "ne_ready (evaluate_evidence i s snap g now) \<longleftrightarrow> suppressions s snap g now = []"
  by (simp_all add: evaluate_evidence_def dict_fromkeys_def Let_def)

lemma evaluate_evidence_responsibility:
  "ne_ready (evaluate_evidence i s snap g now) \<Longrightarrow> ne_responsibility (evaluate_evidence i s snap g now) = WR_RIDER"
  by (simp add: evaluate_evidence_def Let_def)

lemma flagged_Nil: "flagged checks = [] \<longleftrightarrow> list_all (\<lambda>c. \<not> fst c) checks"
  by (auto simp: flagged_def filter_empty_conv list_all_iff)

lemma ready_after_deadline: "suppressions s snap g now = [] \<Longrightarrow> ws_free_wait_deadline s \<le> now"
  by (simp add: suppressions_def flagged_Nil)

section \<open>The effects keep the invariant\<close>

lemma events_of_append: "aw_events db' = aw_events db @ [e] \<Longrightarrow>
    events_of db' k = events_of db k @ (if we_session_id e = k then [e] else [])"
  by (simp add: events_of_def)

lemma session_ok_mono:
  assumes "session_ok db k s" and "set (aw_arrivals db) \<subseteq> set (aw_arrivals db')"
    and "events_of db' k = events_of db k"
    and "get_snapshot db' (ws_policy_snapshot_id s) = get_snapshot db (ws_policy_snapshot_id s)"
  shows "session_ok db' k s"
  using assms by (auto simp: session_ok_def session_logged_def arrived_def)

lemma evidence_ok_mono:
  assumes "evidence_ok db e" and "\<And>s. dget (aw_sessions db) (ne_session_id e) = Some s \<Longrightarrow>
      \<exists>t. dget (aw_sessions db') (ne_session_id e) = Some t \<and> ws_ride_id t = ws_ride_id s \<and>
        ws_started_at t = ws_started_at s \<and> ws_policy_snapshot_id t = ws_policy_snapshot_id s"
    and "\<And>k snap. get_snapshot db k = Some snap \<Longrightarrow> get_snapshot db' k = Some snap"
  shows "evidence_ok db' e"
proof -
  obtain s snap where s: "dget (aw_sessions db) (ne_session_id e) = Some s" "ws_ride_id s = ne_ride_id e"
    "get_snapshot db (ws_policy_snapshot_id s) = Some snap"
    "ne_ready e \<longrightarrow> ws_started_at s + timedelta_seconds (wn_free_wait_seconds snap) \<le> ne_evaluated_at e \<and>
      ne_responsibility e = WR_RIDER"
    using assms(1) unfolding evidence_ok_def by blast
  obtain t where "dget (aw_sessions db') (ne_session_id e) = Some t" "ws_ride_id t = ws_ride_id s"
    "ws_started_at t = ws_started_at s" "ws_policy_snapshot_id t = ws_policy_snapshot_id s"
    using assms(2) [OF s(1)] by blast
  with s assms(3) [OF s(3)] show ?thesis unfolding evidence_ok_def by auto
qed

lemma wait_inv_quiet:
  assumes inv: "wait_inv db" and "aw_sessions db' = aw_sessions db" "aw_snapshots db' = aw_snapshots db"
    "aw_events db' = aw_events db" "set (aw_arrivals db) \<subseteq> set (aw_arrivals db')"
    and evidence: "\<And>e. e \<in> set (aw_evidence db') \<Longrightarrow> evidence_ok db e"
  shows "wait_inv db'"
proof -
  have snap: "get_snapshot db' k = get_snapshot db k" and ev: "events_of db' k = events_of db k" for k
    using assms by (simp_all add: get_snapshot_def events_of_def)
  have "session_ok db' k s" if "dget (aw_sessions db) k = Some s" for k s
    using session_ok_mono [OF wait_invD [OF inv that] assms(5)] snap ev by blast
  moreover have "evidence_ok db' e" if "e \<in> set (aw_evidence db')" for e
    using evidence_ok_mono [OF evidence [OF that], of db'] assms(2) snap by auto
  ultimately show ?thesis using inv assms(2,4) unfolding wait_inv_def one_session_per_ride_def by auto
qed

lemma no_events_of_new: "wait_inv db \<Longrightarrow> dget (aw_sessions db) k = None \<Longrightarrow> events_of db k = []"
  unfolding wait_inv_def events_of_def by (auto simp: filter_empty_conv)

lemma wait_inv_opened:
  assumes inv: "wait_inv db" and new: "dget (aw_sessions db) k = None" "get_snapshot db (wn_snapshot_id snap) = None"
    "latest_session db r = None" "wn_ride_id snap = r" "s = new_session k r a arrival snap now"
    and arr: "arrival \<in> set (aw_arrivals db)" "ae_state arrival = AS_ARRIVAL_VERIFIED" "ae_ride_id arrival = r"
      "ae_assignment_id arrival = a"
    and db': "aw_sessions db' = dset k s (aw_sessions db)" "aw_snapshots db' = dset (wn_snapshot_id snap) snap (aw_snapshots db)"
      "aw_events db' = aw_events db @ [event_of s et i]" "aw_evidence db' = aw_evidence db" "aw_arrivals db' = aw_arrivals db"
  shows "wait_inv db'"
proof -
  have snaps: "get_snapshot db' l = (if l = wn_snapshot_id snap then Some snap else get_snapshot db l)" for l
    by (simp add: get_snapshot_def db')
  have ev: "events_of db' l = events_of db l @ (if k = l then [event_of s et i] else [])" for l
    using events_of_append [OF db'(3)] new(5) by simp
  have "session_ok db' k s"
    using no_events_of_new [OF inv new(1)] new(4,5) arr new_session_booked [OF new(4)] db'(5)
    unfolding session_ok_def session_logged_def arrived_def by (auto simp: ev snaps)
  moreover have "session_ok db' l t" if t: "dget (aw_sessions db) l = Some t" for l t
  proof -
    have ok: "session_ok db l t" using wait_invD [OF inv t] .
    then have "ws_policy_snapshot_id t \<noteq> wn_snapshot_id snap" using new(2) unfolding session_ok_def by auto
    moreover have "l \<noteq> k" using t new(1) by auto
    ultimately show ?thesis using session_ok_mono [OF ok, of db'] db'(5) by (simp add: ev snaps)
  qed
  moreover have "one_session_per_ride db'"
    using inv latest_session_None [OF new(3)] new(5) unfolding wait_inv_def one_session_per_ride_def db'
    by (auto split: if_splits)
  moreover have "evidence_ok db' e" if "e \<in> set (aw_evidence db)" for e
    using wait_inv_evidence [OF inv that] by (rule evidence_ok_mono) (use new(1,2) in \<open>auto simp: db' snaps\<close>)
  ultimately show ?thesis using inv new(5) unfolding wait_inv_def by (auto simp: db')
qed

lemma session_logged_moved:
  assumes "session_logged db s" and "session_moved s t" and "1 \<le> ws_version s"
    and "events_of db' (ws_session_id s) = events_of db (ws_session_id s) @ [event_of t et i]"
  shows "session_logged db' t"
proof -
  have "nat (ws_version t) = Suc (nat (ws_version s))" using assms(2,3) by (simp add: session_moved_def)
  then show ?thesis using assms by (simp add: session_logged_def session_moved_def)
qed

lemma wait_inv_moved:
  assumes inv: "wait_inv db" and old: "dget (aw_sessions db) k = Some s"
    "get_snapshot db (ws_policy_snapshot_id s) = Some snap" and t: "session_moved s t" "session_booked t snap"
    and db': "aw_sessions db' = dset k t (aw_sessions db)" "aw_snapshots db' = aw_snapshots db"
      "aw_events db' = aw_events db @ [event_of t et i]" "aw_evidence db' = aw_evidence db" "aw_arrivals db' = aw_arrivals db"
  shows "wait_inv db'"
proof -
  have ok: "session_ok db k s" using wait_invD [OF inv old(1)] .
  then have k: "ws_session_id s = k" "ws_session_id t = k" using t(1) by (simp_all add: session_ok_def session_moved_def)
  have snaps: "get_snapshot db' l = get_snapshot db l" for l by (simp add: get_snapshot_def db')
  have ev: "events_of db' l = events_of db l @ (if k = l then [event_of t et i] else [])" for l
    using events_of_append [OF db'(3)] k by simp
  have "1 \<le> ws_version s" and log: "session_logged db s" using ok by (auto simp: session_ok_def session_booked_def)
  then have "session_logged db' t" using session_logged_moved [OF log t(1), of db'] k by (simp add: ev)
  then have "session_ok db' k t"
    using ok old(2) t k unfolding session_ok_def arrived_def by (auto simp: snaps db' session_moved_def)
  moreover have "session_ok db' l u" if "dget (aw_sessions db) l = Some u" "l \<noteq> k" for l u
    using session_ok_mono [OF wait_invD [OF inv that(1)], of db'] that(2) db'(5) by (simp add: ev snaps)
  moreover have "one_session_per_ride db'"
    using inv old(1) t(1) unfolding wait_inv_def one_session_per_ride_def db' session_moved_def
    by (auto split: if_splits)
  moreover have "evidence_ok db' e" if "e \<in> set (aw_evidence db)" for e
    using wait_inv_evidence [OF inv that]
    by (rule evidence_ok_mono) (use old(1) t(1) in \<open>auto simp: db' snaps session_moved_def\<close>)
  ultimately show ?thesis using inv old(1) k unfolding wait_inv_def by (auto simp: db')
qed

lemma judged_evidence_ok:
  assumes inv: "wait_inv db" and s: "dget (aw_sessions db) k = Some s"
    "get_snapshot db (ws_policy_snapshot_id s) = Some snap"
  shows "evidence_ok db (evaluate_evidence i s snap g now)"
proof -
  have "session_booked s snap" and k: "ws_session_id s = k"
    using wait_invD [OF inv s(1)] s(2) unfolding session_ok_def by auto
  then have "ws_started_at s + timedelta_seconds (wn_free_wait_seconds snap) \<le> ws_free_wait_deadline s"
    by (simp add: session_booked_def timedelta_seconds_def)
  with s k show ?thesis
    unfolding evidence_ok_def using ready_after_deadline [of s snap g now]
      evaluate_evidence_responsibility [of i s snap g now] by force
qed

theorem wait_effect_inv:
  assumes "wait_effect db db'" and inv: "wait_inv db"
  shows "wait_inv db'"
  using assms(1)
proof cases
  case quiet
  then show ?thesis using inv by (intro wait_inv_quiet [OF inv]) (auto simp: wait_inv_def)
next
  case opened
  then show ?thesis by (intro wait_inv_opened [OF inv]) auto
next
  case moved
  then show ?thesis by (intro wait_inv_moved [OF inv]) auto
next
  case (judged k s snap i g now)
  then show ?thesis using inv judged_evidence_ok [OF inv judged(1,2)]
    by (intro wait_inv_quiet [OF inv]) (auto simp: wait_inv_def)
qed

end
