(* ===== verification/Arrival_Waiting_Reach.thy ===== *)
theory Arrival_Waiting_Reach
  imports Arrival_Waiting_Inv
begin

text \<open>
  Every command and every run of the worker has one of the effects on the waiting tables, so every reachable
  database satisfies the invariant. The worker's loop is described completely: which rows it changes, and that it
  succeeds when the identifiers it draws are fresh.
\<close>

section \<open>The repository\<close>

definition same_waiting :: "arrival_db \<Rightarrow> arrival_db \<Rightarrow> bool" where
  "same_waiting db db' \<longleftrightarrow> aw_sessions db' = aw_sessions db \<and> aw_snapshots db' = aw_snapshots db \<and>
     aw_events db' = aw_events db \<and> aw_evidence db' = aw_evidence db \<and> aw_arrivals db' = aw_arrivals db"

lemma wait_effect_same: "wait_effect db db1 \<Longrightarrow> same_waiting db1 db2 \<Longrightarrow> wait_effect db db2"
  apply (induction rule: wait_effect.induct)
  subgoal by (rule wait_effect.quiet) (simp_all add: same_waiting_def)
  by (auto simp: same_waiting_def intro: wait_effect.intros)

lemma wait_effect_refl: "wait_effect db db"
  by (rule wait_effect.quiet) simp_all

lemma same_waiting_outbox [simp]: "same_waiting db (arrival_outbox db r t now pl)"
  by (simp add: same_waiting_def arrival_outbox_def)

lemma arrival_outbox_fields [simp]:
  "aw_sessions (arrival_outbox db r t now pl) = aw_sessions db"
  "aw_snapshots (arrival_outbox db r t now pl) = aw_snapshots db"
  "aw_events (arrival_outbox db r t now pl) = aw_events db"
  "aw_evidence (arrival_outbox db r t now pl) = aw_evidence db"
  "aw_arrivals (arrival_outbox db r t now pl) = aw_arrivals db"
  "aw_idempotency (arrival_outbox db r t now pl) = aw_idempotency db"
  by (simp_all add: arrival_outbox_def)

lemma session_event_ok:
  "session_event db s et i = Inr db' \<longleftrightarrow>
     (\<forall>e \<in> set (aw_events db). we_event_id e \<noteq> i \<and>
        \<not> (we_session_id e = ws_session_id s \<and> we_session_version e = ws_version s)) \<and>
     db' = db\<lparr>aw_events := aw_events db @ [event_of s et i]\<rparr>"
  by (auto simp: session_event_def event_of_def list_ex_iff)

lemma save_idempotent_same:
  "save_idempotent_response db a c r t h x now = Inr db' \<Longrightarrow> same_waiting db db'"
  by (auto simp: save_idempotent_response_def same_waiting_def split: if_splits)

lemma answer_once_cases:
  assumes "answer_once db s c r t h now work = Inr (db', x)"
  obtains "db' = db" and "idempotent_response db (fst s) c r t h = Inr (Some x)"
  | db1 where "idempotent_response db (fst s) c r t h = Inr None" and "work = Inr (db1, x)"
      and "save_idempotent_response db1 (fst s) c r t h x now = Inr db'" and "same_waiting db1 db'"
  using assms unfolding answer_once_def
  apply (elim ok_elims)
  subgoal premises prems for _ _ db1 _ db2
    using prems(3-) save_idempotent_same [of db1] by (intro prems(2) [of db1]) auto
  subgoal premises prems for _ y using prems(3-) by (intro prems(1)) auto
  done

lemma answer_once_effect:
  assumes "answer_once db s c r t h now work = Inr (db', x)" and "\<And>db1. work = Inr (db1, x) \<Longrightarrow> wait_effect db db1"
  shows "wait_effect db db'"
  using assms by (elim answer_once_cases) (auto intro: wait_effect_refl wait_effect_same)

lemma save_arrival_effect: "save_arrival db item = Inr db' \<Longrightarrow> wait_effect db db'"
  by (auto simp: save_arrival_def Let_def split: if_splits intro!: wait_effect.quiet)

lemma save_readiness_effect: "save_readiness db item = Inr db' \<Longrightarrow> wait_effect db db'"
  by (auto simp: save_readiness_def Let_def split: if_splits intro!: wait_effect.quiet)

lemma record_notification_effect: "record_notification db item = Inr db' \<Longrightarrow> wait_effect db db'"
  by (auto simp: record_notification_def split: if_splits intro!: wait_effect.quiet)

lemma create_session_ok:
  assumes "save_snapshot db snap = Inr db1" and "create_session db1 s i = Inr db'"
  shows "get_snapshot db (wn_snapshot_id snap) = None" and "dget (aw_sessions db) (ws_session_id s) = None"
    and "aw_sessions db' = dset (ws_session_id s) s (aw_sessions db)"
    and "aw_snapshots db' = dset (wn_snapshot_id snap) snap (aw_snapshots db)"
    and "aw_events db' = aw_events db @ [event_of s ''free_wait_started'' i]"
    and "aw_evidence db' = aw_evidence db" and "aw_arrivals db' = aw_arrivals db"
  using assms
  by (auto simp: save_snapshot_def create_session_def get_snapshot_def bind_result_eq_Inr session_event_ok
      split: if_splits)

lemma update_session_ok:
  "update_session db t v i = Inr db' \<longleftrightarrow>
     (\<exists>row. dget (aw_sessions db) (ws_session_id t) = Some row \<and> ws_version row = v) \<and>
     (\<forall>e \<in> set (aw_events db). we_event_id e \<noteq> i \<and>
        \<not> (we_session_id e = ws_session_id t \<and> we_session_version e = ws_version t)) \<and>
     db' = (let db1 = db\<lparr>aw_sessions := dset (ws_session_id t) t (aw_sessions db),
              aw_events := aw_events db @ [event_of t (waiting_value (ws_state t)) i]\<rparr>
            in case outbox_type (ws_state t) of None \<Rightarrow> db1
               | Some y \<Rightarrow> arrival_outbox db1 (ws_ride_id t) y (ws_updated_at t) [(''session_id'', JUuid (ws_session_id t))])"
  by (auto simp: update_session_def bind_result_eq_Inr session_event_ok Let_def split: option.splits if_splits)

definition session_stored :: "arrival_db \<Rightarrow> waiting_session \<Rightarrow> uuid \<Rightarrow> arrival_db" where
  "session_stored db t i =
     (let db1 = db\<lparr>aw_sessions := dset (ws_session_id t) t (aw_sessions db),
        aw_events := aw_events db @ [event_of t (waiting_value (ws_state t)) i]\<rparr>
      in case outbox_type (ws_state t) of None \<Rightarrow> db1
         | Some y \<Rightarrow> arrival_outbox db1 (ws_ride_id t) y (ws_updated_at t) [(''session_id'', JUuid (ws_session_id t))])"

lemma session_stored_fields [simp]:
  "aw_sessions (session_stored db t i) = dset (ws_session_id t) t (aw_sessions db)"
  "aw_events (session_stored db t i) = aw_events db @ [event_of t (waiting_value (ws_state t)) i]"
  "aw_snapshots (session_stored db t i) = aw_snapshots db"
  "aw_evidence (session_stored db t i) = aw_evidence db"
  "aw_arrivals (session_stored db t i) = aw_arrivals db"
  by (simp_all add: session_stored_def Let_def split: option.splits)

lemma update_session_stored:
  "update_session db t v i = Inr db' \<Longrightarrow> db' = session_stored db t i"
  by (simp add: update_session_ok session_stored_def)

lemma save_evidence_ok:
  assumes "save_evidence db e = Inr db'"
  shows "aw_sessions db' = aw_sessions db" and "aw_snapshots db' = aw_snapshots db" and "aw_events db' = aw_events db"
    and "aw_arrivals db' = aw_arrivals db" and "aw_evidence db' = aw_evidence db @ [e]"
  using assms by (auto simp: save_evidence_def split: if_splits)

section \<open>The engine moves a session by the book\<close>

lemma age_seconds_nonneg [simp]: "0 \<le> age_seconds now t"
  by (simp add: age_seconds_def)

lemma continued_state_cases:
  assumes "continued_state snap g reasons deadline now = (state, codes)"
  shows "codes \<noteq> []" and "state \<noteq> WS_EVIDENCE_READY" and "state = WS_WAIT_INVALIDATED \<Longrightarrow> codes = reasons"
    and "state = WS_WAIT_PAUSED \<Longrightarrow> reasons \<noteq> []"
  using assms by (auto simp: continued_state_def split: if_splits)

lemma continuity_moves:
  assumes run: "evaluate_waiting_continuity s snap g q now = Inr t" and booked: "session_booked s snap"
  shows "session_moved s t" and "session_booked t snap"
proof -
  obtain paused state codes where
    paused: "resumed_pause_seconds s (continuity_reasons snap g) now = Inr paused" and
    state: "continued_state snap g (continuity_reasons snap g)
      (ws_free_wait_deadline s + timedelta_seconds paused) now = (state, codes)" and
    t: "t = s\<lparr>ws_state := state, ws_version := ws_version s + 1, ws_updated_at := now,
        ws_last_observation_sequence := q, ws_reason_codes := codes,
        ws_paused_at := (if state = WS_WAIT_PAUSED
          then (case ws_paused_at s of None \<Rightarrow> Some now | Some t \<Rightarrow> Some t) else None),
        ws_free_wait_deadline := ws_free_wait_deadline s + timedelta_seconds paused,
        ws_total_paused_seconds := ws_total_paused_seconds s + paused\<rparr>"
    using run unfolding evaluate_waiting_continuity_def by (elim ok_elims) (rule that, auto)
  have "0 \<le> paused" using paused by (auto simp: resumed_pause_seconds_def split: if_splits option.splits)
  then show "session_booked t snap"
    using booked continued_state_cases [OF state] unfolding session_booked_def t
    by (auto simp: timedelta_seconds_def split: option.splits)
  show "session_moved s t" by (simp add: session_moved_def t)
qed

lemma ended_session_moves:
  assumes "session_booked s snap" and "ws_state s = WS_FREE_WAIT_ACTIVE"
  shows "session_moved s (ended_session s now)" and "session_booked (ended_session s now) snap"
  using assms by (simp_all add: session_moved_def session_booked_def ended_session_def)

lemma booked_of_ok:
  assumes "wait_inv db" and "dget (aw_sessions db) k = Some s"
  obtains snap where "get_snapshot db (ws_policy_snapshot_id s) = Some snap" and "session_booked s snap"
  using wait_invD [OF assms] unfolding session_ok_def by blast

lemma stored_effect:
  assumes "dget (aw_sessions db) (ws_session_id s) = Some s" and "get_snapshot db (ws_policy_snapshot_id s) = Some snap"
    and "session_moved s t" and "session_booked t snap"
  shows "wait_effect db (session_stored db t i)"
  using assms by (intro wait_effect.moved [of db "ws_session_id s" s snap t]) (auto simp: session_moved_def)

section \<open>The commands\<close>

section \<open>The commands\<close>

lemma start_waiting_ok:
  "start_waiting j r a arr snap now = Inr s \<longleftrightarrow>
     ae_state arr = AS_ARRIVAL_VERIFIED \<and> ae_ride_id arr = r \<and> wn_ride_id snap = r \<and> ae_assignment_id arr = a \<and>
     0 \<le> ae_observation_sequence arr \<and> s = new_session j r a arr snap now"
  by (auto simp: start_waiting_def)

lemma start_session_effect:
  assumes "start_session env rides db s r c now i j k = Inr (db', x)"
  shows "wait_effect db db'"
  using assms unfolding start_session_def
  apply (elim bind_ok)
  apply (erule answer_once_effect)
  apply (elim ok_elims)
  subgoal premises prems for _ _ db1 _ _ arr a snap item db2 db3
  proof -
    have arr: "arr \<in> set (aw_arrivals db)"
      using prems(5,7) latest_by_member [of ae_evaluated_at _ arr] unfolding latest_arrival_def by fastforce
    show ?thesis
      using create_session_ok [OF prems(11,12)] prems(4,10,13) arr
      by (intro wait_effect.opened [of db j snap r item a arr now]) (auto simp: start_waiting_ok)
  qed
  done

lemma continuity_effect:
  assumes inv: "wait_inv db" and run: "continuity env rides db s r c now i = Inr (db', x)"
  shows "wait_effect db db'"
  using run unfolding continuity_def
  apply (elim bind_ok)
  apply (erule answer_once_effect)
  apply (elim ok_elims)
  subgoal premises prems for _ _ db1 session snap t db2
  proof -
    note stored = latest_session_stored [OF inv prems(3)]
    obtain snap' where "get_snapshot db (ws_policy_snapshot_id session) = Some snap'" "session_booked session snap'"
      using booked_of_ok [OF inv stored(1)] .
    then have "session_booked session snap" using prems(5) by simp
    then show ?thesis
      using stored_effect [OF stored(1) prems(5)] continuity_moves [OF prems(6)]
        update_session_stored [OF prems(7)] prems(8) by simp
  qed
  done

lemma no_show_effect:
  assumes inv: "wait_inv db" and run: "evaluate_no_show env rides db s r c now i = Inr (db', x)"
  shows "wait_effect db db'"
  using run unfolding evaluate_no_show_def
  apply (elim bind_ok)
  apply (erule answer_once_effect)
  apply (elim ok_elims)
  subgoal premises prems for _ _ db1 session snap db2
    using latest_session_stored [OF inv prems(3)] prems(5,7) save_evidence_ok [OF prems(6)]
    by (intro wait_effect.judged [of db "ws_session_id session" session snap _ i "ec_signals c" now]) auto
  done

lemma present_effect:
  "rider_present env rides db s r c now i = Inr (db', x) \<Longrightarrow> wait_effect db db'"
  unfolding rider_present_def
  by (elim if_ok raise_ok bind_ok; erule answer_once_effect; elim ok_elims; auto intro: record_notification_effect)

lemma submit_arrival_effect:
  "submit_arrival env rides db s r c now i = Inr (db', x) \<Longrightarrow> wait_effect db db'"
  unfolding submit_arrival_def
  by (elim bind_ok; erule answer_once_effect; elim ok_elims; auto intro: save_arrival_effect)

lemma readiness_effect:
  "evaluate_rider_readiness env rides db s r c now i = Inr (db', x) \<Longrightarrow> wait_effect db db'"
  unfolding evaluate_rider_readiness_def
  by (elim bind_ok; erule answer_once_effect; elim ok_elims; auto intro: save_readiness_effect)

lemma perform_effect:
  assumes "wait_inv db" and "perform env rides db s r now ids c = Inr (db', x)"
  shows "wait_effect db db'"
  using assms
  by (cases ids; cases c)
    (auto intro: submit_arrival_effect readiness_effect start_session_effect continuity_effect present_effect
      no_show_effect)

section \<open>The worker\<close>

text \<open>The rows that the loop changes, and how.\<close>

definition worked :: "waiting_session list \<Rightarrow> instant \<Rightarrow> uuid \<Rightarrow> waiting_session \<Rightarrow> waiting_session" where
  "worked ss now k s = (if s \<in> set ss \<and> ws_state s = WS_FREE_WAIT_ACTIVE then ended_session s now else s)"

definition active_count :: "waiting_session list \<Rightarrow> int" where
  "active_count ss = int (length (filter (\<lambda>s. ws_state s = WS_FREE_WAIT_ACTIVE) ss))"

lemma ended_session_id [simp]: "ws_session_id (ended_session s now) = ws_session_id s"
  by (simp add: ended_session_def)

lemma active_step:
  assumes inv: "wait_inv db" and s: "dget (aw_sessions db) (ws_session_id s) = Some s" "ws_state s = WS_FREE_WAIT_ACTIVE"
  shows "wait_effect db (session_stored db (ended_session s now) i)"
    and "wait_inv (session_stored db (ended_session s now) i)"
proof -
  obtain snap where "get_snapshot db (ws_policy_snapshot_id s) = Some snap" "session_booked s snap"
    using booked_of_ok [OF inv s(1)] .
  then show "wait_effect db (session_stored db (ended_session s now) i)"
    using stored_effect [OF s(1)] ended_session_moves [of s snap now] s(2) by blast
  then show "wait_inv (session_stored db (ended_session s now) i)" using wait_effect_inv inv by blast
qed

lemma run_loop_effects:
  assumes "run_loop db now draw ss m = Inr (db', n)" and "wait_inv db" and "distinct (map ws_session_id ss)"
    and "\<And>s. s \<in> set ss \<Longrightarrow> dget (aw_sessions db) (ws_session_id s) = Some s"
  shows "wait_inv db' \<and> n = m + active_count ss \<and>
    (\<forall>k. dget (aw_sessions db') k = map_option (worked ss now k) (dget (aw_sessions db) k))"
  using assms
proof (induction ss arbitrary: db m)
  case Nil
  then show ?case by (simp add: active_count_def worked_def map_option.id [unfolded id_def])
next
  case (Cons s ss)
  have rest: "dget (aw_sessions db) (ws_session_id t) = Some t" "ws_session_id t \<noteq> ws_session_id s" if "t \<in> set ss" for t
    using Cons.prems(3,4) that by (auto intro: rev_image_eqI)
  show ?case
  proof (cases "ws_state s = WS_FREE_WAIT_ACTIVE")
    case False
    then have "worked (s # ss) now k t = worked ss now k t" for k t by (auto simp: worked_def)
    moreover have "run_loop db now draw ss m = Inr (db', n)" using Cons.prems(1) False by simp
    ultimately show ?thesis using Cons.IH [of db m] Cons.prems(2,3) rest False by (auto simp: active_count_def)
  next
    case True
    define db1 where "db1 = session_stored db (ended_session s now) (draw (ws_session_id s))"
    have run: "run_loop db1 now draw ss (m + 1) = Inr (db', n)"
      using Cons.prems(1) True update_session_stored unfolding db1_def by (auto simp: bind_result_eq_Inr)
    have s: "dget (aw_sessions db) (ws_session_id s) = Some s" using Cons.prems(4) by simp
    have "wait_inv db1" unfolding db1_def using active_step(2) [OF Cons.prems(2) s True] .
    moreover have "dget (aw_sessions db1) (ws_session_id t) = Some t" if "t \<in> set ss" for t
      using rest [OF that] by (simp add: db1_def)
    moreover have "ended_session s now \<notin> set ss" using Cons.prems(3) by (auto intro: rev_image_eqI)
    ultimately have ih: "wait_inv db'" "n = m + 1 + active_count ss"
      "\<And>k. dget (aw_sessions db') k = map_option (worked ss now k) (dget (aw_sessions db1) k)"
      using Cons.IH [OF run] Cons.prems(3) by auto
    have "map_option (worked ss now k) (dget (aw_sessions db1) k) =
        map_option (worked (s # ss) now k) (dget (aw_sessions db) k)" for k
    proof (cases "k = ws_session_id s")
      case same: True
      then show ?thesis using s True \<open>ended_session s now \<notin> set ss\<close> by (simp add: db1_def worked_def)
    next
      case other: False
      have "worked ss now k t = worked (s # ss) now k t" if "dget (aw_sessions db) k = Some t" for t
        using other that wait_invD [OF Cons.prems(2) that] by (auto simp: worked_def session_ok_def)
      then show ?thesis using other by (cases "dget (aw_sessions db) k") (auto simp: db1_def)
    qed
    then show ?thesis using ih True by (simp add: active_count_def)
  qed
qed

lemma claimed_sessions:
  assumes inv: "wait_inv db" and claim: "claim_due_sessions db now batch = Inr ss"
  shows "distinct (map ws_session_id ss)" and "s \<in> set ss \<Longrightarrow> dget (aw_sessions db) (ws_session_id s) = Some s \<and> due now s"
proof -
  have ok: "dict_ok (aw_sessions db)" using inv unfolding wait_inv_def by blast
  have ids: "ws_session_id (snd p) = fst p" if "p \<in> set (aw_sessions db)" for p
  proof -
    have "dget (aw_sessions db) (fst p) = Some (snd p)" using that ok by (simp add: dict_ok_def)
    then show ?thesis using wait_invD [OF inv] unfolding session_ok_def by blast
  qed
  then have "map ws_session_id (dvalues (aw_sessions db)) = map fst (aw_sessions db)" by (simp add: dvalues_def)
  then have "distinct (map ws_session_id (dvalues (aw_sessions db)))" using ok by (simp add: dict_ok_def)
  moreover have "set ss \<subseteq> set (dvalues (aw_sessions db))"
    using claim by (auto simp: claim_due_sessions_def split: if_splits dest!: in_set_takeD)
  ultimately show "distinct (map ws_session_id ss)"
    using claim unfolding distinct_map
    by (auto simp: claim_due_sessions_def split: if_splits elim: inj_on_subset)
  show "dget (aw_sessions db) (ws_session_id s) = Some s \<and> due now s" if "s \<in> set ss"
  proof -
    have "s \<in> set (filter (due now) (dvalues (aw_sessions db)))"
      using claim that by (auto simp: claim_due_sessions_def split: if_splits dest!: in_set_takeD)
    then obtain k where "dget (aw_sessions db) k = Some s" "due now s" using in_dvalues_iff [OF ok] by auto
    then show ?thesis using wait_invD [OF inv] unfolding session_ok_def by blast
  qed
qed

lemma run_once_effects:
  assumes "wait_inv db" and "run_once db batch now draw = Inr (db', n)"
  shows "\<exists>ss. claim_due_sessions db now batch = Inr ss \<and> wait_inv db' \<and> n = active_count ss \<and>
    (\<forall>k. dget (aw_sessions db') k = map_option (worked ss now k) (dget (aw_sessions db) k))"
  using assms claimed_sessions [OF assms(1)] run_loop_effects [OF _ assms(1), of now draw _ 0]
  unfolding run_once_def by (fastforce simp: bind_result_eq_Inr)

section \<open>Reachable databases\<close>

lemma empty_arrivals_inv: "wait_inv empty_arrivals"
  by (simp add: wait_inv_def empty_arrivals_def one_session_per_ride_def)

lemma arrival_step_inv: "arrival_step env db db' \<Longrightarrow> wait_inv db \<Longrightarrow> wait_inv db'"
  by (induction rule: arrival_step.induct) (use perform_effect wait_effect_inv run_once_effects in blast)+

lemma arrival_reachable_inv: "arrival_reachable env db \<Longrightarrow> wait_inv db"
  by (induction rule: arrival_reachable.induct) (auto intro: empty_arrivals_inv arrival_step_inv)

end
