(* ===== verification/Arrival_Waiting_Props.thy ===== *)
theory Arrival_Waiting_Props
  imports Arrival_Waiting_Reach
begin

text \<open>
  The properties of arrival and waiting: what a verified arrival and a no-show finding mean, the choice of a waiting
  policy, the bookkeeping of sessions, the replay of commands and the worker that ends due sessions; with a run in
  which the driver arrives, waits, leaves, comes back and reports a no-show.
\<close>

section \<open>A sample run\<close>

definition sample_arrival_env :: arrival_env where
  "sample_arrival_env =
     \<lparr>ax_digest = (\<lambda>_. ''digest''),
      ax_arrival_policy = \<lparr>ay_policy_id = ''arrival'', ay_version = ''v1'', ay_maximum_location_age_seconds = 60,
        ay_maximum_accuracy_meters = 50, ay_maximum_stationary_speed_cm_per_second = 100,
        ay_minimum_stationary_seconds = 10, ay_minimum_pickup_confidence_bps = 5000,
        ay_minimum_map_confidence_bps = 5000, ay_minimum_verification_confidence_bps = 7000\<rparr>,
      ax_readiness_policy = \<lparr>ry_policy_id = ''ready'', ry_version = ''v1'', ry_maximum_location_age_seconds = 60,
        ry_maximum_accuracy_meters = 50, ry_minimum_confidence_bps = 5000, ry_notification_confidence_bps = 7000,
        ry_notification_cooldown_seconds = 300, ry_maximum_notifications_per_ride = 3,
        ry_lateness_margin_seconds = 120\<rparr>,
      ax_waiting_policies =
        [\<lparr>wp_policy_id = 90, wp_version = ''v1'', wp_city_code = ''addis'', wp_ride_origin = None,
          wp_pickup_context = None, wp_service_context = None, wp_assisted = None,
          wp_accessibility_accommodation = None, wp_severe_weather = None, wp_operational_override_code = None,
          wp_effective_from = 0, wp_effective_until = None, wp_priority = 0, wp_free_wait_seconds = 300,
          wp_ending_warning_seconds = 60, wp_departure_behavior = DB_PAUSE, wp_pause_on_insufficient_quality = True,
          wp_maximum_location_age_seconds = 60, wp_minimum_location_confidence_bps = 5000,
          wp_reasonable_notification_required = True\<rparr>,
         \<lparr>wp_policy_id = 91, wp_version = ''v2'', wp_city_code = ''addis'', wp_ride_origin = None,
          wp_pickup_context = Some PX_HOTEL, wp_service_context = None, wp_assisted = None,
          wp_accessibility_accommodation = None, wp_severe_weather = None, wp_operational_override_code = None,
          wp_effective_from = 0, wp_effective_until = None, wp_priority = 0, wp_free_wait_seconds = 200,
          wp_ending_warning_seconds = 60, wp_departure_behavior = DB_PAUSE, wp_pause_on_insufficient_quality = True,
          wp_maximum_location_age_seconds = 60, wp_minimum_location_confidence_bps = 5000,
          wp_reasonable_notification_required = True\<rparr>]\<rparr>"

definition sample_rides :: active_db where
  "sample_rides =
     \<lparr>ad_rides = [(1, \<lparr>ar_ride_id = 1, ar_rider_id = 4, ar_driver_id = Some 5, ar_vehicle_id = None,
        ar_reservation_id = None, ar_assignment_id = Some 6, ar_ride_request_id = None, ar_dispatch_handoff_id = None,
        ar_lifecycle_policy_version = ''v1'', ar_source_assignment_version = None, ar_state = AR_DRIVER_ARRIVED,
        ar_pickup_place_id = ''pickup-1'', ar_destination_place_id = ''place-22'', ar_service_type = ''standard'',
        ar_created_at = 0, ar_updated_at = 0, ar_version = 3, ar_last_sequence = 3, ar_driver_changed = False\<rparr>)],
      ad_events = [], ad_idempotency = [], ad_checkpoints = [], ad_verifications = [], ad_evidence = [],
      ad_confidence = [], ad_recommendations = [], ad_outbox = []\<rparr>"

definition sample_arrival :: arrival_command where
  "sample_arrival = \<lparr>ac_command_id = 21, ac_expected_ride_version = 3,
     ac_signals = \<lparr>ag_observation = \<lparr>lo_observed_at = 0, lo_sequence = 7, lo_latitude_e6 = 0, lo_longitude_e6 = 0,
         lo_accuracy_meters = 5, lo_speed_cm_per_second = 0, lo_heading_degrees = None\<rparr>,
       ag_approved_pickup_place_id = ''pickup-1'', ag_pickup_recommendation_id = 8,
       ag_pickup_recommendation_version = ''v1'', ag_pickup_zone_id = ''zone-1'', ag_inside_pickup_zone = True,
       ag_pickup_confidence_bps = 9000, ag_map_confidence_bps = 8000, ag_seconds_stationary = 30,
       ag_approach_consistent = True, ag_heading_reliable = True, ag_accessible_pickup = True,
       ag_operationally_available = True, ag_unsafe_or_restricted = False, ag_service_context = SX_STANDARD,
       ag_airport_terminal_code = None, ag_airport_zone_match = True, ag_airport_context_fresh = True,
       ag_airport_staging_constraint_satisfied = True, ag_airport_access_permitted = True,
       ag_airport_congestion = False, ag_airport_zone_closed = False, ag_flight_delay_context = False\<rparr>\<rparr>"

definition sample_start :: start_command where
  "sample_start = \<lparr>sc_command_id = 22, sc_expected_ride_version = 3,
     sc_context = \<lparr>wc_city_code = ''addis'', wc_ride_origin = RO_IMMEDIATE, wc_pickup_context = PX_HOTEL,
       wc_service_context = SX_STANDARD, wc_assisted = False, wc_accessibility_accommodation = False,
       wc_severe_weather = False, wc_operational_override_code = None\<rparr>\<rparr>"

definition sample_signals :: "bool \<Rightarrow> continuity_signals" where
  "sample_signals inside = \<lparr>cs_inside_pickup_zone = inside, cs_location_age_seconds = 5,
     cs_location_confidence_bps = 9000, cs_driver_available = True, cs_pickup_guidance_valid = True,
     cs_reasonable_notification = True, cs_platform_failure = False, cs_map_or_eta_failure = False,
     cs_external_disruption = False, cs_unsafe_or_inaccessible = False, cs_airport_zone_confusion = False,
     cs_road_closure = False, cs_emergency = False, cs_weak_network_uncertainty = False,
     cs_driver_materially_late = False\<rparr>"

definition sample_seen :: "uuid \<Rightarrow> int \<Rightarrow> int \<Rightarrow> bool \<Rightarrow> continuity_command" where
  "sample_seen i version sequence inside = \<lparr>cc_command_id = i, cc_expected_session_version = version,
     cc_observation_sequence = sequence, cc_signals = sample_signals inside\<rparr>"

definition sample_no_show :: no_show_command where
  "sample_no_show = \<lparr>ec_command_id = 25, ec_expected_session_version = 3, ec_signals = sample_signals True\<rparr>"

fun run_calls ::
  "arrival_env \<Rightarrow> active_db \<Rightarrow> subject \<Rightarrow> uuid \<Rightarrow> arrival_db \<Rightarrow> (instant \<times> drawn \<times> arrival_call) list \<Rightarrow> arrival_db result" where
  "run_calls env rides s r db [] = Inr db"
| "run_calls env rides s r db ((now, ids, c) # rest) =
     bind_result (perform env rides db s r now ids c) (\<lambda>(db1, _). run_calls env rides s r db1 rest)"

lemma run_calls_reachable:
  "run_calls env rides s r db cs = Inr db' \<Longrightarrow> arrival_reachable env db \<Longrightarrow> arrival_reachable env db'"
  by (induction env rides s r db cs rule: run_calls.induct)
    (auto simp: bind_result_eq_Inr, blast intro: arrival_reachable.step arrival_step.call)

text \<open>The driver arrives at second 10, waits from second 20, is away from second 50 to 150, and reports at 330.\<close>

definition sample_waiting :: "nat \<Rightarrow> arrival_db result" where
  "sample_waiting n = run_calls sample_arrival_env sample_rides (5, ID_DRIVER) 1 empty_arrivals (take n
     [(10000000, (31, 0, 0), CALL_ARRIVAL sample_arrival),
      (20000000, (32, 33, 34), CALL_START sample_start),
      (50000000, (35, 0, 0), CALL_CONTINUITY (sample_seen 23 1 8 False)),
      (150000000, (36, 0, 0), CALL_CONTINUITY (sample_seen 24 2 9 True)),
      (330000000, (37, 0, 0), CALL_NO_SHOW sample_no_show)])"

definition sample_outcome :: arrival_db where
  "sample_outcome = (case sample_waiting 5 of Inr db \<Rightarrow> db | Inl _ \<Rightarrow> empty_arrivals)"

definition sample_waiting_db :: arrival_db where
  "sample_waiting_db = (case sample_waiting 2 of Inr db \<Rightarrow> db | Inl _ \<Rightarrow> empty_arrivals)"

lemma sample_waiting_reachable:
  "arrival_reachable sample_arrival_env sample_outcome" "arrival_reachable sample_arrival_env sample_waiting_db"
proof -
  have "arrival_reachable sample_arrival_env db" if "sample_waiting n = Inr db" for n db
    using that unfolding sample_waiting_def by (rule run_calls_reachable) (rule arrival_reachable.start)
  then show "arrival_reachable sample_arrival_env sample_outcome"
    "arrival_reachable sample_arrival_env sample_waiting_db"
    unfolding sample_outcome_def sample_waiting_db_def by (auto split: sum.splits intro: arrival_reachable.start)
qed

lemma sample_outcome_rows:
  "map (\<lambda>s. (ws_session_id s, ws_total_paused_seconds s, ws_free_wait_deadline s, ws_version s))
     (dvalues (aw_sessions sample_outcome)) = [(33, 100, 320000000, 3)]"
  "map (\<lambda>e. (ne_session_id e, ne_ready e)) (aw_evidence sample_outcome) = [(33, True)]"
  "map (\<lambda>s. (ws_session_id s, ws_state s, ws_free_wait_deadline s)) (dvalues (aw_sessions sample_waiting_db)) =
     [(33, WS_FREE_WAIT_ACTIVE, 220000000)]"
  by code_simp+

section \<open>Arrival\<close>

text \<open>An arrival is verified exactly when the observation is fresh, accurate, stationary and inside the pickup
  zone, the pickup and the map are trusted, the place is usable, the airport rules hold at an airport, and the lower
  of the two confidences reaches the threshold.\<close>

theorem arrival_verified_iff:
  assumes "0 \<le> ay_minimum_verification_confidence_bps p" and "ay_minimum_verification_confidence_bps p \<le> 10000"
  shows "ae_state (evaluate_arrival i r a g p now) = AS_ARRIVAL_VERIFIED \<longleftrightarrow>
    age_seconds now (lo_observed_at (ag_observation g)) \<le> ay_maximum_location_age_seconds p \<and>
    lo_accuracy_meters (ag_observation g) \<le> ay_maximum_accuracy_meters p \<and>
    lo_speed_cm_per_second (ag_observation g) \<le> ay_maximum_stationary_speed_cm_per_second p \<and>
    ay_minimum_stationary_seconds p \<le> ag_seconds_stationary g \<and> ag_inside_pickup_zone g \<and>
    (ag_heading_reliable g \<longrightarrow> ag_approach_consistent g) \<and> ag_accessible_pickup g \<and>
    ag_operationally_available g \<and> \<not> ag_unsafe_or_restricted g \<and>
    (airport_service (ag_service_context g) \<longrightarrow> ag_airport_terminal_code g \<noteq> None \<and> ag_airport_zone_match g \<and>
       ag_airport_context_fresh g \<and> ag_airport_staging_constraint_satisfied g \<and> ag_airport_access_permitted g \<and>
       \<not> ag_airport_zone_closed g) \<and>
    ay_minimum_pickup_confidence_bps p \<le> ag_pickup_confidence_bps g \<and>
    ay_minimum_map_confidence_bps p \<le> ag_map_confidence_bps g \<and>
    (ay_minimum_verification_confidence_bps p = 0 \<or>
     ay_minimum_verification_confidence_bps p \<le> min (ag_pickup_confidence_bps g) (ag_map_confidence_bps g))"
proof -
  have airport: "airport_failures g = [] \<longleftrightarrow> (airport_service (ag_service_context g) \<longrightarrow>
      ag_airport_terminal_code g \<noteq> None \<and> ag_airport_zone_match g \<and> ag_airport_context_fresh g \<and>
      ag_airport_staging_constraint_satisfied g \<and> ag_airport_access_permitted g \<and> \<not> ag_airport_zone_closed g)"
    by (simp add: airport_failures_def flagged_Nil)
  have failures: "arrival_failures g p now = [] \<longleftrightarrow>
      age_seconds now (lo_observed_at (ag_observation g)) \<le> ay_maximum_location_age_seconds p \<and>
      lo_accuracy_meters (ag_observation g) \<le> ay_maximum_accuracy_meters p \<and> ag_inside_pickup_zone g \<and>
      ay_minimum_pickup_confidence_bps p \<le> ag_pickup_confidence_bps g \<and>
      ay_minimum_map_confidence_bps p \<le> ag_map_confidence_bps g \<and>
      lo_speed_cm_per_second (ag_observation g) \<le> ay_maximum_stationary_speed_cm_per_second p \<and>
      ay_minimum_stationary_seconds p \<le> ag_seconds_stationary g \<and>
      (ag_heading_reliable g \<longrightarrow> ag_approach_consistent g) \<and> ag_accessible_pickup g \<and>
      ag_operationally_available g \<and> \<not> ag_unsafe_or_restricted g \<and> airport_failures g = []"
    by (auto simp: arrival_failures_def flagged_Nil)
  have "ay_minimum_verification_confidence_bps p \<le> arrival_confidence g [] \<longleftrightarrow>
      ay_minimum_verification_confidence_bps p = 0 \<or>
      ay_minimum_verification_confidence_bps p \<le> min (ag_pickup_confidence_bps g) (ag_map_confidence_bps g)"
    using assms by (auto simp: arrival_confidence_def)
  moreover have "ae_state (evaluate_arrival i r a g p now) = AS_ARRIVAL_VERIFIED \<longleftrightarrow>
      arrival_failures g p now = [] \<and> ay_minimum_verification_confidence_bps p \<le> arrival_confidence g []"
    by (auto simp: evaluate_arrival_def Let_def)
  ultimately show ?thesis unfolding failures airport by blast
qed

theorem arrival_verified_iff_witness:
  "ae_state (evaluate_arrival 31 1 6 (ac_signals sample_arrival) (ax_arrival_policy sample_arrival_env) 10000000) =
     AS_ARRIVAL_VERIFIED"
proof -
  let ?p = "ax_arrival_policy sample_arrival_env" and ?g = "ac_signals sample_arrival"
  have "0 \<le> ay_minimum_verification_confidence_bps ?p" "ay_minimum_verification_confidence_bps ?p \<le> 10000" by code_simp+
  from arrival_verified_iff [OF this, of 31 1 6 ?g 10000000] show ?thesis
    by (simp add: sample_arrival_env_def sample_arrival_def age_seconds_def whole_seconds_def airport_service_def)
qed

section \<open>No-shows\<close>

text \<open>C23: In every reachable database a stored finding that a no-show is ready is about a session of the ride whose
  driver had arrived by a verified arrival for the same assignment, and it was made after the whole free wait of the
  session's policy had passed since the session started; it makes the rider responsible.\<close>

theorem no_show_evidence_fair:
  assumes "arrival_reachable env db" and "e \<in> set (aw_evidence db)" and "ne_ready e"
  shows "\<exists>s snap a. dget (aw_sessions db) (ne_session_id e) = Some s \<and> ws_ride_id s = ne_ride_id e \<and>
    get_snapshot db (ws_policy_snapshot_id s) = Some snap \<and> a \<in> set (aw_arrivals db) \<and>
    ae_state a = AS_ARRIVAL_VERIFIED \<and> ae_ride_id a = ne_ride_id e \<and> ae_assignment_id a = ws_assignment_id s \<and>
    ws_started_at s + timedelta_seconds (wn_free_wait_seconds snap) \<le> ne_evaluated_at e \<and>
    ne_responsibility e = WR_RIDER"
proof -
  have inv: "wait_inv db" using arrival_reachable_inv [OF assms(1)] .
  obtain s snap where s: "dget (aw_sessions db) (ne_session_id e) = Some s" "ws_ride_id s = ne_ride_id e"
    "get_snapshot db (ws_policy_snapshot_id s) = Some snap"
    "ws_started_at s + timedelta_seconds (wn_free_wait_seconds snap) \<le> ne_evaluated_at e" "ne_responsibility e = WR_RIDER"
    using wait_inv_evidence [OF inv assms(2)] assms(3) unfolding evidence_ok_def by blast
  then have "arrived db s" using wait_invD [OF inv] unfolding session_ok_def by blast
  with s show ?thesis unfolding arrived_def by metis
qed

theorem no_show_evidence_fair_witness:
  "\<exists>e \<in> set (aw_evidence sample_outcome). ne_ready e \<and> ne_responsibility e = WR_RIDER"
proof -
  have "list_ex ne_ready (aw_evidence sample_outcome)" by code_simp
  then obtain e where e: "e \<in> set (aw_evidence sample_outcome)" "ne_ready e" unfolding list_ex_iff by blast
  then show ?thesis using no_show_evidence_fair [OF sample_waiting_reachable(1) e] by blast
qed

text \<open>For a session of a reachable database, the evaluation finds a no-show exactly when the session is not
  invalidated, the deadline has passed, the driver is available inside the pickup zone with a fresh and trusted
  location, the rider was notified where the policy asks for it, the pickup guidance was valid, and none of the nine
  disturbances is reported. That the session may be paused does not matter.\<close>

theorem no_show_ready_iff:
  assumes "arrival_reachable env db" and "dget (aw_sessions db) k = Some s"
  shows "ne_ready (evaluate_evidence i s snap g now) \<longleftrightarrow>
    ws_state s \<noteq> WS_WAIT_INVALIDATED \<and> ws_free_wait_deadline s \<le> now \<and> cs_inside_pickup_zone g \<and>
    cs_driver_available g \<and> cs_location_age_seconds g \<le> wn_maximum_location_age_seconds snap \<and>
    wn_minimum_location_confidence_bps snap \<le> cs_location_confidence_bps g \<and>
    (wn_reasonable_notification_required snap \<longrightarrow> cs_reasonable_notification g) \<and> cs_pickup_guidance_valid g \<and>
    list_all Not [cs_platform_failure g, cs_map_or_eta_failure g, cs_external_disruption g,
      cs_unsafe_or_inaccessible g, cs_airport_zone_confusion g, cs_road_closure g, cs_emergency g,
      cs_weak_network_uncertainty g, cs_driver_materially_late g]"
proof -
  have "ws_reason_codes s \<noteq> []"
    using wait_invD [OF arrival_reachable_inv [OF assms(1)] assms(2)] by (auto simp: session_ok_def session_booked_def)
  then show ?thesis by (auto simp: suppressions_def flagged_Nil)
qed

text \<open>C24: In every reachable database a waiting session is the only one of its ride, its deadline is the start plus
  the free wait of its policy snapshot plus the paused time, it is paused exactly when it has the time of its pause,
  and its events are numbered without gap from one to its version, the last one in its state.\<close>

theorem waiting_session_accounting:
  assumes "arrival_reachable env db" and "dget (aw_sessions db) k = Some s"
  shows "(\<exists>snap. get_snapshot db (ws_policy_snapshot_id s) = Some snap \<and> wn_ride_id snap = ws_ride_id s \<and>
      ws_free_wait_deadline s =
        ws_started_at s + timedelta_seconds (wn_free_wait_seconds snap + ws_total_paused_seconds s)) \<and>
    0 \<le> ws_total_paused_seconds s \<and> (ws_state s = WS_WAIT_PAUSED \<longleftrightarrow> ws_paused_at s \<noteq> None) \<and>
    map we_session_version (events_of db k) = map int [1..<Suc (nat (ws_version s))] \<and>
    we_state (last (events_of db k)) = ws_state s \<and>
    (\<forall>l t. dget (aw_sessions db) l = Some t \<longrightarrow> ws_ride_id t = ws_ride_id s \<longrightarrow> l = k)"
proof -
  have inv: "wait_inv db" using arrival_reachable_inv [OF assms(1)] .
  then have ok: "session_ok db k s" using wait_invD assms(2) by blast
  then have k: "ws_session_id s = k" and log: "session_logged db s" by (simp_all only: session_ok_def)
  obtain snap where "get_snapshot db (ws_policy_snapshot_id s) = Some snap" "session_booked s snap"
    using booked_of_ok [OF inv assms(2)] .
  moreover have "map we_session_version (events_of db k) = map int [1..<Suc (nat (ws_version s))] \<and>
      we_state (last (events_of db k)) = ws_state s"
    using log unfolding session_logged_def k by blast
  moreover have "\<forall>l t. dget (aw_sessions db) l = Some t \<longrightarrow> ws_ride_id t = ws_ride_id s \<longrightarrow> l = k"
    using inv assms(2) unfolding wait_inv_def one_session_per_ride_def by blast
  ultimately show ?thesis unfolding session_booked_def by blast
qed

lemma sample_session:
  obtains s where "dget (aw_sessions sample_outcome) 33 = Some s" and "ws_total_paused_seconds s = 100"
    and "ws_free_wait_deadline s = 320000000"
proof -
  have "map (\<lambda>s. (ws_total_paused_seconds s, ws_free_wait_deadline s)) (map snd (aw_sessions sample_outcome)) =
      [(100, 320000000)]" and "map fst (aw_sessions sample_outcome) = [33]"
    by code_simp+
  then show thesis using that by (auto simp: map_eq_Cons_conv)
qed

theorem no_show_ready_iff_witness:
  "\<exists>s. dget (aw_sessions sample_outcome) 33 = Some s \<and>
     (\<forall>snap :: waiting_snapshot. \<not> ne_ready (evaluate_evidence 40 s snap (sample_signals True) 319999999))"
proof -
  obtain s where s: "dget (aw_sessions sample_outcome) 33 = Some s" "ws_free_wait_deadline s = 320000000"
    by (rule sample_session)
  then have "\<not> ne_ready (evaluate_evidence 40 s snap (sample_signals True) 319999999)" for snap :: waiting_snapshot
    using no_show_ready_iff [OF sample_waiting_reachable(1) s(1), of 40 snap "sample_signals True" 319999999] by linarith
  with s show ?thesis by blast
qed

theorem waiting_session_accounting_witness:
  "\<exists>s (snap :: waiting_snapshot). dget (aw_sessions sample_outcome) 33 = Some s \<and>
     320000000 = ws_started_at s + timedelta_seconds (wn_free_wait_seconds snap + 100)"
proof -
  obtain s where s: "dget (aw_sessions sample_outcome) 33 = Some s" "ws_total_paused_seconds s = 100"
    "ws_free_wait_deadline s = 320000000" by (rule sample_session)
  obtain snap :: waiting_snapshot where "ws_free_wait_deadline s =
      ws_started_at s + timedelta_seconds (wn_free_wait_seconds snap + ws_total_paused_seconds s)"
    using waiting_session_accounting [OF sample_waiting_reachable(1) s(1)] by blast
  then show ?thesis using s by auto
qed

section \<open>Replay of commands\<close>

lemma owned_same: "owned_ride rides s r d = Inr ride \<Longrightarrow> get rides r = Some ride"
  by (auto simp: owned_ride_def split: option.splits if_splits)

lemma answer_once_replay:
  assumes "answer_once db s c r t h now work = Inr (db', x)"
  shows "answer_once db' s c r t h now' work' = Inr (db', x)"
  using assms
proof (cases rule: answer_once_cases)
  case 1
  then show ?thesis by (simp add: answer_once_def)
next
  case (2 db1)
  then have "idempotent_response db' (fst s) c r t h = Inr (Some x)"
    by (auto simp: save_idempotent_response_def idempotent_response_def split: if_splits)
  then show ?thesis by (simp add: answer_once_def)
qed

text \<open>Repeating a command that succeeded, at any later time and with any newly drawn identifiers, returns the stored
  answer and changes nothing.\<close>

theorem arrival_command_replays:
  assumes "perform env rides db s r now ids c = Inr (db', x)"
  shows "perform env rides db' s r now' ids' c = Inr (db', x)"
proof (cases c)
  case (CALL_ARRIVAL y)
  with assms show ?thesis
    by (cases ids; cases ids') (auto simp: submit_arrival_def bind_result_eq_Inr dest: answer_once_replay)
next
  case (CALL_READINESS y)
  with assms show ?thesis
    by (cases ids; cases ids') (auto simp: evaluate_rider_readiness_def bind_result_eq_Inr dest: answer_once_replay)
next
  case (CALL_START y)
  with assms show ?thesis
    by (cases ids; cases ids') (auto simp: start_session_def bind_result_eq_Inr dest: answer_once_replay)
next
  case (CALL_CONTINUITY y)
  with assms show ?thesis
    by (cases ids; cases ids') (auto simp: continuity_def bind_result_eq_Inr dest: answer_once_replay)
next
  case (CALL_PRESENT y)
  with assms show ?thesis
    by (cases ids; cases ids')
      (auto simp: rider_present_def bind_result_eq_Inr dest: answer_once_replay split: if_splits)
next
  case (CALL_NO_SHOW y)
  with assms show ?thesis
    by (cases ids; cases ids') (auto simp: evaluate_no_show_def bind_result_eq_Inr dest: answer_once_replay)
qed

theorem arrival_command_replays_witness:
  "\<exists>db x. perform sample_arrival_env sample_rides db (5, ID_DRIVER) 1 20000000 (50, 51, 52)
     (CALL_ARRIVAL sample_arrival) = Inr (db, x) \<and> db \<noteq> empty_arrivals"
proof -
  have "case perform sample_arrival_env sample_rides empty_arrivals (5, ID_DRIVER) 1 10000000 (31, 0, 0)
      (CALL_ARRIVAL sample_arrival) of Inl _ \<Rightarrow> False | Inr (db, _) \<Rightarrow> aw_arrivals db \<noteq> []"
    by code_simp
  then obtain db x where "perform sample_arrival_env sample_rides empty_arrivals (5, ID_DRIVER) 1 10000000 (31, 0, 0)
      (CALL_ARRIVAL sample_arrival) = Inr (db, x)" and "aw_arrivals db \<noteq> []"
    by (auto split: sum.splits)
  then show ?thesis using arrival_command_replays by (fastforce simp: empty_arrivals_def)
qed

section \<open>The worker\<close>

lemma next_version_unused:
  assumes "wait_inv db" and "dget (aw_sessions db) (ws_session_id s) = Some s"
    and "e \<in> set (aw_events db)" and "we_session_id e = ws_session_id s"
  shows "we_session_version e \<noteq> ws_version s + 1"
proof -
  have log: "session_logged db s" and "1 \<le> ws_version s"
    using wait_invD [OF assms(1,2)] by (auto simp: session_ok_def session_booked_def)
  have "we_session_version e \<in> set (map we_session_version (events_of db (ws_session_id s)))"
    using assms(3,4) by (auto simp: events_of_def)
  also have "\<dots> = set (map int [1..<Suc (nat (ws_version s))])" using log by (simp only: session_logged_def)
  finally show ?thesis using \<open>1 \<le> ws_version s\<close> by auto
qed

lemma run_loop_succeeds:
  assumes "wait_inv db" and "distinct (map ws_session_id ss)"
    and "\<And>s. s \<in> set ss \<Longrightarrow> dget (aw_sessions db) (ws_session_id s) = Some s"
    and "inj draw" and "\<And>e s. e \<in> set (aw_events db) \<Longrightarrow> s \<in> set ss \<Longrightarrow> we_event_id e \<noteq> draw (ws_session_id s)"
  shows "\<exists>db' n. run_loop db now draw ss m = Inr (db', n)"
  using assms
proof (induction ss arbitrary: db m)
  case Nil
  then show ?case by simp
next
  case (Cons s ss)
  show ?case
  proof (cases "ws_state s = WS_FREE_WAIT_ACTIVE")
    case False
    then show ?thesis using Cons.IH [of db m] Cons.prems by auto
  next
    case True
    let ?t = "ended_session s now" and ?i = "draw (ws_session_id s)"
    let ?db = "session_stored db ?t ?i"
    have s: "dget (aw_sessions db) (ws_session_id s) = Some s" using Cons.prems(3) by simp
    have "ws_version ?t = ws_version s + 1" by (simp add: ended_session_def)
    then have stored: "update_session db ?t (ws_version s) ?i = Inr ?db"
      using s next_version_unused [OF Cons.prems(1) s] Cons.prems(5) [of _ s]
      by (auto simp: update_session_ok session_stored_def)
    have others: "ws_session_id u \<noteq> ws_session_id s" if "u \<in> set ss" for u
      using Cons.prems(2) that by (auto intro: rev_image_eqI)
    have "\<exists>db' n. run_loop ?db now draw ss (m + 1) = Inr (db', n)"
    proof (rule Cons.IH)
      show "wait_inv ?db" using active_step(2) [OF Cons.prems(1) s True] .
      show "distinct (map ws_session_id ss)" using Cons.prems(2) by simp
      show "dget (aw_sessions ?db) (ws_session_id u) = Some u" if "u \<in> set ss" for u
        using Cons.prems(3) that others by simp
      show "we_event_id e \<noteq> draw (ws_session_id u)" if "e \<in> set (aw_events ?db)" "u \<in> set ss" for e u
        using that(1) Cons.prems(5) [of e u] that(2) others [OF that(2)] by (auto simp: inj_eq [OF Cons.prems(4)])
    qed fact
    then show ?thesis using stored True by simp
  qed
qed

text \<open>C26: A run of the worker on a reachable database with freshly drawn event identifiers succeeds: it ends the active
  sessions among the claimed ones, counts them and leaves every other session alone; when no more sessions are due
  than fit into the batch, no active session is past its deadline afterwards.\<close>

theorem worker_ends_due_sessions:
  assumes "arrival_reachable env db" and "claim_due_sessions db now batch = Inr ss" and "inj draw"
    and "\<And>e k. e \<in> set (aw_events db) \<Longrightarrow> we_event_id e \<noteq> draw k"
  shows "\<exists>db'. run_once db batch now draw = Inr (db', active_count ss) \<and>
    (\<forall>k. dget (aw_sessions db') k = map_option (worked ss now k) (dget (aw_sessions db) k)) \<and>
    (length (filter (due now) (dvalues (aw_sessions db))) \<le> nat batch \<longrightarrow>
     (\<forall>k s. dget (aw_sessions db') k = Some s \<longrightarrow> ws_state s = WS_FREE_WAIT_ACTIVE \<longrightarrow> now < ws_free_wait_deadline s))"
proof -
  have inv: "wait_inv db" using arrival_reachable_inv [OF assms(1)] .
  obtain db' n where "run_loop db now draw ss 0 = Inr (db', n)"
    using run_loop_succeeds [of db ss draw now 0] inv claimed_sessions [OF inv assms(2)] assms(3,4) by blast
  then have run: "run_once db batch now draw = Inr (db', n)" using assms(2) by (simp add: run_once_def)
  have n: "n = active_count ss" and
    rows: "dget (aw_sessions db') k = map_option (worked ss now k) (dget (aw_sessions db) k)" for k
    using run_once_effects [OF inv run] assms(2) by auto
  have "now < ws_free_wait_deadline s"
    if len: "length (filter (due now) (dvalues (aw_sessions db))) \<le> nat batch"
      and s: "dget (aw_sessions db') k = Some s" "ws_state s = WS_FREE_WAIT_ACTIVE" for k s
  proof (rule ccontr)
    assume late: "\<not> now < ws_free_wait_deadline s"
    obtain s0 where s0: "dget (aw_sessions db) k = Some s0" "s = worked ss now k s0" using s(1) rows by auto
    then have "s = s0" and "\<not> s0 \<in> set ss" using s(2) by (auto simp: worked_def ended_session_def split: if_splits)
    moreover have "s0 \<in> set (filter (due now) (dvalues (aw_sessions db)))"
      using s0(1) s(2) late \<open>s = s0\<close> dget_in_dvalues by (fastforce simp: due_def)
    moreover have "set ss = set (filter (due now) (dvalues (aw_sessions db)))"
      using assms(2) len by (auto simp: claim_due_sessions_def split: if_splits)
    ultimately show False by blast
  qed
  then show ?thesis using run n rows by blast
qed

theorem worker_ends_due_sessions_witness:
  "\<exists>db'. run_once sample_waiting_db 10 300000000 (\<lambda>k. k + 100) = Inr (db', 1)"
proof -
  have "case claim_due_sessions sample_waiting_db 300000000 10 of Inl _ \<Rightarrow> False | Inr ss \<Rightarrow> active_count ss = 1"
    and events: "list_all (\<lambda>e. we_event_id e < 100) (aw_events sample_waiting_db)"
    by code_simp+
  then obtain ss where ss: "claim_due_sessions sample_waiting_db 300000000 10 = Inr ss" "active_count ss = 1"
    by (auto split: sum.splits)
  moreover have "inj (\<lambda>k::uuid. k + 100)" by (simp add: inj_def)
  moreover have "we_event_id e \<noteq> k + 100" if "e \<in> set (aw_events sample_waiting_db)" for e k
    using that events unfolding list_all_iff by fastforce
  ultimately show ?thesis
    using worker_ends_due_sessions [OF sample_waiting_reachable(2), of 300000000 10 ss "\<lambda>k. k + 100"] by auto
qed

text \<open>
  The claimed batch holds sessions that have already ended as well, the oldest first, and the worker does not change
  those: once a batch of them has gathered, no later session is ever ended.
\<close>

lemma worker_starves:
  assumes "claim_due_sessions db now batch = Inr ss" and "\<And>s. s \<in> set ss \<Longrightarrow> ws_state s = WS_FREE_WAIT_ENDING"
  shows "run_once db batch now draw = Inr (db, 0)"
proof -
  have "run_loop db now draw us m = Inr (db, m)" if "\<And>s. s \<in> set us \<Longrightarrow> ws_state s = WS_FREE_WAIT_ENDING" for us m
    using that by (induction us) auto
  then show ?thesis using assms by (simp add: run_once_def)
qed

text \<open>An invalidated session becomes active again with the next clean observation, and its deadline stays.\<close>

lemma invalidated_session_resumes:
  assumes "ws_state s = WS_WAIT_INVALIDATED" and "continuity_reasons snap g = []"
    and "ws_last_observation_sequence s < q" and "now < ws_free_wait_deadline s - timedelta_seconds (wn_ending_warning_seconds snap)"
    and "0 \<le> wn_ending_warning_seconds snap"
  shows "\<exists>t. evaluate_waiting_continuity s snap g q now = Inr t \<and> ws_state t = WS_FREE_WAIT_ACTIVE \<and>
    ws_free_wait_deadline t = ws_free_wait_deadline s \<and> ws_total_paused_seconds t = ws_total_paused_seconds s"
  using assms by (simp add: evaluate_waiting_continuity_def resumed_pause_seconds_def continued_state_def
      timedelta_seconds_def Let_def)

end
