(* ===== verification/Waiting_Policy.thy ===== *)
theory Waiting_Policy
  imports Arrival_Waiting "HOL-Library.Multiset"
begin

text \<open>
  The choice of a waiting policy (\<open>resolve_waiting_policy\<close> of \<open>arrival_waiting/engine.py\<close>), which sorts the policies
  that apply and compares the first two, is the choice of the one policy that outranks all others.
\<close>

section \<open>The waiting policy\<close>

lemma map_filter_split:
  "List.map_filter f ps = xs @ m # ys \<longleftrightarrow>
     (\<exists>us p vs. ps = us @ p # vs \<and> f p = Some m \<and> List.map_filter f us = xs \<and> List.map_filter f vs = ys)"
proof
  show "\<exists>us p vs. ps = us @ p # vs \<and> f p = Some m \<and> List.map_filter f us = xs \<and> List.map_filter f vs = ys"
    if "List.map_filter f ps = xs @ m # ys"
    using that
  proof (induction ps arbitrary: xs)
    case Nil
    then show ?case by (simp add: map_filter_simps)
  next
    case (Cons q ps)
    show ?case
    proof (cases "f q = None \<or> xs \<noteq> []")
      case True
      then have "List.map_filter f ps = (case f q of None \<Rightarrow> xs | Some _ \<Rightarrow> tl xs) @ m # ys" and
        "xs = (case f q of None \<Rightarrow> xs | Some z \<Rightarrow> z # tl xs)"
        using Cons.prems by (auto simp: map_filter_simps Cons_eq_append_conv split: option.splits)
      then obtain us p vs where "ps = us @ p # vs" "f p = Some m" "List.map_filter f vs = ys"
        "List.map_filter f us = (case f q of None \<Rightarrow> xs | Some _ \<Rightarrow> tl xs)" using Cons.IH by blast
      with \<open>xs = _\<close> show ?thesis
        by (intro exI [of _ "q # us"] exI [of _ p] exI [of _ vs]) (auto simp: map_filter_simps split: option.splits)
    next
      case False
      then have "f q = Some m" and "List.map_filter f ps = ys" using Cons.prems by (auto simp: map_filter_simps)
      then show ?thesis using False by (intro exI [of _ "[]"] exI [of _ q] exI [of _ ps]) (simp add: map_filter_simps)
    qed
  qed
qed (auto simp: map_filter_simps List.map_filter_def)

text \<open>The head of a sorted list is the unique minimum exactly when its neighbour differs.\<close>

lemma unique_first:
  fixes f :: "'a \<Rightarrow> 'b::linorder"
  shows "(\<exists>rest. sort_key f ms = m # rest \<and> (rest \<noteq> [] \<longrightarrow> f (hd rest) \<noteq> f m)) \<longleftrightarrow>
     (\<exists>xs ys. ms = xs @ m # ys \<and> (\<forall>y \<in> set xs \<union> set ys. f m < f y))" (is "?l \<longleftrightarrow> ?r")
proof
  assume ?l
  then obtain rest where rest: "sort_key f ms = m # rest" "rest \<noteq> [] \<longrightarrow> f (hd rest) \<noteq> f m" by blast
  have "sorted (map f (m # rest))" using sorted_sort_key [of f ms] rest(1) by simp
  then have less: "f m < f y" if "y \<in> set rest" for y using rest(2) that by (cases rest) force+
  obtain xs ys where ms: "ms = xs @ m # ys" using rest(1) by (metis set_sort list.set_intros(1) split_list)
  have "mset (m # rest) = mset ms" using rest(1) by (metis mset_sort)
  then have "mset rest = mset (xs @ ys)" by (simp add: ms)
  then have "set rest = set xs \<union> set ys" by (metis set_append set_mset_mset)
  with less ms show ?r by blast
next
  assume ?r
  then obtain xs ys where ms: "ms = xs @ m # ys" and less: "\<And>y. y \<in> set xs \<union> set ys \<Longrightarrow> f m < f y" by blast
  obtain z rest where sort: "sort_key f ms = z # rest" using ms by (cases "sort_key f ms") (auto dest: arg_cong [of _ _ length])
  have eq: "mset (z # rest) = mset ms" using sort by (metis mset_sort)
  have z: "z \<in> set ms" using sort by (metis list.set_intros(1) set_sort)
  have "sorted (map f (z # rest))" using sorted_sort_key [of f ms] sort by simp
  moreover have "m \<in> set (z # rest)" using sort ms by (metis in_set_conv_decomp set_sort)
  ultimately have "f z \<le> f m" by auto
  then have "z = m" using z less ms by fastforce
  moreover from this have "mset rest = mset (xs @ ys)" using eq ms by simp
  then have "set rest = set xs \<union> set ys" by (metis set_append set_mset_mset)
  then have "rest \<noteq> [] \<Longrightarrow> f m < f (hd rest)" using less hd_in_set by metis
  ultimately show ?l using sort by fastforce
qed

definition rank_less :: "nat \<times> int \<Rightarrow> nat \<times> int \<Rightarrow> bool" where
  "rank_less k l \<longleftrightarrow> fst k < fst l \<or> fst k = fst l \<and> snd k < snd l"

lemma reverse_key_less: "reverse_key l < reverse_key k \<longleftrightarrow> rank_less k l"
  by (auto simp: reverse_key_def rank_less_def less_prod_def)

lemma reverse_key_eq: "reverse_key k = reverse_key l \<longleftrightarrow> k = l"
  by (auto simp: reverse_key_def prod_eq_iff)

lemma in_map_filter: "y \<in> set (List.map_filter f us) \<longleftrightarrow> (\<exists>q \<in> set us. f q = Some y)"
  by (induction us) (auto split: option.splits)

lemma all_matching:
  "(\<forall>y \<in> set (List.map_filter (\<lambda>p. map_option (Pair p) (policy_matches p c now)) us) \<union>
       set (List.map_filter (\<lambda>p. map_option (Pair p) (policy_matches p c now)) vs). P (policy_rank y)) \<longleftrightarrow>
   (\<forall>q es. q \<in> set us \<union> set vs \<longrightarrow> policy_matches q c now = Some es \<longrightarrow> P (policy_rank (q, es)))"
  by (fastforce simp: in_map_filter)

text \<open>C25: A waiting policy is chosen exactly when one policy that applies to the context and the time outranks every
  other one that applies, by the number of matched dimensions and then by priority; the snapshot is made of it.\<close>

theorem resolve_waiting_policy_best:
  "resolve_waiting_policy i r c policies now = Inr snap \<longleftrightarrow>
     (\<exists>us p vs ds. policies = us @ p # vs \<and> policy_matches p c now = Some ds \<and> snap = new_snapshot i r c p ds now \<and>
        (\<forall>q es. q \<in> set us \<union> set vs \<longrightarrow> policy_matches q c now = Some es \<longrightarrow>
           rank_less (policy_rank (q, es)) (policy_rank (p, ds))))"
proof -
  let ?key = "\<lambda>m. reverse_key (policy_rank m)"
  let ?f = "\<lambda>p. map_option (Pair p) (policy_matches p c now)"
  have "resolve_waiting_policy i r c policies now = Inr snap \<longleftrightarrow>
      (\<exists>m. (\<exists>rest. sort_key ?key (matching_policies c policies now) = m # rest \<and>
          (rest \<noteq> [] \<longrightarrow> ?key (hd rest) \<noteq> ?key m)) \<and> snap = new_snapshot i r c (fst m) (snd m) now)"
    unfolding resolve_waiting_policy_def by (auto simp: reverse_key_eq split: list.splits)
  also have "\<dots> \<longleftrightarrow> (\<exists>m. (\<exists>xs ys. matching_policies c policies now = xs @ m # ys \<and>
      (\<forall>y \<in> set xs \<union> set ys. ?key m < ?key y)) \<and> snap = new_snapshot i r c (fst m) (snd m) now)"
    by (simp only: unique_first [of ?key])
  also have "\<dots> \<longleftrightarrow> (\<exists>us p vs ds. policies = us @ p # vs \<and> policy_matches p c now = Some ds \<and>
      snap = new_snapshot i r c p ds now \<and>
      (\<forall>y \<in> set (List.map_filter ?f us) \<union> set (List.map_filter ?f vs). rank_less (policy_rank y) (policy_rank (p, ds))))"
    (is "?a \<longleftrightarrow> ?b")
  proof
    show ?b if ?a using that unfolding matching_policies_def map_filter_split reverse_key_less by fastforce
    show ?a if best: ?b
    proof -
      obtain us p vs ds where *: "policies = us @ p # vs" "policy_matches p c now = Some ds"
        "snap = new_snapshot i r c p ds now" "\<forall>y \<in> set (List.map_filter ?f us) \<union> set (List.map_filter ?f vs).
            rank_less (policy_rank y) (policy_rank (p, ds))" using best by blast
      then have "matching_policies c policies now = List.map_filter ?f us @ (p, ds) # List.map_filter ?f vs"
        unfolding matching_policies_def by (auto simp: map_filter_split)
      with * show ?thesis unfolding reverse_key_less
        by (intro exI [of _ "(p, ds)"] conjI exI [of _ "List.map_filter ?f us"] exI [of _ "List.map_filter ?f vs"])
          (simp_all only: fst_conv snd_conv)
    qed
  qed
  finally show ?thesis unfolding all_matching [where P = "\<lambda>k. rank_less k _"] .
qed

text \<open>Two policies of one city apply: the one for severe weather outranks the general one.\<close>

definition sample_waiting_policy :: "uuid \<Rightarrow> bool option \<Rightarrow> waiting_policy" where
  "sample_waiting_policy k weather =
     \<lparr>wp_policy_id = k, wp_version = ''v1'', wp_city_code = ''accra'', wp_ride_origin = None, wp_pickup_context = None,
      wp_service_context = None, wp_assisted = None, wp_accessibility_accommodation = None, wp_severe_weather = weather,
      wp_operational_override_code = None, wp_effective_from = 0, wp_effective_until = None, wp_priority = 10,
      wp_free_wait_seconds = 300, wp_ending_warning_seconds = 60, wp_departure_behavior = DB_PAUSE,
      wp_pause_on_insufficient_quality = True, wp_maximum_location_age_seconds = 60,
      wp_minimum_location_confidence_bps = 6000, wp_reasonable_notification_required = True\<rparr>"

definition sample_waiting_context :: waiting_context where
  "sample_waiting_context =
     \<lparr>wc_city_code = ''accra'', wc_ride_origin = RO_SCHEDULED, wc_pickup_context = PX_RESIDENTIAL, wc_service_context = SX_STANDARD,
      wc_assisted = False, wc_accessibility_accommodation = False, wc_severe_weather = True,
      wc_operational_override_code = None\<rparr>"

lemma resolve_waiting_policy_best_witness:
  "resolve_waiting_policy 7 8 sample_waiting_context [sample_waiting_policy 1 None, sample_waiting_policy 2 (Some True)] 5 =
     Inr (new_snapshot 7 8 sample_waiting_context (sample_waiting_policy 2 (Some True))
       [''waiting_policy.context.city'', ''waiting_policy.context.severe_weather''] 5)"
proof -
  have "policy_matches (sample_waiting_policy 1 None) sample_waiting_context 5 = Some [''waiting_policy.context.city'']"
    "policy_matches (sample_waiting_policy 2 (Some True)) sample_waiting_context 5 =
      Some [''waiting_policy.context.city'', ''waiting_policy.context.severe_weather'']"
    by code_simp+
  then show ?thesis unfolding resolve_waiting_policy_best
    by (intro exI [of _ "[sample_waiting_policy 1 None]"] exI [of _ "sample_waiting_policy 2 (Some True)"]
      exI [of _ "[] :: waiting_policy list"] exI conjI) (auto simp: rank_less_def policy_rank_def)
qed

end
