(* ===== verification/Financial_Posting.thy ===== *)
theory Financial_Posting
  imports Settlement_Service Ledger Wallet
begin

text \<open>
  Financial posting: the models of \<open>financial_posting/models.py\<close>, the balance check of \<open>engine.py\<close>, the
  repository \<open>persistence/financial_posting_repository.py\<close> and the service \<open>financial_posting/application.py\<close>, which
  in one transaction posts a ledger journal, moves a wallet and records both under the source they come from.
  It reads the tables of payments, refunds and settlements and writes those of the ledger and the wallet; the models
  of those components are used as they are.
\<close>

section \<open>Models\<close>

datatype posting_source_type = PS_COMPLETED_PAYMENT | PS_APPROVED_REFUND | PS_SETTLEMENT_EVENT | PS_WALLET_ADJUSTMENT

datatype posting_state = PT_POSTED

datatype posting_side = PD_DEBIT | PD_CREDIT

fun posting_source_value :: "posting_source_type \<Rightarrow> string" where
  "posting_source_value PS_COMPLETED_PAYMENT = ''completed_payment''"
| "posting_source_value PS_APPROVED_REFUND = ''approved_refund''"
| "posting_source_value PS_SETTLEMENT_EVENT = ''settlement_event''"
| "posting_source_value PS_WALLET_ADJUSTMENT = ''wallet_adjustment''"

fun posting_side_value :: "posting_side \<Rightarrow> string" where
  "posting_side_value PD_DEBIT = ''debit''"
| "posting_side_value PD_CREDIT = ''credit''"

record posting_line_command =
  pl_line_index :: int
  pl_account_id :: uuid
  pl_side :: posting_side
  pl_amount_minor :: minor

abbreviation posting_amount_ok :: "int \<Rightarrow> bool" where
  "posting_amount_ok n \<equiv> 1 \<le> n \<and> n \<le> 10000000000"

definition posting_line_fields :: "posting_line_command \<Rightarrow> bool" where
  "posting_line_fields l \<longleftrightarrow> 1 \<le> pl_line_index l \<and> pl_line_index l \<le> 1024 \<and> posting_amount_ok (pl_amount_minor l)"

record posting_command =
  pq_source_type :: posting_source_type
  pq_source_id :: uuid
  pq_operation :: string
  pq_reason_code :: string
  pq_currency :: string
  pq_lines :: "posting_line_command list"
  pq_wallet_owner_identity_id :: uuid
  pq_wallet_amount_minor :: minor
  pq_idempotency_key :: string
  pq_correlation_id :: uuid
  pq_causation_id :: uuid
  pq_occurred_at :: instant

definition valid_posting_command :: "posting_command \<Rightarrow> posting_command result" where
  "valid_posting_command c =
     (if \<not> (code_pattern 2 (pq_operation c) \<and> code_pattern 2 (pq_reason_code c) \<and> currency_pattern (pq_currency c) \<and>
            list_all posting_line_fields (pq_lines c) \<and> posting_amount_ok (pq_wallet_amount_minor c) \<and>
            length_between 16 128 (pq_idempotency_key c))
      then Inl (ValidationError ''FinancialPostingCommand'')
      else if length (pq_lines c) < 2
      then Inl (ValidationError ''A posting command requires at least two lines'')
      else if card (set (map pl_line_index (pq_lines c))) \<noteq> length (pq_lines c)
      then Inl (ValidationError ''Posting command line_index values must be unique'')
      else if pq_currency c \<noteq> ''ETB''
      then Inl (ValidationError ''Financial posting currently supports ETB only'')
      else Inr c)"

definition new_posting_command :: "py_datetime \<Rightarrow> posting_command \<Rightarrow> posting_command result" where
  "new_posting_command occurred_at c =
     (if \<not> is_aware occurred_at
      then Inl (ValidationError ''Financial posting timestamps must be timezone-aware'')
      else valid_posting_command (c\<lparr>pq_occurred_at := instant_of occurred_at\<rparr>))"

record financial_posting =
  fp_posting_id :: uuid
  fp_source_type :: posting_source_type
  fp_source_id :: uuid
  fp_operation :: string
  fp_reason_code :: string
  fp_state :: posting_state
  fp_currency :: string
  fp_total_debit_minor :: minor
  fp_total_credit_minor :: minor
  fp_actor_identity_id :: uuid
  fp_ledger_journal_id :: uuid
  fp_wallet_entry_id :: uuid
  fp_correlation_id :: uuid
  fp_causation_id :: uuid
  fp_created_at :: instant

definition valid_posting :: "financial_posting \<Rightarrow> financial_posting result" where
  "valid_posting p =
     (if \<not> (code_pattern 2 (fp_operation p) \<and> code_pattern 2 (fp_reason_code p) \<and> currency_pattern (fp_currency p) \<and>
            posting_amount_ok (fp_total_debit_minor p) \<and> posting_amount_ok (fp_total_credit_minor p))
      then Inl (ValidationError ''FinancialPosting'')
      else if fp_currency p \<noteq> ''ETB''
      then Inl (ValidationError ''Financial posting currently supports ETB only'')
      else if fp_total_debit_minor p \<noteq> fp_total_credit_minor p
      then Inl (ValidationError ''Financial posting must be balanced'')
      else Inr p)"

record posting_line =
  pn_posting_line_id :: uuid
  pn_posting_id :: uuid
  pn_line_index :: int
  pn_account_id :: uuid
  pn_side :: posting_side
  pn_amount_minor :: minor
  pn_currency :: string

type_synonym posting_result = "financial_posting \<times> posting_line list"

section \<open>The engine\<close>

fun posting_total :: "posting_side \<Rightarrow> posting_line_command list \<Rightarrow> int" where
  "posting_total side [] = 0"
| "posting_total side (l # ls) = (if pl_side l = side then pl_amount_minor l else 0) + posting_total side ls"

definition validate_balanced_lines :: "posting_line_command list \<Rightarrow> py_datetime \<Rightarrow> (int \<times> int) result" where
  "validate_balanced_lines ls at =
     (if \<not> is_aware at then Inl (FinancialPostingConflict ''financial_posting_timestamp_invalid'')
      else
        (let debit = posting_total PD_DEBIT ls; credit = posting_total PD_CREDIT ls in
         if debit \<le> 0 \<or> credit \<le> 0 then Inl (FinancialPostingConflict ''financial_posting_amount_invalid'')
         else if debit \<noteq> credit then Inl (FinancialPostingConflict ''financial_posting_not_balanced'')
         else Inr (debit, credit)))"

section \<open>The repository\<close>

record posting_db =
  gd_postings :: "(uuid, financial_posting) dict"
  gd_lines :: "posting_line list"
  gd_idempotency :: idempotency_table
  gd_events :: "payment_event list"
  gd_outbox :: "payment_message list"

definition posting_reserve_idempotency ::
  "(payload \<Rightarrow> string) \<Rightarrow> posting_db \<Rightarrow> uuid \<Rightarrow> string \<Rightarrow> string \<Rightarrow> payload \<Rightarrow> uuid \<Rightarrow> instant \<Rightarrow>
   (posting_db \<times> uuid) result" where
  "posting_reserve_idempotency digest db actor_id operation key pl response_reference at =
     bind_result
       (reserve_row (FinancialPostingConflict ''idempotency_conflict'') (gd_idempotency db)
          (actor_id, operation, key) (digest pl) response_reference at)
       (\<lambda>(table, reference). Inr (db\<lparr>gd_idempotency := table\<rparr>, reference))"

definition get_posting :: "posting_db \<Rightarrow> uuid \<Rightarrow> financial_posting option" where
  "get_posting db k = dget (gd_postings db) k"

definition list_lines :: "posting_db \<Rightarrow> uuid \<Rightarrow> posting_line list" where
  "list_lines db k = sort_key pn_line_index (filter (\<lambda>l. pn_posting_id l = k) (gd_lines db))"

definition same_source :: "financial_posting \<Rightarrow> financial_posting \<Rightarrow> bool" where
  "same_source p q \<longleftrightarrow> fp_source_type p = fp_source_type q \<and> fp_source_id p = fp_source_id q \<and>
     fp_operation p = fp_operation q"

definition posting_event :: "financial_posting \<Rightarrow> payment_event" where
  "posting_event p =
     \<lparr>pe_aggregate_type = ''financial_posting'', pe_aggregate_id = fp_posting_id p,
      pe_event_type = ''financial_posting.posted'', pe_occurred_at = fp_created_at p,
      pe_correlation_id = fp_correlation_id p, pe_causation_id = fp_causation_id p,
      pe_safe_payload =
        [(''posting_id'', JUuid (fp_posting_id p)), (''source_type'', JStr (posting_source_value (fp_source_type p))),
         (''source_id'', JUuid (fp_source_id p)), (''currency'', JStr (fp_currency p)),
         (''total_debit_minor'', JInt (fp_total_debit_minor p)),
         (''total_credit_minor'', JInt (fp_total_credit_minor p)),
         (''ledger_journal_id'', JUuid (fp_ledger_journal_id p)),
         (''wallet_entry_id'', JUuid (fp_wallet_entry_id p))]\<rparr>"

definition posting_message :: "financial_posting \<Rightarrow> payment_message" where
  "posting_message p =
     \<lparr>pm_event_type = ''financial_posting.posted'',
      pm_safe_payload =
        [(''posting_id'', JUuid (fp_posting_id p)), (''source_type'', JStr (posting_source_value (fp_source_type p))),
         (''ledger_journal_id'', JUuid (fp_ledger_journal_id p)),
         (''wallet_entry_id'', JUuid (fp_wallet_entry_id p))],
      pm_occurred_at = fp_created_at p, pm_available_at = fp_created_at p, pm_attempt_count = 0\<rparr>"

text \<open>The keys of the lines: their own identifiers, one line per index of a posting, and existing accounts.\<close>

definition lines_insertable :: "ledger_db \<Rightarrow> posting_db \<Rightarrow> posting_line list \<Rightarrow> bool" where
  "lines_insertable ledger db ls \<longleftrightarrow>
     distinct (map pn_posting_line_id (gd_lines db @ ls)) \<and>
     distinct (map (\<lambda>l. (pn_posting_id l, pn_line_index l)) (gd_lines db @ ls)) \<and>
     list_all (\<lambda>l. dget (ld_accounts ledger) (pn_account_id l) \<noteq> None) ls"

definition create_posting ::
  "ledger_db \<Rightarrow> wallet_db \<Rightarrow> posting_db \<Rightarrow> financial_posting \<Rightarrow> posting_line list \<Rightarrow> posting_db result" where
  "create_posting ledger wallet db p ls =
     (if dget (gd_postings db) (fp_posting_id p) \<noteq> None then Inl (IntegrityError ''financial_postings.posting_id'')
      else if list_ex (\<lambda>q. fp_ledger_journal_id q = fp_ledger_journal_id p) (dvalues (gd_postings db)) \<or>
        dget (ld_journals ledger) (fp_ledger_journal_id p) = None
      then Inl (IntegrityError ''financial_postings.ledger_journal_id'')
      else if list_ex (\<lambda>q. fp_wallet_entry_id q = fp_wallet_entry_id p) (dvalues (gd_postings db)) \<or>
        dget (wd_lineage wallet) (fp_wallet_entry_id p) = None
      then Inl (IntegrityError ''financial_postings.wallet_entry_id'')
      else if list_ex (same_source p) (dvalues (gd_postings db))
      then Inl (IntegrityError ''uq_financial_posting_source_operation'')
      else if \<not> lines_insertable ledger db ls
      then Inl (IntegrityError ''financial_posting_lines'')
      else Inr (db\<lparr>gd_postings := dset (fp_posting_id p) p (gd_postings db), gd_lines := gd_lines db @ ls,
        gd_events := gd_events db @ [posting_event p], gd_outbox := gd_outbox db @ [posting_message p]\<rparr>))"

section \<open>The service\<close>

record posting_env =
  px_has_permission :: "uuid \<Rightarrow> string \<Rightarrow> bool"
  px_identity_exists :: "uuid \<Rightarrow> bool"
  px_posting_digest :: "payload \<Rightarrow> string"
  px_wallet_digest :: "payload \<Rightarrow> string"

text \<open>The tables that posting writes, and the identifiers that it draws; an entry and a line of the command are
  drawn per line index.\<close>

record money_db =
  my_ledger :: ledger_db
  my_wallet :: wallet_db
  my_postings :: posting_db

record posting_draws =
  dw_posting :: uuid
  dw_journal :: uuid
  dw_audit :: uuid
  dw_entry :: "int \<Rightarrow> uuid"
  dw_line :: "int \<Rightarrow> uuid"
  dw_wallet_account :: uuid
  dw_wallet_entry :: uuid

definition lineage_trace ::
  "uuid \<Rightarrow> uuid \<Rightarrow> uuid \<Rightarrow> uuid \<Rightarrow> uuid \<Rightarrow> uuid \<Rightarrow> uuid \<Rightarrow> ledger_traceability" where
  "lineage_trace ride_request dispatch assignment ride estimate calculation journal =
     \<lparr>lt_ride_request_id = ride_request, lt_dispatch_handoff_id = dispatch, lt_assignment_id = assignment,
      lt_active_ride_id = ride, lt_fare_estimate_id = estimate, lt_fare_calculation_id = calculation,
      lt_predecessor_ledger_journal_id = Some journal, lt_wallet_id = None, lt_settlement_id = None,
      lt_driver_payout_id = None, lt_rider_payment_id = None, lt_refund_id = None, lt_promotion_id = None,
      lt_referral_id = None, lt_loyalty_id = None, lt_tax_record_id = None, lt_audit_package_id = None\<rparr>"

definition payment_lineage :: "payment_db \<Rightarrow> uuid \<Rightarrow> ledger_traceability result" where
  "payment_lineage pay source_id =
     (case get_attempt pay source_id of
        None \<Rightarrow> Inl (FinancialPostingConflict ''financial_posting_lineage_missing'')
      | Some attempt \<Rightarrow>
          if pa_state attempt \<noteq> PA_CAPTURED
          then Inl (FinancialPostingConflict ''financial_posting_invalid_lineage'')
          else
            (case get_intent pay (pa_payment_intent_id attempt) of
               None \<Rightarrow> Inl (FinancialPostingConflict ''financial_posting_lineage_missing'')
             | Some intent \<Rightarrow>
                 let t = pi_traceability intent in
                 (case py_ledger_journal_id t of
                    None \<Rightarrow> Inl (FinancialPostingConflict ''financial_posting_invalid_lineage'')
                  | Some journal \<Rightarrow>
                      Inr (lineage_trace (py_ride_request_id t) (py_dispatch_handoff_id t) (py_assignment_id t)
                        (py_active_ride_id t) (py_fare_estimate_id t) (py_fare_calculation_id t) journal))))"

definition refund_lineage :: "refund_db \<Rightarrow> uuid \<Rightarrow> ledger_traceability result" where
  "refund_lineage refunds source_id =
     (case get_request refunds source_id of
        None \<Rightarrow> Inl (FinancialPostingConflict ''financial_posting_lineage_missing'')
      | Some refund \<Rightarrow>
          if rr_state refund \<notin> {RR_APPROVED, RR_SCHEDULED, RR_COMPLETED}
          then Inl (FinancialPostingConflict ''financial_posting_invalid_lineage'')
          else
            (let t = rr_traceability refund in
             Inr (lineage_trace (rt_ride_request_id t) (rt_dispatch_handoff_id t) (rt_assignment_id t)
               (rt_active_ride_id t) (rt_fare_estimate_id t) (rt_fare_calculation_id t) (rt_ledger_journal_id t))))"

definition settlement_lineage :: "settlement_db \<Rightarrow> uuid \<Rightarrow> ledger_traceability result" where
  "settlement_lineage settlements source_id =
     (case get_batch settlements source_id of
        None \<Rightarrow> Inl (FinancialPostingConflict ''financial_posting_lineage_missing'')
      | Some batch \<Rightarrow>
          if sb_state batch \<notin> {SB_BALANCED, SB_READY_FOR_SETTLEMENT, SB_RESOLVED}
          then Inl (FinancialPostingConflict ''financial_posting_invalid_lineage'')
          else
            (case list_items settlements (sb_settlement_batch_id batch) of
               [] \<Rightarrow> Inl (FinancialPostingConflict ''financial_posting_lineage_missing'')
             | first # _ \<Rightarrow>
                 let t = si_traceability first in
                 Inr (lineage_trace (rct_ride_request_id t) (rct_dispatch_handoff_id t) (rct_assignment_id t)
                   (rct_active_ride_id t) (rct_fare_estimate_id t) (rct_fare_calculation_id t)
                   (rct_ledger_journal_id t))))"

definition validate_and_resolve_lineage ::
  "payment_db \<Rightarrow> refund_db \<Rightarrow> settlement_db \<Rightarrow> posting_command \<Rightarrow> ledger_traceability result" where
  "validate_and_resolve_lineage pay refunds settlements c =
     (case pq_source_type c of
        PS_COMPLETED_PAYMENT \<Rightarrow> payment_lineage pay (pq_source_id c)
      | PS_APPROVED_REFUND \<Rightarrow> refund_lineage refunds (pq_source_id c)
      | PS_SETTLEMENT_EVENT \<Rightarrow> settlement_lineage settlements (pq_source_id c)
      | PS_WALLET_ADJUSTMENT \<Rightarrow> Inl (FinancialPostingConflict ''financial_posting_source_not_supported''))"

definition book_id_from_lines :: "ledger_db \<Rightarrow> posting_line_command list \<Rightarrow> uuid result" where
  "book_id_from_lines ledger ls =
     (case dget (ld_accounts ledger) (pl_account_id (hd ls)) of
        None \<Rightarrow> Inl (FinancialPostingConflict ''financial_posting_ledger_account_not_found'')
      | Some row \<Rightarrow>
          if \<not> list_all (\<lambda>l. dget (ld_accounts ledger) (pl_account_id l) \<noteq> None) ls
          then Inl (FinancialPostingConflict ''financial_posting_ledger_account_not_found'')
          else if \<not> list_all (\<lambda>l. map_option la_book_id (dget (ld_accounts ledger) (pl_account_id l)) =
              Some (la_book_id row)) ls
          then Inl (FinancialPostingConflict ''financial_posting_ledger_book_mismatch'')
          else Inr (la_book_id row))"

fun wallet_entry_type_for :: "posting_source_type \<Rightarrow> wallet_entry_type result" where
  "wallet_entry_type_for PS_COMPLETED_PAYMENT = Inr PENDING_CREDIT"
| "wallet_entry_type_for PS_APPROVED_REFUND = Inr AVAILABLE_DEBIT"
| "wallet_entry_type_for PS_SETTLEMENT_EVENT = Inr PENDING_RELEASE"
| "wallet_entry_type_for PS_WALLET_ADJUSTMENT =
     Inl (FinancialPostingConflict ''financial_posting_source_not_supported'')"

fun ledger_side :: "posting_side \<Rightarrow> ledger_entry_side" where
  "ledger_side PD_DEBIT = DEBIT"
| "ledger_side PD_CREDIT = CREDIT"

definition resolve_predecessor_entry ::
  "ledger_db \<Rightarrow> ledger_traceability \<Rightarrow> uuid \<Rightarrow> ledger_entry_side \<Rightarrow> uuid option result" where
  "resolve_predecessor_entry ledger trace account_id side =
     (case lt_predecessor_ledger_journal_id trace of
        None \<Rightarrow> Inr None
      | Some pid \<Rightarrow>
          bind_result (get_journal ledger pid) (\<lambda>found.
          case found of
            None \<Rightarrow> Inl (FinancialPostingConflict ''financial_posting_invalid_lineage'')
          | Some predecessor \<Rightarrow>
              (case find (\<lambda>e. le_account_id e = account_id \<and> le_side e = side) (jr_entries predecessor) of
                 None \<Rightarrow> Inl (FinancialPostingConflict ''financial_posting_invalid_lineage'')
               | Some e \<Rightarrow> Inr (Some (le_entry_id e)))))"

fun posting_entries ::
  "ledger_db \<Rightarrow> ledger_traceability \<Rightarrow> string \<Rightarrow> (int \<Rightarrow> uuid) \<Rightarrow> posting_line_command list \<Rightarrow> ledger_entry list result" where
  "posting_entries ledger trace currency draw [] = Inr []"
| "posting_entries ledger trace currency draw (l # ls) =
     bind_result (resolve_predecessor_entry ledger trace (pl_account_id l) (ledger_side (pl_side l))) (\<lambda>pid.
     bind_result (posting_entries ledger trace currency draw ls) (\<lambda>es.
     Inr (\<lparr>le_entry_id = draw (pl_line_index l), le_account_id = pl_account_id l,
       le_side = ledger_side (pl_side l), le_amount_minor = pl_amount_minor l, le_currency = currency,
       le_line_index = pl_line_index l, le_predecessor_entry_id = pid\<rparr> # es)))"

definition posting_journal ::
  "subject \<Rightarrow> posting_command \<Rightarrow> uuid \<Rightarrow> ledger_traceability \<Rightarrow> ledger_entry list \<Rightarrow> uuid \<Rightarrow> uuid \<Rightarrow> ledger_journal" where
  "posting_journal subject c book_id trace entries journal_id audit_id =
     \<lparr>jr_header = \<lparr>lj_journal_id = journal_id, lj_book_id = book_id,
        lj_business_event_type = ''financial_posting.'' @ posting_source_value (pq_source_type c),
        lj_business_event_id = pq_source_id c, lj_operation = pq_operation c,
        lj_idempotency_key = pq_idempotency_key c, lj_actor_identity_id = fst subject,
        lj_source_system = ''financial_posting_engine'', lj_reason_code = pq_reason_code c,
        lj_traceability = trace, lj_predecessor_ledger_journal_id = None, lj_effective_at = pq_occurred_at c,
        lj_recorded_at = pq_occurred_at c, lj_correlation_id = pq_correlation_id c,
        lj_causation_id = pq_causation_id c, lj_audit_reference = audit_id\<rparr>,
      jr_entries = entries\<rparr>"

definition posting_payload :: "posting_command \<Rightarrow> payload" where
  \<comment> \<open>the lines are joined to one string in the code; no part of a line holds a separator\<close>
  "posting_payload c =
     [(''source_type'', JStr (posting_source_value (pq_source_type c))), (''source_id'', JUuid (pq_source_id c)),
      (''operation'', JStr (pq_operation c)), (''reason_code'', JStr (pq_reason_code c)),
      (''currency'', JStr (pq_currency c)),
      (''lines'', JList (map (\<lambda>l. JList [JIntStr (pl_line_index l), JUuid (pl_account_id l),
         JStr (posting_side_value (pl_side l)), JIntStr (pl_amount_minor l)]) (sort_key pl_line_index (pq_lines c)))),
      (''wallet_owner_identity_id'', JUuid (pq_wallet_owner_identity_id c)),
      (''wallet_amount_minor'', JIntStr (pq_wallet_amount_minor c))]"

definition posting_wallet_env ::
  "posting_env \<Rightarrow> payment_db \<Rightarrow> refund_db \<Rightarrow> settlement_db \<Rightarrow> ledger_db \<Rightarrow> wallet_environment" where
  "posting_wallet_env env pay refunds settlements ledger =
     \<lparr>wv_has_permission = px_has_permission env, wv_identity_exists = px_identity_exists env,
      wv_get_journal = (\<lambda>k. dget (ld_journals ledger) k \<noteq> None), wv_get_attempt = (\<lambda>k. get_attempt pay k \<noteq> None),
      wv_get_request = (\<lambda>k. get_request refunds k \<noteq> None), wv_get_batch = (\<lambda>k. get_batch settlements k \<noteq> None),
      wv_digest = px_wallet_digest env\<rparr>"

definition posting_wallet_request :: "subject \<Rightarrow> posting_command \<Rightarrow> uuid \<Rightarrow> wallet_entry_type \<Rightarrow> wallet_request" where
  "posting_wallet_request subject c journal_id entry_type =
     \<lparr>wq_subject_id = fst subject, wq_subject_type = snd subject,
      wq_owner_identity_id = pq_wallet_owner_identity_id c, wq_authoritative_source_type = LEDGER_JOURNAL,
      wq_authoritative_source_id = journal_id, wq_entry_type = entry_type,
      wq_amount_minor = pq_wallet_amount_minor c,
      wq_reason_code = ''financial_posting.wallet.'' @ posting_source_value (pq_source_type c),
      wq_idempotency_key = ''wallet:'' @ pq_operation c @ '':'' @ pq_idempotency_key c,
      wq_correlation_id = pq_correlation_id c, wq_causation_id = pq_causation_id c,
      wq_at = Aware (pq_occurred_at c)\<rparr>"

definition new_financial_posting ::
  "subject \<Rightarrow> posting_command \<Rightarrow> uuid \<Rightarrow> int \<times> int \<Rightarrow> uuid \<Rightarrow> uuid \<Rightarrow> financial_posting" where
  "new_financial_posting subject c canonical totals journal_id wallet_entry_id =
     \<lparr>fp_posting_id = canonical, fp_source_type = pq_source_type c, fp_source_id = pq_source_id c,
      fp_operation = pq_operation c, fp_reason_code = pq_reason_code c, fp_state = PT_POSTED,
      fp_currency = pq_currency c, fp_total_debit_minor = fst totals, fp_total_credit_minor = snd totals,
      fp_actor_identity_id = fst subject, fp_ledger_journal_id = journal_id, fp_wallet_entry_id = wallet_entry_id,
      fp_correlation_id = pq_correlation_id c, fp_causation_id = pq_causation_id c,
      fp_created_at = pq_occurred_at c\<rparr>"

definition new_posting_lines :: "posting_command \<Rightarrow> uuid \<Rightarrow> (int \<Rightarrow> uuid) \<Rightarrow> posting_line list" where
  "new_posting_lines c canonical draw =
     map (\<lambda>l. \<lparr>pn_posting_line_id = draw (pl_line_index l), pn_posting_id = canonical,
        pn_line_index = pl_line_index l, pn_account_id = pl_account_id l, pn_side = pl_side l,
        pn_amount_minor = pl_amount_minor l, pn_currency = pq_currency c\<rparr>)
       (sort_key pl_line_index (pq_lines c))"

definition post_ledger ::
  "ledger_db \<Rightarrow> subject \<Rightarrow> posting_command \<Rightarrow> ledger_traceability \<Rightarrow> posting_draws \<Rightarrow> (ledger_db \<times> ledger_journal) result" where
  "post_ledger ledger subject c trace dw =
     bind_result (book_id_from_lines ledger (pq_lines c)) (\<lambda>book_id.
     bind_result (posting_entries ledger trace (pq_currency c) (dw_entry dw) (sort_key pl_line_index (pq_lines c)))
       (\<lambda>entries.
     bind_result (validate_entries (posting_journal subject c book_id trace entries (dw_journal dw) (dw_audit dw)))
       (\<lambda>journal.
     post_journal ledger journal)))"

definition post_wallet ::
  "posting_env \<Rightarrow> payment_db \<Rightarrow> refund_db \<Rightarrow> settlement_db \<Rightarrow> ledger_db \<Rightarrow> wallet_db \<Rightarrow> subject \<Rightarrow> posting_command \<Rightarrow>
   uuid \<Rightarrow> posting_draws \<Rightarrow> (wallet_db \<times> uuid) result" where
  \<comment> \<open>the wallet after the event, and the identifier of the last entry of the listed lineage of its account\<close>
  "post_wallet env pay refunds settlements ledger wallet subject c journal_id dw =
     bind_result (wallet_entry_type_for (pq_source_type c)) (\<lambda>entry_type.
     bind_result (consume_authoritative_event (posting_wallet_env env pay refunds settlements ledger) wallet
         (posting_wallet_request subject c journal_id entry_type) (dw_wallet_account dw) (dw_wallet_entry dw))
       (\<lambda>(wallet1, account).
     (let lineage = list_lineage wallet1 (wa_wallet_account_id account) in
      if lineage = [] then Inl (FinancialPostingConflict ''financial_posting_wallet_lineage_missing'')
      else Inr (wallet1, wl_wallet_entry_id (last lineage)))))"

definition post ::
  "posting_env \<Rightarrow> payment_db \<Rightarrow> refund_db \<Rightarrow> settlement_db \<Rightarrow> money_db \<Rightarrow> subject \<Rightarrow> posting_command \<Rightarrow> posting_draws \<Rightarrow>
   (money_db \<times> posting_result) result" where
  "post env pay refunds settlements db subject c dw =
     (if \<not> px_has_permission env (fst subject) ''financial.posting.create''
      then Inl (FinancialPostingConflict ''access_denied'')
      else if snd subject \<noteq> ID_SERVICE
      then Inl (FinancialPostingConflict ''financial_posting_service_identity_required'')
      else
        bind_result (validate_balanced_lines (pq_lines c) (Aware (pq_occurred_at c))) (\<lambda>totals.
        bind_result (validate_and_resolve_lineage pay refunds settlements c) (\<lambda>trace.
        bind_result (posting_reserve_idempotency (px_posting_digest env) (my_postings db) (fst subject)
            (pq_operation c) (pq_idempotency_key c) (posting_payload c) (dw_posting dw) (pq_occurred_at c))
          (\<lambda>(postings1, canonical).
        case get_posting postings1 canonical of
          Some existing \<Rightarrow>
            Inr (db\<lparr>my_postings := postings1\<rparr>, existing, list_lines postings1 (fp_posting_id existing))
        | None \<Rightarrow>
            bind_result (post_ledger (my_ledger db) subject c trace dw) (\<lambda>(ledger1, journal).
            bind_result (post_wallet env pay refunds settlements ledger1 (my_wallet db) subject c
                (lj_journal_id (jr_header journal)) dw) (\<lambda>(wallet1, wallet_entry_id).
            bind_result (valid_posting (new_financial_posting subject c canonical totals
                (lj_journal_id (jr_header journal)) wallet_entry_id)) (\<lambda>posting.
            let lines = new_posting_lines c canonical (dw_line dw) in
            bind_result (create_posting ledger1 wallet1 postings1 posting lines) (\<lambda>postings2.
            Inr (\<lparr>my_ledger = ledger1, my_wallet = wallet1, my_postings = postings2\<rparr>, posting, lines)))))))))"

definition posting_status :: "posting_env \<Rightarrow> money_db \<Rightarrow> subject \<Rightarrow> uuid \<Rightarrow> posting_result result" where
  "posting_status env db subject posting_id =
     (case get_posting (my_postings db) posting_id of
        None \<Rightarrow> Inl (FinancialPostingConflict ''financial_posting_not_found'')
      | Some posting \<Rightarrow>
          if \<not> px_has_permission env (fst subject) ''financial.posting.trace.read'' \<and>
             \<not> px_has_permission env (fst subject) ''support.financial_posting.read_status''
          then Inl (FinancialPostingConflict ''financial_posting_status_not_found'')
          else Inr (posting, list_lines (my_postings db) posting_id))"

end
