(* ===== verification/Financial_Posting_Inv.thy ===== *)
theory Financial_Posting_Inv
  imports Financial_Posting Settlement_World
begin

text \<open>
  What posting promises about its tables and those of the ledger and the wallet: a posting has a journal with the
  same lines that was made for its source, and a wallet entry; there is one posting per source and operation. The
  world adds the services that posting reads.
\<close>

section \<open>Lines and entries\<close>

definition line_facts :: "posting_line \<Rightarrow> int \<times> uuid \<times> ledger_entry_side \<times> int" where
  "line_facts l = (pn_line_index l, pn_account_id l, ledger_side (pn_side l), pn_amount_minor l)"

definition command_facts :: "posting_line_command \<Rightarrow> int \<times> uuid \<times> ledger_entry_side \<times> int" where
  "command_facts l = (pl_line_index l, pl_account_id l, ledger_side (pl_side l), pl_amount_minor l)"

definition entry_facts :: "ledger_entry \<Rightarrow> int \<times> uuid \<times> ledger_entry_side \<times> int" where
  "entry_facts e = (le_line_index e, le_account_id e, le_side e, le_amount_minor e)"

lemma posting_entries_facts:
  "posting_entries ledger trace cur draw ls = Inr es \<Longrightarrow> map entry_facts es = map command_facts ls"
  by (induction ls arbitrary: es) (auto simp: bind_result_eq_Inr entry_facts_def command_facts_def)

lemma ledger_side_inj [simp]: "ledger_side a = ledger_side b \<longleftrightarrow> a = b"
  by (cases a; cases b) simp_all

lemma side_total_facts:
  "map entry_facts es = map command_facts ls \<Longrightarrow> side_total (ledger_side d) es = posting_total d ls"
proof (induction ls arbitrary: es)
  case (Cons l ls)
  then obtain e fs where es: "es = e # fs" "entry_facts e = command_facts l" and
    rest: "map entry_facts fs = map command_facts ls"
    by (auto simp: map_eq_Cons_conv)
  show ?case using Cons.IH [OF rest] es by (simp add: entry_facts_def command_facts_def)
qed simp

lemma posting_total_sum: "posting_total d ls = sum_list (map (\<lambda>l. if pl_side l = d then pl_amount_minor l else 0) ls)"
  by (induction ls) auto

lemma posting_total_sorted [simp]: "posting_total d (sort_key f ls) = posting_total d ls"
proof -
  have "mset (map g (sort_key f ls)) = mset (map g ls)" for g :: "posting_line_command \<Rightarrow> int" by simp
  then show ?thesis unfolding posting_total_sum by (metis sum_mset_sum_list)
qed

lemma new_posting_lines_facts:
  "map line_facts (new_posting_lines c k draw) = map command_facts (sort_key pl_line_index (pq_lines c))"
  by (simp add: new_posting_lines_def line_facts_def command_facts_def comp_def)

lemma new_posting_lines_ids [simp]: "l \<in> set (new_posting_lines c k draw) \<Longrightarrow> pn_posting_id l = k"
  by (auto simp: new_posting_lines_def)

lemma new_posting_lines_sorted [simp]: "sort_key pn_line_index (new_posting_lines c k draw) = new_posting_lines c k draw"
  by (rule sort_key_id_if_sorted) (simp add: new_posting_lines_def comp_def)

section \<open>One run of the operation\<close>

lemma post_ledger_ok:
  assumes "post_ledger ledger s c trace dw = Inr (ledger1, j)"
  shows "validate_entries j = Inr j" and "post_journal ledger j = Inr (ledger1, j)"
    and "map entry_facts (jr_entries j) = map command_facts (sort_key pl_line_index (pq_lines c))"
    and "lj_business_event_id (jr_header j) = pq_source_id c" and "lj_operation (jr_header j) = pq_operation c"
    and "lj_journal_id (jr_header j) = dw_journal dw"
proof -
  obtain book entries where
    e: "posting_entries ledger trace (pq_currency c) (dw_entry dw) (sort_key pl_line_index (pq_lines c)) = Inr entries"
    and v: "validate_entries (posting_journal s c book trace entries (dw_journal dw) (dw_audit dw)) =
      Inr (posting_journal s c book trace entries (dw_journal dw) (dw_audit dw))"
    and p: "post_journal ledger (posting_journal s c book trace entries (dw_journal dw) (dw_audit dw)) = Inr (ledger1, j)"
    using assms unfolding post_ledger_def by (auto simp: bind_result_eq_Inr validate_entries_Inr_iff)
  have j: "j = posting_journal s c book trace entries (dw_journal dw) (dw_audit dw)"
    using post_journal_Inr(1) [OF p] .
  show "validate_entries j = Inr j" "post_journal ledger j = Inr (ledger1, j)" using v p j by simp_all
  show "map entry_facts (jr_entries j) = map command_facts (sort_key pl_line_index (pq_lines c))"
    using posting_entries_facts [OF e] by (simp add: j posting_journal_def)
  show "lj_business_event_id (jr_header j) = pq_source_id c" "lj_operation (jr_header j) = pq_operation c"
    "lj_journal_id (jr_header j) = dw_journal dw"
    by (simp_all add: j posting_journal_def)
qed

lemma post_wallet_ok:
  assumes "post_wallet env pay refunds settlements ledger wallet s c jid dw = Inr (wallet1, w)"
  obtains t q i acc where "wallet_entry_type_for (pq_source_type c) = Inr t"
    and "consume_authoritative_event (posting_wallet_env env pay refunds settlements ledger) wallet
      (posting_wallet_request s c jid t) (dw_wallet_account dw) (dw_wallet_entry dw) = Inr (wallet1, acc)"
    and "w = wl_wallet_entry_id (last (list_lineage wallet1 (wa_wallet_account_id acc)))"
  using assms unfolding post_wallet_def by (auto simp: bind_result_eq_Inr Let_def split: if_splits)

lemma valid_posting_ok: "valid_posting p = Inr q \<Longrightarrow> q = p"
  by (auto simp: valid_posting_def split: if_splits)

lemma validate_balanced_lines_ok:
  "validate_balanced_lines ls (Aware t) = Inr totals \<longleftrightarrow>
     totals = (posting_total PD_DEBIT ls, posting_total PD_CREDIT ls) \<and>
     posting_total PD_DEBIT ls = posting_total PD_CREDIT ls \<and> 0 < posting_total PD_DEBIT ls"
  by (auto simp: validate_balanced_lines_def Let_def)

lemma post_cases:
  assumes "post env pay refunds settlements db s c dw = Inr (db', res)"
  obtains (replayed) trace t k p where
      "validate_and_resolve_lineage pay refunds settlements c = Inr trace"
      "reserve_row (FinancialPostingConflict ''idempotency_conflict'') (gd_idempotency (my_postings db))
         (fst s, pq_operation c, pq_idempotency_key c) (px_posting_digest env (posting_payload c)) (dw_posting dw)
         (pq_occurred_at c) = Inr (t, k)"
      "dget (gd_postings (my_postings db)) k = Some p"
      "db' = db\<lparr>my_postings := (my_postings db)\<lparr>gd_idempotency := t\<rparr>\<rparr>"
      "res = (p, list_lines (my_postings db) (fp_posting_id p))"
  | (posted) totals trace t k ledger1 j wallet1 w postings2 where
      "validate_balanced_lines (pq_lines c) (Aware (pq_occurred_at c)) = Inr totals"
      "validate_and_resolve_lineage pay refunds settlements c = Inr trace"
      "reserve_row (FinancialPostingConflict ''idempotency_conflict'') (gd_idempotency (my_postings db))
         (fst s, pq_operation c, pq_idempotency_key c) (px_posting_digest env (posting_payload c)) (dw_posting dw)
         (pq_occurred_at c) = Inr (t, k)"
      "dget (gd_postings (my_postings db)) k = None"
      "post_ledger (my_ledger db) s c trace dw = Inr (ledger1, j)"
      "post_wallet env pay refunds settlements ledger1 (my_wallet db) s c (lj_journal_id (jr_header j)) dw = Inr (wallet1, w)"
      "create_posting ledger1 wallet1 ((my_postings db)\<lparr>gd_idempotency := t\<rparr>)
         (new_financial_posting s c k totals (lj_journal_id (jr_header j)) w) (new_posting_lines c k (dw_line dw)) = Inr postings2"
      "db' = \<lparr>my_ledger = ledger1, my_wallet = wallet1, my_postings = postings2\<rparr>"
      "res = (new_financial_posting s c k totals (lj_journal_id (jr_header j)) w, new_posting_lines c k (dw_line dw))"
  using assms unfolding post_def posting_reserve_idempotency_def get_posting_def
  apply (elim ok_elims)
  subgoal premises prems for totals trace _ _ _ _ t k _ ledger1 j _ wallet1 w p postings2
    using prems(3-) valid_posting_ok [of _ p]
    by (intro prems(2) [of totals trace t k ledger1 j wallet1 w postings2]) auto
  subgoal premises prems for totals trace _ _ _ _ t k p
    using prems(3-) by (intro prems(1) [of trace t k p]) (auto simp: list_lines_def)
  done

lemma create_posting_ok:
  assumes "create_posting ledger wallet db p ls = Inr db'"
  shows "dget (gd_postings db) (fp_posting_id p) = None"
    and "gd_postings db' = dset (fp_posting_id p) p (gd_postings db)" and "gd_lines db' = gd_lines db @ ls"
    and "gd_idempotency db' = gd_idempotency db"
    and "dget (wd_lineage wallet) (fp_wallet_entry_id p) \<noteq> None"
    and "\<forall>q \<in> set (dvalues (gd_postings db)). fp_ledger_journal_id q \<noteq> fp_ledger_journal_id p \<and>
      fp_wallet_entry_id q \<noteq> fp_wallet_entry_id p \<and> \<not> same_source p q"
  using assms by (auto simp: create_posting_def list_ex_iff split: if_splits)

section \<open>The invariant\<close>

definition posting_ok :: "ledger_db \<Rightarrow> wallet_db \<Rightarrow> posting_db \<Rightarrow> financial_posting \<Rightarrow> bool" where
  "posting_ok ledger wallet db p \<longleftrightarrow>
     (\<exists>h. dget (ld_journals ledger) (fp_ledger_journal_id p) = Some h \<and> lj_business_event_id h = fp_source_id p \<and>
        lj_operation h = fp_operation p) \<and>
     map line_facts (list_lines db (fp_posting_id p)) = map entry_facts (journal_rows ledger (fp_ledger_journal_id p)) \<and>
     side_total DEBIT (journal_rows ledger (fp_ledger_journal_id p)) = fp_total_debit_minor p \<and>
     side_total CREDIT (journal_rows ledger (fp_ledger_journal_id p)) = fp_total_credit_minor p \<and>
     fp_total_debit_minor p = fp_total_credit_minor p \<and> 0 < fp_total_debit_minor p \<and>
     dget (wd_lineage wallet) (fp_wallet_entry_id p) \<noteq> None"

definition posting_rows_ok :: "posting_db \<Rightarrow> bool" where
  "posting_rows_ok db \<longleftrightarrow> dict_ok (gd_postings db) \<and>
     (\<forall>k p. dget (gd_postings db) k = Some p \<longrightarrow> fp_posting_id p = k) \<and>
     (\<forall>l \<in> set (gd_lines db). dget (gd_postings db) (pn_posting_id l) \<noteq> None) \<and>
     distinct (map fp_ledger_journal_id (dvalues (gd_postings db))) \<and>
     distinct (map fp_wallet_entry_id (dvalues (gd_postings db))) \<and>
     (\<forall>p q. p \<in> set (dvalues (gd_postings db)) \<longrightarrow> q \<in> set (dvalues (gd_postings db)) \<longrightarrow> same_source p q \<longrightarrow> p = q)"

definition posting_inv :: "money_db \<Rightarrow> bool" where
  "posting_inv m \<longleftrightarrow> ledger_inv (my_ledger m) \<and> wallet_inv (my_wallet m) \<and> posting_rows_ok (my_postings m) \<and>
     (\<forall>k p. dget (gd_postings (my_postings m)) k = Some p \<longrightarrow>
        posting_ok (my_ledger m) (my_wallet m) (my_postings m) p)"

lemma posting_invD:
  assumes "posting_inv m"
  shows "ledger_inv (my_ledger m)" and "wallet_inv (my_wallet m)" and "posting_rows_ok (my_postings m)"
    and "dget (gd_postings (my_postings m)) k = Some p \<Longrightarrow>
      fp_posting_id p = k \<and> posting_ok (my_ledger m) (my_wallet m) (my_postings m) p"
  using assms unfolding posting_inv_def posting_rows_ok_def by blast+

lemma same_source_sym: "same_source p q \<longleftrightarrow> same_source q p"
  by (auto simp: same_source_def)

lemma posting_rows_ok_insert:
  assumes ok: "posting_rows_ok db" and new: "create_posting ledger wallet (db\<lparr>gd_idempotency := t\<rparr>) p ls = Inr db'"
    and ids: "\<And>l. l \<in> set ls \<Longrightarrow> pn_posting_id l = fp_posting_id p"
  shows "posting_rows_ok db'"
    and "l \<noteq> fp_posting_id p \<Longrightarrow> list_lines db' l = list_lines db l"
    and "list_lines db' (fp_posting_id p) = sort_key pn_line_index ls"
proof -
  note c = create_posting_ok [OF new, simplified]
  have rows: "dvalues (gd_postings db') = dvalues (gd_postings db) @ [p]" using c(1,2) by (simp add: dvalues_dset_new)
  have old: "x \<in> set (dvalues (gd_postings db)) \<Longrightarrow> fp_ledger_journal_id x \<noteq> fp_ledger_journal_id p \<and>
      fp_wallet_entry_id x \<noteq> fp_wallet_entry_id p \<and> \<not> same_source p x \<and> \<not> same_source x p" for x
    using c(6) same_source_sym by blast
  show "posting_rows_ok db'"
    unfolding posting_rows_ok_def
  proof (intro conjI allI impI ballI)
    show "dict_ok (gd_postings db')" using ok by (simp add: posting_rows_ok_def c(2))
    show "fp_posting_id q = k" if "dget (gd_postings db') k = Some q" for k q
      using ok that by (auto simp: posting_rows_ok_def c(2) split: if_splits)
    show "dget (gd_postings db') (pn_posting_id l) \<noteq> None" if "l \<in> set (gd_lines db')" for l
      using ok that ids by (auto simp: posting_rows_ok_def c(2,3))
    have "fp_ledger_journal_id p \<notin> fp_ledger_journal_id ` set (dvalues (gd_postings db))"
      "fp_wallet_entry_id p \<notin> fp_wallet_entry_id ` set (dvalues (gd_postings db))" using old by fastforce+
    then show "distinct (map fp_ledger_journal_id (dvalues (gd_postings db')))"
      "distinct (map fp_wallet_entry_id (dvalues (gd_postings db')))"
      using ok unfolding posting_rows_ok_def rows by simp_all
    show "x = y" if "x \<in> set (dvalues (gd_postings db'))" "y \<in> set (dvalues (gd_postings db'))" "same_source x y" for x y
      using ok old that unfolding posting_rows_ok_def rows by auto
  qed
  show "list_lines db' l = list_lines db l" if "l \<noteq> fp_posting_id p"
  proof -
    have "filter (\<lambda>x. pn_posting_id x = l) ls = []" using ids that by (auto simp: filter_empty_conv)
    then show ?thesis by (simp add: list_lines_def c(3))
  qed
  have "filter (\<lambda>x. pn_posting_id x = fp_posting_id p) (gd_lines db) = []"
    using ok c(1) unfolding posting_rows_ok_def by (auto simp: filter_empty_conv)
  moreover have "filter (\<lambda>x. pn_posting_id x = fp_posting_id p) ls = ls" using ids by (auto simp: filter_id_conv)
  ultimately show "list_lines db' (fp_posting_id p) = sort_key pn_line_index ls" by (simp add: list_lines_def c(3))
qed

section \<open>Ledger and wallet move on\<close>

definition money_grows :: "ledger_db \<Rightarrow> wallet_db \<Rightarrow> ledger_db \<Rightarrow> wallet_db \<Rightarrow> bool" where
  "money_grows ledger wallet ledger' wallet' \<longleftrightarrow>
     (\<forall>k h. dget (ld_journals ledger) k = Some h \<longrightarrow>
        dget (ld_journals ledger') k = Some h \<and> journal_rows ledger' k = journal_rows ledger k) \<and>
     (\<forall>k e. dget (wd_lineage wallet) k = Some e \<longrightarrow> dget (wd_lineage wallet') k = Some e)"

lemma posting_ok_grows:
  assumes "posting_ok ledger wallet db p" and "money_grows ledger wallet ledger' wallet'"
    and "list_lines db' (fp_posting_id p) = list_lines db (fp_posting_id p)"
  shows "posting_ok ledger' wallet' db' p"
  using assms unfolding posting_ok_def money_grows_def by fastforce

lemma ledger_grows:
  assumes "post_journal ledger j = Inr (ledger', j')" and "ledger_inv ledger"
  shows "money_grows ledger wallet ledger' wallet"
  using post_journal_Inr(2,3) [OF assms(1)] journal_rows_post [OF assms]
  unfolding money_grows_def by auto

lemma wallet_lineage_grows:
  assumes "consume_authoritative_event env db q i k = Inr (db', acc)" and "wallet_inv db"
    and "dget (wd_lineage db) l = Some e"
  shows "dget (wd_lineage db') l = Some e"
  using assms(1,2)
proof (cases rule: consume_cases)
  case (replayed db1 a1 t canonical e')
  then show ?thesis using get_or_create_account_inv(3) [OF replayed(1) assms(2)] assms(3) by simp
next
  case (appended db1 a1 t canonical na np)
  then show ?thesis
    using get_or_create_account_inv(3) [OF appended(1) assms(2)] append_lineage_entry_accounts [OF appended(6)] assms(3)
    by (auto simp: lineage_entry_of_def)
qed

lemma money_grows_trans:
  "money_grows a b c d \<Longrightarrow> money_grows c d e f \<Longrightarrow> money_grows a b e f"
  unfolding money_grows_def by fastforce

lemma wallet_grows:
  assumes "consume_authoritative_event env db q i k = Inr (db', acc)" and "wallet_inv db"
  shows "money_grows ledger db ledger db'"
  using wallet_lineage_grows [OF assms] unfolding money_grows_def by blast

lemma posting_inv_grows:
  assumes "posting_inv m" and "money_grows (my_ledger m) (my_wallet m) l' w'" and "ledger_inv l'" and "wallet_inv w'"
  shows "posting_inv (m\<lparr>my_ledger := l', my_wallet := w'\<rparr>)"
  using posting_invD [OF assms(1)] assms(2-4) posting_ok_grows unfolding posting_inv_def by fastforce

lemma posting_rows_ok_idempotency [simp]: "posting_rows_ok (db\<lparr>gd_idempotency := t\<rparr>) = posting_rows_ok db"
  by (simp add: posting_rows_ok_def)

lemma posting_ok_idempotency [simp]: "posting_ok l w (db\<lparr>gd_idempotency := t\<rparr>) = posting_ok l w db"
  by (simp add: fun_eq_iff posting_ok_def list_lines_def)

lemma posting_inv_kept:
  assumes inv: "posting_inv m" and run: "post env pay refunds settlements m s c dw = Inr (m', res)"
  shows "posting_inv m'"
  using run
proof (cases rule: post_cases)
  case (replayed trace t k p)
  then show ?thesis using inv by (simp add: posting_inv_def)
next
  case (posted totals trace t k ledger1 j wallet1 w postings2)
  let ?p = "new_financial_posting s c k totals (lj_journal_id (jr_header j)) w"
  let ?ls = "new_posting_lines c k (dw_line dw)"
  note i = posting_invD [OF inv] and j = post_ledger_ok [OF posted(5)]
  have p: "fp_posting_id ?p = k" "fp_ledger_journal_id ?p = dw_journal dw" "fp_wallet_entry_id ?p = w"
    "fp_source_id ?p = pq_source_id c" "fp_operation ?p = pq_operation c" "fp_total_debit_minor ?p = fst totals"
    "fp_total_credit_minor ?p = snd totals" by (simp_all add: new_financial_posting_def j(6))
  obtain q fr ca acc env' where wal: "consume_authoritative_event env' (my_wallet m) q fr ca = Inr (wallet1, acc)"
    using post_wallet_ok [OF posted(6)] by metis
  have l1: "ledger_inv ledger1" and w1: "wallet_inv wallet1"
    using post_journal_inv [OF j(2) i(1) j(1)] consume_inv [OF wal i(2)] by blast+
  have grows: "money_grows (my_ledger m) (my_wallet m) ledger1 wallet1"
    using money_grows_trans [OF ledger_grows [OF j(2) i(1)] wallet_grows [OF wal i(2)]] .
  note c = create_posting_ok [OF posted(7), simplified p, simplified]
  have ids: "pn_posting_id l = fp_posting_id ?p" if "l \<in> set ?ls" for l using that by (simp add: p)
  note lines = posting_rows_ok_insert [OF i(3) posted(7) ids, unfolded p]
  have rows: "journal_rows ledger1 (dw_journal dw) = jr_entries j"
  proof -
    have "map le_line_index (jr_entries j) = map fst (map entry_facts (jr_entries j))"
      by (simp add: entry_facts_def comp_def)
    also have "\<dots> = map pl_line_index (sort_key pl_line_index (pq_lines c))"
      unfolding j(3) by (simp add: command_facts_def comp_def)
    finally have "sorted (map le_line_index (jr_entries j))" by simp
    then show ?thesis using journal_rows_post [OF j(2) i(1), of "dw_journal dw"] j(6) by (simp add: sort_key_id_if_sorted)
  qed
  have facts: "map line_facts (list_lines postings2 k) = map command_facts (sort_key pl_line_index (pq_lines c))"
    using lines(3) by (simp add: new_posting_lines_facts)
  have "posting_ok ledger1 wallet1 postings2 ?p"
    unfolding posting_ok_def p rows facts
    using post_journal_Inr(3) [OF j(2)] j(3-6) c(5) side_total_facts [OF j(3), of PD_DEBIT]
      side_total_facts [OF j(3), of PD_CREDIT] posted(1)
    by (auto simp: validate_balanced_lines_ok)
  moreover have "posting_ok ledger1 wallet1 postings2 x" if "dget (gd_postings (my_postings m)) l = Some x" "l \<noteq> k" for l x
    using i(4) [OF that(1)] posting_ok_grows [OF _ grows] lines(2) that(2) by blast
  ultimately have "posting_ok ledger1 wallet1 postings2 x" if "dget (gd_postings postings2) l = Some x" for l x
    using that c(2) by (auto split: if_splits)
  then show ?thesis using l1 w1 lines(1) posted(8) unfolding posting_inv_def by simp
qed

end
