(* ===== verification/Financial_Posting_World.thy ===== *)
theory Financial_Posting_World
  imports Financial_Posting_Inv
begin

text \<open>
  Posting beside the services it reads and writes: payments, refunds, holds and settlements move on, other journals
  and wallet events arrive, and postings are made, in any order.
\<close>

section \<open>The composed system\<close>

record posting_world =
  pw_finance :: finance_world
  pw_money :: money_db

inductive posting_step :: "posting_world \<Rightarrow> posting_world \<Rightarrow> bool" where
  sources: "world_step (pw_finance w) f' \<Longrightarrow> posting_step w (w\<lparr>pw_finance := f'\<rparr>)"
| posting: "post env (fw_payments (pw_finance w)) (fw_refunds (pw_finance w)) (fw_settlements (pw_finance w)) (pw_money w)
      s c dw = Inr (m', res) \<Longrightarrow>
    posting_step w (w\<lparr>pw_money := m'\<rparr>)"
| journal: "validate_entries j = Inr j \<Longrightarrow> post_journal (my_ledger (pw_money w)) j = Inr (l', j') \<Longrightarrow>
    posting_step w (w\<lparr>pw_money := (pw_money w)\<lparr>my_ledger := l'\<rparr>\<rparr>)"
| accounts: "\<forall>k a. dget (ld_accounts (my_ledger (pw_money w))) k = Some a \<longrightarrow> dget (ld_accounts l') k = Some a \<Longrightarrow>
    ld_journals l' = ld_journals (my_ledger (pw_money w)) \<Longrightarrow> ld_entries l' = ld_entries (my_ledger (pw_money w)) \<Longrightarrow>
    posting_step w (w\<lparr>pw_money := (pw_money w)\<lparr>my_ledger := l'\<rparr>\<rparr>)"
| wallet: "consume_authoritative_event env (my_wallet (pw_money w)) q fresh cand = Inr (v', acc) \<Longrightarrow>
    posting_step w (w\<lparr>pw_money := (pw_money w)\<lparr>my_wallet := v'\<rparr>\<rparr>)"

text \<open>The start: no source, no journal, no wallet and no posting; the ledger's books and accounts are given.\<close>

definition empty_postings :: posting_db where
  "empty_postings = \<lparr>gd_postings = [], gd_lines = [], gd_idempotency = [], gd_events = [], gd_outbox = []\<rparr>"

definition posting_start :: "posting_world \<Rightarrow> bool" where
  "posting_start w \<longleftrightarrow> pw_finance w = empty_world \<and> ld_journals (my_ledger (pw_money w)) = [] \<and>
     ld_entries (my_ledger (pw_money w)) = [] \<and> my_wallet (pw_money w) = empty_wallet_db \<and>
     my_postings (pw_money w) = empty_postings"

definition posting_reachable :: "posting_world \<Rightarrow> bool" where
  "posting_reachable w \<longleftrightarrow> (\<exists>v. posting_start v \<and> posting_step\<^sup>*\<^sup>* v w)"

section \<open>What a source is\<close>

definition source_ready :: "finance_world \<Rightarrow> posting_source_type \<Rightarrow> uuid \<Rightarrow> bool" where
  "source_ready f ty k =
     (case ty of
        PS_COMPLETED_PAYMENT \<Rightarrow> (\<exists>a i. dget (pd_attempts (fw_payments f)) k = Some a \<and> pa_state a = PA_CAPTURED \<and>
          dget (pd_intents (fw_payments f)) (pa_payment_intent_id a) = Some i \<and>
          py_ledger_journal_id (pi_traceability i) \<noteq> None)
      | PS_APPROVED_REFUND \<Rightarrow> (\<exists>r. dget (rf_requests (fw_refunds f)) k = Some r \<and>
          rr_state r \<in> {RR_APPROVED, RR_SCHEDULED, RR_COMPLETED})
      | PS_SETTLEMENT_EVENT \<Rightarrow> (\<exists>b. dget (sd_batches (fw_settlements f)) k = Some b \<and>
          sb_state b \<in> {SB_BALANCED, SB_READY_FOR_SETTLEMENT, SB_RESOLVED} \<and>
          list_items (fw_settlements f) (sb_settlement_batch_id b) \<noteq> [])
      | PS_WALLET_ADJUSTMENT \<Rightarrow> False)"

lemma lineage_iff:
  "(\<exists>t. validate_and_resolve_lineage (fw_payments f) (fw_refunds f) (fw_settlements f) c = Inr t) \<longleftrightarrow>
     source_ready f (pq_source_type c) (pq_source_id c)"
  by (cases "pq_source_type c")
    (auto simp: validate_and_resolve_lineage_def source_ready_def payment_lineage_def refund_lineage_def
      settlement_lineage_def get_attempt_def get_intent_def get_request_def get_batch_def Let_def
      split: option.splits if_splits list.splits)

lemma leads_to_closed:
  "leads_to table s t \<Longrightarrow> s \<in> A \<Longrightarrow> (\<And>u. u \<in> A \<Longrightarrow> set (table u) \<subseteq> A) \<Longrightarrow> t \<in> A"
  by (induction rule: leads_to.induct) (auto simp: allows_def)

lemma settlement_effect_keeps_source:
  assumes "settlement_effect pay refunds holds s s'" and "dget (sd_batches s) k = Some b"
    and "sb_state b \<in> {SB_BALANCED, SB_READY_FOR_SETTLEMENT, SB_RESOLVED}" and "has_item s l"
  shows "(\<exists>b'. dget (sd_batches s') k = Some b' \<and>
      sb_settlement_batch_id b' = sb_settlement_batch_id b \<and>
      sb_state b' \<in> {SB_BALANCED, SB_READY_FOR_SETTLEMENT, SB_RESOLVED}) \<and> has_item s' l"
  using assms by cases (auto simp: has_item_def settlement_rows_def same_batch_def batch_move_def)

lemma source_ready_step:
  assumes ready: "source_ready f ty k" and step: "world_step f f'" and reach: "world_reachable f"
  shows "source_ready f' ty k"
  using step
proof (cases rule: world_step.cases)
  case (finance pay' refunds')
  then consider (pay) "payment_step (fw_payments f) pay'" "refunds' = fw_refunds f"
    | (refund) "refund_step (fw_payments f) (fw_refunds f) refunds'" "pay' = fw_payments f"
    by (auto elim: finance_stepE)
  then show ?thesis
  proof cases
    case pay
    show ?thesis
    proof (cases ty)
      case PS_COMPLETED_PAYMENT
      then obtain a i where a: "dget (pd_attempts (fw_payments f)) k = Some a" "pa_state a = PA_CAPTURED"
          and i: "dget (pd_intents (fw_payments f)) (pa_payment_intent_id a) = Some i"
            "py_ledger_journal_id (pi_traceability i) \<noteq> None"
        using ready by (auto simp: source_ready_def)
      obtain b where b: "dget (pd_attempts pay') k = Some b" "attempt_follows a b"
        using payment_step_follows [OF pay(1) a(1)] by blast
      obtain j where j: "dget (pd_intents pay') (pa_payment_intent_id a) = Some j" "intent_follows i j"
        using payment_step_intents [OF pay(1) i(1)] by blast
      have "pa_state b = PA_CAPTURED"
        using b(2) a(2) payment_attempt.terminal_absorbing [of "pa_state a" "pa_state b"]
        by (auto simp: attempt_follows_def attempt_is_terminal_def)
      then show ?thesis
        using b j i(2) PS_COMPLETED_PAYMENT finance
        by (auto simp: source_ready_def attempt_follows_def intent_follows_def)
    qed (use ready finance pay in \<open>auto simp: source_ready_def\<close>)
  next
    case refund
    show ?thesis
    proof (cases ty)
      case PS_APPROVED_REFUND
      then obtain r where r: "dget (rf_requests (fw_refunds f)) k = Some r"
          "rr_state r \<in> {RR_APPROVED, RR_SCHEDULED, RR_COMPLETED}" using ready by (auto simp: source_ready_def)
      obtain q where q: "dget (rf_requests refunds') k = Some q" "refund_follows r q"
        using refund_step_follows [OF refund(1)] r(1) unfolding refunds_follow_def by blast
      have "rr_state q \<in> {RR_APPROVED, RR_SCHEDULED, RR_COMPLETED}"
        by (rule leads_to_closed [of ALLOWED_REQUEST_TRANSITIONS "rr_state r"])
          (use q(2) r(2) in \<open>auto simp: refund_follows_def\<close>)
      then show ?thesis using q PS_APPROVED_REFUND finance by (auto simp: source_ready_def)
    qed (use ready finance refund in \<open>auto simp: source_ready_def\<close>)
  qed
next
  case (holding wallets postings identities holds')
  then show ?thesis using ready by (cases ty) (auto simp: source_ready_def)
next
  case (settling settlements')
  show ?thesis
  proof (cases ty)
    case PS_SETTLEMENT_EVENT
    then obtain b where b: "dget (sd_batches (fw_settlements f)) k = Some b"
        "sb_state b \<in> {SB_BALANCED, SB_READY_FOR_SETTLEMENT, SB_RESOLVED}"
        "has_item (fw_settlements f) (sb_settlement_batch_id b)"
      using ready by (auto simp: source_ready_def list_items_Nil)
    have "settlement_effect (fw_payments f) (fw_refunds f) (fw_holds f) (fw_settlements f) settlements'"
      using settlement_step_effect [OF settling(2)] world_reachable_inv(1) [OF reach] finance_reachable_inv(2) by blast
    from settlement_effect_keeps_source [OF this b] show ?thesis
      using PS_SETTLEMENT_EVENT settling by (auto simp: source_ready_def list_items_Nil)
  qed (use ready settling in \<open>auto simp: source_ready_def\<close>)
qed

section \<open>What holds in every reachable world\<close>

text \<open>What a successful call leaves: its idempotency row, pointing at the posting it returned.\<close>

definition posting_recorded :: "posting_env \<Rightarrow> money_db \<Rightarrow> subject \<Rightarrow> posting_command \<Rightarrow> posting_result \<Rightarrow> bool" where
  "posting_recorded env m s c res \<longleftrightarrow>
     (\<exists>row. dget (gd_idempotency (my_postings m)) (fst s, pq_operation c, pq_idempotency_key c) = Some row \<and>
        ir_request_hash row = px_posting_digest env (posting_payload c) \<and>
        dget (gd_postings (my_postings m)) (ir_response_reference row) = Some (fst res) \<and>
        fp_posting_id (fst res) = ir_response_reference row \<and>
        snd res = list_lines (my_postings m) (ir_response_reference row))"

lemmas reserve_row_after = shared_table.reserved_row shared_table.rows_survive

lemma post_recorded:
  assumes "posting_inv m" and "post env pay refunds settlements m s c dw = Inr (m', res)"
  shows "posting_recorded env m' s c res"
  using assms(2)
proof (cases rule: post_cases)
  case (replayed trace t k p)
  then show ?thesis
    using reserve_row_after(1) [OF replayed(2)] posting_invD(4) [OF assms(1)]
    by (auto simp: posting_recorded_def list_lines_def)
next
  case (posted totals trace t k ledger1 j wallet1 w postings2)
  let ?p = "new_financial_posting s c k totals (lj_journal_id (jr_header j)) w"
  have p: "fp_posting_id ?p = k" by (simp add: new_financial_posting_def)
  have ids: "pn_posting_id l = fp_posting_id ?p" if "l \<in> set (new_posting_lines c k (dw_line dw))" for l
    using that by (simp add: p)
  show ?thesis
    using reserve_row_after(1) [OF posted(3)] posted(8,9) create_posting_ok [OF posted(7)]
      posting_rows_ok_insert(3) [OF posting_invD(3) [OF assms(1)] posted(7) ids]
    by (auto simp: posting_recorded_def p)
qed

lemma posting_recorded_stays:
  assumes "posting_inv m" and "posting_recorded env m s c res"
    and "post env' pay refunds settlements m s' c' dw = Inr (m', res')"
  shows "posting_recorded env m' s c res"
  using assms(3)
proof (cases rule: post_cases)
  case (replayed trace t k p)
  then show ?thesis using assms(2) reserve_row_after(2) [OF replayed(2)] by (auto simp: posting_recorded_def list_lines_def)
next
  case (posted totals trace t k ledger1 j wallet1 w postings2)
  let ?p = "new_financial_posting s' c' k totals (lj_journal_id (jr_header j)) w"
  have p: "fp_posting_id ?p = k" by (simp add: new_financial_posting_def)
  have ids: "pn_posting_id l = fp_posting_id ?p" if "l \<in> set (new_posting_lines c' k (dw_line dw))" for l
    using that by (simp add: p)
  obtain row where row: "dget (gd_idempotency (my_postings m)) (fst s, pq_operation c, pq_idempotency_key c) = Some row"
      "ir_request_hash row = px_posting_digest env (posting_payload c)"
      "dget (gd_postings (my_postings m)) (ir_response_reference row) = Some (fst res)"
      "fp_posting_id (fst res) = ir_response_reference row"
      "snd res = list_lines (my_postings m) (ir_response_reference row)"
    using assms(2) unfolding posting_recorded_def by blast
  have "ir_response_reference row \<noteq> k" using row(3) posted(4) by auto
  then show ?thesis
    using row reserve_row_after(2) [OF posted(3) row(1)] posted(8) create_posting_ok [OF posted(7)]
      posting_rows_ok_insert(2) [OF posting_invD(3) [OF assms(1)] posted(7) ids, of "ir_response_reference row"]
    by (auto simp: posting_recorded_def p)
qed

definition posting_world_inv :: "posting_world \<Rightarrow> bool" where
  "posting_world_inv w \<longleftrightarrow> world_reachable (pw_finance w) \<and> posting_inv (pw_money w) \<and>
     (\<forall>k p. dget (gd_postings (my_postings (pw_money w))) k = Some p \<longrightarrow>
        source_ready (pw_finance w) (fp_source_type p) (fp_source_id p))"

lemma posted_source_ready:
  assumes "post env (fw_payments f) (fw_refunds f) (fw_settlements f) m s c dw = Inr (m', res)"
    and "dget (gd_postings (my_postings m')) k = Some p"
  shows "dget (gd_postings (my_postings m)) k = Some p \<or> source_ready f (fp_source_type p) (fp_source_id p)"
  using assms(1)
proof (cases rule: post_cases)
  case (replayed trace t l q)
  then show ?thesis using assms(2) by simp
next
  case (posted totals trace t l ledger1 j wallet1 w postings2)
  then show ?thesis
    using assms(2) create_posting_ok(2) [OF posted(7)] lineage_iff [of f c]
    by (auto simp: new_financial_posting_def split: if_splits)
qed

lemma posting_step_inv:
  assumes "posting_step w w'" and "posting_world_inv w"
  shows "posting_world_inv w'"
  using assms
proof (induction rule: posting_step.induct)
  case (sources w f')
  then show ?case
    unfolding posting_world_inv_def by (auto intro: rtranclp.rtrancl_into_rtrancl source_ready_step)
next
  case (posting env w s c dw m' res)
  then show ?case
    using posted_source_ready [OF posting.hyps] posting_inv_kept [OF _ posting.hyps] unfolding posting_world_inv_def by auto
next
  case (journal j w l' j')
  then have inv: "posting_inv (pw_money w)" by (simp add: posting_world_inv_def)
  have "posting_inv ((pw_money w)\<lparr>my_ledger := l', my_wallet := my_wallet (pw_money w)\<rparr>)"
    by (rule posting_inv_grows [OF inv])
      (use journal.hyps posting_invD(1,2) [OF inv] ledger_grows post_journal_inv in blast)+
  then show ?case using journal.prems by (simp add: posting_world_inv_def)
next
  case (accounts w l')
  then have inv: "posting_inv (pw_money w)" by (simp add: posting_world_inv_def)
  have rows: "journal_rows l' = journal_rows (my_ledger (pw_money w))"
    using accounts.hyps by (simp add: fun_eq_iff journal_rows_def)
  have "posting_inv ((pw_money w)\<lparr>my_ledger := l', my_wallet := my_wallet (pw_money w)\<rparr>)"
    by (rule posting_inv_grows [OF inv])
      (use accounts.hyps posting_invD(1,2) [OF inv] rows in \<open>auto simp: money_grows_def intro: ledger_inv_cong\<close>)
  then show ?case using accounts.prems by (simp add: posting_world_inv_def)
next
  case (wallet env w q fresh cand v' acc)
  then have inv: "posting_inv (pw_money w)" by (simp add: posting_world_inv_def)
  have "posting_inv ((pw_money w)\<lparr>my_ledger := my_ledger (pw_money w), my_wallet := v'\<rparr>)"
    by (rule posting_inv_grows [OF inv])
      (use wallet.hyps posting_invD(1,2) [OF inv] wallet_grows consume_inv in blast)+
  then show ?case using wallet.prems by (simp add: posting_world_inv_def)
qed

lemma posting_start_inv: "posting_start w \<Longrightarrow> posting_world_inv w"
  unfolding posting_start_def posting_world_inv_def posting_inv_def
  by (simp add: wallet_inv_empty ledger_inv_def ledger_lines_def dvalues_def posting_rows_ok_def empty_postings_def)

lemma posting_reachable_inv: "posting_reachable w \<Longrightarrow> posting_world_inv w"
  unfolding posting_reachable_def
proof (elim exE conjE)
  fix v assume "posting_start v" and "posting_step\<^sup>*\<^sup>* v w"
  from this(2,1) show ?thesis
    by (induction rule: rtranclp_induct) (auto intro: posting_start_inv posting_step_inv)
qed

lemma recorded_step:
  assumes "posting_step w w'" and "posting_world_inv w" and "posting_recorded env (pw_money w) s c res"
    and "source_ready (pw_finance w) ty k"
  shows "posting_recorded env (pw_money w') s c res \<and> source_ready (pw_finance w') ty k"
  using assms
proof (induction rule: posting_step.induct)
  case (sources w f')
  then show ?case by (auto simp: posting_world_inv_def intro: source_ready_step)
next
  case (posting env' w s' c' dw m' res')
  then show ?case using posting_recorded_stays [OF _ _ posting.hyps] by (simp add: posting_world_inv_def)
qed (simp_all add: posting_recorded_def)

lemma recorded_steps:
  assumes "posting_step\<^sup>*\<^sup>* w w'" and "posting_world_inv w" and "posting_recorded env (pw_money w) s c res"
    and "source_ready (pw_finance w) ty k"
  shows "posting_recorded env (pw_money w') s c res \<and> source_ready (pw_finance w') ty k \<and> posting_world_inv w'"
  using assms by (induction rule: rtranclp_induct) (auto intro: posting_step_inv dest: recorded_step)

lemma recorded_replays:
  assumes "posting_recorded env m s c res" and "px_has_permission env (fst s) ''financial.posting.create''"
    and "snd s = ID_SERVICE" and "\<exists>t. validate_balanced_lines (pq_lines c) (Aware (pq_occurred_at c)) = Inr t"
    and "source_ready f (pq_source_type c) (pq_source_id c)"
  shows "post env (fw_payments f) (fw_refunds f) (fw_settlements f) m s c dw = Inr (m, res)"
proof -
  obtain totals where totals: "validate_balanced_lines (pq_lines c) (Aware (pq_occurred_at c)) = Inr totals"
    using assms(4) by blast
  obtain trace where trace: "validate_and_resolve_lineage (fw_payments f) (fw_refunds f) (fw_settlements f) c = Inr trace"
    using assms(5) lineage_iff by blast
  show ?thesis
    using assms(1) assms(2,3) totals trace
    by (cases res)
      (auto simp: posting_recorded_def post_def posting_reserve_idempotency_def reserve_row_def get_posting_def
        list_lines_def)
qed

lemma posting_rows_apart:
  assumes "posting_rows_ok db" and "dget (gd_postings db) k = Some p" and "dget (gd_postings db) l = Some q"
    and "l \<noteq> k"
  shows "fp_ledger_journal_id q \<noteq> fp_ledger_journal_id p \<and> fp_wallet_entry_id q \<noteq> fp_wallet_entry_id p \<and>
    \<not> same_source p q"
proof -
  have ids: "fp_posting_id p = k" "fp_posting_id q = l" using assms unfolding posting_rows_ok_def by blast+
  then have "p \<noteq> q" using assms(4) by auto
  moreover have "p \<in> set (dvalues (gd_postings db))" "q \<in> set (dvalues (gd_postings db))"
    using assms(1-3) by (auto simp: posting_rows_ok_def in_dvalues_iff)
  ultimately show ?thesis
    using assms(1) unfolding posting_rows_ok_def distinct_map inj_on_def by metis
qed

end
