(* ===== verification/Financial_Posting_Props.thy ===== *)
theory Financial_Posting_Props
  imports Financial_Posting_World
begin

text \<open>
  The properties of posting, over every interleaving with the services it reads and the tables it shares, and a
  sample world: one captured card payment, posted to two accounts and to the owner's wallet.
\<close>

section \<open>A sample world\<close>

definition sample_posting_account :: "uuid \<Rightarrow> ledger_account" where
  "sample_posting_account k = \<lparr>la_account_id = k, la_book_id = 1, la_code = ''acc'', la_name = ''account'',
     la_account_class = LC_CLEARING, la_normal_side = DEBIT, la_currency = ''ETB'', la_created_at = 0,
     la_archived_at = None\<rparr>"

definition sample_fare_journal :: ledger_journal where
  "sample_fare_journal =
     \<lparr>jr_header = \<lparr>lj_journal_id = 80, lj_book_id = 1, lj_business_event_type = ''fare.final'',
        lj_business_event_id = 70, lj_operation = ''ledger.post'', lj_idempotency_key = ''aaaaaaaaaaaaaaaa'',
        lj_actor_identity_id = 9, lj_source_system = ''pricing'', lj_reason_code = ''ride.fare'',
        lj_traceability = (lineage_trace 61 62 63 60 71 70 0)\<lparr>lt_predecessor_ledger_journal_id := None\<rparr>,
        lj_predecessor_ledger_journal_id = None, lj_effective_at = 1, lj_recorded_at = 1, lj_correlation_id = 1,
        lj_causation_id = 2, lj_audit_reference = 3\<rparr>,
      jr_entries =
       [\<lparr>le_entry_id = 81, le_account_id = 21, le_side = DEBIT, le_amount_minor = 900, le_currency = ''ETB'',
         le_line_index = 1, le_predecessor_entry_id = None\<rparr>,
        \<lparr>le_entry_id = 82, le_account_id = 22, le_side = CREDIT, le_amount_minor = 900, le_currency = ''ETB'',
         le_line_index = 2, le_predecessor_entry_id = None\<rparr>]\<rparr>"

definition sample_accounts :: ledger_db where
  "sample_accounts =
     \<lparr>ld_books = [(1, \<lparr>lb_book_id = 1, lb_code = ''main'', lb_description = ''main book'',
        lb_base_currency = ''ETB'', lb_created_at = 0, lb_archived_at = None\<rparr>)],
      ld_accounts = map (\<lambda>k. (k, sample_posting_account k)) [21, 22],
      ld_fare_calculations = [(70, \<lparr>ts_ride_request_id = Some 61, ts_dispatch_handoff_id = Some 62,
        ts_assignment_id = Some 63, ts_active_ride_id = Some 60, ts_fare_estimate_id = Some 71,
        ts_fare_calculation_id = Some 70\<rparr>)],
      ld_journals = [], ld_entries = [], ld_idempotency = [], ld_events = [], ld_outbox = []\<rparr>"

definition sample_posting_env :: posting_env where
  "sample_posting_env = \<lparr>px_has_permission = (\<lambda>_ _. True), px_identity_exists = (\<lambda>_. True),
     px_posting_digest = sample_digest, px_wallet_digest = sample_digest\<rparr>"

definition sample_posting_start :: posting_world where
  "sample_posting_start = \<lparr>pw_finance = empty_world, pw_money =
     \<lparr>my_ledger = sample_accounts, my_wallet = empty_wallet_db, my_postings = empty_postings\<rparr>\<rparr>"

definition sample_post :: "string \<Rightarrow> instant \<Rightarrow> posting_command" where
  "sample_post oper at =
     \<lparr>pq_source_type = PS_COMPLETED_PAYMENT, pq_source_id = 200, pq_operation = oper,
      pq_reason_code = ''payment.captured'', pq_currency = ''ETB'',
      pq_lines = [\<lparr>pl_line_index = 2, pl_account_id = 22, pl_side = PD_CREDIT, pl_amount_minor = 500\<rparr>,
        \<lparr>pl_line_index = 1, pl_account_id = 21, pl_side = PD_DEBIT, pl_amount_minor = 500\<rparr>],
      pq_wallet_owner_identity_id = 5, pq_wallet_amount_minor = 400, pq_idempotency_key = ''posting-key-0001'',
      pq_correlation_id = 1, pq_causation_id = 2, pq_occurred_at = at\<rparr>"

definition sample_draws :: "uuid \<Rightarrow> posting_draws" where
  "sample_draws n = \<lparr>dw_posting = n, dw_journal = n + 1, dw_audit = n + 2, dw_entry = (\<lambda>i. n + 3 + nat i),
     dw_line = (\<lambda>i. n + 6 + nat i), dw_wallet_account = n + 9, dw_wallet_entry = n + 10\<rparr>"

definition sample_wallet_event :: "instant \<Rightarrow> uuid \<Rightarrow> wallet_request" where
  "sample_wallet_event at n =
     \<lparr>wq_subject_id = 1, wq_subject_type = ID_SERVICE, wq_owner_identity_id = 5,
      wq_authoritative_source_type = LEDGER_JOURNAL, wq_authoritative_source_id = 80,
      wq_entry_type = PENDING_CREDIT, wq_amount_minor = 100, wq_reason_code = ''ride.earned'',
      wq_idempotency_key = ''wallet-event-key-'' @ (if n = 51 then ''1'' else ''2''), wq_correlation_id = 1,
      wq_causation_id = 2, wq_at = Aware at\<rparr>"

datatype posting_call = CapturePayment | FareJournal | WalletEvent instant uuid | PostNow string instant uuid

fun run_posting :: "posting_call \<Rightarrow> posting_world \<Rightarrow> posting_world result" where
  "run_posting CapturePayment w =
     bind_result (calls sample_env quick_run (fw_payments (pw_finance w))) (\<lambda>p.
       Inr (w\<lparr>pw_finance := (pw_finance w)\<lparr>fw_payments := p\<rparr>\<rparr>))"
| "run_posting FareJournal w =
     bind_result (post_journal (my_ledger (pw_money w)) sample_fare_journal) (\<lambda>(l, _).
       Inr (w\<lparr>pw_money := (pw_money w)\<lparr>my_ledger := l\<rparr>\<rparr>))"
| "run_posting (WalletEvent at n) w =
     bind_result (consume_authoritative_event
         (posting_wallet_env sample_posting_env (fw_payments (pw_finance w)) (fw_refunds (pw_finance w))
            (fw_settlements (pw_finance w)) (my_ledger (pw_money w)))
         (my_wallet (pw_money w)) (sample_wallet_event at n) 50 n) (\<lambda>(v, _).
       Inr (w\<lparr>pw_money := (pw_money w)\<lparr>my_wallet := v\<rparr>\<rparr>))"
| "run_posting (PostNow oper at n) w =
     bind_result (post sample_posting_env (fw_payments (pw_finance w)) (fw_refunds (pw_finance w))
         (fw_settlements (pw_finance w)) (pw_money w) (1, ID_SERVICE) (sample_post oper at) (sample_draws n)) (\<lambda>(m, _).
       Inr (w\<lparr>pw_money := m\<rparr>))"

fun run_postings :: "posting_call list \<Rightarrow> posting_world \<Rightarrow> posting_world result" where
  "run_postings [] w = Inr w"
| "run_postings (c # cs) w = bind_result (run_posting c w) (run_postings cs)"

definition posting_view :: "posting_world \<Rightarrow> (uuid \<times> uuid \<times> uuid) list \<times> uuid list \<times> (uuid \<times> instant) list" where
  "posting_view w =
     (map (\<lambda>(k, p). (k, fp_ledger_journal_id p, fp_wallet_entry_id p)) (gd_postings (my_postings (pw_money w))),
      map fst (ld_journals (my_ledger (pw_money w))),
      map (\<lambda>(k, e). (k, wl_recorded_at e)) (wd_lineage (my_wallet (pw_money w))))"

definition posting_outcome where
  "posting_outcome cs = bind_result (run_postings cs sample_posting_start) (\<lambda>w. Inr (posting_view w))"

definition once_posted :: "posting_call list" where
  "once_posted = [CapturePayment, FareJournal, PostNow ''payment.collect'' 6000 400]"

lemma once_posted_outcome: "posting_outcome once_posted = Inr ([(400, 401, 410)], [80, 401], [(410, 6000)])"
  by code_simp

definition late_posted :: "posting_call list" where
  "late_posted = [CapturePayment, FareJournal, WalletEvent 100 51, WalletEvent 9000 52,
     PostNow ''payment.collect'' 6000 400]"

definition twice_posted :: "posting_call list" where
  "twice_posted = once_posted @ [PostNow ''payment.again'' 7000 420]"

lemma late_posted_outcome:
  "posting_outcome late_posted = Inr ([(400, 401, 52)], [80, 401], [(51, 100), (52, 9000), (410, 6000)])"
  by code_simp

lemma twice_posted_outcome:
  "posting_outcome twice_posted = Inr ([(400, 401, 410), (420, 421, 430)], [80, 401, 421], [(410, 6000), (430, 7000)])"
  by code_simp

lemma sample_fare_journal_valid: "validate_entries sample_fare_journal = Inr sample_fare_journal"
  by code_simp

lemma payments_world:
  assumes "payment_steps p p'"
  shows "posting_step\<^sup>*\<^sup>* (w\<lparr>pw_finance := f\<lparr>fw_payments := p\<rparr>\<rparr>) (w\<lparr>pw_finance := f\<lparr>fw_payments := p'\<rparr>\<rparr>)"
    (is "posting_step\<^sup>*\<^sup>* (?w p) (?w p')")
  using assms
proof (induction rule: rtranclp_induct)
  case base
  show ?case by simp
next
  case (step y z)
  have "finance_step (fw_payments (f\<lparr>fw_payments := y\<rparr>), fw_refunds (f\<lparr>fw_payments := y\<rparr>)) (z, fw_refunds f)"
    using finance_step.pay_moves [OF step.hyps(2)] by simp
  then have "world_step (pw_finance (?w y)) (f\<lparr>fw_payments := z\<rparr>)"
    using world_step.finance [of "f\<lparr>fw_payments := y\<rparr>" z "fw_refunds f"] by (cases f) simp
  from posting_step.sources [OF this] have "posting_step (?w y) (?w z)" by simp
  with step.IH show ?case by (rule rtranclp.rtrancl_into_rtrancl)
qed

lemma run_posting_steps: "run_posting c w = Inr w' \<Longrightarrow> posting_step\<^sup>*\<^sup>* w w'"
proof (cases c)
  case CapturePayment
  assume "run_posting c w = Inr w'"
  then obtain p where p: "calls sample_env quick_run (fw_payments (pw_finance w)) = Inr p"
      "w' = w\<lparr>pw_finance := (pw_finance w)\<lparr>fw_payments := p\<rparr>\<rparr>"
    using CapturePayment by (auto simp: bind_result_eq_Inr)
  show ?thesis using payments_world [OF calls_steps [OF p(1)], where w = w and f = "pw_finance w"] p(2) by simp
next
  case FareJournal
  assume "run_posting c w = Inr w'"
  then show ?thesis
    using FareJournal posting_step.journal [OF sample_fare_journal_valid] by (auto simp: bind_result_eq_Inr)
next
  case (WalletEvent at n)
  assume "run_posting c w = Inr w'"
  then show ?thesis using WalletEvent posting_step.wallet by (fastforce simp: bind_result_eq_Inr)
next
  case (PostNow oper at n)
  assume "run_posting c w = Inr w'"
  then show ?thesis using PostNow posting_step.posting by (fastforce simp: bind_result_eq_Inr)
qed

lemma run_postings_steps: "run_postings cs w = Inr w' \<Longrightarrow> posting_step\<^sup>*\<^sup>* w w'"
proof (induction cs arbitrary: w)
  case (Cons c cs)
  then show ?case using run_posting_steps unfolding run_postings.simps(2) bind_result_eq_Inr by (blast intro: rtranclp_trans)
qed simp

definition sample_posting_world :: "posting_call list \<Rightarrow> posting_world" where
  "sample_posting_world cs = projr (run_postings cs sample_posting_start)"

lemma sample_posting_start: "posting_start sample_posting_start"
  by (simp add: posting_start_def sample_posting_start_def sample_accounts_def)

lemma posting_outcome_reachable:
  assumes "posting_outcome cs = Inr v"
  shows "posting_reachable (sample_posting_world cs)" and "posting_view (sample_posting_world cs) = v"
  using assms run_postings_steps [of cs sample_posting_start] sample_posting_start
  by (auto simp: posting_outcome_def bind_result_eq_Inr sample_posting_world_def posting_reachable_def)

lemma posting_outcome_posting:
  assumes "posting_outcome cs = Inr (ps, js, ws)" and "dget ps k = Some (j, w)"
  obtains p where "dget (gd_postings (my_postings (pw_money (sample_posting_world cs)))) k = Some p"
    and "fp_ledger_journal_id p = j" and "fp_wallet_entry_id p = w"
  using assms(2) posting_outcome_reachable(2) [OF assms(1)] by (auto simp: posting_view_def map_of_map)

section \<open>Properties of posting\<close>

text \<open>C27: Every posting is a balanced journal of its source: the journal exists for the same source and operation,
  its entries are line by line those of the posting, both sides sum to the totals stored with the posting, and its
  wallet entry exists; no two postings share a journal or a wallet entry, and one source and operation has one
  posting.\<close>

theorem postings_match_journals:
  assumes "posting_reachable w" and "dget (gd_postings (my_postings (pw_money w))) k = Some p"
  shows "fp_posting_id p = k \<and>
    (\<exists>h. dget (ld_journals (my_ledger (pw_money w))) (fp_ledger_journal_id p) = Some h \<and>
       lj_business_event_id h = fp_source_id p \<and> lj_operation h = fp_operation p) \<and>
    map line_facts (list_lines (my_postings (pw_money w)) k) =
      map entry_facts (journal_rows (my_ledger (pw_money w)) (fp_ledger_journal_id p)) \<and>
    side_total DEBIT (journal_rows (my_ledger (pw_money w)) (fp_ledger_journal_id p)) = fp_total_debit_minor p \<and>
    side_total CREDIT (journal_rows (my_ledger (pw_money w)) (fp_ledger_journal_id p)) = fp_total_debit_minor p \<and>
    0 < fp_total_debit_minor p \<and> dget (wd_lineage (my_wallet (pw_money w))) (fp_wallet_entry_id p) \<noteq> None \<and>
    (\<forall>l q. dget (gd_postings (my_postings (pw_money w))) l = Some q \<longrightarrow> l \<noteq> k \<longrightarrow>
       fp_ledger_journal_id q \<noteq> fp_ledger_journal_id p \<and> fp_wallet_entry_id q \<noteq> fp_wallet_entry_id p \<and>
       \<not> same_source p q)"
proof -
  have inv: "posting_inv (pw_money w)"
    using posting_reachable_inv [OF assms(1)] by (simp add: posting_world_inv_def)
  have p: "fp_posting_id p = k" "posting_ok (my_ledger (pw_money w)) (my_wallet (pw_money w)) (my_postings (pw_money w)) p"
    using posting_invD(4) [OF inv assms(2)] by simp_all
  have "fp_ledger_journal_id q \<noteq> fp_ledger_journal_id p \<and> fp_wallet_entry_id q \<noteq> fp_wallet_entry_id p \<and> \<not> same_source p q"
    if q: "dget (gd_postings (my_postings (pw_money w))) l = Some q" "l \<noteq> k" for l q
    by (rule posting_rows_apart [OF posting_invD(3) [OF inv] assms(2) q(1)]) (use q(2) in simp)
  then show ?thesis using p unfolding posting_ok_def by simp
qed

theorem postings_match_journals_witness:
  "\<exists>p h. dget (gd_postings (my_postings (pw_money (sample_posting_world twice_posted)))) 400 = Some p \<and>
     dget (ld_journals (my_ledger (pw_money (sample_posting_world twice_posted)))) 401 = Some h \<and>
     lj_business_event_id h = fp_source_id p"
proof -
  obtain p where p: "dget (gd_postings (my_postings (pw_money (sample_posting_world twice_posted)))) 400 = Some p"
      "fp_ledger_journal_id p = 401"
    using posting_outcome_posting [OF twice_posted_outcome, of 400] by auto
  from postings_match_journals [OF posting_outcome_reachable(1) [OF twice_posted_outcome] p(1)] p show ?thesis by auto
qed

text \<open>C28: Money is only posted for a source that stands: the payment attempt of a payment posting is captured, the
  refund of a refund posting is approved, scheduled or completed with an authorization of finance on file, and the batch of a
  settlement posting is balanced, ready or resolved and has items, in every later state of those services too.\<close>

theorem postings_backed_by_sources:
  assumes "posting_reachable w" and "dget (gd_postings (my_postings (pw_money w))) k = Some p"
  shows "case fp_source_type p of
      PS_COMPLETED_PAYMENT \<Rightarrow> (\<exists>a. dget (pd_attempts (fw_payments (pw_finance w))) (fp_source_id p) = Some a \<and>
        pa_state a = PA_CAPTURED)
    | PS_APPROVED_REFUND \<Rightarrow> (\<exists>r. dget (rf_requests (fw_refunds (pw_finance w))) (fp_source_id p) = Some r \<and>
        rr_state r \<in> {RR_APPROVED, RR_SCHEDULED, RR_COMPLETED} \<and>
        (\<exists>l a. dget (rf_authorizations (fw_refunds (pw_finance w))) l = Some a \<and>
           ra_refund_request_id a = fp_source_id p \<and> ra_authority_permission a = ''refund.approve''))
    | PS_SETTLEMENT_EVENT \<Rightarrow> (\<exists>b. dget (sd_batches (fw_settlements (pw_finance w))) (fp_source_id p) = Some b \<and>
        sb_state b \<in> {SB_BALANCED, SB_READY_FOR_SETTLEMENT, SB_RESOLVED} \<and>
        list_items (fw_settlements (pw_finance w)) (sb_settlement_batch_id b) \<noteq> [])
    | PS_WALLET_ADJUSTMENT \<Rightarrow> False"
proof -
  have "world_reachable (pw_finance w)" and ready: "source_ready (pw_finance w) (fp_source_type p) (fp_source_id p)"
    using posting_reachable_inv [OF assms(1)] assms(2) by (auto simp: posting_world_inv_def)
  then have "refund_inv (fw_payments (pw_finance w)) (fw_refunds (pw_finance w))"
    using world_reachable_inv(1) finance_reachable_inv(3) by blast
  then show ?thesis
    using ready refund_invD unfolding source_ready_def refund_signed_def
    by (cases "fp_source_type p") (fastforce)+
qed

theorem postings_backed_by_sources_witness:
  "\<exists>p a. dget (gd_postings (my_postings (pw_money (sample_posting_world once_posted)))) 400 = Some p \<and>
     fp_source_type p = PS_COMPLETED_PAYMENT \<and>
     dget (pd_attempts (fw_payments (pw_finance (sample_posting_world once_posted)))) (fp_source_id p) = Some a \<and>
     pa_state a = PA_CAPTURED"
proof -
  have "map (\<lambda>(k, p). (k, fp_source_type p))
      (gd_postings (my_postings (pw_money (sample_posting_world once_posted)))) = [(400, PS_COMPLETED_PAYMENT)]"
    by code_simp
  then obtain p where p: "dget (gd_postings (my_postings (pw_money (sample_posting_world once_posted)))) 400 = Some p"
      "fp_source_type p = PS_COMPLETED_PAYMENT" by auto
  from postings_backed_by_sources [OF posting_outcome_reachable(1) [OF once_posted_outcome] p(1)] p show ?thesis by auto
qed

text \<open>C29: Posting is idempotent across everything else that happens: once a command has been posted, then however
  the sources, the ledger, the wallet and other postings have moved on, sending it again (with whatever identifiers are
  drawn) returns the same posting with the same lines and changes nothing.\<close>

theorem posting_replays:
  assumes "posting_reachable w"
    and "post env (fw_payments (pw_finance w)) (fw_refunds (pw_finance w)) (fw_settlements (pw_finance w))
      (pw_money w) s c dw = Inr (m, res)"
    and "posting_step\<^sup>*\<^sup>* (w\<lparr>pw_money := m\<rparr>) w'"
  shows "post env (fw_payments (pw_finance w')) (fw_refunds (pw_finance w')) (fw_settlements (pw_finance w'))
      (pw_money w') s c dw' = Inr (pw_money w', res)"
proof -
  have inv: "posting_world_inv w" using posting_reachable_inv [OF assms(1)] .
  then have inv1: "posting_world_inv (w\<lparr>pw_money := m\<rparr>)" using posting_step_inv posting_step.posting [OF assms(2)] by blast
  have rec: "posting_recorded env m s c res"
    using post_recorded [OF _ assms(2)] inv by (simp add: posting_world_inv_def)
  have guards: "px_has_permission env (fst s) ''financial.posting.create''" "snd s = ID_SERVICE"
    "\<exists>t. validate_balanced_lines (pq_lines c) (Aware (pq_occurred_at c)) = Inr t"
    "source_ready (pw_finance w) (pq_source_type c) (pq_source_id c)"
    using assms(2) unfolding lineage_iff [symmetric] post_def by (auto elim!: ok_elims)
  note later = recorded_steps [OF assms(3) inv1, of env s c res "pq_source_type c" "pq_source_id c"]
  have rec': "posting_recorded env (pw_money w') s c res"
    and ready: "source_ready (pw_finance w') (pq_source_type c) (pq_source_id c)"
    using later rec guards(4) by simp_all
  show ?thesis using recorded_replays [OF rec' guards(1-3) ready] .
qed

theorem posting_replays_witness:
  "\<exists>m res. post sample_posting_env (fw_payments (pw_finance (sample_posting_world [CapturePayment, FareJournal])))
      (fw_refunds (pw_finance (sample_posting_world [CapturePayment, FareJournal])))
      (fw_settlements (pw_finance (sample_posting_world [CapturePayment, FareJournal])))
      (pw_money (sample_posting_world [CapturePayment, FareJournal])) (1, ID_SERVICE) (sample_post ''payment.collect'' 6000)
      (sample_draws 400) = Inr (m, res) \<and>
    post sample_posting_env (fw_payments (pw_finance (sample_posting_world twice_posted)))
      (fw_refunds (pw_finance (sample_posting_world twice_posted)))
      (fw_settlements (pw_finance (sample_posting_world twice_posted)))
      (pw_money (sample_posting_world twice_posted)) (1, ID_SERVICE) (sample_post ''payment.collect'' 6000)
      (sample_draws 900) = Inr (pw_money (sample_posting_world twice_posted), res)"
proof -
  have first: "posting_outcome [CapturePayment, FareJournal] = Inr ([], [80], [])" by code_simp
  let ?w = "sample_posting_world [CapturePayment, FareJournal]"
  obtain w1 where w1: "run_postings [CapturePayment, FareJournal] sample_posting_start = Inr w1"
    using first by (auto simp: posting_outcome_def bind_result_eq_Inr)
  obtain w3 where w3: "run_postings twice_posted sample_posting_start = Inr w3"
    using twice_posted_outcome by (auto simp: posting_outcome_def bind_result_eq_Inr)
  have "run_postings [PostNow ''payment.collect'' 6000 400, PostNow ''payment.again'' 7000 420] w1 = Inr w3"
    using w1 w3 by (auto simp: twice_posted_def once_posted_def bind_result_eq_Inr)
  then obtain m res where m: "post sample_posting_env (fw_payments (pw_finance w1)) (fw_refunds (pw_finance w1))
      (fw_settlements (pw_finance w1)) (pw_money w1) (1, ID_SERVICE) (sample_post ''payment.collect'' 6000)
      (sample_draws 400) = Inr (m, res)"
    and rest: "run_postings [PostNow ''payment.again'' 7000 420] (w1\<lparr>pw_money := m\<rparr>) = Inr w3"
    unfolding run_postings.simps(2) [of "PostNow ''payment.collect'' 6000 400"] by (auto simp: bind_result_eq_Inr)
  have eqs: "sample_posting_world [CapturePayment, FareJournal] = w1" "sample_posting_world twice_posted = w3"
    using w1 w3 by (simp_all add: sample_posting_world_def)
  have reach: "posting_reachable w1" using posting_outcome_reachable(1) [OF first] eqs by simp
  from posting_replays [OF reach m run_postings_steps [OF rest]] m show ?thesis unfolding eqs by blast
qed

text \<open>Two limits of the service, each reached by ordinary calls. The posting takes the last entry of the wallet's
  lineage in the order of recording times, not the entry it has just written: with a later entry already present it
  stores that foreign entry. And the same captured payment is posted again under another operation, moving
  money a second time.\<close>

theorem late_posting_links_foreign_entry:
  "\<exists>p. dget (gd_postings (my_postings (pw_money (sample_posting_world late_posted)))) 400 = Some p \<and>
     fp_wallet_entry_id p = 52 \<and>
     map fst (wd_lineage (my_wallet (pw_money (sample_posting_world late_posted)))) = [51, 52, 410]"
  using posting_outcome_posting [OF late_posted_outcome, of 400] posting_outcome_reachable(2) [OF late_posted_outcome]
  by (auto simp: posting_view_def)

end
