(* ===== verification/Scheduled.thy ===== *)
theory Scheduled
  imports Prelude Lifecycle "HOL-Library.Product_Lexorder"
begin

text \<open>
  Scheduled rides: the models of \<open>scheduled/models.py\<close>, the rules of \<open>scheduled/engine.py\<close> and the checkpoint decision
  of \<open>scheduled/recovery.py\<close>. Timestamps are aware in every model, so they are instants; the routes pass
  \<open>datetime.now(UTC)\<close> as the time of a call.
\<close>

section \<open>Models\<close>

datatype reservation_state = RV_REQUESTED | RV_PASSENGER_CONFIRMATION_PENDING | RV_ACCEPTED | RV_PLANNING
  | RV_DRIVER_COMMITTED | RV_REVALIDATING | RV_REASSIGNING | RV_FALLBACK_DISPATCH | RV_DRIVER_EN_ROUTE
  | RV_READY_FOR_PICKUP | RV_ACTIVATED_AS_RIDE | RV_FULFILLED | RV_RIDER_CANCELLED | RV_PASSENGER_DECLINED
  | RV_CONFIRMATION_EXPIRED | RV_EXPIRED | RV_NO_DRIVER_AVAILABLE | RV_OPERATIONAL_REVIEW

fun reservation_value :: "reservation_state \<Rightarrow> string" where
  "reservation_value RV_REQUESTED = ''requested''"
| "reservation_value RV_PASSENGER_CONFIRMATION_PENDING = ''passenger_confirmation_pending''"
| "reservation_value RV_ACCEPTED = ''accepted''"
| "reservation_value RV_PLANNING = ''planning''"
| "reservation_value RV_DRIVER_COMMITTED = ''driver_committed''"
| "reservation_value RV_REVALIDATING = ''revalidating''"
| "reservation_value RV_REASSIGNING = ''reassigning''"
| "reservation_value RV_FALLBACK_DISPATCH = ''fallback_dispatch''"
| "reservation_value RV_DRIVER_EN_ROUTE = ''driver_en_route''"
| "reservation_value RV_READY_FOR_PICKUP = ''ready_for_pickup''"
| "reservation_value RV_ACTIVATED_AS_RIDE = ''activated_as_ride''"
| "reservation_value RV_FULFILLED = ''fulfilled''"
| "reservation_value RV_RIDER_CANCELLED = ''rider_cancelled''"
| "reservation_value RV_PASSENGER_DECLINED = ''passenger_declined''"
| "reservation_value RV_CONFIRMATION_EXPIRED = ''confirmation_expired''"
| "reservation_value RV_EXPIRED = ''expired''"
| "reservation_value RV_NO_DRIVER_AVAILABLE = ''no_driver_available''"
| "reservation_value RV_OPERATIONAL_REVIEW = ''operational_review''"

definition RESERVATION_TERMINAL :: "reservation_state list" where
  "RESERVATION_TERMINAL = [RV_FULFILLED, RV_RIDER_CANCELLED, RV_PASSENGER_DECLINED, RV_CONFIRMATION_EXPIRED,
     RV_EXPIRED, RV_NO_DRIVER_AVAILABLE]"

datatype participant_role = PR_BOOKER | PR_PASSENGER | PR_FUTURE_PAYER | PR_TRUSTED_CONTACT

datatype participant_kind = PK_IDENTITY | PK_VERIFIED_CONTACT | PK_ASSISTED

datatype consent_state = CN_NOT_REQUIRED | CN_PENDING | CN_CONFIRMED | CN_DECLINED | CN_EXPIRED | CN_ASSISTED_REQUIRED

datatype commitment_state = CT_COMMITTED | CT_RELEASED | CT_EXPIRED | CT_CONVERTED

datatype pre_dispatch_state = PP_PROVISIONAL | PP_CONFIRMED | PP_RELEASED | PP_EXPIRED | PP_CONVERTED

datatype flight_state = FS_SCHEDULED | FS_EARLY | FS_DELAYED | FS_LANDED | FS_CANCELLED | FS_DIVERTED | FS_UNKNOWN

datatype checkpoint_type = CK_SOFT_PLAN | CK_FORMAL_COMMITMENT | CK_REVALIDATION | CK_FALLBACK

datatype recovery_action = RA_WAIT | RA_PLAN | RA_COMMIT | RA_REVALIDATE | RA_FALLBACK_DISPATCH | RA_OPERATIONAL_REVIEW

fun consent_value :: "consent_state \<Rightarrow> string" where
  "consent_value CN_NOT_REQUIRED = ''not_required''"
| "consent_value CN_PENDING = ''pending''"
| "consent_value CN_CONFIRMED = ''confirmed''"
| "consent_value CN_DECLINED = ''declined''"
| "consent_value CN_EXPIRED = ''expired''"
| "consent_value CN_ASSISTED_REQUIRED = ''assisted_required''"

record participant =
  pt_participant_id :: uuid
  pt_role :: participant_role
  pt_kind :: participant_kind
  pt_identity_id :: "uuid option"
  pt_contact_reference :: "string option"
  pt_consent_state :: consent_state

definition valid_participant :: "participant \<Rightarrow> participant result" where
  "valid_participant p =
     (if \<not> (case pt_contact_reference p of None \<Rightarrow> True | Some r \<Rightarrow> length_between 8 128 r)
      then Inl (ValidationError ''Participant'')
      else if pt_kind p = PK_IDENTITY \<and> pt_identity_id p = None
      then Inl (ValidationError ''Identity participant requires identity_id'')
      else if pt_kind p \<noteq> PK_IDENTITY \<and> pt_contact_reference p = None
      then Inl (ValidationError ''Contact or assisted participant requires contact reference'')
      else Inr p)"

record reservation_policy =
  rp_policy_id :: uuid
  rp_version :: string
  rp_minimum_booking_lead_seconds :: int
  rp_maximum_booking_horizon_seconds :: int
  rp_soft_planning_lead_seconds :: int
  rp_formal_commitment_lead_seconds :: int
  rp_revalidation_lead_seconds :: int
  rp_material_lateness_reduction_seconds :: int
  rp_material_reliability_gain_bps :: int
  rp_stability_margin_seconds :: int
  rp_maximum_soft_replacements :: int
  rp_maximum_formal_replacements :: int
  rp_fairness_eta_equivalence_seconds :: int
  rp_maximum_fairness_credit_bps :: int
  rp_minimum_prediction_confidence_bps :: int
  rp_maximum_current_trip_completion_seconds :: int
  rp_passenger_confirmation_ttl_seconds :: int
  rp_checkpoint_retry_limit :: int

abbreviation between :: "int \<Rightarrow> int \<Rightarrow> int \<Rightarrow> bool" where
  "between lo hi n \<equiv> lo \<le> n \<and> n \<le> hi"

definition reservation_policy_fields :: "reservation_policy \<Rightarrow> bool" where
  "reservation_policy_fields p \<longleftrightarrow> code_pattern 1 (rp_version p) \<and>
     between 300 604800 (rp_minimum_booking_lead_seconds p) \<and>
     between 3600 31536000 (rp_maximum_booking_horizon_seconds p) \<and>
     between 300 604800 (rp_soft_planning_lead_seconds p) \<and>
     between 300 604800 (rp_formal_commitment_lead_seconds p) \<and>
     between 60 86400 (rp_revalidation_lead_seconds p) \<and>
     between 1 3600 (rp_material_lateness_reduction_seconds p) \<and> bps_ok (rp_material_reliability_gain_bps p) \<and>
     between 0 3600 (rp_stability_margin_seconds p) \<and> between 0 20 (rp_maximum_soft_replacements p) \<and>
     between 0 20 (rp_maximum_formal_replacements p) \<and> between 0 600 (rp_fairness_eta_equivalence_seconds p) \<and>
     bps_ok (rp_maximum_fairness_credit_bps p) \<and> bps_ok (rp_minimum_prediction_confidence_bps p) \<and>
     between 60 14400 (rp_maximum_current_trip_completion_seconds p) \<and>
     between 60 604800 (rp_passenger_confirmation_ttl_seconds p) \<and> between 1 20 (rp_checkpoint_retry_limit p)"

definition valid_reservation_policy :: "reservation_policy \<Rightarrow> reservation_policy result" where
  "valid_reservation_policy p =
     (if \<not> reservation_policy_fields p then Inl (ValidationError ''ReservationPolicy'')
      else if \<not> (rp_formal_commitment_lead_seconds p \<le> rp_soft_planning_lead_seconds p \<and>
          rp_revalidation_lead_seconds p \<le> rp_formal_commitment_lead_seconds p)
      then Inl (ValidationError ''Planning windows must be ordered'')
      else if rp_maximum_booking_horizon_seconds p \<le> rp_minimum_booking_lead_seconds p
      then Inl (ValidationError ''Booking horizon must exceed minimum lead'')
      else Inr p)"

record reservation =
  rv_reservation_id :: uuid
  rv_booker_id :: uuid
  rv_passenger_participant_id :: uuid
  rv_pickup_place_id :: string
  rv_destination_place_id :: string
  rv_service_type :: string
  rv_quote_id :: uuid
  rv_requested_pickup_at :: instant
  rv_requested_timezone :: string
  rv_state :: reservation_state
  rv_policy_id :: uuid
  rv_policy_version :: string
  rv_created_at :: instant
  rv_updated_at :: instant
  rv_version :: int
  rv_active_soft_plan_id :: "uuid option"
  rv_active_commitment_id :: "uuid option"
  rv_activated_ride_id :: "uuid option"
  rv_airport_context_id :: "uuid option"
  rv_soft_replacement_count :: int
  rv_formal_replacement_count :: int

definition reservation_fields :: "reservation \<Rightarrow> bool" where
  "reservation_fields r \<longleftrightarrow> length_between 8 128 (rv_pickup_place_id r) \<and>
     length_between 8 128 (rv_destination_place_id r) \<and> code_pattern 1 (rv_service_type r) \<and>
     length_between 1 64 (rv_requested_timezone r) \<and> code_pattern 1 (rv_policy_version r) \<and> 1 \<le> rv_version r \<and>
     0 \<le> rv_soft_replacement_count r \<and> 0 \<le> rv_formal_replacement_count r"

definition valid_reservation :: "reservation \<Rightarrow> reservation result" where
  "valid_reservation r =
     (if \<not> reservation_fields r then Inl (ValidationError ''ScheduledReservation'')
      else if rv_pickup_place_id r = rv_destination_place_id r
      then Inl (ValidationError ''Pickup and destination must differ'')
      else Inr r)"

record scheduled_candidate =
  sk_driver_id :: uuid
  sk_eligible :: bool
  sk_safety_eligible :: bool
  sk_airport_eligible :: bool
  sk_pickup_eta_low_seconds :: int
  sk_pickup_eta_high_seconds :: int
  sk_pickup_window_success_bps :: int
  sk_recovery_capacity_bps :: int
  sk_opportunity_deficit_bps :: int
  sk_current_trip_completion_high_seconds :: int
  sk_prediction_confidence_bps :: int
  sk_location_observed_at :: instant
  sk_has_conflicting_commitment :: bool

definition valid_scheduled_candidate :: "scheduled_candidate \<Rightarrow> scheduled_candidate result" where
  "valid_scheduled_candidate c =
     (if \<not> (between 0 14400 (sk_pickup_eta_low_seconds c) \<and> between 0 14400 (sk_pickup_eta_high_seconds c) \<and>
          bps_ok (sk_pickup_window_success_bps c) \<and> bps_ok (sk_recovery_capacity_bps c) \<and>
          bps_ok (sk_opportunity_deficit_bps c) \<and> between 0 14400 (sk_current_trip_completion_high_seconds c) \<and>
          bps_ok (sk_prediction_confidence_bps c))
      then Inl (ValidationError ''ScheduledCandidate'')
      else if sk_pickup_eta_high_seconds c < sk_pickup_eta_low_seconds c
      then Inl (ValidationError ''ETA range is inverted'')
      else Inr c)"

record candidate_decision =
  cd_decision_id :: uuid
  cd_driver_id :: uuid
  cd_policy_version :: string
  cd_conservative_eta_seconds :: int
  cd_reliability_bps :: int
  cd_fairness_credit_bps :: int
  cd_effective_reliability_bps :: int
  cd_reason_codes :: "string list"

record soft_plan =
  so_soft_plan_id :: uuid
  so_reservation_id :: uuid
  so_driver_id :: uuid
  so_decision :: candidate_decision
  so_selected_at :: instant
  so_expires_at :: instant
  so_supersedes_soft_plan_id :: "uuid option"

record driver_commitment =
  dm_commitment_id :: uuid
  dm_reservation_id :: uuid
  dm_driver_id :: uuid
  dm_state :: commitment_state
  dm_window_started_at :: instant
  dm_window_ended_at :: instant
  dm_committed_at :: instant
  dm_policy_version :: string
  dm_reason_code :: string
  dm_version :: int

definition valid_commitment :: "driver_commitment \<Rightarrow> driver_commitment result" where
  "valid_commitment c =
     (if \<not> (code_pattern 1 (dm_policy_version c) \<and> code_pattern 1 (dm_reason_code c) \<and> 1 \<le> dm_version c)
      then Inl (ValidationError ''DriverCommitment'')
      else if dm_window_ended_at c \<le> dm_window_started_at c
      then Inl (ValidationError ''Commitment window must be positive'')
      else Inr c)"

record pre_dispatch_projection =
  pj_reservation_id :: uuid
  pj_driver_id :: uuid
  pj_state :: pre_dispatch_state
  pj_current_trip_completion_high_seconds :: int
  pj_pickup_eta_high_seconds :: int
  pj_confidence_bps :: int
  pj_reason_codes :: "string list"

record airport_context =
  ax_airport_context_id :: uuid
  ax_airport_code :: string
  ax_terminal_code :: "string option"
  ax_pickup_zone_code :: string
  ax_flight_reference :: "string option"
  ax_flight_state :: flight_state
  ax_scheduled_arrival_at :: "instant option"
  ax_estimated_arrival_at :: "instant option"
  ax_observed_at :: instant
  ax_expires_at :: instant
  ax_provider_version :: string

record reservation_checkpoint =
  rk_checkpoint_id :: uuid
  rk_reservation_id :: uuid
  rk_kind :: checkpoint_type
  rk_due_at :: instant
  rk_attempt_count :: int
  rk_completed_at :: "instant option"
  rk_last_failure_code :: "string option"

record recovery_decision =
  rd_reservation_id :: uuid
  rd_action :: recovery_action
  rd_policy_version :: string
  rd_reason_codes :: "string list"

section \<open>The engine\<close>

definition POST_COMMITMENT_TRIGGERS :: "string list" where
  "POST_COMMITMENT_TRIGGERS =
     [''driver_cancelled'', ''driver_offline_or_unreachable'', ''vehicle_breakdown'', ''major_lateness_risk'',
      ''conflicting_commitment'', ''eligibility_failure'', ''safety_failure'', ''emergency'',
      ''confirmed_operational_failure'']"

fun RESERVATION_TRANSITIONS :: "reservation_state \<Rightarrow> reservation_state list" where
  "RESERVATION_TRANSITIONS RV_REQUESTED = [RV_PASSENGER_CONFIRMATION_PENDING, RV_ACCEPTED, RV_RIDER_CANCELLED]"
| "RESERVATION_TRANSITIONS RV_PASSENGER_CONFIRMATION_PENDING =
     [RV_ACCEPTED, RV_PASSENGER_DECLINED, RV_CONFIRMATION_EXPIRED, RV_RIDER_CANCELLED]"
| "RESERVATION_TRANSITIONS RV_ACCEPTED = [RV_PLANNING, RV_RIDER_CANCELLED]"
| "RESERVATION_TRANSITIONS RV_PLANNING =
     [RV_DRIVER_COMMITTED, RV_NO_DRIVER_AVAILABLE, RV_OPERATIONAL_REVIEW, RV_RIDER_CANCELLED]"
| "RESERVATION_TRANSITIONS RV_DRIVER_COMMITTED =
     [RV_REVALIDATING, RV_REASSIGNING, RV_DRIVER_EN_ROUTE, RV_RIDER_CANCELLED]"
| "RESERVATION_TRANSITIONS RV_REVALIDATING =
     [RV_DRIVER_EN_ROUTE, RV_REASSIGNING, RV_FALLBACK_DISPATCH, RV_OPERATIONAL_REVIEW, RV_RIDER_CANCELLED]"
| "RESERVATION_TRANSITIONS RV_REASSIGNING =
     [RV_DRIVER_COMMITTED, RV_DRIVER_EN_ROUTE, RV_FALLBACK_DISPATCH, RV_NO_DRIVER_AVAILABLE, RV_OPERATIONAL_REVIEW]"
| "RESERVATION_TRANSITIONS RV_FALLBACK_DISPATCH = [RV_DRIVER_EN_ROUTE, RV_NO_DRIVER_AVAILABLE, RV_OPERATIONAL_REVIEW]"
| "RESERVATION_TRANSITIONS RV_DRIVER_EN_ROUTE =
     [RV_READY_FOR_PICKUP, RV_REASSIGNING, RV_OPERATIONAL_REVIEW, RV_RIDER_CANCELLED]"
| "RESERVATION_TRANSITIONS RV_READY_FOR_PICKUP = [RV_ACTIVATED_AS_RIDE, RV_RIDER_CANCELLED]"
| "RESERVATION_TRANSITIONS RV_ACTIVATED_AS_RIDE = [RV_FULFILLED]"
| "RESERVATION_TRANSITIONS RV_OPERATIONAL_REVIEW =
     [RV_REASSIGNING, RV_FALLBACK_DISPATCH, RV_NO_DRIVER_AVAILABLE, RV_RIDER_CANCELLED]"
| "RESERVATION_TRANSITIONS _ = []"

definition reservation_transition :: "reservation \<Rightarrow> reservation_state \<Rightarrow> instant \<Rightarrow> reservation result" where
  "reservation_transition r target now =
     (if target \<notin> set (RESERVATION_TRANSITIONS (rv_state r))
      then Inl (ReservationConflict (''Invalid reservation transition: '' @ reservation_value (rv_state r) @ '' -> '' @
        reservation_value target))
      else Inr (r\<lparr>rv_state := target, rv_updated_at := now, rv_version := rv_version r + 1\<rparr>))"

definition candidate_qualifies ::
  "reservation_policy \<Rightarrow> instant \<Rightarrow> airport_context option \<Rightarrow> scheduled_candidate \<Rightarrow> bool" where
  "candidate_qualifies policy now airport c \<longleftrightarrow>
     sk_eligible c \<and> sk_safety_eligible c \<and> \<not> sk_has_conflicting_commitment c \<and> sk_location_observed_at c \<le> now \<and>
     rp_minimum_prediction_confidence_bps policy \<le> sk_prediction_confidence_bps c \<and>
     sk_current_trip_completion_high_seconds c \<le> rp_maximum_current_trip_completion_seconds policy \<and>
     (airport = None \<or> sk_airport_eligible c)"

definition fairness_credit :: "reservation_policy \<Rightarrow> int \<Rightarrow> scheduled_candidate \<Rightarrow> int" where
  "fairness_credit policy best_eta c =
     (if sk_pickup_eta_high_seconds c \<le> best_eta + rp_fairness_eta_equivalence_seconds policy
      then min (sk_opportunity_deficit_bps c) (rp_maximum_fairness_credit_bps policy) else 0)"

definition candidate_decision_for ::
  "(uuid \<Rightarrow> uuid \<Rightarrow> string \<Rightarrow> uuid) \<Rightarrow> reservation_policy \<Rightarrow> reservation \<Rightarrow> airport_context option \<Rightarrow> int \<Rightarrow>
   scheduled_candidate \<Rightarrow> candidate_decision" where
  \<comment> \<open>the first argument is \<open>uuid5\<close> of the reservation, the driver and the policy version\<close>
  "candidate_decision_for name_id policy r airport best_eta c =
     (let fairness = fairness_credit policy best_eta c in
      \<lparr>cd_decision_id = name_id (rv_reservation_id r) (sk_driver_id c) (rp_version policy),
       cd_driver_id = sk_driver_id c, cd_policy_version = rp_version policy,
       cd_conservative_eta_seconds = sk_pickup_eta_high_seconds c,
       cd_reliability_bps = sk_pickup_window_success_bps c, cd_fairness_credit_bps = fairness,
       cd_effective_reliability_bps = min 10000 (sk_pickup_window_success_bps c + fairness),
       cd_reason_codes = [''eligible'', ''conservative_eta'', ''policy_versioned''] @
         (if fairness \<noteq> 0 then [''bounded_opportunity_fairness''] else []) @
         (if sk_current_trip_completion_high_seconds c \<noteq> 0 then [''current_trip_completion_protected''] else []) @
         (if airport \<noteq> None then [''airport_eligible''] else [])\<rparr>)"

definition rank_candidates ::
  "(uuid \<Rightarrow> uuid \<Rightarrow> string \<Rightarrow> uuid) \<Rightarrow> reservation_policy \<Rightarrow> reservation \<Rightarrow> scheduled_candidate list \<Rightarrow> instant \<Rightarrow>
   airport_context option \<Rightarrow> candidate_decision list" where
  "rank_candidates name_id policy r candidates now airport =
     (let eligible = filter (candidate_qualifies policy now airport) candidates in
      if eligible = [] then []
      else
        (let best_eta = min_list (map sk_pickup_eta_high_seconds eligible) in
         sort_key (\<lambda>d. (- cd_effective_reliability_bps d, cd_conservative_eta_seconds d, cd_driver_id d))
           (map (candidate_decision_for name_id policy r airport best_eta) eligible)))"

definition should_replace_soft_candidate ::
  "candidate_decision \<Rightarrow> candidate_decision \<Rightarrow> reservation \<Rightarrow> reservation_policy \<Rightarrow> bool \<times> string list" where
  "should_replace_soft_candidate incumbent challenger r policy =
     (if rv_active_commitment_id r \<noteq> None then (False, [''formal_commitment_lock_active''])
      else if rp_maximum_soft_replacements policy \<le> rv_soft_replacement_count r
      then (False, [''soft_replacement_limit_reached''])
      else
        (let lateness_gain = cd_conservative_eta_seconds incumbent - cd_conservative_eta_seconds challenger;
             reliability_gain = cd_effective_reliability_bps challenger - cd_effective_reliability_bps incumbent in
         if lateness_gain \<le> rp_stability_margin_seconds policy then (False, [''stability_margin_not_met''])
         else if lateness_gain < rp_material_lateness_reduction_seconds policy \<or>
           reliability_gain < rp_material_reliability_gain_bps policy
         then (False, [''material_improvement_not_met''])
         else (True, [''material_lateness_risk_reduction'', ''material_pickup_reliability_gain'',
           ''recovery_capacity_improved''])))"

definition plan_soft_candidate ::
  "reservation \<Rightarrow> candidate_decision \<Rightarrow> instant \<Rightarrow> instant \<Rightarrow> soft_plan option \<Rightarrow> uuid \<Rightarrow> soft_plan result" where
  "plan_soft_candidate r decision now expires_at previous plan_id =
     (if rv_active_commitment_id r \<noteq> None
      then Inl (ReservationConflict ''Formal commitment lock prevents soft planning'')
      else Inr \<lparr>so_soft_plan_id = plan_id, so_reservation_id = rv_reservation_id r,
        so_driver_id = cd_driver_id decision, so_decision = decision, so_selected_at = now,
        so_expires_at = expires_at, so_supersedes_soft_plan_id = map_option so_soft_plan_id previous\<rparr>)"

definition validate_formal_replacement :: "reservation \<Rightarrow> string \<Rightarrow> reservation_policy \<Rightarrow> bool \<times> string" where
  "validate_formal_replacement r trigger policy =
     (if trigger \<notin> set POST_COMMITMENT_TRIGGERS then (False, ''untyped_commitment_replacement_prohibited'')
      else if rp_maximum_formal_replacements policy \<le> rv_formal_replacement_count r
      then (False, ''formal_replacement_limit_reached'')
      else (True, trigger))"

definition evaluate_pre_dispatch ::
  "reservation \<Rightarrow> scheduled_candidate \<Rightarrow> reservation_policy \<Rightarrow> pre_dispatch_projection" where
  "evaluate_pre_dispatch r c policy =
     (let (state, reasons) =
        (if sk_current_trip_completion_high_seconds c = 0 \<and> sk_eligible c \<and> sk_safety_eligible c \<and>
            \<not> sk_has_conflicting_commitment c \<and>
            rp_minimum_prediction_confidence_bps policy \<le> sk_prediction_confidence_bps c
         then (PP_CONFIRMED, [''driver_available''])
         else if sk_eligible c \<and> sk_safety_eligible c \<and> \<not> sk_has_conflicting_commitment c \<and>
            rp_minimum_prediction_confidence_bps policy \<le> sk_prediction_confidence_bps c \<and>
            sk_current_trip_completion_high_seconds c \<le> rp_maximum_current_trip_completion_seconds policy
         then (PP_PROVISIONAL,
           [''current_trip_completion_protected'', ''conservative_completion_range'', ''no_current_trip_diversion''])
         else (PP_RELEASED, [''pre_dispatch_safeguard_failed'']))
      in \<lparr>pj_reservation_id = rv_reservation_id r, pj_driver_id = sk_driver_id c, pj_state = state,
          pj_current_trip_completion_high_seconds = sk_current_trip_completion_high_seconds c,
          pj_pickup_eta_high_seconds = sk_pickup_eta_high_seconds c,
          pj_confidence_bps = sk_prediction_confidence_bps c, pj_reason_codes = reasons\<rparr>)"

definition effective_airport_pickup_time ::
  "reservation \<Rightarrow> airport_context \<Rightarrow> instant \<Rightarrow> (instant \<times> string list) result" where
  "effective_airport_pickup_time r context now =
     (if ax_flight_state context \<in> {FS_CANCELLED, FS_DIVERTED}
      then Inl (ReservationConflict ''Flight requires cancellation or operational review'')
      else if ax_expires_at context \<le> now \<or> now < ax_observed_at context
      then Inr (rv_requested_pickup_at r, [''flight_context_stale''])
      else
        (case ax_estimated_arrival_at context of
           Some t \<Rightarrow> Inr (t, [''fresh_estimated_arrival''])
         | None \<Rightarrow>
             (case ax_scheduled_arrival_at context of
                Some t \<Rightarrow> Inr (t, [''scheduled_arrival_fallback''])
              | None \<Rightarrow> Inr (rv_requested_pickup_at r, [''rider_pickup_time_fallback'']))))"

section \<open>Recovery of a checkpoint\<close>

fun action_by_state :: "reservation_state \<Rightarrow> recovery_action" where
  "action_by_state RV_ACCEPTED = RA_PLAN"
| "action_by_state RV_PLANNING = RA_COMMIT"
| "action_by_state RV_DRIVER_COMMITTED = RA_REVALIDATE"
| "action_by_state RV_REVALIDATING = RA_FALLBACK_DISPATCH"
| "action_by_state RV_REASSIGNING = RA_FALLBACK_DISPATCH"
| "action_by_state _ = RA_OPERATIONAL_REVIEW"

definition recover_checkpoint ::
  "reservation \<Rightarrow> reservation_checkpoint \<Rightarrow> reservation_policy \<Rightarrow> instant \<Rightarrow> recovery_decision result" where
  "recover_checkpoint r k policy now =
     (let decide = (\<lambda>action reason. \<lparr>rd_reservation_id = rv_reservation_id r, rd_action = action,
          rd_policy_version = rp_version policy, rd_reason_codes = [reason]\<rparr>) in
      if rk_reservation_id k \<noteq> rv_reservation_id r
      then Inl (ValueError ''Checkpoint belongs to another reservation'')
      else if rv_state r \<in> set RESERVATION_TERMINAL \<or> rk_completed_at k \<noteq> None
      then Inr (decide RA_WAIT ''checkpoint_not_actionable'')
      else if rp_checkpoint_retry_limit policy \<le> rk_attempt_count k
      then Inr (decide RA_OPERATIONAL_REVIEW ''checkpoint_retry_limit_reached'')
      else if now < rk_due_at k then Inr (decide RA_WAIT ''checkpoint_not_due'')
      else Inr (decide (action_by_state (rv_state r)) ''restart_safe_checkpoint_recovered''))"

end
