(* ===== verification/Scheduled_Service.thy ===== *)
theory Scheduled_Service
  imports Scheduled
begin

text \<open>
  The tables of scheduled rides with \<open>persistence/scheduled_repository.py\<close>, the planning service
  \<open>scheduled/application.py\<close>, the rider, passenger, driver and support operations of \<open>scheduled/integration.py\<close>, and the
  checkpoint worker of \<open>scheduled/workers.py\<close>. An operation that raises leaves the tables unchanged: its unit of work
  rolls back.
\<close>

section \<open>The tables\<close>

record scheduled_audit =
  sa_actor_id :: "uuid option"
  sa_action :: string
  sa_resource_id :: uuid
  sa_reason :: string
  sa_policy_version :: string

record scheduled_message =
  sg_aggregate_id :: uuid
  sg_event_type :: string
  sg_occurred_at :: instant

record reservation_history =
  sh_reservation_id :: uuid
  sh_from :: reservation_state
  sh_to :: reservation_state
  sh_reason :: string
  sh_version :: int
  sh_created_at :: instant

record reservation_consent =
  sn_reservation_id :: uuid
  sn_participant_id :: uuid
  sn_state :: consent_state
  sn_policy_version :: string
  sn_created_at :: instant

record pickup_verification =
  vf_verification_id :: uuid
  vf_reservation_id :: uuid
  vf_code_hash :: string
  vf_expires_at :: instant
  vf_attempt_count :: int
  vf_verified_at :: "instant option"
  vf_created_at :: instant

record reservation_request =
  sq_request_hash :: string
  sq_reservation_id :: uuid
  sq_created_at :: instant
  sq_expires_at :: instant

record scheduled_db =
  sc_reservations :: "(uuid, reservation) dict"
  sc_participants :: "(uuid, uuid \<times> participant) dict"
  sc_consents :: "reservation_consent list"
  sc_history :: "reservation_history list"
  sc_soft_plans :: "(uuid, soft_plan) dict"
  sc_commitments :: "(uuid, driver_commitment) dict"
  sc_verifications :: "(uuid, pickup_verification) dict"
  sc_idempotency :: "(uuid \<times> string, reservation_request) dict"
  sc_audit :: "scheduled_audit list"
  sc_outbox :: "scheduled_message list"

text \<open>Participants are keyed by their identifier, verifications by their reservation, which is unique.\<close>

section \<open>The repository\<close>

definition append_effects :: "scheduled_audit \<Rightarrow> string \<Rightarrow> uuid \<Rightarrow> instant \<Rightarrow> scheduled_db \<Rightarrow> scheduled_db" where
  "append_effects audit event_type aggregate_id now db =
     db\<lparr>sc_audit := sc_audit db @ [audit],
        sc_outbox := sc_outbox db @ [\<lparr>sg_aggregate_id = aggregate_id, sg_event_type = event_type, sg_occurred_at = now\<rparr>]\<rparr>"

definition get_reservation :: "scheduled_db \<Rightarrow> uuid \<Rightarrow> reservation option" where
  "get_reservation db k = dget (sc_reservations db) k"

definition participants_of :: "scheduled_db \<Rightarrow> uuid \<Rightarrow> participant list" where
  "participants_of db k = map snd (filter (\<lambda>(rid, _). rid = k) (dvalues (sc_participants db)))"

definition committed_driver_id :: "scheduled_db \<Rightarrow> uuid \<Rightarrow> uuid option result" where
  "committed_driver_id db k =
     bind_result (one_or_none (\<lambda>c. dm_reservation_id c = k \<and> dm_state c = CT_COMMITTED) (dvalues (sc_commitments db)))
       (\<lambda>row. Inr (map_option dm_driver_id row))"

fun insert_participants ::
  "uuid \<Rightarrow> participant list \<Rightarrow> (uuid, uuid \<times> participant) dict \<Rightarrow> (uuid, uuid \<times> participant) dict result" where
  "insert_participants k [] rows = Inr rows"
| "insert_participants k (p # ps) rows =
     (if dget rows (pt_participant_id p) \<noteq> None then Inl (IntegrityError ''reservation_participants'')
      else insert_participants k ps (dset (pt_participant_id p) (k, p) rows))"

definition repo_create_reservation ::
  "scheduled_db \<Rightarrow> reservation \<Rightarrow> participant list \<Rightarrow> string \<Rightarrow> string \<Rightarrow> scheduled_audit \<Rightarrow>
   (scheduled_db \<times> reservation \<times> bool) result" where
  "repo_create_reservation db r participants fingerprint request_hash audit =
     (case dget (sc_idempotency db) (rv_booker_id r, fingerprint) of
        Some existing \<Rightarrow>
          if sq_request_hash existing \<noteq> request_hash then Inl (ReservationConflict ''Idempotency key reused'')
          else
            (case get_reservation db (sq_reservation_id existing) of
               None \<Rightarrow> Inl (ReservationConflict ''Idempotency authority is inconsistent'')
             | Some stored \<Rightarrow> Inr (db, stored, False))
      | None \<Rightarrow>
          if dget (sc_reservations db) (rv_reservation_id r) \<noteq> None
          then Inl (ReservationConflict ''Concurrent reservation creation conflict'')
          else
            (case insert_participants (rv_reservation_id r) participants (sc_participants db) of
               Inl _ \<Rightarrow> Inl (ReservationConflict ''Concurrent reservation creation conflict'')
             | Inr rows \<Rightarrow>
                 Inr (append_effects audit ''reservation.requested'' (rv_reservation_id r) (rv_created_at r)
                   (db\<lparr>sc_reservations := dset (rv_reservation_id r) r (sc_reservations db), sc_participants := rows,
                       sc_idempotency := dset (rv_booker_id r, fingerprint)
                         \<lparr>sq_request_hash = request_hash, sq_reservation_id = rv_reservation_id r,
                          sq_created_at = rv_created_at r,
                          sq_expires_at = rv_created_at r + timedelta_seconds 604800\<rparr> (sc_idempotency db)\<rparr>),
                   r, True)))"

text \<open>
  \<open>UPDATE ... WHERE reservation_id = ... AND version = ...\<close> with the columns that \<open>change\<close> sets; the stored row must keep
  different places.
\<close>

definition update_reservation ::
  "scheduled_db \<Rightarrow> uuid \<Rightarrow> int \<Rightarrow> (reservation \<Rightarrow> bool) \<Rightarrow> (reservation \<Rightarrow> reservation) \<Rightarrow> exn \<Rightarrow> scheduled_db result" where
  "update_reservation db k expected also_where change conflict =
     (case dget (sc_reservations db) k of
        None \<Rightarrow> Inl conflict
      | Some row \<Rightarrow>
          if rv_version row \<noteq> expected \<or> \<not> also_where row then Inl conflict
          else if rv_pickup_place_id (change row) = rv_destination_place_id (change row)
          then Inl (IntegrityError ''reservation_distinct_places'')
          else Inr (db\<lparr>sc_reservations := dset k (change row) (sc_reservations db)\<rparr>))"

definition mutate_reservation ::
  "scheduled_db \<Rightarrow> reservation \<Rightarrow> int \<Rightarrow> reservation_state option \<Rightarrow> (reservation \<Rightarrow> reservation) \<Rightarrow> scheduled_audit \<Rightarrow>
   string \<Rightarrow> string \<Rightarrow> instant \<Rightarrow> (scheduled_db \<times> reservation) result" where
  "mutate_reservation db r expected state new_values audit event_type reason now =
     (if (case state of None \<Rightarrow> False
          | Some t \<Rightarrow> t \<noteq> rv_state r \<and> t \<notin> set (RESERVATION_TRANSITIONS (rv_state r)))
      then Inl (ReservationConflict ''Invalid reservation transition'')
      else
        (let change = (\<lambda>x. (new_values x)\<lparr>rv_state := (case state of None \<Rightarrow> rv_state x | Some t \<Rightarrow> t),
               rv_updated_at := now, rv_version := expected + 1\<rparr>) in
         bind_result (update_reservation db (rv_reservation_id r) expected (\<lambda>_. True) change
             (ReservationConflict ''Reservation version conflict'')) (\<lambda>db1.
         Inr (append_effects audit event_type (rv_reservation_id r) now
           (db1\<lparr>sc_history := sc_history db1 @
              [\<lparr>sh_reservation_id = rv_reservation_id r, sh_from = rv_state r,
                sh_to = (case state of None \<Rightarrow> rv_state r | Some t \<Rightarrow> t), sh_reason = reason,
                sh_version = expected + 1, sh_created_at = now\<rparr>]\<rparr>), change r))))"

definition record_consent ::
  "scheduled_db \<Rightarrow> reservation \<Rightarrow> participant \<Rightarrow> consent_state \<Rightarrow> int \<Rightarrow> scheduled_audit \<Rightarrow> instant \<Rightarrow>
   (scheduled_db \<times> reservation) result" where
  "record_consent db r p consent expected audit now =
     (if pt_role p \<noteq> PR_PASSENGER then Inl (ReservationConflict ''Only passenger consent is valid'')
      else
        (let participants =
               (case dget (sc_participants db) (pt_participant_id p) of
                  None \<Rightarrow> sc_participants db
                | Some (k, _) \<Rightarrow> dset (pt_participant_id p) (k, p\<lparr>pt_consent_state := consent\<rparr>) (sc_participants db));
             db1 = db\<lparr>sc_consents := sc_consents db @
               [\<lparr>sn_reservation_id = rv_reservation_id r, sn_participant_id = pt_participant_id p, sn_state = consent,
                 sn_policy_version = rv_policy_version r, sn_created_at = now\<rparr>], sc_participants := participants\<rparr>
         in mutate_reservation db1 r expected
              (Some (if consent = CN_CONFIRMED then RV_ACCEPTED else RV_PASSENGER_DECLINED)) (\<lambda>x. x) audit
              (''reservation.passenger_'' @ consent_value consent) (''passenger_'' @ consent_value consent) now))"

definition create_pickup_verification ::
  "scheduled_db \<Rightarrow> uuid \<Rightarrow> string \<Rightarrow> instant \<Rightarrow> instant \<Rightarrow> uuid \<Rightarrow> scheduled_db result" where
  "create_pickup_verification db k code_hash expires_at now verification_id =
     (if dget (sc_reservations db) k = None then Inl (IntegrityError ''reservation_pickup_verifications.reservation_id'')
      else if dget (sc_verifications db) k \<noteq> None \<or>
        list_ex (\<lambda>v. vf_verification_id v = verification_id) (dvalues (sc_verifications db))
      then Inl (IntegrityError ''reservation_pickup_verifications'')
      else if expires_at \<le> now then Inl (IntegrityError ''pickup_verification_lifetime'')
      else Inr (db\<lparr>sc_verifications := dset k \<lparr>vf_verification_id = verification_id, vf_reservation_id = k,
        vf_code_hash = code_hash, vf_expires_at = expires_at, vf_attempt_count = 0, vf_verified_at = None,
        vf_created_at = now\<rparr> (sc_verifications db)\<rparr>))"

definition repo_verify_pickup :: "scheduled_db \<Rightarrow> uuid \<Rightarrow> string \<Rightarrow> instant \<Rightarrow> scheduled_db \<times> bool" where
  "repo_verify_pickup db k code_hash now =
     (case dget (sc_verifications db) k of
        None \<Rightarrow> (db, False)
      | Some row \<Rightarrow>
          if vf_verified_at row \<noteq> None then (db, False)
          else if vf_expires_at row \<le> now \<or> 5 \<le> vf_attempt_count row then (db, False)
          else
            (let valid = (vf_code_hash row = code_hash) in
             (db\<lparr>sc_verifications := dset k
                (row\<lparr>vf_attempt_count := vf_attempt_count row + (if valid then 0 else 1),
                  vf_verified_at := (if valid then Some now else None)\<rparr>) (sc_verifications db)\<rparr>, valid)))"

definition repo_save_soft_plan ::
  "scheduled_db \<Rightarrow> reservation \<Rightarrow> soft_plan \<Rightarrow> int \<Rightarrow> scheduled_audit \<Rightarrow> (scheduled_db \<times> reservation) result" where
  "repo_save_soft_plan db r plan expected audit =
     (if dget (sc_soft_plans db) (so_soft_plan_id plan) \<noteq> None
      then Inl (IntegrityError ''reservation_soft_plans.soft_plan_id'')
      else if dget (sc_reservations db) (so_reservation_id plan) = None
      then Inl (IntegrityError ''reservation_soft_plans.reservation_id'')
      else
        (let count = rv_soft_replacement_count r + (if so_supersedes_soft_plan_id plan \<noteq> None then 1 else 0);
             change = (\<lambda>x. x\<lparr>rv_active_soft_plan_id := Some (so_soft_plan_id plan),
               rv_soft_replacement_count := count, rv_updated_at := so_selected_at plan, rv_version := expected + 1\<rparr>) in
         bind_result (update_reservation
             (db\<lparr>sc_soft_plans := dset (so_soft_plan_id plan) plan (sc_soft_plans db)\<rparr>)
             (rv_reservation_id r) expected (\<lambda>row. rv_active_commitment_id row = None) change
             (ReservationConflict ''Reservation changed or commitment locked'')) (\<lambda>db1.
         Inr (append_effects audit ''reservation.soft_planned'' (rv_reservation_id r) (so_selected_at plan) db1,
           change r))))"

text \<open>The exclusion constraint: committed windows \<open>[start, end)\<close> of one driver do not overlap.\<close>

definition windows_overlap :: "driver_commitment \<Rightarrow> driver_commitment \<Rightarrow> bool" where
  "windows_overlap c d \<longleftrightarrow> dm_window_started_at c < dm_window_ended_at d \<and> dm_window_started_at d < dm_window_ended_at c"

definition excluded_commitment :: "driver_commitment \<Rightarrow> driver_commitment \<Rightarrow> bool" where
  "excluded_commitment c d \<longleftrightarrow> dm_state c = CT_COMMITTED \<and> dm_state d = CT_COMMITTED \<and>
     dm_driver_id c = dm_driver_id d \<and> windows_overlap c d"

definition repo_commit_driver ::
  "scheduled_db \<Rightarrow> reservation \<Rightarrow> driver_commitment \<Rightarrow> int \<Rightarrow> scheduled_audit \<Rightarrow> (scheduled_db \<times> reservation) result" where
  "repo_commit_driver db r c expected audit =
     (if dget (sc_commitments db) (dm_commitment_id c) \<noteq> None \<or> dget (sc_reservations db) (dm_reservation_id c) = None \<or>
        list_ex (excluded_commitment c) (dvalues (sc_commitments db))
      then Inl (ReservationConflict ''Driver commitment overlaps'')
      else
        (let change = (\<lambda>x. x\<lparr>rv_active_commitment_id := Some (dm_commitment_id c), rv_state := RV_DRIVER_COMMITTED,
               rv_updated_at := dm_committed_at c, rv_version := expected + 1\<rparr>) in
         bind_result (update_reservation
             (db\<lparr>sc_commitments := dset (dm_commitment_id c) c (sc_commitments db)\<rparr>)
             (rv_reservation_id r) expected (\<lambda>row. rv_active_commitment_id row = None) change
             (ReservationConflict ''Commitment race lost'')) (\<lambda>db1.
         Inr (append_effects audit ''reservation.driver_committed'' (rv_reservation_id r) (dm_committed_at c) db1,
           change r))))"

section \<open>The planning service\<close>

record scheduled_env =
  xe_policy :: reservation_policy
  xe_fingerprint :: "string \<Rightarrow> string"
  xe_request_digest :: "payload \<Rightarrow> string"
  xe_pickup_digest :: "uuid \<Rightarrow> string \<Rightarrow> string"
  xe_name_id :: "uuid \<Rightarrow> uuid \<Rightarrow> string \<Rightarrow> uuid"
  xe_matches :: "subject \<Rightarrow> string \<Rightarrow> bool"

definition reservation_audit :: "reservation \<Rightarrow> uuid option \<Rightarrow> string \<Rightarrow> string \<Rightarrow> scheduled_audit" where
  "reservation_audit r actor action reason =
     \<lparr>sa_actor_id = actor, sa_action = action, sa_resource_id = rv_reservation_id r, sa_reason = reason,
      sa_policy_version = rv_policy_version r\<rparr>"

definition option_json :: "('a \<Rightarrow> json_value) \<Rightarrow> 'a option \<Rightarrow> json_value" where
  "option_json f v = (case v of None \<Rightarrow> JNull | Some x \<Rightarrow> f x)"

definition reservation_payload :: "reservation \<Rightarrow> participant \<Rightarrow> payload" where
  "reservation_payload r passenger =
     [(''booker'', JUuid (rv_booker_id r)), (''passenger_identity'', option_json JUuid (pt_identity_id passenger)),
      (''passenger_contact'', option_json JStr (pt_contact_reference passenger)),
      (''pickup'', JStr (rv_pickup_place_id r)), (''destination'', JStr (rv_destination_place_id r)),
      (''pickup_at'', JTime (rv_requested_pickup_at r)), (''quote'', JUuid (rv_quote_id r))]"

definition create_checks :: "reservation_policy \<Rightarrow> reservation \<Rightarrow> participant list \<Rightarrow> instant \<Rightarrow> (participant \<times> bool) result" where
  \<comment> \<open>the passenger, and whether the ride is booked for somebody else\<close>
  "create_checks policy r participants now =
     (let lead = rv_requested_pickup_at r - now;
          bookers = filter (\<lambda>p. pt_role p = PR_BOOKER) participants;
          passengers = filter (\<lambda>p. pt_role p = PR_PASSENGER) participants in
      if \<not> (timedelta_seconds (rp_minimum_booking_lead_seconds policy) \<le> lead \<and>
          lead \<le> timedelta_seconds (rp_maximum_booking_horizon_seconds policy))
      then Inl (ReservationConflict ''Requested pickup is outside booking horizon'')
      else if length bookers \<noteq> 1 \<or> length passengers \<noteq> 1
      then Inl (ReservationConflict ''Exactly one booker and passenger are required'')
      else if pt_participant_id (hd passengers) \<noteq> rv_passenger_participant_id r
      then Inl (ReservationConflict ''Passenger reference does not match'')
      else
        (let third_party = (pt_identity_id (hd bookers) \<noteq> pt_identity_id (hd passengers)) in
         if third_party \<and> pt_consent_state (hd passengers) \<notin> {CN_PENDING, CN_ASSISTED_REQUIRED, CN_CONFIRMED}
         then Inl (ReservationConflict ''Third-party passenger confirmation is required'')
         else Inr (hd passengers, third_party)))"

definition create_reservation ::
  "scheduled_env \<Rightarrow> scheduled_db \<Rightarrow> reservation \<Rightarrow> participant list \<Rightarrow> string \<Rightarrow> instant \<Rightarrow>
   (scheduled_db \<times> reservation \<times> bool) result" where
  "create_reservation env db r participants key now =
     bind_result (create_checks (xe_policy env) r participants now) (\<lambda>(passenger, third_party).
     repo_create_reservation db r participants (xe_fingerprint env key)
       (xe_request_digest env (reservation_payload r passenger))
       (reservation_audit r (Some (rv_booker_id r)) ''reservation.requested''
         (if third_party then ''third_party'' else ''self_booking'')))"

definition plan_reservation ::
  "scheduled_env \<Rightarrow> scheduled_db \<Rightarrow> reservation \<Rightarrow> scheduled_candidate list \<Rightarrow> instant \<Rightarrow> candidate_decision option \<Rightarrow> uuid \<Rightarrow>
   (scheduled_db \<times> reservation) result" where
  "plan_reservation env db r candidates now incumbent plan_id =
     (case rank_candidates (xe_name_id env) (xe_policy env) r candidates now None of
        [] \<Rightarrow> bind_result (reservation_transition r RV_NO_DRIVER_AVAILABLE now) (\<lambda>r'. Inr (db, r'))
      | selected # _ \<Rightarrow>
          (let verdict = (case incumbent of None \<Rightarrow> (True, [''soft_candidate_selected''])
               | Some i \<Rightarrow> should_replace_soft_candidate i selected r (xe_policy env)) in
           if \<not> fst verdict then Inr (db, r)
           else
             bind_result (plan_soft_candidate r selected now
                 (now + timedelta_seconds (rp_soft_planning_lead_seconds (xe_policy env))) None plan_id) (\<lambda>plan.
             repo_save_soft_plan db r plan (rv_version r)
               (reservation_audit r None ''reservation.soft_plan.selected'' (hd (snd verdict))))))"

definition authorize_committed_replacement :: "scheduled_env \<Rightarrow> reservation \<Rightarrow> string \<Rightarrow> unit result" where
  "authorize_committed_replacement env r trigger =
     (let verdict = validate_formal_replacement r trigger (xe_policy env) in
      ensure (fst verdict) (ReservationConflict (snd verdict)))"

definition new_commitment ::
  "reservation_policy \<Rightarrow> reservation \<Rightarrow> candidate_decision \<Rightarrow> instant \<Rightarrow> uuid \<Rightarrow> driver_commitment" where
  "new_commitment policy r decision now commitment_id =
     (let lead = timedelta_seconds (rp_formal_commitment_lead_seconds policy) in
      \<lparr>dm_commitment_id = commitment_id, dm_reservation_id = rv_reservation_id r, dm_driver_id = cd_driver_id decision,
       dm_state = CT_COMMITTED, dm_window_started_at = rv_requested_pickup_at r - lead,
       dm_window_ended_at = rv_requested_pickup_at r + lead, dm_committed_at = now,
       dm_policy_version = rp_version policy, dm_reason_code = ''driver_committed'', dm_version = 1\<rparr>)"

definition commit_reservation ::
  "scheduled_env \<Rightarrow> scheduled_db \<Rightarrow> reservation \<Rightarrow> candidate_decision \<Rightarrow> instant \<Rightarrow> uuid \<Rightarrow> (scheduled_db \<times> reservation) result" where
  "commit_reservation env db r decision now commitment_id =
     bind_result (valid_commitment (new_commitment (xe_policy env) r decision now commitment_id)) (\<lambda>c.
     repo_commit_driver db r c (rv_version r)
       (reservation_audit r None ''reservation.driver.committed'' ''driver_committed''))"

section \<open>The operations of riders, passengers, drivers and support\<close>

datatype assurance_level = AL_BASIC | AL_MULTI_FACTOR | AL_PHISHING_RESISTANT

type_synonym assured_subject = "subject \<times> assurance_level"

abbreviation subject_id :: "assured_subject \<Rightarrow> uuid" where "subject_id s \<equiv> fst (fst s)"

abbreviation subject_type :: "assured_subject \<Rightarrow> identity_type" where "subject_type s \<equiv> snd (fst s)"

datatype passenger_channel = PC_IDENTITY | PC_VERIFIED_CONTACT | PC_ASSISTED

record scheduled_create_command =
  mc_pickup_place_id :: string
  mc_destination_place_id :: string
  mc_service_type :: string
  mc_quote_id :: uuid
  mc_requested_pickup_at :: instant
  mc_requested_timezone :: string
  mc_passenger_channel :: passenger_channel
  mc_passenger_contact_reference :: "string option"
  mc_trusted_contact_reference :: "string option"
  mc_future_payer_reference :: "string option"

definition reference_ok :: "string option \<Rightarrow> bool" where
  "reference_ok v \<longleftrightarrow> (case v of None \<Rightarrow> True | Some r \<Rightarrow> length_between 16 128 r)"

definition new_scheduled_command :: "py_datetime \<Rightarrow> scheduled_create_command \<Rightarrow> scheduled_create_command result" where
  "new_scheduled_command at c =
     (if \<not> (length_between 8 128 (mc_pickup_place_id c) \<and> length_between 8 128 (mc_destination_place_id c) \<and>
          code_pattern 1 (mc_service_type c) \<and> length_between 1 64 (mc_requested_timezone c) \<and>
          reference_ok (mc_passenger_contact_reference c) \<and> reference_ok (mc_trusted_contact_reference c) \<and>
          reference_ok (mc_future_payer_reference c))
      then Inl (ValidationError ''CreateScheduledReservationCommand'')
      else if \<not> is_aware at then Inl (ValidationError ''Pickup time must be timezone-aware'')
      else if mc_passenger_channel c = PC_IDENTITY \<and> mc_passenger_contact_reference c \<noteq> None
      then Inl (ValidationError ''Identity passenger cannot include contact reference'')
      else if mc_passenger_channel c \<noteq> PC_IDENTITY \<and> mc_passenger_contact_reference c = None
      then Inl (ValidationError ''Contact or assisted passenger requires contact reference'')
      else if mc_pickup_place_id c = mc_destination_place_id c
      then Inl (ValidationError ''Pickup and destination must differ'')
      else Inr (c\<lparr>mc_requested_pickup_at := instant_of at\<rparr>))"

record scheduled_update_command =
  mu_requested_pickup_at :: "instant option"
  mu_destination_place_id :: "string option"
  mu_expected_version :: int

definition new_update_command :: "py_datetime option \<Rightarrow> string option \<Rightarrow> int \<Rightarrow> scheduled_update_command result" where
  "new_update_command at destination expected =
     (if \<not> (case destination of None \<Rightarrow> True | Some d \<Rightarrow> length_between 8 128 d) \<or> expected < 1
      then Inl (ValidationError ''UpdateReservationCommand'')
      else if \<not> (case at of None \<Rightarrow> True | Some t \<Rightarrow> is_aware t)
      then Inl (ValidationError ''Pickup time must be timezone-aware'')
      else Inr \<lparr>mu_requested_pickup_at = map_option instant_of at, mu_destination_place_id = destination,
        mu_expected_version = expected\<rparr>)"

record public_reservation =
  pu_reservation_id :: uuid
  pu_state :: string
  pu_pickup_place_id :: string
  pu_destination_place_id :: string
  pu_service_type :: string
  pu_requested_pickup_at :: instant
  pu_requested_timezone :: string
  pu_version :: int
  pu_requires_passenger_confirmation :: bool

definition public_reservation_of :: "reservation \<Rightarrow> public_reservation" where
  "public_reservation_of r =
     \<lparr>pu_reservation_id = rv_reservation_id r, pu_state = reservation_value (rv_state r),
      pu_pickup_place_id = rv_pickup_place_id r, pu_destination_place_id = rv_destination_place_id r,
      pu_service_type = rv_service_type r, pu_requested_pickup_at = rv_requested_pickup_at r,
      pu_requested_timezone = rv_requested_timezone r, pu_version = rv_version r,
      pu_requires_passenger_confirmation = (rv_state r = RV_PASSENGER_CONFIRMATION_PENDING)\<rparr>"

definition require_identity_type :: "assured_subject \<Rightarrow> identity_type \<Rightarrow> unit result" where
  "require_identity_type s expected =
     ensure (subject_type s = expected) (ReservationConflict ''Identity type is not authorized'')"

definition require_step_up :: "assured_subject \<Rightarrow> unit result" where
  "require_step_up s = ensure (snd s \<noteq> AL_BASIC) (ReservationConflict ''Step-up authentication required'')"

definition owned_reservation :: "scheduled_db \<Rightarrow> assured_subject \<Rightarrow> uuid \<Rightarrow> bool \<Rightarrow> bool \<Rightarrow> reservation result" where
  "owned_reservation db s k booker_only allow_driver =
     (case get_reservation db k of
        None \<Rightarrow> Inl (ReservationConflict ''Reservation not found'')
      | Some item \<Rightarrow>
          if rv_booker_id item = subject_id s then Inr item
          else if \<not> booker_only \<and>
            (case find (\<lambda>p. pt_role p = PR_PASSENGER) (participants_of db k) of
               None \<Rightarrow> False | Some p \<Rightarrow> pt_identity_id p = Some (subject_id s))
          then Inr item
          else if \<not> allow_driver then Inl (ReservationConflict ''Reservation ownership required'')
          else bind_result (committed_driver_id db k) (\<lambda>driver.
            if driver = Some (subject_id s) then Inr item
            else Inl (ReservationConflict ''Reservation ownership required'')))"

record create_draws =
  cr_booker :: uuid
  cr_passenger :: uuid
  cr_trusted :: uuid
  cr_payer :: uuid
  cr_reservation :: uuid

definition contact_participant :: "uuid \<Rightarrow> participant_role \<Rightarrow> string \<Rightarrow> participant" where
  "contact_participant k role reference =
     \<lparr>pt_participant_id = k, pt_role = role, pt_kind = PK_VERIFIED_CONTACT, pt_identity_id = None,
      pt_contact_reference = Some reference, pt_consent_state = CN_NOT_REQUIRED\<rparr>"

definition booker_participant :: "assured_subject \<Rightarrow> uuid \<Rightarrow> participant" where
  "booker_participant s k =
     \<lparr>pt_participant_id = k, pt_role = PR_BOOKER, pt_kind = PK_IDENTITY, pt_identity_id = Some (subject_id s),
      pt_contact_reference = None, pt_consent_state = CN_NOT_REQUIRED\<rparr>"

fun channel_kind :: "passenger_channel \<Rightarrow> participant_kind" where
  "channel_kind PC_IDENTITY = PK_IDENTITY"
| "channel_kind PC_VERIFIED_CONTACT = PK_VERIFIED_CONTACT"
| "channel_kind PC_ASSISTED = PK_ASSISTED"

fun channel_consent :: "passenger_channel \<Rightarrow> consent_state" where
  "channel_consent PC_VERIFIED_CONTACT = CN_PENDING"
| "channel_consent PC_ASSISTED = CN_ASSISTED_REQUIRED"
| "channel_consent PC_IDENTITY = CN_NOT_REQUIRED"

definition passenger_participant :: "assured_subject \<Rightarrow> scheduled_create_command \<Rightarrow> uuid \<Rightarrow> participant" where
  "passenger_participant s c k =
     (let third_party = (mc_passenger_channel c \<noteq> PC_IDENTITY) in
      \<lparr>pt_participant_id = k, pt_role = PR_PASSENGER, pt_kind = channel_kind (mc_passenger_channel c),
       pt_identity_id = (if \<not> third_party then Some (subject_id s) else None),
       pt_contact_reference = (if third_party then mc_passenger_contact_reference c else None),
       pt_consent_state = channel_consent (mc_passenger_channel c)\<rparr>)"

definition scheduled_participants :: "assured_subject \<Rightarrow> scheduled_create_command \<Rightarrow> create_draws \<Rightarrow> participant list" where
  "scheduled_participants s c dw =
     [booker_participant s (cr_booker dw), passenger_participant s c (cr_passenger dw)] @
     (case mc_trusted_contact_reference c of None \<Rightarrow> []
      | Some r \<Rightarrow> [contact_participant (cr_trusted dw) PR_TRUSTED_CONTACT r]) @
     (case mc_future_payer_reference c of None \<Rightarrow> []
      | Some r \<Rightarrow> [contact_participant (cr_payer dw) PR_FUTURE_PAYER r])"

definition new_reservation ::
  "reservation_policy \<Rightarrow> assured_subject \<Rightarrow> scheduled_create_command \<Rightarrow> instant \<Rightarrow> create_draws \<Rightarrow> reservation" where
  "new_reservation policy s c now dw =
     \<lparr>rv_reservation_id = cr_reservation dw, rv_booker_id = subject_id s, rv_passenger_participant_id = cr_passenger dw,
      rv_pickup_place_id = mc_pickup_place_id c, rv_destination_place_id = mc_destination_place_id c,
      rv_service_type = mc_service_type c, rv_quote_id = mc_quote_id c,
      rv_requested_pickup_at = mc_requested_pickup_at c, rv_requested_timezone = mc_requested_timezone c,
      rv_state = (if mc_passenger_channel c \<noteq> PC_IDENTITY then RV_PASSENGER_CONFIRMATION_PENDING else RV_ACCEPTED),
      rv_policy_id = rp_policy_id policy, rv_policy_version = rp_version policy, rv_created_at = now,
      rv_updated_at = now, rv_version = 1, rv_active_soft_plan_id = None, rv_active_commitment_id = None,
      rv_activated_ride_id = None, rv_airport_context_id = None, rv_soft_replacement_count = 0,
      rv_formal_replacement_count = 0\<rparr>"

fun valid_participants :: "participant list \<Rightarrow> participant list result" where
  "valid_participants [] = Inr []"
| "valid_participants (p # ps) =
     bind_result (valid_participant p) (\<lambda>q. bind_result (valid_participants ps) (\<lambda>qs. Inr (q # qs)))"

definition create_scheduled ::
  "scheduled_env \<Rightarrow> scheduled_db \<Rightarrow> assured_subject \<Rightarrow> scheduled_create_command \<Rightarrow> string \<Rightarrow> instant \<Rightarrow> create_draws \<Rightarrow>
   (scheduled_db \<times> public_reservation \<times> bool) result" where
  "create_scheduled env db s c key now dw =
     bind_result (require_identity_type s ID_RIDER) (\<lambda>_.
     bind_result (valid_participants (scheduled_participants s c dw)) (\<lambda>participants.
     bind_result (valid_reservation (new_reservation (xe_policy env) s c now dw)) (\<lambda>item.
     bind_result (create_reservation env db item participants key now) (\<lambda>(db', stored, created).
     Inr (db', public_reservation_of stored, created)))))"

definition read_scheduled :: "scheduled_db \<Rightarrow> assured_subject \<Rightarrow> uuid \<Rightarrow> public_reservation result" where
  "read_scheduled db s k =
     bind_result (owned_reservation db s k False True) (\<lambda>item. Inr (public_reservation_of item))"

definition subject_audit :: "reservation \<Rightarrow> assured_subject \<Rightarrow> string \<Rightarrow> string \<Rightarrow> scheduled_audit" where
  "subject_audit r s action reason = reservation_audit r (Some (subject_id s)) action reason"

definition update_values :: "scheduled_update_command \<Rightarrow> reservation \<Rightarrow> reservation" where
  "update_values c x =
     x\<lparr>rv_requested_pickup_at := (case mu_requested_pickup_at c of None \<Rightarrow> rv_requested_pickup_at x | Some t \<Rightarrow> t),
       rv_destination_place_id := (case mu_destination_place_id c of None \<Rightarrow> rv_destination_place_id x | Some d \<Rightarrow> d)\<rparr>"

definition update_scheduled ::
  "scheduled_db \<Rightarrow> assured_subject \<Rightarrow> uuid \<Rightarrow> scheduled_update_command \<Rightarrow> instant \<Rightarrow> (scheduled_db \<times> public_reservation) result" where
  "update_scheduled db s k c now =
     bind_result (require_step_up s) (\<lambda>_.
     bind_result (owned_reservation db s k True False) (\<lambda>item.
     if rv_state item \<notin> {RV_PASSENGER_CONFIRMATION_PENDING, RV_ACCEPTED}
     then Inl (ReservationConflict ''Reservation cannot be updated'')
     else
       bind_result (mutate_reservation db item (mu_expected_version c) None (update_values c)
           (subject_audit item s ''reservation.updated'' ''booker_update'') ''reservation.updated'' ''booker_update'' now)
         (\<lambda>(db', stored). Inr (db', public_reservation_of stored))))"

definition consent_allowed :: "scheduled_env \<Rightarrow> assured_subject \<Rightarrow> participant \<Rightarrow> bool" where
  "consent_allowed env s p \<longleftrightarrow>
     pt_identity_id p = Some (subject_id s) \<or>
     (case pt_contact_reference p of None \<Rightarrow> False | Some r \<Rightarrow> xe_matches env (fst s) r) \<or>
     (pt_kind p = PK_ASSISTED \<and> subject_type s \<in> {ID_STAFF, ID_ADMINISTRATOR} \<and> snd s \<noteq> AL_BASIC)"

definition confirm_or_decline ::
  "scheduled_env \<Rightarrow> scheduled_db \<Rightarrow> assured_subject \<Rightarrow> uuid \<Rightarrow> bool \<Rightarrow> instant \<Rightarrow> (scheduled_db \<times> public_reservation) result" where
  "confirm_or_decline env db s k confirmed now =
     (case get_reservation db k of
        None \<Rightarrow> Inl (ReservationConflict ''Reservation confirmation unavailable'')
      | Some item \<Rightarrow>
          if rv_state item \<noteq> RV_PASSENGER_CONFIRMATION_PENDING
          then Inl (ReservationConflict ''Reservation confirmation unavailable'')
          else
            (case find (\<lambda>p. pt_role p = PR_PASSENGER) (participants_of db k) of
               None \<Rightarrow> Inl StopIteration
             | Some passenger \<Rightarrow>
                 if \<not> consent_allowed env s passenger
                 then Inl (ReservationConflict ''Passenger ownership required'')
                 else
                   (let consent = (if confirmed then CN_CONFIRMED else CN_DECLINED) in
                    bind_result (record_consent db item passenger consent (rv_version item)
                        (subject_audit item s (''reservation.passenger_'' @ consent_value consent)
                          (''passenger_'' @ consent_value consent)) now)
                      (\<lambda>(db', stored). Inr (db', public_reservation_of stored)))))"

definition cancel_scheduled ::
  "scheduled_db \<Rightarrow> assured_subject \<Rightarrow> uuid \<Rightarrow> instant \<Rightarrow> (scheduled_db \<times> public_reservation) result" where
  "cancel_scheduled db s k now =
     bind_result (owned_reservation db s k False False) (\<lambda>item.
     if rv_state item \<in> {RV_ACTIVATED_AS_RIDE, RV_FULFILLED}
     then Inl (ReservationConflict ''Reservation cannot be cancelled'')
     else
       bind_result (mutate_reservation db item (rv_version item) (Some RV_RIDER_CANCELLED) (\<lambda>x. x)
           (subject_audit item s ''reservation.cancelled'' ''authorized_cancellation'') ''reservation.cancelled''
           ''authorized_cancellation'' now)
         (\<lambda>(db', stored). Inr (db', public_reservation_of stored)))"

definition create_pickup_code ::
  "scheduled_env \<Rightarrow> scheduled_db \<Rightarrow> uuid \<Rightarrow> string \<Rightarrow> instant \<Rightarrow> uuid \<Rightarrow> scheduled_db result" where
  "create_pickup_code env db k code now verification_id =
     create_pickup_verification db k (xe_pickup_digest env k code) (now + timedelta_seconds 600) now verification_id"

definition require_committed_driver :: "scheduled_db \<Rightarrow> assured_subject \<Rightarrow> uuid \<Rightarrow> unit result" where
  "require_committed_driver db s k =
     bind_result (committed_driver_id db k) (\<lambda>driver.
     ensure (driver = Some (subject_id s)) (ReservationConflict ''Driver ownership required''))"

definition verify_scheduled_pickup ::
  "scheduled_env \<Rightarrow> scheduled_db \<Rightarrow> assured_subject \<Rightarrow> uuid \<Rightarrow> string \<Rightarrow> instant \<Rightarrow> uuid \<Rightarrow>
   (scheduled_db \<times> public_reservation) result" where
  "verify_scheduled_pickup env db s k code now ride_id =
     bind_result (require_identity_type s ID_DRIVER) (\<lambda>_.
     bind_result (owned_reservation db s k False True) (\<lambda>item.
     bind_result (require_committed_driver db s k) (\<lambda>_.
     (let (db1, ok) = repo_verify_pickup db (rv_reservation_id item) (xe_pickup_digest env k code) now in
      if \<not> ok then Inl (ReservationConflict ''Pickup verification failed'')
      else
        bind_result (mutate_reservation db1 item (rv_version item) (Some RV_ACTIVATED_AS_RIDE)
            (\<lambda>x. x\<lparr>rv_activated_ride_id := Some ride_id\<rparr>)
            (subject_audit item s ''reservation.activated_as_ride'' ''pickup_verified'')
            ''reservation.activated_as_ride'' ''pickup_verified'' now)
          (\<lambda>(db', stored). Inr (db', public_reservation_of stored))))))"

definition driver_commitment_response ::
  "scheduled_db \<Rightarrow> assured_subject \<Rightarrow> uuid \<Rightarrow> bool \<Rightarrow> int \<Rightarrow> instant \<Rightarrow> (scheduled_db \<times> public_reservation) result" where
  "driver_commitment_response db s k accepted expected now =
     bind_result (require_identity_type s ID_DRIVER) (\<lambda>_.
     bind_result (owned_reservation db s k False True) (\<lambda>item.
     bind_result (require_committed_driver db s k) (\<lambda>_.
     (let event = (if accepted then ''reservation.driver_committed'' else ''reservation.driver_commitment_declined'') in
      bind_result (mutate_reservation db item expected (if accepted then None else Some RV_REASSIGNING) (\<lambda>x. x)
          (subject_audit item s event (if accepted then ''accepted'' else ''driver_declined'')) event
          (if accepted then ''accepted'' else ''driver_declined_no_penalty'') now)
        (\<lambda>(db', stored). Inr (db', public_reservation_of stored))))))"

definition driver_progress ::
  "scheduled_db \<Rightarrow> assured_subject \<Rightarrow> uuid \<Rightarrow> bool \<Rightarrow> instant \<Rightarrow> (scheduled_db \<times> public_reservation) result" where
  "driver_progress db s k ready now =
     bind_result (require_identity_type s ID_DRIVER) (\<lambda>_.
     bind_result (owned_reservation db s k False True) (\<lambda>item.
     (let target = (if ready then RV_READY_FOR_PICKUP else RV_DRIVER_EN_ROUTE) in
      bind_result (mutate_reservation db item (rv_version item) (Some target) (\<lambda>x. x)
          (subject_audit item s (''reservation.'' @ reservation_value target) (reservation_value target))
          (''reservation.'' @ reservation_value target) (reservation_value target) now)
        (\<lambda>(db', stored). Inr (db', public_reservation_of stored)))))"

definition support_handoff ::
  "scheduled_db \<Rightarrow> assured_subject \<Rightarrow> uuid \<Rightarrow> instant \<Rightarrow> (scheduled_db \<times> public_reservation) result" where
  "support_handoff db s k now =
     (if subject_type s \<notin> {ID_STAFF, ID_ADMINISTRATOR}
      then Inl (ReservationConflict ''Support authorization required'')
      else
        bind_result (require_step_up s) (\<lambda>_.
        case get_reservation db k of
          None \<Rightarrow> Inl (ReservationConflict ''Reservation not found'')
        | Some item \<Rightarrow>
            bind_result (mutate_reservation db item (rv_version item) None (\<lambda>x. x)
                (subject_audit item s ''reservation.support_handoff'' ''authorized_support'')
                ''reservation.support_handoff'' ''authorized_support'' now)
              (\<lambda>(db', stored). Inr (db', public_reservation_of stored))))"

section \<open>The checkpoint worker\<close>

datatype scheduled_worker_kind = SW_PLANNING | SW_DRIVER_COMMITMENT | SW_REVALIDATION | SW_SOFT_REPLACEMENT
  | SW_FORMAL_REASSIGNMENT | SW_RESERVATION_EXPIRY | SW_PASSENGER_CONFIRMATION_EXPIRY | SW_PRE_DISPATCH
  | SW_AIRPORT_REFRESH | SW_RECOVERY | SW_OUTBOX_DELIVERY

fun worker_kind_value :: "scheduled_worker_kind \<Rightarrow> string" where
  "worker_kind_value SW_PLANNING = ''planning''"
| "worker_kind_value SW_DRIVER_COMMITMENT = ''driver_commitment''"
| "worker_kind_value SW_REVALIDATION = ''revalidation''"
| "worker_kind_value SW_SOFT_REPLACEMENT = ''soft_replacement''"
| "worker_kind_value SW_FORMAL_REASSIGNMENT = ''formal_reassignment''"
| "worker_kind_value SW_RESERVATION_EXPIRY = ''reservation_expiry''"
| "worker_kind_value SW_PASSENGER_CONFIRMATION_EXPIRY = ''passenger_confirmation_expiry''"
| "worker_kind_value SW_PRE_DISPATCH = ''pre_dispatch''"
| "worker_kind_value SW_AIRPORT_REFRESH = ''airport_refresh''"
| "worker_kind_value SW_RECOVERY = ''recovery''"
| "worker_kind_value SW_OUTBOX_DELIVERY = ''outbox_delivery''"

text \<open>A row of \<open>reservation_checkpoints\<close>; the keys of its payload that the worker reads or writes are fields.
  The due time is compared as ISO text there; in UTC, which the worker passes, that is the order of instants.\<close>

record checkpoint_row =
  kr_checkpoint_id :: uuid
  kr_reservation_id :: uuid
  kr_kind :: string
  kr_due_at :: instant
  kr_completed_at :: "instant option"
  kr_attempt_count :: int
  kr_claimed_by :: "string option"
  kr_claimed_at :: "instant option"
  kr_created_at :: instant
  kr_version :: int

record claimed_checkpoint =
  kc_checkpoint_id :: uuid
  kc_reservation_id :: uuid
  kc_kind :: scheduled_worker_kind
  kc_attempt_count :: int

record scheduled_worker_result =
  kw_ran :: bool
  kw_claimed :: nat
  kw_completed :: nat
  kw_retried :: nat

definition claim_due :: "checkpoint_row list \<Rightarrow> scheduled_worker_kind \<Rightarrow> instant \<Rightarrow> nat \<Rightarrow> checkpoint_row list" where
  "claim_due rows kind now limit =
     take limit (sort_key kr_created_at
       (filter (\<lambda>k. kr_kind k = worker_kind_value kind \<and> kr_due_at k \<le> now \<and> kr_completed_at k = None) rows))"

definition claim_checkpoints ::
  "checkpoint_row list \<Rightarrow> scheduled_worker_kind \<Rightarrow> string \<Rightarrow> instant \<Rightarrow> nat \<Rightarrow> checkpoint_row list \<times> claimed_checkpoint list" where
  "claim_checkpoints rows kind worker_id now limit =
     (let due = claim_due rows kind now limit in
      (map (\<lambda>k. if kr_checkpoint_id k \<in> set (map kr_checkpoint_id due)
         then k\<lparr>kr_claimed_by := Some worker_id, kr_claimed_at := Some now,
           kr_attempt_count := kr_attempt_count k + 1, kr_version := kr_version k + 1\<rparr> else k) rows,
       map (\<lambda>k. \<lparr>kc_checkpoint_id = kr_checkpoint_id k, kc_reservation_id = kr_reservation_id k, kc_kind = kind,
         kc_attempt_count = kr_attempt_count k + 1\<rparr>) due))"

definition complete_checkpoint :: "checkpoint_row list \<Rightarrow> uuid \<Rightarrow> instant \<Rightarrow> checkpoint_row list result" where
  "complete_checkpoint rows k now =
     (if \<not> list_ex (\<lambda>x. kr_checkpoint_id x = k) rows then Inl NoResultFound
      else Inr (map (\<lambda>x. if kr_checkpoint_id x = k
        then x\<lparr>kr_completed_at := Some now, kr_version := kr_version x + 1\<rparr> else x) rows))"

fun process_claimed ::
  "(claimed_checkpoint \<Rightarrow> instant \<Rightarrow> bool) \<Rightarrow> instant \<Rightarrow> claimed_checkpoint list \<Rightarrow> checkpoint_row list \<Rightarrow>
   checkpoint_row list \<times> nat \<times> nat" where
  \<comment> \<open>the processor is a parameter: whether it returns or raises on a checkpoint; its writes are to other tables\<close>
  "process_claimed process now [] rows = (rows, 0, 0)"
| "process_claimed process now (k # ks) rows =
     (case (if process k now then complete_checkpoint rows (kc_checkpoint_id k) now else Inl (ValueError ''processor'')) of
        Inl _ \<Rightarrow> (let (rows', c, r) = process_claimed process now ks rows in (rows', c, r + 1))
      | Inr rows1 \<Rightarrow> (let (rows', c, r) = process_claimed process now ks rows1 in (rows', c + 1, r)))"

definition scheduled_run_once ::
  "(claimed_checkpoint \<Rightarrow> instant \<Rightarrow> bool) \<Rightarrow> scheduled_worker_kind \<Rightarrow> string \<Rightarrow> nat \<Rightarrow> bool \<Rightarrow> checkpoint_row list \<Rightarrow> instant \<Rightarrow>
   checkpoint_row list \<times> scheduled_worker_result" where
  "scheduled_run_once process kind worker_id batch_limit acquired rows now =
     (if \<not> acquired then (rows, \<lparr>kw_ran = False, kw_claimed = 0, kw_completed = 0, kw_retried = 0\<rparr>)
      else
        (let (rows1, ks) = claim_checkpoints rows kind worker_id now batch_limit;
             (rows2, c, r) = process_claimed process now ks rows1 in
         (rows2, \<lparr>kw_ran = True, kw_claimed = length ks, kw_completed = c, kw_retried = r\<rparr>)))"

definition new_scheduled_worker :: "int \<Rightarrow> unit result" where
  "new_scheduled_worker batch_limit =
     ensure (1 \<le> batch_limit \<and> batch_limit \<le> 500) (ValueError ''Scheduled worker batch must be between 1 and 500'')"

end
