(* ===== verification/Scheduled_Inv.thy ===== *)
theory Scheduled_Inv
  imports Scheduled_Service
begin

text \<open>
  What the tables of scheduled rides promise, and that every operation keeps it: each operation has one of seven
  effects on reservations, participants, commitments, verifications and idempotency rows, and the invariant is
  proved over the effects.
\<close>

section \<open>The lifecycle of reservations\<close>

interpretation reservation: lifecycle RESERVATION_TRANSITIONS "\<lambda>s. s \<in> set RESERVATION_TERMINAL"
  by unfold_locales (auto simp: RESERVATION_TERMINAL_def)

lemma distinct_dvalues:
  assumes "dict_ok d" and "\<And>k v. dget d k = Some v \<Longrightarrow> f v = k"
  shows "distinct (dvalues d)"
proof -
  have "map f (dvalues d) = map fst d"
    using assms by (auto simp: dvalues_def dict_ok_def intro!: map_cong)
  then have "distinct (map f (dvalues d))" using assms(1) by (simp add: dict_ok_def)
  then show ?thesis by (simp add: distinct_map)
qed

lemma at_most_one:
  assumes "distinct xs" and "\<And>x y. x \<in> set xs \<Longrightarrow> y \<in> set xs \<Longrightarrow> x = y"
  shows "xs = [] \<or> (\<exists>x. xs = [x])"
proof (cases xs)
  case (Cons x ys)
  show ?thesis
  proof (cases ys)
    case (Cons y zs)
    then show ?thesis using \<open>xs = x # ys\<close> assms(1) assms(2) [of x y] by simp
  qed (simp add: Cons)
qed simp

section \<open>Effects\<close>

definition scheduled_tables where
  "scheduled_tables db = (sc_participants db, sc_commitments db, sc_verifications db, sc_idempotency db)"

text \<open>What a step keeps of a reservation, and the targets of the operations other than creation.\<close>

definition reservation_moved :: "reservation \<Rightarrow> reservation \<Rightarrow> bool" where
  "reservation_moved r r' \<longleftrightarrow> rv_reservation_id r' = rv_reservation_id r \<and> rv_booker_id r' = rv_booker_id r \<and>
     rv_passenger_participant_id r' = rv_passenger_participant_id r \<and> rv_version r' = rv_version r + 1 \<and>
     rv_pickup_place_id r' \<noteq> rv_destination_place_id r'"

definition progress_targets :: "reservation_state set" where
  "progress_targets = {RV_RIDER_CANCELLED, RV_REASSIGNING, RV_DRIVER_EN_ROUTE, RV_READY_FOR_PICKUP}"

inductive scheduled_effect :: "scheduled_db \<Rightarrow> scheduled_db \<Rightarrow> bool" where
  same: "sc_reservations db' = sc_reservations db \<Longrightarrow> scheduled_tables db' = scheduled_tables db \<Longrightarrow> scheduled_effect db db'"
| created: "dget (sc_reservations db) k = None \<Longrightarrow> rv_reservation_id r = k \<Longrightarrow> rv_version r = 1 \<Longrightarrow>
    rv_pickup_place_id r \<noteq> rv_destination_place_id r \<Longrightarrow>
    rv_state r = (if pt_identity_id p = Some (rv_booker_id r) then RV_ACCEPTED else RV_PASSENGER_CONFIRMATION_PENDING) \<Longrightarrow>
    rv_active_commitment_id r = None \<Longrightarrow> rv_activated_ride_id r = None \<Longrightarrow>
    insert_participants k ps (sc_participants db) = Inr rows \<Longrightarrow> filter (\<lambda>q. pt_role q = PR_PASSENGER) ps = [p] \<Longrightarrow>
    pt_participant_id p = rv_passenger_participant_id r \<Longrightarrow>
    sc_reservations db' = dset k r (sc_reservations db) \<Longrightarrow>
    scheduled_tables db' = (rows, sc_commitments db, sc_verifications db,
      dset (rv_booker_id r, f) \<lparr>sq_request_hash = h, sq_reservation_id = k, sq_created_at = t, sq_expires_at = u\<rparr>
        (sc_idempotency db)) \<Longrightarrow>
    scheduled_effect db db'"
| moved: "dget (sc_reservations db) k = Some r \<Longrightarrow> reservation_moved r r' \<Longrightarrow>
    rv_active_commitment_id r' = rv_active_commitment_id r \<Longrightarrow> rv_activated_ride_id r' = rv_activated_ride_id r \<Longrightarrow>
    rv_state r' = rv_state r \<or> rv_state r' \<in> progress_targets \<and> allows RESERVATION_TRANSITIONS (rv_state r) (rv_state r') \<Longrightarrow>
    sc_reservations db' = dset k r' (sc_reservations db) \<Longrightarrow> scheduled_tables db' = scheduled_tables db \<Longrightarrow>
    scheduled_effect db db'"
| consented: "dget (sc_reservations db) k = Some r \<Longrightarrow> rv_state r = RV_PASSENGER_CONFIRMATION_PENDING \<Longrightarrow>
    find (\<lambda>p. pt_role p = PR_PASSENGER) (participants_of db k) = Some p \<Longrightarrow> n \<in> {CN_CONFIRMED, CN_DECLINED} \<Longrightarrow>
    reservation_moved r r' \<Longrightarrow> rv_active_commitment_id r' = rv_active_commitment_id r \<Longrightarrow>
    rv_activated_ride_id r' = rv_activated_ride_id r \<Longrightarrow>
    rv_state r' = (if n = CN_CONFIRMED then RV_ACCEPTED else RV_PASSENGER_DECLINED) \<Longrightarrow>
    sc_reservations db' = dset k r' (sc_reservations db) \<Longrightarrow>
    scheduled_tables db' =
      ((case dget (sc_participants db) (pt_participant_id p) of None \<Rightarrow> sc_participants db
        | Some (l, _) \<Rightarrow> dset (pt_participant_id p) (l, p\<lparr>pt_consent_state := n\<rparr>) (sc_participants db)),
       sc_commitments db, sc_verifications db, sc_idempotency db) \<Longrightarrow>
    scheduled_effect db db'"
| coded: "dget (sc_reservations db) k \<noteq> None \<Longrightarrow> dget (sc_verifications db) k = None \<Longrightarrow> vf_reservation_id v = k \<Longrightarrow>
    vf_attempt_count v = 0 \<Longrightarrow> vf_verified_at v = None \<Longrightarrow>
    sc_reservations db' = sc_reservations db \<Longrightarrow>
    scheduled_tables db' = (sc_participants db, sc_commitments db, dset k v (sc_verifications db), sc_idempotency db) \<Longrightarrow>
    scheduled_effect db db'"
| activated: "dget (sc_reservations db) k = Some r \<Longrightarrow>
    rv_state r = RV_READY_FOR_PICKUP \<or> rv_state r = RV_ACTIVATED_AS_RIDE \<Longrightarrow>
    dget (sc_verifications db) k = Some v \<Longrightarrow>
    vf_verified_at v = None \<Longrightarrow> now < vf_expires_at v \<Longrightarrow> committed_driver_id db k = Inr (Some d) \<Longrightarrow>
    reservation_moved r r' \<Longrightarrow> rv_active_commitment_id r' = rv_active_commitment_id r \<Longrightarrow>
    rv_activated_ride_id r' \<noteq> None \<Longrightarrow> rv_state r' = RV_ACTIVATED_AS_RIDE \<Longrightarrow>
    sc_reservations db' = dset k r' (sc_reservations db) \<Longrightarrow>
    scheduled_tables db' = (sc_participants db, sc_commitments db,
      dset k (v\<lparr>vf_verified_at := Some now\<rparr>) (sc_verifications db), sc_idempotency db) \<Longrightarrow>
    scheduled_effect db db'"
| committed: "dget (sc_reservations db) k = Some r \<Longrightarrow> rv_active_commitment_id r = None \<Longrightarrow>
    dget (sc_commitments db) (dm_commitment_id c) = None \<Longrightarrow> dm_reservation_id c = k \<Longrightarrow> dm_state c = CT_COMMITTED \<Longrightarrow>
    dm_window_started_at c < dm_window_ended_at c \<Longrightarrow>
    \<not> list_ex (excluded_commitment c) (dvalues (sc_commitments db)) \<Longrightarrow>
    reservation_moved r r' \<Longrightarrow> rv_active_commitment_id r' = Some (dm_commitment_id c) \<Longrightarrow>
    rv_activated_ride_id r' = rv_activated_ride_id r \<Longrightarrow> rv_state r' = RV_DRIVER_COMMITTED \<Longrightarrow>
    sc_reservations db' = dset k r' (sc_reservations db) \<Longrightarrow>
    scheduled_tables db' = (sc_participants db, dset (dm_commitment_id c) c (sc_commitments db), sc_verifications db,
      sc_idempotency db) \<Longrightarrow>
    scheduled_effect db db'"

section \<open>Every operation has an effect\<close>

lemma append_effects_simps [simp]:
  "sc_reservations (append_effects a e k t db) = sc_reservations db"
  "scheduled_tables (append_effects a e k t db) = scheduled_tables db"
  "sc_participants (append_effects a e k t db) = sc_participants db"
  "sc_commitments (append_effects a e k t db) = sc_commitments db"
  "sc_verifications (append_effects a e k t db) = sc_verifications db"
  "sc_idempotency (append_effects a e k t db) = sc_idempotency db"
  by (simp_all add: append_effects_def scheduled_tables_def)

lemma scheduled_tables_history [simp]: "scheduled_tables (db\<lparr>sc_history := h\<rparr>) = scheduled_tables db"
  by (simp add: scheduled_tables_def)

lemma update_reservation_ok:
  assumes "update_reservation db k e w f x = Inr db'"
  obtains row where "dget (sc_reservations db) k = Some row" and "rv_version row = e" and "w row"
    and "rv_pickup_place_id (f row) \<noteq> rv_destination_place_id (f row)"
    and "db' = db\<lparr>sc_reservations := dset k (f row) (sc_reservations db)\<rparr>"
  using assms unfolding update_reservation_def by (elim ok_elims) auto

lemma mutate_ok:
  assumes "mutate_reservation db r e st f au ev rs now = Inr (db', r')"
  obtains row where "dget (sc_reservations db) (rv_reservation_id r) = Some row" and "rv_version row = e"
    and "st = None \<or> st = Some (rv_state r) \<or> (\<exists>t. st = Some t \<and> allows RESERVATION_TRANSITIONS (rv_state r) t)"
    and "sc_reservations db' = dset (rv_reservation_id r)
      ((f row)\<lparr>rv_state := (case st of None \<Rightarrow> rv_state row | Some t \<Rightarrow> t), rv_updated_at := now, rv_version := e + 1\<rparr>)
      (sc_reservations db)"
    and "rv_pickup_place_id (f row) \<noteq> rv_destination_place_id (f row)"
    and "scheduled_tables db' = scheduled_tables db"
proof -
  let ?change = "\<lambda>x. (f x)\<lparr>rv_state := (case st of None \<Rightarrow> rv_state x | Some t \<Rightarrow> t), rv_updated_at := now,
    rv_version := e + 1\<rparr>"
  obtain db1 where st: "\<not> (case st of None \<Rightarrow> False | Some t \<Rightarrow> t \<noteq> rv_state r \<and> t \<notin> set (RESERVATION_TRANSITIONS (rv_state r)))"
    and u: "update_reservation db (rv_reservation_id r) e (\<lambda>_. True) ?change (ReservationConflict ''Reservation version conflict'') = Inr db1"
    and db': "sc_reservations db' = sc_reservations db1" "scheduled_tables db' = scheduled_tables db1"
    using assms unfolding mutate_reservation_def by (elim ok_elims) auto
  from u show thesis
    by (rule update_reservation_ok)
      (use st db' in \<open>intro that; auto simp: allows_def scheduled_tables_def split: option.splits\<close>)
qed

lemma owned_ok: "owned_reservation db s k b d = Inr r \<Longrightarrow> dget (sc_reservations db) k = Some r"
  unfolding owned_reservation_def get_reservation_def by (elim ok_elims) simp_all

text \<open>A move of the stored row through \<open>mutate\<close> that keeps commitment, ride and identity.\<close>

lemma mutate_moved_effect:
  assumes run: "mutate_reservation db r e st f au ev rs now = Inr (db', r')"
    and stored: "dget (sc_reservations db) k = Some r" and "rv_reservation_id r = k"
    and target: "st = None \<or> (\<exists>t \<in> progress_targets. st = Some t)"
    and keeps: "rv_state (f r) = rv_state r" "rv_reservation_id (f r) = rv_reservation_id r" "rv_booker_id (f r) = rv_booker_id r"
      "rv_passenger_participant_id (f r) = rv_passenger_participant_id r"
      "rv_active_commitment_id (f r) = rv_active_commitment_id r" "rv_activated_ride_id (f r) = rv_activated_ride_id r"
  shows "scheduled_effect db db'"
  using run
proof (rule mutate_ok)
  fix row
  assume m: "dget (sc_reservations db) (rv_reservation_id r) = Some row" "rv_version row = e"
    "st = None \<or> st = Some (rv_state r) \<or> (\<exists>t. st = Some t \<and> allows RESERVATION_TRANSITIONS (rv_state r) t)"
    "sc_reservations db' = dset (rv_reservation_id r)
      ((f row)\<lparr>rv_state := (case st of None \<Rightarrow> rv_state row | Some t \<Rightarrow> t), rv_updated_at := now, rv_version := e + 1\<rparr>)
      (sc_reservations db)"
    "rv_pickup_place_id (f row) \<noteq> rv_destination_place_id (f row)" "scheduled_tables db' = scheduled_tables db"
  then have "row = r" using stored assms(3) by simp
  with m stored assms(3) target keeps show ?thesis
    by (intro scheduled_effect.moved [of db k r
        "(f r)\<lparr>rv_state := (case st of None \<Rightarrow> rv_state r | Some t \<Rightarrow> t), rv_updated_at := now, rv_version := e + 1\<rparr>"])
      (auto simp: reservation_moved_def)
qed

definition ids_ok :: "scheduled_db \<Rightarrow> bool" where
  "ids_ok db \<longleftrightarrow> (\<forall>k r. dget (sc_reservations db) k = Some r \<longrightarrow> rv_reservation_id r = k)"

lemma ids_okD: "ids_ok db \<Longrightarrow> dget (sc_reservations db) k = Some r \<Longrightarrow> rv_reservation_id r = k"
  by (simp add: ids_ok_def)

lemma owned_mutate_effect:
  assumes "mutate_reservation db r e st f au ev rs now = Inr (db', r')" and "owned_reservation db s k b d = Inr r" and "ids_ok db"
    and "st = None \<or> (\<exists>t \<in> progress_targets. st = Some t)"
    and "rv_state (f r) = rv_state r \<and> rv_reservation_id (f r) = rv_reservation_id r \<and> rv_booker_id (f r) = rv_booker_id r \<and>
      rv_passenger_participant_id (f r) = rv_passenger_participant_id r \<and>
      rv_active_commitment_id (f r) = rv_active_commitment_id r \<and> rv_activated_ride_id (f r) = rv_activated_ride_id r"
  shows "scheduled_effect db db'"
  using mutate_moved_effect [OF assms(1) owned_ok [OF assms(2)] ids_okD [OF assms(3) owned_ok [OF assms(2)]] assms(4)] assms(5)
  by simp

lemma update_effect:
  assumes "update_scheduled db s k c now = Inr (db', p)" and "ids_ok db"
  shows "scheduled_effect db db'"
  using assms unfolding update_scheduled_def
  by (elim ok_elims)
    (hypsubst+, rule owned_mutate_effect, assumption, assumption, assumption, simp_all add: update_values_def)

lemma cancel_effect:
  assumes "cancel_scheduled db s k now = Inr (db', p)" and "ids_ok db"
  shows "scheduled_effect db db'"
  using assms unfolding cancel_scheduled_def
  by (elim ok_elims)
    (hypsubst+, rule owned_mutate_effect, assumption, assumption, assumption, simp_all add: progress_targets_def)

lemma response_effect:
  assumes "driver_commitment_response db s k b e now = Inr (db', p)" and "ids_ok db"
  shows "scheduled_effect db db'"
  using assms unfolding driver_commitment_response_def
  by (elim ok_elims)
    (hypsubst+, rule owned_mutate_effect, assumption, assumption, assumption, simp_all add: progress_targets_def)

lemma progress_effect:
  assumes "driver_progress db s k b now = Inr (db', p)" and "ids_ok db"
  shows "scheduled_effect db db'"
  using assms unfolding driver_progress_def
  by (elim ok_elims)
    (hypsubst+, rule owned_mutate_effect, assumption, assumption, assumption, simp_all add: progress_targets_def)

lemma handoff_effect:
  assumes "support_handoff db s k now = Inr (db', p)" and "ids_ok db"
  shows "scheduled_effect db db'"
  using assms unfolding support_handoff_def get_reservation_def
  by (elim ok_elims) (hypsubst+, rule mutate_moved_effect, assumption, assumption, simp_all add: ids_okD)

lemma record_consent_ok:
  assumes "record_consent db r p n e au now = Inr (db', r')"
  obtains cs au' ev rs where "mutate_reservation (db\<lparr>sc_consents := cs, sc_participants :=
      (case dget (sc_participants db) (pt_participant_id p) of None \<Rightarrow> sc_participants db
       | Some (l, _) \<Rightarrow> dset (pt_participant_id p) (l, p\<lparr>pt_consent_state := n\<rparr>) (sc_participants db))\<rparr>) r e
      (Some (if n = CN_CONFIRMED then RV_ACCEPTED else RV_PASSENGER_DECLINED)) (\<lambda>x. x) au' ev rs now = Inr (db', r')"
  using assms unfolding record_consent_def by (elim ok_elims) (rule that)

lemma confirm_effect:
  assumes "confirm_or_decline env db s k b now = Inr (db', p)" and "ids_ok db"
  shows "scheduled_effect db db'"
proof -
  let ?n = "if b then CN_CONFIRMED else CN_DECLINED"
  obtain r q r' au where r: "dget (sc_reservations db) k = Some r" "rv_state r = RV_PASSENGER_CONFIRMATION_PENDING"
      "find (\<lambda>p. pt_role p = PR_PASSENGER) (participants_of db k) = Some q"
    and rec: "record_consent db r q ?n (rv_version r) au now = Inr (db', r')"
    using assms(1) unfolding confirm_or_decline_def get_reservation_def by (elim ok_elims) auto
  have k: "rv_reservation_id r = k" using ids_okD [OF assms(2) r(1)] .
  let ?st = "if ?n = CN_CONFIRMED then RV_ACCEPTED else RV_PASSENGER_DECLINED"
  from rec show ?thesis
  proof (rule record_consent_ok)
    fix cs au' ev rs
    assume "mutate_reservation (db\<lparr>sc_consents := cs, sc_participants :=
      (case dget (sc_participants db) (pt_participant_id q) of None \<Rightarrow> sc_participants db
       | Some (l, _) \<Rightarrow> dset (pt_participant_id q) (l, q\<lparr>pt_consent_state := ?n\<rparr>) (sc_participants db))\<rparr>) r
      (rv_version r) (Some ?st) (\<lambda>x. x) au' ev rs now = Inr (db', r')"
    then show ?thesis
    proof (rule mutate_ok)
    qed (rule scheduled_effect.consented [OF r, of ?n "r\<lparr>rv_state := ?st, rv_updated_at := now, rv_version := rv_version r + 1\<rparr>"];
      use r k in \<open>auto simp: reservation_moved_def scheduled_tables_def\<close>)
  qed
qed

lemma pickup_code_effect:
  assumes "create_pickup_code env db k code now vid = Inr db'"
  shows "scheduled_effect db db'"
proof -
  let ?v = "\<lparr>vf_verification_id = vid, vf_reservation_id = k, vf_code_hash = xe_pickup_digest env k code,
    vf_expires_at = now + timedelta_seconds 600, vf_attempt_count = 0, vf_verified_at = None, vf_created_at = now\<rparr>"
  have "dget (sc_reservations db) k \<noteq> None" "dget (sc_verifications db) k = None"
    "db' = db\<lparr>sc_verifications := dset k ?v (sc_verifications db)\<rparr>"
    using assms unfolding create_pickup_code_def create_pickup_verification_def by (elim ok_elims; auto)+
  then show ?thesis by (intro scheduled_effect.coded [of db k ?v]) (auto simp: scheduled_tables_def)
qed

lemma repo_verify_pickup_True:
  assumes "repo_verify_pickup db k h now = (db', True)"
  obtains v where "dget (sc_verifications db) k = Some v" and "vf_verified_at v = None" and "now < vf_expires_at v"
    and "vf_attempt_count v < 5" and "vf_code_hash v = h"
    and "db' = db\<lparr>sc_verifications := dset k (v\<lparr>vf_verified_at := Some now\<rparr>) (sc_verifications db)\<rparr>"
  using assms unfolding repo_verify_pickup_def
  by (auto simp: Let_def split: option.splits if_splits)

lemma verify_effect:
  assumes "verify_scheduled_pickup env db s k code now rid = Inr (db', p)" and "ids_ok db"
  shows "scheduled_effect db db'"
proof -
  obtain r r' db1 au ev rs where r: "owned_reservation db s k False True = Inr r"
      "require_committed_driver db s k = Inr ()"
      "repo_verify_pickup db (rv_reservation_id r) (xe_pickup_digest env k code) now = (db1, True)"
    and m: "mutate_reservation db1 r (rv_version r) (Some RV_ACTIVATED_AS_RIDE)
      (\<lambda>x. x\<lparr>rv_activated_ride_id := Some rid\<rparr>) au ev rs now = Inr (db', r')"
    using assms(1) unfolding verify_scheduled_pickup_def by (elim ok_elims) auto
  note stored = owned_ok [OF r(1)]
  have k: "rv_reservation_id r = k" using ids_okD [OF assms(2) stored] .
  obtain v where v: "dget (sc_verifications db) k = Some v" "vf_verified_at v = None" "now < vf_expires_at v"
      "db1 = db\<lparr>sc_verifications := dset k (v\<lparr>vf_verified_at := Some now\<rparr>) (sc_verifications db)\<rparr>"
    using repo_verify_pickup_True [OF r(3)] k by metis
  have d: "committed_driver_id db k = Inr (Some (subject_id s))"
    using r(2) unfolding require_committed_driver_def by (auto simp: bind_result_eq_Inr)
  let ?r' = "r\<lparr>rv_activated_ride_id := Some rid, rv_state := RV_ACTIVATED_AS_RIDE, rv_updated_at := now,
    rv_version := rv_version r + 1\<rparr>"
  from m show ?thesis
  proof (rule mutate_ok)
    fix row
    assume row: "dget (sc_reservations db1) (rv_reservation_id r) = Some row"
      "Some RV_ACTIVATED_AS_RIDE = None \<or> Some RV_ACTIVATED_AS_RIDE = Some (rv_state r) \<or>
       (\<exists>t. Some RV_ACTIVATED_AS_RIDE = Some t \<and> allows RESERVATION_TRANSITIONS (rv_state r) t)"
      "sc_reservations db' = dset (rv_reservation_id r)
        ((row\<lparr>rv_activated_ride_id := Some rid\<rparr>)\<lparr>rv_state := (case Some RV_ACTIVATED_AS_RIDE of None \<Rightarrow> rv_state row | Some t \<Rightarrow> t),
          rv_updated_at := now, rv_version := rv_version r + 1\<rparr>) (sc_reservations db1)"
      "rv_pickup_place_id (row\<lparr>rv_activated_ride_id := Some rid\<rparr>) \<noteq> rv_destination_place_id (row\<lparr>rv_activated_ride_id := Some rid\<rparr>)"
      "scheduled_tables db' = scheduled_tables db1"
    then have "row = r" using stored k v(4) by simp
    moreover have "rv_state r = RV_READY_FOR_PICKUP \<or> rv_state r = RV_ACTIVATED_AS_RIDE"
      using row(2) by (cases "rv_state r") (auto simp: allows_def)
    ultimately show ?thesis
      using row stored k v d
      by (intro scheduled_effect.activated [of db k r v now "subject_id s" ?r'])
        (auto simp: reservation_moved_def scheduled_tables_def)
  qed
qed

lemma soft_plan_effect:
  assumes "repo_save_soft_plan db r plan (rv_version r) au = Inr (db', r')" and "ids_ok db"
  shows "scheduled_effect db db'"
proof -
  let ?change = "\<lambda>x. x\<lparr>rv_active_soft_plan_id := Some (so_soft_plan_id plan),
    rv_soft_replacement_count := rv_soft_replacement_count r + (if so_supersedes_soft_plan_id plan \<noteq> None then 1 else 0),
    rv_updated_at := so_selected_at plan, rv_version := rv_version r + 1\<rparr>"
  obtain db1 ps cf where u: "update_reservation (db\<lparr>sc_soft_plans := ps\<rparr>) (rv_reservation_id r) (rv_version r)
      (\<lambda>row. rv_active_commitment_id row = None) ?change cf = Inr db1"
    and db': "sc_reservations db' = sc_reservations db1" "scheduled_tables db' = scheduled_tables db1"
    using assms(1) unfolding repo_save_soft_plan_def by (elim ok_elims) auto
  from u show ?thesis
  proof (rule update_reservation_ok)
    fix row
    assume "dget (sc_reservations (db\<lparr>sc_soft_plans := ps\<rparr>)) (rv_reservation_id r) = Some row" "rv_version row = rv_version r"
      "rv_pickup_place_id (?change row) \<noteq> rv_destination_place_id (?change row)"
      "db1 = (db\<lparr>sc_soft_plans := ps\<rparr>)\<lparr>sc_reservations :=
        dset (rv_reservation_id r) (?change row) (sc_reservations (db\<lparr>sc_soft_plans := ps\<rparr>))\<rparr>"
    then show ?thesis
      using db' ids_okD [OF assms(2)]
      by (intro scheduled_effect.moved [of db "rv_reservation_id r" row "?change row"])
        (auto simp: reservation_moved_def scheduled_tables_def)
  qed
qed

lemma plan_effect:
  assumes "plan_reservation env db r cs now inc pid = Inr (db', r')" and "ids_ok db"
  shows "scheduled_effect db db'"
  using assms(1) soft_plan_effect [OF _ assms(2)] unfolding plan_reservation_def
  by (auto simp: bind_result_eq_Inr Let_def intro: scheduled_effect.same split: list.splits if_splits option.splits)

lemma commit_effect:
  assumes "commit_reservation env db r d now cid = Inr (db', r')" and "ids_ok db"
  shows "scheduled_effect db db'"
proof -
  let ?c = "new_commitment (xe_policy env) r d now cid"
  let ?change = "\<lambda>x. x\<lparr>rv_active_commitment_id := Some cid, rv_state := RV_DRIVER_COMMITTED, rv_updated_at := now,
    rv_version := rv_version r + 1\<rparr>"
  have fields: "dm_commitment_id ?c = cid" "dm_reservation_id ?c = rv_reservation_id r" "dm_state ?c = CT_COMMITTED"
    "dm_committed_at ?c = now" by (simp_all add: new_commitment_def Let_def)
  obtain db1 cf c where c: "valid_commitment ?c = Inr c"
    and new: "dget (sc_commitments db) (dm_commitment_id c) = None" "\<not> list_ex (excluded_commitment c) (dvalues (sc_commitments db))"
    and u: "update_reservation (db\<lparr>sc_commitments := dset (dm_commitment_id c) c (sc_commitments db)\<rparr>) (rv_reservation_id r)
      (rv_version r) (\<lambda>row. rv_active_commitment_id row = None) (\<lambda>x. x\<lparr>rv_active_commitment_id := Some (dm_commitment_id c),
        rv_state := RV_DRIVER_COMMITTED, rv_updated_at := dm_committed_at c, rv_version := rv_version r + 1\<rparr>) cf = Inr db1"
    and db': "sc_reservations db' = sc_reservations db1" "scheduled_tables db' = scheduled_tables db1"
    using assms(1) unfolding commit_reservation_def repo_commit_driver_def by (elim ok_elims) auto
  have same: "c = ?c" and window: "dm_window_started_at ?c < dm_window_ended_at ?c"
    using c unfolding valid_commitment_def by (auto split: if_splits)
  from u show ?thesis
  proof (rule update_reservation_ok)
    fix row
    assume row: "dget (sc_reservations (db\<lparr>sc_commitments := dset (dm_commitment_id c) c (sc_commitments db)\<rparr>)) (rv_reservation_id r) = Some row"
      "rv_version row = rv_version r" "rv_active_commitment_id row = None"
      "rv_pickup_place_id (row\<lparr>rv_active_commitment_id := Some (dm_commitment_id c), rv_state := RV_DRIVER_COMMITTED,
        rv_updated_at := dm_committed_at c, rv_version := rv_version r + 1\<rparr>) \<noteq>
       rv_destination_place_id (row\<lparr>rv_active_commitment_id := Some (dm_commitment_id c), rv_state := RV_DRIVER_COMMITTED,
        rv_updated_at := dm_committed_at c, rv_version := rv_version r + 1\<rparr>)"
      "db1 = (db\<lparr>sc_commitments := dset (dm_commitment_id c) c (sc_commitments db)\<rparr>)\<lparr>sc_reservations :=
        dset (rv_reservation_id r) (row\<lparr>rv_active_commitment_id := Some (dm_commitment_id c), rv_state := RV_DRIVER_COMMITTED,
        rv_updated_at := dm_committed_at c, rv_version := rv_version r + 1\<rparr>)
          (sc_reservations (db\<lparr>sc_commitments := dset (dm_commitment_id c) c (sc_commitments db)\<rparr>))\<rparr>"
    then show ?thesis
      using db' new window ids_okD [OF assms(2)] fields unfolding same
      by (intro scheduled_effect.committed [of db "rv_reservation_id r" row ?c "?change row"])
        (auto simp: reservation_moved_def scheduled_tables_def)
  qed
qed

lemma insert_participants_dict: "insert_participants k ps rows = Inr rows' \<Longrightarrow> dict_ok rows \<Longrightarrow> dict_ok rows'"
  by (induction ps arbitrary: rows) (auto split: if_splits)

lemma added_rows:
  assumes "insert_participants k ps rows = Inr rows'"
  shows "dget rows' i = Some (l, q) \<longleftrightarrow> dget rows i = Some (l, q) \<or> l = k \<and> q \<in> set ps \<and> i = pt_participant_id q"
  using assms
proof (induction ps arbitrary: rows)
  case (Cons p ps)
  then have new: "dget rows (pt_participant_id p) = None"
    and rest: "insert_participants k ps (dset (pt_participant_id p) (k, p) rows) = Inr rows'"
    by (cases "dget rows (pt_participant_id p)"; simp)+
  show ?case using Cons.IH [OF rest] new by auto
qed simp

lemma valid_participants_same: "valid_participants ps = Inr qs \<Longrightarrow> qs = ps"
  by (induction ps arbitrary: qs) (auto simp: bind_result_eq_Inr valid_participant_def split: if_splits)

lemma create_effect:
  assumes "create_scheduled env db s c key now dw = Inr (db', p, b)"
  shows "scheduled_effect db db'"
proof -
  let ?r = "new_reservation (xe_policy env) s c now dw" and ?ps = "scheduled_participants s c dw"
  let ?p = "passenger_participant s c (cr_passenger dw)"
  have one: "filter (\<lambda>q. pt_role q = PR_PASSENGER) ?ps = [?p]"
    by (auto simp: scheduled_participants_def booker_participant_def contact_participant_def passenger_participant_def
      Let_def split: option.splits)
  obtain f h au stored where places: "rv_pickup_place_id ?r \<noteq> rv_destination_place_id ?r"
    and make: "repo_create_reservation db ?r ?ps f h au = Inr (db', stored, b)"
    using assms unfolding create_scheduled_def create_reservation_def
    by (elim ok_elims) (auto simp: valid_reservation_def dest!: valid_participants_same split: if_splits)
  show ?thesis
  proof (cases "dget (sc_idempotency db) (rv_booker_id ?r, f)")
    case (Some row)
    then show ?thesis
      using make unfolding repo_create_reservation_def by (auto intro: scheduled_effect.same split: if_splits option.splits)
  next
    case None
    then obtain rows where rows: "insert_participants (rv_reservation_id ?r) ?ps (sc_participants db) = Inr rows"
      and new: "dget (sc_reservations db) (rv_reservation_id ?r) = None"
      and db': "db' = append_effects au ''reservation.requested'' (rv_reservation_id ?r) (rv_created_at ?r)
        (db\<lparr>sc_reservations := dset (rv_reservation_id ?r) ?r (sc_reservations db), sc_participants := rows,
           sc_idempotency := dset (rv_booker_id ?r, f)
             \<lparr>sq_request_hash = h, sq_reservation_id = rv_reservation_id ?r, sq_created_at = rv_created_at ?r,
              sq_expires_at = rv_created_at ?r + timedelta_seconds 604800\<rparr> (sc_idempotency db)\<rparr>)"
      using make unfolding repo_create_reservation_def by (auto split: if_splits sum.splits)
    show ?thesis
      by (rule scheduled_effect.created [OF new refl _ places _ _ _ rows one])
        (simp_all add: db' new_reservation_def passenger_participant_def Let_def scheduled_tables_def)
  qed
qed

section \<open>The step relation\<close>

text \<open>Commands and reservations reach the services as validated models.\<close>

inductive scheduled_step :: "scheduled_env \<Rightarrow> scheduled_db \<Rightarrow> scheduled_db \<Rightarrow> bool" for env where
  create_step: "new_scheduled_command at c0 = Inr c \<Longrightarrow> create_scheduled env db s c key now dw = Inr (db', p, b) \<Longrightarrow>
    scheduled_step env db db'"
| update_step: "new_update_command t dest e = Inr uc \<Longrightarrow> update_scheduled db s k uc now = Inr (db', p) \<Longrightarrow>
    scheduled_step env db db'"
| consent_step: "confirm_or_decline env db s k confirmed now = Inr (db', p) \<Longrightarrow> scheduled_step env db db'"
| cancel_step: "cancel_scheduled db s k now = Inr (db', p) \<Longrightarrow> scheduled_step env db db'"
| code_step: "create_pickup_code env db k code now vid = Inr db' \<Longrightarrow> scheduled_step env db db'"
| verify_step: "verify_scheduled_pickup env db s k code now rid = Inr (db', p) \<Longrightarrow> scheduled_step env db db'"
| respond_step: "driver_commitment_response db s k accepted e now = Inr (db', p) \<Longrightarrow> scheduled_step env db db'"
| progress_step: "driver_progress db s k ready now = Inr (db', p) \<Longrightarrow> scheduled_step env db db'"
| handoff_step: "support_handoff db s k now = Inr (db', p) \<Longrightarrow> scheduled_step env db db'"
| plan_step: "valid_reservation r = Inr r \<Longrightarrow> plan_reservation env db r cs now inc pid = Inr (db', r') \<Longrightarrow> scheduled_step env db db'"
| commit_step: "valid_reservation r = Inr r \<Longrightarrow> commit_reservation env db r d now cid = Inr (db', r') \<Longrightarrow> scheduled_step env db db'"

lemma scheduled_step_effect: "scheduled_step env db db' \<Longrightarrow> ids_ok db \<Longrightarrow> scheduled_effect db db'"
  by (induction rule: scheduled_step.induct)
    (blast intro: create_effect update_effect confirm_effect cancel_effect pickup_code_effect verify_effect response_effect
      progress_effect handoff_effect plan_effect commit_effect)+

section \<open>The invariant\<close>

text \<open>The states that the operations reach, and those that presuppose a committed driver.\<close>

definition driven_states :: "reservation_state set" where
  "driven_states = {RV_DRIVER_COMMITTED, RV_REASSIGNING, RV_DRIVER_EN_ROUTE, RV_READY_FOR_PICKUP, RV_ACTIVATED_AS_RIDE}"

definition open_states :: "reservation_state set" where
  "open_states = {RV_PASSENGER_CONFIRMATION_PENDING, RV_ACCEPTED, RV_PASSENGER_DECLINED, RV_RIDER_CANCELLED}"

definition passenger_ok :: "scheduled_db \<Rightarrow> uuid \<Rightarrow> reservation \<Rightarrow> bool" where
  "passenger_ok db k r \<longleftrightarrow>
     (\<exists>p. dget (sc_participants db) (rv_passenger_participant_id r) = Some (k, p) \<and> pt_role p = PR_PASSENGER \<and>
        (rv_state r = RV_ACCEPTED \<longrightarrow> pt_identity_id p = Some (rv_booker_id r) \<or> pt_consent_state p = CN_CONFIRMED)) \<and>
     (\<forall>l p. dget (sc_participants db) l = Some (k, p) \<longrightarrow> pt_role p = PR_PASSENGER \<longrightarrow> l = rv_passenger_participant_id r)"

definition verified_pickup :: "scheduled_db \<Rightarrow> uuid \<Rightarrow> bool" where
  "verified_pickup db k \<longleftrightarrow> (\<exists>v. dget (sc_verifications db) k = Some v \<and> vf_verified_at v \<noteq> None)"

definition reservation_ok :: "scheduled_db \<Rightarrow> uuid \<Rightarrow> reservation \<Rightarrow> bool" where
  "reservation_ok db k r \<longleftrightarrow> rv_reservation_id r = k \<and> 1 \<le> rv_version r \<and>
     rv_pickup_place_id r \<noteq> rv_destination_place_id r \<and> rv_state r \<in> driven_states \<union> open_states \<and>
     (rv_state r \<in> driven_states \<longrightarrow> rv_active_commitment_id r \<noteq> None) \<and>
     (\<forall>c. rv_active_commitment_id r = Some c \<longrightarrow>
        (\<exists>m. dget (sc_commitments db) c = Some m \<and> dm_reservation_id m = k)) \<and>
     (rv_activated_ride_id r \<noteq> None \<longleftrightarrow> rv_state r = RV_ACTIVATED_AS_RIDE) \<and>
     (rv_state r = RV_ACTIVATED_AS_RIDE \<longleftrightarrow> verified_pickup db k) \<and> passenger_ok db k r"

definition commitments_ok :: "scheduled_db \<Rightarrow> bool" where
  "commitments_ok db \<longleftrightarrow> dict_ok (sc_commitments db) \<and>
     (\<forall>c m. dget (sc_commitments db) c = Some m \<longrightarrow> dm_commitment_id m = c \<and> dm_state m = CT_COMMITTED \<and>
        dm_window_started_at m < dm_window_ended_at m \<and>
        (\<exists>r. dget (sc_reservations db) (dm_reservation_id m) = Some r \<and> rv_active_commitment_id r = Some c)) \<and>
     (\<forall>c m d n. dget (sc_commitments db) c = Some m \<longrightarrow> dget (sc_commitments db) d = Some n \<longrightarrow> c \<noteq> d \<longrightarrow>
        dm_driver_id m = dm_driver_id n \<longrightarrow> \<not> windows_overlap m n)"

definition scheduled_inv :: "scheduled_db \<Rightarrow> bool" where
  "scheduled_inv db \<longleftrightarrow>
     (\<forall>k r. dget (sc_reservations db) k = Some r \<longrightarrow> reservation_ok db k r) \<and> commitments_ok db \<and>
     dict_ok (sc_participants db) \<and>
     (\<forall>l k p. dget (sc_participants db) l = Some (k, p) \<longrightarrow> pt_participant_id p = l \<and> dget (sc_reservations db) k \<noteq> None) \<and>
     (\<forall>k v. dget (sc_verifications db) k = Some v \<longrightarrow> vf_attempt_count v = 0 \<and> dget (sc_reservations db) k \<noteq> None \<and>
        (\<forall>t. vf_verified_at v = Some t \<longrightarrow> t < vf_expires_at v)) \<and>
     (\<forall>a row. dget (sc_idempotency db) a = Some row \<longrightarrow>
        (\<exists>r. dget (sc_reservations db) (sq_reservation_id row) = Some r \<and> rv_booker_id r = fst a))"

lemma scheduled_inv_ids: "scheduled_inv db \<Longrightarrow> ids_ok db"
  by (simp add: scheduled_inv_def ids_ok_def reservation_ok_def)

lemma scheduled_inv_empty:
  "sc_reservations db = [] \<Longrightarrow> scheduled_tables db = ([], [], [], []) \<Longrightarrow> scheduled_inv db"
  by (simp add: scheduled_inv_def scheduled_tables_def commitments_ok_def)

section \<open>Every effect keeps the invariant\<close>

lemma scheduled_invD:
  assumes "scheduled_inv db"
  shows "dget (sc_reservations db) k = Some r \<Longrightarrow> reservation_ok db k r" and "commitments_ok db"
    and "dict_ok (sc_participants db)"
    and "dget (sc_participants db) l = Some (k, p) \<Longrightarrow> pt_participant_id p = l \<and> dget (sc_reservations db) k \<noteq> None"
    and "dget (sc_verifications db) k = Some v \<Longrightarrow> vf_attempt_count v = 0 \<and> dget (sc_reservations db) k \<noteq> None \<and>
        (\<forall>t. vf_verified_at v = Some t \<longrightarrow> t < vf_expires_at v)"
    and "dget (sc_idempotency db) a = Some row \<Longrightarrow>
        \<exists>r. dget (sc_reservations db) (sq_reservation_id row) = Some r \<and> rv_booker_id r = fst a"
  using assms unfolding scheduled_inv_def by blast+

lemma reservation_ok_frame:
  assumes "reservation_ok db l x" and "\<And>c m. dget (sc_commitments db) c = Some m \<Longrightarrow> dget (sc_commitments db') c = Some m"
    and "verified_pickup db' l = verified_pickup db l"
    and "\<And>i p. dget (sc_participants db') i = Some (l, p) \<longleftrightarrow> dget (sc_participants db) i = Some (l, p)"
  shows "reservation_ok db' l x"
proof -
  have "passenger_ok db' l x" using assms(1) unfolding passenger_ok_def assms(4) reservation_ok_def by blast
  then show ?thesis using assms(1,2) unfolding reservation_ok_def assms(3) by blast
qed

text \<open>Everything but the reservations themselves, when no reservation goes away or changes its booker or commitment.\<close>

definition reservations_kept :: "scheduled_db \<Rightarrow> scheduled_db \<Rightarrow> bool" where
  "reservations_kept db db' \<longleftrightarrow>
     (\<forall>k r. dget (sc_reservations db) k = Some r \<longrightarrow> (\<exists>r'. dget (sc_reservations db') k = Some r' \<and>
        rv_booker_id r' = rv_booker_id r \<and>
        (rv_active_commitment_id r \<noteq> None \<longrightarrow> rv_active_commitment_id r' = rv_active_commitment_id r)))"

lemma reservations_kept_dset:
  assumes "dget (sc_reservations db) k = Some r \<Longrightarrow> rv_booker_id r' = rv_booker_id r \<and>
      (rv_active_commitment_id r \<noteq> None \<longrightarrow> rv_active_commitment_id r' = rv_active_commitment_id r)"
    and "dget (sc_reservations db) k = None \<or> dget (sc_reservations db) k = Some r"
    and "sc_reservations db' = dset k r' (sc_reservations db)"
  shows "reservations_kept db db'"
  using assms unfolding reservations_kept_def by auto

lemma commitments_ok_kept:
  assumes "commitments_ok db" and "reservations_kept db db'" and "sc_commitments db' = sc_commitments db"
  shows "commitments_ok db'"
proof -
  have "\<exists>r'. dget (sc_reservations db') (dm_reservation_id m) = Some r' \<and> rv_active_commitment_id r' = Some c"
    if "dget (sc_commitments db) c = Some m" for c m
    using that assms(1,2) unfolding commitments_ok_def reservations_kept_def by (metis option.distinct(1))
  then show ?thesis using assms(1) unfolding commitments_ok_def assms(3) by blast
qed

lemma scheduled_inv_step:
  assumes inv: "scheduled_inv db" and kept: "reservations_kept db db'"
    and res: "\<And>k r. dget (sc_reservations db') k = Some r \<Longrightarrow> reservation_ok db' k r"
    and com: "commitments_ok db'" and parts: "dict_ok (sc_participants db')"
    and owner: "\<And>l k p. dget (sc_participants db') l = Some (k, p) \<Longrightarrow> pt_participant_id p = l \<and>
      (dget (sc_reservations db') k \<noteq> None)"
    and codes: "\<And>k v. dget (sc_verifications db') k = Some v \<Longrightarrow> vf_attempt_count v = 0 \<and>
      dget (sc_reservations db') k \<noteq> None \<and> (\<forall>t. vf_verified_at v = Some t \<longrightarrow> t < vf_expires_at v)"
    and keys: "\<And>a row. dget (sc_idempotency db') a = Some row \<Longrightarrow> dget (sc_idempotency db) a = Some row \<or>
      (\<exists>r. dget (sc_reservations db') (sq_reservation_id row) = Some r \<and> rv_booker_id r = fst a)"
  shows "scheduled_inv db'"
proof -
  have "\<exists>r. dget (sc_reservations db') (sq_reservation_id row) = Some r \<and> rv_booker_id r = fst a"
    if "dget (sc_idempotency db') a = Some row" for a row
    using keys [OF that] scheduled_invD(6) [OF inv] kept unfolding reservations_kept_def by metis
  then show ?thesis using res com parts owner codes unfolding scheduled_inv_def by blast
qed

lemma kept_some: "reservations_kept db db' \<Longrightarrow> dget (sc_reservations db) k \<noteq> None \<Longrightarrow> dget (sc_reservations db') k \<noteq> None"
  unfolding reservations_kept_def by fastforce

text \<open>A step that replaces one reservation and leaves the other tables alone.\<close>

lemma scheduled_inv_move:
  assumes inv: "scheduled_inv db" and r: "dget (sc_reservations db) k = Some r"
    and db': "sc_reservations db' = dset k r' (sc_reservations db)" "scheduled_tables db' = scheduled_tables db"
    and "rv_booker_id r' = rv_booker_id r" and "rv_active_commitment_id r' = rv_active_commitment_id r"
    and ok: "reservation_ok db k r'"
  shows "scheduled_inv db'"
proof -
  have t: "sc_participants db' = sc_participants db" "sc_commitments db' = sc_commitments db"
    "sc_verifications db' = sc_verifications db" "sc_idempotency db' = sc_idempotency db"
    using db'(2) by (simp_all add: scheduled_tables_def)
  have kept: "reservations_kept db db'" by (rule reservations_kept_dset [of db k r r']) (use assms in auto)
  have frame: "reservation_ok db' l x" if "reservation_ok db l x" for l x
    by (rule reservation_ok_frame [OF that]) (simp_all add: t verified_pickup_def)
  show ?thesis
  proof (rule scheduled_inv_step [OF inv kept])
    show "reservation_ok db' l x" if "dget (sc_reservations db') l = Some x" for l x
      using that ok scheduled_invD(1) [OF inv] frame by (auto simp: db'(1) split: if_splits)
    show "commitments_ok db'" by (rule commitments_ok_kept [OF scheduled_invD(2) [OF inv] kept t(2)])
  qed (use scheduled_invD [OF inv] kept_some [OF kept] t in auto)
qed

lemma moved_ok:
  assumes "reservation_ok db k r" and "reservation_moved r r'"
    and "rv_active_commitment_id r' = rv_active_commitment_id r" and "rv_activated_ride_id r' = rv_activated_ride_id r"
    and "rv_state r' = rv_state r \<or> rv_state r' \<in> progress_targets \<and> allows RESERVATION_TRANSITIONS (rv_state r) (rv_state r')"
  shows "reservation_ok db k r'"
proof -
  have old: "rv_state r \<in> driven_states \<union> open_states" "rv_state r \<in> driven_states \<longrightarrow> rv_active_commitment_id r \<noteq> None"
    using assms(1) unfolding reservation_ok_def by blast+
  have st: "rv_state r' \<in> driven_states \<union> open_states" "rv_state r' \<in> driven_states \<longrightarrow> rv_active_commitment_id r' \<noteq> None"
    "rv_state r' = RV_ACTIVATED_AS_RIDE \<longleftrightarrow> rv_state r = RV_ACTIVATED_AS_RIDE"
    "rv_state r' = RV_ACCEPTED \<longrightarrow> rv_state r = RV_ACCEPTED"
    using old assms(3,5)
    by (cases "rv_state r"; force simp: driven_states_def open_states_def progress_targets_def allows_def)+
  then show ?thesis
    using assms(1-4) unfolding reservation_ok_def passenger_ok_def reservation_moved_def by auto
qed

lemma find_filter: "find P xs = Some x \<Longrightarrow> P x \<and> x \<in> set xs"
  by (auto simp: find_Some_iff)

lemma participants_of_iff:
  assumes "dict_ok (sc_participants db)"
    and "\<And>l k p. dget (sc_participants db) l = Some (k, p) \<Longrightarrow> pt_participant_id p = l"
  shows "p \<in> set (participants_of db k) \<longleftrightarrow> dget (sc_participants db) (pt_participant_id p) = Some (k, p)"
proof -
  have "p \<in> set (participants_of db k) \<longleftrightarrow> (k, p) \<in> set (dvalues (sc_participants db))"
    by (force simp: participants_of_def)
  also have "\<dots> \<longleftrightarrow> (\<exists>l. dget (sc_participants db) l = Some (k, p))" by (rule in_dvalues_iff [OF assms(1)])
  also have "\<dots> \<longleftrightarrow> dget (sc_participants db) (pt_participant_id p) = Some (k, p)" using assms(2) by blast
  finally show ?thesis .
qed

lemma consented_inv:
  assumes inv: "scheduled_inv db" and r: "dget (sc_reservations db) k = Some r" "rv_state r = RV_PASSENGER_CONFIRMATION_PENDING"
    and p: "find (\<lambda>p. pt_role p = PR_PASSENGER) (participants_of db k) = Some p" and n: "n \<in> {CN_CONFIRMED, CN_DECLINED}"
    and moved: "reservation_moved r r'" "rv_active_commitment_id r' = rv_active_commitment_id r"
      "rv_activated_ride_id r' = rv_activated_ride_id r"
      "rv_state r' = (if n = CN_CONFIRMED then RV_ACCEPTED else RV_PASSENGER_DECLINED)"
    and db': "sc_reservations db' = dset k r' (sc_reservations db)"
      "scheduled_tables db' =
      ((case dget (sc_participants db) (pt_participant_id p) of None \<Rightarrow> sc_participants db
        | Some (l, _) \<Rightarrow> dset (pt_participant_id p) (l, p\<lparr>pt_consent_state := n\<rparr>) (sc_participants db)),
       sc_commitments db, sc_verifications db, sc_idempotency db)"
  shows "scheduled_inv db'"
proof -
  note ok = scheduled_invD(1) [OF inv r(1)]
  have member: "dget (sc_participants db) (pt_participant_id p) = Some (k, p)" and role: "pt_role p = PR_PASSENGER"
    using find_filter [OF p] participants_of_iff [OF scheduled_invD(3) [OF inv]] scheduled_invD(4) [OF inv] by blast+
  have pid: "pt_participant_id p = rv_passenger_participant_id r"
    using ok member role unfolding reservation_ok_def passenger_ok_def by blast
  have t: "sc_participants db' = dset (pt_participant_id p) (k, p\<lparr>pt_consent_state := n\<rparr>) (sc_participants db)"
    "sc_commitments db' = sc_commitments db" "sc_verifications db' = sc_verifications db" "sc_idempotency db' = sc_idempotency db"
    using db'(2) member by (simp_all add: scheduled_tables_def)
  have kept: "reservations_kept db db'"
    by (rule reservations_kept_dset [of db k r r']) (use r moved db' in \<open>auto simp: reservation_moved_def\<close>)
  have others: "dget (sc_participants db') i = Some (l, q) \<longleftrightarrow> dget (sc_participants db) i = Some (l, q)" if "l \<noteq> k" for i l q
    using that member by (auto simp: t(1))
  have mine: "reservation_ok db' k r'"
  proof -
    have "passenger_ok db' k r'"
      using ok role pid moved(1,4) unfolding reservation_ok_def passenger_ok_def reservation_moved_def
      by (auto simp: t(1) split: if_splits)
    moreover have "rv_state r' \<in> open_states" "rv_state r' \<notin> driven_states" "rv_state r' \<noteq> RV_ACTIVATED_AS_RIDE"
      using moved(4) by (simp_all add: open_states_def driven_states_def)
    ultimately show ?thesis
      using ok moved(1-3) r(2) unfolding reservation_ok_def reservation_moved_def verified_pickup_def t by simp
  qed
  show ?thesis
  proof (rule scheduled_inv_step [OF inv kept])
    show "reservation_ok db' l x" if "dget (sc_reservations db') l = Some x" for l x
    proof (cases "l = k")
      case True
      then show ?thesis using mine that by (simp add: db'(1))
    next
      case False
      then have "reservation_ok db l x" using that scheduled_invD(1) [OF inv] by (simp add: db'(1))
      then show ?thesis by (rule reservation_ok_frame) (simp_all add: t(2,3) verified_pickup_def others [OF False])
    qed
    show "commitments_ok db'" by (rule commitments_ok_kept [OF scheduled_invD(2) [OF inv] kept t(2)])
    show "pt_participant_id q = l \<and> (dget (sc_reservations db') i \<noteq> None)" if "dget (sc_participants db') l = Some (i, q)" for l i q
      using that scheduled_invD(4) [OF inv] kept_some [OF kept] r(1)
      by (cases "l = pt_participant_id p") (auto simp: t(1) db'(1))
  qed (use scheduled_invD [OF inv] kept_some [OF kept] t in auto)
qed

lemma created_inv:
  assumes inv: "scheduled_inv db" and new: "dget (sc_reservations db) k = None" and r: "rv_reservation_id r = k" "rv_version r = 1"
      "rv_pickup_place_id r \<noteq> rv_destination_place_id r"
      "rv_state r = (if pt_identity_id p = Some (rv_booker_id r) then RV_ACCEPTED else RV_PASSENGER_CONFIRMATION_PENDING)"
      "rv_active_commitment_id r = None" "rv_activated_ride_id r = None"
    and rows: "insert_participants k ps (sc_participants db) = Inr rows"
    and one: "filter (\<lambda>q. pt_role q = PR_PASSENGER) ps = [p]" and pid: "pt_participant_id p = rv_passenger_participant_id r"
    and db': "sc_reservations db' = dset k r (sc_reservations db)"
      "scheduled_tables db' = (rows, sc_commitments db, sc_verifications db,
      dset (rv_booker_id r, f) \<lparr>sq_request_hash = h, sq_reservation_id = k, sq_created_at = t, sq_expires_at = u\<rparr>
        (sc_idempotency db))"
  shows "scheduled_inv db'"
proof -
  have t: "sc_participants db' = rows" "sc_commitments db' = sc_commitments db"
    "sc_verifications db' = sc_verifications db"
    "sc_idempotency db' = dset (rv_booker_id r, f) \<lparr>sq_request_hash = h, sq_reservation_id = k, sq_created_at = t, sq_expires_at = u\<rparr>
        (sc_idempotency db)"
    using db'(2) by (simp_all add: scheduled_tables_def)
  have kept: "reservations_kept db db'" by (rule reservations_kept_dset [of db k r r]) (use new db' in auto)
  have fresh: "dget (sc_participants db) i \<noteq> Some (k, q)" for i q
    using scheduled_invD(4) [OF inv] new by blast
  have added: "dget rows i = Some (l, q) \<longleftrightarrow>
      dget (sc_participants db) i = Some (l, q) \<or> l = k \<and> q \<in> set ps \<and> i = pt_participant_id q" for i l q
    by (rule added_rows [OF rows])
  have p: "p \<in> set ps" "pt_role p = PR_PASSENGER" "\<And>q. q \<in> set ps \<Longrightarrow> pt_role q = PR_PASSENGER \<Longrightarrow> q = p"
  proof -
    have "set (filter (\<lambda>q. pt_role q = PR_PASSENGER) ps) = {p}" using one by simp
    then show "p \<in> set ps" "pt_role p = PR_PASSENGER" "\<And>q. q \<in> set ps \<Longrightarrow> pt_role q = PR_PASSENGER \<Longrightarrow> q = p" by auto
  qed
  have mine: "reservation_ok db' k r"
  proof -
    have acc: "rv_state r = RV_ACCEPTED \<longrightarrow> pt_identity_id p = Some (rv_booker_id r)" using r(4) by simp
    have "dget rows (rv_passenger_participant_id r) = Some (k, p)" using added p(1) pid by simp
    moreover have "l = rv_passenger_participant_id r" if "dget rows l = Some (k, q)" "pt_role q = PR_PASSENGER" for l q
      using that added fresh p(3) pid by metis
    ultimately have "passenger_ok db' k r" unfolding passenger_ok_def t(1) using acc p(2) by blast
    moreover have "\<not> verified_pickup db' k" using scheduled_invD(5) [OF inv] new unfolding verified_pickup_def t(3) by blast
    ultimately show ?thesis using r unfolding reservation_ok_def by (simp add: driven_states_def open_states_def)
  qed
  show ?thesis
  proof (rule scheduled_inv_step [OF inv kept])
    show "reservation_ok db' l x" if "dget (sc_reservations db') l = Some x" for l x
    proof (cases "l = k")
      case True
      then show ?thesis using mine that by (simp add: db'(1))
    next
      case False
      then have "reservation_ok db l x" using that scheduled_invD(1) [OF inv] by (simp add: db'(1))
      then show ?thesis by (rule reservation_ok_frame) (use False in \<open>simp_all add: t(1-3) verified_pickup_def added\<close>)
    qed
    show "commitments_ok db'" by (rule commitments_ok_kept [OF scheduled_invD(2) [OF inv] kept t(2)])
    show "dict_ok (sc_participants db')" using insert_participants_dict [OF rows] scheduled_invD(3) [OF inv] by (simp add: t(1))
    show "pt_participant_id q = l \<and> (dget (sc_reservations db') i \<noteq> None)" if "dget (sc_participants db') l = Some (i, q)" for l i q
      using that scheduled_invD(4) [OF inv] kept_some [OF kept] unfolding t(1) added by (auto simp: db'(1))
    show "dget (sc_idempotency db) a = Some row \<or>
      (\<exists>r. dget (sc_reservations db') (sq_reservation_id row) = Some r \<and> rv_booker_id r = fst a)"
      if "dget (sc_idempotency db') a = Some row" for a row
      using that by (auto simp: t(4) db'(1) split: if_splits)
  qed (use scheduled_invD [OF inv] kept_some [OF kept] t in auto)
qed

lemma coded_inv:
  assumes inv: "scheduled_inv db" and k: "dget (sc_reservations db) k \<noteq> None" "dget (sc_verifications db) k = None"
    and v: "vf_attempt_count v = 0" "vf_verified_at v = None"
    and db': "sc_reservations db' = sc_reservations db"
      "scheduled_tables db' = (sc_participants db, sc_commitments db, dset k v (sc_verifications db), sc_idempotency db)"
  shows "scheduled_inv db'"
proof -
  have t: "sc_participants db' = sc_participants db" "sc_commitments db' = sc_commitments db"
    "sc_verifications db' = dset k v (sc_verifications db)" "sc_idempotency db' = sc_idempotency db"
    using db'(2) by (simp_all add: scheduled_tables_def)
  have kept: "reservations_kept db db'" unfolding reservations_kept_def db'(1) by blast
  have same: "verified_pickup db' l = verified_pickup db l" for l
    using k(2) v(2) unfolding verified_pickup_def t(3) by auto
  show ?thesis
  proof (rule scheduled_inv_step [OF inv kept])
    show "reservation_ok db' l x" if "dget (sc_reservations db') l = Some x" for l x
      by (rule reservation_ok_frame [of db]) (use that scheduled_invD(1) [OF inv] same in \<open>simp_all add: t db'(1)\<close>)
    show "commitments_ok db'" by (rule commitments_ok_kept [OF scheduled_invD(2) [OF inv] kept t(2)])
    show "vf_attempt_count x = 0 \<and> dget (sc_reservations db') l \<noteq> None \<and> (\<forall>t. vf_verified_at x = Some t \<longrightarrow> t < vf_expires_at x)"
      if "dget (sc_verifications db') l = Some x" for l x
      using that scheduled_invD(5) [OF inv] k(1) v by (cases "l = k") (auto simp: t(3) db'(1))
  qed (use scheduled_invD [OF inv] t db' in auto)
qed

lemma committed_driver_iff:
  assumes "commitments_ok db"
  shows "committed_driver_id db k = Inr (Some d) \<longleftrightarrow>
    (\<exists>r c m. dget (sc_reservations db) k = Some r \<and> rv_active_commitment_id r = Some c \<and>
       dget (sc_commitments db) c = Some m \<and> dm_reservation_id m = k \<and> dm_driver_id m = d)"
    and "\<exists>o'. committed_driver_id db k = Inr o'"
proof -
  let ?P = "\<lambda>c. dm_reservation_id c = k \<and> dm_state c = CT_COMMITTED" and ?rows = "dvalues (sc_commitments db)"
  have row: "m \<in> set (filter ?P ?rows) \<longleftrightarrow> (\<exists>c. dget (sc_commitments db) c = Some m) \<and> dm_reservation_id m = k" for m
    using assms in_dvalues_iff [of "sc_commitments db" m] unfolding commitments_ok_def by auto
  have ids: "dm_commitment_id m = dm_commitment_id n" if "m \<in> set (filter ?P ?rows)" "n \<in> set (filter ?P ?rows)" for m n
    using that assms unfolding row commitments_ok_def by (metis option.inject)
  have "distinct ?rows"
    by (rule distinct_dvalues) (use assms in \<open>auto simp: commitments_ok_def\<close>)
  then have "distinct (filter ?P ?rows)" by simp
  moreover have "m = n" if "m \<in> set (filter ?P ?rows)" "n \<in> set (filter ?P ?rows)" for m n
    using ids [OF that] that assms unfolding row commitments_ok_def by (metis option.inject)
  ultimately have one: "filter ?P ?rows = [] \<or> (\<exists>m. filter ?P ?rows = [m])" by (rule at_most_one)
  then show "\<exists>o'. committed_driver_id db k = Inr o'"
    unfolding committed_driver_id_def one_or_none_def by (auto split: list.splits)
  have active: "\<exists>r. dget (sc_reservations db) k = Some r \<and> rv_active_commitment_id r = Some c"
    if "dget (sc_commitments db) c = Some m" "dm_reservation_id m = k" for c m
    using that assms unfolding commitments_ok_def by blast
  define F where "F = filter ?P ?rows"
  have "committed_driver_id db k = Inr (Some d) \<longleftrightarrow> (\<exists>m \<in> set F. dm_driver_id m = d)"
    using one unfolding committed_driver_id_def one_or_none_def F_def [symmetric] by auto
  also have "\<dots> \<longleftrightarrow> (\<exists>r c m. dget (sc_reservations db) k = Some r \<and> rv_active_commitment_id r = Some c \<and>
       dget (sc_commitments db) c = Some m \<and> dm_reservation_id m = k \<and> dm_driver_id m = d)"
    unfolding Bex_def F_def row using active by blast
  finally show "committed_driver_id db k = Inr (Some d) \<longleftrightarrow>
    (\<exists>r c m. dget (sc_reservations db) k = Some r \<and> rv_active_commitment_id r = Some c \<and>
       dget (sc_commitments db) c = Some m \<and> dm_reservation_id m = k \<and> dm_driver_id m = d)" .
qed


lemma activated_inv:
  assumes inv: "scheduled_inv db" and r: "dget (sc_reservations db) k = Some r"
      "rv_state r = RV_READY_FOR_PICKUP \<or> rv_state r = RV_ACTIVATED_AS_RIDE"
    and v: "dget (sc_verifications db) k = Some v" "vf_verified_at v = None" "now < vf_expires_at v"
    and moved: "reservation_moved r r'" "rv_active_commitment_id r' = rv_active_commitment_id r"
      "rv_activated_ride_id r' \<noteq> None" "rv_state r' = RV_ACTIVATED_AS_RIDE"
    and db': "sc_reservations db' = dset k r' (sc_reservations db)"
      "scheduled_tables db' = (sc_participants db, sc_commitments db,
      dset k (v\<lparr>vf_verified_at := Some now\<rparr>) (sc_verifications db), sc_idempotency db)"
  shows "scheduled_inv db'"
proof -
  note ok = scheduled_invD(1) [OF inv r(1)]
  have t: "sc_participants db' = sc_participants db" "sc_commitments db' = sc_commitments db"
    "sc_verifications db' = dset k (v\<lparr>vf_verified_at := Some now\<rparr>) (sc_verifications db)"
    "sc_idempotency db' = sc_idempotency db"
    using db'(2) by (simp_all add: scheduled_tables_def)
  have kept: "reservations_kept db db'"
    by (rule reservations_kept_dset [of db k r r']) (use r moved db' in \<open>auto simp: reservation_moved_def\<close>)
  have driven: "rv_active_commitment_id r \<noteq> None" using ok r(2) unfolding reservation_ok_def driven_states_def by blast
  have mine: "reservation_ok db' k r'"
  proof -
    have "verified_pickup db' k" unfolding verified_pickup_def t(3) by simp
    moreover have "passenger_ok db' k r'"
      using ok moved(1,4) unfolding reservation_ok_def passenger_ok_def reservation_moved_def t(1) by auto
    moreover have "rv_state r' \<in> driven_states" using moved(4) by (simp add: driven_states_def)
    ultimately show ?thesis
      using ok moved driven unfolding reservation_ok_def reservation_moved_def t(2) by simp
  qed
  show ?thesis
  proof (rule scheduled_inv_step [OF inv kept])
    show "reservation_ok db' l x" if "dget (sc_reservations db') l = Some x" for l x
    proof (cases "l = k")
      case True
      then show ?thesis using mine that by (simp add: db'(1))
    next
      case False
      then have "reservation_ok db l x" using that scheduled_invD(1) [OF inv] by (simp add: db'(1))
      then show ?thesis by (rule reservation_ok_frame) (use False in \<open>simp_all add: t verified_pickup_def\<close>)
    qed
    show "commitments_ok db'" by (rule commitments_ok_kept [OF scheduled_invD(2) [OF inv] kept t(2)])
    show "vf_attempt_count x = 0 \<and> dget (sc_reservations db') l \<noteq> None \<and> (\<forall>t. vf_verified_at x = Some t \<longrightarrow> t < vf_expires_at x)"
      if "dget (sc_verifications db') l = Some x" for l x
      using that scheduled_invD(5) [OF inv] v by (cases "l = k") (auto simp: t(3) db'(1))
  qed (use scheduled_invD [OF inv] kept_some [OF kept] t in auto)
qed

lemma windows_overlap_sym: "windows_overlap c d \<longleftrightarrow> windows_overlap d c"
  by (auto simp: windows_overlap_def)

lemma commitments_ok_added:
  assumes com: "commitments_ok db" and new: "dget (sc_commitments db) (dm_commitment_id c) = None" "dm_state c = CT_COMMITTED"
      "dm_window_started_at c < dm_window_ended_at c" "\<not> list_ex (excluded_commitment c) (dvalues (sc_commitments db))"
    and r: "dget (sc_reservations db) (dm_reservation_id c) = Some r" "rv_active_commitment_id r = None"
    and r': "rv_active_commitment_id r' = Some (dm_commitment_id c)"
    and db': "sc_reservations db' = dset (dm_reservation_id c) r' (sc_reservations db)"
      "sc_commitments db' = dset (dm_commitment_id c) c (sc_commitments db)"
  shows "commitments_ok db'"
proof -
  have old: "dict_ok (sc_commitments db)"
    "\<And>i m. dget (sc_commitments db) i = Some m \<Longrightarrow> dm_commitment_id m = i \<and> dm_state m = CT_COMMITTED \<and>
        dm_window_started_at m < dm_window_ended_at m \<and>
        (\<exists>r. dget (sc_reservations db) (dm_reservation_id m) = Some r \<and> rv_active_commitment_id r = Some i)"
    "\<And>i m j n. dget (sc_commitments db) i = Some m \<Longrightarrow> dget (sc_commitments db) j = Some n \<Longrightarrow> i \<noteq> j \<Longrightarrow>
        dm_driver_id m = dm_driver_id n \<Longrightarrow> \<not> windows_overlap m n"
    using com unfolding commitments_ok_def by blast+
  have free: "dm_driver_id c = dm_driver_id m \<Longrightarrow> \<not> windows_overlap c m" if "dget (sc_commitments db) i = Some m" for i m
  proof -
    have "m \<in> set (dvalues (sc_commitments db))" using that in_dvalues_iff [OF old(1)] by blast
    then show "dm_driver_id c = dm_driver_id m \<Longrightarrow> \<not> windows_overlap c m"
      using new(2,4) old(2) [OF that] by (auto simp: list_ex_iff excluded_commitment_def)
  qed
  have each: "dm_commitment_id m = i \<and> dm_state m = CT_COMMITTED \<and> dm_window_started_at m < dm_window_ended_at m \<and>
      (\<exists>r. dget (sc_reservations db') (dm_reservation_id m) = Some r \<and> rv_active_commitment_id r = Some i)"
    if "dget (sc_commitments db') i = Some m" for i m
  proof (cases "i = dm_commitment_id c")
    case True
    then show ?thesis using that new r' by (auto simp: db')
  next
    case False
    then have m: "dget (sc_commitments db) i = Some m" using that by (simp add: db'(2))
    then have "dm_reservation_id m \<noteq> dm_reservation_id c" using old(2) r by fastforce
    then show ?thesis using old(2) [OF m] by (simp add: db'(1))
  qed
  have apart: "\<not> windows_overlap m n" if "dget (sc_commitments db') i = Some m" "dget (sc_commitments db') j = Some n" "i \<noteq> j"
      "dm_driver_id m = dm_driver_id n" for i m j n
  proof -
    note stored = that
    consider "i = dm_commitment_id c" "m = c" "dget (sc_commitments db) j = Some n"
      | "j = dm_commitment_id c" "n = c" "dget (sc_commitments db) i = Some m"
      | "dget (sc_commitments db) i = Some m" "dget (sc_commitments db) j = Some n"
      using dget_dset_cases [OF stored(1) [unfolded db'(2)]] dget_dset_cases [OF stored(2) [unfolded db'(2)]] stored(3) by blast
    then show ?thesis
    proof cases
      case 1
      then show ?thesis using free [OF 1(3)] stored(4) by simp
    next
      case 2
      then show ?thesis using free [OF 2(3)] stored(4) windows_overlap_sym [of m n] by simp
    next
      case 3
      then show ?thesis using old(3) [OF 3 stored(3,4)] by simp
    qed
  qed
  have "dict_ok (sc_commitments db')" using old(1) unfolding db'(2) by (rule dict_ok_dset)
  then show ?thesis unfolding commitments_ok_def using each apart by blast
qed

lemma committed_inv:
  assumes inv: "scheduled_inv db" and r: "dget (sc_reservations db) k = Some r" "rv_active_commitment_id r = None"
    and c: "dget (sc_commitments db) (dm_commitment_id c) = None" "dm_reservation_id c = k" "dm_state c = CT_COMMITTED"
      "dm_window_started_at c < dm_window_ended_at c" "\<not> list_ex (excluded_commitment c) (dvalues (sc_commitments db))"
    and moved: "reservation_moved r r'" "rv_active_commitment_id r' = Some (dm_commitment_id c)"
      "rv_activated_ride_id r' = rv_activated_ride_id r" "rv_state r' = RV_DRIVER_COMMITTED"
    and db': "sc_reservations db' = dset k r' (sc_reservations db)"
      "scheduled_tables db' = (sc_participants db, dset (dm_commitment_id c) c (sc_commitments db), sc_verifications db,
      sc_idempotency db)"
  shows "scheduled_inv db'"
proof -
  note ok = scheduled_invD(1) [OF inv r(1)]
  have t: "sc_participants db' = sc_participants db" "sc_commitments db' = dset (dm_commitment_id c) c (sc_commitments db)"
    "sc_verifications db' = sc_verifications db" "sc_idempotency db' = sc_idempotency db"
    using db'(2) by (simp_all add: scheduled_tables_def)
  have kept: "reservations_kept db db'"
    by (rule reservations_kept_dset [of db k r r']) (use r moved db' in \<open>auto simp: reservation_moved_def\<close>)
  have idle: "rv_state r \<noteq> RV_ACTIVATED_AS_RIDE" using ok r(2) unfolding reservation_ok_def driven_states_def by blast
  have mine: "reservation_ok db' k r'"
  proof -
    have "verified_pickup db' k = verified_pickup db k" unfolding verified_pickup_def t(3) ..
    moreover have "passenger_ok db' k r'"
      using ok moved(1,4) unfolding reservation_ok_def passenger_ok_def reservation_moved_def t(1) by auto
    moreover have "rv_state r' \<in> driven_states" using moved(4) by (simp add: driven_states_def)
    ultimately show ?thesis
      using ok moved idle c(2) unfolding reservation_ok_def reservation_moved_def t(2) by simp
  qed
  show ?thesis
  proof (rule scheduled_inv_step [OF inv kept])
    show "reservation_ok db' l x" if "dget (sc_reservations db') l = Some x" for l x
    proof (cases "l = k")
      case True
      then show ?thesis using mine that by (simp add: db'(1))
    next
      case False
      then have "reservation_ok db l x" using that scheduled_invD(1) [OF inv] by (simp add: db'(1))
      then show ?thesis by (rule reservation_ok_frame) (use c(1) in \<open>auto simp: t verified_pickup_def\<close>)
    qed
    show "commitments_ok db'"
      by (rule commitments_ok_added [OF scheduled_invD(2) [OF inv] c(1,3-5) _ r(2) moved(2)]) (use r c(2) db' t in auto)
  qed (use scheduled_invD [OF inv] kept_some [OF kept] t in auto)
qed

lemma scheduled_effect_inv: "scheduled_effect db db' \<Longrightarrow> scheduled_inv db \<Longrightarrow> scheduled_inv db'"
proof (induction rule: scheduled_effect.induct)
  case (same db' db)
  have t: "sc_participants db' = sc_participants db" "sc_commitments db' = sc_commitments db"
    "sc_verifications db' = sc_verifications db" "sc_idempotency db' = sc_idempotency db"
    using same.hyps(2) by (simp_all add: scheduled_tables_def)
  show ?case
    using same.prems unfolding scheduled_inv_def reservation_ok_def passenger_ok_def verified_pickup_def commitments_ok_def
      same.hyps(1) t .
next
  case (created db k r p ps rows db' f h t u)
  then show ?case by (intro created_inv [of db k r p ps rows db' f h t u]) auto
next
  case (moved db k r r' db')
  have "rv_booker_id r' = rv_booker_id r" using moved.hyps(2) by (simp add: reservation_moved_def)
  then show ?case
    by (rule scheduled_inv_move [OF moved.prems moved.hyps(1,6,7) _ moved.hyps(3)
      moved_ok [OF scheduled_invD(1) [OF moved.prems moved.hyps(1)] moved.hyps(2-5)]])
next
  case (consented db k r p n r' db')
  then show ?case by (intro consented_inv [of db k r p n r' db']) auto
next
  case (coded db k v db')
  then show ?case by (intro coded_inv [of db k v db']) auto
next
  case (activated db k r v now d r' db')
  then show ?case by (intro activated_inv [of db k r v now r' db'])
next
  case (committed db k r c r' db')
  then show ?case by (intro committed_inv [of db k r c r' db'])
qed

lemma scheduled_step_inv: "scheduled_step env db db' \<Longrightarrow> scheduled_inv db \<Longrightarrow> scheduled_inv db'"
  using scheduled_effect_inv scheduled_step_effect scheduled_inv_ids by blast

section \<open>Reachable tables\<close>

definition empty_scheduled :: scheduled_db where
  "empty_scheduled = \<lparr>sc_reservations = [], sc_participants = [], sc_consents = [], sc_history = [], sc_soft_plans = [],
     sc_commitments = [], sc_verifications = [], sc_idempotency = [], sc_audit = [], sc_outbox = []\<rparr>"

abbreviation scheduled_reachable :: "scheduled_env \<Rightarrow> scheduled_db \<Rightarrow> bool" where
  "scheduled_reachable env db \<equiv> (scheduled_step env)\<^sup>*\<^sup>* empty_scheduled db"

lemma scheduled_steps_inv: "(scheduled_step env)\<^sup>*\<^sup>* db db' \<Longrightarrow> scheduled_inv db \<Longrightarrow> scheduled_inv db'"
  by (induction rule: rtranclp_induct) (blast intro: scheduled_step_inv)+

lemma scheduled_reachable_inv: "scheduled_reachable env db \<Longrightarrow> scheduled_inv db"
  by (erule scheduled_steps_inv) (rule scheduled_inv_empty; simp add: empty_scheduled_def scheduled_tables_def)

end
