(* ===== verification/Scheduled_Memory.thy ===== *)
theory Scheduled_Memory
  imports Scheduled_Inv
begin

text \<open>
  The in-memory repository of \<open>scheduled/memory.py\<close>, the interface that the planning service expects of a
  reservation repository, and that both repositories provide it.
\<close>

section \<open>The in-memory repository\<close>

record memory_store =
  mm_reservations :: "(uuid, reservation) dict"
  mm_soft_plans :: "(uuid, soft_plan) dict"
  mm_commitments :: "(uuid, driver_commitment) dict"
  mm_participants :: "(uuid, participant) dict"
  mm_idempotency :: "(uuid \<times> string, string \<times> uuid) dict"
  mm_audit_events :: "scheduled_audit list"

definition memory_create ::
  "memory_store \<Rightarrow> reservation \<Rightarrow> participant list \<Rightarrow> string \<Rightarrow> string \<Rightarrow> scheduled_audit \<Rightarrow>
   (memory_store \<times> reservation \<times> bool) result" where
  "memory_create m r participants fingerprint request_hash audit =
     (let key = (rv_booker_id r, fingerprint) in
      case dget (mm_idempotency m) key of
        Some (stored_hash, reservation_id) \<Rightarrow>
          if stored_hash \<noteq> request_hash then Inl (ReservationConflict ''Idempotency key reused'')
          else
            (case dget (mm_reservations m) reservation_id of
               None \<Rightarrow> Inl KeyError
             | Some stored \<Rightarrow> Inr (m, stored, False))
      | None \<Rightarrow>
          Inr (m\<lparr>mm_reservations := dset (rv_reservation_id r) r (mm_reservations m),
                 mm_participants := fold (\<lambda>p. dset (pt_participant_id p) p) participants (mm_participants m),
                 mm_idempotency := dset key (request_hash, rv_reservation_id r) (mm_idempotency m),
                 mm_audit_events := mm_audit_events m @ [audit]\<rparr>, r, True))"

definition memory_get :: "memory_store \<Rightarrow> uuid \<Rightarrow> reservation option" where
  "memory_get m k = dget (mm_reservations m) k"

definition memory_save_soft_plan ::
  "memory_store \<Rightarrow> reservation \<Rightarrow> soft_plan \<Rightarrow> int \<Rightarrow> scheduled_audit \<Rightarrow> (memory_store \<times> reservation) result" where
  "memory_save_soft_plan m r plan expected audit =
     (case dget (mm_reservations m) (rv_reservation_id r) of
        None \<Rightarrow> Inl KeyError
      | Some current \<Rightarrow>
          if rv_version current \<noteq> expected \<or> rv_active_commitment_id current \<noteq> None
          then Inl (ReservationConflict ''Reservation changed or commitment locked'')
          else
            (let updated = current\<lparr>rv_active_soft_plan_id := Some (so_soft_plan_id plan),
                   rv_soft_replacement_count := rv_soft_replacement_count current +
                     (if so_supersedes_soft_plan_id plan \<noteq> None then 1 else 0),
                   rv_updated_at := so_selected_at plan, rv_version := rv_version current + 1\<rparr>
             in Inr (m\<lparr>mm_soft_plans := dset (so_soft_plan_id plan) plan (mm_soft_plans m),
                       mm_reservations := dset (rv_reservation_id current) updated (mm_reservations m),
                       mm_audit_events := mm_audit_events m @ [audit]\<rparr>, updated)))"

definition memory_overlap :: "driver_commitment \<Rightarrow> driver_commitment \<Rightarrow> bool" where
  "memory_overlap c existing \<longleftrightarrow> dm_driver_id existing = dm_driver_id c \<and> dm_state existing = CT_COMMITTED \<and>
     dm_window_started_at existing < dm_window_ended_at c \<and> dm_window_started_at c < dm_window_ended_at existing"

definition memory_commit_driver ::
  "memory_store \<Rightarrow> reservation \<Rightarrow> driver_commitment \<Rightarrow> int \<Rightarrow> scheduled_audit \<Rightarrow> (memory_store \<times> reservation) result" where
  "memory_commit_driver m r c expected audit =
     (case dget (mm_reservations m) (rv_reservation_id r) of
        None \<Rightarrow> Inl KeyError
      | Some current \<Rightarrow>
          if rv_version current \<noteq> expected \<or> rv_active_commitment_id current \<noteq> None
          then Inl (ReservationConflict ''Commitment race lost'')
          else if list_ex (memory_overlap c) (dvalues (mm_commitments m))
          then Inl (ReservationConflict ''Driver commitment overlaps'')
          else
            (let updated = current\<lparr>rv_active_commitment_id := Some (dm_commitment_id c), rv_state := RV_DRIVER_COMMITTED,
                   rv_updated_at := dm_committed_at c, rv_version := rv_version current + 1\<rparr>
             in Inr (m\<lparr>mm_commitments := dset (dm_commitment_id c) c (mm_commitments m),
                       mm_reservations := dset (rv_reservation_id current) updated (mm_reservations m),
                       mm_audit_events := mm_audit_events m @ [audit]\<rparr>, updated)))"

section \<open>The interface of a reservation repository\<close>

text \<open>
  What a planner may rely on: a soft plan or a commitment is stored only on the version it was made for and only
  while no driver is committed, and it moves the reservation to the next version.
\<close>

locale reservation_repository =
  fixes get :: "'s \<Rightarrow> uuid \<Rightarrow> reservation option"
    and save :: "'s \<Rightarrow> reservation \<Rightarrow> soft_plan \<Rightarrow> int \<Rightarrow> scheduled_audit \<Rightarrow> ('s \<times> reservation) result"
    and commit :: "'s \<Rightarrow> reservation \<Rightarrow> driver_commitment \<Rightarrow> int \<Rightarrow> scheduled_audit \<Rightarrow> ('s \<times> reservation) result"
    and wf :: "'s \<Rightarrow> bool"
  assumes save_law: "save s r p e a = Inr (s', r') \<Longrightarrow> wf s \<Longrightarrow>
      \<exists>x y. get s (rv_reservation_id r) = Some x \<and> rv_version x = e \<and> rv_active_commitment_id x = None \<and>
        get s' (rv_reservation_id r) = Some y \<and> rv_version y = e + 1 \<and> rv_active_commitment_id y = None"
    and commit_law: "commit s r c e a = Inr (s', r') \<Longrightarrow> wf s \<Longrightarrow>
      \<exists>x y. get s (rv_reservation_id r) = Some x \<and> rv_version x = e \<and> rv_active_commitment_id x = None \<and>
        get s' (rv_reservation_id r) = Some y \<and> rv_version y = e + 1 \<and>
        rv_active_commitment_id y = Some (dm_commitment_id c)"
    and save_wf: "save s r p e a = Inr (s', r') \<Longrightarrow> wf s \<Longrightarrow> wf s'"
    and commit_wf: "commit s r c e a = Inr (s', r') \<Longrightarrow> wf s \<Longrightarrow> wf s'"
begin

lemma locked:
  assumes "wf s" and "get s (rv_reservation_id r) = Some x" and "rv_active_commitment_id x \<noteq> None"
  shows "\<not> is_ok (commit s r c e a)" and "\<not> is_ok (save s r p e a)"
  using assms commit_law [OF _ assms(1)] save_law [OF _ assms(1)] by fastforce+

lemma committed_once:
  assumes "commit s r c e a = Inr (s', r')" and "wf s" and "rv_reservation_id q = rv_reservation_id r"
  shows "\<not> is_ok (commit s' q d f b)" and "\<not> is_ok (save s' q p f b)"
proof -
  obtain y where y: "get s' (rv_reservation_id q) = Some y" "rv_active_commitment_id y \<noteq> None"
    using commit_law [OF assms(1,2)] assms(3) by force
  show "\<not> is_ok (commit s' q d f b)" "\<not> is_ok (save s' q p f b)"
    by (rule locked [OF commit_wf [OF assms(1,2)] y])+
qed

lemma stale_plan_refused:
  assumes "save s r p e a = Inr (s', r')" and "wf s" and "rv_reservation_id q = rv_reservation_id r" and "f \<le> e"
  shows "\<not> is_ok (commit s' q d f b)" and "\<not> is_ok (save s' q o' f b)"
proof -
  obtain y where "get s' (rv_reservation_id q) = Some y" "rv_version y = e + 1"
    using save_law [OF assms(1,2)] assms(3) by force
  then show "\<not> is_ok (commit s' q d f b)" "\<not> is_ok (save s' q o' f b)"
    using commit_law [OF _ save_wf [OF assms(1,2)]] save_law [OF _ save_wf [OF assms(1,2)]] assms(4) by fastforce+
qed

end

text \<open>The PostgreSQL repository provides it on every database whose rows carry their own identifier.\<close>

lemma repo_save_ok:
  assumes "repo_save_soft_plan db r plan e au = Inr (db', r')"
  obtains row where "dget (sc_reservations db) (rv_reservation_id r) = Some row" and "rv_version row = e"
    and "rv_active_commitment_id row = None"
    and "sc_reservations db' = dset (rv_reservation_id r) (row\<lparr>rv_active_soft_plan_id := Some (so_soft_plan_id plan),
      rv_soft_replacement_count := rv_soft_replacement_count r + (if so_supersedes_soft_plan_id plan \<noteq> None then 1 else 0),
      rv_updated_at := so_selected_at plan, rv_version := e + 1\<rparr>) (sc_reservations db)"
  using assms unfolding repo_save_soft_plan_def
  by (elim ok_elims; (erule update_reservation_ok)?) (auto elim!: update_reservation_ok intro: that)

lemma repo_commit_ok:
  assumes "repo_commit_driver db r c e au = Inr (db', r')"
  obtains row where "dget (sc_reservations db) (rv_reservation_id r) = Some row" and "rv_version row = e"
    and "rv_active_commitment_id row = None"
    and "sc_reservations db' = dset (rv_reservation_id r) (row\<lparr>rv_active_commitment_id := Some (dm_commitment_id c),
      rv_state := RV_DRIVER_COMMITTED, rv_updated_at := dm_committed_at c, rv_version := e + 1\<rparr>) (sc_reservations db)"
  using assms unfolding repo_commit_driver_def
  by (elim ok_elims; (erule update_reservation_ok)?) (auto elim!: update_reservation_ok intro: that)

interpretation postgres: reservation_repository get_reservation repo_save_soft_plan repo_commit_driver ids_ok
proof (unfold_locales, goal_cases)
  case (1 s r p e a s' r')
  from 1(1) show ?case by (rule repo_save_ok) (simp add: get_reservation_def)
next
  case (2 s r c e a s' r')
  from 2(1) show ?case by (rule repo_commit_ok) (simp add: get_reservation_def)
next
  case (3 s r p e a s' r')
  from 3(1) show ?case by (rule repo_save_ok) (use 3(2) in \<open>auto simp: ids_ok_def\<close>)
next
  case (4 s r c e a s' r')
  from 4(1) show ?case by (rule repo_commit_ok) (use 4(2) in \<open>auto simp: ids_ok_def\<close>)
qed

definition memory_ids_ok :: "memory_store \<Rightarrow> bool" where
  "memory_ids_ok m \<longleftrightarrow> (\<forall>k r. dget (mm_reservations m) k = Some r \<longrightarrow> rv_reservation_id r = k)"

lemma memory_ids_okD: "memory_ids_ok m \<Longrightarrow> dget (mm_reservations m) k = Some r \<Longrightarrow> rv_reservation_id r = k"
  by (simp add: memory_ids_ok_def)

interpretation memory: reservation_repository memory_get memory_save_soft_plan memory_commit_driver memory_ids_ok
proof (unfold_locales, goal_cases)
  case (1 s r p e a s' r')
  then show ?case
    unfolding memory_save_soft_plan_def memory_get_def Let_def
    by (elim ok_elims) (auto dest: memory_ids_okD)
next
  case (2 s r c e a s' r')
  then show ?case
    unfolding memory_commit_driver_def memory_get_def Let_def
    by (elim ok_elims) (auto dest: memory_ids_okD)
next
  case (3 s r p e a s' r')
  then show ?case
    unfolding memory_save_soft_plan_def Let_def by (elim ok_elims) (auto simp: memory_ids_ok_def split: if_splits)
next
  case (4 s r c e a s' r')
  then show ?case
    unfolding memory_commit_driver_def Let_def by (elim ok_elims) (auto simp: memory_ids_ok_def split: if_splits)
qed

section \<open>The two repositories agree\<close>

text \<open>What the in-memory repository keeps of the tables.\<close>

definition memory_of :: "scheduled_db \<Rightarrow> memory_store" where
  "memory_of db =
     \<lparr>mm_reservations = sc_reservations db, mm_soft_plans = sc_soft_plans db, mm_commitments = sc_commitments db,
      mm_participants = map (map_prod (\<lambda>k. k) snd) (sc_participants db),
      mm_idempotency = map (map_prod (\<lambda>k. k) (\<lambda>row. (sq_request_hash row, sq_reservation_id row))) (sc_idempotency db),
      mm_audit_events = sc_audit db\<rparr>"

definition outcome :: "('s \<Rightarrow> 't) \<Rightarrow> ('s \<times> 'a) result \<Rightarrow> ('t \<times> 'a) option" where
  "outcome f x = (case x of Inl _ \<Rightarrow> None | Inr (s, a) \<Rightarrow> Some (f s, a))"

lemma outcome_simps [simp]: "outcome f (Inl e) = None" "outcome f (Inr (s, a)) = Some (f s, a)"
  by (simp_all add: outcome_def)

lemma map_prod_dset: "map (map_prod (\<lambda>k. k) f) (dset k v d) = dset k (f v) (map (map_prod (\<lambda>k. k) f) d)"
  by (induction d) auto

lemma memory_participants:
  "insert_participants k ps rows = Inr rows' \<Longrightarrow>
   map (map_prod (\<lambda>k. k) snd) rows' = fold (\<lambda>p. dset (pt_participant_id p) p) ps (map (map_prod (\<lambda>k. k) snd) rows)"
  by (induction ps arbitrary: rows) (auto simp: map_prod_dset split: if_splits)

lemma insert_participants_fresh:
  "distinct (map pt_participant_id ps) \<Longrightarrow> (\<And>p. p \<in> set ps \<Longrightarrow> dget rows (pt_participant_id p) = None) \<Longrightarrow>
   is_ok (insert_participants k ps rows)"
proof (induction ps arbitrary: rows)
  case (Cons p ps)
  have "is_ok (insert_participants k ps (dset (pt_participant_id p) (k, p) rows))"
  proof (rule Cons.IH)
    show "dget (dset (pt_participant_id p) (k, p) rows) (pt_participant_id q) = None" if "q \<in> set ps" for q
    proof -
      have "pt_participant_id q \<noteq> pt_participant_id p" using imageI [OF that, of pt_participant_id] Cons.prems(1) by auto
      then show ?thesis using Cons.prems(2) [of q] that by simp
    qed
  qed (use Cons.prems in simp)
  then show ?case using Cons.prems(2) [of p] by simp
qed simp

lemma memory_create_agrees:
  assumes inv: "scheduled_inv db" and fresh: "dget (sc_reservations db) (rv_reservation_id r) = None"
    and ps: "distinct (map pt_participant_id ps)" "\<And>p. p \<in> set ps \<Longrightarrow> dget (sc_participants db) (pt_participant_id p) = None"
  shows "outcome memory_of (repo_create_reservation db r ps f h au) = outcome (\<lambda>m. m) (memory_create (memory_of db) r ps f h au)"
proof (cases "dget (sc_idempotency db) (rv_booker_id r, f)")
  case None
  obtain rows where "insert_participants (rv_reservation_id r) ps (sc_participants db) = Inr rows"
    using insert_participants_fresh [OF ps] by blast
  then show ?thesis
    using None fresh memory_participants
    by (simp add: repo_create_reservation_def memory_create_def memory_of_def map_of_map_prod map_prod_dset append_effects_def)
next
  case (Some row)
  then obtain x where "dget (sc_reservations db) (sq_reservation_id row) = Some x"
    using scheduled_invD(6) [OF inv] by blast
  then show ?thesis
    using Some
    by (simp add: repo_create_reservation_def memory_create_def memory_of_def map_of_map_prod get_reservation_def)
qed

lemma memory_save_agrees:
  assumes inv: "scheduled_inv db" and r: "dget (sc_reservations db) (rv_reservation_id r) = Some row"
      "rv_version row = rv_version r \<Longrightarrow> row = r"
    and plan: "dget (sc_soft_plans db) (so_soft_plan_id plan) = None" "so_reservation_id plan = rv_reservation_id r"
  shows "outcome memory_of (repo_save_soft_plan db r plan (rv_version r) au) =
    outcome (\<lambda>m. m) (memory_save_soft_plan (memory_of db) r plan (rv_version r) au)"
proof (cases "rv_version row = rv_version r")
  case True
  have "rv_pickup_place_id r \<noteq> rv_destination_place_id r"
    using scheduled_invD(1) [OF inv r(1)] r(2) [OF True] by (simp add: reservation_ok_def)
  then show ?thesis
    using r plan True
    by (simp add: repo_save_soft_plan_def memory_save_soft_plan_def memory_of_def update_reservation_def
      append_effects_def Let_def)
next
  case False
  then show ?thesis
    using r plan by (simp add: repo_save_soft_plan_def memory_save_soft_plan_def memory_of_def update_reservation_def Let_def)
qed

lemma memory_overlap_iff: "dm_state c = CT_COMMITTED \<Longrightarrow> memory_overlap c = excluded_commitment c"
  by (auto simp: fun_eq_iff memory_overlap_def excluded_commitment_def windows_overlap_def)

lemma memory_commit_agrees:
  assumes inv: "scheduled_inv db" and r: "dget (sc_reservations db) (rv_reservation_id r) = Some row"
      "rv_version row = rv_version r \<Longrightarrow> row = r"
    and c: "dget (sc_commitments db) (dm_commitment_id c) = None" "dm_reservation_id c = rv_reservation_id r"
      "dm_state c = CT_COMMITTED"
  shows "outcome memory_of (repo_commit_driver db r c (rv_version r) au) =
    outcome (\<lambda>m. m) (memory_commit_driver (memory_of db) r c (rv_version r) au)"
proof (cases "rv_version row = rv_version r")
  case True
  have "rv_pickup_place_id r \<noteq> rv_destination_place_id r"
    using scheduled_invD(1) [OF inv r(1)] r(2) [OF True] by (simp add: reservation_ok_def)
  then show ?thesis
    using r c True
    by (simp add: repo_commit_driver_def memory_commit_driver_def memory_of_def update_reservation_def memory_overlap_iff
      append_effects_def Let_def)
next
  case False
  then show ?thesis
    using r c by (simp add: repo_commit_driver_def memory_commit_driver_def memory_of_def update_reservation_def Let_def)
qed

end
