(* ===== verification/Scheduled_Rows.thy ===== *)
theory Scheduled_Rows
  imports Scheduled_Inv
begin

text \<open>
  Every stored row is a valid model: reading a reservation or a participant back, which the repository does with
  \<open>model_validate\<close>, never raises, whatever the operations have written.
\<close>

lemma valid_reservation_iff:
  "valid_reservation r = Inr r \<longleftrightarrow> reservation_fields r \<and> rv_pickup_place_id r \<noteq> rv_destination_place_id r"
  by (simp add: valid_reservation_def)

lemma valid_reservation_same: "valid_reservation r = Inr q \<Longrightarrow> q = r \<and> valid_reservation r = Inr r"
  by (simp add: valid_reservation_def split: if_splits)

definition rows_valid :: "scheduled_db \<Rightarrow> bool" where
  "rows_valid db \<longleftrightarrow>
     (\<forall>k r. dget (sc_reservations db) k = Some r \<longrightarrow> valid_reservation r = Inr r) \<and>
     (\<forall>l k p. dget (sc_participants db) l = Some (k, p) \<longrightarrow> valid_participant p = Inr p)"

lemma rows_validD:
  assumes "rows_valid db"
  shows "dget (sc_reservations db) k = Some r \<Longrightarrow> reservation_fields r"
    and "dget (sc_participants db) l = Some (k, p) \<Longrightarrow> valid_participant p = Inr p"
  using assms unfolding rows_valid_def by (auto simp: valid_reservation_iff)

lemma rows_valid_same:
  "rows_valid db \<Longrightarrow> sc_reservations db' = sc_reservations db \<Longrightarrow> sc_participants db' = sc_participants db \<Longrightarrow> rows_valid db'"
  by (simp add: rows_valid_def)

lemma rows_valid_replace:
  assumes "rows_valid db" and "sc_reservations db' = dset k r (sc_reservations db)"
    and "reservation_fields r" and "rv_pickup_place_id r \<noteq> rv_destination_place_id r"
    and "\<And>l i p. dget (sc_participants db') l = Some (i, p) \<Longrightarrow> valid_participant p = Inr p"
  shows "rows_valid db'"
  using assms unfolding rows_valid_def by (auto simp: valid_reservation_iff)

lemma mutate_rows:
  assumes run: "mutate_reservation db r e st f au ev rs now = Inr (db', r')" and rows: "rows_valid db"
    and keeps: "\<And>x. reservation_fields x \<Longrightarrow> reservation_fields (f x)"
  shows "rows_valid db'"
  using run
proof (rule mutate_ok)
  fix row
  let ?new = "(f row)\<lparr>rv_state := (case st of None \<Rightarrow> rv_state row | Some t \<Rightarrow> t), rv_updated_at := now, rv_version := e + 1\<rparr>"
  assume m: "dget (sc_reservations db) (rv_reservation_id r) = Some row" "rv_version row = e"
    "sc_reservations db' = dset (rv_reservation_id r) ?new (sc_reservations db)"
    "rv_pickup_place_id (f row) \<noteq> rv_destination_place_id (f row)" "scheduled_tables db' = scheduled_tables db"
  have old: "reservation_fields row" "1 \<le> e"
    using rows_validD(1) [OF rows m(1)] m(2) by (simp_all add: reservation_fields_def)
  have new: "reservation_fields ?new" using keeps [OF old(1)] old(2) by (simp add: reservation_fields_def)
  show ?thesis
    by (rule rows_valid_replace [OF rows m(3) new]) (use m rows_validD(2) [OF rows] in \<open>auto simp: scheduled_tables_def\<close>)
qed

lemma insert_participants_valid:
  "insert_participants k ps rows = Inr rows' \<Longrightarrow> (\<And>p. p \<in> set ps \<Longrightarrow> valid_participant p = Inr p) \<Longrightarrow>
   (\<And>l i p. dget rows l = Some (i, p) \<Longrightarrow> valid_participant p = Inr p) \<Longrightarrow>
   dget rows' l = Some (i, p) \<Longrightarrow> valid_participant p = Inr p"
  using added_rows by metis

lemma valid_participants_each: "valid_participants ps = Inr qs \<Longrightarrow> p \<in> set ps \<Longrightarrow> valid_participant p = Inr p"
proof (induction ps arbitrary: qs)
  case (Cons a ps)
  then obtain a' rest where "valid_participant a = Inr a'" "valid_participants ps = Inr rest"
    by (auto simp: bind_result_eq_Inr)
  moreover have "a' = a" using calculation(1) by (auto simp: valid_participant_def split: if_splits)
  ultimately show ?case using Cons by auto
qed simp

lemma create_rows:
  assumes "create_scheduled env db s c key now dw = Inr (db', p, b)" and rows: "rows_valid db"
  shows "rows_valid db'"
proof -
  let ?r = "new_reservation (xe_policy env) s c now dw" and ?ps = "scheduled_participants s c dw"
  obtain f h au stored qs q where ps: "valid_participants ?ps = Inr qs" and q: "valid_reservation ?r = Inr q"
    and make: "repo_create_reservation db q qs f h au = Inr (db', stored, b)"
    using assms unfolding create_scheduled_def create_reservation_def by (elim ok_elims) auto
  note same = valid_participants_same [OF ps] and r = valid_reservation_same [OF q]
  show ?thesis
  proof (cases "dget (sc_idempotency db) (rv_booker_id ?r, f)")
    case (Some row)
    then show ?thesis
      using make rows r unfolding repo_create_reservation_def by (auto split: if_splits option.splits)
  next
    case None
    then obtain rows' where ins: "insert_participants (rv_reservation_id ?r) ?ps (sc_participants db) = Inr rows'"
      and db': "sc_reservations db' = dset (rv_reservation_id ?r) ?r (sc_reservations db)" "sc_participants db' = rows'"
      using make r same unfolding repo_create_reservation_def by (auto split: if_splits sum.splits)
    show ?thesis
    proof (rule rows_valid_replace [OF rows db'(1)])
      show "valid_participant p = Inr p" if "dget (sc_participants db') l = Some (i, p)" for l i p
        by (rule insert_participants_valid [OF ins valid_participants_each [OF ps] rows_validD(2) [OF rows] that [unfolded db'(2)]])
    qed (use r in \<open>auto simp: valid_reservation_iff\<close>)
  qed
qed

lemma update_rows:
  assumes "new_update_command t dest e = Inr uc" and "update_scheduled db s k uc now = Inr (db', p)" and "rows_valid db"
  shows "rows_valid db'"
proof -
  have "case mu_destination_place_id uc of None \<Rightarrow> True | Some d \<Rightarrow> length_between 8 128 d"
    using assms(1) by (auto simp: new_update_command_def split: if_splits)
  then have "reservation_fields (update_values uc x)" if "reservation_fields x" for x
    using that by (auto simp: update_values_def reservation_fields_def split: option.splits)
  then show ?thesis
    using assms(2,3) unfolding update_scheduled_def by (elim ok_elims) (hypsubst+, rule mutate_rows, assumption+)
qed

lemma confirm_rows:
  assumes "confirm_or_decline env db s k b now = Inr (db', p)" and rows: "rows_valid db" and inv: "scheduled_inv db"
  shows "rows_valid db'"
proof -
  let ?n = "if b then CN_CONFIRMED else CN_DECLINED"
  obtain r q r' au where q: "find (\<lambda>p. pt_role p = PR_PASSENGER) (participants_of db k) = Some q"
    and rec: "record_consent db r q ?n (rv_version r) au now = Inr (db', r')"
    using assms(1) unfolding confirm_or_decline_def by (elim ok_elims) auto
  have stored: "dget (sc_participants db) (pt_participant_id q) = Some (k, q)"
    using find_filter [OF q] participants_of_iff [OF scheduled_invD(3) [OF inv]] scheduled_invD(4) [OF inv] by blast
  have "valid_participant (q\<lparr>pt_consent_state := ?n\<rparr>) = Inr (q\<lparr>pt_consent_state := ?n\<rparr>)"
    using rows_validD(2) [OF rows stored] by (simp add: valid_participant_def split: if_splits)
  then have mid: "rows_valid (db\<lparr>sc_consents := cs, sc_participants := (case dget (sc_participants db) (pt_participant_id q) of
      None \<Rightarrow> sc_participants db | Some (l, _) \<Rightarrow> dset (pt_participant_id q) (l, q\<lparr>pt_consent_state := ?n\<rparr>) (sc_participants db))\<rparr>)"
    for cs
    using rows stored unfolding rows_valid_def by auto
  from rec show ?thesis
    by (rule record_consent_ok) (rule mutate_rows [OF _ mid], assumption)
qed

lemma verify_rows:
  assumes "verify_scheduled_pickup env db s k code now rid = Inr (db', p)" and rows: "rows_valid db"
  shows "rows_valid db'"
proof -
  obtain r r' db1 au ev rs where v: "repo_verify_pickup db (rv_reservation_id r) (xe_pickup_digest env k code) now = (db1, True)"
    and m: "mutate_reservation db1 r (rv_version r) (Some RV_ACTIVATED_AS_RIDE)
      (\<lambda>x. x\<lparr>rv_activated_ride_id := Some rid\<rparr>) au ev rs now = Inr (db', r')"
    using assms(1) unfolding verify_scheduled_pickup_def by (elim ok_elims) auto
  have "rows_valid db1" using v by (rule repo_verify_pickup_True) (rule rows_valid_same [OF rows]; simp)
  then show ?thesis by (rule mutate_rows [OF m]) (simp add: reservation_fields_def)
qed

lemma plan_rows:
  assumes "plan_reservation env db r cs now inc pid = Inr (db', r')" and "valid_reservation r = Inr r" and rows: "rows_valid db"
  shows "rows_valid db'"
proof (cases "db' = db")
  case False
  then obtain plan au where "repo_save_soft_plan db r plan (rv_version r) au = Inr (db', r')"
    using assms(1) unfolding plan_reservation_def by (auto simp: bind_result_eq_Inr Let_def split: list.splits if_splits option.splits)
  then obtain row ps db1 where row: "dget (sc_reservations db) (rv_reservation_id r) = Some row" "rv_version row = rv_version r"
    and db1: "sc_reservations db' = dset (rv_reservation_id r) (row\<lparr>rv_active_soft_plan_id := Some (so_soft_plan_id plan),
      rv_soft_replacement_count := rv_soft_replacement_count r + (if so_supersedes_soft_plan_id plan \<noteq> None then 1 else 0),
      rv_updated_at := so_selected_at plan, rv_version := rv_version r + 1\<rparr>) (sc_reservations db)"
      "sc_participants db' = sc_participants db"
    unfolding repo_save_soft_plan_def by (elim ok_elims) (auto elim!: update_reservation_ok)
  have old: "valid_reservation row = Inr row" using rows row(1) by (simp add: rows_valid_def)
  have r: "0 \<le> rv_soft_replacement_count r" using assms(2) by (simp add: valid_reservation_iff reservation_fields_def)
  show ?thesis
    by (rule rows_valid_replace [OF rows db1(1)])
      (use old row(2) r db1(2) rows_validD(2) [OF rows] in \<open>auto simp: valid_reservation_iff reservation_fields_def\<close>)
qed (use rows in simp)

lemma commit_rows:
  assumes "commit_reservation env db r d now cid = Inr (db', r')" and rows: "rows_valid db"
  shows "rows_valid db'"
proof -
  obtain c au where "repo_commit_driver db r c (rv_version r) au = Inr (db', r')"
    using assms(1) unfolding commit_reservation_def by (elim ok_elims) auto
  then obtain row where row: "dget (sc_reservations db) (rv_reservation_id r) = Some row" "rv_version row = rv_version r"
    and db1: "sc_reservations db' = dset (rv_reservation_id r) (row\<lparr>rv_active_commitment_id := Some (dm_commitment_id c),
      rv_state := RV_DRIVER_COMMITTED, rv_updated_at := dm_committed_at c, rv_version := rv_version r + 1\<rparr>) (sc_reservations db)"
      "sc_participants db' = sc_participants db"
    unfolding repo_commit_driver_def by (elim ok_elims) (auto elim!: update_reservation_ok)
  have old: "valid_reservation row = Inr row" using rows row(1) by (simp add: rows_valid_def)
  show ?thesis
    by (rule rows_valid_replace [OF rows db1(1)])
      (use old row(2) db1(2) rows_validD(2) [OF rows] in \<open>auto simp: valid_reservation_iff reservation_fields_def\<close>)
qed

lemma scheduled_step_rows: "scheduled_step env db db' \<Longrightarrow> scheduled_inv db \<Longrightarrow> rows_valid db \<Longrightarrow> rows_valid db'"
proof (induction rule: scheduled_step.induct)
  case (create_step at c0 c db s key now dw db' p b)
  then show ?case by (blast intro: create_rows)
next
  case (update_step t dest e uc db s k now db' p)
  then show ?case by (blast intro: update_rows)
next
  case (consent_step db s k confirmed now db' p)
  then show ?case by (blast intro: confirm_rows)
next
  case (cancel_step db s k now db' p)
  then show ?case unfolding cancel_scheduled_def by (elim ok_elims) (hypsubst+, rule mutate_rows, assumption+)
next
  case (code_step db k code now vid db')
  have "sc_reservations db' = sc_reservations db" "sc_participants db' = sc_participants db"
    using code_step(1) unfolding create_pickup_code_def create_pickup_verification_def by (elim ok_elims; auto)+
  then show ?case by (rule rows_valid_same [OF code_step(3)])
next
  case (verify_step db s k code now rid db' p)
  then show ?case by (blast intro: verify_rows)
next
  case (respond_step db s k accepted e now db' p)
  then show ?case unfolding driver_commitment_response_def by (elim ok_elims) (hypsubst+, rule mutate_rows, assumption+)
next
  case (progress_step db s k ready now db' p)
  then show ?case unfolding driver_progress_def by (elim ok_elims) (hypsubst+, rule mutate_rows, assumption+)
next
  case (handoff_step db s k now db' p)
  then show ?case unfolding support_handoff_def by (elim ok_elims) (hypsubst+, rule mutate_rows, assumption+)
next
  case (plan_step r db cs now inc pid db' r')
  then show ?case by (blast intro: plan_rows)
next
  case (commit_step r db d now cid db' r')
  then show ?case by (blast intro: commit_rows)
qed

lemma scheduled_reachable_rows: "scheduled_reachable env db \<Longrightarrow> rows_valid db"
proof (induction rule: rtranclp_induct)
  case base
  then show ?case by (simp add: rows_valid_def empty_scheduled_def)
next
  case (step db db')
  then show ?case using scheduled_reachable_inv [of env db] scheduled_step_rows by blast
qed

end
