(* ===== verification/Scheduled_Props.thy ===== *)
theory Scheduled_Props
  imports Scheduled_Memory Scheduled_Rows
begin

text \<open>
  The properties of scheduled rides over every reachable database, and a sample run: a ride booked for somebody else,
  confirmed, committed, picked up and activated, and a second ride committed to the same driver later that day.
\<close>

section \<open>What later steps keep\<close>

lemma effect_keeps_commitment:
  "scheduled_effect db db' \<Longrightarrow> dget (sc_commitments db) c = Some m \<Longrightarrow> dget (sc_commitments db') c = Some m"
  by (cases rule: scheduled_effect.cases) (auto simp: scheduled_tables_def)

lemma effect_keeps_reservation:
  assumes "scheduled_effect db db'" and inv: "scheduled_inv db" and r: "dget (sc_reservations db) k = Some r"
  shows "\<exists>r'. dget (sc_reservations db') k = Some r' \<and>
      (rv_active_commitment_id r \<noteq> None \<longrightarrow> rv_active_commitment_id r' = rv_active_commitment_id r) \<and>
      (rv_state r = RV_ACTIVATED_AS_RIDE \<longrightarrow> rv_state r' = RV_ACTIVATED_AS_RIDE \<and>
        rv_activated_ride_id r' = rv_activated_ride_id r)"
proof -
  have driven: "rv_active_commitment_id r \<noteq> None \<and> verified_pickup db k" if "rv_state r = RV_ACTIVATED_AS_RIDE"
    using scheduled_invD(1) [OF inv r] that unfolding reservation_ok_def driven_states_def by blast
  from assms(1) show ?thesis
  proof (cases rule: scheduled_effect.cases)
    case (moved i x x')
    have "rv_state x = RV_ACTIVATED_AS_RIDE \<Longrightarrow> rv_state x' = RV_ACTIVATED_AS_RIDE"
      using moved(5) by (auto simp: progress_targets_def allows_def)
    then show ?thesis using moved r by (cases "k = i") auto
  next
    case (consented i x p n x')
    then show ?thesis using r by (cases "k = i") auto
  next
    case (activated i x v now d x')
    have "\<not> verified_pickup db i" using activated(3,4) by (simp add: verified_pickup_def)
    then show ?thesis using activated r driven by (cases "k = i") auto
  next
    case (committed i x c x')
    then show ?thesis using r driven by (cases "k = i") auto
  qed (use r in auto)
qed

lemma steps_keep_commitment:
  assumes "(scheduled_step env)\<^sup>*\<^sup>* db db'" and "scheduled_inv db" and "dget (sc_commitments db) c = Some m"
  shows "dget (sc_commitments db') c = Some m"
  using assms
proof (induction rule: rtranclp_induct)
  case (step db1 db2)
  then show ?case
    using effect_keeps_commitment scheduled_step_effect scheduled_inv_ids scheduled_steps_inv by metis
qed

lemma steps_keep_reservation:
  assumes "(scheduled_step env)\<^sup>*\<^sup>* db db'" and inv: "scheduled_inv db" and r: "dget (sc_reservations db) k = Some r"
  shows "\<exists>r'. dget (sc_reservations db') k = Some r' \<and>
      (rv_active_commitment_id r \<noteq> None \<longrightarrow> rv_active_commitment_id r' = rv_active_commitment_id r) \<and>
      (rv_state r = RV_ACTIVATED_AS_RIDE \<longrightarrow> rv_state r' = RV_ACTIVATED_AS_RIDE \<and>
        rv_activated_ride_id r' = rv_activated_ride_id r)"
  using assms(1)
proof (induction rule: rtranclp_induct)
  case (step db1 db2)
  note inv1 = scheduled_steps_inv [OF step(1) inv]
  obtain r1 where r1: "dget (sc_reservations db1) k = Some r1"
      "rv_active_commitment_id r \<noteq> None \<longrightarrow> rv_active_commitment_id r1 = rv_active_commitment_id r"
      "rv_state r = RV_ACTIVATED_AS_RIDE \<longrightarrow> rv_state r1 = RV_ACTIVATED_AS_RIDE \<and> rv_activated_ride_id r1 = rv_activated_ride_id r"
    using step(3) by blast
  then show ?case
    using effect_keeps_reservation [OF scheduled_step_effect [OF step(2) scheduled_inv_ids [OF inv1]] inv1 r1(1)] by fastforce
qed (use r in auto)

lemma committed_driver_stays:
  assumes "(scheduled_step env)\<^sup>*\<^sup>* db db'" and inv: "scheduled_inv db" and "committed_driver_id db k = Inr (Some d)"
  shows "committed_driver_id db' k = Inr (Some d)"
proof -
  obtain r c m where r: "dget (sc_reservations db) k = Some r" "rv_active_commitment_id r = Some c"
    and m: "dget (sc_commitments db) c = Some m" "dm_reservation_id m = k" "dm_driver_id m = d"
    using assms(3) unfolding committed_driver_iff [OF scheduled_invD(2) [OF inv]] by blast
  have "\<exists>r'. dget (sc_reservations db') k = Some r' \<and> rv_active_commitment_id r' = Some c"
    using steps_keep_reservation [OF assms(1) inv r(1)] r(2) by auto
  then show ?thesis
    using steps_keep_commitment [OF assms(1) inv m(1)] m(2,3)
    unfolding committed_driver_iff [OF scheduled_invD(2) [OF scheduled_steps_inv [OF assms(1) inv]]] by blast
qed

section \<open>A sample run\<close>

definition sample_reservation_policy :: reservation_policy where
  "sample_reservation_policy =
     \<lparr>rp_policy_id = 1, rp_version = ''v1'', rp_minimum_booking_lead_seconds = 3600,
      rp_maximum_booking_horizon_seconds = 2592000, rp_soft_planning_lead_seconds = 7200,
      rp_formal_commitment_lead_seconds = 3600, rp_revalidation_lead_seconds = 1800,
      rp_material_lateness_reduction_seconds = 120, rp_material_reliability_gain_bps = 500,
      rp_stability_margin_seconds = 60, rp_maximum_soft_replacements = 3, rp_maximum_formal_replacements = 2,
      rp_fairness_eta_equivalence_seconds = 120, rp_maximum_fairness_credit_bps = 300,
      rp_minimum_prediction_confidence_bps = 7000, rp_maximum_current_trip_completion_seconds = 3600,
      rp_passenger_confirmation_ttl_seconds = 3600, rp_checkpoint_retry_limit = 5\<rparr>"

definition sample_scheduled_env :: scheduled_env where
  "sample_scheduled_env =
     \<lparr>xe_policy = sample_reservation_policy, xe_fingerprint = (\<lambda>s. s), xe_request_digest = (\<lambda>_. ''digest''),
      xe_pickup_digest = (\<lambda>_ code. code), xe_name_id = (\<lambda>r d _. r + d),
      xe_matches = (\<lambda>s reference. fst s = 30 \<and> reference = ''contact-reference'')\<rparr>"

abbreviation sample_booker :: assured_subject where "sample_booker \<equiv> ((10, ID_RIDER), AL_MULTI_FACTOR)"
abbreviation sample_driver :: assured_subject where "sample_driver \<equiv> ((20, ID_DRIVER), AL_BASIC)"
abbreviation sample_guest :: assured_subject where "sample_guest \<equiv> ((30, ID_RIDER), AL_BASIC)"

definition sample_scheduled_command :: "passenger_channel \<Rightarrow> string option \<Rightarrow> int \<Rightarrow> scheduled_create_command" where
  "sample_scheduled_command channel reference at =
     \<lparr>mc_pickup_place_id = ''place-aaaa'', mc_destination_place_id = ''place-bbbb'', mc_service_type = ''standard'',
      mc_quote_id = 2, mc_requested_pickup_at = timedelta_seconds at, mc_requested_timezone = ''UTC'',
      mc_passenger_channel = channel, mc_passenger_contact_reference = reference, mc_trusted_contact_reference = None,
      mc_future_payer_reference = None\<rparr>"

datatype scheduled_call =
    Book passenger_channel "string option" int string uuid
  | Confirm uuid
  | Plan uuid uuid
  | Commit uuid uuid
  | Proceed uuid bool
  | Code uuid
  | Verify uuid string uuid

definition sample_candidate :: scheduled_candidate where
  "sample_candidate = \<lparr>sk_driver_id = 20, sk_eligible = True, sk_safety_eligible = True, sk_airport_eligible = False,
     sk_pickup_eta_low_seconds = 300, sk_pickup_eta_high_seconds = 600, sk_pickup_window_success_bps = 9000,
     sk_recovery_capacity_bps = 5000, sk_opportunity_deficit_bps = 500, sk_current_trip_completion_high_seconds = 0,
     sk_prediction_confidence_bps = 8000, sk_location_observed_at = 0, sk_has_conflicting_commitment = False\<rparr>"

definition sample_decision :: candidate_decision where
  "sample_decision = \<lparr>cd_decision_id = 5, cd_driver_id = 20, cd_policy_version = ''v1'', cd_conservative_eta_seconds = 600,
     cd_reliability_bps = 9000, cd_fairness_credit_bps = 300, cd_effective_reliability_bps = 9300, cd_reason_codes = []\<rparr>"

fun run_scheduled :: "scheduled_call \<Rightarrow> scheduled_db \<Rightarrow> scheduled_db result" where
  "run_scheduled (Book ch rf at key k) db =
     bind_result (new_scheduled_command (Aware (timedelta_seconds at)) (sample_scheduled_command ch rf at)) (\<lambda>c.
     bind_result (create_scheduled sample_scheduled_env db sample_booker c key 0
       \<lparr>cr_booker = k + 1, cr_passenger = k + 2, cr_trusted = k + 3, cr_payer = k + 4, cr_reservation = k\<rparr>)
       (\<lambda>(db', _). Inr db'))"
| "run_scheduled (Confirm k) db =
     bind_result (confirm_or_decline sample_scheduled_env db sample_guest k True 1) (\<lambda>(db', _). Inr db')"
| "run_scheduled (Plan k plan) db =
     bind_result (case get_reservation db k of None \<Rightarrow> Inl KeyError | Some r \<Rightarrow> valid_reservation r) (\<lambda>r.
     bind_result (plan_reservation sample_scheduled_env db r [sample_candidate] 2 None plan) (\<lambda>(db', _). Inr db'))"
| "run_scheduled (Commit k cid) db =
     bind_result (case get_reservation db k of None \<Rightarrow> Inl KeyError | Some r \<Rightarrow> valid_reservation r) (\<lambda>r.
     bind_result (commit_reservation sample_scheduled_env db r sample_decision 3 cid) (\<lambda>(db', _). Inr db'))"
| "run_scheduled (Proceed k ready) db = bind_result (driver_progress db sample_driver k ready 4) (\<lambda>(db', _). Inr db')"
| "run_scheduled (Code k) db = create_pickup_code sample_scheduled_env db k ''code'' 5 (k + 5)"
| "run_scheduled (Verify k code ride) db =
     bind_result (verify_scheduled_pickup sample_scheduled_env db sample_driver k code 6 ride) (\<lambda>(db', _). Inr db')"

fun run_scheduleds :: "scheduled_call list \<Rightarrow> scheduled_db \<Rightarrow> scheduled_db result" where
  "run_scheduleds [] db = Inr db"
| "run_scheduleds (c # cs) db = bind_result (run_scheduled c db) (run_scheduleds cs)"

lemma run_scheduled_step: "run_scheduled c db = Inr db' \<Longrightarrow> scheduled_step sample_scheduled_env db db'"
  by (cases c) (auto simp: bind_result_eq_Inr dest: valid_reservation_same intro: scheduled_step.intros split: option.splits)

lemma run_scheduleds_steps: "run_scheduleds cs db = Inr db' \<Longrightarrow> (scheduled_step sample_scheduled_env)\<^sup>*\<^sup>* db db'"
proof (induction cs arbitrary: db)
  case (Cons c cs)
  then show ?case
    using run_scheduled_step unfolding run_scheduleds.simps(2) bind_result_eq_Inr
    by (meson converse_rtranclp_into_rtranclp)
qed simp

definition sample_day :: "scheduled_call list" where
  "sample_day =
     [Book PC_VERIFIED_CONTACT (Some ''contact-reference'') 100000 ''key-1'' 100, Confirm 100, Plan 100 130, Commit 100 140,
      Proceed 100 False, Proceed 100 True, Code 100, Verify 100 ''code'' 150,
      Book PC_IDENTITY None 110000 ''key-2'' 200, Commit 200 240,
      Book PC_VERIFIED_CONTACT (Some ''contact-reference'') 104000 ''key-3'' 300, Confirm 300]"

definition sample_scheduled :: scheduled_db where
  "sample_scheduled = projr (run_scheduleds sample_day empty_scheduled)"

definition scheduled_outcome :: "scheduled_call list \<Rightarrow> ((uuid \<times> reservation_state \<times> uuid option \<times> uuid option) list \<times>
    (uuid \<times> uuid \<times> uuid \<times> instant \<times> instant) list \<times> (uuid \<times> instant option) list) result" where
  "scheduled_outcome cs = bind_result (run_scheduleds cs empty_scheduled) (\<lambda>db. Inr
     (map (\<lambda>(k, r). (k, rv_state r, rv_active_commitment_id r, rv_activated_ride_id r)) (sc_reservations db),
      map (\<lambda>(c, m). (c, dm_reservation_id m, dm_driver_id m, dm_window_started_at m, dm_window_ended_at m)) (sc_commitments db),
      map (\<lambda>(k, v). (k, vf_verified_at v)) (sc_verifications db)))"

lemma sample_day_outcome:
  "scheduled_outcome sample_day = Inr
     ([(100, RV_ACTIVATED_AS_RIDE, Some 140, Some 150), (200, RV_DRIVER_COMMITTED, Some 240, None),
       (300, RV_ACCEPTED, None, None)],
      [(140, 100, 20, timedelta_seconds 96400, timedelta_seconds 103600),
       (240, 200, 20, timedelta_seconds 106400, timedelta_seconds 113600)],
      [(100, Some 6)])"
  by code_simp

lemma sample_overlap_refused:
  "run_scheduleds (sample_day @ [Commit 300 340]) empty_scheduled = Inl (ReservationConflict ''Driver commitment overlaps'')"
  by code_simp

lemma sample_scheduled_reachable: "scheduled_reachable sample_scheduled_env sample_scheduled"
proof -
  obtain db where "run_scheduleds sample_day empty_scheduled = Inr db"
    using sample_day_outcome by (auto simp: scheduled_outcome_def bind_result_eq_Inr)
  then show ?thesis using run_scheduleds_steps by (simp add: sample_scheduled_def)
qed

lemma sample_scheduled_view:
  "map (\<lambda>(k, r). (k, rv_state r, rv_active_commitment_id r, rv_activated_ride_id r)) (sc_reservations sample_scheduled) =
     [(100, RV_ACTIVATED_AS_RIDE, Some 140, Some 150), (200, RV_DRIVER_COMMITTED, Some 240, None),
       (300, RV_ACCEPTED, None, None)]"
  "map (\<lambda>(c, m). (c, dm_reservation_id m, dm_driver_id m, dm_window_started_at m, dm_window_ended_at m)) (sc_commitments sample_scheduled) =
     [(140, 100, 20, timedelta_seconds 96400, timedelta_seconds 103600),
       (240, 200, 20, timedelta_seconds 106400, timedelta_seconds 113600)]"
  using sample_day_outcome by (auto simp: scheduled_outcome_def bind_result_eq_Inr sample_scheduled_def)

lemma sample_scheduled_rows:
  obtains r q a m n where "sc_reservations sample_scheduled = [(100, r), (200, q), (300, a)]"
    and "rv_state r = RV_ACTIVATED_AS_RIDE" and "rv_state a = RV_ACCEPTED" and "rv_active_commitment_id a = None"
    and "sc_commitments sample_scheduled = [(140, m), (240, n)]" and "dm_driver_id m = 20" and "dm_driver_id n = 20"
  using sample_scheduled_view that by (auto simp: map_eq_Cons_conv)

section \<open>The properties\<close>

text \<open>C30: In every reachable database the committed windows of a driver are disjoint, a commitment is the active one of its
  reservation and was never released, and the driver of a reservation, which the row-level query expects to be
  unique, always is: it is the driver of the active commitment.\<close>

theorem scheduled_windows_disjoint:
  assumes "scheduled_reachable env db"
  shows "(\<forall>c m d n. dget (sc_commitments db) c = Some m \<longrightarrow> dget (sc_commitments db) d = Some n \<longrightarrow> c \<noteq> d \<longrightarrow>
      dm_driver_id m = dm_driver_id n \<longrightarrow> \<not> windows_overlap m n) \<and>
    (\<forall>c m. dget (sc_commitments db) c = Some m \<longrightarrow> dm_state m = CT_COMMITTED \<and>
      (\<exists>r. dget (sc_reservations db) (dm_reservation_id m) = Some r \<and> rv_active_commitment_id r = Some c)) \<and>
    (\<forall>k. \<exists>x. committed_driver_id db k = Inr x \<and>
      (\<forall>d. x = Some d \<longleftrightarrow> (\<exists>r c m. dget (sc_reservations db) k = Some r \<and> rv_active_commitment_id r = Some c \<and>
        dget (sc_commitments db) c = Some m \<and> dm_reservation_id m = k \<and> dm_driver_id m = d)))"
proof (intro conjI)
  note com = scheduled_invD(2) [OF scheduled_reachable_inv [OF assms]]
  show "\<forall>c m d n. dget (sc_commitments db) c = Some m \<longrightarrow> dget (sc_commitments db) d = Some n \<longrightarrow> c \<noteq> d \<longrightarrow>
      dm_driver_id m = dm_driver_id n \<longrightarrow> \<not> windows_overlap m n"
    "\<forall>c m. dget (sc_commitments db) c = Some m \<longrightarrow> dm_state m = CT_COMMITTED \<and>
      (\<exists>r. dget (sc_reservations db) (dm_reservation_id m) = Some r \<and> rv_active_commitment_id r = Some c)"
    using com unfolding commitments_ok_def by blast+
  show "\<forall>k. \<exists>x. committed_driver_id db k = Inr x \<and>
      (\<forall>d. x = Some d \<longleftrightarrow> (\<exists>r c m. dget (sc_reservations db) k = Some r \<and> rv_active_commitment_id r = Some c \<and>
        dget (sc_commitments db) c = Some m \<and> dm_reservation_id m = k \<and> dm_driver_id m = d))"
  proof
    fix k
    obtain x where x: "committed_driver_id db k = Inr x" using committed_driver_iff(2) [OF com] by blast
    then show "\<exists>x. committed_driver_id db k = Inr x \<and>
      (\<forall>d. x = Some d \<longleftrightarrow> (\<exists>r c m. dget (sc_reservations db) k = Some r \<and> rv_active_commitment_id r = Some c \<and>
        dget (sc_commitments db) c = Some m \<and> dm_reservation_id m = k \<and> dm_driver_id m = d))"
      unfolding committed_driver_iff(1) [OF com, symmetric] by simp
  qed
qed

lemma scheduled_windows_disjoint_witness:
  "\<exists>m n. dget (sc_commitments sample_scheduled) 140 = Some m \<and> dget (sc_commitments sample_scheduled) 240 = Some n \<and>
     dm_driver_id m = 20 \<and> dm_driver_id n = 20 \<and> \<not> windows_overlap m n"
proof (rule sample_scheduled_rows)
  fix m n
  assume rows: "sc_commitments sample_scheduled = [(140, m), (240, n)]" "dm_driver_id m = 20" "dm_driver_id n = 20"
  have "\<not> windows_overlap m n"
    using scheduled_windows_disjoint [OF sample_scheduled_reachable, THEN conjunct1, rule_format, of 140 m 240 n] rows by simp
  then show ?thesis using rows by simp
qed

text \<open>C31: A reservation is accepted only for a passenger who is the booker or has confirmed. It is activated only after its
  pickup code was verified before it expired, with a committed driver; whatever happens after that, it keeps that
  driver and its ride, and it goes nowhere but to fulfilled, the one state that the transition table of
  \<open>engine.py\<close> and the lifecycle of Mission 16 allow after activation. The last part records a gap of the code,
  not a promise of it: no reservation is ever fulfilled, because no operation takes that last step.\<close>

theorem scheduled_milestones_guarded:
  assumes "scheduled_reachable env db" and "dget (sc_reservations db) k = Some r"
  shows "(rv_state r = RV_ACCEPTED \<longrightarrow>
      (\<exists>p. dget (sc_participants db) (rv_passenger_participant_id r) = Some (k, p) \<and> pt_role p = PR_PASSENGER \<and>
        (pt_identity_id p = Some (rv_booker_id r) \<or> pt_consent_state p = CN_CONFIRMED))) \<and>
    (rv_state r = RV_ACTIVATED_AS_RIDE \<longrightarrow>
      (\<exists>v t d ride. dget (sc_verifications db) k = Some v \<and> vf_verified_at v = Some t \<and> t < vf_expires_at v \<and>
        committed_driver_id db k = Inr (Some d) \<and>
        (\<forall>db'. (scheduled_step env)\<^sup>*\<^sup>* db db' \<longrightarrow> committed_driver_id db' k = Inr (Some d) \<and>
          (\<exists>r'. dget (sc_reservations db') k = Some r' \<and> rv_activated_ride_id r' = Some ride \<and>
            (rv_state r' = RV_ACTIVATED_AS_RIDE \<or>
             allows RESERVATION_TRANSITIONS RV_ACTIVATED_AS_RIDE (rv_state r')))))) \<and>
    rv_state r \<noteq> RV_FULFILLED"
proof (intro conjI impI)
  note inv = scheduled_reachable_inv [OF assms(1)]
  note ok = scheduled_invD(1) [OF inv assms(2)]
  show "rv_state r \<noteq> RV_FULFILLED" using ok unfolding reservation_ok_def driven_states_def open_states_def by auto
  show "\<exists>p. dget (sc_participants db) (rv_passenger_participant_id r) = Some (k, p) \<and> pt_role p = PR_PASSENGER \<and>
        (pt_identity_id p = Some (rv_booker_id r) \<or> pt_consent_state p = CN_CONFIRMED)" if "rv_state r = RV_ACCEPTED"
    using ok that unfolding reservation_ok_def passenger_ok_def by blast
  assume act: "rv_state r = RV_ACTIVATED_AS_RIDE"
  then obtain v t ride c m where v: "dget (sc_verifications db) k = Some v" "vf_verified_at v = Some t"
      and ride: "rv_activated_ride_id r = Some ride"
      and c: "rv_active_commitment_id r = Some c" "dget (sc_commitments db) c = Some m" "dm_reservation_id m = k"
    using ok unfolding reservation_ok_def verified_pickup_def driven_states_def by blast
  have d: "committed_driver_id db k = Inr (Some (dm_driver_id m))"
    using c assms(2) unfolding committed_driver_iff [OF scheduled_invD(2) [OF inv]] by blast
  have "committed_driver_id db' k = Inr (Some (dm_driver_id m)) \<and>
      (\<exists>r'. dget (sc_reservations db') k = Some r' \<and> rv_activated_ride_id r' = Some ride \<and>
        (rv_state r' = RV_ACTIVATED_AS_RIDE \<or> allows RESERVATION_TRANSITIONS RV_ACTIVATED_AS_RIDE (rv_state r')))"
    if "(scheduled_step env)\<^sup>*\<^sup>* db db'" for db'
    using committed_driver_stays [OF that inv d] steps_keep_reservation [OF that inv assms(2)] act ride by auto
  then show "\<exists>v t d ride. dget (sc_verifications db) k = Some v \<and> vf_verified_at v = Some t \<and> t < vf_expires_at v \<and>
        committed_driver_id db k = Inr (Some d) \<and>
        (\<forall>db'. (scheduled_step env)\<^sup>*\<^sup>* db db' \<longrightarrow> committed_driver_id db' k = Inr (Some d) \<and>
          (\<exists>r'. dget (sc_reservations db') k = Some r' \<and> rv_activated_ride_id r' = Some ride \<and>
            (rv_state r' = RV_ACTIVATED_AS_RIDE \<or>
             allows RESERVATION_TRANSITIONS RV_ACTIVATED_AS_RIDE (rv_state r'))))"
    using v d scheduled_invD(5) [OF inv v(1)] by blast
qed

lemma scheduled_milestones_guarded_witness:
  "(\<exists>v t. dget (sc_verifications sample_scheduled) 100 = Some v \<and> vf_verified_at v = Some t \<and> t < vf_expires_at v) \<and>
   (\<exists>l p. dget (sc_participants sample_scheduled) l = Some (300, p) \<and> pt_role p = PR_PASSENGER) \<and>
   (\<exists>q. dget (sc_reservations sample_scheduled) 200 = Some q \<and> rv_state q \<noteq> RV_FULFILLED)"
proof (rule sample_scheduled_rows)
  fix r q a
  assume rows: "sc_reservations sample_scheduled = [(100, r), (200, q), (300, a)]" "rv_state r = RV_ACTIVATED_AS_RIDE"
    "rv_state a = RV_ACCEPTED"
  have "dget (sc_reservations sample_scheduled) 100 = Some r" "dget (sc_reservations sample_scheduled) 200 = Some q"
    "dget (sc_reservations sample_scheduled) 300 = Some a"
    by (simp_all add: rows(1))
  then show ?thesis
    using scheduled_milestones_guarded [OF sample_scheduled_reachable, of 100 r]
      scheduled_milestones_guarded [OF sample_scheduled_reachable, of 200 q]
      scheduled_milestones_guarded [OF sample_scheduled_reachable, of 300 a] rows(2,3) by blast
qed

text \<open>C33: Once a driver is committed to a reservation, every other planner loses, now and after anything that happens later:
  no further commitment and no soft plan of the reservation is stored, whatever version the planner holds.\<close>

theorem committed_reservation_locked:
  assumes "scheduled_reachable env db" and "commit_reservation env db r d now cid = Inr (db1, r1)"
    and "(scheduled_step env)\<^sup>*\<^sup>* db1 db2" and "rv_reservation_id q = rv_reservation_id r"
  shows "\<not> is_ok (commit_reservation env db2 q d' now' cid') \<and> \<not> is_ok (repo_save_soft_plan db2 q plan e au)"
proof -
  note inv = scheduled_reachable_inv [OF assms(1)]
  have inv1: "scheduled_inv db1" by (rule scheduled_effect_inv [OF commit_effect [OF assms(2) scheduled_inv_ids [OF inv]] inv])
  note inv2 = scheduled_steps_inv [OF assms(3) inv1]
  obtain c au' where "repo_commit_driver db r c (rv_version r) au' = Inr (db1, r1)"
    using assms(2) unfolding commit_reservation_def by (elim ok_elims) auto
  then obtain x where "dget (sc_reservations db1) (rv_reservation_id r) = Some x" "rv_active_commitment_id x \<noteq> None"
    by (rule repo_commit_ok) simp
  then obtain y where y: "get_reservation db2 (rv_reservation_id q) = Some y" "rv_active_commitment_id y \<noteq> None"
    using steps_keep_reservation [OF assms(3) inv1] assms(4) unfolding get_reservation_def by fastforce
  note locked = postgres.locked [OF scheduled_inv_ids [OF inv2] y]
  have "\<not> is_ok (commit_reservation env db2 q d' now' cid')"
    using locked(1) unfolding commit_reservation_def by (auto simp: bind_result_eq_Inr)
  then show ?thesis using locked(2) by blast
qed

definition sample_uncommitted :: scheduled_db where
  "sample_uncommitted = projr (run_scheduleds (take 3 sample_day) empty_scheduled)"

lemma sample_uncommitted_commit:
  "case run_scheduleds (take 3 sample_day) empty_scheduled of Inl _ \<Rightarrow> False
   | Inr db \<Rightarrow> (case get_reservation db 100 of None \<Rightarrow> False
       | Some r \<Rightarrow> \<not> isl (commit_reservation sample_scheduled_env db r sample_decision 3 140))"
  by code_simp

lemma sample_uncommitted_rows:
  obtains r db1 r1 where "scheduled_reachable sample_scheduled_env sample_uncommitted"
    and "get_reservation sample_uncommitted 100 = Some r"
    and "commit_reservation sample_scheduled_env sample_uncommitted r sample_decision 3 140 = Inr (db1, r1)"
proof -
  obtain db r where db: "run_scheduleds (take 3 sample_day) empty_scheduled = Inr db" and r: "get_reservation db 100 = Some r"
    "\<not> isl (commit_reservation sample_scheduled_env db r sample_decision 3 140)"
    using sample_uncommitted_commit by (auto split: sum.splits option.splits)
  then obtain db1 r1 where "commit_reservation sample_scheduled_env db r sample_decision 3 140 = Inr (db1, r1)"
    by (cases "commit_reservation sample_scheduled_env db r sample_decision 3 140") auto
  then show thesis using that db r run_scheduleds_steps [OF db] by (simp add: sample_uncommitted_def)
qed

lemma committed_reservation_locked_witness:
  "\<exists>r db1 r1. commit_reservation sample_scheduled_env sample_uncommitted r sample_decision 3 140 = Inr (db1, r1) \<and>
     \<not> is_ok (commit_reservation sample_scheduled_env db1 r sample_decision 4 141)"
proof (rule sample_uncommitted_rows)
  fix r db1 r1
  assume *: "scheduled_reachable sample_scheduled_env sample_uncommitted"
    "commit_reservation sample_scheduled_env sample_uncommitted r sample_decision 3 140 = Inr (db1, r1)"
  show ?thesis using committed_reservation_locked [OF * rtranclp.rtrancl_refl refl] *(2) by blast
qed

text \<open>C32: The in-memory repository is a faithful stand-in for the database: from what it keeps of any reachable database,
  creating, soft planning and committing succeed and fail alike, return the same and leave it with what it would
  keep of the new database, as long as new identifiers are new and a planner holds a stored version.\<close>

theorem memory_repository_agrees:
  assumes "scheduled_reachable env db"
  shows "(\<forall>r ps f h au. dget (sc_reservations db) (rv_reservation_id r) = None \<longrightarrow> distinct (map pt_participant_id ps) \<longrightarrow>
      (\<forall>p \<in> set ps. dget (sc_participants db) (pt_participant_id p) = None) \<longrightarrow>
      outcome memory_of (repo_create_reservation db r ps f h au) = outcome (\<lambda>m. m) (memory_create (memory_of db) r ps f h au)) \<and>
    (\<forall>r row. dget (sc_reservations db) (rv_reservation_id r) = Some row \<longrightarrow> (rv_version row = rv_version r \<longrightarrow> row = r) \<longrightarrow>
      (\<forall>plan au. dget (sc_soft_plans db) (so_soft_plan_id plan) = None \<longrightarrow> so_reservation_id plan = rv_reservation_id r \<longrightarrow>
        outcome memory_of (repo_save_soft_plan db r plan (rv_version r) au) =
        outcome (\<lambda>m. m) (memory_save_soft_plan (memory_of db) r plan (rv_version r) au)) \<and>
      (\<forall>c au. dget (sc_commitments db) (dm_commitment_id c) = None \<longrightarrow> dm_reservation_id c = rv_reservation_id r \<longrightarrow>
        dm_state c = CT_COMMITTED \<longrightarrow>
        outcome memory_of (repo_commit_driver db r c (rv_version r) au) =
        outcome (\<lambda>m. m) (memory_commit_driver (memory_of db) r c (rv_version r) au)))"
proof (intro conjI allI impI)
  note inv = scheduled_reachable_inv [OF assms]
  show "outcome memory_of (repo_create_reservation db r ps f h au) = outcome (\<lambda>m. m) (memory_create (memory_of db) r ps f h au)"
    if "dget (sc_reservations db) (rv_reservation_id r) = None" "distinct (map pt_participant_id ps)"
      "\<forall>p \<in> set ps. dget (sc_participants db) (pt_participant_id p) = None" for r ps f h au
    by (rule memory_create_agrees [OF inv that(1,2)]) (use that(3) in blast)
  show "outcome memory_of (repo_save_soft_plan db r plan (rv_version r) au) =
        outcome (\<lambda>m. m) (memory_save_soft_plan (memory_of db) r plan (rv_version r) au)"
    if "dget (sc_reservations db) (rv_reservation_id r) = Some row" "rv_version row = rv_version r \<longrightarrow> row = r"
      "dget (sc_soft_plans db) (so_soft_plan_id plan) = None" "so_reservation_id plan = rv_reservation_id r" for r row plan au
    by (rule memory_save_agrees [OF inv that(1) that(2) [rule_format] that(3,4)])
  show "outcome memory_of (repo_commit_driver db r c (rv_version r) au) =
        outcome (\<lambda>m. m) (memory_commit_driver (memory_of db) r c (rv_version r) au)"
    if "dget (sc_reservations db) (rv_reservation_id r) = Some row" "rv_version row = rv_version r \<longrightarrow> row = r"
      "dget (sc_commitments db) (dm_commitment_id c) = None" "dm_reservation_id c = rv_reservation_id r"
      "dm_state c = CT_COMMITTED" for r row c au
    by (rule memory_commit_agrees [OF inv that(1) that(2) [rule_format] that(3-5)])
qed

lemma memory_repository_agrees_witness:
  "\<exists>r. get_reservation sample_uncommitted 100 = Some r \<and>
     outcome memory_of (repo_commit_driver sample_uncommitted r
       (new_commitment sample_reservation_policy r sample_decision 3 140) (rv_version r)
       (reservation_audit r None ''reservation.driver.committed'' ''driver_committed'')) =
     outcome (\<lambda>m. m) (memory_commit_driver (memory_of sample_uncommitted) r
       (new_commitment sample_reservation_policy r sample_decision 3 140) (rv_version r)
       (reservation_audit r None ''reservation.driver.committed'' ''driver_committed''))"
proof (rule sample_uncommitted_rows)
  fix r db1 r1
  assume *: "scheduled_reachable sample_scheduled_env sample_uncommitted" "get_reservation sample_uncommitted 100 = Some r"
    "commit_reservation sample_scheduled_env sample_uncommitted r sample_decision 3 140 = Inr (db1, r1)"
  have k: "rv_reservation_id r = 100"
    using *(2) scheduled_inv_ids [OF scheduled_reachable_inv [OF *(1)]] by (simp add: get_reservation_def ids_ok_def)
  have free: "dget (sc_commitments sample_uncommitted) 140 = None"
    using *(3) unfolding commit_reservation_def repo_commit_driver_def
    by (elim ok_elims) (auto simp: valid_commitment_def new_commitment_def Let_def split: if_splits)
  show ?thesis
    using memory_repository_agrees [OF *(1), THEN conjunct2, rule_format, of r r, THEN conjunct2, rule_format] *(2) k free
    by (simp add: get_reservation_def new_commitment_def Let_def)
qed

text \<open>C34: Reading back never fails: in every reachable database every stored reservation and participant is a valid model of
  its class, stored under its own identifier, whatever updates, consents, plans and commitments were written to it.\<close>

theorem scheduled_rows_validate:
  assumes "scheduled_reachable env db"
  shows "(\<forall>k r. get_reservation db k = Some r \<longrightarrow> valid_reservation r = Inr r \<and> rv_reservation_id r = k) \<and>
    (\<forall>k p. p \<in> set (participants_of db k) \<longrightarrow> valid_participant p = Inr p) \<and>
    (\<forall>k r. get_reservation db k = Some r \<longrightarrow>
      (\<exists>p. find (\<lambda>p. pt_role p = PR_PASSENGER) (participants_of db k) = Some p \<and>
        pt_participant_id p = rv_passenger_participant_id r))"
proof (intro conjI allI impI)
  note inv = scheduled_reachable_inv [OF assms] and rows = scheduled_reachable_rows [OF assms]
  have member: "p \<in> set (participants_of db k) \<longleftrightarrow> dget (sc_participants db) (pt_participant_id p) = Some (k, p)" for p k
    by (rule participants_of_iff [OF scheduled_invD(3) [OF inv]]) (use scheduled_invD(4) [OF inv] in blast)
  fix k
  show "valid_reservation r = Inr r" "rv_reservation_id r = k" if "get_reservation db k = Some r" for r
    using that rows scheduled_inv_ids [OF inv] by (auto simp: get_reservation_def rows_valid_def ids_ok_def)
  show "valid_participant p = Inr p" if "p \<in> set (participants_of db k)" for p
    using that rows unfolding member rows_valid_def by blast
  show "\<exists>p. find (\<lambda>p. pt_role p = PR_PASSENGER) (participants_of db k) = Some p \<and>
        pt_participant_id p = rv_passenger_participant_id r" if r: "get_reservation db k = Some r" for r
  proof -
    have ok: "passenger_ok db k r" using scheduled_invD(1) [OF inv] r by (simp add: get_reservation_def reservation_ok_def)
    then obtain q where q: "dget (sc_participants db) (rv_passenger_participant_id r) = Some (k, q)" "pt_role q = PR_PASSENGER"
      unfolding passenger_ok_def by blast
    then have "q \<in> set (participants_of db k)" unfolding member using scheduled_invD(4) [OF inv q(1)] by simp
    then obtain p where p: "find (\<lambda>p. pt_role p = PR_PASSENGER) (participants_of db k) = Some p"
      using q(2) by (cases "find (\<lambda>p. pt_role p = PR_PASSENGER) (participants_of db k)") (auto simp: find_None_iff)
    then have "pt_role p = PR_PASSENGER" "p \<in> set (participants_of db k)" using find_filter by fast+
    then have "pt_participant_id p = rv_passenger_participant_id r" using ok unfolding passenger_ok_def member by blast
    then show ?thesis using p by blast
  qed
qed

lemma scheduled_rows_validate_witness:
  "\<exists>r. get_reservation sample_uncommitted 100 = Some r \<and> valid_reservation r = Inr r \<and> rv_reservation_id r = 100"
proof (rule sample_uncommitted_rows)
  fix r
  assume *: "scheduled_reachable sample_scheduled_env sample_uncommitted" "get_reservation sample_uncommitted 100 = Some r"
  show ?thesis using scheduled_rows_validate [OF *(1), THEN conjunct1, rule_format, OF *(2)] *(2) by blast
qed

end
