(* ===== verification/Handoff.thy ===== *)
theory Handoff
  imports Prelude Lifecycle Idempotency
begin

text \<open>
  Dispatch of accepted ride requests on the database: the models and the ranking of \<open>dispatch/handoff.py\<close>, the worker
  sessions of \<open>dispatch/worker_models.py\<close> and the evidence models of \<open>dispatch/runtime.py\<close>. A ride request that is ready
  is handed off once; the handoff searches, offers the ride to one driver at a time and ends assigned, cancelled or
  without a driver.
\<close>

section \<open>Handoffs and offers\<close>

datatype handoff_state = HD_SEARCHING | HD_OFFERING | HD_ASSIGNED | HD_CANCELLED | HD_NO_DRIVER

datatype handoff_offer_state = HO_CREATED | HO_ACCEPTED | HO_REJECTED | HO_EXPIRED | HO_CANCELLED | HO_SUPERSEDED

fun handoff_value :: "handoff_state \<Rightarrow> string" where
  "handoff_value HD_SEARCHING = ''searching''"
| "handoff_value HD_OFFERING = ''offering''"
| "handoff_value HD_ASSIGNED = ''assigned''"
| "handoff_value HD_CANCELLED = ''cancelled''"
| "handoff_value HD_NO_DRIVER = ''no_driver''"

fun handoff_offer_value :: "handoff_offer_state \<Rightarrow> string" where
  "handoff_offer_value HO_CREATED = ''created''"
| "handoff_offer_value HO_ACCEPTED = ''accepted''"
| "handoff_offer_value HO_REJECTED = ''rejected''"
| "handoff_offer_value HO_EXPIRED = ''expired''"
| "handoff_offer_value HO_CANCELLED = ''cancelled''"
| "handoff_offer_value HO_SUPERSEDED = ''superseded''"

record dispatch_handoff =
  hf_handoff_id :: uuid
  hf_ride_request_id :: uuid
  hf_rider_identity_id :: uuid
  hf_service_type :: string
  hf_pickup_reference :: uuid
  hf_destination_reference :: uuid
  hf_service_zone_id :: uuid
  hf_service_zone_version :: string
  hf_validation_decision_id :: uuid
  hf_ride_request_version :: int
  hf_ride_policy_version :: string
  hf_dispatch_policy_version :: string
  hf_fare_estimate_id :: "uuid option"
  hf_estimate_acceptance_id :: "uuid option"
  hf_pricing_policy_id :: "uuid option"
  hf_pricing_policy_version :: "string option"
  hf_pricing_lineage_hash :: "string option"
  hf_state :: handoff_state
  hf_version :: int
  hf_created_at :: instant
  hf_expires_at :: instant
  hf_correlation_id :: uuid
  hf_causation_id :: uuid
  hf_idempotency_identity :: string
  hf_audit_reference :: uuid
  hf_assigned_driver_id :: "uuid option"

definition lineage_complete :: "dispatch_handoff \<Rightarrow> bool" where
  "lineage_complete h \<longleftrightarrow>
     (let given = [hf_fare_estimate_id h \<noteq> None, hf_estimate_acceptance_id h \<noteq> None, hf_pricing_policy_id h \<noteq> None,
        hf_pricing_policy_version h \<noteq> None, hf_pricing_lineage_hash h \<noteq> None]
      in \<not> list_ex (\<lambda>b. b) given \<or> list_all (\<lambda>b. b) given)"

text \<open>The hash patterns of the model are what SHA-256 prints, which is a parameter below.\<close>

definition valid_handoff :: "dispatch_handoff \<Rightarrow> dispatch_handoff result" where
  "valid_handoff h =
     (if \<not> (hf_service_type h = ''immediate_standard'' \<and> 1 \<le> hf_ride_request_version h \<and> 1 \<le> hf_version h)
      then Inl (ValidationError ''DispatchHandoff'')
      else if hf_expires_at h \<le> hf_created_at h then Inl (ValidationError ''Handoff expiry must follow creation'')
      else if \<not> lineage_complete h then Inl (ValidationError ''Accepted pricing lineage must be complete'')
      else Inr h)"

record handoff_offer =
  ho_offer_id :: uuid
  ho_handoff_id :: uuid
  ho_driver_id :: uuid
  ho_vehicle_id :: uuid
  ho_state :: handoff_offer_state
  ho_version :: int
  ho_created_at :: instant
  ho_expires_at :: instant
  ho_resolved_at :: "instant option"
  ho_dispatch_policy_version :: string
  ho_pickup_cost_seconds :: int
  ho_route_evidence_id :: string
  ho_decision_reason_codes :: "string list"

definition valid_handoff_offer :: "handoff_offer \<Rightarrow> handoff_offer result" where
  "valid_handoff_offer f =
     (if \<not> (1 \<le> ho_version f \<and> length_between 8 128 (ho_route_evidence_id f) \<and>
          3 \<le> length (ho_decision_reason_codes f) \<and> length (ho_decision_reason_codes f) \<le> 16)
      then Inl (ValidationError ''HandoffOffer'')
      else if ho_expires_at f \<le> ho_created_at f then Inl (ValidationError ''Offer expiry must follow creation'')
      else Inr f)"

section \<open>The ranking of drivers\<close>

record eligible_driver =
  ed_driver_id :: uuid
  ed_vehicle_id :: uuid
  ed_authorized_vehicle_id :: uuid
  ed_account_active :: bool
  ed_eligibility_status :: string
  ed_eligibility_expires_at :: instant
  ed_vehicle_approved :: bool
  ed_supported_services :: "string list"
  ed_availability :: string
  ed_availability_observed_at :: instant
  ed_pickup_cost_seconds :: int
  ed_heading_consistent :: bool
  ed_pickup_accessible :: bool
  ed_conflicting_commitment :: bool
  ed_eligibility_policy_version :: string
  ed_authenticated_session_active :: bool
  ed_earning_capability :: string
  ed_fatigue_eligible :: bool
  ed_temporary_restrictions_clear :: bool
  ed_traffic_evidence_fresh :: bool
  ed_pickup_confidence_bps :: int
  ed_active_workload_count :: int
  ed_reliability_bps :: int
  ed_cancellation_history_bps :: int
  ed_opportunity_deficit_bps :: int
  ed_route_evidence_id :: string
  ed_route_observed_at :: "instant option"

definition valid_eligible_driver :: "eligible_driver \<Rightarrow> eligible_driver result" where
  "valid_eligible_driver d =
     (if 0 \<le> ed_pickup_cost_seconds d \<and> ed_pickup_cost_seconds d \<le> 14400 \<and> bps_ok (ed_pickup_confidence_bps d) \<and>
         0 \<le> ed_active_workload_count d \<and> ed_active_workload_count d \<le> 20 \<and> bps_ok (ed_reliability_bps d) \<and>
         bps_ok (ed_cancellation_history_bps d) \<and> bps_ok (ed_opportunity_deficit_bps d) \<and>
         length_between 8 128 (ed_route_evidence_id d)
      then Inr d else Inl (ValidationError ''EligibleDriverInput''))"

text \<open>\<open>0 <= (now - t).total_seconds() <= max_age_seconds\<close>; the quotient of microseconds is compared exactly.\<close>

definition fresh_within :: "int \<Rightarrow> instant \<Rightarrow> instant \<Rightarrow> bool" where
  "fresh_within max_age now t \<longleftrightarrow> 0 \<le> now - t \<and> now - t \<le> timedelta_seconds max_age"

definition driver_suitable :: "instant \<Rightarrow> int \<Rightarrow> eligible_driver \<Rightarrow> bool" where
  "driver_suitable now max_age d \<longleftrightarrow>
     ed_account_active d \<and> ed_authenticated_session_active d \<and> ed_earning_capability d = ''ride_driver'' \<and>
     ed_eligibility_status d = ''eligible'' \<and> now < ed_eligibility_expires_at d \<and> ed_vehicle_approved d \<and>
     ed_vehicle_id d = ed_authorized_vehicle_id d \<and> ''immediate_standard'' \<in> set (ed_supported_services d) \<and>
     ed_availability d = ''available'' \<and> fresh_within max_age now (ed_availability_observed_at d) \<and>
     ed_pickup_accessible d \<and> ed_fatigue_eligible d \<and> ed_temporary_restrictions_clear d \<and>
     ed_traffic_evidence_fresh d \<and> 5000 \<le> ed_pickup_confidence_bps d \<and>
     fresh_within max_age now
       (case ed_route_observed_at d of None \<Rightarrow> ed_availability_observed_at d | Some t \<Rightarrow> t) \<and>
     \<not> ed_conflicting_commitment d"

definition effective_cost :: "eligible_driver \<Rightarrow> int" where
  "effective_cost d =
     (let reliability_penalty = (10000 - ed_reliability_bps d) * 10 div 10000;
          cancellation_penalty = ed_cancellation_history_bps d * 10 div 10000;
          workload_penalty = min (ed_active_workload_count d * 5) 15;
          fairness_credit = ed_opportunity_deficit_bps d * 20 div 10000 in
      max 0 (ed_pickup_cost_seconds d + reliability_penalty + cancellation_penalty + workload_penalty - fairness_credit))"

definition driver_key :: "eligible_driver \<Rightarrow> int \<times> int \<times> bool \<times> uuid" where
  "driver_key d = (effective_cost d, ed_pickup_cost_seconds d, \<not> ed_heading_consistent d, ed_driver_id d)"

definition rank_drivers :: "eligible_driver list \<Rightarrow> instant \<Rightarrow> int \<Rightarrow> eligible_driver list" where
  "rank_drivers candidates now max_age = sort_key driver_key (filter (driver_suitable now max_age) candidates)"

definition decision_reason_codes :: "eligible_driver \<Rightarrow> string list" where
  "decision_reason_codes d =
     [''pickup_eta_primary'', ''safety_eligible'', ''ride_driver_online''] @
     (if ed_opportunity_deficit_bps d \<noteq> 0 then [''bounded_fair_opportunity''] else []) @
     (if ed_reliability_bps d \<noteq> 5000 then [''bounded_reliability_evidence''] else []) @
     (if ed_cancellation_history_bps d \<noteq> 0 then [''bounded_cancellation_history''] else []) @
     (if ed_active_workload_count d \<noteq> 0 then [''active_workload_considered''] else []) @
     [''route_intelligence_evidence'', ''policy_versioned'']"

section \<open>Worker sessions\<close>

datatype earning_capability = EC_RIDE_DRIVER | EC_FOOD_COURIER | EC_PARCEL_COURIER | EC_HOME_SERVICE_PROVIDER

datatype worker_session_state = WK_ONLINE | WK_OFFLINE

record worker_session =
  wk_worker_session_id :: uuid
  wk_identity_id :: uuid
  wk_identity_session_id :: uuid
  wk_capability :: earning_capability
  wk_vehicle_id :: "uuid option"
  wk_service_zone_id :: "uuid option"
  wk_state :: worker_session_state
  wk_started_at :: instant
  wk_last_seen_at :: instant
  wk_stopped_at :: "instant option"
  wk_version :: int

section \<open>The evidence of the runtime\<close>

record driver_evidence =
  oe_driver_id :: uuid
  oe_vehicle_id :: uuid
  oe_authorized_vehicle_id :: uuid
  oe_account_active :: bool
  oe_authenticated_session_active :: bool
  oe_eligibility_status :: string
  oe_eligibility_expires_at :: instant
  oe_vehicle_approved :: bool
  oe_supported_services :: "string list"
  oe_availability :: string
  oe_availability_observed_at :: instant
  oe_earning_capability :: string
  oe_fatigue_eligible :: bool
  oe_pickup_accessible :: bool
  oe_conflicting_commitment :: bool
  oe_active_workload_count :: int
  oe_reliability_bps :: int
  oe_cancellation_history_bps :: int
  oe_opportunity_deficit_bps :: int
  oe_eligibility_policy_version :: string

record route_evidence =
  re_driver_id :: uuid
  re_evidence_id :: string
  re_pickup_eta_seconds :: int
  re_observed_at :: instant
  re_temporary_restrictions_clear :: bool
  re_traffic_evidence_fresh :: bool
  re_pickup_confidence_bps :: int
  re_heading_consistent :: bool

definition observation_of :: "driver_evidence \<Rightarrow> route_evidence \<Rightarrow> eligible_driver" where
  "observation_of e r =
     \<lparr>ed_driver_id = oe_driver_id e, ed_vehicle_id = oe_vehicle_id e,
      ed_authorized_vehicle_id = oe_authorized_vehicle_id e, ed_account_active = oe_account_active e,
      ed_eligibility_status = oe_eligibility_status e, ed_eligibility_expires_at = oe_eligibility_expires_at e,
      ed_vehicle_approved = oe_vehicle_approved e, ed_supported_services = oe_supported_services e,
      ed_availability = oe_availability e, ed_availability_observed_at = oe_availability_observed_at e,
      ed_pickup_cost_seconds = re_pickup_eta_seconds r, ed_heading_consistent = re_heading_consistent r,
      ed_pickup_accessible = oe_pickup_accessible e, ed_conflicting_commitment = oe_conflicting_commitment e,
      ed_eligibility_policy_version = oe_eligibility_policy_version e,
      ed_authenticated_session_active = oe_authenticated_session_active e,
      ed_earning_capability = oe_earning_capability e, ed_fatigue_eligible = oe_fatigue_eligible e,
      ed_temporary_restrictions_clear = re_temporary_restrictions_clear r,
      ed_traffic_evidence_fresh = re_traffic_evidence_fresh r, ed_pickup_confidence_bps = re_pickup_confidence_bps r,
      ed_active_workload_count = oe_active_workload_count e, ed_reliability_bps = oe_reliability_bps e,
      ed_cancellation_history_bps = oe_cancellation_history_bps e,
      ed_opportunity_deficit_bps = oe_opportunity_deficit_bps e, ed_route_evidence_id = re_evidence_id r,
      ed_route_observed_at = Some (re_observed_at r)\<rparr>"

fun observations_of :: "driver_evidence list \<Rightarrow> route_evidence list \<Rightarrow> eligible_driver list result" where
  \<comment> \<open>\<open>by_driver\<close> keeps the last route of a driver; drivers without a route are skipped\<close>
  "observations_of [] routes = Inr []"
| "observations_of (e # es) routes =
     (case find (\<lambda>r. re_driver_id r = oe_driver_id e) (rev routes) of
        None \<Rightarrow> observations_of es routes
      | Some r \<Rightarrow> bind_result (valid_eligible_driver (observation_of e r)) (\<lambda>d.
          bind_result (observations_of es routes) (\<lambda>ds. Inr (d # ds))))"

end
