(* ===== verification/Handoff_Service.thy ===== *)
theory Handoff_Service
  imports Handoff
begin

text \<open>
  The tables of dispatch handoffs with \<open>persistence/handoff_dispatch_repository.py\<close> and
  \<open>persistence/worker_session_repository.py\<close>, the transactions of \<open>dispatch/handoff_service.py\<close> and
  \<open>dispatch/worker_session.py\<close>, and the application of \<open>dispatch/runtime.py\<close>.
\<close>

section \<open>The tables\<close>

text \<open>The rows of ride requests, bookings, fares, drivers and sessions that dispatch reads, with the columns it reads.\<close>

record request_row =
  qr_rider_identity_id :: "uuid option"
  qr_state :: string
  qr_service_type :: "string option"
  qr_pickup_id :: "uuid option"
  qr_destination_id :: "uuid option"
  qr_service_zone_id :: "uuid option"
  qr_version :: int
  qr_expires_at :: instant

record decision_row =
  qd_decision_id :: uuid
  qd_request_id :: uuid
  qd_policy_version :: string
  qd_status :: string
  qd_decided_at :: instant

record confirmation_row =
  qc_ride_request_id :: uuid
  qc_rider_identity_id :: uuid
  qc_fare_estimate_id :: "uuid option"
  qc_estimate_acceptance_id :: "uuid option"
  qc_pricing_lineage_hash :: "string option"

record estimate_row =
  qe_ride_request_id :: uuid
  qe_rider_identity_id :: uuid
  qe_policy_id :: uuid
  qe_policy_version :: string
  qe_rider_total_minor :: "int option"
  qe_currency :: "string option"
  qe_expires_at :: instant

record acceptance_row =
  qa_estimate_id :: uuid
  qa_rider_identity_id :: uuid
  qa_accepted_policy_version :: string
  qa_accepted_amount_minor :: int
  qa_currency :: string
  qa_accepted_at :: instant

record eligibility_row =
  qv_driver_identity_id :: uuid
  qv_vehicle_id :: "uuid option"
  qv_status :: string
  qv_expires_at :: "instant option"
  qv_recomputed_at :: instant

record vehicle_authorization_row =
  qz_authorization_id :: uuid
  qz_driver_identity_id :: uuid
  qz_vehicle_id :: uuid
  qz_status :: string
  qz_expires_at :: instant

record session_row =
  qs_identity_id :: "uuid option"
  qs_expires_at :: instant
  qs_revoked_at :: "instant option"

record dispatch_sources =
  ds_requests :: "(uuid, request_row) dict"
  ds_decisions :: "decision_row list"
  ds_zones :: "(uuid, string) dict"
  ds_confirmations :: "confirmation_row list"
  ds_estimates :: "(uuid, estimate_row) dict"
  ds_acceptances :: "(uuid, acceptance_row) dict"
  ds_eligibility :: "eligibility_row list"
  ds_vehicles :: "(uuid, string) dict"
  ds_vehicle_authorizations :: "vehicle_authorization_row list"
  ds_sessions :: "(uuid, session_row) dict"

record candidate_set =
  ck_handoff_id :: uuid
  ck_policy_version :: string
  ck_eligible_driver_ids :: "uuid list"
  ck_route_evidence_ids :: "string list"
  ck_created_at :: instant

record assignment_row =
  as_handoff_id :: uuid
  as_offer_id :: uuid
  as_driver_id :: uuid
  as_vehicle_id :: uuid
  as_assigned_at :: instant
  as_released_at :: "instant option"
  as_correlation_id :: uuid

record handoff_event =
  hv_handoff_id :: uuid
  hv_event_type :: string
  hv_aggregate_version :: int
  hv_safe_payload :: payload
  hv_correlation_id :: uuid
  hv_causation_id :: uuid
  hv_occurred_at :: instant

record handoff_message =
  hm_event_type :: string
  hm_aggregate_id :: uuid
  hm_aggregate_version :: int
  hm_safe_payload :: payload
  hm_created_at :: instant

record handoff_db =
  hd_sources :: dispatch_sources
  hd_handoffs :: "(uuid, dispatch_handoff) dict"
  hd_candidates :: "candidate_set list"
  hd_offers :: "(uuid, handoff_offer) dict"
  hd_assignments :: "(uuid, assignment_row) dict"
  hd_idempotency :: idempotency_table
  hd_events :: "handoff_event list"
  hd_outbox :: "handoff_message list"
  hd_worker_sessions :: "(uuid, worker_session) dict"

record handoff_env =
  hx_lineage_digest :: "payload \<Rightarrow> string"
  hx_request_digest :: "payload \<Rightarrow> string"
  hx_response_digest :: "uuid \<Rightarrow> bool \<Rightarrow> int \<Rightarrow> string"
  hx_key_digest :: "string \<Rightarrow> string"
  hx_policy_version :: string
  hx_offer_timeout_seconds :: int
  hx_maximum_evidence_age_seconds :: int
  hx_require_worker_session :: bool
  hx_service_actor_id :: uuid
  hx_maximum_candidates :: nat

text \<open>The SHA-256 digests of the printed fields are parameters.\<close>

section \<open>What dispatch reads\<close>

record ready_source_row =
  rs_request :: request_row
  rs_decision_id :: uuid
  rs_validation_policy_version :: string
  rs_zone_version :: "string option"

definition ready_source :: "handoff_db \<Rightarrow> uuid \<Rightarrow> ready_source_row option" where
  \<comment> \<open>the newest valid decision; of two decisions of one time the first\<close>
  "ready_source db k =
     (case dget (ds_requests (hd_sources db)) k of
        None \<Rightarrow> None
      | Some q \<Rightarrow>
          if qr_state q \<noteq> ''ready_for_dispatch'' then None
          else
            (case sort_key (\<lambda>d. - qd_decided_at d)
                (filter (\<lambda>d. qd_request_id d = k \<and> qd_status d = ''valid'') (ds_decisions (hd_sources db))) of
               [] \<Rightarrow> None
             | d # _ \<Rightarrow> Some \<lparr>rs_request = q, rs_decision_id = qd_decision_id d,
                 rs_validation_policy_version = qd_policy_version d,
                 rs_zone_version = Option.bind (qr_service_zone_id q) (dget (ds_zones (hd_sources db)))\<rparr>))"

record accepted_pricing =
  ap_confirmation :: confirmation_row
  ap_fare_estimate_id :: uuid
  ap_estimate_acceptance_id :: uuid
  ap_estimate :: estimate_row
  ap_acceptance :: acceptance_row

definition join_pricing :: "dispatch_sources \<Rightarrow> uuid \<Rightarrow> confirmation_row \<Rightarrow> accepted_pricing option" where
  "join_pricing s k c =
     (if qc_ride_request_id c \<noteq> k then None
      else
        (case (qc_fare_estimate_id c, qc_estimate_acceptance_id c) of
           (Some e, Some a) \<Rightarrow>
             (case (dget (ds_estimates s) e, dget (ds_acceptances s) a) of
                (Some er, Some ar) \<Rightarrow>
                  if qe_ride_request_id er = k \<and> qa_estimate_id ar = e
                  then Some \<lparr>ap_confirmation = c, ap_fare_estimate_id = e, ap_estimate_acceptance_id = a,
                    ap_estimate = er, ap_acceptance = ar\<rparr> else None
              | _ \<Rightarrow> None)
         | _ \<Rightarrow> None))"

definition lineage_payload :: "uuid \<Rightarrow> accepted_pricing \<Rightarrow> payload" where
  "lineage_payload k p =
     [(''ride_request_id'', JUuid k), (''fare_estimate_id'', JUuid (ap_fare_estimate_id p)),
      (''estimate_acceptance_id'', JUuid (ap_estimate_acceptance_id p)), (''policy_id'', JUuid (qe_policy_id (ap_estimate p))),
      (''policy_version'', JStr (qe_policy_version (ap_estimate p))),
      (''amount'', JIntStr (qa_accepted_amount_minor (ap_acceptance p))), (''currency'', JStr (qa_currency (ap_acceptance p)))]"

definition pricing_consistent :: "accepted_pricing \<Rightarrow> bool" where
  "pricing_consistent p \<longleftrightarrow>
     (let c = ap_confirmation p; e = ap_estimate p; a = ap_acceptance p in
      qc_rider_identity_id c = qe_rider_identity_id e \<and> qc_rider_identity_id c = qa_rider_identity_id a \<and>
      qa_accepted_policy_version a = qe_policy_version e \<and> qe_rider_total_minor e = Some (qa_accepted_amount_minor a) \<and>
      qe_currency e = Some (qa_currency a))"

definition accepted_pricing_lineage ::
  "handoff_env \<Rightarrow> handoff_db \<Rightarrow> uuid \<Rightarrow> instant \<Rightarrow> bool \<Rightarrow> accepted_pricing option result" where
  "accepted_pricing_lineage env db k at require_current =
     bind_result (one_or_none (\<lambda>_. True)
       (List.map_filter (join_pricing (hd_sources db) k) (ds_confirmations (hd_sources db)))) (\<lambda>row.
     Inr (case row of
        None \<Rightarrow> None
      | Some p \<Rightarrow>
          if qe_expires_at (ap_estimate p) \<le> qa_accepted_at (ap_acceptance p) \<or>
            require_current \<and> qe_expires_at (ap_estimate p) \<le> at then None
          else if \<not> pricing_consistent p then None
          else if qc_pricing_lineage_hash (ap_confirmation p) \<noteq> Some (hx_lineage_digest env (lineage_payload k p)) then None
          else Some p))"

definition lineage_of :: "accepted_pricing \<Rightarrow> uuid option \<times> uuid option \<times> uuid option \<times> string option \<times> string option" where
  "lineage_of p = (Some (ap_fare_estimate_id p), Some (ap_estimate_acceptance_id p), Some (qe_policy_id (ap_estimate p)),
     Some (qe_policy_version (ap_estimate p)), qc_pricing_lineage_hash (ap_confirmation p))"

definition handoff_pricing_lineage_current ::
  "handoff_env \<Rightarrow> handoff_db \<Rightarrow> dispatch_handoff \<Rightarrow> instant \<Rightarrow> bool result" where
  "handoff_pricing_lineage_current env db h at =
     bind_result (accepted_pricing_lineage env db (hf_ride_request_id h) at True) (\<lambda>p.
     Inr (case p of
        None \<Rightarrow> False
      | Some p \<Rightarrow> lineage_of p = (hf_fare_estimate_id h, hf_estimate_acceptance_id h, hf_pricing_policy_id h,
          hf_pricing_policy_version h, hf_pricing_lineage_hash h)))"

definition eligibility_current :: "handoff_db \<Rightarrow> uuid \<Rightarrow> uuid \<Rightarrow> instant \<Rightarrow> bool result" where
  "eligibility_current db driver vehicle now =
     (case sort_key (\<lambda>d. - qv_recomputed_at d)
         (filter (\<lambda>d. qv_driver_identity_id d = driver) (ds_eligibility (hd_sources db))) of
        [] \<Rightarrow> Inr False
      | d # _ \<Rightarrow>
          if qv_status d \<noteq> ''eligible'' \<or> (case qv_expires_at d of None \<Rightarrow> True | Some t \<Rightarrow> t \<le> now) \<or>
            qv_vehicle_id d \<noteq> Some vehicle
          then Inr False
          else
            bind_result (one_or_none (\<lambda>z. qz_driver_identity_id z = driver \<and> qz_vehicle_id z = vehicle \<and>
                qz_status z = ''authorized'' \<and> now < qz_expires_at z) (ds_vehicle_authorizations (hd_sources db)))
              (\<lambda>z. Inr (dget (ds_vehicles (hd_sources db)) vehicle = Some ''approved'' \<and> z \<noteq> None)))"

definition ride_driver_online :: "handoff_db \<Rightarrow> uuid \<Rightarrow> uuid \<Rightarrow> uuid \<Rightarrow> instant \<Rightarrow> bool" where
  "ride_driver_online db driver vehicle zone now =
     list_ex (\<lambda>w. wk_identity_id w = driver \<and> wk_capability w = EC_RIDE_DRIVER \<and> wk_vehicle_id w = Some vehicle \<and>
         wk_service_zone_id w = Some zone \<and> wk_state w = WK_ONLINE \<and> wk_started_at w \<le> now \<and>
         (case dget (ds_sessions (hd_sources db)) (wk_identity_session_id w) of
            None \<Rightarrow> False
          | Some s \<Rightarrow> qs_identity_id s = Some driver \<and> qs_revoked_at s = None \<and> now < qs_expires_at s))
       (dvalues (hd_worker_sessions db))"

section \<open>The repository\<close>

definition handoff_event_row ::
  "dispatch_handoff \<Rightarrow> string \<Rightarrow> instant \<Rightarrow> payload \<Rightarrow> handoff_event" where
  "handoff_event_row h event_type at safe =
     \<lparr>hv_handoff_id = hf_handoff_id h, hv_event_type = event_type, hv_aggregate_version = hf_version h,
      hv_safe_payload = safe, hv_correlation_id = hf_correlation_id h, hv_causation_id = hf_causation_id h,
      hv_occurred_at = at\<rparr>"

definition same_event :: "handoff_event \<Rightarrow> handoff_event \<Rightarrow> bool" where
  "same_event a b \<longleftrightarrow> hv_handoff_id a = hv_handoff_id b \<and> hv_event_type a = hv_event_type b \<and>
     hv_aggregate_version a = hv_aggregate_version b"

definition handoff_event :: "handoff_db \<Rightarrow> dispatch_handoff \<Rightarrow> string \<Rightarrow> instant \<Rightarrow> payload \<Rightarrow> handoff_db result" where
  \<comment> \<open>an empty payload is replaced by the state\<close>
  "handoff_event db h event_type at given =
     (let safe = (if given = [] then [(''state'', JStr (handoff_value (hf_state h)))] else given);
          row = handoff_event_row h event_type at safe in
      if list_ex (same_event row) (hd_events db)
      then Inl (IntegrityError ''immediate_dispatch_events'')
      else Inr (db\<lparr>hd_events := hd_events db @ [row],
        hd_outbox := hd_outbox db @ [\<lparr>hm_event_type = event_type, hm_aggregate_id = hf_handoff_id h,
          hm_aggregate_version = hf_version h, hm_safe_payload = safe, hm_created_at = at\<rparr>]\<rparr>))"

definition get_handoff :: "handoff_db \<Rightarrow> uuid \<Rightarrow> dispatch_handoff option" where
  "get_handoff db k = dget (hd_handoffs db) k"

definition get_handoff_for_rider :: "handoff_db \<Rightarrow> uuid \<Rightarrow> uuid \<Rightarrow> dispatch_handoff option result" where
  "get_handoff_for_rider db rider request =
     one_or_none (\<lambda>h. hf_ride_request_id h = request \<and> hf_rider_identity_id h = rider) (dvalues (hd_handoffs db))"

text \<open>
  Offers are read back through the model, which forbids fields it does not have: \<open>resolved_at\<close> is a column of the table
  and not a field, so no row validates.
\<close>

definition OFFER_FIELDS :: "string list" where
  "OFFER_FIELDS = [''offer_id'', ''handoff_id'', ''driver_id'', ''vehicle_id'', ''state'', ''version'', ''created_at'',
     ''expires_at'', ''dispatch_policy_version'', ''pickup_cost_seconds'', ''route_evidence_id'', ''decision_reason_codes'']"

definition OFFER_COLUMNS :: "string list" where
  "OFFER_COLUMNS = [''offer_id'', ''handoff_id'', ''driver_id'', ''vehicle_id'', ''state'', ''version'', ''created_at'',
     ''expires_at'', ''resolved_at'', ''dispatch_policy_version'', ''pickup_cost_seconds'', ''route_evidence_id'',
     ''decision_reason_codes'']"

definition offer_of_row :: "handoff_offer \<Rightarrow> handoff_offer result" where
  "offer_of_row f =
     (if list_all (\<lambda>column. column \<in> set OFFER_FIELDS) OFFER_COLUMNS then valid_handoff_offer f
      else Inl (ValidationError ''HandoffOffer''))"

fun offers_of_rows :: "handoff_offer list \<Rightarrow> handoff_offer list result" where
  "offers_of_rows [] = Inr []"
| "offers_of_rows (f # fs) = bind_result (offer_of_row f) (\<lambda>g. bind_result (offers_of_rows fs) (\<lambda>gs. Inr (g # gs)))"

definition offer_of_optional_row :: "handoff_offer option \<Rightarrow> handoff_offer option result" where
  "offer_of_optional_row row =
     (case row of None \<Rightarrow> Inr None | Some f \<Rightarrow> bind_result (offer_of_row f) (\<lambda>g. Inr (Some g)))"

definition get_handoff_offer :: "handoff_db \<Rightarrow> uuid \<Rightarrow> handoff_offer option result" where
  "get_handoff_offer db k = offer_of_optional_row (dget (hd_offers db) k)"

definition active_driver_row :: "handoff_db \<Rightarrow> uuid \<Rightarrow> handoff_offer option result" where
  "active_driver_row db driver =
     one_or_none (\<lambda>f. ho_driver_id f = driver \<and> ho_state f = HO_CREATED) (dvalues (hd_offers db))"

definition get_active_offer_for_driver :: "handoff_db \<Rightarrow> uuid \<Rightarrow> handoff_offer option result" where
  "get_active_offer_for_driver db driver = bind_result (active_driver_row db driver) offer_of_optional_row"

definition get_active_offer_for_handoff :: "handoff_db \<Rightarrow> uuid \<Rightarrow> handoff_offer option result" where
  "get_active_offer_for_handoff db k =
     bind_result (one_or_none (\<lambda>f. ho_handoff_id f = k \<and> ho_state f = HO_CREATED) (dvalues (hd_offers db)))
       offer_of_optional_row"

definition list_expired_offers :: "handoff_db \<Rightarrow> instant \<Rightarrow> nat \<Rightarrow> handoff_offer list result" where
  "list_expired_offers db at limit = offers_of_rows
     (take limit (sort_key ho_expires_at (filter (\<lambda>f. ho_state f = HO_CREATED \<and> ho_expires_at f \<le> at) (dvalues (hd_offers db)))))"

definition list_searching_handoff_ids :: "handoff_db \<Rightarrow> instant \<Rightarrow> nat \<Rightarrow> uuid list" where
  "list_searching_handoff_ids db at limit =
     map hf_handoff_id (take limit (sort_key hf_created_at
       (filter (\<lambda>h. hf_state h = HD_SEARCHING \<and> at < hf_expires_at h) (dvalues (hd_handoffs db)))))"

definition store_handoff :: "handoff_db \<Rightarrow> dispatch_handoff \<Rightarrow> handoff_db" where
  "store_handoff db h = db\<lparr>hd_handoffs := dset (hf_handoff_id h) h (hd_handoffs db)\<rparr>"

definition store_offer :: "handoff_db \<Rightarrow> handoff_offer \<Rightarrow> handoff_db" where
  "store_offer db f = db\<lparr>hd_offers := dset (ho_offer_id f) f (hd_offers db)\<rparr>"

definition create_handoff :: "handoff_db \<Rightarrow> dispatch_handoff \<Rightarrow> (handoff_db \<times> dispatch_handoff) result" where
  "create_handoff db h =
     (case get_handoff db (hf_handoff_id h) of
        Some existing \<Rightarrow> Inr (db, existing)
      | None \<Rightarrow>
          if list_ex (\<lambda>x. hf_ride_request_id x = hf_ride_request_id h) (dvalues (hd_handoffs db))
          then Inl (IntegrityError ''immediate_dispatch_handoffs.ride_request_id'')
          else
            bind_result (handoff_event (store_handoff db h) h ''dispatch.handoff_received'' (hf_created_at h) []) (\<lambda>db1.
            bind_result (handoff_event db1 h ''dispatch.rider.searching'' (hf_created_at h)
              [(''recipient_identity_id'', JUuid (hf_rider_identity_id h)), (''translation_key'', JStr ''dispatch.searching'')])
              (\<lambda>db2. Inr (db2, h))))"

definition record_candidates ::
  "handoff_db \<Rightarrow> dispatch_handoff \<Rightarrow> eligible_driver list \<Rightarrow> instant \<Rightarrow> handoff_db result" where
  "record_candidates db h ranked at =
     handoff_event (db\<lparr>hd_candidates := hd_candidates db @ [\<lparr>ck_handoff_id = hf_handoff_id h,
       ck_policy_version = hf_dispatch_policy_version h, ck_eligible_driver_ids = map ed_driver_id ranked,
       ck_route_evidence_ids = map ed_route_evidence_id ranked, ck_created_at = at\<rparr>]\<rparr>) h
       ''dispatch.candidate_set_created'' at [(''candidate_count'', JInt (int (length ranked)))]"

text \<open>The partial unique indexes: one open offer per handoff and per driver.\<close>

definition offer_blocked :: "handoff_offer \<Rightarrow> handoff_offer \<Rightarrow> bool" where
  "offer_blocked f g \<longleftrightarrow> ho_offer_id g = ho_offer_id f \<or>
     ho_state f = HO_CREATED \<and> ho_state g = HO_CREATED \<and>
     (ho_handoff_id g = ho_handoff_id f \<or> ho_driver_id g = ho_driver_id f)"

definition create_handoff_offer ::
  "handoff_db \<Rightarrow> dispatch_handoff \<Rightarrow> handoff_offer \<Rightarrow> (handoff_db \<times> handoff_offer) result" where
  "create_handoff_offer db h f =
     (if list_ex (offer_blocked f) (dvalues (hd_offers db)) \<or> get_handoff db (ho_handoff_id f) = None
      then Inl (HandoffConflict ''Active offer conflict'')
      else
        (case get_handoff db (hf_handoff_id h) of
           None \<Rightarrow> Inl (HandoffConflict ''Handoff changed before offer'')
         | Some row \<Rightarrow>
             if hf_version row \<noteq> hf_version h \<or> hf_state row \<noteq> HD_SEARCHING
             then Inl (HandoffConflict ''Handoff changed before offer'')
             else
               (let row' = row\<lparr>hf_state := HD_OFFERING, hf_version := hf_version h + 1\<rparr> in
                bind_result (handoff_event (store_handoff (store_offer db f) row') row' ''dispatch.offer_created''
                  (ho_created_at f) [(''offer_id'', JUuid (ho_offer_id f))]) (\<lambda>db1.
                bind_result (handoff_event db1 row' ''dispatch.driver.new_offer'' (ho_created_at f)
                  [(''recipient_identity_id'', JUuid (ho_driver_id f)), (''offer_id'', JUuid (ho_offer_id f)),
                   (''expires_at'', JTime (ho_expires_at f)), (''translation_key'', JStr ''dispatch.driver.new_offer'')]) (\<lambda>db2.
                bind_result (handoff_event db2 row' ''dispatch.rider.driver_found'' (ho_created_at f)
                  [(''recipient_identity_id'', JUuid (hf_rider_identity_id h)),
                   (''translation_key'', JStr ''dispatch.rider.driver_found'')]) (\<lambda>db3. Inr (db3, f)))))))"

definition reserve_handoff_key ::
  "handoff_db \<Rightarrow> uuid \<Rightarrow> string \<Rightarrow> string \<Rightarrow> string \<Rightarrow> uuid \<Rightarrow> instant \<Rightarrow> (handoff_db \<times> uuid) result" where
  "reserve_handoff_key db actor operation key request_hash response_reference at =
     bind_result (reserve_row (ValueError ''Idempotency key reused with different request'') (hd_idempotency db)
         (actor, operation, key) request_hash response_reference at)
       (\<lambda>(table, canonical). Inr (db\<lparr>hd_idempotency := table\<rparr>, canonical))"

definition assignment_of_offer :: "handoff_db \<Rightarrow> uuid \<Rightarrow> uuid result" where
  "assignment_of_offer db offer_id =
     (case filter (\<lambda>(_, a). as_offer_id a = offer_id) (hd_assignments db) of
        [] \<Rightarrow> Inl NoResultFound
      | [(k, _)] \<Rightarrow> Inr k
      | _ \<Rightarrow> Inl MultipleResultsFound)"

text \<open>The unique columns and the partial unique index of assignments: one unreleased assignment per driver.\<close>

definition assignment_blocked :: "uuid \<Rightarrow> assignment_row \<Rightarrow> uuid \<times> assignment_row \<Rightarrow> bool" where
  "assignment_blocked k a x \<longleftrightarrow> fst x = k \<or> as_handoff_id (snd x) = as_handoff_id a \<or> as_offer_id (snd x) = as_offer_id a \<or>
     as_driver_id (snd x) = as_driver_id a \<and> as_released_at (snd x) = None \<and> as_released_at a = None"

definition set_offer :: "uuid \<Rightarrow> handoff_offer_state \<Rightarrow> int \<Rightarrow> instant \<Rightarrow> handoff_db \<Rightarrow> handoff_db" where
  "set_offer offer_id state version at db =
     (case dget (hd_offers db) offer_id of
        None \<Rightarrow> db
      | Some f \<Rightarrow> db\<lparr>hd_offers := dset offer_id
          (f\<lparr>ho_state := state, ho_version := version, ho_resolved_at := Some at\<rparr>) (hd_offers db)\<rparr>)"

definition reject_offer :: "handoff_db \<Rightarrow> dispatch_handoff \<Rightarrow> uuid \<Rightarrow> instant \<Rightarrow> handoff_db result" where
  "reject_offer db h offer_id at =
     handoff_event (store_handoff db (h\<lparr>hf_state := HD_SEARCHING, hf_version := hf_version h + 1\<rparr>)) h
       ''dispatch.offer_rejected'' at [(''offer_id'', JUuid offer_id)]"

definition assign_offer ::
  "handoff_db \<Rightarrow> dispatch_handoff \<Rightarrow> handoff_offer \<Rightarrow> uuid \<Rightarrow> uuid \<Rightarrow> uuid \<Rightarrow> instant \<Rightarrow> handoff_db result" where
  "assign_offer db h f offer_id driver assignment_id at =
     (let a = \<lparr>as_handoff_id = hf_handoff_id h, as_offer_id = offer_id, as_driver_id = driver,
            as_vehicle_id = ho_vehicle_id f, as_assigned_at = at, as_released_at = None,
            as_correlation_id = hf_correlation_id h\<rparr>;
          h' = h\<lparr>hf_state := HD_ASSIGNED, hf_assigned_driver_id := Some driver, hf_version := hf_version h + 1\<rparr> in
      if list_ex (assignment_blocked assignment_id a) (hd_assignments db)
      then Inl (HandoffConflict ''Assignment conflict'')
      else
        bind_result (handoff_event (store_handoff (db\<lparr>hd_assignments := dset assignment_id a (hd_assignments db)\<rparr>) h') h'
          ''dispatch.assignment_created'' at [(''assignment_id'', JUuid assignment_id)]) (\<lambda>db1.
        bind_result (handoff_event db1 h' ''dispatch.driver.acceptance_confirmed'' at
          [(''recipient_identity_id'', JUuid driver), (''assignment_id'', JUuid assignment_id),
           (''translation_key'', JStr ''dispatch.driver.accepted'')]) (\<lambda>db2.
        handoff_event db2 h' ''dispatch.rider.driver_accepted'' at
          [(''recipient_identity_id'', JUuid (hf_rider_identity_id h)), (''assignment_id'', JUuid assignment_id),
           (''translation_key'', JStr ''dispatch.rider.driver_found'')])))"

definition respond_offer ::
  "handoff_env \<Rightarrow> handoff_db \<Rightarrow> uuid \<Rightarrow> uuid \<Rightarrow> bool \<Rightarrow> int \<Rightarrow> string \<Rightarrow> instant \<Rightarrow> uuid \<Rightarrow> (handoff_db \<times> uuid option) result" where
  "respond_offer env db offer_id driver accept expected key at assignment_id =
     bind_result (reserve_handoff_key db driver ''offer_response'' key (hx_response_digest env offer_id accept expected)
         offer_id at) (\<lambda>(db0, canonical).
     case dget (hd_offers db0) canonical of
       None \<Rightarrow> Inl (HandoffConflict ''Offer unavailable'')
     | Some f \<Rightarrow>
         if ho_driver_id f \<noteq> driver then Inl (HandoffConflict ''Offer unavailable'')
         else
           (case get_handoff db0 (ho_handoff_id f) of
              None \<Rightarrow> Inl (HandoffConflict ''Offer unavailable'')
            | Some h \<Rightarrow>
                if ho_state f = HO_ACCEPTED
                then bind_result (assignment_of_offer db0 offer_id) (\<lambda>k. Inr (db0, Some k))
                else if ho_state f = HO_REJECTED \<and> \<not> accept then Inr (db0, None)
                else if ho_state f \<noteq> HO_CREATED \<or> ho_version f \<noteq> expected \<or> ho_expires_at f \<le> at
                then Inl (HandoffConflict ''Offer no longer active'')
                else if hf_state h \<noteq> HD_OFFERING then Inl (HandoffConflict ''Handoff unavailable'')
                else if accept
                then bind_result (assign_offer (set_offer offer_id HO_ACCEPTED (expected + 1) at db0) h f offer_id driver
                    assignment_id at) (\<lambda>db1. Inr (db1, Some assignment_id))
                else bind_result (reject_offer (set_offer offer_id HO_REJECTED (expected + 1) at db0) h offer_id at)
                    (\<lambda>db1. Inr (db1, None))))"

definition respond_canonical ::
  "handoff_env \<Rightarrow> handoff_db \<Rightarrow> uuid \<Rightarrow> uuid \<Rightarrow> bool \<Rightarrow> int \<Rightarrow> string \<Rightarrow> instant \<Rightarrow> uuid \<Rightarrow> (handoff_db \<times> uuid option) result" where
  "respond_canonical env db offer_id driver accept expected key at assignment_id =
     (case dget (hd_offers db) offer_id of
        None \<Rightarrow> Inl (HandoffConflict ''Offer unavailable'')
      | Some f \<Rightarrow>
          (case get_handoff db (ho_handoff_id f) of
             None \<Rightarrow> Inl (HandoffConflict ''Offer unavailable'')
           | Some h \<Rightarrow>
               if ho_driver_id f \<noteq> driver then Inl (HandoffConflict ''Offer unavailable'')
               else if accept \<and> ho_state f \<noteq> HO_ACCEPTED \<and>
                 \<not> ride_driver_online db driver (ho_vehicle_id f) (hf_service_zone_id h) at
               then Inl (HandoffConflict ''Ride Driver mode is not online'')
               else respond_offer env db offer_id driver accept expected key at assignment_id))"

definition close_offers :: "uuid \<Rightarrow> handoff_offer_state \<Rightarrow> instant \<Rightarrow> handoff_db \<Rightarrow> handoff_db" where
  "close_offers k state at db =
     db\<lparr>hd_offers := map (map_prod (\<lambda>i. i) (\<lambda>f. if ho_handoff_id f = k \<and> ho_state f = HO_CREATED
        then f\<lparr>ho_state := state, ho_resolved_at := Some at, ho_version := ho_version f + 1\<rparr> else f)) (hd_offers db)\<rparr>"

definition cancel_before_assignment :: "handoff_db \<Rightarrow> uuid \<Rightarrow> instant \<Rightarrow> (handoff_db \<times> bool) result" where
  "cancel_before_assignment db request at =
     bind_result (one_or_none (\<lambda>h. hf_ride_request_id h = request) (dvalues (hd_handoffs db))) (\<lambda>row.
     case row of
       None \<Rightarrow> Inr (db, False)
     | Some h \<Rightarrow>
         if hf_state h = HD_ASSIGNED then Inl (HandoffConflict ''Post-assignment cancellation excluded'')
         else if hf_state h = HD_CANCELLED then Inr (db, True)
         else
           bind_result (handoff_event
             (store_handoff (close_offers (hf_handoff_id h) HO_CANCELLED at db)
               (h\<lparr>hf_state := HD_CANCELLED, hf_version := hf_version h + 1\<rparr>)) h
             ''dispatch.cancelled_before_assignment'' at []) (\<lambda>db1. Inr (db1, True)))"

definition resolve_open_offer :: "handoff_db \<Rightarrow> uuid \<Rightarrow> handoff_offer_state \<Rightarrow> instant \<Rightarrow> handoff_db result" where
  "resolve_open_offer db offer_id outcome at =
     (if outcome \<notin> {HO_EXPIRED, HO_SUPERSEDED} then Inl (ValueError ''Unsupported offer resolution'')
      else
        (case dget (hd_offers db) offer_id of
           None \<Rightarrow> Inl (HandoffConflict ''Offer unavailable'')
         | Some f \<Rightarrow>
             (case get_handoff db (ho_handoff_id f) of
                None \<Rightarrow> Inl NoResultFound
              | Some h \<Rightarrow>
                  if ho_state f \<noteq> HO_CREATED then Inl (HandoffConflict ''Offer no longer active'')
                  else if outcome = HO_EXPIRED \<and> at < ho_expires_at f
                  then Inl (HandoffConflict ''Offer has not expired'')
                  else if hf_state h \<noteq> HD_OFFERING then Inl (HandoffConflict ''Handoff unavailable'')
                  else
                    handoff_event
                      (store_handoff (set_offer offer_id outcome (ho_version f + 1) at db)
                        (h\<lparr>hf_state := HD_SEARCHING, hf_version := hf_version h + 1\<rparr>)) h
                      (''dispatch.offer_'' @ handoff_offer_value outcome) at [(''offer_id'', JUuid offer_id)])))"

definition revoke_driver_offer :: "handoff_db \<Rightarrow> uuid \<Rightarrow> instant \<Rightarrow> (handoff_db \<times> bool) result" where
  "revoke_driver_offer db driver at =
     bind_result (active_driver_row db driver) (\<lambda>snapshot.
     case snapshot of
       None \<Rightarrow> Inr (db, False)
     | Some f \<Rightarrow> bind_result (resolve_open_offer db (ho_offer_id f) HO_SUPERSEDED at) (\<lambda>db1. Inr (db1, True)))"

definition close_handoff :: "instant \<Rightarrow> dispatch_handoff \<Rightarrow> handoff_db \<Rightarrow> handoff_db result" where
  "close_handoff at h db =
     (let db1 = close_offers (hf_handoff_id h) HO_EXPIRED at db;
          db2 = (case get_handoff db1 (hf_handoff_id h) of
                   None \<Rightarrow> db1
                 | Some row \<Rightarrow> if hf_version row \<noteq> hf_version h then db1
                     else store_handoff db1 (row\<lparr>hf_state := HD_NO_DRIVER, hf_version := hf_version h + 1\<rparr>)) in
      handoff_event db2 h ''dispatch.rider.no_driver_available'' at
        [(''recipient_identity_id'', JUuid (hf_rider_identity_id h)),
         (''translation_key'', JStr ''dispatch.rider.no_driver_available'')])"

fun close_handoffs :: "instant \<Rightarrow> dispatch_handoff list \<Rightarrow> handoff_db \<Rightarrow> handoff_db result" where
  "close_handoffs at [] db = Inr db"
| "close_handoffs at (h # hs) db = bind_result (close_handoff at h db) (close_handoffs at hs)"

definition expired_handoffs :: "handoff_db \<Rightarrow> instant \<Rightarrow> nat \<Rightarrow> dispatch_handoff list" where
  "expired_handoffs db at limit =
     take limit (sort_key hf_expires_at
       (filter (\<lambda>h. hf_state h \<in> {HD_SEARCHING, HD_OFFERING} \<and> hf_expires_at h \<le> at) (dvalues (hd_handoffs db))))"

definition close_expired_handoffs :: "handoff_db \<Rightarrow> instant \<Rightarrow> nat \<Rightarrow> (handoff_db \<times> nat) result" where
  "close_expired_handoffs db at limit =
     (let rows = expired_handoffs db at limit in
      bind_result (close_handoffs at rows db) (\<lambda>db1. Inr (db1, length rows)))"

section \<open>Worker sessions\<close>

definition get_active_worker :: "handoff_db \<Rightarrow> uuid \<Rightarrow> worker_session option result" where
  "get_active_worker db identity =
     one_or_none (\<lambda>w. wk_identity_id w = identity \<and> wk_state w = WK_ONLINE) (dvalues (hd_worker_sessions db))"

definition start_worker :: "handoff_db \<Rightarrow> worker_session \<Rightarrow> (handoff_db \<times> worker_session) result" where
  "start_worker db w =
     (if (case dget (ds_sessions (hd_sources db)) (wk_identity_session_id w) of
            None \<Rightarrow> True
          | Some s \<Rightarrow> \<not> (qs_identity_id s = Some (wk_identity_id w) \<and> qs_revoked_at s = None \<and>
              wk_started_at w < qs_expires_at s))
      then Inl (WorkerSessionConflict ''authenticated_session_required'')
      else
        bind_result (get_active_worker db (wk_identity_id w)) (\<lambda>current.
        case current of
          Some c \<Rightarrow>
            if wk_capability c = wk_capability w \<and> wk_vehicle_id c = wk_vehicle_id w \<and>
              wk_service_zone_id c = wk_service_zone_id w
            then Inr (db, c)
            else Inl (WorkerSessionConflict ''worker_must_go_offline_before_switching'')
        | None \<Rightarrow>
            if dget (hd_worker_sessions db) (wk_worker_session_id w) \<noteq> None
            then Inl (WorkerSessionConflict ''worker_must_go_offline_before_switching'')
            else Inr (db\<lparr>hd_worker_sessions := dset (wk_worker_session_id w) w (hd_worker_sessions db)\<rparr>, w)))"

definition stop_worker ::
  "handoff_db \<Rightarrow> uuid \<Rightarrow> earning_capability \<Rightarrow> instant \<Rightarrow> (handoff_db \<times> worker_session) result" where
  "stop_worker db identity capability at =
     bind_result (get_active_worker db identity) (\<lambda>current.
     case current of
       None \<Rightarrow> Inl (WorkerSessionConflict ''ride_driver_mode_not_online'')
     | Some c \<Rightarrow>
         if wk_capability c \<noteq> capability then Inl (WorkerSessionConflict ''ride_driver_mode_not_online'')
         else
           (let c' = c\<lparr>wk_state := WK_OFFLINE, wk_stopped_at := Some at, wk_last_seen_at := at,
              wk_version := wk_version c + 1\<rparr> in
            Inr (db\<lparr>hd_worker_sessions := dset (wk_worker_session_id c) c' (hd_worker_sessions db)\<rparr>, c')))"

text \<open>A subject with its session; only drivers with a session pass.\<close>

definition worker_driver :: "subject \<Rightarrow> uuid option \<Rightarrow> (uuid \<times> uuid) result" where
  "worker_driver s session =
     (if snd s \<noteq> ID_DRIVER then Inl (WorkerSessionConflict ''driver_authentication_required'')
      else
        (case session of
           None \<Rightarrow> Inl (WorkerSessionConflict ''driver_authentication_required'')
         | Some k \<Rightarrow> Inr (fst s, k)))"

definition start_ride_driver ::
  "handoff_db \<Rightarrow> subject \<Rightarrow> uuid option \<Rightarrow> uuid \<Rightarrow> uuid \<Rightarrow> instant \<Rightarrow> uuid \<Rightarrow> (handoff_db \<times> worker_session) result" where
  "start_ride_driver db s session vehicle zone at worker_id =
     bind_result (worker_driver s session) (\<lambda>(identity, k).
     bind_result (eligibility_current db identity vehicle at) (\<lambda>eligible.
     if \<not> eligible then Inl (WorkerSessionConflict ''driver_not_eligible'')
     else start_worker db \<lparr>wk_worker_session_id = worker_id, wk_identity_id = identity, wk_identity_session_id = k,
       wk_capability = EC_RIDE_DRIVER, wk_vehicle_id = Some vehicle, wk_service_zone_id = Some zone, wk_state = WK_ONLINE,
       wk_started_at = at, wk_last_seen_at = at, wk_stopped_at = None, wk_version = 1\<rparr>))"

definition stop_ride_driver ::
  "handoff_db \<Rightarrow> subject \<Rightarrow> uuid option \<Rightarrow> instant \<Rightarrow> (handoff_db \<times> worker_session) result" where
  "stop_ride_driver db s session at =
     bind_result (worker_driver s session) (\<lambda>(identity, _).
     bind_result (stop_worker db identity EC_RIDE_DRIVER at) (\<lambda>(db1, stopped).
     bind_result (revoke_driver_offer db1 identity at) (\<lambda>(db2, _). Inr (db2, stopped))))"

definition current_worker :: "handoff_db \<Rightarrow> subject \<Rightarrow> uuid option \<Rightarrow> worker_session option result" where
  "current_worker db s session =
     bind_result (worker_driver s session) (\<lambda>(identity, _). get_active_worker db identity)"

section \<open>The transactions of the handoff service\<close>

definition new_handoff ::
  "handoff_env \<Rightarrow> uuid \<Rightarrow> ready_source_row \<Rightarrow> accepted_pricing \<Rightarrow> uuid \<Rightarrow> string \<Rightarrow> uuid \<Rightarrow> uuid \<Rightarrow> uuid \<Rightarrow> instant \<Rightarrow>
   dispatch_handoff result" where
  "new_handoff env handoff_id source pricing request key correlation causation audit at =
     (let q = rs_request source in
      case (qr_rider_identity_id q, qr_service_type q, qr_pickup_id q, qr_destination_id q, qr_service_zone_id q,
          rs_zone_version source) of
        (Some rider, Some service, Some pickup, Some destination, Some zone, Some zone_version) \<Rightarrow>
          valid_handoff \<lparr>hf_handoff_id = handoff_id, hf_ride_request_id = request, hf_rider_identity_id = rider,
            hf_service_type = service, hf_pickup_reference = pickup, hf_destination_reference = destination,
            hf_service_zone_id = zone, hf_service_zone_version = zone_version,
            hf_validation_decision_id = rs_decision_id source, hf_ride_request_version = qr_version q,
            hf_ride_policy_version = rs_validation_policy_version source,
            hf_dispatch_policy_version = hx_policy_version env,
            hf_fare_estimate_id = Some (ap_fare_estimate_id pricing),
            hf_estimate_acceptance_id = Some (ap_estimate_acceptance_id pricing),
            hf_pricing_policy_id = Some (qe_policy_id (ap_estimate pricing)),
            hf_pricing_policy_version = Some (qe_policy_version (ap_estimate pricing)),
            hf_pricing_lineage_hash = qc_pricing_lineage_hash (ap_confirmation pricing), hf_state = HD_SEARCHING,
            hf_version = 1, hf_created_at = at, hf_expires_at = qr_expires_at q, hf_correlation_id = correlation,
            hf_causation_id = causation, hf_idempotency_identity = hx_key_digest env key,
            hf_audit_reference = audit, hf_assigned_driver_id = None\<rparr>
      | _ \<Rightarrow> Inl (ValidationError ''DispatchHandoff''))"

text \<open>\<open>receive\<close> reads the accepted price in one transaction and stores the handoff in a second one.\<close>

definition receive_priced ::
  "handoff_env \<Rightarrow> handoff_db \<Rightarrow> accepted_pricing \<Rightarrow> uuid \<Rightarrow> string \<Rightarrow> uuid \<Rightarrow> uuid \<Rightarrow> instant \<Rightarrow> uuid \<Rightarrow> uuid \<Rightarrow>
   (handoff_db \<times> dispatch_handoff) result" where
  \<comment> \<open>the last two arguments are the drawn handoff identifier and audit reference\<close>
  "receive_priced env db p request key correlation causation at candidate audit =
     bind_result (reserve_handoff_key db (hx_service_actor_id env) ''handoff'' key
       (hx_request_digest env [(''ride_request_id'', JUuid request), (''correlation_id'', JUuid correlation),
         (''causation_id'', JUuid causation),
         (''pricing_lineage_hash'', case qc_pricing_lineage_hash (ap_confirmation p) of None \<Rightarrow> JNull | Some h \<Rightarrow> JStr h)])
       candidate at) (\<lambda>(db1, canonical).
     case get_handoff db1 canonical of
       Some existing \<Rightarrow>
         if hf_pricing_lineage_hash existing \<noteq> qc_pricing_lineage_hash (ap_confirmation p)
         then Inl (HandoffConflict ''dispatch.accepted_pricing_required'')
         else Inr (db1, existing)
     | None \<Rightarrow>
         if qe_expires_at (ap_estimate p) \<le> at
         then Inl (HandoffConflict ''dispatch.accepted_pricing_required'')
         else
           (case ready_source db1 request of
              None \<Rightarrow> Inl (HandoffConflict ''Ride request is not validated for dispatch'')
            | Some source \<Rightarrow>
                if qr_expires_at (rs_request source) \<le> at then Inl (HandoffConflict ''Ride request expired'')
                else if qr_service_zone_id (rs_request source) = None
                then Inl (HandoffConflict ''Service zone unavailable'')
                else
                  bind_result (new_handoff env canonical source p request key correlation causation audit at)
                    (create_handoff db1)))"

definition receive_handoff ::
  "handoff_env \<Rightarrow> handoff_db \<Rightarrow> uuid \<Rightarrow> string \<Rightarrow> uuid \<Rightarrow> uuid \<Rightarrow> instant \<Rightarrow> uuid \<Rightarrow> uuid \<Rightarrow>
   (handoff_db \<times> dispatch_handoff) result" where
  "receive_handoff env db request key correlation causation at candidate audit =
     (if \<not> idempotency_key_ok key then Inl (ValueError ''Idempotency key length is invalid'')
      else
        bind_result (accepted_pricing_lineage env db request at False) (\<lambda>pricing.
        case pricing of
          None \<Rightarrow> Inl (HandoffConflict ''dispatch.accepted_pricing_required'')
        | Some p \<Rightarrow> receive_priced env db p request key correlation causation at candidate audit))"

fun authoritative_drivers ::
  "handoff_env \<Rightarrow> handoff_db \<Rightarrow> uuid \<Rightarrow> instant \<Rightarrow> eligible_driver list \<Rightarrow> eligible_driver list result" where
  "authoritative_drivers env db zone at [] = Inr []"
| "authoritative_drivers env db zone at (d # ds) =
     bind_result (eligibility_current db (ed_driver_id d) (ed_vehicle_id d) at) (\<lambda>eligible.
     bind_result (authoritative_drivers env db zone at ds) (\<lambda>rest.
     Inr (if eligible \<and> (\<not> hx_require_worker_session env \<or>
           ride_driver_online db (ed_driver_id d) (ed_vehicle_id d) zone at) then d # rest else rest)))"

definition new_handoff_offer :: "handoff_env \<Rightarrow> dispatch_handoff \<Rightarrow> eligible_driver \<Rightarrow> instant \<Rightarrow> uuid \<Rightarrow> handoff_offer" where
  "new_handoff_offer env h d at offer_id =
     \<lparr>ho_offer_id = offer_id, ho_handoff_id = hf_handoff_id h, ho_driver_id = ed_driver_id d,
      ho_vehicle_id = ed_vehicle_id d, ho_state = HO_CREATED, ho_version = 1, ho_created_at = at,
      ho_expires_at = at + timedelta_seconds (hx_offer_timeout_seconds env), ho_resolved_at = None,
      ho_dispatch_policy_version = hx_policy_version env, ho_pickup_cost_seconds = ed_pickup_cost_seconds d,
      ho_route_evidence_id = ed_route_evidence_id d, ho_decision_reason_codes = decision_reason_codes d\<rparr>"

definition offer_next ::
  "handoff_env \<Rightarrow> handoff_db \<Rightarrow> uuid \<Rightarrow> eligible_driver list \<Rightarrow> instant \<Rightarrow> uuid \<Rightarrow> (handoff_db \<times> handoff_offer option) result" where
  "offer_next env db k observations at offer_id =
     (case get_handoff db k of
        None \<Rightarrow> Inl (HandoffConflict ''Handoff unavailable'')
      | Some h \<Rightarrow>
          if hf_expires_at h \<le> at then Inl (HandoffConflict ''Handoff unavailable'')
          else
            bind_result (handoff_pricing_lineage_current env db h at) (\<lambda>current.
            if \<not> current then Inl (HandoffConflict ''Handoff unavailable'')
            else
              bind_result (authoritative_drivers env db (hf_service_zone_id h) at observations) (\<lambda>authoritative.
              (let ranked = rank_drivers authoritative at (hx_maximum_evidence_age_seconds env) in
               bind_result (record_candidates db h ranked at) (\<lambda>db1.
               case ranked of
                 [] \<Rightarrow>
                   bind_result (handoff_event db1 h ''dispatch.assignment_failed'' at [(''reason'', JStr ''no_suitable_driver'')])
                     (\<lambda>db2. Inr (db2, None))
               | selected # _ \<Rightarrow>
                   bind_result (valid_handoff_offer (new_handoff_offer env h selected at offer_id)) (\<lambda>f.
                   bind_result (create_handoff_offer db1 h f) (\<lambda>(db2, f'). Inr (db2, Some f'))))))))"

definition handoff_respond ::
  "handoff_env \<Rightarrow> handoff_db \<Rightarrow> uuid \<Rightarrow> uuid \<Rightarrow> bool \<Rightarrow> int \<Rightarrow> string \<Rightarrow> instant \<Rightarrow> uuid \<Rightarrow> (handoff_db \<times> uuid option) result" where
  "handoff_respond env =
     (if hx_require_worker_session env then respond_canonical env else respond_offer env)"

end
