(* ===== verification/Handoff_Runtime.thy ===== *)
theory Handoff_Runtime
  imports Handoff_Service
begin

text \<open>
  The application and the recovery worker of \<open>dispatch/runtime.py\<close>. An operation runs several transactions, so it
  returns the database with its answer or its exception: what was committed before the exception stays. The supply of
  drivers, the route provider and the starter of the active ride are interfaces whose implementations are not part of
  the repository; they are parameters.
\<close>

section \<open>Transactions\<close>

definition in_unit :: "handoff_db \<Rightarrow> (handoff_db \<times> 'a) result \<Rightarrow> handoff_db \<times> 'a result" where
  "in_unit db r = (case r of Inl e \<Rightarrow> (db, Inl e) | Inr (db', x) \<Rightarrow> (db', Inr x))"

definition and_then :: "handoff_db \<times> 'a result \<Rightarrow> (handoff_db \<Rightarrow> 'a \<Rightarrow> handoff_db \<times> 'b result) \<Rightarrow> handoff_db \<times> 'b result" where
  "and_then m f = (case m of (db, Inl e) \<Rightarrow> (db, Inl e) | (db, Inr x) \<Rightarrow> f db x)"

definition only_db :: "handoff_db result \<Rightarrow> (handoff_db \<times> unit) result" where
  "only_db r = bind_result r (\<lambda>db. Inr (db, ()))"

section \<open>The application\<close>

record dispatch_ports =
  dp_shortlist :: "uuid \<Rightarrow> string \<Rightarrow> instant \<Rightarrow> nat \<Rightarrow> driver_evidence list result"
  dp_pickup_routes :: "uuid \<Rightarrow> driver_evidence list \<Rightarrow> instant \<Rightarrow> route_evidence list result"
  dp_ride_starter :: "(uuid \<Rightarrow> instant \<Rightarrow> unit result) option"

definition new_dispatch_application :: "int \<Rightarrow> unit result" where
  "new_dispatch_application maximum_candidates =
     ensure (1 \<le> maximum_candidates \<and> maximum_candidates \<le> 100) (ValueError ''Maximum candidates must be between 1 and 100'')"

definition dispatch_progress ::
  "handoff_env \<Rightarrow> dispatch_ports \<Rightarrow> handoff_db \<Rightarrow> uuid \<Rightarrow> instant \<Rightarrow> uuid \<Rightarrow> handoff_db \<times> handoff_offer option result" where
  "dispatch_progress env ports db k at offer_id =
     (case get_handoff db k of
        None \<Rightarrow> (db, Inl (HandoffConflict ''Handoff is not searching''))
      | Some h \<Rightarrow>
          if hf_state h \<noteq> HD_SEARCHING then (db, Inl (HandoffConflict ''Handoff is not searching''))
          else
            (case bind_result (dp_shortlist ports (hf_service_zone_id h) (hf_service_type h) at (hx_maximum_candidates env))
                (\<lambda>shortlist. let operational = take (hx_maximum_candidates env) shortlist in
                   bind_result (dp_pickup_routes ports (hf_pickup_reference h) operational at) (\<lambda>routes.
                   observations_of operational routes)) of
               Inl e \<Rightarrow> (db, Inl e)
             | Inr observations \<Rightarrow> in_unit db (offer_next env db k observations at offer_id)))"

definition offer_for_driver :: "handoff_db \<Rightarrow> uuid \<Rightarrow> handoff_offer option result" where
  "offer_for_driver db driver = get_active_offer_for_driver db driver"

definition offer_for_handoff :: "handoff_db \<Rightarrow> uuid \<Rightarrow> handoff_offer option result" where
  "offer_for_handoff db k = get_active_offer_for_handoff db k"

definition dispatch_start ::
  "handoff_env \<Rightarrow> dispatch_ports \<Rightarrow> handoff_db \<Rightarrow> uuid \<Rightarrow> string \<Rightarrow> uuid \<Rightarrow> uuid \<Rightarrow> instant \<Rightarrow> uuid \<Rightarrow> uuid \<Rightarrow> uuid \<Rightarrow>
   handoff_db \<times> (dispatch_handoff \<times> handoff_offer option) result" where
  "dispatch_start env ports db request key correlation causation at candidate audit offer_id =
     and_then (in_unit db (receive_handoff env db request key correlation causation at candidate audit)) (\<lambda>db1 h.
     if hf_state h = HD_SEARCHING
     then and_then (dispatch_progress env ports db1 (hf_handoff_id h) at offer_id) (\<lambda>db2 f. (db2, Inr (h, f)))
     else (db1, bind_result (offer_for_handoff db1 (hf_handoff_id h)) (\<lambda>f. Inr (h, f))))"

definition dispatch_respond ::
  "handoff_env \<Rightarrow> dispatch_ports \<Rightarrow> handoff_db \<Rightarrow> subject \<Rightarrow> uuid \<Rightarrow> bool \<Rightarrow> int \<Rightarrow> string \<Rightarrow> instant \<Rightarrow> uuid \<Rightarrow> uuid \<Rightarrow>
   handoff_db \<times> uuid option result" where
  "dispatch_respond env ports db s offer_id accept expected key at assignment_id next_offer =
     (if snd s \<noteq> ID_DRIVER then (db, Inl (HandoffConflict ''driver_authentication_required''))
      else
        and_then (in_unit db (handoff_respond env db offer_id (fst s) accept expected key at assignment_id)) (\<lambda>db1 assignment.
        if accept
        then
          (case (assignment, dp_ride_starter ports) of
             (Some a, Some starter) \<Rightarrow> (db1, bind_result (starter a at) (\<lambda>_. Inr assignment))
           | _ \<Rightarrow> (db1, Inr assignment))
        else
          (case get_handoff_offer db1 offer_id of
             Inl e \<Rightarrow> (db1, Inl e)
           | Inr None \<Rightarrow> (db1, Inr assignment)
           | Inr (Some f) \<Rightarrow>
               (case get_handoff db1 (ho_handoff_id f) of
                  None \<Rightarrow> (db1, Inr assignment)
                | Some h \<Rightarrow>
                    if hf_state h = HD_SEARCHING
                    then and_then (dispatch_progress env ports db1 (ho_handoff_id f) at next_offer)
                      (\<lambda>db2 _. (db2, Inr assignment))
                    else (db1, Inr assignment)))))"

definition status_for_rider :: "handoff_db \<Rightarrow> uuid \<Rightarrow> uuid \<Rightarrow> dispatch_handoff option result" where
  "status_for_rider db rider request = get_handoff_for_rider db rider request"

section \<open>Recovery\<close>

definition is_handoff_conflict :: "exn \<Rightarrow> bool" where
  "is_handoff_conflict e \<longleftrightarrow> (case e of HandoffConflict _ \<Rightarrow> True | _ \<Rightarrow> False)"

fun expire_and_progress ::
  "handoff_env \<Rightarrow> dispatch_ports \<Rightarrow> instant \<Rightarrow> (uuid \<Rightarrow> uuid) \<Rightarrow> handoff_offer list \<Rightarrow> handoff_db \<Rightarrow> handoff_db \<times> nat result" where
  \<comment> \<open>the function draws the identifier of the offer that follows an expired one\<close>
  "expire_and_progress env ports at draw [] db = (db, Inr 0)"
| "expire_and_progress env ports at draw (f # fs) db =
     (case and_then (in_unit db (only_db (resolve_open_offer db (ho_offer_id f) HO_EXPIRED at)))
         (\<lambda>db1 _. dispatch_progress env ports db1 (ho_handoff_id f) at (draw (ho_offer_id f))) of
        (db2, Inl e) \<Rightarrow>
          if is_handoff_conflict e then expire_and_progress env ports at draw fs db2 else (db2, Inl e)
      | (db2, Inr _) \<Rightarrow> and_then (expire_and_progress env ports at draw fs db2) (\<lambda>db3 n. (db3, Inr (n + 1))))"

definition expire_and_redispatch ::
  "handoff_env \<Rightarrow> dispatch_ports \<Rightarrow> handoff_db \<Rightarrow> instant \<Rightarrow> nat \<Rightarrow> (uuid \<Rightarrow> uuid) \<Rightarrow> handoff_db \<times> nat result" where
  "expire_and_redispatch env ports db at limit draw =
     (case list_expired_offers db at limit of
        Inl e \<Rightarrow> (db, Inl e)
      | Inr expired \<Rightarrow> expire_and_progress env ports at draw expired db)"

fun resume_searches ::
  "handoff_env \<Rightarrow> dispatch_ports \<Rightarrow> instant \<Rightarrow> (uuid \<Rightarrow> uuid) \<Rightarrow> uuid list \<Rightarrow> handoff_db \<Rightarrow> handoff_db \<times> nat result" where
  "resume_searches env ports at draw [] db = (db, Inr 0)"
| "resume_searches env ports at draw (k # ks) db =
     (case dispatch_progress env ports db k at (draw k) of
        (db1, Inl e) \<Rightarrow>
          if is_handoff_conflict e \<or> e = TimeoutError then resume_searches env ports at draw ks db1 else (db1, Inl e)
      | (db1, Inr _) \<Rightarrow> and_then (resume_searches env ports at draw ks db1) (\<lambda>db2 n. (db2, Inr (n + 1))))"

definition dispatch_recover ::
  "handoff_env \<Rightarrow> dispatch_ports \<Rightarrow> handoff_db \<Rightarrow> instant \<Rightarrow> nat \<Rightarrow> (uuid \<Rightarrow> uuid) \<Rightarrow> (uuid \<Rightarrow> uuid) \<Rightarrow>
   handoff_db \<times> (nat \<times> nat \<times> nat) result" where
  "dispatch_recover env ports db at limit draw_next draw_resumed =
     (if \<not> (1 \<le> limit \<and> limit \<le> 1000) then (db, Inl (ValueError ''Recovery limit must be between 1 and 1000''))
      else
        and_then (expire_and_redispatch env ports db at limit draw_next) (\<lambda>db1 expired.
        and_then (resume_searches env ports at draw_resumed (list_searching_handoff_ids db1 at limit) db1) (\<lambda>db2 resumed.
        and_then (in_unit db2 (close_expired_handoffs db2 at limit)) (\<lambda>db3 closed. (db3, Inr (expired, resumed, closed))))))"

text \<open>The recovery worker.\<close>

definition new_dispatch_worker :: "int \<Rightarrow> unit result" where
  "new_dispatch_worker batch_limit =
     ensure (1 \<le> batch_limit \<and> batch_limit \<le> 1000) (ValueError ''Batch limit must be between 1 and 1000'')"

definition dispatch_run_once ::
  "handoff_env \<Rightarrow> dispatch_ports \<Rightarrow> handoff_db \<Rightarrow> nat \<Rightarrow> instant \<Rightarrow> (uuid \<Rightarrow> uuid) \<Rightarrow> (uuid \<Rightarrow> uuid) \<Rightarrow>
   handoff_db \<times> (nat \<times> nat \<times> nat) result" where
  "dispatch_run_once env ports db batch_limit at draw_next draw_resumed =
     dispatch_recover env ports db at batch_limit draw_next draw_resumed"

end
