(* ===== verification/Handoff_Inv.thy ===== *)
theory Handoff_Inv
  imports Handoff_Runtime
begin

text \<open>
  What the tables of dispatch handoffs promise. Every transaction is a sequence of effects on handoffs, offers and
  assignments; the invariant is proved over the effects.
\<close>

section \<open>The lifecycle of handoffs\<close>

fun HANDOFF_TRANSITIONS :: "handoff_state \<Rightarrow> handoff_state list" where
  "HANDOFF_TRANSITIONS HD_SEARCHING = [HD_OFFERING, HD_CANCELLED, HD_NO_DRIVER]"
| "HANDOFF_TRANSITIONS HD_OFFERING = [HD_SEARCHING, HD_ASSIGNED, HD_CANCELLED, HD_NO_DRIVER]"
| "HANDOFF_TRANSITIONS HD_NO_DRIVER = [HD_CANCELLED]"
| "HANDOFF_TRANSITIONS HD_ASSIGNED = []"
| "HANDOFF_TRANSITIONS HD_CANCELLED = []"

interpretation handoff_states: lifecycle HANDOFF_TRANSITIONS "\<lambda>s. s = HD_ASSIGNED \<or> s = HD_CANCELLED"
  by unfold_locales auto

section \<open>Events\<close>

definition handoff_tables where
  "handoff_tables db = (hd_handoffs db, hd_offers db, hd_assignments db)"

definition closing_types :: "string set" where
  "closing_types = {''dispatch.offer_rejected'', ''dispatch.offer_expired'', ''dispatch.offer_superseded'',
     ''dispatch.rider.no_driver_available'', ''dispatch.cancelled_before_assignment''}"

text \<open>A transaction only adds events, of one handoff, up to a version; events that close are written with the old version.\<close>

definition logs :: "handoff_db \<Rightarrow> handoff_db \<Rightarrow> uuid \<Rightarrow> int \<Rightarrow> bool \<Rightarrow> bool" where
  "logs db db' k w closing \<longleftrightarrow> set (hd_events db) \<subseteq> set (hd_events db') \<and>
     (\<forall>e \<in> set (hd_events db'). e \<in> set (hd_events db) \<or> hv_handoff_id e = k \<and> hv_aggregate_version e \<le> w \<and>
        (hv_event_type e \<in> closing_types \<longrightarrow> closing))"

lemma logs_refl: "hd_events db' = hd_events db \<Longrightarrow> logs db db' k w c"
  by (simp add: logs_def)

lemma logs_trans: "logs a b k v c \<Longrightarrow> logs b d k w c' \<Longrightarrow> v \<le> w \<Longrightarrow> logs a d k w (c \<or> c')"
  unfolding logs_def by (meson order_trans subsetD subset_trans)

lemma logs_same: "logs a b k w c \<Longrightarrow> hd_events a' = hd_events a \<Longrightarrow> logs a' b k w c"
  by (simp add: logs_def)

lemma handoff_event_ok:
  assumes "handoff_event db h ty at p = Inr db'"
  shows "handoff_tables db' = handoff_tables db" and "hd_sources db' = hd_sources db"
    and "hd_idempotency db' = hd_idempotency db" and "hd_worker_sessions db' = hd_worker_sessions db"
    and "logs db db' (hf_handoff_id h) (hf_version h) (ty \<in> closing_types)"
    and "\<exists>e \<in> set (hd_events db'). hv_handoff_id e = hf_handoff_id h \<and> hv_event_type e = ty \<and> hv_aggregate_version e = hf_version h"
    and "\<not> (\<exists>e \<in> set (hd_events db). hv_handoff_id e = hf_handoff_id h \<and> hv_event_type e = ty \<and> hv_aggregate_version e = hf_version h)"
  using assms unfolding handoff_event_def Let_def
  by (auto simp: handoff_tables_def logs_def handoff_event_row_def same_event_def list_ex_iff split: if_splits)

lemma handoff_event_fails:
  "handoff_event db h ty at p = Inl e \<Longrightarrow>
     \<exists>x \<in> set (hd_events db). hv_handoff_id x = hf_handoff_id h \<and> hv_event_type x = ty \<and> hv_aggregate_version x = hf_version h"
  unfolding handoff_event_def Let_def
  by (auto simp: handoff_event_row_def same_event_def list_ex_iff split: if_splits)

definition searched :: "handoff_db \<Rightarrow> uuid \<Rightarrow> int \<Rightarrow> bool" where
  \<comment> \<open>a candidate set was recorded for this version of the handoff\<close>
  "searched db k v \<longleftrightarrow> (\<exists>e \<in> set (hd_events db). hv_handoff_id e = k \<and> hv_aggregate_version e = v \<and>
     hv_event_type e = ''dispatch.candidate_set_created'')"

section \<open>Effects\<close>

definition open_offer :: "handoff_db \<Rightarrow> uuid \<Rightarrow> handoff_offer \<Rightarrow> bool" where
  "open_offer db k f \<longleftrightarrow> dget (hd_offers db) (ho_offer_id f) = Some f \<and> ho_state f = HO_CREATED \<and> ho_handoff_id f = k"

definition closed_offers where
  "closed_offers k state at offers = map (map_prod (\<lambda>i. i) (\<lambda>f. if ho_handoff_id f = k \<and> ho_state f = HO_CREATED
     then f\<lparr>ho_state := state, ho_resolved_at := Some at, ho_version := ho_version f + 1\<rparr> else f)) offers"

inductive handoff_effect :: "handoff_db \<Rightarrow> handoff_db \<Rightarrow> bool" where
  kept: "handoff_tables db' = handoff_tables db \<Longrightarrow>
    hd_events db' = hd_events db \<or> (\<exists>h. dget (hd_handoffs db) k = Some h \<and> logs db db' k (hf_version h) False) \<Longrightarrow>
    handoff_effect db db'"
| received: "dget (hd_handoffs db) (hf_handoff_id h) = None \<Longrightarrow>
    \<not> list_ex (\<lambda>x. hf_ride_request_id x = hf_ride_request_id h) (dvalues (hd_handoffs db)) \<Longrightarrow>
    valid_handoff h = Inr h \<Longrightarrow> hf_state h = HD_SEARCHING \<Longrightarrow> hf_version h = 1 \<Longrightarrow> hf_assigned_driver_id h = None \<Longrightarrow>
    handoff_tables db' = (dset (hf_handoff_id h) h (hd_handoffs db), hd_offers db, hd_assignments db) \<Longrightarrow>
    logs db db' (hf_handoff_id h) 1 False \<Longrightarrow> handoff_effect db db'"
| offered: "dget (hd_handoffs db) k = Some h \<Longrightarrow> hf_state h = HD_SEARCHING \<Longrightarrow> \<not> searched db k (hf_version h) \<Longrightarrow>
    \<not> list_ex (offer_blocked f) (dvalues (hd_offers db)) \<Longrightarrow> ho_handoff_id f = k \<Longrightarrow> ho_state f = HO_CREATED \<Longrightarrow>
    valid_handoff_offer f = Inr f \<Longrightarrow>
    handoff_tables db' = (dset k (h\<lparr>hf_state := HD_OFFERING, hf_version := hf_version h + 1\<rparr>) (hd_handoffs db),
      dset (ho_offer_id f) f (hd_offers db), hd_assignments db) \<Longrightarrow>
    logs db db' k (hf_version h + 1) False \<Longrightarrow> handoff_effect db db'"
| returned: "dget (hd_handoffs db) k = Some h \<Longrightarrow> hf_state h = HD_OFFERING \<Longrightarrow> open_offer db k f \<Longrightarrow>
    t \<in> {HO_REJECTED, HO_EXPIRED, HO_SUPERSEDED} \<Longrightarrow> f' = f\<lparr>ho_state := t, ho_version := ho_version f + 1, ho_resolved_at := r\<rparr> \<Longrightarrow>
    handoff_tables db' = (dset k (h\<lparr>hf_state := HD_SEARCHING, hf_version := hf_version h + 1\<rparr>) (hd_handoffs db),
      dset (ho_offer_id f) f' (hd_offers db), hd_assignments db) \<Longrightarrow>
    logs db db' k (hf_version h) True \<Longrightarrow> handoff_effect db db'"
| assigned: "dget (hd_handoffs db) k = Some h \<Longrightarrow> hf_state h = HD_OFFERING \<Longrightarrow> open_offer db k f \<Longrightarrow>
    f' = f\<lparr>ho_state := HO_ACCEPTED, ho_version := ho_version f + 1, ho_resolved_at := r\<rparr> \<Longrightarrow>
    \<not> list_ex (assignment_blocked i a) (hd_assignments db) \<Longrightarrow> as_handoff_id a = k \<Longrightarrow> as_offer_id a = ho_offer_id f \<Longrightarrow>
    as_driver_id a = ho_driver_id f \<Longrightarrow> as_vehicle_id a = ho_vehicle_id f \<Longrightarrow> as_released_at a = None \<Longrightarrow>
    as_assigned_at a < ho_expires_at f \<Longrightarrow>
    handoff_tables db' = (dset k (h\<lparr>hf_state := HD_ASSIGNED, hf_assigned_driver_id := Some (ho_driver_id f),
        hf_version := hf_version h + 1\<rparr>) (hd_handoffs db),
      dset (ho_offer_id f) f' (hd_offers db), dset i a (hd_assignments db)) \<Longrightarrow>
    logs db db' k (hf_version h + 1) False \<Longrightarrow> handoff_effect db db'"
| closed: "dget (hd_handoffs db) k = Some h \<Longrightarrow> t \<in> {HD_CANCELLED, HD_NO_DRIVER} \<Longrightarrow>
    allows HANDOFF_TRANSITIONS (hf_state h) t \<Longrightarrow> c \<in> {HO_CANCELLED, HO_EXPIRED} \<Longrightarrow>
    handoff_tables db' = (dset k (h\<lparr>hf_state := t, hf_version := hf_version h + 1\<rparr>) (hd_handoffs db),
      closed_offers k c at (hd_offers db), hd_assignments db) \<Longrightarrow>
    logs db db' k (hf_version h) True \<Longrightarrow> handoff_effect db db'"

section \<open>Every transaction is made of effects\<close>

definition handoff_ids_ok :: "handoff_db \<Rightarrow> bool" where
  "handoff_ids_ok db \<longleftrightarrow> (\<forall>k h. dget (hd_handoffs db) k = Some h \<longrightarrow> hf_handoff_id h = k) \<and>
     (\<forall>k f. dget (hd_offers db) k = Some f \<longrightarrow> ho_offer_id f = k) \<and> dict_ok (hd_handoffs db)"

lemma store_simps [simp]:
  "hd_handoffs (store_handoff db h) = dset (hf_handoff_id h) h (hd_handoffs db)"
  "hd_offers (store_handoff db h) = hd_offers db" "hd_assignments (store_handoff db h) = hd_assignments db"
  "hd_events (store_handoff db h) = hd_events db" "hd_sources (store_handoff db h) = hd_sources db"
  "hd_idempotency (store_handoff db h) = hd_idempotency db" "hd_worker_sessions (store_handoff db h) = hd_worker_sessions db"
  "hd_handoffs (store_offer db f) = hd_handoffs db" "hd_offers (store_offer db f) = dset (ho_offer_id f) f (hd_offers db)"
  "hd_assignments (store_offer db f) = hd_assignments db" "hd_events (store_offer db f) = hd_events db"
  "hd_sources (store_offer db f) = hd_sources db"
  "hd_idempotency (store_offer db f) = hd_idempotency db" "hd_worker_sessions (store_offer db f) = hd_worker_sessions db"
  "hd_handoffs (close_offers k s at db) = hd_handoffs db" "hd_offers (close_offers k s at db) = closed_offers k s at (hd_offers db)"
  "hd_assignments (close_offers k s at db) = hd_assignments db" "hd_events (close_offers k s at db) = hd_events db"
  "hd_sources (close_offers k s at db) = hd_sources db"
  "hd_idempotency (close_offers k s at db) = hd_idempotency db" "hd_worker_sessions (close_offers k s at db) = hd_worker_sessions db"
  by (simp_all add: store_handoff_def store_offer_def close_offers_def closed_offers_def)

lemma set_offer_simps [simp]:
  "hd_handoffs (set_offer i s v at db) = hd_handoffs db" "hd_assignments (set_offer i s v at db) = hd_assignments db"
  "hd_events (set_offer i s v at db) = hd_events db" "hd_sources (set_offer i s v at db) = hd_sources db"
  "hd_idempotency (set_offer i s v at db) = hd_idempotency db"
  "hd_worker_sessions (set_offer i s v at db) = hd_worker_sessions db"
  "dget (hd_offers db) i = Some f \<Longrightarrow> hd_offers (set_offer i s v at db) =
     dset i (f\<lparr>ho_state := s, ho_version := v, ho_resolved_at := Some at\<rparr>) (hd_offers db)"
  by (simp_all add: set_offer_def split: option.splits)

lemma handoff_tables_eq:
  "handoff_tables db = (a, b, c) \<longleftrightarrow> hd_handoffs db = a \<and> hd_offers db = b \<and> hd_assignments db = c"
  by (simp add: handoff_tables_def)

lemma handoff_tables_same:
  "handoff_tables db' = handoff_tables db \<longleftrightarrow> hd_handoffs db' = hd_handoffs db \<and> hd_offers db' = hd_offers db \<and>
     hd_assignments db' = hd_assignments db"
  by (simp add: handoff_tables_def)

lemma kept_same: "handoff_tables db' = handoff_tables db \<Longrightarrow> hd_events db' = hd_events db \<Longrightarrow> handoff_effect db db'"
  by (rule handoff_effect.kept [where k = 0]) simp_all

lemma handoff_effect_cong:
  assumes "handoff_effect a b" and "handoff_tables a' = handoff_tables a" and "hd_events a' = hd_events a"
  shows "handoff_effect a' b"
proof -
  have t: "hd_handoffs a' = hd_handoffs a" "hd_offers a' = hd_offers a" "hd_assignments a' = hd_assignments a"
    using assms(2) by (simp_all add: handoff_tables_same)
  have l: "logs a b k v c \<Longrightarrow> logs a' b k v c" for k v c by (rule logs_same [OF _ assms(3)])
  have s: "searched a' k v = searched a k v" for k v by (simp add: searched_def assms(3))
  have o: "open_offer a' k f = open_offer a k f" for k f by (simp add: open_offer_def t)
  from assms(1) show ?thesis
  proof (cases rule: handoff_effect.cases)
    case (kept k)
    then show ?thesis by (intro handoff_effect.kept [of b a' k]) (use assms(2,3) t l in auto)
  next
    case (received h)
    then show ?thesis by (intro handoff_effect.received [of a' h b]) (simp_all only: t l not_False_eq_True)
  next
    case (offered k h f)
    then show ?thesis by (intro handoff_effect.offered [of a' k h f b]) (simp_all only: t l s not_False_eq_True)
  next
    case (returned k h f t f' r)
    then show ?thesis by (intro handoff_effect.returned [of a' k h f t f' r b]) (simp_all only: \<open>hd_handoffs a' = hd_handoffs a\<close> \<open>hd_offers a' = hd_offers a\<close> \<open>hd_assignments a' = hd_assignments a\<close> l o not_False_eq_True)
  next
    case (assigned k h f f' r i x)
    then show ?thesis by (intro handoff_effect.assigned [of a' k h f f' r i x b]) (simp_all only: t l o not_False_eq_True)
  next
    case (closed k h u c at)
    then show ?thesis by (intro handoff_effect.closed [of a' k h u c b at]) (simp_all only: t l)
  qed
qed

lemma reserve_ok:
  assumes "reserve_handoff_key db a op key h ref at = Inr (db', c)"
  shows "handoff_tables db' = handoff_tables db" and "hd_events db' = hd_events db" and "hd_sources db' = hd_sources db"
    and "hd_worker_sessions db' = hd_worker_sessions db" and "hd_offers db' = hd_offers db" and "hd_handoffs db' = hd_handoffs db"
  using assms unfolding reserve_handoff_key_def by (auto simp: bind_result_eq_Inr handoff_tables_def)

lemma create_handoff_effect:
  assumes "create_handoff db h = Inr (db', h')" and "valid_handoff h = Inr h" and "hf_state h = HD_SEARCHING"
    and "hf_version h = 1" and "hf_assigned_driver_id h = None"
  shows "handoff_effect db db'"
proof (cases "get_handoff db (hf_handoff_id h)")
  case (Some x)
  then show ?thesis using assms(1) unfolding create_handoff_def by (auto intro: kept_same)
next
  case None
  then obtain db1 p where new: "\<not> list_ex (\<lambda>x. hf_ride_request_id x = hf_ride_request_id h) (dvalues (hd_handoffs db))"
    and e1: "handoff_event (store_handoff db h) h ''dispatch.handoff_received'' (hf_created_at h) [] = Inr db1"
    and e2: "handoff_event db1 h ''dispatch.rider.searching'' (hf_created_at h) p = Inr db'"
    using assms(1) unfolding create_handoff_def by (elim ok_elims) auto
  have "logs db db1 (hf_handoff_id h) 1 False"
    by (rule logs_same [of "store_handoff db h"]) (use handoff_event_ok(5) [OF e1] assms(4) in \<open>simp_all add: closing_types_def\<close>)
  moreover have "logs db1 db' (hf_handoff_id h) 1 False"
    using handoff_event_ok(5) [OF e2] assms(4) by (simp add: closing_types_def)
  ultimately have "logs db db' (hf_handoff_id h) 1 False" using logs_trans by fastforce
  then show ?thesis
    using None new assms(2-5) handoff_event_ok(1) [OF e1] handoff_event_ok(1) [OF e2]
    by (intro handoff_effect.received [of db h db']) (auto simp: get_handoff_def handoff_tables_def)
qed

lemma receive_effect:
  assumes "receive_priced env db p request key cor cau at cand audit = Inr (db', h')"
  shows "handoff_effect db db'"
proof -
  obtain db1 c hash where r: "reserve_handoff_key db (hx_service_actor_id env) ''handoff'' key hash cand at = Inr (db1, c)"
    and rest: "(case get_handoff db1 c of
       Some existing \<Rightarrow>
         if hf_pricing_lineage_hash existing \<noteq> qc_pricing_lineage_hash (ap_confirmation p)
         then Inl (HandoffConflict ''dispatch.accepted_pricing_required'')
         else Inr (db1, existing)
     | None \<Rightarrow>
         if qe_expires_at (ap_estimate p) \<le> at
         then Inl (HandoffConflict ''dispatch.accepted_pricing_required'')
         else
           (case ready_source db1 request of
              None \<Rightarrow> Inl (HandoffConflict ''Ride request is not validated for dispatch'')
            | Some source \<Rightarrow>
                if qr_expires_at (rs_request source) \<le> at then Inl (HandoffConflict ''Ride request expired'')
                else if qr_service_zone_id (rs_request source) = None
                then Inl (HandoffConflict ''Service zone unavailable'')
                else
                  bind_result (new_handoff env c source p request key cor cau audit at) (create_handoff db1))) = Inr (db', h')"
    using assms unfolding receive_priced_def by (auto simp: bind_result_eq_Inr)
  show ?thesis
  proof (cases "get_handoff db1 c")
    case (Some x)
    then show ?thesis using rest reserve_ok [OF r] by (auto intro: kept_same split: if_splits)
  next
    case None
    then obtain source h where h: "new_handoff env c source p request key cor cau audit at = Inr h"
      and create: "create_handoff db1 h = Inr (db', h')"
      using rest by (auto simp: bind_result_eq_Inr split: if_splits option.splits)
    have "valid_handoff h = Inr h \<and> hf_state h = HD_SEARCHING \<and> hf_version h = 1 \<and> hf_assigned_driver_id h = None"
      using h unfolding new_handoff_def Let_def
      by (auto simp: valid_handoff_def split: option.splits if_splits)
    then have "handoff_effect db1 db'" using create_handoff_effect [OF create] by blast
    then show ?thesis
      by (rule handoff_effect_cong [OF _ reserve_ok(1) [OF r, symmetric] reserve_ok(2) [OF r, symmetric]])
  qed
qed

lemma record_candidates_ok:
  assumes "record_candidates db h ranked at = Inr db1"
  shows "handoff_tables db1 = handoff_tables db" and "logs db db1 (hf_handoff_id h) (hf_version h) False"
    and "searched db1 (hf_handoff_id h) (hf_version h)" and "\<not> searched db (hf_handoff_id h) (hf_version h)"
    and "hd_sources db1 = hd_sources db" and "hd_idempotency db1 = hd_idempotency db"
    and "hd_worker_sessions db1 = hd_worker_sessions db"
  using handoff_event_ok [OF assms [unfolded record_candidates_def]]
  by (auto simp: handoff_tables_def logs_def searched_def closing_types_def)

lemma create_offer_effect:
  assumes "create_handoff_offer db1 h f = Inr (db', f')" and tables: "handoff_tables db1 = handoff_tables db"
    and logs: "logs db db1 k (hf_version h) False" and "\<not> searched db k (hf_version h)"
    and h: "dget (hd_handoffs db) k = Some h" "hf_handoff_id h = k" and f: "ho_handoff_id f = k" "ho_state f = HO_CREATED"
      "valid_handoff_offer f = Inr f"
  shows "handoff_effect db db'" and "hf_state h = HD_SEARCHING"
proof -
  have t: "hd_handoffs db1 = hd_handoffs db" "hd_offers db1 = hd_offers db" "hd_assignments db1 = hd_assignments db"
    using tables by (simp_all add: handoff_tables_same)
  let ?row = "h\<lparr>hf_state := HD_OFFERING, hf_version := hf_version h + 1\<rparr>"
  obtain db2 db3 p1 p2 p3 where free: "\<not> list_ex (offer_blocked f) (dvalues (hd_offers db))" and st: "hf_state h = HD_SEARCHING"
    and e1: "handoff_event (store_handoff (store_offer db1 f) ?row) ?row ''dispatch.offer_created'' (ho_created_at f) p1 = Inr db2"
    and e2: "handoff_event db2 ?row ''dispatch.driver.new_offer'' (ho_created_at f) p2 = Inr db3"
    and e3: "handoff_event db3 ?row ''dispatch.rider.driver_found'' (ho_created_at f) p3 = Inr db'"
    using assms(1) h unfolding create_handoff_offer_def Let_def get_handoff_def t by (elim ok_elims) auto
  show "hf_state h = HD_SEARCHING" by (rule st)
  have l1: "logs db1 db2 k (hf_version h + 1) False"
    by (rule logs_same [of "store_handoff (store_offer db1 f) ?row"])
      (use handoff_event_ok(5) [OF e1] h in \<open>simp_all add: closing_types_def\<close>)
  have l2: "logs db2 db3 k (hf_version h + 1) False" "logs db3 db' k (hf_version h + 1) False"
    using handoff_event_ok(5) [OF e2] handoff_event_ok(5) [OF e3] h by (simp_all add: closing_types_def)
  have "logs db db' k (hf_version h + 1) False"
    using logs_trans [OF logs logs_trans [OF l1 logs_trans [OF l2]]] by simp
  moreover have "handoff_tables db' = (dset k ?row (hd_handoffs db), dset (ho_offer_id f) f (hd_offers db), hd_assignments db)"
    using handoff_event_ok(1) [OF e1] handoff_event_ok(1) [OF e2] handoff_event_ok(1) [OF e3] t h(2)
    by (simp add: handoff_tables_def)
  ultimately show "handoff_effect db db'"
    using h st free f assms(4) by (intro handoff_effect.offered [of db k h f db']) auto
qed

lemma offer_next_effect:
  assumes "offer_next env db k obs at i = Inr (db', r)" and ids: "handoff_ids_ok db"
  shows "handoff_effect db db'" and "\<exists>h. dget (hd_handoffs db) k = Some h \<and> \<not> searched db k (hf_version h) \<and>
    (r = None \<longrightarrow> dget (hd_handoffs db') k = Some h \<and> searched db' k (hf_version h))"
proof -
  obtain h auth db1 where h: "dget (hd_handoffs db) k = Some h"
    and rec: "record_candidates db h (rank_drivers auth at (hx_maximum_evidence_age_seconds env)) at = Inr db1"
    and rest: "(case rank_drivers auth at (hx_maximum_evidence_age_seconds env) of
                 [] \<Rightarrow>
                   bind_result (handoff_event db1 h ''dispatch.assignment_failed'' at [(''reason'', JStr ''no_suitable_driver'')])
                     (\<lambda>db2. Inr (db2, None))
               | selected # _ \<Rightarrow>
                   bind_result (valid_handoff_offer (new_handoff_offer env h selected at i)) (\<lambda>f.
                   bind_result (create_handoff_offer db1 h f) (\<lambda>(db2, f'). Inr (db2, Some f')))) = Inr (db', r)"
    using assms(1) unfolding offer_next_def get_handoff_def Let_def by (auto simp: bind_result_eq_Inr split: option.splits if_splits)
  have k: "hf_handoff_id h = k" using ids h by (simp add: handoff_ids_ok_def)
  note rec = record_candidates_ok [OF rec, unfolded k]
  have t: "hd_handoffs db1 = hd_handoffs db" using rec(1) by (simp add: handoff_tables_same)
  have both: "handoff_effect db db' \<and> (r = None \<longrightarrow> dget (hd_handoffs db') k = Some h \<and> searched db' k (hf_version h))"
  proof (cases "rank_drivers auth at (hx_maximum_evidence_age_seconds env)")
    case Nil
    then have e: "handoff_event db1 h ''dispatch.assignment_failed'' at [(''reason'', JStr ''no_suitable_driver'')] = Inr db'"
      using rest by (auto simp: bind_result_eq_Inr)
    have "logs db1 db' k (hf_version h) False" using handoff_event_ok(5) [OF e] k by (simp add: closing_types_def)
    then have l: "logs db db' k (hf_version h) False" using logs_trans [OF rec(2)] by fastforce
    have "searched db' k (hf_version h)"
      using rec(3) \<open>logs db1 db' k (hf_version h) False\<close> unfolding searched_def logs_def by blast
    moreover have "handoff_tables db' = handoff_tables db" using handoff_event_ok(1) [OF e] rec(1) by simp
    ultimately show ?thesis
      using l h handoff_effect.kept [of db' db k] by (auto simp: handoff_tables_same)
  next
    case (Cons d ds)
    then obtain f f' where f: "valid_handoff_offer (new_handoff_offer env h d at i) = Inr f"
      and make: "create_handoff_offer db1 h f = Inr (db', f')" and r: "r = Some f'"
      using rest by (auto simp: bind_result_eq_Inr)
    have same: "f = new_handoff_offer env h d at i" "valid_handoff_offer f = Inr f"
      using f by (auto simp: valid_handoff_offer_def split: if_splits)
    show ?thesis
      using create_offer_effect(1) [OF make rec(1,2,4) h k _ _ same(2)] k r by (simp add: same(1) new_handoff_offer_def)
  qed
  show "handoff_effect db db'" using both by blast
  show "\<exists>h. dget (hd_handoffs db) k = Some h \<and> \<not> searched db k (hf_version h) \<and>
    (r = None \<longrightarrow> dget (hd_handoffs db') k = Some h \<and> searched db' k (hf_version h))"
    using h rec(4) both by blast
qed

text \<open>Responses: the idempotency rows of responses name the offer they were made for.\<close>

definition response_keys_ok :: "handoff_env \<Rightarrow> handoff_db \<Rightarrow> bool" where
  "response_keys_ok env db \<longleftrightarrow> (\<forall>a key row. dget (hd_idempotency db) (a, ''offer_response'', key) = Some row \<longrightarrow>
     (\<exists>accept v. ir_request_hash row = hx_response_digest env (ir_response_reference row) accept v))"

definition response_digest_separates :: "handoff_env \<Rightarrow> bool" where
  \<comment> \<open>SHA-256 does not give two offers one hash\<close>
  "response_digest_separates env \<longleftrightarrow>
     (\<forall>i a v i' a' v'. hx_response_digest env i a v = hx_response_digest env i' a' v' \<longrightarrow> i = i')"

lemma reserve_row_ok:
  assumes "reserve_row x t key h ref at = Inr (t', c)"
  shows "dget t' key \<noteq> None" and "\<And>row. dget t' key = Some row \<Longrightarrow> ir_request_hash row = h \<and> ir_response_reference row = c"
    and "dget t key = None \<Longrightarrow> c = ref" and "\<And>k. k \<noteq> key \<Longrightarrow> dget t' k = dget t k"
    and "\<And>row. dget t key = Some row \<Longrightarrow> t' = t \<and> ir_request_hash row = h"
  using assms unfolding reserve_row_def by (auto split: option.splits if_splits)

lemma response_reserved:
  assumes "reserve_handoff_key db a ''offer_response'' key (hx_response_digest env i acc v) i at = Inr (db', c)"
    and "response_keys_ok env db" and "response_digest_separates env"
  shows "c = i" and "response_keys_ok env db'"
proof -
  obtain t where t: "reserve_row (ValueError ''Idempotency key reused with different request'') (hd_idempotency db)
      (a, ''offer_response'', key) (hx_response_digest env i acc v) i at = Inr (t, c)" and db': "db' = db\<lparr>hd_idempotency := t\<rparr>"
    using assms(1) unfolding reserve_handoff_key_def by (auto simp: bind_result_eq_Inr)
  show c: "c = i"
  proof (cases "dget (hd_idempotency db) (a, ''offer_response'', key)")
    case None
    then show ?thesis by (rule reserve_row_ok(3) [OF t])
  next
    case (Some row)
    obtain acc' v' where "ir_request_hash row = hx_response_digest env (ir_response_reference row) acc' v'"
      using assms(2) Some unfolding response_keys_ok_def by blast
    then have "ir_response_reference row = i"
      using assms(3) reserve_row_ok(5) [OF t Some] unfolding response_digest_separates_def by metis
    then show ?thesis using reserve_row_ok(2,5) [OF t] Some by metis
  qed
  show "response_keys_ok env db'" unfolding response_keys_ok_def
  proof (intro allI impI)
    fix b k row
    assume row: "dget (hd_idempotency db') (b, ''offer_response'', k) = Some row"
    show "\<exists>accept v. ir_request_hash row = hx_response_digest env (ir_response_reference row) accept v"
    proof (cases "(b, k) = (a, key)")
      case True
      then show ?thesis using reserve_row_ok(2) [OF t] row c db' by auto
    next
      case False
      then have "dget (hd_idempotency db) (b, ''offer_response'', k) = Some row"
        using reserve_row_ok(4) [OF t, of "(b, ''offer_response'', k)"] row db' by auto
      then show ?thesis using assms(2) unfolding response_keys_ok_def by blast
    qed
  qed
qed

lemma return_effect:
  assumes e: "handoff_event (store_handoff (set_offer i t (ho_version f + 1) at db) (h\<lparr>hf_state := HD_SEARCHING, hf_version := hf_version h + 1\<rparr>)) h
      ty at p = Inr db'"
    and h: "dget (hd_handoffs db) (ho_handoff_id f) = Some h" "hf_state h = HD_OFFERING"
    and f: "dget (hd_offers db) i = Some f" "ho_state f = HO_CREATED" and t: "t \<in> {HO_REJECTED, HO_EXPIRED, HO_SUPERSEDED}"
    and ids: "handoff_ids_ok db"
  shows "handoff_effect db db'"
proof -
  have k: "hf_handoff_id h = ho_handoff_id f" "ho_offer_id f = i" using ids h(1) f(1) by (simp_all add: handoff_ids_ok_def)
  have "logs db db' (ho_handoff_id f) (hf_version h) (ty \<in> closing_types)"
    by (rule logs_same [OF handoff_event_ok(5) [OF e, unfolded k(1)]]) simp
  then have "logs db db' (ho_handoff_id f) (hf_version h) True" unfolding logs_def by blast
  then show ?thesis
    using handoff_event_ok(1) [OF e] h f t k
    by (intro handoff_effect.returned [of db "ho_handoff_id f" h f t _ "Some at" db'])
      (auto simp: handoff_tables_def open_offer_def)
qed

lemma assign_effect:
  assumes a: "assign_offer (set_offer i HO_ACCEPTED (ho_version f + 1) at db) h f i d aid at = Inr db'"
    and h: "dget (hd_handoffs db) (ho_handoff_id f) = Some h" "hf_state h = HD_OFFERING"
    and f: "dget (hd_offers db) i = Some f" "ho_state f = HO_CREATED" "ho_driver_id f = d" "at < ho_expires_at f"
    and ids: "handoff_ids_ok db"
  shows "handoff_effect db db'"
proof -
  have k: "hf_handoff_id h = ho_handoff_id f" "ho_offer_id f = i" using ids h(1) f(1) by (simp_all add: handoff_ids_ok_def)
  let ?a = "\<lparr>as_handoff_id = hf_handoff_id h, as_offer_id = i, as_driver_id = d, as_vehicle_id = ho_vehicle_id f,
    as_assigned_at = at, as_released_at = None, as_correlation_id = hf_correlation_id h\<rparr>"
  let ?h = "h\<lparr>hf_state := HD_ASSIGNED, hf_assigned_driver_id := Some d, hf_version := hf_version h + 1\<rparr>"
  let ?db = "set_offer i HO_ACCEPTED (ho_version f + 1) at db"
  obtain db1 db2 p1 p2 p3 where free: "\<not> list_ex (assignment_blocked aid ?a) (hd_assignments db)"
    and e1: "handoff_event (store_handoff (?db\<lparr>hd_assignments := dset aid ?a (hd_assignments ?db)\<rparr>) ?h) ?h
      ''dispatch.assignment_created'' at p1 = Inr db1"
    and e2: "handoff_event db1 ?h ''dispatch.driver.acceptance_confirmed'' at p2 = Inr db2"
    and e3: "handoff_event db2 ?h ''dispatch.rider.driver_accepted'' at p3 = Inr db'"
    using a unfolding assign_offer_def Let_def by (elim ok_elims) auto
  have l1: "logs db db1 (ho_handoff_id f) (hf_version h + 1) False"
    by (rule logs_same [of "store_handoff (?db\<lparr>hd_assignments := dset aid ?a (hd_assignments ?db)\<rparr>) ?h"])
      (use handoff_event_ok(5) [OF e1] k in \<open>simp_all add: closing_types_def\<close>)
  have l2: "logs db1 db2 (ho_handoff_id f) (hf_version h + 1) False" "logs db2 db' (ho_handoff_id f) (hf_version h + 1) False"
    using handoff_event_ok(5) [OF e2] handoff_event_ok(5) [OF e3] k by (simp_all add: closing_types_def)
  have l: "logs db db' (ho_handoff_id f) (hf_version h + 1) False" using logs_trans [OF l1 logs_trans [OF l2]] by simp
  have "handoff_tables db' = (dset (ho_handoff_id f) ?h (hd_handoffs db),
      dset i (f\<lparr>ho_state := HO_ACCEPTED, ho_version := ho_version f + 1, ho_resolved_at := Some at\<rparr>) (hd_offers db),
      dset aid ?a (hd_assignments db))"
    using handoff_event_ok(1) [OF e1] handoff_event_ok(1) [OF e2] handoff_event_ok(1) [OF e3] k f(1)
    by (simp add: handoff_tables_def)
  then show ?thesis
    using l h f free k
    by (intro handoff_effect.assigned [of db "ho_handoff_id f" h f _ "Some at" aid ?a db']) (auto simp: open_offer_def)
qed

lemma respond_effect:
  assumes "respond_offer env db i d accept e key at aid = Inr (db', r)" and ids: "handoff_ids_ok db"
    and keys: "response_keys_ok env db" "response_digest_separates env"
  shows "handoff_effect db db'"
proof -
  obtain db0 c where res: "reserve_handoff_key db d ''offer_response'' key (hx_response_digest env i accept e) i at = Inr (db0, c)"
    and rest: "(case dget (hd_offers db0) c of
       None \<Rightarrow> Inl (HandoffConflict ''Offer unavailable'')
     | Some f \<Rightarrow>
         if ho_driver_id f \<noteq> d then Inl (HandoffConflict ''Offer unavailable'')
         else
           (case get_handoff db0 (ho_handoff_id f) of
              None \<Rightarrow> Inl (HandoffConflict ''Offer unavailable'')
            | Some h \<Rightarrow>
                if ho_state f = HO_ACCEPTED
                then bind_result (assignment_of_offer db0 i) (\<lambda>k. Inr (db0, Some k))
                else if ho_state f = HO_REJECTED \<and> \<not> accept then Inr (db0, None)
                else if ho_state f \<noteq> HO_CREATED \<or> ho_version f \<noteq> e \<or> ho_expires_at f \<le> at
                then Inl (HandoffConflict ''Offer no longer active'')
                else if hf_state h \<noteq> HD_OFFERING then Inl (HandoffConflict ''Handoff unavailable'')
                else if accept
                then bind_result (assign_offer (set_offer i HO_ACCEPTED (e + 1) at db0) h f i d
                    aid at) (\<lambda>db1. Inr (db1, Some aid))
                else bind_result (reject_offer (set_offer i HO_REJECTED (e + 1) at db0) h i at)
                    (\<lambda>db1. Inr (db1, None)))) = Inr (db', r)"
    using assms(1) unfolding respond_offer_def by (auto simp: bind_result_eq_Inr)
  have c: "c = i" by (rule response_reserved(1) [OF res keys])
  note same = reserve_ok [OF res]
  have ids0: "handoff_ids_ok db0" using ids same(5,6) by (simp add: handoff_ids_ok_def)
  obtain f h where f: "dget (hd_offers db0) i = Some f" "ho_driver_id f = d" and h: "dget (hd_handoffs db0) (ho_handoff_id f) = Some h"
    using rest c unfolding get_handoff_def by (auto split: option.splits if_splits)
  have "handoff_effect db0 db'"
  proof (cases "ho_state f = HO_ACCEPTED \<or> ho_state f = HO_REJECTED \<and> \<not> accept")
    case True
    then have "db' = db0" using rest c f h unfolding get_handoff_def by (auto simp: bind_result_eq_Inr)
    then show ?thesis by (simp add: kept_same)
  next
    case False
    then have ok: "ho_state f = HO_CREATED" "ho_version f = e" "at < ho_expires_at f" "hf_state h = HD_OFFERING"
      using rest c f h unfolding get_handoff_def by (auto split: if_splits)
    show ?thesis
    proof (cases accept)
      case True
      then have "assign_offer (set_offer i HO_ACCEPTED (ho_version f + 1) at db0) h f i d aid at = Inr db'"
        using rest c f h ok unfolding get_handoff_def by (auto simp: bind_result_eq_Inr)
      then show ?thesis using h ok(4) f(1) ok(1) f(2) ok(3) ids0 by (rule assign_effect)
    next
      case reject: False
      then have "reject_offer (set_offer i HO_REJECTED (ho_version f + 1) at db0) h i at = Inr db'"
        using rest c f h ok unfolding get_handoff_def by (auto simp: bind_result_eq_Inr)
      then show ?thesis unfolding reject_offer_def using h ok(4) f(1) ok(1) _ ids0 by (rule return_effect) simp
    qed
  qed
  then show ?thesis by (rule handoff_effect_cong [OF _ same(1) [symmetric] same(2) [symmetric]])
qed

lemma respond_canonical_ok: "respond_canonical env db i d accept e key at aid = Inr r \<Longrightarrow> respond_offer env db i d accept e key at aid = Inr r"
  unfolding respond_canonical_def by (elim ok_elims) simp_all

lemma handoff_respond_ok: "handoff_respond env db i d accept e key at aid = Inr r \<Longrightarrow> respond_offer env db i d accept e key at aid = Inr r"
  by (auto simp: handoff_respond_def respond_canonical_ok split: if_splits)

lemma resolve_offer_effect:
  assumes "resolve_open_offer db i t at = Inr db'" and ids: "handoff_ids_ok db"
  shows "handoff_effect db db'"
proof -
  obtain f h p where t: "t \<in> {HO_EXPIRED, HO_SUPERSEDED}" and f: "dget (hd_offers db) i = Some f" "ho_state f = HO_CREATED"
    and h: "dget (hd_handoffs db) (ho_handoff_id f) = Some h" "hf_state h = HD_OFFERING"
    and e: "handoff_event (store_handoff (set_offer i t (ho_version f + 1) at db)
      (h\<lparr>hf_state := HD_SEARCHING, hf_version := hf_version h + 1\<rparr>)) h (''dispatch.offer_'' @ handoff_offer_value t) at p = Inr db'"
    using assms(1) unfolding resolve_open_offer_def get_handoff_def by (elim ok_elims) auto
  show ?thesis by (rule return_effect [OF e h f _ ids]) (use t in auto)
qed

lemma close_effect:
  assumes e: "handoff_event (store_handoff (close_offers k c at db) (h\<lparr>hf_state := t, hf_version := hf_version h + 1\<rparr>)) h ty at p = Inr db'"
    and h: "dget (hd_handoffs db) k = Some h" "hf_handoff_id h = k" "allows HANDOFF_TRANSITIONS (hf_state h) t"
    and t: "t \<in> {HD_CANCELLED, HD_NO_DRIVER}" "c \<in> {HO_CANCELLED, HO_EXPIRED}"
  shows "handoff_effect db db'"
proof -
  have "logs db db' k (hf_version h) (ty \<in> closing_types)"
    by (rule logs_same [OF handoff_event_ok(5) [OF e, unfolded h(2)]]) simp
  then have "logs db db' k (hf_version h) True" unfolding logs_def by blast
  then show ?thesis
    using handoff_event_ok(1) [OF e] h t
    by (intro handoff_effect.closed [of db k h t c db' at]) (auto simp: handoff_tables_def)
qed

lemma one_row: "one_or_none P (dvalues d) = Inr (Some x) \<Longrightarrow> P x \<and> x \<in> set (dvalues d)"
  unfolding one_or_none_ok using filter_eq_Cons_iff [of P "dvalues d" x "[]"] by auto

lemma stored_handoff: "handoff_ids_ok db \<Longrightarrow> h \<in> set (dvalues (hd_handoffs db)) \<Longrightarrow> dget (hd_handoffs db) (hf_handoff_id h) = Some h"
  unfolding handoff_ids_ok_def using in_dvalues_iff by metis

lemma cancel_handoff_effect:
  assumes "cancel_before_assignment db q at = Inr (db', b)" and ids: "handoff_ids_ok db"
  shows "handoff_effect db db'"
proof -
  obtain row where row: "one_or_none (\<lambda>h. hf_ride_request_id h = q) (dvalues (hd_handoffs db)) = Inr row"
    and rest: "(case row of None \<Rightarrow> Inr (db, False)
     | Some h \<Rightarrow>
         if hf_state h = HD_ASSIGNED then Inl (HandoffConflict ''Post-assignment cancellation excluded'')
         else if hf_state h = HD_CANCELLED then Inr (db, True)
         else
           bind_result (handoff_event
             (store_handoff (close_offers (hf_handoff_id h) HO_CANCELLED at db)
               (h\<lparr>hf_state := HD_CANCELLED, hf_version := hf_version h + 1\<rparr>)) h
             ''dispatch.cancelled_before_assignment'' at []) (\<lambda>db1. Inr (db1, True))) = Inr (db', b)"
    using assms(1) unfolding cancel_before_assignment_def by (auto simp: bind_result_eq_Inr)
  show ?thesis
  proof (cases row)
    case None
    then show ?thesis using rest by (simp add: kept_same)
  next
    case (Some h)
    have h: "dget (hd_handoffs db) (hf_handoff_id h) = Some h"
      using one_row [OF row [unfolded Some]] stored_handoff [OF ids] by blast
    show ?thesis
    proof (cases "hf_state h = HD_CANCELLED")
      case True
      then show ?thesis using rest Some by (simp add: kept_same)
    next
      case False
      then have e: "handoff_event (store_handoff (close_offers (hf_handoff_id h) HO_CANCELLED at db)
               (h\<lparr>hf_state := HD_CANCELLED, hf_version := hf_version h + 1\<rparr>)) h
             ''dispatch.cancelled_before_assignment'' at [] = Inr db'" and "hf_state h \<noteq> HD_ASSIGNED"
        using rest Some by (auto simp: bind_result_eq_Inr split: if_splits)
      then have "allows HANDOFF_TRANSITIONS (hf_state h) HD_CANCELLED" using False by (cases "hf_state h") (simp_all add: allows_def)
      then show ?thesis by (intro close_effect [OF e h refl]) simp_all
    qed
  qed
qed

lemma close_handoff_ok:
  assumes "close_handoff at h db = Inr db'" and h: "dget (hd_handoffs db) (hf_handoff_id h) = Some h"
    and st: "hf_state h = HD_SEARCHING \<or> hf_state h = HD_OFFERING"
  shows "handoff_effect db db'"
    and "hd_handoffs db' = dset (hf_handoff_id h) (h\<lparr>hf_state := HD_NO_DRIVER, hf_version := hf_version h + 1\<rparr>) (hd_handoffs db)"
    and "hd_offers db' = closed_offers (hf_handoff_id h) HO_EXPIRED at (hd_offers db)"
proof -
  obtain p where e: "handoff_event (store_handoff (close_offers (hf_handoff_id h) HO_EXPIRED at db)
      (h\<lparr>hf_state := HD_NO_DRIVER, hf_version := hf_version h + 1\<rparr>)) h ''dispatch.rider.no_driver_available'' at p = Inr db'"
    using assms(1) h unfolding close_handoff_def Let_def get_handoff_def by simp
  have "allows HANDOFF_TRANSITIONS (hf_state h) HD_NO_DRIVER" using st by (auto simp: allows_def)
  then show "handoff_effect db db'" by (intro close_effect [OF e h refl]) simp_all
  show "hd_handoffs db' = dset (hf_handoff_id h) (h\<lparr>hf_state := HD_NO_DRIVER, hf_version := hf_version h + 1\<rparr>) (hd_handoffs db)"
    "hd_offers db' = closed_offers (hf_handoff_id h) HO_EXPIRED at (hd_offers db)"
    using handoff_event_ok(1) [OF e] by (simp_all add: handoff_tables_def)
qed

lemma close_handoffs_effects:
  assumes "close_handoffs at hs db = Inr db'" and "distinct (map hf_handoff_id hs)"
    and "\<And>h. h \<in> set hs \<Longrightarrow> dget (hd_handoffs db) (hf_handoff_id h) = Some h \<and> (hf_state h = HD_SEARCHING \<or> hf_state h = HD_OFFERING)"
  shows "handoff_effect\<^sup>*\<^sup>* db db'"
  using assms
proof (induction hs arbitrary: db)
  case (Cons h hs)
  then obtain db1 where c: "close_handoff at h db = Inr db1" "close_handoffs at hs db1 = Inr db'"
    by (auto simp: bind_result_eq_Inr)
  have h: "dget (hd_handoffs db) (hf_handoff_id h) = Some h" "hf_state h = HD_SEARCHING \<or> hf_state h = HD_OFFERING"
    using Cons.prems(3) [of h] by simp_all
  have "handoff_effect\<^sup>*\<^sup>* db1 db'"
  proof (rule Cons.IH [OF c(2)])
    fix x
    assume x: "x \<in> set hs"
    then have "hf_handoff_id x \<in> set (map hf_handoff_id hs)" by simp
    moreover have "hf_handoff_id h \<notin> set (map hf_handoff_id hs)" using Cons.prems(2) by simp
    ultimately have "hf_handoff_id x \<noteq> hf_handoff_id h" by metis
    then show "dget (hd_handoffs db1) (hf_handoff_id x) = Some x \<and> (hf_state x = HD_SEARCHING \<or> hf_state x = HD_OFFERING)"
      using Cons.prems(3) [of x] x close_handoff_ok(2) [OF c(1) h] by simp
  qed (use Cons.prems(2) in simp)
  then show ?case using close_handoff_ok(1) [OF c(1) h] by (rule converse_rtranclp_into_rtranclp [rotated])
qed simp

lemma expired_handoffs_rows:
  assumes "handoff_ids_ok db"
  shows "distinct (map hf_handoff_id (expired_handoffs db at n))"
    and "h \<in> set (expired_handoffs db at n) \<Longrightarrow> dget (hd_handoffs db) (hf_handoff_id h) = Some h \<and>
      (hf_state h = HD_SEARCHING \<or> hf_state h = HD_OFFERING) \<and> hf_expires_at h \<le> at"
proof -
  have "map hf_handoff_id (dvalues (hd_handoffs db)) = map fst (hd_handoffs db)"
    using assms by (auto simp: handoff_ids_ok_def dvalues_def dict_ok_def intro!: map_cong)
  then have "distinct (map hf_handoff_id (dvalues (hd_handoffs db)))" using assms by (simp add: handoff_ids_ok_def dict_ok_def)
  then have "distinct (map hf_handoff_id (filter P (dvalues (hd_handoffs db))))" for P by (rule distinct_map_filter)
  then have "distinct (map hf_handoff_id (sort_key hf_expires_at (filter P (dvalues (hd_handoffs db)))))" for P
    by (simp add: distinct_map)
  then show "distinct (map hf_handoff_id (expired_handoffs db at n))"
    unfolding expired_handoffs_def take_map [symmetric] by (rule distinct_take)
  show "h \<in> set (expired_handoffs db at n) \<Longrightarrow> dget (hd_handoffs db) (hf_handoff_id h) = Some h \<and>
      (hf_state h = HD_SEARCHING \<or> hf_state h = HD_OFFERING) \<and> hf_expires_at h \<le> at"
    unfolding expired_handoffs_def using stored_handoff [OF assms] by (auto dest: in_set_takeD)
qed

lemma close_expired_effects:
  assumes "close_expired_handoffs db at n = Inr (db', m)" and "handoff_ids_ok db"
  shows "handoff_effect\<^sup>*\<^sup>* db db'"
proof -
  have "close_handoffs at (expired_handoffs db at n) db = Inr db'"
    using assms(1) unfolding close_expired_handoffs_def Let_def by (auto simp: bind_result_eq_Inr)
  then show ?thesis
    by (rule close_handoffs_effects [OF _ expired_handoffs_rows(1) [OF assms(2)]]) (use expired_handoffs_rows(2) [OF assms(2)] in blast)
qed

end
