(* ===== verification/Handoff_Reach.thy ===== *)
theory Handoff_Reach
  imports Handoff_Inv
begin

text \<open>
  The invariant of the tables of dispatch handoffs, the step relation of its transactions, and the operations of the
  runtime as sequences of steps.
\<close>

section \<open>The invariant\<close>

definition handoffs_ok :: "handoff_db \<Rightarrow> bool" where
  "handoffs_ok db \<longleftrightarrow>
     (\<forall>k h. dget (hd_handoffs db) k = Some h \<longrightarrow> valid_handoff h = Inr h \<and>
        (hf_state h = HD_OFFERING \<longleftrightarrow> (\<exists>f. open_offer db k f)) \<and>
        (hf_state h = HD_ASSIGNED \<longleftrightarrow> hf_assigned_driver_id h \<noteq> None) \<and>
        (hf_state h = HD_ASSIGNED \<longleftrightarrow> (\<exists>i a. dget (hd_assignments db) i = Some a \<and> as_handoff_id a = k))) \<and>
     (\<forall>k h l g. dget (hd_handoffs db) k = Some h \<longrightarrow> dget (hd_handoffs db) l = Some g \<longrightarrow>
        hf_ride_request_id h = hf_ride_request_id g \<longrightarrow> k = l)"

definition offers_ok :: "handoff_db \<Rightarrow> bool" where
  "offers_ok db \<longleftrightarrow>
     (\<forall>i f. dget (hd_offers db) i = Some f \<longrightarrow> dget (hd_handoffs db) (ho_handoff_id f) \<noteq> None \<and>
        valid_handoff_offer f = Inr f \<and>
        (ho_state f = HO_ACCEPTED \<longrightarrow> (\<exists>j a. dget (hd_assignments db) j = Some a \<and> as_offer_id a = i))) \<and>
     (\<forall>k f l g. open_offer db k f \<longrightarrow> open_offer db l g \<longrightarrow> k = l \<or> ho_driver_id f = ho_driver_id g \<longrightarrow> f = g)"

definition assignment_backed :: "handoff_db \<Rightarrow> assignment_row \<Rightarrow> bool" where
  "assignment_backed db a \<longleftrightarrow> (\<exists>f h. dget (hd_offers db) (as_offer_id a) = Some f \<and> ho_state f = HO_ACCEPTED \<and>
     ho_handoff_id f = as_handoff_id a \<and> ho_driver_id f = as_driver_id a \<and> ho_vehicle_id f = as_vehicle_id a \<and>
     as_assigned_at a < ho_expires_at f \<and> dget (hd_handoffs db) (as_handoff_id a) = Some h \<and>
     hf_assigned_driver_id h = Some (as_driver_id a))"

definition assignments_ok :: "handoff_db \<Rightarrow> bool" where
  "assignments_ok db \<longleftrightarrow>
     (\<forall>i a. dget (hd_assignments db) i = Some a \<longrightarrow> as_released_at a = None \<and> assignment_backed db a) \<and>
     (\<forall>i a j b. dget (hd_assignments db) i = Some a \<longrightarrow> dget (hd_assignments db) j = Some b \<longrightarrow>
        as_handoff_id a = as_handoff_id b \<or> as_offer_id a = as_offer_id b \<or> as_driver_id a = as_driver_id b \<longrightarrow> i = j)"

definition events_ok :: "handoff_db \<Rightarrow> bool" where
  "events_ok db \<longleftrightarrow> (\<forall>e \<in> set (hd_events db). \<exists>h. dget (hd_handoffs db) (hv_handoff_id e) = Some h \<and>
     hv_aggregate_version e \<le> hf_version h \<and> (hv_event_type e \<in> closing_types \<longrightarrow> hv_aggregate_version e < hf_version h))"

definition handoff_inv :: "handoff_db \<Rightarrow> bool" where
  "handoff_inv db \<longleftrightarrow> handoff_ids_ok db \<and> dict_ok (hd_offers db) \<and> dict_ok (hd_assignments db) \<and> handoffs_ok db \<and>
     offers_ok db \<and> assignments_ok db \<and> events_ok db"

lemma handoff_invD:
  assumes "handoff_inv db"
  shows "handoff_ids_ok db" "dict_ok (hd_offers db)" "dict_ok (hd_assignments db)" "handoffs_ok db" "offers_ok db"
    "assignments_ok db" "events_ok db" "dict_ok (hd_handoffs db)"
  using assms by (simp_all add: handoff_inv_def handoff_ids_ok_def)

lemma handoffs_okD:
  assumes "handoffs_ok db" and "dget (hd_handoffs db) k = Some h"
  shows "valid_handoff h = Inr h" and "hf_state h = HD_OFFERING \<longleftrightarrow> (\<exists>f. open_offer db k f)"
    and "hf_state h = HD_ASSIGNED \<longleftrightarrow> hf_assigned_driver_id h \<noteq> None"
    and "hf_state h = HD_ASSIGNED \<longleftrightarrow> (\<exists>i a. dget (hd_assignments db) i = Some a \<and> as_handoff_id a = k)"
    and "dget (hd_handoffs db) l = Some g \<Longrightarrow> hf_ride_request_id h = hf_ride_request_id g \<Longrightarrow> k = l"
  using assms unfolding handoffs_ok_def by blast+

lemma offers_okD:
  assumes "offers_ok db"
  shows "dget (hd_offers db) i = Some f \<Longrightarrow> dget (hd_handoffs db) (ho_handoff_id f) \<noteq> None"
    and "dget (hd_offers db) i = Some f \<Longrightarrow> valid_handoff_offer f = Inr f"
    and "dget (hd_offers db) i = Some f \<Longrightarrow> ho_state f = HO_ACCEPTED \<Longrightarrow>
      \<exists>j a. dget (hd_assignments db) j = Some a \<and> as_offer_id a = i"
    and "open_offer db k f \<Longrightarrow> open_offer db l g \<Longrightarrow> k = l \<or> ho_driver_id f = ho_driver_id g \<Longrightarrow> f = g"
  using assms unfolding offers_ok_def by blast+

lemma assignments_okD:
  assumes "assignments_ok db"
  shows "dget (hd_assignments db) i = Some a \<Longrightarrow> as_released_at a = None"
    and "dget (hd_assignments db) i = Some a \<Longrightarrow> assignment_backed db a"
    and "dget (hd_assignments db) i = Some a \<Longrightarrow> dget (hd_assignments db) j = Some b \<Longrightarrow>
        as_handoff_id a = as_handoff_id b \<or> as_offer_id a = as_offer_id b \<or> as_driver_id a = as_driver_id b \<Longrightarrow> i = j"
  using assms unfolding assignments_ok_def by blast+

lemma offers_okI:
  assumes "\<And>i f. dget (hd_offers db) i = Some f \<Longrightarrow> dget (hd_handoffs db) (ho_handoff_id f) \<noteq> None"
    and "\<And>i f. dget (hd_offers db) i = Some f \<Longrightarrow> valid_handoff_offer f = Inr f"
    and "\<And>i f. dget (hd_offers db) i = Some f \<Longrightarrow> ho_state f = HO_ACCEPTED \<Longrightarrow>
      \<exists>j a. dget (hd_assignments db) j = Some a \<and> as_offer_id a = i"
    and "\<And>k f l g. open_offer db k f \<Longrightarrow> open_offer db l g \<Longrightarrow> k = l \<or> ho_driver_id f = ho_driver_id g \<Longrightarrow> f = g"
  shows "offers_ok db"
  using assms unfolding offers_ok_def by blast

lemma assignments_okI:
  assumes "\<And>i a. dget (hd_assignments db) i = Some a \<Longrightarrow> as_released_at a = None"
    and "\<And>i a. dget (hd_assignments db) i = Some a \<Longrightarrow> assignment_backed db a"
    and "\<And>i a j b. dget (hd_assignments db) i = Some a \<Longrightarrow> dget (hd_assignments db) j = Some b \<Longrightarrow>
        as_handoff_id a = as_handoff_id b \<or> as_offer_id a = as_offer_id b \<or> as_driver_id a = as_driver_id b \<Longrightarrow> i = j"
  shows "assignments_ok db"
  using assms unfolding assignments_ok_def by blast

section \<open>Every effect keeps the invariant\<close>

lemma events_ok_logs:
  assumes "events_ok db" and l: "logs db db' k w c" and h: "dget (hd_handoffs db') k = Some h"
    and "w \<le> hf_version h" and "c \<longrightarrow> w < hf_version h"
    and old: "\<And>l g. dget (hd_handoffs db) l = Some g \<Longrightarrow> \<exists>g'. dget (hd_handoffs db') l = Some g' \<and> hf_version g \<le> hf_version g'"
  shows "events_ok db'"
  unfolding events_ok_def
proof
  fix e
  assume "e \<in> set (hd_events db')"
  then consider "e \<in> set (hd_events db)"
    | "hv_handoff_id e = k" "hv_aggregate_version e \<le> w" "hv_event_type e \<in> closing_types \<longrightarrow> c"
    using l unfolding logs_def by blast
  then show "\<exists>h. dget (hd_handoffs db') (hv_handoff_id e) = Some h \<and> hv_aggregate_version e \<le> hf_version h \<and>
      (hv_event_type e \<in> closing_types \<longrightarrow> hv_aggregate_version e < hf_version h)"
  proof cases
    case 1
    then obtain g where "dget (hd_handoffs db) (hv_handoff_id e) = Some g" "hv_aggregate_version e \<le> hf_version g"
        "hv_event_type e \<in> closing_types \<longrightarrow> hv_aggregate_version e < hf_version g"
      using assms(1) unfolding events_ok_def by blast
    then show ?thesis using old by fastforce
  next
    case 2
    then show ?thesis using h assms(4,5) by auto
  qed
qed

text \<open>A step that writes one handoff and leaves the offers and assignments of other handoffs alone.\<close>

lemma handoff_inv_change:
  assumes inv: "handoff_inv db" and H: "hd_handoffs db' = dset k h' (hd_handoffs db)"
    and h': "hf_handoff_id h' = k" "valid_handoff h' = Inr h'"
    and rr: "\<And>l g. dget (hd_handoffs db) l = Some g \<Longrightarrow> hf_ride_request_id g = hf_ride_request_id h' \<Longrightarrow> l = k"
    and st: "hf_state h' = HD_OFFERING \<longleftrightarrow> (\<exists>f. open_offer db' k f)"
      "hf_state h' = HD_ASSIGNED \<longleftrightarrow> hf_assigned_driver_id h' \<noteq> None"
      "hf_state h' = HD_ASSIGNED \<longleftrightarrow> (\<exists>i a. dget (hd_assignments db') i = Some a \<and> as_handoff_id a = k)"
    and open_same: "\<And>l f. l \<noteq> k \<Longrightarrow> open_offer db' l f \<longleftrightarrow> open_offer db l f"
    and assign_same: "\<And>i a. as_handoff_id a \<noteq> k \<Longrightarrow> dget (hd_assignments db') i = Some a \<longleftrightarrow> dget (hd_assignments db) i = Some a"
    and F: "dict_ok (hd_offers db')" "\<And>i f. dget (hd_offers db') i = Some f \<Longrightarrow> ho_offer_id f = i" "offers_ok db'"
    and A: "dict_ok (hd_assignments db')" "assignments_ok db'"
    and l: "logs db db' k w c" "w \<le> hf_version h'" "c \<longrightarrow> w < hf_version h'"
      "\<And>h. dget (hd_handoffs db) k = Some h \<Longrightarrow> hf_version h \<le> hf_version h'"
  shows "handoff_inv db'"
proof -
  have get: "dget (hd_handoffs db') l = (if l = k then Some h' else dget (hd_handoffs db) l)" for l by (simp add: H)
  have ids: "handoff_ids_ok db'"
    using handoff_invD(1) [OF inv] F(2) h'(1) unfolding handoff_ids_ok_def get H by auto
  have each: "valid_handoff g = Inr g \<and> (hf_state g = HD_OFFERING \<longleftrightarrow> (\<exists>f. open_offer db' l f)) \<and>
        (hf_state g = HD_ASSIGNED \<longleftrightarrow> hf_assigned_driver_id g \<noteq> None) \<and>
        (hf_state g = HD_ASSIGNED \<longleftrightarrow> (\<exists>i a. dget (hd_assignments db') i = Some a \<and> as_handoff_id a = l))"
    if g: "dget (hd_handoffs db') l = Some g" for l g
  proof (cases "l = k")
    case True
    then show ?thesis using g h'(2) st by (simp add: get)
  next
    case False
    then have old: "dget (hd_handoffs db) l = Some g" using g by (simp add: get)
    have same: "(\<exists>i a. dget (hd_assignments db') i = Some a \<and> as_handoff_id a = l) \<longleftrightarrow>
        (\<exists>i a. dget (hd_assignments db) i = Some a \<and> as_handoff_id a = l)"
      using assign_same False by metis
    note row = handoffs_okD [OF handoff_invD(4) [OF inv] old]
    show ?thesis unfolding same open_same [OF False] by (intro conjI row)
  qed
  have inj: "l = m" if "dget (hd_handoffs db') l = Some g" "dget (hd_handoffs db') m = Some g'"
      "hf_ride_request_id g = hf_ride_request_id g'" for l g m g'
    using that rr handoff_invD(4) [OF inv] unfolding handoffs_ok_def get by (metis option.inject)
  have hs: "handoffs_ok db'" unfolding handoffs_ok_def using each inj by blast
  have ev: "events_ok db'"
    by (rule events_ok_logs [OF handoff_invD(7) [OF inv] l(1) _ l(2,3)]) (use l(4) in \<open>auto simp: get\<close>)
  show ?thesis unfolding handoff_inv_def using ids F(1,3) A hs ev by blast
qed

lemma valid_handoff_moved:
  "valid_handoff h = Inr h \<Longrightarrow> valid_handoff (h\<lparr>hf_state := s, hf_version := hf_version h + 1\<rparr>) =
     Inr (h\<lparr>hf_state := s, hf_version := hf_version h + 1\<rparr>)"
  "valid_handoff h = Inr h \<Longrightarrow> valid_handoff (h\<lparr>hf_state := s, hf_assigned_driver_id := d, hf_version := hf_version h + 1\<rparr>) =
     Inr (h\<lparr>hf_state := s, hf_assigned_driver_id := d, hf_version := hf_version h + 1\<rparr>)"
  by (auto simp: valid_handoff_def lineage_complete_def Let_def split: if_splits)

lemma valid_offer_moved:
  "valid_handoff_offer f = Inr f \<Longrightarrow> valid_handoff_offer (f\<lparr>ho_state := s, ho_version := ho_version f + 1, ho_resolved_at := r\<rparr>) =
     Inr (f\<lparr>ho_state := s, ho_version := ho_version f + 1, ho_resolved_at := r\<rparr>)"
  "valid_handoff_offer f = Inr f \<Longrightarrow> valid_handoff_offer (f\<lparr>ho_state := s, ho_resolved_at := r, ho_version := ho_version f + 1\<rparr>) =
     Inr (f\<lparr>ho_state := s, ho_resolved_at := r, ho_version := ho_version f + 1\<rparr>)"
  by (auto simp: valid_handoff_offer_def split: if_splits)

lemma kept_inv:
  assumes inv: "handoff_inv db" and t: "handoff_tables db' = handoff_tables db"
    and ev: "hd_events db' = hd_events db \<or> (\<exists>h. dget (hd_handoffs db) k = Some h \<and> logs db db' k (hf_version h) False)"
  shows "handoff_inv db'"
proof -
  have s: "hd_handoffs db' = hd_handoffs db" "hd_offers db' = hd_offers db" "hd_assignments db' = hd_assignments db"
    using t by (simp_all add: handoff_tables_same)
  have "events_ok db'"
  proof (cases "hd_events db' = hd_events db")
    case True
    then show ?thesis using handoff_invD(7) [OF inv] by (simp add: events_ok_def s)
  next
    case False
    then obtain h where "dget (hd_handoffs db) k = Some h" "logs db db' k (hf_version h) False" using ev by blast
    then show ?thesis by (intro events_ok_logs [OF handoff_invD(7) [OF inv], of db' k "hf_version h" False h]) (auto simp: s)
  qed
  moreover have "handoff_ids_ok db'" using handoff_invD(1) [OF inv] by (simp add: handoff_ids_ok_def s)
  moreover have opens: "open_offer db' = open_offer db" by (intro ext) (simp add: open_offer_def s)
  moreover have "handoffs_ok db'" using handoff_invD(4) [OF inv] unfolding handoffs_ok_def opens s .
  moreover have "offers_ok db'" using handoff_invD(5) [OF inv] unfolding offers_ok_def opens s .
  moreover have "assignments_ok db'" using handoff_invD(6) [OF inv] by (simp add: assignments_ok_def assignment_backed_def s)
  ultimately show ?thesis using handoff_invD(2,3) [OF inv] by (simp add: handoff_inv_def s)
qed

lemma received_inv:
  assumes inv: "handoff_inv db" and new: "dget (hd_handoffs db) (hf_handoff_id h) = None"
      "\<not> list_ex (\<lambda>x. hf_ride_request_id x = hf_ride_request_id h) (dvalues (hd_handoffs db))"
    and h: "valid_handoff h = Inr h" "hf_state h = HD_SEARCHING" "hf_version h = 1" "hf_assigned_driver_id h = None"
    and t: "handoff_tables db' = (dset (hf_handoff_id h) h (hd_handoffs db), hd_offers db, hd_assignments db)"
    and l: "logs db db' (hf_handoff_id h) 1 False"
  shows "handoff_inv db'"
proof -
  have s: "hd_handoffs db' = dset (hf_handoff_id h) h (hd_handoffs db)" "hd_offers db' = hd_offers db" "hd_assignments db' = hd_assignments db"
    using t by (simp_all add: handoff_tables_eq)
  note F = handoff_invD(5) [OF inv] and A = handoff_invD(6) [OF inv]
  have no_offer: "ho_handoff_id f \<noteq> hf_handoff_id h" if "dget (hd_offers db) i = Some f" for i f
    using offers_okD(1) [OF F that] new(1) by metis
  have no_assignment: "as_handoff_id a \<noteq> hf_handoff_id h" if "dget (hd_assignments db) i = Some a" for i a
    using assignments_okD(2) [OF A that] new(1) unfolding assignment_backed_def by auto
  have opens: "open_offer db' l f \<longleftrightarrow> open_offer db l f" for l f by (simp add: open_offer_def s)
  show ?thesis
  proof (rule handoff_inv_change [OF inv s(1) refl h(1)])
    show "l = hf_handoff_id h" if "dget (hd_handoffs db) l = Some g" "hf_ride_request_id g = hf_ride_request_id h" for l g
      using that(2) new(2) dget_in_dvalues [OF that(1)] by (auto simp: list_ex_iff)
    show "hf_state h = HD_OFFERING \<longleftrightarrow> (\<exists>f. open_offer db' (hf_handoff_id h) f)"
      unfolding opens using h(2) no_offer by (auto simp: open_offer_def)
    show "hf_state h = HD_ASSIGNED \<longleftrightarrow> hf_assigned_driver_id h \<noteq> None" using h by simp
    show "hf_state h = HD_ASSIGNED \<longleftrightarrow> (\<exists>i a. dget (hd_assignments db') i = Some a \<and> as_handoff_id a = hf_handoff_id h)"
      unfolding s using h(2) no_assignment by auto
    show "offers_ok db'"
    proof (rule offers_okI; unfold s opens)
      show "dget (dset (hf_handoff_id h) h (hd_handoffs db)) (ho_handoff_id f) \<noteq> None" if "dget (hd_offers db) i = Some f" for i f
        using offers_okD(1) [OF F that] by simp
    qed (use offers_okD(2-) [OF F] in blast)+
    show "assignments_ok db'"
    proof (rule assignments_okI)
      show "assignment_backed db' a" if "dget (hd_assignments db') i = Some a" for i a
        using assignments_okD(2) [OF A] no_assignment that unfolding assignment_backed_def s by simp
    qed (unfold s, (use assignments_okD(1,3) [OF A] in blast)+)
    show "ho_offer_id f = i" if "dget (hd_offers db') i = Some f" for i f
      using that handoff_invD(1) [OF inv] by (simp add: s handoff_ids_ok_def)
    show "dict_ok (hd_offers db')" "dict_ok (hd_assignments db')" using handoff_invD [OF inv] by (simp_all add: s)
    show "logs db db' (hf_handoff_id h) 1 False" by (rule l)
    show "hf_version g \<le> hf_version h" if "dget (hd_handoffs db) (hf_handoff_id h) = Some g" for g using that new(1) by simp
  qed (simp_all add: h opens s)
qed

lemma offered_inv:
  assumes inv: "handoff_inv db" and h: "dget (hd_handoffs db) k = Some h" "hf_state h = HD_SEARCHING"
    and f: "\<not> list_ex (offer_blocked f) (dvalues (hd_offers db))" "ho_handoff_id f = k" "ho_state f = HO_CREATED"
      "valid_handoff_offer f = Inr f"
    and t: "handoff_tables db' = (dset k (h\<lparr>hf_state := HD_OFFERING, hf_version := hf_version h + 1\<rparr>) (hd_handoffs db),
      dset (ho_offer_id f) f (hd_offers db), hd_assignments db)"
    and l: "logs db db' k (hf_version h + 1) False"
  shows "handoff_inv db'"
proof -
  let ?h = "h\<lparr>hf_state := HD_OFFERING, hf_version := hf_version h + 1\<rparr>"
  have s: "hd_handoffs db' = dset k ?h (hd_handoffs db)" "hd_offers db' = dset (ho_offer_id f) f (hd_offers db)"
    "hd_assignments db' = hd_assignments db"
    using t by (simp_all add: handoff_tables_eq)
  note H = handoff_invD(4) [OF inv] and F = handoff_invD(5) [OF inv] and A = handoff_invD(6) [OF inv]
  note row = handoffs_okD [OF H h(1)]
  have id: "hf_handoff_id h = k" using handoff_invD(1) [OF inv] h(1) by (simp add: handoff_ids_ok_def)
  have free: "ho_offer_id g \<noteq> ho_offer_id f" "ho_state g = HO_CREATED \<Longrightarrow> ho_handoff_id g \<noteq> k \<and> ho_driver_id g \<noteq> ho_driver_id f"
    if "dget (hd_offers db) i = Some g" for i g
    using f(1-3) dget_in_dvalues [OF that] by (auto simp: list_ex_iff offer_blocked_def)
  have new: "dget (hd_offers db) (ho_offer_id f) = None"
    using free(1) handoff_invD(1) [OF inv] unfolding handoff_ids_ok_def by (metis not_None_eq)
  have opens: "open_offer db' l g \<longleftrightarrow> open_offer db l g \<or> l = k \<and> g = f" for l g
    using f(2,3) new unfolding open_offer_def s by auto
  have no_assignment: "as_handoff_id a \<noteq> k" if "dget (hd_assignments db) i = Some a" for i a
    using row(4) h(2) that by auto
  show ?thesis
  proof (rule handoff_inv_change [OF inv s(1)])
    show "hf_handoff_id ?h = k" using id by simp
    show "valid_handoff ?h = Inr ?h" by (rule valid_handoff_moved(1) [OF row(1)])
    show "l = k" if "dget (hd_handoffs db) l = Some g" "hf_ride_request_id g = hf_ride_request_id ?h" for l g
      using row(5) [OF that(1)] that(2) by simp
    show "hf_state ?h = HD_OFFERING \<longleftrightarrow> (\<exists>f. open_offer db' k f)" unfolding opens by auto
    show "hf_state ?h = HD_ASSIGNED \<longleftrightarrow> hf_assigned_driver_id ?h \<noteq> None" using row(3) h(2) by simp
    show "hf_state ?h = HD_ASSIGNED \<longleftrightarrow> (\<exists>i a. dget (hd_assignments db') i = Some a \<and> as_handoff_id a = k)"
      unfolding s using row(4) h(2) by simp
    show "offers_ok db'"
    proof (rule offers_okI; unfold s opens)
      show "dget (dset k ?h (hd_handoffs db)) (ho_handoff_id g) \<noteq> None" "valid_handoff_offer g = Inr g"
        if "dget (dset (ho_offer_id f) f (hd_offers db)) i = Some g" for i g
        using dget_dset_cases [OF that] offers_okD(1,2) [OF F] f(2,4) by auto
      show "\<exists>j a. dget (hd_assignments db) j = Some a \<and> as_offer_id a = i"
        if "dget (dset (ho_offer_id f) f (hd_offers db)) i = Some g" "ho_state g = HO_ACCEPTED" for i g
        using dget_dset_cases [OF that(1)] offers_okD(3) [OF F] that(2) f(3) by auto
      show "g = g'" if "open_offer db l g \<or> l = k \<and> g = f" "open_offer db m g' \<or> m = k \<and> g' = f"
        "l = m \<or> ho_driver_id g = ho_driver_id g'" for l g m g'
        using that offers_okD(4) [OF F, of l g m g'] free(2) [of _ g] free(2) [of _ g'] unfolding open_offer_def by metis
    qed
    show "assignments_ok db'"
    proof (rule assignments_okI)
      show "assignment_backed db' a" if "dget (hd_assignments db') i = Some a" for i a
      proof -
        have a: "dget (hd_assignments db) i = Some a" using that by (simp add: s)
        then have "assignment_backed db a" and "as_handoff_id a \<noteq> k" using assignments_okD(2) [OF A] no_assignment by blast+
        moreover have "as_offer_id a \<noteq> ho_offer_id f" using calculation(1) new unfolding assignment_backed_def by auto
        ultimately show ?thesis unfolding assignment_backed_def s by simp
      qed
    qed (unfold s, (use assignments_okD(1,3) [OF A] in blast)+)
    show "ho_offer_id g = i" if "dget (hd_offers db') i = Some g" for i g
      using dget_dset_cases [OF that [unfolded s(2)]] handoff_invD(1) [OF inv] by (auto simp: handoff_ids_ok_def)
    show "dict_ok (hd_offers db')" "dict_ok (hd_assignments db')" using handoff_invD [OF inv] by (simp_all add: s)
    show "logs db db' k (hf_version h + 1) False" by (rule l)
  qed (use h in \<open>simp_all add: opens s\<close>)
qed

lemma opens_settled:
  assumes "open_offer db k f" and "hd_offers db' = dset (ho_offer_id f) f' (hd_offers db)" and "ho_state f' \<noteq> HO_CREATED"
  shows "open_offer db' l g \<longleftrightarrow> open_offer db l g \<and> g \<noteq> f"
  using assms unfolding open_offer_def by (cases "ho_offer_id g = ho_offer_id f") auto

lemma offer_alone:
  assumes "handoff_inv db" and "open_offer db k f"
  shows "open_offer db k g \<longleftrightarrow> g = f" and "dget (hd_offers db) (ho_offer_id f) = Some f" and "ho_handoff_id f = k"
    and "ho_state f = HO_CREATED" and "valid_handoff_offer f = Inr f"
proof -
  note F = handoff_invD(5) [OF assms(1)]
  show "open_offer db k g \<longleftrightarrow> g = f" using offers_okD(4) [OF F _ assms(2)] assms(2) by blast
  show "dget (hd_offers db) (ho_offer_id f) = Some f" "ho_handoff_id f = k" "ho_state f = HO_CREATED"
    using assms(2) by (simp_all add: open_offer_def)
  show "valid_handoff_offer f = Inr f" using offers_okD(2) [OF F] assms(2) unfolding open_offer_def by blast
qed

lemma returned_inv:
  assumes inv: "handoff_inv db" and h: "dget (hd_handoffs db) k = Some h" "hf_state h = HD_OFFERING" and f: "open_offer db k f"
    and u: "u \<in> {HO_REJECTED, HO_EXPIRED, HO_SUPERSEDED}"
    and f': "f' = f\<lparr>ho_state := u, ho_version := ho_version f + 1, ho_resolved_at := r\<rparr>"
    and t: "handoff_tables db' = (dset k (h\<lparr>hf_state := HD_SEARCHING, hf_version := hf_version h + 1\<rparr>) (hd_handoffs db),
      dset (ho_offer_id f) f' (hd_offers db), hd_assignments db)"
    and l: "logs db db' k (hf_version h) True"
  shows "handoff_inv db'"
proof -
  let ?h = "h\<lparr>hf_state := HD_SEARCHING, hf_version := hf_version h + 1\<rparr>"
  have s: "hd_handoffs db' = dset k ?h (hd_handoffs db)" "hd_offers db' = dset (ho_offer_id f) f' (hd_offers db)"
    "hd_assignments db' = hd_assignments db"
    using t by (simp_all add: handoff_tables_eq)
  note F = handoff_invD(5) [OF inv] and A = handoff_invD(6) [OF inv]
  note row = handoffs_okD [OF handoff_invD(4) [OF inv] h(1)] and alone = offer_alone [OF inv f]
  have id: "hf_handoff_id h = k" using handoff_invD(1) [OF inv] h(1) by (simp add: handoff_ids_ok_def)
  have new: "ho_state f' \<noteq> HO_CREATED" "ho_state f' \<noteq> HO_ACCEPTED" "ho_offer_id f' = ho_offer_id f" "ho_handoff_id f' = k"
    "valid_handoff_offer f' = Inr f'"
    using u alone(3) valid_offer_moved(1) [OF alone(5)] by (auto simp: f')
  note opens = opens_settled [OF f s(2) new(1)]
  show ?thesis
  proof (rule handoff_inv_change [OF inv s(1)])
    show "hf_handoff_id ?h = k" using id by simp
    show "valid_handoff ?h = Inr ?h" by (rule valid_handoff_moved(1) [OF row(1)])
    show "m = k" if "dget (hd_handoffs db) m = Some g" "hf_ride_request_id g = hf_ride_request_id ?h" for m g
      using row(5) [OF that(1)] that(2) by simp
    show "hf_state ?h = HD_OFFERING \<longleftrightarrow> (\<exists>f. open_offer db' k f)" unfolding opens alone(1) by auto
    show "hf_state ?h = HD_ASSIGNED \<longleftrightarrow> hf_assigned_driver_id ?h \<noteq> None" using row(3) h(2) by simp
    show "hf_state ?h = HD_ASSIGNED \<longleftrightarrow> (\<exists>i a. dget (hd_assignments db') i = Some a \<and> as_handoff_id a = k)"
      unfolding s using row(4) h(2) by simp
    show "offers_ok db'"
    proof (rule offers_okI; (unfold opens)?; (unfold s)?)
      show "dget (dset k ?h (hd_handoffs db)) (ho_handoff_id g) \<noteq> None" "valid_handoff_offer g = Inr g"
        if "dget (dset (ho_offer_id f) f' (hd_offers db)) i = Some g" for i g
        using dget_dset_cases [OF that] offers_okD(1,2) [OF F] new by auto
      show "\<exists>j a. dget (hd_assignments db) j = Some a \<and> as_offer_id a = i"
        if "dget (dset (ho_offer_id f) f' (hd_offers db)) i = Some g" "ho_state g = HO_ACCEPTED" for i g
        using dget_dset_cases [OF that(1)] offers_okD(3) [OF F] that(2) new(2) by auto
    qed (use offers_okD(4) [OF F] in blast)
    show "assignments_ok db'"
    proof (rule assignments_okI)
      show "assignment_backed db' a" if "dget (hd_assignments db') i = Some a" for i a
      proof -
        have "assignment_backed db a" and "as_handoff_id a \<noteq> k"
          using assignments_okD(2) [OF A] row(4) h(2) that by (auto simp: s)
        then show ?thesis using alone(2,4) unfolding assignment_backed_def s by auto
      qed
    qed (unfold s, (use assignments_okD(1,3) [OF A] in blast)+)
    show "ho_offer_id g = i" if "dget (hd_offers db') i = Some g" for i g
      using dget_dset_cases [OF that [unfolded s(2)]] handoff_invD(1) [OF inv] new(3) by (auto simp: handoff_ids_ok_def)
    show "dict_ok (hd_offers db')" "dict_ok (hd_assignments db')" using handoff_invD [OF inv] by (simp_all add: s)
    show "logs db db' k (hf_version h) True" by (rule l)
    show "open_offer db' m g \<longleftrightarrow> open_offer db m g" if "m \<noteq> k" for m g
      unfolding opens using that alone(3) by (auto simp: open_offer_def)
  qed (use h in \<open>simp_all add: s\<close>)
qed

lemma assigned_inv:
  assumes inv: "handoff_inv db" and h: "dget (hd_handoffs db) k = Some h" "hf_state h = HD_OFFERING" and f: "open_offer db k f"
    and f': "f' = f\<lparr>ho_state := HO_ACCEPTED, ho_version := ho_version f + 1, ho_resolved_at := r\<rparr>"
    and a: "\<not> list_ex (assignment_blocked i a) (hd_assignments db)" "as_handoff_id a = k" "as_offer_id a = ho_offer_id f"
      "as_driver_id a = ho_driver_id f" "as_vehicle_id a = ho_vehicle_id f" "as_released_at a = None"
      "as_assigned_at a < ho_expires_at f"
    and t: "handoff_tables db' = (dset k (h\<lparr>hf_state := HD_ASSIGNED, hf_assigned_driver_id := Some (ho_driver_id f),
        hf_version := hf_version h + 1\<rparr>) (hd_handoffs db),
      dset (ho_offer_id f) f' (hd_offers db), dset i a (hd_assignments db))"
    and l: "logs db db' k (hf_version h + 1) False"
  shows "handoff_inv db'"
proof -
  let ?h = "h\<lparr>hf_state := HD_ASSIGNED, hf_assigned_driver_id := Some (ho_driver_id f), hf_version := hf_version h + 1\<rparr>"
  have s: "hd_handoffs db' = dset k ?h (hd_handoffs db)" "hd_offers db' = dset (ho_offer_id f) f' (hd_offers db)"
    "hd_assignments db' = dset i a (hd_assignments db)"
    using t by (simp_all add: handoff_tables_eq)
  note F = handoff_invD(5) [OF inv] and A = handoff_invD(6) [OF inv]
  note row = handoffs_okD [OF handoff_invD(4) [OF inv] h(1)] and alone = offer_alone [OF inv f]
  have id: "hf_handoff_id h = k" using handoff_invD(1) [OF inv] h(1) by (simp add: handoff_ids_ok_def)
  have new: "ho_state f' = HO_ACCEPTED" "ho_offer_id f' = ho_offer_id f" "ho_handoff_id f' = k" "valid_handoff_offer f' = Inr f'"
    "ho_driver_id f' = ho_driver_id f" "ho_vehicle_id f' = ho_vehicle_id f" "ho_expires_at f' = ho_expires_at f"
    using alone(3) valid_offer_moved(1) [OF alone(5)] by (auto simp: f')
  have opens: "open_offer db' m g \<longleftrightarrow> open_offer db m g \<and> g \<noteq> f" for m g
    by (rule opens_settled [OF f s(2)]) (simp add: new(1))
  have free: "j \<noteq> i" "as_handoff_id b \<noteq> k" "as_offer_id b \<noteq> ho_offer_id f" "as_driver_id b \<noteq> ho_driver_id f"
    if "dget (hd_assignments db) j = Some b" for j b
    using a(1-4,6) map_of_SomeD [OF that] assignments_okD(1) [OF A that] by (auto simp: list_ex_iff assignment_blocked_def)
  show ?thesis
  proof (rule handoff_inv_change [OF inv s(1)])
    show "hf_handoff_id ?h = k" using id by simp
    show "valid_handoff ?h = Inr ?h" by (rule valid_handoff_moved(2) [OF row(1)])
    show "m = k" if "dget (hd_handoffs db) m = Some g" "hf_ride_request_id g = hf_ride_request_id ?h" for m g
      using row(5) [OF that(1)] that(2) by simp
    show "hf_state ?h = HD_OFFERING \<longleftrightarrow> (\<exists>f. open_offer db' k f)" unfolding opens alone(1) by auto
    show "hf_state ?h = HD_ASSIGNED \<longleftrightarrow> (\<exists>i a. dget (hd_assignments db') i = Some a \<and> as_handoff_id a = k)"
      unfolding s using a(2) by auto
    show "offers_ok db'"
    proof (rule offers_okI; (unfold opens)?)
      show "dget (hd_handoffs db') (ho_handoff_id g) \<noteq> None" "valid_handoff_offer g = Inr g"
        "ho_state g = HO_ACCEPTED \<Longrightarrow> \<exists>j b. dget (hd_assignments db') j = Some b \<and> as_offer_id b = m"
        if "dget (hd_offers db') m = Some g" for m g
      proof -
        note old = dget_dset_cases [OF that [unfolded s(2)]]
        show "dget (hd_handoffs db') (ho_handoff_id g) \<noteq> None" "valid_handoff_offer g = Inr g"
          using old offers_okD(1,2) [OF F] new(3,4) by (auto simp: s)
        assume "ho_state g = HO_ACCEPTED"
        then consider "m = ho_offer_id f" | j b where "dget (hd_assignments db) j = Some b" "as_offer_id b = m"
          using old offers_okD(3) [OF F] by blast
        then show "\<exists>j b. dget (hd_assignments db') j = Some b \<and> as_offer_id b = m"
          unfolding s using a(3) free(1) by cases (metis dget_dset)+
      qed
    qed (use offers_okD(4) [OF F] in blast)
    show "assignments_ok db'"
    proof (rule assignments_okI)
      show "as_released_at b = None" if "dget (hd_assignments db') j = Some b" for j b
        using dget_dset_cases [OF that [unfolded s(3)]] a(6) assignments_okD(1) [OF A] by blast
      show "assignment_backed db' b" if "dget (hd_assignments db') j = Some b" for j b
        using dget_dset_cases [OF that [unfolded s(3)]]
      proof
        assume "j = i \<and> b = a"
        then show ?thesis using a new by (auto simp: assignment_backed_def s)
      next
        assume old: "dget (hd_assignments db) j = Some b"
        show ?thesis using assignments_okD(2) [OF A old] free [OF old] unfolding assignment_backed_def s by simp
      qed
      show "j = m" if "dget (hd_assignments db') j = Some b" "dget (hd_assignments db') m = Some c"
        "as_handoff_id b = as_handoff_id c \<or> as_offer_id b = as_offer_id c \<or> as_driver_id b = as_driver_id c" for j b m c
        using dget_dset_cases [OF that(1) [unfolded s(3)]] dget_dset_cases [OF that(2) [unfolded s(3)]] that(3)
          assignments_okD(3) [OF A, of j b m c] free(2-) [of j b] free(2-) [of m c] a(2-4) by metis
    qed
    show "ho_offer_id g = m" if "dget (hd_offers db') m = Some g" for m g
      using dget_dset_cases [OF that [unfolded s(2)]] handoff_invD(1) [OF inv] new(2) by (auto simp: handoff_ids_ok_def)
    show "dict_ok (hd_offers db')" "dict_ok (hd_assignments db')" using handoff_invD [OF inv] by (simp_all add: s)
    show "logs db db' k (hf_version h + 1) False" by (rule l)
    show "open_offer db' m g \<longleftrightarrow> open_offer db m g" if "m \<noteq> k" for m g
      unfolding opens using that alone(3) by (auto simp: open_offer_def)
    show "dget (hd_assignments db') j = Some b \<longleftrightarrow> dget (hd_assignments db) j = Some b" if "as_handoff_id b \<noteq> k" for j b
      unfolding s using that a(2) free(1) by (metis dget_dset option.inject)
  qed (use h in simp_all)
qed

lemma opens_closed:
  assumes "handoff_ids_ok db" and "hd_offers db' = closed_offers k c at (hd_offers db)" and "c \<noteq> HO_CREATED"
  shows "open_offer db' l g \<longleftrightarrow> open_offer db l g \<and> l \<noteq> k"
proof -
  have "dget (hd_offers db') i = map_option (\<lambda>f. if ho_handoff_id f = k \<and> ho_state f = HO_CREATED
     then f\<lparr>ho_state := c, ho_resolved_at := Some at, ho_version := ho_version f + 1\<rparr> else f) (dget (hd_offers db) i)" for i
    unfolding assms(2) closed_offers_def by (rule map_of_map_prod)
  note get = this
  show ?thesis
  proof
    assume new: "open_offer db' l g"
    then obtain f where f: "dget (hd_offers db) (ho_offer_id g) = Some f"
      and g: "g = (if ho_handoff_id f = k \<and> ho_state f = HO_CREATED
        then f\<lparr>ho_state := c, ho_resolved_at := Some at, ho_version := ho_version f + 1\<rparr> else f)"
      unfolding open_offer_def get by auto
    have "\<not> (ho_handoff_id f = k \<and> ho_state f = HO_CREATED)"
    proof
      assume "ho_handoff_id f = k \<and> ho_state f = HO_CREATED"
      then have "ho_state g = c" unfolding g by simp
      then show False using new assms(3) by (simp add: open_offer_def)
    qed
    then show "open_offer db l g \<and> l \<noteq> k" using f g new unfolding open_offer_def by auto
  next
    assume "open_offer db l g \<and> l \<noteq> k"
    then show "open_offer db' l g" unfolding open_offer_def get by auto
  qed
qed

lemma closed_inv:
  assumes inv: "handoff_inv db" and h: "dget (hd_handoffs db) k = Some h" and u: "u \<in> {HD_CANCELLED, HD_NO_DRIVER}"
    and allowed: "allows HANDOFF_TRANSITIONS (hf_state h) u" and c: "c \<in> {HO_CANCELLED, HO_EXPIRED}"
    and t: "handoff_tables db' = (dset k (h\<lparr>hf_state := u, hf_version := hf_version h + 1\<rparr>) (hd_handoffs db),
      closed_offers k c at (hd_offers db), hd_assignments db)"
    and l: "logs db db' k (hf_version h) True"
  shows "handoff_inv db'"
proof -
  let ?h = "h\<lparr>hf_state := u, hf_version := hf_version h + 1\<rparr>"
  let ?close = "\<lambda>f. if ho_handoff_id f = k \<and> ho_state f = HO_CREATED
    then f\<lparr>ho_state := c, ho_resolved_at := Some at, ho_version := ho_version f + 1\<rparr> else f"
  have s: "hd_handoffs db' = dset k ?h (hd_handoffs db)" "hd_assignments db' = hd_assignments db"
    and o: "hd_offers db' = closed_offers k c at (hd_offers db)"
    using t by (simp_all add: handoff_tables_eq)
  have get: "dget (hd_offers db') i = map_option ?close (dget (hd_offers db) i)" for i
    unfolding o closed_offers_def by (rule map_of_map_prod)
  note F = handoff_invD(5) [OF inv] and A = handoff_invD(6) [OF inv] and ids = handoff_invD(1) [OF inv]
  note row = handoffs_okD [OF handoff_invD(4) [OF inv] h]
  have id: "hf_handoff_id h = k" using ids h by (simp add: handoff_ids_ok_def)
  have st: "hf_state h \<noteq> HD_ASSIGNED" "u \<noteq> HD_OFFERING" "u \<noteq> HD_ASSIGNED" using allowed u by (auto simp: allows_def)
  have "c \<noteq> HO_CREATED" using c by auto
  note opens = opens_closed [OF ids o this]
  have old: "\<exists>f. dget (hd_offers db) i = Some f \<and> g = ?close f" if "dget (hd_offers db') i = Some g" for i g
    using that unfolding get by auto
  have same: "ho_handoff_id (?close f) = ho_handoff_id f" "ho_offer_id (?close f) = ho_offer_id f" for f by simp_all
  show ?thesis
  proof (rule handoff_inv_change [OF inv s(1)])
    show "hf_handoff_id ?h = k" using id by simp
    show "valid_handoff ?h = Inr ?h" by (rule valid_handoff_moved(1) [OF row(1)])
    show "m = k" if "dget (hd_handoffs db) m = Some g" "hf_ride_request_id g = hf_ride_request_id ?h" for m g
      using row(5) [OF that(1)] that(2) by simp
    show "hf_state ?h = HD_OFFERING \<longleftrightarrow> (\<exists>f. open_offer db' k f)" unfolding opens using st by simp
    show "hf_state ?h = HD_ASSIGNED \<longleftrightarrow> hf_assigned_driver_id ?h \<noteq> None" using row(3) st by simp
    show "hf_state ?h = HD_ASSIGNED \<longleftrightarrow> (\<exists>i a. dget (hd_assignments db') i = Some a \<and> as_handoff_id a = k)"
      unfolding s using row(4) st by simp
    show "offers_ok db'"
    proof (rule offers_okI; (unfold opens)?)
      show "dget (hd_handoffs db') (ho_handoff_id g) \<noteq> None" if "dget (hd_offers db') i = Some g" for i g
        using old [OF that] offers_okD(1) [OF F] by (auto simp: s)
      show "valid_handoff_offer g = Inr g" if "dget (hd_offers db') i = Some g" for i g
        using old [OF that] offers_okD(2) [OF F] valid_offer_moved(2) by (auto split: if_splits)
      show "\<exists>j a. dget (hd_assignments db') j = Some a \<and> as_offer_id a = i"
        if "dget (hd_offers db') i = Some g" "ho_state g = HO_ACCEPTED" for i g
        using old [OF that(1)] that(2) c offers_okD(3) [OF F] by (auto simp: s split: if_splits)
    qed (use offers_okD(4) [OF F] in blast)
    show "assignments_ok db'"
    proof (rule assignments_okI)
      show "assignment_backed db' a" if "dget (hd_assignments db') i = Some a" for i a
      proof -
        have "assignment_backed db a" and "as_handoff_id a \<noteq> k"
          using assignments_okD(2) [OF A] row(4) st(1) that by (auto simp: s)
        then obtain f g where f: "dget (hd_offers db) (as_offer_id a) = Some f" "ho_state f = HO_ACCEPTED \<and>
           ho_handoff_id f = as_handoff_id a \<and> ho_driver_id f = as_driver_id a \<and> ho_vehicle_id f = as_vehicle_id a \<and>
           as_assigned_at a < ho_expires_at f"
          and g: "dget (hd_handoffs db) (as_handoff_id a) = Some g" "hf_assigned_driver_id g = Some (as_driver_id a)"
          and "as_handoff_id a \<noteq> k"
          unfolding assignment_backed_def by blast
        have "dget (hd_offers db') (as_offer_id a) = Some f" using f by (simp add: get)
        moreover have "dget (hd_handoffs db') (as_handoff_id a) = Some g" using g(1) \<open>as_handoff_id a \<noteq> k\<close> by (simp add: s)
        ultimately show ?thesis using f(2) g(2) unfolding assignment_backed_def by blast
      qed
    qed (unfold s, (use assignments_okD(1,3) [OF A] in blast)+)
    show "ho_offer_id g = i" if "dget (hd_offers db') i = Some g" for i g
      using old [OF that] ids by (auto simp: handoff_ids_ok_def)
    show "dict_ok (hd_offers db')" using handoff_invD(2) [OF inv]
      unfolding o closed_offers_def dict_ok_def by (simp add: map_prod_def comp_def case_prod_beta)
    show "dict_ok (hd_assignments db')" using handoff_invD(3) [OF inv] by (simp add: s)
    show "logs db db' k (hf_version h) True" by (rule l)
    show "open_offer db' m g \<longleftrightarrow> open_offer db m g" if "m \<noteq> k" for m g unfolding opens using that by simp
  qed (use h in \<open>simp_all add: s\<close>)
qed

lemma handoff_effect_inv:
  assumes "handoff_effect db db'" and inv: "handoff_inv db"
  shows "handoff_inv db'"
  using assms(1)
proof (cases rule: handoff_effect.cases)
  case (kept k)
  then show ?thesis by (rule kept_inv [OF inv])
next
  case (received h)
  then show ?thesis by (rule received_inv [OF inv])
next
  case (offered k h f)
  show ?thesis by (rule offered_inv [OF inv offered(1,2,4-)])
next
  case (returned k h f t f' r)
  then show ?thesis by (rule returned_inv [OF inv])
next
  case (assigned k h f f' r i a)
  then show ?thesis by (rule assigned_inv [OF inv])
next
  case (closed k h t c at)
  then show ?thesis by (rule closed_inv [OF inv])
qed

lemma handoff_effects_inv: "handoff_effect\<^sup>*\<^sup>* db db' \<Longrightarrow> handoff_inv db \<Longrightarrow> handoff_inv db'"
  by (induction rule: rtranclp_induct) (blast intro: handoff_effect_inv)+

section \<open>What effects cannot undo\<close>

lemma logs_grows: "logs a b k w c \<Longrightarrow> set (hd_events a) \<subseteq> set (hd_events b)"
  by (simp add: logs_def)

lemma effect_events: "handoff_effect db db' \<Longrightarrow> set (hd_events db) \<subseteq> set (hd_events db')"
  by (erule handoff_effect.cases) (auto dest: logs_grows)

lemma searched_stays: "handoff_effect db db' \<Longrightarrow> searched db k v \<Longrightarrow> searched db' k v"
  using effect_events unfolding searched_def by blast

lemma effect_row:
  assumes "handoff_effect db db'" and "dget (hd_handoffs db) k = Some h"
  shows "\<exists>h'. dget (hd_handoffs db') k = Some h' \<and>
    (h' = h \<or> allows HANDOFF_TRANSITIONS (hf_state h) (hf_state h') \<and> hf_version h' = hf_version h + 1) \<and>
    (hf_state h' = HD_OFFERING \<longrightarrow> hf_state h = HD_SEARCHING \<longrightarrow> \<not> searched db k (hf_version h))"
  using assms(1)
proof (cases rule: handoff_effect.cases)
  case (kept k)
  then show ?thesis using assms(2) by (simp add: handoff_tables_same)
qed (use assms(2) in \<open>auto simp: handoff_tables_eq allows_def\<close>)

text \<open>A handoff that cannot be offered again: its version was searched without a result, or it was closed.\<close>

definition given_up :: "handoff_db \<Rightarrow> uuid \<Rightarrow> bool" where
  "given_up db k \<longleftrightarrow> (case dget (hd_handoffs db) k of None \<Rightarrow> False
     | Some h \<Rightarrow> hf_state h = HD_SEARCHING \<and> searched db k (hf_version h) \<or> hf_state h \<in> {HD_CANCELLED, HD_NO_DRIVER})"

lemma given_up_stays:
  assumes e: "handoff_effect db db'" and "given_up db k"
  shows "given_up db' k"
proof -
  obtain h where h: "dget (hd_handoffs db) k = Some h"
    and g: "hf_state h = HD_SEARCHING \<and> searched db k (hf_version h) \<or> hf_state h \<in> {HD_CANCELLED, HD_NO_DRIVER}"
    using assms(2) unfolding given_up_def by (auto split: option.splits)
  obtain h' where h': "dget (hd_handoffs db') k = Some h'"
    and row: "h' = h \<or> allows HANDOFF_TRANSITIONS (hf_state h) (hf_state h') \<and> hf_version h' = hf_version h + 1"
    and no: "hf_state h' = HD_OFFERING \<longrightarrow> hf_state h = HD_SEARCHING \<longrightarrow> \<not> searched db k (hf_version h)"
    using effect_row [OF e h] by auto
  show ?thesis using g row no h' searched_stays [OF e] unfolding given_up_def
    by (cases "hf_state h"; cases "hf_state h'") (auto simp: allows_def)
qed

lemma assigned_row_stays:
  assumes "handoff_effect db db'" and "dget (hd_handoffs db) k = Some h" and "hf_state h = HD_ASSIGNED"
  shows "dget (hd_handoffs db') k = Some h"
  using effect_row [OF assms(1,2)] assms(3) by (auto simp: allows_def)

lemma assignment_stays:
  assumes "handoff_effect db db'" and a: "dget (hd_assignments db) i = Some a"
  shows "dget (hd_assignments db') i = Some a"
  using assms(1)
proof (cases rule: handoff_effect.cases)
  case (assigned k h f f' r j b)
  have "j \<noteq> i" using map_of_SomeD [OF a] assigned(5) by (auto simp: list_ex_iff assignment_blocked_def)
  then show ?thesis using a assigned(12) by (simp add: handoff_tables_eq)
qed (use a in \<open>simp_all add: handoff_tables_eq handoff_tables_same\<close>)

lemma effects_keep:
  assumes "handoff_effect\<^sup>*\<^sup>* db db'"
  shows "given_up db k \<Longrightarrow> given_up db' k"
    and "dget (hd_handoffs db) k = Some h \<Longrightarrow> hf_state h = HD_ASSIGNED \<Longrightarrow> dget (hd_handoffs db') k = Some h"
    and "dget (hd_assignments db) i = Some a \<Longrightarrow> dget (hd_assignments db') i = Some a"
  using assms by (induction rule: rtranclp_induct) (auto intro: given_up_stays assigned_row_stays assignment_stays)

end
