(* ===== verification/Handoff_Steps.thy ===== *)
theory Handoff_Steps
  imports Handoff_Reach
begin

text \<open>
  The transactions of dispatch handoffs as a step relation, the states they reach from empty tables, and the operations
  of the runtime as sequences of these steps.
\<close>

section \<open>Steps\<close>

inductive handoff_step :: "handoff_env \<Rightarrow> handoff_db \<Rightarrow> handoff_db \<Rightarrow> bool" for env where
  \<comment> \<open>the price of the first step was read by an earlier transaction\<close>
  receiving: "receive_priced env db p request key correlation causation at candidate audit = Inr (db', h) \<Longrightarrow>
    handoff_step env db db'"
| offering: "offer_next env db k observations at offer_id = Inr (db', r) \<Longrightarrow> handoff_step env db db'"
| responding: "handoff_respond env db offer_id driver accept expected key at assignment_id = Inr (db', a) \<Longrightarrow>
    handoff_step env db db'"
| cancelling: "cancel_before_assignment db request at = Inr (db', b) \<Longrightarrow> handoff_step env db db'"
| resolving: "resolve_open_offer db offer_id outcome at = Inr db' \<Longrightarrow> handoff_step env db db'"
| closing: "close_expired_handoffs db at limit = Inr (db', n) \<Longrightarrow> handoff_step env db db'"
| going_online: "start_ride_driver db s session vehicle zone at worker_id = Inr (db', w) \<Longrightarrow> handoff_step env db db'"
| going_offline: "stop_ride_driver db s session at = Inr (db', w) \<Longrightarrow> handoff_step env db db'"
| elsewhere: "db' = db\<lparr>hd_sources := sources\<rparr> \<Longrightarrow> handoff_step env db db'"
  \<comment> \<open>the other components change the rows that dispatch reads\<close>

inductive_cases handoff_stepE: "handoff_step env db db'"

definition handoff_start :: "handoff_db \<Rightarrow> bool" where
  "handoff_start db \<longleftrightarrow> hd_handoffs db = [] \<and> hd_offers db = [] \<and> hd_assignments db = [] \<and> hd_events db = [] \<and>
     hd_idempotency db = [] \<and> hd_worker_sessions db = []"

definition handoff_reachable :: "handoff_env \<Rightarrow> handoff_db \<Rightarrow> bool" where
  "handoff_reachable env db \<longleftrightarrow> (\<exists>db0. handoff_start db0 \<and> (handoff_step env)\<^sup>*\<^sup>* db0 db)"

section \<open>Worker sessions\<close>

definition workers_ok :: "handoff_db \<Rightarrow> bool" where
  "workers_ok db \<longleftrightarrow> dict_ok (hd_worker_sessions db) \<and>
     (\<forall>i w. dget (hd_worker_sessions db) i = Some w \<longrightarrow> wk_worker_session_id w = i) \<and>
     (\<forall>i v j w. dget (hd_worker_sessions db) i = Some v \<longrightarrow> dget (hd_worker_sessions db) j = Some w \<longrightarrow>
        wk_state v = WK_ONLINE \<longrightarrow> wk_state w = WK_ONLINE \<longrightarrow> wk_identity_id v = wk_identity_id w \<longrightarrow> i = j)"

lemma workers_okD:
  assumes "workers_ok db"
  shows "dict_ok (hd_worker_sessions db)"
    and "dget (hd_worker_sessions db) i = Some v \<Longrightarrow> wk_worker_session_id v = i"
    and "dget (hd_worker_sessions db) i = Some v \<Longrightarrow> dget (hd_worker_sessions db) j = Some w \<Longrightarrow>
      wk_state v = WK_ONLINE \<Longrightarrow> wk_state w = WK_ONLINE \<Longrightarrow> wk_identity_id v = wk_identity_id w \<Longrightarrow> i = j"
  using assms unfolding workers_ok_def by blast+

lemma workers_ok_same: "workers_ok db \<Longrightarrow> hd_worker_sessions db' = hd_worker_sessions db \<Longrightarrow> workers_ok db'"
  by (simp add: workers_ok_def)

lemma worker_update: "hd_worker_sessions (db\<lparr>hd_worker_sessions := d\<rparr>) = d"
  by simp

lemma active_worker_none:
  "get_active_worker db k = Inr None \<Longrightarrow> dget (hd_worker_sessions db) i = Some w \<Longrightarrow> wk_state w = WK_ONLINE \<Longrightarrow>
     wk_identity_id w \<noteq> k"
  using dget_in_dvalues [of "hd_worker_sessions db" i w]
  by (auto simp: get_active_worker_def one_or_none_ok filter_empty_conv)

lemma start_worker_ok:
  assumes "start_worker db w = Inr (db', w')" and "workers_ok db"
  shows "workers_ok db'" and "handoff_tables db' = handoff_tables db" and "hd_events db' = hd_events db"
    and "hd_idempotency db' = hd_idempotency db"
proof -
  obtain c where c: "get_active_worker db (wk_identity_id w) = Inr c" using assms(1) unfolding start_worker_def by (elim ok_elims)
  have all: "workers_ok db' \<and> handoff_tables db' = handoff_tables db \<and> hd_events db' = hd_events db \<and>
    hd_idempotency db' = hd_idempotency db"
  proof (cases c)
    case (Some x)
    then have "db' = db" using assms(1) c unfolding start_worker_def by (auto split: if_splits option.splits)
    then show ?thesis using assms(2) by simp
  next
    case None
    then have db': "db' = db\<lparr>hd_worker_sessions := dset (wk_worker_session_id w) w (hd_worker_sessions db)\<rparr>"
      and new: "dget (hd_worker_sessions db) (wk_worker_session_id w) = None"
      using assms(1) c unfolding start_worker_def by (auto split: if_splits option.splits)
    note alone = active_worker_none [OF c [unfolded None]]
    have "i = j" if "dget (hd_worker_sessions db') i = Some v" "dget (hd_worker_sessions db') j = Some u"
      "wk_state v = WK_ONLINE" "wk_state u = WK_ONLINE" "wk_identity_id v = wk_identity_id u" for i v j u
    proof -
      note stored = that
      have v: "i = wk_worker_session_id w \<and> v = w \<or> dget (hd_worker_sessions db) i = Some v"
        using dget_dset_cases [OF stored(1) [unfolded db' worker_update]] .
      have u: "j = wk_worker_session_id w \<and> u = w \<or> dget (hd_worker_sessions db) j = Some u"
        using dget_dset_cases [OF stored(2) [unfolded db' worker_update]] .
      consider "i = wk_worker_session_id w" "j = wk_worker_session_id w" | "v = w" "dget (hd_worker_sessions db) j = Some u"
        | "u = w" "dget (hd_worker_sessions db) i = Some v"
        | "dget (hd_worker_sessions db) i = Some v" "dget (hd_worker_sessions db) j = Some u"
        using v u by blast
      then show ?thesis
      proof cases
        case 2
        then show ?thesis using alone [OF 2(2) stored(4)] stored(5) by simp
      next
        case 3
        then show ?thesis using alone [OF 3(2) stored(3)] stored(5) by simp
      next
        case 4
        then show ?thesis by (rule workers_okD(3) [OF assms(2) _ _ stored(3-5)])
      qed simp
    qed
    moreover have "wk_worker_session_id v = i" if "dget (hd_worker_sessions db') i = Some v" for i v
      using dget_dset_cases [OF that [unfolded db' worker_update]] workers_okD(2) [OF assms(2)] by auto
    moreover have "dict_ok (hd_worker_sessions db')" using assms(2) unfolding workers_ok_def db' by simp
    ultimately have "workers_ok db'" unfolding workers_ok_def by blast
    then show ?thesis by (simp add: db' handoff_tables_def)
  qed
  then show "workers_ok db'" "handoff_tables db' = handoff_tables db" "hd_events db' = hd_events db"
    "hd_idempotency db' = hd_idempotency db" by blast+
qed

lemma stop_worker_ok:
  assumes "stop_worker db k cap at = Inr (db', w')" and "workers_ok db"
  shows "workers_ok db'" and "handoff_tables db' = handoff_tables db" and "hd_events db' = hd_events db"
    and "hd_idempotency db' = hd_idempotency db"
proof -
  obtain c where c: "get_active_worker db k = Inr (Some c)"
    and db': "db' = db\<lparr>hd_worker_sessions := dset (wk_worker_session_id c)
      (c\<lparr>wk_state := WK_OFFLINE, wk_stopped_at := Some at, wk_last_seen_at := at, wk_version := wk_version c + 1\<rparr>)
      (hd_worker_sessions db)\<rparr>"
    using assms(1) unfolding stop_worker_def Let_def by (elim ok_elims) auto
  have old: "dget (hd_worker_sessions db) i = Some v" if "dget (hd_worker_sessions db') i = Some v" "wk_state v = WK_ONLINE" for i v
    using dget_dset_cases [OF that(1) [unfolded db' worker_update]] that(2) by auto
  have "i = j" if "dget (hd_worker_sessions db') i = Some v" "dget (hd_worker_sessions db') j = Some u"
    "wk_state v = WK_ONLINE" "wk_state u = WK_ONLINE" "wk_identity_id v = wk_identity_id u" for i v j u
    using workers_okD(3) [OF assms(2) old [OF that(1,3)] old [OF that(2,4)]] that(3-) by blast
  moreover have "wk_worker_session_id v = i" if "dget (hd_worker_sessions db') i = Some v" for i v
    using dget_dset_cases [OF that [unfolded db' worker_update]] workers_okD(2) [OF assms(2)] by auto
  moreover have "dict_ok (hd_worker_sessions db')" using assms(2) unfolding workers_ok_def db' by simp
  ultimately show "workers_ok db'" unfolding workers_ok_def by blast
  show "handoff_tables db' = handoff_tables db" "hd_events db' = hd_events db" "hd_idempotency db' = hd_idempotency db"
    by (simp_all add: db' handoff_tables_def)
qed

section \<open>Every step is made of effects\<close>

text \<open>What the effects do not say: the idempotency rows of responses and the worker sessions.\<close>

lemma reserve_keeps_responses:
  assumes "reserve_handoff_key db a op key h ref at = Inr (db', c)" and "op \<noteq> ''offer_response''" and "response_keys_ok env db"
  shows "response_keys_ok env db'"
proof -
  obtain t where t: "reserve_row (ValueError ''Idempotency key reused with different request'') (hd_idempotency db)
      (a, op, key) h ref at = Inr (t, c)" and db': "db' = db\<lparr>hd_idempotency := t\<rparr>"
    using assms(1) unfolding reserve_handoff_key_def by (auto simp: bind_result_eq_Inr)
  have "dget t (b, ''offer_response'', k) = dget (hd_idempotency db) (b, ''offer_response'', k)" for b k
    by (rule reserve_row_ok(4) [OF t]) (use assms(2) in auto)
  then show ?thesis using assms(3) by (simp add: response_keys_ok_def db')
qed

lemma response_keys_same: "response_keys_ok env db \<Longrightarrow> hd_idempotency db' = hd_idempotency db \<Longrightarrow> response_keys_ok env db'"
  by (simp add: response_keys_ok_def)

definition rest where
  "rest db = (hd_idempotency db, hd_worker_sessions db)"

lemma rest_simps [simp]:
  "rest (store_handoff db h) = rest db" "rest (store_offer db f) = rest db" "rest (set_offer i s v at db) = rest db"
  "rest (close_offers k s at db) = rest db" "rest (db\<lparr>hd_assignments := a\<rparr>) = rest db"
  "rest (db\<lparr>hd_candidates := b\<rparr>) = rest db" "rest (db\<lparr>hd_sources := c\<rparr>) = rest db"
  by (simp_all add: rest_def)

lemma handoff_event_rest: "handoff_event db h ty at p = Inr db' \<Longrightarrow> rest db' = rest db"
  by (simp add: rest_def handoff_event_ok)

lemma create_handoff_rest: "create_handoff db h = Inr (db', r) \<Longrightarrow> rest db' = rest db"
  unfolding create_handoff_def by (auto simp: bind_result_eq_Inr split: option.splits if_splits dest!: handoff_event_rest)

lemma case_list_ok:
  assumes "(case xs of [] \<Rightarrow> a | y # ys \<Rightarrow> f y ys) = Inr r"
  obtains "xs = []" "a = Inr r" | y ys where "xs = y # ys" "f y ys = Inr r"
  using assms by (cases xs) auto

lemma offer_next_rest:
  assumes "offer_next env db k obs at i = Inr (db', r)"
  shows "rest db' = rest db"
proof -
  have create: "rest d' = rest d" if "create_handoff_offer d h f = Inr (d', f')" for d d' h f f'
    using that unfolding create_handoff_offer_def Let_def
    by (auto simp: bind_result_eq_Inr split: option.splits if_splits dest!: handoff_event_rest)
  have candidates: "rest d' = rest d" if "record_candidates d h ranked at = Inr d'" for d d' h ranked
    using handoff_event_rest [OF that [unfolded record_candidates_def]] by simp
  show ?thesis
    using assms unfolding offer_next_def
    by (elim ok_elims case_list_ok) (auto dest!: create candidates handoff_event_rest)
qed

lemma resolve_rest: "resolve_open_offer db i t at = Inr db' \<Longrightarrow> rest db' = rest db"
  unfolding resolve_open_offer_def by (auto split: option.splits if_splits dest!: handoff_event_rest)

lemma revoke_rest: "revoke_driver_offer db d at = Inr (db', b) \<Longrightarrow> rest db' = rest db"
  unfolding revoke_driver_offer_def by (auto simp: bind_result_eq_Inr split: option.splits dest!: resolve_rest)

lemma cancel_rest: "cancel_before_assignment db q at = Inr (db', b) \<Longrightarrow> rest db' = rest db"
  unfolding cancel_before_assignment_def
  by (auto simp: bind_result_eq_Inr split: option.splits if_splits dest!: handoff_event_rest)

lemma close_handoff_rest: "close_handoff at h db = Inr db' \<Longrightarrow> rest db' = rest db"
  unfolding close_handoff_def Let_def by (drule handoff_event_rest) (simp split: option.splits if_splits)

lemma close_handoffs_rest: "close_handoffs at hs db = Inr db' \<Longrightarrow> rest db' = rest db"
proof (induction hs arbitrary: db)
  case (Cons h hs)
  then obtain db1 where "close_handoff at h db = Inr db1" "close_handoffs at hs db1 = Inr db'" by (auto simp: bind_result_eq_Inr)
  then show ?case using close_handoff_rest Cons.IH by metis
qed simp

lemma close_expired_rest: "close_expired_handoffs db at n = Inr (db', m) \<Longrightarrow> rest db' = rest db"
  unfolding close_expired_handoffs_def Let_def by (auto simp: bind_result_eq_Inr dest!: close_handoffs_rest)

definition handoff_world :: "handoff_env \<Rightarrow> handoff_db \<Rightarrow> bool" where
  "handoff_world env db \<longleftrightarrow> handoff_inv db \<and> response_keys_ok env db \<and> workers_ok db"

lemma handoff_world_rest:
  assumes "handoff_world env db" and "handoff_effect\<^sup>*\<^sup>* db db'" and "rest db' = rest db"
  shows "handoff_world env db'"
  using assms handoff_effects_inv [OF assms(2)] response_keys_same [of env db db'] workers_ok_same [of db db']
  by (simp add: handoff_world_def rest_def)

lemma handoff_world_ids: "handoff_world env db \<Longrightarrow> handoff_ids_ok db"
  unfolding handoff_world_def using handoff_invD(1) by blast

lemma reserve_workers: "reserve_handoff_key db a op key h ref at = Inr (db', c) \<Longrightarrow> workers_ok db \<Longrightarrow> workers_ok db'"
  using reserve_ok(4) workers_ok_same by blast

lemma receive_world:
  assumes "receive_priced env db p request key cor cau at cand audit = Inr (db', h')" and w: "handoff_world env db"
  shows "handoff_world env db'"
proof -
  obtain db1 c hash where r: "reserve_handoff_key db (hx_service_actor_id env) ''handoff'' key hash cand at = Inr (db1, c)"
    and same: "rest db' = rest db1"
    using assms(1) unfolding receive_priced_def
    by (auto simp: bind_result_eq_Inr split: option.splits if_splits dest!: create_handoff_rest)
  have "response_keys_ok env db1" by (rule reserve_keeps_responses [OF r]) (use w in \<open>simp_all add: handoff_world_def\<close>)
  moreover have "workers_ok db1" using reserve_workers [OF r] w by (simp add: handoff_world_def)
  ultimately show ?thesis
    using handoff_effect_inv [OF receive_effect [OF assms(1)]] w same response_keys_same [of env db1 db'] workers_ok_same [of db1 db']
    by (simp add: handoff_world_def rest_def)
qed

lemma respond_world:
  assumes "handoff_respond env db i d accept e key at aid = Inr (db', r)" and w: "handoff_world env db"
    and sep: "response_digest_separates env"
  shows "handoff_effect db db'" and "handoff_world env db'"
proof -
  note resp = handoff_respond_ok [OF assms(1)]
  have keys: "response_keys_ok env db" using w by (simp add: handoff_world_def)
  show e: "handoff_effect db db'" by (rule respond_effect [OF resp handoff_world_ids [OF w] keys sep])
  have assign: "rest d' = rest d" if "assign_offer d h f i k aid at = Inr d'" for d d' h f k
    using that unfolding assign_offer_def Let_def
    by (auto simp: bind_result_eq_Inr split: if_splits dest!: handoff_event_rest)
  have reject: "rest d' = rest d" if "reject_offer d h i at = Inr d'" for d d' h
    using that unfolding reject_offer_def by (auto dest!: handoff_event_rest)
  obtain db0 c where res: "reserve_handoff_key db d ''offer_response'' key (hx_response_digest env i accept e) i at = Inr (db0, c)"
    and same: "rest db' = rest db0"
    using resp unfolding respond_offer_def
    by (elim ok_elims) (auto dest!: assign reject)
  have "response_keys_ok env db0" "workers_ok db0"
    using response_reserved(2) [OF res keys sep] reserve_workers [OF res] w by (simp_all add: handoff_world_def)
  then show "handoff_world env db'"
    using handoff_effect_inv [OF e] w same response_keys_same [of env db0 db'] workers_ok_same [of db0 db']
    by (simp add: handoff_world_def rest_def)
qed

lemma handoff_step_world:
  assumes "handoff_step env db db'" and w: "handoff_world env db" and sep: "response_digest_separates env"
  shows "handoff_effect\<^sup>*\<^sup>* db db' \<and> handoff_world env db'"
  using assms(1)
proof (cases rule: handoff_step.cases)
  case (receiving p request key cor cau at cand audit h)
  show ?thesis using receive_effect [OF receiving] receive_world [OF receiving w] by blast
next
  case (offering k obs at i r)
  have "handoff_effect\<^sup>*\<^sup>* db db'" using offer_next_effect(1) [OF offering handoff_world_ids [OF w]] by blast
  then show ?thesis using handoff_world_rest [OF w _ offer_next_rest [OF offering]] by blast
next
  case (responding i d accept e key at aid a)
  show ?thesis using respond_world [OF responding w sep] by blast
next
  case (cancelling request at b)
  have "handoff_effect\<^sup>*\<^sup>* db db'" using cancel_handoff_effect [OF cancelling handoff_world_ids [OF w]] by blast
  then show ?thesis using handoff_world_rest [OF w _ cancel_rest [OF cancelling]] by blast
next
  case (resolving i t at)
  have "handoff_effect\<^sup>*\<^sup>* db db'" using resolve_offer_effect [OF resolving handoff_world_ids [OF w]] by blast
  then show ?thesis using handoff_world_rest [OF w _ resolve_rest [OF resolving]] by blast
next
  case (closing at limit n)
  have "handoff_effect\<^sup>*\<^sup>* db db'" by (rule close_expired_effects [OF closing handoff_world_ids [OF w]])
  then show ?thesis using handoff_world_rest [OF w _ close_expired_rest [OF closing]] by blast
next
  case (going_online s session vehicle zone at wid x)
  obtain y where y: "start_worker db y = Inr (db', x)"
    using going_online unfolding start_ride_driver_def by (elim ok_elims) auto
  note same = start_worker_ok [OF y]
  have wk: "workers_ok db" using w by (simp add: handoff_world_def)
  have e: "handoff_effect db db'" using same(2,3) [OF wk] by (rule kept_same)
  then have "handoff_world env db'"
    using w same(1,4) [OF wk] handoff_effect_inv [OF e] response_keys_same [of env db db'] by (simp add: handoff_world_def)
  then show ?thesis using e by blast
next
  case (going_offline s session at x)
  obtain k db1 b where stop: "stop_worker db k EC_RIDE_DRIVER at = Inr (db1, x)"
    and revoke: "revoke_driver_offer db1 k at = Inr (db', b)"
    using going_offline unfolding stop_ride_driver_def by (elim ok_elims) auto
  have wk: "workers_ok db" using w by (simp add: handoff_world_def)
  note same = stop_worker_ok [OF stop wk]
  have e1: "handoff_effect db db1" using same(2,3) by (rule kept_same)
  then have w1: "handoff_world env db1"
    using w same(1,4) handoff_effect_inv [OF e1] response_keys_same [of env db db1] by (simp add: handoff_world_def)
  have e2: "handoff_effect db1 db'"
    using revoke resolve_offer_effect [OF _ handoff_world_ids [OF w1]] kept_same [of db1 db1] unfolding revoke_driver_offer_def
    by (elim ok_elims) auto
  have "handoff_world env db'" using handoff_world_rest [OF w1 _ revoke_rest [OF revoke]] e2 by blast
  then show ?thesis using e1 e2 by (meson r_into_rtranclp rtranclp.rtrancl_into_rtrancl)
next
  case (elsewhere sources)
  have e: "handoff_effect db db'" by (rule kept_same) (simp_all add: elsewhere handoff_tables_def)
  then have "handoff_effect\<^sup>*\<^sup>* db db'" by blast
  then have "handoff_world env db'" using handoff_world_rest [OF w, of db'] by (simp add: elsewhere rest_def)
  then show ?thesis using e by blast
qed

lemma handoff_steps_world:
  assumes "(handoff_step env)\<^sup>*\<^sup>* db db'" and "handoff_world env db" and sep: "response_digest_separates env"
  shows "handoff_effect\<^sup>*\<^sup>* db db' \<and> handoff_world env db'"
  using assms(1,2)
proof (induction rule: rtranclp_induct)
  case (step a b)
  then show ?case using handoff_step_world [OF step(2) _ sep] rtranclp_trans [of handoff_effect db a b] by blast
qed simp

lemma handoff_start_world: "handoff_start db \<Longrightarrow> handoff_world env db"
  by (simp add: handoff_start_def handoff_world_def handoff_inv_def handoff_ids_ok_def handoffs_ok_def offers_ok_def
      assignments_ok_def events_ok_def response_keys_ok_def workers_ok_def open_offer_def dict_ok_def)

lemma handoff_reachable_world:
  "handoff_reachable env db \<Longrightarrow> response_digest_separates env \<Longrightarrow> handoff_world env db"
  unfolding handoff_reachable_def using handoff_steps_world handoff_start_world by blast

section \<open>The runtime\<close>

lemma in_unit_steps: "(\<And>db' x. r = Inr (db', x) \<Longrightarrow> handoff_step env db db') \<Longrightarrow> (handoff_step env)\<^sup>*\<^sup>* db (fst (in_unit db r))"
  by (auto simp: in_unit_def split: sum.split)

lemma and_then_steps:
  assumes "(handoff_step env)\<^sup>*\<^sup>* db (fst m)" and "\<And>d x. m = (d, Inr x) \<Longrightarrow> (handoff_step env)\<^sup>*\<^sup>* d (fst (f d x))"
  shows "(handoff_step env)\<^sup>*\<^sup>* db (fst (and_then m f))"
proof (cases m)
  case (Pair d r)
  show ?thesis
  proof (cases r)
    case (Inr x)
    then show ?thesis using assms(1) assms(2) [of d x] by (simp add: and_then_def Pair)
  qed (use assms(1) in \<open>simp add: and_then_def Pair\<close>)
qed

lemma dispatch_progress_steps: "(handoff_step env)\<^sup>*\<^sup>* db (fst (dispatch_progress env ports db k at i))"
  unfolding dispatch_progress_def by (auto split: option.split sum.split intro!: in_unit_steps intro: handoff_step.offering)

lemma receive_handoff_step:
  "receive_handoff env db request key cor cau at cand audit = Inr (db', h) \<Longrightarrow> handoff_step env db db'"
  unfolding receive_handoff_def by (elim ok_elims) (auto intro: handoff_step.receiving)

lemma dispatch_start_steps:
  "(handoff_step env)\<^sup>*\<^sup>* db (fst (dispatch_start env ports db request key cor cau at cand audit i))"
  unfolding dispatch_start_def
  by (intro and_then_steps in_unit_steps) (auto intro: receive_handoff_step intro!: and_then_steps dispatch_progress_steps)

lemma dispatch_respond_steps:
  "(handoff_step env)\<^sup>*\<^sup>* db (fst (dispatch_respond env ports db s i accept e key at aid j))"
  unfolding dispatch_respond_def
  by (auto split: option.split sum.split intro!: and_then_steps in_unit_steps dispatch_progress_steps intro: handoff_step.responding)

lemma expire_and_progress_steps: "(handoff_step env)\<^sup>*\<^sup>* db (fst (expire_and_progress env ports at draw fs db))"
proof (induction fs arbitrary: db)
  case (Cons f fs)
  let ?m = "and_then (in_unit db (only_db (resolve_open_offer db (ho_offer_id f) HO_EXPIRED at)))
         (\<lambda>db1 _. dispatch_progress env ports db1 (ho_handoff_id f) at (draw (ho_offer_id f)))"
  have m: "(handoff_step env)\<^sup>*\<^sup>* db (fst ?m)"
    by (intro and_then_steps in_unit_steps dispatch_progress_steps)
      (auto simp: only_db_def bind_result_eq_Inr intro: handoff_step.resolving)
  obtain d r where p: "?m = (d, r)" by (cases ?m)
  have "(handoff_step env)\<^sup>*\<^sup>* d (fst (expire_and_progress env ports at draw fs d))" by (rule Cons.IH)
  moreover have "(handoff_step env)\<^sup>*\<^sup>* d (fst (and_then (expire_and_progress env ports at draw fs d) (\<lambda>db3 n. (db3, Inr (n + 1)))))"
    by (intro and_then_steps Cons.IH) simp
  moreover have "(handoff_step env)\<^sup>*\<^sup>* db d" using m by (simp add: p)
  ultimately show ?case by (simp add: p split: sum.split) (blast intro: rtranclp_trans)
qed simp

lemma resume_searches_steps: "(handoff_step env)\<^sup>*\<^sup>* db (fst (resume_searches env ports at draw ks db))"
proof (induction ks arbitrary: db)
  case (Cons k ks)
  obtain d r where p: "dispatch_progress env ports db k at (draw k) = (d, r)" by (cases "dispatch_progress env ports db k at (draw k)")
  have "(handoff_step env)\<^sup>*\<^sup>* d (fst (resume_searches env ports at draw ks d))" by (rule Cons.IH)
  moreover have "(handoff_step env)\<^sup>*\<^sup>* d (fst (and_then (resume_searches env ports at draw ks d) (\<lambda>db3 n. (db3, Inr (n + 1)))))"
    by (intro and_then_steps Cons.IH) simp
  moreover have "(handoff_step env)\<^sup>*\<^sup>* db d" using dispatch_progress_steps [of env db ports k at "draw k"] by (simp add: p)
  ultimately show ?case by (simp add: p split: sum.split) (blast intro: rtranclp_trans)
qed simp

lemma dispatch_recover_steps: "(handoff_step env)\<^sup>*\<^sup>* db (fst (dispatch_recover env ports db at limit f g))"
proof -
  have "(handoff_step env)\<^sup>*\<^sup>* db (fst (expire_and_redispatch env ports db at limit f))"
    by (auto simp: expire_and_redispatch_def split: sum.split intro: expire_and_progress_steps)
  then show ?thesis
    unfolding dispatch_recover_def
    by (auto intro!: and_then_steps resume_searches_steps in_unit_steps intro: handoff_step.closing)
qed

end
