(* ===== verification/Handoff_Sample.thy ===== *)
theory Handoff_Sample
  imports Handoff_Steps
begin

text \<open>
  Sample runs of dispatch handoffs.
\<close>

definition sample_dispatch_sources :: dispatch_sources where
  "sample_dispatch_sources =
     (let request = (\<lambda>k. (k, \<lparr>qr_rider_identity_id = Some (k + 6), qr_state = ''ready_for_dispatch'',
            qr_service_type = Some ''immediate_standard'', qr_pickup_id = Some 21, qr_destination_id = Some 22,
            qr_service_zone_id = Some 5, qr_version = 1, qr_expires_at = timedelta_seconds 4000\<rparr>));
          decision = (\<lambda>k. \<lparr>qd_decision_id = k + 60, qd_request_id = k, qd_policy_version = ''ride-v1'', qd_status = ''valid'',
            qd_decided_at = 1\<rparr>);
          confirmation = (\<lambda>k. \<lparr>qc_ride_request_id = k, qc_rider_identity_id = k + 6, qc_fare_estimate_id = Some (k + 70),
            qc_estimate_acceptance_id = Some (k + 80), qc_pricing_lineage_hash = Some ''lineage''\<rparr>);
          estimate = (\<lambda>k. (k + 70, \<lparr>qe_ride_request_id = k, qe_rider_identity_id = k + 6, qe_policy_id = 90,
            qe_policy_version = ''price-v1'', qe_rider_total_minor = Some 5000, qe_currency = Some ''JMD'',
            qe_expires_at = timedelta_seconds 3000\<rparr>));
          acceptance = (\<lambda>k. (k + 80, \<lparr>qa_estimate_id = k + 70, qa_rider_identity_id = k + 6,
            qa_accepted_policy_version = ''price-v1'', qa_accepted_amount_minor = 5000, qa_currency = ''JMD'',
            qa_accepted_at = timedelta_seconds 10\<rparr>)) in
      \<lparr>ds_requests = map request [1, 2], ds_decisions = map decision [1, 2], ds_zones = [(5, ''zone-v1'')],
       ds_confirmations = map confirmation [1, 2], ds_estimates = map estimate [1, 2],
       ds_acceptances = map acceptance [1, 2],
       ds_eligibility = [\<lparr>qv_driver_identity_id = 31, qv_vehicle_id = Some 41, qv_status = ''eligible'',
         qv_expires_at = Some (timedelta_seconds 9000), qv_recomputed_at = 1\<rparr>],
       ds_vehicles = [(41, ''approved'')],
       ds_vehicle_authorizations = [\<lparr>qz_authorization_id = 1, qz_driver_identity_id = 31, qz_vehicle_id = 41,
         qz_status = ''authorized'', qz_expires_at = timedelta_seconds 9000\<rparr>],
       ds_sessions = [(51, \<lparr>qs_identity_id = Some 31, qs_expires_at = timedelta_seconds 9000, qs_revoked_at = None\<rparr>)]\<rparr>)"

definition sample_handoff_env :: handoff_env where
  "sample_handoff_env =
     \<lparr>hx_lineage_digest = (\<lambda>_. ''lineage''), hx_request_digest = (\<lambda>_. ''request''),
      hx_response_digest = (\<lambda>offer accept v. replicate offer CHR ''o''), hx_key_digest = (\<lambda>key. key),
      hx_policy_version = ''dispatch-v1'', hx_offer_timeout_seconds = 15, hx_maximum_evidence_age_seconds = 45,
      hx_require_worker_session = True, hx_service_actor_id = 1, hx_maximum_candidates = 10\<rparr>"

definition empty_handoffs :: handoff_db where
  "empty_handoffs = \<lparr>hd_sources = sample_dispatch_sources, hd_handoffs = [], hd_candidates = [], hd_offers = [],
     hd_assignments = [], hd_idempotency = [], hd_events = [], hd_outbox = [], hd_worker_sessions = []\<rparr>"

definition sample_evidence :: "int \<Rightarrow> driver_evidence" where
  "sample_evidence at =
     \<lparr>oe_driver_id = 31, oe_vehicle_id = 41, oe_authorized_vehicle_id = 41, oe_account_active = True,
      oe_authenticated_session_active = True, oe_eligibility_status = ''eligible'',
      oe_eligibility_expires_at = timedelta_seconds 9000, oe_vehicle_approved = True,
      oe_supported_services = [''immediate_standard''], oe_availability = ''available'',
      oe_availability_observed_at = timedelta_seconds at, oe_earning_capability = ''ride_driver'', oe_fatigue_eligible = True,
      oe_pickup_accessible = True, oe_conflicting_commitment = False, oe_active_workload_count = 0,
      oe_reliability_bps = 5000, oe_cancellation_history_bps = 0, oe_opportunity_deficit_bps = 0,
      oe_eligibility_policy_version = ''v1''\<rparr>"

definition sample_route :: "int \<Rightarrow> route_evidence" where
  "sample_route at =
     \<lparr>re_driver_id = 31, re_evidence_id = ''route-31'', re_pickup_eta_seconds = 300, re_observed_at = timedelta_seconds at,
      re_temporary_restrictions_clear = True, re_traffic_evidence_fresh = True, re_pickup_confidence_bps = 9000,
      re_heading_consistent = True\<rparr>"

definition sample_ports :: dispatch_ports where
  "sample_ports = \<lparr>dp_shortlist = (\<lambda>_ _ _ _. Inr [sample_evidence 50]), dp_pickup_routes = (\<lambda>_ _ _. Inr [sample_route 50]),
     dp_ride_starter = None\<rparr>"

datatype handoff_call =
    Receive uuid int string uuid
  | Next uuid bool int uuid
  | Reply uuid bool int string int uuid
  | Online int uuid
  | Offline int

fun run_handoff :: "handoff_call \<Rightarrow> handoff_db \<Rightarrow> handoff_db result" where
  "run_handoff (Receive q at key k) db =
     bind_result (receive_handoff sample_handoff_env db q key 3 4 (timedelta_seconds at) k (k + 1)) (\<lambda>(db', _). Inr db')"
| "run_handoff (Next k found at i) db =
     bind_result (offer_next sample_handoff_env db k
       (if found then [observation_of (sample_evidence at) (sample_route at)] else []) (timedelta_seconds at) i) (\<lambda>(db', _). Inr db')"
| "run_handoff (Reply i accept v key at aid) db =
     bind_result (handoff_respond sample_handoff_env db i 31 accept v key (timedelta_seconds at) aid) (\<lambda>(db', _). Inr db')"
| "run_handoff (Online at w) db =
     bind_result (start_ride_driver db (31, ID_DRIVER) (Some 51) 41 5 (timedelta_seconds at) w) (\<lambda>(db', _). Inr db')"
| "run_handoff (Offline at) db =
     bind_result (stop_ride_driver db (31, ID_DRIVER) (Some 51) (timedelta_seconds at)) (\<lambda>(db', _). Inr db')"

fun run_handoffs :: "handoff_call list \<Rightarrow> handoff_db \<Rightarrow> handoff_db result" where
  "run_handoffs [] db = Inr db"
| "run_handoffs (c # cs) db = bind_result (run_handoff c db) (run_handoffs cs)"

lemma run_handoff_step: "run_handoff c db = Inr db' \<Longrightarrow> handoff_step sample_handoff_env db db'"
  by (cases c) (auto simp: bind_result_eq_Inr dest: receive_handoff_step intro: handoff_step.intros)

lemma run_handoffs_steps: "run_handoffs cs db = Inr db' \<Longrightarrow> (handoff_step sample_handoff_env)\<^sup>*\<^sup>* db db'"
proof (induction cs arbitrary: db)
  case (Cons c cs)
  then show ?case
    using run_handoff_step unfolding run_handoffs.simps(2) bind_result_eq_Inr
    by (meson converse_rtranclp_into_rtranclp)
qed simp

text \<open>One ride is offered to the driver; for another no driver is found.\<close>

definition sample_search :: "handoff_call list" where
  "sample_search = [Receive 1 20 ''handoff-key-0001'' 100, Online 25 300, Next 100 True 30 200]"

definition sample_night :: "handoff_call list" where
  "sample_night = [Receive 2 20 ''handoff-key-0002'' 110]"

definition found_db :: handoff_db where "found_db = projr (run_handoffs sample_search empty_handoffs)"
definition night_db :: handoff_db where "night_db = projr (run_handoffs sample_night empty_handoffs)"
definition lost_db :: handoff_db where
  "lost_db = fst (projr (offer_next sample_handoff_env night_db 110 [] (timedelta_seconds 44) 220))"

definition found_outcome where
  "found_outcome = bind_result (run_handoffs sample_search empty_handoffs) (\<lambda>db. Inr
     (map (\<lambda>(k, h). (k, hf_state h, hf_version h, hf_service_zone_id h)) (hd_handoffs db),
      map (\<lambda>(i, f). (i, ho_handoff_id f, ho_driver_id f, ho_vehicle_id f, ho_state f, ho_version f, ho_expires_at f)) (hd_offers db),
      length (hd_assignments db), map fst (hd_idempotency db), ride_driver_online db 31 41 5 (timedelta_seconds 40)))"

lemma found_outcome_value:
  "found_outcome = Inr ([(100, HD_OFFERING, 2, 5)], [(200, 100, 31, 41, HO_CREATED, 1, timedelta_seconds 45)], 0,
     [(1, ''handoff'', ''handoff-key-0001'')], True)"
  by code_simp

lemma lost_run:
  "(case run_handoffs sample_night empty_handoffs of Inl e \<Rightarrow> False
    | Inr db \<Rightarrow> map (\<lambda>(k, h). (k, hf_state h, hf_version h)) (hd_handoffs db) = [(110, HD_SEARCHING, 1)] \<and>
        (case offer_next sample_handoff_env db 110 [] (timedelta_seconds 44) 220 of
           Inr (db1, None) \<Rightarrow>
             map (\<lambda>(k, h). (k, hf_state h, hf_version h, hf_service_zone_id h)) (hd_handoffs db1) = [(110, HD_SEARCHING, 1, 5)] \<and>
             list_searching_handoff_ids db1 (timedelta_seconds 60) 10 = [110] \<and>
             list_expired_offers db1 (timedelta_seconds 60) 10 = Inr [] \<and>
             (case get_handoff db1 110 of None \<Rightarrow> False
              | Some h \<Rightarrow> handoff_pricing_lineage_current sample_handoff_env db1 h (timedelta_seconds 60) = Inr True) \<and>
             authoritative_drivers sample_handoff_env db1 5 (timedelta_seconds 60)
               [observation_of (sample_evidence 50) (sample_route 50)] = Inr []
         | _ \<Rightarrow> False))"
  by code_simp

lemma sample_observation_valid: "observations_of [sample_evidence 50] [sample_route 50] = Inr [observation_of (sample_evidence 50) (sample_route 50)]"
  by code_simp

lemma found_db_reachable: "handoff_reachable sample_handoff_env found_db"
  and found_db_view: "map (\<lambda>(k, h). (k, hf_state h, hf_version h, hf_service_zone_id h)) (hd_handoffs found_db) = [(100, HD_OFFERING, 2, 5)]"
    "map (\<lambda>(i, f). (i, ho_handoff_id f, ho_driver_id f, ho_vehicle_id f, ho_state f, ho_version f, ho_expires_at f)) (hd_offers found_db) =
      [(200, 100, 31, 41, HO_CREATED, 1, timedelta_seconds 45)]"
    "hd_assignments found_db = []" "map fst (hd_idempotency found_db) = [(1, ''handoff'', ''handoff-key-0001'')]"
    "ride_driver_online found_db 31 41 5 (timedelta_seconds 40)"
proof -
  obtain db where db: "run_handoffs sample_search empty_handoffs = Inr db"
    and view: "map (\<lambda>(k, h). (k, hf_state h, hf_version h, hf_service_zone_id h)) (hd_handoffs db) = [(100, HD_OFFERING, 2, 5)]"
      "map (\<lambda>(i, f). (i, ho_handoff_id f, ho_driver_id f, ho_vehicle_id f, ho_state f, ho_version f, ho_expires_at f)) (hd_offers db) =
        [(200, 100, 31, 41, HO_CREATED, 1, timedelta_seconds 45)]"
      "hd_assignments db = []" "map fst (hd_idempotency db) = [(1, ''handoff'', ''handoff-key-0001'')]"
      "ride_driver_online db 31 41 5 (timedelta_seconds 40)"
    using found_outcome_value unfolding found_outcome_def bind_result_eq_Inr by auto
  have same: "found_db = db" by (simp add: found_db_def db)
  have "handoff_start empty_handoffs" by (simp add: handoff_start_def empty_handoffs_def)
  then show "handoff_reachable sample_handoff_env found_db"
    using run_handoffs_steps [OF db] unfolding handoff_reachable_def same by blast
  show "map (\<lambda>(k, h). (k, hf_state h, hf_version h, hf_service_zone_id h)) (hd_handoffs found_db) = [(100, HD_OFFERING, 2, 5)]"
    "map (\<lambda>(i, f). (i, ho_handoff_id f, ho_driver_id f, ho_vehicle_id f, ho_state f, ho_version f, ho_expires_at f)) (hd_offers found_db) =
      [(200, 100, 31, 41, HO_CREATED, 1, timedelta_seconds 45)]"
    "hd_assignments found_db = []" "map fst (hd_idempotency found_db) = [(1, ''handoff'', ''handoff-key-0001'')]"
    "ride_driver_online found_db 31 41 5 (timedelta_seconds 40)"
    using view by (simp_all add: same)
qed

lemma night_db_reachable: "handoff_reachable sample_handoff_env night_db"
  and night_db_view: "map (\<lambda>(k, h). (k, hf_state h, hf_version h)) (hd_handoffs night_db) = [(110, HD_SEARCHING, 1)]"
  and lost_db_run: "offer_next sample_handoff_env night_db 110 [] (timedelta_seconds 44) 220 = Inr (lost_db, None)"
  and lost_db_view: "map (\<lambda>(k, h). (k, hf_state h, hf_version h, hf_service_zone_id h)) (hd_handoffs lost_db) = [(110, HD_SEARCHING, 1, 5)]"
    "list_searching_handoff_ids lost_db (timedelta_seconds 60) 10 = [110]"
    "list_expired_offers lost_db (timedelta_seconds 60) 10 = Inr []"
    "\<exists>h. dget (hd_handoffs lost_db) 110 = Some h \<and>
       handoff_pricing_lineage_current sample_handoff_env lost_db h (timedelta_seconds 60) = Inr True"
    "authoritative_drivers sample_handoff_env lost_db 5 (timedelta_seconds 60) [observation_of (sample_evidence 50) (sample_route 50)] = Inr []"
proof -
  obtain db where db: "run_handoffs sample_night empty_handoffs = Inr db" using lost_run by (auto split: sum.splits)
  have same: "night_db = db" by (simp add: night_db_def db)
  note run = lost_run [unfolded db sum.case, folded same]
  have "handoff_start empty_handoffs" by (simp add: handoff_start_def empty_handoffs_def)
  then show "handoff_reachable sample_handoff_env night_db"
    using run_handoffs_steps [OF db] unfolding handoff_reachable_def same by blast
  show "map (\<lambda>(k, h). (k, hf_state h, hf_version h)) (hd_handoffs night_db) = [(110, HD_SEARCHING, 1)]" using run by blast
  obtain db1 where lost: "offer_next sample_handoff_env night_db 110 [] (timedelta_seconds 44) 220 = Inr (db1, None)"
    using run by (auto split: sum.splits option.splits prod.splits)
  have same1: "lost_db = db1" by (simp add: lost_db_def lost)
  show "offer_next sample_handoff_env night_db 110 [] (timedelta_seconds 44) 220 = Inr (lost_db, None)" using lost by (simp add: same1)
  note run1 = run [unfolded lost sum.case prod.case option.case, folded same1]
  show "map (\<lambda>(k, h). (k, hf_state h, hf_version h, hf_service_zone_id h)) (hd_handoffs lost_db) = [(110, HD_SEARCHING, 1, 5)]"
    "list_searching_handoff_ids lost_db (timedelta_seconds 60) 10 = [110]"
    "list_expired_offers lost_db (timedelta_seconds 60) 10 = Inr []"
    "authoritative_drivers sample_handoff_env lost_db 5 (timedelta_seconds 60) [observation_of (sample_evidence 50) (sample_route 50)] = Inr []"
    using run1 by blast+
  show "\<exists>h. dget (hd_handoffs lost_db) 110 = Some h \<and>
       handoff_pricing_lineage_current sample_handoff_env lost_db h (timedelta_seconds 60) = Inr True"
    using run1 unfolding get_handoff_def by (auto split: option.splits)
qed

lemma sample_digest_separates: "response_digest_separates sample_handoff_env"
  by (auto simp: response_digest_separates_def sample_handoff_env_def dest: arg_cong [of _ _ length])

end
