(* ===== verification/Handoff_Props.thy ===== *)
theory Handoff_Props
  imports Handoff_Sample
begin

text \<open>
  The properties of dispatch handoffs over every reachable database, and a sample run: a ride offered to a driver who
  goes offline, offered again and accepted, and a ride for which no driver was found.
\<close>

section \<open>The first driver of a ranking\<close>

lemma scaled_bps_bound: "bps_ok x \<Longrightarrow> 0 \<le> n \<Longrightarrow> 0 \<le> x * n div 10000 \<and> x * n div 10000 \<le> n"
  using zdiv_mono1 [OF mult_right_mono [of x 10000 n], of 10000] by (auto simp: pos_imp_zdiv_nonneg_iff)

lemma effective_cost_bounds:
  assumes "valid_eligible_driver d = Inr d"
  shows "ed_pickup_cost_seconds d - 20 \<le> effective_cost d" and "effective_cost d \<le> ed_pickup_cost_seconds d + 35"
proof -
  have d: "0 \<le> ed_pickup_cost_seconds d" "bps_ok (ed_reliability_bps d)" "bps_ok (ed_cancellation_history_bps d)"
    "0 \<le> ed_active_workload_count d" "bps_ok (ed_opportunity_deficit_bps d)"
    using assms by (auto simp: valid_eligible_driver_def split: if_splits)
  have r: "bps_ok (10000 - ed_reliability_bps d)" using d(2) by simp
  note b = scaled_bps_bound [OF r, of 10] scaled_bps_bound [OF d(3), of 10] scaled_bps_bound [OF d(5), of 20]
  show "ed_pickup_cost_seconds d - 20 \<le> effective_cost d" "effective_cost d \<le> ed_pickup_cost_seconds d + 35"
    using b d(1,4) unfolding effective_cost_def Let_def by linarith+
qed

lemma sort_key_head:
  assumes "sort_key f xs = y # ys" and "x \<in> set xs"
  shows "f y \<le> f x"
proof -
  have "sorted (map f (y # ys))" using sorted_sort_key [of f xs] by (simp add: assms(1))
  moreover have "x \<in> set (y # ys)" using assms set_sort [of f xs] by simp
  ultimately show ?thesis by auto
qed

section \<open>Closing expired handoffs\<close>

lemma close_handoff_succeeds:
  assumes inv: "handoff_inv db" and h: "dget (hd_handoffs db) (hf_handoff_id h) = Some h"
  shows "\<exists>db'. close_handoff at h db = Inr db'"
proof (rule ccontr)
  let ?db = "store_handoff (close_offers (hf_handoff_id h) HO_EXPIRED at db) (h\<lparr>hf_state := HD_NO_DRIVER, hf_version := hf_version h + 1\<rparr>)"
  assume "\<nexists>db'. close_handoff at h db = Inr db'"
  then obtain e where "close_handoff at h db = Inl e" by (cases "close_handoff at h db") auto
  then obtain x where x: "x \<in> set (hd_events db)" "hv_handoff_id x = hf_handoff_id h"
    "hv_event_type x = ''dispatch.rider.no_driver_available''" "hv_aggregate_version x = hf_version h"
    using h handoff_event_fails unfolding close_handoff_def Let_def get_handoff_def by fastforce
  then have "hf_version h < hf_version h"
    using handoff_invD(7) [OF inv] h unfolding events_ok_def closing_types_def by fastforce
  then show False by simp
qed

lemma close_handoffs_succeeds:
  assumes "handoff_inv db" and "distinct (map hf_handoff_id hs)"
    and "\<And>h. h \<in> set hs \<Longrightarrow> dget (hd_handoffs db) (hf_handoff_id h) = Some h \<and> (hf_state h = HD_SEARCHING \<or> hf_state h = HD_OFFERING)"
  shows "\<exists>db'. close_handoffs at hs db = Inr db' \<and>
    (\<forall>k. k \<notin> set (map hf_handoff_id hs) \<longrightarrow> dget (hd_handoffs db') k = dget (hd_handoffs db) k) \<and>
    (\<forall>h \<in> set hs. dget (hd_handoffs db') (hf_handoff_id h) = Some (h\<lparr>hf_state := HD_NO_DRIVER, hf_version := hf_version h + 1\<rparr>))"
  using assms
proof (induction hs arbitrary: db)
  case (Cons h hs)
  have h: "dget (hd_handoffs db) (hf_handoff_id h) = Some h" "hf_state h = HD_SEARCHING \<or> hf_state h = HD_OFFERING"
    using Cons.prems(3) [of h] by simp_all
  obtain db1 where c: "close_handoff at h db = Inr db1" using close_handoff_succeeds [OF Cons.prems(1) h(1)] by blast
  note ok = close_handoff_ok [OF c h]
  have apart: "hf_handoff_id h \<notin> set (map hf_handoff_id hs)" using Cons.prems(2) by simp
  have others: "hf_handoff_id x \<noteq> hf_handoff_id h" if "x \<in> set hs" for x
    using that apart by (metis image_eqI list.set_map)
  have "dget (hd_handoffs db1) (hf_handoff_id x) = Some x \<and> (hf_state x = HD_SEARCHING \<or> hf_state x = HD_OFFERING)"
    if "x \<in> set hs" for x
    using Cons.prems(3) [of x] that others [OF that] by (simp add: ok(2))
  then obtain db' where rec: "close_handoffs at hs db1 = Inr db'"
    and same: "\<And>k. k \<notin> set (map hf_handoff_id hs) \<Longrightarrow> dget (hd_handoffs db') k = dget (hd_handoffs db1) k"
    and ended: "\<And>x. x \<in> set hs \<Longrightarrow> dget (hd_handoffs db') (hf_handoff_id x) = Some (x\<lparr>hf_state := HD_NO_DRIVER, hf_version := hf_version x + 1\<rparr>)"
    using Cons.IH [OF handoff_effect_inv [OF ok(1) Cons.prems(1)]] Cons.prems(2) by auto
  have "close_handoffs at (h # hs) db = Inr db'" using c rec by simp
  moreover have "dget (hd_handoffs db') k = dget (hd_handoffs db) k" if "k \<notin> set (map hf_handoff_id (h # hs))" for k
    using that same [of k] by (simp add: ok(2))
  moreover have "dget (hd_handoffs db') (hf_handoff_id h) = Some (h\<lparr>hf_state := HD_NO_DRIVER, hf_version := hf_version h + 1\<rparr>)"
    using same [OF apart] by (simp add: ok(2))
  ultimately show ?case using ended by auto
qed simp

text \<open>An acceptance reaches its events, whose versions are new.\<close>

lemma new_event_succeeds:
  assumes "events_ok db" and "dget (hd_handoffs db) k = Some h" and "hf_handoff_id h' = k" and "hf_version h < hf_version h'"
    and "set (hd_events db') \<subseteq> set (hd_events db) \<union> {e. hv_event_type e \<in> T}" and "ty \<notin> T"
  shows "\<exists>db2. handoff_event db' h' ty at p = Inr db2 \<and> set (hd_events db2) \<subseteq> set (hd_events db) \<union> {e. hv_event_type e \<in> insert ty T}"
proof (cases "handoff_event db' h' ty at p")
  case (Inl e)
  then obtain x where "x \<in> set (hd_events db')" "hv_handoff_id x = k" "hv_event_type x = ty" "hv_aggregate_version x = hf_version h'"
    using handoff_event_fails assms(3) by blast
  then have "hf_version h' \<le> hf_version h" using assms(1,2,5,6) unfolding events_ok_def by fastforce
  then show ?thesis using assms(4) by simp
next
  case (Inr db2)
  then have "set (hd_events db2) \<subseteq> insert (handoff_event_row h' ty at (if p = [] then [(''state'', JStr (handoff_value (hf_state h')))] else p)) (set (hd_events db'))"
    unfolding handoff_event_def Let_def by (auto split: if_splits)
  then show ?thesis using Inr assms(5) by (fastforce simp: handoff_event_row_def)
qed

lemma event_is_new:
  assumes "events_ok db" and "dget (hd_handoffs db) k = Some h" and "hf_version h < v" and "e \<in> set (hd_events db)" and "hv_handoff_id e = k"
  shows "hv_aggregate_version e \<noteq> v"
  using assms unfolding events_ok_def by fastforce

lemma assign_offer_ok:
  assumes inv: "handoff_inv db" and h: "dget (hd_handoffs db) (ho_handoff_id f) = Some h"
    and free: "\<not> list_ex (assignment_blocked aid \<lparr>as_handoff_id = hf_handoff_id h, as_offer_id = i, as_driver_id = d,
      as_vehicle_id = ho_vehicle_id f, as_assigned_at = at, as_released_at = None, as_correlation_id = hf_correlation_id h\<rparr>)
      (hd_assignments db)"
    and same: "hd_events db0 = hd_events db" "hd_assignments db0 = hd_assignments db" "hd_handoffs db0 = hd_handoffs db"
  shows "\<exists>db'. assign_offer db0 h f i d aid at = Inr db' \<and>
    hd_handoffs db' = dset (ho_handoff_id f) (h\<lparr>hf_state := HD_ASSIGNED, hf_assigned_driver_id := Some d, hf_version := hf_version h + 1\<rparr>)
      (hd_handoffs db)"
proof -
  let ?h = "h\<lparr>hf_state := HD_ASSIGNED, hf_assigned_driver_id := Some d, hf_version := hf_version h + 1\<rparr>"
  let ?a = "\<lparr>as_handoff_id = hf_handoff_id h, as_offer_id = i, as_driver_id = d, as_vehicle_id = ho_vehicle_id f,
    as_assigned_at = at, as_released_at = None, as_correlation_id = hf_correlation_id h\<rparr>"
  let ?db = "store_handoff (db0\<lparr>hd_assignments := dset aid ?a (hd_assignments db0)\<rparr>) ?h"
  have id: "hf_handoff_id ?h = ho_handoff_id f" using handoff_invD(1) [OF inv] h by (simp add: handoff_ids_ok_def)
  note new = new_event_succeeds [OF handoff_invD(7) [OF inv] h id]
  let ?T = "\<lambda>T. set (hd_events db) \<union> {e. hv_event_type e \<in> T}"
  obtain p1 p2 p3 where def: "assign_offer db0 h f i d aid at =
      bind_result (handoff_event ?db ?h ''dispatch.assignment_created'' at p1) (\<lambda>db1.
      bind_result (handoff_event db1 ?h ''dispatch.driver.acceptance_confirmed'' at p2) (\<lambda>db2.
      handoff_event db2 ?h ''dispatch.rider.driver_accepted'' at p3))"
    using free same unfolding assign_offer_def Let_def by simp
  have e0: "set (hd_events ?db) \<subseteq> ?T {}" by (simp add: same)
  obtain db1 where e1: "handoff_event ?db ?h ''dispatch.assignment_created'' at p1 = Inr db1"
    "set (hd_events db1) \<subseteq> ?T {''dispatch.assignment_created''}"
    using new [OF _ e0, of "''dispatch.assignment_created''" at p1] by auto
  obtain db2 where e2: "handoff_event db1 ?h ''dispatch.driver.acceptance_confirmed'' at p2 = Inr db2"
    "set (hd_events db2) \<subseteq> ?T {''dispatch.driver.acceptance_confirmed'', ''dispatch.assignment_created''}"
    using new [OF _ e1(2), of "''dispatch.driver.acceptance_confirmed''" at p2] by auto
  obtain db' where e3: "handoff_event db2 ?h ''dispatch.rider.driver_accepted'' at p3 = Inr db'"
    using new [OF _ e2(2), of "''dispatch.rider.driver_accepted''" at p3] by auto
  have "hd_handoffs db' = hd_handoffs ?db"
    using handoff_event_ok(1) [OF e1(1)] handoff_event_ok(1) [OF e2(1)] handoff_event_ok(1) [OF e3] by (simp add: handoff_tables_def)
  then show ?thesis using def e1(1) e2(1) e3 id same(3) by simp
qed

lemma blocked_iff:
  assumes inv: "handoff_inv db" and f: "open_offer db k f" and h: "hf_handoff_id h = k" and "dget (hd_handoffs db) k = Some h"
    and new: "dget (hd_assignments db) aid = None"
  shows "list_ex (assignment_blocked aid \<lparr>as_handoff_id = hf_handoff_id h, as_offer_id = ho_offer_id f, as_driver_id = d,
      as_vehicle_id = v, as_assigned_at = at, as_released_at = None, as_correlation_id = c\<rparr>) (hd_assignments db) \<longleftrightarrow>
    (\<exists>j a. dget (hd_assignments db) j = Some a \<and> as_driver_id a = d)"
proof -
  let ?a = "\<lparr>as_handoff_id = hf_handoff_id h, as_offer_id = ho_offer_id f, as_driver_id = d,
      as_vehicle_id = v, as_assigned_at = at, as_released_at = None, as_correlation_id = c\<rparr>"
  note A = handoff_invD(6) [OF inv] and H = handoff_invD(4) [OF inv]
  have st: "hf_state h = HD_OFFERING" using handoffs_okD(2) [OF H assms(4)] f by blast
  have get: "dget (hd_assignments db) j = Some a \<longleftrightarrow> (j, a) \<in> set (hd_assignments db)" for j a
    using handoff_invD(3) [OF inv] by (simp add: dict_ok_def)
  have other: "j \<noteq> aid \<and> as_handoff_id a \<noteq> k \<and> as_offer_id a \<noteq> ho_offer_id f \<and> as_released_at a = None"
    if "dget (hd_assignments db) j = Some a" for j a
  proof -
    have "as_handoff_id a \<noteq> k" using handoffs_okD(4) [OF H assms(4)] st that by auto
    moreover have "as_offer_id a \<noteq> ho_offer_id f"
      using assignments_okD(2) [OF A that] offer_alone(2,4) [OF inv f] unfolding assignment_backed_def by auto
    ultimately show ?thesis using new that assignments_okD(1) [OF A that] by auto
  qed
  show ?thesis
  proof
    assume "list_ex (assignment_blocked aid ?a) (hd_assignments db)"
    then obtain j a where a: "(j, a) \<in> set (hd_assignments db)" and "assignment_blocked aid ?a (j, a)" by (auto simp: list_ex_iff)
    then have "as_driver_id a = d" using other [of j a] h by (auto simp: assignment_blocked_def get)
    then show "\<exists>j a. dget (hd_assignments db) j = Some a \<and> as_driver_id a = d" using a get by blast
  next
    assume "\<exists>j a. dget (hd_assignments db) j = Some a \<and> as_driver_id a = d"
    then obtain j a where a: "dget (hd_assignments db) j = Some a" "as_driver_id a = d" by blast
    then have "assignment_blocked aid ?a (j, a)" using other [OF a(1)] by (simp add: assignment_blocked_def)
    then show "list_ex (assignment_blocked aid ?a) (hd_assignments db)" using a(1) get by (auto simp: list_ex_iff)
  qed
qed

lemma offering_iff:
  assumes "handoff_inv db" and "dget (hd_handoffs db) k = Some h"
  shows "hf_state h = HD_OFFERING \<longleftrightarrow> (\<exists>!f. open_offer db k f)"
proof -
  have "(\<exists>f. open_offer db k f) \<longleftrightarrow> (\<exists>!f. open_offer db k f)" using offer_alone(1) [OF assms(1)] by blast
  then show ?thesis using handoffs_okD(2) [OF handoff_invD(4) [OF assms(1)] assms(2)] by simp
qed

text \<open>An assignment of a handoff that came from an accepted offer of its driver, in time.\<close>

definition taken :: "handoff_db \<Rightarrow> uuid \<Rightarrow> dispatch_handoff \<Rightarrow> assignment_row \<Rightarrow> handoff_offer \<Rightarrow> bool" where
  "taken db k h a f \<longleftrightarrow> (\<exists>i. dget (hd_assignments db) i = Some a) \<and> as_handoff_id a = k \<and>
     dget (hd_offers db) (as_offer_id a) = Some f \<and> ho_state f = HO_ACCEPTED \<and> ho_handoff_id f = k \<and>
     as_driver_id a = ho_driver_id f \<and> hf_assigned_driver_id h = Some (ho_driver_id f) \<and> as_assigned_at a < ho_expires_at f"

lemma assigned_iff:
  assumes inv: "handoff_inv db" and h: "dget (hd_handoffs db) k = Some h"
  shows "hf_state h = HD_ASSIGNED \<longleftrightarrow> (\<exists>a f. taken db k h a f)"
proof -
  have "\<exists>f. taken db k h a f" if a: "dget (hd_assignments db) i = Some a" "as_handoff_id a = k" for i a
  proof -
    obtain f g where f: "dget (hd_offers db) (as_offer_id a) = Some f" "ho_state f = HO_ACCEPTED" "ho_handoff_id f = as_handoff_id a"
      "ho_driver_id f = as_driver_id a" "as_assigned_at a < ho_expires_at f"
      and g: "dget (hd_handoffs db) (as_handoff_id a) = Some g" "hf_assigned_driver_id g = Some (as_driver_id a)"
      using assignments_okD(2) [OF handoff_invD(6) [OF inv] a(1)] unfolding assignment_backed_def by blast
    then show ?thesis using a h by (intro exI [of _ f]) (auto simp: taken_def)
  qed
  then show ?thesis using handoffs_okD(4) [OF handoff_invD(4) [OF inv] h] unfolding taken_def by blast
qed

section \<open>The properties\<close>

text \<open>
  C35: In every reachable database a handoff is offering exactly when one open offer names it, and assigned exactly
  when an assignment with an accepted, unexpired offer to its driver does; no driver has two open offers or, ever, two
  assignments, and no worker is online twice.
\<close>

theorem handoff_tables_agree:
  assumes "handoff_reachable env db" and "response_digest_separates env"
  shows "(\<forall>k h. dget (hd_handoffs db) k = Some h \<longrightarrow>
       (hf_state h = HD_OFFERING \<longleftrightarrow> (\<exists>!f. open_offer db k f)) \<and>
       (hf_state h = HD_ASSIGNED \<longleftrightarrow> (\<exists>a f. taken db k h a f))) \<and>
     (\<forall>k f l g. open_offer db k f \<longrightarrow> open_offer db l g \<longrightarrow> ho_driver_id f = ho_driver_id g \<longrightarrow> f = g) \<and>
     (\<forall>i a j b. dget (hd_assignments db) i = Some a \<longrightarrow> dget (hd_assignments db) j = Some b \<longrightarrow>
       as_handoff_id a = as_handoff_id b \<or> as_driver_id a = as_driver_id b \<longrightarrow> i = j) \<and>
     (\<forall>i v j w. dget (hd_worker_sessions db) i = Some v \<longrightarrow> dget (hd_worker_sessions db) j = Some w \<longrightarrow>
       wk_state v = WK_ONLINE \<longrightarrow> wk_state w = WK_ONLINE \<longrightarrow> wk_identity_id v = wk_identity_id w \<longrightarrow> i = j)"
proof -
  have "handoff_world env db" by (rule handoff_reachable_world [OF assms])
  then have inv: "handoff_inv db" and workers: "workers_ok db" by (simp_all add: handoff_world_def)
  show ?thesis
    by (intro conjI allI impI offering_iff [OF inv] assigned_iff [OF inv])
      (blast intro: offers_okD(4) [OF handoff_invD(5) [OF inv]] assignments_okD(3) [OF handoff_invD(6) [OF inv]] workers_okD(3) [OF workers])+
qed

theorem handoff_tables_agree_witness:
  "\<exists>h f. dget (hd_handoffs found_db) 100 = Some h \<and> hf_state h = HD_OFFERING \<and> open_offer found_db 100 f"
proof -
  obtain h where h: "dget (hd_handoffs found_db) 100 = Some h" "hf_state h = HD_OFFERING" using found_db_view(1) by auto
  then show ?thesis using handoff_tables_agree [OF found_db_reachable sample_digest_separates] by blast
qed

text \<open>
  C36: Accepting an open offer in time, under a fresh key and online where that is required, assigns the ride to the
  driver of the offer, unless the driver was ever assigned before: then it is refused.
\<close>

theorem accept_handoff_offer:
  assumes "handoff_reachable env db" and "response_digest_separates env"
    and f: "dget (hd_offers db) i = Some f" "ho_state f = HO_CREATED" "at < ho_expires_at f"
    and h: "dget (hd_handoffs db) (ho_handoff_id f) = Some h"
    and online: "hx_require_worker_session env \<Longrightarrow> ride_driver_online db (ho_driver_id f) (ho_vehicle_id f) (hf_service_zone_id h) at"
    and fresh: "dget (hd_idempotency db) (ho_driver_id f, ''offer_response'', key) = None" "dget (hd_assignments db) aid = None"
  shows "if \<exists>j a. dget (hd_assignments db) j = Some a \<and> as_driver_id a = ho_driver_id f
    then handoff_respond env db i (ho_driver_id f) True (ho_version f) key at aid = Inl (HandoffConflict ''Assignment conflict'')
    else \<exists>db'. handoff_respond env db i (ho_driver_id f) True (ho_version f) key at aid = Inr (db', Some aid) \<and>
      dget (hd_handoffs db') (ho_handoff_id f) = Some (h\<lparr>hf_state := HD_ASSIGNED, hf_assigned_driver_id := Some (ho_driver_id f),
        hf_version := hf_version h + 1\<rparr>)"
proof -
  have inv: "handoff_inv db" using handoff_reachable_world [OF assms(1,2)] by (simp add: handoff_world_def)
  have id: "ho_offer_id f = i" "hf_handoff_id h = ho_handoff_id f"
    using handoff_invD(1) [OF inv] f(1) h by (simp_all add: handoff_ids_ok_def)
  have open_f: "open_offer db (ho_handoff_id f) f" using f id(1) by (simp add: open_offer_def)
  have st: "hf_state h = HD_OFFERING" using handoffs_okD(2) [OF handoff_invD(4) [OF inv] h] open_f by blast
  obtain t where reserve: "reserve_handoff_key db (ho_driver_id f) ''offer_response'' key (hx_response_digest env i True (ho_version f)) i at
      = Inr (db\<lparr>hd_idempotency := t\<rparr>, i)"
    using fresh(1) by (simp add: reserve_handoff_key_def reserve_row_def)
  let ?set = "set_offer i HO_ACCEPTED (ho_version f + 1) at (db\<lparr>hd_idempotency := t\<rparr>)"
  have run: "handoff_respond env db i (ho_driver_id f) True (ho_version f) key at aid =
      bind_result (assign_offer ?set h f i (ho_driver_id f) aid at) (\<lambda>db1. Inr (db1, Some aid))"
    using f h st online reserve
    by (simp add: handoff_respond_def respond_canonical_def respond_offer_def get_handoff_def)
  note blocked = blocked_iff [OF inv open_f id(2) h fresh(2), unfolded id(1)]
  show ?thesis
  proof (cases "\<exists>j a. dget (hd_assignments db) j = Some a \<and> as_driver_id a = ho_driver_id f")
    case True
    then show ?thesis using run blocked by (simp add: assign_offer_def Let_def)
  next
    case False
    then show ?thesis using run assign_offer_ok [OF inv h, of aid i "ho_driver_id f" at ?set] blocked by auto
  qed
qed

theorem accept_handoff_offer_witness:
  "\<exists>db'. handoff_respond sample_handoff_env found_db 200 31 True 1 ''reply-key'' (timedelta_seconds 40) 400 = Inr (db', Some 400)"
proof -
  obtain h f where h: "dget (hd_handoffs found_db) 100 = Some h" "hf_service_zone_id h = 5"
    and f: "dget (hd_offers found_db) 200 = Some f" "ho_handoff_id f = 100" "ho_driver_id f = 31" "ho_vehicle_id f = 41"
      "ho_state f = HO_CREATED" "ho_version f = 1" "ho_expires_at f = timedelta_seconds 45"
    using found_db_view(1,2) by auto
  have "dget (hd_idempotency found_db) (31, ''offer_response'', ''reply-key'') = None"
    using found_db_view(4) by (auto simp: map_of_eq_None_iff)
  then show ?thesis
    using accept_handoff_offer [OF found_db_reachable sample_digest_separates f(1,5), of "timedelta_seconds 40" h "''reply-key''" 400]
      f h found_db_view(3,5) by (auto simp: timedelta_seconds_def)
qed

text \<open>
  C37: A search that found no driver is final: whatever happens later, the handoff is never offered to a driver or
  assigned, and every later search for it raises an error.
\<close>

theorem failed_search_is_final:
  assumes "handoff_reachable env db" and sep: "response_digest_separates env"
    and search: "offer_next env db k observations at i = Inr (db1, None)"
    and h: "dget (hd_handoffs db) k = Some h" "hf_state h = HD_SEARCHING"
    and later: "(handoff_step env)\<^sup>*\<^sup>* db1 db2"
  shows "\<exists>h2. dget (hd_handoffs db2) k = Some h2 \<and> hf_state h2 \<noteq> HD_OFFERING \<and> hf_state h2 \<noteq> HD_ASSIGNED \<and>
    (\<forall>ports at2 j. \<exists>e. snd (dispatch_progress env ports db2 k at2 j) = Inl e)"
proof -
  have world: "handoff_world env db" by (rule handoff_reachable_world [OF assms(1) sep])
  have "given_up db1 k"
    using offer_next_effect(2) [OF search handoff_world_ids [OF world]] h by (auto simp: given_up_def)
  moreover have "handoff_world env db1" using handoff_step_world [OF handoff_step.offering [OF search] world sep] by blast
  then have steps: "handoff_effect\<^sup>*\<^sup>* db1 db2" and world2: "handoff_world env db2" using handoff_steps_world [OF later _ sep] by blast+
  ultimately have lost: "given_up db2 k" using effects_keep(1) [OF steps] by blast
  then obtain h2 where h2: "dget (hd_handoffs db2) k = Some h2"
    "hf_state h2 = HD_SEARCHING \<and> searched db2 k (hf_version h2) \<or> hf_state h2 \<in> {HD_CANCELLED, HD_NO_DRIVER}"
    unfolding given_up_def by (auto split: option.splits)
  have "\<exists>e. snd (dispatch_progress env ports db2 k at2 j) = Inl e" for ports at2 j
  proof (cases "hf_state h2 = HD_SEARCHING")
    case True
    then have "searched db2 k (hf_version h2)" using h2(2) by auto
    then have "\<exists>e. offer_next env db2 k obs at2 j = Inl e" for obs
      using offer_next_effect(2) [OF _ handoff_world_ids [OF world2], of env k obs at2 j] h2(1)
      by (cases "offer_next env db2 k obs at2 j") fastforce+
    then have "\<exists>e. snd (in_unit db2 (offer_next env db2 k obs at2 j)) = Inl e" for obs by (metis in_unit_def snd_conv sum.case(1))
    then show ?thesis using h2(1) True by (simp add: dispatch_progress_def get_handoff_def split: sum.split)
  qed (simp add: dispatch_progress_def get_handoff_def h2(1))
  then show ?thesis using h2 by auto
qed

theorem failed_search_is_final_witness:
  "\<exists>h2. dget (hd_handoffs lost_db) 110 = Some h2 \<and> hf_state h2 \<noteq> HD_OFFERING \<and> hf_state h2 \<noteq> HD_ASSIGNED \<and>
    (\<forall>ports at2 j. \<exists>e. snd (dispatch_progress sample_handoff_env ports lost_db 110 at2 j) = Inl e)"
proof -
  obtain h where "dget (hd_handoffs night_db) 110 = Some h" "hf_state h = HD_SEARCHING" using night_db_view by auto
  then show ?thesis
    by (rule failed_search_is_final [OF night_db_reachable sample_digest_separates lost_db_run _ _ rtranclp.rtrancl_refl])
qed

lemma no_offer_validates: "offer_of_row f = Inl (ValidationError ''HandoffOffer'')"
  by (simp add: offer_of_row_def OFFER_FIELDS_def OFFER_COLUMNS_def)

text \<open>
  C38: As soon as one open offer has expired, a run of the recovery does nothing: it reads the expired offers through the
  model, which no row of the table satisfies, and the exception ends it before any offer, search or handoff is touched.
\<close>

theorem recovery_stops_at_expired_offer:
  assumes "1 \<le> limit" and "limit \<le> 1000"
    and f: "dget (hd_offers db) i = Some f" "ho_state f = HO_CREATED" "ho_expires_at f \<le> at"
  shows "dispatch_recover env ports db at limit draw_next draw_resumed = (db, Inl (ValidationError ''HandoffOffer''))"
proof -
  let ?rows = "sort_key ho_expires_at (filter (\<lambda>f. ho_state f = HO_CREATED \<and> ho_expires_at f \<le> at) (dvalues (hd_offers db)))"
  have "f \<in> set ?rows" using f dget_in_dvalues [OF f(1)] by simp
  then obtain g gs where "take limit ?rows = g # gs" using assms(1) by (cases ?rows; cases limit) auto
  then have "list_expired_offers db at limit = Inl (ValidationError ''HandoffOffer'')"
    by (simp add: list_expired_offers_def no_offer_validates)
  then show ?thesis using assms(1,2) by (simp add: dispatch_recover_def expire_and_redispatch_def and_then_def)
qed

theorem recovery_stops_at_expired_offer_witness:
  "dispatch_recover sample_handoff_env sample_ports found_db (timedelta_seconds 60) 10 (\<lambda>i. i + 1) (\<lambda>k. k + 2) =
     (found_db, Inl (ValidationError ''HandoffOffer''))"
proof -
  obtain f where f: "dget (hd_offers found_db) 200 = Some f" "ho_state f = HO_CREATED" "ho_expires_at f = timedelta_seconds 45"
    using found_db_view(2) by auto
  show ?thesis by (rule recovery_stops_at_expired_offer [OF _ _ f(1,2)]) (simp_all add: f(3) timedelta_seconds_def)
qed

text \<open>For the same reason a rejection is stored but answered by an exception, and the search is not resumed.\<close>

lemma rejection_answered_by_error:
  assumes "handoff_respond env db i d False v key at aid = Inr (db1, a)" and "dget (hd_offers db1) i = Some f"
  shows "dispatch_respond env ports db (d, ID_DRIVER) i False v key at aid j = (db1, Inl (ValidationError ''HandoffOffer''))"
  using assms by (simp add: dispatch_respond_def in_unit_def and_then_def get_handoff_offer_def offer_of_optional_row_def no_offer_validates)

text \<open>
  A run of the recovery that resumes such a search first, with readable evidence and current pricing, does nothing either:
  the search is refused by the unique events, the exception ends the run, and expired handoffs are not closed.
\<close>

lemma recovery_stops_at_failed_search:
  assumes "handoff_reachable env db" and "response_digest_separates env" and "1 \<le> limit" and "limit \<le> 1000"
    and first: "list_expired_offers db at limit = Inr []" "list_searching_handoff_ids db at limit = k # ks"
    and h: "dget (hd_handoffs db) k = Some h" and failed: "searched db k (hf_version h)"
    and evidence: "dp_shortlist ports (hf_service_zone_id h) (hf_service_type h) at (hx_maximum_candidates env) = Inr es"
      "dp_pickup_routes ports (hf_pickup_reference h) (take (hx_maximum_candidates env) es) at = Inr rs"
      "observations_of (take (hx_maximum_candidates env) es) rs = Inr obs"
    and current: "handoff_pricing_lineage_current env db h at = Inr True"
      "authoritative_drivers env db (hf_service_zone_id h) at obs = Inr auth"
  shows "dispatch_recover env ports db at limit f g = (db, Inl (IntegrityError ''immediate_dispatch_events''))"
proof -
  have ids: "handoff_ids_ok db" using handoff_reachable_world [OF assms(1,2)] by (rule handoff_world_ids)
  have "k \<in> set (list_searching_handoff_ids db at limit)" by (simp add: first(2))
  then obtain x where x: "hf_handoff_id x = k" "x \<in> set (dvalues (hd_handoffs db))" "hf_state x = HD_SEARCHING" "at < hf_expires_at x"
    unfolding list_searching_handoff_ids_def by (auto dest!: in_set_takeD)
  then have live: "hf_state h = HD_SEARCHING" "at < hf_expires_at h" using stored_handoff [OF ids] h by auto
  have id: "hf_handoff_id h = k" using ids h by (simp add: handoff_ids_ok_def)
  have "record_candidates db h ranked at = Inl (IntegrityError ''immediate_dispatch_events'')" for ranked
  proof -
    obtain e where "e \<in> set (hd_events db)" "hv_handoff_id e = k" "hv_aggregate_version e = hf_version h"
      "hv_event_type e = ''dispatch.candidate_set_created''" using failed unfolding searched_def by blast
    then show ?thesis
      by (auto simp: record_candidates_def handoff_event_def Let_def list_ex_iff same_event_def handoff_event_row_def id
          intro!: bexI [of _ e])
  qed
  then have "offer_next env db k obs at i = Inl (IntegrityError ''immediate_dispatch_events'')" for i
    using h live(2) current by (simp add: offer_next_def get_handoff_def)
  then have "dispatch_progress env ports db k at i = (db, Inl (IntegrityError ''immediate_dispatch_events''))" for i
    using h live(1) evidence by (simp add: dispatch_progress_def get_handoff_def in_unit_def Let_def)
  then show ?thesis
    using first assms(3,4) by (simp add: dispatch_recover_def expire_and_redispatch_def and_then_def is_handoff_conflict_def)
qed

lemma lost_db_recovery:
  "dispatch_recover sample_handoff_env sample_ports lost_db (timedelta_seconds 60) 10 (\<lambda>i. i + 1) (\<lambda>k. k + 2) =
     (lost_db, Inl (IntegrityError ''immediate_dispatch_events''))"
proof -
  obtain h where h: "dget (hd_handoffs lost_db) 110 = Some h" "hf_version h = 1" "hf_service_zone_id h = 5"
    and current: "handoff_pricing_lineage_current sample_handoff_env lost_db h (timedelta_seconds 60) = Inr True"
    using lost_db_view(1,4) by auto
  have reach: "handoff_reachable sample_handoff_env lost_db"
    using night_db_reachable handoff_step.offering [OF lost_db_run] unfolding handoff_reachable_def
    by (meson rtranclp.rtrancl_into_rtrancl)
  have "handoff_ids_ok night_db"
    using handoff_reachable_world [OF night_db_reachable sample_digest_separates] by (rule handoff_world_ids)
  then have "searched lost_db 110 (hf_version h)" using offer_next_effect(2) [OF lost_db_run] h(1) by auto
  moreover have "observations_of (take (hx_maximum_candidates sample_handoff_env) [sample_evidence 50]) [sample_route 50] =
      Inr [observation_of (sample_evidence 50) (sample_route 50)]"
    using sample_observation_valid by (simp only: sample_handoff_env_def handoff_env.simps) (simp only: take_all list.size)
  ultimately show ?thesis
    by (intro recovery_stops_at_failed_search [OF reach sample_digest_separates _ _ lost_db_view(3,2) h(1), where
        es = "[sample_evidence 50]" and rs = "[sample_route 50]" and obs = "[observation_of (sample_evidence 50) (sample_route 50)]"
        and auth = "[]"]) (simp_all only: sample_ports_def dispatch_ports.simps h(3) current lost_db_view(5) one_le_numeral numeral_le_iff semiring_norm)
qed

text \<open>
  C39: Closing expired handoffs never fails in a reachable database, and when all of them fit into the limit no handoff
  past its expiry is left searching or offering.
\<close>

theorem expired_handoffs_close:
  assumes "handoff_reachable env db" and "response_digest_separates env"
  shows "\<exists>db' n. close_expired_handoffs db at limit = Inr (db', n) \<and>
    (length (filter (\<lambda>h. hf_state h \<in> {HD_SEARCHING, HD_OFFERING} \<and> hf_expires_at h \<le> at) (dvalues (hd_handoffs db))) \<le> limit \<longrightarrow>
      (\<forall>k h. dget (hd_handoffs db') k = Some h \<longrightarrow> hf_state h = HD_SEARCHING \<or> hf_state h = HD_OFFERING \<longrightarrow> at < hf_expires_at h))"
proof -
  have inv: "handoff_inv db" using handoff_reachable_world [OF assms] by (simp add: handoff_world_def)
  note ids = handoff_invD(1) [OF inv]
  let ?P = "\<lambda>h. hf_state h \<in> {HD_SEARCHING, HD_OFFERING} \<and> hf_expires_at h \<le> at"
  let ?rows = "expired_handoffs db at limit"
  have rows: "dget (hd_handoffs db) (hf_handoff_id h) = Some h \<and> (hf_state h = HD_SEARCHING \<or> hf_state h = HD_OFFERING)"
    if "h \<in> set ?rows" for h
    using expired_handoffs_rows(2) [OF ids that] by blast
  obtain db' where close: "close_handoffs at ?rows db = Inr db'"
    and same: "\<And>k. k \<notin> set (map hf_handoff_id ?rows) \<Longrightarrow> dget (hd_handoffs db') k = dget (hd_handoffs db) k"
    and ended: "\<And>h. h \<in> set ?rows \<Longrightarrow>
      dget (hd_handoffs db') (hf_handoff_id h) = Some (h\<lparr>hf_state := HD_NO_DRIVER, hf_version := hf_version h + 1\<rparr>)"
    using close_handoffs_succeeds [OF inv expired_handoffs_rows(1) [OF ids] rows] by blast
  have "at < hf_expires_at h" if all: "length (filter ?P (dvalues (hd_handoffs db))) \<le> limit"
    and h: "dget (hd_handoffs db') k = Some h" "hf_state h = HD_SEARCHING \<or> hf_state h = HD_OFFERING" for k h
  proof (rule ccontr)
    assume "\<not> at < hf_expires_at h"
    have "set ?rows = set (filter ?P (dvalues (hd_handoffs db)))"
      using all by (simp only: expired_handoffs_def take_all length_sort set_sort)
    moreover have out: "k \<notin> set (map hf_handoff_id ?rows)" using ended h by auto
    then have stored: "dget (hd_handoffs db) k = Some h" using same h(1) by simp
    then have "h \<in> set (filter ?P (dvalues (hd_handoffs db)))"
      using h(2) \<open>\<not> at < hf_expires_at h\<close> dget_in_dvalues [OF stored] by auto
    moreover have "hf_handoff_id h = k" using ids stored by (simp add: handoff_ids_ok_def)
    ultimately show False using out by auto
  qed
  then show ?thesis using close by (auto simp: close_expired_handoffs_def Let_def)
qed

theorem expired_handoffs_close_witness:
  "\<exists>db' n. close_expired_handoffs found_db (timedelta_seconds 5000) 10 = Inr (db', n) \<and>
     (length (filter (\<lambda>h. hf_state h \<in> {HD_SEARCHING, HD_OFFERING} \<and> hf_expires_at h \<le> timedelta_seconds 5000)
        (dvalues (hd_handoffs found_db))) > 10 \<or>
      (\<forall>k h. \<not> (dget (hd_handoffs db') k = Some h \<and> (hf_state h = HD_SEARCHING \<or> hf_state h = HD_OFFERING) \<and>
        hf_expires_at h \<le> timedelta_seconds 5000)))"
  using expired_handoffs_close [OF found_db_reachable sample_digest_separates, of "timedelta_seconds 5000" 10]
  by (force simp: not_less)

text \<open>
  C40: The driver who is asked first is suitable, and no suitable driver reaches the pickup more than 55 seconds earlier:
  reliability, history, workload and fairness move the order by no more than that.
\<close>

theorem first_driver_near_fastest:
  assumes ranked: "rank_drivers candidates now max_age = d # ds"
    and valid: "\<forall>c \<in> set candidates. valid_eligible_driver c = Inr c"
    and e: "e \<in> set candidates" "driver_suitable now max_age e"
  shows "d \<in> set candidates \<and> driver_suitable now max_age d \<and> ed_pickup_cost_seconds d \<le> ed_pickup_cost_seconds e + 55"
proof -
  have d: "d \<in> set candidates" "driver_suitable now max_age d"
    using arg_cong [OF ranked, of set] by (auto simp: rank_drivers_def)
  have "driver_key d \<le> driver_key e"
    using sort_key_head [OF ranked [unfolded rank_drivers_def], of e] e by simp
  then have "effective_cost d \<le> effective_cost e" by (auto simp: driver_key_def less_eq_prod_def)
  then show ?thesis
    using d effective_cost_bounds(1) [of d] effective_cost_bounds(2) [of e] valid e(1) by fastforce
qed

definition quick_driver :: eligible_driver where
  "quick_driver = observation_of (sample_evidence 50) (sample_route 50)"

definition fair_driver :: eligible_driver where
  "fair_driver = quick_driver\<lparr>ed_driver_id := 32, ed_pickup_cost_seconds := 310, ed_opportunity_deficit_bps := 10000\<rparr>"

lemma sample_ranking:
  "map ed_driver_id (rank_drivers [quick_driver, fair_driver] (timedelta_seconds 60) 45) = [32, 31] \<and>
     valid_eligible_driver quick_driver = Inr quick_driver \<and> valid_eligible_driver fair_driver = Inr fair_driver \<and>
     driver_suitable (timedelta_seconds 60) 45 quick_driver"
  by code_simp

theorem first_driver_near_fastest_witness:
  "\<exists>d ds. rank_drivers [quick_driver, fair_driver] (timedelta_seconds 60) 45 = d # ds \<and> ed_driver_id d = 32 \<and>
     ed_pickup_cost_seconds d \<le> ed_pickup_cost_seconds quick_driver + 55"
proof -
  obtain d ds where d: "rank_drivers [quick_driver, fair_driver] (timedelta_seconds 60) 45 = d # ds" "ed_driver_id d = 32"
    using sample_ranking by (auto simp: map_eq_Cons_conv)
  then show ?thesis
    using first_driver_near_fastest [OF d(1), of quick_driver] sample_ranking by auto
qed

end
