(* ===== verification/Spec2Isabelle.thy ===== *)
theory Spec2Isabelle
  imports Pricing Financial_Lifecycles Wallet Ledger Dispatch_Reach Refund_Props Cash_Props Active_Ride_Props Settlement_Props Arrival_Waiting_Props Waiting_Policy Financial_Posting_Props Scheduled_Props Handoff_Props
begin

text \<open>
  A verification development of the AYO ride-hailing backend (\<open>src/BACKEND\<close>, Python).

  \<^bold>\<open>The program.\<close> A rider books a ride, a driver is found, the ride is driven, and the fare is paid, refunded,
  settled and booked. Each package of \<open>src/BACKEND\<close> has the same layers: \<open>models.py\<close> (validated records),
  \<open>engine.py\<close> (pure rules: transition tables, balance rules, scoring), \<open>application.py\<close> or \<open>service.py\<close> (operations: check
  the permission, reserve the idempotency key, read linked components, apply a rule, write) and a
  repository in \<open>persistence/\<close> over the tables of \<open>persistence/tables.py\<close>. The theories follow these layers. The
  parts modelled here and how they depend on each other:
  \<^item> dispatch finds a driver; the active ride takes the ride from the assignment to completion; arrival and waiting
    judge the driver's arrival, the free wait and the no-show on active rides;
  \<^item> the fare engine prices the completed ride; the ledger records balanced journals; cash accounting
    books a cash ride and later its clearing in the ledger;
  \<^item> a payment collects a fare whose journal exists; refunds read captured payments; settlement batches
    read payments and refunds and are blocked by financial holds; financial posting reads payments, refunds and
    settlements and writes one journal and one wallet event for each;
  \<^item> the wallet replays its lineage of events to the balances of an owner;
  \<^item> a ride request that is ready and priced is handed off to drivers who are online, offered to one at a time;
  \<^item> a scheduled ride is booked ahead, confirmed by its passenger, committed to a driver and activated at the pickup.

  \<^bold>\<open>Theories and code.\<close>
  \<^item> \<open>Prelude\<close>: identifiers, instants, exceptions as values, dictionaries, string patterns. \<open>Lifecycle\<close>: the contract of
    transition tables. \<open>Idempotency\<close>: the table every repository uses to answer a repeated request.
  \<^item> \<open>Pricing\<close>: \<open>pricing/models.py\<close>, \<open>pricing/engine.py\<close>. Fares split exactly, grow with the trip, and a stored lineage
    reconstructs to its fare.
  \<^item> \<open>Financial_Lifecycles\<close>: the transition tables and guards of payment attempts and intents, refund requests,
    settlement batches and holds (\<open>*/engine.py\<close>), with their interpretations of the lifecycle contract.
  \<^item> \<open>Wallet\<close>: \<open>wallet/*.py\<close>, \<open>persistence/wallet_repository.py\<close>. Balances are what the lineage replays to; an event
    is applied once. \<open>Ledger\<close>: \<open>ledger/*.py\<close>, \<open>persistence/ledger_repository.py\<close>. The trial balance is zero; a posted
    journal reads back as posted.
  \<^item> \<open>Decimal_Arith\<close> (Python's \<open>Decimal\<close> context), \<open>Dispatch_Scoring\<close> (\<open>dispatch/models.py\<close>, \<open>scoring.py\<close>), \<open>Dispatch\<close>
    (\<open>dispatch/memory.py\<close>, \<open>service.py\<close>), \<open>Dispatch_Inv\<close>, \<open>Dispatch_Props\<close>, \<open>Dispatch_Reach\<close>: one invariant ties
    rides, offers and drivers; no double booking, no repeated offer, expired offers are all recovered.
  \<^item> \<open>Payment\<close>, \<open>Payment_Inv\<close>, \<open>Payment_Reach\<close>, \<open>Payment_Props\<close>: \<open>payment/*.py\<close>, \<open>persistence/payment_repository.py\<close>.
    Attempts agree with their intent, only advance, and cash is never captured by a provider.
  \<^item> \<open>Refund\<close>, \<open>Refund_Props\<close>: \<open>refund/*.py\<close>, \<open>persistence/refund_repository.py\<close>, composed with payments.
  \<^item> \<open>Cash_Accounting\<close>, \<open>Cash_Inv\<close>, \<open>Cash_Props\<close>: \<open>post_trip/cash_accounting.py\<close> on the ledger. The receivable account
    holds exactly the open claims.
  \<^item> \<open>Active_Ride\<close>, \<open>Active_Ride_Service\<close>, \<open>Active_Ride_Log\<close>, \<open>Active_Ride_Props\<close>: \<open>active_ride/models.py\<close>, \<open>engine.py\<close>,
    \<open>pickup.py\<close>, \<open>lifecycle.py\<close>, \<open>application.py\<close>, \<open>persistence/active_ride_repository.py\<close>. The abstract specification is a
    machine that keeps the history of states of each ride; every operation refines a step of it, and the event
    log, the stored row and the replay agree with it. Pickup codes are guarded.
  \<^item> \<open>Financial_Hold\<close>, \<open>Financial_Hold_Inv\<close>: \<open>financial_control/*.py\<close>. \<open>Settlement\<close>, \<open>Settlement_Service\<close>, \<open>Settlement_Inv\<close>,
    \<open>Settlement_World\<close>, \<open>Settlement_Props\<close>: \<open>settlement/*.py\<close>. \<open>Settlement_World\<close> composes payments, refunds, holds and
    settlements in one step relation. A batch becomes ready only by a step before which finance has approved it and
    no hold on it is open.
  \<^item> \<open>Arrival_Waiting\<close>, \<open>Waiting_Policy\<close>, \<open>Arrival_Waiting_Service\<close>, \<open>Arrival_Waiting_Inv\<close>, \<open>Arrival_Waiting_Reach\<close>,
    \<open>Arrival_Waiting_Props\<close>: \<open>arrival_waiting/*.py\<close>, \<open>persistence/arrival_waiting_repository.py\<close>: arrival evidence, waiting
    sessions, no-show evidence and the recovery worker.
  \<^item> \<open>Financial_Posting\<close>, \<open>Financial_Posting_Inv\<close>, \<open>Financial_Posting_World\<close>, \<open>Financial_Posting_Props\<close>:
    \<open>financial_posting/*.py\<close>, \<open>persistence/financial_posting_repository.py\<close>, composed with \<open>Settlement_World\<close>, the ledger
    and the wallet.
  \<^item> \<open>Scheduled\<close> (\<open>scheduled/models.py\<close>, \<open>engine.py\<close>, \<open>recovery.py\<close>), \<open>Scheduled_Service\<close> (\<open>scheduled/application.py\<close>,
    \<open>integration.py\<close>, \<open>workers.py\<close>, \<open>persistence/scheduled_repository.py\<close>), \<open>Scheduled_Inv\<close>, \<open>Scheduled_Rows\<close>,
    \<open>Scheduled_Memory\<close> (\<open>scheduled/memory.py\<close>), \<open>Scheduled_Props\<close>: committed windows of a driver are disjoint, consent
    and pickup codes guard acceptance and activation, stored rows are valid models, and both repositories agree. The
    table of \<open>engine.py\<close> leads on from activation to fulfilled; no operation takes that step, and the property of the
    milestones says so apart from what it guarantees.
  \<^item> \<open>Handoff\<close> (\<open>dispatch/handoff.py\<close>, \<open>worker_models.py\<close>), \<open>Handoff_Service\<close> (\<open>persistence/handoff_dispatch_repository.py\<close>,
    \<open>worker_session_repository.py\<close>, \<open>dispatch/handoff_service.py\<close>, \<open>worker_session.py\<close>), \<open>Handoff_Runtime\<close>
    (\<open>dispatch/runtime.py\<close>), \<open>Handoff_Inv\<close>, \<open>Handoff_Reach\<close>, \<open>Handoff_Steps\<close>, \<open>Handoff_Sample\<close>, \<open>Handoff_Props\<close>: handoffs,
    offers, assignments and online workers agree in every reachable database; acceptance, the end of a search, and
    what the recovery does and does not do. The runtime runs several transactions, so it returns the database with
    its answer or exception.

  \<^bold>\<open>How the code is read.\<close>
  \<^item> A table is a field of the component's database record: a dictionary by primary key in the order of insertion
    (\<open>('k, 'v) dict\<close> of \<open>Prelude\<close>), or a list of rows. A query filters and sorts it as the SQL does; the unique, foreign
    and check constraints that an operation can meet are explicit branches (\<open>IntegrityError\<close>).
  \<^item> An operation maps a database and its arguments to \<open>Inr (database, answer)\<close> or to \<open>Inl exception\<close>. An exception inside
    \<open>with unit_of_work()\<close> rolls back, so an error has no database; where the code commits and then
    raises, the model returns the database with the error. Checks stand in the order of the code.
  \<^item> A \<open>UUID\<close> is a natural number (\<open>str\<close> is order preserving), an instant is microseconds since the epoch, a
    \<open>datetime\<close> argument is \<open>Naive\<close> or \<open>Aware\<close>, amounts are unbounded integers with the models' bounds
    as validators. Pydantic validators are \<open>valid_...\<close> functions applied where the code constructs the record.
  \<^item> Code outside \<open>src/\<close> is a parameter: SHA-256 and HMAC digests, \<open>uuid5\<close>, permissions, provider adapters. Identifiers
    and codes drawn at random (\<open>uuid4\<close>, \<open>secrets\<close>) are arguments of the operation that draws them. No property
    assumes that digests do not collide or that drawn identifiers are fresh unless it says so.
  \<^item> The bodies of outbox messages and events are modelled; their message identifiers and the replay copies of stored
    records are not kept, as nothing reads them back.
  \<^item> Loops run over lists, so every function is structurally recursive or a library function: no fuel is needed and
    every operation terminates.

  \<^bold>\<open>Locales.\<close> \<open>lifecycle\<close> (a table and its terminal states), \<open>exact_lifecycle\<close>, \<open>ranked_lifecycle\<close> and
  \<open>guarded_lifecycle\<close> (a table with the guard that enforces it) extend each other; the engines of payments,
  refunds, settlements, holds and active rides interpret them. \<open>idempotency\<close> is the contract of the
  insert-or-compare table and is interpreted on the shared repository code. \<open>reservation_repository\<close>
  is what a planner of scheduled rides relies on; the database and the in-memory repository both interpret it.

  \<^bold>\<open>What the lemmas show.\<close> For each component: what a successful repository operation changes (\<open>..._ok\<close>), the effect of each
  service operation as one case of an inductive relation (\<open>..._effect\<close>) or a view, the invariant and its preservation,
  and the reachable databases as the closure of the steps. The properties are stated over reachable databases; where
  components interact, over every interleaving of their steps. The witnesses run scripts of operations on
  concrete data.

  \<^bold>\<open>Not modelled.\<close> HTTP routes, configuration, observability and dependency wiring; database migrations and repository
  tools; authorization storage (permissions are a parameter); identity, sessions and rate limits; the in-process
  scheduling and advisory locks of workers; the merchant, catalogue, ordering, courier and delivery vertical;
  marketplace, ride requests, booking, the repository and outbox workers of the older dispatch, the orchestration around the fare engine
  and the post-trip workflow outside cash; support, profile and localization texts; the evaluation harness of language
  models; the prototype services under \<open>services/\<close>. Concurrency is modelled as interleaving of whole transactions: rows are locked with \<open>FOR UPDATE\<close> and constraints
  decide races, so two operations on the same rows are serialized by the database.
\<close>

end
